(* ===== verification/HCR_Prelude.thy ===== *)
theory HCR_Prelude
  imports
    Main
    "HOL-Library.Word"
    "HOL-Library.Multiset"
    "HOL-Library.List_Lexorder"
    "HOL-Library.Char_ord"
    "HOL-Library.Product_Lexorder"
begin

text \<open>
  Shared vocabulary of the development: machine integers, the ordered containers of the C++
  standard library (\<^verbatim>\<open>std::map\<close>, \<^verbatim>\<open>std::set\<close>) as strictly sorted association lists and lists,
  \<^verbatim>\<open>std::sort\<close> under a user comparator, and \<^verbatim>\<open>std::to_string\<close> on unsigned integers.

  The interfaces are locales: \<open>ordered_map\<close> states what a client of a keyed store may rely on,
  \<open>strict_weak_order\<close> is the requirement \<^verbatim>\<open>std::sort\<close> puts on its comparator and
  \<open>enum_names\<close> is the contract between the \<^verbatim>\<open>to_string\<close> and \<^verbatim>\<open>..._from_string\<close> pair of an
  enumeration. The first is interpreted here on the association lists every component stores its
  state in; the others are interpreted in the components that own a comparator or an enumeration.
\<close>

named_theorems enum_all "membership of every enumerator in its enumerator list"
named_theorems frame "fields an operation does not write"
named_theorems admission "what an accepted request implies about its guards"

type_synonym u8 = "8 word"
type_synonym u32 = "32 word"
type_synonym u64 = "64 word"
type_synonym i64 = "64 word"
type_synonym ('k, 'v) omap = "('k \<times> 'v) list"
type_synonym 'k oset = "'k list"

section \<open>Ordered maps\<close>

definition om_find :: "'k \<Rightarrow> ('k, 'v) omap \<Rightarrow> 'v option" where
  "om_find k m = map_of m k"

fun om_put :: "'k::linorder \<Rightarrow> 'v \<Rightarrow> ('k, 'v) omap \<Rightarrow> ('k, 'v) omap" where
  "om_put k v [] = [(k, v)]"
| "om_put k v (e # m) =
     (if fst e < k then e # om_put k v m
      else if fst e = k then (k, v) # m
      else (k, v) # e # m)"

definition om_emplace :: "'k::linorder \<Rightarrow> 'v \<Rightarrow> ('k, 'v) omap \<Rightarrow> ('k, 'v) omap" where
  "om_emplace k v m = (case om_find k m of None \<Rightarrow> om_put k v m | Some _ \<Rightarrow> m)"

definition om_keys :: "('k, 'v) omap \<Rightarrow> 'k list" where
  "om_keys m = map fst m"

definition om_values :: "('k, 'v) omap \<Rightarrow> 'v list" where
  "om_values m = map snd m"

definition om_map :: "('v \<Rightarrow> 'v) \<Rightarrow> ('k, 'v) omap \<Rightarrow> ('k, 'v) omap" where
  "om_map f m = map (map_prod (\<lambda>k. k) f) m"

definition om_ok :: "('k::linorder, 'v) omap \<Rightarrow> bool" where
  "om_ok m \<longleftrightarrow> sorted_wrt (<) (om_keys m)"

lemma om_find_Nil [simp]: "om_find k [] = None"
  by (simp add: om_find_def)

lemma om_ok_Nil [simp]: "om_ok []"
  by (simp add: om_ok_def om_keys_def)

lemma om_find_put [simp]: "om_find k' (om_put k v m) = (if k' = k then Some v else om_find k' m)"
  by (induction k v m rule: om_put.induct) (auto simp: om_find_def)

lemma om_keys_put: "set (om_keys (om_put k v m)) = insert k (set (om_keys m))"
  by (induction k v m rule: om_put.induct) (auto simp: om_keys_def)

lemma om_ok_put [simp]: "om_ok m \<Longrightarrow> om_ok (om_put k v m)"
proof (induction k v m rule: om_put.induct)
  case (1 k v)
  show ?case by (simp add: om_ok_def om_keys_def)
next
  case (2 k v e m)
  then show ?case
    using om_keys_put [of k v m] by (auto simp: om_ok_def om_keys_def)
qed

lemma om_find_key: "om_find k m \<noteq> None \<longleftrightarrow> k \<in> set (om_keys m)"
  by (auto simp: om_find_def om_keys_def map_of_eq_None_iff)

lemma om_find_SomeD: "om_find k m = Some v \<Longrightarrow> (k, v) \<in> set m"
  by (simp add: om_find_def map_of_SomeD)

lemma om_ok_distinct: "om_ok m \<Longrightarrow> distinct (om_keys m)"
  by (simp add: om_ok_def strict_sorted_iff)

lemma om_find_iff: "om_ok m \<Longrightarrow> om_find k m = Some v \<longleftrightarrow> (k, v) \<in> set m"
  using om_ok_distinct [of m] by (simp add: om_find_def om_keys_def)

lemma om_length_put:
  "length (om_put k v m) \<le> Suc (length m)"
  by (induction k v m rule: om_put.induct) auto

lemma om_find_map [simp]: "om_find k (om_map f m) = map_option f (om_find k m)"
  by (induction m) (auto simp: om_find_def om_map_def)

lemma om_keys_map [simp]: "om_keys (om_map f m) = om_keys m"
  by (simp add: om_keys_def om_map_def)

lemma om_ok_map [simp]: "om_ok (om_map f m) = om_ok m"
  by (simp add: om_ok_def)

lemma om_length_map [simp]: "length (om_map f m) = length m"
  by (simp add: om_map_def)

lemma om_find_emplace [simp]:
  "om_find k' (om_emplace k v m) =
     (if k' = k \<and> om_find k m = None then Some v else om_find k' m)"
  by (auto simp: om_emplace_def split: option.split)

lemma om_ok_emplace [simp]: "om_ok m \<Longrightarrow> om_ok (om_emplace k v m)"
  by (simp add: om_emplace_def split: option.split)

lemma om_values_find: "om_ok m \<Longrightarrow> v \<in> set (om_values m) \<longleftrightarrow> (\<exists>k. om_find k m = Some v)"
  by (force simp: om_find_iff om_values_def)

locale ordered_map =
  fixes look :: "'k::linorder \<Rightarrow> 'm \<Rightarrow> 'v option"
    and put :: "'k \<Rightarrow> 'v \<Rightarrow> 'm \<Rightarrow> 'm"
    and keys :: "'m \<Rightarrow> 'k list"
    and ok :: "'m \<Rightarrow> bool"
  assumes look_put: "ok m \<Longrightarrow> look k' (put k v m) = (if k' = k then Some v else look k' m)"
    and ok_put: "ok m \<Longrightarrow> ok (put k v m)"
    and keys_look: "ok m \<Longrightarrow> k \<in> set (keys m) \<longleftrightarrow> look k m \<noteq> None"
    and keys_sorted: "ok m \<Longrightarrow> sorted_wrt (<) (keys m)"
begin

lemma put_preserves_all:
  assumes "ok m" and "\<forall>k v. look k m = Some v \<longrightarrow> P k v" and "P k v"
  shows "\<forall>k' v'. look k' (put k v m) = Some v' \<longrightarrow> P k' v'"
  using assms by (auto simp: look_put)

lemma keys_put_old:
  assumes "ok m" and "look k m \<noteq> None"
  shows "keys (put k v m) = keys m"
proof -
  have "set (keys (put k v m)) = set (keys m)"
    using assms by (auto simp: keys_look ok_put look_put split: if_splits)
  then show ?thesis
    using assms keys_sorted ok_put by (metis strict_sorted_equal)
qed

lemma keys_put_new_card:
  assumes "ok m" and "look k m = None"
  shows "length (keys (put k v m)) = Suc (length (keys m))"
proof -
  have eq: "set (keys (put k v m)) = insert k (set (keys m))"
    using assms by (auto simp: keys_look ok_put look_put split: if_splits)
  have fresh: "k \<notin> set (keys m)"
    using assms by (simp add: keys_look)
  have "distinct (keys (put k v m))" "distinct (keys m)"
    using assms keys_sorted ok_put by (auto simp: strict_sorted_iff)
  then show ?thesis
    using eq fresh by (metis List.finite_set card_insert_disjoint distinct_card)
qed

end

interpretation om: ordered_map om_find om_put om_keys om_ok
proof unfold_locales
  fix m :: "('a, 'b) omap" and k :: 'a
  show "k \<in> set (om_keys m) \<longleftrightarrow> om_find k m \<noteq> None"
    using om_find_key [of k m] by simp
qed (simp_all add: om_ok_def [symmetric])

lemma om_length_keys: "length (om_keys m) = length m"
  by (simp add: om_keys_def)

lemma om_length_put_old: "om_ok m \<Longrightarrow> om_find k m \<noteq> None \<Longrightarrow> length (om_put k v m) = length m"
  using om.keys_put_old [of m k v] by (metis om_length_keys)

lemma om_length_put_new: "om_ok m \<Longrightarrow> om_find k m = None \<Longrightarrow> length (om_put k v m) = Suc (length m)"
  using om.keys_put_new_card [of m k v] by (simp add: om_length_keys)

section \<open>Ordered sets\<close>

fun os_insert :: "'k::linorder \<Rightarrow> 'k oset \<Rightarrow> 'k oset" where
  "os_insert k [] = [k]"
| "os_insert k (x # s) =
     (if k = x then x # s else if x < k then x # os_insert k s else k # x # s)"

lemma set_os_insert [simp]: "set (os_insert k s) = insert k (set s)"
  by (induction k s rule: os_insert.induct) auto

lemma os_insert_sorted: "sorted_wrt (<) s \<Longrightarrow> sorted_wrt (<) (os_insert k s)"
  by (induction k s rule: os_insert.induct) auto

lemma os_insert_length: "length (os_insert k s) \<le> Suc (length s)"
  by (induction k s rule: os_insert.induct) auto

section \<open>Sorting under a comparator\<close>

text \<open>
  \<^verbatim>\<open>std::sort\<close> leaves the order of equivalent elements open; the model keeps them in their
  original order. What the components use is that the result is a rearrangement of the input and,
  when the comparator is a strict weak order, sorted.
\<close>

fun insert_by :: "('a \<Rightarrow> 'a \<Rightarrow> bool) \<Rightarrow> 'a \<Rightarrow> 'a list \<Rightarrow> 'a list" where
  "insert_by lt x [] = [x]"
| "insert_by lt x (y # ys) = (if lt x y then x # y # ys else y # insert_by lt x ys)"

definition std_sort :: "('a \<Rightarrow> 'a \<Rightarrow> bool) \<Rightarrow> 'a list \<Rightarrow> 'a list" where
  "std_sort lt xs = fold (insert_by lt) xs []"

lemma mset_insert_by: "mset (insert_by lt x ys) = add_mset x (mset ys)"
  by (induction ys) auto

lemma mset_std_sort [simp]: "mset (std_sort lt xs) = mset xs"
proof -
  have "mset (fold (insert_by lt) xs acc) = mset acc + mset xs" for acc
    by (induction xs arbitrary: acc) (auto simp: mset_insert_by)
  then show ?thesis by (simp add: std_sort_def)
qed

lemma set_std_sort [simp]: "set (std_sort lt xs) = set xs"
  using mset_std_sort by (metis set_mset_mset)

lemma length_std_sort [simp]: "length (std_sort lt xs) = length xs"
  using mset_std_sort by (metis size_mset)

lemma insert_by_last: "\<forall>y\<in>set ys. \<not> lt x y \<Longrightarrow> insert_by lt x ys = ys @ [x]"
  by (induction ys) auto

lemma std_sort_sorted:
  assumes "sorted_wrt (\<lambda>x y. \<not> lt y x) xs"
  shows "std_sort lt xs = xs"
proof -
  have "fold (insert_by lt) xs acc = acc @ xs" if "sorted_wrt (\<lambda>x y. \<not> lt y x) (acc @ xs)" for acc
    using that
  proof (induction xs arbitrary: acc)
    case (Cons x xs)
    then have "insert_by lt x acc = acc @ [x]"
      by (intro insert_by_last) (auto simp: sorted_wrt_append)
    with Cons show ?case by simp
  qed simp
  with assms show ?thesis by (simp add: std_sort_def)
qed

locale strict_weak_order =
  fixes lt :: "'a \<Rightarrow> 'a \<Rightarrow> bool"
  assumes irrefl: "\<not> lt x x"
    and cotrans: "lt x z \<Longrightarrow> lt x y \<or> lt y z"
    and trans: "lt x y \<Longrightarrow> lt y z \<Longrightarrow> lt x z"
begin

definition not_after :: "'a \<Rightarrow> 'a \<Rightarrow> bool" where
  "not_after x y \<longleftrightarrow> \<not> lt y x"

lemma asym: "lt x y \<Longrightarrow> \<not> lt y x"
  using irrefl trans by blast

lemma not_after_trans: "not_after x y \<Longrightarrow> not_after y z \<Longrightarrow> not_after x z"
  using cotrans by (auto simp: not_after_def)

lemma set_insert_by: "set (insert_by lt x ys) = insert x (set ys)"
  by (induction ys) auto

lemma sorted_insert_by:
  "sorted_wrt not_after ys \<Longrightarrow> sorted_wrt not_after (insert_by lt x ys)"
proof (induction ys)
  case (Cons y ys)
  show ?case
  proof (cases "lt x y")
    case True
    then have "not_after x y" by (simp add: not_after_def asym)
    with Cons.prems True show ?thesis by (auto intro: not_after_trans)
  next
    case False
    with Cons show ?thesis by (auto simp: set_insert_by not_after_def)
  qed
qed simp

lemma sorted_std_sort: "sorted_wrt not_after (std_sort lt xs)"
proof -
  have "sorted_wrt not_after acc \<Longrightarrow> sorted_wrt not_after (fold (insert_by lt) xs acc)" for acc
    by (induction xs arbitrary: acc) (auto simp: sorted_insert_by)
  then show ?thesis by (simp add: std_sort_def)
qed

lemma head_std_sort_least:
  "std_sort lt xs = y # ys \<Longrightarrow> x \<in> set xs \<Longrightarrow> \<not> lt x y"
  using sorted_std_sort [of xs] set_std_sort [of lt xs] irrefl
  by (metis not_after_def set_ConsD sorted_wrt.simps(2))

end

interpretation less_swo: strict_weak_order "(<) :: 'a::linorder \<Rightarrow> 'a \<Rightarrow> bool"
  by unfold_locales auto

lemma less_prod_if:
  "((a :: 'a::linorder, x :: 'b::linorder) < (b, y)) = (if a \<noteq> b then a < b else x < y)"
  by auto

lemma strict_weak_order_key:
  fixes key :: "'a \<Rightarrow> 'b::linorder"
  assumes "\<And>x y. lt x y \<longleftrightarrow> key x < key y"
  shows "strict_weak_order lt"
  by unfold_locales (use assms in auto)

lemma std_sort_linorder: "std_sort (<) xs = sort (xs :: 'a::linorder list)"
proof (rule properties_for_sort [symmetric])
  show "sorted (std_sort (<) xs)"
    using less_swo.sorted_std_sort [of xs]
    by (simp add: less_swo.not_after_def [abs_def] not_less)
qed simp

section \<open>Decimal rendering of unsigned integers\<close>

definition digit_char :: "nat \<Rightarrow> char" where
  "digit_char d = char_of (48 + d)"

fun nat_to_string :: "nat \<Rightarrow> string" where
  "nat_to_string n =
     (if n < 10 then [digit_char n] else nat_to_string (n div 10) @ [digit_char (n mod 10)])"

declare nat_to_string.simps [simp del]

definition u64_to_string :: "u64 \<Rightarrow> string" where
  "u64_to_string w = nat_to_string (unat w)"

definition i64_to_string :: "i64 \<Rightarrow> string" where
  "i64_to_string w =
     (if sint w < 0 then CHR ''-'' # nat_to_string (nat (- sint w)) else nat_to_string (nat (sint w)))"

definition decimal_value :: "string \<Rightarrow> nat" where
  "decimal_value s = foldl (\<lambda>acc c. acc * 10 + (of_char c - 48)) 0 s"

lemma of_char_digit_char: "d < 10 \<Longrightarrow> of_char (digit_char d) = (48 + d :: nat)"
  by (simp add: digit_char_def)

lemma decimal_value_nat_to_string: "decimal_value (nat_to_string n) = n"
proof (induction n rule: nat_to_string.induct)
  case (1 n)
  show ?case
  proof (cases "n < 10")
    case True
    then show ?thesis
      by (subst nat_to_string.simps) (simp add: decimal_value_def of_char_digit_char)
  next
    case False
    have d: "n mod 10 < 10" by simp
    from 1 False have "decimal_value (nat_to_string (n div 10)) = n div 10" by simp
    with False show ?thesis
      by (subst nat_to_string.simps)
        (simp add: decimal_value_def of_char_digit_char [OF d])
  qed
qed

lemma nat_to_string_inject [simp]: "nat_to_string m = nat_to_string n \<longleftrightarrow> m = n"
  by (metis decimal_value_nat_to_string)

lemma u64_to_string_inject [simp]: "u64_to_string v = u64_to_string w \<longleftrightarrow> v = w"
  by (simp add: u64_to_string_def word_unat_eq_iff)

lemma nat_to_string_digits:
  "c \<in> set (nat_to_string n) \<Longrightarrow> 48 \<le> (of_char c :: nat) \<and> of_char c \<le> (57 :: nat)"
proof (induction n rule: nat_to_string.induct)
  case (1 n)
  have d: "n mod 10 < 10" by simp
  show ?case
  proof (cases "n < 10")
    case True
    with "1.prems" show ?thesis
      by (auto simp: nat_to_string.simps [of n] of_char_digit_char)
  next
    case False
    with 1 show ?thesis
      by (auto simp: nat_to_string.simps [of n] of_char_digit_char [OF d])
  qed
qed

section \<open>Names of enumerators\<close>

text \<open>
  Each enumeration has a rendering and a parser that walks the enumerators in declaration order and
  returns the first whose name matches. The contract: the enumerator list is complete and no two
  names match, which makes parsing the left inverse of rendering.
\<close>

definition enum_index :: "'e list \<Rightarrow> 'e \<Rightarrow> nat" where
  "enum_index all x = length (takeWhile (\<lambda>y. y \<noteq> x) all)"

lemma nth_enum_index: "x \<in> set all \<Longrightarrow> all ! enum_index all x = x"
  by (induction all) (auto simp: enum_index_def)

locale enum_names =
  fixes all :: "'e list" and name :: "'e \<Rightarrow> string" and same :: "string \<Rightarrow> string \<Rightarrow> bool"
  assumes complete: "x \<in> set all"
    and same_refl: "same s s"
    and separated: "same (name x) (name y) \<Longrightarrow> x = y"
begin

lemma parse_render: "find (\<lambda>v. same (name x) (name v)) all = Some x"
proof -
  have "find (\<lambda>v. same (name x) (name v)) all \<noteq> None"
    using complete same_refl by (auto simp: find_None_iff)
  then obtain y where y: "find (\<lambda>v. same (name x) (name v)) all = Some y" by auto
  then have "same (name x) (name y)" by (auto simp: find_Some_iff)
  with y separated show ?thesis by metis
qed

lemma name_inject: "name x = name y \<Longrightarrow> x = y"
  using separated same_refl by metis

end

end
