(* ===== verification/Tokens.thy ===== *)
theory Tokens
  imports HCR_Prelude
begin

text \<open>
  The vocabulary every component shares: the error taxonomy (\<^verbatim>\<open>status.hpp\<close>), the resource limits
  (\<^verbatim>\<open>limits.hpp\<close>), canonical identity tokens and generation counters (\<^verbatim>\<open>ids.hpp\<close>, \<^verbatim>\<open>ids.cpp\<close>) and
  the byte-wise string helpers (\<^verbatim>\<open>canonical.cpp\<close>).

  A \<^verbatim>\<open>Status\<close> is its \<^verbatim>\<open>ErrorCode\<close>: the code is what callers branch on, the message text that goes
  with it is not modelled. An \<^verbatim>\<open>Id\<close> is its token, the empty string being the invalid identity, and a
  \<^verbatim>\<open>Gen\<close> is its 64-bit counter, zero meaning not set.
\<close>

unbundle bit_operations_syntax

section \<open>Error taxonomy\<close>

datatype ErrorCode =
    Ok
  | InvalidArgument
  | InvalidIdentity
  | InvalidCapability
  | InvalidValue
  | InvalidSupportState
  | InvalidProvenance
  | InvalidCondition
  | InvalidRange
  | InvalidReference
  | LimitExceeded
  | NotFound
  | AlreadyExists
  | StaleEpoch
  | StaleBoot
  | StaleDeviceGeneration
  | StaleCapabilityGeneration
  | StaleSequence
  | GenerationRegression
  | DuplicateConflict
  | FencedPublisher
  | UnknownPublisher
  | UnsupportedVersion
  | CorruptData
  | IntegrityFailure
  | IoFailure
  | InvariantViolation
  | QueueFull
  | ShuttingDown
  | ProtocolError
  | Internal

type_synonym Status = ErrorCode

abbreviation ok :: "Status \<Rightarrow> bool" where
  "ok s \<equiv> s = Ok"

text \<open>A loop that returns the first failure among its elements and succeeds otherwise.\<close>

fun check_all :: "('a \<Rightarrow> Status) \<Rightarrow> 'a list \<Rightarrow> Status" where
  "check_all f [] = Ok"
| "check_all f (x # xs) = (if ok (f x) then check_all f xs else f x)"

lemma check_all_Ok [simp]: "check_all f xs = Ok \<longleftrightarrow> (\<forall>x\<in>set xs. f x = Ok)"
  by (induction xs) auto

fun to_string_ErrorCode :: "ErrorCode \<Rightarrow> string" where
  "to_string_ErrorCode Ok = ''ok''"
| "to_string_ErrorCode InvalidArgument = ''invalid-argument''"
| "to_string_ErrorCode InvalidIdentity = ''invalid-identity''"
| "to_string_ErrorCode InvalidCapability = ''invalid-capability''"
| "to_string_ErrorCode InvalidValue = ''invalid-value''"
| "to_string_ErrorCode InvalidSupportState = ''invalid-support-state''"
| "to_string_ErrorCode InvalidProvenance = ''invalid-provenance''"
| "to_string_ErrorCode InvalidCondition = ''invalid-condition''"
| "to_string_ErrorCode InvalidRange = ''invalid-range''"
| "to_string_ErrorCode InvalidReference = ''invalid-reference''"
| "to_string_ErrorCode LimitExceeded = ''limit-exceeded''"
| "to_string_ErrorCode NotFound = ''not-found''"
| "to_string_ErrorCode AlreadyExists = ''already-exists''"
| "to_string_ErrorCode StaleEpoch = ''stale-epoch''"
| "to_string_ErrorCode StaleBoot = ''stale-boot''"
| "to_string_ErrorCode StaleDeviceGeneration = ''stale-device-generation''"
| "to_string_ErrorCode StaleCapabilityGeneration = ''stale-capability-generation''"
| "to_string_ErrorCode StaleSequence = ''stale-sequence''"
| "to_string_ErrorCode GenerationRegression = ''generation-regression''"
| "to_string_ErrorCode DuplicateConflict = ''duplicate-conflict''"
| "to_string_ErrorCode FencedPublisher = ''fenced-publisher''"
| "to_string_ErrorCode UnknownPublisher = ''unknown-publisher''"
| "to_string_ErrorCode UnsupportedVersion = ''unsupported-version''"
| "to_string_ErrorCode CorruptData = ''corrupt-data''"
| "to_string_ErrorCode IntegrityFailure = ''integrity-failure''"
| "to_string_ErrorCode IoFailure = ''io-failure''"
| "to_string_ErrorCode InvariantViolation = ''invariant-violation''"
| "to_string_ErrorCode QueueFull = ''queue-full''"
| "to_string_ErrorCode ShuttingDown = ''shutting-down''"
| "to_string_ErrorCode ProtocolError = ''protocol-error''"
| "to_string_ErrorCode Internal = ''internal''"

section \<open>Resource limits\<close>

record RegistryLimits =
  max_devices :: nat
  max_families :: nat
  max_capabilities_per_device :: nat
  max_evidence_per_capability :: nat
  max_evidence_history :: nat
  max_quirks :: nat
  max_compatibility_facts :: nat
  max_publishers :: nat
  max_boot_records_per_publisher :: nat
  max_metadata_bytes :: nat
  max_native_identifiers :: nat
  max_name_length :: nat
  max_record_depth :: nat
  max_record_fields :: nat
  max_feature_set_entries :: nat
  max_architecture_set_entries :: nat
  max_condition_nodes :: nat
  max_condition_children :: nat
  max_query_results :: nat
  max_comparison_entries :: nat
  max_snapshot_records :: nat
  max_frame_bytes :: nat
  max_persistence_bytes :: nat
  max_connections :: nat
  max_pending_publications :: nat
  max_pending_bytes :: nat
  max_string_bytes :: nat

definition default_limits :: RegistryLimits where
  "default_limits = \<lparr>
     max_devices = 20000, max_families = 8192, max_capabilities_per_device = 2048,
     max_evidence_per_capability = 8, max_evidence_history = 262144, max_quirks = 16384,
     max_compatibility_facts = 16384, max_publishers = 512, max_boot_records_per_publisher = 64,
     max_metadata_bytes = 512, max_native_identifiers = 24, max_name_length = 192,
     max_record_depth = 4, max_record_fields = 32, max_feature_set_entries = 256,
     max_architecture_set_entries = 64, max_condition_nodes = 64, max_condition_children = 32,
     max_query_results = 8192, max_comparison_entries = 8192, max_snapshot_records = 500000,
     max_frame_bytes = 1048576, max_persistence_bytes = 268435456, max_connections = 64,
     max_pending_publications = 1024, max_pending_bytes = 8388608, max_string_bytes = 4096\<rparr>"

section \<open>Canonical tokens\<close>

definition kMaxTokenLength :: nat where
  "kMaxTokenLength = 128"

definition token_alnum :: "char \<Rightarrow> bool" where
  "token_alnum c \<longleftrightarrow> (CHR ''a'' \<le> c \<and> c \<le> CHR ''z'') \<or> (CHR ''0'' \<le> c \<and> c \<le> CHR ''9'')"

definition token_separator :: "char \<Rightarrow> bool" where
  "token_separator c \<longleftrightarrow> c = CHR ''.'' \<or> c = CHR ''_'' \<or> c = CHR '':'' \<or> c = CHR ''-''"

definition is_canonical_token :: "string \<Rightarrow> bool" where
  "is_canonical_token text =
     (if text = [] \<or> length text > kMaxTokenLength then False
      else if \<not> token_alnum (hd text) then False
      else list_all (\<lambda>c. token_alnum c \<or> token_separator c) text)"

definition id_parse :: "string \<Rightarrow> string" where
  "id_parse text = (if is_canonical_token text then text else [])"

definition id_valid :: "string \<Rightarrow> bool" where
  "id_valid token \<longleftrightarrow> token \<noteq> []"

text \<open>The identities the constructors of \<^verbatim>\<open>Id\<close> can build: empty or canonical.\<close>

definition wf_id :: "string \<Rightarrow> bool" where
  "wf_id token \<longleftrightarrow> token = [] \<or> is_canonical_token token"

lemma wf_id_parse [simp]: "wf_id (id_parse text)"
  by (simp add: wf_id_def id_parse_def)

lemma id_parse_idem [simp]: "id_parse (id_parse text) = id_parse text"
  by (simp add: id_parse_def)

lemma id_valid_parse: "id_valid (id_parse text) \<longleftrightarrow> is_canonical_token text"
  by (auto simp: id_valid_def id_parse_def is_canonical_token_def)

lemma canonical_token_chars:
  "is_canonical_token text \<Longrightarrow> c \<in> set text \<Longrightarrow> token_alnum c \<or> token_separator c"
  by (auto simp: is_canonical_token_def list_all_iff split: if_splits)

section \<open>Generations\<close>

definition gen_valid :: "u64 \<Rightarrow> bool" where
  "gen_valid g \<longleftrightarrow> g \<noteq> 0"

definition gen_first :: u64 where
  "gen_first = 1"

definition gen_next :: "u64 \<Rightarrow> u64" where
  "gen_next g = g + 1"

lemma gen_first_valid [simp]: "gen_valid gen_first"
  by (simp add: gen_valid_def gen_first_def)

lemma unat_gen_next: "g \<noteq> - 1 \<Longrightarrow> unat (gen_next g) = Suc (unat g)"
  using unatSuc [of g] by (simp add: gen_next_def add.commute eq_neg_iff_add_eq_0)

lemma gen_next_greater: "g \<noteq> - 1 \<Longrightarrow> g < gen_next g"
  by (simp add: word_less_nat_alt unat_gen_next)

lemma gen_next_valid: "g \<noteq> - 1 \<Longrightarrow> gen_valid (gen_next g)"
  using gen_next_greater [of g] by (auto simp: gen_valid_def)

lemma gen_next_wraps: "gen_next (- 1) = 0"
  by (simp add: gen_next_def)

section \<open>Byte-wise string helpers\<close>

definition fold_case :: "char \<Rightarrow> char" where
  "fold_case c =
     (if CHR ''A'' \<le> c \<and> c \<le> CHR ''Z''
      then char_of (of_char c - of_char CHR ''A'' + of_char CHR ''a'' :: nat) else c)"

definition ascii_lower :: "string \<Rightarrow> string" where
  "ascii_lower text = map fold_case text"

fun equals_ascii_ci_loop :: "string \<Rightarrow> string \<Rightarrow> bool" where
  "equals_ascii_ci_loop (ca # a) (cb # b) =
     (if fold_case ca \<noteq> fold_case cb then False else equals_ascii_ci_loop a b)"
| "equals_ascii_ci_loop _ _ = True"

definition equals_ascii_ci :: "string \<Rightarrow> string \<Rightarrow> bool" where
  "equals_ascii_ci a b = (if length a \<noteq> length b then False else equals_ascii_ci_loop a b)"

definition kFnvOffsetBasis :: u64 where
  "kFnvOffsetBasis = 1469598103934665603"

definition kFnvPrime :: u64 where
  "kFnvPrime = 1099511628211"

definition fnv_byte :: "u64 \<Rightarrow> u64 \<Rightarrow> u64" where
  "fnv_byte byte hash = (hash XOR byte) * kFnvPrime"

definition fnv1a64 :: "string \<Rightarrow> u64 \<Rightarrow> u64" where
  "fnv1a64 text seed = fold (\<lambda>c. fnv_byte (word_of_nat (of_char c))) text seed"

definition fnv1a64_mix :: "string \<Rightarrow> u64 \<Rightarrow> u64" where
  "fnv1a64_mix text hash = fnv1a64 text ((hash XOR 0xff) * kFnvPrime)"

definition fnv1a64_mix_u64 :: "u64 \<Rightarrow> u64 \<Rightarrow> u64" where
  "fnv1a64_mix_u64 value hash =
     fold (\<lambda>i. fnv_byte (drop_bit (i * 8) value AND 0xff)) [0..<8] hash"

definition hex_digit :: "u64 \<Rightarrow> char" where
  "hex_digit nibble = ''0123456789abcdef'' ! unat (nibble AND 0xf)"

fun hex_digits :: "nat \<Rightarrow> u64 \<Rightarrow> string" where
  "hex_digits 0 value = []"
| "hex_digits (Suc n) value = hex_digits n (drop_bit 4 value) @ [hex_digit value]"

definition hex64 :: "u64 \<Rightarrow> string" where
  "hex64 value = hex_digits 16 value"

subsection \<open>Case folding\<close>

lemma of_char_mono: "(c :: char) \<le> d \<longleftrightarrow> (of_char c :: nat) \<le> of_char d"
  by (simp add: less_eq_char_def)

lemma fold_case_upper:
  assumes "CHR ''A'' \<le> c" and "c \<le> CHR ''Z''"
  shows "of_char (fold_case c) = (of_char c + 32 :: nat)"
proof -
  have "(65 :: nat) \<le> of_char c" "(of_char c :: nat) \<le> 90"
    using assms by (simp_all add: of_char_mono)
  then show ?thesis
    using assms by (simp add: fold_case_def)
qed

lemma fold_case_idem [simp]: "fold_case (fold_case c) = fold_case c"
proof (cases "CHR ''A'' \<le> c \<and> c \<le> CHR ''Z''")
  case True
  then have "(90 :: nat) < of_char (fold_case c)"
    using fold_case_upper [of c] by (simp add: of_char_mono)
  then have "\<not> fold_case c \<le> CHR ''Z''"
    by (simp add: of_char_mono)
  then show ?thesis
    by (simp only: fold_case_def [of "fold_case c"] simp_thms if_False)
next
  case False
  then have "fold_case c = c" by (auto simp: fold_case_def)
  then show ?thesis by simp
qed

lemma ascii_lower_idem [simp]: "ascii_lower (ascii_lower text) = ascii_lower text"
  by (simp add: ascii_lower_def)

lemma equals_ascii_ci_loop_eq:
  "length a = length b \<Longrightarrow> equals_ascii_ci_loop a b \<longleftrightarrow> map fold_case a = map fold_case b"
  by (induction a b rule: equals_ascii_ci_loop.induct) auto

lemma equals_ascii_ci_iff: "equals_ascii_ci a b \<longleftrightarrow> ascii_lower a = ascii_lower b"
  using equals_ascii_ci_loop_eq [of a b]
  by (auto simp: equals_ascii_ci_def ascii_lower_def dest: map_eq_imp_length_eq)

lemma equals_ascii_ci_refl [simp]: "equals_ascii_ci a a"
  by (simp add: equals_ascii_ci_iff)

lemma ascii_lower_canonical:
  assumes "is_canonical_token text"
  shows "ascii_lower text = text"
proof -
  have "fold_case c = c" if "c \<in> set text" for c
    using canonical_token_chars [OF assms that]
    by (auto simp: fold_case_def token_alnum_def token_separator_def of_char_mono)
  then show ?thesis by (simp add: ascii_lower_def map_idI)
qed

subsection \<open>Digests\<close>

lemma length_hex_digits [simp]: "length (hex_digits n v) = n"
  by (induction n arbitrary: v) auto

lemma distinct_hex_alphabet: "distinct ''0123456789abcdef''"
  by simp

lemma and_0xf: "v AND 0xf = take_bit 4 (v :: u64)"
  by (simp add: take_bit_eq_mask mask_eq_exp_minus_1)

lemma nibble_less: "unat (v AND 0xf :: u64) < 16"
proof -
  have "unat (take_bit 4 v) = take_bit 4 (unat v)"
    by (simp add: unsigned_take_bit_eq)
  also have "\<dots> < 2 ^ 4" by (rule take_bit_nat_less_exp)
  finally show ?thesis by (simp add: and_0xf)
qed

lemma hex_digit_inject: "hex_digit v = hex_digit w \<longleftrightarrow> v AND 0xf = w AND 0xf"
proof -
  have len: "length ''0123456789abcdef'' = 16" by simp
  have "hex_digit v = hex_digit w \<longleftrightarrow> unat (v AND 0xf) = unat (w AND 0xf)"
    unfolding hex_digit_def
    by (rule nth_eq_iff_index_eq [OF distinct_hex_alphabet]) (simp_all only: len nibble_less)
  then show ?thesis by (simp add: word_unat_eq_iff)
qed

lemma word_split_nibble:
  fixes v w :: u64
  assumes "drop_bit 4 v = drop_bit 4 w" and "take_bit 4 v = take_bit 4 w"
  shows "v = w"
proof (rule bit_word_eqI)
  fix n assume "n < LENGTH(64)"
  show "bit v n = bit w n"
  proof (cases "n < 4")
    case True
    then show ?thesis
      using arg_cong [OF assms(2), of "\<lambda>x. bit x n"] by (simp add: bit_take_bit_iff)
  next
    case False
    then show ?thesis
      using arg_cong [OF assms(1), of "\<lambda>x. bit x (n - 4)"] by (simp add: bit_drop_bit_eq)
  qed
qed

lemma hex_digits_inject:
  "hex_digits n v = hex_digits n w \<Longrightarrow> take_bit (4 * n) v = take_bit (4 * n) w"
proof (induction n arbitrary: v w)
  case (Suc n)
  from Suc.prems have tail: "hex_digits n (drop_bit 4 v) = hex_digits n (drop_bit 4 w)"
    and digit: "hex_digit v = hex_digit w"
    by simp_all
  from digit have low: "take_bit 4 v = take_bit 4 w"
    by (simp only: hex_digit_inject and_0xf)
  from tail have high: "take_bit (4 * n) (drop_bit 4 v) = take_bit (4 * n) (drop_bit 4 w)"
    by (rule Suc.IH)
  have d: "drop_bit 4 (take_bit (4 * Suc n) x) = take_bit (4 * n) (drop_bit 4 x)" for x :: u64
    by (simp add: drop_bit_take_bit)
  have l: "take_bit 4 (take_bit (4 * Suc n) x) = take_bit 4 x" for x :: u64
    by (simp add: take_bit_take_bit)
  show ?case
    by (rule word_split_nibble) (simp_all only: d l low high)
qed simp

lemma take_bit_64 [simp]: "take_bit 64 (v :: u64) = v"
  by (rule bit_word_eqI) (simp add: bit_simps)

lemma hex64_inject [simp]: "hex64 v = hex64 w \<longleftrightarrow> v = w"
  using hex_digits_inject [of 16 v w] by (auto simp: hex64_def)

section \<open>Enumeration names\<close>

text \<open>
  Enumerator names are written in one case. Whether a character lies in the upper-case row
  \<^verbatim>\<open>0x40..0x5f\<close> or the lower-case row \<^verbatim>\<open>0x60..0x7f\<close> is two of its bits, and case folding is the
  identity outside the first and injective outside the second.
\<close>

definition upper_row :: "char \<Rightarrow> bool" where
  "upper_row c \<longleftrightarrow> digit6 c \<and> \<not> digit5 c"

definition lower_row :: "char \<Rightarrow> bool" where
  "lower_row c \<longleftrightarrow> digit6 c \<and> digit5 c"

lemma fold_case_not_upper_row: "\<not> upper_row c \<Longrightarrow> fold_case c = c"
proof -
  assume c: "\<not> upper_row c"
  obtain b0 b1 b2 b3 b4 b5 b6 b7 where eq: "c = Char b0 b1 b2 b3 b4 b5 b6 b7" by (cases c)
  show ?thesis
    using c unfolding eq
    by (cases b7; cases b6; cases b5)
      (auto simp: fold_case_def of_char_mono upper_row_def of_char_Char)
qed

lemma fold_case_inj_not_lower_row:
  assumes "\<not> lower_row c" and "\<not> lower_row d" and "fold_case c = fold_case d"
  shows "c = d"
proof -
  have row: "\<not> (97 \<le> (of_char e :: nat) \<and> of_char e \<le> (122 :: nat))" if "\<not> lower_row e" for e
  proof -
    obtain b0 b1 b2 b3 b4 b5 b6 b7 where eq: "e = Char b0 b1 b2 b3 b4 b5 b6 b7" by (cases e)
    show ?thesis
      using that unfolding eq
      by (cases b7; cases b6; cases b5; cases b4; cases b3; cases b2; cases b1)
        (auto simp: lower_row_def of_char_Char)
  qed
  have up: "(97 :: nat) \<le> of_char (fold_case e) \<and> of_char (fold_case e) \<le> (122 :: nat)"
    if "CHR ''A'' \<le> e" "e \<le> CHR ''Z''" for e
    using fold_case_upper [OF that] that by (simp add: of_char_mono)
  show ?thesis
  proof (cases "CHR ''A'' \<le> c \<and> c \<le> CHR ''Z''")
    case True
    then have "fold_case d \<noteq> d"
      using up [of c] row [OF assms(2)] assms(3) by metis
    then have "CHR ''A'' \<le> d \<and> d \<le> CHR ''Z''"
      unfolding fold_case_def by metis
    with True have "of_char c + 32 = (of_char d + 32 :: nat)"
      using fold_case_upper [of c] fold_case_upper [of d] assms(3) by metis
    then show ?thesis by simp
  next
    case False
    then have c: "fold_case c = c" unfolding fold_case_def by metis
    then have "\<not> (CHR ''A'' \<le> d \<and> d \<le> CHR ''Z'')"
      using up [of d] row [OF assms(1)] assms(3) by metis
    then have "fold_case d = d" unfolding fold_case_def by metis
    with c assms(3) show ?thesis by simp
  qed
qed

lemma enum_names_I:
  assumes complete: "\<And>x. x \<in> set all"
    and dist: "distinct (map name all)"
    and inj: "\<And>x y. ascii_lower (name x) = ascii_lower (name y) \<Longrightarrow> name x = name y"
  shows "enum_names all name equals_ascii_ci"
proof unfold_locales
  fix x y assume "equals_ascii_ci (name x) (name y)"
  then have "name x = name y"
    by (intro inj) (simp add: equals_ascii_ci_iff)
  moreover from dist have "inj_on name (set all)" by (simp add: distinct_map)
  ultimately show "x = y" using complete by (simp add: inj_onD)
qed (simp_all add: complete)

lemma enum_names_lower:
  assumes complete: "\<And>x. x \<in> set all" and dist: "distinct (map name all)"
    and row: "list_all (\<lambda>x. list_all (\<lambda>c. \<not> upper_row c) (name x)) all"
  shows "enum_names all name equals_ascii_ci"
proof (rule enum_names_I [OF complete dist])
  fix x y assume eq: "ascii_lower (name x) = ascii_lower (name y)"
  have "ascii_lower (name z) = name z" for z
    using row complete [of z]
    by (auto simp: ascii_lower_def list_all_iff intro!: map_idI fold_case_not_upper_row)
  with eq show "name x = name y" by simp
qed

lemma enum_names_upper:
  assumes complete: "\<And>x. x \<in> set all" and dist: "distinct (map name all)"
    and row: "list_all (\<lambda>x. list_all (\<lambda>c. \<not> lower_row c) (name x)) all"
  shows "enum_names all name equals_ascii_ci"
proof (rule enum_names_I [OF complete dist])
  fix x y assume eq: "ascii_lower (name x) = ascii_lower (name y)"
  have "inj_on fold_case (set (name x) \<union> set (name y))"
    using row complete [of x] complete [of y]
    by (auto simp: inj_on_def list_all_iff intro!: fold_case_inj_not_lower_row)
  with eq show "name x = name y"
    unfolding ascii_lower_def by (rule map_inj_on)
qed

lemma enum_names_folded:
  assumes complete: "\<And>x. x \<in> set all" and dist: "distinct (map (\<lambda>x. ascii_lower (name x)) all)"
  shows "enum_names all name equals_ascii_ci"
proof unfold_locales
  fix x y assume "equals_ascii_ci (name x) (name y)"
  then show "x = y"
    using dist complete by (auto simp: equals_ascii_ci_iff distinct_map inj_on_def)
qed (simp_all add: complete)

lemmas upper_row_Char [simp] = upper_row_def [of "Char b0 b1 b2 b3 b4 b5 b6 b7" for b0 b1 b2 b3 b4 b5 b6 b7, simplified]
lemmas lower_row_Char [simp] = lower_row_def [of "Char b0 b1 b2 b3 b4 b5 b6 b7" for b0 b1 b2 b3 b4 b5 b6 b7, simplified]

end
