(* ===== verification/Software_Version.thy ===== *)
theory Software_Version
  imports Tokens
begin

text \<open>
  Dotted numeric versions (\<^verbatim>\<open>software_version.hpp\<close>, \<^verbatim>\<open>software_version.cpp\<close>): the forgiving parser
  with its saturating components, the zero-padded comparison and the version intervals. The
  comparison is shown to be a strict weak order, the parser to saturate exactly, and parsing to
  succeed exactly on the texts \<^verbatim>\<open>is_parseable\<close> accepts.
\<close>

record SoftwareVersion =
  sv_raw :: string
  sv_components :: "u64 list"

record VersionRange =
  vr_minimum :: SoftwareVersion
  vr_maximum :: SoftwareVersion
  vr_include_maximum :: bool

definition empty_version :: SoftwareVersion where
  "empty_version = \<lparr>sv_raw = [], sv_components = []\<rparr>"

definition version_valid :: "SoftwareVersion \<Rightarrow> bool" where
  "version_valid v \<longleftrightarrow> sv_raw v \<noteq> []"

definition kMaxComponents :: nat where
  "kMaxComponents = 8"

definition is_digit :: "char \<Rightarrow> bool" where
  "is_digit c \<longleftrightarrow> CHR ''0'' \<le> c \<and> c \<le> CHR ''9''"

definition is_parseable :: "string \<Rightarrow> bool" where
  "is_parseable text = (if text = [] \<or> length text > 128 then False else list_ex is_digit text)"

definition digit_value :: "char \<Rightarrow> u64" where
  "digit_value c = word_of_nat (of_char c - of_char CHR ''0'')"

text \<open>
  The inner loop of \<^verbatim>\<open>parse\<close>: the overflow flag, the value read so far and the rest of the text
  (still starting with the digit that would have overflowed when the flag is set).
\<close>

fun scan_digits :: "u64 \<Rightarrow> string \<Rightarrow> bool \<times> u64 \<times> string" where
  "scan_digits value [] = (False, value, [])"
| "scan_digits value (c # rest) =
     (if \<not> is_digit c then (False, value, c # rest)
      else if value > (- 1 - digit_value c) div 10 then (True, value, c # rest)
      else scan_digits (value * 10 + digit_value c) rest)"

definition scan_component :: "string \<Rightarrow> u64 \<times> string" where
  "scan_component text =
     (case scan_digits 0 text of
        (overflow, value, rest) \<Rightarrow>
          if overflow then (- 1, dropWhile is_digit rest) else (value, rest))"

function parse_components :: "nat \<Rightarrow> string \<Rightarrow> u64 list" where
  "parse_components slots text =
     (if text = [] \<or> slots = 0 then []
      else if \<not> is_digit (hd text) then parse_components slots (tl text)
      else fst (scan_component text) # parse_components (slots - 1) (snd (scan_component text)))"
  by pat_completeness auto
termination
  by (relation "measures [fst, length \<circ> snd]") auto

declare parse_components.simps [simp del]

definition parse_version :: "string \<Rightarrow> SoftwareVersion" where
  "parse_version text =
     (if text = [] \<or> length text > 128 then empty_version
      else let components = parse_components kMaxComponents text in
        if components = [] then empty_version
        else \<lparr>sv_raw = text, sv_components = components\<rparr>)"

fun compare_components :: "u64 list \<Rightarrow> u64 list \<Rightarrow> int" where
  "compare_components [] [] = 0"
| "compare_components (l # ls) (r # rs) =
     (if l < r then -1 else if l > r then 1 else compare_components ls rs)"
| "compare_components (l # ls) [] = (if l > 0 then 1 else compare_components ls [])"
| "compare_components [] (r # rs) = (if 0 < r then -1 else compare_components [] rs)"

definition version_compare :: "SoftwareVersion \<Rightarrow> SoftwareVersion \<Rightarrow> int" where
  "version_compare a b =
     (if \<not> version_valid a \<and> \<not> version_valid b then 0
      else if \<not> version_valid a then -1
      else if \<not> version_valid b then 1
      else compare_components (sv_components a) (sv_components b))"

definition range_valid :: "VersionRange \<Rightarrow> bool" where
  "range_valid r =
     (if \<not> version_valid (vr_minimum r) \<or> \<not> version_valid (vr_maximum r) then True
      else let cmp = version_compare (vr_minimum r) (vr_maximum r) in
        if cmp > 0 then False else if cmp = 0 then vr_include_maximum r else True)"

definition range_contains :: "VersionRange \<Rightarrow> SoftwareVersion \<Rightarrow> bool" where
  "range_contains r v =
     (if \<not> version_valid v then False
      else if version_valid (vr_minimum r) \<and> version_compare v (vr_minimum r) < 0 then False
      else if version_valid (vr_maximum r)
      then let cmp = version_compare v (vr_maximum r) in
        if cmp > 0 then False else if cmp = 0 \<and> \<not> vr_include_maximum r then False else True
      else True)"

definition range_describe :: "VersionRange \<Rightarrow> string" where
  "range_describe r =
     (let has_min = version_valid (vr_minimum r); has_max = version_valid (vr_maximum r) in
      if has_min \<and> has_max
      then ''['' @ sv_raw (vr_minimum r) @ '','' @ sv_raw (vr_maximum r) @
           (if vr_include_maximum r then '']'' else '')'')
      else if has_min then ''>='' @ sv_raw (vr_minimum r)
      else if has_max then (if vr_include_maximum r then ''<='' else ''<'') @ sv_raw (vr_maximum r)
      else ''*'')"

section \<open>Parsing\<close>

lemma is_digit_of_char: "is_digit c \<longleftrightarrow> 48 \<le> (of_char c :: nat) \<and> of_char c \<le> (57 :: nat)"
  by (simp add: is_digit_def of_char_mono)

lemma unat_digit_value:
  assumes "is_digit c"
  shows "unat (digit_value c) = of_char c - 48"
proof -
  have "(of_char c - 48 :: nat) < 2 ^ 64"
    using assms by (simp add: is_digit_of_char less_imp_diff_less)
  then show ?thesis
    by (simp add: digit_value_def unat_of_nat del: of_nat_diff)
qed

lemma unat_digit_value_less: "is_digit c \<Longrightarrow> unat (digit_value c) < 10"
  using unat_digit_value [of c] unfolding is_digit_of_char by linarith

lemma unat_max_minus: "unat (- 1 - d :: u64) = 2 ^ 64 - 1 - unat d"
proof -
  have "unat (- 1 :: u64) = 2 ^ 64 - 1" by (simp add: unsigned_minus_1_eq_mask mask_eq_exp_minus_1)
  moreover have "d \<le> - 1" by simp
  ultimately show ?thesis by (simp add: unat_sub_if_size word_le_nat_alt)
qed

lemma overflow_guard:
  assumes "is_digit c"
  shows "value > (- 1 - digit_value c) div 10 \<longleftrightarrow> unat value * 10 + unat (digit_value c) \<ge> 2 ^ 64"
proof -
  have "unat ((- 1 - digit_value c) div 10) = (2 ^ 64 - 1 - unat (digit_value c)) div 10"
    by (simp add: unat_div unat_max_minus)
  then have "value > (- 1 - digit_value c) div 10 \<longleftrightarrow>
      unat value > (2 ^ 64 - 1 - unat (digit_value c)) div 10"
    by (simp add: word_less_nat_alt)
  then show ?thesis
    using unat_digit_value_less [OF assms] by (simp add: div_less_iff_less_mult) arith
qed

lemma unat_step:
  assumes "unat value * 10 + unat d < (2 :: nat) ^ 64"
  shows "unat (value * 10 + d :: u64) = unat value * 10 + unat d"
  using assms by (simp add: unat_word_ariths)

definition run_value :: "nat \<Rightarrow> string \<Rightarrow> nat" where
  "run_value acc ds = foldl (\<lambda>v c. v * 10 + (of_char c - 48)) acc ds"

lemma run_value_ge: "acc \<le> run_value acc ds"
proof (induction ds arbitrary: acc)
  case (Cons c ds)
  have "acc \<le> acc * 10 + (of_char c - 48)" by simp
  also have "\<dots> \<le> run_value (acc * 10 + (of_char c - 48)) ds" by (rule Cons.IH)
  finally show ?case by (simp add: run_value_def)
qed (simp add: run_value_def)

lemma u64_bound: "unat (v :: u64) < 18446744073709551616"
  using unsigned_less [of v] by simp

lemma run_value_Cons: "run_value acc (c # ds) = run_value (acc * 10 + (of_char c - 48)) ds"
  by (simp add: run_value_def)

lemma scan_digits_fits:
  assumes "\<forall>c\<in>set ds. is_digit c" and "rest = [] \<or> \<not> is_digit (hd rest)"
    and "run_value (unat v) ds < 2 ^ 64"
  shows "scan_digits v (ds @ rest) = (False, word_of_nat (run_value (unat v) ds), rest)"
  using assms
proof (induction ds arbitrary: v)
  case Nil
  then show ?case by (cases rest) (auto simp: run_value_def)
next
  case (Cons c ds)
  then have c: "is_digit c" by simp
  have "unat v * 10 + unat (digit_value c) < 2 ^ 64"
    using Cons.prems(3) run_value_ge [of "unat v * 10 + (of_char c - 48)" ds]
    by (simp add: run_value_Cons unat_digit_value [OF c])
  moreover from this have "unat (v * 10 + digit_value c) = unat v * 10 + (of_char c - 48)"
    using unat_step unat_digit_value [OF c] by simp
  ultimately show ?case
    using Cons overflow_guard [OF c, of v] c by (simp add: run_value_Cons)
qed

lemma scan_digits_saturates:
  assumes "\<forall>c\<in>set ds. is_digit c" and "\<not> run_value (unat v) ds < 2 ^ 64"
  shows "\<exists>w ds'. set ds' \<subseteq> set ds \<and> scan_digits v (ds @ rest) = (True, w, ds' @ rest)"
  using assms
proof (induction ds arbitrary: v)
  case Nil
  then show ?case by (simp add: run_value_def not_less [symmetric] u64_bound)
next
  case (Cons c ds)
  then have c: "is_digit c" by simp
  show ?case
  proof (cases "unat v * 10 + unat (digit_value c) < 2 ^ 64")
    case True
    then have "unat (v * 10 + digit_value c) = unat v * 10 + (of_char c - 48)"
      using unat_step unat_digit_value [OF c] by simp
    then obtain w ds' where "set ds' \<subseteq> set ds"
        "scan_digits (v * 10 + digit_value c) (ds @ rest) = (True, w, ds' @ rest)"
      using Cons.IH [of "v * 10 + digit_value c"] Cons.prems by (auto simp: run_value_Cons)
    then show ?thesis
      using True overflow_guard [OF c, of v] c by auto
  next
    case False
    then have "scan_digits v ((c # ds) @ rest) = (True, v, (c # ds) @ rest)"
      using overflow_guard [OF c, of v] c by simp
    then show ?thesis by blast
  qed
qed

text \<open>
  The scanner reads a whole run of digits and returns its value capped at the largest 64-bit
  number; the text after the run is left for the next component.
\<close>

lemma scan_component_run:
  assumes "\<forall>c\<in>set ds. is_digit c" and "rest = [] \<or> \<not> is_digit (hd rest)"
  shows "scan_component (ds @ rest) = (word_of_nat (min (run_value 0 ds) (2 ^ 64 - 1)), rest)"
proof (cases "run_value 0 ds < 2 ^ 64")
  case True
  then show ?thesis
    using scan_digits_fits [OF assms, of 0] by (simp add: scan_component_def)
next
  case False
  then obtain w ds' where sub: "set ds' \<subseteq> set ds"
      and scan: "scan_digits 0 (ds @ rest) = (True, w, ds' @ rest)"
    using scan_digits_saturates [OF assms(1), of 0 rest] by auto
  from sub assms have "dropWhile is_digit (ds' @ rest) = rest"
    by (subst dropWhile_append2) (auto simp: dropWhile_eq_self_iff)
  moreover have "min (run_value 0 ds) (2 ^ 64 - 1) = 2 ^ 64 - 1"
    using False by simp
  moreover have "word_of_nat (2 ^ 64 - 1) = (- 1 :: u64)"
    by simp
  ultimately show ?thesis by (simp add: scan_component_def scan)
qed

lemma parse_components_nonempty:
  "slots > 0 \<Longrightarrow> parse_components slots text \<noteq> [] \<longleftrightarrow> list_ex is_digit text"
proof (induction slots "text" rule: parse_components.induct)
  case (1 slots input)
  show ?case
  proof (cases input)
    case Nil
    then show ?thesis by (simp add: parse_components.simps)
  next
    case (Cons c rest)
    with 1 show ?thesis
      by (cases "is_digit c") (simp_all add: parse_components.simps [of slots "c # rest"])
  qed
qed

lemma parse_components_length: "length (parse_components slots text) \<le> slots"
proof (induction slots "text" rule: parse_components.induct)
  case (1 slots input)
  then show ?case
    by (subst parse_components.simps) auto
qed

lemma version_valid_parse: "version_valid (parse_version text) \<longleftrightarrow> is_parseable text"
  using parse_components_nonempty [of kMaxComponents "text"]
  by (auto simp: parse_version_def is_parseable_def version_valid_def empty_version_def
      kMaxComponents_def Let_def)

lemma parse_version_raw: "version_valid (parse_version text) \<Longrightarrow> sv_raw (parse_version text) = text"
  by (auto simp: parse_version_def version_valid_def empty_version_def Let_def split: if_splits)

section \<open>Comparison\<close>

definition pad :: "nat \<Rightarrow> u64 list \<Rightarrow> u64 list" where
  "pad n xs = xs @ replicate (n - length xs) 0"

text \<open>
  The reference: on a common zero-padded length the comparison is the sign of the lexicographic
  order on lists.
\<close>

definition sign_of :: "'a::linorder \<Rightarrow> 'a \<Rightarrow> int" where
  "sign_of a b = (if a < b then -1 else if a > b then 1 else 0)"

lemma sign_of_Cons: "sign_of (x # xs) (y # ys) = (if x < y then -1 else if x > y then 1 else sign_of xs ys)"
  by (auto simp: sign_of_def)

lemma compare_components_pad:
  "length a \<le> n \<Longrightarrow> length b \<le> n \<Longrightarrow> compare_components a b = sign_of (pad n a) (pad n b)"
proof (induction a b arbitrary: n rule: compare_components.induct)
  case 1
  show ?case by (simp add: sign_of_def)
next
  case (2 l ls r rs)
  then obtain m where "n = Suc m" by (cases n) auto
  with 2 show ?case by (auto simp: pad_def sign_of_Cons)
next
  case (3 l ls)
  then obtain m where "n = Suc m" by (cases n) auto
  with 3 show ?case by (auto simp: pad_def sign_of_Cons word_gt_0)
next
  case (4 r rs)
  then obtain m where "n = Suc m" by (cases n) auto
  with 4 show ?case by (auto simp: pad_def sign_of_Cons word_gt_0)
qed

lemma compare_components_three:
  obtains f :: "u64 list \<Rightarrow> u64 list" where
    "\<And>x y. x \<in> {a, b, c} \<Longrightarrow> y \<in> {a, b, c} \<Longrightarrow> compare_components x y = sign_of (f x) (f y)"
proof
  fix x y assume "x \<in> {a, b, c}" "y \<in> {a, b, c}"
  then show "compare_components x y =
      sign_of (pad (length a + length b + length c) x) (pad (length a + length b + length c) y)"
    by (intro compare_components_pad) auto
qed

lemma sign_of_neg [simp]: "sign_of a b < 0 \<longleftrightarrow> a < b"
  by (simp add: sign_of_def)

lemma sign_of_flip: "sign_of a b = - sign_of b a"
  by (auto simp: sign_of_def)

lemma version_compare_flip: "version_compare a b = - version_compare b a"
proof -
  obtain f :: "u64 list \<Rightarrow> u64 list" where
    "\<And>x y. x \<in> {sv_components a, sv_components b, []} \<Longrightarrow>
       y \<in> {sv_components a, sv_components b, []} \<Longrightarrow> compare_components x y = sign_of (f x) (f y)"
    using compare_components_three [of "sv_components a" "sv_components b" "[]"] by blast
  then show ?thesis
    by (auto simp: version_compare_def sign_of_flip [of "f (sv_components a)"])
qed

lemma compare_components_self [simp]: "compare_components a a = 0"
  by (induction a) auto

lemma version_compare_self [simp]: "version_compare a a = 0"
  by (simp add: version_compare_def)

interpretation version_swo: strict_weak_order "\<lambda>a b. version_compare a b < 0"
proof unfold_locales
  fix x y z :: SoftwareVersion
  obtain f :: "u64 list \<Rightarrow> u64 list" where
    f: "\<And>u v. u \<in> {sv_components x, sv_components y, sv_components z} \<Longrightarrow>
       v \<in> {sv_components x, sv_components y, sv_components z} \<Longrightarrow>
       compare_components u v = sign_of (f u) (f v)"
    using compare_components_three [of "sv_components x" "sv_components y" "sv_components z"]
    by blast
  show "\<not> version_compare x x < 0" by simp
  show "version_compare x y < 0 \<or> version_compare y z < 0" if "version_compare x z < 0"
    using that by (auto simp: version_compare_def f split: if_splits)
  show "version_compare x z < 0" if "version_compare x y < 0" "version_compare y z < 0"
    using that by (auto simp: version_compare_def f split: if_splits)
qed

lemma version_compare_eq_trans:
  assumes "version_compare a b = 0"
  shows "version_compare a c = version_compare b c"
proof -
  obtain f :: "u64 list \<Rightarrow> u64 list" where
    f: "\<And>u v. u \<in> {sv_components a, sv_components b, sv_components c} \<Longrightarrow>
       v \<in> {sv_components a, sv_components b, sv_components c} \<Longrightarrow>
       compare_components u v = sign_of (f u) (f v)"
    using compare_components_three [of "sv_components a" "sv_components b" "sv_components c"]
    by blast
  show ?thesis
    using assms by (auto simp: version_compare_def f sign_of_def split: if_splits)
qed

lemma version_compare_range: "version_compare a b \<in> {-1, 0, 1}"
proof -
  have "compare_components xs ys \<in> {-1, 0, 1}" for xs ys
    by (induction xs ys rule: compare_components.induct) auto
  then show ?thesis by (simp add: version_compare_def)
qed

section \<open>Intervals\<close>

text \<open>Containment only depends on a version up to comparison, and is closed between members.\<close>

lemma range_contains_iff:
  "range_contains r v \<longleftrightarrow>
     version_valid v \<and>
     (version_valid (vr_minimum r) \<longrightarrow> \<not> version_compare v (vr_minimum r) < 0) \<and>
     (version_valid (vr_maximum r) \<longrightarrow> \<not> version_compare (vr_maximum r) v < 0 \<and>
        (version_compare v (vr_maximum r) = 0 \<longrightarrow> vr_include_maximum r))"
  using version_compare_flip [of "vr_maximum r" v]
  by (auto simp: range_contains_def Let_def)

lemma range_contains_convex:
  assumes a: "range_contains r a" and c: "range_contains r c" and b: "version_valid b"
    and ab: "\<not> version_compare b a < 0" and bc: "\<not> version_compare c b < 0"
  shows "range_contains r b"
proof -
  have low: "\<not> version_compare b (vr_minimum r) < 0" if "version_valid (vr_minimum r)"
    using that a ab version_swo.cotrans [of b "vr_minimum r" a] by (auto simp: range_contains_iff)
  have high: "\<not> version_compare (vr_maximum r) b < 0" if "version_valid (vr_maximum r)"
    using that c bc version_swo.cotrans [of "vr_maximum r" b c] by (auto simp: range_contains_iff)
  have incl: "vr_include_maximum r"
    if m: "version_valid (vr_maximum r)" and eq: "version_compare b (vr_maximum r) = 0"
  proof -
    have "\<not> version_compare c (vr_maximum r) < 0"
      using bc version_compare_eq_trans [OF eq, of c] version_compare_flip [of c "vr_maximum r"]
        version_compare_flip [of c b] by auto
    then have "version_compare c (vr_maximum r) = 0"
      using c m version_compare_flip [of c "vr_maximum r"] by (auto simp: range_contains_iff)
    with c m show ?thesis by (auto simp: range_contains_iff)
  qed
  from low high incl b show ?thesis by (auto simp: range_contains_iff)
qed

lemma range_valid_contains_minimum:
  assumes "range_valid r" and "version_valid (vr_minimum r)"
  shows "range_contains r (vr_minimum r)"
  using assms by (auto simp: range_valid_def range_contains_def Let_def split: if_splits)

end
