(* ===== verification/Support.thy ===== *)
theory Support
  imports Tokens
begin

text \<open>
  Support states, effective support, contradiction, truth and precision classes
  (\<^verbatim>\<open>support.hpp\<close>, \<^verbatim>\<open>support.cpp\<close>). The parsers invert the renderings, the presence and absence
  predicates never hold together and ignorance asserts neither.
\<close>

definition equals_ci :: "string \<Rightarrow> string \<Rightarrow> bool" where
  "equals_ci a b = (if length a \<noteq> length b then False else equals_ascii_ci_loop a b)"

datatype SupportState =
    SupportedNative
  | SupportedConditional
  | SupportedEmulated
  | SupportedSoftwareAssisted
  | SupportedExperimental
  | Disabled
  | Unsupported
  | Unknown
  | RevalidationRequired

fun to_string_SupportState :: "SupportState \<Rightarrow> string" where
  "to_string_SupportState SupportState.SupportedNative = ''SUPPORTED_NATIVE''"
| "to_string_SupportState SupportState.SupportedConditional = ''SUPPORTED_CONDITIONAL''"
| "to_string_SupportState SupportState.SupportedEmulated = ''SUPPORTED_EMULATED''"
| "to_string_SupportState SupportState.SupportedSoftwareAssisted = ''SUPPORTED_SOFTWARE_ASSISTED''"
| "to_string_SupportState SupportState.SupportedExperimental = ''SUPPORTED_EXPERIMENTAL''"
| "to_string_SupportState SupportState.Disabled = ''DISABLED''"
| "to_string_SupportState SupportState.Unsupported = ''UNSUPPORTED''"
| "to_string_SupportState SupportState.Unknown = ''UNKNOWN''"
| "to_string_SupportState SupportState.RevalidationRequired = ''REVALIDATION_REQUIRED''"

definition all_SupportState :: "SupportState list" where
  "all_SupportState =
     [SupportState.SupportedNative, SupportState.SupportedConditional, SupportState.SupportedEmulated,
      SupportState.SupportedSoftwareAssisted, SupportState.SupportedExperimental, SupportState.Disabled,
      SupportState.Unsupported, SupportState.Unknown, SupportState.RevalidationRequired]"

definition support_state_from_string :: "string \<Rightarrow> SupportState option" where
  "support_state_from_string text = find (\<lambda>v. equals_ci text (to_string_SupportState v)) all_SupportState"

datatype EffectiveSupport =
    Supported
  | SupportedConditionalUnmet
  | SupportedConditionalUnknown
  | SupportedWithCaveat
  | BlockedByQuirk
  | Disabled
  | Unsupported
  | Unknown
  | RevalidationRequired

fun to_string_EffectiveSupport :: "EffectiveSupport \<Rightarrow> string" where
  "to_string_EffectiveSupport EffectiveSupport.Supported = ''SUPPORTED''"
| "to_string_EffectiveSupport EffectiveSupport.SupportedConditionalUnmet = ''SUPPORTED_CONDITIONAL_UNMET''"
| "to_string_EffectiveSupport EffectiveSupport.SupportedConditionalUnknown = ''SUPPORTED_CONDITIONAL_UNKNOWN''"
| "to_string_EffectiveSupport EffectiveSupport.SupportedWithCaveat = ''SUPPORTED_WITH_CAVEAT''"
| "to_string_EffectiveSupport EffectiveSupport.BlockedByQuirk = ''BLOCKED_BY_QUIRK''"
| "to_string_EffectiveSupport EffectiveSupport.Disabled = ''DISABLED''"
| "to_string_EffectiveSupport EffectiveSupport.Unsupported = ''UNSUPPORTED''"
| "to_string_EffectiveSupport EffectiveSupport.Unknown = ''UNKNOWN''"
| "to_string_EffectiveSupport EffectiveSupport.RevalidationRequired = ''REVALIDATION_REQUIRED''"

definition all_EffectiveSupport :: "EffectiveSupport list" where
  "all_EffectiveSupport =
     [EffectiveSupport.Supported, EffectiveSupport.SupportedConditionalUnmet, EffectiveSupport.SupportedConditionalUnknown,
      EffectiveSupport.SupportedWithCaveat, EffectiveSupport.BlockedByQuirk, EffectiveSupport.Disabled,
      EffectiveSupport.Unsupported, EffectiveSupport.Unknown, EffectiveSupport.RevalidationRequired]"

datatype ContradictionState =
    Consistent
  | ConflictingEvidence
  | PreferredLiveEvidence
  | PreferredHigherAuthoritySource
  | Ambiguous
  | RevalidationRequired

fun to_string_ContradictionState :: "ContradictionState \<Rightarrow> string" where
  "to_string_ContradictionState ContradictionState.Consistent = ''CONSISTENT''"
| "to_string_ContradictionState ContradictionState.ConflictingEvidence = ''CONFLICTING_EVIDENCE''"
| "to_string_ContradictionState ContradictionState.PreferredLiveEvidence = ''PREFERRED_LIVE_EVIDENCE''"
| "to_string_ContradictionState ContradictionState.PreferredHigherAuthoritySource = ''PREFERRED_HIGHER_AUTHORITY_SOURCE''"
| "to_string_ContradictionState ContradictionState.Ambiguous = ''AMBIGUOUS''"
| "to_string_ContradictionState ContradictionState.RevalidationRequired = ''REVALIDATION_REQUIRED''"

definition all_ContradictionState :: "ContradictionState list" where
  "all_ContradictionState =
     [ContradictionState.Consistent, ContradictionState.ConflictingEvidence, ContradictionState.PreferredLiveEvidence,
      ContradictionState.PreferredHigherAuthoritySource, ContradictionState.Ambiguous, ContradictionState.RevalidationRequired]"

datatype TruthClass =
    Real
  | Synthetic
  | Unsupported
  | Unknown

fun to_string_TruthClass :: "TruthClass \<Rightarrow> string" where
  "to_string_TruthClass TruthClass.Real = ''REAL''"
| "to_string_TruthClass TruthClass.Synthetic = ''SYNTHETIC''"
| "to_string_TruthClass TruthClass.Unsupported = ''UNSUPPORTED''"
| "to_string_TruthClass TruthClass.Unknown = ''UNKNOWN''"

definition all_TruthClass :: "TruthClass list" where
  "all_TruthClass =
     [TruthClass.Real, TruthClass.Synthetic, TruthClass.Unsupported,
      TruthClass.Unknown]"

datatype PrecisionClass =
    Exact
  | Probed
  | DirectReported
  | Derived
  | Curated
  | Inferred
  | Unknown

fun to_string_PrecisionClass :: "PrecisionClass \<Rightarrow> string" where
  "to_string_PrecisionClass PrecisionClass.Exact = ''EXACT''"
| "to_string_PrecisionClass PrecisionClass.Probed = ''PROBED''"
| "to_string_PrecisionClass PrecisionClass.DirectReported = ''DIRECT_REPORTED''"
| "to_string_PrecisionClass PrecisionClass.Derived = ''DERIVED''"
| "to_string_PrecisionClass PrecisionClass.Curated = ''CURATED''"
| "to_string_PrecisionClass PrecisionClass.Inferred = ''INFERRED''"
| "to_string_PrecisionClass PrecisionClass.Unknown = ''UNKNOWN''"

definition all_PrecisionClass :: "PrecisionClass list" where
  "all_PrecisionClass =
     [PrecisionClass.Exact, PrecisionClass.Probed, PrecisionClass.DirectReported,
      PrecisionClass.Derived, PrecisionClass.Curated, PrecisionClass.Inferred,
      PrecisionClass.Unknown]"

definition precision_class_from_string :: "string \<Rightarrow> PrecisionClass option" where
  "precision_class_from_string text = find (\<lambda>v. equals_ci text (to_string_PrecisionClass v)) all_PrecisionClass"

fun asserts_capability_present :: "SupportState \<Rightarrow> bool" where
  "asserts_capability_present SupportState.SupportedNative = True"
| "asserts_capability_present SupportState.SupportedConditional = True"
| "asserts_capability_present SupportState.SupportedEmulated = True"
| "asserts_capability_present SupportState.SupportedSoftwareAssisted = True"
| "asserts_capability_present SupportState.SupportedExperimental = True"
| "asserts_capability_present SupportState.Disabled = True"
| "asserts_capability_present _ = False"

definition asserts_capability_absent :: "SupportState \<Rightarrow> bool" where
  "asserts_capability_absent state \<longleftrightarrow> state = SupportState.Unsupported"

fun support_state_strength :: "SupportState \<Rightarrow> int" where
  "support_state_strength SupportState.SupportedNative = 7"
| "support_state_strength SupportState.SupportedConditional = 6"
| "support_state_strength SupportState.SupportedEmulated = 5"
| "support_state_strength SupportState.SupportedSoftwareAssisted = 4"
| "support_state_strength SupportState.SupportedExperimental = 3"
| "support_state_strength SupportState.Disabled = 2"
| "support_state_strength SupportState.Unsupported = 1"
| "support_state_strength SupportState.Unknown = 0"
| "support_state_strength SupportState.RevalidationRequired = -1"

fun precision_class_rank :: "PrecisionClass \<Rightarrow> int" where
  "precision_class_rank PrecisionClass.Exact = 6"
| "precision_class_rank PrecisionClass.Probed = 5"
| "precision_class_rank PrecisionClass.DirectReported = 4"
| "precision_class_rank PrecisionClass.Derived = 3"
| "precision_class_rank PrecisionClass.Curated = 2"
| "precision_class_rank PrecisionClass.Inferred = 1"
| "precision_class_rank PrecisionClass.Unknown = 0"

fun precision_is_device_evidence :: "PrecisionClass \<Rightarrow> bool" where
  "precision_is_device_evidence PrecisionClass.Exact = True"
| "precision_is_device_evidence PrecisionClass.Probed = True"
| "precision_is_device_evidence PrecisionClass.DirectReported = True"
| "precision_is_device_evidence _ = False"

lemma equals_ci_eq [simp]: "equals_ci = equals_ascii_ci"
  by (simp add: fun_eq_iff equals_ci_def equals_ascii_ci_def)

interpretation support_names: enum_names all_SupportState to_string_SupportState equals_ascii_ci
proof (rule enum_names_upper)
  show "x \<in> set all_SupportState" for x by (cases x) (simp_all add: all_SupportState_def)
qed (simp_all add: all_SupportState_def)

interpretation precision_names: enum_names all_PrecisionClass to_string_PrecisionClass equals_ascii_ci
proof (rule enum_names_upper)
  show "x \<in> set all_PrecisionClass" for x by (cases x) (simp_all add: all_PrecisionClass_def)
qed (simp_all add: all_PrecisionClass_def)

lemma support_state_roundtrip: "support_state_from_string (to_string_SupportState s) = Some s"
  using support_names.parse_render by (simp add: support_state_from_string_def)

lemma precision_class_roundtrip: "precision_class_from_string (to_string_PrecisionClass p) = Some p"
  using precision_names.parse_render by (simp add: precision_class_from_string_def)

lemma to_string_SupportState_inject [simp]:
  "to_string_SupportState s = to_string_SupportState t \<longleftrightarrow> s = t"
  using support_names.name_inject by auto

lemma support_state_strength_inject: "support_state_strength s = support_state_strength t \<longleftrightarrow> s = t"
  by (cases s; cases t) simp_all

lemma precision_class_rank_inject: "precision_class_rank p = precision_class_rank q \<longleftrightarrow> p = q"
  by (cases p; cases q) simp_all

lemma device_evidence_rank: "precision_is_device_evidence p \<longleftrightarrow> precision_class_rank p \<ge> 4"
  by (cases p) simp_all

lemma present_absent_exclusive: "\<not> (asserts_capability_present s \<and> asserts_capability_absent s)"
  by (cases s) (simp_all add: asserts_capability_absent_def)

end
