(* ===== verification/Provenance.thy ===== *)
theory Provenance
  imports Support
begin

text \<open>
  Evidence provenance (\<^verbatim>\<open>provenance.hpp\<close>, \<^verbatim>\<open>provenance.cpp\<close>): source classes and their authority,
  provenance classes with their strength and durability, publisher identity and the staleness flags,
  which are kept as the bits of a 32-bit word.
\<close>

datatype SourceClass =
    Unspecified
  | SyntheticBackend
  | ImportedManifest
  | StaticCuratedDatabase
  | AcpiSmbios
  | PciConfiguration
  | OsEnumeration
  | NicDriverApi
  | CxlEnumeration
  | RocmSmi
  | Nvml
  | CudaRuntime
  | RuntimeProbe
  | FirmwareQuery
  | DriverQuery
  | LiveVendorApi
  | HardwareProbe

fun to_string_SourceClass :: "SourceClass \<Rightarrow> string" where
  "to_string_SourceClass SourceClass.Unspecified = ''unspecified''"
| "to_string_SourceClass SourceClass.SyntheticBackend = ''synthetic-backend''"
| "to_string_SourceClass SourceClass.ImportedManifest = ''imported-manifest''"
| "to_string_SourceClass SourceClass.StaticCuratedDatabase = ''static-curated-database''"
| "to_string_SourceClass SourceClass.AcpiSmbios = ''acpi-smbios''"
| "to_string_SourceClass SourceClass.PciConfiguration = ''pci-configuration''"
| "to_string_SourceClass SourceClass.OsEnumeration = ''os-enumeration''"
| "to_string_SourceClass SourceClass.NicDriverApi = ''nic-driver-api''"
| "to_string_SourceClass SourceClass.CxlEnumeration = ''cxl-enumeration''"
| "to_string_SourceClass SourceClass.RocmSmi = ''rocm-smi''"
| "to_string_SourceClass SourceClass.Nvml = ''nvml''"
| "to_string_SourceClass SourceClass.CudaRuntime = ''cuda-runtime''"
| "to_string_SourceClass SourceClass.RuntimeProbe = ''runtime-probe''"
| "to_string_SourceClass SourceClass.FirmwareQuery = ''firmware-query''"
| "to_string_SourceClass SourceClass.DriverQuery = ''driver-query''"
| "to_string_SourceClass SourceClass.LiveVendorApi = ''live-vendor-api''"
| "to_string_SourceClass SourceClass.HardwareProbe = ''hardware-probe''"

definition all_SourceClass :: "SourceClass list" where
  "all_SourceClass =
     [SourceClass.Unspecified, SourceClass.SyntheticBackend, SourceClass.ImportedManifest,
      SourceClass.StaticCuratedDatabase, SourceClass.AcpiSmbios, SourceClass.PciConfiguration,
      SourceClass.OsEnumeration, SourceClass.NicDriverApi, SourceClass.CxlEnumeration,
      SourceClass.RocmSmi, SourceClass.Nvml, SourceClass.CudaRuntime,
      SourceClass.RuntimeProbe, SourceClass.FirmwareQuery, SourceClass.DriverQuery,
      SourceClass.LiveVendorApi, SourceClass.HardwareProbe]"

definition source_class_from_string :: "string \<Rightarrow> SourceClass option" where
  "source_class_from_string text = find (\<lambda>v. equals_ci text (to_string_SourceClass v)) all_SourceClass"

datatype ProvenanceClass =
    RealLiveHardware
  | RealOsReported
  | RealVendorApi
  | RealRuntimeProbe
  | CuratedStatic
  | Derived
  | Imported
  | Synthetic
  | UnknownSource

fun to_string_ProvenanceClass :: "ProvenanceClass \<Rightarrow> string" where
  "to_string_ProvenanceClass ProvenanceClass.RealLiveHardware = ''REAL_LIVE_HARDWARE''"
| "to_string_ProvenanceClass ProvenanceClass.RealOsReported = ''REAL_OS_REPORTED''"
| "to_string_ProvenanceClass ProvenanceClass.RealVendorApi = ''REAL_VENDOR_API''"
| "to_string_ProvenanceClass ProvenanceClass.RealRuntimeProbe = ''REAL_RUNTIME_PROBE''"
| "to_string_ProvenanceClass ProvenanceClass.CuratedStatic = ''CURATED_STATIC''"
| "to_string_ProvenanceClass ProvenanceClass.Derived = ''DERIVED''"
| "to_string_ProvenanceClass ProvenanceClass.Imported = ''IMPORTED''"
| "to_string_ProvenanceClass ProvenanceClass.Synthetic = ''SYNTHETIC''"
| "to_string_ProvenanceClass ProvenanceClass.UnknownSource = ''UNKNOWN_SOURCE''"

definition all_ProvenanceClass :: "ProvenanceClass list" where
  "all_ProvenanceClass =
     [ProvenanceClass.RealLiveHardware, ProvenanceClass.RealOsReported, ProvenanceClass.RealVendorApi,
      ProvenanceClass.RealRuntimeProbe, ProvenanceClass.CuratedStatic, ProvenanceClass.Derived,
      ProvenanceClass.Imported, ProvenanceClass.Synthetic, ProvenanceClass.UnknownSource]"

definition provenance_class_from_string :: "string \<Rightarrow> ProvenanceClass option" where
  "provenance_class_from_string text = find (\<lambda>v. equals_ci text (to_string_ProvenanceClass v)) all_ProvenanceClass"

datatype PublisherState =
    Unknown
  | Registered
  | Fenced
  | Dead

fun to_string_PublisherState :: "PublisherState \<Rightarrow> string" where
  "to_string_PublisherState PublisherState.Unknown = ''unknown''"
| "to_string_PublisherState PublisherState.Registered = ''registered''"
| "to_string_PublisherState PublisherState.Fenced = ''fenced''"
| "to_string_PublisherState PublisherState.Dead = ''dead''"

definition all_PublisherState :: "PublisherState list" where
  "all_PublisherState =
     [PublisherState.Unknown, PublisherState.Registered, PublisherState.Fenced,
      PublisherState.Dead]"

fun source_authority :: "SourceClass \<Rightarrow> int" where
  "source_authority SourceClass.SyntheticBackend = 1"
| "source_authority SourceClass.Unspecified = 2"
| "source_authority SourceClass.ImportedManifest = 3"
| "source_authority SourceClass.StaticCuratedDatabase = 4"
| "source_authority SourceClass.AcpiSmbios = 5"
| "source_authority SourceClass.PciConfiguration = 6"
| "source_authority SourceClass.OsEnumeration = 7"
| "source_authority SourceClass.NicDriverApi = 8"
| "source_authority SourceClass.CxlEnumeration = 9"
| "source_authority SourceClass.RocmSmi = 10"
| "source_authority SourceClass.Nvml = 11"
| "source_authority SourceClass.CudaRuntime = 12"
| "source_authority SourceClass.RuntimeProbe = 13"
| "source_authority SourceClass.FirmwareQuery = 14"
| "source_authority SourceClass.DriverQuery = 15"
| "source_authority SourceClass.LiveVendorApi = 16"
| "source_authority SourceClass.HardwareProbe = 17"

fun provenance_is_real :: "ProvenanceClass \<Rightarrow> bool" where
  "provenance_is_real ProvenanceClass.RealLiveHardware = True"
| "provenance_is_real ProvenanceClass.RealOsReported = True"
| "provenance_is_real ProvenanceClass.RealVendorApi = True"
| "provenance_is_real ProvenanceClass.RealRuntimeProbe = True"
| "provenance_is_real _ = False"

fun provenance_is_durable :: "ProvenanceClass \<Rightarrow> bool" where
  "provenance_is_durable ProvenanceClass.CuratedStatic = True"
| "provenance_is_durable ProvenanceClass.Imported = True"
| "provenance_is_durable ProvenanceClass.Derived = True"
| "provenance_is_durable _ = False"

fun default_provenance_for :: "SourceClass \<Rightarrow> ProvenanceClass" where
  "default_provenance_for SourceClass.SyntheticBackend = ProvenanceClass.Synthetic"
| "default_provenance_for SourceClass.ImportedManifest = ProvenanceClass.Imported"
| "default_provenance_for SourceClass.StaticCuratedDatabase = ProvenanceClass.CuratedStatic"
| "default_provenance_for SourceClass.AcpiSmbios = ProvenanceClass.RealOsReported"
| "default_provenance_for SourceClass.PciConfiguration = ProvenanceClass.RealOsReported"
| "default_provenance_for SourceClass.OsEnumeration = ProvenanceClass.RealOsReported"
| "default_provenance_for SourceClass.NicDriverApi = ProvenanceClass.RealVendorApi"
| "default_provenance_for SourceClass.CxlEnumeration = ProvenanceClass.RealVendorApi"
| "default_provenance_for SourceClass.RocmSmi = ProvenanceClass.RealVendorApi"
| "default_provenance_for SourceClass.Nvml = ProvenanceClass.RealVendorApi"
| "default_provenance_for SourceClass.CudaRuntime = ProvenanceClass.RealVendorApi"
| "default_provenance_for SourceClass.RuntimeProbe = ProvenanceClass.RealRuntimeProbe"
| "default_provenance_for SourceClass.FirmwareQuery = ProvenanceClass.RealRuntimeProbe"
| "default_provenance_for SourceClass.DriverQuery = ProvenanceClass.RealRuntimeProbe"
| "default_provenance_for SourceClass.LiveVendorApi = ProvenanceClass.RealLiveHardware"
| "default_provenance_for SourceClass.HardwareProbe = ProvenanceClass.RealLiveHardware"
| "default_provenance_for SourceClass.Unspecified = ProvenanceClass.UnknownSource"

fun provenance_strength :: "ProvenanceClass \<Rightarrow> int" where
  "provenance_strength ProvenanceClass.Synthetic = 0"
| "provenance_strength ProvenanceClass.UnknownSource = 1"
| "provenance_strength ProvenanceClass.Imported = 2"
| "provenance_strength ProvenanceClass.CuratedStatic = 3"
| "provenance_strength ProvenanceClass.Derived = 4"
| "provenance_strength ProvenanceClass.RealOsReported = 5"
| "provenance_strength ProvenanceClass.RealVendorApi = 6"
| "provenance_strength ProvenanceClass.RealRuntimeProbe = 7"
| "provenance_strength ProvenanceClass.RealLiveHardware = 8"

definition provenance_allowed_for :: "ProvenanceClass \<Rightarrow> SourceClass \<Rightarrow> bool" where
  "provenance_allowed_for provenance source =
     (let implied = default_provenance_for source in
      provenance_strength provenance \<le> provenance_strength implied)"

record PublisherIdentity =
  pub_id :: string
  pub_boot :: u64
  pub_epoch :: u64

definition no_publisher :: PublisherIdentity where
  "no_publisher = \<lparr>pub_id = [], pub_boot = 0, pub_epoch = 0\<rparr>"

record EvidenceSource =
  es_source_class :: SourceClass
  es_provenance :: ProvenanceClass
  es_publisher :: PublisherIdentity
  es_adapter :: string
  es_native_reference :: string
  es_observation_sequence :: u64
  es_observed_at_utc :: string
  es_evidence_generation :: u64
  es_platform_generation :: u64

definition authority :: "EvidenceSource \<Rightarrow> int" where
  "authority source = source_authority (es_source_class source)"

definition live :: "EvidenceSource \<Rightarrow> bool" where
  "live source = provenance_is_real (es_provenance source)"

definition durable :: "EvidenceSource \<Rightarrow> bool" where
  "durable source = provenance_is_durable (es_provenance source)"

section \<open>Staleness flags\<close>

type_synonym StalenessFlag = u32

definition Stale_None :: StalenessFlag where
  "Stale_None = 0"

definition Stale_DeviceGenerationSuperseded :: StalenessFlag where
  "Stale_DeviceGenerationSuperseded = 1"

definition Stale_DeviceBootChanged :: StalenessFlag where
  "Stale_DeviceBootChanged = 2"

definition Stale_DriverGenerationChanged :: StalenessFlag where
  "Stale_DriverGenerationChanged = 4"

definition Stale_FirmwareGenerationChanged :: StalenessFlag where
  "Stale_FirmwareGenerationChanged = 8"

definition Stale_RuntimeGenerationChanged :: StalenessFlag where
  "Stale_RuntimeGenerationChanged = 16"

definition Stale_PlatformGenerationChanged :: StalenessFlag where
  "Stale_PlatformGenerationChanged = 32"

definition Stale_PublisherFenced :: StalenessFlag where
  "Stale_PublisherFenced = 64"

definition Stale_EpochSuperseded :: StalenessFlag where
  "Stale_EpochSuperseded = 128"

definition Stale_SupersededByNewerEvidence :: StalenessFlag where
  "Stale_SupersededByNewerEvidence = 256"

definition Stale_Withdrawn :: StalenessFlag where
  "Stale_Withdrawn = 512"

definition Stale_RequiresRevalidation :: StalenessFlag where
  "Stale_RequiresRevalidation = 1024"

definition is_stale :: "StalenessFlag \<Rightarrow> bool" where
  "is_stale flags \<longleftrightarrow> flags \<noteq> Stale_None"

fun join_comma :: "string list \<Rightarrow> string" where
  "join_comma [] = []"
| "join_comma [s] = s"
| "join_comma (s # ss) = s @ '','' @ join_comma ss"

definition staleness_texts :: "(StalenessFlag \<times> string) list" where
  "staleness_texts =
     [(Stale_DeviceGenerationSuperseded, ''device-generation-superseded''),
      (Stale_DeviceBootChanged, ''device-boot-changed''),
      (Stale_DriverGenerationChanged, ''driver-generation-changed''),
      (Stale_FirmwareGenerationChanged, ''firmware-generation-changed''),
      (Stale_RuntimeGenerationChanged, ''runtime-generation-changed''),
      (Stale_PlatformGenerationChanged, ''platform-generation-changed''),
      (Stale_PublisherFenced, ''publisher-fenced''),
      (Stale_EpochSuperseded, ''epoch-superseded''),
      (Stale_SupersededByNewerEvidence, ''superseded-by-newer-evidence''),
      (Stale_Withdrawn, ''withdrawn''),
      (Stale_RequiresRevalidation, ''requires-revalidation'')]"

definition describe_staleness :: "StalenessFlag \<Rightarrow> string" where
  "describe_staleness flags =
     (if flags = Stale_None then ''current''
      else join_comma (map snd (filter (\<lambda>(bit, _). flags AND bit \<noteq> 0) staleness_texts)))"

definition staleness_code :: "StalenessFlag \<Rightarrow> string" where
  "staleness_code raw =
     (if raw = 0 then ''current''
      else if raw AND Stale_Withdrawn \<noteq> 0 then ''withdrawn''
      else if raw AND Stale_RequiresRevalidation \<noteq> 0 then ''revalidation-required''
      else if raw AND Stale_DeviceGenerationSuperseded \<noteq> 0 then ''stale-device-generation''
      else if raw AND Stale_DeviceBootChanged \<noteq> 0 then ''stale-device-boot''
      else if raw AND Stale_DriverGenerationChanged \<noteq> 0 then ''stale-driver-generation''
      else if raw AND Stale_FirmwareGenerationChanged \<noteq> 0 then ''stale-firmware-generation''
      else if raw AND Stale_RuntimeGenerationChanged \<noteq> 0 then ''stale-runtime-generation''
      else if raw AND Stale_PlatformGenerationChanged \<noteq> 0 then ''stale-platform-generation''
      else if raw AND Stale_PublisherFenced \<noteq> 0 then ''publisher-fenced''
      else if raw AND Stale_EpochSuperseded \<noteq> 0 then ''stale-epoch''
      else ''superseded'')"

lemmas stale_flag_defs = Stale_None_def Stale_DeviceGenerationSuperseded_def Stale_DeviceBootChanged_def Stale_DriverGenerationChanged_def Stale_FirmwareGenerationChanged_def Stale_RuntimeGenerationChanged_def Stale_PlatformGenerationChanged_def Stale_PublisherFenced_def Stale_EpochSuperseded_def Stale_SupersededByNewerEvidence_def Stale_Withdrawn_def Stale_RequiresRevalidation_def

section \<open>Properties\<close>

interpretation source_names: enum_names all_SourceClass to_string_SourceClass equals_ascii_ci
proof (rule enum_names_lower)
  show "x \<in> set all_SourceClass" for x by (cases x) (simp_all add: all_SourceClass_def)
qed (simp_all add: all_SourceClass_def)

interpretation provenance_names: enum_names all_ProvenanceClass to_string_ProvenanceClass equals_ascii_ci
proof (rule enum_names_upper)
  show "x \<in> set all_ProvenanceClass" for x by (cases x) (simp_all add: all_ProvenanceClass_def)
qed (simp_all add: all_ProvenanceClass_def)

lemma source_class_roundtrip: "source_class_from_string (to_string_SourceClass s) = Some s"
  using source_names.parse_render by (simp add: source_class_from_string_def)

lemma provenance_class_roundtrip: "provenance_class_from_string (to_string_ProvenanceClass p) = Some p"
  using provenance_names.parse_render by (simp add: provenance_class_from_string_def)

lemma to_string_SourceClass_inject [simp]:
  "to_string_SourceClass s = to_string_SourceClass t \<longleftrightarrow> s = t"
  using source_names.name_inject by auto

lemma real_not_durable: "provenance_is_real p \<Longrightarrow> \<not> provenance_is_durable p"
  by (cases p) simp_all

lemma provenance_strength_inject: "provenance_strength p = provenance_strength q \<longleftrightarrow> p = q"
  by (cases p; cases q) simp_all

lemma provenance_allowed_synthetic:
  "provenance_allowed_for p SourceClass.SyntheticBackend \<longleftrightarrow> p = ProvenanceClass.Synthetic"
  by (cases p) (simp_all add: provenance_allowed_for_def)

lemma real_source_class:
  "provenance_allowed_for p s \<Longrightarrow> provenance_is_real p \<Longrightarrow> provenance_is_real (default_provenance_for s)"
  by (cases p; cases s) (simp_all add: provenance_allowed_for_def)

lemma synthetic_lowest_authority:
  "s \<noteq> SourceClass.SyntheticBackend \<Longrightarrow> source_authority SourceClass.SyntheticBackend < source_authority s"
  by (cases s) simp_all

lemma source_authority_inject: "source_authority s = source_authority t \<longleftrightarrow> s = t"
  by (cases s; cases t) simp_all

lemma or_zero_iff [simp]: "a OR b = 0 \<longleftrightarrow> a = 0 \<and> b = (0 :: u32)"
  by (rule or_eq_0_iff)

lemma is_stale_or [simp]: "is_stale (a OR b) \<longleftrightarrow> is_stale a \<or> is_stale b"
  by (auto simp: is_stale_def Stale_None_def)

end
