(* ===== verification/Condition.thy ===== *)
theory Condition
  imports Software_Version Provenance
begin

text \<open>
  Conditional capability (\<^verbatim>\<open>condition.hpp\<close>, \<^verbatim>\<open>condition.cpp\<close>): predicate trees, their structural
  validation with an explicit stack, their canonical rendering and their three-valued evaluation
  against a caller-supplied environment.

  A shared pointer to a node is an \<^typ>\<open>'a option\<close>, a null pointer being \<^term>\<open>None\<close>. The source calls
  \<^verbatim>\<open>children.front()\<close> on a \<^verbatim>\<open>Not\<close> node without looking at the number of children, which is undefined on
  an empty vector; the model reads a null child there, and validation rules the case out.

  Shown here: validation accepts exactly the trees that satisfy a recursive reference specification;
  adding facts to an environment never changes a decided answer of a tree without feature gates;
  such a tree is never decided by an environment that holds none of its facts.
\<close>

datatype ConditionKind =
    Always
  | MinDriverVersion
  | MinFirmwareVersion
  | MinRuntimeVersion
  | MinPlatformGeneration
  | RequiredOs
  | RequiredKernelVersion
  | RequiredDeviceMode
  | RequiredTopology
  | RequiredPeerHardware
  | RequiredPartitionState
  | RequiredPlatformSetting
  | RequiredPrivilege
  | RequiredDeviceGeneration
  | RequiredFeatureGate
  | AllOf
  | AnyOf
  | NotOf

fun to_string_ConditionKind :: "ConditionKind \<Rightarrow> string" where
  "to_string_ConditionKind ConditionKind.Always = ''always''"
| "to_string_ConditionKind ConditionKind.MinDriverVersion = ''min-driver-version''"
| "to_string_ConditionKind ConditionKind.MinFirmwareVersion = ''min-firmware-version''"
| "to_string_ConditionKind ConditionKind.MinRuntimeVersion = ''min-runtime-version''"
| "to_string_ConditionKind ConditionKind.MinPlatformGeneration = ''min-platform-generation''"
| "to_string_ConditionKind ConditionKind.RequiredOs = ''required-os''"
| "to_string_ConditionKind ConditionKind.RequiredKernelVersion = ''required-kernel-version''"
| "to_string_ConditionKind ConditionKind.RequiredDeviceMode = ''required-device-mode''"
| "to_string_ConditionKind ConditionKind.RequiredTopology = ''required-topology''"
| "to_string_ConditionKind ConditionKind.RequiredPeerHardware = ''required-peer-hardware''"
| "to_string_ConditionKind ConditionKind.RequiredPartitionState = ''required-partition-state''"
| "to_string_ConditionKind ConditionKind.RequiredPlatformSetting = ''required-platform-setting''"
| "to_string_ConditionKind ConditionKind.RequiredPrivilege = ''required-privilege''"
| "to_string_ConditionKind ConditionKind.RequiredDeviceGeneration = ''required-device-generation''"
| "to_string_ConditionKind ConditionKind.RequiredFeatureGate = ''required-feature-gate''"
| "to_string_ConditionKind ConditionKind.AllOf = ''all-of''"
| "to_string_ConditionKind ConditionKind.AnyOf = ''any-of''"
| "to_string_ConditionKind ConditionKind.NotOf = ''not''"

definition all_ConditionKind :: "ConditionKind list" where
  "all_ConditionKind =
     [ConditionKind.Always, ConditionKind.MinDriverVersion, ConditionKind.MinFirmwareVersion,
      ConditionKind.MinRuntimeVersion, ConditionKind.MinPlatformGeneration, ConditionKind.RequiredOs,
      ConditionKind.RequiredKernelVersion, ConditionKind.RequiredDeviceMode, ConditionKind.RequiredTopology,
      ConditionKind.RequiredPeerHardware, ConditionKind.RequiredPartitionState, ConditionKind.RequiredPlatformSetting,
      ConditionKind.RequiredPrivilege, ConditionKind.RequiredDeviceGeneration, ConditionKind.RequiredFeatureGate,
      ConditionKind.AllOf, ConditionKind.AnyOf, ConditionKind.NotOf]"

definition condition_kind_from_string :: "string \<Rightarrow> ConditionKind option" where
  "condition_kind_from_string text = find (\<lambda>v. equals_ascii_ci text (to_string_ConditionKind v)) all_ConditionKind"

datatype ConditionOutcome =
    Satisfied
  | Unsatisfied
  | Unknown
  | NotApplicable

fun to_string_ConditionOutcome :: "ConditionOutcome \<Rightarrow> string" where
  "to_string_ConditionOutcome ConditionOutcome.Satisfied = ''satisfied''"
| "to_string_ConditionOutcome ConditionOutcome.Unsatisfied = ''unsatisfied''"
| "to_string_ConditionOutcome ConditionOutcome.Unknown = ''unknown''"
| "to_string_ConditionOutcome ConditionOutcome.NotApplicable = ''not-applicable''"

definition all_ConditionOutcome :: "ConditionOutcome list" where
  "all_ConditionOutcome =
     [ConditionOutcome.Satisfied, ConditionOutcome.Unsatisfied, ConditionOutcome.Unknown,
      ConditionOutcome.NotApplicable]"

definition kDriverVersion :: string where
  "kDriverVersion = ''driver.version''"

definition kFirmwareVersion :: string where
  "kFirmwareVersion = ''firmware.version''"

definition kRuntimeVersion :: string where
  "kRuntimeVersion = ''runtime.version''"

definition kPlatformGeneration :: string where
  "kPlatformGeneration = ''platform.generation''"

definition kOs :: string where
  "kOs = ''os.name''"

definition kKernelVersion :: string where
  "kKernelVersion = ''kernel.version''"

definition kDeviceMode :: string where
  "kDeviceMode = ''device.mode''"

definition kTopology :: string where
  "kTopology = ''topology''"

definition kPeerHardware :: string where
  "kPeerHardware = ''peer.hardware''"

definition kPartitionState :: string where
  "kPartitionState = ''partition.state''"

definition kPrivilege :: string where
  "kPrivilege = ''privilege''"

definition kDeviceGeneration :: string where
  "kDeviceGeneration = ''device.generation''"

definition kPlatformSettingPrefix :: string where
  "kPlatformSettingPrefix = ''platform.setting.''"

definition kFeatureGatePrefix :: string where
  "kFeatureGatePrefix = ''feature.gate.''"

datatype ConditionNode =
  ConditionNode
    (cn_kind: ConditionKind) (cn_key: string) (cn_value: string)
    (cn_children: "ConditionNode option list")

type_synonym ConditionPtr = "ConditionNode option"
type_synonym EnvironmentContext = "(string, string) omap"

record ConditionEvidence =
  ce_expression :: string
  ce_outcome :: ConditionOutcome
  ce_detail :: string

record ConditionEvaluation =
  cev_outcome :: ConditionOutcome
  cev_evidence :: "ConditionEvidence list"

fun is_comparison_kind :: "ConditionKind \<Rightarrow> bool" where
  "is_comparison_kind ConditionKind.MinDriverVersion = True"
| "is_comparison_kind ConditionKind.MinFirmwareVersion = True"
| "is_comparison_kind ConditionKind.MinRuntimeVersion = True"
| "is_comparison_kind ConditionKind.MinPlatformGeneration = True"
| "is_comparison_kind ConditionKind.RequiredKernelVersion = True"
| "is_comparison_kind _ = False"

fun is_equality_kind :: "ConditionKind \<Rightarrow> bool" where
  "is_equality_kind ConditionKind.RequiredOs = True"
| "is_equality_kind ConditionKind.RequiredDeviceMode = True"
| "is_equality_kind ConditionKind.RequiredTopology = True"
| "is_equality_kind ConditionKind.RequiredPeerHardware = True"
| "is_equality_kind ConditionKind.RequiredPartitionState = True"
| "is_equality_kind ConditionKind.RequiredPrivilege = True"
| "is_equality_kind ConditionKind.RequiredDeviceGeneration = True"
| "is_equality_kind _ = False"

definition comparison_operator_text :: "ConditionKind \<Rightarrow> string" where
  "comparison_operator_text kind = ''>=''"

section \<open>The environment\<close>

definition env_set :: "string \<Rightarrow> string \<Rightarrow> EnvironmentContext \<Rightarrow> EnvironmentContext" where
  "env_set key value env = om_put (ascii_lower key) (ascii_lower value) env"

definition env_has :: "EnvironmentContext \<Rightarrow> string \<Rightarrow> bool" where
  "env_has env key \<longleftrightarrow> om_find key env \<noteq> None"

definition env_find :: "EnvironmentContext \<Rightarrow> string \<Rightarrow> string option" where
  "env_find env key = om_find key env"

section \<open>Validation\<close>

text \<open>The per-node checks of the loop body, in the order of the source.\<close>

definition check_condition_node :: "RegistryLimits \<Rightarrow> ConditionNode \<Rightarrow> Status" where
  "check_condition_node limits current =
     (if length (cn_children current) > max_condition_children limits then LimitExceeded
      else if length (cn_key current) > max_name_length limits \<or>
              length (cn_value current) > max_name_length limits then LimitExceeded
      else case cn_kind current of
        ConditionKind.AllOf \<Rightarrow>
          (if cn_children current = [] then InvalidCondition
           else if cn_key current \<noteq> [] \<or> cn_value current \<noteq> [] then InvalidCondition else Ok)
      | ConditionKind.AnyOf \<Rightarrow>
          (if cn_children current = [] then InvalidCondition
           else if cn_key current \<noteq> [] \<or> cn_value current \<noteq> [] then InvalidCondition else Ok)
      | ConditionKind.NotOf \<Rightarrow> (if length (cn_children current) \<noteq> 1 then InvalidCondition else Ok)
      | ConditionKind.Always \<Rightarrow> (if cn_children current \<noteq> [] then InvalidCondition else Ok)
      | ConditionKind.RequiredFeatureGate \<Rightarrow> (if cn_key current = [] then InvalidCondition else Ok)
      | ConditionKind.RequiredPlatformSetting \<Rightarrow>
          (if cn_key current = [] \<or> cn_value current = [] then InvalidCondition else Ok)
      | kind \<Rightarrow>
          (if cn_value current = [] then InvalidCondition
           else if is_comparison_kind kind \<and> \<not> is_parseable (cn_value current) then InvalidCondition
           else if is_equality_kind kind \<and> cn_children current \<noteq> [] then InvalidCondition else Ok))"

text \<open>The stack is kept with its back at the head of the list.\<close>

function validate_condition_loop ::
  "RegistryLimits \<Rightarrow> nat \<Rightarrow> (ConditionPtr \<times> nat) list \<Rightarrow> Status" where
  "validate_condition_loop limits visited [] = Ok"
| "validate_condition_loop limits visited ((node, depth) # stack) =
     (if Suc visited > max_condition_nodes limits then LimitExceeded
      else if depth > max_record_depth limits + 2 then LimitExceeded
      else case node of
        None \<Rightarrow> InvalidCondition
      | Some current \<Rightarrow>
          if \<not> ok (check_condition_node limits current) then check_condition_node limits current
          else validate_condition_loop limits (Suc visited)
                 (rev (map (\<lambda>child. (child, Suc depth)) (cn_children current)) @ stack))"
  by pat_completeness auto
termination
  by (relation "measure (\<lambda>(limits, visited, stack). Suc (max_condition_nodes limits) - visited)") auto

definition validate_condition :: "ConditionNode \<Rightarrow> RegistryLimits \<Rightarrow> Status" where
  "validate_condition node limits =
     (let status = validate_condition_loop limits 0 [(Some node, 1)] in
      if \<not> ok status then status
      else if \<not> is_comparison_kind (cn_kind node) \<and> \<not> is_equality_kind (cn_kind node) \<and>
              cn_kind node \<noteq> ConditionKind.Always \<and> cn_kind node \<noteq> ConditionKind.AllOf \<and>
              cn_kind node \<noteq> ConditionKind.AnyOf \<and> cn_kind node \<noteq> ConditionKind.NotOf \<and>
              cn_kind node \<noteq> ConditionKind.RequiredFeatureGate \<and>
              cn_kind node \<noteq> ConditionKind.RequiredPlatformSetting
      then InvalidCondition else Ok)"

section \<open>Rendering\<close>

fun join_with :: "string \<Rightarrow> string list \<Rightarrow> string" where
  "join_with sep [] = []"
| "join_with sep [s] = s"
| "join_with sep (s # ss) = s @ sep @ join_with sep ss"

definition describe_leaf :: "ConditionKind \<Rightarrow> string \<Rightarrow> string \<Rightarrow> string" where
  "describe_leaf kind key value =
     (case kind of
        ConditionKind.MinDriverVersion \<Rightarrow> kDriverVersion @ ''>='' @ value
      | ConditionKind.MinFirmwareVersion \<Rightarrow> kFirmwareVersion @ ''>='' @ value
      | ConditionKind.MinRuntimeVersion \<Rightarrow> kRuntimeVersion @ ''>='' @ value
      | ConditionKind.MinPlatformGeneration \<Rightarrow>
          kPlatformGeneration @ comparison_operator_text kind @ value
      | ConditionKind.RequiredOs \<Rightarrow> kOs @ ''=='' @ value
      | ConditionKind.RequiredKernelVersion \<Rightarrow> kKernelVersion @ ''>='' @ value
      | ConditionKind.RequiredDeviceMode \<Rightarrow> kDeviceMode @ ''=='' @ value
      | ConditionKind.RequiredTopology \<Rightarrow> kTopology @ ''=='' @ value
      | ConditionKind.RequiredPeerHardware \<Rightarrow> kPeerHardware @ ''=='' @ value
      | ConditionKind.RequiredPartitionState \<Rightarrow> kPartitionState @ ''=='' @ value
      | ConditionKind.RequiredPrivilege \<Rightarrow> kPrivilege @ ''=='' @ value
      | ConditionKind.RequiredDeviceGeneration \<Rightarrow>
          kDeviceGeneration @ comparison_operator_text kind @ value
      | ConditionKind.RequiredPlatformSetting \<Rightarrow> kPlatformSettingPrefix @ key @ ''=='' @ value
      | ConditionKind.RequiredFeatureGate \<Rightarrow> kFeatureGatePrefix @ key @ ''==present''
      | _ \<Rightarrow> ''always'')"

lemma size_child [termination_simp]:
  "Some node \<in> set children \<Longrightarrow> size node < Suc (size_list (size_option size) children)"
  by (induction children) auto

lemma size_first_child [termination_simp]:
  "children = Some node # rest \<Longrightarrow> size node < Suc (size_list (size_option size) children)"
  by simp

fun describe_node :: "ConditionNode \<Rightarrow> string" where
  "describe_node (ConditionNode kind key value children) =
     (let parts =
            map (\<lambda>child. case child of None \<Rightarrow> ''always'' | Some node \<Rightarrow> describe_node node)
              children
      in case kind of
        ConditionKind.Always \<Rightarrow> ''always''
      | ConditionKind.AllOf \<Rightarrow>
          ''all_of('' @ join_with '', '' parts @ '')''
      | ConditionKind.AnyOf \<Rightarrow>
          ''any_of('' @ join_with '', '' parts @ '')''
      | ConditionKind.NotOf \<Rightarrow>
          ''not('' @ (case parts of [] \<Rightarrow> ''always'' | s # _ \<Rightarrow> s) @ '')''
      | _ \<Rightarrow> describe_leaf kind key value)"

definition describe_condition :: "ConditionPtr \<Rightarrow> string" where
  "describe_condition node = (case node of None \<Rightarrow> ''always'' | Some n \<Rightarrow> describe_node n)"

section \<open>Evaluation\<close>

text \<open>
  \<^verbatim>\<open>std::stoull\<close> in base ten: leading white space, an optional sign, at least one digit, the rest
  ignored; a magnitude beyond 64 bits throws and a minus sign negates modulo two to the 64. A thrown
  exception is \<^term>\<open>None\<close>.
\<close>

definition is_c_space :: "char \<Rightarrow> bool" where
  "is_c_space c \<longleftrightarrow> c = CHR '' '' \<or> (9 \<le> (of_char c :: nat) \<and> of_char c \<le> (13 :: nat))"

definition stoull :: "string \<Rightarrow> u64 option" where
  "stoull str =
     (let s = dropWhile is_c_space str;
          negative = (s \<noteq> [] \<and> hd s = CHR ''-'');
          body = (if s \<noteq> [] \<and> (hd s = CHR ''-'' \<or> hd s = CHR ''+'') then tl s else s);
          digits = takeWhile is_digit body
      in if digits = [] then None
         else if decimal_value digits \<ge> 2 ^ 64 then None
         else Some (if negative then - word_of_nat (decimal_value digits)
                    else word_of_nat (decimal_value digits)))"

definition leaf_result ::
  "ConditionKind \<Rightarrow> string \<Rightarrow> string \<Rightarrow> ConditionOutcome \<Rightarrow> string \<Rightarrow> ConditionEvaluation" where
  "leaf_result kind key value outcome detail =
     \<lparr>cev_outcome = outcome,
      cev_evidence = [\<lparr>ce_expression = describe_leaf kind key value, ce_outcome = outcome,
                       ce_detail = detail\<rparr>]\<rparr>"

definition evaluate_version_minimum ::
  "EnvironmentContext \<Rightarrow> string \<Rightarrow> string \<Rightarrow> ConditionOutcome \<times> string" where
  "evaluate_version_minimum env fact_key value =
     (case env_find env fact_key of
        None \<Rightarrow> (ConditionOutcome.Unknown, ''no observed '' @ fact_key)
      | Some observed \<Rightarrow>
          let required = parse_version value; actual = parse_version observed in
          if \<not> version_valid required \<or> \<not> version_valid actual
          then (ConditionOutcome.Unknown, ''unparseable version'')
          else if version_compare actual required \<ge> 0
          then (Satisfied, fact_key @ ''='' @ sv_raw actual)
          else (Unsatisfied, fact_key @ ''='' @ sv_raw actual @ '' < required '' @ sv_raw required))"

definition evaluate_equality ::
  "EnvironmentContext \<Rightarrow> string \<Rightarrow> string \<Rightarrow> ConditionOutcome \<times> string" where
  "evaluate_equality env fact_key value =
     (case env_find env fact_key of
        None \<Rightarrow> (ConditionOutcome.Unknown, ''no observed '' @ fact_key)
      | Some observed \<Rightarrow>
          if equals_ascii_ci observed value then (Satisfied, fact_key @ ''='' @ observed)
          else (Unsatisfied, fact_key @ ''='' @ observed @ '' != required '' @ value))"

definition evaluate_generation_minimum ::
  "EnvironmentContext \<Rightarrow> string \<Rightarrow> string \<Rightarrow> ConditionOutcome \<times> string" where
  "evaluate_generation_minimum env fact_key value =
     (case env_find env fact_key of
        None \<Rightarrow> (ConditionOutcome.Unknown, ''no observed '' @ fact_key)
      | Some observed \<Rightarrow>
          case stoull value of
            None \<Rightarrow> (ConditionOutcome.Unknown, ''unparseable generation requirement'')
          | Some required \<Rightarrow>
              case stoull observed of
                None \<Rightarrow> (ConditionOutcome.Unknown, ''unparseable observed generation'')
              | Some actual \<Rightarrow>
                  if actual \<ge> required then (Satisfied, fact_key @ ''='' @ u64_to_string actual)
                  else (Unsatisfied, fact_key @ ''='' @ u64_to_string actual @ '' < required '' @ value))"

definition evaluate_platform_setting ::
  "EnvironmentContext \<Rightarrow> string \<Rightarrow> string \<Rightarrow> ConditionOutcome \<times> string" where
  "evaluate_platform_setting env key value =
     (let full_key = kPlatformSettingPrefix @ key in
      case env_find env full_key of
        None \<Rightarrow> (ConditionOutcome.Unknown, ''platform setting not supplied'')
      | Some observed \<Rightarrow>
          if equals_ascii_ci observed value then (Satisfied, full_key @ ''='' @ observed)
          else (Unsatisfied, full_key @ ''='' @ observed @ '' != required '' @ value))"

definition evaluate_feature_gate :: "EnvironmentContext \<Rightarrow> string \<Rightarrow> ConditionOutcome \<times> string" where
  "evaluate_feature_gate env key =
     (let full_key = kFeatureGatePrefix @ key in
      if env_has env full_key then (Satisfied, full_key @ '' present'')
      else (Unsatisfied, full_key @ '' absent''))"

definition evaluate_leaf ::
  "EnvironmentContext \<Rightarrow> ConditionKind \<Rightarrow> string \<Rightarrow> string \<Rightarrow> ConditionOutcome \<times> string" where
  "evaluate_leaf env kind key value =
     (case kind of
        ConditionKind.MinDriverVersion \<Rightarrow> evaluate_version_minimum env kDriverVersion value
      | ConditionKind.MinFirmwareVersion \<Rightarrow> evaluate_version_minimum env kFirmwareVersion value
      | ConditionKind.MinRuntimeVersion \<Rightarrow> evaluate_version_minimum env kRuntimeVersion value
      | ConditionKind.RequiredKernelVersion \<Rightarrow> evaluate_version_minimum env kKernelVersion value
      | ConditionKind.MinPlatformGeneration \<Rightarrow>
          evaluate_generation_minimum env kPlatformGeneration value
      | ConditionKind.RequiredDeviceGeneration \<Rightarrow>
          evaluate_generation_minimum env kDeviceGeneration value
      | ConditionKind.RequiredOs \<Rightarrow> evaluate_equality env kOs value
      | ConditionKind.RequiredDeviceMode \<Rightarrow> evaluate_equality env kDeviceMode value
      | ConditionKind.RequiredTopology \<Rightarrow> evaluate_equality env kTopology value
      | ConditionKind.RequiredPeerHardware \<Rightarrow> evaluate_equality env kPeerHardware value
      | ConditionKind.RequiredPartitionState \<Rightarrow> evaluate_equality env kPartitionState value
      | ConditionKind.RequiredPrivilege \<Rightarrow> evaluate_equality env kPrivilege value
      | ConditionKind.RequiredPlatformSetting \<Rightarrow> evaluate_platform_setting env key value
      | ConditionKind.RequiredFeatureGate \<Rightarrow> evaluate_feature_gate env key
      | _ \<Rightarrow> (ConditionOutcome.Unknown, ''unsupported condition kind''))"

definition all_of_outcome :: "ConditionOutcome list \<Rightarrow> ConditionOutcome" where
  "all_of_outcome outcomes =
     (if Unsatisfied \<in> set outcomes then Unsatisfied
      else if ConditionOutcome.Unknown \<in> set outcomes then ConditionOutcome.Unknown else Satisfied)"

definition any_of_outcome :: "ConditionOutcome list \<Rightarrow> ConditionOutcome" where
  "any_of_outcome outcomes =
     (if Satisfied \<in> set outcomes then Satisfied
      else if ConditionOutcome.Unknown \<in> set outcomes then ConditionOutcome.Unknown else Unsatisfied)"

fun not_outcome :: "ConditionOutcome \<Rightarrow> ConditionOutcome" where
  "not_outcome Satisfied = Unsatisfied"
| "not_outcome Unsatisfied = Satisfied"
| "not_outcome ConditionOutcome.Unknown = ConditionOutcome.Unknown"
| "not_outcome NotApplicable = NotApplicable"

definition not_applicable :: ConditionEvaluation where
  "not_applicable = \<lparr>cev_outcome = NotApplicable, cev_evidence = []\<rparr>"

fun evaluate_node :: "EnvironmentContext \<Rightarrow> ConditionNode \<Rightarrow> ConditionEvaluation" where
  "evaluate_node env (ConditionNode kind key value children) =
     (let evaluations =
            map (\<lambda>child. case child of None \<Rightarrow> not_applicable | Some node \<Rightarrow> evaluate_node env node)
              children
      in case kind of
        ConditionKind.Always \<Rightarrow>
          \<lparr>cev_outcome = Satisfied,
           cev_evidence = [\<lparr>ce_expression = ''always'', ce_outcome = Satisfied,
                            ce_detail = ''unconditional''\<rparr>]\<rparr>
      | ConditionKind.AllOf \<Rightarrow>
          \<lparr>cev_outcome = all_of_outcome (map cev_outcome evaluations),
           cev_evidence = concat (map cev_evidence evaluations)\<rparr>
      | ConditionKind.AnyOf \<Rightarrow>
          \<lparr>cev_outcome = any_of_outcome (map cev_outcome evaluations),
           cev_evidence = concat (map cev_evidence evaluations)\<rparr>
      | ConditionKind.NotOf \<Rightarrow>
          (let evaluation = (case evaluations of [] \<Rightarrow> not_applicable | e # _ \<Rightarrow> e) in
           \<lparr>cev_outcome = not_outcome (cev_outcome evaluation),
            cev_evidence = cev_evidence evaluation\<rparr>)
      | _ \<Rightarrow> (case evaluate_leaf env kind key value of
                (outcome, detail) \<Rightarrow> leaf_result kind key value outcome detail))"

definition evaluate_condition :: "ConditionPtr \<Rightarrow> EnvironmentContext \<Rightarrow> ConditionEvaluation" where
  "evaluate_condition node env =
     (case node of None \<Rightarrow> not_applicable | Some n \<Rightarrow> evaluate_node env n)"

section \<open>Names\<close>

interpretation condition_names: enum_names all_ConditionKind to_string_ConditionKind equals_ascii_ci
proof (rule enum_names_lower)
  show "x \<in> set all_ConditionKind" for x by (cases x) (simp_all add: all_ConditionKind_def)
qed (simp_all add: all_ConditionKind_def)

lemma condition_kind_roundtrip: "condition_kind_from_string (to_string_ConditionKind k) = Some k"
  using condition_names.parse_render by (simp add: condition_kind_from_string_def)

section \<open>What validation accepts\<close>

text \<open>
  The reference: a tree is acceptable when it has at most \<^verbatim>\<open>max_condition_nodes\<close> nodes, no node lies
  deeper than the depth bound, no child is null and every node passes its own checks.
\<close>

fun tree_nodes :: "ConditionNode \<Rightarrow> nat" where
  "tree_nodes (ConditionNode kind key value children) =
     Suc (sum_list (map (\<lambda>child. case child of None \<Rightarrow> Suc 0 | Some node \<Rightarrow> tree_nodes node) children))"

fun wf_tree :: "RegistryLimits \<Rightarrow> nat \<Rightarrow> ConditionNode \<Rightarrow> bool" where
  "wf_tree limits depth (ConditionNode kind key value children) \<longleftrightarrow>
     depth \<le> max_record_depth limits + 2 \<and>
     ok (check_condition_node limits (ConditionNode kind key value children)) \<and>
     list_all (\<lambda>child. case child of None \<Rightarrow> False | Some node \<Rightarrow> wf_tree limits (Suc depth) node)
       children"

definition ptr_nodes :: "ConditionPtr \<Rightarrow> nat" where
  "ptr_nodes child = (case child of None \<Rightarrow> Suc 0 | Some node \<Rightarrow> tree_nodes node)"

definition ptr_wf :: "RegistryLimits \<Rightarrow> ConditionPtr \<Rightarrow> nat \<Rightarrow> bool" where
  "ptr_wf limits child depth = (case child of None \<Rightarrow> False | Some node \<Rightarrow> wf_tree limits depth node)"

lemma ptr_wf_None [simp]: "\<not> ptr_wf limits None depth"
  by (simp add: ptr_wf_def)

lemma ptr_nodes_pos: "ptr_nodes p \<ge> 1"
  by (cases p; (cases "the p")?) (auto simp: ptr_nodes_def)

lemma ptr_nodes_Some: "ptr_nodes (Some n) = Suc (sum_list (map ptr_nodes (cn_children n)))"
  by (cases n) (simp add: ptr_nodes_def [abs_def])

lemma ptr_wf_Some:
  "ptr_wf limits (Some n) depth \<longleftrightarrow>
     depth \<le> max_record_depth limits + 2 \<and> ok (check_condition_node limits n) \<and>
     (\<forall>child\<in>set (cn_children n). ptr_wf limits child (Suc depth))"
  by (cases n) (simp add: ptr_wf_def list_all_iff)

lemma validate_condition_loop_ok_iff:
  "visited \<le> max_condition_nodes limits \<Longrightarrow>
   validate_condition_loop limits visited stack = Ok \<longleftrightarrow>
     visited + sum_list (map (ptr_nodes \<circ> fst) stack) \<le> max_condition_nodes limits \<and>
     (\<forall>(p, depth)\<in>set stack. ptr_wf limits p depth)"
proof (induction limits visited stack rule: validate_condition_loop.induct)
  case (2 limits visited node depth stack)
  show ?case
  proof (cases "Suc visited > max_condition_nodes limits \<or> depth > max_record_depth limits + 2 \<or> node = None")
    case True
    then show ?thesis
      using ptr_nodes_pos [of node]
      by (cases node) (auto simp: ptr_wf_Some)
  next
    case False
    then obtain n where n: "node = Some n" by auto
    show ?thesis
    proof (cases "ok (check_condition_node limits n)")
      case True
      with False n "2.IH" [of n] show ?thesis
        by (simp add: ptr_nodes_Some ptr_wf_Some ball_Un comp_def rev_map [symmetric] sum_list_rev
            add.assoc)
    next
      case bad: False
      with False n show ?thesis by (simp add: ptr_wf_Some)
    qed
  qed
qed simp

lemma check_all_kinds:
  "is_comparison_kind k \<or> is_equality_kind k \<or> k \<in> {ConditionKind.Always, ConditionKind.AllOf,
     ConditionKind.AnyOf, ConditionKind.NotOf, ConditionKind.RequiredFeatureGate,
     ConditionKind.RequiredPlatformSetting}"
  by (cases k) auto

lemma validate_condition_is_loop:
  "validate_condition node limits = validate_condition_loop limits 0 [(Some node, 1)]"
  using check_all_kinds [of "cn_kind node"] by (auto simp: validate_condition_def Let_def)

lemma check_condition_node_not_null: "ptr_wf limits (Some n) d \<Longrightarrow> None \<notin> set (cn_children n)"
  by (auto simp: ptr_wf_Some)

text \<open>
  Validation with its explicit stack and its running counters accepts a predicate tree exactly
  when the tree satisfies the recursive reference specification, whatever order the stack visits the
  nodes in.
\<close>

theorem validate_condition_ok_iff:
  "validate_condition node limits = Ok \<longleftrightarrow>
     tree_nodes node \<le> max_condition_nodes limits \<and> wf_tree limits 1 node"
  by (simp add: validate_condition_is_loop validate_condition_loop_ok_iff ptr_nodes_def ptr_wf_def
      del: validate_condition_loop.simps)

section \<open>Facts only add information\<close>

fun gate_free :: "ConditionNode \<Rightarrow> bool" where
  "gate_free (ConditionNode kind key value children) \<longleftrightarrow>
     kind \<noteq> ConditionKind.RequiredFeatureGate \<and>
     list_all (\<lambda>child. case child of None \<Rightarrow> True | Some node \<Rightarrow> gate_free node) children"

definition env_extends :: "EnvironmentContext \<Rightarrow> EnvironmentContext \<Rightarrow> bool" where
  "env_extends env env' \<longleftrightarrow> (\<forall>k v. env_find env k = Some v \<longrightarrow> env_find env' k = Some v)"

definition refines :: "ConditionOutcome \<Rightarrow> ConditionOutcome \<Rightarrow> bool" where
  "refines a b \<longleftrightarrow> a = ConditionOutcome.Unknown \<or> a = b"

lemma refines_refl [simp]: "refines a a"
  by (simp add: refines_def)

lemma list_all2_refines_decided:
  assumes "list_all2 refines as bs" and "c \<noteq> ConditionOutcome.Unknown" and "c \<in> set as"
  shows "c \<in> set bs"
  using assms by (force simp: list_all2_conv_all_nth refines_def in_set_conv_nth)

lemma list_all2_refines_known:
  assumes "list_all2 refines as bs" and "ConditionOutcome.Unknown \<notin> set as"
  shows "as = bs"
  using assms by (auto simp: list_all2_conv_all_nth refines_def in_set_conv_nth intro: nth_equalityI)

lemma refines_all_of: "list_all2 refines as bs \<Longrightarrow> refines (all_of_outcome as) (all_of_outcome bs)"
  using list_all2_refines_decided [of as bs Unsatisfied] list_all2_refines_known [of as bs]
  by (auto simp: all_of_outcome_def refines_def)

lemma refines_any_of: "list_all2 refines as bs \<Longrightarrow> refines (any_of_outcome as) (any_of_outcome bs)"
  using list_all2_refines_decided [of as bs Satisfied] list_all2_refines_known [of as bs]
  by (auto simp: any_of_outcome_def refines_def)

lemma refines_not: "refines a b \<Longrightarrow> refines (not_outcome a) (not_outcome b)"
  by (auto simp: refines_def)

lemmas evaluate_leaf_defs =
  evaluate_version_minimum_def evaluate_equality_def evaluate_generation_minimum_def
  evaluate_platform_setting_def

lemma env_extends_cases:
  assumes "env_extends env env'"
  obtains "env_find env k = None" | v where "env_find env k = Some v" "env_find env' k = Some v"
  using assms by (cases "env_find env k") (auto simp: env_extends_def)

lemma refines_leaf:
  assumes ext: "env_extends env env'" and "kind \<noteq> ConditionKind.RequiredFeatureGate"
  shows "refines (fst (evaluate_leaf env kind key value)) (fst (evaluate_leaf env' kind key value))"
proof -
  have "refines (fst (evaluate_version_minimum env k v)) (fst (evaluate_version_minimum env' k v))" for k v
    using ext by (rule env_extends_cases [where k = k])
      (simp_all add: evaluate_version_minimum_def refines_def)
  moreover have "refines (fst (evaluate_equality env k v)) (fst (evaluate_equality env' k v))" for k v
    using ext by (rule env_extends_cases [where k = k]) (simp_all add: evaluate_equality_def refines_def)
  moreover have "refines (fst (evaluate_generation_minimum env k v))
      (fst (evaluate_generation_minimum env' k v))" for k v
    using ext by (rule env_extends_cases [where k = k])
      (simp_all add: evaluate_generation_minimum_def refines_def)
  moreover have "refines (fst (evaluate_platform_setting env k v))
      (fst (evaluate_platform_setting env' k v))" for k v
    using ext by (rule env_extends_cases [where k = "kPlatformSettingPrefix @ k"])
      (simp_all add: evaluate_platform_setting_def refines_def)
  ultimately show ?thesis
    using assms(2) by (cases kind) (simp_all add: evaluate_leaf_def)
qed

definition ptr_outcome :: "EnvironmentContext \<Rightarrow> ConditionPtr \<Rightarrow> ConditionOutcome" where
  "ptr_outcome env p = cev_outcome (evaluate_condition p env)"

lemma ptr_outcome_node:
  "ptr_outcome env (Some (ConditionNode kind key value children)) =
     (case kind of
        ConditionKind.Always \<Rightarrow> Satisfied
      | ConditionKind.AllOf \<Rightarrow> all_of_outcome (map (ptr_outcome env) children)
      | ConditionKind.AnyOf \<Rightarrow> any_of_outcome (map (ptr_outcome env) children)
      | ConditionKind.NotOf \<Rightarrow>
          not_outcome (case children of [] \<Rightarrow> NotApplicable | c # _ \<Rightarrow> ptr_outcome env c)
      | _ \<Rightarrow> fst (evaluate_leaf env kind key value))"
proof -
  have na: "cev_outcome not_applicable = NotApplicable"
    by (simp add: not_applicable_def)
  show ?thesis
    by (cases kind; cases children)
      (simp_all add: na ptr_outcome_def [abs_def] evaluate_condition_def comp_def Let_def leaf_result_def
        split: prod.split)
qed

declare evaluate_node.simps [simp del]

lemma refines_ptr:
  "case p of None \<Rightarrow> True | Some n \<Rightarrow> gate_free n \<Longrightarrow> env_extends env env' \<Longrightarrow>
   refines (ptr_outcome env p) (ptr_outcome env' p)"
proof (induction "case p of None \<Rightarrow> 0 | Some n \<Rightarrow> size n" arbitrary: p rule: less_induct)
  case less
  show ?case
  proof (cases p)
    case None
    then show ?thesis by (simp add: ptr_outcome_def evaluate_condition_def)
  next
    case (Some n)
    obtain kind key "value" children where n: "n = ConditionNode kind key value children"
      by (cases n)
    have kids: "refines (ptr_outcome env c) (ptr_outcome env' c)" if "c \<in> set children" for c
    proof (rule less.hyps)
      show "(case c of None \<Rightarrow> 0 | Some n \<Rightarrow> size n) < (case p of None \<Rightarrow> 0 | Some n \<Rightarrow> size n)"
        using that size_child [of _ children] by (auto simp: Some n split: option.split)
      show "case c of None \<Rightarrow> True | Some n \<Rightarrow> gate_free n"
        using less.prems(1) that by (auto simp: Some n list_all_iff)
    qed (rule less.prems(2))
    then have all: "list_all2 refines (map (ptr_outcome env) children) (map (ptr_outcome env') children)"
      by (simp add: list_all2_conv_all_nth)
    have leaf: "refines (fst (evaluate_leaf env kind key value)) (fst (evaluate_leaf env' kind key value))"
      using less.prems by (intro refines_leaf) (simp_all add: Some n)
    show ?thesis
      unfolding Some n ptr_outcome_node
      using refines_all_of [OF all] refines_any_of [OF all] leaf kids
      by (cases kind; cases children) (simp_all add: refines_not)
  qed
qed

text \<open>
  Learning further facts never overturns an answer. If a tree without feature-gate leaves is
  decided (satisfied or unsatisfied) in an environment, it has the same outcome in every environment
  that holds at least the same facts.
\<close>

theorem evaluate_condition_monotone:
  assumes "gate_free node" and "env_extends env env'"
    and "cev_outcome (evaluate_condition (Some node) env) \<noteq> ConditionOutcome.Unknown"
  shows "cev_outcome (evaluate_condition (Some node) env') =
         cev_outcome (evaluate_condition (Some node) env)"
  using refines_ptr [of "Some node" env env'] assms by (auto simp: refines_def ptr_outcome_def)

fun fact_leaves_only :: "ConditionNode \<Rightarrow> bool" where
  "fact_leaves_only (ConditionNode kind key value children) \<longleftrightarrow>
     kind \<noteq> ConditionKind.RequiredFeatureGate \<and> kind \<noteq> ConditionKind.Always \<and>
     list_all (\<lambda>child. case child of None \<Rightarrow> True | Some node \<Rightarrow> fact_leaves_only node) children"

lemma evaluate_leaf_empty:
  "kind \<noteq> ConditionKind.RequiredFeatureGate \<Longrightarrow>
   fst (evaluate_leaf [] kind key value) = ConditionOutcome.Unknown"
  by (cases kind) (simp_all add: evaluate_leaf_def evaluate_leaf_defs env_find_def)

lemma outcome_all_unknown:
  assumes "os \<noteq> []" and "\<forall>x\<in>set os. x = ConditionOutcome.Unknown"
  shows "all_of_outcome os = ConditionOutcome.Unknown" "any_of_outcome os = ConditionOutcome.Unknown"
  using assms by (cases os; auto simp: all_of_outcome_def any_of_outcome_def)+

lemma check_logical_children:
  "ok (check_condition_node limits (ConditionNode kind key value children)) \<Longrightarrow>
   kind \<in> {ConditionKind.AllOf, ConditionKind.AnyOf, ConditionKind.NotOf} \<Longrightarrow> children \<noteq> []"
  by (auto simp: check_condition_node_def split: if_splits)

lemma empty_environment_unknown:
  "wf_tree limits depth node \<Longrightarrow> fact_leaves_only node \<Longrightarrow>
   ptr_outcome [] (Some node) = ConditionOutcome.Unknown"
proof (induction node arbitrary: depth rule: measure_induct_rule [of size])
  case (less node)
  obtain kind key "value" children where n: "node = ConditionNode kind key value children"
    by (cases node)
  have kids: "ptr_outcome [] c = ConditionOutcome.Unknown" if "c \<in> set children" for c
  proof (cases c)
    case None
    with that less.prems show ?thesis by (force simp: n list_all_iff)
  next
    case (Some m)
    with that less.prems have "wf_tree limits (Suc depth) m" "fact_leaves_only m"
      by (force simp: n list_all_iff)+
    moreover have "size m < size node"
      using that Some size_child [of m children] by (simp add: n)
    ultimately show ?thesis using less.IH by (simp add: Some)
  qed
  have ne: "children \<noteq> []" if "kind \<in> {ConditionKind.AllOf, ConditionKind.AnyOf, ConditionKind.NotOf}"
    using check_logical_children [of limits kind key "value" children] that less.prems(1)
    by (simp add: n)
  show ?case
  proof (cases "kind \<in> {ConditionKind.AllOf, ConditionKind.AnyOf, ConditionKind.NotOf}")
    case True
    with ne obtain c cs where "children = c # cs" by (cases children) auto
    with True kids outcome_all_unknown [of "map (ptr_outcome []) children"] show ?thesis
      unfolding n ptr_outcome_node by auto
  next
    case False
    then show ?thesis
      unfolding n ptr_outcome_node
      using less.prems(2) evaluate_leaf_empty [of kind key "value"] by (cases kind) (simp_all add: n)
  qed
qed

text \<open>
  The empty environment decides nothing: a tree that validation accepts and that has neither
  feature-gate nor unconditional leaves evaluates to Unknown when no fact is known.
\<close>

theorem empty_environment_undecided:
  assumes "validate_condition node limits = Ok" and "fact_leaves_only node"
  shows "cev_outcome (evaluate_condition (Some node) []) = ConditionOutcome.Unknown"
proof -
  from assms(1) have "wf_tree limits 1 node"
    by (simp add: validate_condition_is_loop validate_condition_loop_ok_iff ptr_wf_def
        del: validate_condition_loop.simps)
  from empty_environment_unknown [OF this assms(2)] show ?thesis
    by (simp add: ptr_outcome_def)
qed

section \<open>Witnesses\<close>

definition sample_os :: ConditionNode where
  "sample_os = ConditionNode ConditionKind.RequiredOs [] ''linux'' []"

theorem evaluate_condition_monotone_witness:
  "cev_outcome (evaluate_condition (Some sample_os)
     [(''driver.version'', ''3''), (''os.name'', ''linux'')]) = Satisfied"
proof -
  have sat: "cev_outcome (evaluate_condition (Some sample_os) [(''os.name'', ''linux'')]) = Satisfied"
    by (simp add: evaluate_condition_def sample_os_def evaluate_node.simps evaluate_leaf_def
        evaluate_equality_def env_find_def om_find_def kOs_def leaf_result_def)
  have "cev_outcome (evaluate_condition (Some sample_os)
     [(''driver.version'', ''3''), (''os.name'', ''linux'')]) =
     cev_outcome (evaluate_condition (Some sample_os) [(''os.name'', ''linux'')])"
  proof (rule evaluate_condition_monotone)
    show "gate_free sample_os" by (simp add: sample_os_def)
    show "env_extends [(''os.name'', ''linux'')] [(''driver.version'', ''3''), (''os.name'', ''linux'')]"
      by (auto simp: env_extends_def env_find_def om_find_def)
  qed (simp add: sat)
  then show ?thesis by (simp only: sat)
qed

theorem empty_environment_undecided_witness:
  "cev_outcome (evaluate_condition
     (Some (ConditionNode ConditionKind.NotOf [] [] [Some sample_os])) []) = ConditionOutcome.Unknown"
  by (rule empty_environment_undecided [where limits = default_limits])
    (simp_all add: sample_os_def validate_condition_is_loop check_condition_node_def default_limits_def)

end
