(* ===== verification/Value.thy ===== *)
theory Value
  imports Condition
begin

text \<open>
  Typed capability values (\<^verbatim>\<open>value.hpp\<close>, \<^verbatim>\<open>value.cpp\<close>): the variant with its fifteen forms,
  equality, order, canonical rendering, structural validation and normalization.

  The alternatives of the C++ variant are the constructors of one datatype in the order of their
  index; a record field is a name with an optional value, \<^term>\<open>None\<close> being the null pointer. Signed
  64-bit bounds of a numeric range are 64-bit words read with \<^const>\<open>sint\<close>; the width
  \<^verbatim>\<open>maximum - minimum\<close>, whose overflow C++ leaves undefined, is taken modulo two to the 64.
  Normalization returns the canonical value or the error; no caller looks at the value it leaves
  behind when it fails.
\<close>

datatype ValueKind =
    NoneKind
  | Boolean
  | Count
  | Bytes
  | Rate
  | Bandwidth
  | LatencyClass
  | Enumeration
  | FeatureSet
  | VersionRange
  | ArchitectureSet
  | NumericRange
  | Record
  | Relationship
  | Predicate

fun to_string_ValueKind :: "ValueKind \<Rightarrow> string" where
  "to_string_ValueKind ValueKind.NoneKind = ''none''"
| "to_string_ValueKind ValueKind.Boolean = ''boolean''"
| "to_string_ValueKind ValueKind.Count = ''count''"
| "to_string_ValueKind ValueKind.Bytes = ''bytes''"
| "to_string_ValueKind ValueKind.Rate = ''rate''"
| "to_string_ValueKind ValueKind.Bandwidth = ''bandwidth''"
| "to_string_ValueKind ValueKind.LatencyClass = ''latency-class''"
| "to_string_ValueKind ValueKind.Enumeration = ''enumeration''"
| "to_string_ValueKind ValueKind.FeatureSet = ''feature-set''"
| "to_string_ValueKind ValueKind.VersionRange = ''version-range''"
| "to_string_ValueKind ValueKind.ArchitectureSet = ''architecture-set''"
| "to_string_ValueKind ValueKind.NumericRange = ''numeric-range''"
| "to_string_ValueKind ValueKind.Record = ''record''"
| "to_string_ValueKind ValueKind.Relationship = ''relationship''"
| "to_string_ValueKind ValueKind.Predicate = ''predicate''"

definition all_ValueKind :: "ValueKind list" where
  "all_ValueKind =
     [ValueKind.NoneKind, ValueKind.Boolean, ValueKind.Count,
      ValueKind.Bytes, ValueKind.Rate, ValueKind.Bandwidth,
      ValueKind.LatencyClass, ValueKind.Enumeration, ValueKind.FeatureSet,
      ValueKind.VersionRange, ValueKind.ArchitectureSet, ValueKind.NumericRange,
      ValueKind.Record, ValueKind.Relationship, ValueKind.Predicate]"

definition value_kind_from_string :: "string \<Rightarrow> ValueKind option" where
  "value_kind_from_string text = find (\<lambda>v. equals_ascii_ci text (to_string_ValueKind v)) all_ValueKind"

datatype RateUnit =
    Hertz
  | KiloHertz
  | MegaHertz
  | GigaHertz
  | OperationsPerSecond

fun to_string_RateUnit :: "RateUnit \<Rightarrow> string" where
  "to_string_RateUnit RateUnit.Hertz = ''Hz''"
| "to_string_RateUnit RateUnit.KiloHertz = ''kHz''"
| "to_string_RateUnit RateUnit.MegaHertz = ''MHz''"
| "to_string_RateUnit RateUnit.GigaHertz = ''GHz''"
| "to_string_RateUnit RateUnit.OperationsPerSecond = ''ops/s''"

definition all_RateUnit :: "RateUnit list" where
  "all_RateUnit =
     [RateUnit.Hertz, RateUnit.KiloHertz, RateUnit.MegaHertz,
      RateUnit.GigaHertz, RateUnit.OperationsPerSecond]"

definition rate_unit_from_string :: "string \<Rightarrow> RateUnit option" where
  "rate_unit_from_string text = find (\<lambda>v. equals_ascii_ci text (to_string_RateUnit v)) all_RateUnit"

datatype BandwidthUnit =
    BytesPerSecond
  | KilobytesPerSecond
  | MegabytesPerSecond
  | GigabytesPerSecond
  | TerabytesPerSecond
  | BitsPerSecond
  | KilobitsPerSecond
  | MegabitsPerSecond
  | GigabitsPerSecond

fun to_string_BandwidthUnit :: "BandwidthUnit \<Rightarrow> string" where
  "to_string_BandwidthUnit BandwidthUnit.BytesPerSecond = ''B/s''"
| "to_string_BandwidthUnit BandwidthUnit.KilobytesPerSecond = ''kB/s''"
| "to_string_BandwidthUnit BandwidthUnit.MegabytesPerSecond = ''MB/s''"
| "to_string_BandwidthUnit BandwidthUnit.GigabytesPerSecond = ''GB/s''"
| "to_string_BandwidthUnit BandwidthUnit.TerabytesPerSecond = ''TB/s''"
| "to_string_BandwidthUnit BandwidthUnit.BitsPerSecond = ''bit/s''"
| "to_string_BandwidthUnit BandwidthUnit.KilobitsPerSecond = ''kbit/s''"
| "to_string_BandwidthUnit BandwidthUnit.MegabitsPerSecond = ''Mbit/s''"
| "to_string_BandwidthUnit BandwidthUnit.GigabitsPerSecond = ''Gbit/s''"

definition all_BandwidthUnit :: "BandwidthUnit list" where
  "all_BandwidthUnit =
     [BandwidthUnit.BytesPerSecond, BandwidthUnit.KilobytesPerSecond, BandwidthUnit.MegabytesPerSecond,
      BandwidthUnit.GigabytesPerSecond, BandwidthUnit.TerabytesPerSecond, BandwidthUnit.BitsPerSecond,
      BandwidthUnit.KilobitsPerSecond, BandwidthUnit.MegabitsPerSecond, BandwidthUnit.GigabitsPerSecond]"

definition bandwidth_unit_from_string :: "string \<Rightarrow> BandwidthUnit option" where
  "bandwidth_unit_from_string text = find (\<lambda>v. equals_ascii_ci text (to_string_BandwidthUnit v)) all_BandwidthUnit"

datatype LatencyClass =
    Unknown
  | UltraLow
  | Low
  | Medium
  | High
  | VeryHigh

fun to_string_LatencyClass :: "LatencyClass \<Rightarrow> string" where
  "to_string_LatencyClass LatencyClass.Unknown = ''unknown''"
| "to_string_LatencyClass LatencyClass.UltraLow = ''ultra-low''"
| "to_string_LatencyClass LatencyClass.Low = ''low''"
| "to_string_LatencyClass LatencyClass.Medium = ''medium''"
| "to_string_LatencyClass LatencyClass.High = ''high''"
| "to_string_LatencyClass LatencyClass.VeryHigh = ''very-high''"

definition all_LatencyClass :: "LatencyClass list" where
  "all_LatencyClass =
     [LatencyClass.Unknown, LatencyClass.UltraLow, LatencyClass.Low,
      LatencyClass.Medium, LatencyClass.High, LatencyClass.VeryHigh]"

definition latency_class_from_string :: "string \<Rightarrow> LatencyClass option" where
  "latency_class_from_string text = find (\<lambda>v. equals_ascii_ci text (to_string_LatencyClass v)) all_LatencyClass"

datatype CapabilityRelation =
    DependsOn
  | Requires
  | AlternativeTo
  | Supersedes
  | Exclusive

fun to_string_CapabilityRelation :: "CapabilityRelation \<Rightarrow> string" where
  "to_string_CapabilityRelation CapabilityRelation.DependsOn = ''depends-on''"
| "to_string_CapabilityRelation CapabilityRelation.Requires = ''requires''"
| "to_string_CapabilityRelation CapabilityRelation.AlternativeTo = ''alternative-to''"
| "to_string_CapabilityRelation CapabilityRelation.Supersedes = ''supersedes''"
| "to_string_CapabilityRelation CapabilityRelation.Exclusive = ''exclusive''"

definition all_CapabilityRelation :: "CapabilityRelation list" where
  "all_CapabilityRelation =
     [CapabilityRelation.DependsOn, CapabilityRelation.Requires, CapabilityRelation.AlternativeTo,
      CapabilityRelation.Supersedes, CapabilityRelation.Exclusive]"

definition capability_relation_from_string :: "string \<Rightarrow> CapabilityRelation option" where
  "capability_relation_from_string text = find (\<lambda>v. equals_ascii_ci text (to_string_CapabilityRelation v)) all_CapabilityRelation"

datatype CapabilityValue =
    V_None
  | V_Boolean bool
  | V_Count u64 string
  | V_Bytes u64
  | V_Rate u64 RateUnit
  | V_Bandwidth u64 BandwidthUnit
  | V_LatencyClass LatencyClass
  | V_Enumeration string string
  | V_FeatureSet "string list"
  | V_VersionRange VersionRange
  | V_ArchitectureSet "string list"
  | V_NumericRange i64 i64 i64
  | V_Record "(string \<times> CapabilityValue option) list"
  | V_Relationship CapabilityRelation string
  | V_Predicate ConditionPtr

type_synonym RecordField = "string \<times> CapabilityValue option"

fun value_kind :: "CapabilityValue \<Rightarrow> ValueKind" where
  "value_kind V_None = ValueKind.NoneKind"
| "value_kind (V_Boolean _) = ValueKind.Boolean"
| "value_kind (V_Count _ _) = ValueKind.Count"
| "value_kind (V_Bytes _) = ValueKind.Bytes"
| "value_kind (V_Rate _ _) = ValueKind.Rate"
| "value_kind (V_Bandwidth _ _) = ValueKind.Bandwidth"
| "value_kind (V_LatencyClass _) = ValueKind.LatencyClass"
| "value_kind (V_Enumeration _ _) = ValueKind.Enumeration"
| "value_kind (V_FeatureSet _) = ValueKind.FeatureSet"
| "value_kind (V_VersionRange _) = ValueKind.VersionRange"
| "value_kind (V_ArchitectureSet _) = ValueKind.ArchitectureSet"
| "value_kind (V_NumericRange _ _ _) = ValueKind.NumericRange"
| "value_kind (V_Record _) = ValueKind.Record"
| "value_kind (V_Relationship _ _) = ValueKind.Relationship"
| "value_kind (V_Predicate _) = ValueKind.Predicate"

definition value_index :: "CapabilityValue \<Rightarrow> nat" where
  "value_index v = enum_index all_ValueKind (value_kind v)"

definition value_empty :: "CapabilityValue \<Rightarrow> bool" where
  "value_empty v \<longleftrightarrow> value_index v = 0"

abbreviation fields_size :: "RecordField list \<Rightarrow> nat" where
  "fields_size flds \<equiv> size_list (size_prod (\<lambda>_. 0) (size_option size)) flds"

section \<open>Rendering\<close>

definition join_tokens :: "string list \<Rightarrow> string" where
  "join_tokens tokens = ''{'' @ join_comma tokens @ ''}''"

lemma size_field [termination_simp]:
  "(name, Some v) \<in> set flds \<Longrightarrow> size v < Suc (fields_size flds)"
  by (induction flds) auto

fun value_describe :: "CapabilityValue \<Rightarrow> string" where
  "value_describe V_None = ''none''"
| "value_describe (V_Boolean b) = (if b then ''true'' else ''false'')"
| "value_describe (V_Count n unit) =
     (if unit = [] then u64_to_string n else u64_to_string n @ '' '' @ unit)"
| "value_describe (V_Bytes bytes) = u64_to_string bytes @ '' B''"
| "value_describe (V_Rate magnitude unit) = u64_to_string magnitude @ '' '' @ to_string_RateUnit unit"
| "value_describe (V_Bandwidth magnitude unit) =
     u64_to_string magnitude @ '' '' @ to_string_BandwidthUnit unit"
| "value_describe (V_LatencyClass c) = to_string_LatencyClass c"
| "value_describe (V_Enumeration domain value) = domain @ '':'' @ value"
| "value_describe (V_FeatureSet features) = join_tokens features"
| "value_describe (V_VersionRange rng) = range_describe rng"
| "value_describe (V_ArchitectureSet architectures) = join_tokens architectures"
| "value_describe (V_NumericRange minimum maximum step) =
     ''['' @ i64_to_string minimum @ '','' @ i64_to_string maximum @ ''] step '' @ i64_to_string step"
| "value_describe (V_Record flds) =
     ''{'' @ join_comma (map (\<lambda>field. case field of (name, value) \<Rightarrow>
       name @ ''='' @ (case value of None \<Rightarrow> ''none'' | Some v \<Rightarrow> value_describe v)) flds) @ ''}''"
| "value_describe (V_Relationship relation target) =
     to_string_CapabilityRelation relation @ '':'' @ target"
| "value_describe (V_Predicate condition) = ''if '' @ describe_condition condition"

section \<open>Equality and order\<close>

definition version_range_eq :: "VersionRange \<Rightarrow> VersionRange \<Rightarrow> bool" where
  "version_range_eq a b \<longleftrightarrow>
     version_compare (vr_minimum a) (vr_minimum b) = 0 \<and>
     version_compare (vr_maximum a) (vr_maximum b) = 0 \<and>
     vr_include_maximum a = vr_include_maximum b"

definition version_range_less :: "VersionRange \<Rightarrow> VersionRange \<Rightarrow> bool" where
  "version_range_less a b =
     (let min_cmp = version_compare (vr_minimum a) (vr_minimum b);
          max_cmp = version_compare (vr_maximum a) (vr_maximum b) in
      if min_cmp \<noteq> 0 then min_cmp < 0
      else if max_cmp \<noteq> 0 then max_cmp < 0
      else vr_include_maximum a < vr_include_maximum b)"

function value_eq :: "CapabilityValue \<Rightarrow> CapabilityValue \<Rightarrow> bool"
  and fields_eq :: "RecordField list \<Rightarrow> RecordField list \<Rightarrow> bool" where
  "value_eq a b =
     (if value_index a \<noteq> value_index b then False
      else case (a, b) of
        (V_None, V_None) \<Rightarrow> True
      | (V_Boolean x, V_Boolean y) \<Rightarrow> x = y
      | (V_Count c u, V_Count c' u') \<Rightarrow> c = c' \<and> u = u'
      | (V_Bytes x, V_Bytes y) \<Rightarrow> x = y
      | (V_Rate m u, V_Rate m' u') \<Rightarrow> m = m' \<and> u = u'
      | (V_Bandwidth m u, V_Bandwidth m' u') \<Rightarrow> m = m' \<and> u = u'
      | (V_LatencyClass x, V_LatencyClass y) \<Rightarrow> x = y
      | (V_Enumeration d v, V_Enumeration d' v') \<Rightarrow> d = d' \<and> v = v'
      | (V_FeatureSet x, V_FeatureSet y) \<Rightarrow> x = y
      | (V_VersionRange x, V_VersionRange y) \<Rightarrow> version_range_eq x y
      | (V_ArchitectureSet x, V_ArchitectureSet y) \<Rightarrow> x = y
      | (V_NumericRange l h s, V_NumericRange l' h' s') \<Rightarrow> l = l' \<and> h = h' \<and> s = s'
      | (V_Record x, V_Record y) \<Rightarrow> (if length x \<noteq> length y then False else fields_eq x y)
      | (V_Relationship r t, V_Relationship r' t') \<Rightarrow> r = r' \<and> t = t'
      | (V_Predicate x, V_Predicate y) \<Rightarrow> describe_condition x = describe_condition y
      | _ \<Rightarrow> False)"
| "fields_eq ((name, v) # x) ((name', v') # y) =
     (if name \<noteq> name' then False
      else case (v, v') of
        (None, None) \<Rightarrow> fields_eq x y
      | (Some w, Some w') \<Rightarrow> (if \<not> value_eq w w' then False else fields_eq x y)
      | _ \<Rightarrow> False)"
| "fields_eq [] y = True"
| "fields_eq x [] = True"
  by pat_completeness auto
termination
  by (relation "measure (\<lambda>x. case x of Inl (a, b) \<Rightarrow> size a | Inr (x, y) \<Rightarrow> fields_size x)") auto

function value_less :: "CapabilityValue \<Rightarrow> CapabilityValue \<Rightarrow> bool"
  and fields_less :: "nat \<Rightarrow> nat \<Rightarrow> RecordField list \<Rightarrow> RecordField list \<Rightarrow> bool" where
  "value_less a b =
     (if value_index a \<noteq> value_index b then value_index a < value_index b
      else case (a, b) of
        (V_Boolean x, V_Boolean y) \<Rightarrow> x < y
      | (V_Count c u, V_Count c' u') \<Rightarrow> (if c \<noteq> c' then c < c' else u < u')
      | (V_Bytes x, V_Bytes y) \<Rightarrow> x < y
      | (V_Rate m u, V_Rate m' u') \<Rightarrow>
          (if m \<noteq> m' then m < m' else enum_index all_RateUnit u < enum_index all_RateUnit u')
      | (V_Bandwidth m u, V_Bandwidth m' u') \<Rightarrow>
          (if m \<noteq> m' then m < m'
           else enum_index all_BandwidthUnit u < enum_index all_BandwidthUnit u')
      | (V_LatencyClass x, V_LatencyClass y) \<Rightarrow>
          enum_index all_LatencyClass x < enum_index all_LatencyClass y
      | (V_Enumeration d v, V_Enumeration d' v') \<Rightarrow> (if d \<noteq> d' then d < d' else v < v')
      | (V_FeatureSet x, V_FeatureSet y) \<Rightarrow> x < y
      | (V_VersionRange x, V_VersionRange y) \<Rightarrow> version_range_less x y
      | (V_ArchitectureSet x, V_ArchitectureSet y) \<Rightarrow> x < y
      | (V_NumericRange l h s, V_NumericRange l' h' s') \<Rightarrow>
          (if l \<noteq> l' then sint l < sint l' else if h \<noteq> h' then sint h < sint h' else sint s < sint s')
      | (V_Record x, V_Record y) \<Rightarrow> fields_less (length x) (length y) x y
      | (V_Relationship r t, V_Relationship r' t') \<Rightarrow>
          (if r \<noteq> r' then enum_index all_CapabilityRelation r < enum_index all_CapabilityRelation r'
           else t < t')
      | (V_Predicate x, V_Predicate y) \<Rightarrow> describe_condition x < describe_condition y
      | _ \<Rightarrow> False)"
| "fields_less m n ((name, v) # x) ((name', v') # y) =
     (if name \<noteq> name' then name < name'
      else case (v, v') of
        (None, None) \<Rightarrow> fields_less m n x y
      | (None, Some _) \<Rightarrow> True
      | (Some _, None) \<Rightarrow> False
      | (Some w, Some w') \<Rightarrow>
          (if value_less w w' then True else if value_less w' w then False else fields_less m n x y))"
| "fields_less m n [] y = (m < n)"
| "fields_less m n x [] = (m < n)"
  by pat_completeness auto
termination
  by (relation "measure (\<lambda>x. case x of Inl (a, b) \<Rightarrow> size a + size b
        | Inr (m, n, x, y) \<Rightarrow> fields_size x + fields_size y)") auto

declare value_eq.simps [simp del] value_less.simps [simp del]

section \<open>Validation\<close>

fun sorted_tokens_from :: "string option \<Rightarrow> (string \<Rightarrow> bool) \<Rightarrow> string list \<Rightarrow> Status" where
  "sorted_tokens_from previous good [] = Ok"
| "sorted_tokens_from previous good (s # rest) =
     (if \<not> good s then InvalidValue
      else if (case previous of None \<Rightarrow> False | Some p \<Rightarrow> \<not> p < s) then InvalidValue
      else sorted_tokens_from (Some s) good rest)"

definition validate_numeric_range :: "i64 \<Rightarrow> i64 \<Rightarrow> i64 \<Rightarrow> Status" where
  "validate_numeric_range minimum maximum step =
     (if sint minimum > sint maximum then InvalidRange
      else if sint step \<le> 0 then InvalidRange
      else if sint (maximum - minimum) < 0 then InvalidRange
      else Ok)"

definition validate_predicate :: "ConditionPtr \<Rightarrow> RegistryLimits \<Rightarrow> Status" where
  "validate_predicate condition limits =
     (case condition of None \<Rightarrow> InvalidCondition | Some node \<Rightarrow> validate_condition node limits)"

function validate_value :: "RegistryLimits \<Rightarrow> CapabilityValue \<Rightarrow> Status"
  and validate_record :: "RegistryLimits \<Rightarrow> nat \<Rightarrow> RecordField list \<Rightarrow> Status"
  and validate_fields :: "RegistryLimits \<Rightarrow> nat \<Rightarrow> string option \<Rightarrow> RecordField list \<Rightarrow> Status" where
  "validate_value limits value =
     (case value of
        V_NumericRange minimum maximum step \<Rightarrow> validate_numeric_range minimum maximum step
      | V_Count _ unit \<Rightarrow> (if unit \<noteq> [] \<and> \<not> is_canonical_token unit then InvalidValue else Ok)
      | V_Enumeration domain v \<Rightarrow>
          (if \<not> is_canonical_token domain \<or> \<not> is_canonical_token v then InvalidValue else Ok)
      | V_FeatureSet features \<Rightarrow>
          (if length features > max_feature_set_entries limits then LimitExceeded
           else sorted_tokens_from None is_canonical_token features)
      | V_VersionRange rng \<Rightarrow>
          (if \<not> range_valid rng then InvalidRange
           else if \<not> version_valid (vr_minimum rng) \<and> \<not> version_valid (vr_maximum rng)
           then InvalidRange else Ok)
      | V_ArchitectureSet architectures \<Rightarrow>
          (if length architectures > max_architecture_set_entries limits then LimitExceeded
           else sorted_tokens_from None id_valid architectures)
      | V_Record flds \<Rightarrow> validate_record limits 1 flds
      | V_Relationship _ target \<Rightarrow> (if \<not> id_valid target then InvalidValue else Ok)
      | V_Predicate condition \<Rightarrow> validate_predicate condition limits
      | _ \<Rightarrow> Ok)"
| "validate_record limits depth flds =
     (if depth > max_record_depth limits then LimitExceeded
      else if length flds > max_record_fields limits then LimitExceeded
      else validate_fields limits depth None flds)"
| "validate_fields limits depth previous [] = Ok"
| "validate_fields limits depth previous ((name, v) # rest) =
     (if \<not> is_canonical_token name then InvalidValue
      else if (case previous of None \<Rightarrow> False | Some p \<Rightarrow> \<not> p < name) then InvalidValue
      else case v of
        None \<Rightarrow> InvalidValue
      | Some w \<Rightarrow>
          let status = validate_value limits w in
          if \<not> ok status then status
          else let nested = (case w of
                   V_Record flds \<Rightarrow> validate_record limits (Suc depth) flds
                 | V_Predicate condition \<Rightarrow> validate_predicate condition limits
                 | _ \<Rightarrow> Ok) in
               if \<not> ok nested then nested
               else validate_fields limits depth (Some name) rest)"
  by pat_completeness auto
termination
  by (relation "measure (\<lambda>x. case x of
          Inl (limits, v) \<Rightarrow> 3 * size v
        | Inr (Inl (limits, depth, flds)) \<Rightarrow> 3 * fields_size flds + 2
        | Inr (Inr (limits, depth, previous, flds)) \<Rightarrow> 3 * fields_size flds + 1)") auto

declare validate_value.simps [simp del] validate_record.simps [simp del]

section \<open>Normalization\<close>

definition sort_unique :: "'a::linorder list \<Rightarrow> 'a list" where
  "sort_unique xs = remdups_adj (std_sort (<) xs)"

definition field_less :: "RecordField \<Rightarrow> RecordField \<Rightarrow> bool" where
  "field_less a b \<longleftrightarrow> fst a < fst b"

fun adjacent_names_equal :: "RecordField list \<Rightarrow> bool" where
  "adjacent_names_equal (a # b # rest) \<longleftrightarrow> fst a = fst b \<or> adjacent_names_equal (b # rest)"
| "adjacent_names_equal _ \<longleftrightarrow> False"

definition finish_normalize :: "RegistryLimits \<Rightarrow> CapabilityValue \<Rightarrow> ErrorCode + CapabilityValue" where
  "finish_normalize limits value =
     (let status = validate_value limits value in if \<not> ok status then Inl status else Inr value)"

function normalize_value :: "RegistryLimits \<Rightarrow> CapabilityValue \<Rightarrow> ErrorCode + CapabilityValue"
  and normalize_fields :: "RegistryLimits \<Rightarrow> RecordField list \<Rightarrow> ErrorCode + RecordField list" where
  "normalize_value limits value =
     (case value of
        V_FeatureSet features \<Rightarrow> finish_normalize limits (V_FeatureSet (sort_unique features))
      | V_ArchitectureSet architectures \<Rightarrow>
          finish_normalize limits (V_ArchitectureSet (sort_unique architectures))
      | V_Record flds \<Rightarrow>
          (case normalize_fields limits flds of
             Inl e \<Rightarrow> Inl e
           | Inr flds' \<Rightarrow>
               let ordered = std_sort field_less flds' in
               if adjacent_names_equal ordered then Inl InvalidValue
               else finish_normalize limits (V_Record ordered))
      | _ \<Rightarrow> finish_normalize limits value)"
| "normalize_fields limits [] = Inr []"
| "normalize_fields limits ((name, v) # rest) =
     (case (case v of
              None \<Rightarrow> Inr None
            | Some w \<Rightarrow>
                (case normalize_value limits w of Inl e \<Rightarrow> Inl e | Inr w' \<Rightarrow> Inr (Some w'))) of
        Inl e \<Rightarrow> Inl e
      | Inr v' \<Rightarrow>
          (case normalize_fields limits rest of
             Inl e \<Rightarrow> Inl e
           | Inr rest' \<Rightarrow> Inr ((name, v') # rest')))"
  by pat_completeness auto
termination
  by (relation "measure (\<lambda>x. case x of
          Inl (limits, v) \<Rightarrow> size v | Inr (limits, flds) \<Rightarrow> fields_size flds)") auto

declare normalize_value.simps [simp del]

section \<open>Names\<close>

interpretation value_kind_names: enum_names all_ValueKind to_string_ValueKind equals_ascii_ci
proof (rule enum_names_lower)
  show "x \<in> set all_ValueKind" for x by (cases x) (simp_all add: all_ValueKind_def)
qed (simp_all add: all_ValueKind_def)

interpretation rate_unit_names: enum_names all_RateUnit to_string_RateUnit equals_ascii_ci
proof (rule enum_names_folded)
  show "x \<in> set all_RateUnit" for x by (cases x) (simp_all add: all_RateUnit_def)
qed (simp add: all_RateUnit_def ascii_lower_def fold_case_def of_char_mono char_of_def)

interpretation bandwidth_unit_names: enum_names all_BandwidthUnit to_string_BandwidthUnit equals_ascii_ci
proof (rule enum_names_folded)
  show "x \<in> set all_BandwidthUnit" for x by (cases x) (simp_all add: all_BandwidthUnit_def)
qed (simp add: all_BandwidthUnit_def ascii_lower_def fold_case_def of_char_mono char_of_def)

interpretation latency_names: enum_names all_LatencyClass to_string_LatencyClass equals_ascii_ci
proof (rule enum_names_lower)
  show "x \<in> set all_LatencyClass" for x by (cases x) (simp_all add: all_LatencyClass_def)
qed (simp_all add: all_LatencyClass_def)

interpretation relation_names: enum_names all_CapabilityRelation to_string_CapabilityRelation equals_ascii_ci
proof (rule enum_names_lower)
  show "x \<in> set all_CapabilityRelation" for x by (cases x) (simp_all add: all_CapabilityRelation_def)
qed (simp_all add: all_CapabilityRelation_def)

section \<open>Sets and records in canonical form\<close>

lemma sorted_tokens_from_ok_iff:
  "sorted_tokens_from previous good xs = Ok \<longleftrightarrow>
     (\<forall>x\<in>set xs. good x) \<and> sorted_wrt (<) xs \<and> (\<forall>p. previous = Some p \<longrightarrow> (\<forall>x\<in>set xs. p < x))"
  by (induction previous good xs rule: sorted_tokens_from.induct)
    (auto split: option.split intro: less_trans)

lemma sorted_remdups_adj_strict: "sorted xs \<Longrightarrow> sorted_wrt (<) (remdups_adj (xs :: 'a::linorder list))"
  by (induction xs rule: remdups_adj.induct) (auto simp: order.order_iff_strict)

lemma sort_unique_sorted: "sorted_wrt (<) (sort_unique xs)"
  by (simp add: sort_unique_def std_sort_linorder sorted_remdups_adj_strict)

lemma set_sort_unique [simp]: "set (sort_unique xs) = set xs"
  by (simp add: sort_unique_def)

lemma sort_unique_eq: "set xs = set ys \<Longrightarrow> sort_unique xs = sort_unique ys"
  by (rule strict_sorted_equal) (simp_all add: sort_unique_sorted)

lemma sort_unique_id: "sorted_wrt (<) xs \<Longrightarrow> sort_unique xs = xs"
  by (rule strict_sorted_equal) (simp_all add: sort_unique_sorted)

lemma validate_fields_ok:
  assumes "validate_fields limits depth previous flds = Ok"
  shows "sorted_wrt (<) (map fst flds)"
    and "\<And>name v. (name, v) \<in> set flds \<Longrightarrow>
           is_canonical_token name \<and> (\<exists>w. v = Some w \<and> validate_value limits w = Ok \<and>
             (\<forall>sub. w = V_Record sub \<longrightarrow> validate_record limits (Suc depth) sub = Ok))"
    and "\<And>p name. previous = Some p \<Longrightarrow> name \<in> fst ` set flds \<Longrightarrow> p < name"
  using assms
proof (induction flds arbitrary: previous)
  case (Cons field rest)
  obtain name v where f: "field = (name, v)" by (cases field)
  {
    case 1
    then show ?case
      using Cons.IH(1,3) [of "Some name"]
      by (auto simp: f Let_def split: option.splits if_splits)
  next
    case (2 name' v')
    then show ?case
      using Cons.IH(2) [of name' v' "Some name"]
      by (auto simp: f Let_def split: option.splits if_splits CapabilityValue.splits)
  next
    case (3 p name')
    then show ?case
      using Cons.IH(3) [of "Some name" name name']
      by (auto simp: f Let_def split: option.splits if_splits CapabilityValue.splits intro: less_trans)
  }
qed auto

lemma names_sorted_std_sort: "sorted_wrt (<) (map fst flds) \<Longrightarrow> std_sort field_less flds = flds"
  by (rule std_sort_sorted) (auto simp: field_less_def sorted_wrt_map elim!: sorted_wrt_mono_rel [rotated])

lemma names_sorted_adjacent: "sorted_wrt (<) (map fst flds) \<Longrightarrow> \<not> adjacent_names_equal flds"
  by (induction flds rule: adjacent_names_equal.induct) auto

lemma validate_record_fields: "validate_record limits depth flds = Ok \<Longrightarrow> validate_fields limits depth None flds = Ok"
  by (simp add: validate_record.simps split: if_splits)

lemma validated_is_normal:
  shows "validate_value limits v = Ok \<Longrightarrow> normalize_value limits v = Inr v"
    and "(\<forall>(name, v)\<in>set flds. \<exists>w. v = Some w \<and> validate_value limits w = Ok) \<Longrightarrow>
         normalize_fields limits flds = Inr flds"
proof (induction limits v and limits flds rule: normalize_value_normalize_fields.induct)
  case (1 limits v)
  show ?case
  proof (cases v)
    case (V_Record flds)
    from 1(2) have "validate_fields limits 1 None flds = Ok"
      by (auto simp: V_Record validate_value.simps intro: validate_record_fields)
    note f = validate_fields_ok [OF this]
    have "normalize_fields limits flds = Inr flds"
      by (rule 1(1) [OF V_Record]) (use f(2) in fastforce)
    with 1(2) f(1) show ?thesis
      by (simp add: V_Record normalize_value.simps finish_normalize_def names_sorted_std_sort
          names_sorted_adjacent)
  qed (use 1(2) in \<open>simp_all add: normalize_value.simps finish_normalize_def sort_unique_id
        validate_value.simps sorted_tokens_from_ok_iff split: if_splits\<close>)
next
  case (3 limits name v rest)
  then show ?case by auto
qed auto

lemma normalize_value_validates: "normalize_value limits v = Inr w \<Longrightarrow> validate_value limits w = Ok"
  by (auto simp: normalize_value.simps [of limits v] finish_normalize_def Let_def
      split: CapabilityValue.splits sum.splits if_splits)

text \<open>
  Normalization is the projection onto valid values. Its result passes validation and
  normalizing it again changes nothing.
\<close>

theorem normalize_value_idempotent:
  assumes "normalize_value limits v = Inr w"
  shows "validate_value limits w = Ok \<and> normalize_value limits w = Inr w"
  using assms normalize_value_validates validated_is_normal(1) by blast

text \<open>
  The order and multiplicity in which a publisher lists the members of a feature set is
  irrelevant: two listings of the same set normalize to the same result, accepted or not.
\<close>

theorem normalize_feature_set_canonical:
  assumes "set xs = set ys"
  shows "normalize_value limits (V_FeatureSet xs) = normalize_value limits (V_FeatureSet ys)"
  using sort_unique_eq [OF assms] by (simp add: normalize_value.simps)

section \<open>Depth\<close>

fun value_depth :: "CapabilityValue \<Rightarrow> nat" where
  "value_depth (V_Record flds) =
     Suc (foldr max (map (\<lambda>field. case field of (name, v) \<Rightarrow>
       (case v of None \<Rightarrow> 0 | Some w \<Rightarrow> value_depth w)) flds) 0)"
| "value_depth _ = 0"

lemma foldr_max_le: "foldr max xs 0 \<le> (n::nat) \<longleftrightarrow> (\<forall>x\<in>set xs. x \<le> n)"
  by (induction xs) auto

lemma validate_record_depth:
  "validate_record limits depth flds = Ok \<Longrightarrow>
   depth + (value_depth (V_Record flds) - 1) \<le> max_record_depth limits"
proof (induction flds arbitrary: depth rule: measure_induct_rule [of fields_size])
  case (less flds)
  have "depth \<le> max_record_depth limits"
    using less.prems by (simp add: validate_record.simps split: if_splits)
  have "value_depth w \<le> max_record_depth limits - depth" if "(name, Some w) \<in> set flds" for name w
  proof (cases "\<exists>sub. w = V_Record sub")
    case True
    then obtain sub where w: "w = V_Record sub" by auto
    have "validate_record limits (Suc depth) sub = Ok"
      using validate_fields_ok(2) [OF validate_record_fields [OF less.prems] that] w by simp
    moreover have "fields_size sub < fields_size flds"
      using size_field [OF that] w by simp
    ultimately show ?thesis
      using less.IH [of sub "Suc depth"] by (simp add: w)
  next
    case False
    then have "value_depth w = 0" by (cases w) auto
    with \<open>depth \<le> max_record_depth limits\<close> show ?thesis by simp
  qed
  then have "value_depth (V_Record flds) \<le> Suc (max_record_depth limits - depth)"
    by (auto simp: foldr_max_le split: option.split)
  with \<open>depth \<le> max_record_depth limits\<close> show ?case by simp
qed

text \<open>
  Validation restarts its depth counter at one for every nested record and still bounds the
  nesting of the whole value: a valid value nests records at most \<^verbatim>\<open>max_record_depth\<close> deep.
\<close>

theorem validate_value_bounds_depth:
  assumes "validate_value limits v = Ok"
  shows "value_depth v \<le> max_record_depth limits"
proof (cases v)
  case (V_Record flds)
  with assms have "validate_record limits 1 flds = Ok" by (simp add: validate_value.simps)
  from validate_record_depth [OF this] show ?thesis by (simp add: V_Record)
qed simp_all

section \<open>Numeric ranges\<close>

lemma sint64_bounds: "- 9223372036854775808 \<le> sint (w :: i64)" "sint (w :: i64) < 9223372036854775808"
  using sint_greater_eq [of w] sint_less [of w] by simp_all

text \<open>
  With the subtraction taken modulo two to the 64, the width check accepts a numeric range
  exactly when its mathematical width fits in a signed 64-bit integer.
\<close>

theorem numeric_range_width_exact:
  "validate_numeric_range minimum maximum step = Ok \<longleftrightarrow>
     sint minimum \<le> sint maximum \<and> sint maximum - sint minimum < 2 ^ 63 \<and> 0 < sint step"
proof -
  have "sint (maximum - minimum) < 0 \<longleftrightarrow> sint maximum - sint minimum \<ge> 2 ^ 63"
    if "sint minimum \<le> sint maximum"
  proof -
    define d where "d = sint maximum - sint minimum"
    have d: "0 \<le> d" "d < 2 * 2 ^ 63"
      using that sint64_bounds [of minimum] sint64_bounds [of maximum] by (simp_all add: d_def)
    have "sint (maximum - minimum) = signed_take_bit 63 d"
      by (simp add: sint_word_ariths d_def)
    moreover have "signed_take_bit 63 d < 0 \<longleftrightarrow> odd (d div 2 ^ 63)"
      by (simp add: bit_iff_odd)
    moreover have "d div 2 ^ 63 = (if d \<ge> 2 ^ 63 then 1 else 0)"
      using d by (auto intro: int_div_pos_eq [where r = "d - 2 ^ 63"])
    ultimately show ?thesis by (simp add: d_def)
  qed
  then show ?thesis by (auto simp: validate_numeric_range_def not_le not_less)
qed

end
