(* ===== verification/Hardware.thy ===== *)
theory Hardware
  imports Value
begin

text \<open>
  Hardware subjects (\<^verbatim>\<open>hardware.hpp\<close>, \<^verbatim>\<open>hardware.cpp\<close>): the class taxonomy, multi-level hardware
  identity, devices, platforms and the software state that qualifies evidence.

  An identity is its token, the empty string being the invalid identity. A native identifier is a
  pair of key and value ordered lexicographically.
\<close>

datatype HardwareClass =
    Unknown
  | Cpu
  | Gpu
  | Npu
  | TpuAccelerator
  | Fpga
  | AsicAccelerator
  | Nic
  | SmartNic
  | Dpu
  | CxlDevice
  | MemoryExpander
  | HbmDomain
  | DramDomain
  | PersistentMemory
  | PcieSwitch
  | NvSwitchLike
  | FabricSwitch
  | StorageController
  | NvmeDevice
  | NetworkAdapter
  | OffloadEngine
  | Other

fun to_string_HardwareClass :: "HardwareClass \<Rightarrow> string" where
  "to_string_HardwareClass HardwareClass.Unknown = ''unknown''"
| "to_string_HardwareClass HardwareClass.Cpu = ''cpu''"
| "to_string_HardwareClass HardwareClass.Gpu = ''gpu''"
| "to_string_HardwareClass HardwareClass.Npu = ''npu''"
| "to_string_HardwareClass HardwareClass.TpuAccelerator = ''tpu-accelerator''"
| "to_string_HardwareClass HardwareClass.Fpga = ''fpga''"
| "to_string_HardwareClass HardwareClass.AsicAccelerator = ''asic-accelerator''"
| "to_string_HardwareClass HardwareClass.Nic = ''nic''"
| "to_string_HardwareClass HardwareClass.SmartNic = ''smartnic''"
| "to_string_HardwareClass HardwareClass.Dpu = ''dpu''"
| "to_string_HardwareClass HardwareClass.CxlDevice = ''cxl-device''"
| "to_string_HardwareClass HardwareClass.MemoryExpander = ''memory-expander''"
| "to_string_HardwareClass HardwareClass.HbmDomain = ''hbm-domain''"
| "to_string_HardwareClass HardwareClass.DramDomain = ''dram-domain''"
| "to_string_HardwareClass HardwareClass.PersistentMemory = ''persistent-memory''"
| "to_string_HardwareClass HardwareClass.PcieSwitch = ''pcie-switch''"
| "to_string_HardwareClass HardwareClass.NvSwitchLike = ''nvswitch-like''"
| "to_string_HardwareClass HardwareClass.FabricSwitch = ''fabric-switch''"
| "to_string_HardwareClass HardwareClass.StorageController = ''storage-controller''"
| "to_string_HardwareClass HardwareClass.NvmeDevice = ''nvme-device''"
| "to_string_HardwareClass HardwareClass.NetworkAdapter = ''network-adapter''"
| "to_string_HardwareClass HardwareClass.OffloadEngine = ''offload-engine''"
| "to_string_HardwareClass HardwareClass.Other = ''other''"

definition all_HardwareClass :: "HardwareClass list" where
  "all_HardwareClass =
     [HardwareClass.Unknown, HardwareClass.Cpu, HardwareClass.Gpu,
      HardwareClass.Npu, HardwareClass.TpuAccelerator, HardwareClass.Fpga,
      HardwareClass.AsicAccelerator, HardwareClass.Nic, HardwareClass.SmartNic,
      HardwareClass.Dpu, HardwareClass.CxlDevice, HardwareClass.MemoryExpander,
      HardwareClass.HbmDomain, HardwareClass.DramDomain, HardwareClass.PersistentMemory,
      HardwareClass.PcieSwitch, HardwareClass.NvSwitchLike, HardwareClass.FabricSwitch,
      HardwareClass.StorageController, HardwareClass.NvmeDevice, HardwareClass.NetworkAdapter,
      HardwareClass.OffloadEngine, HardwareClass.Other]"

definition hardware_class_from_string :: "string \<Rightarrow> HardwareClass option" where
  "hardware_class_from_string text = find (\<lambda>v. equals_ascii_ci text (to_string_HardwareClass v)) all_HardwareClass"

type_synonym NativeIdentifier = "string \<times> string"

record HardwareIdentity =
  hw_vendor :: string
  hw_product :: string
  hw_family :: string
  hw_model :: string
  hw_revision :: string
  hw_architecture :: string
  hw_class :: HardwareClass
  hw_native_identifiers :: "NativeIdentifier list"

record DeviceIdentity =
  di_id :: string
  di_incarnation :: string
  di_hardware :: HardwareIdentity
  di_platform :: string
  di_serial_number :: "string option"
  di_instance_locator :: "string option"
  di_display_name :: string

record PlatformIdentity =
  pf_id :: string
  pf_display_name :: string
  pf_vendor :: string
  pf_model :: string
  pf_architecture :: string
  pf_native_identifiers :: "NativeIdentifier list"

record FirmwareIdentity =
  fw_id :: string
  fw_version :: string
  fw_build :: string

record DriverIdentity =
  dr_id :: string
  dr_version :: string

record RuntimeIdentity =
  rt_id :: string
  rt_version :: string

record DeviceSoftwareState =
  sw_firmware :: FirmwareIdentity
  sw_firmware_generation :: u64
  sw_driver :: DriverIdentity
  sw_driver_generation :: u64
  sw_runtime :: RuntimeIdentity
  sw_runtime_generation :: u64

record DeviceRegistration =
  reg_identity :: DeviceIdentity
  reg_software :: DeviceSoftwareState
  reg_platform :: PlatformIdentity
  reg_device_boot_observed :: bool
  reg_observation_sequence :: u64
  reg_observed_at_utc :: string

definition level_text :: "string \<Rightarrow> string" where
  "level_text token = (if id_valid token then token else ''-'')"

definition canonical_key :: "HardwareIdentity \<Rightarrow> string" where
  "canonical_key identity =
     level_text (hw_vendor identity) @ ''|'' @ level_text (hw_product identity) @ ''|'' @
     level_text (hw_family identity) @ ''|'' @ level_text (hw_model identity) @ ''|'' @
     level_text (hw_revision identity) @ ''|'' @ level_text (hw_architecture identity)"

definition normalize_hardware_identity :: "HardwareIdentity \<Rightarrow> HardwareIdentity" where
  "normalize_hardware_identity identity =
     identity\<lparr>hw_native_identifiers := sort_unique (hw_native_identifiers identity)\<rparr>"

fun check_native_identifiers :: "RegistryLimits \<Rightarrow> NativeIdentifier list \<Rightarrow> Status" where
  "check_native_identifiers limits [] = Ok"
| "check_native_identifiers limits ((key, value) # rest) =
     (if key = [] then InvalidIdentity
      else if length value > max_metadata_bytes limits then LimitExceeded
      else check_native_identifiers limits rest)"

definition validate_hardware_identity :: "HardwareIdentity \<Rightarrow> RegistryLimits \<Rightarrow> Status" where
  "validate_hardware_identity identity limits =
     (if length (hw_native_identifiers identity) > max_native_identifiers limits then LimitExceeded
      else let native = check_native_identifiers limits (hw_native_identifiers identity) in
        if \<not> ok native then native
        else if \<not> id_valid (hw_vendor identity) then InvalidIdentity
        else if \<not> id_valid (hw_family identity) \<and> \<not> id_valid (hw_model identity) then InvalidIdentity
        else if hw_class identity = HardwareClass.Unknown then InvalidIdentity
        else Ok)"

definition longer_than :: "string option \<Rightarrow> nat \<Rightarrow> bool" where
  "longer_than value bound = (case value of None \<Rightarrow> False | Some s \<Rightarrow> length s > bound)"

definition validate_device_identity :: "DeviceIdentity \<Rightarrow> RegistryLimits \<Rightarrow> Status" where
  "validate_device_identity identity limits =
     (if \<not> id_valid (di_id identity) then InvalidIdentity
      else if \<not> id_valid (di_incarnation identity) then InvalidIdentity
      else if length (di_display_name identity) > max_name_length limits then LimitExceeded
      else if longer_than (di_serial_number identity) (max_metadata_bytes limits) then LimitExceeded
      else if longer_than (di_instance_locator identity) (max_metadata_bytes limits) then LimitExceeded
      else validate_hardware_identity (di_hardware identity) limits)"

section \<open>Properties\<close>

interpretation hardware_class_names: enum_names all_HardwareClass to_string_HardwareClass equals_ascii_ci
proof (rule enum_names_lower)
  show "x \<in> set all_HardwareClass" for x by (cases x) (simp_all add: all_HardwareClass_def)
qed (simp_all add: all_HardwareClass_def)

lemma hardware_class_roundtrip: "hardware_class_from_string (to_string_HardwareClass c) = Some c"
  using hardware_class_names.parse_render by (simp add: hardware_class_from_string_def)

text \<open>Normalizing the native identifiers keeps exactly the published ones and is idempotent.\<close>

lemma normalize_hardware_identity_native:
  "set (hw_native_identifiers (normalize_hardware_identity h)) = set (hw_native_identifiers h)"
  by (simp add: normalize_hardware_identity_def)

lemma normalize_hardware_identity_idem [simp]:
  "normalize_hardware_identity (normalize_hardware_identity h) = normalize_hardware_identity h"
  by (simp add: normalize_hardware_identity_def sort_unique_id sort_unique_sorted)

lemma token_no_bar: "is_canonical_token token \<Longrightarrow> CHR ''|'' \<notin> set token"
  using canonical_token_chars [of token "CHR ''|''"]
  by (auto simp: token_alnum_def token_separator_def of_char_mono)

lemma token_not_dash: "is_canonical_token token \<Longrightarrow> token \<noteq> ''-''"
  by (auto simp: is_canonical_token_def token_alnum_def of_char_mono split: if_splits)

lemma level_text_no_bar: "wf_id token \<Longrightarrow> CHR ''|'' \<notin> set (level_text token)"
  by (auto simp: level_text_def wf_id_def id_valid_def token_no_bar)

lemma level_text_inject:
  "wf_id a \<Longrightarrow> wf_id b \<Longrightarrow> level_text a = level_text b \<longleftrightarrow> a = b"
  by (auto simp: level_text_def wf_id_def id_valid_def dest: token_not_dash split: if_splits)

lemma append_bar_inject:
  assumes "c \<notin> set a" and "c \<notin> set b"
  shows "a @ c # x = b @ c # y \<longleftrightarrow> a = b \<and> x = y"
  using assms by (induction a arbitrary: b) (case_tac b; auto)+

definition wf_hardware :: "HardwareIdentity \<Rightarrow> bool" where
  "wf_hardware h \<longleftrightarrow> wf_id (hw_vendor h) \<and> wf_id (hw_product h) \<and> wf_id (hw_family h) \<and>
     wf_id (hw_model h) \<and> wf_id (hw_revision h) \<and> wf_id (hw_architecture h)"

text \<open>
  The canonical key of a hardware identity names it: two identities built from canonical tokens
  have the same key only when all six levels agree, an unavailable level included.
\<close>

theorem canonical_key_inject:
  assumes "wf_hardware g" and "wf_hardware h" and "canonical_key g = canonical_key h"
  shows "hw_vendor g = hw_vendor h \<and> hw_product g = hw_product h \<and> hw_family g = hw_family h \<and>
         hw_model g = hw_model h \<and> hw_revision g = hw_revision h \<and>
         hw_architecture g = hw_architecture h"
  using assms unfolding wf_hardware_def canonical_key_def
  by (simp add: append_bar_inject level_text_no_bar level_text_inject)

theorem canonical_key_inject_witness:
  "let g = \<lparr>hw_vendor = ''v'', hw_product = [], hw_family = ''f'', hw_model = ''m'', hw_revision = [],
       hw_architecture = ''x86'', hw_class = HardwareClass.Gpu, hw_native_identifiers = []\<rparr>;
       h = g\<lparr>hw_class := HardwareClass.Cpu\<rparr>
   in canonical_key g = canonical_key h \<and> hw_vendor g = hw_vendor h \<and> hw_architecture g = hw_architecture h"
proof -
  let ?g = "\<lparr>hw_vendor = ''v'', hw_product = [], hw_family = ''f'', hw_model = ''m'', hw_revision = [],
       hw_architecture = ''x86'', hw_class = HardwareClass.Gpu, hw_native_identifiers = []\<rparr>"
  let ?h = "?g\<lparr>hw_class := HardwareClass.Cpu\<rparr>"
  have "wf_hardware ?g" "wf_hardware ?h" "canonical_key ?g = canonical_key ?h" by code_simp+
  with canonical_key_inject [of ?g ?h] show ?thesis unfolding Let_def by blast
qed

end
