(* ===== verification/Capability.thy ===== *)
theory Capability
  imports Hardware
begin

text \<open>
  Capability schemas and capability records (\<^verbatim>\<open>capability.hpp\<close>, \<^verbatim>\<open>capability.cpp\<close>): the typed,
  versioned schema a capability is bound to, one published observation, and their validation.
\<close>

datatype CapabilityDomain =
    Other
  | Compute
  | Memory
  | Partitioning
  | Interconnect
  | Networking
  | Runtime
  | Reliability
  | Power
  | Platform

fun to_string_CapabilityDomain :: "CapabilityDomain \<Rightarrow> string" where
  "to_string_CapabilityDomain CapabilityDomain.Other = ''other''"
| "to_string_CapabilityDomain CapabilityDomain.Compute = ''compute''"
| "to_string_CapabilityDomain CapabilityDomain.Memory = ''memory''"
| "to_string_CapabilityDomain CapabilityDomain.Partitioning = ''partitioning''"
| "to_string_CapabilityDomain CapabilityDomain.Interconnect = ''interconnect''"
| "to_string_CapabilityDomain CapabilityDomain.Networking = ''networking''"
| "to_string_CapabilityDomain CapabilityDomain.Runtime = ''runtime''"
| "to_string_CapabilityDomain CapabilityDomain.Reliability = ''reliability''"
| "to_string_CapabilityDomain CapabilityDomain.Power = ''power''"
| "to_string_CapabilityDomain CapabilityDomain.Platform = ''platform''"

definition all_CapabilityDomain :: "CapabilityDomain list" where
  "all_CapabilityDomain =
     [CapabilityDomain.Other, CapabilityDomain.Compute, CapabilityDomain.Memory,
      CapabilityDomain.Partitioning, CapabilityDomain.Interconnect, CapabilityDomain.Networking,
      CapabilityDomain.Runtime, CapabilityDomain.Reliability, CapabilityDomain.Power,
      CapabilityDomain.Platform]"

definition capability_domain_from_string :: "string \<Rightarrow> CapabilityDomain option" where
  "capability_domain_from_string text = find (\<lambda>v. equals_ascii_ci text (to_string_CapabilityDomain v)) all_CapabilityDomain"

record CapabilitySchema =
  cs_id :: string
  cs_capability :: string
  cs_domain :: CapabilityDomain
  cs_value_kind :: ValueKind
  cs_canonical_name :: string
  cs_unit :: string

record CapabilityRecord =
  cr_device :: string
  cr_device_generation :: u64
  cr_device_boot :: u64
  cr_capability :: string
  cr_schema :: string
  cr_capability_generation :: u64
  cr_support :: SupportState
  cr_value :: CapabilityValue
  cr_precision :: PrecisionClass
  cr_source :: EvidenceSource
  cr_conditions :: ConditionPtr
  cr_firmware_generation :: u64
  cr_driver_generation :: u64
  cr_runtime_generation :: u64
  cr_platform_generation :: u64
  cr_driver_id :: string
  cr_firmware_id :: string
  cr_runtime_id :: string
  cr_withdrawn :: bool

definition rfind_version_marker :: "string \<Rightarrow> nat option" where
  "rfind_version_marker token =
     find (\<lambda>i. take 2 (drop i token) = ''.v'') (rev [0..<length token])"

definition validate_schema_token :: "string \<Rightarrow> Status" where
  "validate_schema_token token =
     (case rfind_version_marker token of
        None \<Rightarrow> InvalidCapability
      | Some marker \<Rightarrow>
          if marker + 2 \<ge> length token then InvalidCapability
          else if \<not> list_all is_digit (drop (marker + 2) token) then InvalidCapability
          else Ok)"

definition validate_capability_schema :: "CapabilitySchema \<Rightarrow> RegistryLimits \<Rightarrow> Status" where
  "validate_capability_schema schema limits =
     (if \<not> id_valid (cs_id schema) then InvalidCapability
      else if \<not> id_valid (cs_capability schema) then InvalidCapability
      else if cs_value_kind schema = ValueKind.NoneKind then InvalidCapability
      else if cs_canonical_name schema = [] \<or> length (cs_canonical_name schema) > max_name_length limits
      then InvalidCapability
      else if cs_unit schema \<noteq> [] \<and> length (cs_unit schema) > max_metadata_bytes limits then LimitExceeded
      else validate_schema_token (cs_id schema))"

definition validate_capability_record :: "CapabilityRecord \<Rightarrow> RegistryLimits \<Rightarrow> Status" where
  "validate_capability_record record limits =
     (let source = cr_source record in
      if \<not> id_valid (cr_device record) then InvalidIdentity
      else if \<not> gen_valid (cr_device_generation record) then InvalidIdentity
      else if \<not> id_valid (cr_capability record) then InvalidCapability
      else if \<not> id_valid (cr_schema record) then InvalidCapability
      else if \<not> id_valid (pub_id (es_publisher source)) then InvalidProvenance
      else if es_adapter source = [] then InvalidProvenance
      else if length (es_adapter source) > max_metadata_bytes limits then LimitExceeded
      else if length (es_native_reference source) > max_metadata_bytes limits then LimitExceeded
      else if length (es_observed_at_utc source) > max_metadata_bytes limits then LimitExceeded
      else if es_source_class source = SourceClass.Unspecified then InvalidProvenance
      else if \<not> provenance_allowed_for (es_provenance source) (es_source_class source)
      then InvalidProvenance
      else if cr_withdrawn record \<and> cr_support record \<noteq> SupportState.Unknown then InvalidSupportState
      else if cr_withdrawn record \<and> \<not> value_empty (cr_value record) then InvalidValue
      else let conditions = (case cr_conditions record of
               None \<Rightarrow> Ok | Some node \<Rightarrow> validate_condition node limits) in
           if \<not> ok conditions then conditions
           else validate_value limits (cr_value record))"

section \<open>Properties\<close>

interpretation domain_names: enum_names all_CapabilityDomain to_string_CapabilityDomain equals_ascii_ci
proof (rule enum_names_lower)
  show "x \<in> set all_CapabilityDomain" for x by (cases x) (simp_all add: all_CapabilityDomain_def)
qed (simp_all add: all_CapabilityDomain_def)

lemma capability_domain_roundtrip: "capability_domain_from_string (to_string_CapabilityDomain d) = Some d"
  using domain_names.parse_render by (simp add: capability_domain_from_string_def)

lemma rfind_version_marker_SomeD:
  assumes "rfind_version_marker token = Some i"
  shows "take 2 (drop i token) = ''.v''" and "i < length token"
    and "\<And>j. i < j \<Longrightarrow> j < length token \<Longrightarrow> take 2 (drop j token) \<noteq> ''.v''"
proof -
  obtain k where k: "k < length token" "i = rev [0..<length token] ! k"
    "take 2 (drop i token) = ''.v''"
    "\<And>j. j < k \<Longrightarrow> take 2 (drop (rev [0..<length token] ! j) token) \<noteq> ''.v''"
    using assms unfolding rfind_version_marker_def by (auto simp: find_Some_iff)
  have i: "i = length token - 1 - k"
    using k(1,2) by (simp add: rev_nth)
  show "take 2 (drop i token) = ''.v''" by (rule k(3))
  show "i < length token" using i k(1) by simp
  show "take 2 (drop j token) \<noteq> ''.v''" if "i < j" "j < length token" for j
    using k(4) [of "length token - 1 - j"] that i by (simp add: rev_nth)
qed

text \<open>
  An accepted schema carries its version: its token ends in the marker \<^verbatim>\<open>.v\<close> followed by at least
  one digit and nothing else.
\<close>

theorem schema_token_versioned:
  assumes "validate_capability_schema schema limits = Ok"
  shows "\<exists>base digits. cs_id schema = base @ ''.v'' @ digits \<and> digits \<noteq> [] \<and> list_all is_digit digits"
proof -
  from assms have "validate_schema_token (cs_id schema) = Ok"
    by (simp add: validate_capability_schema_def split: if_splits)
  then obtain i where i: "rfind_version_marker (cs_id schema) = Some i"
    and len: "i + 2 < length (cs_id schema)"
    and dig: "list_all is_digit (drop (i + 2) (cs_id schema))"
    by (auto simp: validate_schema_token_def not_le split: option.splits if_splits)
  have "cs_id schema = take i (cs_id schema) @ take 2 (drop i (cs_id schema)) @ drop (i + 2) (cs_id schema)"
    by (metis append_take_drop_id drop_drop add.commute)
  then have "cs_id schema = take i (cs_id schema) @ ''.v'' @ drop (i + 2) (cs_id schema)"
    using rfind_version_marker_SomeD(1) [OF i] by simp
  with len dig show ?thesis by (metis drop_eq_Nil not_le)
qed

lemma validate_capability_record_okD [admission]:
  assumes "validate_capability_record record limits = Ok"
  shows "id_valid (cr_device record)" "gen_valid (cr_device_generation record)"
    "id_valid (cr_capability record)" "id_valid (cr_schema record)"
    "provenance_allowed_for (es_provenance (cr_source record)) (es_source_class (cr_source record))"
    "es_source_class (cr_source record) \<noteq> SourceClass.Unspecified"
    "cr_withdrawn record \<Longrightarrow> cr_support record = SupportState.Unknown \<and> value_empty (cr_value record)"
    "validate_value limits (cr_value record) = Ok"
  using assms unfolding validate_capability_record_def Let_def by (auto split: if_splits)

end
