(* ===== verification/Quirk.thy ===== *)
theory Quirk
  imports Capability
begin

text \<open>
  Quirks (\<^verbatim>\<open>quirk.hpp\<close>, \<^verbatim>\<open>quirk.cpp\<close>): records, applicability selectors, their validation, the
  precedence order and the evaluation of one quirk against a device, its software and an
  environment.
\<close>

datatype QuirkCategory =
    CapabilityMisreport
  | DriverDefect
  | FirmwareDefect
  | RevisionLimitation
  | RequiredWorkaround
  | BrokenFeatureCombination
  | PerformanceCaveat
  | ResetRequirement
  | UnsupportedCombination
  | VersionIncompatibility
  | Other

fun to_string_QuirkCategory :: "QuirkCategory \<Rightarrow> string" where
  "to_string_QuirkCategory QuirkCategory.CapabilityMisreport = ''capability-misreport''"
| "to_string_QuirkCategory QuirkCategory.DriverDefect = ''driver-defect''"
| "to_string_QuirkCategory QuirkCategory.FirmwareDefect = ''firmware-defect''"
| "to_string_QuirkCategory QuirkCategory.RevisionLimitation = ''revision-limitation''"
| "to_string_QuirkCategory QuirkCategory.RequiredWorkaround = ''required-workaround''"
| "to_string_QuirkCategory QuirkCategory.BrokenFeatureCombination = ''broken-feature-combination''"
| "to_string_QuirkCategory QuirkCategory.PerformanceCaveat = ''performance-caveat''"
| "to_string_QuirkCategory QuirkCategory.ResetRequirement = ''reset-requirement''"
| "to_string_QuirkCategory QuirkCategory.UnsupportedCombination = ''unsupported-combination''"
| "to_string_QuirkCategory QuirkCategory.VersionIncompatibility = ''version-incompatibility''"
| "to_string_QuirkCategory QuirkCategory.Other = ''other''"

definition all_QuirkCategory :: "QuirkCategory list" where
  "all_QuirkCategory =
     [QuirkCategory.CapabilityMisreport, QuirkCategory.DriverDefect, QuirkCategory.FirmwareDefect,
      QuirkCategory.RevisionLimitation, QuirkCategory.RequiredWorkaround, QuirkCategory.BrokenFeatureCombination,
      QuirkCategory.PerformanceCaveat, QuirkCategory.ResetRequirement, QuirkCategory.UnsupportedCombination,
      QuirkCategory.VersionIncompatibility, QuirkCategory.Other]"

definition quirk_category_from_string :: "string \<Rightarrow> QuirkCategory option" where
  "quirk_category_from_string text = find (\<lambda>v. equals_ascii_ci text (to_string_QuirkCategory v)) all_QuirkCategory"

datatype QuirkSeverity =
    Informational
  | Caveat
  | Degraded
  | Unusable
  | Fatal

fun to_string_QuirkSeverity :: "QuirkSeverity \<Rightarrow> string" where
  "to_string_QuirkSeverity QuirkSeverity.Informational = ''informational''"
| "to_string_QuirkSeverity QuirkSeverity.Caveat = ''caveat''"
| "to_string_QuirkSeverity QuirkSeverity.Degraded = ''degraded''"
| "to_string_QuirkSeverity QuirkSeverity.Unusable = ''unusable''"
| "to_string_QuirkSeverity QuirkSeverity.Fatal = ''fatal''"

definition all_QuirkSeverity :: "QuirkSeverity list" where
  "all_QuirkSeverity =
     [QuirkSeverity.Informational, QuirkSeverity.Caveat, QuirkSeverity.Degraded,
      QuirkSeverity.Unusable, QuirkSeverity.Fatal]"

definition quirk_severity_from_string :: "string \<Rightarrow> QuirkSeverity option" where
  "quirk_severity_from_string text = find (\<lambda>v. equals_ascii_ci text (to_string_QuirkSeverity v)) all_QuirkSeverity"

datatype MitigationKind =
    NoMitigation
  | UpgradeDriver
  | UpgradeFirmware
  | UpgradeRuntime
  | ChangeDeviceMode
  | ChangePlatformSetting
  | DisableFeature
  | UseAlternateCapability
  | ResetDevice
  | ContactVendor

fun to_string_MitigationKind :: "MitigationKind \<Rightarrow> string" where
  "to_string_MitigationKind MitigationKind.NoMitigation = ''none''"
| "to_string_MitigationKind MitigationKind.UpgradeDriver = ''upgrade-driver''"
| "to_string_MitigationKind MitigationKind.UpgradeFirmware = ''upgrade-firmware''"
| "to_string_MitigationKind MitigationKind.UpgradeRuntime = ''upgrade-runtime''"
| "to_string_MitigationKind MitigationKind.ChangeDeviceMode = ''change-device-mode''"
| "to_string_MitigationKind MitigationKind.ChangePlatformSetting = ''change-platform-setting''"
| "to_string_MitigationKind MitigationKind.DisableFeature = ''disable-feature''"
| "to_string_MitigationKind MitigationKind.UseAlternateCapability = ''use-alternate-capability''"
| "to_string_MitigationKind MitigationKind.ResetDevice = ''reset-device''"
| "to_string_MitigationKind MitigationKind.ContactVendor = ''contact-vendor''"

definition all_MitigationKind :: "MitigationKind list" where
  "all_MitigationKind =
     [MitigationKind.NoMitigation, MitigationKind.UpgradeDriver, MitigationKind.UpgradeFirmware,
      MitigationKind.UpgradeRuntime, MitigationKind.ChangeDeviceMode, MitigationKind.ChangePlatformSetting,
      MitigationKind.DisableFeature, MitigationKind.UseAlternateCapability, MitigationKind.ResetDevice,
      MitigationKind.ContactVendor]"

definition mitigation_kind_from_string :: "string \<Rightarrow> MitigationKind option" where
  "mitigation_kind_from_string text = find (\<lambda>v. equals_ascii_ci text (to_string_MitigationKind v)) all_MitigationKind"

datatype QuirkApplicabilityResult =
    Applies
  | DoesNotApply
  | Unknown

fun to_string_QuirkApplicabilityResult :: "QuirkApplicabilityResult \<Rightarrow> string" where
  "to_string_QuirkApplicabilityResult QuirkApplicabilityResult.Applies = ''applies''"
| "to_string_QuirkApplicabilityResult QuirkApplicabilityResult.DoesNotApply = ''does-not-apply''"
| "to_string_QuirkApplicabilityResult QuirkApplicabilityResult.Unknown = ''unknown''"

definition all_QuirkApplicabilityResult :: "QuirkApplicabilityResult list" where
  "all_QuirkApplicabilityResult =
     [QuirkApplicabilityResult.Applies, QuirkApplicabilityResult.DoesNotApply, QuirkApplicabilityResult.Unknown]"

record RevisionRange =
  rr_minimum :: string
  rr_maximum :: string

record QuirkApplicability =
  qa_vendors :: "string list"
  qa_families :: "string list"
  qa_models :: "string list"
  qa_devices :: "string list"
  qa_revisions :: "string list"
  qa_revision_ranges :: "RevisionRange list"
  qa_architectures :: "string list"
  qa_driver_ranges :: "VersionRange list"
  qa_firmware_ranges :: "VersionRange list"
  qa_runtime_ranges :: "VersionRange list"
  qa_platform_conditions :: ConditionPtr

record QuirkRecord =
  qr_id :: string
  qr_generation :: u64
  qr_title :: string
  qr_description :: string
  qr_category :: QuirkCategory
  qr_severity :: QuirkSeverity
  qr_mitigation :: MitigationKind
  qr_applicability :: QuirkApplicability
  qr_impacted_capabilities :: "string list"
  qr_source :: EvidenceSource
  qr_withdrawn :: bool

record QuirkApplication =
  qap_id :: string
  qap_generation :: u64
  qap_severity :: QuirkSeverity
  qap_mitigation :: MitigationKind
  qap_result :: QuirkApplicabilityResult
  qap_reason :: string
  qap_title :: string

definition severity_rank :: "QuirkSeverity \<Rightarrow> nat" where
  "severity_rank = enum_index all_QuirkSeverity"

definition compare_revision_token :: "string \<Rightarrow> string \<Rightarrow> int" where
  "compare_revision_token a b =
     (let left = parse_version a; right = parse_version b in
      if version_valid left \<and> version_valid right then version_compare left right
      else if a < b then -1 else if a > b then 1 else 0)"

definition describe_ranges :: "VersionRange list \<Rightarrow> string" where
  "describe_ranges ranges = join_with ''|'' (map range_describe ranges)"

section \<open>Validation\<close>

definition check_ids :: "string list \<Rightarrow> Status" where
  "check_ids values =
     (if length values > 1024 then LimitExceeded
      else if list_all id_valid values then Ok else InvalidIdentity)"

fun check_revision_ranges :: "RegistryLimits \<Rightarrow> RevisionRange list \<Rightarrow> Status" where
  "check_revision_ranges limits [] = Ok"
| "check_revision_ranges limits (r # rest) =
     (if rr_minimum r = [] \<or> rr_maximum r = [] then InvalidRange
      else if length (rr_minimum r) > max_metadata_bytes limits \<or>
              length (rr_maximum r) > max_metadata_bytes limits then LimitExceeded
      else if compare_revision_token (rr_minimum r) (rr_maximum r) > 0 then InvalidRange
      else check_revision_ranges limits rest)"

definition check_ranges :: "VersionRange list \<Rightarrow> Status" where
  "check_ranges ranges =
     (if list_all (\<lambda>r. range_valid r \<and> (version_valid (vr_minimum r) \<or> version_valid (vr_maximum r))) ranges
      then Ok else InvalidRange)"

definition validate_quirk_applicability :: "QuirkApplicability \<Rightarrow> RegistryLimits \<Rightarrow> Status" where
  "validate_quirk_applicability a limits =
     check_all (\<lambda>status. status) [
       check_ids (qa_vendors a), check_ids (qa_families a), check_ids (qa_models a),
       check_ids (qa_devices a), check_ids (qa_revisions a), check_ids (qa_architectures a),
       (if length (qa_revision_ranges a) > 64 \<or> length (qa_driver_ranges a) > 64 \<or>
           length (qa_firmware_ranges a) > 64 \<or> length (qa_runtime_ranges a) > 64
        then LimitExceeded else Ok),
       check_revision_ranges limits (qa_revision_ranges a),
       check_ranges (qa_driver_ranges a), check_ranges (qa_firmware_ranges a),
       check_ranges (qa_runtime_ranges a),
       (case qa_platform_conditions a of None \<Rightarrow> Ok | Some node \<Rightarrow> validate_condition node limits)]"

definition validate_quirk_record :: "QuirkRecord \<Rightarrow> RegistryLimits \<Rightarrow> Status" where
  "validate_quirk_record record limits =
     (let source = qr_source record in
      if \<not> id_valid (qr_id record) then InvalidIdentity
      else if \<not> gen_valid (qr_generation record) then InvalidIdentity
      else if qr_title record = [] \<or> length (qr_title record) > max_name_length limits then InvalidArgument
      else if length (qr_description record) > max_metadata_bytes limits then LimitExceeded
      else if qr_impacted_capabilities record = [] then InvalidCapability
      else if length (qr_impacted_capabilities record) > 64 then LimitExceeded
      else if \<not> list_all id_valid (qr_impacted_capabilities record) then InvalidCapability
      else if \<not> id_valid (pub_id (es_publisher source)) then InvalidProvenance
      else if es_adapter source = [] \<or> length (es_adapter source) > max_metadata_bytes limits
      then InvalidProvenance
      else if es_source_class source = SourceClass.Unspecified then InvalidProvenance
      else if \<not> provenance_allowed_for (es_provenance source) (es_source_class source)
      then InvalidProvenance
      else validate_quirk_applicability (qr_applicability record) limits)"

definition quirk_precedes :: "QuirkRecord \<Rightarrow> QuirkRecord \<Rightarrow> bool" where
  "quirk_precedes a b =
     (if qr_severity a \<noteq> qr_severity b then severity_rank (qr_severity a) > severity_rank (qr_severity b)
      else if qr_id a \<noteq> qr_id b then qr_id a < qr_id b
      else qr_generation a < qr_generation b)"

section \<open>Evaluation\<close>

text \<open>
  Each selector answers one of three ways: it rules the quirk out with a reason, it defers because
  the device does not say, or it matches. The first selector that rules out decides; otherwise the
  last deferral is the reason of an unknown answer.
\<close>

datatype Selector = Fails string | Defers string | Matches

definition select_required :: "string list \<Rightarrow> string \<Rightarrow> string \<Rightarrow> Selector" where
  "select_required values observed reason =
     (if values = [] then Matches
      else if \<not> id_valid observed \<or> observed \<notin> set values then Fails reason else Matches)"

definition select_device :: "string list \<Rightarrow> string \<Rightarrow> Selector" where
  "select_device values observed =
     (if values = [] then Matches
      else if observed \<notin> set values then Fails ''device not selected'' else Matches)"

definition select_optional :: "string list \<Rightarrow> string \<Rightarrow> string \<Rightarrow> string \<Rightarrow> Selector" where
  "select_optional values observed unknown reason =
     (if values = [] then Matches
      else if \<not> id_valid observed then Defers unknown
      else if observed \<notin> set values then Fails reason else Matches)"

definition in_revision_range :: "string \<Rightarrow> RevisionRange \<Rightarrow> bool" where
  "in_revision_range revision r \<longleftrightarrow>
     compare_revision_token revision (rr_minimum r) \<ge> 0 \<and>
     compare_revision_token revision (rr_maximum r) \<le> 0"

definition select_revision_ranges :: "RevisionRange list \<Rightarrow> string \<Rightarrow> Selector" where
  "select_revision_ranges ranges revision =
     (if ranges = [] then Matches
      else if \<not> id_valid revision then Defers ''device revision unknown''
      else if list_ex (in_revision_range revision) ranges then Matches
      else Fails ''revision outside range'')"

definition evaluate_ranges :: "VersionRange list \<Rightarrow> string \<Rightarrow> string \<Rightarrow> Selector" where
  "evaluate_ranges ranges observed axis =
     (if ranges = [] then Matches
      else if observed = [] then Defers (''device '' @ axis @ '' version unknown'')
      else let version = parse_version observed in
        if \<not> version_valid version then Defers (''device '' @ axis @ '' version unparseable'')
        else if list_ex (\<lambda>r. range_contains r version) ranges then Matches
        else Fails (axis @ '' version '' @ sv_raw version @ '' outside '' @ describe_ranges ranges))"

definition select_platform_conditions :: "ConditionPtr \<Rightarrow> EnvironmentContext \<Rightarrow> Selector" where
  "select_platform_conditions conditions env =
     (case conditions of
        None \<Rightarrow> Matches
      | Some node \<Rightarrow>
          (case cev_outcome (evaluate_condition conditions env) of
             Unsatisfied \<Rightarrow> Fails (''platform condition unsatisfied: '' @ describe_condition conditions)
           | ConditionOutcome.Unknown \<Rightarrow>
               Defers (''platform condition unknown: '' @ describe_condition conditions)
           | _ \<Rightarrow> Matches))"

definition quirk_selectors ::
  "QuirkRecord \<Rightarrow> DeviceIdentity \<Rightarrow> DeviceSoftwareState \<Rightarrow> EnvironmentContext \<Rightarrow> Selector list" where
  "quirk_selectors quirk device software env =
     (let a = qr_applicability quirk; hardware = di_hardware device in
      [select_device (qa_devices a) (di_id device),
       select_required (qa_vendors a) (hw_vendor hardware) ''vendor not selected'',
       select_required (qa_families a) (hw_family hardware) ''family not selected'',
       select_required (qa_models a) (hw_model hardware) ''model not selected'',
       select_optional (qa_architectures a) (hw_architecture hardware)
         ''device architecture unknown'' ''architecture not selected'',
       select_optional (qa_revisions a) (hw_revision hardware)
         ''device revision unknown'' ''revision not selected'',
       select_revision_ranges (qa_revision_ranges a) (hw_revision hardware),
       evaluate_ranges (qa_driver_ranges a) (dr_version (sw_driver software)) ''driver'',
       evaluate_ranges (qa_firmware_ranges a) (fw_version (sw_firmware software)) ''firmware'',
       evaluate_ranges (qa_runtime_ranges a) (rt_version (sw_runtime software)) ''runtime'',
       select_platform_conditions (qa_platform_conditions a) env])"

fun run_selectors :: "string option \<Rightarrow> Selector list \<Rightarrow> QuirkApplicabilityResult \<times> string" where
  "run_selectors None [] = (Applies, ''all applicability selectors matched'')"
| "run_selectors (Some reason) [] = (QuirkApplicabilityResult.Unknown, reason)"
| "run_selectors pending (Matches # rest) = run_selectors pending rest"
| "run_selectors pending (Defers reason # rest) = run_selectors (Some reason) rest"
| "run_selectors pending (Fails reason # rest) = (DoesNotApply, reason)"

definition evaluate_quirk ::
  "QuirkRecord \<Rightarrow> DeviceIdentity \<Rightarrow> DeviceSoftwareState \<Rightarrow> EnvironmentContext \<Rightarrow> QuirkApplication" where
  "evaluate_quirk quirk device software env =
     (case run_selectors None (quirk_selectors quirk device software env) of
        (result, reason) \<Rightarrow>
          \<lparr>qap_id = qr_id quirk, qap_generation = qr_generation quirk, qap_severity = qr_severity quirk,
           qap_mitigation = qr_mitigation quirk, qap_result = result, qap_reason = reason,
           qap_title = qr_title quirk\<rparr>)"

section \<open>Properties\<close>

interpretation quirk_category_names: enum_names all_QuirkCategory to_string_QuirkCategory equals_ascii_ci
proof (rule enum_names_lower)
  show "x \<in> set all_QuirkCategory" for x by (cases x) (simp_all add: all_QuirkCategory_def)
qed (simp_all add: all_QuirkCategory_def)

interpretation quirk_severity_names: enum_names all_QuirkSeverity to_string_QuirkSeverity equals_ascii_ci
proof (rule enum_names_lower)
  show "x \<in> set all_QuirkSeverity" for x by (cases x) (simp_all add: all_QuirkSeverity_def)
qed (simp_all add: all_QuirkSeverity_def)

interpretation mitigation_names: enum_names all_MitigationKind to_string_MitigationKind equals_ascii_ci
proof (rule enum_names_lower)
  show "x \<in> set all_MitigationKind" for x by (cases x) (simp_all add: all_MitigationKind_def)
qed (simp_all add: all_MitigationKind_def)

lemma quirk_category_roundtrip: "quirk_category_from_string (to_string_QuirkCategory c) = Some c"
  using quirk_category_names.parse_render by (simp add: quirk_category_from_string_def)

lemma quirk_severity_roundtrip: "quirk_severity_from_string (to_string_QuirkSeverity s) = Some s"
  using quirk_severity_names.parse_render by (simp add: quirk_severity_from_string_def)

lemma mitigation_kind_roundtrip: "mitigation_kind_from_string (to_string_MitigationKind m) = Some m"
  using mitigation_names.parse_render by (simp add: mitigation_kind_from_string_def)

lemma severity_rank_simps [simp]:
  "severity_rank Informational = 0" "severity_rank Caveat = 1" "severity_rank Degraded = 2"
  "severity_rank Unusable = 3" "severity_rank Fatal = 4"
  by (simp_all add: severity_rank_def enum_index_def all_QuirkSeverity_def)

lemma severity_rank_inject: "severity_rank a = severity_rank b \<longleftrightarrow> a = b"
  by (cases a; cases b) simp_all

text \<open>The precedence order is the requirement \<^verbatim>\<open>std::sort\<close> has on its comparator.\<close>

interpretation quirk_order: strict_weak_order quirk_precedes
proof (rule strict_weak_order_key)
  fix x y :: QuirkRecord
  show "quirk_precedes x y \<longleftrightarrow>
      (- int (severity_rank (qr_severity x)), qr_id x, qr_generation x) <
      (- int (severity_rank (qr_severity y)), qr_id y, qr_generation y)"
    by (auto simp: quirk_precedes_def severity_rank_inject [symmetric])
qed

lemma run_selectors_result:
  "fst (run_selectors pending sels) =
     (if \<exists>r. Fails r \<in> set sels then DoesNotApply
      else if pending \<noteq> None \<or> (\<exists>r. Defers r \<in> set sels) then QuirkApplicabilityResult.Unknown
      else Applies)"
  by (induction pending sels rule: run_selectors.induct) auto

text \<open>
  A quirk applies exactly when every selector positively matches; one selector that rules the
  device out decides against it whatever the others say, and only missing knowledge makes the answer
  unknown.
\<close>

theorem evaluate_quirk_result:
  "qap_result (evaluate_quirk quirk device software env) =
     (let sels = quirk_selectors quirk device software env in
      if \<exists>r. Fails r \<in> set sels then DoesNotApply
      else if \<exists>r. Defers r \<in> set sels then QuirkApplicabilityResult.Unknown
      else Applies)"
  using run_selectors_result [of None "quirk_selectors quirk device software env"]
  by (auto simp: evaluate_quirk_def Let_def split: prod.split)

lemma evaluate_ranges_matches:
  "evaluate_ranges ranges observed axis = Matches \<Longrightarrow> ranges \<noteq> [] \<Longrightarrow>
   version_valid (parse_version observed) \<and> (\<exists>r\<in>set ranges. range_contains r (parse_version observed))"
  by (auto simp: evaluate_ranges_def Let_def list_ex_iff split: if_splits)

text \<open>
  An applicable quirk with a driver selector was checked against an actual driver version: one of
  its ranges contains the version the device reports.
\<close>

theorem applied_quirk_saw_versions:
  assumes "qap_result (evaluate_quirk quirk device software env) = Applies"
    and "qa_driver_ranges (qr_applicability quirk) \<noteq> []"
  shows "\<exists>r\<in>set (qa_driver_ranges (qr_applicability quirk)).
           range_contains r (parse_version (dr_version (sw_driver software)))"
proof -
  let ?sel = "evaluate_ranges (qa_driver_ranges (qr_applicability quirk)) (dr_version (sw_driver software)) ''driver''"
  from assms(1) have "(\<forall>r. Fails r \<notin> set (quirk_selectors quirk device software env)) \<and>
      (\<forall>r. Defers r \<notin> set (quirk_selectors quirk device software env))"
    using run_selectors_result [of None "quirk_selectors quirk device software env"]
    by (auto simp: evaluate_quirk_def split: prod.splits if_splits)
  moreover have "?sel \<in> set (quirk_selectors quirk device software env)"
    by (simp add: quirk_selectors_def Let_def)
  ultimately have "?sel = Matches" by (cases ?sel) auto
  with assms(2) show ?thesis using evaluate_ranges_matches by blast
qed

end
