(* ===== verification/Compatibility.thy ===== *)
theory Compatibility
  imports Quirk
begin

text \<open>
  Compatibility facts (\<^verbatim>\<open>compatibility.hpp\<close>, \<^verbatim>\<open>compatibility.cpp\<close>): references to the two sides of a
  fact, the outcome and the validation of a fact.
\<close>

datatype CompatibilitySubjectKind =
    AcceleratorRuntime
  | AcceleratorDriver
  | AcceleratorCompilerTarget
  | AcceleratorKernelArchitecture
  | NicRdmaStack
  | GpuNicDirectPath
  | CxlPlatform
  | PartitionProfileDevice
  | FirmwareDriver
  | DpuServiceHardware
  | MemoryTypeExecutionEngine
  | PlatformDriver
  | Other

fun to_string_CompatibilitySubjectKind :: "CompatibilitySubjectKind \<Rightarrow> string" where
  "to_string_CompatibilitySubjectKind CompatibilitySubjectKind.AcceleratorRuntime = ''accelerator-runtime''"
| "to_string_CompatibilitySubjectKind CompatibilitySubjectKind.AcceleratorDriver = ''accelerator-driver''"
| "to_string_CompatibilitySubjectKind CompatibilitySubjectKind.AcceleratorCompilerTarget = ''accelerator-compiler-target''"
| "to_string_CompatibilitySubjectKind CompatibilitySubjectKind.AcceleratorKernelArchitecture = ''accelerator-kernel-architecture''"
| "to_string_CompatibilitySubjectKind CompatibilitySubjectKind.NicRdmaStack = ''nic-rdma-stack''"
| "to_string_CompatibilitySubjectKind CompatibilitySubjectKind.GpuNicDirectPath = ''gpu-nic-direct-path''"
| "to_string_CompatibilitySubjectKind CompatibilitySubjectKind.CxlPlatform = ''cxl-platform''"
| "to_string_CompatibilitySubjectKind CompatibilitySubjectKind.PartitionProfileDevice = ''partition-profile-device''"
| "to_string_CompatibilitySubjectKind CompatibilitySubjectKind.FirmwareDriver = ''firmware-driver''"
| "to_string_CompatibilitySubjectKind CompatibilitySubjectKind.DpuServiceHardware = ''dpu-service-hardware''"
| "to_string_CompatibilitySubjectKind CompatibilitySubjectKind.MemoryTypeExecutionEngine = ''memory-type-execution-engine''"
| "to_string_CompatibilitySubjectKind CompatibilitySubjectKind.PlatformDriver = ''platform-driver''"
| "to_string_CompatibilitySubjectKind CompatibilitySubjectKind.Other = ''other''"

definition all_CompatibilitySubjectKind :: "CompatibilitySubjectKind list" where
  "all_CompatibilitySubjectKind =
     [CompatibilitySubjectKind.AcceleratorRuntime, CompatibilitySubjectKind.AcceleratorDriver, CompatibilitySubjectKind.AcceleratorCompilerTarget,
      CompatibilitySubjectKind.AcceleratorKernelArchitecture, CompatibilitySubjectKind.NicRdmaStack, CompatibilitySubjectKind.GpuNicDirectPath,
      CompatibilitySubjectKind.CxlPlatform, CompatibilitySubjectKind.PartitionProfileDevice, CompatibilitySubjectKind.FirmwareDriver,
      CompatibilitySubjectKind.DpuServiceHardware, CompatibilitySubjectKind.MemoryTypeExecutionEngine, CompatibilitySubjectKind.PlatformDriver,
      CompatibilitySubjectKind.Other]"

definition compatibility_subject_kind_from_string :: "string \<Rightarrow> CompatibilitySubjectKind option" where
  "compatibility_subject_kind_from_string text = find (\<lambda>v. equals_ascii_ci text (to_string_CompatibilitySubjectKind v)) all_CompatibilitySubjectKind"

datatype ReferenceKind =
    Device
  | HardwareFamily
  | HardwareModel
  | Architecture
  | Vendor
  | Firmware
  | Driver
  | Runtime
  | Platform

fun to_string_ReferenceKind :: "ReferenceKind \<Rightarrow> string" where
  "to_string_ReferenceKind ReferenceKind.Device = ''device''"
| "to_string_ReferenceKind ReferenceKind.HardwareFamily = ''hardware-family''"
| "to_string_ReferenceKind ReferenceKind.HardwareModel = ''hardware-model''"
| "to_string_ReferenceKind ReferenceKind.Architecture = ''architecture''"
| "to_string_ReferenceKind ReferenceKind.Vendor = ''vendor''"
| "to_string_ReferenceKind ReferenceKind.Firmware = ''firmware''"
| "to_string_ReferenceKind ReferenceKind.Driver = ''driver''"
| "to_string_ReferenceKind ReferenceKind.Runtime = ''runtime''"
| "to_string_ReferenceKind ReferenceKind.Platform = ''platform''"

definition all_ReferenceKind :: "ReferenceKind list" where
  "all_ReferenceKind =
     [ReferenceKind.Device, ReferenceKind.HardwareFamily, ReferenceKind.HardwareModel,
      ReferenceKind.Architecture, ReferenceKind.Vendor, ReferenceKind.Firmware,
      ReferenceKind.Driver, ReferenceKind.Runtime, ReferenceKind.Platform]"

definition hardware_reference_kind_from_string :: "string \<Rightarrow> ReferenceKind option" where
  "hardware_reference_kind_from_string text = find (\<lambda>v. equals_ascii_ci text (to_string_ReferenceKind v)) all_ReferenceKind"

datatype CompatibilityOutcome =
    Compatible
  | CompatibleConditional
  | Incompatible
  | Unknown
  | Unsupported
  | RevalidationRequired

fun to_string_CompatibilityOutcome :: "CompatibilityOutcome \<Rightarrow> string" where
  "to_string_CompatibilityOutcome CompatibilityOutcome.Compatible = ''COMPATIBLE''"
| "to_string_CompatibilityOutcome CompatibilityOutcome.CompatibleConditional = ''COMPATIBLE_CONDITIONAL''"
| "to_string_CompatibilityOutcome CompatibilityOutcome.Incompatible = ''INCOMPATIBLE''"
| "to_string_CompatibilityOutcome CompatibilityOutcome.Unknown = ''UNKNOWN''"
| "to_string_CompatibilityOutcome CompatibilityOutcome.Unsupported = ''UNSUPPORTED''"
| "to_string_CompatibilityOutcome CompatibilityOutcome.RevalidationRequired = ''REVALIDATION_REQUIRED''"

definition all_CompatibilityOutcome :: "CompatibilityOutcome list" where
  "all_CompatibilityOutcome =
     [CompatibilityOutcome.Compatible, CompatibilityOutcome.CompatibleConditional, CompatibilityOutcome.Incompatible,
      CompatibilityOutcome.Unknown, CompatibilityOutcome.Unsupported, CompatibilityOutcome.RevalidationRequired]"

definition compatibility_outcome_from_string :: "string \<Rightarrow> CompatibilityOutcome option" where
  "compatibility_outcome_from_string text = find (\<lambda>v. equals_ascii_ci text (to_string_CompatibilityOutcome v)) all_CompatibilityOutcome"

record HardwareReference =
  hr_kind :: ReferenceKind
  hr_token :: string
  hr_version :: SoftwareVersion

record CompatibilityFact =
  cf_id :: string
  cf_generation :: u64
  cf_kind :: CompatibilitySubjectKind
  cf_lhs :: HardwareReference
  cf_rhs :: HardwareReference
  cf_outcome :: CompatibilityOutcome
  cf_conditions :: ConditionPtr
  cf_version_window :: VersionRange
  cf_reason :: string
  cf_source :: EvidenceSource
  cf_withdrawn :: bool

definition reference_eq :: "HardwareReference \<Rightarrow> HardwareReference \<Rightarrow> bool" where
  "reference_eq a b \<longleftrightarrow>
     hr_kind a = hr_kind b \<and> hr_token a = hr_token b \<and> version_compare (hr_version a) (hr_version b) = 0"

definition reference_less :: "HardwareReference \<Rightarrow> HardwareReference \<Rightarrow> bool" where
  "reference_less a b =
     (if hr_kind a \<noteq> hr_kind b
      then enum_index all_ReferenceKind (hr_kind a) < enum_index all_ReferenceKind (hr_kind b)
      else if hr_token a \<noteq> hr_token b then hr_token a < hr_token b
      else version_compare (hr_version a) (hr_version b) < 0)"

fun hardware_reference_requires_subject :: "ReferenceKind \<Rightarrow> bool" where
  "hardware_reference_requires_subject ReferenceKind.Device = True"
| "hardware_reference_requires_subject ReferenceKind.HardwareFamily = True"
| "hardware_reference_requires_subject ReferenceKind.HardwareModel = True"
| "hardware_reference_requires_subject ReferenceKind.Architecture = True"
| "hardware_reference_requires_subject ReferenceKind.Platform = True"
| "hardware_reference_requires_subject _ = False"

definition validate_compatibility_fact :: "CompatibilityFact \<Rightarrow> RegistryLimits \<Rightarrow> Status" where
  "validate_compatibility_fact f limits =
     (let source = cf_source f in
      if \<not> id_valid (cf_id f) then InvalidIdentity
      else if \<not> gen_valid (cf_generation f) then InvalidIdentity
      else if \<not> is_canonical_token (hr_token (cf_lhs f)) \<or> \<not> is_canonical_token (hr_token (cf_rhs f))
      then InvalidReference
      else if hr_kind (cf_lhs f) = hr_kind (cf_rhs f) \<and> hr_token (cf_lhs f) = hr_token (cf_rhs f) \<and>
              version_compare (hr_version (cf_lhs f)) (hr_version (cf_rhs f)) = 0
      then InvalidReference
      else if cf_reason f \<noteq> [] \<and> length (cf_reason f) > max_metadata_bytes limits then LimitExceeded
      else if (cf_outcome f = CompatibilityOutcome.Incompatible \<or>
               cf_outcome f = CompatibilityOutcome.Unsupported) \<and> cf_reason f = []
      then InvalidArgument
      else if \<not> range_valid (cf_version_window f) then InvalidRange
      else if \<not> id_valid (pub_id (es_publisher source)) then InvalidProvenance
      else if es_adapter source = [] \<or> length (es_adapter source) > max_metadata_bytes limits
      then InvalidProvenance
      else if es_source_class source = SourceClass.Unspecified then InvalidProvenance
      else if \<not> provenance_allowed_for (es_provenance source) (es_source_class source)
      then InvalidProvenance
      else case cf_conditions f of None \<Rightarrow> Ok | Some node \<Rightarrow> validate_condition node limits)"

section \<open>Properties\<close>

interpretation subject_kind_names: enum_names all_CompatibilitySubjectKind to_string_CompatibilitySubjectKind equals_ascii_ci
proof (rule enum_names_lower)
  show "x \<in> set all_CompatibilitySubjectKind" for x by (cases x) (simp_all add: all_CompatibilitySubjectKind_def)
qed (simp_all add: all_CompatibilitySubjectKind_def)

interpretation reference_kind_names: enum_names all_ReferenceKind to_string_ReferenceKind equals_ascii_ci
proof (rule enum_names_lower)
  show "x \<in> set all_ReferenceKind" for x by (cases x) (simp_all add: all_ReferenceKind_def)
qed (simp_all add: all_ReferenceKind_def)

interpretation compatibility_names: enum_names all_CompatibilityOutcome to_string_CompatibilityOutcome equals_ascii_ci
proof (rule enum_names_upper)
  show "x \<in> set all_CompatibilityOutcome" for x by (cases x) (simp_all add: all_CompatibilityOutcome_def)
qed (simp_all add: all_CompatibilityOutcome_def)

lemma compatibility_outcome_roundtrip:
  "compatibility_outcome_from_string (to_string_CompatibilityOutcome x) = Some x"
  using compatibility_names.parse_render by (simp add: compatibility_outcome_from_string_def)

lemma hardware_reference_kind_roundtrip:
  "hardware_reference_kind_from_string (to_string_ReferenceKind x) = Some x"
  using reference_kind_names.parse_render by (simp add: hardware_reference_kind_from_string_def)

lemma compatibility_subject_kind_roundtrip:
  "compatibility_subject_kind_from_string (to_string_CompatibilitySubjectKind x) = Some x"
  using subject_kind_names.parse_render by (simp add: compatibility_subject_kind_from_string_def)

lemma reference_kind_index_inject:
  "enum_index all_ReferenceKind a = enum_index all_ReferenceKind b \<longleftrightarrow> a = b"
  using nth_enum_index [OF reference_kind_names.complete] by metis

interpretation reference_order: strict_weak_order reference_less
proof unfold_locales
  fix x y z :: HardwareReference
  show "\<not> reference_less x x" by (simp add: reference_less_def)
  show "reference_less x y \<Longrightarrow> reference_less y z \<Longrightarrow> reference_less x z"
    using version_swo.trans [of "hr_version x" "hr_version y" "hr_version z"]
    by (auto simp: reference_less_def reference_kind_index_inject [symmetric] split: if_splits)
  show "reference_less x z \<Longrightarrow> reference_less x y \<or> reference_less y z"
    using version_swo.cotrans [of "hr_version x" "hr_version z" "hr_version y"]
    by (auto simp: reference_less_def reference_kind_index_inject [symmetric] split: if_splits)
qed

text \<open>An accepted fact relates two different subjects, and a negative outcome carries a reason.\<close>

lemma compatibility_fact_ok [admission]:
  assumes "validate_compatibility_fact f limits = Ok"
  shows "\<not> reference_eq (cf_lhs f) (cf_rhs f) \<and>
         (cf_outcome f \<in> {CompatibilityOutcome.Incompatible, CompatibilityOutcome.Unsupported}
            \<longrightarrow> cf_reason f \<noteq> []) \<and>
         provenance_allowed_for (es_provenance (cf_source f)) (es_source_class (cf_source f))"
  using assms unfolding validate_compatibility_fact_def Let_def reference_eq_def
  by (auto split: if_splits)

end
