(* ===== verification/Registry_State.thy ===== *)
theory Registry_State
  imports Compatibility
begin

text \<open>
  The state of the registry (\<^verbatim>\<open>registry.cpp\<close>, struct \<^verbatim>\<open>CapabilityRegistry::Impl\<close> and the structs of its
  anonymous namespace; \<^verbatim>\<open>publication.hpp\<close>, \<^verbatim>\<open>snapshot.hpp\<close>, \<^verbatim>\<open>durable_state.hpp\<close>): stored records, capability
  keys, devices, publishers with their fenced boots and watermarks, and the publication message with
  its validation and fingerprint.

  Ordered maps and sets are \<^typ>\<open>('k, 'v) omap\<close> and \<^typ>\<open>'k oset\<close>; generations, boots, epochs, sequences and
  serials are 64-bit words; container sizes are natural numbers. The mutex is not part of the state:
  every public operation holds it from its first to its last access, so an execution is a sequence of
  whole operations.
\<close>

datatype PublicationKind =
    RegisterPublisher
  | RegisterDevice
  | PublishDeviceGeneration
  | PublishCapability
  | WithdrawCapability
  | PublishQuirk
  | WithdrawQuirk
  | PublishCompatibility
  | WithdrawCompatibility
  | RegisterCapabilitySchema
  | Heartbeat

fun to_string_PublicationKind :: "PublicationKind \<Rightarrow> string" where
  "to_string_PublicationKind PublicationKind.RegisterPublisher = ''register-publisher''"
| "to_string_PublicationKind PublicationKind.RegisterDevice = ''register-device''"
| "to_string_PublicationKind PublicationKind.PublishDeviceGeneration = ''publish-device-generation''"
| "to_string_PublicationKind PublicationKind.PublishCapability = ''publish-capability''"
| "to_string_PublicationKind PublicationKind.WithdrawCapability = ''withdraw-capability''"
| "to_string_PublicationKind PublicationKind.PublishQuirk = ''publish-quirk''"
| "to_string_PublicationKind PublicationKind.WithdrawQuirk = ''withdraw-quirk''"
| "to_string_PublicationKind PublicationKind.PublishCompatibility = ''publish-compatibility''"
| "to_string_PublicationKind PublicationKind.WithdrawCompatibility = ''withdraw-compatibility''"
| "to_string_PublicationKind PublicationKind.RegisterCapabilitySchema = ''register-capability-schema''"
| "to_string_PublicationKind PublicationKind.Heartbeat = ''heartbeat''"

definition all_PublicationKind :: "PublicationKind list" where
  "all_PublicationKind =
     [PublicationKind.RegisterPublisher, PublicationKind.RegisterDevice, PublicationKind.PublishDeviceGeneration,
      PublicationKind.PublishCapability, PublicationKind.WithdrawCapability, PublicationKind.PublishQuirk,
      PublicationKind.WithdrawQuirk, PublicationKind.PublishCompatibility, PublicationKind.WithdrawCompatibility,
      PublicationKind.RegisterCapabilitySchema, PublicationKind.Heartbeat]"

definition publication_kind_from_string :: "string \<Rightarrow> PublicationKind option" where
  "publication_kind_from_string text = find (\<lambda>v. equals_ascii_ci text (to_string_PublicationKind v)) all_PublicationKind"

datatype ApplyCode =
    Accepted
  | AcceptedIdempotent
  | RejectedValidation
  | RejectedUnknownPublisher
  | RejectedFencedPublisher
  | RejectedStaleBoot
  | RejectedStaleEpoch
  | RejectedStaleSequence
  | RejectedGenerationRegression
  | RejectedDuplicateConflict
  | RejectedStaleDeviceGeneration
  | RejectedStaleCapabilityGeneration
  | RejectedUnknownDevice
  | RejectedUnknownSchema
  | RejectedLimit
  | RejectedBackpressure
  | RejectedShuttingDown
  | RejectedWithdrawnSubject
  | RejectedInvariant

fun to_string_ApplyCode :: "ApplyCode \<Rightarrow> string" where
  "to_string_ApplyCode ApplyCode.Accepted = ''accepted''"
| "to_string_ApplyCode ApplyCode.AcceptedIdempotent = ''accepted-idempotent''"
| "to_string_ApplyCode ApplyCode.RejectedValidation = ''rejected-validation''"
| "to_string_ApplyCode ApplyCode.RejectedUnknownPublisher = ''rejected-unknown-publisher''"
| "to_string_ApplyCode ApplyCode.RejectedFencedPublisher = ''rejected-fenced-publisher''"
| "to_string_ApplyCode ApplyCode.RejectedStaleBoot = ''rejected-stale-boot''"
| "to_string_ApplyCode ApplyCode.RejectedStaleEpoch = ''rejected-stale-epoch''"
| "to_string_ApplyCode ApplyCode.RejectedStaleSequence = ''rejected-stale-sequence''"
| "to_string_ApplyCode ApplyCode.RejectedGenerationRegression = ''rejected-generation-regression''"
| "to_string_ApplyCode ApplyCode.RejectedDuplicateConflict = ''rejected-duplicate-conflict''"
| "to_string_ApplyCode ApplyCode.RejectedStaleDeviceGeneration = ''rejected-stale-device-generation''"
| "to_string_ApplyCode ApplyCode.RejectedStaleCapabilityGeneration = ''rejected-stale-capability-generation''"
| "to_string_ApplyCode ApplyCode.RejectedUnknownDevice = ''rejected-unknown-device''"
| "to_string_ApplyCode ApplyCode.RejectedUnknownSchema = ''rejected-unknown-schema''"
| "to_string_ApplyCode ApplyCode.RejectedLimit = ''rejected-limit''"
| "to_string_ApplyCode ApplyCode.RejectedBackpressure = ''rejected-backpressure''"
| "to_string_ApplyCode ApplyCode.RejectedShuttingDown = ''rejected-shutting-down''"
| "to_string_ApplyCode ApplyCode.RejectedWithdrawnSubject = ''rejected-withdrawn-subject''"
| "to_string_ApplyCode ApplyCode.RejectedInvariant = ''rejected-invariant''"

definition all_ApplyCode :: "ApplyCode list" where
  "all_ApplyCode =
     [ApplyCode.Accepted, ApplyCode.AcceptedIdempotent, ApplyCode.RejectedValidation,
      ApplyCode.RejectedUnknownPublisher, ApplyCode.RejectedFencedPublisher, ApplyCode.RejectedStaleBoot,
      ApplyCode.RejectedStaleEpoch, ApplyCode.RejectedStaleSequence, ApplyCode.RejectedGenerationRegression,
      ApplyCode.RejectedDuplicateConflict, ApplyCode.RejectedStaleDeviceGeneration, ApplyCode.RejectedStaleCapabilityGeneration,
      ApplyCode.RejectedUnknownDevice, ApplyCode.RejectedUnknownSchema, ApplyCode.RejectedLimit,
      ApplyCode.RejectedBackpressure, ApplyCode.RejectedShuttingDown, ApplyCode.RejectedWithdrawnSubject,
      ApplyCode.RejectedInvariant]"

definition apply_code_accepted :: "ApplyCode \<Rightarrow> bool" where
  "apply_code_accepted code \<longleftrightarrow> code = Accepted \<or> code = AcceptedIdempotent"

record Publication =
  pb_kind :: PublicationKind
  pb_publisher :: PublisherIdentity
  pb_sequence :: u64
  pb_evidence_generation :: u64
  pb_device :: DeviceRegistration
  pb_capability :: CapabilityRecord
  pb_quirk :: QuirkRecord
  pb_compatibility :: CompatibilityFact
  pb_schema :: CapabilitySchema
  pb_reason :: string
  pb_issued_at_utc :: string

record ApplyResult =
  ar_code :: ApplyCode
  ar_mutated :: bool
  ar_assigned_publisher :: PublisherIdentity
  ar_device_generation :: u64
  ar_device_boot :: u64

definition result_of :: "ApplyCode \<Rightarrow> ApplyResult" where
  "result_of code = \<lparr>ar_code = code, ar_mutated = False, ar_assigned_publisher = no_publisher,
     ar_device_generation = 0, ar_device_boot = 0\<rparr>"

definition mutating :: "ApplyCode \<Rightarrow> ApplyResult" where
  "mutating code = (result_of code)\<lparr>ar_mutated := True\<rparr>"

definition accepted :: "ApplyResult \<Rightarrow> bool" where
  "accepted result = apply_code_accepted (ar_code result)"

type_synonym KeyId = "string \<times> string"

record StoredRecord =
  st_record :: CapabilityRecord
  st_persistent :: StalenessFlag
  st_slot :: string
  st_serial :: u64

record KeyState =
  ks_schema :: string
  ks_generation :: u64
  ks_has_evidence :: bool
  ks_records :: "StoredRecord list"

record DeviceState =
  ds_identity :: DeviceIdentity
  ds_software :: DeviceSoftwareState
  ds_generation :: u64
  ds_boot :: u64
  ds_platform_generation :: u64

record PublisherRecord =
  pr_identity :: PublisherIdentity
  pr_state :: PublisherState
  pr_adapter :: string
  pr_last_sequence :: u64
  pr_max_evidence_generation :: u64
  pr_accepted :: nat
  pr_rejected :: nat
  pr_reason :: string
  pr_registered_at_utc :: string
  pr_boot_history :: nat

record PublisherWatermark =
  wm_publisher :: string
  wm_boot :: u64
  wm_max_sequence :: u64
  wm_max_evidence_generation :: u64
  wm_state :: PublisherState
  wm_adapter :: string
  wm_reason :: string
  wm_accepted :: nat
  wm_rejected :: nat
  wm_registered_at_utc :: string

record PublisherStateInternal =
  ps_record :: PublisherRecord
  ps_fenced_boots :: "u64 oset"
  ps_watermarks :: "(u64, PublisherWatermark) omap"
  ps_sequence_fingerprints :: "(u64, u64) omap"
  ps_boot_history :: nat
  ps_publisher_fenced :: bool

type_synonym GlobalEntry = "KeyId \<times> u64"

record ResourceUsage =
  ru_devices :: nat
  ru_platforms :: nat
  ru_capability_keys :: nat
  ru_evidence_records :: nat
  ru_quirks :: nat
  ru_compatibility_facts :: nat
  ru_publishers :: nat
  ru_schemas :: nat
  ru_accepted_publications :: u64
  ru_rejected_publications :: u64
  ru_idempotent_publications :: u64
  ru_snapshots_taken :: u64

record Registry =
  rg_limits :: RegistryLimits
  rg_schemas :: "(string, CapabilitySchema) omap"
  rg_capability_schemas :: "(string, string) omap"
  rg_devices :: "(string, DeviceState) omap"
  rg_platforms :: "(string, PlatformIdentity) omap"
  rg_keys :: "(KeyId, KeyState) omap"
  rg_device_keys :: "(string, string oset) omap"
  rg_families :: "string oset"
  rg_models :: "string oset"
  rg_architectures :: "string oset"
  rg_global_order :: "GlobalEntry list"
  rg_evidence_count :: nat
  rg_next_serial :: u64
  rg_quirks :: "(string, QuirkRecord) omap"
  rg_compatibility :: "(string, CompatibilityFact) omap"
  rg_publishers :: "(string, PublisherStateInternal) omap"
  rg_epoch :: u64
  rg_snapshot_generation :: u64
  rg_state_revision :: u64
  rg_shutting_down :: bool
  rg_usage :: ResourceUsage

definition empty_publisher_record :: PublisherRecord where
  "empty_publisher_record = \<lparr>pr_identity = no_publisher, pr_state = PublisherState.Unknown, pr_adapter = [],
     pr_last_sequence = 0, pr_max_evidence_generation = 0, pr_accepted = 0, pr_rejected = 0,
     pr_reason = [], pr_registered_at_utc = [], pr_boot_history = 0\<rparr>"

definition empty_publisher_state :: PublisherStateInternal where
  "empty_publisher_state = \<lparr>ps_record = empty_publisher_record, ps_fenced_boots = [], ps_watermarks = [],
     ps_sequence_fingerprints = [], ps_boot_history = 0, ps_publisher_fenced = False\<rparr>"

definition empty_watermark :: PublisherWatermark where
  "empty_watermark = \<lparr>wm_publisher = [], wm_boot = 0, wm_max_sequence = 0, wm_max_evidence_generation = 0,
     wm_state = PublisherState.Unknown, wm_adapter = [], wm_reason = [], wm_accepted = 0, wm_rejected = 0,
     wm_registered_at_utc = []\<rparr>"

definition empty_key_state :: KeyState where
  "empty_key_state = \<lparr>ks_schema = [], ks_generation = 0, ks_has_evidence = False, ks_records = []\<rparr>"

definition empty_usage :: ResourceUsage where
  "empty_usage = \<lparr>ru_devices = 0, ru_platforms = 0, ru_capability_keys = 0, ru_evidence_records = 0,
     ru_quirks = 0, ru_compatibility_facts = 0, ru_publishers = 0, ru_schemas = 0,
     ru_accepted_publications = 0, ru_rejected_publications = 0, ru_idempotent_publications = 0,
     ru_snapshots_taken = 0\<rparr>"

text \<open>The constructor, over the list of built-in schemas.\<close>

definition emplace_schema :: "CapabilitySchema \<Rightarrow> Registry \<Rightarrow> Registry" where
  "emplace_schema schema reg =
     reg\<lparr>rg_schemas := om_emplace (cs_id schema) schema (rg_schemas reg),
         rg_capability_schemas := om_emplace (cs_capability schema) (cs_id schema) (rg_capability_schemas reg)\<rparr>"

definition empty_registry :: "RegistryLimits \<Rightarrow> Registry" where
  "empty_registry limits = \<lparr>rg_limits = limits, rg_schemas = [], rg_capability_schemas = [], rg_devices = [],
     rg_platforms = [], rg_keys = [], rg_device_keys = [], rg_families = [], rg_models = [],
     rg_architectures = [], rg_global_order = [], rg_evidence_count = 0, rg_next_serial = 1,
     rg_quirks = [], rg_compatibility = [], rg_publishers = [], rg_epoch = 0,
     rg_snapshot_generation = 0, rg_state_revision = 0, rg_shutting_down = False,
     rg_usage = empty_usage\<rparr>"

definition new_registry :: "CapabilitySchema list \<Rightarrow> RegistryLimits \<Rightarrow> Registry" where
  "new_registry builtin limits =
     (let reg = fold emplace_schema builtin (empty_registry limits) in
      reg\<lparr>rg_usage := (rg_usage reg)\<lparr>ru_schemas := length (rg_schemas reg)\<rparr>,
          rg_epoch := gen_first, rg_snapshot_generation := 0\<rparr>)"

section \<open>Publications\<close>

definition validate_publication :: "Publication \<Rightarrow> RegistryLimits \<Rightarrow> Status" where
  "validate_publication publication limits =
     (if \<not> id_valid (pub_id (pb_publisher publication)) then InvalidIdentity
      else if \<not> gen_valid (pub_boot (pb_publisher publication)) then InvalidIdentity
      else if length (pb_issued_at_utc publication) > max_metadata_bytes limits then LimitExceeded
      else if length (pb_reason publication) > max_metadata_bytes limits then LimitExceeded
      else case pb_kind publication of
        PublicationKind.RegisterPublisher \<Rightarrow> Ok
      | PublicationKind.Heartbeat \<Rightarrow> Ok
      | PublicationKind.RegisterDevice \<Rightarrow>
          validate_device_identity (reg_identity (pb_device publication)) limits
      | PublicationKind.PublishDeviceGeneration \<Rightarrow>
          validate_device_identity (reg_identity (pb_device publication)) limits
      | PublicationKind.PublishCapability \<Rightarrow>
          (if cr_withdrawn (pb_capability publication) then InvalidArgument
           else validate_capability_record (pb_capability publication) limits)
      | PublicationKind.WithdrawCapability \<Rightarrow>
          (if \<not> cr_withdrawn (pb_capability publication) then InvalidArgument
           else validate_capability_record (pb_capability publication) limits)
      | PublicationKind.PublishQuirk \<Rightarrow> validate_quirk_record (pb_quirk publication) limits
      | PublicationKind.WithdrawQuirk \<Rightarrow> validate_quirk_record (pb_quirk publication) limits
      | PublicationKind.PublishCompatibility \<Rightarrow>
          (if cf_withdrawn (pb_compatibility publication) then InvalidArgument
           else validate_compatibility_fact (pb_compatibility publication) limits)
      | PublicationKind.WithdrawCompatibility \<Rightarrow>
          (if \<not> cf_withdrawn (pb_compatibility publication) then InvalidArgument
           else validate_compatibility_fact (pb_compatibility publication) limits)
      | PublicationKind.RegisterCapabilitySchema \<Rightarrow>
          validate_capability_schema (pb_schema publication) limits)"

definition fingerprint_publication :: "Publication \<Rightarrow> string" where
  "fingerprint_publication publication =
     (let c = pb_capability publication; q = pb_quirk publication; f = pb_compatibility publication;
          d = pb_device publication;
          h = fnv1a64_mix (to_string_PublicationKind (pb_kind publication)) kFnvOffsetBasis;
          h = fnv1a64_mix (cr_device c) h;
          h = fnv1a64_mix (cr_capability c) h;
          h = fnv1a64_mix (cr_schema c) h;
          h = fnv1a64_mix_u64 (word_of_nat (enum_index all_SupportState (cr_support c))) h;
          h = fnv1a64_mix (value_describe (cr_value c)) h;
          h = fnv1a64_mix (describe_condition (cr_conditions c)) h;
          h = fnv1a64_mix (if cr_withdrawn c then ''withdrawn'' else ''present'') h;
          h = fnv1a64_mix (qr_id q) h;
          h = fnv1a64_mix (u64_to_string (qr_generation q)) h;
          h = fnv1a64_mix (qr_title q) h;
          h = fnv1a64_mix (cf_id f) h;
          h = fnv1a64_mix (u64_to_string (cf_generation f)) h;
          h = fnv1a64_mix (hr_token (cf_lhs f)) h;
          h = fnv1a64_mix (hr_token (cf_rhs f)) h;
          h = fnv1a64_mix (cs_id (pb_schema publication)) h;
          h = fnv1a64_mix (di_id (reg_identity d)) h;
          h = fnv1a64_mix (di_incarnation (reg_identity d)) h;
          h = fnv1a64_mix (dr_version (sw_driver (reg_software d))) h;
          h = fnv1a64_mix (fw_version (sw_firmware (reg_software d))) h;
          h = fnv1a64_mix (rt_version (sw_runtime (reg_software d))) h
      in hex64 h)"

definition capability_content_equal :: "CapabilityRecord \<Rightarrow> CapabilityRecord \<Rightarrow> bool" where
  "capability_content_equal left right \<longleftrightarrow>
     cr_support left = cr_support right \<and> value_eq (cr_value left) (cr_value right) \<and>
     describe_condition (cr_conditions left) = describe_condition (cr_conditions right)"

section \<open>Axes of a condition tree\<close>

text \<open>The stack is kept with its back at the head of the list.\<close>

function condition_tree_contains_loop :: "ConditionKind \<Rightarrow> ConditionPtr list \<Rightarrow> bool" where
  "condition_tree_contains_loop axis [] = False"
| "condition_tree_contains_loop axis (node # stack) =
     (case node of
        None \<Rightarrow> condition_tree_contains_loop axis stack
      | Some n \<Rightarrow>
          if cn_kind n = axis then True
          else condition_tree_contains_loop axis (rev (cn_children n) @ stack))"
  by pat_completeness auto
termination
  by (relation "measure (\<lambda>(axis, stack). sum_list (map ptr_nodes stack))")
    (auto simp: ptr_nodes_Some rev_map [symmetric] sum_list_rev ptr_nodes_def [of None])

definition condition_tree_contains :: "ConditionPtr \<Rightarrow> ConditionKind \<Rightarrow> bool" where
  "condition_tree_contains root axis =
     (case root of None \<Rightarrow> False | Some _ \<Rightarrow> condition_tree_contains_loop axis [root])"

definition record_gate_axis :: "CapabilityRecord \<Rightarrow> ConditionKind \<Rightarrow> bool" where
  "record_gate_axis record axis = condition_tree_contains (cr_conditions record) axis"

section \<open>Lookups and counters\<close>

definition watermark_for :: "string \<Rightarrow> PublisherStateInternal \<Rightarrow> PublisherWatermark" where
  "watermark_for pid publisher =
     (let r = ps_record publisher in
      \<lparr>wm_publisher = pid, wm_boot = pub_boot (pr_identity r), wm_max_sequence = pr_last_sequence r,
       wm_max_evidence_generation = pr_max_evidence_generation r, wm_state = pr_state r,
       wm_adapter = pr_adapter r, wm_reason = pr_reason r, wm_accepted = pr_accepted r,
       wm_rejected = pr_rejected r, wm_registered_at_utc = pr_registered_at_utc r\<rparr>)"

definition find_schema_locked :: "Registry \<Rightarrow> string \<Rightarrow> CapabilitySchema option" where
  "find_schema_locked reg schema = om_find schema (rg_schemas reg)"

definition find_device_locked :: "Registry \<Rightarrow> string \<Rightarrow> DeviceState option" where
  "find_device_locked reg device = om_find device (rg_devices reg)"

definition touch_locked :: "Registry \<Rightarrow> Registry" where
  "touch_locked reg = reg\<lparr>rg_state_revision := rg_state_revision reg + 1\<rparr>"

definition count_rejected :: "Registry \<Rightarrow> Registry" where
  "count_rejected reg = reg\<lparr>rg_usage := (rg_usage reg)
     \<lparr>ru_rejected_publications := ru_rejected_publications (rg_usage reg) + 1\<rparr>\<rparr>"

definition count_accepted :: "Registry \<Rightarrow> Registry" where
  "count_accepted reg = reg\<lparr>rg_usage := (rg_usage reg)
     \<lparr>ru_accepted_publications := ru_accepted_publications (rg_usage reg) + 1\<rparr>\<rparr>"

definition count_idempotent :: "Registry \<Rightarrow> Registry" where
  "count_idempotent reg = reg\<lparr>rg_usage := (rg_usage reg)
     \<lparr>ru_idempotent_publications := ru_idempotent_publications (rg_usage reg) + 1\<rparr>\<rparr>"

definition publisher_is_authoritative :: "Registry \<Rightarrow> CapabilityRecord \<Rightarrow> bool" where
  "publisher_is_authoritative reg record =
     (let identity = es_publisher (cr_source record) in
      case om_find (pub_id identity) (rg_publishers reg) of
        None \<Rightarrow> False
      | Some state \<Rightarrow>
          if ps_publisher_fenced state then False
          else if pr_state (ps_record state) \<noteq> PublisherState.Registered then False
          else if pub_boot (pr_identity (ps_record state)) \<noteq> pub_boot identity then False
          else if pub_boot identity \<in> set (ps_fenced_boots state) then False
          else True)"

section \<open>Properties\<close>

interpretation publication_kind_names: enum_names all_PublicationKind to_string_PublicationKind equals_ascii_ci
proof (rule enum_names_lower)
  show "x \<in> set all_PublicationKind" for x by (cases x) (simp_all add: all_PublicationKind_def)
qed (simp_all add: all_PublicationKind_def)

lemma publication_kind_roundtrip: "publication_kind_from_string (to_string_PublicationKind k) = Some k"
  using publication_kind_names.parse_render by (simp add: publication_kind_from_string_def)

lemma result_of_simps [simp]:
  "ar_code (result_of code) = code" "ar_mutated (result_of code) = False"
  "ar_code (mutating code) = code" "ar_mutated (mutating code) = True"
  "accepted (result_of code) = apply_code_accepted code"
  "accepted (mutating code) = apply_code_accepted code"
  by (simp_all add: result_of_def mutating_def accepted_def)

lemma apply_code_accepted_simps [simp]:
  "apply_code_accepted Accepted" "apply_code_accepted AcceptedIdempotent"
  by (simp_all add: apply_code_accepted_def)

lemma count_frame [frame, simp]:
  "rg_limits (count_rejected reg) = rg_limits reg" "rg_limits (count_accepted reg) = rg_limits reg"
  "rg_limits (count_idempotent reg) = rg_limits reg" "rg_limits (touch_locked reg) = rg_limits reg"
  "rg_publishers (count_rejected reg) = rg_publishers reg" "rg_publishers (count_accepted reg) = rg_publishers reg"
  "rg_publishers (count_idempotent reg) = rg_publishers reg" "rg_publishers (touch_locked reg) = rg_publishers reg"
  "rg_keys (count_rejected reg) = rg_keys reg" "rg_keys (count_accepted reg) = rg_keys reg"
  "rg_keys (count_idempotent reg) = rg_keys reg" "rg_keys (touch_locked reg) = rg_keys reg"
  "rg_devices (count_rejected reg) = rg_devices reg" "rg_devices (count_accepted reg) = rg_devices reg"
  "rg_devices (count_idempotent reg) = rg_devices reg" "rg_devices (touch_locked reg) = rg_devices reg"
  "rg_epoch (count_rejected reg) = rg_epoch reg" "rg_epoch (count_accepted reg) = rg_epoch reg"
  "rg_epoch (count_idempotent reg) = rg_epoch reg" "rg_epoch (touch_locked reg) = rg_epoch reg"
  by (simp_all add: count_rejected_def count_accepted_def count_idempotent_def touch_locked_def)

text \<open>
  Reference for the explicit-stack search: some node of the tree has the wanted kind.
\<close>

fun tree_has_kind :: "ConditionKind \<Rightarrow> ConditionNode \<Rightarrow> bool" where
  "tree_has_kind axis (ConditionNode kind key value children) \<longleftrightarrow>
     kind = axis \<or>
     list_ex (\<lambda>child. case child of None \<Rightarrow> False | Some node \<Rightarrow> tree_has_kind axis node) children"

definition ptr_has_kind :: "ConditionKind \<Rightarrow> ConditionPtr \<Rightarrow> bool" where
  "ptr_has_kind axis p = (case p of None \<Rightarrow> False | Some n \<Rightarrow> tree_has_kind axis n)"

lemma ptr_has_kind_Some:
  "ptr_has_kind axis (Some n) \<longleftrightarrow> cn_kind n = axis \<or> (\<exists>c\<in>set (cn_children n). ptr_has_kind axis c)"
  by (cases n) (auto simp: ptr_has_kind_def list_ex_iff)

lemma condition_tree_contains_loop_iff:
  "condition_tree_contains_loop axis stack \<longleftrightarrow> (\<exists>p\<in>set stack. ptr_has_kind axis p)"
proof (induction axis stack rule: condition_tree_contains_loop.induct)
  case (2 axis node stack)
  show ?case
  proof (cases node)
    case None
    with 2 show ?thesis by (simp add: ptr_has_kind_def)
  next
    case (Some n)
    with 2 show ?thesis by (auto simp: ptr_has_kind_Some)
  qed
qed simp

lemma condition_tree_contains_iff: "condition_tree_contains root axis \<longleftrightarrow> ptr_has_kind axis root"
  unfolding condition_tree_contains_def
  by (cases root) (auto simp: condition_tree_contains_loop_iff ptr_has_kind_def
      simp del: condition_tree_contains_loop.simps)

lemma publisher_is_authoritative_iff:
  "publisher_is_authoritative reg record \<longleftrightarrow>
     (\<exists>state. om_find (pub_id (es_publisher (cr_source record))) (rg_publishers reg) = Some state \<and>
        \<not> ps_publisher_fenced state \<and> pr_state (ps_record state) = PublisherState.Registered \<and>
        pub_boot (pr_identity (ps_record state)) = pub_boot (es_publisher (cr_source record)) \<and>
        pub_boot (es_publisher (cr_source record)) \<notin> set (ps_fenced_boots state))"
  by (auto simp: publisher_is_authoritative_def Let_def split: option.split)

end
