(* ===== verification/Resolution.thy ===== *)
theory Resolution
  imports Registry_State
begin

text \<open>
  Resolution (\<^verbatim>\<open>registry.cpp\<close>, \<^verbatim>\<open>compute_staleness_locked\<close> to \<^verbatim>\<open>build_explanation\<close> and
  \<^verbatim>\<open>current_winner_record\<close>; \<^verbatim>\<open>resolution.hpp\<close>): from the retained evidence of one capability key to
  the registry's answer. Staleness is recomputed from current device, publisher and epoch state for
  every answer; only records with no flag compete; the winner is chosen by authority, and the
  declared support is then qualified by conditions and quirks.

  Shown here: exactly when evidence is current, that a positive answer always rests on current
  evidence of the current device generation, that evidence of fenced boots, closed epochs and old
  generations never counts, that the winner is maximal in the authority order, and the precedence of
  the effective support.
\<close>

record EvidenceView =
  ev_capability_generation :: u64
  ev_support :: SupportState
  ev_value :: CapabilityValue
  ev_precision :: PrecisionClass
  ev_source :: EvidenceSource
  ev_staleness :: StalenessFlag
  ev_winner :: bool
  ev_withdrawn :: bool

record ResolvedCapability =
  rc_device :: string
  rc_device_generation :: u64
  rc_device_boot :: u64
  rc_capability :: string
  rc_schema :: string
  rc_capability_generation :: u64
  rc_declared_support :: SupportState
  rc_effective_support :: EffectiveSupport
  rc_value :: CapabilityValue
  rc_precision :: PrecisionClass
  rc_truth :: TruthClass
  rc_contradiction :: ContradictionState
  rc_staleness :: StalenessFlag
  rc_conditions :: ConditionPtr
  rc_condition_evaluation :: ConditionEvaluation
  rc_quirks :: "QuirkApplication list"
  rc_evidence :: "EvidenceView list"
  rc_firmware_generation :: u64
  rc_driver_generation :: u64
  rc_runtime_generation :: u64
  rc_current :: bool
  rc_known :: bool
  rc_explanation :: string

section \<open>Staleness\<close>

definition raise_if :: "bool \<Rightarrow> StalenessFlag \<Rightarrow> StalenessFlag \<Rightarrow> StalenessFlag" where
  "raise_if c flag flags = (if c then flags OR flag else flags)"

definition driver_axis_moved :: "CapabilityRecord \<Rightarrow> DeviceState \<Rightarrow> bool" where
  "driver_axis_moved record device \<longleftrightarrow>
     (\<not> provenance_is_durable (es_provenance (cr_source record)) \<or>
      record_gate_axis record ConditionKind.MinDriverVersion) \<and>
     gen_valid (cr_driver_generation record) \<and>
     cr_driver_generation record \<noteq> sw_driver_generation (ds_software device)"

definition firmware_axis_moved :: "CapabilityRecord \<Rightarrow> DeviceState \<Rightarrow> bool" where
  "firmware_axis_moved record device \<longleftrightarrow>
     (\<not> provenance_is_durable (es_provenance (cr_source record)) \<or>
      record_gate_axis record ConditionKind.MinFirmwareVersion) \<and>
     gen_valid (cr_firmware_generation record) \<and>
     cr_firmware_generation record \<noteq> sw_firmware_generation (ds_software device)"

definition runtime_axis_moved :: "CapabilityRecord \<Rightarrow> DeviceState \<Rightarrow> bool" where
  "runtime_axis_moved record device \<longleftrightarrow>
     (\<not> provenance_is_durable (es_provenance (cr_source record)) \<or>
      record_gate_axis record ConditionKind.MinRuntimeVersion) \<and>
     (id_valid (cr_runtime_id record) \<and> cr_runtime_id record = rt_id (sw_runtime (ds_software device))) \<and>
     gen_valid (cr_runtime_generation record) \<and>
     cr_runtime_generation record \<noteq> sw_runtime_generation (ds_software device)"

definition compute_staleness_locked ::
  "Registry \<Rightarrow> StoredRecord \<Rightarrow> DeviceState \<Rightarrow> u64 \<Rightarrow> bool \<Rightarrow> StalenessFlag" where
  "compute_staleness_locked reg stored device target target_is_current =
     (let record = st_record stored;
          flags = st_persistent stored;
          flags = raise_if (cr_withdrawn record) Stale_Withdrawn flags;
          flags = raise_if (cr_device_generation record \<noteq> target) Stale_DeviceGenerationSuperseded flags;
          flags = raise_if (\<not> target_is_current) Stale_DeviceGenerationSuperseded flags
      in if \<not> target_is_current then flags
         else
           let flags = raise_if (cr_device_boot record \<noteq> ds_boot device) Stale_DeviceBootChanged flags;
               live_bound = (\<not> provenance_is_durable (es_provenance (cr_source record)));
               flags = raise_if (driver_axis_moved record device) Stale_DriverGenerationChanged flags;
               flags = raise_if (firmware_axis_moved record device) Stale_FirmwareGenerationChanged flags;
               flags = raise_if (runtime_axis_moved record device) Stale_RuntimeGenerationChanged flags;
               flags = raise_if (live_bound \<and> gen_valid (cr_platform_generation record) \<and>
                         cr_platform_generation record \<noteq> ds_platform_generation device)
                         Stale_PlatformGenerationChanged flags;
               flags = raise_if (live_bound \<and> \<not> publisher_is_authoritative reg record)
                         Stale_PublisherFenced flags;
               flags = raise_if (live_bound \<and> pub_epoch (es_publisher (cr_source record)) \<noteq> rg_epoch reg)
                         Stale_EpochSuperseded flags
           in flags)"

section \<open>Orders on evidence\<close>

definition evidence_ordering :: "EvidenceView \<Rightarrow> EvidenceView \<Rightarrow> bool" where
  "evidence_ordering left right =
     (if ev_staleness left \<noteq> ev_staleness right
      then \<not> is_stale (ev_staleness left) \<and> is_stale (ev_staleness right)
      else if ev_winner left \<noteq> ev_winner right then ev_winner left
      else if ev_capability_generation left \<noteq> ev_capability_generation right
      then ev_capability_generation left > ev_capability_generation right
      else if authority (ev_source left) \<noteq> authority (ev_source right)
      then authority (ev_source left) > authority (ev_source right)
      else if pub_id (es_publisher (ev_source left)) \<noteq> pub_id (es_publisher (ev_source right))
      then pub_id (es_publisher (ev_source left)) < pub_id (es_publisher (ev_source right))
      else es_observation_sequence (ev_source left) > es_observation_sequence (ev_source right))"

definition by_authority :: "StoredRecord \<Rightarrow> StoredRecord \<Rightarrow> bool" where
  "by_authority left right =
     (let l = cr_source (st_record left); r = cr_source (st_record right) in
      if authority l \<noteq> authority r then authority l > authority r
      else if precision_class_rank (cr_precision (st_record left)) \<noteq>
              precision_class_rank (cr_precision (st_record right))
      then precision_class_rank (cr_precision (st_record left)) >
           precision_class_rank (cr_precision (st_record right))
      else if es_evidence_generation l \<noteq> es_evidence_generation r
      then es_evidence_generation l > es_evidence_generation r
      else if pub_id (es_publisher l) \<noteq> pub_id (es_publisher r)
      then pub_id (es_publisher l) < pub_id (es_publisher r)
      else es_observation_sequence l > es_observation_sequence r)"

definition assertion :: "StoredRecord \<Rightarrow> string" where
  "assertion stored =
     to_string_SupportState (cr_support (st_record stored)) @ ''|'' @
     value_describe (cr_value (st_record stored)) @ ''|'' @
     describe_condition (cr_conditions (st_record stored))"

definition evidence_view :: "StoredRecord \<Rightarrow> StalenessFlag \<Rightarrow> EvidenceView" where
  "evidence_view stored flags =
     \<lparr>ev_capability_generation = cr_capability_generation (st_record stored),
      ev_support = cr_support (st_record stored), ev_value = cr_value (st_record stored),
      ev_precision = cr_precision (st_record stored), ev_source = cr_source (st_record stored),
      ev_staleness = flags, ev_winner = False, ev_withdrawn = cr_withdrawn (st_record stored)\<rparr>"

section \<open>Quirks of an answer\<close>

fun gather_quirks_loop ::
  "nat \<Rightarrow> DeviceState \<Rightarrow> string \<Rightarrow> EnvironmentContext \<Rightarrow> QuirkRecord list \<Rightarrow>
   QuirkApplication list \<Rightarrow> QuirkApplication list \<Rightarrow> QuirkApplication list \<times> QuirkApplication list" where
  "gather_quirks_loop limit device capability env [] applications deferred = (applications, deferred)"
| "gather_quirks_loop limit device capability env (quirk # rest) applications deferred =
     (if qr_withdrawn quirk \<or> capability \<notin> set (qr_impacted_capabilities quirk)
      then gather_quirks_loop limit device capability env rest applications deferred
      else let application = evaluate_quirk quirk (ds_identity device) (ds_software device) env in
        if qap_result application = DoesNotApply
        then gather_quirks_loop limit device capability env rest applications deferred
        else
          let (applications', deferred') =
                (if qap_result application = QuirkApplicabilityResult.Unknown
                 then (applications, deferred @ [application])
                 else (applications @ [application], deferred)) in
          if length applications' + length deferred' \<ge> limit then (applications', deferred')
          else gather_quirks_loop limit device capability env rest applications' deferred')"

definition application_precedes :: "QuirkApplication \<Rightarrow> QuirkApplication \<Rightarrow> bool" where
  "application_precedes left right =
     (if qap_severity left \<noteq> qap_severity right
      then severity_rank (qap_severity left) > severity_rank (qap_severity right)
      else if qap_id left \<noteq> qap_id right then qap_id left < qap_id right
      else qap_generation left < qap_generation right)"

definition gather_quirks_locked ::
  "Registry \<Rightarrow> DeviceState \<Rightarrow> string \<Rightarrow> EnvironmentContext \<Rightarrow> QuirkApplication list" where
  "gather_quirks_locked reg device capability env =
     (case gather_quirks_loop (max_query_results (rg_limits reg)) device capability env
             (om_values (rg_quirks reg)) [] [] of
        (applications, deferred) \<Rightarrow>
          std_sort application_precedes applications @ std_sort application_precedes deferred)"

definition quirk_blocks :: "QuirkApplication \<Rightarrow> bool" where
  "quirk_blocks application \<longleftrightarrow>
     qap_result application = Applies \<and>
     (qap_severity application = Unusable \<or> qap_severity application = Fatal)"

definition quirk_caveats :: "QuirkApplication \<Rightarrow> bool" where
  "quirk_caveats application =
     (if qap_result application \<noteq> Applies then False
      else qap_severity application = Caveat \<or> qap_severity application = Degraded)"

section \<open>Effective support and truth\<close>

definition compute_effective_support :: "ResolvedCapability \<Rightarrow> EffectiveSupport" where
  "compute_effective_support resolved =
     (case rc_declared_support resolved of
        SupportState.Unknown \<Rightarrow> EffectiveSupport.Unknown
      | SupportState.RevalidationRequired \<Rightarrow> EffectiveSupport.RevalidationRequired
      | SupportState.Unsupported \<Rightarrow> EffectiveSupport.Unsupported
      | SupportState.Disabled \<Rightarrow> EffectiveSupport.Disabled
      | _ \<Rightarrow>
          (case cev_outcome (rc_condition_evaluation resolved) of
             Unsatisfied \<Rightarrow> EffectiveSupport.SupportedConditionalUnmet
           | ConditionOutcome.Unknown \<Rightarrow> EffectiveSupport.SupportedConditionalUnknown
           | _ \<Rightarrow>
               if list_ex quirk_blocks (rc_quirks resolved) then EffectiveSupport.BlockedByQuirk
               else if list_ex quirk_caveats (rc_quirks resolved) then EffectiveSupport.SupportedWithCaveat
               else EffectiveSupport.Supported))"

definition classify_truth :: "ResolvedCapability \<Rightarrow> TruthClass" where
  "classify_truth resolved =
     (if rc_declared_support resolved = SupportState.Unsupported \<or>
         rc_effective_support resolved = EffectiveSupport.Unsupported then TruthClass.Unsupported
      else if rc_effective_support resolved = EffectiveSupport.Unknown \<and>
              rc_declared_support resolved = SupportState.Unknown then TruthClass.Unknown
      else case find ev_winner (rc_evidence resolved) of
        None \<Rightarrow> TruthClass.Unknown
      | Some view \<Rightarrow>
          (case es_provenance (ev_source view) of
             ProvenanceClass.Synthetic \<Rightarrow> TruthClass.Synthetic
           | ProvenanceClass.UnknownSource \<Rightarrow> TruthClass.Unknown
           | _ \<Rightarrow> TruthClass.Real))"

definition nl :: string where
  "nl = [char_of (10 :: nat)] @ ''  ''"

definition explain_quirk :: "QuirkApplication \<Rightarrow> string" where
  "explain_quirk application =
     nl @ ''quirk '' @ qap_id application @ '' ['' @ to_string_QuirkSeverity (qap_severity application) @
     ''/'' @ to_string_QuirkApplicabilityResult (qap_result application) @ '']: '' @ qap_reason application"

definition explain_evidence :: "EvidenceView \<Rightarrow> string" where
  "explain_evidence view =
     (let source = ev_source view in
      nl @ ''evidence '' @ es_adapter source @
      (if es_native_reference source \<noteq> [] then '' reference='' @ es_native_reference source else []) @
      '' source='' @ to_string_SourceClass (es_source_class source) @
      '' provenance='' @ to_string_ProvenanceClass (es_provenance source) @
      '' support='' @ to_string_SupportState (ev_support view) @
      '' publisher='' @ pub_id (es_publisher source) @
      '' boot='' @ u64_to_string (pub_boot (es_publisher source)) @
      '' evidence-generation='' @ u64_to_string (es_evidence_generation source) @
      (if ev_winner view then '' [selected]'' else '' [not-selected]'') @
      (if is_stale (ev_staleness view) then '' stale='' @ describe_staleness (ev_staleness view) else []))"

definition build_explanation :: "ResolvedCapability \<Rightarrow> DeviceState \<Rightarrow> bool \<Rightarrow> string" where
  "build_explanation resolved device target_is_current =
     ''capability '' @ rc_capability resolved @ '' on device '' @ di_id (ds_identity device) @
     '' (generation '' @ u64_to_string (ds_generation device) @
     (if target_is_current then '', current)'' else '', historical)'') @
     nl @ ''declared: '' @ to_string_SupportState (rc_declared_support resolved) @
     nl @ ''effective: '' @ to_string_EffectiveSupport (rc_effective_support resolved) @
     (if \<not> value_empty (rc_value resolved) then nl @ ''value: '' @ value_describe (rc_value resolved) else []) @
     nl @ ''truth: '' @ to_string_TruthClass (rc_truth resolved) @
     nl @ ''precision: '' @ to_string_PrecisionClass (rc_precision resolved) @
     nl @ ''contradiction: '' @ to_string_ContradictionState (rc_contradiction resolved) @
     nl @ ''staleness: '' @ describe_staleness (rc_staleness resolved) @
     (if rc_conditions resolved \<noteq> None
      then nl @ ''conditions: '' @ describe_condition (rc_conditions resolved) @ '' => '' @
           to_string_ConditionOutcome (cev_outcome (rc_condition_evaluation resolved))
      else []) @
     concat (map explain_quirk (rc_quirks resolved)) @
     concat (map explain_evidence (rc_evidence resolved))"

section \<open>Resolution\<close>

definition no_evaluation :: ConditionEvaluation where
  "no_evaluation = \<lparr>cev_outcome = NotApplicable, cev_evidence = []\<rparr>"

definition resolve_base :: "DeviceState \<Rightarrow> string \<Rightarrow> bool \<Rightarrow> ResolvedCapability" where
  "resolve_base device capability target_is_current =
     \<lparr>rc_device = di_id (ds_identity device), rc_device_generation = ds_generation device,
      rc_device_boot = ds_boot device, rc_capability = capability, rc_schema = [],
      rc_capability_generation = 0, rc_declared_support = SupportState.Unknown,
      rc_effective_support = EffectiveSupport.Unknown, rc_value = V_None,
      rc_precision = PrecisionClass.Unknown, rc_truth = TruthClass.Unknown,
      rc_contradiction = ContradictionState.Consistent, rc_staleness = Stale_None,
      rc_conditions = None, rc_condition_evaluation = no_evaluation, rc_quirks = [], rc_evidence = [],
      rc_firmware_generation = sw_firmware_generation (ds_software device),
      rc_driver_generation = sw_driver_generation (ds_software device),
      rc_runtime_generation = sw_runtime_generation (ds_software device),
      rc_current = target_is_current, rc_known = False, rc_explanation = []\<rparr>"

text \<open>The newest record that is not a withdrawal: greatest generation, then greatest serial.\<close>

definition newer_than :: "StoredRecord \<Rightarrow> StoredRecord \<Rightarrow> bool" where
  "newer_than stored newest \<longleftrightarrow>
     cr_capability_generation (st_record stored) > cr_capability_generation (st_record newest) \<or>
     (cr_capability_generation (st_record stored) = cr_capability_generation (st_record newest) \<and>
      st_serial stored > st_serial newest)"

definition newest_retained :: "StoredRecord list \<Rightarrow> StoredRecord option" where
  "newest_retained records =
     fold (\<lambda>stored newest.
         if cr_withdrawn (st_record stored) then newest
         else case newest of
           None \<Rightarrow> Some stored
         | Some best \<Rightarrow> if newer_than stored best then Some stored else newest)
       records None"

definition resolve_stale ::
  "Registry \<Rightarrow> DeviceState \<Rightarrow> string \<Rightarrow> EnvironmentContext \<Rightarrow> KeyState \<Rightarrow> StalenessFlag \<Rightarrow>
   EvidenceView list \<Rightarrow> ResolvedCapability \<Rightarrow> ResolvedCapability" where
  "resolve_stale reg device capability env key any_flags evidence resolved =
     (let staleness = (if any_flags = Stale_None then Stale_RequiresRevalidation else any_flags);
          resolved = resolved\<lparr>rc_current := False,
            rc_contradiction := ContradictionState.RevalidationRequired, rc_staleness := staleness\<rparr>;
          resolved = (case newest_retained (ks_records key) of
              None \<Rightarrow> resolved\<lparr>rc_declared_support := SupportState.Unknown\<rparr>
            | Some newest \<Rightarrow>
                resolved\<lparr>rc_declared_support := cr_support (st_record newest),
                  rc_value := cr_value (st_record newest),
                  rc_precision := cr_precision (st_record newest),
                  rc_conditions := cr_conditions (st_record newest),
                  rc_condition_evaluation := evaluate_condition (cr_conditions (st_record newest)) env\<rparr>)
      in resolved\<lparr>rc_effective_support := EffectiveSupport.RevalidationRequired,
           rc_truth := (if ks_has_evidence key then TruthClass.Real else TruthClass.Unknown),
           rc_capability_generation := ks_generation key,
           rc_explanation := ''capability '' @ capability @ '' on device '' @ di_id (ds_identity device) @
             '': no current evidence ('' @ describe_staleness staleness @
             ''); declared knowledge is retained for audit but is not authoritative'',
           rc_evidence := std_sort evidence_ordering evidence,
           rc_quirks := gather_quirks_locked reg device capability env\<rparr>)"

definition pick_winner :: "StoredRecord \<Rightarrow> StoredRecord list \<Rightarrow> StoredRecord" where
  "pick_winner first rest =
     fold (\<lambda>candidate winner. if by_authority candidate winner then candidate else winner) rest first"

definition source_of :: "StoredRecord \<Rightarrow> EvidenceSource" where
  "source_of stored = cr_source (st_record stored)"

definition classify_contradiction :: "StoredRecord list \<Rightarrow> StoredRecord \<Rightarrow> ContradictionState" where
  "classify_contradiction candidates winner =
     (if list_all (\<lambda>c. assertion c = assertion (hd candidates)) candidates
      then ContradictionState.Consistent
      else
        let top = filter (\<lambda>c. authority (source_of c) = authority (source_of winner)) candidates in
        if \<not> list_all (\<lambda>c. assertion c = assertion (hd top)) top then ContradictionState.Ambiguous
        else
          let winner_live = provenance_is_real (es_provenance (source_of winner));
              dissent_all_non_live =
                list_all (\<lambda>c. assertion c = assertion winner \<or>
                   \<not> provenance_is_real (es_provenance (source_of c))) candidates in
          if winner_live \<and> dissent_all_non_live then ContradictionState.PreferredLiveEvidence
          else ContradictionState.PreferredHigherAuthoritySource)"

definition mark_winner :: "StoredRecord \<Rightarrow> EvidenceView \<Rightarrow> EvidenceView" where
  "mark_winner winner view =
     view\<lparr>ev_winner :=
       pub_id (es_publisher (ev_source view)) = pub_id (es_publisher (source_of winner)) \<and>
       ev_capability_generation view = cr_capability_generation (st_record winner) \<and>
       es_native_reference (ev_source view) = es_native_reference (source_of winner) \<and>
       es_observation_sequence (ev_source view) = es_observation_sequence (source_of winner)\<rparr>"

definition resolve_current ::
  "Registry \<Rightarrow> DeviceState \<Rightarrow> string \<Rightarrow> EnvironmentContext \<Rightarrow> bool \<Rightarrow> KeyState \<Rightarrow>
   StoredRecord list \<Rightarrow> EvidenceView list \<Rightarrow> ResolvedCapability \<Rightarrow> ResolvedCapability" where
  "resolve_current reg device capability env target_is_current key candidates evidence resolved =
     (let winner = pick_winner (hd candidates) (tl candidates);
          record = st_record winner;
          resolved = resolved\<lparr>
            rc_contradiction := classify_contradiction candidates winner,
            rc_capability_generation := ks_generation key,
            rc_declared_support := cr_support record, rc_value := cr_value record,
            rc_precision := cr_precision record, rc_conditions := cr_conditions record,
            rc_condition_evaluation := evaluate_condition (cr_conditions record) env,
            rc_staleness := Stale_None,
            rc_evidence := std_sort evidence_ordering (map (mark_winner winner) evidence),
            rc_quirks := gather_quirks_locked reg device capability env\<rparr>;
          resolved = resolved\<lparr>rc_effective_support := compute_effective_support resolved\<rparr>;
          resolved = resolved\<lparr>rc_truth := classify_truth resolved\<rparr>
      in resolved\<lparr>rc_explanation := build_explanation resolved device target_is_current\<rparr>)"

definition resolution_target :: "DeviceState \<Rightarrow> u64 \<Rightarrow> u64" where
  "resolution_target device pinned = (if gen_valid pinned then pinned else ds_generation device)"

definition current_candidates :: "Registry \<Rightarrow> DeviceState \<Rightarrow> u64 \<Rightarrow> KeyState \<Rightarrow> StoredRecord list" where
  "current_candidates reg device target key =
     filter (\<lambda>stored. compute_staleness_locked reg stored device target (target = ds_generation device)
                        = Stale_None) (ks_records key)"

definition resolve_locked ::
  "Registry \<Rightarrow> DeviceState \<Rightarrow> string \<Rightarrow> u64 \<Rightarrow> EnvironmentContext \<Rightarrow> ResolvedCapability" where
  "resolve_locked reg device capability pinned env =
     (let target = resolution_target device pinned;
          target_is_current = (target = ds_generation device);
          resolved = resolve_base device capability target_is_current in
      case om_find (di_id (ds_identity device), capability) (rg_keys reg) of
        None \<Rightarrow>
          resolved\<lparr>rc_current := False,
            rc_explanation := ''capability '' @ capability @ '' on device '' @ di_id (ds_identity device) @
              '': no capability knowledge recorded; state UNKNOWN (absence of evidence is not evidence of absence)''\<rparr>
      | Some key \<Rightarrow>
          let flags_of = (\<lambda>stored. compute_staleness_locked reg stored device target target_is_current);
              any_flags = fold (\<lambda>stored flags. flags OR flags_of stored) (ks_records key) Stale_None;
              evidence = map (\<lambda>stored. evidence_view stored (flags_of stored)) (ks_records key);
              candidates = current_candidates reg device target key;
              resolved = resolved\<lparr>rc_known := True, rc_schema := ks_schema key\<rparr> in
          if candidates = [] then resolve_stale reg device capability env key any_flags evidence resolved
          else resolve_current reg device capability env target_is_current key candidates evidence resolved)"

section \<open>The winner as ingestion sees it\<close>

definition outranks :: "StoredRecord \<Rightarrow> StoredRecord \<Rightarrow> bool" where
  "outranks stored winner =
     (if authority (source_of stored) > authority (source_of winner) then True
      else if authority (source_of stored) = authority (source_of winner)
      then pub_id (es_publisher (source_of stored)) < pub_id (es_publisher (source_of winner)) \<or>
           (pub_id (es_publisher (source_of stored)) = pub_id (es_publisher (source_of winner)) \<and>
            es_observation_sequence (source_of stored) > es_observation_sequence (source_of winner))
      else False)"

definition current_winner_record :: "Registry \<Rightarrow> DeviceState \<Rightarrow> string \<Rightarrow> StoredRecord option" where
  "current_winner_record reg device capability =
     (case om_find (di_id (ds_identity device), capability) (rg_keys reg) of
        None \<Rightarrow> None
      | Some key \<Rightarrow>
          fold (\<lambda>stored winner.
              if st_persistent stored \<noteq> Stale_None then winner
              else if compute_staleness_locked reg stored device (ds_generation device) True \<noteq> Stale_None
              then winner
              else case winner of
                None \<Rightarrow> Some stored
              | Some best \<Rightarrow> if outranks stored best then Some stored else winner)
            (ks_records key) None)"

definition usable :: "ResolvedCapability \<Rightarrow> bool" where
  "usable resolved \<longleftrightarrow>
     rc_effective_support resolved = EffectiveSupport.Supported \<or>
     rc_effective_support resolved = EffectiveSupport.SupportedWithCaveat"

section \<open>When evidence is current\<close>

lemma raise_if_None [simp]:
  "flag \<noteq> 0 \<Longrightarrow> raise_if c flag flags = Stale_None \<longleftrightarrow> \<not> c \<and> flags = Stale_None"
  by (auto simp: raise_if_def Stale_None_def)

lemma stale_flags_nonzero [simp]:
  "Stale_Withdrawn \<noteq> 0" "Stale_DeviceGenerationSuperseded \<noteq> 0" "Stale_DeviceBootChanged \<noteq> 0"
  "Stale_DriverGenerationChanged \<noteq> 0" "Stale_FirmwareGenerationChanged \<noteq> 0"
  "Stale_RuntimeGenerationChanged \<noteq> 0" "Stale_PlatformGenerationChanged \<noteq> 0"
  "Stale_PublisherFenced \<noteq> 0" "Stale_EpochSuperseded \<noteq> 0" "Stale_SupersededByNewerEvidence \<noteq> 0"
  "Stale_RequiresRevalidation \<noteq> 0"
  by (simp_all add: stale_flag_defs)

text \<open>
  What the registry promises of current evidence, as a predicate on the record, the device and the
  publishers: not superseded, not withdrawn, observed on this generation and boot of the device, no
  qualifying software axis has moved, and evidence bound to a live process still has its publisher's
  authority and epoch.
\<close>

definition live_authority_holds :: "Registry \<Rightarrow> CapabilityRecord \<Rightarrow> DeviceState \<Rightarrow> bool" where
  "live_authority_holds reg record device \<longleftrightarrow>
     publisher_is_authoritative reg record \<and>
     pub_epoch (es_publisher (cr_source record)) = rg_epoch reg \<and>
     (gen_valid (cr_platform_generation record) \<longrightarrow>
        cr_platform_generation record = ds_platform_generation device)"

definition current_evidence :: "Registry \<Rightarrow> StoredRecord \<Rightarrow> DeviceState \<Rightarrow> bool" where
  "current_evidence reg stored device \<longleftrightarrow>
     st_persistent stored = Stale_None \<and> \<not> cr_withdrawn (st_record stored) \<and>
     cr_device_generation (st_record stored) = ds_generation device \<and>
     cr_device_boot (st_record stored) = ds_boot device \<and>
     \<not> driver_axis_moved (st_record stored) device \<and>
     \<not> firmware_axis_moved (st_record stored) device \<and>
     \<not> runtime_axis_moved (st_record stored) device \<and>
     (\<not> provenance_is_durable (es_provenance (cr_source (st_record stored))) \<longrightarrow>
        live_authority_holds reg (st_record stored) device)"

lemma staleness_None_iff:
  "compute_staleness_locked reg stored device (ds_generation device) True = Stale_None \<longleftrightarrow>
     current_evidence reg stored device"
  by (auto simp: compute_staleness_locked_def Let_def current_evidence_def live_authority_holds_def)

lemma staleness_historical:
  "compute_staleness_locked reg stored device target False \<noteq> Stale_None"
  by (simp add: compute_staleness_locked_def Let_def)

lemma current_candidates_iff:
  "stored \<in> set (current_candidates reg device target key) \<longleftrightarrow>
     stored \<in> set (ks_records key) \<and> target = ds_generation device \<and> current_evidence reg stored device"
  by (cases "target = ds_generation device")
    (auto simp: current_candidates_def staleness_None_iff staleness_historical)

section \<open>The winner\<close>

definition authority_key :: "StoredRecord \<Rightarrow> int \<times> int \<times> int \<times> string \<times> int" where
  "authority_key stored =
     (- authority (source_of stored), - precision_class_rank (cr_precision (st_record stored)),
      - uint (es_evidence_generation (source_of stored)), pub_id (es_publisher (source_of stored)),
      - uint (es_observation_sequence (source_of stored)))"

lemma by_authority_key: "by_authority a b \<longleftrightarrow> authority_key a < authority_key b"
  unfolding by_authority_def Let_def authority_key_def source_of_def less_prod_if
  by (simp only: neg_equal_iff_equal neg_less_iff_less word_less_def word_uint_eq_iff)

interpretation authority_order: strict_weak_order by_authority
  by (rule strict_weak_order_key [OF by_authority_key])

lemma by_authority_le: "\<not> by_authority a b \<Longrightarrow> authority (source_of a) \<le> authority (source_of b)"
  by (auto simp: by_authority_def Let_def source_of_def split: if_splits)

interpretation application_order: strict_weak_order application_precedes
proof (rule strict_weak_order_key)
  fix x y :: QuirkApplication
  show "application_precedes x y \<longleftrightarrow>
      (- int (severity_rank (qap_severity x)), qap_id x, qap_generation x) <
      (- int (severity_rank (qap_severity y)), qap_id y, qap_generation y)"
    by (auto simp: application_precedes_def severity_rank_inject [symmetric])
qed

lemma pick_winner_in: "pick_winner x xs \<in> set (x # xs)"
  unfolding pick_winner_def by (induction xs arbitrary: x) (auto split: if_splits)

lemma pick_winner_maximal: "c \<in> set (x # xs) \<Longrightarrow> \<not> by_authority c (pick_winner x xs)"
proof (induction xs arbitrary: x c)
  case Nil
  then show ?case by (simp add: pick_winner_def authority_order.irrefl)
next
  case (Cons y ys)
  let ?x = "if by_authority y x then y else x"
  have step: "pick_winner x (y # ys) = pick_winner ?x ys"
    by (simp add: pick_winner_def)
  have hd: "\<not> by_authority ?x (pick_winner ?x ys)" by (rule Cons.IH) simp
  have "\<not> by_authority c ?x" if "c = x \<or> c = y"
    using that authority_order.asym authority_order.irrefl by auto
  then show ?case
    using Cons hd unfolding step
    by (metis authority_order.cotrans list.set_intros(2) set_ConsD)
qed

lemma pick_winner_greatest:
  assumes "cs \<noteq> []" and "c \<in> set cs"
  shows "authority (source_of c) \<le> authority (source_of (pick_winner (hd cs) (tl cs)))"
  using pick_winner_maximal [of c "hd cs" "tl cs"] assms by (simp add: by_authority_le)

text \<open>Effective support as a function of the three things it depends on.\<close>

definition effective_of :: "SupportState \<Rightarrow> ConditionOutcome \<Rightarrow> QuirkApplication list \<Rightarrow> EffectiveSupport" where
  "effective_of declared outcome quirks =
     (if declared = SupportState.Unknown then EffectiveSupport.Unknown
      else if declared = SupportState.RevalidationRequired then EffectiveSupport.RevalidationRequired
      else if declared = SupportState.Unsupported then EffectiveSupport.Unsupported
      else if declared = SupportState.Disabled then EffectiveSupport.Disabled
      else if outcome = Unsatisfied then EffectiveSupport.SupportedConditionalUnmet
      else if outcome = ConditionOutcome.Unknown then EffectiveSupport.SupportedConditionalUnknown
      else if \<exists>q\<in>set quirks. quirk_blocks q then EffectiveSupport.BlockedByQuirk
      else if \<exists>q\<in>set quirks. quirk_caveats q then EffectiveSupport.SupportedWithCaveat
      else EffectiveSupport.Supported)"

lemma compute_effective_support_eq:
  "compute_effective_support r =
     effective_of (rc_declared_support r) (cev_outcome (rc_condition_evaluation r)) (rc_quirks r)"
  by (simp add: compute_effective_support_def effective_of_def list_ex_iff
      split: SupportState.split ConditionOutcome.split)

lemma resolve_cases:
  obtains (unknown) "om_find (di_id (ds_identity device), capability) (rg_keys reg) = None"
      "rc_effective_support (resolve_locked reg device capability pinned env) = EffectiveSupport.Unknown"
      "\<not> rc_current (resolve_locked reg device capability pinned env)"
  | (stale) key where "om_find (di_id (ds_identity device), capability) (rg_keys reg) = Some key"
      "current_candidates reg device (resolution_target device pinned) key = []"
      "rc_effective_support (resolve_locked reg device capability pinned env) =
         EffectiveSupport.RevalidationRequired"
      "\<not> rc_current (resolve_locked reg device capability pinned env)"
  | (current) key winner where
      "om_find (di_id (ds_identity device), capability) (rg_keys reg) = Some key"
      "winner \<in> set (current_candidates reg device (resolution_target device pinned) key)"
      "\<forall>c\<in>set (current_candidates reg device (resolution_target device pinned) key).
         authority (source_of c) \<le> authority (source_of winner)"
      "rc_declared_support (resolve_locked reg device capability pinned env) = cr_support (st_record winner)"
      "rc_value (resolve_locked reg device capability pinned env) = cr_value (st_record winner)"
      "rc_effective_support (resolve_locked reg device capability pinned env) =
         effective_of (cr_support (st_record winner))
           (cev_outcome (evaluate_condition (cr_conditions (st_record winner)) env))
           (gather_quirks_locked reg device capability env)"
      "rc_contradiction (resolve_locked reg device capability pinned env) =
         classify_contradiction (current_candidates reg device (resolution_target device pinned) key) winner"
proof (cases "om_find (di_id (ds_identity device), capability) (rg_keys reg)")
  case None
  then show ?thesis by (intro unknown) (simp_all add: resolve_locked_def Let_def resolve_base_def)
next
  case (Some key)
  let ?cs = "current_candidates reg device (resolution_target device pinned) key"
  let ?w = "pick_winner (hd ?cs) (tl ?cs)"
  show ?thesis
  proof (cases "?cs = []")
    case True
    with Some show ?thesis
      by (intro stale) (simp_all add: resolve_locked_def resolve_stale_def Let_def split: option.split)
  next
    case False
    have "?w \<in> set ?cs"
      using pick_winner_in [of "hd ?cs" "tl ?cs"] False by simp
    with Some show ?thesis
      using pick_winner_greatest [OF False]
      by (intro current [of key ?w])
        (simp_all add: resolve_locked_def resolve_current_def Let_def False compute_effective_support_eq)
  qed
qed

section \<open>What an answer rests on\<close>

lemma effective_of_usable:
  assumes "effective_of declared outcome quirks \<in> {EffectiveSupport.Supported, EffectiveSupport.SupportedWithCaveat}"
  shows "asserts_capability_present declared" and "outcome \<in> {Satisfied, NotApplicable}"
    and "\<not> (\<exists>q\<in>set quirks. quirk_blocks q)"
proof -
  show "asserts_capability_present declared"
    using assms by (cases declared) (simp_all add: effective_of_def)
  show "outcome \<in> {Satisfied, NotApplicable}"
    using assms by (cases outcome) (auto simp: effective_of_def split: if_splits)
  show "\<not> (\<exists>q\<in>set quirks. quirk_blocks q)"
    using assms by (auto simp: effective_of_def split: if_splits)
qed

text \<open>
  C6: the registry never reports a capability as usable without current evidence. Whenever an answer
  is usable, the key holds a record that is current evidence for the current device generation, that
  record itself asserts the capability and supplies the reported support and value, its conditions
  hold in the queried environment, and no applicable quirk of the answer blocks it.
\<close>

theorem usable_rests_on_current_evidence:
  assumes "usable (resolve_locked reg device capability pinned env)"
  shows "\<exists>key stored.
           om_find (di_id (ds_identity device), capability) (rg_keys reg) = Some key \<and>
           stored \<in> set (ks_records key) \<and> current_evidence reg stored device \<and>
           asserts_capability_present (cr_support (st_record stored)) \<and>
           rc_declared_support (resolve_locked reg device capability pinned env) = cr_support (st_record stored) \<and>
           rc_value (resolve_locked reg device capability pinned env) = cr_value (st_record stored) \<and>
           cev_outcome (evaluate_condition (cr_conditions (st_record stored)) env) \<in> {Satisfied, NotApplicable} \<and>
           \<not> (\<exists>q\<in>set (gather_quirks_locked reg device capability env). quirk_blocks q)"
proof (cases rule: resolve_cases [where reg = reg and device = device and capability = capability
      and pinned = pinned and env = env])
  case (current key winner)
  from assms current(6) have "effective_of (cr_support (st_record winner))
        (cev_outcome (evaluate_condition (cr_conditions (st_record winner)) env))
        (gather_quirks_locked reg device capability env)
      \<in> {EffectiveSupport.Supported, EffectiveSupport.SupportedWithCaveat}"
    by (simp add: usable_def)
  note eff = effective_of_usable [OF this]
  from current(2) have "winner \<in> set (ks_records key)" "current_evidence reg winner device"
    by (simp_all add: current_candidates_iff)
  with current(1,4,5) eff show ?thesis by blast
qed (use assms in \<open>simp_all add: usable_def\<close>)

text \<open>
  An answer about a past generation of a device is history. A query pinned to a generation other
  than the current one is never marked current and never reports support.
\<close>

theorem pinned_history_is_not_current:
  assumes "gen_valid pinned" and "pinned \<noteq> ds_generation device"
  shows "\<not> rc_current (resolve_locked reg device capability pinned env) \<and>
         rc_effective_support (resolve_locked reg device capability pinned env)
           \<in> {EffectiveSupport.Unknown, EffectiveSupport.RevalidationRequired}"
proof (cases rule: resolve_cases [where reg = reg and device = device and capability = capability
      and pinned = pinned and env = env])
  case (current key winner)
  then have "resolution_target device pinned = ds_generation device"
    by (simp add: current_candidates_iff)
  with assms show ?thesis by (simp add: resolution_target_def)
qed simp_all

text \<open>
  C23: when a key has current evidence, the answer is the claim of a source nobody outranks: the reported support and
  value are those of one current record whose source authority is greatest among all current records of the key.
  (Without current evidence the answer reports the newest record that is retained, marked as not current.)
\<close>

theorem answer_has_greatest_authority:
  assumes "om_find (di_id (ds_identity device), capability) (rg_keys reg) = Some key"
    and "current_candidates reg device (resolution_target device pinned) key \<noteq> []"
  shows "\<exists>winner\<in>set (current_candidates reg device (resolution_target device pinned) key).
           rc_declared_support (resolve_locked reg device capability pinned env) = cr_support (st_record winner) \<and>
           rc_value (resolve_locked reg device capability pinned env) = cr_value (st_record winner) \<and>
           (\<forall>c\<in>set (current_candidates reg device (resolution_target device pinned) key).
              authority (source_of c) \<le> authority (source_of winner))"
proof (cases rule: resolve_cases [where reg = reg and device = device and capability = capability
      and pinned = pinned and env = env])
  case (current key' winner)
  with assms(1) show ?thesis by auto
qed (use assms in simp_all)

text \<open>What has lost its authority: evidence bound to a process whose publisher, boot or epoch is no longer in force.\<close>

definition unauthorised :: "Registry \<Rightarrow> StoredRecord \<Rightarrow> bool" where
  "unauthorised reg stored \<longleftrightarrow>
     \<not> provenance_is_durable (es_provenance (source_of stored)) \<and>
     (case om_find (pub_id (es_publisher (source_of stored))) (rg_publishers reg) of
        None \<Rightarrow> True
      | Some publisher \<Rightarrow>
          ps_publisher_fenced publisher \<or> pr_state (ps_record publisher) \<noteq> PublisherState.Registered \<or>
          pub_boot (es_publisher (source_of stored)) \<in> set (ps_fenced_boots publisher) \<or>
          pub_boot (es_publisher (source_of stored)) \<noteq> pub_boot (pr_identity (ps_record publisher)) \<or>
          pub_epoch (es_publisher (source_of stored)) \<noteq> rg_epoch reg)"

text \<open>
  C22: evidence bound to a process dies with its authority. A record that is not durable knowledge and
  whose publisher is unknown, fenced or not registered, or whose boot is fenced or no longer the registered one, or that carries
  another epoch than the coordinator's, is never among the records an answer is decided from, so a usable answer
  reports what another record claims that still has its authority; and when all records of a key are such, every answer
  for the key is marked as not current and none is usable. (Such an answer still reports the support and the value
  of the newest record it retains, as stale.)
\<close>

theorem unauthorised_evidence_is_never_current:
  "list_all (\<lambda>stored. \<not> unauthorised reg stored) (current_candidates reg device target key) \<and>
   (case om_find (di_id (ds_identity device), capability) (rg_keys reg) of
      None \<Rightarrow> \<not> usable (resolve_locked reg device capability pinned env)
    | Some key \<Rightarrow>
        (if list_all (unauthorised reg) (ks_records key)
         then \<not> rc_current (resolve_locked reg device capability pinned env) \<and>
           \<not> usable (resolve_locked reg device capability pinned env)
         else \<not> usable (resolve_locked reg device capability pinned env) \<or>
           list_ex (\<lambda>stored. \<not> unauthorised reg stored \<and>
             rc_declared_support (resolve_locked reg device capability pinned env) = cr_support (st_record stored) \<and>
             rc_value (resolve_locked reg device capability pinned env) = cr_value (st_record stored)) (ks_records key)))"
proof -
  have candidate: "stored \<in> set (ks_records key) \<and> \<not> unauthorised reg stored"
    if "stored \<in> set (current_candidates reg device target key)" for stored target key
    using that by (auto simp: unauthorised_def current_candidates_iff current_evidence_def live_authority_holds_def
        source_of_def publisher_is_authoritative_def Let_def split: option.splits if_splits)
  then have all: "list_all (\<lambda>stored. \<not> unauthorised reg stored) (current_candidates reg device target key)"
    by (auto simp: list_all_iff)
  show ?thesis
  proof (cases rule: resolve_cases [where reg = reg and device = device and capability = capability
        and pinned = pinned and env = env])
    case (current key' winner)
    let ?r = "resolve_locked reg device capability pinned env"
    have winner: "winner \<in> set (ks_records key')" "\<not> unauthorised reg winner"
      using candidate [OF current(2)] by blast+
    then have "\<not> list_all (unauthorised reg) (ks_records key')" by (auto simp: list_all_iff)
    moreover have "list_ex (\<lambda>stored. \<not> unauthorised reg stored \<and> rc_declared_support ?r = cr_support (st_record stored) \<and>
        rc_value ?r = cr_value (st_record stored)) (ks_records key')"
      unfolding list_ex_iff using winner current(4,5) by blast
    ultimately show ?thesis by (simp only: all current(1) option.case if_False simp_thms)
  qed (use candidate in \<open>auto simp: usable_def list_all_iff split: option.split\<close>)
qed

section \<open>Contradictions\<close>

text \<open>
  Ambiguity is reported exactly when current sources of the highest authority disagree: two
  current records that both have the winner's authority make different assertions.
\<close>

theorem ambiguous_iff_top_sources_disagree:
  assumes "winner \<in> set candidates"
  shows "classify_contradiction candidates winner = ContradictionState.Ambiguous \<longleftrightarrow>
         (\<exists>a\<in>set candidates. \<exists>b\<in>set candidates.
            authority (source_of a) = authority (source_of winner) \<and>
            authority (source_of b) = authority (source_of winner) \<and> assertion a \<noteq> assertion b)"
proof -
  define top where "top = filter (\<lambda>c. authority (source_of c) = authority (source_of winner)) candidates"
  have top: "hd top \<in> set top"
    using assms by (intro hd_in_set) (auto simp: top_def filter_empty_conv)
  have hd: "hd candidates \<in> set candidates" using assms by (cases candidates) auto
  have agree: "list_all (\<lambda>c. assertion c = assertion (hd xs)) xs \<longleftrightarrow>
      (\<forall>a\<in>set xs. \<forall>b\<in>set xs. assertion a = assertion b)" if "hd xs \<in> set xs" for xs
    unfolding list_all_iff using that by metis
  have "classify_contradiction candidates winner = ContradictionState.Ambiguous \<longleftrightarrow>
      \<not> list_all (\<lambda>c. assertion c = assertion (hd candidates)) candidates \<and>
      \<not> list_all (\<lambda>c. assertion c = assertion (hd top)) top"
    unfolding classify_contradiction_def Let_def top_def [symmetric] by (simp split: if_split)
  then show ?thesis
    unfolding agree [OF hd] agree [OF top] by (auto simp: top_def)
qed

text \<open>A candidate that no other one outranks.\<close>

definition nobody_outranks :: "StoredRecord list \<Rightarrow> StoredRecord \<Rightarrow> bool" where
  "nobody_outranks candidates a \<longleftrightarrow>
     a \<in> set candidates \<and> list_all (\<lambda>c. authority (source_of c) \<le> authority (source_of a)) candidates"

text \<open>
  C24: ambiguity is reported exactly when it is there. The answer for a capability is ambiguous if and only if two
  records that are current evidence for the generation asked for, neither of them outranked by any other, assert
  different things: their texts of support, value and conditions differ. Disagreement with a source of less authority never makes an answer ambiguous, and an answer
  without current evidence never is.
\<close>

theorem ambiguous_answer_iff:
  "rc_contradiction (resolve_locked reg device capability pinned env) = ContradictionState.Ambiguous \<longleftrightarrow>
     (\<exists>key a b. om_find (di_id (ds_identity device), capability) (rg_keys reg) = Some key \<and>
        nobody_outranks (current_candidates reg device (resolution_target device pinned) key) a \<and>
        nobody_outranks (current_candidates reg device (resolution_target device pinned) key) b \<and>
        to_string_SupportState (cr_support (st_record a)) @ ''|'' @ value_describe (cr_value (st_record a)) @ ''|'' @
          describe_condition (cr_conditions (st_record a)) \<noteq>
        to_string_SupportState (cr_support (st_record b)) @ ''|'' @ value_describe (cr_value (st_record b)) @ ''|'' @
          describe_condition (cr_conditions (st_record b)))"
proof (cases rule: resolve_cases [where reg = reg and device = device and capability = capability
      and pinned = pinned and env = env])
  case unknown
  then show ?thesis by (simp add: resolve_locked_def resolve_base_def Let_def)
next
  case (stale key)
  then show ?thesis
    by (auto simp: resolve_locked_def resolve_base_def resolve_stale_def nobody_outranks_def Let_def split: option.splits)
next
  case (current key winner)
  let ?cs = "current_candidates reg device (resolution_target device pinned) key"
  have top: "nobody_outranks ?cs a \<longleftrightarrow> a \<in> set ?cs \<and> authority (source_of a) = authority (source_of winner)" for a
    using current(2,3) unfolding nobody_outranks_def list_all_iff by (metis order_antisym order_refl)
  show ?thesis
    unfolding assertion_def [symmetric] current(7) ambiguous_iff_top_sources_disagree [OF current(2)]
    using current(1) by (auto simp: top)
qed

section \<open>Quirks decide\<close>

definition applying :: "DeviceState \<Rightarrow> string \<Rightarrow> EnvironmentContext \<Rightarrow> QuirkRecord \<Rightarrow> bool" where
  "applying device capability env quirk \<longleftrightarrow>
     \<not> qr_withdrawn quirk \<and> capability \<in> set (qr_impacted_capabilities quirk) \<and>
     qap_result (evaluate_quirk quirk (ds_identity device) (ds_software device) env) = Applies"

lemma gather_quirks_loop_applying:
  assumes "length applications + length deferred + length quirks \<le> limit"
    and "application \<in> set applications \<or>
         (\<exists>quirk\<in>set quirks. applying device capability env quirk \<and>
            application = evaluate_quirk quirk (ds_identity device) (ds_software device) env)"
  shows "application \<in> set (fst (gather_quirks_loop limit device capability env quirks applications deferred))"
  using assms
proof (induction quirks arbitrary: applications deferred)
  case (Cons quirk rest)
  let ?a = "evaluate_quirk quirk (ds_identity device) (ds_software device) env"
  let ?loop = "gather_quirks_loop limit device capability env"
  let ?later = "\<exists>q\<in>set rest. applying device capability env q \<and>
      application = evaluate_quirk q (ds_identity device) (ds_software device) env"
  show ?case
  proof (cases "qr_withdrawn quirk \<or> capability \<notin> set (qr_impacted_capabilities quirk) \<or>
      qap_result ?a = DoesNotApply")
    case True
    then have "?loop (quirk # rest) applications deferred = ?loop rest applications deferred"
      by (auto simp: Let_def)
    moreover from True have "\<not> applying device capability env quirk" by (auto simp: applying_def)
    ultimately show ?thesis using Cons.IH [of applications deferred] Cons.prems by auto
  next
    case False
    define apps where
      "apps = (if qap_result ?a = QuirkApplicabilityResult.Unknown then applications else applications @ [?a])"
    define defs where
      "defs = (if qap_result ?a = QuirkApplicabilityResult.Unknown then deferred @ [?a] else deferred)"
    have step: "?loop (quirk # rest) applications deferred =
        (if length apps + length defs \<ge> limit then (apps, defs) else ?loop rest apps defs)"
      using False by (simp add: Let_def apps_def defs_def)
    have len: "length apps + length defs + length rest \<le> limit" using Cons.prems(1) by (simp add: apps_def defs_def)
    have mem: "application \<in> set apps \<or> ?later"
      using Cons.prems(2) by (auto simp: applying_def apps_def)
    show ?thesis
    proof (cases "length apps + length defs \<ge> limit")
      case True
      with len have "length rest = 0" by linarith
      then have "rest = []" by simp
      with mem True show ?thesis unfolding step by simp
    next
      case more: False
      from Cons.IH [OF len mem] more show ?thesis unfolding step by (simp only: if_False)
    qed
  qed
qed simp

lemma gather_quirks_complete:
  assumes "length (rg_quirks reg) \<le> max_query_results (rg_limits reg)"
    and "quirk \<in> set (om_values (rg_quirks reg))" and "applying device capability env quirk"
  shows "evaluate_quirk quirk (ds_identity device) (ds_software device) env
           \<in> set (gather_quirks_locked reg device capability env)"
proof -
  let ?res = "gather_quirks_loop (max_query_results (rg_limits reg)) device capability env
      (om_values (rg_quirks reg)) [] []"
  have "evaluate_quirk quirk (ds_identity device) (ds_software device) env \<in> set (fst ?res)"
    by (rule gather_quirks_loop_applying) (use assms in \<open>auto simp: om_values_def\<close>)
  then show ?thesis
    by (cases ?res) (simp add: gather_quirks_locked_def)
qed

lemma evaluate_quirk_severity [simp]:
  "qap_severity (evaluate_quirk quirk device software env) = qr_severity quirk"
  by (simp add: evaluate_quirk_def split: prod.split)

text \<open>
  C29: a blocking quirk blocks, as long as the registry holds no more quirks than a query may return. Then a
  published quirk of severity unusable or fatal that impacts the capability and applies to the device
  keeps every answer for that capability from being usable, whatever the evidence claims. The default limits do not
  imply that bound; beyond it the quirk can be missed (the theorem after this one).
\<close>

theorem blocking_quirk_prevents_use:
  assumes "length (rg_quirks reg) \<le> max_query_results (rg_limits reg)"
    and "quirk \<in> set (om_values (rg_quirks reg))" and "applying device capability env quirk"
    and "qr_severity quirk = Unusable \<or> qr_severity quirk = Fatal"
  shows "\<not> usable (resolve_locked reg device capability pinned env)"
proof (cases rule: resolve_cases [where reg = reg and device = device and capability = capability
      and pinned = pinned and env = env])
  case (current key winner)
  let ?a = "evaluate_quirk quirk (ds_identity device) (ds_software device) env"
  have "?a \<in> set (gather_quirks_locked reg device capability env)"
    by (rule gather_quirks_complete [OF assms(1-3)])
  moreover have "quirk_blocks ?a"
    using assms(3,4) by (auto simp: quirk_blocks_def applying_def)
  ultimately show ?thesis
    using current(6) effective_of_usable(3) by (auto simp: usable_def)
qed (simp_all add: usable_def)

text \<open>
  Beyond the bound quirks are missed. When as many quirks as a query may return apply to the device and come first,
  the answer rests on those alone, and a quirk after them blocks nothing.
\<close>

lemma gather_quirks_loop_full:
  assumes "list_all (applying device capability env) front" and "front \<noteq> []"
    and "length applications + length deferred + length front = limit"
  shows "gather_quirks_loop limit device capability env (front @ later) applications deferred =
    (applications @ map (\<lambda>q. evaluate_quirk q (ds_identity device) (ds_software device) env) front, deferred)"
  using assms
proof (induction front arbitrary: applications)
  case (Cons quirk front)
  let ?a = "evaluate_quirk quirk (ds_identity device) (ds_software device) env"
  have "applying device capability env quirk" using Cons.prems(1) by simp
  then have step: "gather_quirks_loop limit device capability env ((quirk # front) @ later) applications deferred =
      (if length (applications @ [?a]) + length deferred \<ge> limit then (applications @ [?a], deferred)
       else gather_quirks_loop limit device capability env (front @ later) (applications @ [?a]) deferred)"
    by (simp add: applying_def Let_def)
  show ?case
  proof (cases "front = []")
    case True
    with Cons.prems(3) show ?thesis unfolding step by simp
  next
    case False
    with Cons.prems(3) have "\<not> length (applications @ [?a]) + length deferred \<ge> limit" by (cases front) auto
    moreover have "gather_quirks_loop limit device capability env (front @ later) (applications @ [?a]) deferred =
        ((applications @ [?a]) @ map (\<lambda>q. evaluate_quirk q (ds_identity device) (ds_software device) env) front, deferred)"
      using Cons.prems False by (intro Cons.IH) simp_all
    ultimately show ?thesis unfolding step by simp
  qed
qed simp

theorem quirks_beyond_the_bound_are_missed:
  assumes "om_values (rg_quirks reg) = front @ later" and "list_all (applying device capability env) front"
    and "length front = max_query_results (rg_limits reg)" and "front \<noteq> []"
  shows "set (gather_quirks_locked reg device capability env) =
    (\<lambda>q. evaluate_quirk q (ds_identity device) (ds_software device) env) ` set front"
  using gather_quirks_loop_full [OF assms(2,4), where applications = "[]" and deferred = "[]" and
      limit = "max_query_results (rg_limits reg)" and later = later] assms(1,3)
  by (simp add: gather_quirks_locked_def)

end
