(* ===== verification/Ingestion.thy ===== *)
theory Ingestion
  imports Resolution
begin

text \<open>
  Ingestion (\<^verbatim>\<open>registry.cpp\<close>, \<^verbatim>\<open>evict_if_needed_locked\<close>, \<^verbatim>\<open>register_publisher_locked\<close>, \<^verbatim>\<open>apply_locked\<close> and the
  \<^verbatim>\<open>apply_..._locked\<close> handlers it dispatches to): the single path through which a publication changes
  the registry.

  A handler returns its result and the new state. Early returns after a partial write keep the write:
  \<^verbatim>\<open>operator[]\<close> on a map inserts a default element, and the capability handler opens its key before it
  has checked the generation. The clock (\<^verbatim>\<open>utc_now_iso8601\<close>) and \<^verbatim>\<open>std::hash\<close> are arguments.
\<close>

section \<open>Bounded retention\<close>

definition remove_nth :: "nat \<Rightarrow> 'a list \<Rightarrow> 'a list" where
  "remove_nth i xs = take i xs @ drop (Suc i) xs"

lemma length_remove_nth: "i < length xs \<Longrightarrow> length (remove_nth i xs) < length xs"
  by (simp add: remove_nth_def)

definition superseded :: "StoredRecord list \<Rightarrow> StoredRecord \<Rightarrow> bool" where
  "superseded records stored \<longleftrightarrow>
     list_ex (\<lambda>other. st_slot other = st_slot stored \<and> st_serial other > st_serial stored) records"

definition find_victim :: "StoredRecord list \<Rightarrow> nat option" where
  "find_victim records =
     fold (\<lambda>i victim.
         if \<not> superseded records (records ! i) then victim
         else case victim of
           None \<Rightarrow> Some i
         | Some v \<Rightarrow> if st_serial (records ! i) < st_serial (records ! v) then Some i else victim)
       [0..<length records] None"

lemma find_victim_SomeD:
  assumes "find_victim records = Some v"
  shows "v < length records \<and> superseded records (records ! v)"
proof -
  have "fold (\<lambda>i victim. if \<not> superseded records (records ! i) then victim
         else case victim of None \<Rightarrow> Some i
         | Some v \<Rightarrow> if st_serial (records ! i) < st_serial (records ! v) then Some i else victim)
       is victim = Some v \<Longrightarrow> \<forall>i\<in>set is. i < length records \<Longrightarrow>
      (\<forall>w. victim = Some w \<longrightarrow> w < length records \<and> superseded records (records ! w)) \<Longrightarrow>
      v < length records \<and> superseded records (records ! v)" for "is" victim
    by (induction "is" arbitrary: victim) (auto split: if_splits option.splits)
  from this [of "[0..<length records]" None] show ?thesis
    using assms by (simp add: find_victim_def)
qed

function evict_records :: "nat \<Rightarrow> StoredRecord list \<Rightarrow> StoredRecord list" where
  "evict_records cap records =
     (if length records \<le> cap then records
      else case find_victim records of
        None \<Rightarrow> records
      | Some victim \<Rightarrow> evict_records cap (remove_nth victim records))"
  by pat_completeness auto
termination
  by (relation "measure (\<lambda>(cap, records). length records)")
    (auto dest: find_victim_SomeD intro: length_remove_nth)

declare evict_records.simps [simp del]

definition total_records :: "(KeyId, KeyState) omap \<Rightarrow> nat" where
  "total_records keys = sum_list (map (\<lambda>key. length (ks_records key)) (om_values keys))"

definition evict_keys :: "Registry \<Rightarrow> Registry" where
  "evict_keys reg =
     (let cap = max_evidence_per_capability (rg_limits reg) * 8;
          keys' = om_map (\<lambda>key. key\<lparr>ks_records := evict_records cap (ks_records key)\<rparr>) (rg_keys reg) in
      reg\<lparr>rg_keys := keys',
          rg_evidence_count := rg_evidence_count reg - (total_records (rg_keys reg) - total_records keys')\<rparr>)"

definition find_serial :: "u64 \<Rightarrow> StoredRecord list \<Rightarrow> nat option" where
  "find_serial serial records = find (\<lambda>i. st_serial (records ! i) = serial) [0..<length records]"

definition evict_entry :: "GlobalEntry \<Rightarrow> Registry \<Rightarrow> Registry" where
  "evict_entry front reg =
     (case om_find (fst front) (rg_keys reg) of
        None \<Rightarrow> reg
      | Some key \<Rightarrow>
          (case find_serial (snd front) (ks_records key) of
             None \<Rightarrow> reg
           | Some index \<Rightarrow>
               if \<not> superseded (ks_records key) (ks_records key ! index) then reg
               else reg\<lparr>rg_keys := om_put (fst front)
                          (key\<lparr>ks_records := remove_nth index (ks_records key)\<rparr>) (rg_keys reg),
                        rg_evidence_count := rg_evidence_count reg - 1\<rparr>))"

fun evict_global :: "nat \<Rightarrow> Registry \<Rightarrow> Registry" where
  "evict_global 0 reg = reg"
| "evict_global (Suc guard) reg =
     (if rg_evidence_count reg < max_evidence_history (rg_limits reg) then reg
      else case rg_global_order reg of
        [] \<Rightarrow> reg
      | front # rest \<Rightarrow> evict_global guard (evict_entry front (reg\<lparr>rg_global_order := rest\<rparr>)))"

definition trim_global_order :: "Registry \<Rightarrow> Registry" where
  "trim_global_order reg =
     reg\<lparr>rg_global_order :=
       drop (length (rg_global_order reg) - max_evidence_history (rg_limits reg) * 4) (rg_global_order reg)\<rparr>"

definition evict_if_needed_locked :: "Registry \<Rightarrow> Registry" where
  "evict_if_needed_locked reg =
     (let reg = evict_keys reg;
          reg = evict_global (length (rg_global_order reg) + 1) reg
      in trim_global_order reg)"

section \<open>Publishers\<close>

definition register_new_publisher ::
  "string \<Rightarrow> PublisherIdentity \<Rightarrow> string \<Rightarrow> Registry \<Rightarrow> ApplyResult \<times> Registry" where
  "register_new_publisher now identity adapter reg =
     (if length (rg_publishers reg) \<ge> max_publishers (rg_limits reg) then (result_of RejectedLimit, reg)
      else if gen_valid (pub_boot identity) \<and> pub_boot identity > 1 then (result_of RejectedStaleBoot, reg)
      else
        let assigned = \<lparr>pub_id = pub_id identity, pub_boot = gen_first, pub_epoch = rg_epoch reg\<rparr>;
            state = empty_publisher_state\<lparr>
              ps_record := empty_publisher_record\<lparr>pr_adapter := adapter, pr_registered_at_utc := now,
                pr_identity := assigned, pr_state := PublisherState.Registered\<rparr>,
              ps_boot_history := 1\<rparr>;
            reg = reg\<lparr>rg_publishers := om_emplace (pub_id identity) state (rg_publishers reg),
                      rg_usage := (rg_usage reg)\<lparr>ru_publishers := ru_publishers (rg_usage reg) + 1\<rparr>\<rparr>
        in ((mutating Accepted)\<lparr>ar_assigned_publisher := assigned\<rparr>, touch_locked reg))"

text \<open>A registration with boot 0 of a known publisher: a fresh boot, every earlier one retired.\<close>

definition fresh_boot :: "string \<Rightarrow> string \<Rightarrow> u64 \<Rightarrow> PublisherStateInternal \<Rightarrow> PublisherStateInternal" where
  "fresh_boot now adapter epoch state =
     (let r = ps_record state;
          boot = pub_boot (pr_identity r);
          fenced = (if gen_valid boot then os_insert boot (ps_fenced_boots state) else ps_fenced_boots state);
          next_boot = (if gen_valid boot then boot + 1 else 1);
          r = r\<lparr>pr_identity := (pr_identity r)\<lparr>pub_boot := next_boot, pub_epoch := epoch\<rparr>,
                pr_state := PublisherState.Registered, pr_adapter := adapter, pr_reason := [],
                pr_registered_at_utc := now, pr_boot_history := ps_boot_history state + 1\<rparr>
      in state\<lparr>ps_record := r, ps_fenced_boots := fenced, ps_boot_history := ps_boot_history state + 1\<rparr>)"

definition reaffirm_boot :: "string \<Rightarrow> u64 \<Rightarrow> PublisherStateInternal \<Rightarrow> PublisherStateInternal" where
  "reaffirm_boot adapter epoch state =
     (let r = ps_record state in
      state\<lparr>ps_record := r\<lparr>pr_identity := (pr_identity r)\<lparr>pub_epoch := epoch\<rparr>,
        pr_state := PublisherState.Registered, pr_adapter := adapter, pr_reason := []\<rparr>\<rparr>)"

definition put_publisher :: "string \<Rightarrow> PublisherStateInternal \<Rightarrow> Registry \<Rightarrow> Registry" where
  "put_publisher pid state reg = reg\<lparr>rg_publishers := om_put pid state (rg_publishers reg)\<rparr>"

definition register_publisher_locked ::
  "string \<Rightarrow> PublisherIdentity \<Rightarrow> string \<Rightarrow> Registry \<Rightarrow> ApplyResult \<times> Registry" where
  "register_publisher_locked now identity adapter reg =
     (if \<not> id_valid (pub_id identity) then (result_of RejectedValidation, reg)
      else if adapter = [] \<or> length adapter > max_metadata_bytes (rg_limits reg)
      then (result_of RejectedValidation, reg)
      else case om_find (pub_id identity) (rg_publishers reg) of
        None \<Rightarrow> register_new_publisher now identity adapter reg
      | Some state \<Rightarrow>
          if ps_publisher_fenced state then (result_of RejectedFencedPublisher, reg)
          else if \<not> gen_valid (pub_boot identity) then
            let state' = fresh_boot now adapter (rg_epoch reg) state in
            ((mutating Accepted)\<lparr>ar_assigned_publisher := pr_identity (ps_record state')\<rparr>,
             touch_locked (put_publisher (pub_id identity) state' reg))
          else if pub_boot identity \<in> set (ps_fenced_boots state) then (result_of RejectedFencedPublisher, reg)
          else if pub_boot (pr_identity (ps_record state)) \<noteq> pub_boot identity
          then (result_of RejectedStaleBoot, reg)
          else
            let state' = reaffirm_boot adapter (rg_epoch reg) state in
            ((result_of AcceptedIdempotent)\<lparr>ar_assigned_publisher := pr_identity (ps_record state')\<rparr>,
             put_publisher (pub_id identity) state' reg))"

section \<open>Schemas and platforms\<close>

definition register_capability_schema_locked :: "CapabilitySchema \<Rightarrow> Registry \<Rightarrow> Status \<times> Registry" where
  "register_capability_schema_locked schema reg =
     (let validation = validate_capability_schema schema (rg_limits reg) in
      if \<not> ok validation then (validation, reg)
      else if om_find (cs_id schema) (rg_schemas reg) \<noteq> None then (AlreadyExists, reg)
      else if om_find (cs_capability schema) (rg_capability_schemas reg) \<noteq> None then (AlreadyExists, reg)
      else if length (rg_schemas reg) \<ge> max_families (rg_limits reg) * 16 then (LimitExceeded, reg)
      else (Ok, reg\<lparr>
        rg_capability_schemas := om_emplace (cs_capability schema) (cs_id schema) (rg_capability_schemas reg),
        rg_schemas := om_emplace (cs_id schema) schema (rg_schemas reg),
        rg_usage := (rg_usage reg)\<lparr>ru_schemas := ru_schemas (rg_usage reg) + 1\<rparr>\<rparr>))"

definition register_platform_locked :: "PlatformIdentity \<Rightarrow> Registry \<Rightarrow> Registry" where
  "register_platform_locked platform reg =
     (if \<not> id_valid (pf_id platform) then reg
      else case om_find (pf_id platform) (rg_platforms reg) of
        None \<Rightarrow>
          if length (rg_platforms reg) \<ge> max_devices (rg_limits reg) then reg
          else reg\<lparr>rg_platforms := om_emplace (pf_id platform) platform (rg_platforms reg),
                   rg_usage := (rg_usage reg)\<lparr>ru_platforms := ru_platforms (rg_usage reg) + 1\<rparr>\<rparr>
      | Some existing \<Rightarrow>
          reg\<lparr>rg_platforms := om_put (pf_id platform)
            (existing\<lparr>pf_display_name := pf_display_name platform, pf_vendor := pf_vendor platform,
               pf_model := pf_model platform, pf_architecture := pf_architecture platform,
               pf_native_identifiers := std_sort (<) (pf_native_identifiers platform)\<rparr>)
            (rg_platforms reg)\<rparr>)"

section \<open>Devices\<close>

definition insert_valid :: "string \<Rightarrow> string oset \<Rightarrow> string oset" where
  "insert_valid token s = (if id_valid token then os_insert token s else s)"

definition initial_device_state :: "DeviceRegistration \<Rightarrow> DeviceState" where
  "initial_device_state registration =
     (let identity = reg_identity registration; software = reg_software registration in
      \<lparr>ds_identity = identity\<lparr>di_hardware := normalize_hardware_identity (di_hardware identity)\<rparr>,
       ds_software = software\<lparr>
         sw_driver_generation := (if id_valid (dr_id (sw_driver software)) then gen_first else 0),
         sw_firmware_generation := (if id_valid (fw_id (sw_firmware software)) then gen_first else 0),
         sw_runtime_generation := (if id_valid (rt_id (sw_runtime software)) then gen_first else 0)\<rparr>,
       ds_generation = gen_first, ds_boot = gen_first, ds_platform_generation = gen_first\<rparr>)"

definition register_new_device :: "DeviceRegistration \<Rightarrow> Registry \<Rightarrow> ApplyResult \<times> Registry" where
  "register_new_device registration reg =
     (let identity = reg_identity registration; hardware = di_hardware identity in
      if length (rg_devices reg) \<ge> max_devices (rg_limits reg) then (result_of RejectedLimit, reg)
      else if id_valid (hw_family hardware) \<and> length (rg_families reg) \<ge> max_families (rg_limits reg) \<and>
              hw_family hardware \<notin> set (rg_families reg)
      then (result_of RejectedLimit, reg)
      else
        let state = initial_device_state registration;
            reg = reg\<lparr>rg_devices := om_emplace (di_id identity) state (rg_devices reg),
                      rg_families := insert_valid (hw_family hardware) (rg_families reg),
                      rg_models := insert_valid (hw_model hardware) (rg_models reg),
                      rg_architectures := insert_valid (hw_architecture hardware) (rg_architectures reg)\<rparr>;
            reg = register_platform_locked (reg_platform registration) reg;
            reg = reg\<lparr>rg_usage := (rg_usage reg)\<lparr>ru_devices := ru_devices (rg_usage reg) + 1\<rparr>\<rparr>
        in ((mutating Accepted)\<lparr>ar_device_generation := ds_generation state, ar_device_boot := ds_boot state\<rparr>,
            reg))"

definition merge_software :: "DeviceSoftwareState \<Rightarrow> DeviceSoftwareState \<Rightarrow> DeviceSoftwareState" where
  "merge_software previous observed =
     (let merged = observed;
          merged = (if \<not> id_valid (fw_id (sw_firmware merged))
                    then merged\<lparr>sw_firmware := sw_firmware previous\<rparr> else merged);
          merged = (if \<not> id_valid (dr_id (sw_driver merged))
                    then merged\<lparr>sw_driver := sw_driver previous\<rparr> else merged);
          merged = (if \<not> id_valid (rt_id (sw_runtime merged))
                    then merged\<lparr>sw_runtime := sw_runtime previous\<rparr> else merged)
      in merged)"

definition advance_firmware_generation :: "DeviceSoftwareState \<Rightarrow> DeviceSoftwareState \<Rightarrow> u64" where
  "advance_firmware_generation previous software =
     (if \<not> id_valid (fw_id (sw_firmware software)) then sw_firmware_generation previous
      else if \<not> id_valid (fw_id (sw_firmware previous)) \<or> sw_firmware previous \<noteq> sw_firmware software
      then (if gen_valid (sw_firmware_generation previous)
            then gen_next (sw_firmware_generation previous) else gen_first)
      else if gen_valid (sw_firmware_generation previous) then sw_firmware_generation previous
      else gen_first)"

definition advance_driver_generation :: "DeviceSoftwareState \<Rightarrow> DeviceSoftwareState \<Rightarrow> u64" where
  "advance_driver_generation previous software =
     (if \<not> id_valid (dr_id (sw_driver software)) then sw_driver_generation previous
      else if \<not> id_valid (dr_id (sw_driver previous)) \<or> sw_driver previous \<noteq> sw_driver software
      then (if gen_valid (sw_driver_generation previous)
            then gen_next (sw_driver_generation previous) else gen_first)
      else if gen_valid (sw_driver_generation previous) then sw_driver_generation previous
      else gen_first)"

definition advance_runtime_generation :: "DeviceSoftwareState \<Rightarrow> DeviceSoftwareState \<Rightarrow> u64" where
  "advance_runtime_generation previous software =
     (if \<not> id_valid (rt_id (sw_runtime software)) then sw_runtime_generation previous
      else if \<not> id_valid (rt_id (sw_runtime previous)) \<or> sw_runtime previous \<noteq> sw_runtime software
      then (if gen_valid (sw_runtime_generation previous)
            then gen_next (sw_runtime_generation previous) else gen_first)
      else if gen_valid (sw_runtime_generation previous) then sw_runtime_generation previous
      else gen_first)"

definition refresh_software :: "DeviceSoftwareState \<Rightarrow> DeviceSoftwareState \<Rightarrow> DeviceSoftwareState" where
  "refresh_software previous observed =
     (let merged = merge_software previous observed in
      merged\<lparr>sw_firmware_generation := advance_firmware_generation previous merged,
             sw_driver_generation := advance_driver_generation previous merged,
             sw_runtime_generation := advance_runtime_generation previous merged\<rparr>)"

definition refresh_device :: "bool \<Rightarrow> DeviceRegistration \<Rightarrow> DeviceState \<Rightarrow> DeviceState" where
  "refresh_device boundary registration existing =
     (let identity = reg_identity registration;
          moved = (di_platform (ds_identity existing) \<noteq> di_platform identity) in
      \<lparr>ds_identity = (ds_identity existing)\<lparr>
         di_display_name := di_display_name identity,
         di_hardware := normalize_hardware_identity (di_hardware identity),
         di_serial_number := di_serial_number identity,
         di_instance_locator := di_instance_locator identity,
         di_platform := di_platform identity\<rparr>,
       ds_software = refresh_software (ds_software existing) (reg_software registration),
       ds_generation = (if boundary then gen_next (ds_generation existing) else ds_generation existing),
       ds_boot = (if boundary then gen_next (ds_boot existing) else ds_boot existing),
       ds_platform_generation =
         (if moved then gen_next (ds_platform_generation existing) else ds_platform_generation existing)\<rparr>)"

definition opens_boundary :: "Publication \<Rightarrow> DeviceState \<Rightarrow> bool" where
  "opens_boundary publication existing \<longleftrightarrow>
     di_incarnation (ds_identity existing) \<noteq> di_incarnation (reg_identity (pb_device publication)) \<or>
     reg_device_boot_observed (pb_device publication) \<or>
     pb_kind publication = PublicationKind.PublishDeviceGeneration"

definition apply_device_locked :: "Publication \<Rightarrow> Registry \<Rightarrow> ApplyResult \<times> Registry" where
  "apply_device_locked publication reg =
     (let registration = pb_device publication; device = di_id (reg_identity registration) in
      case find_device_locked reg device of
        None \<Rightarrow> register_new_device registration reg
      | Some existing \<Rightarrow>
          let state = refresh_device (opens_boundary publication existing) registration existing;
              reg = reg\<lparr>rg_devices := om_put device state (rg_devices reg)\<rparr>;
              reg = register_platform_locked (reg_platform registration) reg
          in ((mutating Accepted)\<lparr>ar_device_generation := ds_generation state, ar_device_boot := ds_boot state\<rparr>,
              reg))"

end
