(* ===== verification/Evidence.thy ===== *)
theory Evidence
  imports Ingestion
begin

text \<open>
  The handlers for capability evidence, quirks and compatibility facts (\<^verbatim>\<open>registry.cpp\<close>,
  \<^verbatim>\<open>apply_capability_locked\<close>, \<^verbatim>\<open>apply_quirk_locked\<close>, \<^verbatim>\<open>reference_resolves_locked\<close>,
  \<^verbatim>\<open>apply_compatibility_locked\<close>).

  The capability handler is split along its early returns: schema and value checks, device checks,
  opening the key, generation checks, the slot duplicate, the generation it assigns and the store with
  its backpressure. \<^term>\<open>None\<close> of a check means that it passed.
\<close>

section \<open>Capability evidence\<close>

definition check_capability_schema :: "Registry \<Rightarrow> CapabilityRecord \<Rightarrow> ApplyCode option" where
  "check_capability_schema reg record =
     (case find_schema_locked reg (cr_schema record) of
        None \<Rightarrow> Some RejectedUnknownSchema
      | Some schema \<Rightarrow>
          if cs_capability schema \<noteq> cr_capability record then Some RejectedUnknownSchema
          else if \<not> value_empty (cr_value record) \<and> value_kind (cr_value record) \<noteq> cs_value_kind schema
          then Some RejectedValidation
          else if value_empty (cr_value record) \<and> \<not> asserts_capability_absent (cr_support record) \<and>
                  cr_support record \<noteq> SupportState.Unknown \<and>
                  cr_support record \<noteq> SupportState.RevalidationRequired
          then Some RejectedValidation
          else None)"

definition check_capability_device :: "Registry \<Rightarrow> CapabilityRecord \<Rightarrow> ApplyCode + DeviceState" where
  "check_capability_device reg record =
     (case find_device_locked reg (cr_device record) of
        None \<Rightarrow> Inl RejectedUnknownDevice
      | Some device \<Rightarrow>
          if cr_device_generation record \<noteq> ds_generation device then Inl RejectedStaleDeviceGeneration
          else if cr_device_boot record \<noteq> ds_boot device then Inl RejectedStaleDeviceGeneration
          else Inr device)"

definition key_of :: "CapabilityRecord \<Rightarrow> KeyId" where
  "key_of record = (cr_device record, cr_capability record)"

definition open_key :: "CapabilityRecord \<Rightarrow> Registry \<Rightarrow> ApplyCode option \<times> Registry" where
  "open_key record reg =
     (case om_find (key_of record) (rg_keys reg) of
        Some _ \<Rightarrow> (None, reg)
      | None \<Rightarrow>
          let owned = (case om_find (cr_device record) (rg_device_keys reg) of None \<Rightarrow> [] | Some s \<Rightarrow> s);
              reg = reg\<lparr>rg_device_keys := om_put (cr_device record) owned (rg_device_keys reg)\<rparr> in
          if length owned \<ge> max_capabilities_per_device (rg_limits reg) then (Some RejectedLimit, reg)
          else if length (rg_keys reg) \<ge> max_evidence_history (rg_limits reg) then (Some RejectedLimit, reg)
          else (None, reg\<lparr>
            rg_keys := om_put (key_of record) (empty_key_state\<lparr>ks_schema := cr_schema record\<rparr>) (rg_keys reg),
            rg_device_keys :=
              om_put (cr_device record) (os_insert (cr_capability record) owned) (rg_device_keys reg),
            rg_usage := (rg_usage reg)\<lparr>ru_capability_keys := ru_capability_keys (rg_usage reg) + 1\<rparr>\<rparr>))"

definition check_key :: "KeyState \<Rightarrow> CapabilityRecord \<Rightarrow> ApplyCode option" where
  "check_key key record =
     (if ks_schema key \<noteq> cr_schema record then Some RejectedValidation
      else if gen_valid (cr_capability_generation record) \<and> gen_valid (ks_generation key) \<and>
              cr_capability_generation record \<le> ks_generation key
      then Some RejectedStaleCapabilityGeneration
      else if gen_valid (cr_capability_generation record) \<and> \<not> gen_valid (ks_generation key) \<and>
              cr_capability_generation record > 1
      then Some RejectedStaleCapabilityGeneration
      else None)"

definition stamp_record :: "DeviceState \<Rightarrow> CapabilityRecord \<Rightarrow> CapabilityRecord" where
  "stamp_record device record =
     record\<lparr>cr_firmware_generation := sw_firmware_generation (ds_software device),
            cr_driver_generation := sw_driver_generation (ds_software device),
            cr_runtime_generation := sw_runtime_generation (ds_software device),
            cr_platform_generation := ds_platform_generation device,
            cr_driver_id := dr_id (sw_driver (ds_software device)),
            cr_firmware_id := fw_id (sw_firmware (ds_software device)),
            cr_runtime_id := rt_id (sw_runtime (ds_software device))\<rparr>"

definition slot_of :: "CapabilityRecord \<Rightarrow> string" where
  "slot_of record =
     pub_id (es_publisher (cr_source record)) @ ''#'' @
     u64_to_string (pub_boot (es_publisher (cr_source record))) @ ''#'' @
     to_string_SourceClass (es_source_class (cr_source record))"

definition slot_latest :: "string \<Rightarrow> StoredRecord list \<Rightarrow> StoredRecord option" where
  "slot_latest slot records =
     fold (\<lambda>stored latest.
         if st_slot stored \<noteq> slot then latest
         else case latest of
           None \<Rightarrow> Some stored
         | Some best \<Rightarrow> if st_serial stored > st_serial best then Some stored else latest)
       records None"

definition slot_duplicate :: "StoredRecord option \<Rightarrow> CapabilityRecord \<Rightarrow> bool" where
  "slot_duplicate latest record =
     (case latest of
        None \<Rightarrow> False
      | Some stored \<Rightarrow>
          let previous = st_record stored in
          \<not> cr_withdrawn record \<and> \<not> cr_withdrawn previous \<and> capability_content_equal previous record \<and>
          cr_device_generation previous = cr_device_generation record \<and>
          cr_driver_generation previous = cr_driver_generation record \<and>
          cr_firmware_generation previous = cr_firmware_generation record \<and>
          cr_runtime_generation previous = cr_runtime_generation record)"

definition assign_generation :: "StoredRecord option \<Rightarrow> KeyState \<Rightarrow> CapabilityRecord \<Rightarrow> u64" where
  "assign_generation winner key record =
     (case winner of
        Some stored \<Rightarrow>
          if capability_content_equal (st_record stored) record \<and>
             cr_device_generation (st_record stored) = cr_device_generation record
          then (if gen_valid (cr_capability_generation (st_record stored))
                then cr_capability_generation (st_record stored) else gen_first)
          else (if gen_valid (ks_generation key) then gen_next (ks_generation key) else gen_first)
      | None \<Rightarrow> (if gen_valid (ks_generation key) then gen_next (ks_generation key) else gen_first))"

definition raise_key_generation :: "u64 \<Rightarrow> KeyState \<Rightarrow> KeyState" where
  "raise_key_generation g key =
     (let key = (if \<not> gen_valid (ks_generation key) \<or> g > ks_generation key
                 then key\<lparr>ks_generation := g\<rparr> else key)
      in key\<lparr>ks_has_evidence := True\<rparr>)"

definition supersede_slot :: "string \<Rightarrow> StoredRecord \<Rightarrow> StoredRecord" where
  "supersede_slot slot stored =
     (if st_slot stored = slot
      then stored\<lparr>st_persistent := st_persistent stored OR Stale_SupersededByNewerEvidence\<rparr> else stored)"

definition append_record :: "KeyId \<Rightarrow> string \<Rightarrow> CapabilityRecord \<Rightarrow> Registry \<Rightarrow> Registry" where
  "append_record key_id slot record reg =
     (case om_find key_id (rg_keys reg) of
        None \<Rightarrow> reg
      | Some key \<Rightarrow>
          let serial = rg_next_serial reg;
              stored = \<lparr>st_record = record, st_persistent = Stale_None, st_slot = slot, st_serial = serial\<rparr>;
              key = key\<lparr>ks_records := map (supersede_slot slot) (ks_records key) @ [stored]\<rparr>
          in reg\<lparr>rg_keys := om_put key_id key (rg_keys reg), rg_next_serial := serial + 1,
                 rg_global_order := rg_global_order reg @ [(key_id, serial)],
                 rg_evidence_count := rg_evidence_count reg + 1\<rparr>)"

definition store_record :: "CapabilityRecord \<Rightarrow> Registry \<Rightarrow> ApplyResult \<times> Registry" where
  "store_record record reg =
     (let full = rg_evidence_count reg \<ge> max_evidence_history (rg_limits reg);
          reg = (if full then evict_if_needed_locked reg else reg) in
      if full \<and> rg_evidence_count reg \<ge> max_evidence_history (rg_limits reg)
      then (result_of RejectedBackpressure, reg)
      else (mutating Accepted,
            evict_if_needed_locked (append_record (key_of record) (slot_of record) record reg)))"

definition admit_record :: "DeviceState \<Rightarrow> KeyState \<Rightarrow> CapabilityRecord \<Rightarrow> Registry \<Rightarrow> ApplyResult \<times> Registry" where
  "admit_record device key record reg =
     (let record = stamp_record device record in
      if slot_duplicate (slot_latest (slot_of record) (ks_records key)) record
      then (result_of AcceptedIdempotent, reg)
      else
        let g = assign_generation (current_winner_record reg device (cr_capability record)) key record;
            reg = reg\<lparr>rg_keys := om_put (key_of record) (raise_key_generation g key) (rg_keys reg)\<rparr>
        in store_record (record\<lparr>cr_capability_generation := g\<rparr>) reg)"

definition apply_capability_locked :: "Publication \<Rightarrow> Registry \<Rightarrow> ApplyResult \<times> Registry" where
  "apply_capability_locked publication reg =
     (let record = pb_capability publication in
      case check_capability_schema reg record of
        Some code \<Rightarrow> (result_of code, reg)
      | None \<Rightarrow>
        (case normalize_value (rg_limits reg) (cr_value record) of
           Inl _ \<Rightarrow> (result_of RejectedValidation, reg)
         | Inr value \<Rightarrow>
             let record = record\<lparr>cr_value := value\<rparr> in
             (case check_capability_device reg record of
                Inl code \<Rightarrow> (result_of code, reg)
              | Inr device \<Rightarrow>
                  (case open_key record reg of
                     (Some code, reg) \<Rightarrow> (result_of code, reg)
                   | (None, reg) \<Rightarrow>
                       (case om_find (key_of record) (rg_keys reg) of
                          None \<Rightarrow> (result_of RejectedInvariant, reg)
                        | Some key \<Rightarrow>
                            (case check_key key record of
                               Some code \<Rightarrow> (result_of code, reg)
                             | None \<Rightarrow> admit_record device key record reg))))))"

section \<open>Quirks\<close>

definition capability_known :: "Registry \<Rightarrow> string \<Rightarrow> bool" where
  "capability_known reg capability \<longleftrightarrow>
     list_ex (\<lambda>schema. cs_capability schema = capability) (om_values (rg_schemas reg))"

definition withdraw_quirk :: "QuirkRecord \<Rightarrow> Registry \<Rightarrow> ApplyResult \<times> Registry" where
  "withdraw_quirk quirk reg =
     (case om_find (qr_id quirk) (rg_quirks reg) of
        None \<Rightarrow> (result_of RejectedUnknownDevice, reg)
      | Some existing \<Rightarrow>
          if qr_withdrawn existing then (result_of AcceptedIdempotent, reg)
          else (mutating Accepted, reg\<lparr>rg_quirks := om_put (qr_id quirk)
                  (existing\<lparr>qr_withdrawn := True, qr_source := qr_source quirk\<rparr>) (rg_quirks reg)\<rparr>))"

definition publish_quirk :: "QuirkRecord \<Rightarrow> Registry \<Rightarrow> ApplyResult \<times> Registry" where
  "publish_quirk quirk reg =
     (if \<not> gen_valid (qr_generation quirk) then (result_of RejectedValidation, reg)
      else case om_find (qr_id quirk) (rg_quirks reg) of
        None \<Rightarrow>
          if length (rg_quirks reg) \<ge> max_quirks (rg_limits reg) then (result_of RejectedLimit, reg)
          else if qr_generation quirk > 1 then (result_of RejectedStaleCapabilityGeneration, reg)
          else (mutating Accepted, reg\<lparr>rg_quirks := om_emplace (qr_id quirk) quirk (rg_quirks reg),
                  rg_usage := (rg_usage reg)\<lparr>ru_quirks := ru_quirks (rg_usage reg) + 1\<rparr>\<rparr>)
      | Some existing \<Rightarrow>
          if qr_generation quirk < qr_generation existing then (result_of RejectedGenerationRegression, reg)
          else if qr_generation quirk = qr_generation existing then
            (if qr_title existing = qr_title quirk \<and> qr_severity existing = qr_severity quirk \<and>
                qr_category existing = qr_category quirk \<and>
                qr_impacted_capabilities existing = qr_impacted_capabilities quirk
             then (result_of AcceptedIdempotent, reg)
             else (result_of RejectedDuplicateConflict, reg))
          else (mutating Accepted, reg\<lparr>rg_quirks := om_put (qr_id quirk) quirk (rg_quirks reg)\<rparr>))"

definition apply_quirk_locked :: "Publication \<Rightarrow> Registry \<Rightarrow> ApplyResult \<times> Registry" where
  "apply_quirk_locked publication reg =
     (let quirk = pb_quirk publication in
      if \<not> list_all (capability_known reg) (qr_impacted_capabilities quirk)
      then (result_of RejectedUnknownSchema, reg)
      else if pb_kind publication = PublicationKind.WithdrawQuirk then withdraw_quirk quirk reg
      else publish_quirk quirk reg)"

section \<open>Compatibility facts\<close>

definition reference_resolves_locked :: "Registry \<Rightarrow> HardwareReference \<Rightarrow> bool" where
  "reference_resolves_locked reg reference =
     (let token = id_parse (hr_token reference) in
      case hr_kind reference of
        ReferenceKind.Device \<Rightarrow> om_find token (rg_devices reg) \<noteq> None
      | ReferenceKind.Platform \<Rightarrow> om_find token (rg_platforms reg) \<noteq> None
      | ReferenceKind.HardwareFamily \<Rightarrow> token \<in> set (rg_families reg)
      | ReferenceKind.HardwareModel \<Rightarrow> token \<in> set (rg_models reg)
      | ReferenceKind.Architecture \<Rightarrow> token \<in> set (rg_architectures reg)
      | _ \<Rightarrow> True)"

definition withdraw_compatibility :: "CompatibilityFact \<Rightarrow> Registry \<Rightarrow> ApplyResult \<times> Registry" where
  "withdraw_compatibility f reg =
     (case om_find (cf_id f) (rg_compatibility reg) of
        None \<Rightarrow> (result_of RejectedUnknownDevice, reg)
      | Some existing \<Rightarrow>
          if cf_withdrawn existing then (result_of AcceptedIdempotent, reg)
          else (mutating Accepted, reg\<lparr>rg_compatibility := om_put (cf_id f)
                  (existing\<lparr>cf_withdrawn := True, cf_source := cf_source f\<rparr>) (rg_compatibility reg)\<rparr>))"

definition publish_compatibility :: "CompatibilityFact \<Rightarrow> Registry \<Rightarrow> ApplyResult \<times> Registry" where
  "publish_compatibility f reg =
     (if \<not> gen_valid (cf_generation f) then (result_of RejectedValidation, reg)
      else case om_find (cf_id f) (rg_compatibility reg) of
        None \<Rightarrow>
          if length (rg_compatibility reg) \<ge> max_compatibility_facts (rg_limits reg)
          then (result_of RejectedLimit, reg)
          else if cf_generation f > 1 then (result_of RejectedStaleCapabilityGeneration, reg)
          else (mutating Accepted, reg\<lparr>rg_compatibility := om_emplace (cf_id f) f (rg_compatibility reg),
                  rg_usage := (rg_usage reg)
                    \<lparr>ru_compatibility_facts := ru_compatibility_facts (rg_usage reg) + 1\<rparr>\<rparr>)
      | Some existing \<Rightarrow>
          if cf_generation f < cf_generation existing then (result_of RejectedGenerationRegression, reg)
          else if cf_generation f = cf_generation existing then
            (if cf_outcome existing = cf_outcome f \<and> reference_eq (cf_lhs existing) (cf_lhs f) \<and>
                reference_eq (cf_rhs existing) (cf_rhs f) \<and> cf_reason existing = cf_reason f
             then (result_of AcceptedIdempotent, reg)
             else (result_of RejectedDuplicateConflict, reg))
          else (mutating Accepted, reg\<lparr>rg_compatibility := om_put (cf_id f) f (rg_compatibility reg)\<rparr>))"

definition apply_compatibility_locked :: "Publication \<Rightarrow> Registry \<Rightarrow> ApplyResult \<times> Registry" where
  "apply_compatibility_locked publication reg =
     (let f = pb_compatibility publication in
      if \<not> reference_resolves_locked reg (cf_lhs f) then (result_of RejectedValidation, reg)
      else if \<not> reference_resolves_locked reg (cf_rhs f) then (result_of RejectedValidation, reg)
      else if pb_kind publication = PublicationKind.WithdrawCompatibility then withdraw_compatibility f reg
      else publish_compatibility f reg)"

end
