(* ===== verification/Apply.thy ===== *)
theory Apply
  imports Evidence
begin

text \<open>
  The ingestion entry point (\<^verbatim>\<open>registry.cpp\<close>, \<^verbatim>\<open>apply_locked\<close>): binding of the publisher identity and
  the schema, validation, the admission checks on publisher, boot, epoch and sequence, the dispatch to
  a handler, and the bookkeeping of the result.

  \<open>hash_string\<close> stands for \<^verbatim>\<open>std::hash<std::string>\<close> and \<open>now\<close> for the clock.
\<close>

section \<open>Preparation\<close>

definition is_capability_publication :: "Publication \<Rightarrow> bool" where
  "is_capability_publication publication \<longleftrightarrow>
     pb_kind publication = PublicationKind.PublishCapability \<or>
     pb_kind publication = PublicationKind.WithdrawCapability"

definition bind_publisher :: "Publication \<Rightarrow> Publication" where
  "bind_publisher publication =
     (let publisher = pb_publisher publication;
          c = pb_capability publication; q = pb_quirk publication; f = pb_compatibility publication in
      publication\<lparr>
        pb_capability := c\<lparr>cr_source := (cr_source c)\<lparr>es_publisher := publisher\<rparr>\<rparr>,
        pb_quirk := q\<lparr>qr_source := (qr_source q)\<lparr>es_publisher := publisher\<rparr>\<rparr>,
        pb_compatibility := f\<lparr>cf_source := (cf_source f)\<lparr>es_publisher := publisher\<rparr>\<rparr>\<rparr>)"

definition bind_schema :: "Registry \<Rightarrow> Publication \<Rightarrow> Publication option" where
  "bind_schema reg publication =
     (let c = pb_capability publication in
      if is_capability_publication publication \<and> \<not> id_valid (cr_schema c) then
        (case om_find (cr_capability c) (rg_capability_schemas reg) of
           None \<Rightarrow> None
         | Some schema \<Rightarrow> Some (publication\<lparr>pb_capability := c\<lparr>cr_schema := schema\<rparr>\<rparr>))
      else Some publication)"

definition bind_value :: "Registry \<Rightarrow> Publication \<Rightarrow> Publication option" where
  "bind_value reg publication =
     (let c = pb_capability publication in
      if is_capability_publication publication then
        (case normalize_value (rg_limits reg) (cr_value c) of
           Inl _ \<Rightarrow> None
         | Inr value \<Rightarrow> Some (publication\<lparr>pb_capability := c\<lparr>cr_value := value\<rparr>\<rparr>))
      else Some publication)"

definition prepare :: "Registry \<Rightarrow> Publication \<Rightarrow> ApplyCode + Publication" where
  "prepare reg publication =
     (case bind_schema reg (bind_publisher publication) of
        None \<Rightarrow> Inl RejectedUnknownSchema
      | Some publication \<Rightarrow>
          (case bind_value reg publication of
             None \<Rightarrow> Inl RejectedValidation
           | Some publication \<Rightarrow>
               if \<not> ok (validate_publication publication (rg_limits reg)) then Inl RejectedValidation
               else Inr publication))"

section \<open>Admission\<close>

definition check_authority :: "Registry \<Rightarrow> Publication \<Rightarrow> ApplyCode + PublisherStateInternal" where
  "check_authority reg publication =
     (let identity = pb_publisher publication in
      case om_find (pub_id identity) (rg_publishers reg) of
        None \<Rightarrow> Inl RejectedUnknownPublisher
      | Some publisher \<Rightarrow>
          if ps_publisher_fenced publisher then Inl RejectedFencedPublisher
          else if pub_boot identity \<in> set (ps_fenced_boots publisher) then Inl RejectedFencedPublisher
          else if pub_boot (pr_identity (ps_record publisher)) \<noteq> pub_boot identity then Inl RejectedStaleBoot
          else if pub_epoch identity \<noteq> rg_epoch reg then Inl RejectedStaleEpoch
          else Inr publisher)"

definition open_watermark :: "Publication \<Rightarrow> PublisherStateInternal \<Rightarrow> PublisherWatermark" where
  "open_watermark publication publisher =
     (let boot = pub_boot (pb_publisher publication);
          w = (case om_find boot (ps_watermarks publisher) of None \<Rightarrow> empty_watermark | Some w \<Rightarrow> w);
          w = w\<lparr>wm_publisher := pub_id (pb_publisher publication), wm_boot := boot\<rparr>
      in if wm_state w = PublisherState.Unknown
         then w\<lparr>wm_state := PublisherState.Registered, wm_adapter := pr_adapter (ps_record publisher)\<rparr>
         else w)"

text \<open>What the sequence checks decide: refuse, report a duplicate, or go on.\<close>

datatype SequenceVerdict = Refuse ApplyCode | Duplicate | Proceed

definition check_sequence ::
  "(string \<Rightarrow> u64) \<Rightarrow> Publication \<Rightarrow> PublisherStateInternal \<Rightarrow> PublisherWatermark \<Rightarrow> SequenceVerdict" where
  "check_sequence hash_string publication publisher w =
     (if pb_sequence publication < wm_max_sequence w then Refuse RejectedStaleSequence
      else if pb_sequence publication = wm_max_sequence w then
        (case om_find (pb_sequence publication) (ps_sequence_fingerprints publisher) of
           None \<Rightarrow> Duplicate
         | Some fingerprint \<Rightarrow>
             if fingerprint = hash_string (fingerprint_publication publication) then Duplicate
             else Refuse RejectedDuplicateConflict)
      else if pb_evidence_generation publication < wm_max_evidence_generation w
      then Refuse RejectedGenerationRegression
      else Proceed)"

definition dispatch :: "Publication \<Rightarrow> Registry \<Rightarrow> ApplyResult \<times> Registry" where
  "dispatch publication reg =
     (case pb_kind publication of
        PublicationKind.RegisterDevice \<Rightarrow> apply_device_locked publication reg
      | PublicationKind.PublishDeviceGeneration \<Rightarrow> apply_device_locked publication reg
      | PublicationKind.PublishCapability \<Rightarrow> apply_capability_locked publication reg
      | PublicationKind.WithdrawCapability \<Rightarrow> apply_capability_locked publication reg
      | PublicationKind.PublishQuirk \<Rightarrow> apply_quirk_locked publication reg
      | PublicationKind.WithdrawQuirk \<Rightarrow> apply_quirk_locked publication reg
      | PublicationKind.PublishCompatibility \<Rightarrow> apply_compatibility_locked publication reg
      | PublicationKind.WithdrawCompatibility \<Rightarrow> apply_compatibility_locked publication reg
      | PublicationKind.Heartbeat \<Rightarrow> (result_of Accepted, reg)
      | _ \<Rightarrow> (result_of RejectedValidation, reg))"

section \<open>Bookkeeping\<close>

definition put_watermark ::
  "Publication \<Rightarrow> PublisherWatermark \<Rightarrow> PublisherStateInternal \<Rightarrow> Registry \<Rightarrow> Registry" where
  "put_watermark publication w publisher reg =
     put_publisher (pub_id (pb_publisher publication))
       (publisher\<lparr>ps_watermarks := om_put (pub_boot (pb_publisher publication)) w (ps_watermarks publisher)\<rparr>) reg"

definition book_rejection ::
  "Publication \<Rightarrow> PublisherWatermark \<Rightarrow> PublisherStateInternal \<Rightarrow> Registry \<Rightarrow> Registry" where
  "book_rejection publication w publisher reg =
     (let r = ps_record publisher; n = pr_rejected r + 1 in
      count_rejected (put_watermark publication (w\<lparr>wm_rejected := n\<rparr>)
        (publisher\<lparr>ps_record := r\<lparr>pr_rejected := n\<rparr>\<rparr>) reg))"

definition record_fingerprint ::
  "u64 \<Rightarrow> u64 \<Rightarrow> (u64, u64) omap \<Rightarrow> (u64, u64) omap" where
  "record_fingerprint sequence fingerprint m =
     (let m = om_put sequence fingerprint m in drop (length m - 4096) m)"

definition book_acceptance ::
  "(string \<Rightarrow> u64) \<Rightarrow> Publication \<Rightarrow> PublisherWatermark \<Rightarrow> PublisherStateInternal \<Rightarrow> ApplyResult \<Rightarrow>
   Registry \<Rightarrow> Registry" where
  "book_acceptance hash_string publication w publisher result reg =
     (let r = ps_record publisher;
          evidence = max (pb_evidence_generation publication) (wm_max_evidence_generation w);
          n = pr_accepted r + 1;
          publisher = publisher\<lparr>
            ps_sequence_fingerprints := record_fingerprint (pb_sequence publication)
              (hash_string (fingerprint_publication publication)) (ps_sequence_fingerprints publisher),
            ps_record := r\<lparr>pr_last_sequence := pb_sequence publication,
              pr_max_evidence_generation := evidence, pr_accepted := n\<rparr>\<rparr>;
          w = w\<lparr>wm_max_sequence := pb_sequence publication, wm_max_evidence_generation := evidence,
                wm_accepted := n\<rparr>;
          reg = count_accepted (put_watermark publication w publisher reg);
          reg = (if ar_code result = AcceptedIdempotent then count_idempotent reg else reg)
      in if ar_mutated result then touch_locked reg else reg)"

section \<open>The entry point\<close>

definition apply_schema_publication :: "Publication \<Rightarrow> Registry \<Rightarrow> ApplyResult \<times> Registry" where
  "apply_schema_publication publication reg =
     (case register_capability_schema_locked (pb_schema publication) reg of
        (status, reg) \<Rightarrow>
          if \<not> ok status
          then (result_of (if status = AlreadyExists then RejectedDuplicateConflict else RejectedValidation),
                count_rejected reg)
          else (mutating Accepted, touch_locked reg))"

definition apply_publisher_publication :: "string \<Rightarrow> Publication \<Rightarrow> Registry \<Rightarrow> ApplyResult \<times> Registry" where
  "apply_publisher_publication now publication reg =
     (case register_publisher_locked now (pb_publisher publication) (pb_reason publication) reg of
        (registration, reg) \<Rightarrow>
          (registration, if accepted registration then count_accepted reg else count_rejected reg))"

definition apply_evidence ::
  "(string \<Rightarrow> u64) \<Rightarrow> Publication \<Rightarrow> PublisherStateInternal \<Rightarrow> Registry \<Rightarrow> ApplyResult \<times> Registry" where
  "apply_evidence hash_string publication publisher reg =
     (let w = open_watermark publication publisher in
      case check_sequence hash_string publication publisher w of
        Refuse code \<Rightarrow> (result_of code, book_rejection publication w publisher reg)
      | Duplicate \<Rightarrow> (result_of AcceptedIdempotent, count_idempotent (put_watermark publication w publisher reg))
      | Proceed \<Rightarrow>
          (case dispatch publication reg of
             (result, reg) \<Rightarrow>
               (result, if accepted result then book_acceptance hash_string publication w publisher result reg
                        else book_rejection publication w publisher reg)))"

definition apply_locked :: "(string \<Rightarrow> u64) \<Rightarrow> string \<Rightarrow> Publication \<Rightarrow> Registry \<Rightarrow> ApplyResult \<times> Registry" where
  "apply_locked hash_string now publication reg =
     (if rg_shutting_down reg then (result_of RejectedShuttingDown, reg)
      else case prepare reg publication of
        Inl code \<Rightarrow> (result_of code, count_rejected reg)
      | Inr publication \<Rightarrow>
          if pb_kind publication = PublicationKind.RegisterCapabilitySchema
          then apply_schema_publication publication reg
          else if pb_kind publication = PublicationKind.RegisterPublisher
          then apply_publisher_publication now publication reg
          else
            (case check_authority reg publication of
               Inl code \<Rightarrow> (result_of code, count_rejected reg)
             | Inr publisher \<Rightarrow> apply_evidence hash_string publication publisher reg))"

end
