(* ===== verification/Registry.thy ===== *)
theory Registry
  imports Apply
begin

text \<open>
  The public interface (\<^verbatim>\<open>registry.hpp\<close>, \<^verbatim>\<open>registry.cpp\<close>): schema registration, publisher authority,
  ingestion, epoch and lifecycle, and the queries. Every operation runs under the registry mutex, so
  concurrent clients see a sequence of operations: the step relation and its reflexive-transitive
  closure at the end of this theory.
\<close>

section \<open>Schemas and publishers\<close>

definition register_capability_schema :: "CapabilitySchema \<Rightarrow> Registry \<Rightarrow> Status \<times> Registry" where
  "register_capability_schema schema reg =
     (case register_capability_schema_locked schema reg of
        (status, reg) \<Rightarrow> (status, if ok status then touch_locked reg else reg))"

definition has_capability_schema :: "Registry \<Rightarrow> string \<Rightarrow> bool" where
  "has_capability_schema reg schema \<longleftrightarrow> om_find schema (rg_schemas reg) \<noteq> None"

definition find_capability_schema :: "Registry \<Rightarrow> string \<Rightarrow> ErrorCode + CapabilitySchema" where
  "find_capability_schema reg schema =
     (case om_find schema (rg_schemas reg) of None \<Rightarrow> Inl NotFound | Some s \<Rightarrow> Inr s)"

definition capability_schemas :: "Registry \<Rightarrow> CapabilitySchema list" where
  "capability_schemas reg = om_values (rg_schemas reg)"

definition register_publisher ::
  "string \<Rightarrow> PublisherIdentity \<Rightarrow> string \<Rightarrow> Registry \<Rightarrow> ApplyResult \<times> Registry" where
  "register_publisher now identity adapter reg =
     (if rg_shutting_down reg then (result_of RejectedShuttingDown, reg)
      else register_publisher_locked now identity adapter reg)"

definition fence_publisher :: "string \<Rightarrow> string \<Rightarrow> Registry \<Rightarrow> ApplyResult \<times> Registry" where
  "fence_publisher pid reason reg =
     (case om_find pid (rg_publishers reg) of
        None \<Rightarrow> (result_of RejectedUnknownPublisher, reg)
      | Some state \<Rightarrow>
          if ps_publisher_fenced state then (result_of AcceptedIdempotent, reg)
          else
            let text = (if reason = [] then ''fenced by coordinator'' else reason);
                boot = pub_boot (pr_identity (ps_record state));
                state = state\<lparr>
                  ps_publisher_fenced := True,
                  ps_record := (ps_record state)\<lparr>pr_state := PublisherState.Fenced, pr_reason := text\<rparr>,
                  ps_fenced_boots :=
                    (if gen_valid boot then os_insert boot (ps_fenced_boots state) else ps_fenced_boots state),
                  ps_watermarks :=
                    om_map (\<lambda>w. w\<lparr>wm_state := PublisherState.Fenced, wm_reason := text\<rparr>) (ps_watermarks state)\<rparr>
            in (mutating Accepted, touch_locked (put_publisher pid state reg)))"

definition retire_publisher_boot :: "string \<Rightarrow> u64 \<Rightarrow> string \<Rightarrow> Registry \<Rightarrow> ApplyResult \<times> Registry" where
  "retire_publisher_boot pid boot reason reg =
     (case om_find pid (rg_publishers reg) of
        None \<Rightarrow> (result_of RejectedUnknownPublisher, reg)
      | Some state \<Rightarrow>
          if \<not> gen_valid boot then (result_of RejectedValidation, reg)
          else if boot \<in> set (ps_fenced_boots state) then (result_of AcceptedIdempotent, reg)
          else
            let marks = (case om_find boot (ps_watermarks state) of
                    None \<Rightarrow> ps_watermarks state
                  | Some w \<Rightarrow> om_put boot (w\<lparr>wm_state := PublisherState.Dead, wm_reason := reason\<rparr>)
                                (ps_watermarks state));
                r = ps_record state;
                r = (if pub_boot (pr_identity r) = boot
                     then r\<lparr>pr_state := PublisherState.Dead, pr_reason := reason\<rparr> else r);
                state = state\<lparr>ps_fenced_boots := os_insert boot (ps_fenced_boots state),
                              ps_watermarks := marks, ps_record := r\<rparr>
            in (mutating Accepted, touch_locked (put_publisher pid state reg)))"

definition find_publisher_record :: "Registry \<Rightarrow> string \<Rightarrow> ErrorCode + PublisherRecord" where
  "find_publisher_record reg pid =
     (case om_find pid (rg_publishers reg) of None \<Rightarrow> Inl NotFound | Some state \<Rightarrow> Inr (ps_record state))"

text \<open>A listing that stops after the element that fills it: a limit of zero still yields one.\<close>

definition listing :: "nat \<Rightarrow> 'a list \<Rightarrow> 'a list" where
  "listing limit xs = take (max 1 limit) xs"

definition effective_limit :: "Registry \<Rightarrow> nat \<Rightarrow> nat" where
  "effective_limit reg requested = (if requested = 0 then max_query_results (rg_limits reg) else requested)"

definition list_publishers :: "Registry \<Rightarrow> PublisherState option \<Rightarrow> nat \<Rightarrow> PublisherRecord list" where
  "list_publishers reg state max_results =
     listing (effective_limit reg max_results)
       (filter (\<lambda>r. case state of None \<Rightarrow> True | Some s \<Rightarrow> pr_state r = s)
          (map ps_record (om_values (rg_publishers reg))))"

definition reset_liveness :: "string \<Rightarrow> PublisherStateInternal \<Rightarrow> PublisherStateInternal" where
  "reset_liveness reason state =
     (if pr_state (ps_record state) = PublisherState.Registered then
        let boot = pub_boot (pr_identity (ps_record state));
            state = state\<lparr>ps_record := (ps_record state)\<lparr>pr_state := PublisherState.Dead, pr_reason := reason\<rparr>\<rparr>
        in if gen_valid boot
           then state\<lparr>ps_fenced_boots := os_insert boot (ps_fenced_boots state),
                      ps_watermarks :=
                        om_map (\<lambda>w. w\<lparr>wm_state := PublisherState.Dead, wm_reason := reason\<rparr>) (ps_watermarks state)\<rparr>
           else state
      else state)"

definition reset_publisher_liveness :: "string \<Rightarrow> Registry \<Rightarrow> Registry" where
  "reset_publisher_liveness reason reg =
     touch_locked (reg\<lparr>rg_publishers := om_map (reset_liveness reason) (rg_publishers reg)\<rparr>)"

definition apply_publication ::
  "(string \<Rightarrow> u64) \<Rightarrow> string \<Rightarrow> Publication \<Rightarrow> Registry \<Rightarrow> ApplyResult \<times> Registry" where
  "apply_publication hash_string now publication reg = apply_locked hash_string now publication reg"

section \<open>Epoch and lifecycle\<close>

definition advance_coordinator_epoch :: "Registry \<Rightarrow> u64 \<times> Registry" where
  "advance_coordinator_epoch reg =
     (let epoch = (if gen_valid (rg_epoch reg) then gen_next (rg_epoch reg) else gen_first) in
      (epoch, touch_locked (reg\<lparr>rg_epoch := epoch\<rparr>)))"

definition set_coordinator_epoch :: "u64 \<Rightarrow> Registry \<Rightarrow> Status \<times> Registry" where
  "set_coordinator_epoch epoch reg =
     (if \<not> gen_valid epoch then (InvalidArgument, reg)
      else if gen_valid (rg_epoch reg) \<and> epoch \<le> rg_epoch reg then (GenerationRegression, reg)
      else (Ok, touch_locked (reg\<lparr>rg_epoch := epoch\<rparr>)))"

definition begin_shutdown :: "Registry \<Rightarrow> Registry" where
  "begin_shutdown reg = reg\<lparr>rg_shutting_down := True\<rparr>"

definition clear_shutdown :: "Registry \<Rightarrow> Registry" where
  "clear_shutdown reg = reg\<lparr>rg_shutting_down := False\<rparr>"

definition resource_usage :: "Registry \<Rightarrow> ResourceUsage" where
  "resource_usage reg =
     (rg_usage reg)\<lparr>ru_devices := length (rg_devices reg), ru_platforms := length (rg_platforms reg),
        ru_capability_keys := length (rg_keys reg), ru_evidence_records := rg_evidence_count reg,
        ru_quirks := length (rg_quirks reg), ru_compatibility_facts := length (rg_compatibility reg),
        ru_publishers := length (rg_publishers reg), ru_schemas := length (rg_schemas reg)\<rparr>"

section \<open>Queries\<close>

definition has_device :: "Registry \<Rightarrow> string \<Rightarrow> bool" where
  "has_device reg device \<longleftrightarrow> om_find device (rg_devices reg) \<noteq> None"

definition find_platform :: "Registry \<Rightarrow> string \<Rightarrow> ErrorCode + PlatformIdentity" where
  "find_platform reg platform =
     (case om_find platform (rg_platforms reg) of None \<Rightarrow> Inl NotFound | Some p \<Rightarrow> Inr p)"

definition owned_capabilities :: "Registry \<Rightarrow> string \<Rightarrow> string list" where
  "owned_capabilities reg device =
     (case om_find device (rg_device_keys reg) of None \<Rightarrow> [] | Some s \<Rightarrow> s)"

definition query_capability ::
  "Registry \<Rightarrow> string \<Rightarrow> u64 \<Rightarrow> string \<Rightarrow> EnvironmentContext \<Rightarrow> bool \<Rightarrow> ErrorCode + ResolvedCapability" where
  "query_capability reg device pinned capability env include_evidence =
     (if \<not> id_valid device \<or> \<not> id_valid capability then Inl InvalidArgument
      else case find_device_locked reg device of
        None \<Rightarrow> Inl NotFound
      | Some state \<Rightarrow>
          let resolved = resolve_locked reg state capability pinned env in
          Inr (if include_evidence then resolved else resolved\<lparr>rc_evidence := []\<rparr>))"

record DeviceCapabilityQuery =
  dq_device :: string
  dq_device_generation :: u64
  dq_environment :: EnvironmentContext
  dq_capability_prefix :: string
  dq_domain :: "CapabilityDomain option"
  dq_declared_filter :: "SupportState option"
  dq_effective_filter :: "EffectiveSupport option"
  dq_truth_filter :: "TruthClass option"
  dq_only_conditional :: bool
  dq_only_unknown :: bool
  dq_only_unsupported :: bool
  dq_only_stale :: bool
  dq_only_current :: bool
  dq_max_results :: nat

definition matches :: "'a option \<Rightarrow> 'a \<Rightarrow> bool" where
  "matches wanted x = (case wanted of None \<Rightarrow> True | Some f \<Rightarrow> x = f)"

definition key_selected :: "Registry \<Rightarrow> DeviceCapabilityQuery \<Rightarrow> string \<Rightarrow> bool" where
  "key_selected reg query capability =
     (if dq_capability_prefix query \<noteq> [] \<and>
         take (length (dq_capability_prefix query)) capability \<noteq> dq_capability_prefix query then False
      else case om_find (dq_device query, capability) (rg_keys reg) of
        None \<Rightarrow> False
      | Some key \<Rightarrow>
          (case dq_domain query of
             None \<Rightarrow> True
           | Some domain \<Rightarrow>
               (case find_schema_locked reg (ks_schema key) of
                  None \<Rightarrow> False
                | Some schema \<Rightarrow> cs_domain schema = domain)))"

definition answer_selected :: "DeviceCapabilityQuery \<Rightarrow> ResolvedCapability \<Rightarrow> bool" where
  "answer_selected query resolved \<longleftrightarrow>
     (dq_only_current query \<longrightarrow> rc_current resolved) \<and>
     (dq_only_stale query \<longrightarrow> is_stale (rc_staleness resolved)) \<and>
     (dq_only_conditional query \<longrightarrow> rc_conditions resolved \<noteq> None) \<and>
     (dq_only_unknown query \<longrightarrow>
        rc_effective_support resolved = EffectiveSupport.Unknown \<or>
        rc_declared_support resolved = SupportState.Unknown) \<and>
     (dq_only_unsupported query \<longrightarrow>
        rc_effective_support resolved = EffectiveSupport.Unsupported \<or>
        rc_declared_support resolved = SupportState.Unsupported) \<and>
     matches (dq_declared_filter query) (rc_declared_support resolved) \<and>
     matches (dq_effective_filter query) (rc_effective_support resolved) \<and>
     matches (dq_truth_filter query) (rc_truth resolved)"

definition query_capabilities :: "Registry \<Rightarrow> DeviceCapabilityQuery \<Rightarrow> ErrorCode + ResolvedCapability list" where
  "query_capabilities reg query =
     (if \<not> id_valid (dq_device query) then Inl InvalidArgument
      else case find_device_locked reg (dq_device query) of
        None \<Rightarrow> Inl NotFound
      | Some device \<Rightarrow>
          Inr (listing (effective_limit reg (dq_max_results query))
            (filter (answer_selected query)
              (map (\<lambda>capability. resolve_locked reg device capability (dq_device_generation query)
                                    (dq_environment query))
                (filter (key_selected reg query) (owned_capabilities reg (dq_device query)))))))"

definition query_fleet ::
  "Registry \<Rightarrow> string \<Rightarrow> EnvironmentContext \<Rightarrow> EffectiveSupport option \<Rightarrow> TruthClass option \<Rightarrow>
   HardwareClass option \<Rightarrow> bool \<Rightarrow> nat \<Rightarrow> ErrorCode + ResolvedCapability list" where
  "query_fleet reg capability env effective_filter truth_filter hardware_class only_current max_results =
     (if \<not> id_valid capability then Inl InvalidArgument
      else Inr (listing (effective_limit reg max_results)
        (filter (\<lambda>resolved. (only_current \<longrightarrow> rc_current resolved) \<and>
             matches effective_filter (rc_effective_support resolved) \<and>
             matches truth_filter (rc_truth resolved))
          (map (\<lambda>entry. resolve_locked reg (snd entry) capability 0 env)
            (filter (\<lambda>entry. matches hardware_class (hw_class (di_hardware (ds_identity (snd entry)))) \<and>
                 om_find (fst entry, capability) (rg_keys reg) \<noteq> None)
              (rg_devices reg))))))"

definition query_stale ::
  "Registry \<Rightarrow> string \<Rightarrow> u64 \<Rightarrow> EnvironmentContext \<Rightarrow> nat \<Rightarrow> ErrorCode + ResolvedCapability list" where
  "query_stale reg device pinned env max_results =
     (if \<not> id_valid device then Inl InvalidArgument
      else case find_device_locked reg device of
        None \<Rightarrow> Inl NotFound
      | Some state \<Rightarrow>
          Inr (listing (effective_limit reg max_results)
            (filter (\<lambda>resolved. \<not> (rc_current resolved \<and> \<not> is_stale (rc_staleness resolved)))
              (map (\<lambda>capability. resolve_locked reg state capability pinned env)
                (owned_capabilities reg device)))))"

definition unevaluated_quirk :: "QuirkRecord \<Rightarrow> QuirkApplication" where
  "unevaluated_quirk quirk =
     \<lparr>qap_id = qr_id quirk, qap_generation = qr_generation quirk, qap_severity = qr_severity quirk,
      qap_mitigation = qr_mitigation quirk, qap_result = QuirkApplicabilityResult.Unknown,
      qap_reason = ''no device supplied for applicability evaluation'', qap_title = qr_title quirk\<rparr>"

definition query_quirks ::
  "Registry \<Rightarrow> string option \<Rightarrow> EnvironmentContext \<Rightarrow> string option \<Rightarrow> bool \<Rightarrow> nat \<Rightarrow>
   ErrorCode + QuirkApplication list" where
  "query_quirks reg device env capability only_applicable max_results =
     (let selected = filter (\<lambda>q. \<not> qr_withdrawn q \<and>
            (case capability of None \<Rightarrow> True | Some c \<Rightarrow> c \<in> set (qr_impacted_capabilities q)))
            (om_values (rg_quirks reg));
          finish = (\<lambda>applications. listing (effective_limit reg max_results)
            (filter (\<lambda>a. only_applicable \<longrightarrow> qap_result a = Applies) applications)) in
      case device of
        None \<Rightarrow> Inr (finish (map unevaluated_quirk selected))
      | Some d \<Rightarrow>
          (case find_device_locked reg d of
             None \<Rightarrow> Inl NotFound
           | Some state \<Rightarrow>
               Inr (finish (map (\<lambda>q. evaluate_quirk q (ds_identity state) (ds_software state) env) selected))))"

definition list_quirks :: "Registry \<Rightarrow> QuirkRecord list" where
  "list_quirks reg = om_values (rg_quirks reg)"

definition references :: "HardwareReference \<Rightarrow> CompatibilityFact \<Rightarrow> bool" where
  "references reference f \<longleftrightarrow>
     (hr_kind (cf_lhs f) = hr_kind reference \<and> hr_token (cf_lhs f) = hr_token reference) \<or>
     (hr_kind (cf_rhs f) = hr_kind reference \<and> hr_token (cf_rhs f) = hr_token reference)"

definition query_compatibility ::
  "Registry \<Rightarrow> HardwareReference option \<Rightarrow> CompatibilitySubjectKind option \<Rightarrow> bool \<Rightarrow> nat \<Rightarrow>
   CompatibilityFact list" where
  "query_compatibility reg reference kind include_withdrawn max_results =
     listing (effective_limit reg max_results)
       (filter (\<lambda>f. (include_withdrawn \<or> \<not> cf_withdrawn f) \<and> matches kind (cf_kind f) \<and>
            (case reference of None \<Rightarrow> True | Some r \<Rightarrow> references r f))
          (om_values (rg_compatibility reg)))"

section \<open>Executions\<close>

text \<open>
  The operations of one life of a registry: one constructor for each operation of the interface that changes what a
  registry in service holds, with its arguments and, where the client learns one, its answer. Two operations that
  change state are left out. Importing a durable state replaces what a registry holds and begins its life; it is no
  step of one, so \<open>steps\<close> from a restored registry are its later life, while \<open>reachable\<close> below speaks of registries
  that began empty (the theories on import and restart treat the others). Taking a snapshot moves only the counters of
  snapshots; the moves of the coordinator include it.
\<close>

datatype Operation =
    Op_RegisterSchema CapabilitySchema Status
  | Op_RegisterPublisher string PublisherIdentity string ApplyResult
  | Op_Fence string string ApplyResult
  | Op_Retire string u64 string ApplyResult
  | Op_ResetLiveness string
  | Op_Apply string Publication ApplyResult
  | Op_AdvanceEpoch u64
  | Op_SetEpoch u64 Status
  | Op_BeginShutdown
  | Op_ClearShutdown

inductive step :: "(string \<Rightarrow> u64) \<Rightarrow> Registry \<Rightarrow> Operation \<Rightarrow> Registry \<Rightarrow> bool"
  for hash_string :: "string \<Rightarrow> u64" where
  step_register_schema:
    "register_capability_schema schema reg = (status, reg') \<Longrightarrow>
     step hash_string reg (Op_RegisterSchema schema status) reg'"
| step_register_publisher:
    "register_publisher now identity adapter reg = (result, reg') \<Longrightarrow>
     step hash_string reg (Op_RegisterPublisher now identity adapter result) reg'"
| step_fence:
    "fence_publisher pid reason reg = (result, reg') \<Longrightarrow>
     step hash_string reg (Op_Fence pid reason result) reg'"
| step_retire:
    "retire_publisher_boot pid boot reason reg = (result, reg') \<Longrightarrow>
     step hash_string reg (Op_Retire pid boot reason result) reg'"
| step_reset:
    "step hash_string reg (Op_ResetLiveness reason) (reset_publisher_liveness reason reg)"
| step_apply:
    "apply_publication hash_string now publication reg = (result, reg') \<Longrightarrow>
     step hash_string reg (Op_Apply now publication result) reg'"
| step_advance_epoch:
    "advance_coordinator_epoch reg = (epoch, reg') \<Longrightarrow> step hash_string reg (Op_AdvanceEpoch epoch) reg'"
| step_set_epoch:
    "set_coordinator_epoch epoch reg = (status, reg') \<Longrightarrow>
     step hash_string reg (Op_SetEpoch epoch status) reg'"
| step_begin_shutdown: "step hash_string reg Op_BeginShutdown (begin_shutdown reg)"
| step_clear_shutdown: "step hash_string reg Op_ClearShutdown (clear_shutdown reg)"

inductive_cases step_applyE: "step hash_string reg (Op_Apply now publication result) reg'"

inductive steps :: "(string \<Rightarrow> u64) \<Rightarrow> Registry \<Rightarrow> Operation list \<Rightarrow> Registry \<Rightarrow> bool"
  for hash_string :: "string \<Rightarrow> u64" where
  steps_Nil: "steps hash_string reg [] reg"
| steps_Cons: "step hash_string reg op reg' \<Longrightarrow> steps hash_string reg' ops reg'' \<Longrightarrow>
    steps hash_string reg (op # ops) reg''"

inductive_simps steps_Nil_iff [simp]: "steps hash_string reg [] reg'"
inductive_simps steps_Cons_iff: "steps hash_string reg (op # ops) reg'"

definition reachable ::
  "(string \<Rightarrow> u64) \<Rightarrow> CapabilitySchema list \<Rightarrow> RegistryLimits \<Rightarrow> Registry \<Rightarrow> bool" where
  "reachable hash_string builtin limits reg \<longleftrightarrow>
     (\<exists>ops. steps hash_string (new_registry builtin limits) ops reg)"

lemma steps_append:
  "steps hash_string reg (xs @ ys) reg'' \<longleftrightarrow>
     (\<exists>reg'. steps hash_string reg xs reg' \<and> steps hash_string reg' ys reg'')"
  by (induction xs arbitrary: reg) (auto simp: steps_Cons_iff)

lemma steps_invariant:
  assumes "steps hash_string reg ops reg'" and "P reg"
    and "\<And>reg op reg'. step hash_string reg op reg' \<Longrightarrow> P reg \<Longrightarrow> P reg'"
  shows "P reg'"
  using assms(1,2) by (induction rule: steps.induct) (auto intro: assms(3))

end
