(* ===== verification/Registry_Frames.thy ===== *)
theory Registry_Frames
  imports Registry
begin

text \<open>
  What each operation leaves alone. The state is grouped into four views: authority (limits, schemas,
  publishers, epoch, shutdown), subjects (devices, platforms and the sets of known families, models
  and architectures), evidence (keys, the per-device index, retention order and counters) and
  knowledge (quirks and compatibility facts). Every handler of the ingestion path writes one view; the
  lemmas here are the simplification rules that the safety and invariant proofs rest on.
\<close>

definition authority_view where
  "authority_view reg = (rg_limits reg, rg_schemas reg, rg_capability_schemas reg, rg_publishers reg,
     rg_epoch reg, rg_shutting_down reg)"

definition subject_view where
  "subject_view reg = (rg_devices reg, rg_platforms reg, rg_families reg, rg_models reg, rg_architectures reg)"

definition evidence_store where
  "evidence_store reg = (rg_keys reg, rg_device_keys reg, rg_global_order reg, rg_evidence_count reg,
     rg_next_serial reg)"

definition knowledge_view where
  "knowledge_view reg = (rg_quirks reg, rg_compatibility reg)"

lemmas view_defs = authority_view_def subject_view_def evidence_store_def knowledge_view_def

section \<open>Counters\<close>

lemma counter_views [frame, simp]:
  "authority_view (touch_locked reg) = authority_view reg" "subject_view (touch_locked reg) = subject_view reg"
  "evidence_store (touch_locked reg) = evidence_store reg" "knowledge_view (touch_locked reg) = knowledge_view reg"
  "authority_view (count_rejected reg) = authority_view reg" "subject_view (count_rejected reg) = subject_view reg"
  "evidence_store (count_rejected reg) = evidence_store reg" "knowledge_view (count_rejected reg) = knowledge_view reg"
  "authority_view (count_accepted reg) = authority_view reg" "subject_view (count_accepted reg) = subject_view reg"
  "evidence_store (count_accepted reg) = evidence_store reg" "knowledge_view (count_accepted reg) = knowledge_view reg"
  "authority_view (count_idempotent reg) = authority_view reg" "subject_view (count_idempotent reg) = subject_view reg"
  "evidence_store (count_idempotent reg) = evidence_store reg"
  "knowledge_view (count_idempotent reg) = knowledge_view reg"
  by (simp_all add: view_defs touch_locked_def count_rejected_def count_accepted_def count_idempotent_def)

section \<open>Devices and platforms\<close>

lemma platform_views [frame, simp]:
  "authority_view (register_platform_locked p reg) = authority_view reg"
  "evidence_store (register_platform_locked p reg) = evidence_store reg"
  "knowledge_view (register_platform_locked p reg) = knowledge_view reg"
  "rg_devices (register_platform_locked p reg) = rg_devices reg"
  "rg_families (register_platform_locked p reg) = rg_families reg"
  "rg_models (register_platform_locked p reg) = rg_models reg"
  "rg_architectures (register_platform_locked p reg) = rg_architectures reg"
  by (simp_all add: view_defs register_platform_locked_def split: option.split)

lemma view_of_usage [simp]:
  "authority_view (reg\<lparr>rg_usage := u\<rparr>) = authority_view reg" "subject_view (reg\<lparr>rg_usage := u\<rparr>) = subject_view reg"
  "evidence_store (reg\<lparr>rg_usage := u\<rparr>) = evidence_store reg" "knowledge_view (reg\<lparr>rg_usage := u\<rparr>) = knowledge_view reg"
  by (simp_all add: view_defs)

lemma view_of_devices [simp]:
  "authority_view (reg\<lparr>rg_devices := u\<rparr>) = authority_view reg"
  "evidence_store (reg\<lparr>rg_devices := u\<rparr>) = evidence_store reg"
  "knowledge_view (reg\<lparr>rg_devices := u\<rparr>) = knowledge_view reg"
  by (simp_all add: view_defs)

lemma device_views [frame, simp]:
  "authority_view (snd (apply_device_locked p reg)) = authority_view reg"
  "evidence_store (snd (apply_device_locked p reg)) = evidence_store reg"
  "knowledge_view (snd (apply_device_locked p reg)) = knowledge_view reg"
proof -
  have new: "authority_view (snd (register_new_device r reg)) = authority_view reg"
    "evidence_store (snd (register_new_device r reg)) = evidence_store reg"
    "knowledge_view (snd (register_new_device r reg)) = knowledge_view reg" for r
    by (simp_all add: register_new_device_def Let_def) (simp_all add: view_defs)
  show "authority_view (snd (apply_device_locked p reg)) = authority_view reg"
    "evidence_store (snd (apply_device_locked p reg)) = evidence_store reg"
    "knowledge_view (snd (apply_device_locked p reg)) = knowledge_view reg"
    by (simp_all add: apply_device_locked_def Let_def new split: option.split)
qed

section \<open>Retention\<close>

lemma evict_entry_views [frame, simp]:
  "authority_view (evict_entry e reg) = authority_view reg" "subject_view (evict_entry e reg) = subject_view reg"
  "knowledge_view (evict_entry e reg) = knowledge_view reg" "rg_device_keys (evict_entry e reg) = rg_device_keys reg"
  "rg_next_serial (evict_entry e reg) = rg_next_serial reg"
  "rg_global_order (evict_entry e reg) = rg_global_order reg"
  by (simp_all add: view_defs evict_entry_def split: option.split)

lemma view_of_order [simp]:
  "authority_view (reg\<lparr>rg_global_order := u\<rparr>) = authority_view reg"
  "subject_view (reg\<lparr>rg_global_order := u\<rparr>) = subject_view reg"
  "knowledge_view (reg\<lparr>rg_global_order := u\<rparr>) = knowledge_view reg"
  by (simp_all add: view_defs)

lemma evict_global_views [frame, simp]:
  "authority_view (evict_global n reg) = authority_view reg \<and> subject_view (evict_global n reg) = subject_view reg \<and>
   knowledge_view (evict_global n reg) = knowledge_view reg \<and>
   rg_device_keys (evict_global n reg) = rg_device_keys reg \<and>
   rg_next_serial (evict_global n reg) = rg_next_serial reg"
  by (induction n reg rule: evict_global.induct) (simp_all split: list.split)

lemma evict_if_needed_views [frame, simp]:
  "authority_view (evict_if_needed_locked reg) = authority_view reg"
  "subject_view (evict_if_needed_locked reg) = subject_view reg"
  "knowledge_view (evict_if_needed_locked reg) = knowledge_view reg"
  "rg_device_keys (evict_if_needed_locked reg) = rg_device_keys reg"
  "rg_next_serial (evict_if_needed_locked reg) = rg_next_serial reg"
proof -
  have keys: "authority_view (evict_keys reg) = authority_view reg" "subject_view (evict_keys reg) = subject_view reg"
    "knowledge_view (evict_keys reg) = knowledge_view reg" "rg_device_keys (evict_keys reg) = rg_device_keys reg"
    "rg_next_serial (evict_keys reg) = rg_next_serial reg"
    by (simp_all add: view_defs evict_keys_def Let_def)
  show "authority_view (evict_if_needed_locked reg) = authority_view reg"
    "subject_view (evict_if_needed_locked reg) = subject_view reg"
    "knowledge_view (evict_if_needed_locked reg) = knowledge_view reg"
    "rg_device_keys (evict_if_needed_locked reg) = rg_device_keys reg"
    "rg_next_serial (evict_if_needed_locked reg) = rg_next_serial reg"
    by (simp_all add: evict_if_needed_locked_def Let_def trim_global_order_def keys del: evict_global.simps)
qed

lemma limits_view: "authority_view a = authority_view b \<Longrightarrow> rg_limits a = rg_limits b"
  by (simp add: authority_view_def)

lemma evict_if_needed_limits [simp]: "rg_limits (evict_if_needed_locked reg) = rg_limits reg"
  by (rule limits_view) simp

section \<open>Capability evidence, quirks and compatibility\<close>

lemma view_of_keys [simp]:
  "authority_view (reg\<lparr>rg_keys := u\<rparr>) = authority_view reg" "subject_view (reg\<lparr>rg_keys := u\<rparr>) = subject_view reg"
  "knowledge_view (reg\<lparr>rg_keys := u\<rparr>) = knowledge_view reg"
  by (simp_all add: view_defs)

lemma append_record_views [frame, simp]:
  "authority_view (append_record k s r reg) = authority_view reg"
  "subject_view (append_record k s r reg) = subject_view reg"
  "knowledge_view (append_record k s r reg) = knowledge_view reg"
  "rg_device_keys (append_record k s r reg) = rg_device_keys reg"
  by (simp_all add: view_defs append_record_def Let_def split: option.split)

lemma admit_record_views [frame, simp]:
  "authority_view (snd (admit_record d k r reg)) = authority_view reg"
  "subject_view (snd (admit_record d k r reg)) = subject_view reg"
  "knowledge_view (snd (admit_record d k r reg)) = knowledge_view reg"
  "rg_device_keys (snd (admit_record d k r reg)) = rg_device_keys reg"
  by (simp_all add: admit_record_def store_record_def Let_def)

lemma open_key_views [frame, simp]:
  "authority_view (snd (open_key r reg)) = authority_view reg"
  "subject_view (snd (open_key r reg)) = subject_view reg"
  "knowledge_view (snd (open_key r reg)) = knowledge_view reg"
  by (simp_all add: view_defs open_key_def Let_def split: option.split)

text \<open>The capability handler as what it does after its checks passed.\<close>

lemma apply_capability_cases:
  obtains (checked) code where "apply_capability_locked p reg = (result_of code, reg)"
      "code \<in> {RejectedUnknownSchema, RejectedValidation, RejectedUnknownDevice, RejectedStaleDeviceGeneration}"
  | (no_key) r reg' where "open_key r reg = (Some RejectedLimit, reg')"
      "apply_capability_locked p reg = (result_of RejectedLimit, reg')"
  | (bad_key) r key reg' code where "om_find (cr_device r) (rg_devices reg) \<noteq> None"
      "open_key r reg = (None, reg')"
      "om_find (key_of r) (rg_keys reg') = Some key" "check_key key r = Some code"
      "apply_capability_locked p reg = (result_of code, reg')"
  | (admitted) v device key reg' where
      "check_capability_schema reg (pb_capability p) = None"
      "normalize_value (rg_limits reg) (cr_value (pb_capability p)) = Inr v"
      "check_capability_device reg ((pb_capability p)\<lparr>cr_value := v\<rparr>) = Inr device"
      "open_key ((pb_capability p)\<lparr>cr_value := v\<rparr>) reg = (None, reg')"
      "om_find (key_of ((pb_capability p)\<lparr>cr_value := v\<rparr>)) (rg_keys reg') = Some key"
      "check_key key ((pb_capability p)\<lparr>cr_value := v\<rparr>) = None"
      "apply_capability_locked p reg = admit_record device key ((pb_capability p)\<lparr>cr_value := v\<rparr>) reg'"
proof -
  note defs = apply_capability_locked_def Let_def
  show ?thesis
  proof (cases "check_capability_schema reg (pb_capability p)")
    case (Some code)
    then have "code \<in> {RejectedUnknownSchema, RejectedValidation}"
      by (auto simp: check_capability_schema_def split: option.splits if_splits)
    with Some show ?thesis by (intro checked [of code]) (auto simp: defs)
  next
    case schema: None
    show ?thesis
    proof (cases "normalize_value (rg_limits reg) (cr_value (pb_capability p))")
      case (Inl e)
      with schema show ?thesis by (intro checked [of RejectedValidation]) (simp_all add: defs)
    next
      case v: (Inr v)
      let ?rec = "(pb_capability p)\<lparr>cr_value := v\<rparr>"
      show ?thesis
      proof (cases "check_capability_device reg ?rec")
        case (Inl code)
        then have "code \<in> {RejectedUnknownDevice, RejectedStaleDeviceGeneration}"
          by (auto simp: check_capability_device_def split: option.splits if_splits)
        with Inl schema v show ?thesis by (intro checked [of code]) (auto simp: defs)
      next
        case dev: (Inr device)
        obtain c reg' where op: "open_key ?rec reg = (c, reg')" by (cases "open_key ?rec reg")
        show ?thesis
        proof (cases c)
          case (Some code)
          with op have "code = RejectedLimit"
            by (auto simp: open_key_def Let_def split: option.splits if_splits)
          with op Some schema v dev show ?thesis
            by (intro no_key [of ?rec reg']) (simp_all add: defs)
        next
          case None
          with op have "om_find (key_of ?rec) (rg_keys reg') \<noteq> None"
            by (auto simp: open_key_def Let_def split: option.splits if_splits)
          then obtain key where key: "om_find (key_of ?rec) (rg_keys reg') = Some key" by auto
          show ?thesis
          proof (cases "check_key key ?rec")
            case chk: None
            with op None schema v dev key show ?thesis
              by (intro admitted [of v device reg' key]) (simp_all add: defs)
          next
            case (Some code)
            moreover have "om_find (cr_device ?rec) (rg_devices reg) \<noteq> None"
              using dev by (auto simp: check_capability_device_def find_device_locked_def split: option.splits)
            ultimately show ?thesis
              using op None schema v dev key
              by (intro bad_key [of ?rec reg' key code]) (simp_all add: defs)
          qed
        qed
      qed
    qed
  qed
qed

lemma capability_views [frame, simp]:
  "authority_view (snd (apply_capability_locked p reg)) = authority_view reg"
  "subject_view (snd (apply_capability_locked p reg)) = subject_view reg"
  "knowledge_view (snd (apply_capability_locked p reg)) = knowledge_view reg"
proof -
  have op: "authority_view reg' = authority_view reg" "subject_view reg' = subject_view reg"
    "knowledge_view reg' = knowledge_view reg" if "open_key r reg = (c, reg')" for r c reg'
    using open_key_views [of r reg] that by simp_all
  show "authority_view (snd (apply_capability_locked p reg)) = authority_view reg"
    "subject_view (snd (apply_capability_locked p reg)) = subject_view reg"
    "knowledge_view (snd (apply_capability_locked p reg)) = knowledge_view reg"
    by (cases rule: apply_capability_cases [of p reg]; simp add: op)+
qed

lemma quirk_views [frame, simp]:
  "authority_view (snd (apply_quirk_locked p reg)) = authority_view reg"
  "subject_view (snd (apply_quirk_locked p reg)) = subject_view reg"
  "evidence_store (snd (apply_quirk_locked p reg)) = evidence_store reg"
  "rg_compatibility (snd (apply_quirk_locked p reg)) = rg_compatibility reg"
  by (simp_all add: view_defs apply_quirk_locked_def withdraw_quirk_def publish_quirk_def Let_def
      split: option.split)

lemma compatibility_views [frame, simp]:
  "authority_view (snd (apply_compatibility_locked p reg)) = authority_view reg"
  "subject_view (snd (apply_compatibility_locked p reg)) = subject_view reg"
  "evidence_store (snd (apply_compatibility_locked p reg)) = evidence_store reg"
  "rg_quirks (snd (apply_compatibility_locked p reg)) = rg_quirks reg"
  by (simp_all add: view_defs apply_compatibility_locked_def withdraw_compatibility_def
      publish_compatibility_def Let_def split: option.split)

lemma dispatch_authority [frame, simp]: "authority_view (snd (dispatch p reg)) = authority_view reg"
  by (simp add: dispatch_def split: PublicationKind.split)

lemmas dispatch_authority_fields [simp] = dispatch_authority [unfolded authority_view_def prod.inject]

section \<open>Bookkeeping\<close>

lemma booking_views [frame, simp]:
  "subject_view (put_watermark p w st reg) = subject_view reg"
  "evidence_store (put_watermark p w st reg) = evidence_store reg"
  "knowledge_view (put_watermark p w st reg) = knowledge_view reg"
  "subject_view (book_rejection p w st reg) = subject_view reg"
  "evidence_store (book_rejection p w st reg) = evidence_store reg"
  "knowledge_view (book_rejection p w st reg) = knowledge_view reg"
  "subject_view (book_acceptance h p w st res reg) = subject_view reg"
  "evidence_store (book_acceptance h p w st res reg) = evidence_store reg"
  "knowledge_view (book_acceptance h p w st res reg) = knowledge_view reg"
  by (simp_all add: view_defs put_watermark_def put_publisher_def book_rejection_def book_acceptance_def Let_def
      count_rejected_def count_accepted_def count_idempotent_def touch_locked_def)

lemma booking_authority [frame, simp]:
  "rg_limits (put_watermark p w st reg) = rg_limits reg" "rg_epoch (put_watermark p w st reg) = rg_epoch reg"
  "rg_schemas (put_watermark p w st reg) = rg_schemas reg"
  "rg_limits (book_rejection p w st reg) = rg_limits reg" "rg_epoch (book_rejection p w st reg) = rg_epoch reg"
  "rg_schemas (book_rejection p w st reg) = rg_schemas reg"
  "rg_limits (book_acceptance h p w st res reg) = rg_limits reg"
  "rg_epoch (book_acceptance h p w st res reg) = rg_epoch reg"
  "rg_schemas (book_acceptance h p w st res reg) = rg_schemas reg"
  by (simp_all add: put_watermark_def put_publisher_def book_rejection_def book_acceptance_def Let_def
      count_rejected_def count_accepted_def count_idempotent_def touch_locked_def)

end
