(* ===== verification/Authority.thy ===== *)
theory Authority
  imports Registry_Frames
begin

text \<open>
  Publisher authority across executions. The contract is a preorder on publisher states: fenced boots
  and the permanent fence are never taken back and the watermarks of a boot never move backwards.
  Every operation of the interface respects it, so the consequences hold after any number of
  operations: a fenced boot never regains authority, and a sequence that was passed never mutates the
  registry again.
\<close>

section \<open>The contract\<close>

definition watermark_evolves :: "PublisherWatermark \<Rightarrow> PublisherWatermark \<Rightarrow> bool" where
  "watermark_evolves w w' \<longleftrightarrow>
     wm_max_sequence w \<le> wm_max_sequence w' \<and> wm_max_evidence_generation w \<le> wm_max_evidence_generation w'"

definition publisher_evolves :: "PublisherStateInternal \<Rightarrow> PublisherStateInternal \<Rightarrow> bool" where
  "publisher_evolves st st' \<longleftrightarrow>
     set (ps_fenced_boots st) \<subseteq> set (ps_fenced_boots st') \<and>
     (ps_publisher_fenced st \<longrightarrow> ps_publisher_fenced st') \<and>
     (\<forall>boot w. om_find boot (ps_watermarks st) = Some w \<longrightarrow>
        (\<exists>w'. om_find boot (ps_watermarks st') = Some w' \<and> watermark_evolves w w'))"

definition publishers_evolve :: "Registry \<Rightarrow> Registry \<Rightarrow> bool" where
  "publishers_evolve reg reg' \<longleftrightarrow>
     (\<forall>pid st. om_find pid (rg_publishers reg) = Some st \<longrightarrow>
        (\<exists>st'. om_find pid (rg_publishers reg') = Some st' \<and> publisher_evolves st st'))"

text \<open>
  A contract of this kind needs to hold of each operation only; that it holds of executions is a fact
  about preorders.
\<close>

locale step_preorder =
  fixes rel :: "Registry \<Rightarrow> Registry \<Rightarrow> bool" and hash_string :: "string \<Rightarrow> u64"
  assumes rel_refl: "rel reg reg"
    and rel_trans: "rel a b \<Longrightarrow> rel b c \<Longrightarrow> rel a c"
    and rel_step: "step hash_string reg op reg' \<Longrightarrow> rel reg reg'"
begin

lemma rel_steps: "steps hash_string reg ops reg' \<Longrightarrow> rel reg reg'"
  by (induction rule: steps.induct) (auto intro: rel_refl rel_step rel_trans)

end

lemma watermark_evolves_refl [simp]: "watermark_evolves w w"
  by (simp add: watermark_evolves_def)

lemma publisher_evolves_refl [simp]: "publisher_evolves st st"
  by (simp add: publisher_evolves_def)

lemma publishers_evolve_refl [simp]: "publishers_evolve reg reg"
  by (simp add: publishers_evolve_def)

lemma publisher_evolves_trans: "publisher_evolves a b \<Longrightarrow> publisher_evolves b c \<Longrightarrow> publisher_evolves a c"
  unfolding publisher_evolves_def watermark_evolves_def by (meson order_trans subset_trans)

lemma publishers_evolve_trans: "publishers_evolve a b \<Longrightarrow> publishers_evolve b c \<Longrightarrow> publishers_evolve a c"
  unfolding publishers_evolve_def using publisher_evolves_trans by meson

lemma publishers_evolve_same: "rg_publishers reg' = rg_publishers reg \<Longrightarrow> publishers_evolve reg reg'"
  by (simp add: publishers_evolve_def)

lemma publishers_evolve_congr:
  "rg_publishers a = rg_publishers a' \<Longrightarrow> rg_publishers b = rg_publishers b' \<Longrightarrow>
   publishers_evolve a b = publishers_evolve a' b'"
  by (simp add: publishers_evolve_def)

lemma publishers_evolve_put:
  assumes "om_find pid (rg_publishers reg) = Some st" and "publisher_evolves st st'"
  shows "publishers_evolve reg (put_publisher pid st' reg)"
  using assms by (auto simp: publishers_evolve_def put_publisher_def)

section \<open>Operations on publishers\<close>

lemma watermarks_map_evolve:
  assumes "\<And>w. watermark_evolves w (f w)"
  shows "\<forall>boot w. om_find boot m = Some w \<longrightarrow> (\<exists>w'. om_find boot (om_map f m) = Some w' \<and> watermark_evolves w w')"
  using assms by auto

lemma register_publisher_evolves: "publishers_evolve reg (snd (register_publisher_locked now identity adapter reg))"
proof (cases "om_find (pub_id identity) (rg_publishers reg)")
  case None
  then show ?thesis
    by (auto simp: register_publisher_locked_def register_new_publisher_def publishers_evolve_def Let_def
        touch_locked_def)
next
  case (Some st)
  have fresh: "publisher_evolves st (fresh_boot now adapter (rg_epoch reg) st)"
    by (auto simp: publisher_evolves_def fresh_boot_def Let_def)
  have same: "publisher_evolves st (reaffirm_boot adapter (rg_epoch reg) st)"
    by (simp add: publisher_evolves_def reaffirm_boot_def Let_def)
  have touch: "publishers_evolve reg (touch_locked r) = publishers_evolve reg r" for r
    by (simp add: publishers_evolve_def)
  show ?thesis
    using publishers_evolve_put [OF Some fresh] publishers_evolve_put [OF Some same]
    by (simp add: register_publisher_locked_def Some Let_def touch)
qed

lemma fence_publisher_evolves: "publishers_evolve reg (snd (fence_publisher pid reason reg))"
proof (cases "om_find pid (rg_publishers reg)")
  case (Some st)
  show ?thesis
    by (auto simp: fence_publisher_def Some Let_def publishers_evolve_def put_publisher_def
        publisher_evolves_def watermark_evolves_def)
qed (simp add: fence_publisher_def)

lemma retire_boot_evolves: "publishers_evolve reg (snd (retire_publisher_boot pid boot reason reg))"
proof (cases "om_find pid (rg_publishers reg)")
  case (Some st)
  show ?thesis
    by (auto simp: retire_publisher_boot_def Some Let_def publishers_evolve_def put_publisher_def
        publisher_evolves_def watermark_evolves_def split: option.split)
qed (simp add: retire_publisher_boot_def)

lemma reset_liveness_evolves: "publishers_evolve reg (reset_publisher_liveness reason reg)"
  by (auto simp: reset_publisher_liveness_def publishers_evolve_def reset_liveness_def Let_def
      publisher_evolves_def watermark_evolves_def)

section \<open>Ingestion\<close>

lemma prepare_fields:
  assumes "prepare reg p = Inr p'"
  shows "pb_publisher p' = pb_publisher p" "pb_kind p' = pb_kind p" "pb_sequence p' = pb_sequence p"
    "pb_evidence_generation p' = pb_evidence_generation p" "validate_publication p' (rg_limits reg) = Ok"
proof -
  have "bind_schema reg q = Some r \<Longrightarrow> pb_publisher r = pb_publisher q \<and> pb_kind r = pb_kind q \<and>
      pb_sequence r = pb_sequence q \<and> pb_evidence_generation r = pb_evidence_generation q" for q r
    by (auto simp: bind_schema_def Let_def split: if_splits option.splits)
  moreover have "bind_value reg q = Some r \<Longrightarrow> pb_publisher r = pb_publisher q \<and> pb_kind r = pb_kind q \<and>
      pb_sequence r = pb_sequence q \<and> pb_evidence_generation r = pb_evidence_generation q" for q r
    by (auto simp: bind_value_def Let_def split: if_splits sum.splits)
  moreover obtain q r where "bind_schema reg (bind_publisher p) = Some q" "bind_value reg q = Some r"
    "r = p'" "validate_publication p' (rg_limits reg) = Ok"
    using assms by (auto simp: prepare_def split: option.splits if_splits)
  moreover have "pb_publisher (bind_publisher p) = pb_publisher p" "pb_kind (bind_publisher p) = pb_kind p"
    "pb_sequence (bind_publisher p) = pb_sequence p"
    "pb_evidence_generation (bind_publisher p) = pb_evidence_generation p"
    by (simp_all add: bind_publisher_def Let_def)
  ultimately show "pb_publisher p' = pb_publisher p" "pb_kind p' = pb_kind p" "pb_sequence p' = pb_sequence p"
    "pb_evidence_generation p' = pb_evidence_generation p" "validate_publication p' (rg_limits reg) = Ok"
    by metis+
qed

lemma apply_locked_cases:
  obtains (shutdown) "rg_shutting_down reg" "apply_locked h now p reg = (result_of RejectedShuttingDown, reg)"
  | (refused) code where "prepare reg p = Inl code"
      "apply_locked h now p reg = (result_of code, count_rejected reg)"
  | (schema) p' where "prepare reg p = Inr p'" "pb_kind p' = PublicationKind.RegisterCapabilitySchema"
      "apply_locked h now p reg = apply_schema_publication p' reg"
  | (publisher) p' where "prepare reg p = Inr p'" "pb_kind p' = PublicationKind.RegisterPublisher"
      "apply_locked h now p reg = apply_publisher_publication now p' reg"
  | (unauthorised) p' code where "prepare reg p = Inr p'" "check_authority reg p' = Inl code"
      "apply_locked h now p reg = (result_of code, count_rejected reg)"
  | (evidence) p' st where "\<not> rg_shutting_down reg" "prepare reg p = Inr p'"
      "pb_kind p' \<noteq> PublicationKind.RegisterCapabilitySchema" "pb_kind p' \<noteq> PublicationKind.RegisterPublisher"
      "check_authority reg p' = Inr st" "apply_locked h now p reg = apply_evidence h p' st reg"
proof (cases "rg_shutting_down reg")
  case True
  then show ?thesis by (intro shutdown) (simp_all add: apply_locked_def)
next
  case run: False
  show ?thesis
  proof (cases "prepare reg p")
    case (Inl code)
    with run show ?thesis by (intro refused [of code]) (simp_all add: apply_locked_def)
  next
    case (Inr p')
    note eq = apply_locked_def [of h now p reg] run Inr
    show ?thesis
    proof (cases "pb_kind p' = PublicationKind.RegisterCapabilitySchema \<or>
        pb_kind p' = PublicationKind.RegisterPublisher")
      case True
      then show ?thesis
        using schema [OF Inr] publisher [OF Inr] by (auto simp: eq)
    next
      case False
      then show ?thesis
        using unauthorised [OF Inr] evidence [OF run Inr]
        by (cases "check_authority reg p'") (auto simp: eq)
    qed
  qed
qed

lemma check_authority_InrD [admission]:
  assumes "check_authority reg p = Inr st"
  shows "om_find (pub_id (pb_publisher p)) (rg_publishers reg) = Some st" "\<not> ps_publisher_fenced st"
    "pub_boot (pb_publisher p) \<notin> set (ps_fenced_boots st)"
    "pub_boot (pr_identity (ps_record st)) = pub_boot (pb_publisher p)"
    "pub_epoch (pb_publisher p) = rg_epoch reg"
  using assms by (auto simp: check_authority_def Let_def split: option.splits if_splits)

lemma check_sequence_cases:
  obtains (refuse) code where "check_sequence h p st w = Refuse code" "\<not> apply_code_accepted code"
  | (duplicate) "check_sequence h p st w = Duplicate" "pb_sequence p = wm_max_sequence w"
  | (go) "check_sequence h p st w = Proceed" "wm_max_sequence w < pb_sequence p"
      "wm_max_evidence_generation w \<le> pb_evidence_generation p"
  by (cases "check_sequence h p st w")
    (auto simp: check_sequence_def apply_code_accepted_def split: if_splits option.splits)

definition watermark_of :: "PublisherStateInternal \<Rightarrow> u64 \<Rightarrow> PublisherWatermark" where
  "watermark_of st boot = (case om_find boot (ps_watermarks st) of None \<Rightarrow> empty_watermark | Some w \<Rightarrow> w)"

lemma open_watermark_max [simp]:
  "wm_max_sequence (open_watermark p st) = wm_max_sequence (watermark_of st (pub_boot (pb_publisher p)))"
  "wm_max_evidence_generation (open_watermark p st) =
     wm_max_evidence_generation (watermark_of st (pub_boot (pb_publisher p)))"
  by (simp_all add: open_watermark_def Let_def watermark_of_def)

lemma put_watermark_evolves:
  assumes "om_find (pub_id (pb_publisher p)) (rg_publishers reg) = Some st"
    and "ps_fenced_boots st' = ps_fenced_boots st" "ps_publisher_fenced st' = ps_publisher_fenced st"
    "ps_watermarks st' = ps_watermarks st"
    and "watermark_evolves (watermark_of st (pub_boot (pb_publisher p))) w"
  shows "publishers_evolve reg (put_watermark p w st' reg)"
  unfolding put_watermark_def
  by (rule publishers_evolve_put [OF assms(1)])
    (use assms(2-) in \<open>auto simp: publisher_evolves_def watermark_of_def\<close>)

lemma publishers_evolve_via:
  "rg_publishers reg = rg_publishers reg0 \<Longrightarrow> publishers_evolve reg0 reg' = publishers_evolve reg reg'"
  by (simp add: publishers_evolve_def)

lemma book_rejection_evolves:
  assumes "om_find (pub_id (pb_publisher p)) (rg_publishers reg) = Some st"
    and "watermark_evolves (watermark_of st (pub_boot (pb_publisher p))) w"
  shows "publishers_evolve reg (book_rejection p w st reg)"
proof -
  let ?n = "pr_rejected (ps_record st) + 1"
  have "publishers_evolve reg (put_watermark p (w\<lparr>wm_rejected := ?n\<rparr>)
      (st\<lparr>ps_record := (ps_record st)\<lparr>pr_rejected := ?n\<rparr>\<rparr>) reg)"
    by (rule put_watermark_evolves [OF assms(1)]) (use assms(2) in \<open>simp_all add: watermark_evolves_def\<close>)
  then show ?thesis by (simp add: book_rejection_def Let_def publishers_evolve_def)
qed

lemma book_acceptance_publishers:
  "rg_publishers (book_acceptance h p w st res reg) =
     rg_publishers (put_watermark p
       (w\<lparr>wm_max_sequence := pb_sequence p,
          wm_max_evidence_generation := max (pb_evidence_generation p) (wm_max_evidence_generation w),
          wm_accepted := pr_accepted (ps_record st) + 1\<rparr>)
       (st\<lparr>ps_sequence_fingerprints := record_fingerprint (pb_sequence p)
              (h (fingerprint_publication p)) (ps_sequence_fingerprints st),
           ps_record := (ps_record st)\<lparr>pr_last_sequence := pb_sequence p,
              pr_max_evidence_generation := max (pb_evidence_generation p) (wm_max_evidence_generation w),
              pr_accepted := pr_accepted (ps_record st) + 1\<rparr>\<rparr>) reg)"
  by (simp add: book_acceptance_def Let_def)

lemma book_acceptance_evolves:
  assumes "om_find (pub_id (pb_publisher p)) (rg_publishers reg) = Some st"
    and "watermark_evolves (watermark_of st (pub_boot (pb_publisher p))) w" and "wm_max_sequence w < pb_sequence p"
  shows "publishers_evolve reg (book_acceptance h p w st res reg)"
  unfolding publishers_evolve_congr [OF refl book_acceptance_publishers]
  by (rule put_watermark_evolves [OF assms(1)])
    (use assms(2,3) in \<open>auto simp: watermark_evolves_def le_max_iff_disj\<close>)

lemma apply_evidence_evolves:
  assumes "check_authority reg p = Inr st"
  shows "publishers_evolve reg (snd (apply_evidence h p st reg))"
proof -
  note st = check_authority_InrD(1) [OF assms]
  let ?w = "open_watermark p st"
  have w: "watermark_evolves (watermark_of st (pub_boot (pb_publisher p))) ?w"
    by (simp add: watermark_evolves_def)
  show ?thesis
  proof (cases rule: check_sequence_cases [of h p st ?w])
    case (refuse code)
    with book_rejection_evolves [OF st w] show ?thesis by (simp add: apply_evidence_def)
  next
    case duplicate
    have "publishers_evolve reg (put_watermark p ?w st reg)"
      by (rule put_watermark_evolves [OF st]) (simp_all add: w)
    with duplicate show ?thesis by (simp add: apply_evidence_def publishers_evolve_def)
  next
    case go
    obtain result reg' where d: "dispatch p reg = (result, reg')" by (cases "dispatch p reg")
    then have pubs: "rg_publishers reg' = rg_publishers reg"
      using dispatch_authority_fields [of p reg] by simp
    with st have st': "om_find (pub_id (pb_publisher p)) (rg_publishers reg') = Some st" by simp
    show ?thesis
      using go d book_acceptance_evolves [OF st' w, of h result] book_rejection_evolves [OF st' w]
      by (simp add: apply_evidence_def publishers_evolve_via [OF pubs] Let_def)
  qed
qed

lemma apply_locked_evolves: "publishers_evolve reg (snd (apply_locked h now p reg))"
proof (cases rule: apply_locked_cases [of reg h now p])
  case (schema p')
  then show ?thesis
    by (auto simp: apply_schema_publication_def register_capability_schema_locked_def Let_def
        publishers_evolve_def split: prod.splits if_splits)
next
  case (publisher p')
  then show ?thesis
    using register_publisher_evolves [of reg now "pb_publisher p'" "pb_reason p'"]
    by (cases "register_publisher_locked now (pb_publisher p') (pb_reason p') reg")
      (simp add: apply_publisher_publication_def publishers_evolve_def)
next
  case (evidence p' st)
  then show ?thesis by (simp add: apply_evidence_evolves)
qed (simp_all add: publishers_evolve_def)

lemma step_evolves: "step h reg op reg' \<Longrightarrow> publishers_evolve reg reg'"
proof (induction rule: step.induct)
  case (step_register_schema schema reg status reg')
  then show ?case
    by (intro publishers_evolve_same)
      (auto simp: register_capability_schema_def register_capability_schema_locked_def Let_def
        split: prod.splits if_splits)
next
  case (step_register_publisher now identity adapter reg result reg')
  then show ?case
    using register_publisher_evolves [of reg now identity adapter]
    by (auto simp: register_publisher_def split: if_splits)
next
  case (step_fence pid reason reg result reg')
  then show ?case using fence_publisher_evolves [of reg pid reason] by simp
next
  case (step_retire pid boot reason reg result reg')
  then show ?case using retire_boot_evolves [of reg pid boot reason] by simp
next
  case (step_apply now p reg result reg')
  then show ?case using apply_locked_evolves [of reg h now p] by (simp add: apply_publication_def)
next
  case (step_reset reg reason)
  show ?case by (rule reset_liveness_evolves)
qed (auto simp: advance_coordinator_epoch_def set_coordinator_epoch_def Let_def
      begin_shutdown_def clear_shutdown_def publishers_evolve_def split: if_splits)

interpretation authority: step_preorder publishers_evolve h for h
  by unfold_locales (auto intro: publishers_evolve_trans step_evolves)

section \<open>Fenced boots\<close>

definition same_truth :: "Registry \<Rightarrow> Registry \<Rightarrow> bool" where
  "same_truth reg reg' \<longleftrightarrow>
     subject_view reg' = subject_view reg \<and> evidence_store reg' = evidence_store reg \<and>
     knowledge_view reg' = knowledge_view reg"

lemma same_truth_refl [simp]: "same_truth reg reg"
  by (simp add: same_truth_def)

lemma same_truth_counters [simp]:
  "same_truth reg (count_rejected r) = same_truth reg r" "same_truth reg (count_accepted r) = same_truth reg r"
  "same_truth reg (count_idempotent r) = same_truth reg r" "same_truth reg (touch_locked r) = same_truth reg r"
  by (simp_all add: same_truth_def)

lemma same_truth_booking [simp]:
  "same_truth reg (put_watermark p w st r) = same_truth reg r"
  "same_truth reg (book_rejection p w st r) = same_truth reg r"
  "same_truth reg (book_acceptance h p w st res r) = same_truth reg r"
  by (simp_all add: same_truth_def)

lemma register_publisher_truth: "same_truth reg (snd (register_publisher_locked now identity adapter reg))"
  by (simp add: register_publisher_locked_def register_new_publisher_def Let_def split: option.split)
    (simp add: same_truth_def view_defs put_publisher_def)

lemma register_fenced_rejected:
  assumes "om_find (pub_id identity) (rg_publishers reg) = Some st"
    and "ps_publisher_fenced st \<or> (gen_valid (pub_boot identity) \<and> pub_boot identity \<in> set (ps_fenced_boots st))"
  shows "\<not> accepted (fst (register_publisher_locked now identity adapter reg))"
  using assms by (auto simp: register_publisher_locked_def apply_code_accepted_def)

lemma validate_publication_boot:
  "validate_publication p limits = Ok \<Longrightarrow> gen_valid (pub_boot (pb_publisher p))"
  by (simp add: validate_publication_def split: if_splits)

lemma fenced_rejects:
  assumes st: "om_find (pub_id (pb_publisher p)) (rg_publishers reg) = Some st"
    and fenced: "ps_publisher_fenced st \<or> pub_boot (pb_publisher p) \<in> set (ps_fenced_boots st)"
    and kind: "pb_kind p \<noteq> PublicationKind.RegisterCapabilitySchema"
  shows "\<not> accepted (fst (apply_locked h now p reg)) \<and> same_truth reg (snd (apply_locked h now p reg))"
proof (cases rule: apply_locked_cases [of reg h now p])
  case (refused code)
  then have "\<not> apply_code_accepted code"
    by (auto simp: prepare_def apply_code_accepted_def split: option.splits if_splits)
  with refused show ?thesis by simp
next
  case (schema p')
  with kind show ?thesis using prepare_fields(2) by metis
next
  case (publisher p')
  have "gen_valid (pub_boot (pb_publisher p'))"
    using prepare_fields(5) [OF publisher(1)] by (rule validate_publication_boot)
  then have no: "\<not> accepted (fst (register_publisher_locked now (pb_publisher p') (pb_reason p') reg))"
    by (intro register_fenced_rejected [where st = st])
      (use st fenced in \<open>simp_all add: prepare_fields(1) [OF publisher(1)]\<close>)
  with publisher(3) register_publisher_truth [of reg now "pb_publisher p'" "pb_reason p'"] show ?thesis
    by (cases "register_publisher_locked now (pb_publisher p') (pb_reason p') reg")
      (simp add: apply_publisher_publication_def)
next
  case (unauthorised p' code)
  then have "\<not> apply_code_accepted code"
    by (auto simp: check_authority_def Let_def apply_code_accepted_def split: option.splits if_splits)
  with unauthorised show ?thesis by simp
next
  case (evidence p' st')
  from check_authority_InrD [OF evidence(5)] st fenced show ?thesis
    by (simp add: prepare_fields(1) [OF evidence(2)])
qed (simp add: apply_code_accepted_def)

text \<open>
  Fencing a publisher is permanent within a registry's lifetime: after an accepted
  \<^verbatim>\<open>fence_publisher\<close> no later registration, under any boot, is accepted again.
\<close>

theorem fenced_publisher_cannot_reregister:
  assumes "fence_publisher pid reason reg = (result, reg1)" and "accepted result"
    and "steps h reg1 ops reg2"
  shows "\<not> accepted (fst (register_publisher now \<lparr>pub_id = pid, pub_boot = boot, pub_epoch = epoch\<rparr> adapter reg2))"
proof -
  from assms(1,2) obtain st where "om_find pid (rg_publishers reg1) = Some st" "ps_publisher_fenced st"
    by (auto simp: fence_publisher_def Let_def apply_code_accepted_def put_publisher_def
        split: option.splits if_splits)
  moreover have "publishers_evolve reg1 reg2" using assms(3) by (rule authority.rel_steps)
  ultimately obtain st' where st': "om_find pid (rg_publishers reg2) = Some st'" "ps_publisher_fenced st'"
    unfolding publishers_evolve_def publisher_evolves_def by blast
  then have "\<not> accepted (fst (register_publisher_locked now
      \<lparr>pub_id = pid, pub_boot = boot, pub_epoch = epoch\<rparr> adapter reg2))"
    by (intro register_fenced_rejected [where st = st']) simp_all
  then show ?thesis by (simp add: register_publisher_def apply_code_accepted_def)
qed

text \<open>
  Only evidence with live authority is ever accepted. An accepted publication that is neither a
  schema nor a registration comes from a registered publisher that is not fenced, under its
  registered boot and the coordinator's current epoch, and its sequence is not behind the watermark of
  that boot.
\<close>

theorem accepted_evidence_has_authority:
  assumes "accepted (fst (apply_publication h now p reg))"
    and "pb_kind p \<noteq> PublicationKind.RegisterCapabilitySchema" and "pb_kind p \<noteq> PublicationKind.RegisterPublisher"
  shows "\<exists>st. om_find (pub_id (pb_publisher p)) (rg_publishers reg) = Some st \<and> \<not> ps_publisher_fenced st \<and>
           pub_boot (pb_publisher p) \<notin> set (ps_fenced_boots st) \<and>
           pub_boot (pr_identity (ps_record st)) = pub_boot (pb_publisher p) \<and>
           pub_epoch (pb_publisher p) = rg_epoch reg \<and>
           wm_max_sequence (watermark_of st (pub_boot (pb_publisher p))) \<le> pb_sequence p"
proof (cases rule: apply_locked_cases [of reg h now p])
  case (refused code)
  then have "\<not> apply_code_accepted code"
    by (auto simp: prepare_def apply_code_accepted_def split: option.splits if_splits)
  with refused assms(1) show ?thesis by (simp add: apply_publication_def)
next
  case (schema p')
  with assms(2) show ?thesis using prepare_fields(2) by metis
next
  case (publisher p')
  with assms(3) show ?thesis using prepare_fields(2) by metis
next
  case (unauthorised p' code)
  then have "\<not> apply_code_accepted code"
    by (auto simp: check_authority_def Let_def apply_code_accepted_def split: option.splits if_splits)
  with unauthorised assms(1) show ?thesis by (simp add: apply_publication_def)
next
  case (evidence p' st)
  note fld = prepare_fields [OF evidence(2)]
  note auth = check_authority_InrD [OF evidence(5), unfolded fld]
  have "wm_max_sequence (watermark_of st (pub_boot (pb_publisher p))) \<le> pb_sequence p"
  proof (cases rule: check_sequence_cases [of h p' st "open_watermark p' st"])
    case (refuse code)
    with evidence(6) assms(1) show ?thesis
      by (simp add: apply_publication_def apply_evidence_def)
  qed (simp_all add: fld)
  with auth show ?thesis by blast
qed (use assms(1) in \<open>simp add: apply_publication_def apply_code_accepted_def\<close>)

section \<open>Replay\<close>

definition is_evidence :: "Publication \<Rightarrow> bool" where
  "is_evidence p \<longleftrightarrow>
     pb_kind p \<noteq> PublicationKind.RegisterCapabilitySchema \<and> pb_kind p \<noteq> PublicationKind.RegisterPublisher"

lemma schema_publication_truth: "same_truth reg (snd (apply_schema_publication p reg))"
proof -
  have "same_truth reg (snd (register_capability_schema_locked schema reg))" for schema
    by (simp add: register_capability_schema_locked_def Let_def) (simp add: same_truth_def view_defs)
  from this [of "pb_schema p"] show ?thesis
    by (cases "register_capability_schema_locked (pb_schema p) reg") (simp add: apply_schema_publication_def)
qed

lemma unsubjected_truth:
  assumes "\<not> is_evidence p"
  shows "same_truth reg (snd (apply_locked h now p reg))"
proof (cases rule: apply_locked_cases [of reg h now p])
  case (schema p')
  then show ?thesis by (simp add: schema_publication_truth)
next
  case (publisher p')
  then show ?thesis
    using register_publisher_truth [of reg now "pb_publisher p'" "pb_reason p'"]
    by (cases "register_publisher_locked now (pb_publisher p') (pb_reason p') reg")
      (simp add: apply_publisher_publication_def)
next
  case (evidence p' st)
  then show ?thesis using assms prepare_fields(2) by (metis is_evidence_def)
qed simp_all

lemma fenced_inert:
  assumes "om_find (pub_id (pb_publisher p)) (rg_publishers reg) = Some st"
    and "ps_publisher_fenced st \<or> pub_boot (pb_publisher p) \<in> set (ps_fenced_boots st)"
  shows "(pb_kind p = PublicationKind.RegisterCapabilitySchema \<or> \<not> accepted (fst (apply_locked h now p reg))) \<and>
    same_truth reg (snd (apply_locked h now p reg))"
  using fenced_rejects [OF assms, of h now] unsubjected_truth [of p reg h now] by (auto simp: is_evidence_def)

text \<open>
  C2: a fenced boot identity never regains authority. Whatever operations of the same life of the registry follow the
  fencing, every publication under that publisher and boot except a schema is refused, and none, of whatever kind,
  changes a device, evidence, quirk or compatibility fact. Schema registrations are not subject to publisher
  authority: they are accepted from fenced boots as well.
\<close>

theorem fenced_boot_never_regains_authority:
  assumes "om_find (pub_id (pb_publisher p)) (rg_publishers reg) = Some st"
    and "pub_boot (pb_publisher p) \<in> set (ps_fenced_boots st)"
    and "steps h reg ops reg'"
  shows "(pb_kind p = PublicationKind.RegisterCapabilitySchema \<or> \<not> accepted (fst (apply_publication h now p reg'))) \<and>
         same_truth reg' (snd (apply_publication h now p reg'))"
proof -
  have "publishers_evolve reg reg'" using assms(3) by (rule authority.rel_steps)
  with assms(1) obtain st' where "om_find (pub_id (pb_publisher p)) (rg_publishers reg') = Some st'"
    "publisher_evolves st st'"
    unfolding publishers_evolve_def by blast
  with assms(2) show ?thesis
    unfolding apply_publication_def by (intro fenced_inert) (auto simp: publisher_evolves_def)
qed

lemma passed_sequence_is_inert:
  assumes "om_find (pub_id (pb_publisher p)) (rg_publishers reg) = Some st" and "is_evidence p"
    and "pb_sequence p \<le> wm_max_sequence (watermark_of st (pub_boot (pb_publisher p)))"
  shows "same_truth reg (snd (apply_locked h now p reg))"
proof (cases rule: apply_locked_cases [of reg h now p])
  case (schema p')
  with assms(2) show ?thesis using prepare_fields(2) by (metis is_evidence_def)
next
  case (publisher p')
  with assms(2) show ?thesis using prepare_fields(2) by (metis is_evidence_def)
next
  case (evidence p' st')
  note fld = prepare_fields [OF evidence(2)]
  have "st' = st"
    using check_authority_InrD(1) [OF evidence(5)] assms(1) by (simp add: fld)
  then show ?thesis
    using evidence(6) assms(3)
    by (cases rule: check_sequence_cases [of h p' st "open_watermark p' st"])
      (simp_all add: apply_evidence_def fld)
qed simp_all

lemma accepted_sequence_recorded:
  assumes "apply_locked h now p reg = (result, reg')" and "accepted result" and "is_evidence p"
  shows "\<exists>st w. om_find (pub_id (pb_publisher p)) (rg_publishers reg') = Some st \<and>
           om_find (pub_boot (pb_publisher p)) (ps_watermarks st) = Some w \<and> pb_sequence p \<le> wm_max_sequence w"
proof (cases rule: apply_locked_cases [of reg h now p])
  case shutdown
  with assms(1,2) show ?thesis by (auto simp: apply_code_accepted_def)
next
  case (refused code)
  then have "\<not> apply_code_accepted code"
    by (auto simp: prepare_def apply_code_accepted_def split: option.splits if_splits)
  with refused assms(1,2) show ?thesis by auto
next
  case (schema p')
  with assms(3) show ?thesis using prepare_fields(2) by (metis is_evidence_def)
next
  case (publisher p')
  with assms(3) show ?thesis using prepare_fields(2) by (metis is_evidence_def)
next
  case (unauthorised p' code)
  then have "\<not> apply_code_accepted code"
    by (auto simp: check_authority_def Let_def apply_code_accepted_def split: option.splits if_splits)
  with unauthorised assms(1,2) show ?thesis by auto
next
  case (evidence p' st)
  note fld = prepare_fields [OF evidence(2)]
  show ?thesis
  proof (cases rule: check_sequence_cases [of h p' st "open_watermark p' st"])
    case (refuse code)
    with evidence(6) assms(1,2) show ?thesis by (auto simp: apply_evidence_def)
  next
    case duplicate
    with evidence(6) assms(1) show ?thesis
      by (auto simp: apply_evidence_def put_watermark_def put_publisher_def fld)
  next
    case go
    obtain res reg1 where d: "dispatch p' reg = (res, reg1)" by (cases "dispatch p' reg")
    with go evidence(6) assms(1,2)
    have "rg_publishers reg' = rg_publishers (book_acceptance h p' (open_watermark p' st) st res reg1)"
      by (auto simp: apply_evidence_def Let_def)
    then show ?thesis
      by (simp add: book_acceptance_publishers put_watermark_def put_publisher_def fld)
  qed
qed

text \<open>
  C1: at most once. After a publication of evidence (anything but a schema or a registration) with sequence \<open>n\<close> has
  been accepted from a publisher boot, no publication of that boot with a sequence of at most \<open>n\<close>, of whatever kind,
  ever changes a device, evidence, quirk or compatibility fact again, however many operations of the same life of
  the registry lie between. An accepted schema books no sequence, so nothing follows from one.
\<close>

theorem accepted_sequence_never_applies_again:
  assumes "apply_publication h now p reg = (result, reg1)" and "accepted result" and "is_evidence p"
    and "steps h reg1 ops reg2"
    and "pub_id (pb_publisher q) = pub_id (pb_publisher p)" "pub_boot (pb_publisher q) = pub_boot (pb_publisher p)"
    and "pb_sequence q \<le> pb_sequence p"
  shows "same_truth reg2 (snd (apply_publication h now' q reg2))"
proof -
  obtain st w where st: "om_find (pub_id (pb_publisher p)) (rg_publishers reg1) = Some st"
    and w: "om_find (pub_boot (pb_publisher p)) (ps_watermarks st) = Some w" "pb_sequence p \<le> wm_max_sequence w"
    using accepted_sequence_recorded assms(1-3) unfolding apply_publication_def by blast
  have "publishers_evolve reg1 reg2" using assms(4) by (rule authority.rel_steps)
  with st obtain st2 where st2: "om_find (pub_id (pb_publisher p)) (rg_publishers reg2) = Some st2"
    and ev: "publisher_evolves st st2"
    unfolding publishers_evolve_def by blast
  from ev w(1) obtain w2 where "om_find (pub_boot (pb_publisher p)) (ps_watermarks st2) = Some w2"
    "wm_max_sequence w \<le> wm_max_sequence w2"
    unfolding publisher_evolves_def watermark_evolves_def by blast
  with w(2) assms(6,7)
  have "pb_sequence q \<le> wm_max_sequence (watermark_of st2 (pub_boot (pb_publisher q)))"
    by (simp add: watermark_of_def)
  then show ?thesis
    using passed_sequence_is_inert [of q reg2 st2] unsubjected_truth [of q reg2] st2 assms(5)
    by (auto simp: apply_publication_def)
qed

text \<open>
  A registry that is shutting down accepts nothing: until the shutdown is cleared, publications
  and registrations leave the whole state as it is.
\<close>

theorem shutdown_refuses_everything:
  assumes "rg_shutting_down reg"
  shows "apply_publication h now p reg = (result_of RejectedShuttingDown, reg) \<and>
         register_publisher now identity adapter reg = (result_of RejectedShuttingDown, reg)"
  using assms by (simp add: apply_publication_def apply_locked_def register_publisher_def)

end
