(* ===== verification/Retention.thy ===== *)
theory Retention
  imports Authority
begin

text \<open>
  The evidence store as a bounded, indexed history. The invariant ties together the key map, the
  per-device index, the record counter and the bounds, and says what is true of every retained
  record; it holds of a new registry and every operation keeps it. Eviction is shown to remove only
  records that a newer record of their own source slot has superseded.
\<close>

section \<open>Counting records\<close>

lemma total_records_put_new:
  "om_find kid m = None \<Longrightarrow> om_ok m \<Longrightarrow> total_records (om_put kid key m) = total_records m + length (ks_records key)"
proof (induction kid key m rule: om_put.induct)
  case (2 k v e m)
  then show ?case
    by (cases e) (auto simp: total_records_def om_values_def om_find_def om_ok_def om_keys_def split: if_splits)
qed (simp add: total_records_def om_values_def)

lemma total_records_put_old:
  "om_find kid m = Some old \<Longrightarrow> om_ok m \<Longrightarrow>
   total_records (om_put kid key m) + length (ks_records old) = total_records m + length (ks_records key)"
proof (induction kid key m rule: om_put.induct)
  case (2 k v e m)
  obtain k' v' where e: "e = (k', v')" by (cases e)
  show ?case
  proof (cases "k' < k")
    case True
    with 2 show ?thesis
      by (auto simp: e total_records_def om_values_def om_find_def om_ok_def om_keys_def split: if_splits)
  next
    case False
    have "k' = k"
    proof (rule ccontr)
      assume "k' \<noteq> k"
      with 2(2) have "k \<in> set (om_keys m)"
        using om_find_key [of k m] by (auto simp: e om_find_def)
      with 2(3) False show False by (auto simp: e om_ok_def om_keys_def)
    qed
    with 2(2) show ?thesis by (simp add: e total_records_def om_values_def om_find_def)
  qed
qed simp

lemma total_records_map_le:
  assumes "\<And>key. length (ks_records (f key)) \<le> length (ks_records key)"
  shows "total_records (om_map f m) \<le> total_records m"
  unfolding total_records_def om_values_def om_map_def
  by (induction m) (auto intro: add_mono assms)

section \<open>Eviction\<close>

lemma remove_nth_split: "i < length xs \<Longrightarrow> xs = take i xs @ xs ! i # drop (Suc i) xs"
  by (rule id_take_nth_drop)

lemma set_remove_nth_subset: "set (remove_nth i xs) \<subseteq> set xs"
  by (auto simp: remove_nth_def dest: in_set_takeD in_set_dropD)

lemma remove_nth_keeps: "i < length xs \<Longrightarrow> x \<in> set xs \<Longrightarrow> x \<noteq> xs ! i \<Longrightarrow> x \<in> set (remove_nth i xs)"
  by (subst (asm) (2) remove_nth_split) (auto simp: remove_nth_def)

lemma sorted_wrt_remove_nth: "sorted_wrt P xs \<Longrightarrow> sorted_wrt P (remove_nth i xs)"
proof (cases "i < length xs")
  case True
  assume "sorted_wrt P xs"
  then have "sorted_wrt P (take i xs @ xs ! i # drop (Suc i) xs)"
    using remove_nth_split [OF True] by simp
  then show ?thesis by (auto simp: remove_nth_def sorted_wrt_append)
next
  case False
  assume "sorted_wrt P xs"
  with False show ?thesis by (simp add: remove_nth_def)
qed

lemma length_remove_nth_eq: "i < length xs \<Longrightarrow> length (remove_nth i xs) = length xs - 1"
  by (auto simp: remove_nth_def)

lemma superseded_mono: "set xs \<subseteq> set ys \<Longrightarrow> superseded xs s \<Longrightarrow> superseded ys s"
  by (auto simp: superseded_def list_ex_iff)

text \<open>What one pass over a key's records guarantees.\<close>

definition keeps_newest :: "StoredRecord list \<Rightarrow> StoredRecord list \<Rightarrow> bool" where
  "keeps_newest old new \<longleftrightarrow>
     set new \<subseteq> set old \<and> length new \<le> length old \<and> (\<forall>s\<in>set old. \<not> superseded old s \<longrightarrow> s \<in> set new) \<and>
     (\<forall>P. sorted_wrt P old \<longrightarrow> sorted_wrt P new)"

lemma keeps_newest_refl [simp]: "keeps_newest xs xs"
  by (simp add: keeps_newest_def)

lemma keeps_newest_trans:
  assumes "keeps_newest xs ys" and "keeps_newest ys zs"
  shows "keeps_newest xs zs"
  unfolding keeps_newest_def
proof (intro conjI ballI impI allI)
  show "set zs \<subseteq> set xs" "length zs \<le> length xs"
    using assms by (auto simp: keeps_newest_def)
  show "sorted_wrt P zs" if "sorted_wrt P xs" for P
    using assms that by (simp add: keeps_newest_def)
  show "s \<in> set zs" if "s \<in> set xs" "\<not> superseded xs s" for s
  proof -
    have "s \<in> set ys" "\<not> superseded ys s"
      using assms(1) that superseded_mono [of ys xs s] unfolding keeps_newest_def by blast+
    with assms(2) show ?thesis unfolding keeps_newest_def by blast
  qed
qed

lemma keeps_newest_remove:
  assumes "i < length xs" and "superseded xs (xs ! i)"
  shows "keeps_newest xs (remove_nth i xs)"
  unfolding keeps_newest_def
proof (intro conjI ballI impI allI)
  show "set (remove_nth i xs) \<subseteq> set xs" by (rule set_remove_nth_subset)
  show "length (remove_nth i xs) \<le> length xs" using length_remove_nth [OF assms(1)] by simp
  show "s \<in> set (remove_nth i xs)" if "s \<in> set xs" "\<not> superseded xs s" for s
    using remove_nth_keeps [OF assms(1) that(1)] assms(2) that(2) by auto
qed (rule sorted_wrt_remove_nth)

lemma evict_records_keeps_newest: "keeps_newest records (evict_records cap records)"
proof (induction cap records rule: evict_records.induct)
  case (1 cap records)
  show ?case
  proof (cases "length records \<le> cap \<or> find_victim records = None")
    case True
    then show ?thesis by (auto simp: evict_records.simps [of cap records])
  next
    case False
    then obtain v where v: "find_victim records = Some v" by auto
    with False have "evict_records cap records = evict_records cap (remove_nth v records)"
      by (simp add: evict_records.simps [of cap records])
    moreover have "keeps_newest records (remove_nth v records)"
      using find_victim_SomeD [OF v] by (intro keeps_newest_remove) auto
    ultimately show ?thesis
      using 1 [OF _ v] False keeps_newest_trans by auto
  qed
qed

lemma find_serial_bound: "find_serial serial records = Some i \<Longrightarrow> i < length records"
  by (auto simp: find_serial_def find_Some_iff)

text \<open>
  The relation between a store and what eviction makes of it: the same keys with the same schema and
  generation, each key's records thinned only by superseded ones, the counter kept exact.
\<close>

definition key_thinned :: "KeyState option \<Rightarrow> KeyState option \<Rightarrow> bool" where
  "key_thinned old new =
     (case old of
        None \<Rightarrow> new = None
      | Some key \<Rightarrow> \<exists>key'. new = Some key' \<and> ks_schema key' = ks_schema key \<and>
          ks_generation key' = ks_generation key \<and> ks_has_evidence key' = ks_has_evidence key \<and>
          keeps_newest (ks_records key) (ks_records key'))"

definition thinned :: "Registry \<Rightarrow> Registry \<Rightarrow> bool" where
  "thinned reg reg' \<longleftrightarrow>
     (\<forall>kid. key_thinned (om_find kid (rg_keys reg)) (om_find kid (rg_keys reg'))) \<and>
     (om_ok (rg_keys reg) \<longrightarrow> om_ok (rg_keys reg') \<and> length (rg_keys reg') = length (rg_keys reg) \<and>
        (rg_evidence_count reg = total_records (rg_keys reg) \<longrightarrow>
           rg_evidence_count reg' = total_records (rg_keys reg') \<and> rg_evidence_count reg' \<le> rg_evidence_count reg))"

lemma key_thinned_refl [simp]: "key_thinned k k"
  by (simp add: key_thinned_def split: option.split)

lemma key_thinned_trans: "key_thinned a b \<Longrightarrow> key_thinned b c \<Longrightarrow> key_thinned a c"
  using keeps_newest_trans by (auto simp: key_thinned_def split: option.splits)

lemma thinned_refl: "rg_keys reg' = rg_keys reg \<Longrightarrow> rg_evidence_count reg' = rg_evidence_count reg \<Longrightarrow> thinned reg reg'"
  by (simp add: thinned_def)

lemma thinned_trans:
  assumes "thinned a b" and "thinned b c"
  shows "thinned a c"
proof -
  have "key_thinned (om_find kid (rg_keys a)) (om_find kid (rg_keys c))" for kid
    using assms key_thinned_trans unfolding thinned_def by blast
  moreover have "om_ok (rg_keys a) \<Longrightarrow> om_ok (rg_keys c) \<and> length (rg_keys c) = length (rg_keys a) \<and>
      (rg_evidence_count a = total_records (rg_keys a) \<longrightarrow>
         rg_evidence_count c = total_records (rg_keys c) \<and> rg_evidence_count c \<le> rg_evidence_count a)"
    using assms unfolding thinned_def by auto
  ultimately show ?thesis unfolding thinned_def by blast
qed

lemma thinned_find:
  assumes "thinned reg reg'" and "om_find kid (rg_keys reg) = Some key"
  obtains key' where "om_find kid (rg_keys reg') = Some key'" "ks_schema key' = ks_schema key"
    "ks_generation key' = ks_generation key" "ks_has_evidence key' = ks_has_evidence key"
    "keeps_newest (ks_records key) (ks_records key')"
proof -
  have "key_thinned (om_find kid (rg_keys reg)) (om_find kid (rg_keys reg'))"
    using assms(1) unfolding thinned_def by blast
  with assms(2) that show ?thesis by (auto simp: key_thinned_def)
qed

lemma thinned_dom: "thinned reg reg' \<Longrightarrow> om_find kid (rg_keys reg') = None \<longleftrightarrow> om_find kid (rg_keys reg) = None"
proof -
  assume "thinned reg reg'"
  then have "key_thinned (om_find kid (rg_keys reg)) (om_find kid (rg_keys reg'))"
    unfolding thinned_def by blast
  then show ?thesis by (auto simp: key_thinned_def split: option.splits)
qed

lemma evict_keys_thinned: "thinned reg (evict_keys reg)"
proof -
  let ?f = "\<lambda>key. key\<lparr>ks_records := evict_records (max_evidence_per_capability (rg_limits reg) * 8) (ks_records key)\<rparr>"
  have "total_records (om_map ?f (rg_keys reg)) \<le> total_records (rg_keys reg)"
    by (rule total_records_map_le) (use evict_records_keeps_newest in \<open>simp add: keeps_newest_def\<close>)
  then show ?thesis
    by (simp add: thinned_def evict_keys_def Let_def key_thinned_def evict_records_keeps_newest
        split: option.split)
qed

lemma evict_entry_thinned: "thinned reg (evict_entry e reg)"
proof (cases "om_find (fst e) (rg_keys reg)")
  case None
  then show ?thesis by (simp add: evict_entry_def thinned_refl)
next
  case (Some key)
  show ?thesis
  proof (cases "find_serial (snd e) (ks_records key)")
    case None
    with Some show ?thesis by (simp add: evict_entry_def thinned_refl)
  next
    case (Some i)
    note i = find_serial_bound [OF this]
    show ?thesis
    proof (cases "superseded (ks_records key) (ks_records key ! i)")
      case False
      with Some \<open>om_find (fst e) (rg_keys reg) = Some key\<close> show ?thesis
        by (simp add: evict_entry_def thinned_refl)
    next
      case True
      let ?key = "key\<lparr>ks_records := remove_nth i (ks_records key)\<rparr>"
      have eq: "evict_entry e reg = reg\<lparr>rg_keys := om_put (fst e) ?key (rg_keys reg),
          rg_evidence_count := rg_evidence_count reg - 1\<rparr>"
        using True Some \<open>om_find (fst e) (rg_keys reg) = Some key\<close> by (simp add: evict_entry_def)
      have total: "total_records (om_put (fst e) ?key (rg_keys reg)) = total_records (rg_keys reg) - 1"
        if "om_ok (rg_keys reg)"
        using total_records_put_old [OF \<open>om_find (fst e) (rg_keys reg) = Some key\<close> that, of ?key] i
          length_remove_nth_eq [OF i] by simp
      have len: "length (om_put (fst e) ?key (rg_keys reg)) = length (rg_keys reg)"
        if "om_ok (rg_keys reg)"
        using om_length_put_old [OF that] \<open>om_find (fst e) (rg_keys reg) = Some key\<close> by simp
      show ?thesis
        unfolding thinned_def eq
        using \<open>om_find (fst e) (rg_keys reg) = Some key\<close> total len keeps_newest_remove [OF i True]
        by (simp add: key_thinned_def split: option.split)
    qed
  qed
qed

lemma evict_global_thinned: "thinned reg (evict_global guard reg)"
proof (induction guard reg rule: evict_global.induct)
  case (2 guard reg)
  show ?case
  proof (cases "rg_evidence_count reg < max_evidence_history (rg_limits reg) \<or> rg_global_order reg = []")
    case True
    then show ?thesis by (auto simp: thinned_refl)
  next
    case False
    then obtain front rest where order: "rg_global_order reg = front # rest" by (cases "rg_global_order reg") auto
    let ?reg = "evict_entry front (reg\<lparr>rg_global_order := rest\<rparr>)"
    have "thinned reg (reg\<lparr>rg_global_order := rest\<rparr>)" by (rule thinned_refl) simp_all
    then have "thinned reg ?reg" using evict_entry_thinned thinned_trans by blast
    moreover have "thinned ?reg (evict_global guard ?reg)" using 2 False order by simp
    ultimately have "thinned reg (evict_global guard ?reg)" by (rule thinned_trans)
    with False order show ?thesis by simp
  qed
qed (simp add: thinned_refl)

lemma evict_if_needed_thinned: "thinned reg (evict_if_needed_locked reg)"
proof -
  have "thinned (evict_global n (evict_keys reg)) (trim_global_order (evict_global n (evict_keys reg)))" for n
    by (rule thinned_refl) (simp_all add: trim_global_order_def)
  then show ?thesis
    unfolding evict_if_needed_locked_def Let_def
    using evict_keys_thinned evict_global_thinned thinned_trans by blast
qed

text \<open>
  C20: eviction never loses current evidence. A record that no newer record of its own source slot has
  superseded is still in the store after eviction, under the same key, and the key keeps its schema
  and generation.
\<close>

theorem eviction_keeps_unsuperseded:
  assumes "om_find kid (rg_keys reg) = Some key" and "stored \<in> set (ks_records key)"
    and "\<not> superseded (ks_records key) stored"
  shows "\<exists>key'. om_find kid (rg_keys (evict_if_needed_locked reg)) = Some key' \<and>
           stored \<in> set (ks_records key') \<and> ks_schema key' = ks_schema key \<and>
           ks_generation key' = ks_generation key"
proof -
  obtain key' where "om_find kid (rg_keys (evict_if_needed_locked reg)) = Some key'"
    "ks_schema key' = ks_schema key" "ks_generation key' = ks_generation key"
    "keeps_newest (ks_records key) (ks_records key')"
    by (rule thinned_find [OF evict_if_needed_thinned assms(1)])
  with assms(2,3) show ?thesis unfolding keeps_newest_def by blast
qed

section \<open>The invariant\<close>

definition record_ok :: "RegistryLimits \<Rightarrow> KeyId \<Rightarrow> StoredRecord \<Rightarrow> bool" where
  "record_ok limits kid stored \<longleftrightarrow>
     key_of (st_record stored) = kid \<and> st_slot stored = slot_of (st_record stored) \<and>
     validate_capability_record (st_record stored) limits = Ok"

text \<open>Of two records of one source slot, the earlier one carries a persistent flag.\<close>

definition slots_ok :: "StoredRecord list \<Rightarrow> bool" where
  "slots_ok records \<longleftrightarrow>
     sorted_wrt (\<lambda>a b. st_slot a = st_slot b \<longrightarrow> st_persistent a \<noteq> Stale_None) records"

definition key_ok :: "RegistryLimits \<Rightarrow> KeyId \<Rightarrow> KeyState \<Rightarrow> bool" where
  "key_ok limits kid key \<longleftrightarrow> (\<forall>s\<in>set (ks_records key). record_ok limits kid s) \<and> slots_ok (ks_records key)"

definition evidence_ok :: "Registry \<Rightarrow> bool" where
  "evidence_ok reg \<longleftrightarrow>
     om_ok (rg_keys reg) \<and> rg_evidence_count reg = total_records (rg_keys reg) \<and>
     (\<forall>kid key. om_find kid (rg_keys reg) = Some key \<longrightarrow> key_ok (rg_limits reg) kid key) \<and>
     rg_evidence_count reg \<le> max_evidence_history (rg_limits reg)"

definition index_ok :: "Registry \<Rightarrow> bool" where
  "index_ok reg \<longleftrightarrow>
     (\<forall>d c. om_find (d, c) (rg_keys reg) \<noteq> None \<longleftrightarrow> c \<in> set (owned_capabilities reg d)) \<and>
     (\<forall>d c. om_find (d, c) (rg_keys reg) \<noteq> None \<longrightarrow> om_find d (rg_devices reg) \<noteq> None) \<and>
     (\<forall>d. length (owned_capabilities reg d) \<le> max_capabilities_per_device (rg_limits reg))"

lemma slots_ok_thinned: "keeps_newest old new \<Longrightarrow> slots_ok old \<Longrightarrow> slots_ok new"
  by (simp add: keeps_newest_def slots_ok_def)

lemma key_ok_thinned: "keeps_newest (ks_records key) (ks_records key') \<Longrightarrow> key_ok limits kid key \<Longrightarrow> key_ok limits kid key'"
  using slots_ok_thinned by (auto simp: key_ok_def keeps_newest_def)

lemma evidence_okD: "evidence_ok reg \<Longrightarrow> om_find kid (rg_keys reg) = Some key \<Longrightarrow> key_ok (rg_limits reg) kid key"
  unfolding evidence_ok_def by blast

lemma evidence_ok_put:
  assumes "evidence_ok reg" and "om_ok keys'" and "n = total_records keys'" and "n \<le> max_evidence_history (rg_limits reg)"
    and "\<And>k. k \<noteq> kid \<Longrightarrow> om_find k keys' = om_find k (rg_keys reg)"
    and "\<And>key. om_find kid keys' = Some key \<Longrightarrow> key_ok (rg_limits reg) kid key"
    and "rg_keys reg' = keys'" and "rg_evidence_count reg' = n" and "rg_limits reg' = rg_limits reg"
  shows "evidence_ok reg'"
proof -
  have "key_ok (rg_limits reg) k key" if "om_find k keys' = Some key" for k key
    using that assms(5) [of k] assms(6) evidence_okD [OF assms(1)] by (cases "k = kid") auto
  then show ?thesis unfolding evidence_ok_def assms(7-9) using assms(2-4) by blast
qed

lemma evidence_ok_thinned:
  assumes "thinned reg reg'" and "rg_limits reg' = rg_limits reg" and "evidence_ok reg"
  shows "evidence_ok reg'"
  unfolding evidence_ok_def
proof (intro conjI allI impI)
  show "om_ok (rg_keys reg')" "rg_evidence_count reg' = total_records (rg_keys reg')"
    "rg_evidence_count reg' \<le> max_evidence_history (rg_limits reg')"
    using assms by (auto simp: thinned_def evidence_ok_def)
  fix kid key' assume new: "om_find kid (rg_keys reg') = Some key'"
  then obtain key where old: "om_find kid (rg_keys reg) = Some key"
    using thinned_dom [OF assms(1), of kid] by (cases "om_find kid (rg_keys reg)") auto
  obtain key1 where "om_find kid (rg_keys reg') = Some key1" "keeps_newest (ks_records key) (ks_records key1)"
    using assms(1) old by (rule thinned_find)
  moreover have "key_ok (rg_limits reg) kid key" using assms(3) old by (rule evidence_okD)
  ultimately show "key_ok (rg_limits reg') kid key'"
    using new assms(2) key_ok_thinned by simp
qed

lemma supersede_slot_flag:
  "st_slot s = slot \<Longrightarrow> st_persistent (supersede_slot slot s) \<noteq> Stale_None"
  by (simp add: supersede_slot_def Stale_None_def)

lemma supersede_slot_simps [simp]:
  "st_slot (supersede_slot slot s) = st_slot s" "st_record (supersede_slot slot s) = st_record s"
  "st_persistent s \<noteq> Stale_None \<Longrightarrow> st_persistent (supersede_slot slot s) \<noteq> Stale_None"
  by (auto simp: supersede_slot_def Stale_None_def)

lemma slots_ok_append:
  assumes "slots_ok records" and "st_slot stored = slot"
  shows "slots_ok (map (supersede_slot slot) records @ [stored])"
proof -
  have "sorted_wrt (\<lambda>a b. st_slot a = st_slot b \<longrightarrow> st_persistent a \<noteq> Stale_None) (map (supersede_slot slot) records)"
    unfolding sorted_wrt_map
    by (rule sorted_wrt_mono_rel [OF _ assms(1) [unfolded slots_ok_def]]) auto
  with assms(2) show ?thesis
    unfolding slots_ok_def sorted_wrt_append by (auto simp: supersede_slot_flag)
qed

lemma key_ok_append:
  assumes "key_ok limits kid key" and "key_of r = kid" and "validate_capability_record r limits = Ok"
  shows "key_ok limits kid (key\<lparr>ks_records := map (supersede_slot (slot_of r)) (ks_records key) @
    [\<lparr>st_record = r, st_persistent = Stale_None, st_slot = slot_of r, st_serial = n\<rparr>]\<rparr>)"
proof -
  let ?new = "\<lparr>st_record = r, st_persistent = Stale_None, st_slot = slot_of r, st_serial = n\<rparr>"
  have "slots_ok (map (supersede_slot (slot_of r)) (ks_records key) @ [?new])"
    using assms(1) by (intro slots_ok_append) (simp_all add: key_ok_def)
  with assms show ?thesis by (auto simp: key_ok_def record_ok_def)
qed

lemma append_record_ok:
  assumes "evidence_ok reg" and "validate_capability_record r (rg_limits reg) = Ok"
    and "rg_evidence_count reg < max_evidence_history (rg_limits reg)"
  shows "evidence_ok (append_record (key_of r) (slot_of r) r reg)"
proof (cases "om_find (key_of r) (rg_keys reg)")
  case None
  with assms(1) show ?thesis by (simp add: append_record_def)
next
  case (Some key)
  let ?key = "key\<lparr>ks_records := map (supersede_slot (slot_of r)) (ks_records key) @
    [\<lparr>st_record = r, st_persistent = Stale_None, st_slot = slot_of r, st_serial = rg_next_serial reg\<rparr>]\<rparr>"
  let ?keys = "om_put (key_of r) ?key (rg_keys reg)"
  have ok: "om_ok (rg_keys reg)" and n: "rg_evidence_count reg = total_records (rg_keys reg)"
    using assms(1) by (simp_all add: evidence_ok_def)
  have key: "key_ok (rg_limits reg) (key_of r) ?key"
    by (rule key_ok_append [OF evidence_okD [OF assms(1) Some] refl assms(2)])
  have total: "total_records ?keys = Suc (rg_evidence_count reg)"
    using total_records_put_old [OF Some ok, of ?key] n by simp
  show ?thesis
    by (rule evidence_ok_put [where kid = "key_of r" and keys' = ?keys and n = "Suc (rg_evidence_count reg)", OF assms(1)])
      (use ok key total assms(3) in \<open>simp_all add: append_record_def Some Let_def\<close>)
qed

lemma store_record_ok:
  assumes "evidence_ok reg" and "validate_capability_record r (rg_limits reg) = Ok"
  shows "evidence_ok (snd (store_record r reg))"
proof -
  let ?reg = "if rg_evidence_count reg \<ge> max_evidence_history (rg_limits reg) then evict_if_needed_locked reg else reg"
  have ok: "evidence_ok ?reg" and lim: "rg_limits ?reg = rg_limits reg"
    using assms(1) evidence_ok_thinned [OF evict_if_needed_thinned] by auto
  have evict: "evidence_ok r' \<Longrightarrow> evidence_ok (evict_if_needed_locked r')" for r'
    by (rule evidence_ok_thinned [OF evict_if_needed_thinned]) simp_all
  show ?thesis
  proof (cases "rg_evidence_count ?reg \<ge> max_evidence_history (rg_limits reg)")
    case True
    with ok show ?thesis by (auto simp: store_record_def Let_def split: if_splits)
  next
    case False
    then have "evidence_ok (append_record (key_of r) (slot_of r) r ?reg)"
      using assms(2) by (intro append_record_ok [OF ok]) (simp_all only: lim not_le)
    from evict [OF this] False show ?thesis by (auto simp: store_record_def Let_def split: if_splits)
  qed
qed

end
