(* ===== verification/Invariants.thy ===== *)
theory Invariants
  imports Retention
begin

text \<open>
  Invariants of every reachable registry. Only the dispatch of an admitted publication writes devices,
  evidence, quirks or compatibility facts, so an invariant over these needs to be shown of the
  handlers only: that is the contract of the locale \<open>truth_invariant\<close>. It is interpreted on the
  evidence store, on the index of keys by device and on the bounds of the containers.
\<close>

section \<open>Where truth is written\<close>

lemma same_truth_trans: "same_truth a b \<Longrightarrow> same_truth b c \<Longrightarrow> same_truth a c"
  by (simp add: same_truth_def)

lemma same_truth_fields:
  assumes "same_truth reg reg'"
  shows "rg_devices reg' = rg_devices reg" "rg_platforms reg' = rg_platforms reg"
    "rg_families reg' = rg_families reg" "rg_keys reg' = rg_keys reg"
    "rg_device_keys reg' = rg_device_keys reg" "rg_global_order reg' = rg_global_order reg"
    "rg_evidence_count reg' = rg_evidence_count reg" "rg_next_serial reg' = rg_next_serial reg"
    "rg_quirks reg' = rg_quirks reg" "rg_compatibility reg' = rg_compatibility reg"
  using assms by (simp_all add: same_truth_def view_defs)

lemma same_truth_authority [simp]:
  "same_truth reg (put_publisher pid st r) = same_truth reg r"
  "same_truth reg (r\<lparr>rg_publishers := m\<rparr>) = same_truth reg r" "same_truth reg (r\<lparr>rg_epoch := e\<rparr>) = same_truth reg r"
  "same_truth reg (r\<lparr>rg_shutting_down := b\<rparr>) = same_truth reg r"
  "rg_limits (put_publisher pid st r) = rg_limits r"
  by (simp_all add: same_truth_def view_defs put_publisher_def)

lemma schema_truth:
  "register_capability_schema_locked schema reg = (status, reg') \<Longrightarrow> same_truth reg reg' \<and> rg_limits reg' = rg_limits reg"
  by (auto simp: register_capability_schema_locked_def Let_def same_truth_def view_defs split: if_splits)

lemma register_publisher_limits:
  "rg_limits (snd (register_publisher_locked now identity adapter reg)) = rg_limits reg"
  by (simp add: register_publisher_locked_def register_new_publisher_def put_publisher_def Let_def split: option.split)

definition dispatched :: "Registry \<Rightarrow> Publication \<Rightarrow> Registry \<Rightarrow> bool" where
  "dispatched reg p reg' \<longleftrightarrow>
     (\<exists>p'. prepare reg p = Inr p' \<and> same_truth (snd (dispatch p' reg)) reg')"

lemma apply_evidence_truth:
  "(same_truth reg (snd (apply_evidence h p st reg)) \<or> same_truth (snd (dispatch p reg)) (snd (apply_evidence h p st reg))) \<and>
   rg_limits (snd (apply_evidence h p st reg)) = rg_limits reg"
proof (cases "check_sequence h p st (open_watermark p st)")
  case Proceed
  then show ?thesis
    using dispatch_authority_fields [of p reg]
    by (cases "dispatch p reg") (simp add: apply_evidence_def Let_def)
qed (simp_all add: apply_evidence_def)

lemma apply_truth:
  "(same_truth reg (snd (apply_locked h now p reg)) \<or> dispatched reg p (snd (apply_locked h now p reg))) \<and>
   rg_limits (snd (apply_locked h now p reg)) = rg_limits reg"
proof (cases rule: apply_locked_cases [of reg h now p])
  case (schema p')
  obtain status reg1 where "register_capability_schema_locked (pb_schema p') reg = (status, reg1)"
    by (cases "register_capability_schema_locked (pb_schema p') reg")
  with schema schema_truth [OF this] show ?thesis by (simp add: apply_schema_publication_def)
next
  case (publisher p')
  with register_publisher_truth [of reg now "pb_publisher p'" "pb_reason p'"]
    register_publisher_limits [of now "pb_publisher p'" "pb_reason p'" reg]
  show ?thesis
    by (cases "register_publisher_locked now (pb_publisher p') (pb_reason p') reg")
      (simp add: apply_publisher_publication_def)
next
  case (evidence p' st)
  with apply_evidence_truth [of reg h p' st] show ?thesis
    by (auto simp: dispatched_def)
qed simp_all

text \<open>Every operation other than the dispatch of a publication leaves the truth alone.\<close>

lemma step_truth:
  "step h reg op reg' \<Longrightarrow>
   (same_truth reg reg' \<or> (\<exists>p. dispatched reg p reg')) \<and> rg_limits reg' = rg_limits reg"
proof (induction rule: step.induct)
  case (step_register_schema schema reg status reg')
  then show ?case
    by (cases "register_capability_schema_locked schema reg")
      (auto simp: register_capability_schema_def dest!: schema_truth split: if_splits)
next
  case (step_register_publisher now identity adapter reg result reg')
  then show ?case
    using register_publisher_truth [of reg now identity adapter]
      register_publisher_limits [of now identity adapter reg]
    by (auto simp: register_publisher_def split: if_splits)
next
  case (step_apply now p reg result reg')
  then show ?case
    using apply_truth [of reg h now p] by (auto simp: apply_publication_def)
qed (auto simp: fence_publisher_def retire_publisher_boot_def reset_publisher_liveness_def
      advance_coordinator_epoch_def set_coordinator_epoch_def begin_shutdown_def clear_shutdown_def
      Let_def split: option.splits if_splits)

lemma new_registry_truth:
  "same_truth (empty_registry limits) (new_registry builtin limits) \<and> rg_limits (new_registry builtin limits) = limits"
proof -
  have "same_truth reg (fold emplace_schema builtin reg) \<and> rg_limits (fold emplace_schema builtin reg) = rg_limits reg"
    for reg
  proof (induction builtin arbitrary: reg)
    case (Cons s builtin)
    have "same_truth reg (emplace_schema s reg)" "rg_limits (emplace_schema s reg) = rg_limits reg"
      by (simp_all add: same_truth_def view_defs emplace_schema_def)
    with Cons [of "emplace_schema s reg"] show ?case using same_truth_trans by auto
  qed simp
  from this [of "empty_registry limits"] show ?thesis
    by (simp add: new_registry_def Let_def same_truth_def view_defs empty_registry_def)
qed

locale truth_invariant =
  fixes inv :: "Registry \<Rightarrow> bool"
  assumes inv_truth: "same_truth reg reg' \<Longrightarrow> rg_limits reg' = rg_limits reg \<Longrightarrow> inv reg \<Longrightarrow> inv reg'"
    and inv_dispatch: "inv reg \<Longrightarrow> validate_publication p (rg_limits reg) = Ok \<Longrightarrow> inv (snd (dispatch p reg))"
    and inv_empty: "inv (empty_registry limits)"
begin

lemma inv_step: "step h reg op reg' \<Longrightarrow> inv reg \<Longrightarrow> inv reg'"
proof -
  assume st: "step h reg op reg'" and ok: "inv reg"
  from step_truth [OF st] show "inv reg'"
  proof (elim conjE disjE exE)
    fix p assume d: "dispatched reg p reg'" and lim: "rg_limits reg' = rg_limits reg"
    then obtain p' where p': "prepare reg p = Inr p'" "same_truth (snd (dispatch p' reg)) reg'"
      unfolding dispatched_def by blast
    then have "inv (snd (dispatch p' reg))" using ok prepare_fields(5) inv_dispatch by blast
    with p'(2) lim show "inv reg'" using inv_truth by simp
  qed (use ok inv_truth in blast)
qed

lemma inv_reachable:
  assumes "reachable h builtin limits reg"
  shows "inv reg"
proof -
  have "inv (new_registry builtin limits)"
    using new_registry_truth inv_empty inv_truth [of "empty_registry limits"]
    by (simp add: empty_registry_def)
  with assms show ?thesis
    unfolding reachable_def using steps_invariant [of h _ _ _ inv] inv_step by blast
qed

end

section \<open>The evidence store\<close>

lemma validate_stamped:
  "validate_capability_record (stamp_record device r\<lparr>cr_capability_generation := g\<rparr>) limits = validate_capability_record r limits"
  by (simp add: validate_capability_record_def stamp_record_def Let_def cong: if_cong)

lemma stamped_key [simp]:
  "key_of (stamp_record device r) = key_of r" "key_of (r\<lparr>cr_capability_generation := g\<rparr>) = key_of r"
  "key_of (r\<lparr>cr_value := v\<rparr>) = key_of r"
  by (simp_all add: key_of_def stamp_record_def)

lemma evidence_ok_raise:
  assumes "evidence_ok reg" and "om_find kid (rg_keys reg) = Some key"
  shows "evidence_ok (reg\<lparr>rg_keys := om_put kid (raise_key_generation g key) (rg_keys reg)\<rparr>)"
proof -
  let ?keys = "om_put kid (raise_key_generation g key) (rg_keys reg)"
  have recs: "ks_records (raise_key_generation g key) = ks_records key"
    by (simp add: raise_key_generation_def Let_def)
  have ok: "om_ok (rg_keys reg)" and n: "rg_evidence_count reg = total_records (rg_keys reg)"
    and le: "rg_evidence_count reg \<le> max_evidence_history (rg_limits reg)"
    using assms(1) by (simp_all add: evidence_ok_def)
  have total: "total_records ?keys = total_records (rg_keys reg)"
    using total_records_put_old [OF assms(2) ok, of "raise_key_generation g key"] recs by simp
  have key: "key_ok (rg_limits reg) kid (raise_key_generation g key)"
    using evidence_okD [OF assms] by (simp add: key_ok_def recs)
  show ?thesis
    by (rule evidence_ok_put [where kid = kid and keys' = ?keys and n = "rg_evidence_count reg", OF assms(1)])
      (use ok key total n le in simp_all)
qed

lemma admit_record_ok:
  assumes "evidence_ok reg" and "om_find (key_of r) (rg_keys reg) = Some key"
    and "validate_capability_record r (rg_limits reg) = Ok"
  shows "evidence_ok (snd (admit_record device key r reg))"
  using assms evidence_ok_raise [OF assms(1,2)]
  by (simp add: admit_record_def Let_def store_record_ok validate_stamped)

lemma open_key_evidence_ok:
  assumes "evidence_ok reg" and "open_key r reg = (c, reg')"
  shows "evidence_ok reg'"
proof (cases "rg_keys reg' = rg_keys reg")
  case True
  with assms show ?thesis
    by (auto simp: open_key_def Let_def evidence_ok_def simp del: split_paired_All split: option.splits if_splits)
next
  case False
  then have none: "om_find (key_of r) (rg_keys reg) = None"
    and keys: "rg_keys reg' = om_put (key_of r) (empty_key_state\<lparr>ks_schema := cr_schema r\<rparr>) (rg_keys reg)"
    and rest: "rg_evidence_count reg' = rg_evidence_count reg" "rg_limits reg' = rg_limits reg"
    using assms(2) by (auto simp: open_key_def Let_def split: option.splits if_splits)
  have ok: "om_ok (rg_keys reg)" "rg_evidence_count reg = total_records (rg_keys reg)"
    "rg_evidence_count reg \<le> max_evidence_history (rg_limits reg)"
    using assms(1) by (simp_all add: evidence_ok_def)
  have "total_records (rg_keys reg') = total_records (rg_keys reg)"
    using total_records_put_new [OF none ok(1)] by (simp add: keys empty_key_state_def)
  then show ?thesis
    by (intro evidence_ok_put [where kid = "key_of r" and keys' = "rg_keys reg'" and n = "rg_evidence_count reg", OF assms(1)])
      (use ok rest in \<open>auto simp: keys empty_key_state_def key_ok_def slots_ok_def\<close>)
qed

lemma capability_publication_valid:
  assumes "validate_publication p limits = Ok" and "is_capability_publication p"
  shows "validate_capability_record (pb_capability p) limits = Ok"
  using assms by (auto simp: validate_publication_def is_capability_publication_def split: if_splits)

lemma apply_capability_evidence_ok:
  assumes "evidence_ok reg" and "validate_capability_record (pb_capability p) (rg_limits reg) = Ok"
  shows "evidence_ok (snd (apply_capability_locked p reg))"
proof (cases rule: apply_capability_cases [of p reg])
  case (no_key r reg')
  then show ?thesis using open_key_evidence_ok [OF assms(1)] by simp
next
  case (bad_key r key reg' code)
  then show ?thesis using open_key_evidence_ok [OF assms(1)] by simp
next
  case (admitted v device key reg')
  have "v = cr_value (pb_capability p)"
    using admitted(2) validated_is_normal(1) [OF validate_capability_record_okD(8) [OF assms(2)]] by simp
  moreover have "rg_limits reg' = rg_limits reg"
    using open_key_views(1) [of "(pb_capability p)\<lparr>cr_value := v\<rparr>" reg] admitted(4) limits_view by simp
  moreover note open_key_evidence_ok [OF assms(1) admitted(4)]
  ultimately show ?thesis
    using admitted(5,7) assms(2) by (simp add: admit_record_ok)
qed (simp add: assms(1))

lemma evidence_ok_store:
  "evidence_store reg' = evidence_store reg \<Longrightarrow> rg_limits reg' = rg_limits reg \<Longrightarrow> evidence_ok reg \<Longrightarrow> evidence_ok reg'"
  by (simp add: evidence_ok_def evidence_store_def)

lemma dispatch_evidence_ok:
  assumes "evidence_ok reg" and "validate_publication p (rg_limits reg) = Ok"
  shows "evidence_ok (snd (dispatch p reg))"
proof (cases "is_capability_publication p")
  case True
  with capability_publication_valid [OF assms(2)] apply_capability_evidence_ok [OF assms(1)] show ?thesis
    by (auto simp: dispatch_def is_capability_publication_def)
next
  case False
  then have "evidence_store (snd (dispatch p reg)) = evidence_store reg"
    by (simp add: dispatch_def is_capability_publication_def split: PublicationKind.split)
  then show ?thesis by (rule evidence_ok_store) (simp_all add: assms(1))
qed

interpretation evidence_invariant: truth_invariant evidence_ok
proof
  show "evidence_ok (empty_registry limits)" for limits
    by (simp add: evidence_ok_def empty_registry_def total_records_def om_values_def)
qed (auto intro: dispatch_evidence_ok evidence_ok_store simp: same_truth_def)

section \<open>The index of keys by device\<close>

lemma index_ok_congr:
  assumes "index_ok reg" and "\<And>kid. om_find kid (rg_keys reg') = None \<longleftrightarrow> om_find kid (rg_keys reg) = None"
    and "\<And>d. owned_capabilities reg' d = owned_capabilities reg d"
    and "\<And>d. om_find d (rg_devices reg) \<noteq> None \<Longrightarrow> om_find d (rg_devices reg') \<noteq> None"
    and "rg_limits reg' = rg_limits reg"
  shows "index_ok reg'"
  using assms unfolding index_ok_def by simp

lemma owned_capabilities_same: "rg_device_keys reg' = rg_device_keys reg \<Longrightarrow> owned_capabilities reg' d = owned_capabilities reg d"
  by (simp add: owned_capabilities_def)

lemma append_record_dom:
  "om_find kid (rg_keys (append_record k s r reg)) = None \<longleftrightarrow> om_find kid (rg_keys reg) = None"
  by (auto simp: append_record_def Let_def split: option.splits)

lemma store_record_dom:
  "om_find kid (rg_keys (snd (store_record r reg))) = None \<longleftrightarrow> om_find kid (rg_keys reg) = None"
  using thinned_dom [OF evict_if_needed_thinned] append_record_dom
  by (simp add: store_record_def Let_def)

lemma admit_record_dom:
  assumes "om_find (key_of r) (rg_keys reg) = Some key"
  shows "om_find kid (rg_keys (snd (admit_record device key r reg))) = None \<longleftrightarrow> om_find kid (rg_keys reg) = None"
  using assms by (auto simp: admit_record_def Let_def store_record_dom)

lemma om_put_new_neq [simp]: "om_find k m = None \<Longrightarrow> om_put k v m \<noteq> m"
  using om_find_put [of k k v m] by (auto simp del: om_find_put)

lemma open_key_index_ok:
  assumes "index_ok reg" and "open_key r reg = (c, reg')" and "om_find (cr_device r) (rg_devices reg) \<noteq> None"
  shows "index_ok reg'"
proof (cases "rg_keys reg' = rg_keys reg")
  case True
  with assms(1,2) show ?thesis
    by (intro index_ok_congr [OF assms(1)])
      (auto simp: open_key_def Let_def owned_capabilities_def split: option.splits if_splits)
next
  case False
  let ?d = "cr_device r"
  have keys: "rg_keys reg' = om_put (key_of r) (empty_key_state\<lparr>ks_schema := cr_schema r\<rparr>) (rg_keys reg)"
    and owned: "\<And>d. owned_capabilities reg' d =
      (if d = ?d then os_insert (cr_capability r) (owned_capabilities reg ?d) else owned_capabilities reg d)"
    and room: "length (owned_capabilities reg ?d) < max_capabilities_per_device (rg_limits reg)"
    and rest: "rg_devices reg' = rg_devices reg" "rg_limits reg' = rg_limits reg"
    using assms(2) False
    by (auto simp: open_key_def Let_def owned_capabilities_def split: option.splits if_splits)
  have "length (owned_capabilities reg' d) \<le> max_capabilities_per_device (rg_limits reg)" for d
    using assms(1) room os_insert_length [of "cr_capability r" "owned_capabilities reg ?d"]
    by (auto simp: owned index_ok_def)
  moreover have "om_find (d, c) (rg_keys reg') \<noteq> None \<longleftrightarrow> c \<in> set (owned_capabilities reg' d)" for d c
    using assms(1) unfolding index_ok_def by (auto simp: keys owned key_of_def)
  moreover have "om_find d (rg_devices reg') \<noteq> None" if "om_find (d, c) (rg_keys reg') \<noteq> None" for d c
    using assms(1,3) that unfolding index_ok_def by (auto simp: keys rest key_of_def split: if_splits)
  ultimately show ?thesis unfolding index_ok_def rest by blast
qed

lemma apply_capability_index_ok:
  assumes "index_ok reg"
  shows "index_ok (snd (apply_capability_locked p reg))"
proof (cases rule: apply_capability_cases [of p reg])
  case (no_key r reg')
  then have "rg_keys reg' = rg_keys reg" "\<And>d. owned_capabilities reg' d = owned_capabilities reg d"
    "rg_devices reg' = rg_devices reg" "rg_limits reg' = rg_limits reg"
    by (auto simp: open_key_def Let_def owned_capabilities_def split: option.splits if_splits)
  with no_key show ?thesis by (intro index_ok_congr [OF assms]) simp_all
next
  case (bad_key r key reg' code)
  then show ?thesis using open_key_index_ok [OF assms bad_key(2) bad_key(1)] by simp
next
  case (admitted v device key reg')
  let ?r = "(pb_capability p)\<lparr>cr_value := v\<rparr>"
  have "om_find (cr_device ?r) (rg_devices reg) \<noteq> None"
    using admitted(3) by (auto simp: check_capability_device_def find_device_locked_def split: option.splits)
  then have ok: "index_ok reg'" by (rule open_key_index_ok [OF assms admitted(4)])
  have "rg_devices (snd (admit_record device key ?r reg')) = rg_devices reg'"
    "rg_limits (snd (admit_record device key ?r reg')) = rg_limits reg'"
    using admit_record_views(1,2) [of device key ?r reg'] by (simp_all add: view_defs)
  with admitted(7) admit_record_dom [OF admitted(5)] show ?thesis
    by (intro index_ok_congr [OF ok]) (auto intro: owned_capabilities_same)
qed (simp add: assms)

lemma device_domain_grows:
  "om_find d (rg_devices reg) \<noteq> None \<Longrightarrow> om_find d (rg_devices (snd (apply_device_locked p reg))) \<noteq> None"
  by (auto simp: apply_device_locked_def register_new_device_def find_device_locked_def Let_def split: option.split)

lemma dispatch_index_ok:
  assumes "index_ok reg"
  shows "index_ok (snd (dispatch p reg))"
proof (cases "is_capability_publication p")
  case True
  with apply_capability_index_ok [OF assms] show ?thesis
    by (auto simp: dispatch_def is_capability_publication_def)
next
  case False
  then have store: "evidence_store (snd (dispatch p reg)) = evidence_store reg"
    by (simp add: dispatch_def is_capability_publication_def split: PublicationKind.split)
  have subj: "rg_devices (snd (apply_quirk_locked p reg)) = rg_devices reg"
    "rg_devices (snd (apply_compatibility_locked p reg)) = rg_devices reg"
    using quirk_views(2) [of p reg] compatibility_views(2) [of p reg] by (simp_all add: subject_view_def)
  have "om_find d (rg_devices (snd (dispatch p reg))) \<noteq> None" if "om_find d (rg_devices reg) \<noteq> None" for d
    using that device_domain_grows [OF that] False
    by (simp add: dispatch_def is_capability_publication_def subj split: PublicationKind.split)
  with store show ?thesis
    by (intro index_ok_congr [OF assms] owned_capabilities_same) (simp_all add: evidence_store_def)
qed

interpretation index_invariant: truth_invariant index_ok
proof
  show "index_ok (empty_registry limits)" for limits
    by (simp add: index_ok_def empty_registry_def owned_capabilities_def)
  show "index_ok reg'" if "same_truth reg reg'" "rg_limits reg' = rg_limits reg" "index_ok reg" for reg reg'
    using same_truth_fields [OF that(1)]
    by (intro index_ok_congr [OF that(3)] owned_capabilities_same) (simp_all add: that(2))
qed (rule dispatch_index_ok)

section \<open>Bounds\<close>

definition bounds_ok :: "Registry \<Rightarrow> bool" where
  "bounds_ok reg \<longleftrightarrow>
     om_ok (rg_devices reg) \<and> length (rg_devices reg) \<le> max_devices (rg_limits reg) \<and>
     om_ok (rg_platforms reg) \<and> length (rg_platforms reg) \<le> max_devices (rg_limits reg) \<and>
     sorted_wrt (<) (rg_families reg) \<and> length (rg_families reg) \<le> max_families (rg_limits reg) \<and>
     om_ok (rg_quirks reg) \<and> length (rg_quirks reg) \<le> max_quirks (rg_limits reg) \<and>
     om_ok (rg_compatibility reg) \<and> length (rg_compatibility reg) \<le> max_compatibility_facts (rg_limits reg)"

lemma os_insert_member: "sorted_wrt (<) s \<Longrightarrow> k \<in> set s \<Longrightarrow> os_insert k s = s"
  by (induction k s rule: os_insert.induct) auto

lemma om_length_emplace:
  "om_ok m \<Longrightarrow> length (om_emplace k v m) = (if om_find k m = None then Suc (length m) else length m)"
  by (auto simp: om_emplace_def om_length_put_new split: option.split)

lemma bounds_ok_congr:
  "rg_limits reg' = rg_limits reg \<Longrightarrow> subject_view reg' = subject_view reg \<Longrightarrow> knowledge_view reg' = knowledge_view reg \<Longrightarrow>
   bounds_ok reg \<Longrightarrow> bounds_ok reg'"
  by (simp add: bounds_ok_def view_defs)

lemma platform_bounds_ok: "bounds_ok reg \<Longrightarrow> bounds_ok (register_platform_locked p reg)"
  by (auto simp: bounds_ok_def register_platform_locked_def om_length_emplace om_length_put_old split: option.split)

lemma new_device_bounds_ok:
  assumes "bounds_ok reg"
  shows "bounds_ok (snd (register_new_device r reg))"
proof (cases "fst (register_new_device r reg) = result_of RejectedLimit")
  case True
  then have "snd (register_new_device r reg) = reg"
    by (auto simp: register_new_device_def Let_def result_of_def mutating_def split: if_splits)
  with assms show ?thesis by simp
next
  case False
  let ?hw = "di_hardware (reg_identity r)"
  let ?reg = "reg\<lparr>rg_devices := om_emplace (di_id (reg_identity r)) (initial_device_state r) (rg_devices reg),
      rg_families := insert_valid (hw_family ?hw) (rg_families reg),
      rg_models := insert_valid (hw_model ?hw) (rg_models reg),
      rg_architectures := insert_valid (hw_architecture ?hw) (rg_architectures reg)\<rparr>"
  have room: "length (rg_devices reg) < max_devices (rg_limits reg)"
    "id_valid (hw_family ?hw) \<Longrightarrow> length (rg_families reg) < max_families (rg_limits reg) \<or> hw_family ?hw \<in> set (rg_families reg)"
    using False by (auto simp: register_new_device_def Let_def split: if_splits)
  have "length (insert_valid (hw_family ?hw) (rg_families reg)) \<le> max_families (rg_limits reg)"
    using assms room(2) os_insert_length [of "hw_family ?hw" "rg_families reg"]
      os_insert_member [of "rg_families reg" "hw_family ?hw"]
    by (auto simp: bounds_ok_def insert_valid_def)
  with assms room(1) have "bounds_ok ?reg"
    by (simp add: bounds_ok_def om_length_emplace insert_valid_def os_insert_sorted)
  then have "bounds_ok (register_platform_locked (reg_platform r) ?reg)" by (rule platform_bounds_ok)
  then have "bounds_ok ((register_platform_locked (reg_platform r) ?reg)\<lparr>rg_usage := u\<rparr>)" for u
    by (simp add: bounds_ok_def)
  then show ?thesis using False by (auto simp: register_new_device_def Let_def split: if_splits)
qed

lemma device_bounds_ok: "bounds_ok reg \<Longrightarrow> bounds_ok (snd (apply_device_locked p reg))"
proof (cases "find_device_locked reg (di_id (reg_identity (pb_device p)))")
  case (Some existing)
  assume ok: "bounds_ok reg"
  have "bounds_ok (reg\<lparr>rg_devices := om_put (di_id (reg_identity (pb_device p))) s (rg_devices reg)\<rparr>)" for s
    using ok Some by (simp add: bounds_ok_def find_device_locked_def om_length_put_old)
  with Some show ?thesis
    by (simp add: apply_device_locked_def Let_def platform_bounds_ok)
qed (simp add: apply_device_locked_def new_device_bounds_ok)

lemma knowledge_bounds_ok:
  "bounds_ok reg \<Longrightarrow> bounds_ok (snd (apply_quirk_locked p reg))"
  "bounds_ok reg \<Longrightarrow> bounds_ok (snd (apply_compatibility_locked p reg))"
  by (auto simp: bounds_ok_def apply_quirk_locked_def withdraw_quirk_def publish_quirk_def
      apply_compatibility_locked_def withdraw_compatibility_def publish_compatibility_def Let_def
      om_length_emplace om_length_put_old split: option.split)

lemma dispatch_bounds_ok: "bounds_ok reg \<Longrightarrow> bounds_ok (snd (dispatch p reg))"
proof -
  assume ok: "bounds_ok reg"
  then have "bounds_ok (snd (apply_capability_locked p reg))"
    by (intro bounds_ok_congr [OF _ _ _ ok] limits_view) simp_all
  with ok show ?thesis
    by (simp add: dispatch_def device_bounds_ok knowledge_bounds_ok split: PublicationKind.split)
qed

interpretation bounds_invariant: truth_invariant bounds_ok
proof
  show "bounds_ok (empty_registry limits)" for limits
    by (simp add: bounds_ok_def empty_registry_def)
qed (auto intro: dispatch_bounds_ok bounds_ok_congr simp: same_truth_def)

section \<open>Schemas\<close>

text \<open>
  Schemas can only be added, and only while there is room: what the built-in list brings, or sixteen for each family
  the limits allow.
\<close>

definition schemas_ok :: "nat \<Rightarrow> Registry \<Rightarrow> bool" where
  "schemas_ok builtin reg \<longleftrightarrow> om_ok (rg_schemas reg) \<and> length (rg_schemas reg) \<le> max builtin (max_families (rg_limits reg) * 16)"

lemma counted_schemas [simp]:
  "rg_schemas (touch_locked reg) = rg_schemas reg" "rg_schemas (count_rejected reg) = rg_schemas reg"
  "rg_schemas (count_accepted reg) = rg_schemas reg" "rg_schemas (count_idempotent reg) = rg_schemas reg"
  by (simp_all add: touch_locked_def count_rejected_def count_accepted_def count_idempotent_def)

lemma register_publisher_schemas:
  "rg_schemas (snd (register_publisher_locked now identity adapter reg)) = rg_schemas reg"
  by (simp add: register_publisher_locked_def register_new_publisher_def put_publisher_def Let_def split: option.split)

lemma schemas_kept:
  "rg_schemas reg' = rg_schemas reg \<Longrightarrow> rg_limits reg' = rg_limits reg \<Longrightarrow> schemas_ok n reg' = schemas_ok n reg"
  by (simp add: schemas_ok_def)

lemma schemas_ok_counted [simp]:
  "schemas_ok n (touch_locked reg) = schemas_ok n reg" "schemas_ok n (count_rejected reg) = schemas_ok n reg"
  "schemas_ok n (count_accepted reg) = schemas_ok n reg"
  by (simp_all add: schemas_ok_def)

lemma register_schema_schemas_ok:
  "schemas_ok n reg \<Longrightarrow> schemas_ok n (snd (register_capability_schema_locked schema reg))"
  by (auto simp: schemas_ok_def register_capability_schema_locked_def Let_def om_length_emplace)

lemma apply_locked_schemas_ok:
  assumes "schemas_ok n reg"
  shows "schemas_ok n (snd (apply_locked h now p reg))"
proof (cases rule: apply_locked_cases [of reg h now p])
  case (schema p')
  with register_schema_schemas_ok [OF assms, of "pb_schema p'"] schema show ?thesis
    by (cases "register_capability_schema_locked (pb_schema p') reg") (simp add: apply_schema_publication_def)
next
  case (publisher p')
  have "schemas_ok n (snd (register_publisher_locked now (pb_publisher p') (pb_reason p') reg))"
    using assms by (simp add: schemas_kept [OF register_publisher_schemas register_publisher_limits])
  with publisher show ?thesis
    by (cases "register_publisher_locked now (pb_publisher p') (pb_reason p') reg") (simp add: apply_publisher_publication_def)
next
  case (evidence p' st)
  have "rg_schemas (snd (apply_evidence h p' st reg)) = rg_schemas reg"
  proof (cases "check_sequence h p' st (open_watermark p' st)")
    case Proceed
    then show ?thesis
      using dispatch_authority_fields [of p' reg]
      by (cases "dispatch p' reg")
        (simp add: apply_evidence_def Let_def book_acceptance_def book_rejection_def put_watermark_def put_publisher_def)
  qed (simp_all add: apply_evidence_def)
  with schemas_kept [of "snd (apply_evidence h p' st reg)" reg n] apply_evidence_truth [of reg h p' st] evidence assms
  show ?thesis by simp
qed (use assms in simp_all)

lemma step_schemas_ok: "step h reg op reg' \<Longrightarrow> schemas_ok n reg \<Longrightarrow> schemas_ok n reg'"
proof (induction rule: step.induct)
  case (step_register_schema schema reg status reg')
  with step_register_schema register_schema_schemas_ok [of n reg schema] show ?case
    by (cases "register_capability_schema_locked schema reg") (auto simp: register_capability_schema_def split: if_splits)
next
  case (step_apply now p reg result reg')
  then show ?case using apply_locked_schemas_ok [of n reg h now p] by (simp add: apply_publication_def)
next
  case (step_register_publisher now identity adapter reg result reg')
  then show ?case
    using register_publisher_schemas [of now identity adapter reg] register_publisher_limits [of now identity adapter reg]
    by (auto simp: register_publisher_def schemas_ok_def split: if_splits)
qed (auto simp: schemas_ok_def fence_publisher_def retire_publisher_boot_def reset_publisher_liveness_def
      advance_coordinator_epoch_def set_coordinator_epoch_def begin_shutdown_def clear_shutdown_def put_publisher_def
      Let_def split: option.splits if_splits)

lemma new_schemas_ok: "schemas_ok (length builtin) (new_registry builtin limits)"
proof -
  have "om_ok (rg_schemas (fold emplace_schema builtin reg)) \<and>
      length (rg_schemas (fold emplace_schema builtin reg)) \<le> length (rg_schemas reg) + length builtin"
    if "om_ok (rg_schemas reg)" for reg
    using that
  proof (induction builtin arbitrary: reg)
    case (Cons s builtin)
    have "om_ok (rg_schemas (emplace_schema s reg))" "length (rg_schemas (emplace_schema s reg)) \<le> Suc (length (rg_schemas reg))"
      using Cons.prems by (simp_all add: emplace_schema_def om_length_emplace)
    with Cons.IH [of "emplace_schema s reg"] show ?case by simp
  qed simp
  note grows = this
  have "rg_schemas (empty_registry limits) = []" by (simp add: empty_registry_def)
  then have "om_ok (rg_schemas (fold emplace_schema builtin (empty_registry limits))) \<and>
      length (rg_schemas (fold emplace_schema builtin (empty_registry limits))) \<le> length builtin"
    using grows [of "empty_registry limits"] by simp
  then show ?thesis by (simp add: schemas_ok_def new_registry_def Let_def le_max_iff_disj)
qed

lemma reachable_schemas_ok: "reachable h builtin limits reg \<Longrightarrow> schemas_ok (length builtin) reg"
  unfolding reachable_def using new_schemas_ok steps_invariant [of h _ _ _ "schemas_ok (length builtin)"] step_schemas_ok
  by blast

end
