(* ===== verification/Generations.thy ===== *)
theory Generations
  imports Invariants
begin

text \<open>
  Generations across executions. Keys, quirks and compatibility facts are never forgotten and their
  generations never move backwards, because every write compares first: a preorder that each handler
  respects, lifted to executions by the locales \<open>truth_preorder\<close> and \<open>step_preorder\<close>. Device
  generations and boots are advanced by one with no comparison, so their monotonicity is stated with
  the number of operations that the 64-bit counter can absorb.
\<close>

section \<open>Preorders on the truth\<close>

locale truth_preorder =
  fixes rel :: "Registry \<Rightarrow> Registry \<Rightarrow> bool"
  assumes refl_rel: "rel reg reg"
    and trans_rel: "rel a b \<Longrightarrow> rel b c \<Longrightarrow> rel a c"
    and rel_truth: "same_truth reg reg' \<Longrightarrow> rel reg reg'"
    and rel_dispatch: "rel reg (snd (dispatch p reg))"
begin

lemma rel_of_step: "step h reg op reg' \<Longrightarrow> rel reg reg'"
  using step_truth [of h reg op reg'] rel_truth rel_dispatch trans_rel unfolding dispatched_def by blast

end

sublocale truth_preorder \<subseteq> executions: step_preorder rel h for h
  by unfold_locales (auto intro: refl_rel trans_rel rel_of_step)

section \<open>Keys, quirks and compatibility facts\<close>

definition map_evolves :: "('v \<Rightarrow> 'v \<Rightarrow> bool) \<Rightarrow> ('k::linorder, 'v) omap \<Rightarrow> ('k, 'v) omap \<Rightarrow> bool" where
  "map_evolves le m m' \<longleftrightarrow>
     (\<forall>k v. om_find k m = Some v \<longrightarrow> (\<exists>v'. om_find k m' = Some v' \<and> le v v'))"

definition key_le :: "KeyState \<Rightarrow> KeyState \<Rightarrow> bool" where
  "key_le key key' \<longleftrightarrow> ks_schema key' = ks_schema key \<and> ks_generation key \<le> ks_generation key' \<and>
     (ks_has_evidence key \<longrightarrow> ks_has_evidence key')"

definition knowledge_evolves :: "Registry \<Rightarrow> Registry \<Rightarrow> bool" where
  "knowledge_evolves reg reg' \<longleftrightarrow>
     map_evolves key_le (rg_keys reg) (rg_keys reg') \<and>
     map_evolves (\<lambda>q q'. qr_generation q \<le> qr_generation q') (rg_quirks reg) (rg_quirks reg') \<and>
     map_evolves (\<lambda>f f'. cf_generation f \<le> cf_generation f') (rg_compatibility reg) (rg_compatibility reg')"

lemma map_evolves_refl: "(\<And>v. le v v) \<Longrightarrow> map_evolves le m m"
  by (auto simp: map_evolves_def)

lemma map_evolves_trans:
  "(\<And>a b c. le a b \<Longrightarrow> le b c \<Longrightarrow> le a c) \<Longrightarrow> map_evolves le m1 m2 \<Longrightarrow> map_evolves le m2 m3 \<Longrightarrow> map_evolves le m1 m3"
  unfolding map_evolves_def by meson

lemma map_evolves_put:
  "(\<And>v. le v v) \<Longrightarrow> (\<And>old. om_find k m = Some old \<Longrightarrow> le old v) \<Longrightarrow> map_evolves le m (om_put k v m)"
  unfolding map_evolves_def by (metis om_find_put option.inject)

lemma map_evolves_emplace: "(\<And>v. le v v) \<Longrightarrow> map_evolves le m (om_emplace k v m)"
  unfolding map_evolves_def by (metis om_find_emplace option.distinct(1))

lemma key_le_refl [simp]: "key_le key key"
  by (simp add: key_le_def)

lemma key_le_trans: "key_le a b \<Longrightarrow> key_le b c \<Longrightarrow> key_le a c"
  by (auto simp: key_le_def)

lemma keys_evolve_trans: "map_evolves key_le m1 m2 \<Longrightarrow> map_evolves key_le m2 m3 \<Longrightarrow> map_evolves key_le m1 m3"
  by (rule map_evolves_trans) (rule key_le_trans)

lemma thinned_keys_evolve: "thinned reg reg' \<Longrightarrow> map_evolves key_le (rg_keys reg) (rg_keys reg')"
  unfolding map_evolves_def key_le_def by (metis thinned_find order_refl)

lemma append_keys_evolve: "map_evolves key_le (rg_keys reg) (rg_keys (append_record k s r reg))"
  by (cases "om_find k (rg_keys reg)")
    (auto simp: append_record_def Let_def key_le_def intro!: map_evolves_refl map_evolves_put)

lemma store_keys_evolve: "map_evolves key_le (rg_keys reg) (rg_keys (snd (store_record r reg)))"
proof -
  have e: "map_evolves key_le (rg_keys a) (rg_keys (evict_if_needed_locked a))" for a
    by (rule thinned_keys_evolve [OF evict_if_needed_thinned])
  have ae: "map_evolves key_le (rg_keys a) (rg_keys (evict_if_needed_locked (append_record k s x a)))" for a k s x
    using append_keys_evolve e by (rule keys_evolve_trans)
  have eae: "map_evolves key_le (rg_keys a)
      (rg_keys (evict_if_needed_locked (append_record k s x (evict_if_needed_locked a))))" for a k s x
    using e ae by (rule keys_evolve_trans)
  show ?thesis by (simp add: store_record_def Let_def e ae eae)
qed

lemma raise_key_le: "key_le key (raise_key_generation g key)"
  by (auto simp: key_le_def raise_key_generation_def Let_def gen_valid_def)

lemma admit_keys_evolve:
  assumes "om_find (key_of r) (rg_keys reg) = Some key"
  shows "map_evolves key_le (rg_keys reg) (rg_keys (snd (admit_record device key r reg)))"
proof -
  have "map_evolves key_le (rg_keys reg) (om_put (key_of r) (raise_key_generation g key) (rg_keys reg))" for g
    using assms by (intro map_evolves_put) (auto simp: raise_key_le)
  then show ?thesis
    using store_keys_evolve [of "reg\<lparr>rg_keys := om_put (key_of r) (raise_key_generation g key) (rg_keys reg)\<rparr>" for g]
      keys_evolve_trans
    by (simp add: admit_record_def Let_def map_evolves_refl) blast
qed

lemma open_keys_evolve: "map_evolves key_le (rg_keys reg) (rg_keys (snd (open_key r reg)))"
  by (cases "om_find (key_of r) (rg_keys reg)")
    (auto simp: open_key_def Let_def intro!: map_evolves_refl map_evolves_put)

lemma capability_keys_evolve: "map_evolves key_le (rg_keys reg) (rg_keys (snd (apply_capability_locked p reg)))"
proof (cases rule: apply_capability_cases [of p reg])
  case (no_key r reg')
  then show ?thesis using open_keys_evolve [of reg r] by simp
next
  case (bad_key r key reg' code)
  then show ?thesis using open_keys_evolve [of reg r] by simp
next
  case (admitted v device key reg')
  then have "map_evolves key_le (rg_keys reg) (rg_keys reg')"
    using open_keys_evolve [of reg "(pb_capability p)\<lparr>cr_value := v\<rparr>"] by simp
  with admit_keys_evolve [OF admitted(5), of device] show ?thesis
    unfolding admitted(7) by (rule keys_evolve_trans [rotated])
qed (simp add: map_evolves_refl)

lemma quirk_handler_evolves:
  "map_evolves (\<lambda>q q'. qr_generation q \<le> qr_generation q') (rg_quirks reg) (rg_quirks (snd (apply_quirk_locked p reg)))"
  by (auto simp: apply_quirk_locked_def withdraw_quirk_def publish_quirk_def Let_def
      intro!: map_evolves_refl map_evolves_put map_evolves_emplace split: option.split)

lemma compatibility_handler_evolves:
  "map_evolves (\<lambda>f f'. cf_generation f \<le> cf_generation f') (rg_compatibility reg)
     (rg_compatibility (snd (apply_compatibility_locked p reg)))"
  by (auto simp: apply_compatibility_locked_def withdraw_compatibility_def publish_compatibility_def Let_def
      intro!: map_evolves_refl map_evolves_put map_evolves_emplace split: option.split)

lemma handler_fields [simp]:
  "rg_keys (snd (apply_device_locked p reg)) = rg_keys reg"
  "rg_quirks (snd (apply_device_locked p reg)) = rg_quirks reg"
  "rg_compatibility (snd (apply_device_locked p reg)) = rg_compatibility reg"
  "rg_quirks (snd (apply_capability_locked p reg)) = rg_quirks reg"
  "rg_compatibility (snd (apply_capability_locked p reg)) = rg_compatibility reg"
  "rg_keys (snd (apply_quirk_locked p reg)) = rg_keys reg"
  "rg_keys (snd (apply_compatibility_locked p reg)) = rg_keys reg"
  "rg_devices (snd (apply_capability_locked p reg)) = rg_devices reg"
  "rg_devices (snd (apply_quirk_locked p reg)) = rg_devices reg"
  "rg_devices (snd (apply_compatibility_locked p reg)) = rg_devices reg"
  using device_views [of p reg] capability_views [of p reg] quirk_views [of p reg] compatibility_views [of p reg]
  by (simp_all add: view_defs)

interpretation knowledge: truth_preorder knowledge_evolves
proof
  show "knowledge_evolves reg reg" for reg
    by (simp add: knowledge_evolves_def map_evolves_refl)
  show "knowledge_evolves a c" if "knowledge_evolves a b" "knowledge_evolves b c" for a b c
    using that unfolding knowledge_evolves_def
    by (meson key_le_trans map_evolves_trans order_trans)
  show "knowledge_evolves reg reg'" if "same_truth reg reg'" for reg reg'
    by (simp add: knowledge_evolves_def same_truth_fields [OF that] map_evolves_refl)
  show "knowledge_evolves reg (snd (dispatch p reg))" for reg p
    using capability_keys_evolve quirk_handler_evolves compatibility_handler_evolves
    by (simp add: dispatch_def knowledge_evolves_def map_evolves_refl split: PublicationKind.split)
qed

text \<open>
  C21: published knowledge is never forgotten and never rolled back. Along any execution a capability
  key keeps its schema and its generation only grows, and a quirk or compatibility fact stays in the
  registry with a generation that only grows; withdrawal is a mark on the record, not a removal.
\<close>

theorem knowledge_generations_never_regress:
  assumes "steps h reg ops reg'"
  shows "(\<forall>kid key. om_find kid (rg_keys reg) = Some key \<longrightarrow>
            (\<exists>key'. om_find kid (rg_keys reg') = Some key' \<and> ks_schema key' = ks_schema key \<and>
               ks_generation key \<le> ks_generation key')) \<and>
         (\<forall>i q. om_find i (rg_quirks reg) = Some q \<longrightarrow>
            (\<exists>q'. om_find i (rg_quirks reg') = Some q' \<and> qr_generation q \<le> qr_generation q')) \<and>
         (\<forall>i f. om_find i (rg_compatibility reg) = Some f \<longrightarrow>
            (\<exists>f'. om_find i (rg_compatibility reg') = Some f' \<and> cf_generation f \<le> cf_generation f'))"
  using knowledge.executions.rel_steps [OF assms]
  unfolding knowledge_evolves_def map_evolves_def key_le_def by blast

section \<open>Device generations\<close>

definition ticks :: "u64 \<Rightarrow> u64 \<Rightarrow> bool" where
  "ticks g g' \<longleftrightarrow> g' = g \<or> g' = gen_next g"

definition device_ticks :: "DeviceState \<Rightarrow> DeviceState \<Rightarrow> bool" where
  "device_ticks d d' \<longleftrightarrow> ticks (ds_generation d) (ds_generation d') \<and> ticks (ds_boot d) (ds_boot d') \<and>
     ticks (ds_platform_generation d) (ds_platform_generation d')"

lemma device_ticks_refl [simp]: "device_ticks d d"
  by (simp add: device_ticks_def ticks_def)

lemma refresh_ticks: "device_ticks d (refresh_device boundary r d)"
  by (simp add: device_ticks_def ticks_def refresh_device_def Let_def)

lemma dispatch_devices_tick: "map_evolves device_ticks (rg_devices reg) (rg_devices (snd (dispatch p reg)))"
proof -
  have "map_evolves device_ticks (rg_devices reg) (rg_devices (snd (apply_device_locked p reg)))"
    by (auto simp: apply_device_locked_def register_new_device_def find_device_locked_def Let_def refresh_ticks
        intro!: map_evolves_refl map_evolves_put map_evolves_emplace split: option.split)
  then show ?thesis by (simp add: dispatch_def map_evolves_refl split: PublicationKind.split)
qed

lemma step_devices_tick:
  assumes "step h reg op reg'"
  shows "map_evolves device_ticks (rg_devices reg) (rg_devices reg')"
  using step_truth [OF assms] dispatch_devices_tick [of reg]
  by (auto simp: dispatched_def same_truth_fields(1) map_evolves_refl)

lemma ticks_unat:
  assumes "ticks g g'" and "unat g + Suc n < 2 ^ 64"
  shows "unat g \<le> unat g' \<and> unat g' \<le> unat g + 1"
proof -
  have "unat (g + 1) = unat g + 1" using assms(2) by (simp add: unat_word_ariths)
  with assms(1) show ?thesis by (auto simp: ticks_def gen_next_def)
qed

lemma steps_devices:
  assumes "steps h reg ops reg'" and "om_find d (rg_devices reg) = Some s"
    and "unat (ds_generation s) + length ops < 2 ^ 64" and "unat (ds_boot s) + length ops < 2 ^ 64"
  shows "\<exists>s'. om_find d (rg_devices reg') = Some s' \<and>
           ds_generation s \<le> ds_generation s' \<and> ds_boot s \<le> ds_boot s'"
  using assms
proof (induction arbitrary: s rule: steps.induct)
  case (steps_Nil reg)
  then show ?case by simp
next
  case (steps_Cons reg op reg1 ops reg2)
  obtain s1 where s1: "om_find d (rg_devices reg1) = Some s1" and t: "device_ticks s s1"
    using step_devices_tick [OF steps_Cons.hyps(1)] steps_Cons.prems(1) unfolding map_evolves_def by blast
  have g: "unat (ds_generation s) \<le> unat (ds_generation s1) \<and> unat (ds_generation s1) \<le> unat (ds_generation s) + 1"
    and b: "unat (ds_boot s) \<le> unat (ds_boot s1) \<and> unat (ds_boot s1) \<le> unat (ds_boot s) + 1"
    using t steps_Cons.prems(2,3) ticks_unat [of _ _ "length ops"] unfolding device_ticks_def by simp_all
  from steps_Cons.IH [OF s1] obtain s2 where
    "om_find d (rg_devices reg2) = Some s2" "ds_generation s1 \<le> ds_generation s2" "ds_boot s1 \<le> ds_boot s2"
    using g b steps_Cons.prems(2,3) by auto
  with g b show ?case by (auto simp: word_le_nat_alt)
qed

text \<open>
  Evidence of a superseded device generation never counts again. Once a device has moved to a
  generation above that of a record, the record is stale for every later answer about the device,
  whatever operations follow, as long as they are fewer than the 64-bit counters can absorb.
\<close>

theorem superseded_generation_never_returns:
  assumes "om_find d (rg_devices reg) = Some s" and "cr_device_generation (st_record stored) < ds_generation s"
    and "steps h reg ops reg'"
    and "unat (ds_generation s) + length ops < 2 ^ 64" and "unat (ds_boot s) + length ops < 2 ^ 64"
  shows "\<exists>s'. om_find d (rg_devices reg') = Some s' \<and> ds_generation s \<le> ds_generation s' \<and>
           ds_boot s \<le> ds_boot s' \<and>
           is_stale (compute_staleness_locked reg' stored s' (ds_generation s') True)"
proof -
  obtain s' where s': "om_find d (rg_devices reg') = Some s'" "ds_generation s \<le> ds_generation s'" "ds_boot s \<le> ds_boot s'"
    using steps_devices [OF assms(3,1,4,5)] by blast
  with assms(2) have "\<not> current_evidence reg' stored s'"
    by (auto simp: current_evidence_def)
  then have "compute_staleness_locked reg' stored s' (ds_generation s') True \<noteq> Stale_None"
    by (simp add: staleness_None_iff)
  with s' show ?thesis by (auto simp: is_stale_def Stale_None_def)
qed

end
