(* ===== verification/Samples.thy ===== *)
theory Samples
  imports Registry
begin

text \<open>
  A small registry: one publisher, one device, one capability and one quirk, with the transitions
  between its states evaluated. The witnesses of the other theories apply their theorems to it, which
  shows that their hypotheses hold of states the program reaches.
\<close>

definition sample_publisher :: PublisherIdentity where
  "sample_publisher = \<lparr>pub_id = ''p'', pub_boot = 1, pub_epoch = 1\<rparr>"

definition sample_schema :: CapabilitySchema where
  "sample_schema = \<lparr>cs_id = ''c.v1'', cs_capability = ''c'', cs_domain = CapabilityDomain.Compute,
     cs_value_kind = ValueKind.Boolean, cs_canonical_name = ''c'', cs_unit = []\<rparr>"

definition sample_source :: EvidenceSource where
  "sample_source = \<lparr>es_source_class = RuntimeProbe, es_provenance = RealRuntimeProbe,
     es_publisher = no_publisher, es_adapter = ''a'', es_native_reference = [],
     es_observation_sequence = 1, es_observed_at_utc = [], es_evidence_generation = 1,
     es_platform_generation = 0\<rparr>"

definition sample_hardware :: HardwareIdentity where
  "sample_hardware = \<lparr>hw_vendor = ''v'', hw_product = [], hw_family = ''f'', hw_model = ''m'', hw_revision = [],
     hw_architecture = [], hw_class = HardwareClass.Gpu, hw_native_identifiers = []\<rparr>"

definition sample_identity :: DeviceIdentity where
  "sample_identity = \<lparr>di_id = ''d'', di_incarnation = ''i'', di_hardware = sample_hardware, di_platform = [],
     di_serial_number = None, di_instance_locator = None, di_display_name = ''d''\<rparr>"

definition sample_software :: DeviceSoftwareState where
  "sample_software = \<lparr>sw_firmware = \<lparr>fw_id = [], fw_version = [], fw_build = []\<rparr>, sw_firmware_generation = 0,
     sw_driver = \<lparr>dr_id = [], dr_version = []\<rparr>, sw_driver_generation = 0,
     sw_runtime = \<lparr>rt_id = [], rt_version = []\<rparr>, sw_runtime_generation = 0\<rparr>"

definition sample_platform :: PlatformIdentity where
  "sample_platform = \<lparr>pf_id = [], pf_display_name = [], pf_vendor = [], pf_model = [], pf_architecture = [],
     pf_native_identifiers = []\<rparr>"

definition sample_registration :: DeviceRegistration where
  "sample_registration = \<lparr>reg_identity = sample_identity, reg_software = sample_software,
     reg_platform = sample_platform, reg_device_boot_observed = False, reg_observation_sequence = 1,
     reg_observed_at_utc = []\<rparr>"

definition sample_record :: CapabilityRecord where
  "sample_record = \<lparr>cr_device = ''d'', cr_device_generation = 1, cr_device_boot = 1, cr_capability = ''c'',
     cr_schema = ''c.v1'', cr_capability_generation = 0, cr_support = SupportState.SupportedNative,
     cr_value = V_Boolean True, cr_precision = PrecisionClass.Probed, cr_source = sample_source,
     cr_conditions = None, cr_firmware_generation = 0, cr_driver_generation = 0, cr_runtime_generation = 0,
     cr_platform_generation = 0, cr_driver_id = [], cr_firmware_id = [], cr_runtime_id = [],
     cr_withdrawn = False\<rparr>"

definition sample_quirk :: QuirkRecord where
  "sample_quirk = \<lparr>qr_id = ''q'', qr_generation = 1, qr_title = ''t'', qr_description = [],
     qr_category = QuirkCategory.Other, qr_severity = QuirkSeverity.Fatal, qr_mitigation = MitigationKind.NoMitigation,
     qr_applicability = \<lparr>qa_vendors = [''v''], qa_families = [], qa_models = [], qa_devices = [], qa_revisions = [],
       qa_revision_ranges = [], qa_architectures = [], qa_driver_ranges = [], qa_firmware_ranges = [],
       qa_runtime_ranges = [], qa_platform_conditions = None\<rparr>,
     qr_impacted_capabilities = [''c''], qr_source = sample_source, qr_withdrawn = False\<rparr>"


definition sample_reference :: HardwareReference where
  "sample_reference = \<lparr>hr_kind = ReferenceKind.Device, hr_token = ''d'', hr_version = empty_version\<rparr>"

definition sample_fact :: CompatibilityFact where
  "sample_fact = \<lparr>cf_id = ''k'', cf_generation = 1, cf_kind = CompatibilitySubjectKind.Other,
     cf_lhs = sample_reference, cf_rhs = sample_reference, cf_outcome = CompatibilityOutcome.Compatible,
     cf_conditions = None, cf_version_window = \<lparr>vr_minimum = empty_version, vr_maximum = empty_version,
     vr_include_maximum = False\<rparr>, cf_reason = ''r'', cf_source = sample_source, cf_withdrawn = False\<rparr>"

definition sample_publication :: "PublicationKind \<Rightarrow> u64 \<Rightarrow> Publication" where
  "sample_publication kind sequence = \<lparr>pb_kind = kind, pb_publisher = sample_publisher, pb_sequence = sequence,
     pb_evidence_generation = 1, pb_device = sample_registration, pb_capability = sample_record,
     pb_quirk = sample_quirk, pb_compatibility = sample_fact, pb_schema = sample_schema, pb_reason = [],
     pb_issued_at_utc = []\<rparr>"

definition no_hash :: "string \<Rightarrow> u64" where
  "no_hash text = 0"

definition sample_limits :: RegistryLimits where
  "sample_limits = \<lparr>
     max_devices = 2, max_families = 2, max_capabilities_per_device = 2,
     max_evidence_per_capability = 2, max_evidence_history = 4, max_quirks = 2,
     max_compatibility_facts = 2, max_publishers = 2, max_boot_records_per_publisher = 2,
     max_metadata_bytes = 4, max_native_identifiers = 2, max_name_length = 4,
     max_record_depth = 2, max_record_fields = 2, max_feature_set_entries = 2,
     max_architecture_set_entries = 2, max_condition_nodes = 2, max_condition_children = 2,
     max_query_results = 4, max_comparison_entries = 4, max_snapshot_records = 4,
     max_frame_bytes = 4, max_persistence_bytes = 4, max_connections = 2,
     max_pending_publications = 4, max_pending_bytes = 4, max_string_bytes = 4\<rparr>"

definition sample_new :: Registry where
  "sample_new = new_registry [sample_schema] sample_limits"

text \<open>The publisher after \<open>n\<close> accepted publications with sequences 1 to \<open>n\<close>.\<close>

definition sample_publisher_record :: "nat \<Rightarrow> PublisherRecord" where
  "sample_publisher_record n = \<lparr>pr_identity = sample_publisher, pr_state = PublisherState.Registered, pr_adapter = ''a'',
     pr_last_sequence = of_nat n, pr_max_evidence_generation = (if n = 0 then 0 else 1), pr_accepted = n,
     pr_rejected = 0, pr_reason = [], pr_registered_at_utc = [], pr_boot_history = 0\<rparr>"

definition sample_watermark :: "nat \<Rightarrow> PublisherWatermark" where
  "sample_watermark n = \<lparr>wm_publisher = ''p'', wm_boot = 1, wm_max_sequence = of_nat n,
     wm_max_evidence_generation = 1, wm_state = PublisherState.Registered, wm_adapter = ''a'', wm_reason = [],
     wm_accepted = n, wm_rejected = 0, wm_registered_at_utc = []\<rparr>"

definition sample_publisher_state :: "nat \<Rightarrow> PublisherStateInternal" where
  "sample_publisher_state n = \<lparr>ps_record = sample_publisher_record n, ps_fenced_boots = [],
     ps_watermarks = (if n = 0 then [] else [(1, sample_watermark n)]),
     ps_sequence_fingerprints = map (\<lambda>i. (of_nat i, 0)) [1..<n + 1], ps_boot_history = 1,
     ps_publisher_fenced = False\<rparr>"

definition sample_registered :: Registry where
  "sample_registered = sample_new\<lparr>rg_publishers := [(''p'', sample_publisher_state 0)], rg_state_revision := 1,
     rg_usage := (rg_usage sample_new)\<lparr>ru_publishers := 1\<rparr>\<rparr>"

definition sample_device :: DeviceState where
  "sample_device = \<lparr>ds_identity = sample_identity, ds_software = sample_software, ds_generation = 1, ds_boot = 1,
     ds_platform_generation = 1\<rparr>"

definition sample_with_device :: Registry where
  "sample_with_device = sample_registered\<lparr>rg_devices := [(''d'', sample_device)], rg_families := [''f''],
     rg_models := [''m''], rg_publishers := [(''p'', sample_publisher_state 1)], rg_state_revision := 2,
     rg_usage := (rg_usage sample_registered)\<lparr>ru_devices := 1, ru_accepted_publications := 1\<rparr>\<rparr>"

definition sample_stored :: StoredRecord where
  "sample_stored = \<lparr>st_record = sample_record\<lparr>cr_capability_generation := 1, cr_platform_generation := 1,
     cr_source := sample_source\<lparr>es_publisher := sample_publisher\<rparr>\<rparr>, st_persistent = Stale_None,
     st_slot = ''p#1#runtime-probe'', st_serial = 1\<rparr>"

definition sample_key :: KeyState where
  "sample_key = \<lparr>ks_schema = ''c.v1'', ks_generation = 1, ks_has_evidence = True, ks_records = [sample_stored]\<rparr>"

definition sample_with_evidence :: Registry where
  "sample_with_evidence = sample_with_device\<lparr>rg_keys := [((''d'', ''c''), sample_key)],
     rg_device_keys := [(''d'', [''c''])], rg_global_order := [((''d'', ''c''), 1)], rg_evidence_count := 1,
     rg_next_serial := 2, rg_publishers := [(''p'', sample_publisher_state 2)], rg_state_revision := 3,
     rg_usage := (rg_usage sample_with_device)\<lparr>ru_capability_keys := 1, ru_accepted_publications := 2\<rparr>\<rparr>"

definition sample_with_quirk :: Registry where
  "sample_with_quirk = sample_with_evidence\<lparr>
     rg_quirks := [(''q'', sample_quirk\<lparr>qr_source := sample_source\<lparr>es_publisher := sample_publisher\<rparr>\<rparr>)],
     rg_publishers := [(''p'', sample_publisher_state 3)], rg_state_revision := 4,
     rg_usage := (rg_usage sample_with_evidence)\<lparr>ru_quirks := 1, ru_accepted_publications := 3\<rparr>\<rparr>"

definition sample_next_generation :: Registry where
  "sample_next_generation = sample_with_evidence\<lparr>
     rg_devices := [(''d'', sample_device\<lparr>ds_generation := 2, ds_boot := 2\<rparr>)],
     rg_publishers := [(''p'', sample_publisher_state 3)], rg_state_revision := 4,
     rg_usage := (rg_usage sample_with_evidence)\<lparr>ru_accepted_publications := 3\<rparr>\<rparr>"

section \<open>Transitions\<close>

lemma sample_register_publisher:
  "register_publisher [] (sample_publisher\<lparr>pub_boot := 0\<rparr>) ''a'' sample_new =
     ((mutating Accepted)\<lparr>ar_assigned_publisher := sample_publisher\<rparr>, sample_registered)"
  by code_simp

lemma sample_register_device:
  "apply_publication no_hash [] (sample_publication PublicationKind.RegisterDevice 1) sample_registered =
     ((mutating Accepted)\<lparr>ar_device_generation := 1, ar_device_boot := 1\<rparr>, sample_with_device)"
  by code_simp

lemma sample_publish_capability:
  "apply_publication no_hash [] (sample_publication PublicationKind.PublishCapability 2) sample_with_device =
     (mutating Accepted, sample_with_evidence)"
  by code_simp

lemma sample_publish_quirk:
  "apply_publication no_hash [] (sample_publication PublicationKind.PublishQuirk 3) sample_with_evidence =
     (mutating Accepted, sample_with_quirk)"
  by code_simp

lemma sample_publish_generation:
  "apply_publication no_hash [] (sample_publication PublicationKind.PublishDeviceGeneration 3) sample_with_evidence =
     ((mutating Accepted)\<lparr>ar_device_generation := 2, ar_device_boot := 2\<rparr>, sample_next_generation)"
  by code_simp

text \<open>The executions that lead there.\<close>

definition sample_prefix :: "Operation list" where
  "sample_prefix =
     [Op_RegisterPublisher [] (sample_publisher\<lparr>pub_boot := 0\<rparr>) ''a''
        ((mutating Accepted)\<lparr>ar_assigned_publisher := sample_publisher\<rparr>),
      Op_Apply [] (sample_publication PublicationKind.RegisterDevice 1)
        ((mutating Accepted)\<lparr>ar_device_generation := 1, ar_device_boot := 1\<rparr>)]"

lemma sample_prefix_steps: "steps no_hash sample_new sample_prefix sample_with_device"
  unfolding sample_prefix_def
  by (rule steps_Cons [OF step_register_publisher [OF sample_register_publisher]
      steps_Cons [OF step_apply [OF sample_register_device] steps_Nil]])

lemma sample_reachable: "reachable no_hash [sample_schema] sample_limits sample_with_evidence"
proof -
  have "steps no_hash sample_with_device
      [Op_Apply [] (sample_publication PublicationKind.PublishCapability 2) (mutating Accepted)] sample_with_evidence"
    by (rule steps_Cons [OF step_apply [OF sample_publish_capability] steps_Nil])
  with sample_prefix_steps show ?thesis
    unfolding reachable_def sample_new_def using steps_append by blast
qed

text \<open>Lookups in the sample states.\<close>

lemma sample_lookups:
  "om_find ''p'' (rg_publishers sample_with_evidence) = Some (sample_publisher_state 2)"
  "om_find (''d'', ''c'') (rg_keys sample_with_evidence) = Some sample_key"
  "om_find ''d'' (rg_devices sample_with_evidence) = Some sample_device"
  "ks_records sample_key = [sample_stored]"
  by (simp_all add: sample_with_evidence_def sample_with_device_def sample_key_def om_find_def)

end
