(* ===== verification/Visibility.thy ===== *)
theory Visibility
  imports Generations Samples
begin

text \<open>
  From publication to answer. Two more invariants of executions, that serials only grow and that a
  publisher whose boot is not fenced is registered, make the end-to-end contract of ingestion
  provable: evidence that was accepted is current evidence in the resulting state, and the next query
  about the capability is answered from current evidence at least as authoritative.
\<close>

section \<open>Serials\<close>

definition serials_ok :: "Registry \<Rightarrow> bool" where
  "serials_ok reg \<longleftrightarrow>
     (\<forall>kid key s. om_find kid (rg_keys reg) = Some key \<longrightarrow> s \<in> set (ks_records key) \<longrightarrow>
        st_serial s < rg_next_serial reg)"

lemma serials_okD:
  "serials_ok reg \<Longrightarrow> om_find kid (rg_keys reg) = Some key \<Longrightarrow> s \<in> set (ks_records key) \<Longrightarrow> st_serial s < rg_next_serial reg"
  unfolding serials_ok_def by blast

lemma serials_ok_thinned:
  assumes "thinned reg reg'" and "rg_next_serial reg' = rg_next_serial reg" and "serials_ok reg"
  shows "serials_ok reg'"
  unfolding serials_ok_def
proof (intro allI impI)
  fix kid key' s assume new: "om_find kid (rg_keys reg') = Some key'" and s: "s \<in> set (ks_records key')"
  obtain key where old: "om_find kid (rg_keys reg) = Some key"
    using thinned_dom [OF assms(1), of kid] new by (cases "om_find kid (rg_keys reg)") auto
  obtain key1 where "om_find kid (rg_keys reg') = Some key1" "keeps_newest (ks_records key) (ks_records key1)"
    using assms(1) old by (rule thinned_find)
  with new s have "s \<in> set (ks_records key)" by (auto simp: keeps_newest_def)
  then show "st_serial s < rg_next_serial reg'"
    using serials_okD [OF assms(3) old] assms(2) by simp
qed

lemma evict_serials_ok: "serials_ok reg \<Longrightarrow> serials_ok (evict_if_needed_locked reg)"
  by (rule serials_ok_thinned [OF evict_if_needed_thinned]) simp_all

lemma supersede_serial [simp]: "st_serial (supersede_slot slot s) = st_serial s"
  by (simp add: supersede_slot_def)

lemma serials_ok_put:
  assumes "serials_ok reg" and "rg_keys reg' = om_put kid key (rg_keys reg)"
    and "rg_next_serial reg \<le> rg_next_serial reg'"
    and "\<And>s. s \<in> set (ks_records key) \<Longrightarrow> st_serial s < rg_next_serial reg'"
  shows "serials_ok reg'"
  unfolding serials_ok_def
proof (intro allI impI)
  fix kid' key' s assume "om_find kid' (rg_keys reg') = Some key'" "s \<in> set (ks_records key')"
  then show "st_serial s < rg_next_serial reg'"
    using assms(2,4) serials_okD [OF assms(1), of kid' key' s] assms(3)
    by (cases "kid' = kid") (auto intro: less_le_trans)
qed

definition room :: "Registry \<Rightarrow> bool" where
  "room reg \<longleftrightarrow> unat (rg_next_serial reg) + 1 < 2 ^ 64"

lemma room_next: "room reg \<Longrightarrow> rg_next_serial reg < rg_next_serial reg + 1 \<and> unat (rg_next_serial reg + 1) = unat (rg_next_serial reg) + 1"
  by (simp add: room_def word_less_nat_alt unat_word_ariths)

lemma append_serials_ok:
  assumes "serials_ok reg" and "room reg"
  shows "serials_ok (append_record kid slot r reg)"
proof (cases "om_find kid (rg_keys reg)")
  case (Some key)
  then have "st_serial s < rg_next_serial reg + 1" if "s \<in> set (ks_records key)" for s
    using serials_okD [OF assms(1) Some that] room_next [OF assms(2)] by (meson less_trans)
  with Some room_next [OF assms(2)] show ?thesis
    by (intro serials_ok_put [OF assms(1), where kid = kid and key = "key\<lparr>ks_records := map (supersede_slot slot) (ks_records key) @
          [\<lparr>st_record = r, st_persistent = Stale_None, st_slot = slot, st_serial = rg_next_serial reg\<rparr>]\<rparr>"])
      (auto simp: append_record_def Let_def)
qed (simp add: append_record_def assms(1))

lemma store_serials_ok: "serials_ok reg \<Longrightarrow> room reg \<Longrightarrow> serials_ok (snd (store_record r reg))"
  by (simp add: store_record_def Let_def evict_serials_ok append_serials_ok room_def)

lemma store_next_serial:
  "rg_next_serial (snd (store_record r reg)) = rg_next_serial reg \<or>
   rg_next_serial (snd (store_record r reg)) = rg_next_serial reg + 1"
proof -
  have "rg_next_serial (append_record (key_of r) s r a) = rg_next_serial a \<or>
      rg_next_serial (append_record (key_of r) s r a) = rg_next_serial a + 1" for s a
    by (simp add: append_record_def Let_def split: option.split)
  from this [of "slot_of r" reg] this [of "slot_of r" "evict_if_needed_locked reg"]
  show ?thesis by (simp add: store_record_def Let_def)
qed

lemma admit_serials_ok:
  assumes "serials_ok reg" and "room reg" and "om_find (key_of r) (rg_keys reg) = Some key"
  shows "serials_ok (snd (admit_record device key r reg)) \<and>
    (rg_next_serial (snd (admit_record device key r reg)) = rg_next_serial reg \<or>
     rg_next_serial (snd (admit_record device key r reg)) = rg_next_serial reg + 1)"
proof -
  have "serials_ok (reg\<lparr>rg_keys := om_put (key_of r) (raise_key_generation g key) (rg_keys reg)\<rparr>)" for g
    using serials_okD [OF assms(1,3)]
    by (intro serials_ok_put [OF assms(1)]) (auto simp: raise_key_generation_def Let_def split: if_splits)
  with assms(1,2) store_serials_ok
    store_next_serial [of "stamp_record device r\<lparr>cr_capability_generation := g\<rparr>"
      "reg\<lparr>rg_keys := om_put (key_of r) (raise_key_generation g key) (rg_keys reg)\<rparr>" for g]
  show ?thesis by (simp add: admit_record_def Let_def room_def)
qed

lemma open_key_serials_ok:
  assumes "serials_ok reg" and "open_key r reg = (c, reg')"
  shows "serials_ok reg' \<and> rg_next_serial reg' = rg_next_serial reg"
proof (cases "rg_keys reg' = rg_keys reg")
  case True
  with assms show ?thesis
    by (auto simp: open_key_def Let_def serials_ok_def simp del: split_paired_All split: option.splits if_splits)
next
  case False
  with assms(2) have "rg_keys reg' = om_put (key_of r) (empty_key_state\<lparr>ks_schema := cr_schema r\<rparr>) (rg_keys reg)"
    "rg_next_serial reg' = rg_next_serial reg"
    by (auto simp: open_key_def Let_def split: option.splits if_splits)
  then show ?thesis
    using serials_ok_put [OF assms(1), of reg' "key_of r" "empty_key_state\<lparr>ks_schema := cr_schema r\<rparr>"]
    by (simp add: empty_key_state_def)
qed

lemma dispatch_serials_ok:
  assumes "serials_ok reg" and "room reg"
  shows "serials_ok (snd (dispatch p reg)) \<and>
    (rg_next_serial (snd (dispatch p reg)) = rg_next_serial reg \<or>
     rg_next_serial (snd (dispatch p reg)) = rg_next_serial reg + 1)"
proof (cases "is_capability_publication p")
  case True
  then have eq: "dispatch p reg = apply_capability_locked p reg"
    by (auto simp: dispatch_def is_capability_publication_def)
  show ?thesis
  proof (cases rule: apply_capability_cases [of p reg])
    case (no_key r reg')
    with open_key_serials_ok [OF assms(1)] show ?thesis unfolding eq by simp
  next
    case (bad_key r key reg' code)
    with open_key_serials_ok [OF assms(1)] show ?thesis unfolding eq by simp
  next
    case (admitted v device key reg')
    with open_key_serials_ok [OF assms(1) admitted(4)] assms(2) admit_serials_ok [OF _ _ admitted(5), of device]
    show ?thesis unfolding eq by (simp add: room_def)
  qed (simp add: eq assms)
next
  case False
  then have "evidence_store (snd (dispatch p reg)) = evidence_store reg"
    by (simp add: dispatch_def is_capability_publication_def split: PublicationKind.split)
  then have "rg_keys (snd (dispatch p reg)) = rg_keys reg" "rg_next_serial (snd (dispatch p reg)) = rg_next_serial reg"
    by (simp_all add: evidence_store_def)
  with assms(1) show ?thesis unfolding serials_ok_def by simp
qed

lemma step_serials_ok:
  assumes "step h reg op reg'" and "serials_ok reg" and "room reg"
  shows "serials_ok reg' \<and> unat (rg_next_serial reg') \<le> unat (rg_next_serial reg) + 1"
proof -
  have same: "serials_ok reg' \<and> rg_next_serial reg' = rg_next_serial a" if "same_truth a reg'" "serials_ok a" for a
    using that unfolding serials_ok_def by (simp add: same_truth_fields)
  from step_truth [OF assms(1)] consider "same_truth reg reg'"
    | p where "same_truth (snd (dispatch p reg)) reg'"
    unfolding dispatched_def by blast
  then show ?thesis
  proof cases
    case 1
    with same [OF 1 assms(2)] show ?thesis by simp
  next
    case (2 p)
    with same [OF 2] dispatch_serials_ok [OF assms(2,3), of p] room_next [OF assms(3)] show ?thesis by auto
  qed
qed

lemma steps_serials_ok:
  assumes "steps h reg ops reg'" and "serials_ok reg" and "unat (rg_next_serial reg) + length ops < 2 ^ 64"
  shows "serials_ok reg' \<and> unat (rg_next_serial reg') \<le> unat (rg_next_serial reg) + length ops"
  using assms
proof (induction rule: steps.induct)
  case (steps_Cons reg op reg1 ops reg2)
  have "room reg" using steps_Cons.prems(2) by (simp add: room_def)
  from step_serials_ok [OF steps_Cons.hyps(1) steps_Cons.prems(1) this]
  show ?case using steps_Cons.IH steps_Cons.prems(2) by auto
qed simp

lemma new_serials_ok: "serials_ok (new_registry builtin limits) \<and> rg_next_serial (new_registry builtin limits) = 1"
  using new_registry_truth [of limits builtin]
  by (simp add: serials_ok_def same_truth_def view_defs empty_registry_def)

section \<open>Publisher states\<close>

text \<open>A publisher that has lost its authority has its boot fenced or is fenced itself.\<close>

definition publisher_ok :: "PublisherStateInternal \<Rightarrow> bool" where
  "publisher_ok st \<longleftrightarrow>
     pr_state (ps_record st) = PublisherState.Registered \<or> ps_publisher_fenced st \<or>
     \<not> gen_valid (pub_boot (pr_identity (ps_record st))) \<or>
     pub_boot (pr_identity (ps_record st)) \<in> set (ps_fenced_boots st)"

definition publishers_ok :: "Registry \<Rightarrow> bool" where
  "publishers_ok reg \<longleftrightarrow>
     om_ok (rg_publishers reg) \<and> length (rg_publishers reg) \<le> max_publishers (rg_limits reg) \<and>
     (\<forall>pid st. om_find pid (rg_publishers reg) = Some st \<longrightarrow> publisher_ok st)"

lemma publishers_ok_congr:
  "rg_publishers reg' = rg_publishers reg \<Longrightarrow> rg_limits reg' = rg_limits reg \<Longrightarrow> publishers_ok reg \<Longrightarrow> publishers_ok reg'"
  by (simp add: publishers_ok_def)

lemma publishers_ok_put:
  assumes "publishers_ok reg" and "om_find pid (rg_publishers reg) = Some st" and "publisher_ok st'"
  shows "publishers_ok (put_publisher pid st' reg)"
  using assms by (auto simp: publishers_ok_def put_publisher_def om_length_put_old)

lemma register_publishers_ok:
  assumes "publishers_ok reg"
  shows "publishers_ok (snd (register_publisher_locked now identity adapter reg))"
proof (cases "om_find (pub_id identity) (rg_publishers reg)")
  case None
  with assms show ?thesis
    by (auto simp: register_publisher_locked_def register_new_publisher_def publishers_ok_def Let_def
        publisher_ok_def om_length_emplace touch_locked_def)
next
  case (Some st)
  have "publisher_ok (fresh_boot now adapter (rg_epoch reg) st)" "publisher_ok (reaffirm_boot adapter (rg_epoch reg) st)"
    by (simp_all add: publisher_ok_def fresh_boot_def reaffirm_boot_def Let_def)
  from this [THEN publishers_ok_put [OF assms Some]] assms show ?thesis
    by (simp add: register_publisher_locked_def Some Let_def)
      (simp add: publishers_ok_def)
qed

lemma watermark_publishers_ok:
  assumes "publishers_ok reg" and "om_find (pub_id (pb_publisher p)) (rg_publishers reg) = Some st"
    and "pr_state (ps_record st') = pr_state (ps_record st)" "pr_identity (ps_record st') = pr_identity (ps_record st)"
    "ps_fenced_boots st' = ps_fenced_boots st" "ps_publisher_fenced st' = ps_publisher_fenced st"
  shows "publishers_ok (put_watermark p w st' reg)"
proof -
  have "publisher_ok st" using assms(1,2) by (simp add: publishers_ok_def)
  with assms(3-) have "publisher_ok (st'\<lparr>ps_watermarks := m\<rparr>)" for m by (simp add: publisher_ok_def)
  then show ?thesis unfolding put_watermark_def by (intro publishers_ok_put [OF assms(1,2)])
qed

lemma book_publishers_ok:
  assumes "publishers_ok reg" and "om_find (pub_id (pb_publisher p)) (rg_publishers reg) = Some st"
  shows "publishers_ok (book_rejection p w st reg)" "publishers_ok (book_acceptance h p w st res reg)"
proof -
  show "publishers_ok (book_rejection p w st reg)"
    by (rule publishers_ok_congr [rotated 2, OF watermark_publishers_ok [OF assms,
          of "st\<lparr>ps_record := (ps_record st)\<lparr>pr_rejected := pr_rejected (ps_record st) + 1\<rparr>\<rparr>"
             "w\<lparr>wm_rejected := pr_rejected (ps_record st) + 1\<rparr>"]])
      (simp_all add: book_rejection_def Let_def)
  show "publishers_ok (book_acceptance h p w st res reg)"
    by (rule publishers_ok_congr [OF book_acceptance_publishers]) (simp_all add: watermark_publishers_ok [OF assms])
qed

lemma evidence_publishers_ok:
  assumes "publishers_ok reg" and "check_authority reg p = Inr st"
  shows "publishers_ok (snd (apply_evidence h p st reg))"
proof -
  note st = check_authority_InrD(1) [OF assms(2)]
  obtain res reg1 where d: "dispatch p reg = (res, reg1)" by (cases "dispatch p reg")
  then have same: "rg_publishers reg1 = rg_publishers reg" "rg_limits reg1 = rg_limits reg"
    using dispatch_authority_fields [of p reg] by simp_all
  have ok1: "publishers_ok reg1" by (rule publishers_ok_congr [OF same assms(1)])
  have st1: "om_find (pub_id (pb_publisher p)) (rg_publishers reg1) = Some st" using st same by simp
  have dup: "publishers_ok (count_idempotent (put_watermark p w st reg))" for w
    by (rule publishers_ok_congr [rotated 2, OF watermark_publishers_ok [OF assms(1) st, of st w]]) simp_all
  show ?thesis
    using book_publishers_ok [OF assms(1) st] book_publishers_ok [OF ok1 st1] dup
    by (simp add: apply_evidence_def Let_def d split: SequenceVerdict.split)
qed

lemma apply_publishers_ok:
  assumes "publishers_ok reg"
  shows "publishers_ok (snd (apply_locked h now p reg))"
proof (cases rule: apply_locked_cases [of reg h now p])
  case (schema p')
  then show ?thesis
    by (intro publishers_ok_congr [OF _ _ assms])
      (auto simp: apply_schema_publication_def register_capability_schema_locked_def Let_def split: prod.splits if_splits)
next
  case (publisher p')
  then show ?thesis
    using register_publishers_ok [OF assms, of now "pb_publisher p'" "pb_reason p'"]
    by (cases "register_publisher_locked now (pb_publisher p') (pb_reason p') reg")
      (simp add: apply_publisher_publication_def publishers_ok_def)
next
  case (evidence p' st)
  then show ?thesis using evidence_publishers_ok [OF assms] by simp
qed (use assms in \<open>simp_all add: publishers_ok_def\<close>)

lemma lifecycle_publishers_ok:
  assumes "publishers_ok reg"
  shows "publishers_ok (snd (fence_publisher pid reason reg))" "publishers_ok (snd (retire_publisher_boot pid boot reason reg))"
    "publishers_ok (reset_publisher_liveness reason reg)"
proof -
  have touch: "publishers_ok (touch_locked r) = publishers_ok r" for r
    by (simp add: publishers_ok_def)
  have st: "publisher_ok st" if "om_find pid (rg_publishers reg) = Some st" for pid st
    using assms that unfolding publishers_ok_def by blast
  show "publishers_ok (snd (fence_publisher pid reason reg))"
    using assms by (auto simp: fence_publisher_def Let_def touch publisher_ok_def intro!: publishers_ok_put split: option.split)
  show "publishers_ok (snd (retire_publisher_boot pid boot reason reg))"
    using assms st by (auto simp: retire_publisher_boot_def Let_def touch publisher_ok_def intro!: publishers_ok_put
        split: option.split)
  have "publisher_ok (reset_liveness reason s)" if "publisher_ok s" for s
    using that by (auto simp: publisher_ok_def reset_liveness_def Let_def)
  with assms show "publishers_ok (reset_publisher_liveness reason reg)"
    by (auto simp: reset_publisher_liveness_def touch) (auto simp: publishers_ok_def)
qed

lemma step_publishers_ok: "step h reg op reg' \<Longrightarrow> publishers_ok reg \<Longrightarrow> publishers_ok reg'"
proof (induction rule: step.induct)
  case (step_register_schema schema reg status reg')
  then show ?case
    by (intro publishers_ok_congr [OF _ _ step_register_schema(2)])
      (auto simp: register_capability_schema_def register_capability_schema_locked_def Let_def
        split: prod.splits if_splits)
next
  case (step_register_publisher now identity adapter reg result reg')
  then show ?case
    using register_publishers_ok [of reg now identity adapter]
    by (auto simp: register_publisher_def split: if_splits)
next
  case (step_fence pid reason reg result reg')
  then show ?case using lifecycle_publishers_ok(1) [of reg pid reason] by simp
next
  case (step_retire pid boot reason reg result reg')
  then show ?case using lifecycle_publishers_ok(2) [of reg pid boot reason] by simp
next
  case (step_reset reg reason)
  then show ?case by (rule lifecycle_publishers_ok(3))
next
  case (step_apply now p reg result reg')
  then show ?case using apply_publishers_ok [of reg h now p] by (simp add: apply_publication_def)
qed (auto simp: advance_coordinator_epoch_def set_coordinator_epoch_def Let_def
      begin_shutdown_def clear_shutdown_def publishers_ok_def split: if_splits)

lemma new_publishers_ok: "publishers_ok (new_registry builtin limits)"
proof -
  have "rg_publishers (fold emplace_schema builtin reg) = rg_publishers reg" for reg
    by (induction builtin arbitrary: reg) (simp_all add: emplace_schema_def)
  then show ?thesis
    by (simp add: publishers_ok_def new_registry_def Let_def empty_registry_def)
qed

section \<open>Accepted evidence is stored\<close>

lemma append_record_find:
  assumes "om_find kid (rg_keys reg) = Some key"
  shows "\<exists>key'. om_find kid (rg_keys (append_record kid slot r reg)) = Some key' \<and>
    ks_records key' = map (supersede_slot slot) (ks_records key) @
      [\<lparr>st_record = r, st_persistent = Stale_None, st_slot = slot, st_serial = rg_next_serial reg\<rparr>]"
  using assms by (simp add: append_record_def Let_def)

lemma append_evict_keeps:
  assumes "serials_ok reg" and "om_find kid (rg_keys reg) = Some key"
  shows "\<exists>key' stored. om_find kid (rg_keys (evict_if_needed_locked (append_record kid slot r reg))) = Some key' \<and>
    stored \<in> set (ks_records key') \<and> st_record stored = r \<and> st_persistent stored = Stale_None"
proof -
  let ?new = "\<lparr>st_record = r, st_persistent = Stale_None, st_slot = slot, st_serial = rg_next_serial reg\<rparr>"
  obtain key1 where key1: "om_find kid (rg_keys (append_record kid slot r reg)) = Some key1"
    and recs: "ks_records key1 = map (supersede_slot slot) (ks_records key) @ [?new]"
    using append_record_find [OF assms(2)] by blast
  obtain key2 where key2: "om_find kid (rg_keys (evict_if_needed_locked (append_record kid slot r reg))) = Some key2"
    and thin: "keeps_newest (ks_records key1) (ks_records key2)"
    by (rule thinned_find [OF evict_if_needed_thinned key1])
  have "\<not> superseded (ks_records key1) ?new"
    using serials_okD [OF assms] by (force simp: superseded_def list_ex_iff recs dest: order.asym)
  then have "?new \<in> set (ks_records key2)" using thin unfolding keeps_newest_def recs by auto
  with key2 show ?thesis by fastforce
qed

lemma store_record_stored:
  assumes "store_record r reg = (res, reg')" and "ar_code res = Accepted"
    and "serials_ok reg" and "om_find (key_of r) (rg_keys reg) = Some key"
  shows "\<exists>key' stored. om_find (key_of r) (rg_keys reg') = Some key' \<and> stored \<in> set (ks_records key') \<and>
    st_record stored = r \<and> st_persistent stored = Stale_None"
proof -
  obtain key1 where "om_find (key_of r) (rg_keys (evict_if_needed_locked reg)) = Some key1"
    by (rule thinned_find [OF evict_if_needed_thinned assms(4)])
  from append_evict_keeps [OF evict_serials_ok [OF assms(3)] this] append_evict_keeps [OF assms(3,4)]
  show ?thesis
    using assms(1,2) by (auto simp: store_record_def Let_def split: if_splits)
qed

definition admitted_as :: "DeviceState \<Rightarrow> CapabilityRecord \<Rightarrow> CapabilityRecord \<Rightarrow> bool" where
  "admitted_as device r r' \<longleftrightarrow> (\<exists>g. r' = stamp_record device r\<lparr>cr_capability_generation := g\<rparr>)"

lemma admit_record_stored:
  assumes "admit_record device key r reg = (res, reg')" and "ar_code res = Accepted"
    and "serials_ok reg" and "om_find (key_of r) (rg_keys reg) = Some key"
  shows "\<exists>key' stored. om_find (key_of r) (rg_keys reg') = Some key' \<and> stored \<in> set (ks_records key') \<and>
    admitted_as device r (st_record stored) \<and> st_persistent stored = Stale_None"
proof -
  let ?reg = "\<lambda>g. reg\<lparr>rg_keys := om_put (key_of r) (raise_key_generation g key) (rg_keys reg)\<rparr>"
  obtain g where g: "store_record (stamp_record device r\<lparr>cr_capability_generation := g\<rparr>) (?reg g) = (res, reg')"
    using assms(1,2) by (auto simp: admit_record_def Let_def split: if_splits)
  have "serials_ok (?reg g)"
    using serials_okD [OF assms(3,4)]
    by (intro serials_ok_put [OF assms(3)]) (auto simp: raise_key_generation_def Let_def split: if_splits)
  from store_record_stored [OF g assms(2) this] show ?thesis
    unfolding admitted_as_def by auto
qed

lemma apply_capability_stored:
  assumes "apply_capability_locked p reg = (res, reg')" and "ar_code res = Accepted" and "serials_ok reg"
    and "validate_capability_record (pb_capability p) (rg_limits reg) = Ok"
  shows "\<exists>device key stored. om_find (cr_device (pb_capability p)) (rg_devices reg) = Some device \<and>
    om_find (key_of (pb_capability p)) (rg_keys reg') = Some key \<and> stored \<in> set (ks_records key) \<and>
    admitted_as device (pb_capability p) (st_record stored) \<and> st_persistent stored = Stale_None \<and>
    cr_device_generation (pb_capability p) = ds_generation device \<and>
    cr_device_boot (pb_capability p) = ds_boot device"
proof (cases rule: apply_capability_cases [of p reg])
  case (admitted v device key reg1)
  have v: "v = cr_value (pb_capability p)"
    using admitted(2) validated_is_normal(1) [OF validate_capability_record_okD(8) [OF assms(4)]] by simp
  have "serials_ok reg1" using open_key_serials_ok [OF assms(3) admitted(4)] by simp
  with admit_record_stored [OF admitted(7) [symmetric, unfolded assms(1)] assms(2) _ admitted(5)] admitted(3)
  show ?thesis
    by (auto simp: v check_capability_device_def find_device_locked_def split: option.splits if_splits)
next
  case (bad_key r key reg1 code)
  then have "code \<noteq> Accepted" by (auto simp: check_key_def split: if_splits)
  with bad_key assms(1,2) show ?thesis by auto
qed (use assms(1,2) in auto)

section \<open>Accepted evidence is current\<close>

lemma admitted_is_current:
  assumes "admitted_as device r (st_record stored)" and "st_persistent stored = Stale_None" and "\<not> cr_withdrawn r"
    and "cr_device_generation r = ds_generation device" and "cr_device_boot r = ds_boot device"
    and "publisher_is_authoritative reg r" and "pub_epoch (es_publisher (cr_source r)) = rg_epoch reg"
  shows "current_evidence reg stored device"
proof -
  obtain g where r: "st_record stored = stamp_record device r\<lparr>cr_capability_generation := g\<rparr>"
    using assms(1) unfolding admitted_as_def by blast
  have src: "cr_source (st_record stored) = cr_source r" by (simp add: r stamp_record_def)
  have "publisher_is_authoritative reg (st_record stored)"
    using assms(6) by (simp add: publisher_is_authoritative_def src)
  with assms(2-5,7) show ?thesis
    by (simp add: current_evidence_def live_authority_holds_def driver_axis_moved_def firmware_axis_moved_def
        runtime_axis_moved_def src) (simp add: r stamp_record_def)
qed

lemma prepare_binds:
  assumes "prepare reg p = Inr p'"
  shows "cr_source (pb_capability p') = (cr_source (pb_capability p))\<lparr>es_publisher := pb_publisher p\<rparr>"
    "cr_device (pb_capability p') = cr_device (pb_capability p)"
    "cr_capability (pb_capability p') = cr_capability (pb_capability p)"
    "cr_support (pb_capability p') = cr_support (pb_capability p)"
    "cr_conditions (pb_capability p') = cr_conditions (pb_capability p)"
    "is_capability_publication p \<Longrightarrow>
       normalize_value (rg_limits reg) (cr_value (pb_capability p)) = Inr (cr_value (pb_capability p'))"
  using assms
  by (auto simp: prepare_def bind_schema_def bind_value_def bind_publisher_def is_capability_publication_def Let_def
      split: option.splits if_splits sum.splits)

lemma authoritative_after_booking:
  assumes "publishers_ok reg" and "check_authority reg p = Inr st" and "gen_valid (pub_boot (pb_publisher p))"
    and "rg_publishers reg1 = rg_publishers reg" and "es_publisher (cr_source r) = pb_publisher p"
  shows "publisher_is_authoritative (book_acceptance h p w st res reg1) r"
proof -
  note auth = check_authority_InrD [OF assms(2)]
  have "publisher_ok st" using assms(1) auth(1) unfolding publishers_ok_def by blast
  with auth(2-4) assms(3) have "pr_state (ps_record st) = PublisherState.Registered"
    by (simp add: publisher_ok_def)
  with auth(2-4) assms(5) show ?thesis
    by (simp add: publisher_is_authoritative_iff book_acceptance_publishers put_watermark_def put_publisher_def)
qed

lemma dispatch_capability: "is_capability_publication p \<Longrightarrow> dispatch p reg = apply_capability_locked p reg"
  by (auto simp: dispatch_def is_capability_publication_def)

lemma accepted_capability_current:
  assumes ok: "serials_ok reg" "publishers_ok reg"
    and run: "apply_locked h now p reg = (res, reg')" "ar_code res = Accepted"
    and kind: "pb_kind p = PublicationKind.PublishCapability"
  shows "\<exists>device key stored. om_find (cr_device (pb_capability p)) (rg_devices reg') = Some device \<and>
    om_find (key_of (pb_capability p)) (rg_keys reg') = Some key \<and> stored \<in> set (ks_records key) \<and>
    current_evidence reg' stored device \<and> cr_support (st_record stored) = cr_support (pb_capability p) \<and>
    normalize_value (rg_limits reg) (cr_value (pb_capability p)) = Inr (cr_value (st_record stored)) \<and>
    cr_source (st_record stored) = (cr_source (pb_capability p))\<lparr>es_publisher := pb_publisher p\<rparr> \<and>
    id_valid (cr_device (pb_capability p)) \<and> id_valid (cr_capability (pb_capability p))"
proof (cases rule: apply_locked_cases [of reg h now p])
  case (evidence p' st)
  note fld = prepare_fields [OF evidence(2)] and binds = prepare_binds [OF evidence(2)]
  have cap: "is_capability_publication p'" "is_capability_publication p"
    using kind by (simp_all add: is_capability_publication_def fld)
  have valid: "validate_capability_record (pb_capability p') (rg_limits reg) = Ok"
    by (rule capability_publication_valid [OF fld(5) cap(1)])
  have present: "\<not> cr_withdrawn (pb_capability p')"
    using fld(5) kind by (auto simp: validate_publication_def fld split: if_splits)
  obtain reg1 where d: "apply_capability_locked p' reg = (res, reg1)"
    and reg': "reg' = book_acceptance h p' (open_watermark p' st) st res reg1"
    using run evidence(6) dispatch_capability [OF cap(1), of reg]
    by (cases rule: check_sequence_cases [of h p' st "open_watermark p' st"])
      (auto simp: apply_evidence_def Let_def accepted_def apply_code_accepted_def split: prod.splits)
  obtain device key stored where stored: "om_find (cr_device (pb_capability p')) (rg_devices reg) = Some device"
    "om_find (key_of (pb_capability p')) (rg_keys reg1) = Some key" "stored \<in> set (ks_records key)"
    "admitted_as device (pb_capability p') (st_record stored)" "st_persistent stored = Stale_None"
    "cr_device_generation (pb_capability p') = ds_generation device" "cr_device_boot (pb_capability p') = ds_boot device"
    using apply_capability_stored [OF d run(2) ok(1) valid] by blast
  have views: "rg_publishers reg1 = rg_publishers reg" "rg_epoch reg1 = rg_epoch reg" "rg_devices reg1 = rg_devices reg"
    using capability_views(1,2) [of p' reg] d by (simp_all add: view_defs)
  have same: "rg_devices reg' = rg_devices reg" "rg_keys reg' = rg_keys reg1" "rg_epoch reg' = rg_epoch reg"
    using booking_views(7,8) [of h p' "open_watermark p' st" st res reg1] views by (simp_all add: reg' view_defs)
  have "publisher_is_authoritative reg' (pb_capability p')"
    unfolding reg' using ok(2) evidence(5) validate_publication_boot [OF fld(5)] views(1)
    by (rule authoritative_after_booking) (simp add: binds(1) fld(1))
  moreover have "pub_epoch (es_publisher (cr_source (pb_capability p'))) = rg_epoch reg'"
    using check_authority_InrD(5) [OF evidence(5)] by (simp add: binds(1) fld(1) same(3))
  ultimately have "current_evidence reg' stored device"
    by (rule admitted_is_current [OF stored(4,5) present stored(6,7)])
  moreover have "cr_support (st_record stored) = cr_support (pb_capability p')"
    "cr_value (st_record stored) = cr_value (pb_capability p')" "cr_source (st_record stored) = cr_source (pb_capability p')"
    using stored(4) by (auto simp: admitted_as_def stamp_record_def)
  moreover have "key_of (pb_capability p') = key_of (pb_capability p)" by (simp add: key_of_def binds)
  ultimately show ?thesis
    using stored(1-3) binds(1-4) binds(6) [OF cap(2)] validate_capability_record_okD(1,3) [OF valid]
    by (auto simp: same)
next
  case (schema p')
  with kind prepare_fields(2) [OF schema(1)] show ?thesis by simp
next
  case (publisher p')
  with kind prepare_fields(2) [OF publisher(1)] show ?thesis by simp
qed (use run in \<open>auto simp: prepare_def check_authority_def Let_def split: option.splits if_splits\<close>)

definition device_ids_ok :: "Registry \<Rightarrow> bool" where
  "device_ids_ok reg \<longleftrightarrow> (\<forall>d s. om_find d (rg_devices reg) = Some s \<longrightarrow> di_id (ds_identity s) = d)"

interpretation device_ids: truth_invariant device_ids_ok
proof
  show "device_ids_ok reg'" if "same_truth reg reg'" "device_ids_ok reg" for reg reg'
    using that by (simp add: device_ids_ok_def same_truth_fields)
  show "device_ids_ok (empty_registry limits)" for limits
    by (simp add: device_ids_ok_def empty_registry_def)
  fix reg p assume "device_ids_ok reg"
  then have "device_ids_ok (snd (apply_device_locked p reg))"
    by (auto simp: device_ids_ok_def apply_device_locked_def register_new_device_def find_device_locked_def
        initial_device_state_def refresh_device_def Let_def split: option.splits if_splits)
  with \<open>device_ids_ok reg\<close> show "device_ids_ok (snd (dispatch p reg))"
    by (simp add: dispatch_def device_ids_ok_def split: PublicationKind.split)
qed

text \<open>What holds of a registry after an execution that has not exhausted the serials.\<close>

lemma run_context:
  assumes "steps h (new_registry builtin limits) ops reg" and "length ops + 1 < 2 ^ 64"
  shows "serials_ok reg" "publishers_ok reg" "device_ids_ok reg"
proof -
  show "serials_ok reg"
    using steps_serials_ok [OF assms(1)] new_serials_ok [of builtin limits] assms(2) by simp
  show "publishers_ok reg"
    using assms(1) new_publishers_ok by (rule steps_invariant) (rule step_publishers_ok)
  show "device_ids_ok reg"
    using assms(1) by (intro device_ids.inv_reachable) (auto simp: reachable_def)
qed

text \<open>
  C16: accepted evidence is visible at once. In every registry reached by fewer operations than the
  serial counter can absorb, a capability publication that is accepted as new leaves a record in the
  store that is current evidence for the device's current generation, with the published support, the
  normal form of the published value, and the publisher that was authenticated.
\<close>

theorem accepted_evidence_becomes_current:
  assumes "steps h (new_registry builtin limits) ops reg" and "length ops + 1 < 2 ^ 64"
    and "apply_publication h now p reg = (res, reg')" and "ar_code res = Accepted"
    and "pb_kind p = PublicationKind.PublishCapability"
  shows "\<exists>device key stored. om_find (cr_device (pb_capability p)) (rg_devices reg') = Some device \<and>
    om_find (key_of (pb_capability p)) (rg_keys reg') = Some key \<and> stored \<in> set (ks_records key) \<and>
    current_evidence reg' stored device \<and> cr_support (st_record stored) = cr_support (pb_capability p) \<and>
    normalize_value (rg_limits reg) (cr_value (pb_capability p)) = Inr (cr_value (st_record stored)) \<and>
    cr_source (st_record stored) = (cr_source (pb_capability p))\<lparr>es_publisher := pb_publisher p\<rparr>"
  using accepted_capability_current [OF run_context(1,2) [OF assms(1,2)] assms(3) [unfolded apply_publication_def] assms(4,5)]
  by blast

section \<open>Accepted evidence is answered\<close>

lemma resolve_with_current:
  assumes "om_find (di_id (ds_identity device), capability) (rg_keys reg) = Some key"
    and "stored \<in> set (ks_records key)" and "current_evidence reg stored device"
  shows "let answer = resolve_locked reg device capability 0 env in
    rc_current answer \<and> rc_known answer \<and> \<not> is_stale (rc_staleness answer) \<and>
    (\<exists>winner\<in>set (ks_records key). current_evidence reg winner device \<and>
       rc_declared_support answer = cr_support (st_record winner) \<and> rc_value answer = cr_value (st_record winner) \<and>
       authority (source_of stored) \<le> authority (source_of winner))"
proof -
  let ?cs = "current_candidates reg device (ds_generation device) key"
  let ?w = "pick_winner (hd ?cs) (tl ?cs)"
  have target: "resolution_target device 0 = ds_generation device"
    by (simp add: resolution_target_def gen_valid_def)
  have in_cs: "stored \<in> set ?cs" using assms(2,3) by (simp add: current_candidates_iff)
  then have ne: "?cs \<noteq> []" by auto
  have "?w \<in> set ?cs" using pick_winner_in [of "hd ?cs" "tl ?cs"] ne by simp
  then have "?w \<in> set (ks_records key)" "current_evidence reg ?w device"
    by (simp_all add: current_candidates_iff)
  moreover have "authority (source_of stored) \<le> authority (source_of ?w)"
    by (rule pick_winner_greatest [OF ne in_cs])
  ultimately show ?thesis
    using assms(1) ne
    by (auto simp: resolve_locked_def resolve_current_def resolve_base_def Let_def target is_stale_def)
qed

text \<open>
  C5: what was accepted is what is answered. After an accepted capability publication the next query
  about that capability succeeds, is current, and reports the support and value of a record that is
  current evidence and whose source is at least as authoritative as the publication's.
\<close>

theorem accepted_evidence_is_answered:
  assumes "steps h (new_registry builtin limits) ops reg" and "length ops + 1 < 2 ^ 64"
    and "apply_publication h now p reg = (res, reg')" and "ar_code res = Accepted"
    and "pb_kind p = PublicationKind.PublishCapability"
  shows "\<exists>answer key winner device.
    query_capability reg' (cr_device (pb_capability p)) 0 (cr_capability (pb_capability p)) env True = Inr answer \<and>
    rc_current answer \<and> rc_known answer \<and> \<not> is_stale (rc_staleness answer) \<and>
    om_find (cr_device (pb_capability p)) (rg_devices reg') = Some device \<and>
    om_find (key_of (pb_capability p)) (rg_keys reg') = Some key \<and> winner \<in> set (ks_records key) \<and>
    current_evidence reg' winner device \<and>
    rc_declared_support answer = cr_support (st_record winner) \<and> rc_value answer = cr_value (st_record winner) \<and>
    source_authority (es_source_class (cr_source (pb_capability p))) \<le> authority (source_of winner)"
proof -
  let ?c = "pb_capability p"
  note run = assms(3) [unfolded apply_publication_def]
  obtain device key stored where st: "om_find (cr_device ?c) (rg_devices reg') = Some device"
    "om_find (key_of ?c) (rg_keys reg') = Some key" "stored \<in> set (ks_records key)" "current_evidence reg' stored device"
    "cr_source (st_record stored) = (cr_source ?c)\<lparr>es_publisher := pb_publisher p\<rparr>"
    "id_valid (cr_device ?c)" "id_valid (cr_capability ?c)"
    using accepted_capability_current [OF run_context(1,2) [OF assms(1,2)] run assms(4,5)] by blast
  have "device_ids_ok reg'"
    using run_context(3) [OF assms(1,2)] step_apply [OF assms(3)] device_ids.inv_step by blast
  with st(1,2) have "om_find (di_id (ds_identity device), cr_capability ?c) (rg_keys reg') = Some key"
    by (simp add: device_ids_ok_def key_of_def)
  note answer = resolve_with_current [OF this st(3,4), of env, unfolded Let_def]
  moreover have "source_authority (es_source_class (cr_source ?c)) = authority (source_of stored)"
    by (simp add: authority_def source_of_def st(5))
  ultimately show ?thesis
    using st(1,2,6,7) by (auto simp: query_capability_def find_device_locked_def Let_def)
qed

end
