(* ===== verification/Witnesses.thy ===== *)
theory Witnesses
  imports Visibility
begin

text \<open>
  The hypotheses of the theorems about values, quirks, publishers, resolution, retention and generations hold of
  states the program reaches: each theorem is applied to the sample registry.
\<close>

section \<open>Values, schemas and quirks\<close>

theorem normalize_value_idempotent_witness:
  "validate_value sample_limits (V_FeatureSet [''a'', ''b'']) = Ok \<and>
   normalize_value sample_limits (V_FeatureSet [''a'', ''b'']) = Inr (V_FeatureSet [''a'', ''b''])"
proof -
  have "normalize_value sample_limits (V_FeatureSet [''b'', ''a'', ''b'']) = Inr (V_FeatureSet [''a'', ''b''])"
    by code_simp
  then show ?thesis by (rule normalize_value_idempotent)
qed

theorem normalize_feature_set_canonical_witness:
  "normalize_value sample_limits (V_FeatureSet [''b'', ''a'', ''b'']) =
   normalize_value sample_limits (V_FeatureSet [''a'', ''b''])"
  by (rule normalize_feature_set_canonical) auto

theorem validate_value_bounds_depth_witness:
  "value_depth (V_Record [(''x'', Some (V_Record [(''y'', Some (V_Boolean True))]))]) \<le> max_record_depth sample_limits"
proof -
  have "validate_value sample_limits (V_Record [(''x'', Some (V_Record [(''y'', Some (V_Boolean True))]))]) = Ok"
    by code_simp
  then show ?thesis by (rule validate_value_bounds_depth)
qed

theorem schema_token_versioned_witness:
  "\<exists>base digits. ''compute.fp8.v2'' = base @ ''.v'' @ digits \<and> digits \<noteq> [] \<and> list_all is_digit digits"
proof -
  let ?schema = "\<lparr>cs_id = ''compute.fp8.v2'', cs_capability = ''compute.fp8'', cs_domain = CapabilityDomain.Compute,
     cs_value_kind = ValueKind.Boolean, cs_canonical_name = ''fp8'', cs_unit = []\<rparr>"
  have "validate_capability_schema ?schema sample_limits = Ok" by code_simp
  from schema_token_versioned [OF this] show ?thesis by simp
qed

definition sample_driver_quirk :: QuirkRecord where
  "sample_driver_quirk = sample_quirk\<lparr>qr_applicability := (qr_applicability sample_quirk)
     \<lparr>qa_driver_ranges := [\<lparr>vr_minimum = parse_version ''1'', vr_maximum = parse_version ''2'',
        vr_include_maximum = False\<rparr>]\<rparr>\<rparr>"

definition sample_driver_software :: DeviceSoftwareState where
  "sample_driver_software = sample_software\<lparr>sw_driver := \<lparr>dr_id = ''n'', dr_version = ''1.5''\<rparr>\<rparr>"

theorem applied_quirk_saw_versions_witness:
  "\<exists>r\<in>set (qa_driver_ranges (qr_applicability sample_driver_quirk)). range_contains r (parse_version ''1.5'')"
proof -
  have "qap_result (evaluate_quirk sample_driver_quirk sample_identity sample_driver_software []) = Applies"
    by code_simp
  from applied_quirk_saw_versions [OF this] show ?thesis
    by (simp add: sample_driver_quirk_def sample_driver_software_def)
qed

section \<open>Authority\<close>

definition sample_fenced :: Registry where
  "sample_fenced = snd (fence_publisher ''p'' ''r'' sample_with_evidence)"

lemma sample_fence: "fence_publisher ''p'' ''r'' sample_with_evidence = (mutating Accepted, sample_fenced)"
  by (simp add: sample_fenced_def fence_publisher_def sample_lookups Let_def sample_publisher_state_def)

lemma sample_fenced_find:
  "\<exists>st. om_find ''p'' (rg_publishers sample_fenced) = Some st \<and> 1 \<in> set (ps_fenced_boots st) \<and> ps_publisher_fenced st"
  by (simp add: sample_fenced_def fence_publisher_def sample_lookups Let_def put_publisher_def
      sample_publisher_state_def sample_publisher_record_def sample_publisher_def gen_valid_def)

lemma sample_epoch_steps:
  "steps no_hash reg [Op_AdvanceEpoch (fst (advance_coordinator_epoch reg))] (snd (advance_coordinator_epoch reg))"
  by (rule steps_Cons [OF step_advance_epoch steps_Nil]) simp

theorem fenced_boot_never_regains_authority_witness:
  "let p = sample_publication PublicationKind.PublishCapability 3; reg = snd (advance_coordinator_epoch sample_fenced)
   in \<not> accepted (fst (apply_publication no_hash [] p reg)) \<and> same_truth reg (snd (apply_publication no_hash [] p reg))"
proof -
  obtain st where "om_find ''p'' (rg_publishers sample_fenced) = Some st" "1 \<in> set (ps_fenced_boots st)"
    using sample_fenced_find by blast
  with fenced_boot_never_regains_authority [OF _ _ sample_epoch_steps, where st = st and now = "[]" and
      p = "sample_publication PublicationKind.PublishCapability 3"]
  show ?thesis
    unfolding Let_def by (simp add: sample_publication_def sample_publisher_def)
qed

theorem fenced_publisher_cannot_reregister_witness:
  "\<not> accepted (fst (register_publisher [] \<lparr>pub_id = ''p'', pub_boot = 0, pub_epoch = 1\<rparr> ''a'' sample_fenced))"
  by (rule fenced_publisher_cannot_reregister [OF sample_fence _ steps_Nil [where hash_string = no_hash]]) simp

theorem accepted_evidence_has_authority_witness:
  "\<exists>st. om_find ''p'' (rg_publishers sample_with_device) = Some st \<and> \<not> ps_publisher_fenced st \<and>
     wm_max_sequence (watermark_of st 1) \<le> 2"
  using accepted_evidence_has_authority
    [of no_hash "[]" "sample_publication PublicationKind.PublishCapability 2" sample_with_device]
  by (auto simp: sample_publish_capability) (auto simp: sample_publication_def sample_publisher_def)

theorem accepted_sequence_never_applies_again_witness:
  "same_truth sample_with_evidence
     (snd (apply_publication no_hash [] (sample_publication PublicationKind.PublishQuirk 2) sample_with_evidence))"
  by (rule accepted_sequence_never_applies_again [OF sample_publish_capability _ _ steps_Nil])
    (simp_all add: sample_publication_def is_evidence_def)

theorem shutdown_refuses_everything_witness:
  "apply_publication no_hash [] (sample_publication PublicationKind.PublishQuirk 3) (begin_shutdown sample_with_evidence) =
     (result_of RejectedShuttingDown, begin_shutdown sample_with_evidence) \<and>
   register_publisher [] sample_publisher ''a'' (begin_shutdown sample_with_evidence) =
     (result_of RejectedShuttingDown, begin_shutdown sample_with_evidence)"
  by (rule shutdown_refuses_everything) (simp add: begin_shutdown_def)

section \<open>Resolution\<close>

lemma sample_candidates:
  "current_candidates sample_with_evidence sample_device (resolution_target sample_device 0) sample_key = [sample_stored]"
  by code_simp

lemma sample_device_id: "di_id (ds_identity sample_device) = ''d''"
  by (simp add: sample_device_def sample_identity_def)

theorem usable_rests_on_current_evidence_witness:
  "\<exists>key stored. om_find (''d'', ''c'') (rg_keys sample_with_evidence) = Some key \<and> stored \<in> set (ks_records key) \<and>
     current_evidence sample_with_evidence stored sample_device"
proof -
  have "usable (resolve_locked sample_with_evidence sample_device ''c'' 0 [])" by code_simp
  from usable_rests_on_current_evidence [OF this] show ?thesis unfolding sample_device_id by blast
qed

theorem pinned_history_is_not_current_witness:
  "\<not> rc_current (resolve_locked sample_with_evidence sample_device ''c'' 7 [])"
  using pinned_history_is_not_current [of 7 sample_device sample_with_evidence "''c''" "[]"]
  by (simp add: gen_valid_def sample_device_def)

theorem answer_has_greatest_authority_witness:
  "rc_declared_support (resolve_locked sample_with_evidence sample_device ''c'' 0 []) = SupportState.SupportedNative"
  using answer_has_greatest_authority [of sample_device "''c''" sample_with_evidence sample_key 0 "[]"]
  by (simp add: sample_candidates sample_lookups sample_device_id)
    (simp add: sample_stored_def sample_record_def)

theorem unauthorised_evidence_is_never_current_witness:
  "unauthorised sample_fenced sample_stored \<and> \<not> rc_current (resolve_locked sample_fenced sample_device ''c'' 0 []) \<and>
   \<not> usable (resolve_locked sample_fenced sample_device ''c'' 0 [])"
proof -
  obtain st where "om_find ''p'' (rg_publishers sample_fenced) = Some st" "1 \<in> set (ps_fenced_boots st)"
    using sample_fenced_find by blast
  then have dead: "unauthorised sample_fenced sample_stored"
    by (simp add: unauthorised_def source_of_def sample_stored_def sample_record_def sample_source_def sample_publisher_def)
  moreover have "rg_keys sample_fenced = rg_keys sample_with_evidence"
    by (simp add: sample_fenced_def fence_publisher_def sample_lookups Let_def put_publisher_def)
  then have "om_find (di_id (ds_identity sample_device), ''c'') (rg_keys sample_fenced) = Some sample_key"
    by (simp add: sample_device_id sample_lookups)
  ultimately show ?thesis
    using unauthorised_evidence_is_never_current [of sample_fenced sample_device 1 sample_key "''c''" 0 "[]"]
    by (simp add: sample_lookups(4))
qed

definition sample_denial :: StoredRecord where
  "sample_denial = sample_stored\<lparr>st_record := (st_record sample_stored)\<lparr>cr_support := SupportState.Unsupported\<rparr>\<rparr>"

theorem ambiguous_iff_top_sources_disagree_witness:
  "classify_contradiction [sample_stored, sample_denial] sample_stored = ContradictionState.Ambiguous \<longleftrightarrow>
     assertion sample_stored \<noteq> assertion sample_denial"
  using ambiguous_iff_top_sources_disagree [of sample_stored "[sample_stored, sample_denial]"]
  by (auto simp: sample_denial_def source_of_def)

theorem blocking_quirk_prevents_use_witness:
  "\<not> usable (resolve_locked sample_with_quirk sample_device ''c'' 0 [])"
proof (rule blocking_quirk_prevents_use)
  let ?q = "sample_quirk\<lparr>qr_source := sample_source\<lparr>es_publisher := sample_publisher\<rparr>\<rparr>"
  show "length (rg_quirks sample_with_quirk) \<le> max_query_results (rg_limits sample_with_quirk)"
    "?q \<in> set (om_values (rg_quirks sample_with_quirk))" "applying sample_device ''c'' [] ?q"
    "qr_severity ?q = Unusable \<or> qr_severity ?q = Fatal"
    by code_simp+
qed

section \<open>Retention and generations\<close>

theorem eviction_keeps_unsuperseded_witness:
  "\<exists>key'. om_find (''d'', ''c'') (rg_keys (evict_if_needed_locked sample_with_evidence)) = Some key' \<and>
     sample_stored \<in> set (ks_records key')"
  using eviction_keeps_unsuperseded [OF sample_lookups(2), of sample_stored]
  by (auto simp: sample_lookups(4) superseded_def)

theorem knowledge_generations_never_regress_witness:
  "\<exists>key'. om_find (''d'', ''c'') (rg_keys sample_with_quirk) = Some key' \<and> ks_generation sample_key \<le> ks_generation key'"
  using knowledge_generations_never_regress
    [OF steps_Cons [OF step_apply [OF sample_publish_quirk] steps_Nil]] sample_lookups(2)
  by blast

theorem superseded_generation_never_returns_witness:
  "\<exists>s. om_find ''d'' (rg_devices sample_next_generation) = Some s \<and>
     is_stale (compute_staleness_locked sample_next_generation sample_stored s (ds_generation s) True)"
proof -
  let ?s = "sample_device\<lparr>ds_generation := 2, ds_boot := 2\<rparr>"
  have "om_find ''d'' (rg_devices sample_next_generation) = Some ?s"
    by (simp add: sample_next_generation_def om_find_def)
  from superseded_generation_never_returns [OF this, of sample_stored no_hash "[]"] show ?thesis
    by (auto simp: sample_stored_def sample_record_def)
qed

section \<open>Visibility\<close>

theorem accepted_evidence_becomes_current_witness:
  "\<exists>device key stored. om_find ''d'' (rg_devices sample_with_evidence) = Some device \<and>
     om_find (''d'', ''c'') (rg_keys sample_with_evidence) = Some key \<and> stored \<in> set (ks_records key) \<and>
     current_evidence sample_with_evidence stored device"
  using accepted_evidence_becomes_current [OF sample_prefix_steps [unfolded sample_new_def] _ sample_publish_capability]
  by (auto simp: sample_prefix_def sample_publication_def sample_record_def key_of_def)

theorem accepted_evidence_is_answered_witness:
  "\<exists>answer. query_capability sample_with_evidence ''d'' 0 ''c'' [] True = Inr answer \<and> rc_current answer"
  using accepted_evidence_is_answered [OF sample_prefix_steps [unfolded sample_new_def] _ sample_publish_capability,
      where env = "[]"]
  by (auto simp: sample_prefix_def sample_publication_def sample_record_def key_of_def)

end
