(* ===== verification/Device_Lifecycle.thy ===== *)
theory Device_Lifecycle
  imports Visibility
begin

text \<open>
  The device handler (\<^verbatim>\<open>apply_device_locked\<close>): software axes and generation boundaries. Firmware,
  driver and runtime are refreshed by three copies of one rule; the rule is a locale, interpreted on
  each copy. Boundaries are shown to move the generation and the boot together.
\<close>

section \<open>Software axes\<close>

locale software_axis =
  fixes identified :: "DeviceSoftwareState \<Rightarrow> bool"
    and part :: "DeviceSoftwareState \<Rightarrow> 'a"
    and generation :: "DeviceSoftwareState \<Rightarrow> u64"
  assumes merge_unidentified: "\<not> identified observed \<Longrightarrow> part (refresh_software previous observed) = part previous"
    and merge_identified: "identified observed \<Longrightarrow> part (refresh_software previous observed) = part observed"
    and keep_unidentified: "\<not> identified observed \<Longrightarrow> \<not> identified previous \<Longrightarrow>
      generation (refresh_software previous observed) = generation previous"
    and identified_part: "part a = part b \<Longrightarrow> identified a = identified b"
    and advance: "identified (refresh_software previous observed) \<Longrightarrow>
      generation (refresh_software previous observed) =
        (if identified previous \<and> part previous = part (refresh_software previous observed)
         then (if gen_valid (generation previous) then generation previous else gen_first)
         else (if gen_valid (generation previous) then gen_next (generation previous) else gen_first))"
begin

lemma moves_exactly_on_change:
  assumes "identified previous \<Longrightarrow> gen_valid (generation previous)"
  shows "generation (refresh_software previous observed) = generation previous \<longleftrightarrow>
    \<not> identified observed \<or> (identified previous \<and> part observed = part previous)"
proof (cases "identified observed")
  case True
  then have new: "part (refresh_software previous observed) = part observed"
    "identified (refresh_software previous observed)"
    using merge_identified identified_part by blast+
  with True assms show ?thesis
    by (auto simp: advance gen_valid_def gen_next_def gen_first_def)
next
  case False
  then have same: "part (refresh_software previous observed) = part previous" by (rule merge_unidentified)
  show ?thesis
  proof (cases "identified previous")
    case True
    with same have "identified (refresh_software previous observed)" using identified_part by blast
    with True False assms same show ?thesis by (simp add: advance)
  next
    case False
    with \<open>\<not> identified observed\<close> show ?thesis by (simp add: keep_unidentified)
  qed
qed

end

lemmas software_defs = refresh_software_def merge_software_def advance_firmware_generation_def
  advance_driver_generation_def advance_runtime_generation_def

interpretation firmware_axis: software_axis "\<lambda>s. id_valid (fw_id (sw_firmware s))" sw_firmware sw_firmware_generation
  by unfold_locales (auto simp: software_defs Let_def)

interpretation driver_axis: software_axis "\<lambda>s. id_valid (dr_id (sw_driver s))" sw_driver sw_driver_generation
  by unfold_locales (auto simp: software_defs Let_def)

interpretation runtime_axis: software_axis "\<lambda>s. id_valid (rt_id (sw_runtime s))" sw_runtime sw_runtime_generation
  by unfold_locales (auto simp: software_defs Let_def)

definition axes_numbered :: "DeviceSoftwareState \<Rightarrow> bool" where
  "axes_numbered s \<longleftrightarrow>
     (id_valid (fw_id (sw_firmware s)) \<longrightarrow> gen_valid (sw_firmware_generation s)) \<and>
     (id_valid (dr_id (sw_driver s)) \<longrightarrow> gen_valid (sw_driver_generation s)) \<and>
     (id_valid (rt_id (sw_runtime s)) \<longrightarrow> gen_valid (sw_runtime_generation s))"

text \<open>
  A software generation moves exactly when the identified software changed. On each of the three
  axes the generation stays when the observation does not identify the axis or reports the software
  already known, and it moves in every other case; an unidentified axis keeps the software that
  another observer reported.
\<close>

theorem software_generation_moves_exactly_on_change:
  assumes "axes_numbered previous"
  shows "(sw_firmware_generation (refresh_software previous observed) = sw_firmware_generation previous \<longleftrightarrow>
            \<not> id_valid (fw_id (sw_firmware observed)) \<or>
            (id_valid (fw_id (sw_firmware previous)) \<and> sw_firmware observed = sw_firmware previous)) \<and>
         (sw_driver_generation (refresh_software previous observed) = sw_driver_generation previous \<longleftrightarrow>
            \<not> id_valid (dr_id (sw_driver observed)) \<or>
            (id_valid (dr_id (sw_driver previous)) \<and> sw_driver observed = sw_driver previous)) \<and>
         (sw_runtime_generation (refresh_software previous observed) = sw_runtime_generation previous \<longleftrightarrow>
            \<not> id_valid (rt_id (sw_runtime observed)) \<or>
            (id_valid (rt_id (sw_runtime previous)) \<and> sw_runtime observed = sw_runtime previous)) \<and>
         (\<not> id_valid (fw_id (sw_firmware observed)) \<longrightarrow>
            sw_firmware (refresh_software previous observed) = sw_firmware previous)"
  using assms firmware_axis.moves_exactly_on_change driver_axis.moves_exactly_on_change
    runtime_axis.moves_exactly_on_change firmware_axis.merge_unidentified
  unfolding axes_numbered_def by blast

theorem software_generation_moves_exactly_on_change_witness:
  "sw_driver_generation (refresh_software sample_software sample_software) = sw_driver_generation sample_software"
proof -
  have "axes_numbered sample_software" by code_simp
  from software_generation_moves_exactly_on_change [OF this, of sample_software] show ?thesis
    by (simp add: sample_software_def id_valid_def)
qed

section \<open>Boundaries\<close>

lemma apply_device_known:
  assumes "om_find (di_id (reg_identity (pb_device p))) (rg_devices reg) = Some s"
  shows "om_find (di_id (reg_identity (pb_device p))) (rg_devices (snd (apply_device_locked p reg))) =
    Some (refresh_device (opens_boundary p s) (pb_device p) s)"
  using assms by (simp add: apply_device_locked_def find_device_locked_def Let_def)

text \<open>
  The stored incarnation of a device is the one it was first registered with; a registration never
  updates it. So a device that comes back under a new incarnation opens a new generation and a new
  boot with every registration, not only with the first one: registering it twice in the same way
  moves both by two.
\<close>

theorem changed_incarnation_reopens_generation:
  assumes "om_find (di_id (reg_identity (pb_device p))) (rg_devices reg) = Some s"
    and "di_incarnation (reg_identity (pb_device p)) \<noteq> di_incarnation (ds_identity s)"
  shows "\<exists>s'. om_find (di_id (reg_identity (pb_device p)))
      (rg_devices (snd (apply_device_locked p (snd (apply_device_locked p reg))))) = Some s' \<and>
    di_incarnation (ds_identity s') = di_incarnation (ds_identity s) \<and>
    ds_generation s' = ds_generation s + 2 \<and> ds_boot s' = ds_boot s + 2"
proof -
  note one = apply_device_known [OF assms(1)]
  note two = apply_device_known [OF one]
  show ?thesis
    using assms(2) unfolding two
    by (simp add: refresh_device_def opens_boundary_def gen_next_def Let_def add.assoc)
qed

definition sample_reset :: Publication where
  "sample_reset = (sample_publication PublicationKind.RegisterDevice 3)
     \<lparr>pb_device := sample_registration\<lparr>reg_identity := sample_identity\<lparr>di_incarnation := ''j''\<rparr>\<rparr>\<rparr>"

theorem changed_incarnation_reopens_generation_witness:
  "\<exists>s'. om_find ''d'' (rg_devices (snd (apply_device_locked sample_reset
      (snd (apply_device_locked sample_reset sample_with_evidence))))) = Some s' \<and> ds_generation s' = 3"
proof -
  have "di_id (reg_identity (pb_device sample_reset)) = ''d''" "di_incarnation (reg_identity (pb_device sample_reset)) = ''j''"
    "di_incarnation (ds_identity sample_device) = ''i''" "ds_generation sample_device = 1"
    by (simp_all add: sample_reset_def sample_registration_def sample_identity_def sample_device_def)
  with changed_incarnation_reopens_generation [of sample_reset sample_with_evidence sample_device]
  show ?thesis by (auto simp: sample_lookups)
qed

end
