(* ===== verification/Rejection.thy ===== *)
theory Rejection
  imports Visibility
begin

text \<open>
  What a refused publication does to the registry. Every refusal leaves devices, evidence, quirks and
  compatibility facts as they were, except three refusals of the capability handler, which comes to
  them after it has written: a full index, a stale capability generation and backpressure.
\<close>

lemma open_key_known: "om_find (key_of r) (rg_keys reg) \<noteq> None \<Longrightarrow> open_key r reg = (None, reg)"
  by (auto simp: open_key_def)

lemma open_key_fresh_schema:
  "om_find (key_of r) (rg_keys reg) = None \<Longrightarrow> open_key r reg = (None, reg') \<Longrightarrow>
   om_find (key_of r) (rg_keys reg') = Some key \<Longrightarrow> ks_schema key = cr_schema r"
  by (auto simp: open_key_def Let_def empty_key_state_def split: if_splits)

lemma admit_code:
  "\<not> accepted (fst (admit_record device key r reg)) \<Longrightarrow>
   ar_code (fst (admit_record device key r reg)) = RejectedBackpressure"
  by (auto simp: admit_record_def store_record_def Let_def split: if_splits)

definition late_refusals :: "ApplyCode set" where
  "late_refusals = {RejectedLimit, RejectedStaleCapabilityGeneration, RejectedBackpressure}"

lemma capability_refusal:
  assumes "\<not> accepted (fst (apply_capability_locked p reg))"
    and "ar_code (fst (apply_capability_locked p reg)) \<notin> late_refusals"
  shows "snd (apply_capability_locked p reg) = reg"
proof (cases rule: apply_capability_cases [of p reg])
  case (bad_key r key reg' code)
  with assms(2) have code: "code = RejectedValidation" and mismatch: "ks_schema key \<noteq> cr_schema r"
    by (auto simp: check_key_def late_refusals_def split: if_splits)
  with bad_key open_key_fresh_schema have "om_find (key_of r) (rg_keys reg) \<noteq> None" by blast
  with bad_key open_key_known show ?thesis by simp
next
  case (admitted v device key reg')
  with assms admit_code show ?thesis by (simp add: late_refusals_def)
qed (use assms in \<open>simp_all add: late_refusals_def\<close>)

lemma knowledge_operations:
  "\<not> accepted (fst (withdraw_quirk q reg)) \<Longrightarrow> snd (withdraw_quirk q reg) = reg"
  "\<not> accepted (fst (publish_quirk q reg)) \<Longrightarrow> snd (publish_quirk q reg) = reg"
  "\<not> accepted (fst (withdraw_compatibility f reg)) \<Longrightarrow> snd (withdraw_compatibility f reg) = reg"
  "\<not> accepted (fst (publish_compatibility f reg)) \<Longrightarrow> snd (publish_compatibility f reg) = reg"
proof -
  have "accepted (fst (withdraw_quirk q reg)) \<or> snd (withdraw_quirk q reg) = reg"
    "accepted (fst (publish_quirk q reg)) \<or> snd (publish_quirk q reg) = reg"
    "accepted (fst (withdraw_compatibility f reg)) \<or> snd (withdraw_compatibility f reg) = reg"
    "accepted (fst (publish_compatibility f reg)) \<or> snd (publish_compatibility f reg) = reg"
    by (simp_all add: withdraw_quirk_def publish_quirk_def withdraw_compatibility_def publish_compatibility_def
        split: option.split)
  then show "\<not> accepted (fst (withdraw_quirk q reg)) \<Longrightarrow> snd (withdraw_quirk q reg) = reg"
    "\<not> accepted (fst (publish_quirk q reg)) \<Longrightarrow> snd (publish_quirk q reg) = reg"
    "\<not> accepted (fst (withdraw_compatibility f reg)) \<Longrightarrow> snd (withdraw_compatibility f reg) = reg"
    "\<not> accepted (fst (publish_compatibility f reg)) \<Longrightarrow> snd (publish_compatibility f reg) = reg"
    by blast+
qed

lemma knowledge_refusal:
  "\<not> accepted (fst (apply_quirk_locked p reg)) \<Longrightarrow> snd (apply_quirk_locked p reg) = reg"
  "\<not> accepted (fst (apply_compatibility_locked p reg)) \<Longrightarrow> snd (apply_compatibility_locked p reg) = reg"
  by (auto simp: apply_quirk_locked_def apply_compatibility_locked_def Let_def knowledge_operations split: if_splits)

lemma accepted_device_fields [simp]:
  "accepted (res\<lparr>ar_device_generation := g\<rparr>) = accepted res" "accepted (res\<lparr>ar_device_boot := b\<rparr>) = accepted res"
  by (simp_all add: accepted_def)

lemma device_refusal: "\<not> accepted (fst (apply_device_locked p reg)) \<Longrightarrow> snd (apply_device_locked p reg) = reg"
  by (auto simp: apply_device_locked_def register_new_device_def Let_def split: option.splits if_splits)

lemma dispatch_refusal:
  assumes "\<not> accepted (fst (dispatch p reg))"
    and "is_capability_publication p \<Longrightarrow> ar_code (fst (dispatch p reg)) \<notin> late_refusals"
  shows "snd (dispatch p reg) = reg"
  using assms capability_refusal [of p reg] knowledge_refusal [of p reg] device_refusal [of p reg]
  by (auto simp: dispatch_def is_capability_publication_def split: PublicationKind.splits)

text \<open>
  C30: a refusal changes no truth. A publication that is not accepted leaves devices, platforms,
  evidence, quirks and compatibility facts exactly as they were, unless it carries capability evidence
  and is refused for a limit, a stale capability generation or backpressure.
\<close>

theorem refusal_changes_no_truth:
  assumes "\<not> accepted (fst (apply_publication h now p reg))"
    and "is_capability_publication p \<Longrightarrow> ar_code (fst (apply_publication h now p reg)) \<notin> late_refusals"
  shows "same_truth reg (snd (apply_publication h now p reg))"
proof (cases rule: apply_locked_cases [of reg h now p])
  case (schema p')
  then show ?thesis
    using schema_truth [of "pb_schema p'" reg]
    by (cases "register_capability_schema_locked (pb_schema p') reg")
      (simp add: apply_publication_def apply_schema_publication_def)
next
  case (publisher p')
  then show ?thesis
    using register_publisher_truth [of reg now "pb_publisher p'" "pb_reason p'"]
    by (cases "register_publisher_locked now (pb_publisher p') (pb_reason p') reg")
      (simp add: apply_publication_def apply_publisher_publication_def)
next
  case (evidence p' st)
  have kind: "is_capability_publication p' = is_capability_publication p"
    by (simp add: is_capability_publication_def prepare_fields(2) [OF evidence(2)])
  show ?thesis
  proof (cases rule: check_sequence_cases [of h p' st "open_watermark p' st"])
    case go
    obtain res reg1 where d: "dispatch p' reg = (res, reg1)" by (cases "dispatch p' reg")
    with go evidence(6) assms have "\<not> accepted res" "is_capability_publication p' \<Longrightarrow> ar_code res \<notin> late_refusals"
      by (simp_all add: apply_publication_def apply_evidence_def Let_def kind)
    with dispatch_refusal [of p' reg] d have "reg1 = reg" by simp
    with go evidence(6) d \<open>\<not> accepted res\<close> show ?thesis
      by (simp add: apply_publication_def apply_evidence_def Let_def)
  qed (use evidence(6) in \<open>simp_all add: apply_publication_def apply_evidence_def\<close>)
qed (simp_all add: apply_publication_def)

definition sample_unknown_device :: Publication where
  "sample_unknown_device = (sample_publication PublicationKind.PublishCapability 3)
     \<lparr>pb_capability := sample_record\<lparr>cr_device := ''e''\<rparr>\<rparr>"

theorem refusal_changes_no_truth_witness:
  "same_truth sample_with_evidence (snd (apply_publication no_hash [] sample_unknown_device sample_with_evidence))"
proof -
  have "fst (apply_publication no_hash [] sample_unknown_device sample_with_evidence) = result_of RejectedUnknownDevice"
    by code_simp
  then show ?thesis by (intro refusal_changes_no_truth) (simp_all add: apply_code_accepted_def late_refusals_def)
qed

text \<open>
  The exception is real. Evidence for a capability the registry does not know, refused because it
  carries a capability generation above one, still leaves an empty key for the capability behind and
  indexes it under the device.
\<close>

theorem stale_generation_refusal_opens_key:
  "let p = (sample_publication PublicationKind.PublishCapability 2)
             \<lparr>pb_capability := sample_record\<lparr>cr_capability_generation := 5\<rparr>\<rparr>;
       (result, reg) = apply_publication no_hash [] p sample_with_device
   in ar_code result = RejectedStaleCapabilityGeneration \<and> rg_keys sample_with_device = [] \<and>
      map fst (rg_keys reg) = [(''d'', ''c'')] \<and> rg_device_keys reg = [(''d'', [''c''])]"
  by code_simp

text \<open>
  A publisher's first publication must not carry sequence 0. The watermark of a boot starts at
  zero, so sequence 0 counts as its duplicate: the publication is answered as an accepted duplicate
  and never applied.
\<close>

theorem first_sequence_zero_is_dropped:
  "let (result, reg) = apply_publication no_hash [] (sample_publication PublicationKind.RegisterDevice 0) sample_registered
   in ar_code result = AcceptedIdempotent \<and> \<not> ar_mutated result \<and> rg_devices reg = []"
  by code_simp

text \<open>
  Schema publications bypass publisher authority: a registry that knows no publisher at all accepts
  a schema published under an unregistered identity.
\<close>

theorem schema_publication_needs_no_publisher:
  "let (result, reg) = apply_publication no_hash []
         (sample_publication PublicationKind.RegisterCapabilitySchema 1) (new_registry [] sample_limits)
   in ar_code result = Accepted \<and> rg_publishers reg = [] \<and> map fst (rg_schemas reg) = [''c.v1'']"
  by code_simp

end
