(* ===== verification/Binary.thy ===== *)
theory Binary
  imports Tokens "HOL-Library.State_Monad"
begin

text \<open>
  The bounded byte codec of \<^verbatim>\<open>include/hcr/detail/binary.hpp\<close>. A \<open>ByteWriter\<close> is the output vector and
  the sticky \<^verbatim>\<open>truncated_\<close> mark; a writing function maps writers to writers and \<open>write_all\<close> runs a
  list of them in order. A \<open>ByteReader\<close> is the input, the read position and the sticky failure; a
  reading function is a state monad over it, so an early \<^verbatim>\<open>return\<close> is a branch and reading on after
  a failure is what the code does: every primitive then yields its default and leaves the reader alone.

  Two predicates carry the proofs about every record of the wire. \<open>codes f r x\<close> says that \<open>f\<close>
  appends bytes without truncation and that \<open>r\<close> reads exactly these bytes back as \<open>x\<close>, whatever
  surrounds them. \<open>disciplined r\<close> says that \<open>r\<close> never moves past the end of the input, never
  resumes after a failure, fails only with an error code, and gives the same answer when more input
  follows. The locale \<open>wire_format\<close> is the contract between a writing and a reading function, from
  which the round trip, the refusal of truncated input and injectivity follow once for all formats.
\<close>

unbundle bit_operations_syntax

named_theorems codes_intro "composition rules of the round-trip predicate"
named_theorems disciplined_intro "composition rules of disciplined readers"

type_synonym u16 = "16 word"

section \<open>Writing\<close>

record ByteWriter =
  bw_out :: "u8 list"
  bw_truncated :: bool

type_synonym writing = "ByteWriter \<Rightarrow> ByteWriter"

definition wr_u8 :: "u8 \<Rightarrow> writing" where
  "wr_u8 v w = w\<lparr>bw_out := bw_out w @ [v]\<rparr>"

definition le_bytes :: "nat \<Rightarrow> 'w::len word \<Rightarrow> u8 list" where
  "le_bytes n v = map (\<lambda>i. ucast (drop_bit (i * 8) v AND 0xff)) [0..<n]"

definition wr_raw :: "u8 list \<Rightarrow> writing" where
  "wr_raw bytes w = w\<lparr>bw_out := bw_out w @ bytes\<rparr>"

definition wr_u16 :: "u16 \<Rightarrow> writing" where
  "wr_u16 v = wr_raw (le_bytes 2 v)"

definition wr_u32 :: "u32 \<Rightarrow> writing" where
  "wr_u32 v = wr_raw (le_bytes 4 v)"

definition wr_u64 :: "u64 \<Rightarrow> writing" where
  "wr_u64 v = wr_raw (le_bytes 8 v)"

definition wr_i64 :: "i64 \<Rightarrow> writing" where
  "wr_i64 v = wr_u64 v"

definition wr_boolean :: "bool \<Rightarrow> writing" where
  "wr_boolean v = wr_u8 (if v then 1 else 0)"

definition wr_size :: "nat \<Rightarrow> writing" where
  "wr_size n = wr_u64 (word_of_nat n)"

definition write_all :: "writing list \<Rightarrow> writing" where
  "write_all fs w = fold (\<lambda>f. f) fs w"

lemma write_all_Nil: "write_all [] w = w"
  by (simp add: write_all_def)

lemma write_all_Cons: "write_all (f # fs) w = write_all fs (f w)"
  by (simp add: write_all_def)

definition chars_of_bytes :: "u8 list \<Rightarrow> string" where
  "chars_of_bytes bytes = map (\<lambda>b. char_of (unat b)) bytes"

definition bytes_of_chars :: "string \<Rightarrow> u8 list" where
  "bytes_of_chars s = map of_char s"

definition wr_blob :: "u8 list \<Rightarrow> nat \<Rightarrow> writing" where
  "wr_blob data max_length w =
     (let marked = (if length data > max_length then w\<lparr>bw_truncated := True\<rparr> else w);
          size = (if length data > max_length then max_length else length data) in
      wr_raw (take size data) (wr_u32 (word_of_nat size) marked))"

definition wr_str :: "string \<Rightarrow> nat \<Rightarrow> writing" where
  "wr_str s max_length = wr_blob (bytes_of_chars s) max_length"

section \<open>Reading\<close>

record ByteReader =
  br_data :: "u8 list"
  br_position :: nat
  br_ok :: bool
  br_code :: ErrorCode

type_synonym 'a reading = "(ByteReader, 'a) state"

definition byte_reader :: "u8 list \<Rightarrow> ByteReader" where
  "byte_reader data = \<lparr>br_data = data, br_position = 0, br_ok = True, br_code = ErrorCode.Ok\<rparr>"

definition br_remaining :: "ByteReader \<Rightarrow> nat" where
  "br_remaining r = length (br_data r) - br_position r"

definition br_exhausted :: "ByteReader \<Rightarrow> bool" where
  "br_exhausted r \<longleftrightarrow> br_position r = length (br_data r)"

definition br_fail :: "ErrorCode \<Rightarrow> ByteReader \<Rightarrow> ByteReader" where
  "br_fail code r = (if br_ok r then r\<lparr>br_ok := False, br_code := code\<rparr> else r)"

definition br_status :: "ByteReader \<Rightarrow> Status" where
  "br_status r = (if br_ok r then ErrorCode.Ok else br_code r)"

definition rd_ok :: "bool reading" where
  "rd_ok = State (\<lambda>r. (br_ok r, r))"

definition rd_remaining :: "nat reading" where
  "rd_remaining = State (\<lambda>r. (br_remaining r, r))"

definition rd_fail :: "ErrorCode \<Rightarrow> unit reading" where
  "rd_fail code = State (\<lambda>r. ((), br_fail code r))"

definition rd_u8 :: "u8 reading" where
  "rd_u8 = State (\<lambda>r.
     if \<not> br_ok r then (0, r)
     else if br_position r + 1 > length (br_data r) then (0, br_fail ErrorCode.CorruptData r)
     else (br_data r ! br_position r, r\<lparr>br_position := br_position r + 1\<rparr>))"

primrec rd_le :: "nat \<Rightarrow> nat \<Rightarrow> 'w::len word \<Rightarrow> 'w word reading" where
  "rd_le 0 i v = State_Monad.return v"
| "rd_le (Suc n) i v = do { b \<leftarrow> rd_u8; rd_le n (Suc i) (v OR push_bit (i * 8) (ucast b)) }"

definition rd_u16 :: "u16 reading" where
  "rd_u16 = rd_le 2 0 0"

definition rd_u32 :: "u32 reading" where
  "rd_u32 = rd_le 4 0 0"

definition rd_u64 :: "u64 reading" where
  "rd_u64 = rd_le 8 0 0"

definition rd_i64 :: "i64 reading" where
  "rd_i64 = rd_u64"

definition rd_boolean :: "bool reading" where
  "rd_boolean = do { b \<leftarrow> rd_u8; State_Monad.return (b \<noteq> 0) }"

definition rd_size :: "nat reading" where
  "rd_size = do { v \<leftarrow> rd_u64; State_Monad.return (unat v) }"

definition rd_take :: "nat \<Rightarrow> nat \<Rightarrow> u8 list reading" where
  "rd_take max_length len = State (\<lambda>r.
     if \<not> br_ok r then ([], r)
     else if len > max_length \<or> len > br_remaining r then ([], br_fail ErrorCode.CorruptData r)
     else (take len (drop (br_position r) (br_data r)), r\<lparr>br_position := br_position r + len\<rparr>))"

definition rd_blob :: "nat \<Rightarrow> u8 list reading" where
  "rd_blob max_length = do { len \<leftarrow> rd_u32; rd_take max_length (unat len) }"

definition rd_str :: "nat \<Rightarrow> string reading" where
  "rd_str max_length = do { bytes \<leftarrow> rd_blob max_length; State_Monad.return (chars_of_bytes bytes) }"

text \<open>
  The element count of a list: read, and refused when it exceeds the bound or the bytes left. The
  value \<open>None\<close> stands for the early \<^verbatim>\<open>return\<close> of the code.
\<close>

definition rd_count :: "nat \<Rightarrow> ErrorCode \<Rightarrow> nat option reading" where
  "rd_count bound code = do {
     n \<leftarrow> rd_u32;
     good \<leftarrow> rd_ok;
     if \<not> good then State_Monad.return None
     else do {
       left \<leftarrow> rd_remaining;
       if unat n > bound \<or> unat n > left
       then do { rd_fail code; State_Monad.return None }
       else State_Monad.return (Some (unat n)) } }"

text \<open>The three shapes of loops: to the end, stopping after a failed element, testing before each.\<close>

primrec rd_times :: "nat \<Rightarrow> 'a reading \<Rightarrow> 'a list reading" where
  "rd_times 0 r = State_Monad.return []"
| "rd_times (Suc n) r = do { x \<leftarrow> r; xs \<leftarrow> rd_times n r; State_Monad.return (x # xs) }"

primrec rd_until_failure :: "nat \<Rightarrow> 'a reading \<Rightarrow> 'a list reading" where
  "rd_until_failure 0 r = State_Monad.return []"
| "rd_until_failure (Suc n) r = do {
     x \<leftarrow> r;
     good \<leftarrow> rd_ok;
     if \<not> good then State_Monad.return [x]
     else do { xs \<leftarrow> rd_until_failure n r; State_Monad.return (x # xs) } }"

primrec rd_while_ok :: "nat \<Rightarrow> 'a reading \<Rightarrow> 'a list reading" where
  "rd_while_ok 0 r = State_Monad.return []"
| "rd_while_ok (Suc n) r = do {
     good \<leftarrow> rd_ok;
     if \<not> good then State_Monad.return []
     else do { x \<leftarrow> r; xs \<leftarrow> rd_while_ok n r; State_Monad.return (x # xs) } }"

text \<open>A loop whose body may leave the enclosing function: \<open>None\<close> ends it, without an element.\<close>

primrec rd_checked :: "nat \<Rightarrow> 'a option reading \<Rightarrow> 'a list reading" where
  "rd_checked 0 r = State_Monad.return []"
| "rd_checked (Suc n) r = do {
     x \<leftarrow> r;
     case x of
       None \<Rightarrow> State_Monad.return []
     | Some v \<Rightarrow> do { vs \<leftarrow> rd_checked n r; State_Monad.return (v # vs) } }"

text \<open>A counted list: clamped to the bound by the writer, checked against it by the reader.\<close>

definition write_list :: "('a \<Rightarrow> writing) \<Rightarrow> nat \<Rightarrow> 'a list \<Rightarrow> writing" where
  "write_list f bound xs =
     (let n = min (length xs) bound in write_all (wr_u32 (word_of_nat n) # map f (take n xs)))"

definition rd_list ::
  "(nat \<Rightarrow> 'b reading \<Rightarrow> 'a list reading) \<Rightarrow> nat \<Rightarrow> ErrorCode \<Rightarrow> 'b reading \<Rightarrow> 'a list option reading"
where
  "rd_list loop bound code r = do {
     c \<leftarrow> rd_count bound code;
     case c of
       None \<Rightarrow> State_Monad.return None
     | Some n \<Rightarrow> do { xs \<leftarrow> loop n r; State_Monad.return (Some xs) } }"

text \<open>An optional part: a presence byte, then the part.\<close>

definition write_optional :: "('a \<Rightarrow> writing) \<Rightarrow> 'a option \<Rightarrow> writing" where
  "write_optional f v =
     (case v of None \<Rightarrow> write_all [wr_boolean False] | Some x \<Rightarrow> write_all [wr_boolean True, f x])"

definition rd_optional :: "'a reading \<Rightarrow> 'a option reading" where
  "rd_optional r = do {
     present \<leftarrow> rd_boolean;
     if present then do { x \<leftarrow> r; State_Monad.return (Some x) } else State_Monad.return None }"

text \<open>Enumerations travel as the 16-bit number of the enumerator.\<close>

definition enum_tag :: "'e list \<Rightarrow> 'e \<Rightarrow> u16" where
  "enum_tag all x = word_of_nat (enum_index all x)"

definition enum_beyond :: "'e list \<Rightarrow> 'e \<Rightarrow> u16 \<Rightarrow> bool" where
  "enum_beyond all last_one raw \<longleftrightarrow> raw > enum_tag all last_one"

definition enum_cast :: "'e list \<Rightarrow> u16 \<Rightarrow> 'e" where
  "enum_cast all raw = all ! unat raw"

text \<open>An optional enumerator: \<open>None\<close> stands for the early \<^verbatim>\<open>return\<close> on an unknown number.\<close>

definition rd_optional_enum :: "'e list \<Rightarrow> 'e \<Rightarrow> ErrorCode \<Rightarrow> 'e option option reading" where
  "rd_optional_enum all last_one code = do {
     present \<leftarrow> rd_boolean;
     if \<not> present then State_Monad.return (Some None)
     else do {
       raw \<leftarrow> rd_u16;
       if enum_beyond all last_one raw
       then do { rd_fail code; State_Monad.return None }
       else State_Monad.return (Some (Some (enum_cast all raw))) } }"

section \<open>Words as bytes\<close>

lemma le_bytes_length [simp]: "length (le_bytes n v) = n"
  by (simp add: le_bytes_def)

lemma le_step:
  fixes v :: "'w::len word"
  shows "take_bit (i * 8) v OR push_bit (i * 8) (ucast (ucast (drop_bit (i * 8) v AND 0xff) :: u8)) =
     take_bit (Suc i * 8) v"
proof (rule bit_word_eqI)
  fix n
  assume "n < LENGTH('w)"
  have mask: "(0xff :: 'w word) = mask 8"
    by (simp add: mask_eq_exp_minus_1)
  show "bit (take_bit (i * 8) v OR push_bit (i * 8) (ucast (ucast (drop_bit (i * 8) v AND 0xff) :: u8))) n =
      bit (take_bit (Suc i * 8) v) n"
    unfolding mask using \<open>n < LENGTH('w)\<close>
    by (auto simp: bit_simps)
qed

lemma char_byte_inverse [simp]: "char_of (unat (of_char c :: u8)) = c"
proof -
  have "unat (of_char c :: u8) = of_char c"
    by (simp add: of_char_def unat_of_nat)
  then show ?thesis
    by simp
qed

lemma chars_of_bytes_of_chars [simp]: "chars_of_bytes (bytes_of_chars s) = s"
  by (simp add: chars_of_bytes_def bytes_of_chars_def comp_def)

lemma length_bytes_of_chars [simp]: "length (bytes_of_chars s) = length s"
  by (simp add: bytes_of_chars_def)

section \<open>Round trips\<close>

definition reader_at :: "u8 list \<Rightarrow> u8 list \<Rightarrow> ByteReader" where
  "reader_at pre post =
     \<lparr>br_data = pre @ post, br_position = length pre, br_ok = True, br_code = ErrorCode.Ok\<rparr>"

definition emits :: "writing \<Rightarrow> u8 list \<Rightarrow> bool" where
  "emits f bs \<longleftrightarrow> (\<forall>w. f w = w\<lparr>bw_out := bw_out w @ bs\<rparr>)"

definition decodes :: "'a reading \<Rightarrow> u8 list \<Rightarrow> 'a \<Rightarrow> bool" where
  "decodes r bs x \<longleftrightarrow>
     (\<forall>pre post. run_state r (reader_at pre (bs @ post)) = (x, reader_at (pre @ bs) post))"

definition codes :: "writing \<Rightarrow> 'a reading \<Rightarrow> 'a \<Rightarrow> bool" where
  "codes f r x \<longleftrightarrow> (\<exists>bs. emits f bs \<and> decodes r bs x)"

text \<open>The same, with at least one byte written: what an element of a counted list has to do.\<close>

definition codes_some :: "writing \<Rightarrow> 'a reading \<Rightarrow> 'a \<Rightarrow> bool" where
  "codes_some f r x \<longleftrightarrow> (\<exists>bs. bs \<noteq> [] \<and> emits f bs \<and> decodes r bs x)"

lemma codes_some_codes: "codes_some f r x \<Longrightarrow> codes f r x"
  by (auto simp: codes_some_def codes_def)

lemma emits_Nil: "emits (write_all []) []"
  by (simp add: emits_def write_all_Nil)

lemma emits_Cons: "emits f bs \<Longrightarrow> emits (write_all fs) cs \<Longrightarrow> emits (write_all (f # fs)) (bs @ cs)"
  by (simp add: emits_def write_all_Cons)

lemma decodes_return: "decodes (State_Monad.return x) [] x"
  by (simp add: decodes_def)

lemma decodes_bind:
  "decodes r bs x \<Longrightarrow> decodes (k x) cs y \<Longrightarrow> decodes (State_Monad.bind r k) (bs @ cs) y"
  by (simp add: decodes_def)

lemma codes_return [codes_intro]: "x = y \<Longrightarrow> codes (write_all []) (State_Monad.return x) y"
  unfolding codes_def by (rule exI [of _ "[]"]) (simp add: emits_Nil decodes_return)

lemma codes_bind:
  assumes "codes f r x" and "codes (write_all fs) (k x) y"
  shows "codes (write_all (f # fs)) (State_Monad.bind r k) y"
proof -
  obtain bs cs where "emits f bs" "decodes r bs x" "emits (write_all fs) cs" "decodes (k x) cs y"
    using assms by (auto simp: codes_def)
  then have "emits (write_all (f # fs)) (bs @ cs) \<and> decodes (State_Monad.bind r k) (bs @ cs) y"
    by (simp add: emits_Cons decodes_bind)
  then show ?thesis
    by (auto simp: codes_def)
qed

lemma codes_some_bind:
  assumes "codes_some f r x" and "codes (write_all fs) (k x) y"
  shows "codes_some (write_all (f # fs)) (State_Monad.bind r k) y"
proof -
  obtain bs cs where "bs \<noteq> []" "emits f bs" "decodes r bs x" "emits (write_all fs) cs" "decodes (k x) cs y"
    using assms by (auto simp: codes_def codes_some_def)
  then have "bs @ cs \<noteq> [] \<and> emits (write_all (f # fs)) (bs @ cs) \<and> decodes (State_Monad.bind r k) (bs @ cs) y"
    by (simp add: emits_Cons decodes_bind)
  then show ?thesis
    by (auto simp: codes_some_def)
qed

lemma codes_then: "codes_some f r x \<Longrightarrow> codes (write_all fs) (k x) y \<Longrightarrow>
    codes (write_all (f # fs)) (State_Monad.bind r k) y"
  by (rule codes_bind [OF codes_some_codes])

lemma codes_ok [codes_intro]:
  "codes (write_all fs) (k True) y \<Longrightarrow> codes (write_all fs) (State_Monad.bind rd_ok k) y"
proof -
  have "decodes rd_ok [] True"
    by (simp add: decodes_def rd_ok_def reader_at_def)
  then show "codes (write_all fs) (k True) y \<Longrightarrow> codes (write_all fs) (State_Monad.bind rd_ok k) y"
    using decodes_bind [of rd_ok "[]" True k _ y] by (auto simp: codes_def)
qed

subsection \<open>Primitives\<close>

lemma rd_u8_at [simp]: "run_state rd_u8 (reader_at pre (b # post)) = (b, reader_at (pre @ [b]) post)"
  by (simp add: rd_u8_def reader_at_def)

lemma wr_u8_wire: "codes_some (wr_u8 v) rd_u8 v"
  unfolding codes_some_def
  by (rule exI [of _ "[v]"]) (simp add: emits_def wr_u8_def decodes_def)

lemma wr_boolean_wire: "codes_some (wr_boolean v) rd_boolean v"
  unfolding codes_some_def
  by (rule exI [of _ "[if v then 1 else 0]"])
    (simp add: emits_def wr_boolean_def wr_u8_def decodes_def rd_boolean_def)

lemma rd_le_at:
  "run_state (rd_le n i (take_bit (i * 8) v))
     (reader_at pre (map (\<lambda>i. ucast (drop_bit (i * 8) v AND 0xff)) [i..<i + n] @ post)) =
   (take_bit ((i + n) * 8) v, reader_at (pre @ map (\<lambda>i. ucast (drop_bit (i * 8) v AND 0xff)) [i..<i + n]) post)"
proof (induction n arbitrary: i pre)
  case 0
  show ?case by simp
next
  case (Suc n)
  have "[i..<i + Suc n] = i # [Suc i..<Suc i + n]"
    by (simp add: upt_conv_Cons)
  then show ?case
    using Suc.IH [of "Suc i"] by (simp add: le_step)
qed

lemma rd_le_decodes:
  fixes v :: "'w::len word"
  assumes "LENGTH('w) = n * 8"
  shows "decodes (rd_le n 0 0) (le_bytes n v) v"
proof -
  have "take_bit (n * 8) v = v"
    using assms by (metis take_bit_word_eq_self order_refl)
  then show ?thesis
    using rd_le_at [of n 0 v] by (simp add: decodes_def le_bytes_def)
qed

lemma le_bytes_inj:
  fixes v w :: "'w::len word"
  assumes "LENGTH('w) = n * 8" and "le_bytes n v = le_bytes n w"
  shows "v = w"
proof -
  have "run_state (rd_le n 0 0) (reader_at [] (le_bytes n u @ [])) = (u, reader_at ([] @ le_bytes n u) [])"
    for u :: "'w word"
    using rd_le_decodes [OF assms(1), of u] unfolding decodes_def by blast
  from this [of v] this [of w] show ?thesis
    using assms(2) by simp
qed

lemma le_bytes_surj:
  assumes "LENGTH('w) = n * 8" and "length bs = n"
  shows "\<exists>v :: 'w::len word. bs = le_bytes n v"
proof -
  let ?lists = "{bs :: u8 list. set bs \<subseteq> UNIV \<and> length bs = n}"
  have "card (range (le_bytes n :: 'w word \<Rightarrow> u8 list)) = 2 ^ LENGTH('w)"
    using le_bytes_inj [OF assms(1)] by (subst card_image) (auto intro: injI simp: card_word)
  also have "\<dots> = card ?lists"
    unfolding card_lists_length_eq [OF finite]
    by (simp add: assms(1) card_word power_mult mult.commute [of n 8])
  finally have "range (le_bytes n :: 'w word \<Rightarrow> u8 list) = ?lists"
    by (intro card_subset_eq finite_lists_length_eq) auto
  then show ?thesis
    using assms(2) by auto
qed

lemma emits_raw: "emits (wr_raw bs) bs"
  by (simp add: emits_def wr_raw_def)

lemma codes_le:
  fixes v :: "'w::len word"
  assumes "LENGTH('w) = n * 8"
  shows "codes_some (wr_raw (le_bytes n v)) (rd_le n 0 0) v"
proof -
  have "le_bytes n v \<noteq> []"
    using assms by (metis le_bytes_length len_not_eq_0 list.size(3) mult_is_0)
  then show ?thesis
    unfolding codes_some_def using emits_raw rd_le_decodes [OF assms] by blast
qed

lemma wr_u16_wire: "codes_some (wr_u16 v) rd_u16 v"
  unfolding wr_u16_def rd_u16_def by (rule codes_le) simp

lemma wr_u32_wire: "codes_some (wr_u32 v) rd_u32 v"
  unfolding wr_u32_def rd_u32_def by (rule codes_le) simp

lemma wr_u64_wire: "codes_some (wr_u64 v) rd_u64 v"
  unfolding wr_u64_def rd_u64_def by (rule codes_le) simp

lemma wr_i64_wire: "codes_some (wr_i64 v) rd_i64 v"
  unfolding wr_i64_def rd_i64_def by (rule wr_u64_wire)

text \<open>A function applied to what a reader returned.\<close>

lemma codes_some_map:
  assumes "codes_some f r x" and "g x = y"
  shows "codes_some f (State_Monad.bind r (\<lambda>v. State_Monad.return (g v))) y"
proof -
  obtain bs where "bs \<noteq> []" "emits f bs" "decodes r bs x"
    using assms(1) by (auto simp: codes_some_def)
  moreover have "decodes (State_Monad.bind r (\<lambda>v. State_Monad.return (g v))) bs y"
    using \<open>decodes r bs x\<close> assms(2) by (simp add: decodes_def)
  ultimately show ?thesis
    by (auto simp: codes_some_def)
qed

lemma wr_size_wire: "n < 2 ^ 64 \<Longrightarrow> codes_some (wr_size n) rd_size n"
  unfolding wr_size_def rd_size_def
  by (rule codes_some_map [OF wr_u64_wire]) (simp add: unat_of_nat)

lemma rd_take_decodes: "length bs \<le> max_length \<Longrightarrow> decodes (rd_take max_length (length bs)) bs bs"
  by (simp add: decodes_def rd_take_def reader_at_def br_remaining_def)

lemma wr_blob_wire:
  assumes "length data \<le> max_length" and "length data < 2 ^ 32"
  shows "codes_some (wr_blob data max_length) (rd_blob max_length) data"
proof -
  let ?n = "word_of_nat (length data) :: u32"
  have n: "unat ?n = length data"
    using assms(2) by (simp add: unat_of_nat)
  have "wr_blob data max_length = write_all [wr_u32 ?n, wr_raw data]"
    using assms(1) by (simp add: wr_blob_def fun_eq_iff Let_def write_all_Nil write_all_Cons)
  moreover have "codes (write_all [wr_raw data]) (rd_take max_length (unat ?n)) data"
    unfolding codes_def n using assms(1) emits_Cons [OF emits_raw emits_Nil] rd_take_decodes
    by fastforce
  ultimately show ?thesis
    unfolding rd_blob_def using codes_some_bind [OF wr_u32_wire] by metis
qed

lemma wr_str_wire:
  assumes "length s \<le> max_length" and "length s < 2 ^ 32"
  shows "codes_some (wr_str s max_length) (rd_str max_length) s"
  unfolding wr_str_def rd_str_def using assms
  by (intro codes_some_map [OF wr_blob_wire]) simp_all

lemmas primitive_then [codes_intro] =
  wr_u8_wire [THEN codes_then] wr_boolean_wire [THEN codes_then] wr_u16_wire [THEN codes_then]
  wr_u32_wire [THEN codes_then] wr_u64_wire [THEN codes_then] wr_i64_wire [THEN codes_then]
  wr_size_wire [THEN codes_then] wr_str_wire [THEN codes_then] wr_blob_wire [THEN codes_then]
  wr_u8_wire [THEN codes_some_bind] wr_boolean_wire [THEN codes_some_bind]
  wr_u16_wire [THEN codes_some_bind] wr_u32_wire [THEN codes_some_bind]
  wr_u64_wire [THEN codes_some_bind] wr_i64_wire [THEN codes_some_bind]
  wr_size_wire [THEN codes_some_bind] wr_str_wire [THEN codes_some_bind]
  wr_blob_wire [THEN codes_some_bind]

subsection \<open>Lists, optional parts and enumerations\<close>

definition loops :: "('a \<Rightarrow> 'b) \<Rightarrow> (nat \<Rightarrow> 'b reading \<Rightarrow> 'a list reading) \<Rightarrow> bool" where
  "loops g loop \<longleftrightarrow>
     (\<forall>r bss xs. list_all2 (\<lambda>bs x. decodes r bs (g x)) bss xs \<longrightarrow>
        decodes (loop (length xs) r) (concat bss) xs)"

lemma loopsI:
  assumes "\<And>r. decodes (loop 0 r) [] []"
    and "\<And>(r :: 'b reading) n b bs x xs. decodes r b (g x) \<Longrightarrow> decodes (loop n r) bs xs \<Longrightarrow>
          decodes (loop (Suc n) r) (b @ bs) (x # xs)"
  shows "loops g loop"
  unfolding loops_def
proof (intro allI impI)
  fix r :: "'b reading" and bss xs
  assume "list_all2 (\<lambda>bs x. decodes r bs (g x)) bss xs"
  then show "decodes (loop (length xs) r) (concat bss) xs"
    by (induction rule: list_all2_induct) (simp_all add: assms)
qed

lemma decodes_run:
  "decodes r bs x \<Longrightarrow> run_state r (reader_at pre (bs @ post)) = (x, reader_at (pre @ bs) post)"
  by (simp add: decodes_def)

lemma rd_ok_at [simp]: "run_state rd_ok (reader_at pre post) = (True, reader_at pre post)"
  by (simp add: rd_ok_def reader_at_def)

lemma rd_times_loops: "loops (\<lambda>x. x) rd_times"
  by (rule loopsI) (simp_all add: decodes_def)

lemma rd_until_failure_loops: "loops (\<lambda>x. x) rd_until_failure"
  by (rule loopsI) (simp_all add: decodes_def)

lemma rd_while_ok_loops: "loops (\<lambda>x. x) rd_while_ok"
  by (rule loopsI) (simp_all add: decodes_def)

lemma rd_checked_loops: "loops Some rd_checked"
  by (rule loopsI) (simp_all add: decodes_def)

lemma emits_write_all: "list_all2 emits fs bss \<Longrightarrow> emits (write_all fs) (concat bss)"
  by (induction rule: list_all2_induct) (simp_all add: emits_Nil emits_Cons)

lemma codes_some_list:
  assumes "\<forall>x\<in>set xs. codes_some (f x) r (g x)"
  shows "\<exists>bss. list_all2 emits (map f xs) bss \<and> list_all2 (\<lambda>bs x. decodes r bs (g x)) bss xs \<and>
     length xs \<le> length (concat bss)"
  using assms
proof (induction xs)
  case Nil
  show ?case by simp
next
  case (Cons x xs)
  then obtain bss where bss: "list_all2 emits (map f xs) bss"
      "list_all2 (\<lambda>bs x. decodes r bs (g x)) bss xs"
      "length xs \<le> length (concat bss)"
    by auto
  obtain bs where bs: "bs \<noteq> []" "emits (f x) bs" "decodes r bs (g x)"
    using Cons.prems by (auto simp: codes_some_def)
  have "Suc (length xs) \<le> length (concat (bs # bss))"
    using bss(3) bs(1) by (cases bs) auto
  then show ?case
    using bss bs by (intro exI [of _ "bs # bss"]) simp
qed

lemma rd_count_at:
  assumes "n \<le> bound" and "n < 2 ^ 32" and "n \<le> length post"
  shows "run_state (rd_count bound code) (reader_at pre (le_bytes 4 (word_of_nat n :: u32) @ post)) =
     (Some n, reader_at (pre @ le_bytes 4 (word_of_nat n :: u32)) post)"
proof -
  have n: "unat (word_of_nat n :: u32) = n"
    using assms(2) by (simp add: unat_of_nat)
  have "decodes rd_u32 (le_bytes 4 (word_of_nat n :: u32)) (word_of_nat n)"
    unfolding rd_u32_def by (rule rd_le_decodes) simp
  then show ?thesis
    using assms by (simp add: rd_count_def decodes_run n rd_remaining_def)
      (simp add: reader_at_def br_remaining_def)
qed

lemma write_list_wire:
  assumes loop: "loops g loop" and elements: "\<forall>x\<in>set xs. codes_some (f x) r (g x)"
    and bound: "length xs \<le> bound" "length xs < 2 ^ 32"
  shows "codes_some (write_list f bound xs) (rd_list loop bound code r) (Some xs)"
proof -
  obtain bss where bss: "list_all2 emits (map f xs) bss"
      "list_all2 (\<lambda>bs x. decodes r bs (g x)) bss xs"
      and len: "length xs \<le> length (concat bss)"
    using codes_some_list [OF elements] by blast
  let ?n = "le_bytes 4 (word_of_nat (length xs) :: u32)"
  have "write_list f bound xs = write_all (wr_raw ?n # map f xs)"
    using bound(1) by (simp add: write_list_def min_def wr_u32_def)
  then have "emits (write_list f bound xs) (?n @ concat bss)"
    using emits_Cons [OF emits_raw emits_write_all [OF bss(1)]] by metis
  moreover have "decodes (loop (length xs) r) (concat bss) xs"
    using loop bss(2) by (auto simp: loops_def)
  then have "decodes (rd_list loop bound code r) (?n @ concat bss) (Some xs)"
    unfolding decodes_def using bound len by (simp add: rd_list_def rd_count_at)
  moreover have "?n @ concat bss \<noteq> []"
    by (metis append_is_Nil_conv le_bytes_length list.size(3) zero_neq_numeral)
  ultimately show ?thesis
    unfolding codes_some_def by blast
qed

lemma write_optional_wire:
  assumes "\<And>x. v = Some x \<Longrightarrow> codes_some (f x) r x"
  shows "codes_some (write_optional f v) (rd_optional r) v"
proof (cases v)
  case None
  show ?thesis
    unfolding write_optional_def rd_optional_def None by (auto intro!: codes_intro)
next
  case (Some x)
  show ?thesis
    unfolding write_optional_def rd_optional_def Some
    by (auto intro!: codes_intro codes_then [OF assms [OF Some]])
qed

lemmas list_wire =
  write_list_wire [OF rd_times_loops] write_list_wire [OF rd_until_failure_loops]
  write_list_wire [OF rd_while_ok_loops] write_list_wire [OF rd_checked_loops]

lemmas list_then [codes_intro] = list_wire [THEN codes_then] list_wire [THEN codes_some_bind]

lemmas optional_then [codes_intro] =
  write_optional_wire [THEN codes_then] write_optional_wire [THEN codes_some_bind]

locale wire_enum =
  fixes all :: "'e list" and last_one :: 'e
  assumes complete: "x \<in> set all"
    and separate: "distinct all"
    and sized: "length all < 2 ^ 16"
    and ending: "last all = last_one"
begin

lemma index_less: "enum_index all x < length all"
proof -
  have "length (takeWhile (\<lambda>y. y \<noteq> x) all) < length all \<or> takeWhile (\<lambda>y. y \<noteq> x) all = all"
    using length_takeWhile_le [of _ all] takeWhile_eq_take [of _ all]
    by (metis le_neq_implies_less take_all_iff order_refl)
  moreover have "takeWhile (\<lambda>y. y \<noteq> x) all \<noteq> all"
    using complete [of x] by (auto simp: takeWhile_eq_all_conv)
  ultimately show ?thesis
    unfolding enum_index_def by blast
qed

lemma unat_tag: "unat (enum_tag all x) = enum_index all x"
  using index_less [of x] sized by (simp add: enum_tag_def unat_of_nat)

lemma index_last: "enum_index all last_one = length all - 1"
proof -
  have "all \<noteq> []"
    using complete [of last_one] by auto
  then have "all ! (length all - 1) = last_one"
    using ending last_conv_nth [of all] by simp
  then show ?thesis
    using nth_enum_index [OF complete, of last_one] index_less [of last_one] separate
      nth_eq_iff_index_eq [of all "enum_index all last_one" "length all - 1"] by simp
qed

lemma tag_within [simp]: "\<not> enum_beyond all last_one (enum_tag all x)"
  using index_less [of x] unfolding enum_beyond_def word_less_nat_alt unat_tag index_last by simp

lemma cast_tag [simp]: "enum_cast all (enum_tag all x) = x"
  by (simp add: enum_cast_def unat_tag nth_enum_index complete)

lemma tag_cast: "\<not> enum_beyond all last_one raw \<Longrightarrow> enum_tag all (enum_cast all raw) = raw"
proof -
  assume "\<not> enum_beyond all last_one raw"
  then have "unat raw < length all"
    using index_less [of last_one] unfolding enum_beyond_def word_less_nat_alt unat_tag index_last by simp
  then have "enum_index all (all ! unat raw) = unat raw"
    using nth_enum_index [OF complete, of "all ! unat raw"] index_less [of "all ! unat raw"] separate
      nth_eq_iff_index_eq by metis
  then show ?thesis
    by (simp add: enum_tag_def enum_cast_def)
qed

lemma optional_wire:
  "codes_some (write_optional (\<lambda>e. wr_u16 (enum_tag all e)) v) (rd_optional_enum all last_one code) (Some v)"
  by (cases v) (auto simp: write_optional_def rd_optional_enum_def intro!: codes_intro)

lemmas optional_wire_then [codes_intro] = optional_wire [THEN codes_then] optional_wire [THEN codes_some_bind]

end

section \<open>Disciplined readers\<close>

definition br_extend :: "u8 list \<Rightarrow> ByteReader \<Rightarrow> ByteReader" where
  "br_extend rest r = r\<lparr>br_data := br_data r @ rest\<rparr>"

definition br_sound :: "ByteReader \<Rightarrow> bool" where
  "br_sound r \<longleftrightarrow> br_position r \<le> length (br_data r) \<and> (br_ok r \<longleftrightarrow> br_code r = ErrorCode.Ok)"

definition disciplined :: "'a reading \<Rightarrow> bool" where
  "disciplined m \<longleftrightarrow> (\<forall>r v r'. br_sound r \<longrightarrow> run_state m r = (v, r') \<longrightarrow>
     br_sound r' \<and> br_data r' = br_data r \<and> br_position r \<le> br_position r' \<and>
     (\<not> br_ok r \<longrightarrow> r' = r) \<and>
     (br_ok r' \<longrightarrow> (\<forall>rest. run_state m (br_extend rest r) = (v, br_extend rest r'))))"

lemma disciplinedD:
  assumes "disciplined m" and "br_sound r" and "run_state m r = (v, r')"
  shows "br_sound r'" "br_data r' = br_data r" "br_position r \<le> br_position r'"
    "\<not> br_ok r \<Longrightarrow> r' = r" "br_ok r' \<Longrightarrow> run_state m (br_extend rest r) = (v, br_extend rest r')"
  using assms unfolding disciplined_def by blast+

lemma disciplined_return [disciplined_intro]: "disciplined (State_Monad.return x)"
  by (simp add: disciplined_def)

lemma disciplined_bind [disciplined_intro]:
  assumes m: "disciplined m" and k: "\<And>x. disciplined (k x)"
  shows "disciplined (State_Monad.bind m k)"
  unfolding disciplined_def
proof (intro allI impI)
  fix r v r'
  assume r: "br_sound r" and run: "run_state (State_Monad.bind m k) r = (v, r')"
  obtain x s where s: "run_state m r = (x, s)" "run_state (k x) s = (v, r')"
    using run by (auto split: prod.splits)
  note first = disciplinedD [OF m r s(1)]
  note second = disciplinedD [OF k first(1) s(2)]
  have "run_state (State_Monad.bind m k) (br_extend rest r) = (v, br_extend rest r')" if "br_ok r'" for rest
  proof -
    have "br_ok s"
      using second(4) that by metis
    then show ?thesis
      using first(5) second(5) [OF that] by simp
  qed
  then show "br_sound r' \<and> br_data r' = br_data r \<and> br_position r \<le> br_position r' \<and>
      (\<not> br_ok r \<longrightarrow> r' = r) \<and>
      (br_ok r' \<longrightarrow> (\<forall>rest. run_state (State_Monad.bind m k) (br_extend rest r) = (v, br_extend rest r')))"
    using first second by fastforce
qed

lemma disciplined_if [disciplined_intro]:
  "\<lbrakk>c \<Longrightarrow> disciplined m; \<not> c \<Longrightarrow> disciplined n\<rbrakk> \<Longrightarrow> disciplined (if c then m else n)"
  by simp

lemma disciplined_case_option [disciplined_intro]:
  "\<lbrakk>disciplined m; \<And>x. disciplined (n x)\<rbrakk> \<Longrightarrow> disciplined (case v of None \<Rightarrow> m | Some x \<Rightarrow> n x)"
  by (simp split: option.split)

lemma disciplined_ok [disciplined_intro]: "disciplined rd_ok"
  by (auto simp: disciplined_def rd_ok_def br_extend_def)

lemma disciplined_fail [disciplined_intro]: "code \<noteq> ErrorCode.Ok \<Longrightarrow> disciplined (rd_fail code)"
  by (auto simp: disciplined_def rd_fail_def br_fail_def br_sound_def br_extend_def split: if_splits)

lemma disciplined_u8 [disciplined_intro]: "disciplined rd_u8"
  by (auto simp: disciplined_def rd_u8_def br_fail_def br_sound_def br_extend_def nth_append
      split: if_splits)

lemma disciplined_le [disciplined_intro]: "disciplined (rd_le n i v)"
  by (induction n arbitrary: i v) (simp_all add: disciplined_intro)

lemma disciplined_take [disciplined_intro]: "disciplined (rd_take max_length len)"
  by (auto simp: disciplined_def rd_take_def br_fail_def br_sound_def br_extend_def br_remaining_def
      split: if_splits)

lemma disciplined_count [disciplined_intro]:
  assumes "code \<noteq> ErrorCode.Ok"
  shows "disciplined (rd_count bound code)"
proof -
  define check where "check n = State (\<lambda>r. if \<not> br_ok r then (None, r)
      else if n > bound \<or> n > br_remaining r then (None, br_fail code r) else (Some n, r))" for n
  have "disciplined (check n)" for n
    using assms by (auto simp: check_def disciplined_def br_fail_def br_sound_def br_extend_def
      br_remaining_def split: if_splits)
  moreover have "rd_count bound code = do { n \<leftarrow> rd_u32; check (unat n) }"
    by (rule state_ext) (simp add: rd_count_def check_def rd_ok_def rd_remaining_def rd_fail_def
        split: prod.split)
  ultimately show ?thesis
    by (simp add: rd_u32_def disciplined_intro)
qed

lemma disciplined_primitives [disciplined_intro]:
  "disciplined rd_u16" "disciplined rd_u32" "disciplined rd_u64" "disciplined rd_i64"
  "disciplined rd_boolean" "disciplined rd_size" "disciplined (rd_blob n)" "disciplined (rd_str n)"
  by (simp_all add: rd_u16_def rd_u32_def rd_u64_def rd_i64_def rd_boolean_def rd_size_def
      rd_blob_def rd_str_def disciplined_intro)

lemma disciplined_times [disciplined_intro]: "disciplined r \<Longrightarrow> disciplined (rd_times n r)"
  by (induction n) (simp_all add: disciplined_intro)

lemma disciplined_until_failure [disciplined_intro]:
  "disciplined r \<Longrightarrow> disciplined (rd_until_failure n r)"
  by (induction n) (simp_all add: disciplined_intro)

lemma disciplined_while_ok [disciplined_intro]: "disciplined r \<Longrightarrow> disciplined (rd_while_ok n r)"
  by (induction n) (simp_all add: disciplined_intro)

lemma disciplined_checked [disciplined_intro]: "disciplined r \<Longrightarrow> disciplined (rd_checked n r)"
  by (induction n) (simp_all add: disciplined_intro)

lemma disciplined_list [disciplined_intro]:
  "\<lbrakk>code \<noteq> ErrorCode.Ok; \<And>n. disciplined (loop n r)\<rbrakk> \<Longrightarrow> disciplined (rd_list loop bound code r)"
  unfolding rd_list_def by (simp add: disciplined_intro)

lemma disciplined_optional [disciplined_intro]: "disciplined r \<Longrightarrow> disciplined (rd_optional r)"
  unfolding rd_optional_def by (simp add: disciplined_intro)

lemma disciplined_optional_enum [disciplined_intro]:
  "code \<noteq> ErrorCode.Ok \<Longrightarrow> disciplined (rd_optional_enum all last_one code)"
  unfolding rd_optional_enum_def by (simp add: disciplined_intro)

section \<open>The contract of a wire format\<close>

definition empty_writer :: ByteWriter where
  "empty_writer = \<lparr>bw_out = [], bw_truncated = False\<rparr>"

definition wire :: "writing \<Rightarrow> u8 list" where
  "wire f = bw_out (f empty_writer)"

lemma byte_reader_at: "byte_reader bs = reader_at [] bs"
  by (simp add: byte_reader_def reader_at_def)

lemma byte_reader_sound: "br_sound (byte_reader bs)"
  by (simp add: byte_reader_def br_sound_def)

lemma emits_wire: "emits f bs \<Longrightarrow> wire f = bs"
  by (simp add: emits_def wire_def empty_writer_def)

locale wire_format =
  fixes writes :: "'a \<Rightarrow> writing" and reads :: "'a reading" and fits :: "'a \<Rightarrow> bool"
  assumes coded: "fits x \<Longrightarrow> codes_some (writes x) reads x"
    and guarded: "disciplined reads"
begin

lemma emits_fits: "fits x \<Longrightarrow> emits (writes x) (wire (writes x)) \<and> decodes reads (wire (writes x)) x"
  using coded [of x] emits_wire unfolding codes_some_def by blast

lemma not_clamped: "fits x \<Longrightarrow> bw_truncated (writes x w) = bw_truncated w"
  using emits_fits [of x] by (simp add: emits_def)

lemma round_trip:
  assumes "fits x"
  shows "run_state reads (byte_reader (wire (writes x) @ rest)) = (x, reader_at (wire (writes x)) rest)"
  using emits_fits [OF assms] decodes_run [of reads "wire (writes x)" x "[]" rest]
  by (simp add: byte_reader_at)

lemma injective:
  assumes "fits x" and "fits y" and "wire (writes x) = wire (writes y) @ rest"
  shows "x = y \<and> rest = []"
proof -
  have "x = y"
    using round_trip [OF assms(1), of "[]", unfolded append_Nil2 assms(3)]
      round_trip [OF assms(2), of rest] by simp
  then show ?thesis
    using assms(3) self_append_conv by metis
qed

lemma stays_inside:
  assumes "run_state reads (byte_reader data) = (v, r)"
  shows "br_position r \<le> length data \<and> (br_ok r \<or> br_status r \<noteq> ErrorCode.Ok)"
  using disciplinedD(1,2) [OF guarded byte_reader_sound assms]
  by (auto simp: br_sound_def br_status_def byte_reader_def)

lemma truncation_refused:
  assumes x: "fits x" and n: "n < length (wire (writes x))"
    and run: "run_state reads (byte_reader (take n (wire (writes x)))) = (v, r)"
  shows "\<not> br_ok r"
proof
  assume "br_ok r"
  let ?bs = "wire (writes x)"
  have "br_extend (drop n ?bs) (byte_reader (take n ?bs)) = byte_reader ?bs"
    by (simp add: br_extend_def byte_reader_def)
  then have "run_state reads (byte_reader ?bs) = (v, br_extend (drop n ?bs) r)"
    using disciplinedD(5) [OF guarded byte_reader_sound run \<open>br_ok r\<close>, of "drop n ?bs"] by simp
  then have "br_position (br_extend (drop n ?bs) r) = length ?bs"
    using round_trip [OF x, of "[]"] by (simp add: reader_at_def)
  then have "br_position r = length ?bs"
    by (simp add: br_extend_def)
  moreover have "br_position r \<le> n"
    using stays_inside [OF run] by simp
  ultimately show False
    using n by simp
qed

end

end
