(* ===== verification/Codec_Values.thy ===== *)
theory Codec_Values
  imports Binary Value
begin

text \<open>
  The wire form of identities, generations, versions, conditions, capability values and query
  environments: the first half of \<^verbatim>\<open>src/codec.cpp\<close>. The reading functions return early where the
  code does; the value they hand back after a failure is the partial object of the code.

  \<open>..._fits\<close> collects what a value has to satisfy to travel unchanged. For a condition this includes
  a bound on its nesting, which is the reader's and not the validator's.
\<close>

section \<open>Identities, versions and lists\<close>

definition write_id :: "string \<Rightarrow> writing" where
  "write_id token = wr_str token kMaxTokenLength"

definition read_id :: "string reading" where
  "read_id = do { s \<leftarrow> rd_str kMaxTokenLength; State_Monad.return (id_parse s) }"

definition write_gen :: "u64 \<Rightarrow> writing" where
  "write_gen v = wr_u64 v"

definition read_gen :: "u64 reading" where
  "read_gen = rd_u64"

definition write_version :: "SoftwareVersion \<Rightarrow> RegistryLimits \<Rightarrow> writing" where
  "write_version version limits = wr_str (sv_raw version) (max_name_length limits)"

definition read_version :: "RegistryLimits \<Rightarrow> SoftwareVersion reading" where
  "read_version limits =
     do { s \<leftarrow> rd_str (max_name_length limits); State_Monad.return (parse_version s) }"

definition write_version_range :: "VersionRange \<Rightarrow> RegistryLimits \<Rightarrow> writing" where
  "write_version_range window limits = write_all [
     write_version (vr_minimum window) limits,
     write_version (vr_maximum window) limits,
     wr_boolean (vr_include_maximum window)]"

definition read_version_range :: "RegistryLimits \<Rightarrow> VersionRange reading" where
  "read_version_range limits = do {
     minimum \<leftarrow> read_version limits;
     maximum \<leftarrow> read_version limits;
     include_maximum \<leftarrow> rd_boolean;
     State_Monad.return
       \<lparr>vr_minimum = minimum, vr_maximum = maximum, vr_include_maximum = include_maximum\<rparr> }"

definition write_u64_list :: "string list \<Rightarrow> RegistryLimits \<Rightarrow> nat \<Rightarrow> writing" where
  "write_u64_list texts limits bound = write_list (\<lambda>s. wr_str s (max_metadata_bytes limits)) bound texts"

definition read_id_list :: "nat \<Rightarrow> string list reading" where
  "read_id_list bound = do {
     l \<leftarrow> rd_list rd_times bound ErrorCode.LimitExceeded read_id;
     State_Monad.return (case l of None \<Rightarrow> [] | Some ids \<Rightarrow> ids) }"

definition read_string_list :: "RegistryLimits \<Rightarrow> nat \<Rightarrow> string list reading" where
  "read_string_list limits bound = do {
     l \<leftarrow> rd_list rd_times bound ErrorCode.CorruptData (rd_str (max_metadata_bytes limits));
     State_Monad.return (case l of None \<Rightarrow> [] | Some texts \<Rightarrow> texts) }"

section \<open>Conditions\<close>

lemma size_list_taken: "x \<in> set (take n xs) \<Longrightarrow> f x \<le> size_list f xs"
  by (rule size_list_estimation' [OF in_set_takeD order_refl])

function (sequential) write_condition :: "ConditionPtr \<Rightarrow> RegistryLimits \<Rightarrow> writing" where
  "write_condition None limits = wr_u8 0"
| "write_condition (Some (ConditionNode kind key text children)) limits = write_all [
     wr_u8 1,
     wr_u16 (enum_tag all_ConditionKind kind),
     wr_str key (max_name_length limits),
     wr_str text (max_name_length limits),
     write_all (wr_u32 (word_of_nat (min (length children) (max_condition_children limits))) #
       map (\<lambda>child. write_condition child limits)
         (take (min (length children) (max_condition_children limits)) children))]"
  by pat_completeness auto

termination
  by (relation "measure (\<lambda>(p, _). size_option size p)")
    (auto simp: less_Suc_eq_le dest!: size_list_taken [where f = "size_option size"])

function read_condition :: "RegistryLimits \<Rightarrow> nat \<Rightarrow> ConditionPtr reading" where
  "read_condition limits depth = do {
     present \<leftarrow> rd_u8;
     good \<leftarrow> rd_ok;
     if \<not> good then State_Monad.return None
     else if present = 0 then State_Monad.return None
     else if present \<noteq> 1
     then do { rd_fail ErrorCode.CorruptData; State_Monad.return None }
     else if depth > max_record_depth limits + 2
     then do { rd_fail ErrorCode.LimitExceeded; State_Monad.return None }
     else do {
       raw_kind \<leftarrow> rd_u16;
       if enum_beyond all_ConditionKind ConditionKind.NotOf raw_kind
       then do { rd_fail ErrorCode.InvalidCondition; State_Monad.return None }
       else do {
         key \<leftarrow> rd_str (max_name_length limits);
         text \<leftarrow> rd_str (max_name_length limits);
         l \<leftarrow> rd_list rd_until_failure (max_condition_children limits) ErrorCode.LimitExceeded
                (read_condition limits (depth + 1));
         good \<leftarrow> rd_ok;
         case l of
           None \<Rightarrow> State_Monad.return None
         | Some children \<Rightarrow>
             if \<not> good then State_Monad.return None
             else State_Monad.return
               (Some (ConditionNode (enum_cast all_ConditionKind raw_kind) key text children)) } } }"
  by pat_completeness auto

termination
  by (relation "measure (\<lambda>(limits, depth). max_record_depth limits + 3 - depth)") auto

section \<open>Values\<close>

lemma size_field_taken: "(name, Some v) \<in> set (take n entries) \<Longrightarrow> size v < Suc (fields_size entries)"
  by (rule size_field [OF in_set_takeD])

function (sequential) write_value :: "CapabilityValue \<Rightarrow> RegistryLimits \<Rightarrow> writing" where
  "write_value V_None limits = write_all [wr_u16 (enum_tag all_ValueKind ValueKind.NoneKind)]"
| "write_value (V_Boolean b) limits = write_all [wr_u16 (enum_tag all_ValueKind ValueKind.Boolean), wr_boolean b]"
| "write_value (V_Count n unit) limits = write_all [
     wr_u16 (enum_tag all_ValueKind ValueKind.Count), wr_u64 n, wr_str unit (max_name_length limits)]"
| "write_value (V_Bytes n) limits = write_all [wr_u16 (enum_tag all_ValueKind ValueKind.Bytes), wr_u64 n]"
| "write_value (V_Rate magnitude unit) limits = write_all [
     wr_u16 (enum_tag all_ValueKind ValueKind.Rate), wr_u64 magnitude, wr_u16 (enum_tag all_RateUnit unit)]"
| "write_value (V_Bandwidth magnitude unit) limits = write_all [
     wr_u16 (enum_tag all_ValueKind ValueKind.Bandwidth), wr_u64 magnitude,
     wr_u16 (enum_tag all_BandwidthUnit unit)]"
| "write_value (V_LatencyClass class) limits = write_all [
     wr_u16 (enum_tag all_ValueKind ValueKind.LatencyClass), wr_u16 (enum_tag all_LatencyClass class)]"
| "write_value (V_Enumeration domain text) limits = write_all [
     wr_u16 (enum_tag all_ValueKind ValueKind.Enumeration),
     wr_str domain (max_name_length limits), wr_str text (max_name_length limits)]"
| "write_value (V_FeatureSet features) limits = write_all [
     wr_u16 (enum_tag all_ValueKind ValueKind.FeatureSet),
     write_u64_list features limits (max_feature_set_entries limits)]"
| "write_value (V_VersionRange window) limits = write_all [
     wr_u16 (enum_tag all_ValueKind ValueKind.VersionRange), write_version_range window limits]"
| "write_value (V_ArchitectureSet architectures) limits = write_all [
     wr_u16 (enum_tag all_ValueKind ValueKind.ArchitectureSet),
     write_list write_id (max_architecture_set_entries limits) architectures]"
| "write_value (V_NumericRange minimum maximum step) limits = write_all [
     wr_u16 (enum_tag all_ValueKind ValueKind.NumericRange), wr_i64 minimum, wr_i64 maximum, wr_i64 step]"
| "write_value (V_Record entries) limits = write_all [
     wr_u16 (enum_tag all_ValueKind ValueKind.Record),
     write_all (wr_u32 (word_of_nat (min (length entries) (max_record_fields limits))) #
       map (\<lambda>entry. write_all [
           wr_str (fst entry) (max_name_length limits),
           case snd entry of
             None \<Rightarrow> wr_u8 0
           | Some v \<Rightarrow> write_all [wr_u8 1, write_value v limits]])
         (take (min (length entries) (max_record_fields limits)) entries))]"
| "write_value (V_Relationship relation target) limits = write_all [
     wr_u16 (enum_tag all_ValueKind ValueKind.Relationship),
     wr_u16 (enum_tag all_CapabilityRelation relation), write_id target]"
| "write_value (V_Predicate condition) limits = write_all [
     wr_u16 (enum_tag all_ValueKind ValueKind.Predicate), write_condition condition limits]"
  by pat_completeness auto

termination
  by (relation "measure (\<lambda>(v, _). size v)") (auto dest!: size_field_taken)

function read_value :: "RegistryLimits \<Rightarrow> nat \<Rightarrow> CapabilityValue reading" where
  "read_value limits depth = do {
     raw_kind \<leftarrow> rd_u16;
     good \<leftarrow> rd_ok;
     if \<not> good then State_Monad.return V_None
     else if enum_beyond all_ValueKind ValueKind.Predicate raw_kind
     then do { rd_fail ErrorCode.InvalidValue; State_Monad.return V_None }
     else if depth > max_record_depth limits
     then do { rd_fail ErrorCode.LimitExceeded; State_Monad.return V_None }
     else case enum_cast all_ValueKind raw_kind of
       ValueKind.NoneKind \<Rightarrow> State_Monad.return V_None
     | ValueKind.Boolean \<Rightarrow> do { b \<leftarrow> rd_boolean; State_Monad.return (V_Boolean b) }
     | ValueKind.Count \<Rightarrow> do {
         n \<leftarrow> rd_u64;
         unit \<leftarrow> rd_str (max_name_length limits);
         State_Monad.return (V_Count n unit) }
     | ValueKind.Bytes \<Rightarrow> do { n \<leftarrow> rd_u64; State_Monad.return (V_Bytes n) }
     | ValueKind.Rate \<Rightarrow> do {
         magnitude \<leftarrow> rd_u64;
         unit \<leftarrow> rd_u16;
         if enum_beyond all_RateUnit RateUnit.OperationsPerSecond unit
         then do { rd_fail ErrorCode.InvalidValue; State_Monad.return V_None }
         else State_Monad.return (V_Rate magnitude (enum_cast all_RateUnit unit)) }
     | ValueKind.Bandwidth \<Rightarrow> do {
         magnitude \<leftarrow> rd_u64;
         unit \<leftarrow> rd_u16;
         if enum_beyond all_BandwidthUnit BandwidthUnit.GigabitsPerSecond unit
         then do { rd_fail ErrorCode.InvalidValue; State_Monad.return V_None }
         else State_Monad.return (V_Bandwidth magnitude (enum_cast all_BandwidthUnit unit)) }
     | ValueKind.LatencyClass \<Rightarrow> do {
         raw \<leftarrow> rd_u16;
         if enum_beyond all_LatencyClass LatencyClass.VeryHigh raw
         then do { rd_fail ErrorCode.InvalidValue; State_Monad.return V_None }
         else State_Monad.return (V_LatencyClass (enum_cast all_LatencyClass raw)) }
     | ValueKind.Enumeration \<Rightarrow> do {
         domain \<leftarrow> rd_str (max_name_length limits);
         text \<leftarrow> rd_str (max_name_length limits);
         State_Monad.return (V_Enumeration domain text) }
     | ValueKind.FeatureSet \<Rightarrow> do {
         features \<leftarrow> read_string_list limits (max_feature_set_entries limits);
         State_Monad.return (V_FeatureSet features) }
     | ValueKind.VersionRange \<Rightarrow> do {
         window \<leftarrow> read_version_range limits;
         State_Monad.return (V_VersionRange window) }
     | ValueKind.ArchitectureSet \<Rightarrow> do {
         l \<leftarrow> rd_list rd_times (max_architecture_set_entries limits) ErrorCode.LimitExceeded read_id;
         State_Monad.return (case l of None \<Rightarrow> V_None | Some ids \<Rightarrow> V_ArchitectureSet ids) }
     | ValueKind.NumericRange \<Rightarrow> do {
         minimum \<leftarrow> rd_i64;
         maximum \<leftarrow> rd_i64;
         step \<leftarrow> rd_i64;
         State_Monad.return (V_NumericRange minimum maximum step) }
     | ValueKind.Record \<Rightarrow> do {
         l \<leftarrow> rd_list rd_until_failure (max_record_fields limits) ErrorCode.LimitExceeded (do {
             name \<leftarrow> rd_str (max_name_length limits);
             present \<leftarrow> rd_u8;
             good \<leftarrow> rd_ok;
             if \<not> good then State_Monad.return (name, None)
             else if present = 1
             then do { nested \<leftarrow> read_value limits (depth + 1); State_Monad.return (name, Some nested) }
             else if present \<noteq> 0
             then do { rd_fail ErrorCode.CorruptData; State_Monad.return (name, None) }
             else State_Monad.return (name, None) });
         good \<leftarrow> rd_ok;
         State_Monad.return
           (case l of None \<Rightarrow> V_None | Some entries \<Rightarrow> if good then V_Record entries else V_None) }
     | ValueKind.Relationship \<Rightarrow> do {
         raw \<leftarrow> rd_u16;
         if enum_beyond all_CapabilityRelation CapabilityRelation.Exclusive raw
         then do { rd_fail ErrorCode.InvalidValue; State_Monad.return V_None }
         else do {
           target \<leftarrow> read_id;
           State_Monad.return (V_Relationship (enum_cast all_CapabilityRelation raw) target) } }
     | ValueKind.Predicate \<Rightarrow> do {
         condition \<leftarrow> read_condition limits (depth + 1);
         State_Monad.return (V_Predicate condition) } }"
  by pat_completeness auto

termination
  by (relation "measure (\<lambda>(limits, depth). max_record_depth limits + 1 - depth)") auto

declare write_condition.simps [simp del] read_condition.simps [simp del]
  write_value.simps [simp del] read_value.simps [simp del]

section \<open>Environments\<close>

definition write_environment :: "EnvironmentContext \<Rightarrow> RegistryLimits \<Rightarrow> writing" where
  "write_environment environment limits =
     write_list (\<lambda>entry. write_all [
         wr_str (fst entry) (max_name_length limits), wr_str (snd entry) (max_metadata_bytes limits)])
       (max_query_results limits) environment"

definition read_environment :: "RegistryLimits \<Rightarrow> EnvironmentContext reading" where
  "read_environment limits = do {
     l \<leftarrow> rd_list rd_times (max_query_results limits) ErrorCode.LimitExceeded (do {
         key \<leftarrow> rd_str (max_name_length limits);
         text \<leftarrow> rd_str (max_metadata_bytes limits);
         State_Monad.return (key, text) });
     State_Monad.return (case l of
         None \<Rightarrow> []
       | Some entries \<Rightarrow> fold (\<lambda>entry. env_set (fst entry) (snd entry)) entries []) }"

section \<open>What travels unchanged\<close>

lemma pred_option_code [code]:
  "pred_option fits None = True"
  "pred_option fits (Some x) = fits x"
  by simp_all

definition str_fits :: "nat \<Rightarrow> string \<Rightarrow> bool" where
  "str_fits bound s \<longleftrightarrow> length s \<le> bound \<and> length s < 2 ^ 32"

definition list_fits :: "nat \<Rightarrow> ('a \<Rightarrow> bool) \<Rightarrow> 'a list \<Rightarrow> bool" where
  "list_fits bound fits xs \<longleftrightarrow> length xs \<le> bound \<and> length xs < 2 ^ 32 \<and> list_all fits xs"

definition version_fits :: "RegistryLimits \<Rightarrow> SoftwareVersion \<Rightarrow> bool" where
  "version_fits limits v \<longleftrightarrow> parse_version (sv_raw v) = v \<and> str_fits (max_name_length limits) (sv_raw v)"

definition range_fits :: "RegistryLimits \<Rightarrow> VersionRange \<Rightarrow> bool" where
  "range_fits limits window \<longleftrightarrow> version_fits limits (vr_minimum window) \<and> version_fits limits (vr_maximum window)"

fun condition_fits :: "RegistryLimits \<Rightarrow> nat \<Rightarrow> ConditionPtr \<Rightarrow> bool" where
  "condition_fits limits depth None = True"
| "condition_fits limits depth (Some (ConditionNode kind key text children)) \<longleftrightarrow>
     depth \<le> max_record_depth limits + 2 \<and>
     str_fits (max_name_length limits) key \<and> str_fits (max_name_length limits) text \<and>
     length children \<le> max_condition_children limits \<and> length children < 2 ^ 32 \<and>
     (\<forall>child\<in>set children. condition_fits limits (depth + 1) child)"

function (sequential) value_fits :: "RegistryLimits \<Rightarrow> nat \<Rightarrow> CapabilityValue \<Rightarrow> bool" where
  "value_fits limits depth (V_Count n unit) \<longleftrightarrow>
     depth \<le> max_record_depth limits \<and> str_fits (max_name_length limits) unit"
| "value_fits limits depth (V_Enumeration domain text) \<longleftrightarrow>
     depth \<le> max_record_depth limits \<and>
     str_fits (max_name_length limits) domain \<and> str_fits (max_name_length limits) text"
| "value_fits limits depth (V_FeatureSet features) \<longleftrightarrow>
     depth \<le> max_record_depth limits \<and>
     list_fits (max_feature_set_entries limits) (str_fits (max_metadata_bytes limits)) features"
| "value_fits limits depth (V_VersionRange window) \<longleftrightarrow>
     depth \<le> max_record_depth limits \<and> range_fits limits window"
| "value_fits limits depth (V_ArchitectureSet architectures) \<longleftrightarrow>
     depth \<le> max_record_depth limits \<and>
     list_fits (max_architecture_set_entries limits) wf_id architectures"
| "value_fits limits depth (V_Record entries) \<longleftrightarrow>
     depth \<le> max_record_depth limits \<and>
     length entries \<le> max_record_fields limits \<and> length entries < 2 ^ 32 \<and>
     (\<forall>(name, nested)\<in>set entries. str_fits (max_name_length limits) name \<and>
        (case nested of None \<Rightarrow> True | Some v \<Rightarrow> value_fits limits (depth + 1) v))"
| "value_fits limits depth (V_Relationship relation target) \<longleftrightarrow>
     depth \<le> max_record_depth limits \<and> wf_id target"
| "value_fits limits depth (V_Predicate condition) \<longleftrightarrow>
     depth \<le> max_record_depth limits \<and> condition_fits limits (depth + 1) condition"
| "value_fits limits depth _ \<longleftrightarrow> depth \<le> max_record_depth limits"
  by pat_completeness auto

termination
  by (relation "measure (\<lambda>(limits, depth, v). size v)") (auto dest!: size_field)

definition environment_fits :: "RegistryLimits \<Rightarrow> EnvironmentContext \<Rightarrow> bool" where
  "environment_fits limits environment \<longleftrightarrow>
     om_ok environment \<and>
     list_fits (max_query_results limits) (\<lambda>(key, text).
       str_fits (max_name_length limits) key \<and> str_fits (max_metadata_bytes limits) text \<and>
       ascii_lower key = key \<and> ascii_lower text = text) environment"

section \<open>Round trips\<close>

lemma wr_str_fits [codes_intro]: "str_fits bound s \<Longrightarrow> codes_some (wr_str s bound) (rd_str bound) s"
  by (simp add: str_fits_def wr_str_wire)

lemma write_list_fits:
  assumes "loops g loop" and "list_fits bound fits xs" and "\<And>x. fits x \<Longrightarrow> codes_some (f x) r (g x)"
  shows "codes_some (write_list f bound xs) (rd_list loop bound code r) (Some xs)"
  using assms by (intro write_list_wire) (auto simp: list_fits_def list_all_iff)

lemma write_id_wire [codes_intro]: "wf_id token \<Longrightarrow> codes_some (write_id token) read_id token"
  unfolding write_id_def read_id_def
  by (rule codes_some_map [OF wr_str_wire])
    (auto simp: wf_id_def id_parse_def is_canonical_token_def kMaxTokenLength_def split: if_splits)

lemma write_gen_wire: "codes_some (write_gen v) read_gen v"
  unfolding write_gen_def read_gen_def by (rule wr_u64_wire)

lemma write_version_wire: "version_fits limits v \<Longrightarrow> codes_some (write_version v limits) (read_version limits) v"
  unfolding write_version_def read_version_def version_fits_def
  by (auto intro: codes_some_map [OF wr_str_fits])

lemmas identity_then [codes_intro] =
  wr_str_fits [THEN codes_then] wr_str_fits [THEN codes_some_bind]
  write_id_wire [THEN codes_then] write_id_wire [THEN codes_some_bind]
  write_gen_wire [THEN codes_then] write_gen_wire [THEN codes_some_bind]
  write_version_wire [THEN codes_then] write_version_wire [THEN codes_some_bind]

lemma write_version_range_wire:
  "range_fits limits window \<Longrightarrow> codes_some (write_version_range window limits) (read_version_range limits) window"
  unfolding write_version_range_def read_version_range_def range_fits_def
  by (auto intro!: codes_intro)

lemma write_u64_list_wire:
  "list_fits bound (str_fits (max_metadata_bytes limits)) texts \<Longrightarrow>
     codes_some (write_u64_list texts limits bound) (read_string_list limits bound) texts"
  unfolding write_u64_list_def read_string_list_def
  by (rule codes_some_map [OF write_list_fits [OF rd_times_loops _ wr_str_fits]]) simp_all

lemma read_id_list_wire:
  "list_fits bound wf_id ids \<Longrightarrow> codes_some (write_list write_id bound ids) (read_id_list bound) ids"
  unfolding read_id_list_def
  by (rule codes_some_map [OF write_list_fits [OF rd_times_loops _ write_id_wire]]) simp_all

lemmas window_then [codes_intro] =
  write_version_range_wire [THEN codes_then] write_version_range_wire [THEN codes_some_bind]
  write_u64_list_wire [THEN codes_then] write_u64_list_wire [THEN codes_some_bind]
  read_id_list_wire [THEN codes_then] read_id_list_wire [THEN codes_some_bind]

subsection \<open>Conditions and values\<close>

interpretation wire_ConditionKind: wire_enum all_ConditionKind ConditionKind.NotOf
  by unfold_locales (rule condition_names.complete, simp_all add: all_ConditionKind_def)

interpretation wire_ValueKind: wire_enum all_ValueKind ValueKind.Predicate
  by unfold_locales (rule value_kind_names.complete, simp_all add: all_ValueKind_def)

interpretation wire_RateUnit: wire_enum all_RateUnit RateUnit.OperationsPerSecond
  by unfold_locales (rule rate_unit_names.complete, simp_all add: all_RateUnit_def)

interpretation wire_BandwidthUnit: wire_enum all_BandwidthUnit BandwidthUnit.GigabitsPerSecond
  by unfold_locales (rule bandwidth_unit_names.complete, simp_all add: all_BandwidthUnit_def)

interpretation wire_LatencyClass: wire_enum all_LatencyClass LatencyClass.VeryHigh
  by unfold_locales (rule latency_names.complete, simp_all add: all_LatencyClass_def)

interpretation wire_CapabilityRelation: wire_enum all_CapabilityRelation CapabilityRelation.Exclusive
  by unfold_locales (rule relation_names.complete, simp_all add: all_CapabilityRelation_def)

lemma write_condition_Some:
  "write_condition (Some (ConditionNode kind key text children)) limits = write_all [
     wr_u8 1, wr_u16 (enum_tag all_ConditionKind kind),
     wr_str key (max_name_length limits), wr_str text (max_name_length limits),
     write_list (\<lambda>child. write_condition child limits) (max_condition_children limits) children]"
  by (simp add: write_condition.simps write_list_def Let_def)

lemma write_condition_wire:
  "condition_fits limits depth p \<Longrightarrow> codes_some (write_condition p limits) (read_condition limits depth) p"
proof (induction limits depth p rule: condition_fits.induct)
  case (1 limits depth)
  have "codes_some (write_all [wr_u8 0]) (read_condition limits depth) None"
    by (subst read_condition.simps) (auto intro!: codes_intro)
  moreover have "write_all [wr_u8 0] = write_condition None limits"
    by (simp add: write_condition.simps fun_eq_iff write_all_Cons write_all_Nil)
  ultimately show ?case
    by simp
next
  case (2 limits depth kind key lit children)
  then have children: "\<forall>child\<in>set children.
      codes_some (write_condition child limits) (read_condition limits (depth + 1)) child"
    by simp
  show ?case
    unfolding write_condition_Some using 2(2) children
    by (subst read_condition.simps) (auto intro!: codes_intro)
qed

lemma write_value_Record:
  "write_value (V_Record entries) limits = write_all [
     wr_u16 (enum_tag all_ValueKind ValueKind.Record),
     write_list (\<lambda>entry. write_all [
         wr_str (fst entry) (max_name_length limits),
         case snd entry of None \<Rightarrow> wr_u8 0 | Some v \<Rightarrow> write_all [wr_u8 1, write_value v limits]])
       (max_record_fields limits) entries]"
  by (simp add: write_value.simps write_list_def Let_def)

lemmas condition_then [codes_intro] =
  write_condition_wire [THEN codes_then] write_condition_wire [THEN codes_some_bind]

text \<open>A group of writes inside a sequence of writes.\<close>

lemma codes_nested:
  "codes (write_all (fs @ gs)) r x \<Longrightarrow> codes (write_all (write_all fs # gs)) r x"
proof -
  have "write_all (write_all fs # gs) = write_all (fs @ gs)"
    by (simp add: fun_eq_iff write_all_def)
  then show "codes (write_all (fs @ gs)) r x \<Longrightarrow> codes (write_all (write_all fs # gs)) r x"
    by simp
qed

lemma field_wire:
  assumes "str_fits (max_name_length limits) (fst entry)"
    and "\<And>v. snd entry = Some v \<Longrightarrow> codes_some (f v) r v"
  shows "codes_some
     (write_all [wr_str (fst entry) (max_name_length limits),
        case snd entry of None \<Rightarrow> wr_u8 0 | Some v \<Rightarrow> write_all [wr_u8 1, f v]])
     (do {
        name \<leftarrow> rd_str (max_name_length limits);
        present \<leftarrow> rd_u8;
        good \<leftarrow> rd_ok;
        if \<not> good then State_Monad.return (name, None)
        else if present = 1 then do { nested \<leftarrow> r; State_Monad.return (name, Some nested) }
        else if present \<noteq> 0 then do { rd_fail ErrorCode.CorruptData; State_Monad.return (name, None) }
        else State_Monad.return (name, None) })
     entry"
proof (cases "snd entry")
  case None
  then show ?thesis
    using assms(1) by (cases entry) (auto intro!: codes_intro)
next
  case (Some v)
  show ?thesis
    using assms(1) Some
    by (cases entry) (auto intro!: codes_intro codes_nested codes_then [OF assms(2)])
qed

lemma write_value_wire:
  "value_fits limits depth v \<Longrightarrow> codes_some (write_value v limits) (read_value limits depth) v"
proof (induction limits depth v rule: value_fits.induct)
  case (5 limits depth architectures)
  then show ?case
    by (subst read_value.simps)
      (auto simp: write_value.simps list_fits_def list_all_iff intro!: codes_intro write_id_wire)
next
  case (6 limits depth entries)
  have name: "str_fits (max_name_length limits) (fst entry)" if "entry \<in> set entries" for entry
    using 6(2) that by auto
  have nested: "codes_some (write_value v limits) (read_value limits (depth + 1)) v"
    if "entry \<in> set entries" "snd entry = Some v" for entry v
    using 6(1) [of entry "fst entry" "snd entry" v] 6(2) that by (cases entry) fastforce
  show ?case
    unfolding write_value_Record using 6(2)
    by (subst read_value.simps) (auto intro!: codes_intro field_wire dest: name nested)
qed (subst read_value.simps, auto simp: write_value.simps intro!: codes_intro)+

lemmas value_then [codes_intro] =
  write_value_wire [THEN codes_then] write_value_wire [THEN codes_some_bind]

lemma om_put_last: "\<forall>k'\<in>set (om_keys m). k' < k \<Longrightarrow> om_put k v m = m @ [(k, v)]"
  by (induction k v m rule: om_put.induct) (auto simp: om_keys_def)

lemma fold_env_set:
  "om_ok (m @ entries) \<Longrightarrow> \<forall>(key, lit)\<in>set entries. ascii_lower key = key \<and> ascii_lower lit = lit \<Longrightarrow>
     fold (\<lambda>entry. env_set (fst entry) (snd entry)) entries m = m @ entries"
proof (induction entries arbitrary: m)
  case Nil
  show ?case by simp
next
  case (Cons entry entries)
  have "env_set (fst entry) (snd entry) m = m @ [entry]"
    unfolding env_set_def using Cons.prems
    by (cases entry) (auto simp: om_ok_def om_keys_def sorted_wrt_append intro!: om_put_last)
  then show ?case
    using Cons.IH [of "m @ [entry]"] Cons.prems by simp
qed

lemma write_environment_wire:
  assumes "environment_fits limits environment"
  shows "codes_some (write_environment environment limits) (read_environment limits) environment"
proof -
  have "fold (\<lambda>entry. env_set (fst entry) (snd entry)) environment [] = environment"
    using fold_env_set [of "[]" environment] assms
    by (auto simp: environment_fits_def list_fits_def list_all_iff)
  then show ?thesis
    unfolding write_environment_def read_environment_def using assms
    by (intro codes_some_map [OF list_wire(1)])
      (auto simp: environment_fits_def list_fits_def list_all_iff intro!: codes_intro)
qed

lemmas environment_then [codes_intro] =
  write_environment_wire [THEN codes_then] write_environment_wire [THEN codes_some_bind]

section \<open>Discipline\<close>

lemma disciplined_identities [disciplined_intro]:
  "disciplined read_id" "disciplined read_gen" "disciplined (read_version limits)"
  "disciplined (read_version_range limits)" "disciplined (read_id_list bound)"
  "disciplined (read_string_list limits bound)" "disciplined (read_environment limits)"
  unfolding read_id_def read_gen_def read_version_def read_version_range_def read_id_list_def
    read_string_list_def read_environment_def
  by (intro disciplined_intro; simp)+

lemma disciplined_condition [disciplined_intro]: "disciplined (read_condition limits depth)"
proof (induction "max_record_depth limits + 3 - depth" arbitrary: depth rule: less_induct)
  case less
  then show ?case
    by (subst read_condition.simps) (intro disciplined_intro; simp)
qed

lemma disciplined_value [disciplined_intro]: "disciplined (read_value limits depth)"
proof (induction "max_record_depth limits + 1 - depth" arbitrary: depth rule: less_induct)
  case less
  then show ?case
    by (subst read_value.simps) (auto intro!: disciplined_intro split: ValueKind.split)
qed

interpretation condition_wire: wire_format "\<lambda>p. write_condition p limits" "read_condition limits depth"
    "condition_fits limits depth" for limits depth
  by unfold_locales (simp_all add: write_condition_wire disciplined_condition)

interpretation value_wire: wire_format "\<lambda>v. write_value v limits" "read_value limits depth"
    "value_fits limits depth" for limits depth
  by unfold_locales (simp_all add: write_value_wire disciplined_value)

end
