(* ===== verification/Codec_Records.thy ===== *)
theory Codec_Records
  imports Codec_Values Registry_State
begin

text \<open>
  The wire form of the records a publication carries: identities, software state, evidence sources,
  capability records, quirks, compatibility facts and the publication itself (\<^verbatim>\<open>src/codec.cpp\<close>).

  The objects named \<open>no_...\<close> are the default-initialised C++ objects; a reading function that stops early
  returns such an object with the members read so far. \<open>..._fits\<close> collects, for each record, the
  bounds the reader enforces; under them the record travels unchanged.
\<close>

section \<open>Enumerations on the wire\<close>

interpretation wire_SourceClass: wire_enum all_SourceClass SourceClass.HardwareProbe
  by unfold_locales (rule source_names.complete, simp_all add: all_SourceClass_def)

interpretation wire_ProvenanceClass: wire_enum all_ProvenanceClass ProvenanceClass.UnknownSource
  by unfold_locales (rule provenance_names.complete, simp_all add: all_ProvenanceClass_def)

interpretation wire_HardwareClass: wire_enum all_HardwareClass HardwareClass.Other
  by unfold_locales (rule hardware_class_names.complete, simp_all add: all_HardwareClass_def)

interpretation wire_CapabilityDomain: wire_enum all_CapabilityDomain CapabilityDomain.Platform
  by unfold_locales (rule domain_names.complete, simp_all add: all_CapabilityDomain_def)

interpretation wire_SupportState: wire_enum all_SupportState SupportState.RevalidationRequired
  by unfold_locales (rule support_names.complete, simp_all add: all_SupportState_def)

interpretation wire_PrecisionClass: wire_enum all_PrecisionClass PrecisionClass.Unknown
  by unfold_locales (rule precision_names.complete, simp_all add: all_PrecisionClass_def)

interpretation wire_QuirkCategory: wire_enum all_QuirkCategory QuirkCategory.Other
  by unfold_locales (rule quirk_category_names.complete, simp_all add: all_QuirkCategory_def)

interpretation wire_QuirkSeverity: wire_enum all_QuirkSeverity QuirkSeverity.Fatal
  by unfold_locales (rule quirk_severity_names.complete, simp_all add: all_QuirkSeverity_def)

interpretation wire_MitigationKind: wire_enum all_MitigationKind MitigationKind.ContactVendor
  by unfold_locales (rule mitigation_names.complete, simp_all add: all_MitigationKind_def)

interpretation wire_CompatibilitySubjectKind: wire_enum all_CompatibilitySubjectKind CompatibilitySubjectKind.Other
  by unfold_locales (rule subject_kind_names.complete, simp_all add: all_CompatibilitySubjectKind_def)

interpretation wire_CompatibilityOutcome: wire_enum all_CompatibilityOutcome CompatibilityOutcome.RevalidationRequired
  by unfold_locales (rule compatibility_names.complete, simp_all add: all_CompatibilityOutcome_def)

interpretation wire_ReferenceKind: wire_enum all_ReferenceKind ReferenceKind.Platform
  by unfold_locales (rule reference_kind_names.complete, simp_all add: all_ReferenceKind_def)

interpretation wire_PublicationKind: wire_enum all_PublicationKind PublicationKind.Heartbeat
  by unfold_locales (rule publication_kind_names.complete, simp_all add: all_PublicationKind_def)

section \<open>Default objects\<close>

definition no_source :: EvidenceSource where
  "no_source = \<lparr>es_source_class = SourceClass.Unspecified, es_provenance = ProvenanceClass.UnknownSource,
     es_publisher = no_publisher, es_adapter = [], es_native_reference = [], es_observation_sequence = 0,
     es_observed_at_utc = [], es_evidence_generation = 0, es_platform_generation = 0\<rparr>"

definition no_hardware :: HardwareIdentity where
  "no_hardware = \<lparr>hw_vendor = [], hw_product = [], hw_family = [], hw_model = [], hw_revision = [],
     hw_architecture = [], hw_class = HardwareClass.Unknown, hw_native_identifiers = []\<rparr>"

definition no_platform :: PlatformIdentity where
  "no_platform = \<lparr>pf_id = [], pf_display_name = [], pf_vendor = [], pf_model = [], pf_architecture = [],
     pf_native_identifiers = []\<rparr>"

definition no_device_identity :: DeviceIdentity where
  "no_device_identity = \<lparr>di_id = [], di_incarnation = [], di_hardware = no_hardware, di_platform = [],
     di_serial_number = None, di_instance_locator = None, di_display_name = []\<rparr>"

definition no_software :: DeviceSoftwareState where
  "no_software = \<lparr>sw_firmware = \<lparr>fw_id = [], fw_version = [], fw_build = []\<rparr>, sw_firmware_generation = 0,
     sw_driver = \<lparr>dr_id = [], dr_version = []\<rparr>, sw_driver_generation = 0,
     sw_runtime = \<lparr>rt_id = [], rt_version = []\<rparr>, sw_runtime_generation = 0\<rparr>"

definition no_registration :: DeviceRegistration where
  "no_registration = \<lparr>reg_identity = no_device_identity, reg_software = no_software, reg_platform = no_platform,
     reg_device_boot_observed = False, reg_observation_sequence = 0, reg_observed_at_utc = []\<rparr>"

definition no_schema :: CapabilitySchema where
  "no_schema = \<lparr>cs_id = [], cs_capability = [], cs_domain = CapabilityDomain.Other,
     cs_value_kind = ValueKind.NoneKind, cs_canonical_name = [], cs_unit = []\<rparr>"

definition no_capability :: CapabilityRecord where
  "no_capability = \<lparr>cr_device = [], cr_device_generation = 0, cr_device_boot = 0, cr_capability = [],
     cr_schema = [], cr_capability_generation = 0, cr_support = SupportState.Unknown, cr_value = V_None,
     cr_precision = PrecisionClass.Unknown, cr_source = no_source, cr_conditions = None,
     cr_firmware_generation = 0, cr_driver_generation = 0, cr_runtime_generation = 0,
     cr_platform_generation = 0, cr_driver_id = [], cr_firmware_id = [], cr_runtime_id = [],
     cr_withdrawn = False\<rparr>"

definition no_applicability :: QuirkApplicability where
  "no_applicability = \<lparr>qa_vendors = [], qa_families = [], qa_models = [], qa_devices = [], qa_revisions = [],
     qa_revision_ranges = [], qa_architectures = [], qa_driver_ranges = [], qa_firmware_ranges = [],
     qa_runtime_ranges = [], qa_platform_conditions = None\<rparr>"

definition no_quirk :: QuirkRecord where
  "no_quirk = \<lparr>qr_id = [], qr_generation = 0, qr_title = [], qr_description = [],
     qr_category = QuirkCategory.Other, qr_severity = QuirkSeverity.Informational,
     qr_mitigation = MitigationKind.NoMitigation, qr_applicability = no_applicability,
     qr_impacted_capabilities = [], qr_source = no_source, qr_withdrawn = False\<rparr>"

definition no_reference :: HardwareReference where
  "no_reference = \<lparr>hr_kind = ReferenceKind.Device, hr_token = [], hr_version = empty_version\<rparr>"

definition no_fact :: CompatibilityFact where
  "no_fact = \<lparr>cf_id = [], cf_generation = 0, cf_kind = CompatibilitySubjectKind.Other, cf_lhs = no_reference,
     cf_rhs = no_reference, cf_outcome = CompatibilityOutcome.Unknown, cf_conditions = None,
     cf_version_window = \<lparr>vr_minimum = empty_version, vr_maximum = empty_version, vr_include_maximum = False\<rparr>,
     cf_reason = [], cf_source = no_source, cf_withdrawn = False\<rparr>"

definition no_publication :: Publication where
  "no_publication = \<lparr>pb_kind = PublicationKind.RegisterDevice, pb_publisher = no_publisher, pb_sequence = 0,
     pb_evidence_generation = 0, pb_device = no_registration, pb_capability = no_capability,
     pb_quirk = no_quirk, pb_compatibility = no_fact, pb_schema = no_schema, pb_reason = [],
     pb_issued_at_utc = []\<rparr>"

section \<open>Publishers and sources\<close>

definition write_publisher_identity :: "PublisherIdentity \<Rightarrow> writing" where
  "write_publisher_identity x = write_all [
     write_id (pub_id x),
     write_gen (pub_boot x),
     write_gen (pub_epoch x)]"

definition read_publisher_identity :: "PublisherIdentity reading" where
  "read_publisher_identity = do {
     ident \<leftarrow> read_id;
     boot \<leftarrow> read_gen;
     epoch \<leftarrow> read_gen;
     State_Monad.return \<lparr>pub_id = ident, pub_boot = boot, pub_epoch = epoch\<rparr> }"

definition publisher_identity_fits :: "PublisherIdentity \<Rightarrow> bool" where
  "publisher_identity_fits x \<longleftrightarrow> wf_id (pub_id x)"

lemma write_publisher_identity_wire:
  "publisher_identity_fits x \<Longrightarrow>
     codes_some (write_publisher_identity x) read_publisher_identity x"
  unfolding write_publisher_identity_def read_publisher_identity_def publisher_identity_fits_def
  by (cases x) (auto intro!: codes_intro)

lemmas publisher_identity_then [codes_intro] =
  write_publisher_identity_wire [THEN codes_then] write_publisher_identity_wire [THEN codes_some_bind]

lemma disciplined_publisher_identity [disciplined_intro]: "disciplined read_publisher_identity"
  unfolding read_publisher_identity_def by (intro disciplined_intro; simp)

definition write_evidence_source :: "EvidenceSource \<Rightarrow> RegistryLimits \<Rightarrow> writing" where
  "write_evidence_source x limits = write_all [
     wr_u16 (enum_tag all_SourceClass (es_source_class x)),
     wr_u16 (enum_tag all_ProvenanceClass (es_provenance x)),
     write_publisher_identity (es_publisher x),
     wr_str (es_adapter x) (max_metadata_bytes limits),
     wr_str (es_native_reference x) (max_metadata_bytes limits),
     wr_u64 (es_observation_sequence x),
     wr_str (es_observed_at_utc x) (max_metadata_bytes limits),
     write_gen (es_evidence_generation x),
     wr_u64 (es_platform_generation x)]"

definition read_evidence_source :: "RegistryLimits \<Rightarrow> EvidenceSource reading" where
  "read_evidence_source limits = do {
     raw_source_class \<leftarrow> rd_u16;
     raw_provenance \<leftarrow> rd_u16;
     if enum_beyond all_SourceClass SourceClass.HardwareProbe raw_source_class \<or>
        enum_beyond all_ProvenanceClass ProvenanceClass.UnknownSource raw_provenance
     then do { rd_fail ErrorCode.InvalidProvenance;
       State_Monad.return no_source }
     else do {
       publisher \<leftarrow> read_publisher_identity;
       adapter \<leftarrow> rd_str (max_metadata_bytes limits);
       native_reference \<leftarrow> rd_str (max_metadata_bytes limits);
       observation_sequence \<leftarrow> rd_u64;
       observed_at_utc \<leftarrow> rd_str (max_metadata_bytes limits);
       evidence_generation \<leftarrow> read_gen;
       platform_generation \<leftarrow> rd_u64;
       State_Monad.return \<lparr>es_source_class = enum_cast all_SourceClass raw_source_class,
           es_provenance = enum_cast all_ProvenanceClass raw_provenance, es_publisher = publisher,
           es_adapter = adapter, es_native_reference = native_reference,
           es_observation_sequence = observation_sequence, es_observed_at_utc = observed_at_utc,
           es_evidence_generation = evidence_generation,
           es_platform_generation = platform_generation\<rparr> } }"

definition evidence_source_fits :: "RegistryLimits \<Rightarrow> EvidenceSource \<Rightarrow> bool" where
  "evidence_source_fits limits x \<longleftrightarrow>
     publisher_identity_fits (es_publisher x) \<and>
     str_fits (max_metadata_bytes limits) (es_adapter x) \<and>
     str_fits (max_metadata_bytes limits) (es_native_reference x) \<and>
     str_fits (max_metadata_bytes limits) (es_observed_at_utc x)"

lemma write_evidence_source_wire:
  "evidence_source_fits limits x \<Longrightarrow>
     codes_some (write_evidence_source x limits) (read_evidence_source limits) x"
  unfolding write_evidence_source_def read_evidence_source_def evidence_source_fits_def
  by (cases x) (auto intro!: codes_intro)

lemmas evidence_source_then [codes_intro] =
  write_evidence_source_wire [THEN codes_then] write_evidence_source_wire [THEN codes_some_bind]

lemma disciplined_evidence_source [disciplined_intro]: "disciplined (read_evidence_source limits)"
  unfolding read_evidence_source_def by (intro disciplined_intro; simp)

section \<open>Hardware, platform and device identities\<close>

definition write_native_identifier :: "NativeIdentifier \<Rightarrow> RegistryLimits \<Rightarrow> writing" where
  "write_native_identifier x limits = write_all [
     wr_str (fst x) (max_name_length limits), wr_str (snd x) (max_metadata_bytes limits)]"

definition read_native_identifier :: "RegistryLimits \<Rightarrow> NativeIdentifier reading" where
  "read_native_identifier limits = do {
     key \<leftarrow> rd_str (max_name_length limits);
     lit \<leftarrow> rd_str (max_metadata_bytes limits);
     State_Monad.return (key, lit) }"

definition native_identifier_fits :: "RegistryLimits \<Rightarrow> NativeIdentifier \<Rightarrow> bool" where
  "native_identifier_fits limits x \<longleftrightarrow>
     str_fits (max_name_length limits) (fst x) \<and> str_fits (max_metadata_bytes limits) (snd x)"

lemma write_native_identifier_wire:
  "native_identifier_fits limits x \<Longrightarrow>
     codes_some (write_native_identifier x limits) (read_native_identifier limits) x"
  unfolding write_native_identifier_def read_native_identifier_def native_identifier_fits_def
  by (cases x) (auto intro!: codes_intro)

lemma disciplined_native_identifier [disciplined_intro]: "disciplined (read_native_identifier limits)"
  unfolding read_native_identifier_def by (intro disciplined_intro)

text \<open>Counted lists whose elements have a wire form of their own.\<close>

lemma write_fitting_list:
  assumes "list_fits bound fits xs" and "\<And>x. fits x \<Longrightarrow> codes_some (f x) r x"
  shows "codes_some (write_list f bound xs) (rd_list rd_times bound code r) (Some xs)"
    and "codes_some (write_list f bound xs) (rd_list rd_until_failure bound code r) (Some xs)"
    and "codes_some (write_list f bound xs) (rd_list rd_while_ok bound code r) (Some xs)"
  using assms write_list_fits [OF rd_times_loops] write_list_fits [OF rd_until_failure_loops]
    write_list_fits [OF rd_while_ok_loops] by blast+

lemmas native_identifier_list =
  write_fitting_list [where fits = "native_identifier_fits limits" for limits, OF _ write_native_identifier_wire]

lemmas native_identifier_list_then [codes_intro] =
  native_identifier_list [THEN codes_then] native_identifier_list [THEN codes_some_bind]

definition write_hardware_identity :: "HardwareIdentity \<Rightarrow> RegistryLimits \<Rightarrow> writing"
    where
  "write_hardware_identity x limits = write_all [
     write_id (hw_vendor x),
     write_id (hw_product x),
     write_id (hw_family x),
     write_id (hw_model x),
     write_id (hw_revision x),
     write_id (hw_architecture x),
     wr_u16 (enum_tag all_HardwareClass (hw_class x)),
     write_list (\<lambda>e. write_native_identifier e limits) (max_native_identifiers limits)
         (hw_native_identifiers x)]"

definition read_hardware_identity :: "RegistryLimits \<Rightarrow> HardwareIdentity reading" where
  "read_hardware_identity limits = do {
     vendor \<leftarrow> read_id;
     product \<leftarrow> read_id;
     family \<leftarrow> read_id;
     model \<leftarrow> read_id;
     revision \<leftarrow> read_id;
     architecture \<leftarrow> read_id;
     raw_class \<leftarrow> rd_u16;
     if enum_beyond all_HardwareClass HardwareClass.Other raw_class
     then do { rd_fail ErrorCode.InvalidIdentity;
       State_Monad.return (no_hardware\<lparr>hw_vendor := vendor, hw_product := product,
           hw_family := family, hw_model := model, hw_revision := revision,
           hw_architecture := architecture\<rparr>) }
     else do {
       l_native_identifiers \<leftarrow> rd_list rd_times (max_native_identifiers limits)
           ErrorCode.LimitExceeded (read_native_identifier limits);
       native_identifiers \<leftarrow> State_Monad.return (case l_native_identifiers of None \<Rightarrow> []
           | Some es \<Rightarrow> es);
       State_Monad.return \<lparr>hw_vendor = vendor, hw_product = product, hw_family = family,
           hw_model = model, hw_revision = revision, hw_architecture = architecture,
           hw_class = enum_cast all_HardwareClass raw_class,
           hw_native_identifiers = native_identifiers\<rparr> } }"

definition hardware_identity_fits :: "RegistryLimits \<Rightarrow> HardwareIdentity \<Rightarrow> bool" where
  "hardware_identity_fits limits x \<longleftrightarrow>
     wf_id (hw_vendor x) \<and>
     wf_id (hw_product x) \<and>
     wf_id (hw_family x) \<and>
     wf_id (hw_model x) \<and>
     wf_id (hw_revision x) \<and>
     wf_id (hw_architecture x) \<and>
     list_fits (max_native_identifiers limits) (native_identifier_fits limits) (hw_native_identifiers x)"

lemma write_hardware_identity_wire:
  "hardware_identity_fits limits x \<Longrightarrow>
     codes_some (write_hardware_identity x limits) (read_hardware_identity limits) x"
  unfolding write_hardware_identity_def read_hardware_identity_def hardware_identity_fits_def
  by (cases x) (auto intro!: codes_intro)

lemmas hardware_identity_then [codes_intro] =
  write_hardware_identity_wire [THEN codes_then] write_hardware_identity_wire [THEN codes_some_bind]

lemma disciplined_hardware_identity [disciplined_intro]: "disciplined (read_hardware_identity limits)"
  unfolding read_hardware_identity_def by (intro disciplined_intro; simp)

definition write_platform_identity :: "PlatformIdentity \<Rightarrow> RegistryLimits \<Rightarrow> writing"
    where
  "write_platform_identity x limits = write_all [
     write_id (pf_id x),
     wr_str (pf_display_name x) (max_name_length limits),
     wr_str (pf_vendor x) (max_name_length limits),
     wr_str (pf_model x) (max_name_length limits),
     write_id (pf_architecture x),
     write_list (\<lambda>e. write_native_identifier e limits) (max_native_identifiers limits)
         (pf_native_identifiers x)]"

definition read_platform_identity :: "RegistryLimits \<Rightarrow> PlatformIdentity reading" where
  "read_platform_identity limits = do {
     ident \<leftarrow> read_id;
     display_name \<leftarrow> rd_str (max_name_length limits);
     vendor \<leftarrow> rd_str (max_name_length limits);
     model \<leftarrow> rd_str (max_name_length limits);
     architecture \<leftarrow> read_id;
     l_native_identifiers \<leftarrow> rd_list rd_times (max_native_identifiers limits)
         ErrorCode.LimitExceeded (read_native_identifier limits);
     native_identifiers \<leftarrow> State_Monad.return (case l_native_identifiers of None \<Rightarrow> [] |
         Some es \<Rightarrow> es);
     State_Monad.return \<lparr>pf_id = ident, pf_display_name = display_name, pf_vendor = vendor,
         pf_model = model, pf_architecture = architecture, pf_native_identifiers = native_identifiers\<rparr> }"

definition platform_identity_fits :: "RegistryLimits \<Rightarrow> PlatformIdentity \<Rightarrow> bool" where
  "platform_identity_fits limits x \<longleftrightarrow>
     wf_id (pf_id x) \<and>
     str_fits (max_name_length limits) (pf_display_name x) \<and>
     str_fits (max_name_length limits) (pf_vendor x) \<and>
     str_fits (max_name_length limits) (pf_model x) \<and>
     wf_id (pf_architecture x) \<and>
     list_fits (max_native_identifiers limits) (native_identifier_fits limits) (pf_native_identifiers x)"

lemma write_platform_identity_wire:
  "platform_identity_fits limits x \<Longrightarrow>
     codes_some (write_platform_identity x limits) (read_platform_identity limits) x"
  unfolding write_platform_identity_def read_platform_identity_def platform_identity_fits_def
  by (cases x) (auto intro!: codes_intro)

lemmas platform_identity_then [codes_intro] =
  write_platform_identity_wire [THEN codes_then] write_platform_identity_wire [THEN codes_some_bind]

lemma disciplined_platform_identity [disciplined_intro]: "disciplined (read_platform_identity limits)"
  unfolding read_platform_identity_def by (intro disciplined_intro; simp)

definition write_device_identity :: "DeviceIdentity \<Rightarrow> RegistryLimits \<Rightarrow> writing" where
  "write_device_identity x limits = write_all [
     write_id (di_id x),
     write_id (di_incarnation x),
     write_hardware_identity (di_hardware x) limits,
     write_id (di_platform x),
     write_optional (\<lambda>s. wr_str s (max_metadata_bytes limits)) (di_serial_number x),
     write_optional (\<lambda>s. wr_str s (max_metadata_bytes limits)) (di_instance_locator x),
     wr_str (di_display_name x) (max_name_length limits)]"

definition read_device_identity :: "RegistryLimits \<Rightarrow> DeviceIdentity reading" where
  "read_device_identity limits = do {
     ident \<leftarrow> read_id;
     incarnation \<leftarrow> read_id;
     hardware \<leftarrow> read_hardware_identity limits;
     platform \<leftarrow> read_id;
     serial_number \<leftarrow> rd_optional (rd_str (max_metadata_bytes limits));
     instance_locator \<leftarrow> rd_optional (rd_str (max_metadata_bytes limits));
     display_name \<leftarrow> rd_str (max_name_length limits);
     State_Monad.return \<lparr>di_id = ident, di_incarnation = incarnation, di_hardware = hardware,
         di_platform = platform, di_serial_number = serial_number, di_instance_locator = instance_locator,
         di_display_name = display_name\<rparr> }"

definition device_identity_fits :: "RegistryLimits \<Rightarrow> DeviceIdentity \<Rightarrow> bool" where
  "device_identity_fits limits x \<longleftrightarrow>
     wf_id (di_id x) \<and>
     wf_id (di_incarnation x) \<and>
     hardware_identity_fits limits (di_hardware x) \<and>
     wf_id (di_platform x) \<and>
     pred_option (str_fits (max_metadata_bytes limits)) (di_serial_number x) \<and>
     pred_option (str_fits (max_metadata_bytes limits)) (di_instance_locator x) \<and>
     str_fits (max_name_length limits) (di_display_name x)"

lemma write_device_identity_wire:
  "device_identity_fits limits x \<Longrightarrow>
     codes_some (write_device_identity x limits) (read_device_identity limits) x"
  unfolding write_device_identity_def read_device_identity_def device_identity_fits_def
  by (cases x) (auto intro!: codes_intro)

lemmas device_identity_then [codes_intro] =
  write_device_identity_wire [THEN codes_then] write_device_identity_wire [THEN codes_some_bind]

lemma disciplined_device_identity [disciplined_intro]: "disciplined (read_device_identity limits)"
  unfolding read_device_identity_def by (intro disciplined_intro; simp)

definition write_software_state :: "DeviceSoftwareState \<Rightarrow> RegistryLimits \<Rightarrow> writing" where
  "write_software_state x limits = write_all [
     write_id (fw_id (sw_firmware x)),
     wr_str (fw_version (sw_firmware x)) (max_name_length limits),
     wr_str (fw_build (sw_firmware x)) (max_name_length limits),
     write_gen (sw_firmware_generation x),
     write_id (dr_id (sw_driver x)),
     wr_str (dr_version (sw_driver x)) (max_name_length limits),
     write_gen (sw_driver_generation x),
     write_id (rt_id (sw_runtime x)),
     wr_str (rt_version (sw_runtime x)) (max_name_length limits),
     write_gen (sw_runtime_generation x)]"

definition read_software_state :: "RegistryLimits \<Rightarrow> DeviceSoftwareState reading" where
  "read_software_state limits = do {
     firmware_id \<leftarrow> read_id;
     firmware_version \<leftarrow> rd_str (max_name_length limits);
     firmware_build \<leftarrow> rd_str (max_name_length limits);
     firmware_generation \<leftarrow> read_gen;
     driver_id \<leftarrow> read_id;
     driver_version \<leftarrow> rd_str (max_name_length limits);
     driver_generation \<leftarrow> read_gen;
     runtime_id \<leftarrow> read_id;
     runtime_version \<leftarrow> rd_str (max_name_length limits);
     runtime_generation \<leftarrow> read_gen;
     State_Monad.return
       \<lparr>sw_firmware = \<lparr>fw_id = firmware_id, fw_version = firmware_version, fw_build = firmware_build\<rparr>,
        sw_firmware_generation = firmware_generation,
        sw_driver = \<lparr>dr_id = driver_id, dr_version = driver_version\<rparr>,
        sw_driver_generation = driver_generation,
        sw_runtime = \<lparr>rt_id = runtime_id, rt_version = runtime_version\<rparr>,
        sw_runtime_generation = runtime_generation\<rparr> }"

definition software_state_fits :: "RegistryLimits \<Rightarrow> DeviceSoftwareState \<Rightarrow> bool" where
  "software_state_fits limits x \<longleftrightarrow>
     wf_id (fw_id (sw_firmware x)) \<and> str_fits (max_name_length limits) (fw_version (sw_firmware x)) \<and>
     str_fits (max_name_length limits) (fw_build (sw_firmware x)) \<and>
     wf_id (dr_id (sw_driver x)) \<and> str_fits (max_name_length limits) (dr_version (sw_driver x)) \<and>
     wf_id (rt_id (sw_runtime x)) \<and> str_fits (max_name_length limits) (rt_version (sw_runtime x))"

lemma write_software_state_wire:
  "software_state_fits limits x \<Longrightarrow> codes_some (write_software_state x limits) (read_software_state limits) x"
  unfolding write_software_state_def read_software_state_def software_state_fits_def
  by (auto intro!: codes_intro)

lemmas software_state_then [codes_intro] =
  write_software_state_wire [THEN codes_then] write_software_state_wire [THEN codes_some_bind]

lemma disciplined_software_state [disciplined_intro]: "disciplined (read_software_state limits)"
  unfolding read_software_state_def by (intro disciplined_intro; simp)

definition write_device_registration :: "DeviceRegistration \<Rightarrow> RegistryLimits \<Rightarrow>
    writing" where
  "write_device_registration x limits = write_all [
     write_device_identity (reg_identity x) limits,
     write_software_state (reg_software x) limits,
     write_platform_identity (reg_platform x) limits,
     wr_boolean (reg_device_boot_observed x),
     wr_u64 (reg_observation_sequence x),
     wr_str (reg_observed_at_utc x) (max_metadata_bytes limits)]"

definition read_device_registration :: "RegistryLimits \<Rightarrow> DeviceRegistration reading" where
  "read_device_registration limits = do {
     identity \<leftarrow> read_device_identity limits;
     software \<leftarrow> read_software_state limits;
     platform \<leftarrow> read_platform_identity limits;
     device_boot_observed \<leftarrow> rd_boolean;
     observation_sequence \<leftarrow> rd_u64;
     observed_at_utc \<leftarrow> rd_str (max_metadata_bytes limits);
     State_Monad.return \<lparr>reg_identity = identity, reg_software = software, reg_platform = platform,
         reg_device_boot_observed = device_boot_observed, reg_observation_sequence = observation_sequence,
         reg_observed_at_utc = observed_at_utc\<rparr> }"

definition device_registration_fits :: "RegistryLimits \<Rightarrow> DeviceRegistration \<Rightarrow> bool"
    where
  "device_registration_fits limits x \<longleftrightarrow>
     device_identity_fits limits (reg_identity x) \<and>
     software_state_fits limits (reg_software x) \<and>
     platform_identity_fits limits (reg_platform x) \<and>
     str_fits (max_metadata_bytes limits) (reg_observed_at_utc x)"

lemma write_device_registration_wire:
  "device_registration_fits limits x \<Longrightarrow>
     codes_some (write_device_registration x limits) (read_device_registration limits) x"
  unfolding write_device_registration_def read_device_registration_def device_registration_fits_def
  by (cases x) (auto intro!: codes_intro)

lemmas device_registration_then [codes_intro] =
  write_device_registration_wire [THEN codes_then] write_device_registration_wire [THEN codes_some_bind]

lemma disciplined_device_registration [disciplined_intro]: "disciplined (read_device_registration limits)"
  unfolding read_device_registration_def by (intro disciplined_intro; simp)

section \<open>Schemas and capability records\<close>

definition write_capability_schema :: "CapabilitySchema \<Rightarrow> RegistryLimits \<Rightarrow> writing"
    where
  "write_capability_schema x limits = write_all [
     write_id (cs_id x),
     write_id (cs_capability x),
     wr_u16 (enum_tag all_CapabilityDomain (cs_domain x)),
     wr_u16 (enum_tag all_ValueKind (cs_value_kind x)),
     wr_str (cs_canonical_name x) (max_name_length limits),
     wr_str (cs_unit x) (max_metadata_bytes limits)]"

definition read_capability_schema :: "RegistryLimits \<Rightarrow> CapabilitySchema reading" where
  "read_capability_schema limits = do {
     ident \<leftarrow> read_id;
     capability \<leftarrow> read_id;
     raw_domain \<leftarrow> rd_u16;
     raw_value_kind \<leftarrow> rd_u16;
     if enum_beyond all_CapabilityDomain CapabilityDomain.Platform raw_domain \<or>
        enum_beyond all_ValueKind ValueKind.Predicate raw_value_kind
     then do { rd_fail ErrorCode.InvalidCapability;
       State_Monad.return (no_schema\<lparr>cs_id := ident, cs_capability := capability\<rparr>) }
     else do {
       canonical_name \<leftarrow> rd_str (max_name_length limits);
       unit \<leftarrow> rd_str (max_metadata_bytes limits);
       State_Monad.return \<lparr>cs_id = ident, cs_capability = capability,
           cs_domain = enum_cast all_CapabilityDomain raw_domain,
           cs_value_kind = enum_cast all_ValueKind raw_value_kind, cs_canonical_name = canonical_name,
           cs_unit = unit\<rparr> } }"

definition capability_schema_fits :: "RegistryLimits \<Rightarrow> CapabilitySchema \<Rightarrow> bool" where
  "capability_schema_fits limits x \<longleftrightarrow>
     wf_id (cs_id x) \<and>
     wf_id (cs_capability x) \<and>
     str_fits (max_name_length limits) (cs_canonical_name x) \<and>
     str_fits (max_metadata_bytes limits) (cs_unit x)"

lemma write_capability_schema_wire:
  "capability_schema_fits limits x \<Longrightarrow>
     codes_some (write_capability_schema x limits) (read_capability_schema limits) x"
  unfolding write_capability_schema_def read_capability_schema_def capability_schema_fits_def
  by (cases x) (auto intro!: codes_intro)

lemmas capability_schema_then [codes_intro] =
  write_capability_schema_wire [THEN codes_then] write_capability_schema_wire [THEN codes_some_bind]

lemma disciplined_capability_schema [disciplined_intro]: "disciplined (read_capability_schema limits)"
  unfolding read_capability_schema_def by (intro disciplined_intro; simp)

definition write_capability_record :: "CapabilityRecord \<Rightarrow> RegistryLimits \<Rightarrow> writing"
    where
  "write_capability_record x limits = write_all [
     write_id (cr_device x),
     write_gen (cr_device_generation x),
     write_gen (cr_device_boot x),
     write_id (cr_capability x),
     write_id (cr_schema x),
     write_gen (cr_capability_generation x),
     wr_u16 (enum_tag all_SupportState (cr_support x)),
     write_value (cr_value x) limits,
     wr_u16 (enum_tag all_PrecisionClass (cr_precision x)),
     write_evidence_source (cr_source x) limits,
     write_condition (cr_conditions x) limits,
     write_gen (cr_firmware_generation x),
     write_gen (cr_driver_generation x),
     write_gen (cr_runtime_generation x),
     write_gen (cr_platform_generation x),
     write_id (cr_driver_id x),
     write_id (cr_firmware_id x),
     write_id (cr_runtime_id x),
     wr_boolean (cr_withdrawn x)]"

definition read_capability_record :: "RegistryLimits \<Rightarrow> CapabilityRecord reading" where
  "read_capability_record limits = do {
     device \<leftarrow> read_id;
     device_generation \<leftarrow> read_gen;
     device_boot \<leftarrow> read_gen;
     capability \<leftarrow> read_id;
     schema \<leftarrow> read_id;
     capability_generation \<leftarrow> read_gen;
     raw_support \<leftarrow> rd_u16;
     if enum_beyond all_SupportState SupportState.RevalidationRequired raw_support
     then do { rd_fail ErrorCode.InvalidSupportState;
       State_Monad.return (no_capability\<lparr>cr_device := device,
           cr_device_generation := device_generation, cr_device_boot := device_boot,
           cr_capability := capability, cr_schema := schema,
           cr_capability_generation := capability_generation\<rparr>) }
     else do {
       value \<leftarrow> read_value limits 1;
       raw_precision \<leftarrow> rd_u16;
       if enum_beyond all_PrecisionClass PrecisionClass.Unknown raw_precision
       then do { rd_fail ErrorCode.InvalidProvenance;
         State_Monad.return (no_capability\<lparr>cr_device := device,
             cr_device_generation := device_generation, cr_device_boot := device_boot,
             cr_capability := capability, cr_schema := schema,
             cr_capability_generation := capability_generation,
             cr_support := enum_cast all_SupportState raw_support, cr_value := value\<rparr>) }
       else do {
         source \<leftarrow> read_evidence_source limits;
         conditions \<leftarrow> read_condition limits 1;
         firmware_generation \<leftarrow> read_gen;
         driver_generation \<leftarrow> read_gen;
         runtime_generation \<leftarrow> read_gen;
         platform_generation \<leftarrow> read_gen;
         driver_id \<leftarrow> read_id;
         firmware_id \<leftarrow> read_id;
         runtime_id \<leftarrow> read_id;
         withdrawn \<leftarrow> rd_boolean;
         State_Monad.return \<lparr>cr_device = device, cr_device_generation = device_generation,
             cr_device_boot = device_boot, cr_capability = capability, cr_schema = schema,
             cr_capability_generation = capability_generation,
             cr_support = enum_cast all_SupportState raw_support, cr_value = value,
             cr_precision = enum_cast all_PrecisionClass raw_precision, cr_source = source,
             cr_conditions = conditions, cr_firmware_generation = firmware_generation,
             cr_driver_generation = driver_generation, cr_runtime_generation = runtime_generation,
             cr_platform_generation = platform_generation, cr_driver_id = driver_id,
             cr_firmware_id = firmware_id, cr_runtime_id = runtime_id, cr_withdrawn = withdrawn\<rparr> } } }"

definition capability_record_fits :: "RegistryLimits \<Rightarrow> CapabilityRecord \<Rightarrow> bool" where
  "capability_record_fits limits x \<longleftrightarrow>
     wf_id (cr_device x) \<and>
     wf_id (cr_capability x) \<and>
     wf_id (cr_schema x) \<and>
     value_fits limits 1 (cr_value x) \<and>
     evidence_source_fits limits (cr_source x) \<and>
     condition_fits limits 1 (cr_conditions x) \<and>
     wf_id (cr_driver_id x) \<and>
     wf_id (cr_firmware_id x) \<and>
     wf_id (cr_runtime_id x)"

lemma write_capability_record_wire:
  "capability_record_fits limits x \<Longrightarrow>
     codes_some (write_capability_record x limits) (read_capability_record limits) x"
  unfolding write_capability_record_def read_capability_record_def capability_record_fits_def
  by (cases x) (auto intro!: codes_intro)

lemmas capability_record_then [codes_intro] =
  write_capability_record_wire [THEN codes_then] write_capability_record_wire [THEN codes_some_bind]

lemma disciplined_capability_record [disciplined_intro]: "disciplined (read_capability_record limits)"
  unfolding read_capability_record_def by (intro disciplined_intro; simp)

section \<open>Quirks\<close>

definition write_revision_range :: "RevisionRange \<Rightarrow> RegistryLimits \<Rightarrow> writing" where
  "write_revision_range x limits = write_all [
     wr_str (rr_minimum x) (max_metadata_bytes limits), wr_str (rr_maximum x) (max_metadata_bytes limits)]"

definition read_revision_range :: "RegistryLimits \<Rightarrow> RevisionRange reading" where
  "read_revision_range limits = do {
     minimum \<leftarrow> rd_str (max_metadata_bytes limits);
     maximum \<leftarrow> rd_str (max_metadata_bytes limits);
     State_Monad.return \<lparr>rr_minimum = minimum, rr_maximum = maximum\<rparr> }"

definition revision_range_fits :: "RegistryLimits \<Rightarrow> RevisionRange \<Rightarrow> bool" where
  "revision_range_fits limits x \<longleftrightarrow>
     str_fits (max_metadata_bytes limits) (rr_minimum x) \<and> str_fits (max_metadata_bytes limits) (rr_maximum x)"

lemma write_revision_range_wire:
  "revision_range_fits limits x \<Longrightarrow> codes_some (write_revision_range x limits) (read_revision_range limits) x"
  unfolding write_revision_range_def read_revision_range_def revision_range_fits_def
  by (cases x) (auto intro!: codes_intro)

lemma disciplined_revision_range [disciplined_intro]: "disciplined (read_revision_range limits)"
  unfolding read_revision_range_def by (intro disciplined_intro)

definition read_ranges :: "RegistryLimits \<Rightarrow> VersionRange list reading" where
  "read_ranges limits = do {
     l \<leftarrow> rd_list rd_times 64 ErrorCode.LimitExceeded (read_version_range limits);
     State_Monad.return (case l of None \<Rightarrow> [] | Some windows \<Rightarrow> windows) }"

lemma read_ranges_wire:
  "list_fits 64 (range_fits limits) windows \<Longrightarrow>
     codes_some (write_list (\<lambda>w. write_version_range w limits) 64 windows) (read_ranges limits) windows"
  unfolding read_ranges_def
  by (rule codes_some_map [OF write_fitting_list(1) [OF _ write_version_range_wire]]) simp_all

lemma disciplined_ranges [disciplined_intro]: "disciplined (read_ranges limits)"
  unfolding read_ranges_def by (intro disciplined_intro; simp)

lemmas revision_range_list =
  write_fitting_list [where fits = "revision_range_fits limits" for limits, OF _ write_revision_range_wire]

lemmas ranges_then [codes_intro] =
  read_ranges_wire [THEN codes_then] read_ranges_wire [THEN codes_some_bind]
  revision_range_list [THEN codes_then] revision_range_list [THEN codes_some_bind]

definition write_quirk_record :: "QuirkRecord \<Rightarrow> RegistryLimits \<Rightarrow> writing" where
  "write_quirk_record x limits = write_all [
     write_id (qr_id x),
     write_gen (qr_generation x),
     wr_str (qr_title x) (max_name_length limits),
     wr_str (qr_description x) (max_metadata_bytes limits),
     wr_u16 (enum_tag all_QuirkCategory (qr_category x)),
     wr_u16 (enum_tag all_QuirkSeverity (qr_severity x)),
     wr_u16 (enum_tag all_MitigationKind (qr_mitigation x)),
     write_list write_id 1024 (qa_vendors (qr_applicability x)),
     write_list write_id 1024 (qa_families (qr_applicability x)),
     write_list write_id 1024 (qa_models (qr_applicability x)),
     write_list write_id 1024 (qa_devices (qr_applicability x)),
     write_list write_id 1024 (qa_revisions (qr_applicability x)),
     write_list write_id 1024 (qa_architectures (qr_applicability x)),
     write_list (\<lambda>r. write_revision_range r limits) 64 (qa_revision_ranges (qr_applicability x)),
     write_list (\<lambda>w. write_version_range w limits) 64 (qa_driver_ranges (qr_applicability x)),
     write_list (\<lambda>w. write_version_range w limits) 64 (qa_firmware_ranges (qr_applicability x)),
     write_list (\<lambda>w. write_version_range w limits) 64 (qa_runtime_ranges (qr_applicability x)),
     write_condition (qa_platform_conditions (qr_applicability x)) limits,
     write_list write_id 1024 (qr_impacted_capabilities x),
     write_evidence_source (qr_source x) limits,
     wr_boolean (qr_withdrawn x)]"

definition read_quirk_record :: "RegistryLimits \<Rightarrow> QuirkRecord reading" where
  "read_quirk_record limits = do {
     ident \<leftarrow> read_id;
     generation \<leftarrow> read_gen;
     title \<leftarrow> rd_str (max_name_length limits);
     description \<leftarrow> rd_str (max_metadata_bytes limits);
     category \<leftarrow> rd_u16;
     severity \<leftarrow> rd_u16;
     mitigation \<leftarrow> rd_u16;
     if enum_beyond all_QuirkCategory QuirkCategory.Other category \<or>
        enum_beyond all_QuirkSeverity QuirkSeverity.Fatal severity \<or>
        enum_beyond all_MitigationKind MitigationKind.ContactVendor mitigation
     then do { rd_fail ErrorCode.CorruptData;
       State_Monad.return (no_quirk\<lparr>qr_id := ident, qr_generation := generation, qr_title := title,
         qr_description := description\<rparr>) }
     else do {
       vendors \<leftarrow> read_id_list 1024;
       families \<leftarrow> read_id_list 1024;
       models \<leftarrow> read_id_list 1024;
       devices \<leftarrow> read_id_list 1024;
       revisions \<leftarrow> read_id_list 1024;
       architectures \<leftarrow> read_id_list 1024;
       l \<leftarrow> rd_list rd_times 64 ErrorCode.LimitExceeded (read_revision_range limits);
       case l of
         None \<Rightarrow> State_Monad.return (no_quirk\<lparr>qr_id := ident, qr_generation := generation, qr_title := title,
             qr_description := description, qr_category := enum_cast all_QuirkCategory category,
             qr_severity := enum_cast all_QuirkSeverity severity,
             qr_mitigation := enum_cast all_MitigationKind mitigation,
             qr_applicability := no_applicability\<lparr>qa_vendors := vendors, qa_families := families,
               qa_models := models, qa_devices := devices, qa_revisions := revisions,
               qa_architectures := architectures\<rparr>\<rparr>)
       | Some revision_ranges \<Rightarrow> do {
           driver_ranges \<leftarrow> read_ranges limits;
           firmware_ranges \<leftarrow> read_ranges limits;
           runtime_ranges \<leftarrow> read_ranges limits;
           platform_conditions \<leftarrow> read_condition limits 1;
           impacted \<leftarrow> read_id_list 1024;
           source \<leftarrow> read_evidence_source limits;
           withdrawn \<leftarrow> rd_boolean;
           State_Monad.return \<lparr>qr_id = ident, qr_generation = generation, qr_title = title,
             qr_description = description, qr_category = enum_cast all_QuirkCategory category,
             qr_severity = enum_cast all_QuirkSeverity severity,
             qr_mitigation = enum_cast all_MitigationKind mitigation,
             qr_applicability = \<lparr>qa_vendors = vendors, qa_families = families, qa_models = models,
               qa_devices = devices, qa_revisions = revisions, qa_revision_ranges = revision_ranges,
               qa_architectures = architectures, qa_driver_ranges = driver_ranges,
               qa_firmware_ranges = firmware_ranges, qa_runtime_ranges = runtime_ranges,
               qa_platform_conditions = platform_conditions\<rparr>,
             qr_impacted_capabilities = impacted, qr_source = source, qr_withdrawn = withdrawn\<rparr> } } }"

definition quirk_record_fits :: "RegistryLimits \<Rightarrow> QuirkRecord \<Rightarrow> bool" where
  "quirk_record_fits limits x \<longleftrightarrow>
     wf_id (qr_id x) \<and>
     str_fits (max_name_length limits) (qr_title x) \<and> str_fits (max_metadata_bytes limits) (qr_description x) \<and>
     list_fits 1024 wf_id (qa_vendors (qr_applicability x)) \<and>
     list_fits 1024 wf_id (qa_families (qr_applicability x)) \<and>
     list_fits 1024 wf_id (qa_models (qr_applicability x)) \<and>
     list_fits 1024 wf_id (qa_devices (qr_applicability x)) \<and>
     list_fits 1024 wf_id (qa_revisions (qr_applicability x)) \<and>
     list_fits 1024 wf_id (qa_architectures (qr_applicability x)) \<and>
     list_fits 64 (revision_range_fits limits) (qa_revision_ranges (qr_applicability x)) \<and>
     list_fits 64 (range_fits limits) (qa_driver_ranges (qr_applicability x)) \<and>
     list_fits 64 (range_fits limits) (qa_firmware_ranges (qr_applicability x)) \<and>
     list_fits 64 (range_fits limits) (qa_runtime_ranges (qr_applicability x)) \<and>
     condition_fits limits 1 (qa_platform_conditions (qr_applicability x)) \<and>
     list_fits 1024 wf_id (qr_impacted_capabilities x) \<and> evidence_source_fits limits (qr_source x)"

lemma write_quirk_record_wire:
  "quirk_record_fits limits x \<Longrightarrow> codes_some (write_quirk_record x limits) (read_quirk_record limits) x"
  unfolding write_quirk_record_def read_quirk_record_def quirk_record_fits_def
  by (auto intro!: codes_intro)

lemmas quirk_record_then [codes_intro] =
  write_quirk_record_wire [THEN codes_then] write_quirk_record_wire [THEN codes_some_bind]

lemma disciplined_quirk_record [disciplined_intro]: "disciplined (read_quirk_record limits)"
  unfolding read_quirk_record_def by (intro disciplined_intro; simp)

section \<open>Compatibility facts and publications\<close>

definition write_hardware_reference :: "HardwareReference \<Rightarrow> RegistryLimits \<Rightarrow> writing"
    where
  "write_hardware_reference x limits = write_all [
     wr_u16 (enum_tag all_ReferenceKind (hr_kind x)),
     wr_str (hr_token x) kMaxTokenLength,
     write_version (hr_version x) limits]"

definition read_hardware_reference :: "RegistryLimits \<Rightarrow> HardwareReference reading" where
  "read_hardware_reference limits = do {
     raw_kind \<leftarrow> rd_u16;
     if enum_beyond all_ReferenceKind ReferenceKind.Platform raw_kind
     then do { rd_fail ErrorCode.InvalidReference;
       State_Monad.return no_reference }
     else do {
       token \<leftarrow> rd_str kMaxTokenLength;
       version \<leftarrow> read_version limits;
       State_Monad.return \<lparr>hr_kind = enum_cast all_ReferenceKind raw_kind, hr_token = token,
           hr_version = version\<rparr> } }"

definition hardware_reference_fits :: "RegistryLimits \<Rightarrow> HardwareReference \<Rightarrow> bool" where
  "hardware_reference_fits limits x \<longleftrightarrow>
     str_fits kMaxTokenLength (hr_token x) \<and>
     version_fits limits (hr_version x)"

lemma write_hardware_reference_wire:
  "hardware_reference_fits limits x \<Longrightarrow>
     codes_some (write_hardware_reference x limits) (read_hardware_reference limits) x"
  unfolding write_hardware_reference_def read_hardware_reference_def hardware_reference_fits_def
  by (cases x) (auto intro!: codes_intro)

lemmas hardware_reference_then [codes_intro] =
  write_hardware_reference_wire [THEN codes_then] write_hardware_reference_wire [THEN codes_some_bind]

lemma disciplined_hardware_reference [disciplined_intro]: "disciplined (read_hardware_reference limits)"
  unfolding read_hardware_reference_def by (intro disciplined_intro; simp)

definition write_compatibility_fact :: "CompatibilityFact \<Rightarrow> RegistryLimits \<Rightarrow> writing"
    where
  "write_compatibility_fact x limits = write_all [
     write_id (cf_id x),
     write_gen (cf_generation x),
     wr_u16 (enum_tag all_CompatibilitySubjectKind (cf_kind x)),
     write_hardware_reference (cf_lhs x) limits,
     write_hardware_reference (cf_rhs x) limits,
     wr_u16 (enum_tag all_CompatibilityOutcome (cf_outcome x)),
     write_condition (cf_conditions x) limits,
     write_version_range (cf_version_window x) limits,
     wr_str (cf_reason x) (max_metadata_bytes limits),
     write_evidence_source (cf_source x) limits,
     wr_boolean (cf_withdrawn x)]"

definition read_compatibility_fact :: "RegistryLimits \<Rightarrow> CompatibilityFact reading" where
  "read_compatibility_fact limits = do {
     ident \<leftarrow> read_id;
     generation \<leftarrow> read_gen;
     raw_kind \<leftarrow> rd_u16;
     if enum_beyond all_CompatibilitySubjectKind CompatibilitySubjectKind.Other raw_kind
     then do { rd_fail ErrorCode.CorruptData;
       State_Monad.return (no_fact\<lparr>cf_id := ident, cf_generation := generation\<rparr>) }
     else do {
       lhs \<leftarrow> read_hardware_reference limits;
       rhs \<leftarrow> read_hardware_reference limits;
       raw_outcome \<leftarrow> rd_u16;
       if enum_beyond all_CompatibilityOutcome CompatibilityOutcome.RevalidationRequired raw_outcome
       then do { rd_fail ErrorCode.CorruptData;
         State_Monad.return (no_fact\<lparr>cf_id := ident, cf_generation := generation,
             cf_kind := enum_cast all_CompatibilitySubjectKind raw_kind, cf_lhs := lhs, cf_rhs := rhs\<rparr>) }
       else do {
         conditions \<leftarrow> read_condition limits 1;
         version_window \<leftarrow> read_version_range limits;
         reason \<leftarrow> rd_str (max_metadata_bytes limits);
         source \<leftarrow> read_evidence_source limits;
         withdrawn \<leftarrow> rd_boolean;
         State_Monad.return \<lparr>cf_id = ident, cf_generation = generation,
             cf_kind = enum_cast all_CompatibilitySubjectKind raw_kind, cf_lhs = lhs, cf_rhs = rhs,
             cf_outcome = enum_cast all_CompatibilityOutcome raw_outcome, cf_conditions = conditions,
             cf_version_window = version_window, cf_reason = reason, cf_source = source,
             cf_withdrawn = withdrawn\<rparr> } } }"

definition compatibility_fact_fits :: "RegistryLimits \<Rightarrow> CompatibilityFact \<Rightarrow> bool" where
  "compatibility_fact_fits limits x \<longleftrightarrow>
     wf_id (cf_id x) \<and>
     hardware_reference_fits limits (cf_lhs x) \<and>
     hardware_reference_fits limits (cf_rhs x) \<and>
     condition_fits limits 1 (cf_conditions x) \<and>
     range_fits limits (cf_version_window x) \<and>
     str_fits (max_metadata_bytes limits) (cf_reason x) \<and>
     evidence_source_fits limits (cf_source x)"

lemma write_compatibility_fact_wire:
  "compatibility_fact_fits limits x \<Longrightarrow>
     codes_some (write_compatibility_fact x limits) (read_compatibility_fact limits) x"
  unfolding write_compatibility_fact_def read_compatibility_fact_def compatibility_fact_fits_def
  by (cases x) (auto intro!: codes_intro)

lemmas compatibility_fact_then [codes_intro] =
  write_compatibility_fact_wire [THEN codes_then] write_compatibility_fact_wire [THEN codes_some_bind]

lemma disciplined_compatibility_fact [disciplined_intro]: "disciplined (read_compatibility_fact limits)"
  unfolding read_compatibility_fact_def by (intro disciplined_intro; simp)

definition write_publication :: "Publication \<Rightarrow> RegistryLimits \<Rightarrow> writing" where
  "write_publication x limits = write_all [
     wr_u16 (enum_tag all_PublicationKind (pb_kind x)),
     write_publisher_identity (pb_publisher x),
     wr_u64 (pb_sequence x),
     write_gen (pb_evidence_generation x),
     write_device_registration (pb_device x) limits,
     write_capability_record (pb_capability x) limits,
     write_quirk_record (pb_quirk x) limits,
     write_compatibility_fact (pb_compatibility x) limits,
     write_capability_schema (pb_schema x) limits,
     wr_str (pb_reason x) (max_metadata_bytes limits),
     wr_str (pb_issued_at_utc x) (max_metadata_bytes limits)]"

definition read_publication :: "RegistryLimits \<Rightarrow> Publication reading" where
  "read_publication limits = do {
     raw_kind \<leftarrow> rd_u16;
     if enum_beyond all_PublicationKind PublicationKind.Heartbeat raw_kind
     then do { rd_fail ErrorCode.CorruptData;
       State_Monad.return no_publication }
     else do {
       publisher \<leftarrow> read_publisher_identity;
       sequence \<leftarrow> rd_u64;
       evidence_generation \<leftarrow> read_gen;
       device \<leftarrow> read_device_registration limits;
       capability \<leftarrow> read_capability_record limits;
       quirk \<leftarrow> read_quirk_record limits;
       compatibility \<leftarrow> read_compatibility_fact limits;
       schema \<leftarrow> read_capability_schema limits;
       reason \<leftarrow> rd_str (max_metadata_bytes limits);
       issued_at_utc \<leftarrow> rd_str (max_metadata_bytes limits);
       State_Monad.return \<lparr>pb_kind = enum_cast all_PublicationKind raw_kind, pb_publisher = publisher,
           pb_sequence = sequence, pb_evidence_generation = evidence_generation, pb_device = device,
           pb_capability = capability, pb_quirk = quirk, pb_compatibility = compatibility,
           pb_schema = schema, pb_reason = reason, pb_issued_at_utc = issued_at_utc\<rparr> } }"

definition publication_fits :: "RegistryLimits \<Rightarrow> Publication \<Rightarrow> bool" where
  "publication_fits limits x \<longleftrightarrow>
     publisher_identity_fits (pb_publisher x) \<and>
     device_registration_fits limits (pb_device x) \<and>
     capability_record_fits limits (pb_capability x) \<and>
     quirk_record_fits limits (pb_quirk x) \<and>
     compatibility_fact_fits limits (pb_compatibility x) \<and>
     capability_schema_fits limits (pb_schema x) \<and>
     str_fits (max_metadata_bytes limits) (pb_reason x) \<and>
     str_fits (max_metadata_bytes limits) (pb_issued_at_utc x)"

lemma write_publication_wire:
  "publication_fits limits x \<Longrightarrow>
     codes_some (write_publication x limits) (read_publication limits) x"
  unfolding write_publication_def read_publication_def publication_fits_def
  by (cases x) (auto intro!: codes_intro)

lemmas publication_then [codes_intro] =
  write_publication_wire [THEN codes_then] write_publication_wire [THEN codes_some_bind]

lemma disciplined_publication [disciplined_intro]: "disciplined (read_publication limits)"
  unfolding read_publication_def by (intro disciplined_intro; simp)

interpretation publication_wire: wire_format "\<lambda>p. write_publication p limits" "read_publication limits"
    "publication_fits limits" for limits
  by unfold_locales (simp_all add: write_publication_wire disciplined_publication)

end
