(* ===== verification/Answers.thy ===== *)
theory Answers
  imports Registry
begin

text \<open>
  The objects a caller receives besides a resolved capability: the summary of a subject, the
  comparison of two devices and the snapshot of the registry (\<^verbatim>\<open>include/hcr/snapshot.hpp\<close>,
  \<^verbatim>\<open>include/hcr/resolution.hpp\<close>), and the queries that ask for them (\<^verbatim>\<open>include/hcr/query.hpp\<close>).
\<close>

section \<open>Subjects and comparisons\<close>

record SubjectSnapshot =
  su_identity :: DeviceIdentity
  su_software :: DeviceSoftwareState
  su_generation :: u64
  su_boot :: u64
  su_platform_generation :: u64
  su_classification :: TruthClass
  su_capability_count :: nat
  su_current_count :: nat
  su_unknown_count :: nat
  su_unsupported_count :: nat
  su_stale_count :: nat
  su_applicable_quirk_count :: nat

datatype CapabilityDifferenceKind =
    Equivalent
  | OnlyInLeft
  | OnlyInRight
  | SupportStateDiffers
  | EffectiveSupportDiffers
  | ValueDiffers
  | ConditionsDiffer
  | PrecisionDiffers
  | StalenessDiffers
  | TruthClassDiffers
  | ContradictionDiffers
  | DriverDependentDifference
  | FirmwareDependentDifference
  | RuntimeDependentDifference
  | ArchitectureMismatch
  | ShapeDiffers

definition all_CapabilityDifferenceKind :: "CapabilityDifferenceKind list" where
  "all_CapabilityDifferenceKind = [CapabilityDifferenceKind.Equivalent, CapabilityDifferenceKind.OnlyInLeft,
     CapabilityDifferenceKind.OnlyInRight, CapabilityDifferenceKind.SupportStateDiffers,
     CapabilityDifferenceKind.EffectiveSupportDiffers, CapabilityDifferenceKind.ValueDiffers,
     CapabilityDifferenceKind.ConditionsDiffer, CapabilityDifferenceKind.PrecisionDiffers,
     CapabilityDifferenceKind.StalenessDiffers, CapabilityDifferenceKind.TruthClassDiffers,
     CapabilityDifferenceKind.ContradictionDiffers, CapabilityDifferenceKind.DriverDependentDifference,
     CapabilityDifferenceKind.FirmwareDependentDifference, CapabilityDifferenceKind.RuntimeDependentDifference,
     CapabilityDifferenceKind.ArchitectureMismatch, CapabilityDifferenceKind.ShapeDiffers]"

record CapabilityDifference =
  cd_capability :: string
  cd_kind :: CapabilityDifferenceKind
  cd_left_effective :: EffectiveSupport
  cd_right_effective :: EffectiveSupport
  cd_detail :: string

record DeviceComparison =
  dc_left :: string
  dc_right :: string
  dc_left_generation :: u64
  dc_right_generation :: u64
  dc_left_software :: string
  dc_right_software :: string
  dc_differences :: "CapabilityDifference list"
  dc_equivalent :: "string list"
  dc_explanation :: string

record RegistrySnapshot =
  sn_generation :: u64
  sn_epoch :: u64
  sn_state_revision :: u64
  sn_created_at_utc :: string
  sn_subjects :: "SubjectSnapshot list"
  sn_capabilities :: "ResolvedCapability list"
  sn_quirks :: "QuirkRecord list"
  sn_compatibility :: "CompatibilityFact list"
  sn_publishers :: "PublisherRecord list"
  sn_real_statements :: nat
  sn_synthetic_statements :: nat
  sn_unsupported_statements :: nat
  sn_unknown_statements :: nat
  sn_stale_evidence_records :: nat
  sn_canonical_digest :: u64

definition no_comparison :: DeviceComparison where
  "no_comparison = \<lparr>dc_left = [], dc_right = [], dc_left_generation = 0, dc_right_generation = 0,
     dc_left_software = [], dc_right_software = [], dc_differences = [], dc_equivalent = [],
     dc_explanation = []\<rparr>"

definition no_snapshot :: RegistrySnapshot where
  "no_snapshot = \<lparr>sn_generation = 0, sn_epoch = 0, sn_state_revision = 0, sn_created_at_utc = [],
     sn_subjects = [], sn_capabilities = [], sn_quirks = [], sn_compatibility = [], sn_publishers = [],
     sn_real_statements = 0, sn_synthetic_statements = 0, sn_unsupported_statements = 0,
     sn_unknown_statements = 0, sn_stale_evidence_records = 0, sn_canonical_digest = 0\<rparr>"

section \<open>Queries\<close>

record CapabilityQuery =
  cq_device :: string
  cq_device_generation :: u64
  cq_capability :: string
  cq_environment :: EnvironmentContext
  cq_include_evidence :: bool

record FleetCapabilityQuery =
  fq_capability :: string
  fq_environment :: EnvironmentContext
  fq_effective_filter :: "EffectiveSupport option"
  fq_truth_filter :: "TruthClass option"
  fq_hardware_class :: "HardwareClass option"
  fq_only_current :: bool
  fq_max_results :: nat

record StaleCapabilityQuery =
  sq_device :: string
  sq_device_generation :: u64
  sq_environment :: EnvironmentContext
  sq_max_results :: nat

record QuirkQuery =
  qq_device :: "string option"
  qq_environment :: EnvironmentContext
  qq_capability :: "string option"
  qq_only_applicable :: bool
  qq_max_results :: nat

record CompatibilityQuery =
  kq_reference :: "HardwareReference option"
  kq_kind :: "CompatibilitySubjectKind option"
  kq_include_withdrawn :: bool
  kq_max_results :: nat

record ComparisonRequest =
  cmp_left :: string
  cmp_right :: string
  cmp_left_generation :: u64
  cmp_right_generation :: u64
  cmp_environment :: EnvironmentContext

record PublisherQuery =
  pq_state :: "PublisherState option"
  pq_max_results :: nat

end
