(* ===== verification/Codec_Answers.thy ===== *)
theory Codec_Answers
  imports Codec_Records Answers
begin

text \<open>
  The wire form of what the registry answers: evidence views, resolved capabilities, comparisons,
  publisher records and whole snapshots (\<^verbatim>\<open>src/codec.cpp\<close>). The three loops of the code differ in when
  they notice a failed element; each reader uses the one its source function has.
\<close>

section \<open>Enumerations and default objects\<close>

interpretation wire_ConditionOutcome: wire_enum all_ConditionOutcome ConditionOutcome.NotApplicable
proof
  show "x \<in> set all_ConditionOutcome" for x by (cases x) (simp_all add: all_ConditionOutcome_def)
qed (simp_all add: all_ConditionOutcome_def)

interpretation wire_EffectiveSupport: wire_enum all_EffectiveSupport EffectiveSupport.RevalidationRequired
proof
  show "x \<in> set all_EffectiveSupport" for x by (cases x) (simp_all add: all_EffectiveSupport_def)
qed (simp_all add: all_EffectiveSupport_def)

interpretation wire_TruthClass: wire_enum all_TruthClass TruthClass.Unknown
proof
  show "x \<in> set all_TruthClass" for x by (cases x) (simp_all add: all_TruthClass_def)
qed (simp_all add: all_TruthClass_def)

interpretation wire_ContradictionState: wire_enum all_ContradictionState ContradictionState.RevalidationRequired
proof
  show "x \<in> set all_ContradictionState" for x by (cases x) (simp_all add: all_ContradictionState_def)
qed (simp_all add: all_ContradictionState_def)

interpretation wire_QuirkApplicabilityResult: wire_enum all_QuirkApplicabilityResult QuirkApplicabilityResult.Unknown
proof
  show "x \<in> set all_QuirkApplicabilityResult" for x by (cases x) (simp_all add: all_QuirkApplicabilityResult_def)
qed (simp_all add: all_QuirkApplicabilityResult_def)

interpretation wire_PublisherState: wire_enum all_PublisherState PublisherState.Dead
proof
  show "x \<in> set all_PublisherState" for x by (cases x) (simp_all add: all_PublisherState_def)
qed (simp_all add: all_PublisherState_def)

interpretation wire_CapabilityDifferenceKind: wire_enum all_CapabilityDifferenceKind CapabilityDifferenceKind.ShapeDiffers
proof
  show "x \<in> set all_CapabilityDifferenceKind" for x by (cases x) (simp_all add: all_CapabilityDifferenceKind_def)
qed (simp_all add: all_CapabilityDifferenceKind_def)

definition no_subject :: SubjectSnapshot where
  "no_subject = \<lparr>su_identity = no_device_identity, su_software = no_software, su_generation = 0,
     su_boot = 0, su_platform_generation = 0, su_classification = TruthClass.Unknown, su_capability_count = 0,
     su_current_count = 0, su_unknown_count = 0, su_unsupported_count = 0, su_stale_count = 0,
     su_applicable_quirk_count = 0\<rparr>"

definition no_view :: EvidenceView where
  "no_view = \<lparr>ev_capability_generation = 0, ev_support = SupportState.Unknown, ev_value = V_None,
     ev_precision = PrecisionClass.Unknown, ev_source = no_source, ev_staleness = Stale_None,
     ev_winner = False, ev_withdrawn = False\<rparr>"

definition no_application :: QuirkApplication where
  "no_application = \<lparr>qap_id = [], qap_generation = 0, qap_severity = QuirkSeverity.Informational,
     qap_mitigation = MitigationKind.NoMitigation, qap_result = QuirkApplicabilityResult.DoesNotApply,
     qap_reason = [], qap_title = []\<rparr>"

definition no_resolved :: ResolvedCapability where
  "no_resolved = \<lparr>rc_device = [], rc_device_generation = 0, rc_device_boot = 0, rc_capability = [],
     rc_schema = [], rc_capability_generation = 0, rc_declared_support = SupportState.Unknown,
     rc_effective_support = EffectiveSupport.Unknown, rc_value = V_None,
     rc_precision = PrecisionClass.Unknown, rc_truth = TruthClass.Unknown,
     rc_contradiction = ContradictionState.Consistent, rc_staleness = Stale_None, rc_conditions = None,
     rc_condition_evaluation = no_evaluation, rc_quirks = [], rc_evidence = [],
     rc_firmware_generation = 0, rc_driver_generation = 0, rc_runtime_generation = 0,
     rc_current = False, rc_known = False, rc_explanation = []\<rparr>"

section \<open>Snapshots of subjects and publishers\<close>

definition write_subject_snapshot :: "SubjectSnapshot \<Rightarrow> RegistryLimits \<Rightarrow> writing" where
  "write_subject_snapshot x limits = write_all [
     write_device_identity (su_identity x) limits,
     write_software_state (su_software x) limits,
     write_gen (su_generation x),
     write_gen (su_boot x),
     write_gen (su_platform_generation x),
     wr_u16 (enum_tag all_TruthClass (su_classification x)),
     wr_size (su_capability_count x),
     wr_size (su_current_count x),
     wr_size (su_unknown_count x),
     wr_size (su_unsupported_count x),
     wr_size (su_stale_count x),
     wr_size (su_applicable_quirk_count x)]"

definition read_subject_snapshot :: "RegistryLimits \<Rightarrow> SubjectSnapshot reading" where
  "read_subject_snapshot limits = do {
     identity \<leftarrow> read_device_identity limits;
     software \<leftarrow> read_software_state limits;
     generation \<leftarrow> read_gen;
     boot \<leftarrow> read_gen;
     platform_generation \<leftarrow> read_gen;
     raw_classification \<leftarrow> rd_u16;
     if enum_beyond all_TruthClass TruthClass.Unknown raw_classification
     then do { rd_fail ErrorCode.CorruptData;
       State_Monad.return (no_subject\<lparr>su_identity := identity, su_software := software,
           su_generation := generation, su_boot := boot,
           su_platform_generation := platform_generation\<rparr>) }
     else do {
       capability_count \<leftarrow> rd_size;
       current_count \<leftarrow> rd_size;
       unknown_count \<leftarrow> rd_size;
       unsupported_count \<leftarrow> rd_size;
       stale_count \<leftarrow> rd_size;
       applicable_quirk_count \<leftarrow> rd_size;
       State_Monad.return \<lparr>su_identity = identity, su_software = software, su_generation = generation,
           su_boot = boot, su_platform_generation = platform_generation,
           su_classification = enum_cast all_TruthClass raw_classification,
           su_capability_count = capability_count, su_current_count = current_count,
           su_unknown_count = unknown_count, su_unsupported_count = unsupported_count,
           su_stale_count = stale_count, su_applicable_quirk_count = applicable_quirk_count\<rparr> } }"

definition subject_snapshot_fits :: "RegistryLimits \<Rightarrow> SubjectSnapshot \<Rightarrow> bool" where
  "subject_snapshot_fits limits x \<longleftrightarrow>
     device_identity_fits limits (su_identity x) \<and>
     software_state_fits limits (su_software x) \<and>
     su_capability_count x < 2 ^ 64 \<and>
     su_current_count x < 2 ^ 64 \<and>
     su_unknown_count x < 2 ^ 64 \<and>
     su_unsupported_count x < 2 ^ 64 \<and>
     su_stale_count x < 2 ^ 64 \<and>
     su_applicable_quirk_count x < 2 ^ 64"

lemma write_subject_snapshot_wire:
  "subject_snapshot_fits limits x \<Longrightarrow>
     codes_some (write_subject_snapshot x limits) (read_subject_snapshot limits) x"
  unfolding write_subject_snapshot_def read_subject_snapshot_def subject_snapshot_fits_def
  by (cases x) (auto intro!: codes_intro)

lemmas subject_snapshot_then [codes_intro] =
  write_subject_snapshot_wire [THEN codes_then] write_subject_snapshot_wire [THEN codes_some_bind]

lemma disciplined_subject_snapshot [disciplined_intro]: "disciplined (read_subject_snapshot limits)"
  unfolding read_subject_snapshot_def by (intro disciplined_intro; simp)

definition write_publisher_record :: "PublisherRecord \<Rightarrow> RegistryLimits \<Rightarrow> writing" where
  "write_publisher_record x limits = write_all [
     write_publisher_identity (pr_identity x),
     wr_u16 (enum_tag all_PublisherState (pr_state x)),
     wr_str (pr_adapter x) (max_metadata_bytes limits),
     wr_u64 (pr_last_sequence x),
     write_gen (pr_max_evidence_generation x),
     wr_size (pr_accepted x),
     wr_size (pr_rejected x),
     wr_str (pr_reason x) (max_metadata_bytes limits),
     wr_str (pr_registered_at_utc x) (max_metadata_bytes limits),
     wr_size (pr_boot_history x)]"

definition read_publisher_record :: "RegistryLimits \<Rightarrow> PublisherRecord reading" where
  "read_publisher_record limits = do {
     identity \<leftarrow> read_publisher_identity;
     raw_state \<leftarrow> rd_u16;
     if enum_beyond all_PublisherState PublisherState.Dead raw_state
     then do { rd_fail ErrorCode.CorruptData;
       State_Monad.return (empty_publisher_record\<lparr>pr_identity := identity\<rparr>) }
     else do {
       adapter \<leftarrow> rd_str (max_metadata_bytes limits);
       last_sequence \<leftarrow> rd_u64;
       max_evidence_generation \<leftarrow> read_gen;
       accepted \<leftarrow> rd_size;
       rejected \<leftarrow> rd_size;
       reason \<leftarrow> rd_str (max_metadata_bytes limits);
       registered_at_utc \<leftarrow> rd_str (max_metadata_bytes limits);
       boot_history \<leftarrow> rd_size;
       State_Monad.return \<lparr>pr_identity = identity, pr_state = enum_cast all_PublisherState raw_state,
           pr_adapter = adapter, pr_last_sequence = last_sequence,
           pr_max_evidence_generation = max_evidence_generation, pr_accepted = accepted,
           pr_rejected = rejected, pr_reason = reason, pr_registered_at_utc = registered_at_utc,
           pr_boot_history = boot_history\<rparr> } }"

definition publisher_record_fits :: "RegistryLimits \<Rightarrow> PublisherRecord \<Rightarrow> bool" where
  "publisher_record_fits limits x \<longleftrightarrow>
     publisher_identity_fits (pr_identity x) \<and>
     str_fits (max_metadata_bytes limits) (pr_adapter x) \<and>
     pr_accepted x < 2 ^ 64 \<and>
     pr_rejected x < 2 ^ 64 \<and>
     str_fits (max_metadata_bytes limits) (pr_reason x) \<and>
     str_fits (max_metadata_bytes limits) (pr_registered_at_utc x) \<and>
     pr_boot_history x < 2 ^ 64"

lemma write_publisher_record_wire:
  "publisher_record_fits limits x \<Longrightarrow>
     codes_some (write_publisher_record x limits) (read_publisher_record limits) x"
  unfolding write_publisher_record_def read_publisher_record_def publisher_record_fits_def
  by (cases x) (auto intro!: codes_intro)

lemmas publisher_record_then [codes_intro] =
  write_publisher_record_wire [THEN codes_then] write_publisher_record_wire [THEN codes_some_bind]

lemma disciplined_publisher_record [disciplined_intro]: "disciplined (read_publisher_record limits)"
  unfolding read_publisher_record_def by (intro disciplined_intro; simp)

section \<open>Resolved capabilities\<close>

definition write_evidence_view :: "EvidenceView \<Rightarrow> RegistryLimits \<Rightarrow> writing" where
  "write_evidence_view x limits = write_all [
     write_gen (ev_capability_generation x),
     wr_u16 (enum_tag all_SupportState (ev_support x)),
     write_value (ev_value x) limits,
     wr_u16 (enum_tag all_PrecisionClass (ev_precision x)),
     write_evidence_source (ev_source x) limits,
     wr_u32 (ev_staleness x),
     wr_boolean (ev_winner x),
     wr_boolean (ev_withdrawn x)]"

definition read_evidence_view :: "RegistryLimits \<Rightarrow> EvidenceView reading" where
  "read_evidence_view limits = do {
     capability_generation \<leftarrow> read_gen;
     raw_support \<leftarrow> rd_u16;
     if enum_beyond all_SupportState SupportState.RevalidationRequired raw_support
     then do { rd_fail ErrorCode.InvalidSupportState;
       State_Monad.return (no_view\<lparr>ev_capability_generation := capability_generation\<rparr>) }
     else do {
       value \<leftarrow> read_value limits 1;
       raw_precision \<leftarrow> rd_u16;
       if enum_beyond all_PrecisionClass PrecisionClass.Unknown raw_precision
       then do { rd_fail ErrorCode.InvalidProvenance;
         State_Monad.return (no_view\<lparr>ev_capability_generation := capability_generation,
             ev_support := enum_cast all_SupportState raw_support, ev_value := value\<rparr>) }
       else do {
         source \<leftarrow> read_evidence_source limits;
         staleness \<leftarrow> rd_u32;
         winner \<leftarrow> rd_boolean;
         withdrawn \<leftarrow> rd_boolean;
         State_Monad.return \<lparr>ev_capability_generation = capability_generation,
             ev_support = enum_cast all_SupportState raw_support, ev_value = value,
             ev_precision = enum_cast all_PrecisionClass raw_precision, ev_source = source,
             ev_staleness = staleness, ev_winner = winner, ev_withdrawn = withdrawn\<rparr> } } }"

definition evidence_view_fits :: "RegistryLimits \<Rightarrow> EvidenceView \<Rightarrow> bool" where
  "evidence_view_fits limits x \<longleftrightarrow>
     value_fits limits 1 (ev_value x) \<and>
     evidence_source_fits limits (ev_source x)"

lemma write_evidence_view_wire:
  "evidence_view_fits limits x \<Longrightarrow>
     codes_some (write_evidence_view x limits) (read_evidence_view limits) x"
  unfolding write_evidence_view_def read_evidence_view_def evidence_view_fits_def
  by (cases x) (auto intro!: codes_intro)

lemmas evidence_view_then [codes_intro] =
  write_evidence_view_wire [THEN codes_then] write_evidence_view_wire [THEN codes_some_bind]

lemma disciplined_evidence_view [disciplined_intro]: "disciplined (read_evidence_view limits)"
  unfolding read_evidence_view_def by (intro disciplined_intro; simp)

definition write_quirk_application :: "QuirkApplication \<Rightarrow> RegistryLimits \<Rightarrow> writing"
    where
  "write_quirk_application x limits = write_all [
     write_id (qap_id x),
     write_gen (qap_generation x),
     wr_u16 (enum_tag all_QuirkSeverity (qap_severity x)),
     wr_u16 (enum_tag all_MitigationKind (qap_mitigation x)),
     wr_u16 (enum_tag all_QuirkApplicabilityResult (qap_result x)),
     wr_str (qap_reason x) (max_metadata_bytes limits),
     wr_str (qap_title x) (max_name_length limits)]"

definition read_quirk_application :: "RegistryLimits \<Rightarrow> QuirkApplication reading" where
  "read_quirk_application limits = do {
     ident \<leftarrow> read_id;
     generation \<leftarrow> read_gen;
     raw_severity \<leftarrow> rd_u16;
     raw_mitigation \<leftarrow> rd_u16;
     raw_result \<leftarrow> rd_u16;
     if enum_beyond all_QuirkSeverity QuirkSeverity.Fatal raw_severity \<or>
        enum_beyond all_MitigationKind MitigationKind.ContactVendor raw_mitigation \<or>
        enum_beyond all_QuirkApplicabilityResult QuirkApplicabilityResult.Unknown raw_result
     then do { rd_fail ErrorCode.CorruptData;
       State_Monad.return (no_application\<lparr>qap_id := ident, qap_generation := generation\<rparr>) }
     else do {
       reason \<leftarrow> rd_str (max_metadata_bytes limits);
       title \<leftarrow> rd_str (max_name_length limits);
       State_Monad.return \<lparr>qap_id = ident, qap_generation = generation,
           qap_severity = enum_cast all_QuirkSeverity raw_severity,
           qap_mitigation = enum_cast all_MitigationKind raw_mitigation,
           qap_result = enum_cast all_QuirkApplicabilityResult raw_result, qap_reason = reason,
           qap_title = title\<rparr> } }"

definition quirk_application_fits :: "RegistryLimits \<Rightarrow> QuirkApplication \<Rightarrow> bool" where
  "quirk_application_fits limits x \<longleftrightarrow>
     wf_id (qap_id x) \<and>
     str_fits (max_metadata_bytes limits) (qap_reason x) \<and>
     str_fits (max_name_length limits) (qap_title x)"

lemma write_quirk_application_wire:
  "quirk_application_fits limits x \<Longrightarrow>
     codes_some (write_quirk_application x limits) (read_quirk_application limits) x"
  unfolding write_quirk_application_def read_quirk_application_def quirk_application_fits_def
  by (cases x) (auto intro!: codes_intro)

lemmas quirk_application_then [codes_intro] =
  write_quirk_application_wire [THEN codes_then] write_quirk_application_wire [THEN codes_some_bind]

lemma disciplined_quirk_application [disciplined_intro]: "disciplined (read_quirk_application limits)"
  unfolding read_quirk_application_def by (intro disciplined_intro; simp)

definition write_condition_leaf :: "ConditionEvidence \<Rightarrow> RegistryLimits \<Rightarrow> writing" where
  "write_condition_leaf x limits = write_all [
     wr_str (ce_expression x) (max_metadata_bytes limits),
     wr_u16 (enum_tag all_ConditionOutcome (ce_outcome x)),
     wr_str (ce_detail x) (max_metadata_bytes limits)]"

definition read_condition_leaf :: "RegistryLimits \<Rightarrow> ConditionEvidence option reading" where
  "read_condition_leaf limits = do {
     expression \<leftarrow> rd_str (max_metadata_bytes limits);
     leaf_outcome \<leftarrow> rd_u16;
     if enum_beyond all_ConditionOutcome ConditionOutcome.NotApplicable leaf_outcome
     then do { rd_fail ErrorCode.InvalidCondition; State_Monad.return None }
     else do {
       detail \<leftarrow> rd_str (max_metadata_bytes limits);
       State_Monad.return (Some \<lparr>ce_expression = expression,
         ce_outcome = enum_cast all_ConditionOutcome leaf_outcome, ce_detail = detail\<rparr>) } }"

definition condition_leaf_fits :: "RegistryLimits \<Rightarrow> ConditionEvidence \<Rightarrow> bool" where
  "condition_leaf_fits limits x \<longleftrightarrow>
     str_fits (max_metadata_bytes limits) (ce_expression x) \<and> str_fits (max_metadata_bytes limits) (ce_detail x)"

lemma write_condition_leaf_wire:
  "condition_leaf_fits limits x \<Longrightarrow>
     codes_some (write_condition_leaf x limits) (read_condition_leaf limits) (Some x)"
  unfolding write_condition_leaf_def read_condition_leaf_def condition_leaf_fits_def
  by (cases x) (auto intro!: codes_intro)

lemma disciplined_condition_leaf [disciplined_intro]: "disciplined (read_condition_leaf limits)"
  unfolding read_condition_leaf_def by (intro disciplined_intro; simp)

lemmas answer_list =
  write_list_fits [OF rd_checked_loops _ write_condition_leaf_wire]
  write_list_fits [OF rd_until_failure_loops _ write_quirk_application_wire]
  write_list_fits [OF rd_until_failure_loops _ write_evidence_view_wire]

lemmas answer_list_then [codes_intro] = answer_list [THEN codes_then] answer_list [THEN codes_some_bind]

definition write_condition_evaluation :: "ConditionEvaluation \<Rightarrow> RegistryLimits \<Rightarrow>
    writing" where
  "write_condition_evaluation x limits = write_all [
     wr_u16 (enum_tag all_ConditionOutcome (cev_outcome x)),
     write_list (\<lambda>e. write_condition_leaf e limits) (max_condition_nodes limits) (cev_evidence x)]"

definition read_condition_evaluation :: "RegistryLimits \<Rightarrow> ConditionEvaluation reading" where
  "read_condition_evaluation limits = do {
     raw_outcome \<leftarrow> rd_u16;
     if enum_beyond all_ConditionOutcome ConditionOutcome.NotApplicable raw_outcome
     then do { rd_fail ErrorCode.InvalidCondition;
       State_Monad.return no_evaluation }
     else do {
       l_evidence \<leftarrow> rd_list rd_checked (max_condition_nodes limits) ErrorCode.LimitExceeded
           (read_condition_leaf limits);
       evidence \<leftarrow> State_Monad.return (case l_evidence of None \<Rightarrow> [] | Some es
           \<Rightarrow> es);
       State_Monad.return \<lparr>cev_outcome = enum_cast all_ConditionOutcome raw_outcome,
           cev_evidence = evidence\<rparr> } }"

definition condition_evaluation_fits :: "RegistryLimits \<Rightarrow> ConditionEvaluation \<Rightarrow> bool"
    where
  "condition_evaluation_fits limits x \<longleftrightarrow> list_fits (max_condition_nodes limits)
      (condition_leaf_fits limits) (cev_evidence x)"

lemma write_condition_evaluation_wire:
  "condition_evaluation_fits limits x \<Longrightarrow>
     codes_some (write_condition_evaluation x limits) (read_condition_evaluation limits) x"
  unfolding write_condition_evaluation_def read_condition_evaluation_def condition_evaluation_fits_def
  by (cases x) (auto intro!: codes_intro)

lemmas condition_evaluation_then [codes_intro] =
  write_condition_evaluation_wire [THEN codes_then] write_condition_evaluation_wire [THEN codes_some_bind]

lemma disciplined_condition_evaluation [disciplined_intro]: "disciplined (read_condition_evaluation limits)"
  unfolding read_condition_evaluation_def by (intro disciplined_intro; simp)

definition write_resolved_capability :: "ResolvedCapability \<Rightarrow> RegistryLimits \<Rightarrow>
    writing" where
  "write_resolved_capability x limits = write_all [
     write_id (rc_device x),
     write_gen (rc_device_generation x),
     write_gen (rc_device_boot x),
     write_id (rc_capability x),
     write_id (rc_schema x),
     write_gen (rc_capability_generation x),
     wr_u16 (enum_tag all_SupportState (rc_declared_support x)),
     wr_u16 (enum_tag all_EffectiveSupport (rc_effective_support x)),
     write_value (rc_value x) limits,
     wr_u16 (enum_tag all_PrecisionClass (rc_precision x)),
     wr_u16 (enum_tag all_TruthClass (rc_truth x)),
     wr_u16 (enum_tag all_ContradictionState (rc_contradiction x)),
     wr_u32 (rc_staleness x),
     write_condition (rc_conditions x) limits,
     write_condition_evaluation (rc_condition_evaluation x) limits,
     write_list (\<lambda>e. write_quirk_application e limits) (max_query_results limits) (rc_quirks x),
     write_list (\<lambda>e. write_evidence_view e limits) (max_query_results limits) (rc_evidence x),
     write_gen (rc_firmware_generation x),
     write_gen (rc_driver_generation x),
     write_gen (rc_runtime_generation x),
     wr_boolean (rc_current x),
     wr_boolean (rc_known x),
     wr_str (rc_explanation x) (max_string_bytes limits)]"

definition read_resolved_capability :: "RegistryLimits \<Rightarrow> ResolvedCapability reading" where
  "read_resolved_capability limits = do {
     device \<leftarrow> read_id;
     device_generation \<leftarrow> read_gen;
     device_boot \<leftarrow> read_gen;
     capability \<leftarrow> read_id;
     schema \<leftarrow> read_id;
     capability_generation \<leftarrow> read_gen;
     raw_declared_support \<leftarrow> rd_u16;
     raw_effective_support \<leftarrow> rd_u16;
     if enum_beyond all_SupportState SupportState.RevalidationRequired raw_declared_support \<or>
        enum_beyond all_EffectiveSupport EffectiveSupport.RevalidationRequired raw_effective_support
     then do { rd_fail ErrorCode.InvalidSupportState;
       State_Monad.return (no_resolved\<lparr>rc_device := device, rc_device_generation := device_generation,
           rc_device_boot := device_boot, rc_capability := capability, rc_schema := schema,
           rc_capability_generation := capability_generation\<rparr>) }
     else do {
       value \<leftarrow> read_value limits 1;
       raw_precision \<leftarrow> rd_u16;
       raw_truth \<leftarrow> rd_u16;
       raw_contradiction \<leftarrow> rd_u16;
       if enum_beyond all_PrecisionClass PrecisionClass.Unknown raw_precision \<or>
          enum_beyond all_TruthClass TruthClass.Unknown raw_truth \<or>
          enum_beyond all_ContradictionState ContradictionState.RevalidationRequired raw_contradiction
       then do { rd_fail ErrorCode.CorruptData;
         State_Monad.return (no_resolved\<lparr>rc_device := device,
             rc_device_generation := device_generation, rc_device_boot := device_boot,
             rc_capability := capability, rc_schema := schema,
             rc_capability_generation := capability_generation,
             rc_declared_support := enum_cast all_SupportState raw_declared_support,
             rc_effective_support := enum_cast all_EffectiveSupport raw_effective_support,
             rc_value := value\<rparr>) }
       else do {
         staleness \<leftarrow> rd_u32;
         conditions \<leftarrow> read_condition limits 1;
         condition_evaluation \<leftarrow> read_condition_evaluation limits;
         l_quirks \<leftarrow> rd_list rd_until_failure (max_query_results limits) ErrorCode.LimitExceeded
             (read_quirk_application limits);
         good \<leftarrow> rd_ok;
         case l_quirks of
           None \<Rightarrow> State_Monad.return (no_resolved\<lparr>rc_device := device,
               rc_device_generation := device_generation, rc_device_boot := device_boot,
               rc_capability := capability, rc_schema := schema,
               rc_capability_generation := capability_generation,
               rc_declared_support := enum_cast all_SupportState raw_declared_support,
               rc_effective_support := enum_cast all_EffectiveSupport raw_effective_support,
               rc_value := value, rc_precision := enum_cast all_PrecisionClass raw_precision,
               rc_truth := enum_cast all_TruthClass raw_truth,
               rc_contradiction := enum_cast all_ContradictionState raw_contradiction,
               rc_staleness := staleness, rc_conditions := conditions,
               rc_condition_evaluation := condition_evaluation\<rparr>)
         | Some quirks \<Rightarrow>
           if \<not> good then State_Monad.return (no_resolved\<lparr>rc_device := device,
               rc_device_generation := device_generation, rc_device_boot := device_boot,
               rc_capability := capability, rc_schema := schema,
               rc_capability_generation := capability_generation,
               rc_declared_support := enum_cast all_SupportState raw_declared_support,
               rc_effective_support := enum_cast all_EffectiveSupport raw_effective_support,
               rc_value := value, rc_precision := enum_cast all_PrecisionClass raw_precision,
               rc_truth := enum_cast all_TruthClass raw_truth,
               rc_contradiction := enum_cast all_ContradictionState raw_contradiction,
               rc_staleness := staleness, rc_conditions := conditions,
               rc_condition_evaluation := condition_evaluation, rc_quirks := quirks\<rparr>)
           else do {
           l_evidence \<leftarrow> rd_list rd_until_failure (max_query_results limits)
               ErrorCode.LimitExceeded (read_evidence_view limits);
           good \<leftarrow> rd_ok;
           case l_evidence of
             None \<Rightarrow> State_Monad.return (no_resolved\<lparr>rc_device := device,
                 rc_device_generation := device_generation, rc_device_boot := device_boot,
                 rc_capability := capability, rc_schema := schema,
                 rc_capability_generation := capability_generation,
                 rc_declared_support := enum_cast all_SupportState raw_declared_support,
                 rc_effective_support := enum_cast all_EffectiveSupport raw_effective_support,
                 rc_value := value, rc_precision := enum_cast all_PrecisionClass raw_precision,
                 rc_truth := enum_cast all_TruthClass raw_truth,
                 rc_contradiction := enum_cast all_ContradictionState raw_contradiction,
                 rc_staleness := staleness, rc_conditions := conditions,
                 rc_condition_evaluation := condition_evaluation, rc_quirks := quirks\<rparr>)
           | Some evidence \<Rightarrow>
             if \<not> good then State_Monad.return (no_resolved\<lparr>rc_device := device,
                 rc_device_generation := device_generation, rc_device_boot := device_boot,
                 rc_capability := capability, rc_schema := schema,
                 rc_capability_generation := capability_generation,
                 rc_declared_support := enum_cast all_SupportState raw_declared_support,
                 rc_effective_support := enum_cast all_EffectiveSupport raw_effective_support,
                 rc_value := value, rc_precision := enum_cast all_PrecisionClass raw_precision,
                 rc_truth := enum_cast all_TruthClass raw_truth,
                 rc_contradiction := enum_cast all_ContradictionState raw_contradiction,
                 rc_staleness := staleness, rc_conditions := conditions,
                 rc_condition_evaluation := condition_evaluation, rc_quirks := quirks,
                 rc_evidence := evidence\<rparr>)
             else do {
             firmware_generation \<leftarrow> read_gen;
             driver_generation \<leftarrow> read_gen;
             runtime_generation \<leftarrow> read_gen;
             current \<leftarrow> rd_boolean;
             known \<leftarrow> rd_boolean;
             explanation \<leftarrow> rd_str (max_string_bytes limits);
             State_Monad.return \<lparr>rc_device = device, rc_device_generation = device_generation,
                 rc_device_boot = device_boot, rc_capability = capability, rc_schema = schema,
                 rc_capability_generation = capability_generation,
                 rc_declared_support = enum_cast all_SupportState raw_declared_support,
                 rc_effective_support = enum_cast all_EffectiveSupport raw_effective_support,
                 rc_value = value, rc_precision = enum_cast all_PrecisionClass raw_precision,
                 rc_truth = enum_cast all_TruthClass raw_truth,
                 rc_contradiction = enum_cast all_ContradictionState raw_contradiction,
                 rc_staleness = staleness, rc_conditions = conditions,
                 rc_condition_evaluation = condition_evaluation, rc_quirks = quirks, rc_evidence = evidence,
                 rc_firmware_generation = firmware_generation, rc_driver_generation = driver_generation,
                 rc_runtime_generation = runtime_generation, rc_current = current, rc_known = known,
                 rc_explanation = explanation\<rparr> } } } } }"

definition resolved_capability_fits :: "RegistryLimits \<Rightarrow> ResolvedCapability \<Rightarrow> bool"
    where
  "resolved_capability_fits limits x \<longleftrightarrow>
     wf_id (rc_device x) \<and>
     wf_id (rc_capability x) \<and>
     wf_id (rc_schema x) \<and>
     value_fits limits 1 (rc_value x) \<and>
     condition_fits limits 1 (rc_conditions x) \<and>
     condition_evaluation_fits limits (rc_condition_evaluation x) \<and>
     list_fits (max_query_results limits) (quirk_application_fits limits) (rc_quirks x) \<and>
     list_fits (max_query_results limits) (evidence_view_fits limits) (rc_evidence x) \<and>
     str_fits (max_string_bytes limits) (rc_explanation x)"

lemma write_resolved_capability_wire:
  "resolved_capability_fits limits x \<Longrightarrow>
     codes_some (write_resolved_capability x limits) (read_resolved_capability limits) x"
  unfolding write_resolved_capability_def read_resolved_capability_def resolved_capability_fits_def
  by (cases x) (auto intro!: codes_intro)

lemmas resolved_capability_then [codes_intro] =
  write_resolved_capability_wire [THEN codes_then] write_resolved_capability_wire [THEN codes_some_bind]

lemma disciplined_resolved_capability [disciplined_intro]: "disciplined (read_resolved_capability limits)"
  unfolding read_resolved_capability_def by (intro disciplined_intro; simp)

section \<open>Comparisons\<close>

definition write_difference :: "CapabilityDifference \<Rightarrow> RegistryLimits \<Rightarrow> writing" where
  "write_difference x limits = write_all [
     write_id (cd_capability x),
     wr_u16 (enum_tag all_CapabilityDifferenceKind (cd_kind x)),
     wr_u16 (enum_tag all_EffectiveSupport (cd_left_effective x)),
     wr_u16 (enum_tag all_EffectiveSupport (cd_right_effective x)),
     wr_str (cd_detail x) (max_metadata_bytes limits)]"

definition read_difference :: "RegistryLimits \<Rightarrow> CapabilityDifference option reading" where
  "read_difference limits = do {
     capability \<leftarrow> read_id;
     kind \<leftarrow> rd_u16;
     left \<leftarrow> rd_u16;
     right \<leftarrow> rd_u16;
     if enum_beyond all_CapabilityDifferenceKind CapabilityDifferenceKind.ShapeDiffers kind \<or>
        enum_beyond all_EffectiveSupport EffectiveSupport.RevalidationRequired left \<or>
        enum_beyond all_EffectiveSupport EffectiveSupport.RevalidationRequired right
     then do { rd_fail ErrorCode.CorruptData; State_Monad.return None }
     else do {
       detail \<leftarrow> rd_str (max_metadata_bytes limits);
       State_Monad.return (Some \<lparr>cd_capability = capability,
         cd_kind = enum_cast all_CapabilityDifferenceKind kind,
         cd_left_effective = enum_cast all_EffectiveSupport left,
         cd_right_effective = enum_cast all_EffectiveSupport right, cd_detail = detail\<rparr>) } }"

definition difference_fits :: "RegistryLimits \<Rightarrow> CapabilityDifference \<Rightarrow> bool" where
  "difference_fits limits x \<longleftrightarrow> wf_id (cd_capability x) \<and> str_fits (max_metadata_bytes limits) (cd_detail x)"

lemma write_difference_wire:
  "difference_fits limits x \<Longrightarrow> codes_some (write_difference x limits) (read_difference limits) (Some x)"
  unfolding write_difference_def read_difference_def difference_fits_def
  by (cases x) (auto intro!: codes_intro)

lemma disciplined_difference [disciplined_intro]: "disciplined (read_difference limits)"
  unfolding read_difference_def by (intro disciplined_intro; simp)

lemmas comparison_list =
  write_list_fits [OF rd_checked_loops _ write_difference_wire]
  write_list_fits [OF rd_times_loops _ write_id_wire]

lemmas comparison_list_then [codes_intro] =
  comparison_list [THEN codes_then] comparison_list [THEN codes_some_bind]

definition write_device_comparison :: "DeviceComparison \<Rightarrow> RegistryLimits \<Rightarrow> writing"
    where
  "write_device_comparison x limits = write_all [
     write_id (dc_left x),
     write_id (dc_right x),
     write_gen (dc_left_generation x),
     write_gen (dc_right_generation x),
     wr_str (dc_left_software x) (max_name_length limits),
     wr_str (dc_right_software x) (max_name_length limits),
     write_list (\<lambda>e. write_difference e limits) (max_comparison_entries limits) (dc_differences x),
     write_list write_id (max_comparison_entries limits) (dc_equivalent x),
     wr_str (dc_explanation x) (max_string_bytes limits)]"

definition read_device_comparison :: "RegistryLimits \<Rightarrow> DeviceComparison reading" where
  "read_device_comparison limits = do {
     left \<leftarrow> read_id;
     right \<leftarrow> read_id;
     left_generation \<leftarrow> read_gen;
     right_generation \<leftarrow> read_gen;
     left_software \<leftarrow> rd_str (max_name_length limits);
     right_software \<leftarrow> rd_str (max_name_length limits);
     l_differences \<leftarrow> rd_list rd_checked (max_comparison_entries limits) ErrorCode.LimitExceeded
         (read_difference limits);
     case l_differences of
       None \<Rightarrow> State_Monad.return (no_comparison\<lparr>dc_left := left, dc_right := right,
           dc_left_generation := left_generation, dc_right_generation := right_generation,
           dc_left_software := left_software, dc_right_software := right_software\<rparr>)
     | Some differences \<Rightarrow> do {
       l_equivalent \<leftarrow> rd_list rd_times (max_comparison_entries limits) ErrorCode.LimitExceeded
           read_id;
       case l_equivalent of
         None \<Rightarrow> State_Monad.return (no_comparison\<lparr>dc_left := left, dc_right := right,
             dc_left_generation := left_generation, dc_right_generation := right_generation,
             dc_left_software := left_software, dc_right_software := right_software,
             dc_differences := differences\<rparr>)
       | Some equivalent \<Rightarrow> do {
         explanation \<leftarrow> rd_str (max_string_bytes limits);
         State_Monad.return \<lparr>dc_left = left, dc_right = right, dc_left_generation = left_generation,
             dc_right_generation = right_generation, dc_left_software = left_software,
             dc_right_software = right_software, dc_differences = differences, dc_equivalent = equivalent,
             dc_explanation = explanation\<rparr> } } }"

definition device_comparison_fits :: "RegistryLimits \<Rightarrow> DeviceComparison \<Rightarrow> bool" where
  "device_comparison_fits limits x \<longleftrightarrow>
     wf_id (dc_left x) \<and>
     wf_id (dc_right x) \<and>
     str_fits (max_name_length limits) (dc_left_software x) \<and>
     str_fits (max_name_length limits) (dc_right_software x) \<and>
     list_fits (max_comparison_entries limits) (difference_fits limits) (dc_differences x) \<and>
     list_fits (max_comparison_entries limits) wf_id (dc_equivalent x) \<and>
     str_fits (max_string_bytes limits) (dc_explanation x)"

lemma write_device_comparison_wire:
  "device_comparison_fits limits x \<Longrightarrow>
     codes_some (write_device_comparison x limits) (read_device_comparison limits) x"
  unfolding write_device_comparison_def read_device_comparison_def device_comparison_fits_def
  by (cases x) (auto intro!: codes_intro)

lemmas device_comparison_then [codes_intro] =
  write_device_comparison_wire [THEN codes_then] write_device_comparison_wire [THEN codes_some_bind]

lemma disciplined_device_comparison [disciplined_intro]: "disciplined (read_device_comparison limits)"
  unfolding read_device_comparison_def by (intro disciplined_intro; simp)

section \<open>Registry snapshots\<close>

lemmas snapshot_list =
  write_list_fits [OF rd_while_ok_loops _ write_subject_snapshot_wire]
  write_list_fits [OF rd_while_ok_loops _ write_resolved_capability_wire]
  write_list_fits [OF rd_while_ok_loops _ write_quirk_record_wire]
  write_list_fits [OF rd_while_ok_loops _ write_compatibility_fact_wire]
  write_list_fits [OF rd_while_ok_loops _ write_publisher_record_wire]

lemmas snapshot_list_then [codes_intro] = snapshot_list [THEN codes_then] snapshot_list [THEN codes_some_bind]

definition write_registry_snapshot :: "RegistrySnapshot \<Rightarrow> RegistryLimits \<Rightarrow> writing"
    where
  "write_registry_snapshot x limits = write_all [
     write_gen (sn_generation x),
     write_gen (sn_epoch x),
     wr_u64 (sn_state_revision x),
     wr_str (sn_created_at_utc x) (max_metadata_bytes limits),
     write_list (\<lambda>e. write_subject_snapshot e limits) (max_snapshot_records limits) (sn_subjects x),
     write_list (\<lambda>e. write_resolved_capability e limits) (max_snapshot_records limits)
         (sn_capabilities x),
     write_list (\<lambda>e. write_quirk_record e limits) (max_quirks limits) (sn_quirks x),
     write_list (\<lambda>e. write_compatibility_fact e limits) (max_compatibility_facts limits)
         (sn_compatibility x),
     write_list (\<lambda>e. write_publisher_record e limits) (max_publishers limits) (sn_publishers x),
     wr_size (sn_real_statements x),
     wr_size (sn_synthetic_statements x),
     wr_size (sn_unsupported_statements x),
     wr_size (sn_unknown_statements x),
     wr_size (sn_stale_evidence_records x),
     wr_u64 (sn_canonical_digest x)]"

definition read_registry_snapshot :: "RegistryLimits \<Rightarrow> RegistrySnapshot reading" where
  "read_registry_snapshot limits = do {
     generation \<leftarrow> read_gen;
     epoch \<leftarrow> read_gen;
     state_revision \<leftarrow> rd_u64;
     created_at_utc \<leftarrow> rd_str (max_metadata_bytes limits);
     l_subjects \<leftarrow> rd_list rd_while_ok (max_snapshot_records limits) ErrorCode.LimitExceeded
         (read_subject_snapshot limits);
     subjects \<leftarrow> State_Monad.return (case l_subjects of None \<Rightarrow> [] | Some es
         \<Rightarrow> es);
     l_capabilities \<leftarrow> rd_list rd_while_ok (max_snapshot_records limits) ErrorCode.LimitExceeded
         (read_resolved_capability limits);
     capabilities \<leftarrow> State_Monad.return (case l_capabilities of None \<Rightarrow> [] | Some es
         \<Rightarrow> es);
     l_quirks \<leftarrow> rd_list rd_while_ok (max_quirks limits) ErrorCode.LimitExceeded (read_quirk_record
         limits);
     quirks \<leftarrow> State_Monad.return (case l_quirks of None \<Rightarrow> [] | Some es \<Rightarrow> es);
     l_compatibility \<leftarrow> rd_list rd_while_ok (max_compatibility_facts limits)
         ErrorCode.LimitExceeded (read_compatibility_fact limits);
     compatibility \<leftarrow> State_Monad.return (case l_compatibility of None \<Rightarrow> [] | Some es
         \<Rightarrow> es);
     l_publishers \<leftarrow> rd_list rd_while_ok (max_publishers limits) ErrorCode.LimitExceeded
         (read_publisher_record limits);
     publishers \<leftarrow> State_Monad.return (case l_publishers of None \<Rightarrow> [] | Some es
         \<Rightarrow> es);
     real_statements \<leftarrow> rd_size;
     synthetic_statements \<leftarrow> rd_size;
     unsupported_statements \<leftarrow> rd_size;
     unknown_statements \<leftarrow> rd_size;
     stale_evidence_records \<leftarrow> rd_size;
     canonical_digest \<leftarrow> rd_u64;
     State_Monad.return \<lparr>sn_generation = generation, sn_epoch = epoch,
         sn_state_revision = state_revision, sn_created_at_utc = created_at_utc, sn_subjects = subjects,
         sn_capabilities = capabilities, sn_quirks = quirks, sn_compatibility = compatibility,
         sn_publishers = publishers, sn_real_statements = real_statements,
         sn_synthetic_statements = synthetic_statements, sn_unsupported_statements = unsupported_statements,
         sn_unknown_statements = unknown_statements, sn_stale_evidence_records = stale_evidence_records,
         sn_canonical_digest = canonical_digest\<rparr> }"

definition registry_snapshot_fits :: "RegistryLimits \<Rightarrow> RegistrySnapshot \<Rightarrow> bool" where
  "registry_snapshot_fits limits x \<longleftrightarrow>
     str_fits (max_metadata_bytes limits) (sn_created_at_utc x) \<and>
     list_fits (max_snapshot_records limits) (subject_snapshot_fits limits) (sn_subjects x) \<and>
     list_fits (max_snapshot_records limits) (resolved_capability_fits limits) (sn_capabilities x) \<and>
     list_fits (max_quirks limits) (quirk_record_fits limits) (sn_quirks x) \<and>
     list_fits (max_compatibility_facts limits) (compatibility_fact_fits limits) (sn_compatibility x) \<and>
     list_fits (max_publishers limits) (publisher_record_fits limits) (sn_publishers x) \<and>
     sn_real_statements x < 2 ^ 64 \<and>
     sn_synthetic_statements x < 2 ^ 64 \<and>
     sn_unsupported_statements x < 2 ^ 64 \<and>
     sn_unknown_statements x < 2 ^ 64 \<and>
     sn_stale_evidence_records x < 2 ^ 64"

lemma write_registry_snapshot_wire:
  "registry_snapshot_fits limits x \<Longrightarrow>
     codes_some (write_registry_snapshot x limits) (read_registry_snapshot limits) x"
  unfolding write_registry_snapshot_def read_registry_snapshot_def registry_snapshot_fits_def
  by (cases x) (auto intro!: codes_intro)

lemmas registry_snapshot_then [codes_intro] =
  write_registry_snapshot_wire [THEN codes_then] write_registry_snapshot_wire [THEN codes_some_bind]

lemma disciplined_registry_snapshot [disciplined_intro]: "disciplined (read_registry_snapshot limits)"
  unfolding read_registry_snapshot_def by (intro disciplined_intro; simp)

interpretation resolved_wire: wire_format "\<lambda>v. write_resolved_capability v limits"
    "read_resolved_capability limits" "resolved_capability_fits limits" for limits
  by unfold_locales (simp_all add: write_resolved_capability_wire disciplined_resolved_capability)

interpretation snapshot_wire: wire_format "\<lambda>v. write_registry_snapshot v limits"
    "read_registry_snapshot limits" "registry_snapshot_fits limits" for limits
  by unfold_locales (simp_all add: write_registry_snapshot_wire disciplined_registry_snapshot)

end
