(* ===== verification/Codec_Queries.thy ===== *)
theory Codec_Queries
  imports Codec_Answers
begin

text \<open>
  The wire form of the queries (\<^verbatim>\<open>src/codec.cpp\<close>): every request body of the protocol that asks for
  something is one of these.
\<close>

definition no_capabilities_query :: DeviceCapabilityQuery where
  "no_capabilities_query = \<lparr>dq_device = [], dq_device_generation = 0, dq_environment = [],
     dq_capability_prefix = [], dq_domain = None, dq_declared_filter = None, dq_effective_filter = None,
     dq_truth_filter = None, dq_only_conditional = False, dq_only_unknown = False,
     dq_only_unsupported = False, dq_only_stale = False, dq_only_current = True, dq_max_results = 0\<rparr>"

definition no_fleet_query :: FleetCapabilityQuery where
  "no_fleet_query = \<lparr>fq_capability = [], fq_environment = [], fq_effective_filter = None,
     fq_truth_filter = None, fq_hardware_class = None, fq_only_current = True, fq_max_results = 0\<rparr>"

definition no_compatibility_query :: CompatibilityQuery where
  "no_compatibility_query = \<lparr>kq_reference = None, kq_kind = None, kq_include_withdrawn = False,
     kq_max_results = 0\<rparr>"

definition no_publisher_query :: PublisherQuery where
  "no_publisher_query = \<lparr>pq_state = None, pq_max_results = 0\<rparr>"

definition write_capability_query :: "CapabilityQuery \<Rightarrow> RegistryLimits \<Rightarrow> writing" where
  "write_capability_query x limits = write_all [
     write_id (cq_device x),
     write_gen (cq_device_generation x),
     write_id (cq_capability x),
     write_environment (cq_environment x) limits,
     wr_boolean (cq_include_evidence x)]"

definition read_capability_query :: "RegistryLimits \<Rightarrow> CapabilityQuery reading" where
  "read_capability_query limits = do {
     device \<leftarrow> read_id;
     device_generation \<leftarrow> read_gen;
     capability \<leftarrow> read_id;
     environment \<leftarrow> read_environment limits;
     include_evidence \<leftarrow> rd_boolean;
     State_Monad.return \<lparr>cq_device = device, cq_device_generation = device_generation,
         cq_capability = capability, cq_environment = environment,
         cq_include_evidence = include_evidence\<rparr> }"

definition capability_query_fits :: "RegistryLimits \<Rightarrow> CapabilityQuery \<Rightarrow> bool" where
  "capability_query_fits limits x \<longleftrightarrow>
     wf_id (cq_device x) \<and>
     wf_id (cq_capability x) \<and>
     environment_fits limits (cq_environment x)"

lemma write_capability_query_wire:
  "capability_query_fits limits x \<Longrightarrow>
     codes_some (write_capability_query x limits) (read_capability_query limits) x"
  unfolding write_capability_query_def read_capability_query_def capability_query_fits_def
  by (cases x) (auto intro!: codes_intro)

lemmas capability_query_then [codes_intro] =
  write_capability_query_wire [THEN codes_then] write_capability_query_wire [THEN codes_some_bind]

lemma disciplined_capability_query [disciplined_intro]: "disciplined (read_capability_query limits)"
  unfolding read_capability_query_def by (intro disciplined_intro; simp)

definition write_device_capability_query :: "DeviceCapabilityQuery \<Rightarrow> RegistryLimits \<Rightarrow>
    writing" where
  "write_device_capability_query x limits = write_all [
     write_id (dq_device x),
     write_gen (dq_device_generation x),
     write_environment (dq_environment x) limits,
     wr_str (dq_capability_prefix x) (max_name_length limits),
     write_optional (\<lambda>e. wr_u16 (enum_tag all_CapabilityDomain e)) (dq_domain x),
     write_optional (\<lambda>e. wr_u16 (enum_tag all_SupportState e)) (dq_declared_filter x),
     write_optional (\<lambda>e. wr_u16 (enum_tag all_EffectiveSupport e)) (dq_effective_filter x),
     write_optional (\<lambda>e. wr_u16 (enum_tag all_TruthClass e)) (dq_truth_filter x),
     wr_boolean (dq_only_conditional x),
     wr_boolean (dq_only_unknown x),
     wr_boolean (dq_only_unsupported x),
     wr_boolean (dq_only_stale x),
     wr_boolean (dq_only_current x),
     wr_size (dq_max_results x)]"

definition read_device_capability_query :: "RegistryLimits \<Rightarrow> DeviceCapabilityQuery reading" where
  "read_device_capability_query limits = do {
     device \<leftarrow> read_id;
     device_generation \<leftarrow> read_gen;
     environment \<leftarrow> read_environment limits;
     capability_prefix \<leftarrow> rd_str (max_name_length limits);
     c_domain \<leftarrow> rd_optional_enum all_CapabilityDomain CapabilityDomain.Platform
         ErrorCode.InvalidCapability;
     case c_domain of
       None \<Rightarrow> State_Monad.return (no_capabilities_query\<lparr>dq_device := device,
           dq_device_generation := device_generation, dq_environment := environment,
           dq_capability_prefix := capability_prefix\<rparr>)
     | Some domain \<Rightarrow> do {
       c_declared_filter \<leftarrow> rd_optional_enum all_SupportState SupportState.RevalidationRequired
           ErrorCode.InvalidSupportState;
       case c_declared_filter of
         None \<Rightarrow> State_Monad.return (no_capabilities_query\<lparr>dq_device := device,
             dq_device_generation := device_generation, dq_environment := environment,
             dq_capability_prefix := capability_prefix, dq_domain := domain\<rparr>)
       | Some declared_filter \<Rightarrow> do {
         c_effective_filter \<leftarrow> rd_optional_enum all_EffectiveSupport
             EffectiveSupport.RevalidationRequired ErrorCode.InvalidSupportState;
         case c_effective_filter of
           None \<Rightarrow> State_Monad.return (no_capabilities_query\<lparr>dq_device := device,
               dq_device_generation := device_generation, dq_environment := environment,
               dq_capability_prefix := capability_prefix, dq_domain := domain,
               dq_declared_filter := declared_filter\<rparr>)
         | Some effective_filter \<Rightarrow> do {
           c_truth_filter \<leftarrow> rd_optional_enum all_TruthClass TruthClass.Unknown ErrorCode.CorruptData;
           case c_truth_filter of
             None \<Rightarrow> State_Monad.return (no_capabilities_query\<lparr>dq_device := device,
                 dq_device_generation := device_generation, dq_environment := environment,
                 dq_capability_prefix := capability_prefix, dq_domain := domain,
                 dq_declared_filter := declared_filter, dq_effective_filter := effective_filter\<rparr>)
           | Some truth_filter \<Rightarrow> do {
             only_conditional \<leftarrow> rd_boolean;
             only_unknown \<leftarrow> rd_boolean;
             only_unsupported \<leftarrow> rd_boolean;
             only_stale \<leftarrow> rd_boolean;
             only_current \<leftarrow> rd_boolean;
             max_results \<leftarrow> rd_size;
             State_Monad.return \<lparr>dq_device = device, dq_device_generation = device_generation,
                 dq_environment = environment, dq_capability_prefix = capability_prefix, dq_domain = domain,
                 dq_declared_filter = declared_filter, dq_effective_filter = effective_filter,
                 dq_truth_filter = truth_filter, dq_only_conditional = only_conditional,
                 dq_only_unknown = only_unknown, dq_only_unsupported = only_unsupported,
                 dq_only_stale = only_stale, dq_only_current = only_current,
                 dq_max_results = max_results\<rparr> } } } } }"

definition device_capability_query_fits :: "RegistryLimits \<Rightarrow> DeviceCapabilityQuery \<Rightarrow>
    bool" where
  "device_capability_query_fits limits x \<longleftrightarrow>
     wf_id (dq_device x) \<and>
     environment_fits limits (dq_environment x) \<and>
     str_fits (max_name_length limits) (dq_capability_prefix x) \<and>
     dq_max_results x < 2 ^ 64"

lemma write_device_capability_query_wire:
  "device_capability_query_fits limits x \<Longrightarrow>
     codes_some (write_device_capability_query x limits) (read_device_capability_query limits) x"
  unfolding write_device_capability_query_def read_device_capability_query_def device_capability_query_fits_def
  by (cases x) (auto intro!: codes_intro)

lemmas device_capability_query_then [codes_intro] =
  write_device_capability_query_wire [THEN codes_then] write_device_capability_query_wire [THEN codes_some_bind]

lemma disciplined_device_capability_query [disciplined_intro]: "disciplined (read_device_capability_query
    limits)"
  unfolding read_device_capability_query_def by (intro disciplined_intro; simp)

definition write_fleet_query :: "FleetCapabilityQuery \<Rightarrow> RegistryLimits \<Rightarrow> writing" where
  "write_fleet_query x limits = write_all [
     write_id (fq_capability x),
     write_environment (fq_environment x) limits,
     write_optional (\<lambda>e. wr_u16 (enum_tag all_EffectiveSupport e)) (fq_effective_filter x),
     write_optional (\<lambda>e. wr_u16 (enum_tag all_TruthClass e)) (fq_truth_filter x),
     write_optional (\<lambda>e. wr_u16 (enum_tag all_HardwareClass e)) (fq_hardware_class x),
     wr_boolean (fq_only_current x),
     wr_size (fq_max_results x)]"

definition read_fleet_query :: "RegistryLimits \<Rightarrow> FleetCapabilityQuery reading" where
  "read_fleet_query limits = do {
     capability \<leftarrow> read_id;
     environment \<leftarrow> read_environment limits;
     c_effective_filter \<leftarrow> rd_optional_enum all_EffectiveSupport
         EffectiveSupport.RevalidationRequired ErrorCode.InvalidSupportState;
     case c_effective_filter of
       None \<Rightarrow> State_Monad.return (no_fleet_query\<lparr>fq_capability := capability,
           fq_environment := environment\<rparr>)
     | Some effective_filter \<Rightarrow> do {
       c_truth_filter \<leftarrow> rd_optional_enum all_TruthClass TruthClass.Unknown ErrorCode.CorruptData;
       case c_truth_filter of
         None \<Rightarrow> State_Monad.return (no_fleet_query\<lparr>fq_capability := capability,
             fq_environment := environment, fq_effective_filter := effective_filter\<rparr>)
       | Some truth_filter \<Rightarrow> do {
         c_hardware_class \<leftarrow> rd_optional_enum all_HardwareClass HardwareClass.Other
             ErrorCode.InvalidIdentity;
         case c_hardware_class of
           None \<Rightarrow> State_Monad.return (no_fleet_query\<lparr>fq_capability := capability,
               fq_environment := environment, fq_effective_filter := effective_filter,
               fq_truth_filter := truth_filter\<rparr>)
         | Some hardware_class \<Rightarrow> do {
           only_current \<leftarrow> rd_boolean;
           max_results \<leftarrow> rd_size;
           State_Monad.return \<lparr>fq_capability = capability, fq_environment = environment,
               fq_effective_filter = effective_filter, fq_truth_filter = truth_filter,
               fq_hardware_class = hardware_class, fq_only_current = only_current,
               fq_max_results = max_results\<rparr> } } } }"

definition fleet_query_fits :: "RegistryLimits \<Rightarrow> FleetCapabilityQuery \<Rightarrow> bool" where
  "fleet_query_fits limits x \<longleftrightarrow>
     wf_id (fq_capability x) \<and>
     environment_fits limits (fq_environment x) \<and>
     fq_max_results x < 2 ^ 64"

lemma write_fleet_query_wire:
  "fleet_query_fits limits x \<Longrightarrow>
     codes_some (write_fleet_query x limits) (read_fleet_query limits) x"
  unfolding write_fleet_query_def read_fleet_query_def fleet_query_fits_def
  by (cases x) (auto intro!: codes_intro)

lemmas fleet_query_then [codes_intro] =
  write_fleet_query_wire [THEN codes_then] write_fleet_query_wire [THEN codes_some_bind]

lemma disciplined_fleet_query [disciplined_intro]: "disciplined (read_fleet_query limits)"
  unfolding read_fleet_query_def by (intro disciplined_intro; simp)

definition write_stale_query :: "StaleCapabilityQuery \<Rightarrow> RegistryLimits \<Rightarrow> writing" where
  "write_stale_query x limits = write_all [
     write_id (sq_device x),
     write_gen (sq_device_generation x),
     write_environment (sq_environment x) limits,
     wr_size (sq_max_results x)]"

definition read_stale_query :: "RegistryLimits \<Rightarrow> StaleCapabilityQuery reading" where
  "read_stale_query limits = do {
     device \<leftarrow> read_id;
     device_generation \<leftarrow> read_gen;
     environment \<leftarrow> read_environment limits;
     max_results \<leftarrow> rd_size;
     State_Monad.return \<lparr>sq_device = device, sq_device_generation = device_generation,
         sq_environment = environment, sq_max_results = max_results\<rparr> }"

definition stale_query_fits :: "RegistryLimits \<Rightarrow> StaleCapabilityQuery \<Rightarrow> bool" where
  "stale_query_fits limits x \<longleftrightarrow>
     wf_id (sq_device x) \<and>
     environment_fits limits (sq_environment x) \<and>
     sq_max_results x < 2 ^ 64"

lemma write_stale_query_wire:
  "stale_query_fits limits x \<Longrightarrow>
     codes_some (write_stale_query x limits) (read_stale_query limits) x"
  unfolding write_stale_query_def read_stale_query_def stale_query_fits_def
  by (cases x) (auto intro!: codes_intro)

lemmas stale_query_then [codes_intro] =
  write_stale_query_wire [THEN codes_then] write_stale_query_wire [THEN codes_some_bind]

lemma disciplined_stale_query [disciplined_intro]: "disciplined (read_stale_query limits)"
  unfolding read_stale_query_def by (intro disciplined_intro; simp)

definition write_quirk_query :: "QuirkQuery \<Rightarrow> RegistryLimits \<Rightarrow> writing" where
  "write_quirk_query x limits = write_all [
     write_optional write_id (qq_device x),
     write_environment (qq_environment x) limits,
     write_optional write_id (qq_capability x),
     wr_boolean (qq_only_applicable x),
     wr_size (qq_max_results x)]"

definition read_quirk_query :: "RegistryLimits \<Rightarrow> QuirkQuery reading" where
  "read_quirk_query limits = do {
     device \<leftarrow> rd_optional read_id;
     environment \<leftarrow> read_environment limits;
     capability \<leftarrow> rd_optional read_id;
     only_applicable \<leftarrow> rd_boolean;
     max_results \<leftarrow> rd_size;
     State_Monad.return \<lparr>qq_device = device, qq_environment = environment, qq_capability = capability,
         qq_only_applicable = only_applicable, qq_max_results = max_results\<rparr> }"

definition quirk_query_fits :: "RegistryLimits \<Rightarrow> QuirkQuery \<Rightarrow> bool" where
  "quirk_query_fits limits x \<longleftrightarrow>
     pred_option wf_id (qq_device x) \<and>
     environment_fits limits (qq_environment x) \<and>
     pred_option wf_id (qq_capability x) \<and>
     qq_max_results x < 2 ^ 64"

lemma write_quirk_query_wire:
  "quirk_query_fits limits x \<Longrightarrow>
     codes_some (write_quirk_query x limits) (read_quirk_query limits) x"
  unfolding write_quirk_query_def read_quirk_query_def quirk_query_fits_def
  by (cases x) (auto intro!: codes_intro)

lemmas quirk_query_then [codes_intro] =
  write_quirk_query_wire [THEN codes_then] write_quirk_query_wire [THEN codes_some_bind]

lemma disciplined_quirk_query [disciplined_intro]: "disciplined (read_quirk_query limits)"
  unfolding read_quirk_query_def by (intro disciplined_intro; simp)

definition write_compatibility_query :: "CompatibilityQuery \<Rightarrow> RegistryLimits \<Rightarrow>
    writing" where
  "write_compatibility_query x limits = write_all [
     write_optional (\<lambda>e. write_hardware_reference e limits) (kq_reference x),
     write_optional (\<lambda>e. wr_u16 (enum_tag all_CompatibilitySubjectKind e)) (kq_kind x),
     wr_boolean (kq_include_withdrawn x),
     wr_size (kq_max_results x)]"

definition read_compatibility_query :: "RegistryLimits \<Rightarrow> CompatibilityQuery reading" where
  "read_compatibility_query limits = do {
     reference \<leftarrow> rd_optional (read_hardware_reference limits);
     c_kind \<leftarrow> rd_optional_enum all_CompatibilitySubjectKind CompatibilitySubjectKind.Other
         ErrorCode.CorruptData;
     case c_kind of
       None \<Rightarrow> State_Monad.return (no_compatibility_query\<lparr>kq_reference := reference\<rparr>)
     | Some kind \<Rightarrow> do {
       include_withdrawn \<leftarrow> rd_boolean;
       max_results \<leftarrow> rd_size;
       State_Monad.return \<lparr>kq_reference = reference, kq_kind = kind,
           kq_include_withdrawn = include_withdrawn, kq_max_results = max_results\<rparr> } }"

definition compatibility_query_fits :: "RegistryLimits \<Rightarrow> CompatibilityQuery \<Rightarrow> bool"
    where
  "compatibility_query_fits limits x \<longleftrightarrow>
     pred_option (hardware_reference_fits limits) (kq_reference x) \<and>
     kq_max_results x < 2 ^ 64"

lemma write_compatibility_query_wire:
  "compatibility_query_fits limits x \<Longrightarrow>
     codes_some (write_compatibility_query x limits) (read_compatibility_query limits) x"
  unfolding write_compatibility_query_def read_compatibility_query_def compatibility_query_fits_def
  by (cases x) (auto intro!: codes_intro write_hardware_reference_wire)

lemmas compatibility_query_then [codes_intro] =
  write_compatibility_query_wire [THEN codes_then] write_compatibility_query_wire [THEN codes_some_bind]

lemma disciplined_compatibility_query [disciplined_intro]: "disciplined (read_compatibility_query limits)"
  unfolding read_compatibility_query_def by (intro disciplined_intro; simp)

definition write_comparison_request :: "ComparisonRequest \<Rightarrow> RegistryLimits \<Rightarrow> writing"
    where
  "write_comparison_request x limits = write_all [
     write_id (cmp_left x),
     write_id (cmp_right x),
     write_gen (cmp_left_generation x),
     write_gen (cmp_right_generation x),
     write_environment (cmp_environment x) limits]"

definition read_comparison_request :: "RegistryLimits \<Rightarrow> ComparisonRequest reading" where
  "read_comparison_request limits = do {
     left \<leftarrow> read_id;
     right \<leftarrow> read_id;
     left_generation \<leftarrow> read_gen;
     right_generation \<leftarrow> read_gen;
     environment \<leftarrow> read_environment limits;
     State_Monad.return \<lparr>cmp_left = left, cmp_right = right, cmp_left_generation = left_generation,
         cmp_right_generation = right_generation, cmp_environment = environment\<rparr> }"

definition comparison_request_fits :: "RegistryLimits \<Rightarrow> ComparisonRequest \<Rightarrow> bool" where
  "comparison_request_fits limits x \<longleftrightarrow>
     wf_id (cmp_left x) \<and>
     wf_id (cmp_right x) \<and>
     environment_fits limits (cmp_environment x)"

lemma write_comparison_request_wire:
  "comparison_request_fits limits x \<Longrightarrow>
     codes_some (write_comparison_request x limits) (read_comparison_request limits) x"
  unfolding write_comparison_request_def read_comparison_request_def comparison_request_fits_def
  by (cases x) (auto intro!: codes_intro)

lemmas comparison_request_then [codes_intro] =
  write_comparison_request_wire [THEN codes_then] write_comparison_request_wire [THEN codes_some_bind]

lemma disciplined_comparison_request [disciplined_intro]: "disciplined (read_comparison_request limits)"
  unfolding read_comparison_request_def by (intro disciplined_intro; simp)

definition write_publisher_query :: "PublisherQuery \<Rightarrow> RegistryLimits \<Rightarrow> writing" where
  "write_publisher_query x limits = write_all [
     write_optional (\<lambda>e. wr_u16 (enum_tag all_PublisherState e)) (pq_state x),
     wr_size (pq_max_results x)]"

definition read_publisher_query :: "RegistryLimits \<Rightarrow> PublisherQuery reading" where
  "read_publisher_query limits = do {
     c_state \<leftarrow> rd_optional_enum all_PublisherState PublisherState.Dead ErrorCode.CorruptData;
     case c_state of
       None \<Rightarrow> State_Monad.return no_publisher_query
     | Some state \<Rightarrow> do {
       max_results \<leftarrow> rd_size;
       State_Monad.return \<lparr>pq_state = state, pq_max_results = max_results\<rparr> } }"

definition publisher_query_fits :: "RegistryLimits \<Rightarrow> PublisherQuery \<Rightarrow> bool" where
  "publisher_query_fits limits x \<longleftrightarrow> pq_max_results x < 2 ^ 64"

lemma write_publisher_query_wire:
  "publisher_query_fits limits x \<Longrightarrow>
     codes_some (write_publisher_query x limits) (read_publisher_query limits) x"
  unfolding write_publisher_query_def read_publisher_query_def publisher_query_fits_def
  by (cases x) (auto intro!: codes_intro)

lemmas publisher_query_then [codes_intro] =
  write_publisher_query_wire [THEN codes_then] write_publisher_query_wire [THEN codes_some_bind]

lemma disciplined_publisher_query [disciplined_intro]: "disciplined (read_publisher_query limits)"
  unfolding read_publisher_query_def by (intro disciplined_intro; simp)

interpretation capability_query_wire: wire_format "\<lambda>q. write_capability_query q limits"
    "read_capability_query limits" "capability_query_fits limits" for limits
  by unfold_locales (simp_all add: write_capability_query_wire disciplined_capability_query)

interpretation device_capability_query_wire: wire_format "\<lambda>q. write_device_capability_query q limits"
    "read_device_capability_query limits" "device_capability_query_fits limits" for limits
  by unfold_locales (simp_all add: write_device_capability_query_wire disciplined_device_capability_query)

end
