(* ===== verification/Framing.thy ===== *)
theory Framing
  imports Binary
begin

text \<open>
  Frames and their checksum: \<^verbatim>\<open>crc32\<close>, \<^verbatim>\<open>encode_frame\<close>, the incremental \<^verbatim>\<open>FrameDecoder\<close> and
  \<^verbatim>\<open>receive_frame\<close> of \<^verbatim>\<open>src/protocol.cpp\<close>. The decoder is its buffer; the loop of \<^verbatim>\<open>feed\<close> advances an
  offset over it, as the code does, and leaves it untouched when it reports an error. The socket under
  \<^verbatim>\<open>receive_frame\<close> is the list of what the successive calls of \<^verbatim>\<open>recv_some\<close> return.
\<close>

section \<open>CRC-32\<close>

definition crc_polynomial :: u32 where
  "crc_polynomial = 0xEDB88320"

definition crc_bit :: "u32 \<Rightarrow> u32" where
  "crc_bit v = (if v AND 1 \<noteq> 0 then crc_polynomial XOR drop_bit 1 v else drop_bit 1 v)"

definition crc_table :: "u32 list" where
  "crc_table = map (\<lambda>i. (crc_bit ^^ 8) (word_of_nat i)) [0..<256]"

definition crc_update :: "u8 \<Rightarrow> u32 \<Rightarrow> u32" where
  "crc_update b crc = (crc_table ! unat ((crc XOR ucast b) AND 0xFF)) XOR drop_bit 8 crc"

definition crc32 :: "u8 list \<Rightarrow> u32" where
  "crc32 data = fold crc_update data 0xFFFFFFFF XOR 0xFFFFFFFF"

section \<open>Frames\<close>

datatype MessageType =
    Hello
  | Welcome
  | RegisterPublisher
  | PublisherAccepted
  | Publication
  | PublicationAccepted
  | QueryRequest
  | QueryResponse
  | FencePublisher
  | FenceAccepted
  | SnapshotRequest
  | SnapshotResponse
  | ShutdownRequest
  | ShutdownAccepted
  | ErrorResponse
  | Heartbeat
  | HeartbeatAccepted

definition all_MessageType :: "MessageType list" where
  "all_MessageType = [MessageType.Hello, MessageType.Welcome, MessageType.RegisterPublisher,
     MessageType.PublisherAccepted, MessageType.Publication, MessageType.PublicationAccepted,
     MessageType.QueryRequest, MessageType.QueryResponse, MessageType.FencePublisher,
     MessageType.FenceAccepted, MessageType.SnapshotRequest, MessageType.SnapshotResponse,
     MessageType.ShutdownRequest, MessageType.ShutdownAccepted, MessageType.ErrorResponse,
     MessageType.Heartbeat, MessageType.HeartbeatAccepted]"

fun to_string_MessageType :: "MessageType \<Rightarrow> string" where
  "to_string_MessageType MessageType.Hello = ''HELLO''"
| "to_string_MessageType MessageType.Welcome = ''WELCOME''"
| "to_string_MessageType MessageType.RegisterPublisher = ''REGISTER_PUBLISHER''"
| "to_string_MessageType MessageType.PublisherAccepted = ''PUBLISHER_ACCEPTED''"
| "to_string_MessageType MessageType.Publication = ''PUBLICATION''"
| "to_string_MessageType MessageType.PublicationAccepted = ''PUBLICATION_ACCEPTED''"
| "to_string_MessageType MessageType.QueryRequest = ''QUERY_REQUEST''"
| "to_string_MessageType MessageType.QueryResponse = ''QUERY_RESPONSE''"
| "to_string_MessageType MessageType.FencePublisher = ''FENCE_PUBLISHER''"
| "to_string_MessageType MessageType.FenceAccepted = ''FENCE_ACCEPTED''"
| "to_string_MessageType MessageType.SnapshotRequest = ''SNAPSHOT_REQUEST''"
| "to_string_MessageType MessageType.SnapshotResponse = ''SNAPSHOT_RESPONSE''"
| "to_string_MessageType MessageType.ShutdownRequest = ''SHUTDOWN_REQUEST''"
| "to_string_MessageType MessageType.ShutdownAccepted = ''SHUTDOWN_ACCEPTED''"
| "to_string_MessageType MessageType.ErrorResponse = ''ERROR_RESPONSE''"
| "to_string_MessageType MessageType.Heartbeat = ''HEARTBEAT''"
| "to_string_MessageType MessageType.HeartbeatAccepted = ''HEARTBEAT_ACCEPTED''"

definition message_type_from_string :: "string \<Rightarrow> MessageType option" where
  "message_type_from_string text =
     find (\<lambda>t. equals_ascii_ci text (to_string_MessageType t)) all_MessageType"

text \<open>The enumerators are numbered from one.\<close>

definition message_type_raw :: "MessageType \<Rightarrow> u16" where
  "message_type_raw t = enum_tag all_MessageType t + 1"

definition message_type_known :: "u16 \<Rightarrow> bool" where
  "message_type_known raw \<longleftrightarrow>
     raw \<ge> message_type_raw MessageType.Hello \<and> raw \<le> message_type_raw MessageType.HeartbeatAccepted"

definition message_type_cast :: "u16 \<Rightarrow> MessageType" where
  "message_type_cast raw = enum_cast all_MessageType (raw - 1)"

definition kFrameHeaderSize :: nat where
  "kFrameHeaderSize = 28"

definition kFrameMagic :: u32 where
  "kFrameMagic = 0x50524348"

definition kKnownFrameFlags :: u32 where
  "kKnownFrameFlags = 1 OR 2"

definition protocol_version :: u16 where
  "protocol_version = 1"

record Frame =
  fr_type :: MessageType
  fr_flags :: u32
  fr_correlation :: u64
  fr_payload :: "u8 list"

definition write_frame :: "Frame \<Rightarrow> writing" where
  "write_frame frame = write_all [
     wr_u32 kFrameMagic,
     wr_u16 protocol_version,
     wr_u16 (message_type_raw (fr_type frame)),
     wr_u32 (fr_flags frame),
     wr_u32 (word_of_nat (length (fr_payload frame))),
     wr_u32 (crc32 (fr_payload frame)),
     wr_u64 (fr_correlation frame),
     if fr_payload frame = [] then write_all [] else wr_raw (fr_payload frame)]"

definition encode_frame :: "Frame \<Rightarrow> RegistryLimits \<Rightarrow> ErrorCode + u8 list" where
  "encode_frame frame limits =
     (if \<not> message_type_known (message_type_raw (fr_type frame)) then Inl ErrorCode.ProtocolError
      else if length (fr_payload frame) > max_frame_bytes limits then Inl ErrorCode.LimitExceeded
      else if fr_flags frame AND NOT kKnownFrameFlags \<noteq> 0 then Inl ErrorCode.ProtocolError
      else Inr (wire (write_frame frame)))"

section \<open>The incremental decoder\<close>

record FrameDecoder =
  fd_limits :: RegistryLimits
  fd_buffer :: "u8 list"

record FrameHeader =
  fh_magic :: u32
  fh_version :: u16
  fh_raw_type :: u16
  fh_flags :: u32
  fh_length :: u32
  fh_checksum :: u32
  fh_correlation :: u64

definition read_frame_header :: "FrameHeader reading" where
  "read_frame_header = do {
     magic \<leftarrow> rd_u32;
     version \<leftarrow> rd_u16;
     raw_type \<leftarrow> rd_u16;
     flags \<leftarrow> rd_u32;
     len \<leftarrow> rd_u32;
     checksum \<leftarrow> rd_u32;
     correlation \<leftarrow> rd_u64;
     State_Monad.return \<lparr>fh_magic = magic, fh_version = version, fh_raw_type = raw_type, fh_flags = flags,
       fh_length = len, fh_checksum = checksum, fh_correlation = correlation\<rparr> }"

definition header_status :: "RegistryLimits \<Rightarrow> FrameHeader \<Rightarrow> Status" where
  "header_status limits header =
     (if fh_magic header \<noteq> kFrameMagic then ErrorCode.ProtocolError
      else if fh_version header \<noteq> protocol_version then ErrorCode.UnsupportedVersion
      else if \<not> message_type_known (fh_raw_type header) then ErrorCode.ProtocolError
      else if fh_flags header AND NOT kKnownFrameFlags \<noteq> 0 then ErrorCode.ProtocolError
      else if unat (fh_length header) > max_frame_bytes limits then ErrorCode.LimitExceeded
      else ErrorCode.Ok)"

text \<open>The loop of \<^verbatim>\<open>feed\<close>: the status, the bytes consumed and the frames appended.\<close>

function decode_loop :: "RegistryLimits \<Rightarrow> u8 list \<Rightarrow> nat \<Rightarrow> Status \<times> nat \<times> Frame list" where
  "decode_loop limits buffer consumed =
     (if length buffer - consumed < kFrameHeaderSize then (ErrorCode.Ok, consumed, [])
      else
        let header = fst (run_state read_frame_header
              (byte_reader (take kFrameHeaderSize (drop consumed buffer))));
            len = unat (fh_length header);
            payload = take len (drop (consumed + kFrameHeaderSize) buffer) in
        if header_status limits header \<noteq> ErrorCode.Ok then (header_status limits header, consumed, [])
        else if length buffer - consumed < kFrameHeaderSize + len then (ErrorCode.Ok, consumed, [])
        else if crc32 payload \<noteq> fh_checksum header then (ErrorCode.IntegrityFailure, consumed, [])
        else
          (case decode_loop limits buffer (consumed + kFrameHeaderSize + len) of
             (status, ending, frames) \<Rightarrow>
               (status, ending,
                \<lparr>fr_type = message_type_cast (fh_raw_type header), fr_flags = fh_flags header,
                 fr_correlation = fh_correlation header, fr_payload = payload\<rparr> # frames)))"
  by pat_completeness auto

termination
  by (relation "measure (\<lambda>(limits, buffer, consumed). length buffer - consumed)")
    (auto simp: kFrameHeaderSize_def)

declare decode_loop.simps [simp del]

definition feed :: "u8 list \<Rightarrow> FrameDecoder \<Rightarrow> Status \<times> Frame list \<times> FrameDecoder" where
  "feed data decoder =
     (if length (fd_buffer decoder) + length data > max_frame_bytes (fd_limits decoder) + kFrameHeaderSize
      then (ErrorCode.LimitExceeded, [], decoder)
      else
        let buffer = fd_buffer decoder @ data in
        case decode_loop (fd_limits decoder) buffer 0 of
          (status, consumed, frames) \<Rightarrow>
            if status \<noteq> ErrorCode.Ok then (status, frames, decoder\<lparr>fd_buffer := buffer\<rparr>)
            else (ErrorCode.Ok, frames, decoder\<lparr>fd_buffer := drop consumed buffer\<rparr>))"

definition finish :: "FrameDecoder \<Rightarrow> Status" where
  "finish decoder = (if fd_buffer decoder = [] then ErrorCode.Ok else ErrorCode.ProtocolError)"

definition reset :: "FrameDecoder \<Rightarrow> FrameDecoder" where
  "reset decoder = decoder\<lparr>fd_buffer := []\<rparr>"

section \<open>Receiving\<close>

text \<open>
  What \<^verbatim>\<open>recv_some\<close> returns: a failure, or some bytes, where no bytes mean that the peer closed.
  The result \<open>None\<close> of \<open>receive_frame\<close> means that the call still waits when the list is used up.
\<close>

fun receive_frame :: "(ErrorCode + u8 list) list \<Rightarrow> FrameDecoder \<Rightarrow>
    ((ErrorCode + Frame) \<times> FrameDecoder \<times> (ErrorCode + u8 list) list) option" where
  "receive_frame script decoder =
     (case feed [] decoder of
        (fed, frames, decoder1) \<Rightarrow>
          if fed \<noteq> ErrorCode.Ok then Some (Inl fed, decoder1, script)
          else if frames \<noteq> [] then Some (Inr (hd frames), decoder1, script)
          else case script of
            [] \<Rightarrow> None
          | Inl code # later \<Rightarrow> Some (Inl code, decoder1, later)
          | Inr received # later \<Rightarrow>
              if received = []
              then if finish decoder1 \<noteq> ErrorCode.Ok then Some (Inl (finish decoder1), decoder1, later)
                   else Some (Inl ErrorCode.IoFailure, decoder1, later)
              else case feed received decoder1 of
                (appended, frames, decoder2) \<Rightarrow>
                  if appended \<noteq> ErrorCode.Ok then Some (Inl appended, decoder2, later)
                  else if frames \<noteq> [] then Some (Inr (hd frames), decoder2, later)
                  else receive_frame later decoder2)"

declare receive_frame.simps [simp del]

section \<open>The checksum against its definition\<close>

text \<open>The checksum bit by bit: a byte is added to the remainder and eight bits are shifted out.\<close>

definition crc_step :: "u8 \<Rightarrow> u32 \<Rightarrow> u32" where
  "crc_step b crc = (crc_bit ^^ 8) (crc XOR ucast b)"

definition crc32_bitwise :: "u8 list \<Rightarrow> u32" where
  "crc32_bitwise data = fold crc_step data 0xFFFFFFFF XOR 0xFFFFFFFF"

lemma crc_bit_alt: "crc_bit v = (if bit v 0 then crc_polynomial else 0) XOR drop_bit 1 v"
  by (simp add: crc_bit_def and_one_eq odd_iff_mod_2_eq_one bit_0 xor.commute)

lemma crc_bit_xor: "crc_bit (a XOR b) = crc_bit a XOR crc_bit b"
  unfolding crc_bit_alt by (auto simp: bit_eq_iff bit_simps)

lemma crc_bits_xor: "(crc_bit ^^ n) (a XOR b) = (crc_bit ^^ n) a XOR (crc_bit ^^ n) b"
  by (induction n) (simp_all add: crc_bit_xor)

lemma crc_bits_shift: "(\<And>i. i < n \<Longrightarrow> \<not> bit v i) \<Longrightarrow> (crc_bit ^^ n) v = drop_bit n v"
proof (induction n)
  case 0
  show ?case by simp
next
  case (Suc n)
  have "\<not> bit (drop_bit n v) 0"
    using Suc.prems [of n] by (simp add: bit_simps)
  then show ?case
    using Suc by (simp add: crc_bit_alt)
qed

lemma crc_table_nth: "crc_table ! unat (v AND 0xFF :: u32) = (crc_bit ^^ 8) (v AND 0xFF)"
proof -
  have "v AND 0xFF = take_bit 8 v"
    by (simp add: take_bit_eq_mask mask_eq_exp_minus_1)
  then have "unat (v AND 0xFF) < 256"
    using take_bit_nat_less_exp [of 8 "unat v"] by (simp add: unsigned_take_bit_eq)
  then show ?thesis
    by (simp add: crc_table_def)
qed

lemma crc_update_step: "crc_update b crc = crc_step b crc"
proof -
  define x where "x = crc XOR ucast b"
  define y where "y = push_bit 8 (drop_bit 8 crc)"
  have split: "x = (x AND 0xFF) XOR y"
  proof (rule bit_word_eqI)
    fix n
    assume "n < LENGTH(32)"
    have mask: "(0xFF :: u32) = mask 8"
      by (simp add: mask_eq_exp_minus_1)
    show "bit x n = bit ((x AND 0xFF) XOR y) n"
      unfolding mask using \<open>n < LENGTH(32)\<close>
      by (auto simp: x_def y_def bit_simps dest: bit_imp_le_length)
  qed
  have "(crc_bit ^^ 8) y = drop_bit 8 y"
    by (rule crc_bits_shift) (simp add: y_def bit_simps)
  also have "drop_bit 8 y = drop_bit 8 crc"
    by (rule bit_word_eqI) (auto simp: y_def bit_simps dest: bit_imp_le_length)
  finally have "crc_step b crc = (crc_bit ^^ 8) (x AND 0xFF) XOR drop_bit 8 crc"
    unfolding crc_step_def x_def [symmetric] by (subst split) (simp add: crc_bits_xor)
  then show ?thesis
    unfolding crc_update_def x_def [symmetric] by (simp add: crc_table_nth)
qed

lemma xor_cancel: "a XOR c = b XOR c \<longleftrightarrow> a = b" for a b c :: u32
  by (auto simp: bit_eq_iff bit_simps)

lemma crc_bit_inj: "crc_bit a = crc_bit b \<Longrightarrow> a = b"
proof -
  assume same: "crc_bit a = crc_bit b"
  have top: "bit (crc_bit v) 31 = bit v 0" for v
    by (auto simp: crc_bit_alt crc_polynomial_def bit_simps dest: bit_imp_le_length)
  have "bit a 0 = bit b 0"
    using same top by metis
  then have "drop_bit 1 a = drop_bit 1 b"
    using same xor_cancel [of "drop_bit 1 a" "if bit b 0 then crc_polynomial else 0" "drop_bit 1 b"]
    by (simp add: crc_bit_alt xor.commute)
  then have "bit a (Suc n) = bit b (Suc n)" for n
    using bit_drop_bit_eq [of 1 a] bit_drop_bit_eq [of 1 b] by (simp add: fun_eq_iff)
  then have "bit a n = bit b n" for n
    using \<open>bit a 0 = bit b 0\<close> by (cases n) simp_all
  then show "a = b"
    by (simp add: bit_eq_iff)
qed

lemma crc_bits_inj: "(crc_bit ^^ n) a = (crc_bit ^^ n) b \<Longrightarrow> a = b"
  by (induction n) (auto dest: crc_bit_inj)

lemma crc_step_inj: "crc_step b x = crc_step b y \<longleftrightarrow> x = y"
  unfolding crc_step_def using crc_bits_inj xor_cancel by blast

lemma crc_step_byte_inj: "crc_step b x = crc_step c x \<longleftrightarrow> b = c"
proof -
  have "(ucast (ucast v :: u32) :: u8) = v" for v
    by (rule bit_word_eqI) (simp add: bit_simps)
  then have "(ucast b :: u32) = ucast c \<longleftrightarrow> b = c"
    by metis
  then show ?thesis
    unfolding crc_step_def using crc_bits_inj [of 8] xor_cancel [of "ucast b" x "ucast c"]
    by (auto simp: xor.commute)
qed

lemma crc_fold_inj: "fold crc_step data x = fold crc_step data y \<longleftrightarrow> x = y"
  by (induction data arbitrary: x y) (auto simp: crc_step_inj)

text \<open>
  The table-driven checksum of the code is the CRC-32 of the reflected polynomial computed bit by
  bit.
\<close>

theorem crc32_is_bitwise: "crc32 data = crc32_bitwise data"
proof -
  have "fold crc_update data x = fold crc_step data x" for x
    by (induction data arbitrary: x) (simp_all add: crc_update_step)
  then show ?thesis
    by (simp add: crc32_def crc32_bitwise_def)
qed

section \<open>Frames as bytes\<close>

definition header_bytes :: "FrameHeader \<Rightarrow> u8 list" where
  "header_bytes header = le_bytes 4 (fh_magic header) @ le_bytes 2 (fh_version header) @
     le_bytes 2 (fh_raw_type header) @ le_bytes 4 (fh_flags header) @ le_bytes 4 (fh_length header) @
     le_bytes 4 (fh_checksum header) @ le_bytes 8 (fh_correlation header)"

definition frame_header :: "Frame \<Rightarrow> FrameHeader" where
  "frame_header frame = \<lparr>fh_magic = kFrameMagic, fh_version = protocol_version,
     fh_raw_type = message_type_raw (fr_type frame), fh_flags = fr_flags frame,
     fh_length = word_of_nat (length (fr_payload frame)), fh_checksum = crc32 (fr_payload frame),
     fh_correlation = fr_correlation frame\<rparr>"

definition frame_bytes :: "Frame \<Rightarrow> u8 list" where
  "frame_bytes frame = header_bytes (frame_header frame) @ fr_payload frame"

definition frame_ok :: "RegistryLimits \<Rightarrow> Frame \<Rightarrow> bool" where
  "frame_ok limits frame \<longleftrightarrow>
     length (fr_payload frame) \<le> max_frame_bytes limits \<and> length (fr_payload frame) < 2 ^ 32 \<and>
     fr_flags frame AND NOT kKnownFrameFlags = 0"

lemma header_bytes_length [simp]: "length (header_bytes header) = kFrameHeaderSize"
  by (simp add: header_bytes_def kFrameHeaderSize_def)

lemma frame_bytes_length: "length (frame_bytes frame) = kFrameHeaderSize + length (fr_payload frame)"
  by (simp add: frame_bytes_def)

interpretation wire_MessageType: wire_enum all_MessageType MessageType.HeartbeatAccepted
proof
  show "x \<in> set all_MessageType" for x by (cases x) (simp_all add: all_MessageType_def)
qed (simp_all add: all_MessageType_def)

lemma message_type_raw_known [simp]: "message_type_known (message_type_raw t)"
  by (cases t) (simp_all add: message_type_known_def message_type_raw_def enum_tag_def enum_index_def
      all_MessageType_def)

lemma message_type_cast_raw [simp]: "message_type_cast (message_type_raw t) = t"
  by (simp add: message_type_cast_def message_type_raw_def)

lemma message_type_raw_cast: "message_type_known raw \<Longrightarrow> message_type_raw (message_type_cast raw) = raw"
proof -
  assume known: "message_type_known raw"
  have "1 \<le> unat raw" "unat raw \<le> 17"
    using known by (simp_all add: message_type_known_def message_type_raw_def enum_tag_def
        enum_index_def all_MessageType_def word_le_nat_alt)
  then have "unat (raw - 1) \<le> 16"
    by (simp add: unat_sub word_le_nat_alt)
  moreover have "unat (enum_tag all_MessageType MessageType.HeartbeatAccepted) = 16"
    by (simp add: enum_tag_def enum_index_def all_MessageType_def)
  ultimately have "\<not> enum_beyond all_MessageType MessageType.HeartbeatAccepted (raw - 1)"
    by (simp add: enum_beyond_def word_less_nat_alt)
  then show ?thesis
    by (simp add: message_type_raw_def message_type_cast_def wire_MessageType.tag_cast)
qed

lemma word_decodes:
  "decodes rd_u16 (le_bytes 2 a) a" "decodes rd_u32 (le_bytes 4 b) b" "decodes rd_u64 (le_bytes 8 c) c"
  unfolding rd_u16_def rd_u32_def rd_u64_def by (rule rd_le_decodes; simp)+

lemma header_decodes: "decodes read_frame_header (header_bytes header) header"
proof -
  have "decodes read_frame_header (header_bytes header @ []) header"
    unfolding read_frame_header_def header_bytes_def append_assoc
    by (rule decodes_bind word_decodes)+ (simp add: decodes_def)
  then show ?thesis
    by simp
qed

lemma header_bytes_surj:
  assumes "length bs = kFrameHeaderSize"
  obtains header where "bs = header_bytes header"
proof -
  have cut: "drop k bs = take n (drop k bs) @ drop (k + n) bs" for k n
    by (metis add.commute append_take_drop_id drop_drop)
  have parts: "bs = take 4 bs @ take 2 (drop 4 bs) @ take 2 (drop 6 bs) @ take 4 (drop 8 bs) @
      take 4 (drop 12 bs) @ take 4 (drop 16 bs) @ drop 20 bs"
    using cut [of 0 4] cut [of 4 2] cut [of 6 2] cut [of 8 4] cut [of 12 4] cut [of 16 4] by simp
  obtain m :: u32 where m: "take 4 bs = le_bytes 4 m"
    using le_bytes_surj [where 'w = 32, of 4 "take 4 bs"] assms by (auto simp: kFrameHeaderSize_def)
  obtain v :: u16 where v: "take 2 (drop 4 bs) = le_bytes 2 v"
    using le_bytes_surj [where 'w = 16, of 2 "take 2 (drop 4 bs)"] assms by (auto simp: kFrameHeaderSize_def)
  obtain t :: u16 where t: "take 2 (drop 6 bs) = le_bytes 2 t"
    using le_bytes_surj [where 'w = 16, of 2 "take 2 (drop 6 bs)"] assms by (auto simp: kFrameHeaderSize_def)
  obtain f :: u32 where f: "take 4 (drop 8 bs) = le_bytes 4 f"
    using le_bytes_surj [where 'w = 32, of 4 "take 4 (drop 8 bs)"] assms by (auto simp: kFrameHeaderSize_def)
  obtain l :: u32 where l: "take 4 (drop 12 bs) = le_bytes 4 l"
    using le_bytes_surj [where 'w = 32, of 4 "take 4 (drop 12 bs)"] assms by (auto simp: kFrameHeaderSize_def)
  obtain c :: u32 where c: "take 4 (drop 16 bs) = le_bytes 4 c"
    using le_bytes_surj [where 'w = 32, of 4 "take 4 (drop 16 bs)"] assms by (auto simp: kFrameHeaderSize_def)
  obtain i :: u64 where i: "drop 20 bs = le_bytes 8 i"
    using le_bytes_surj [where 'w = 64, of 8 "drop 20 bs"] assms by (auto simp: kFrameHeaderSize_def)
  have "bs = header_bytes \<lparr>fh_magic = m, fh_version = v, fh_raw_type = t, fh_flags = f, fh_length = l,
      fh_checksum = c, fh_correlation = i\<rparr>"
    unfolding header_bytes_def using parts unfolding m v t f l c i by simp
  then show ?thesis
    by (rule that)
qed

lemma header_read [simp]:
  "fst (run_state read_frame_header (byte_reader (header_bytes header))) = header"
  using decodes_run [OF header_decodes, where pre = "[]" and post = "[]"] by (simp add: byte_reader_at)

section \<open>The decoder takes frames off the front of its buffer\<close>

lemma frame_header_status: "frame_ok limits frame \<Longrightarrow> header_status limits (frame_header frame) = ErrorCode.Ok"
  by (simp add: header_status_def frame_header_def frame_ok_def unat_of_nat)

lemma frame_header_length: "frame_ok limits frame \<Longrightarrow> unat (fh_length (frame_header frame)) = length (fr_payload frame)"
  by (simp add: frame_header_def frame_ok_def unat_of_nat)

lemma header_bytes_inj: "header_bytes a @ xs = header_bytes b @ ys \<Longrightarrow> a = b \<and> xs = ys"
proof -
  assume "header_bytes a @ xs = header_bytes b @ ys"
  then have "header_bytes a = header_bytes b" "xs = ys"
    by simp_all
  then show ?thesis
    using header_read by metis
qed

lemma frame_bytes_inj:
  assumes "frame_ok limits f" and "frame_ok limits g" and "frame_bytes f @ xs = frame_bytes g @ ys"
  shows "f = g \<and> xs = ys"
proof -
  have same: "frame_header f = frame_header g" "fr_payload f @ xs = fr_payload g @ ys"
    using header_bytes_inj [of "frame_header f" "fr_payload f @ xs" "frame_header g"] assms(3)
    by (auto simp: frame_bytes_def)
  have "length (fr_payload f) = length (fr_payload g)"
    using same(1) frame_header_length [OF assms(1)] frame_header_length [OF assms(2)] by simp
  then have payload: "fr_payload f = fr_payload g" "xs = ys"
    using same(2) by simp_all
  have "message_type_raw (fr_type f) = message_type_raw (fr_type g)"
    using same(1) by (simp add: frame_header_def)
  then have "fr_type f = fr_type g"
    using message_type_cast_raw by metis
  then show ?thesis
    using same(1) payload by (cases f, cases g) (simp add: frame_header_def)
qed

text \<open>A buffer that does not start with a whole frame: what is left when \<^verbatim>\<open>feed\<close> succeeds.\<close>

definition incomplete :: "RegistryLimits \<Rightarrow> u8 list \<Rightarrow> bool" where
  "incomplete limits bytes \<longleftrightarrow> (\<forall>frame rest. frame_ok limits frame \<longrightarrow> bytes \<noteq> frame_bytes frame @ rest)"

lemma header_at:
  assumes "length bytes \<ge> kFrameHeaderSize"
  obtains header where "take kFrameHeaderSize bytes = header_bytes header"
  using header_bytes_surj [of "take kFrameHeaderSize bytes"] assms by auto

lemma header_of_frame_bytes:
  assumes "take kFrameHeaderSize bytes = header_bytes header" and "bytes = frame_bytes frame @ rest"
  shows "header = frame_header frame"
proof -
  have "take kFrameHeaderSize bytes = header_bytes (frame_header frame)"
    using assms(2) by (simp add: frame_bytes_def)
  then show ?thesis
    using assms(1) header_bytes_inj [of header "[]" "frame_header frame" "[]"] by simp
qed

text \<open>The frame the decoder builds from an accepted header and payload, and its bytes.\<close>

lemma accepted_frame:
  assumes "header_status limits header = ErrorCode.Ok" and "length payload = unat (fh_length header)"
    and "crc32 payload = fh_checksum header"
  defines "frame \<equiv> \<lparr>fr_type = message_type_cast (fh_raw_type header), fr_flags = fh_flags header,
     fr_correlation = fh_correlation header, fr_payload = payload\<rparr>"
  shows "frame_ok limits frame" and "frame_bytes frame = header_bytes header @ payload"
proof -
  have "frame_header frame = header"
    using assms(1-3) by (cases header)
      (auto simp: frame_def frame_header_def header_status_def message_type_raw_cast split: if_splits)
  then show "frame_bytes frame = header_bytes header @ payload"
    by (simp add: frame_bytes_def frame_def)
  show "frame_ok limits frame"
    using assms(1,2) unsigned_less [of "fh_length header"]
    by (auto simp: frame_def frame_ok_def header_status_def split: if_splits)
qed

lemma decode_loop_conserves:
  assumes "decode_loop limits buffer consumed = (status, ending, frames)" and "consumed \<le> length buffer"
  shows "consumed \<le> ending \<and> ending \<le> length buffer \<and> list_all (frame_ok limits) frames \<and>
     drop consumed buffer = concat (map frame_bytes frames) @ drop ending buffer \<and>
     (status = ErrorCode.Ok \<longrightarrow> incomplete limits (drop ending buffer))"
  using assms
proof (induction limits buffer consumed arbitrary: status ending frames rule: decode_loop.induct)
  case (1 limits buffer consumed)
  let ?rest = "drop consumed buffer"
  show ?case
  proof (cases "length buffer - consumed < kFrameHeaderSize")
    case True
    then have "incomplete limits ?rest"
      unfolding incomplete_def
      by (metis frame_bytes_length le_add1 length_append length_drop linorder_not_le trans_le_add1)
    then show ?thesis
      using 1(2,3) True by (subst (asm) decode_loop.simps) auto
  next
    case False
    then obtain header where header: "take kFrameHeaderSize ?rest = header_bytes header"
      using header_at [of ?rest] by auto
    define len where "len = unat (fh_length header)"
    define payload where "payload = take len (drop (consumed + kFrameHeaderSize) buffer)"
    note run = 1(2) [unfolded decode_loop.simps [of limits buffer consumed] header header_read Let_def,
        folded len_def, folded payload_def]
    note IH = 1(1) [OF False refl refl refl, unfolded header header_read, folded len_def, folded payload_def]
    consider (refused) "status \<noteq> ErrorCode.Ok" "ending = consumed" "frames = []"
      | (short) "length buffer - consumed < kFrameHeaderSize + len" "ending = consumed" "frames = []"
      | (whole) "header_status limits header = ErrorCode.Ok" "crc32 payload = fh_checksum header"
          "\<not> length buffer - consumed < kFrameHeaderSize + len"
      using run False
      by (cases "header_status limits header = ErrorCode.Ok"; cases "crc32 payload = fh_checksum header";
          cases "length buffer - consumed < kFrameHeaderSize + len") simp_all
    then show ?thesis
    proof cases
      case refused
      then show ?thesis
        using 1(3) by simp
    next
      case short
      have "incomplete limits ?rest"
        unfolding incomplete_def
      proof (intro allI impI notI)
        fix frame rest
        assume ok: "frame_ok limits frame" and bytes: "?rest = frame_bytes frame @ rest"
        have "len = length (fr_payload frame)"
          using header_of_frame_bytes [OF header bytes] frame_header_length [OF ok] by (simp add: len_def)
        then have "kFrameHeaderSize + len \<le> length ?rest"
          unfolding bytes by (simp add: frame_bytes_length)
        then show False
          using short(1) by simp
      qed
      then show ?thesis
        using short 1(3) by simp
    next
      case whole
      let ?next = "consumed + kFrameHeaderSize + len"
      obtain later where later: "decode_loop limits buffer ?next = (status, ending, later)"
        and frames: "frames = \<lparr>fr_type = message_type_cast (fh_raw_type header), fr_flags = fh_flags header,
            fr_correlation = fh_correlation header, fr_payload = payload\<rparr> # later"
        using run whole False by (auto split: prod.splits)
      have len: "length payload = unat (fh_length header)"
        using whole(3) by (simp add: payload_def len_def)
      have "?next \<le> length buffer"
        using whole(3) False by (simp add: kFrameHeaderSize_def)
      note conserved = IH [OF _ _ _ later this]
      have "?rest = take kFrameHeaderSize ?rest @ payload @ drop ?next buffer"
        unfolding payload_def by (metis (no_types, lifting) append_take_drop_id drop_drop add.commute)
      then show ?thesis
        using conserved whole accepted_frame [OF whole(1) len whole(2)] header
        unfolding frames by (simp add: add.assoc)
    qed
  qed
qed

lemma feed_conserves:
  assumes "feed data decoder = (ErrorCode.Ok, frames, decoder')"
  shows "fd_buffer decoder @ data = concat (map frame_bytes frames) @ fd_buffer decoder'"
    and "list_all (frame_ok (fd_limits decoder)) frames"
    and "incomplete (fd_limits decoder) (fd_buffer decoder')"
    and "fd_limits decoder' = fd_limits decoder"
proof -
  define buffer where "buffer = fd_buffer decoder @ data"
  obtain status consumed out where loop: "decode_loop (fd_limits decoder) buffer 0 = (status, consumed, out)"
    by (cases "decode_loop (fd_limits decoder) buffer 0") auto
  then have "status = ErrorCode.Ok" "out = frames" "decoder' = decoder\<lparr>fd_buffer := drop consumed buffer\<rparr>"
    using assms by (auto simp: feed_def Let_def buffer_def [symmetric] split: if_splits)
  with decode_loop_conserves [OF loop] show
    "fd_buffer decoder @ data = concat (map frame_bytes frames) @ fd_buffer decoder'"
    "list_all (frame_ok (fd_limits decoder)) frames"
    "incomplete (fd_limits decoder) (fd_buffer decoder')" "fd_limits decoder' = fd_limits decoder"
    unfolding buffer_def [symmetric] by simp_all
qed

text \<open>Feeding a decoder with successive pieces of input, up to the first error.\<close>

fun feeds :: "u8 list list \<Rightarrow> FrameDecoder \<Rightarrow> Status \<times> Frame list \<times> FrameDecoder" where
  "feeds [] decoder = (ErrorCode.Ok, [], decoder)"
| "feeds (piece # pieces) decoder =
     (case feed piece decoder of
        (status, frames, decoder') \<Rightarrow>
          if status \<noteq> ErrorCode.Ok then (status, frames, decoder')
          else case feeds pieces decoder' of
            (status, later, decoder'') \<Rightarrow> (status, frames @ later, decoder''))"

lemma feeds_conserve:
  assumes "feeds pieces decoder = (ErrorCode.Ok, frames, decoder')"
    and "incomplete (fd_limits decoder) (fd_buffer decoder)"
  shows "fd_buffer decoder @ concat pieces = concat (map frame_bytes frames) @ fd_buffer decoder' \<and>
     list_all (frame_ok (fd_limits decoder)) frames \<and>
     incomplete (fd_limits decoder) (fd_buffer decoder') \<and> fd_limits decoder' = fd_limits decoder"
  using assms
proof (induction pieces arbitrary: decoder frames)
  case Nil
  then show ?case by simp
next
  case (Cons piece pieces)
  then obtain first middle later where first: "feed piece decoder = (ErrorCode.Ok, first, middle)"
    and later: "feeds pieces middle = (ErrorCode.Ok, later, decoder')" and frames: "frames = first @ later"
    by (auto split: prod.splits if_splits)
  note fed = feed_conserves [OF first]
  show ?case
    using Cons.IH [OF later] fed unfolding frames by simp (metis append.assoc)
qed

lemma incomplete_Nil [simp]: "incomplete limits []"
  by (auto simp: incomplete_def frame_bytes_def header_bytes_def le_bytes_def)

lemma frame_bytes_not_Nil [simp]: "frame_bytes frame \<noteq> []"
  using frame_bytes_length [of frame] by (auto simp: kFrameHeaderSize_def)

text \<open>A stream of frames has only one decomposition.\<close>

lemma stream_unique:
  assumes "concat (map frame_bytes sent) = concat (map frame_bytes frames) @ left"
    and "list_all (frame_ok limits) sent" and "list_all (frame_ok limits) frames"
    and "incomplete limits left"
  shows "frames = sent \<and> left = []"
  using assms
proof (induction frames arbitrary: sent)
  case Nil
  show ?case
  proof (cases sent)
    case (Cons frame later)
    then show ?thesis
      using Nil by (auto simp: incomplete_def)
  qed (use Nil in simp)
next
  case (Cons frame frames)
  then obtain first later where sent: "sent = first # later"
    by (cases sent) auto
  have "first = frame \<and> concat (map frame_bytes later) = concat (map frame_bytes frames) @ left"
    using Cons.prems unfolding sent
    by (intro frame_bytes_inj [where limits = limits]) auto
  then show ?case
    using Cons.IH [of later] Cons.prems unfolding sent by simp
qed

lemma write_frame_bytes: "wire (write_frame frame) = frame_bytes frame"
proof -
  have "emits (write_frame frame) (frame_bytes frame)"
    by (simp add: emits_def write_frame_def write_all_Cons write_all_Nil wr_u16_def wr_u32_def wr_u64_def
        wr_raw_def frame_bytes_def header_bytes_def frame_header_def)
  then show ?thesis
    by (rule emits_wire)
qed

lemma encode_frame_ok:
  assumes "encode_frame frame limits = Inr bytes" and "max_frame_bytes limits < 2 ^ 32"
  shows "bytes = frame_bytes frame" and "frame_ok limits frame"
  using assms by (auto simp: encode_frame_def write_frame_bytes frame_ok_def split: if_splits)

lemma frame_header_parts:
  "fh_raw_type (frame_header frame) = message_type_raw (fr_type frame)"
  "fh_flags (frame_header frame) = fr_flags frame"
  "fh_checksum (frame_header frame) = crc32 (fr_payload frame)"
  "fh_correlation (frame_header frame) = fr_correlation frame"
  by (simp_all add: frame_header_def)

lemma decode_loop_at:
  assumes frame: "frame_ok limits frame" and at: "drop consumed buffer = frame_bytes frame @ rest"
    and inside: "consumed \<le> length buffer"
  shows "decode_loop limits buffer consumed =
     (case decode_loop limits buffer (consumed + length (frame_bytes frame)) of
        (status, ending, frames) \<Rightarrow> (status, ending, frame # frames))"
proof -
  have header: "take kFrameHeaderSize (drop consumed buffer) = header_bytes (frame_header frame)"
    unfolding at by (simp add: frame_bytes_def)
  have "length (drop consumed buffer) = length (frame_bytes frame) + length rest"
    unfolding at by simp
  then have size: "length buffer - consumed = kFrameHeaderSize + length (fr_payload frame) + length rest"
    by (simp add: frame_bytes_length)
  have "drop (consumed + kFrameHeaderSize) buffer = drop kFrameHeaderSize (frame_bytes frame @ rest)"
    using at by (metis add.commute drop_drop)
  then have payload: "take (length (fr_payload frame)) (drop (consumed + kFrameHeaderSize) buffer) = fr_payload frame"
    by (simp add: frame_bytes_def)
  show ?thesis
    by (subst decode_loop.simps)
      (simp add: header frame_header_length [OF frame] frame_header_status [OF frame] size payload Let_def
        frame_header_parts frame_bytes_length add.assoc split: prod.splits)
qed

lemma decode_loop_stream:
  "list_all (frame_ok limits) frames \<Longrightarrow> buffer = pre @ concat (map frame_bytes frames) \<Longrightarrow>
     decode_loop limits buffer (length pre) = (ErrorCode.Ok, length buffer, frames)"
proof (induction frames arbitrary: pre)
  case Nil
  then show ?case
    by (simp add: decode_loop.simps kFrameHeaderSize_def)
next
  case (Cons frame frames)
  have "decode_loop limits buffer (length (pre @ frame_bytes frame)) = (ErrorCode.Ok, length buffer, frames)"
    using Cons.prems by (intro Cons.IH) simp_all
  then show ?case
    using Cons.prems decode_loop_at [of limits frame "length pre" buffer] by simp
qed

section \<open>What the receiver sees\<close>

lemma delivered_as_sent:
  assumes "list_all (frame_ok (fd_limits decoder)) sent" and "fd_buffer decoder = []"
    and "concat pieces = concat (map frame_bytes sent)"
    and "feeds pieces decoder = (ErrorCode.Ok, frames, decoder')"
  shows "frames = sent" and "fd_buffer decoder' = []"
proof -
  have "concat (map frame_bytes sent) = concat (map frame_bytes frames) @ fd_buffer decoder' \<and>
      list_all (frame_ok (fd_limits decoder)) frames \<and> incomplete (fd_limits decoder) (fd_buffer decoder')"
    using feeds_conserve [OF assms(4)] assms(2,3) by simp
  then show "frames = sent" "fd_buffer decoder' = []"
    using stream_unique assms(1) by blast+
qed

lemma crc32_byte_changed: "crc32 (pre @ a # post) = crc32 (pre @ b # post) \<longleftrightarrow> a = b"
proof -
  have "fold crc_update data x = fold crc_step data x" for data x
    by (induction data arbitrary: x) (simp_all add: crc_update_step)
  then show ?thesis
    by (simp add: crc32_def xor_cancel crc_fold_inj crc_update_step crc_step_byte_inj)
qed

lemma feed_altered:
  assumes "frame_ok limits frame" and "fr_payload frame = pre @ a # post" and "b \<noteq> a"
  shows "feed (header_bytes (frame_header frame) @ pre @ b # post) \<lparr>fd_limits = limits, fd_buffer = []\<rparr> =
    (ErrorCode.IntegrityFailure, [], \<lparr>fd_limits = limits,
       fd_buffer = header_bytes (frame_header frame) @ pre @ b # post\<rparr>)"
proof -
  let ?bytes = "header_bytes (frame_header frame) @ pre @ b # post"
  have len: "length (fr_payload frame) = length (pre @ b # post)"
    using assms(2) by simp
  have "crc32 (pre @ b # post) \<noteq> crc32 (fr_payload frame)"
    unfolding assms(2) using crc32_byte_changed assms(3) by metis
  then have "decode_loop limits ?bytes 0 = (ErrorCode.IntegrityFailure, 0, [])"
    by (subst decode_loop.simps)
      (simp add: frame_header_length [OF assms(1)] frame_header_status [OF assms(1)] len Let_def
        frame_header_parts)
  moreover have "length ?bytes \<le> max_frame_bytes limits + kFrameHeaderSize"
    using assms(1) len by (simp add: frame_ok_def)
  ultimately show ?thesis
    by (simp add: feed_def)
qed

lemma feed_nothing: "feed [] \<lparr>fd_limits = limits, fd_buffer = []\<rparr> =
    (ErrorCode.Ok, [], \<lparr>fd_limits = limits, fd_buffer = []\<rparr>)"
  by (simp add: feed_def decode_loop.simps kFrameHeaderSize_def)

lemma feed_stream:
  assumes "list_all (frame_ok limits) frames"
    and "length (concat (map frame_bytes frames)) \<le> max_frame_bytes limits + kFrameHeaderSize"
  shows "feed (concat (map frame_bytes frames)) \<lparr>fd_limits = limits, fd_buffer = []\<rparr> =
    (ErrorCode.Ok, frames, \<lparr>fd_limits = limits, fd_buffer = []\<rparr>)"
  using decode_loop_stream [of limits frames "concat (map frame_bytes frames)" "[]"] assms
  by (simp add: feed_def)

text \<open>What is not yet a whole frame is kept, and nothing is delivered for it.\<close>

lemma decode_loop_prefix:
  assumes "frame_ok limits frame" and "frame_bytes frame = buffer @ rest" and "rest \<noteq> []"
  shows "decode_loop limits buffer 0 = (ErrorCode.Ok, 0, [])"
proof (cases "length buffer < kFrameHeaderSize")
  case True
  then show ?thesis by (subst decode_loop.simps) simp
next
  case False
  have size: "length buffer < kFrameHeaderSize + length (fr_payload frame)"
    using arg_cong [OF assms(2), of length] assms(3) by (simp add: frame_bytes_length)
  have "take kFrameHeaderSize buffer = take kFrameHeaderSize (frame_bytes frame)"
    using False by (simp add: assms(2))
  then have "take kFrameHeaderSize buffer = header_bytes (frame_header frame)"
    by (simp add: frame_bytes_def)
  then show ?thesis
    using False size
    by (subst decode_loop.simps)
      (simp add: frame_header_length [OF assms(1)] frame_header_status [OF assms(1)] Let_def)
qed

lemma feeds_nothing: "concat pieces = [] \<Longrightarrow>
    feeds pieces \<lparr>fd_limits = limits, fd_buffer = []\<rparr> = (ErrorCode.Ok, [], \<lparr>fd_limits = limits, fd_buffer = []\<rparr>)"
  by (induction pieces) (simp_all add: feed_nothing)

text \<open>A frame survives being cut into any pieces.\<close>

lemma feeds_frame:
  assumes "frame_ok limits frame" and "buffer @ concat pieces = frame_bytes frame" and "concat pieces \<noteq> []"
  shows "feeds pieces \<lparr>fd_limits = limits, fd_buffer = buffer\<rparr> =
    (ErrorCode.Ok, [frame], \<lparr>fd_limits = limits, fd_buffer = []\<rparr>)"
  using assms(2,3)
proof (induction pieces arbitrary: buffer)
  case (Cons piece pieces)
  have size: "length buffer + length piece \<le> max_frame_bytes limits + kFrameHeaderSize"
    using arg_cong [OF Cons.prems(1), of length] assms(1) by (simp add: frame_bytes_length frame_ok_def)
  show ?case
  proof (cases "concat pieces = []")
    case True
    then have whole: "buffer @ piece = frame_bytes frame"
      using Cons.prems(1) by (metis append.right_neutral concat.simps(2))
    then have "decode_loop limits (buffer @ piece) 0 = (ErrorCode.Ok, length (buffer @ piece), [frame])"
      using decode_loop_stream [of limits "[frame]" "buffer @ piece" "[]"] assms(1) by simp
    then have "feed piece \<lparr>fd_limits = limits, fd_buffer = buffer\<rparr> =
        (ErrorCode.Ok, [frame], \<lparr>fd_limits = limits, fd_buffer = []\<rparr>)"
      using size by (simp add: feed_def)
    then show ?thesis using feeds_nothing [OF True] by simp
  next
    case False
    have "decode_loop limits (buffer @ piece) 0 = (ErrorCode.Ok, 0, [])"
      using decode_loop_prefix [OF assms(1), of "buffer @ piece" "concat pieces"] Cons.prems(1) False by simp
    then have "feed piece \<lparr>fd_limits = limits, fd_buffer = buffer\<rparr> =
        (ErrorCode.Ok, [], \<lparr>fd_limits = limits, fd_buffer = buffer @ piece\<rparr>)"
      using size by (simp add: feed_def)
    then show ?thesis using Cons.IH [of "buffer @ piece"] Cons.prems(1) False by simp
  qed
qed simp

end
