(* ===== verification/Protocol.thy ===== *)
theory Protocol
  imports Codec_Queries Framing
begin

text \<open>
  The payloads of the protocol (\<^verbatim>\<open>src/protocol.cpp\<close>): one record per message, what its \<^verbatim>\<open>encode_\<close> function
  writes and what its \<^verbatim>\<open>decode_\<close> function makes of the bytes. A decoder returns the status together with
  the output parameter it has filled by then. Its reading function pairs the message with the status
  of an early return, \<open>Ok\<close> where the code goes on to look at the reader.
\<close>

section \<open>Frames around encoders and decoders\<close>

definition decoded :: "('a \<times> Status) reading \<Rightarrow> u8 list \<Rightarrow> Status \<times> 'a" where
  "decoded m data =
     (case run_state m (byte_reader data) of
        ((out, early), reader) \<Rightarrow>
          (if early \<noteq> ErrorCode.Ok then early
           else if \<not> br_ok reader then br_status reader
           else if \<not> br_exhausted reader then ErrorCode.ProtocolError
           else ErrorCode.Ok, out))"

definition going_on :: "'a reading \<Rightarrow> ('a \<times> Status) reading" where
  "going_on m = do { out \<leftarrow> m; State_Monad.return (out, ErrorCode.Ok) }"

definition encoded_unchecked :: "writing \<Rightarrow> Status \<times> u8 list" where
  "encoded_unchecked f = (ErrorCode.Ok, bw_out (f empty_writer))"

definition encoded_checked :: "writing \<Rightarrow> RegistryLimits \<Rightarrow> Status \<times> u8 list" where
  "encoded_checked f limits =
     (let writer = f empty_writer in
      (if bw_truncated writer then ErrorCode.LimitExceeded
       else if length (bw_out writer) > max_frame_bytes limits then ErrorCode.LimitExceeded
       else ErrorCode.Ok, bw_out writer))"

lemma decoded_codes:
  assumes "codes_some f m (x, ErrorCode.Ok)"
  shows "decoded m (wire f) = (ErrorCode.Ok, x)"
proof -
  have "decodes m (wire f) (x, ErrorCode.Ok)"
    using assms emits_wire unfolding codes_some_def by blast
  then have "run_state m (byte_reader (wire f)) = ((x, ErrorCode.Ok), reader_at (wire f) [])"
    using decodes_run [of m "wire f" "(x, ErrorCode.Ok)" "[]" "[]"] by (simp add: byte_reader_at)
  then show ?thesis
    by (simp add: decoded_def reader_at_def br_exhausted_def)
qed

lemma encoded_codes:
  assumes "codes_some f m x"
  shows "encoded_unchecked f = (ErrorCode.Ok, wire f)"
    and "length (wire f) \<le> max_frame_bytes limits \<Longrightarrow> encoded_checked f limits = (ErrorCode.Ok, wire f)"
proof -
  have "emits f (wire f)"
    using assms emits_wire unfolding codes_some_def by blast
  then have "f empty_writer = \<lparr>bw_out = wire f, bw_truncated = False\<rparr>"
    by (simp add: emits_def empty_writer_def)
  then show "encoded_unchecked f = (ErrorCode.Ok, wire f)"
    "length (wire f) \<le> max_frame_bytes limits \<Longrightarrow> encoded_checked f limits = (ErrorCode.Ok, wire f)"
    by (simp_all add: encoded_unchecked_def encoded_checked_def)
qed

lemma going_on_codes: "codes_some f m x \<Longrightarrow> codes_some f (going_on m) (x, ErrorCode.Ok)"
  unfolding going_on_def by (rule codes_some_map) simp_all

lemma disciplined_going_on [disciplined_intro]: "disciplined m \<Longrightarrow> disciplined (going_on m)"
  unfolding going_on_def by (intro disciplined_intro)

text \<open>A decoder over a wire format refuses what is cut short and what carries more.\<close>

lemma decoded_refuses:
  assumes format: "wire_format writes reads fits" and x: "fits x"
  shows "n < length (wire (writes x)) \<Longrightarrow>
      fst (decoded (going_on reads) (take n (wire (writes x)))) \<noteq> ErrorCode.Ok"
    and "rest \<noteq> [] \<Longrightarrow> fst (decoded (going_on reads) (wire (writes x) @ rest)) = ErrorCode.ProtocolError"
proof -
  let ?bs = "wire (writes x)"
  show "fst (decoded (going_on reads) (take n ?bs)) \<noteq> ErrorCode.Ok" if "n < length ?bs"
  proof -
    obtain v r where run: "run_state reads (byte_reader (take n ?bs)) = (v, r)"
      by (cases "run_state reads (byte_reader (take n ?bs))")
    have "\<not> br_ok r" "br_status r \<noteq> ErrorCode.Ok"
      using wire_format.truncation_refused [OF format x that run]
        wire_format.stays_inside [OF format run] by auto
    then show ?thesis
      by (simp add: decoded_def going_on_def run)
  qed
  show "fst (decoded (going_on reads) (?bs @ rest)) = ErrorCode.ProtocolError" if "rest \<noteq> []"
    using wire_format.round_trip [OF format x, of rest] that
    by (simp add: decoded_def going_on_def reader_at_def br_exhausted_def)
qed

section \<open>Publications\<close>

definition encode_publication :: "Publication \<Rightarrow> RegistryLimits \<Rightarrow> Status \<times> u8 list" where
  "encode_publication publication limits = encoded_checked (write_publication publication limits) limits"

definition decode_publication :: "u8 list \<Rightarrow> RegistryLimits \<Rightarrow> Status \<times> Publication" where
  "decode_publication data limits = decoded (going_on (read_publication limits)) data"

section \<open>Sessions\<close>

definition all_ErrorCode :: "ErrorCode list" where
  "all_ErrorCode = [ErrorCode.Ok, ErrorCode.InvalidArgument, ErrorCode.InvalidIdentity, ErrorCode.InvalidCapability,
     ErrorCode.InvalidValue, ErrorCode.InvalidSupportState, ErrorCode.InvalidProvenance, ErrorCode.InvalidCondition,
     ErrorCode.InvalidRange, ErrorCode.InvalidReference, ErrorCode.LimitExceeded, ErrorCode.NotFound,
     ErrorCode.AlreadyExists, ErrorCode.StaleEpoch, ErrorCode.StaleBoot, ErrorCode.StaleDeviceGeneration,
     ErrorCode.StaleCapabilityGeneration, ErrorCode.StaleSequence, ErrorCode.GenerationRegression, ErrorCode.DuplicateConflict,
     ErrorCode.FencedPublisher, ErrorCode.UnknownPublisher, ErrorCode.UnsupportedVersion, ErrorCode.CorruptData,
     ErrorCode.IntegrityFailure, ErrorCode.IoFailure, ErrorCode.InvariantViolation, ErrorCode.QueueFull,
     ErrorCode.ShuttingDown, ErrorCode.ProtocolError, ErrorCode.Internal]"

record HelloMessage =
  hm_protocol_version :: u32
  hm_agent :: string
  hm_role :: string
  hm_nonce :: u64

record WelcomeMessage =
  wm_protocol_version :: u32
  wm_epoch :: u64
  wm_coordinator_name :: string

record RegisterPublisherMessage =
  rm_identity :: PublisherIdentity
  rm_adapter :: string
  rm_agent :: string

record PublisherAcceptedMessage =
  am_code :: ApplyCode
  am_epoch :: u64
  am_identity :: PublisherIdentity
  am_detail :: string

record PublicationAcceptedMessage =
  pm_code :: ApplyCode
  pm_detail :: string
  pm_device_generation :: u64
  pm_device_boot :: u64

record FencePublisherMessage =
  fm_publisher :: string
  fm_reason :: string

record FenceAcceptedMessage =
  fa_code :: ApplyCode
  fa_detail :: string

record ShutdownMessage =
  sm_reason :: string

record ErrorMessage =
  em_code :: ErrorCode
  em_message :: string

record HeartbeatMessage =
  bm_sequence :: u64
  bm_identity :: PublisherIdentity

interpretation wire_ApplyCode: wire_enum all_ApplyCode ApplyCode.RejectedInvariant
proof
  show "x \<in> set all_ApplyCode" for x by (cases x) (simp_all add: all_ApplyCode_def)
qed (simp_all add: all_ApplyCode_def)

interpretation wire_ErrorCode: wire_enum all_ErrorCode ErrorCode.Internal
proof
  show "x \<in> set all_ErrorCode" for x by (cases x) (simp_all add: all_ErrorCode_def)
qed (simp_all add: all_ErrorCode_def)

definition write_hello :: "HelloMessage \<Rightarrow> RegistryLimits \<Rightarrow> writing" where
  "write_hello x limits = write_all [
     wr_u32 (hm_protocol_version x),
     wr_str (hm_agent x) (max_metadata_bytes limits),
     wr_str (hm_role x) (max_metadata_bytes limits),
     wr_u64 (hm_nonce x)]"

definition read_hello :: "RegistryLimits \<Rightarrow> HelloMessage reading" where
  "read_hello limits = do {
     protocol_version \<leftarrow> rd_u32;
     agent \<leftarrow> rd_str (max_metadata_bytes limits);
     role \<leftarrow> rd_str (max_metadata_bytes limits);
     nonce \<leftarrow> rd_u64;
     State_Monad.return \<lparr>hm_protocol_version = protocol_version, hm_agent = agent, hm_role = role,
         hm_nonce = nonce\<rparr> }"

definition hello_fits :: "RegistryLimits \<Rightarrow> HelloMessage \<Rightarrow> bool" where
  "hello_fits limits x \<longleftrightarrow>
     str_fits (max_metadata_bytes limits) (hm_agent x) \<and>
     str_fits (max_metadata_bytes limits) (hm_role x)"

lemma write_hello_wire:
  "hello_fits limits x \<Longrightarrow>
     codes_some (write_hello x limits) (read_hello limits) x"
  unfolding write_hello_def read_hello_def hello_fits_def
  by (cases x) (auto intro!: codes_intro)

lemmas hello_then [codes_intro] =
  write_hello_wire [THEN codes_then] write_hello_wire [THEN codes_some_bind]

lemma disciplined_hello [disciplined_intro]: "disciplined (read_hello limits)"
  unfolding read_hello_def by (intro disciplined_intro; simp)

definition encode_hello :: "HelloMessage \<Rightarrow> RegistryLimits \<Rightarrow> Status \<times> u8 list" where
  "encode_hello message limits = encoded_unchecked (write_hello message limits)"

definition decode_hello :: "u8 list \<Rightarrow> RegistryLimits \<Rightarrow> Status \<times> HelloMessage" where
  "decode_hello data limits = decoded (going_on (read_hello limits)) data"

definition write_welcome :: "WelcomeMessage \<Rightarrow> RegistryLimits \<Rightarrow> writing" where
  "write_welcome x limits = write_all [
     wr_u32 (wm_protocol_version x),
     wr_u64 (wm_epoch x),
     wr_str (wm_coordinator_name x) (max_metadata_bytes limits)]"

definition read_welcome :: "RegistryLimits \<Rightarrow> WelcomeMessage reading" where
  "read_welcome limits = do {
     protocol_version \<leftarrow> rd_u32;
     epoch \<leftarrow> rd_u64;
     coordinator_name \<leftarrow> rd_str (max_metadata_bytes limits);
     State_Monad.return \<lparr>wm_protocol_version = protocol_version, wm_epoch = epoch,
         wm_coordinator_name = coordinator_name\<rparr> }"

definition welcome_fits :: "RegistryLimits \<Rightarrow> WelcomeMessage \<Rightarrow> bool" where
  "welcome_fits limits x \<longleftrightarrow> str_fits (max_metadata_bytes limits) (wm_coordinator_name x)"

lemma write_welcome_wire:
  "welcome_fits limits x \<Longrightarrow>
     codes_some (write_welcome x limits) (read_welcome limits) x"
  unfolding write_welcome_def read_welcome_def welcome_fits_def
  by (cases x) (auto intro!: codes_intro)

lemmas welcome_then [codes_intro] =
  write_welcome_wire [THEN codes_then] write_welcome_wire [THEN codes_some_bind]

lemma disciplined_welcome [disciplined_intro]: "disciplined (read_welcome limits)"
  unfolding read_welcome_def by (intro disciplined_intro; simp)

definition encode_welcome :: "WelcomeMessage \<Rightarrow> RegistryLimits \<Rightarrow> Status \<times> u8 list" where
  "encode_welcome message limits = encoded_unchecked (write_welcome message limits)"

definition decode_welcome :: "u8 list \<Rightarrow> RegistryLimits \<Rightarrow> Status \<times> WelcomeMessage" where
  "decode_welcome data limits = decoded (going_on (read_welcome limits)) data"

definition write_register_publisher_message :: "RegisterPublisherMessage \<Rightarrow> RegistryLimits
    \<Rightarrow> writing" where
  "write_register_publisher_message x limits = write_all [
     write_publisher_identity (rm_identity x),
     wr_str (rm_adapter x) (max_metadata_bytes limits),
     wr_str (rm_agent x) (max_metadata_bytes limits)]"

definition read_register_publisher_message :: "RegistryLimits \<Rightarrow> RegisterPublisherMessage reading"
    where
  "read_register_publisher_message limits = do {
     identity \<leftarrow> read_publisher_identity;
     adapter \<leftarrow> rd_str (max_metadata_bytes limits);
     agent \<leftarrow> rd_str (max_metadata_bytes limits);
     State_Monad.return \<lparr>rm_identity = identity, rm_adapter = adapter, rm_agent = agent\<rparr> }"

definition register_publisher_message_fits :: "RegistryLimits \<Rightarrow> RegisterPublisherMessage
    \<Rightarrow> bool" where
  "register_publisher_message_fits limits x \<longleftrightarrow>
     publisher_identity_fits (rm_identity x) \<and>
     str_fits (max_metadata_bytes limits) (rm_adapter x) \<and>
     str_fits (max_metadata_bytes limits) (rm_agent x)"

lemma write_register_publisher_message_wire:
  "register_publisher_message_fits limits x \<Longrightarrow>
     codes_some (write_register_publisher_message x limits) (read_register_publisher_message limits) x"
  unfolding write_register_publisher_message_def read_register_publisher_message_def
      register_publisher_message_fits_def
  by (cases x) (auto intro!: codes_intro)

lemmas register_publisher_message_then [codes_intro] =
  write_register_publisher_message_wire [THEN codes_then] write_register_publisher_message_wire [THEN
      codes_some_bind]

lemma disciplined_register_publisher_message [disciplined_intro]: "disciplined
    (read_register_publisher_message limits)"
  unfolding read_register_publisher_message_def by (intro disciplined_intro; simp)

definition encode_register_publisher_message :: "RegisterPublisherMessage \<Rightarrow> RegistryLimits \<Rightarrow> Status \<times> u8 list" where
  "encode_register_publisher_message message limits = encoded_unchecked (write_register_publisher_message message limits)"

definition decode_register_publisher_message :: "u8 list \<Rightarrow> RegistryLimits \<Rightarrow> Status \<times> RegisterPublisherMessage" where
  "decode_register_publisher_message data limits = decoded (going_on (read_register_publisher_message limits)) data"

definition write_publisher_accepted :: "PublisherAcceptedMessage \<Rightarrow> RegistryLimits \<Rightarrow>
    writing" where
  "write_publisher_accepted x limits = write_all [
     wr_u16 (enum_tag all_ApplyCode (am_code x)),
     wr_u64 (am_epoch x),
     write_publisher_identity (am_identity x),
     wr_str (am_detail x) (max_metadata_bytes limits)]"

definition read_publisher_accepted :: "RegistryLimits \<Rightarrow> (PublisherAcceptedMessage \<times>
    Status) reading" where
  "read_publisher_accepted limits = do {
     code \<leftarrow> rd_u16;
     if enum_beyond all_ApplyCode ApplyCode.RejectedInvariant code
     then State_Monad.return (\<lparr>am_code = ApplyCode.RejectedValidation, am_epoch = 0,
         am_identity = no_publisher, am_detail = []\<rparr>, ErrorCode.ProtocolError)
     else do {
       epoch \<leftarrow> rd_u64;
       identity \<leftarrow> read_publisher_identity;
       detail \<leftarrow> rd_str (max_metadata_bytes limits);
       State_Monad.return (\<lparr>am_code = enum_cast all_ApplyCode code, am_epoch = epoch,
           am_identity = identity, am_detail = detail\<rparr>, ErrorCode.Ok) } }"

definition publisher_accepted_fits :: "RegistryLimits \<Rightarrow> PublisherAcceptedMessage \<Rightarrow>
    bool" where
  "publisher_accepted_fits limits x \<longleftrightarrow> publisher_identity_fits (am_identity x) \<and>
      str_fits (max_metadata_bytes limits) (am_detail x)"

lemma write_publisher_accepted_wire:
  "publisher_accepted_fits limits x \<Longrightarrow>
     codes_some (write_publisher_accepted x limits) (read_publisher_accepted limits) (x, ErrorCode.Ok)"
  unfolding write_publisher_accepted_def read_publisher_accepted_def publisher_accepted_fits_def
  by (cases x) (auto intro!: codes_intro)

definition encode_publisher_accepted :: "PublisherAcceptedMessage \<Rightarrow> RegistryLimits \<Rightarrow>
    Status \<times> u8 list" where
  "encode_publisher_accepted message limits = encoded_unchecked (write_publisher_accepted message limits)"

definition decode_publisher_accepted :: "u8 list \<Rightarrow> RegistryLimits \<Rightarrow> Status \<times>
    PublisherAcceptedMessage" where
  "decode_publisher_accepted data limits = decoded (read_publisher_accepted limits) data"

definition write_publication_accepted :: "PublicationAcceptedMessage \<Rightarrow> RegistryLimits
    \<Rightarrow> writing" where
  "write_publication_accepted x limits = write_all [
     wr_u16 (enum_tag all_ApplyCode (pm_code x)),
     wr_str (pm_detail x) (max_metadata_bytes limits),
     wr_u64 (pm_device_generation x),
     wr_u64 (pm_device_boot x)]"

definition read_publication_accepted :: "RegistryLimits \<Rightarrow> (PublicationAcceptedMessage \<times>
    Status) reading" where
  "read_publication_accepted limits = do {
     code \<leftarrow> rd_u16;
     if enum_beyond all_ApplyCode ApplyCode.RejectedInvariant code
     then State_Monad.return (\<lparr>pm_code = ApplyCode.RejectedValidation, pm_detail = [],
         pm_device_generation = 0, pm_device_boot = 0\<rparr>, ErrorCode.ProtocolError)
     else do {
       detail \<leftarrow> rd_str (max_metadata_bytes limits);
       device_generation \<leftarrow> rd_u64;
       device_boot \<leftarrow> rd_u64;
       State_Monad.return (\<lparr>pm_code = enum_cast all_ApplyCode code, pm_detail = detail,
           pm_device_generation = device_generation, pm_device_boot = device_boot\<rparr>, ErrorCode.Ok) } }"

definition publication_accepted_fits :: "RegistryLimits \<Rightarrow> PublicationAcceptedMessage
    \<Rightarrow> bool" where
  "publication_accepted_fits limits x \<longleftrightarrow> str_fits (max_metadata_bytes limits) (pm_detail x)"

lemma write_publication_accepted_wire:
  "publication_accepted_fits limits x \<Longrightarrow>
     codes_some (write_publication_accepted x limits) (read_publication_accepted limits) (x, ErrorCode.Ok)"
  unfolding write_publication_accepted_def read_publication_accepted_def publication_accepted_fits_def
  by (cases x) (auto intro!: codes_intro)

definition encode_publication_accepted :: "PublicationAcceptedMessage \<Rightarrow> RegistryLimits
    \<Rightarrow> Status \<times> u8 list" where
  "encode_publication_accepted message limits = encoded_unchecked (write_publication_accepted message limits)"

definition decode_publication_accepted :: "u8 list \<Rightarrow> RegistryLimits \<Rightarrow> Status \<times>
    PublicationAcceptedMessage" where
  "decode_publication_accepted data limits = decoded (read_publication_accepted limits) data"

definition write_fence_message :: "FencePublisherMessage \<Rightarrow> RegistryLimits \<Rightarrow> writing"
    where
  "write_fence_message x limits = write_all [
     write_id (fm_publisher x),
     wr_str (fm_reason x) (max_metadata_bytes limits)]"

definition read_fence_message :: "RegistryLimits \<Rightarrow> FencePublisherMessage reading" where
  "read_fence_message limits = do {
     publisher \<leftarrow> read_id;
     reason \<leftarrow> rd_str (max_metadata_bytes limits);
     State_Monad.return \<lparr>fm_publisher = publisher, fm_reason = reason\<rparr> }"

definition fence_message_fits :: "RegistryLimits \<Rightarrow> FencePublisherMessage \<Rightarrow> bool" where
  "fence_message_fits limits x \<longleftrightarrow>
     wf_id (fm_publisher x) \<and>
     str_fits (max_metadata_bytes limits) (fm_reason x)"

lemma write_fence_message_wire:
  "fence_message_fits limits x \<Longrightarrow>
     codes_some (write_fence_message x limits) (read_fence_message limits) x"
  unfolding write_fence_message_def read_fence_message_def fence_message_fits_def
  by (cases x) (auto intro!: codes_intro)

lemmas fence_message_then [codes_intro] =
  write_fence_message_wire [THEN codes_then] write_fence_message_wire [THEN codes_some_bind]

lemma disciplined_fence_message [disciplined_intro]: "disciplined (read_fence_message limits)"
  unfolding read_fence_message_def by (intro disciplined_intro; simp)

definition encode_fence_message :: "FencePublisherMessage \<Rightarrow> RegistryLimits \<Rightarrow> Status \<times> u8 list" where
  "encode_fence_message message limits = encoded_unchecked (write_fence_message message limits)"

definition decode_fence_message :: "u8 list \<Rightarrow> RegistryLimits \<Rightarrow> Status \<times> FencePublisherMessage" where
  "decode_fence_message data limits = decoded (going_on (read_fence_message limits)) data"

definition write_fence_accepted :: "FenceAcceptedMessage \<Rightarrow> RegistryLimits \<Rightarrow> writing"
    where
  "write_fence_accepted x limits = write_all [
     wr_u16 (enum_tag all_ApplyCode (fa_code x)),
     wr_str (fa_detail x) (max_metadata_bytes limits)]"

definition read_fence_accepted :: "RegistryLimits \<Rightarrow> (FenceAcceptedMessage \<times> Status)
    reading" where
  "read_fence_accepted limits = do {
     code \<leftarrow> rd_u16;
     if enum_beyond all_ApplyCode ApplyCode.RejectedInvariant code
     then State_Monad.return (\<lparr>fa_code = ApplyCode.RejectedValidation, fa_detail = []\<rparr>,
         ErrorCode.ProtocolError)
     else do {
       detail \<leftarrow> rd_str (max_metadata_bytes limits);
       State_Monad.return (\<lparr>fa_code = enum_cast all_ApplyCode code, fa_detail = detail\<rparr>,
           ErrorCode.Ok) } }"

definition fence_accepted_fits :: "RegistryLimits \<Rightarrow> FenceAcceptedMessage \<Rightarrow> bool" where
  "fence_accepted_fits limits x \<longleftrightarrow> str_fits (max_metadata_bytes limits) (fa_detail x)"

lemma write_fence_accepted_wire:
  "fence_accepted_fits limits x \<Longrightarrow>
     codes_some (write_fence_accepted x limits) (read_fence_accepted limits) (x, ErrorCode.Ok)"
  unfolding write_fence_accepted_def read_fence_accepted_def fence_accepted_fits_def
  by (cases x) (auto intro!: codes_intro)

definition encode_fence_accepted :: "FenceAcceptedMessage \<Rightarrow> RegistryLimits \<Rightarrow> Status
    \<times> u8 list" where
  "encode_fence_accepted message limits = encoded_unchecked (write_fence_accepted message limits)"

definition decode_fence_accepted :: "u8 list \<Rightarrow> RegistryLimits \<Rightarrow> Status \<times>
    FenceAcceptedMessage" where
  "decode_fence_accepted data limits = decoded (read_fence_accepted limits) data"

definition write_shutdown :: "ShutdownMessage \<Rightarrow> RegistryLimits \<Rightarrow> writing" where
  "write_shutdown x limits = write_all [
     wr_str (sm_reason x) (max_metadata_bytes limits)]"

definition read_shutdown :: "RegistryLimits \<Rightarrow> ShutdownMessage reading" where
  "read_shutdown limits = do {
     reason \<leftarrow> rd_str (max_metadata_bytes limits);
     State_Monad.return \<lparr>sm_reason = reason\<rparr> }"

definition shutdown_fits :: "RegistryLimits \<Rightarrow> ShutdownMessage \<Rightarrow> bool" where
  "shutdown_fits limits x \<longleftrightarrow> str_fits (max_metadata_bytes limits) (sm_reason x)"

lemma write_shutdown_wire:
  "shutdown_fits limits x \<Longrightarrow>
     codes_some (write_shutdown x limits) (read_shutdown limits) x"
  unfolding write_shutdown_def read_shutdown_def shutdown_fits_def
  by (cases x) (auto intro!: codes_intro)

lemmas shutdown_then [codes_intro] =
  write_shutdown_wire [THEN codes_then] write_shutdown_wire [THEN codes_some_bind]

lemma disciplined_shutdown [disciplined_intro]: "disciplined (read_shutdown limits)"
  unfolding read_shutdown_def by (intro disciplined_intro; simp)

definition encode_shutdown :: "ShutdownMessage \<Rightarrow> RegistryLimits \<Rightarrow> Status \<times> u8 list" where
  "encode_shutdown message limits = encoded_unchecked (write_shutdown message limits)"

definition decode_shutdown :: "u8 list \<Rightarrow> RegistryLimits \<Rightarrow> Status \<times> ShutdownMessage" where
  "decode_shutdown data limits = decoded (going_on (read_shutdown limits)) data"

definition write_error_message :: "ErrorMessage \<Rightarrow> RegistryLimits \<Rightarrow> writing" where
  "write_error_message x limits = write_all [
     wr_u16 (enum_tag all_ErrorCode (em_code x)),
     wr_str (em_message x) (max_string_bytes limits)]"

definition read_error_message :: "RegistryLimits \<Rightarrow> (ErrorMessage \<times> Status) reading" where
  "read_error_message limits = do {
     code \<leftarrow> rd_u16;
     if enum_beyond all_ErrorCode ErrorCode.Internal code
     then State_Monad.return (\<lparr>em_code = ErrorCode.Internal, em_message = []\<rparr>,
         ErrorCode.ProtocolError)
     else do {
       message \<leftarrow> rd_str (max_string_bytes limits);
       State_Monad.return (\<lparr>em_code = enum_cast all_ErrorCode code, em_message = message\<rparr>,
           ErrorCode.Ok) } }"

definition error_message_fits :: "RegistryLimits \<Rightarrow> ErrorMessage \<Rightarrow> bool" where
  "error_message_fits limits x \<longleftrightarrow> str_fits (max_string_bytes limits) (em_message x)"

lemma write_error_message_wire:
  "error_message_fits limits x \<Longrightarrow>
     codes_some (write_error_message x limits) (read_error_message limits) (x, ErrorCode.Ok)"
  unfolding write_error_message_def read_error_message_def error_message_fits_def
  by (cases x) (auto intro!: codes_intro)

definition encode_error_message :: "ErrorMessage \<Rightarrow> RegistryLimits \<Rightarrow> Status \<times>
    u8 list" where
  "encode_error_message message limits = encoded_unchecked (write_error_message message limits)"

definition decode_error_message :: "u8 list \<Rightarrow> RegistryLimits \<Rightarrow> Status \<times>
    ErrorMessage" where
  "decode_error_message data limits = decoded (read_error_message limits) data"

definition write_heartbeat :: "HeartbeatMessage \<Rightarrow> RegistryLimits \<Rightarrow> writing" where
  "write_heartbeat x limits = write_all [
     wr_u64 (bm_sequence x),
     write_publisher_identity (bm_identity x)]"

definition read_heartbeat :: "RegistryLimits \<Rightarrow> HeartbeatMessage reading" where
  "read_heartbeat limits = do {
     sequence \<leftarrow> rd_u64;
     identity \<leftarrow> read_publisher_identity;
     State_Monad.return \<lparr>bm_sequence = sequence, bm_identity = identity\<rparr> }"

definition heartbeat_fits :: "RegistryLimits \<Rightarrow> HeartbeatMessage \<Rightarrow> bool" where
  "heartbeat_fits limits x \<longleftrightarrow> publisher_identity_fits (bm_identity x)"

lemma write_heartbeat_wire:
  "heartbeat_fits limits x \<Longrightarrow>
     codes_some (write_heartbeat x limits) (read_heartbeat limits) x"
  unfolding write_heartbeat_def read_heartbeat_def heartbeat_fits_def
  by (cases x) (auto intro!: codes_intro)

lemmas heartbeat_then [codes_intro] =
  write_heartbeat_wire [THEN codes_then] write_heartbeat_wire [THEN codes_some_bind]

lemma disciplined_heartbeat [disciplined_intro]: "disciplined (read_heartbeat limits)"
  unfolding read_heartbeat_def by (intro disciplined_intro; simp)

definition encode_heartbeat :: "HeartbeatMessage \<Rightarrow> RegistryLimits \<Rightarrow> Status \<times> u8 list" where
  "encode_heartbeat message limits = encoded_unchecked (write_heartbeat message limits)"

definition decode_heartbeat :: "u8 list \<Rightarrow> RegistryLimits \<Rightarrow> Status \<times> HeartbeatMessage" where
  "decode_heartbeat data limits = decoded (going_on (read_heartbeat limits)) data"

section \<open>Queries\<close>

datatype QueryKind =
    Capability
  | DeviceCapabilities
  | Fleet
  | StaleCapabilities
  | Quirks
  | QuirkRecords
  | Compatibility
  | Compare
  | Devices
  | Publishers
  | Snapshot
  | Explain

definition all_QueryKind :: "QueryKind list" where
  "all_QueryKind = [QueryKind.Capability, QueryKind.DeviceCapabilities, QueryKind.Fleet, QueryKind.StaleCapabilities,
     QueryKind.Quirks, QueryKind.QuirkRecords, QueryKind.Compatibility, QueryKind.Compare,
     QueryKind.Devices, QueryKind.Publishers, QueryKind.Snapshot, QueryKind.Explain]"

fun to_string_QueryKind :: "QueryKind \<Rightarrow> string" where
  "to_string_QueryKind QueryKind.Capability = ''capability''"
| "to_string_QueryKind QueryKind.DeviceCapabilities = ''device-capabilities''"
| "to_string_QueryKind QueryKind.Fleet = ''fleet''"
| "to_string_QueryKind QueryKind.StaleCapabilities = ''stale-capabilities''"
| "to_string_QueryKind QueryKind.Quirks = ''quirks''"
| "to_string_QueryKind QueryKind.QuirkRecords = ''quirk-records''"
| "to_string_QueryKind QueryKind.Compatibility = ''compatibility''"
| "to_string_QueryKind QueryKind.Compare = ''compare''"
| "to_string_QueryKind QueryKind.Devices = ''devices''"
| "to_string_QueryKind QueryKind.Publishers = ''publishers''"
| "to_string_QueryKind QueryKind.Snapshot = ''snapshot''"
| "to_string_QueryKind QueryKind.Explain = ''explain''"

definition query_kind_from_string :: "string \<Rightarrow> QueryKind option" where
  "query_kind_from_string text = find (\<lambda>k. equals_ascii_ci text (to_string_QueryKind k)) all_QueryKind"

text \<open>The enumerators are numbered from one.\<close>

definition query_kind_raw :: "QueryKind \<Rightarrow> u16" where
  "query_kind_raw kind = enum_tag all_QueryKind kind + 1"

definition query_kind_known :: "u16 \<Rightarrow> bool" where
  "query_kind_known raw \<longleftrightarrow> \<not> (raw < 1 \<or> raw > query_kind_raw QueryKind.Explain)"

definition query_kind_cast :: "u16 \<Rightarrow> QueryKind" where
  "query_kind_cast raw = enum_cast all_QueryKind (raw - 1)"

interpretation wire_QueryKind: wire_enum all_QueryKind QueryKind.Explain
proof
  show "x \<in> set all_QueryKind" for x by (cases x) (simp_all add: all_QueryKind_def)
qed (simp_all add: all_QueryKind_def)

lemma query_kind_raw_known [simp]: "query_kind_known (query_kind_raw kind)"
  by (cases kind) (simp_all add: query_kind_known_def query_kind_raw_def enum_tag_def enum_index_def
      all_QueryKind_def)

lemma query_kind_cast_raw [simp]: "query_kind_cast (query_kind_raw kind) = kind"
  by (simp add: query_kind_cast_def query_kind_raw_def)

record QueryRequest =
  qreq_kind :: QueryKind
  qreq_capability :: CapabilityQuery
  qreq_device_capabilities :: DeviceCapabilityQuery
  qreq_fleet :: FleetCapabilityQuery
  qreq_stale :: StaleCapabilityQuery
  qreq_quirks :: QuirkQuery
  qreq_comparison :: ComparisonRequest
  qreq_compatibility :: CompatibilityQuery
  qreq_publishers :: PublisherQuery
  qreq_device :: string
  qreq_fleet_capability :: string

definition no_request :: QueryRequest where
  "no_request = \<lparr>qreq_kind = QueryKind.Capability,
     qreq_capability = \<lparr>cq_device = [], cq_device_generation = 0, cq_capability = [], cq_environment = [],
       cq_include_evidence = True\<rparr>,
     qreq_device_capabilities = no_capabilities_query, qreq_fleet = no_fleet_query,
     qreq_stale = \<lparr>sq_device = [], sq_device_generation = 0, sq_environment = [], sq_max_results = 0\<rparr>,
     qreq_quirks = \<lparr>qq_device = None, qq_environment = [], qq_capability = None, qq_only_applicable = False,
       qq_max_results = 0\<rparr>,
     qreq_comparison = \<lparr>cmp_left = [], cmp_right = [], cmp_left_generation = 0, cmp_right_generation = 0,
       cmp_environment = []\<rparr>,
     qreq_compatibility = no_compatibility_query, qreq_publishers = no_publisher_query, qreq_device = [],
     qreq_fleet_capability = []\<rparr>"

definition write_query_request :: "QueryRequest \<Rightarrow> RegistryLimits \<Rightarrow> writing" where
  "write_query_request x limits = write_all [
     wr_u16 (query_kind_raw (qreq_kind x)),
     (case qreq_kind x of
        QueryKind.Capability \<Rightarrow> write_capability_query (qreq_capability x) limits
      | QueryKind.Explain \<Rightarrow> write_capability_query (qreq_capability x) limits
      | QueryKind.DeviceCapabilities \<Rightarrow> write_device_capability_query (qreq_device_capabilities x) limits
      | QueryKind.Fleet \<Rightarrow> write_fleet_query (qreq_fleet x) limits
      | QueryKind.StaleCapabilities \<Rightarrow> write_stale_query (qreq_stale x) limits
      | QueryKind.Quirks \<Rightarrow> write_quirk_query (qreq_quirks x) limits
      | QueryKind.Compatibility \<Rightarrow> write_compatibility_query (qreq_compatibility x) limits
      | QueryKind.Compare \<Rightarrow> write_comparison_request (qreq_comparison x) limits
      | QueryKind.Devices \<Rightarrow> wr_str (qreq_device x) kMaxTokenLength
      | QueryKind.Publishers \<Rightarrow> write_publisher_query (qreq_publishers x) limits
      | QueryKind.QuirkRecords \<Rightarrow> wr_u64 0
      | QueryKind.Snapshot \<Rightarrow> wr_u64 0)]"

definition read_request_body :: "QueryKind \<Rightarrow> RegistryLimits \<Rightarrow> QueryRequest reading" where
  "read_request_body kind limits =
     (let out = no_request\<lparr>qreq_kind := kind\<rparr> in
      case kind of
        QueryKind.Capability \<Rightarrow> do {
          q \<leftarrow> read_capability_query limits; State_Monad.return (out\<lparr>qreq_capability := q\<rparr>) }
      | QueryKind.Explain \<Rightarrow> do {
          q \<leftarrow> read_capability_query limits; State_Monad.return (out\<lparr>qreq_capability := q\<rparr>) }
      | QueryKind.DeviceCapabilities \<Rightarrow> do {
          q \<leftarrow> read_device_capability_query limits;
          State_Monad.return (out\<lparr>qreq_device_capabilities := q\<rparr>) }
      | QueryKind.Fleet \<Rightarrow> do { q \<leftarrow> read_fleet_query limits; State_Monad.return (out\<lparr>qreq_fleet := q\<rparr>) }
      | QueryKind.StaleCapabilities \<Rightarrow> do {
          q \<leftarrow> read_stale_query limits; State_Monad.return (out\<lparr>qreq_stale := q\<rparr>) }
      | QueryKind.Quirks \<Rightarrow> do { q \<leftarrow> read_quirk_query limits; State_Monad.return (out\<lparr>qreq_quirks := q\<rparr>) }
      | QueryKind.Compatibility \<Rightarrow> do {
          q \<leftarrow> read_compatibility_query limits; State_Monad.return (out\<lparr>qreq_compatibility := q\<rparr>) }
      | QueryKind.Compare \<Rightarrow> do {
          q \<leftarrow> read_comparison_request limits; State_Monad.return (out\<lparr>qreq_comparison := q\<rparr>) }
      | QueryKind.Devices \<Rightarrow> do { d \<leftarrow> read_id; State_Monad.return (out\<lparr>qreq_device := d\<rparr>) }
      | QueryKind.Publishers \<Rightarrow> do {
          q \<leftarrow> read_publisher_query limits; State_Monad.return (out\<lparr>qreq_publishers := q\<rparr>) }
      | QueryKind.QuirkRecords \<Rightarrow> do { unused \<leftarrow> rd_u64; State_Monad.return out }
      | QueryKind.Snapshot \<Rightarrow> do { unused \<leftarrow> rd_u64; State_Monad.return out })"

definition read_query_request :: "RegistryLimits \<Rightarrow> (QueryRequest \<times> Status) reading" where
  "read_query_request limits = do {
     kind \<leftarrow> rd_u16;
     if \<not> query_kind_known kind then State_Monad.return (no_request, ErrorCode.ProtocolError)
     else do {
       out \<leftarrow> read_request_body (query_kind_cast kind) limits;
       State_Monad.return (out, ErrorCode.Ok) } }"

definition encode_query_request :: "QueryRequest \<Rightarrow> RegistryLimits \<Rightarrow> Status \<times> u8 list" where
  "encode_query_request message limits = encoded_unchecked (write_query_request message limits)"

definition decode_query_request :: "u8 list \<Rightarrow> RegistryLimits \<Rightarrow> Status \<times> QueryRequest" where
  "decode_query_request data limits = decoded (read_query_request limits) data"

text \<open>A request carries the member its kind names; the others are not sent.\<close>

definition request_fits :: "RegistryLimits \<Rightarrow> QueryRequest \<Rightarrow> bool" where
  "request_fits limits x \<longleftrightarrow>
     (let out = no_request\<lparr>qreq_kind := qreq_kind x\<rparr> in
      case qreq_kind x of
        QueryKind.Capability \<Rightarrow>
          capability_query_fits limits (qreq_capability x) \<and> x = out\<lparr>qreq_capability := qreq_capability x\<rparr>
      | QueryKind.Explain \<Rightarrow>
          capability_query_fits limits (qreq_capability x) \<and> x = out\<lparr>qreq_capability := qreq_capability x\<rparr>
      | QueryKind.DeviceCapabilities \<Rightarrow>
          device_capability_query_fits limits (qreq_device_capabilities x) \<and>
          x = out\<lparr>qreq_device_capabilities := qreq_device_capabilities x\<rparr>
      | QueryKind.Fleet \<Rightarrow> fleet_query_fits limits (qreq_fleet x) \<and> x = out\<lparr>qreq_fleet := qreq_fleet x\<rparr>
      | QueryKind.StaleCapabilities \<Rightarrow>
          stale_query_fits limits (qreq_stale x) \<and> x = out\<lparr>qreq_stale := qreq_stale x\<rparr>
      | QueryKind.Quirks \<Rightarrow> quirk_query_fits limits (qreq_quirks x) \<and> x = out\<lparr>qreq_quirks := qreq_quirks x\<rparr>
      | QueryKind.Compatibility \<Rightarrow>
          compatibility_query_fits limits (qreq_compatibility x) \<and>
          x = out\<lparr>qreq_compatibility := qreq_compatibility x\<rparr>
      | QueryKind.Compare \<Rightarrow>
          comparison_request_fits limits (qreq_comparison x) \<and> x = out\<lparr>qreq_comparison := qreq_comparison x\<rparr>
      | QueryKind.Devices \<Rightarrow> wf_id (qreq_device x) \<and> x = out\<lparr>qreq_device := qreq_device x\<rparr>
      | QueryKind.Publishers \<Rightarrow>
          publisher_query_fits limits (qreq_publishers x) \<and> x = out\<lparr>qreq_publishers := qreq_publishers x\<rparr>
      | QueryKind.QuirkRecords \<Rightarrow> x = out
      | QueryKind.Snapshot \<Rightarrow> x = out)"

lemma write_query_request_wire:
  assumes "request_fits limits x"
  shows "codes_some (write_query_request x limits) (read_query_request limits) (x, ErrorCode.Ok)"
proof (cases "qreq_kind x")
  case Devices
  then show ?thesis
    using assms unfolding write_query_request_def read_query_request_def read_request_body_def
      request_fits_def Let_def write_id_def [symmetric]
    by (auto intro!: codes_intro)
qed (use assms in \<open>auto simp: write_query_request_def read_query_request_def read_request_body_def
      request_fits_def Let_def intro!: codes_intro\<close>)

record QueryResponse =
  qres_code :: ErrorCode
  qres_message :: string
  qres_kind :: QueryKind
  qres_capability :: ResolvedCapability
  qres_capabilities :: "ResolvedCapability list"
  qres_comparison :: DeviceComparison
  qres_quirks :: "QuirkApplication list"
  qres_quirk_records :: "QuirkRecord list"
  qres_compatibility :: "CompatibilityFact list"
  qres_subjects :: "SubjectSnapshot list"
  qres_publishers :: "PublisherRecord list"
  qres_snapshot :: RegistrySnapshot
  qres_text :: string

definition no_response :: QueryResponse where
  "no_response = \<lparr>qres_code = ErrorCode.Ok, qres_message = [], qres_kind = QueryKind.Capability,
     qres_capability = no_resolved, qres_capabilities = [], qres_comparison = no_comparison,
     qres_quirks = [], qres_quirk_records = [], qres_compatibility = [], qres_subjects = [],
     qres_publishers = [], qres_snapshot = no_snapshot, qres_text = []\<rparr>"

definition write_response_body :: "QueryResponse \<Rightarrow> RegistryLimits \<Rightarrow> writing" where
  "write_response_body x limits =
     (case qres_kind x of
        QueryKind.Capability \<Rightarrow> write_resolved_capability (qres_capability x) limits
      | QueryKind.Explain \<Rightarrow> write_resolved_capability (qres_capability x) limits
      | QueryKind.DeviceCapabilities \<Rightarrow>
          write_list (\<lambda>v. write_resolved_capability v limits) (max_query_results limits) (qres_capabilities x)
      | QueryKind.Fleet \<Rightarrow>
          write_list (\<lambda>v. write_resolved_capability v limits) (max_query_results limits) (qres_capabilities x)
      | QueryKind.StaleCapabilities \<Rightarrow>
          write_list (\<lambda>v. write_resolved_capability v limits) (max_query_results limits) (qres_capabilities x)
      | QueryKind.Quirks \<Rightarrow>
          write_list (\<lambda>v. write_quirk_application v limits) (max_query_results limits) (qres_quirks x)
      | QueryKind.QuirkRecords \<Rightarrow>
          write_list (\<lambda>v. write_quirk_record v limits) (max_quirks limits) (qres_quirk_records x)
      | QueryKind.Compatibility \<Rightarrow>
          write_list (\<lambda>v. write_compatibility_fact v limits) (max_compatibility_facts limits) (qres_compatibility x)
      | QueryKind.Compare \<Rightarrow> write_device_comparison (qres_comparison x) limits
      | QueryKind.Devices \<Rightarrow>
          write_list (\<lambda>v. write_subject_snapshot v limits) (max_devices limits) (qres_subjects x)
      | QueryKind.Publishers \<Rightarrow>
          write_list (\<lambda>v. write_publisher_record v limits) (max_publishers limits) (qres_publishers x)
      | QueryKind.Snapshot \<Rightarrow> write_registry_snapshot (qres_snapshot x) limits)"

definition write_query_response :: "QueryResponse \<Rightarrow> RegistryLimits \<Rightarrow> writing" where
  "write_query_response x limits = write_all [
     wr_u16 (enum_tag all_ErrorCode (qres_code x)),
     wr_str (qres_message x) (max_string_bytes limits),
     wr_u16 (query_kind_raw (qres_kind x)),
     write_response_body x limits,
     wr_str (qres_text x) (max_string_bytes limits)]"

definition read_response_body :: "QueryResponse \<Rightarrow> RegistryLimits \<Rightarrow> QueryResponse reading" where
  "read_response_body out limits =
     (case qres_kind out of
        QueryKind.Capability \<Rightarrow> do {
          v \<leftarrow> read_resolved_capability limits; State_Monad.return (out\<lparr>qres_capability := v\<rparr>) }
      | QueryKind.Explain \<Rightarrow> do {
          v \<leftarrow> read_resolved_capability limits; State_Monad.return (out\<lparr>qres_capability := v\<rparr>) }
      | QueryKind.DeviceCapabilities \<Rightarrow> do {
          l \<leftarrow> rd_list rd_while_ok (max_query_results limits) ErrorCode.LimitExceeded (read_resolved_capability limits);
          State_Monad.return (out\<lparr>qres_capabilities := (case l of None \<Rightarrow> [] | Some vs \<Rightarrow> vs)\<rparr>) }
      | QueryKind.Fleet \<Rightarrow> do {
          l \<leftarrow> rd_list rd_while_ok (max_query_results limits) ErrorCode.LimitExceeded (read_resolved_capability limits);
          State_Monad.return (out\<lparr>qres_capabilities := (case l of None \<Rightarrow> [] | Some vs \<Rightarrow> vs)\<rparr>) }
      | QueryKind.StaleCapabilities \<Rightarrow> do {
          l \<leftarrow> rd_list rd_while_ok (max_query_results limits) ErrorCode.LimitExceeded (read_resolved_capability limits);
          State_Monad.return (out\<lparr>qres_capabilities := (case l of None \<Rightarrow> [] | Some vs \<Rightarrow> vs)\<rparr>) }
      | QueryKind.Quirks \<Rightarrow> do {
          l \<leftarrow> rd_list rd_while_ok (max_query_results limits) ErrorCode.LimitExceeded (read_quirk_application limits);
          State_Monad.return (out\<lparr>qres_quirks := (case l of None \<Rightarrow> [] | Some vs \<Rightarrow> vs)\<rparr>) }
      | QueryKind.QuirkRecords \<Rightarrow> do {
          l \<leftarrow> rd_list rd_while_ok (max_quirks limits) ErrorCode.LimitExceeded (read_quirk_record limits);
          State_Monad.return (out\<lparr>qres_quirk_records := (case l of None \<Rightarrow> [] | Some vs \<Rightarrow> vs)\<rparr>) }
      | QueryKind.Compatibility \<Rightarrow> do {
          l \<leftarrow> rd_list rd_while_ok (max_compatibility_facts limits) ErrorCode.LimitExceeded (read_compatibility_fact limits);
          State_Monad.return (out\<lparr>qres_compatibility := (case l of None \<Rightarrow> [] | Some vs \<Rightarrow> vs)\<rparr>) }
      | QueryKind.Compare \<Rightarrow> do {
          v \<leftarrow> read_device_comparison limits; State_Monad.return (out\<lparr>qres_comparison := v\<rparr>) }
      | QueryKind.Devices \<Rightarrow> do {
          l \<leftarrow> rd_list rd_while_ok (max_devices limits) ErrorCode.LimitExceeded (read_subject_snapshot limits);
          State_Monad.return (out\<lparr>qres_subjects := (case l of None \<Rightarrow> [] | Some vs \<Rightarrow> vs)\<rparr>) }
      | QueryKind.Publishers \<Rightarrow> do {
          l \<leftarrow> rd_list rd_while_ok (max_publishers limits) ErrorCode.LimitExceeded (read_publisher_record limits);
          State_Monad.return (out\<lparr>qres_publishers := (case l of None \<Rightarrow> [] | Some vs \<Rightarrow> vs)\<rparr>) }
      | QueryKind.Snapshot \<Rightarrow> do {
          v \<leftarrow> read_registry_snapshot limits; State_Monad.return (out\<lparr>qres_snapshot := v\<rparr>) })"

definition read_query_response :: "RegistryLimits \<Rightarrow> (QueryResponse \<times> Status) reading" where
  "read_query_response limits = do {
     code \<leftarrow> rd_u16;
     if enum_beyond all_ErrorCode ErrorCode.Internal code
     then State_Monad.return (no_response, ErrorCode.ProtocolError)
     else do {
       message \<leftarrow> rd_str (max_string_bytes limits);
       kind \<leftarrow> rd_u16;
       if \<not> query_kind_known kind
       then State_Monad.return (no_response\<lparr>qres_code := enum_cast all_ErrorCode code,
         qres_message := message\<rparr>, ErrorCode.ProtocolError)
       else do {
         out \<leftarrow> read_response_body (no_response\<lparr>qres_code := enum_cast all_ErrorCode code,
           qres_message := message, qres_kind := query_kind_cast kind\<rparr>) limits;
         lit \<leftarrow> rd_str (max_string_bytes limits);
         State_Monad.return (out\<lparr>qres_text := lit\<rparr>, ErrorCode.Ok) } } }"

definition encode_query_response :: "QueryResponse \<Rightarrow> RegistryLimits \<Rightarrow> Status \<times> u8 list" where
  "encode_query_response message limits = encoded_checked (write_query_response message limits) limits"

definition decode_query_response :: "u8 list \<Rightarrow> RegistryLimits \<Rightarrow> Status \<times> QueryResponse" where
  "decode_query_response data limits = decoded (read_query_response limits) data"

definition response_fits :: "RegistryLimits \<Rightarrow> QueryResponse \<Rightarrow> bool" where
  "response_fits limits x \<longleftrightarrow>
     str_fits (max_string_bytes limits) (qres_message x) \<and> str_fits (max_string_bytes limits) (qres_text x) \<and>
     (let out = no_response\<lparr>qres_code := qres_code x, qres_message := qres_message x,
        qres_kind := qres_kind x, qres_text := qres_text x\<rparr> in
      case qres_kind x of
        QueryKind.Capability \<Rightarrow> resolved_capability_fits limits (qres_capability x) \<and> x = out\<lparr>qres_capability := qres_capability x\<rparr>
      | QueryKind.Explain \<Rightarrow> resolved_capability_fits limits (qres_capability x) \<and> x = out\<lparr>qres_capability := qres_capability x\<rparr>
      | QueryKind.DeviceCapabilities \<Rightarrow>
          list_fits (max_query_results limits) (resolved_capability_fits limits) (qres_capabilities x) \<and> x = out\<lparr>qres_capabilities := qres_capabilities x\<rparr>
      | QueryKind.Fleet \<Rightarrow>
          list_fits (max_query_results limits) (resolved_capability_fits limits) (qres_capabilities x) \<and> x = out\<lparr>qres_capabilities := qres_capabilities x\<rparr>
      | QueryKind.StaleCapabilities \<Rightarrow>
          list_fits (max_query_results limits) (resolved_capability_fits limits) (qres_capabilities x) \<and> x = out\<lparr>qres_capabilities := qres_capabilities x\<rparr>
      | QueryKind.Quirks \<Rightarrow>
          list_fits (max_query_results limits) (quirk_application_fits limits) (qres_quirks x) \<and> x = out\<lparr>qres_quirks := qres_quirks x\<rparr>
      | QueryKind.QuirkRecords \<Rightarrow>
          list_fits (max_quirks limits) (quirk_record_fits limits) (qres_quirk_records x) \<and> x = out\<lparr>qres_quirk_records := qres_quirk_records x\<rparr>
      | QueryKind.Compatibility \<Rightarrow>
          list_fits (max_compatibility_facts limits) (compatibility_fact_fits limits) (qres_compatibility x) \<and> x = out\<lparr>qres_compatibility := qres_compatibility x\<rparr>
      | QueryKind.Compare \<Rightarrow> device_comparison_fits limits (qres_comparison x) \<and> x = out\<lparr>qres_comparison := qres_comparison x\<rparr>
      | QueryKind.Devices \<Rightarrow>
          list_fits (max_devices limits) (subject_snapshot_fits limits) (qres_subjects x) \<and> x = out\<lparr>qres_subjects := qres_subjects x\<rparr>
      | QueryKind.Publishers \<Rightarrow>
          list_fits (max_publishers limits) (publisher_record_fits limits) (qres_publishers x) \<and> x = out\<lparr>qres_publishers := qres_publishers x\<rparr>
      | QueryKind.Snapshot \<Rightarrow> registry_snapshot_fits limits (qres_snapshot x) \<and> x = out\<lparr>qres_snapshot := qres_snapshot x\<rparr>)"

lemmas response_list =
  write_list_fits [OF rd_while_ok_loops _ write_resolved_capability_wire]
  write_list_fits [OF rd_while_ok_loops _ write_quirk_application_wire]
  write_list_fits [OF rd_while_ok_loops _ write_quirk_record_wire]
  write_list_fits [OF rd_while_ok_loops _ write_compatibility_fact_wire]
  write_list_fits [OF rd_while_ok_loops _ write_subject_snapshot_wire]
  write_list_fits [OF rd_while_ok_loops _ write_publisher_record_wire]

text \<open>
  Reading the body of a response whose other members are those of \<open>out\<close>, which has no text yet.
\<close>

lemma write_response_body_wire:
  assumes "response_fits limits x"
  shows "codes_some (write_response_body x limits)
    (read_response_body (no_response\<lparr>qres_code := qres_code x, qres_message := qres_message x,
       qres_kind := qres_kind x\<rparr>) limits)
    (x\<lparr>qres_text := []\<rparr>)"
proof -
  show ?thesis
    using assms unfolding response_fits_def Let_def write_response_body_def read_response_body_def
    by (cases x; cases "qres_kind x")
      (auto simp: no_response_def intro!: codes_some_map response_list write_resolved_capability_wire
        write_device_comparison_wire write_registry_snapshot_wire)
qed

lemma write_query_response_wire:
  assumes "response_fits limits x"
  shows "codes_some (write_query_response x limits) (read_query_response limits) (x, ErrorCode.Ok)"
proof -
  note body = write_response_body_wire [OF assms, THEN codes_then]
  have "str_fits (max_string_bytes limits) (qres_message x)" "str_fits (max_string_bytes limits) (qres_text x)"
    using assms by (auto simp: response_fits_def)
  then show ?thesis
    unfolding write_query_response_def read_query_response_def
    by (auto intro!: codes_intro body)
qed

end
