(* ===== verification/Codec_Limits.thy ===== *)
theory Codec_Limits
  imports Protocol
begin

text \<open>
  Where the bounds of \<^verbatim>\<open>codec.cpp\<close> meet those of the validators. A condition that
  \<^verbatim>\<open>validate_condition\<close> accepts always travels; a predicate value does not, because the reader counts
  the nesting of its condition from two while validation counts from one. Lists beyond their bound are
  cut by the writers without a trace.
\<close>

section \<open>Readers that refuse\<close>

definition refuses :: "'a reading \<Rightarrow> u8 list \<Rightarrow> ErrorCode \<Rightarrow> bool" where
  "refuses m bs code \<longleftrightarrow> (\<forall>pre post. \<exists>v r. run_state m (reader_at pre (bs @ post)) = (v, r) \<and>
     br_sound r \<and> \<not> br_ok r \<and> br_code r = code)"

definition refused :: "writing \<Rightarrow> 'a reading \<Rightarrow> ErrorCode \<Rightarrow> bool" where
  "refused f m code \<longleftrightarrow> (\<exists>bs. bs \<noteq> [] \<and> emits f bs \<and> refuses m bs code)"

definition emitted :: "writing \<Rightarrow> bool" where
  "emitted f \<longleftrightarrow> (\<exists>bs. emits f bs)"

named_theorems refused_intro

lemma emitted_Nil [refused_intro]: "emitted (write_all [])"
  unfolding emitted_def using emits_Nil by blast

lemma emitted_Cons [refused_intro]: "emitted f \<Longrightarrow> emitted (write_all fs) \<Longrightarrow> emitted (write_all (f # fs))"
  unfolding emitted_def using emits_Cons by blast

lemma codes_emitted: "codes_some f m x \<Longrightarrow> emitted f"
  unfolding codes_some_def emitted_def by blast

lemma refused_emitted: "refused f m code \<Longrightarrow> emitted f"
  unfolding refused_def emitted_def by blast

text \<open>A reader that failed stays failed, whatever is read after it.\<close>

lemma refused_here [refused_intro]:
  assumes "refused f m code" and "emitted (write_all fs)" and "\<And>x. disciplined (k x)"
  shows "refused (write_all (f # fs)) (State_Monad.bind m k) code"
proof -
  obtain bs cs where bs: "bs \<noteq> []" "emits f bs" "refuses m bs code" and cs: "emits (write_all fs) cs"
    using assms(1,2) unfolding refused_def emitted_def by blast
  have "refuses (State_Monad.bind m k) (bs @ cs) code"
    unfolding refuses_def
  proof (intro allI)
    fix pre post
    obtain v r where r: "run_state m (reader_at pre (bs @ cs @ post)) = (v, r)" "br_sound r" "\<not> br_ok r"
        "br_code r = code"
      using bs(3) unfolding refuses_def by blast
    obtain w s where s: "run_state (k v) r = (w, s)"
      by (cases "run_state (k v) r")
    have "s = r"
      using disciplinedD(4) [OF assms(3) r(2) s r(3)] .
    with r s show "\<exists>v r. run_state (State_Monad.bind m k) (reader_at pre ((bs @ cs) @ post)) = (v, r) \<and>
        br_sound r \<and> \<not> br_ok r \<and> br_code r = code"
      by simp
  qed
  then show ?thesis
    unfolding refused_def using emits_Cons [OF bs(2) cs] bs(1) by blast
qed

lemma refused_later:
  assumes "codes_some f m x" and "refused (write_all fs) (k x) code"
  shows "refused (write_all (f # fs)) (State_Monad.bind m k) code"
proof -
  obtain bs cs where bs: "bs \<noteq> []" "emits f bs" "decodes m bs x"
    and cs: "emits (write_all fs) cs" "refuses (k x) cs code"
    using assms unfolding codes_some_def refused_def by blast
  have "refuses (State_Monad.bind m k) (bs @ cs) code"
    using bs(3) cs(2) unfolding refuses_def decodes_def by simp
  then show ?thesis
    unfolding refused_def using emits_Cons [OF bs(2) cs(1)] bs(1) by blast
qed

lemma refused_ok [refused_intro]:
  assumes "refused f (k True) code"
  shows "refused f (State_Monad.bind rd_ok k) code"
proof -
  have "run_state rd_ok (reader_at pre post) = (True, reader_at pre post)" for pre post
    by (simp add: rd_ok_def reader_at_def)
  then show ?thesis
    using assms by (simp add: refused_def refuses_def)
qed

text \<open>What stands after the first byte of a condition nested too deeply is never read.\<close>

lemma refused_after:
  assumes "codes_some f m x" and "emitted (write_all fs)" and "refuses (k x) [] code"
  shows "refused (write_all (f # fs)) (State_Monad.bind m k) code"
proof -
  obtain bs cs where bs: "bs \<noteq> []" "emits f bs" "decodes m bs x" and cs: "emits (write_all fs) cs"
    using assms(1,2) unfolding codes_some_def emitted_def by blast
  have "refuses (k x) cs code"
    using assms(3) unfolding refuses_def by simp
  then have "refuses (State_Monad.bind m k) (bs @ cs) code"
    using bs(3) unfolding refuses_def decodes_def by simp
  then show ?thesis
    unfolding refused_def using emits_Cons [OF bs(2) cs] bs(1) by blast
qed

lemma refuses_fail: "code \<noteq> ErrorCode.Ok \<Longrightarrow> refuses (do { rd_fail code; State_Monad.return v }) [] code"
  by (simp add: refuses_def rd_fail_def br_fail_def reader_at_def br_sound_def)

lemma refuses_ok: "refuses (k True) [] code \<Longrightarrow> refuses (State_Monad.bind rd_ok k) [] code"
  by (simp add: refuses_def rd_ok_def reader_at_def)

lemma refused_single:
  assumes "refused (f x) r code" and "1 \<le> bound"
  shows "refused (write_list f bound [x]) (rd_list rd_until_failure bound limit r) code"
proof -
  obtain bs where bs: "bs \<noteq> []" "emits (f x) bs" "refuses r bs code"
    using assms(1) unfolding refused_def by blast
  let ?n = "le_bytes 4 (1 :: u32)"
  have "write_list f bound [x] = write_all (wr_raw ?n # map f [x])"
    using assms(2) by (simp add: write_list_def min_def wr_u32_def)
  then have emits: "emits (write_list f bound [x]) (?n @ bs @ [])"
    using emits_Cons [OF emits_raw emits_Cons [OF bs(2) emits_Nil]] by simp
  have "refuses (rd_list rd_until_failure bound limit r) (?n @ bs @ []) code"
    unfolding refuses_def
  proof (intro allI)
    fix pre post
    have "1 \<le> length (bs @ post)"
      using bs(1) by (cases bs) simp_all
    then have count: "run_state (rd_count bound limit) (reader_at pre (?n @ bs @ post)) =
        (Some 1, reader_at (pre @ ?n) (bs @ post))"
      using assms(2) rd_count_at [of 1] by simp
    obtain v s where s: "run_state r (reader_at (pre @ ?n) (bs @ post)) = (v, s)" "br_sound s" "\<not> br_ok s"
        "br_code s = code"
      using bs(3) unfolding refuses_def by blast
    show "\<exists>v s. run_state (rd_list rd_until_failure bound limit r) (reader_at pre ((?n @ bs @ []) @ post)) = (v, s) \<and>
        br_sound s \<and> \<not> br_ok s \<and> br_code s = code"
      using s by (simp add: rd_list_def count rd_ok_def)
  qed
  then show ?thesis
    unfolding refused_def using emits bs(1) by blast
qed

section \<open>Conditions\<close>


text \<open>A condition of \<open>n\<close> negations around a constant.\<close>

primrec negations :: "nat \<Rightarrow> ConditionNode" where
  "negations 0 = ConditionNode ConditionKind.Always [] [] []"
| "negations (Suc n) = ConditionNode ConditionKind.NotOf [] [] [Some (negations n)]"

lemma write_negations:
  "write_condition (Some (negations n)) limits = write_all [
     wr_u8 1, wr_u16 (enum_tag all_ConditionKind (case n of 0 \<Rightarrow> ConditionKind.Always | _ \<Rightarrow> ConditionKind.NotOf)),
     wr_str [] (max_name_length limits), wr_str [] (max_name_length limits),
     write_list (\<lambda>child. write_condition child limits) (max_condition_children limits)
       (case n of 0 \<Rightarrow> [] | Suc m \<Rightarrow> [Some (negations m)])]"
  by (cases n) (simp_all add: write_condition_Some)

lemma emitted_all: "\<forall>f\<in>set fs. emitted f \<Longrightarrow> emitted (write_all fs)"
  by (induction fs) (auto intro: refused_intro)

lemma emitted_list: "\<forall>x\<in>set xs. emitted (f x) \<Longrightarrow> emitted (write_list f bound xs)"
  unfolding write_list_def Let_def
  by (rule emitted_all) (auto intro: codes_emitted [OF wr_u32_wire] dest: in_set_takeD)

lemmas primitive_emitted [refused_intro] =
  codes_emitted [OF wr_u8_wire] codes_emitted [OF wr_u16_wire] codes_emitted [OF wr_u64_wire]
  codes_emitted [OF wr_boolean_wire] codes_emitted [OF wr_str_fits]

lemma str_fits_Nil [simp]: "str_fits bound []"
  by (simp add: str_fits_def)

lemma negations_emitted [refused_intro]: "emitted (write_condition (Some (negations n)) limits)"
  by (induction n) (simp_all add: write_condition_Some refused_intro emitted_list)

lemma negations_refused:
  assumes "max_record_depth limits + 2 < depth + n" and "1 \<le> max_condition_children limits"
  shows "refused (write_condition (Some (negations n)) limits) (read_condition limits depth) ErrorCode.LimitExceeded"
proof -
  have deep: "refused (write_condition (Some (negations n)) limits) (read_condition limits depth)
      ErrorCode.LimitExceeded" if "max_record_depth limits + 2 < depth" for n depth
  proof -
    have "refuses (do { rd_fail ErrorCode.LimitExceeded; State_Monad.return None }) [] ErrorCode.LimitExceeded"
      by (rule refuses_fail) simp
    moreover have "emitted (write_all [wr_u16 (enum_tag all_ConditionKind kind),
        wr_str [] (max_name_length limits), wr_str [] (max_name_length limits),
        write_list (\<lambda>child. write_condition child limits) (max_condition_children limits) children])"
      if "set children \<subseteq> (\<lambda>n. Some (negations n)) ` UNIV" for kind children
      using that by (intro refused_intro emitted_list str_fits_Nil) (auto intro: refused_intro)
    ultimately show ?thesis
      using that by (subst read_condition.simps, cases n)
        (auto simp: write_condition_Some intro!: refused_after [OF wr_u8_wire] refuses_ok)
  qed
  show ?thesis
    using assms(1)
  proof (induction n arbitrary: depth)
    case 0
    then show ?case by (intro deep) simp
  next
    case (Suc n)
    show ?case
    proof (cases "max_record_depth limits + 2 < depth")
      case False
      have "refused (write_list (\<lambda>child. write_condition child limits) (max_condition_children limits)
          [Some (negations n)]) (rd_list rd_until_failure (max_condition_children limits) ErrorCode.LimitExceeded
          (read_condition limits (depth + 1))) ErrorCode.LimitExceeded"
        using Suc assms(2) by (intro refused_single) simp_all
      then show ?thesis
        using False
        by (subst read_condition.simps)
          (auto simp: write_condition_Some intro!: refused_later [OF wr_u8_wire] refused_later [OF wr_u16_wire]
            refused_later [OF wr_str_fits] refused_ok refused_here refused_intro disciplined_intro)
    qed (rule deep)
  qed
qed

section \<open>Values, records and publications\<close>

abbreviation deep_predicate :: "RegistryLimits \<Rightarrow> CapabilityValue" where
  "deep_predicate limits \<equiv> V_Predicate (Some (negations (max_record_depth limits + 1)))"

lemma tree_nodes_negations: "tree_nodes (negations n) = Suc n"
  by (induction n) simp_all

lemma wf_tree_negations:
  "wf_tree limits depth (negations n) \<longleftrightarrow>
     depth + n \<le> max_record_depth limits + 2 \<and> (n = 0 \<or> 1 \<le> max_condition_children limits)"
  by (induction n arbitrary: depth) (auto simp: check_condition_node_def)

lemma deep_predicate_valid:
  assumes "max_record_depth limits + 2 \<le> max_condition_nodes limits" and "1 \<le> max_condition_children limits"
  shows "validate_value limits (deep_predicate limits) = Ok"
  using assms
  by (simp add: validate_value.simps validate_predicate_def validate_condition_is_loop
      validate_condition_loop_ok_iff ptr_nodes_def ptr_wf_def tree_nodes_negations wf_tree_negations
      check_condition_node_def del: validate_condition_loop.simps)

lemma deep_predicate_refused:
  assumes "1 \<le> max_record_depth limits" and "1 \<le> max_condition_children limits"
  shows "refused (write_value (deep_predicate limits) limits) (read_value limits 1) ErrorCode.LimitExceeded"
proof -
  have "refused (write_condition (Some (negations (max_record_depth limits + 1))) limits)
      (read_condition limits (1 + 1)) ErrorCode.LimitExceeded"
    using assms(2) by (intro negations_refused) simp_all
  then show ?thesis
    using assms(1) unfolding write_value.simps
    by (subst read_value.simps)
      (auto intro!: refused_later [OF wr_u16_wire] refused_ok refused_here refused_intro disciplined_intro)
qed

lemmas record_emitted [refused_intro] =
  codes_emitted [OF write_id_wire] codes_emitted [OF write_gen_wire]
  codes_emitted [OF write_evidence_source_wire] codes_emitted [OF write_condition_wire]
  codes_emitted [OF write_quirk_record_wire] codes_emitted [OF write_compatibility_fact_wire]
  codes_emitted [OF write_capability_schema_wire]

lemma deep_record_refused:
  assumes "capability_record_fits limits x" and "1 \<le> max_record_depth limits"
    and "1 \<le> max_condition_children limits"
  shows "refused (write_capability_record (x\<lparr>cr_value := deep_predicate limits\<rparr>) limits)
    (read_capability_record limits) ErrorCode.LimitExceeded"
  using assms deep_predicate_refused [of limits]
  unfolding write_capability_record_def read_capability_record_def capability_record_fits_def
  by (auto intro!: refused_later [OF write_id_wire] refused_later [OF write_gen_wire]
      refused_later [OF wr_u16_wire] refused_here refused_intro disciplined_intro)

lemma deep_publication_refused:
  assumes "publication_fits limits p" and "1 \<le> max_record_depth limits"
    and "1 \<le> max_condition_children limits"
  shows "refused (write_publication (p\<lparr>pb_capability := (pb_capability p)\<lparr>cr_value := deep_predicate limits\<rparr>\<rparr>) limits)
    (read_publication limits) ErrorCode.LimitExceeded"
  using assms deep_record_refused [of limits "pb_capability p"]
  unfolding write_publication_def read_publication_def publication_fits_def
  by (auto intro!: refused_later [OF wr_u16_wire] refused_later [OF write_publisher_identity_wire]
      refused_later [OF wr_u64_wire] refused_later [OF write_gen_wire]
      refused_later [OF write_device_registration_wire] refused_here refused_intro disciplined_intro)

lemma refused_decoded:
  assumes "refused f m code" and "code \<noteq> ErrorCode.Ok"
  shows "\<not> bw_truncated (f empty_writer)" and "bw_out (f empty_writer) = wire f"
    and "fst (decoded (going_on m) (wire f)) = code"
proof -
  obtain bs where bs: "emits f bs" "refuses m bs code"
    using assms(1) unfolding refused_def by blast
  have "wire f = bs"
    using emits_wire [OF bs(1)] .
  then show "\<not> bw_truncated (f empty_writer)" "bw_out (f empty_writer) = wire f"
    using bs(1) by (simp_all add: emits_def empty_writer_def)
  obtain v r where "run_state m (byte_reader bs) = (v, r)" "\<not> br_ok r" "br_code r = code"
    using bs(2) unfolding refuses_def byte_reader_at by (metis append_Nil2)
  then show "fst (decoded (going_on m) (wire f)) = code"
    by (simp add: \<open>wire f = bs\<close> decoded_def going_on_def br_status_def)
qed

end
