(* ===== verification/Wire.thy ===== *)
theory Wire
  imports Codec_Limits Samples
begin

text \<open>
  What crosses the wire: publications, queries and answers through \<^verbatim>\<open>codec.cpp\<close> and \<^verbatim>\<open>protocol.cpp\<close>, from
  the encoder of one process to the decoder of another, and what does not.
\<close>

section \<open>Sample messages\<close>

definition wire_limits :: RegistryLimits where
  "wire_limits = sample_limits\<lparr>max_frame_bytes := 1000, max_condition_nodes := 4\<rparr>"

abbreviation sample_message :: Publication where
  "sample_message \<equiv> sample_publication PublicationKind.PublishCapability 3"

definition sample_frame :: Frame where
  "sample_frame = \<lparr>fr_type = MessageType.Heartbeat, fr_flags = 0, fr_correlation = 7, fr_payload = [1, 2]\<rparr>"

lemma sample_tokens: "list_all wf_id [''d'', ''c'', ''c.v1'', ''p'', ''q'', ''k'', ''v'', ''f'', ''m'', ''i'', []]"
  by code_simp

lemma wire_limits_simps [simp]:
  "max_frame_bytes wire_limits = 1000" "max_name_length wire_limits = 4" "max_metadata_bytes wire_limits = 4"
  "max_record_depth wire_limits = 2" "max_condition_nodes wire_limits = 4" "max_condition_children wire_limits = 2"
  "max_native_identifiers wire_limits = 2" "max_query_results wire_limits = 4" "max_string_bytes wire_limits = 4"
  by (simp_all add: wire_limits_def sample_limits_def)

lemma empty_version_fits: "version_fits wire_limits empty_version"
  by (simp add: version_fits_def str_fits_def empty_version_def; code_simp)

lemmas publication_parts_fit = publication_fits_def publisher_identity_fits_def device_registration_fits_def
  capability_record_fits_def quirk_record_fits_def compatibility_fact_fits_def capability_schema_fits_def
  device_identity_fits_def hardware_identity_fits_def software_state_fits_def platform_identity_fits_def
  evidence_source_fits_def hardware_reference_fits_def range_fits_def list_fits_def str_fits_def

lemmas sample_message_parts = sample_publication_def sample_publisher_def sample_registration_def
  sample_identity_def sample_hardware_def sample_software_def sample_platform_def sample_record_def
  sample_source_def sample_quirk_def sample_fact_def sample_reference_def sample_schema_def no_publisher_def

lemma sample_message_fits: "publication_fits wire_limits sample_message"
  using sample_tokens empty_version_fits
  by (simp add: publication_parts_fit sample_message_parts kMaxTokenLength_def)

lemma sample_message_encodes: "fst (encode_publication sample_message wire_limits) = ErrorCode.Ok"
  by code_simp

lemma sample_frame_ok: "frame_ok wire_limits sample_frame"
  by (simp add: frame_ok_def sample_frame_def)

section \<open>Round trips\<close>

text \<open>
  C8: a publication whose parts are within the bounds arrives unchanged. If its encoding is no longer than a frame may
  be, encoding and framing succeed, and however the bytes of the frame are cut into pieces, the decoder accepts them
  all, delivers one frame of type \<^verbatim>\<open>Publication\<close> with its correlation, keeps nothing back, and decoding the payload of
  that frame gives the publication back.
\<close>

theorem publication_crosses_the_wire:
  assumes "publication_fits limits p" and "length (snd (encode_publication p limits)) \<le> max_frame_bytes limits"
    and "max_frame_bytes limits < 2 ^ 32" and "flags AND NOT kKnownFrameFlags = 0"
  shows "\<exists>payload bytes. encode_publication p limits = (ErrorCode.Ok, payload) \<and>
    encode_frame \<lparr>fr_type = MessageType.Publication, fr_flags = flags, fr_correlation = correlation,
      fr_payload = payload\<rparr> limits = Inr bytes \<and>
    (\<forall>pieces. concat pieces = bytes \<longrightarrow>
      (\<exists>frame. feeds pieces \<lparr>fd_limits = limits, fd_buffer = []\<rparr> =
          (ErrorCode.Ok, [frame], \<lparr>fd_limits = limits, fd_buffer = []\<rparr>) \<and>
        fr_type frame = MessageType.Publication \<and> fr_correlation frame = correlation \<and>
        decode_publication (fr_payload frame) limits = (ErrorCode.Ok, p)))"
proof -
  note codes = write_publication_wire [OF assms(1)]
  define payload where "payload = wire (write_publication p limits)"
  let ?frame = "\<lparr>fr_type = MessageType.Publication, fr_flags = flags, fr_correlation = correlation,
    fr_payload = payload\<rparr>"
  have small: "length payload \<le> max_frame_bytes limits"
    using assms(2) by (simp add: payload_def encode_publication_def encoded_checked_def wire_def Let_def)
  have encoded: "encode_publication p limits = (ErrorCode.Ok, payload)"
    using encoded_codes(2) [OF going_on_codes [OF codes]] small by (simp add: encode_publication_def payload_def)
  have decoded: "decode_publication payload limits = (ErrorCode.Ok, p)"
    using decoded_codes [OF going_on_codes [OF codes]] by (simp add: payload_def decode_publication_def)
  have framed: "encode_frame ?frame limits = Inr (frame_bytes ?frame)"
    using small assms(4) by (simp add: encode_frame_def write_frame_bytes)
  have "frame_ok limits ?frame"
    using small assms(3,4) by (simp add: frame_ok_def)
  then have "feeds pieces \<lparr>fd_limits = limits, fd_buffer = []\<rparr> =
      (ErrorCode.Ok, [?frame], \<lparr>fd_limits = limits, fd_buffer = []\<rparr>)" if "concat pieces = frame_bytes ?frame" for pieces
    using that by (intro feeds_frame) simp_all
  with encoded framed decoded show ?thesis by auto
qed

theorem publication_crosses_the_wire_witness:
  "\<exists>payload bytes. encode_publication sample_message wire_limits = (ErrorCode.Ok, payload) \<and>
    encode_frame \<lparr>fr_type = MessageType.Publication, fr_flags = 0, fr_correlation = 9, fr_payload = payload\<rparr>
      wire_limits = Inr bytes \<and>
    (\<exists>frame decoder. feeds [take 7 bytes, drop 7 bytes] \<lparr>fd_limits = wire_limits, fd_buffer = []\<rparr> =
       (ErrorCode.Ok, [frame], decoder) \<and>
      decode_publication (fr_payload frame) wire_limits = (ErrorCode.Ok, sample_message))"
proof -
  have "length (snd (encode_publication sample_message wire_limits)) \<le> max_frame_bytes wire_limits"
    using sample_message_encodes
    by (auto simp: encode_publication_def encoded_checked_def Let_def split: if_splits)
  from publication_crosses_the_wire [OF sample_message_fits this, of 0 9]
  obtain payload bytes where wired: "encode_publication sample_message wire_limits = (ErrorCode.Ok, payload)"
    "encode_frame \<lparr>fr_type = MessageType.Publication, fr_flags = 0, fr_correlation = 9, fr_payload = payload\<rparr>
      wire_limits = Inr bytes" and all: "\<And>pieces. concat pieces = bytes \<Longrightarrow>
      (\<exists>frame. feeds pieces \<lparr>fd_limits = wire_limits, fd_buffer = []\<rparr> =
          (ErrorCode.Ok, [frame], \<lparr>fd_limits = wire_limits, fd_buffer = []\<rparr>) \<and>
        fr_type frame = MessageType.Publication \<and> fr_correlation frame = 9 \<and>
        decode_publication (fr_payload frame) wire_limits = (ErrorCode.Ok, sample_message))"
    by auto
  from all [of "[take 7 bytes, drop 7 bytes]"] wired show ?thesis by auto
qed

text \<open>
  A query request whose member is within the bounds is understood as it was meant.
\<close>

theorem query_request_round_trip:
  assumes "request_fits limits request"
  shows "\<exists>payload. encode_query_request request limits = (ErrorCode.Ok, payload) \<and>
    decode_query_request payload limits = (ErrorCode.Ok, request)"
  using write_query_request_wire [OF assms] encoded_codes(1) decoded_codes
  by (fastforce simp: encode_query_request_def decode_query_request_def)

theorem query_request_round_trip_witness:
  "\<exists>payload. encode_query_request (no_request\<lparr>qreq_kind := QueryKind.Devices, qreq_device := ''d''\<rparr>) wire_limits =
     (ErrorCode.Ok, payload) \<and>
   decode_query_request payload wire_limits =
     (ErrorCode.Ok, no_request\<lparr>qreq_kind := QueryKind.Devices, qreq_device := ''d''\<rparr>)"
  by (rule query_request_round_trip) (use sample_tokens in \<open>simp add: request_fits_def no_request_def\<close>)

text \<open>
  An answer within the bounds reaches the client as the coordinator gave it, whichever query it
  answers, or is refused for its size before anything is sent.
\<close>

theorem query_response_round_trip:
  assumes "response_fits limits response"
  shows "case encode_query_response response limits of
      (status, payload) \<Rightarrow>
        if length payload \<le> max_frame_bytes limits
        then status = ErrorCode.Ok \<and> decode_query_response payload limits = (ErrorCode.Ok, response)
        else status = ErrorCode.LimitExceeded"
proof -
  note codes = write_query_response_wire [OF assms]
  have "emits (write_query_response response limits) (wire (write_query_response response limits))"
    using codes emits_wire unfolding codes_some_def by blast
  then show ?thesis
    using decoded_codes [OF codes]
    by (simp add: encode_query_response_def decode_query_response_def encoded_checked_def emits_def
        empty_writer_def)
qed

definition sample_response :: QueryResponse where
  "sample_response = no_response\<lparr>qres_kind := QueryKind.Quirks, qres_text := ''t''\<rparr>"

theorem query_response_round_trip_witness:
  "decode_query_response (snd (encode_query_response sample_response wire_limits)) wire_limits =
     (ErrorCode.Ok, sample_response)"
proof -
  have "response_fits wire_limits sample_response"
    by (simp add: response_fits_def sample_response_def no_response_def list_fits_def str_fits_def)
  moreover have "length (snd (encode_query_response sample_response wire_limits)) \<le> 1000"
    by code_simp
  ultimately show ?thesis
    using query_response_round_trip [of wire_limits sample_response] by (auto split: prod.splits if_splits)
qed

section \<open>Damage\<close>

text \<open>
  A damaged publication is refused. A payload that was cut short anywhere never decodes, and one
  that carries anything more is refused as a protocol error.
\<close>

theorem damaged_publication_is_refused:
  assumes "publication_fits limits p" and "encode_publication p limits = (ErrorCode.Ok, payload)"
  shows "(\<forall>n<length payload. fst (decode_publication (take n payload) limits) \<noteq> ErrorCode.Ok) \<and>
    (\<forall>rest. rest \<noteq> [] \<longrightarrow> fst (decode_publication (payload @ rest) limits) = ErrorCode.ProtocolError)"
proof -
  have "payload = wire (write_publication p limits)"
    using assms(2) by (simp add: encode_publication_def encoded_checked_def wire_def Let_def split: if_splits)
  then show ?thesis
    using decoded_refuses [OF publication_wire.wire_format_axioms assms(1)]
    by (simp add: decode_publication_def)
qed

theorem damaged_publication_is_refused_witness:
  "fst (decode_publication (snd (encode_publication sample_message wire_limits) @ [0]) wire_limits) =
     ErrorCode.ProtocolError"
  using damaged_publication_is_refused [OF sample_message_fits] sample_message_encodes
  by (cases "encode_publication sample_message wire_limits") simp

text \<open>
  Whatever bytes arrive, the decoder of publications reads inside them, leaves them as they are,
  and reports success only when it has read all of them.
\<close>

theorem publication_decoder_stays_inside:
  "case run_state (read_publication limits) (byte_reader data) of
     (p, reader) \<Rightarrow> br_position reader \<le> length data \<and> br_data reader = data \<and>
       (fst (decode_publication data limits) = ErrorCode.Ok \<longleftrightarrow> br_ok reader \<and> br_position reader = length data)"
proof (cases "run_state (read_publication limits) (byte_reader data)")
  case (Pair p reader)
  note sound = disciplinedD(1,2) [OF disciplined_publication byte_reader_sound Pair]
  have "br_data reader = data"
    using sound(2) by (simp add: byte_reader_def)
  then show ?thesis
    using sound(1) Pair
    by (auto simp: decode_publication_def decoded_def going_on_def br_sound_def br_exhausted_def br_status_def)
qed

text \<open>
  Frames cross the wire unchanged. Whatever the pieces a stream of encoded frames is cut into, a
  decoder that accepts all of them has delivered exactly the frames sent, in order, and has nothing
  left over.
\<close>

theorem frames_survive_fragmentation:
  assumes "list_all (frame_ok (fd_limits decoder)) sent" and "fd_buffer decoder = []"
    and "concat pieces = concat (map frame_bytes sent)"
    and "feeds pieces decoder = (ErrorCode.Ok, frames, decoder')"
  shows "frames = sent \<and> finish decoder' = ErrorCode.Ok"
  using delivered_as_sent [OF assms] by (simp add: finish_def)

theorem frames_survive_fragmentation_witness:
  "\<exists>frames decoder. feeds [frame_bytes sample_frame @ frame_bytes sample_frame]
       \<lparr>fd_limits = wire_limits, fd_buffer = []\<rparr> = (ErrorCode.Ok, frames, decoder) \<and>
     frames = [sample_frame, sample_frame] \<and> finish decoder = ErrorCode.Ok"
proof -
  let ?decoder = "\<lparr>fd_limits = wire_limits, fd_buffer = []\<rparr>"
  have "feeds [frame_bytes sample_frame @ frame_bytes sample_frame] ?decoder =
      (ErrorCode.Ok, [sample_frame, sample_frame], ?decoder)"
    using feed_stream [of wire_limits "[sample_frame, sample_frame]"] sample_frame_ok
    by (simp add: frame_bytes_length sample_frame_def kFrameHeaderSize_def)
  with frames_survive_fragmentation [OF _ _ _ this, of "[sample_frame, sample_frame]"] sample_frame_ok
  show ?thesis
    by simp
qed

text \<open>C31: a payload of which one byte was altered does not pass the check of its frame.\<close>

theorem altered_byte_is_detected:
  assumes "frame_ok limits frame" and "fr_payload frame = pre @ a # post" and "b \<noteq> a"
  shows "fst (feed (header_bytes (frame_header frame) @ pre @ b # post)
     \<lparr>fd_limits = limits, fd_buffer = []\<rparr>) = ErrorCode.IntegrityFailure"
  using feed_altered [OF assms] by simp

theorem altered_byte_is_detected_witness:
  "fst (feed (header_bytes (frame_header sample_frame) @ [1, 3]) \<lparr>fd_limits = wire_limits, fd_buffer = []\<rparr>) =
     ErrorCode.IntegrityFailure"
  using altered_byte_is_detected [OF sample_frame_ok, of "[1]" 2 "[]" 3] by (simp add: sample_frame_def)

section \<open>What does not cross\<close>

text \<open>
  When the bytes of two frames arrive together, \<^verbatim>\<open>receive_frame\<close> hands out the first one and the
  second is gone: it is neither returned nor left in the decoder.
\<close>

theorem pipelined_frame_is_lost:
  assumes "frame_ok limits first" and "frame_ok limits second"
    and "length (frame_bytes first @ frame_bytes second) \<le> max_frame_bytes limits + kFrameHeaderSize"
  shows "receive_frame (Inr (frame_bytes first @ frame_bytes second) # script)
       \<lparr>fd_limits = limits, fd_buffer = []\<rparr> =
     Some (Inr first, \<lparr>fd_limits = limits, fd_buffer = []\<rparr>, script)"
  using feed_stream [of limits "[first, second]"] assms
  by (simp add: receive_frame.simps feed_nothing)

theorem pipelined_frame_is_lost_witness:
  "receive_frame [Inr (frame_bytes sample_frame @ frame_bytes sample_frame)]
       \<lparr>fd_limits = wire_limits, fd_buffer = []\<rparr> =
     Some (Inr sample_frame, \<lparr>fd_limits = wire_limits, fd_buffer = []\<rparr>, [])"
  by (rule pipelined_frame_is_lost [OF sample_frame_ok sample_frame_ok])
    (simp add: frame_bytes_length sample_frame_def kFrameHeaderSize_def)

text \<open>
  A predicate value that validation accepts can be unreadable. A condition nested as deep as
  validation allows is encoded without complaint, and every decoder refuses the payload.
\<close>

theorem valid_predicate_is_unreadable:
  assumes "publication_fits limits p" and "1 \<le> max_record_depth limits"
    and "max_record_depth limits + 2 \<le> max_condition_nodes limits" and "1 \<le> max_condition_children limits"
    and "bad = p\<lparr>pb_capability := (pb_capability p)\<lparr>cr_value := deep_predicate limits\<rparr>\<rparr>"
    and "encode_publication bad limits = (status, payload)" and "length payload \<le> max_frame_bytes limits"
  shows "validate_value limits (deep_predicate limits) = Ok \<and> status = ErrorCode.Ok \<and>
    fst (decode_publication payload limits) = ErrorCode.LimitExceeded"
proof -
  have "refused (write_publication bad limits) (read_publication limits) ErrorCode.LimitExceeded"
    unfolding assms(5) using deep_publication_refused assms(1,2,4) by blast
  from refused_decoded [OF this] show ?thesis
    using assms(6,7) deep_predicate_valid [OF assms(3,4)]
    by (auto simp: encode_publication_def encoded_checked_def decode_publication_def Let_def)
qed

theorem valid_predicate_is_unreadable_witness:
  "\<exists>payload. encode_publication (sample_message\<lparr>pb_capability := (pb_capability sample_message)
       \<lparr>cr_value := deep_predicate wire_limits\<rparr>\<rparr>) wire_limits = (ErrorCode.Ok, payload) \<and>
     fst (decode_publication payload wire_limits) = ErrorCode.LimitExceeded"
proof -
  let ?bad = "sample_message\<lparr>pb_capability := (pb_capability sample_message)\<lparr>cr_value := deep_predicate wire_limits\<rparr>\<rparr>"
  obtain status payload where payload: "encode_publication ?bad wire_limits = (status, payload)"
    by (cases "encode_publication ?bad wire_limits")
  moreover have "length (snd (encode_publication ?bad wire_limits)) \<le> 1000"
    by code_simp
  ultimately show ?thesis
    using valid_predicate_is_unreadable [OF sample_message_fits _ _ _ refl payload] by simp
qed

text \<open>
  A list beyond its bound is cut silently. Native identifiers beyond \<^verbatim>\<open>max_native_identifiers\<close> leave
  no trace in the payload, so the publication that arrives is another one.
\<close>

theorem long_list_is_cut_silently:
  fixes p extra limits
  defines "with_identifiers \<equiv> \<lambda>ids. p\<lparr>pb_device := (pb_device p)\<lparr>reg_identity :=
    (reg_identity (pb_device p))\<lparr>di_hardware := (di_hardware (reg_identity (pb_device p)))\<lparr>
      hw_native_identifiers := ids\<rparr>\<rparr>\<rparr>\<rparr>"
  assumes "length ids = max_native_identifiers limits"
  shows "encode_publication (with_identifiers (ids @ extra)) limits =
    encode_publication (with_identifiers ids) limits"
  using assms(2)
  by (simp add: with_identifiers_def encode_publication_def write_publication_def
      write_device_registration_def write_device_identity_def write_hardware_identity_def write_list_def)

theorem long_list_is_cut_silently_witness:
  "encode_publication (sample_message\<lparr>pb_device := sample_registration\<lparr>reg_identity := sample_identity\<lparr>di_hardware :=
       sample_hardware\<lparr>hw_native_identifiers := replicate 3 (''a'', ''b'')\<rparr>\<rparr>\<rparr>\<rparr>) wire_limits =
   encode_publication (sample_message\<lparr>pb_device := sample_registration\<lparr>reg_identity := sample_identity\<lparr>di_hardware :=
       sample_hardware\<lparr>hw_native_identifiers := replicate 2 (''a'', ''b'')\<rparr>\<rparr>\<rparr>\<rparr>) wire_limits"
  using long_list_is_cut_silently [where ids = "replicate 2 (''a'', ''b'')" and limits = wire_limits and
      p = sample_message and extra = "[(''a'', ''b'')]"]
  by (simp add: sample_publication_def sample_registration_def sample_identity_def numeral_2_eq_2 numeral_3_eq_3)

text \<open>
  A malformed identity is not refused by the reader: any text that is not a canonical token becomes
  the empty identity, and reading goes on.
\<close>

theorem malformed_identity_reads_as_empty:
  assumes "\<not> is_canonical_token name" and "length name \<le> kMaxTokenLength"
  shows "run_state read_id (byte_reader (wire (wr_str name kMaxTokenLength) @ rest)) =
    ([], reader_at (wire (wr_str name kMaxTokenLength)) rest)"
proof -
  have "codes_some (wr_str name kMaxTokenLength) (rd_str kMaxTokenLength) name"
    using assms(2) by (intro wr_str_wire) (simp_all add: kMaxTokenLength_def)
  then have "decodes (rd_str kMaxTokenLength) (wire (wr_str name kMaxTokenLength)) name"
    using emits_wire unfolding codes_some_def by blast
  from decodes_run [OF this, of "[]"] show ?thesis
    using assms(1) by (simp add: read_id_def id_parse_def byte_reader_at)
qed

theorem malformed_identity_reads_as_empty_witness:
  "fst (run_state read_id (byte_reader (wire (wr_str ''A B'' kMaxTokenLength)))) = []"
proof -
  have "\<not> is_canonical_token ''A B''"
    by code_simp
  from malformed_identity_reads_as_empty [OF this, of "[]"] show ?thesis
    by (simp add: kMaxTokenLength_def)
qed

end
