(* ===== verification/Snapshots.thy ===== *)
theory Snapshots
  imports Answers
begin

text \<open>
  The summaries of \<^verbatim>\<open>registry.cpp\<close>: the subject of a device, the comparison of two devices and the
  snapshot of the whole registry, with the content digest and the staleness test of \<^verbatim>\<open>render.cpp\<close>.
\<close>

fun to_string_CapabilityDifferenceKind :: "CapabilityDifferenceKind \<Rightarrow> string" where
  "to_string_CapabilityDifferenceKind CapabilityDifferenceKind.Equivalent = ''equivalent''"
| "to_string_CapabilityDifferenceKind CapabilityDifferenceKind.OnlyInLeft = ''only-in-left''"
| "to_string_CapabilityDifferenceKind CapabilityDifferenceKind.OnlyInRight = ''only-in-right''"
| "to_string_CapabilityDifferenceKind CapabilityDifferenceKind.SupportStateDiffers = ''support-state-differs''"
| "to_string_CapabilityDifferenceKind CapabilityDifferenceKind.EffectiveSupportDiffers = ''effective-support-differs''"
| "to_string_CapabilityDifferenceKind CapabilityDifferenceKind.ValueDiffers = ''value-differs''"
| "to_string_CapabilityDifferenceKind CapabilityDifferenceKind.ConditionsDiffer = ''conditions-differ''"
| "to_string_CapabilityDifferenceKind CapabilityDifferenceKind.PrecisionDiffers = ''precision-differs''"
| "to_string_CapabilityDifferenceKind CapabilityDifferenceKind.StalenessDiffers = ''staleness-differs''"
| "to_string_CapabilityDifferenceKind CapabilityDifferenceKind.TruthClassDiffers = ''truth-class-differs''"
| "to_string_CapabilityDifferenceKind CapabilityDifferenceKind.ContradictionDiffers = ''contradiction-differs''"
| "to_string_CapabilityDifferenceKind CapabilityDifferenceKind.DriverDependentDifference = ''driver-dependent-difference''"
| "to_string_CapabilityDifferenceKind CapabilityDifferenceKind.FirmwareDependentDifference = ''firmware-dependent-difference''"
| "to_string_CapabilityDifferenceKind CapabilityDifferenceKind.RuntimeDependentDifference = ''runtime-dependent-difference''"
| "to_string_CapabilityDifferenceKind CapabilityDifferenceKind.ArchitectureMismatch = ''architecture-mismatch''"
| "to_string_CapabilityDifferenceKind CapabilityDifferenceKind.ShapeDiffers = ''shape-differs''"

section \<open>Subjects\<close>

definition tally :: "('a \<Rightarrow> bool) \<Rightarrow> 'a list \<Rightarrow> nat" where
  "tally P xs = length (filter P xs)"

definition answers_of :: "Registry \<Rightarrow> DeviceState \<Rightarrow> EnvironmentContext \<Rightarrow> ResolvedCapability list" where
  "answers_of reg device environment =
     map (\<lambda>capability. resolve_locked reg device capability 0 environment)
       (owned_capabilities reg (di_id (ds_identity device)))"

definition classify_subject :: "ResolvedCapability list \<Rightarrow> TruthClass" where
  "classify_subject answers =
     (if answers = [] then TruthClass.Unknown
      else if tally (\<lambda>r. rc_truth r = TruthClass.Real) answers \<noteq> 0 then TruthClass.Real
      else if tally (\<lambda>r. rc_truth r = TruthClass.Synthetic) answers \<noteq> 0 then TruthClass.Synthetic
      else if tally (\<lambda>r. rc_truth r = TruthClass.Unsupported) answers \<noteq> 0 then TruthClass.Unsupported
      else TruthClass.Unknown)"

definition build_subject_locked :: "Registry \<Rightarrow> DeviceState \<Rightarrow> EnvironmentContext \<Rightarrow> SubjectSnapshot" where
  "build_subject_locked reg device environment =
     (let answers = answers_of reg device environment in
      \<lparr>su_identity = ds_identity device, su_software = ds_software device, su_generation = ds_generation device,
        su_boot = ds_boot device, su_platform_generation = ds_platform_generation device,
        su_classification = classify_subject answers,
        su_capability_count = length answers,
        su_current_count = tally (\<lambda>r. rc_current r \<and> \<not> is_stale (rc_staleness r)) answers,
        su_unknown_count = tally (\<lambda>r. rc_effective_support r = EffectiveSupport.Unknown \<or>
          rc_declared_support r = SupportState.Unknown) answers,
        su_unsupported_count = tally (\<lambda>r. rc_effective_support r = EffectiveSupport.Unsupported \<or>
          rc_declared_support r = SupportState.Unsupported) answers,
        su_stale_count = tally (\<lambda>r. \<not> (rc_current r \<and> \<not> is_stale (rc_staleness r))) answers,
        su_applicable_quirk_count = sum_list (map (\<lambda>r. tally (\<lambda>q. qap_result q = QuirkApplicabilityResult.Applies)
          (rc_quirks r)) answers)\<rparr>)"

definition find_device :: "Registry \<Rightarrow> string \<Rightarrow> ErrorCode + SubjectSnapshot" where
  "find_device reg device =
     (case find_device_locked reg device of
        None \<Rightarrow> Inl ErrorCode.NotFound
      | Some state \<Rightarrow> Inr (build_subject_locked reg state []))"

definition list_devices :: "Registry \<Rightarrow> SubjectSnapshot list" where
  "list_devices reg = map (\<lambda>state. build_subject_locked reg state []) (om_values (rg_devices reg))"

section \<open>Comparison\<close>

definition view_gate_axis :: "ResolvedCapability \<Rightarrow> ConditionKind \<Rightarrow> bool" where
  "view_gate_axis view axis = condition_tree_contains (rc_conditions view) axis"

definition versus :: "string \<Rightarrow> string \<Rightarrow> string" where
  "versus a b = a @ '' vs '' @ b"

definition difference_of :: "ResolvedCapability \<Rightarrow> ResolvedCapability \<Rightarrow> CapabilityDifferenceKind \<times> string" where
  "difference_of left right =
     (if rc_effective_support left \<noteq> rc_effective_support right
      then (CapabilityDifferenceKind.EffectiveSupportDiffers,
        versus (to_string_EffectiveSupport (rc_effective_support left))
          (to_string_EffectiveSupport (rc_effective_support right)))
      else if rc_declared_support left \<noteq> rc_declared_support right
      then (CapabilityDifferenceKind.SupportStateDiffers,
        versus (to_string_SupportState (rc_declared_support left))
          (to_string_SupportState (rc_declared_support right)))
      else if \<not> value_eq (rc_value left) (rc_value right)
      then (CapabilityDifferenceKind.ValueDiffers,
        versus (value_describe (rc_value left)) (value_describe (rc_value right)))
      else if describe_condition (rc_conditions left) \<noteq> describe_condition (rc_conditions right)
      then (CapabilityDifferenceKind.ConditionsDiffer,
        versus (describe_condition (rc_conditions left)) (describe_condition (rc_conditions right)))
      else if rc_truth left \<noteq> rc_truth right
      then (CapabilityDifferenceKind.TruthClassDiffers,
        versus (to_string_TruthClass (rc_truth left)) (to_string_TruthClass (rc_truth right)))
      else if rc_contradiction left \<noteq> rc_contradiction right
      then (CapabilityDifferenceKind.ContradictionDiffers,
        versus (to_string_ContradictionState (rc_contradiction left))
          (to_string_ContradictionState (rc_contradiction right)))
      else if rc_precision left \<noteq> rc_precision right
      then (CapabilityDifferenceKind.PrecisionDiffers,
        versus (to_string_PrecisionClass (rc_precision left)) (to_string_PrecisionClass (rc_precision right)))
      else if is_stale (rc_staleness left) \<or> is_stale (rc_staleness right)
      then (CapabilityDifferenceKind.StalenessDiffers,
        versus (describe_staleness (rc_staleness left)) (describe_staleness (rc_staleness right)))
      else (CapabilityDifferenceKind.Equivalent, ''equivalent under the queried environment''))"

text \<open>A difference of declared support that a version gate explains is reported as such.\<close>

definition qualify ::
  "ResolvedCapability \<Rightarrow> ResolvedCapability \<Rightarrow> CapabilityDifferenceKind \<times> string \<Rightarrow> CapabilityDifferenceKind \<times> string"
where
  "qualify left right = (\<lambda>(kind, detail).
     let gated = (\<lambda>axis. view_gate_axis left axis \<or> view_gate_axis right axis) in
     if kind = CapabilityDifferenceKind.Equivalent \<or> rc_declared_support left = rc_declared_support right
     then (kind, detail)
     else if gated ConditionKind.MinDriverVersion
     then (CapabilityDifferenceKind.DriverDependentDifference, detail @ '' (driver-qualified)'')
     else if gated ConditionKind.MinFirmwareVersion
     then (CapabilityDifferenceKind.FirmwareDependentDifference, detail @ '' (firmware-qualified)'')
     else if gated ConditionKind.MinRuntimeVersion
     then (CapabilityDifferenceKind.RuntimeDependentDifference, detail @ '' (runtime-qualified)'')
     else (kind, detail))"

definition compare_capability ::
  "Registry \<Rightarrow> ComparisonRequest \<Rightarrow> DeviceState \<Rightarrow> DeviceState \<Rightarrow> string \<Rightarrow> CapabilityDifference" where
  "compare_capability reg request left right capability =
     (let in_left = (om_find (cmp_left request, capability) (rg_keys reg) \<noteq> None);
          in_right = (om_find (cmp_right request, capability) (rg_keys reg) \<noteq> None);
          difference = \<lparr>cd_capability = capability, cd_kind = CapabilityDifferenceKind.Equivalent,
            cd_left_effective = EffectiveSupport.Unknown, cd_right_effective = EffectiveSupport.Unknown,
            cd_detail = []\<rparr> in
      if in_left \<and> \<not> in_right
      then difference\<lparr>cd_kind := CapabilityDifferenceKind.OnlyInLeft,
        cd_detail := ''capability knowledge recorded only for '' @ cmp_left request\<rparr>
      else if \<not> in_left \<and> in_right
      then difference\<lparr>cd_kind := CapabilityDifferenceKind.OnlyInRight,
        cd_detail := ''capability knowledge recorded only for '' @ cmp_right request\<rparr>
      else
        let left_view = resolve_locked reg left capability (cmp_left_generation request) (cmp_environment request);
            right_view = resolve_locked reg right capability (cmp_right_generation request) (cmp_environment request);
            (kind, detail) = qualify left_view right_view (difference_of left_view right_view) in
        difference\<lparr>cd_kind := kind, cd_left_effective := rc_effective_support left_view,
          cd_right_effective := rc_effective_support right_view, cd_detail := detail\<rparr>)"

definition compared_capabilities :: "Registry \<Rightarrow> ComparisonRequest \<Rightarrow> string list" where
  "compared_capabilities reg request =
     fold os_insert (owned_capabilities reg (cmp_left request) @ owned_capabilities reg (cmp_right request)) []"

definition difference_precedes :: "CapabilityDifference \<Rightarrow> CapabilityDifference \<Rightarrow> bool" where
  "difference_precedes a b =
     (if cd_capability a \<noteq> cd_capability b then cd_capability a < cd_capability b
      else enum_index all_CapabilityDifferenceKind (cd_kind a) < enum_index all_CapabilityDifferenceKind (cd_kind b))"

definition software_label :: "DeviceState \<Rightarrow> string" where
  "software_label device = dr_id (sw_driver (ds_software device)) @ ''@'' @ dr_version (sw_driver (ds_software device))"

definition compare_states ::
  "Registry \<Rightarrow> ComparisonRequest \<Rightarrow> DeviceState \<Rightarrow> DeviceState \<Rightarrow> DeviceComparison" where
  "compare_states reg request left right =
     (let differences = listing (max_comparison_entries (rg_limits reg))
            (map (compare_capability reg request left right) (compared_capabilities reg request)) in
      \<lparr>dc_left = cmp_left request, dc_right = cmp_right request, dc_left_generation = ds_generation left,
        dc_right_generation = ds_generation right, dc_left_software = software_label left,
        dc_right_software = software_label right,
        dc_differences = std_sort difference_precedes differences,
        dc_equivalent = std_sort (<) (map cd_capability
          (filter (\<lambda>d. cd_kind d = CapabilityDifferenceKind.Equivalent) differences)),
        dc_explanation = ''comparison is factual: the registry reports differences, never an ordering''\<rparr>)"

definition compare_devices :: "Registry \<Rightarrow> ComparisonRequest \<Rightarrow> ErrorCode + DeviceComparison" where
  "compare_devices reg request =
     (if \<not> id_valid (cmp_left request) \<or> \<not> id_valid (cmp_right request) then Inl ErrorCode.InvalidArgument
      else case (find_device_locked reg (cmp_left request), find_device_locked reg (cmp_right request)) of
        (None, _) \<Rightarrow> Inl ErrorCode.NotFound
      | (Some _, None) \<Rightarrow> Inl ErrorCode.NotFound
      | (Some left, Some right) \<Rightarrow> Inr (compare_states reg request left right))"

section \<open>Content digests\<close>

text \<open>
  The digest functions update a running hash in place: they are lists of updates, applied in order.
  An enumerator is mixed by its number, a flag as one or zero.
\<close>

type_synonym hashing = "u64 \<Rightarrow> u64"

definition hash_line :: "string \<Rightarrow> hashing" where
  "hash_line text = fnv1a64_mix text"

definition hash_enum :: "'e list \<Rightarrow> 'e \<Rightarrow> hashing" where
  "hash_enum all x = fnv1a64_mix_u64 (word_of_nat (enum_index all x))"

definition hash_flag :: "bool \<Rightarrow> hashing" where
  "hash_flag b = fnv1a64_mix_u64 (if b then 1 else 0)"

definition hash_all :: "hashing list \<Rightarrow> hashing" where
  "hash_all updates hash = fold (\<lambda>update. update) updates hash"

definition hash_each :: "('a \<Rightarrow> hashing) \<Rightarrow> 'a list \<Rightarrow> hashing" where
  "hash_each f xs = hash_all (map f xs)"

definition hash_subject :: "SubjectSnapshot \<Rightarrow> hashing" where
  "hash_subject subject = hash_all [
     hash_line (di_id (su_identity subject)),
     hash_line (di_incarnation (su_identity subject)),
     hash_line (canonical_key (di_hardware (su_identity subject))),
     fnv1a64_mix_u64 (su_generation subject),
     fnv1a64_mix_u64 (su_boot subject),
     fnv1a64_mix_u64 (su_platform_generation subject),
     hash_enum all_TruthClass (su_classification subject)]"

definition hash_view :: "EvidenceView \<Rightarrow> hashing" where
  "hash_view view = hash_all [
     hash_line (pub_id (es_publisher (ev_source view))),
     fnv1a64_mix_u64 (pub_boot (es_publisher (ev_source view))),
     fnv1a64_mix_u64 (es_evidence_generation (ev_source view)),
     hash_enum all_SourceClass (es_source_class (ev_source view)),
     hash_flag (ev_winner view)]"

definition hash_capability :: "ResolvedCapability \<Rightarrow> hashing" where
  "hash_capability capability = hash_all [
     hash_line (rc_device capability),
     hash_line (rc_capability capability),
     hash_line (rc_schema capability),
     fnv1a64_mix_u64 (rc_capability_generation capability),
     hash_enum all_SupportState (rc_declared_support capability),
     hash_enum all_EffectiveSupport (rc_effective_support capability),
     hash_enum all_TruthClass (rc_truth capability),
     hash_enum all_ContradictionState (rc_contradiction capability),
     fnv1a64_mix_u64 (ucast (rc_staleness capability)),
     hash_line (value_describe (rc_value capability)),
     hash_line (describe_condition (rc_conditions capability)),
     hash_each hash_view (rc_evidence capability)]"

definition canonical_snapshot_digest :: "RegistrySnapshot \<Rightarrow> u64" where
  "canonical_snapshot_digest snapshot = hash_all [
     hash_line ''hcr.snapshot.v1'',
     fnv1a64_mix_u64 (sn_epoch snapshot),
     fnv1a64_mix_u64 (sn_state_revision snapshot),
     hash_each hash_subject (sn_subjects snapshot),
     hash_each hash_capability (sn_capabilities snapshot),
     hash_each (\<lambda>quirk. hash_all [hash_line (qr_id quirk), fnv1a64_mix_u64 (qr_generation quirk),
       hash_enum all_QuirkSeverity (qr_severity quirk)]) (sn_quirks snapshot),
     hash_each (\<lambda>entry. hash_all [hash_line (cf_id entry), fnv1a64_mix_u64 (cf_generation entry),
       hash_enum all_CompatibilityOutcome (cf_outcome entry)]) (sn_compatibility snapshot),
     hash_each (\<lambda>publisher. hash_all [hash_line (pub_id (pr_identity publisher)),
       fnv1a64_mix_u64 (pub_boot (pr_identity publisher)), hash_enum all_PublisherState (pr_state publisher)])
       (sn_publishers snapshot)] kFnvOffsetBasis"

section \<open>Snapshots\<close>

definition winning_views :: "ResolvedCapability list \<Rightarrow> EvidenceView list" where
  "winning_views answers = filter ev_winner (concat (map rc_evidence answers))"

definition snapshot_answers :: "Registry \<Rightarrow> ResolvedCapability list" where
  "snapshot_answers reg =
     listing (max_snapshot_records (rg_limits reg))
       (List.map_filter (\<lambda>key. case find_device_locked reg (fst key) of
            None \<Rightarrow> None
          | Some device \<Rightarrow> Some (resolve_locked reg device (snd key) 0 []))
         (om_keys (rg_keys reg)))"

definition take_snapshot :: "string \<Rightarrow> Registry \<Rightarrow> RegistrySnapshot" where
  "take_snapshot now reg =
     (let answers = snapshot_answers reg;
          winners = winning_views answers;
          asserting = filter (\<lambda>view. ev_support view \<noteq> SupportState.Unsupported) winners;
          provenance = (\<lambda>view. es_provenance (ev_source view));
          out = \<lparr>sn_generation = gen_next (rg_snapshot_generation reg), sn_epoch = rg_epoch reg,
            sn_state_revision = rg_state_revision reg, sn_created_at_utc = now,
            sn_subjects = list_devices reg, sn_capabilities = answers,
            sn_quirks = om_values (rg_quirks reg), sn_compatibility = om_values (rg_compatibility reg),
            sn_publishers = map ps_record (om_values (rg_publishers reg)),
            sn_real_statements = tally (\<lambda>view. provenance view \<notin> {ProvenanceClass.Synthetic,
              ProvenanceClass.UnknownSource}) asserting,
            sn_synthetic_statements = tally (\<lambda>view. provenance view = ProvenanceClass.Synthetic) asserting,
            sn_unsupported_statements = tally (\<lambda>view. ev_support view = SupportState.Unsupported) winners,
            sn_unknown_statements = tally (\<lambda>view. provenance view = ProvenanceClass.UnknownSource) asserting,
            sn_stale_evidence_records = tally (\<lambda>view. is_stale (ev_staleness view)) (concat (map rc_evidence answers)),
            sn_canonical_digest = 0\<rparr> in
      out\<lparr>sn_canonical_digest := canonical_snapshot_digest out\<rparr>)"

definition snapshot :: "string \<Rightarrow> Registry \<Rightarrow> (ErrorCode + RegistrySnapshot) \<times> Registry" where
  "snapshot now reg =
     (if length (rg_devices reg) > max_snapshot_records (rg_limits reg) then (Inl ErrorCode.LimitExceeded, reg)
      else (Inr (take_snapshot now reg),
        reg\<lparr>rg_snapshot_generation := gen_next (rg_snapshot_generation reg),
          rg_usage := (rg_usage reg)\<lparr>ru_snapshots_taken := ru_snapshots_taken (rg_usage reg) + 1\<rparr>\<rparr>))"

definition detect_snapshot_staleness :: "RegistrySnapshot \<Rightarrow> RegistrySnapshot \<Rightarrow> StalenessFlag" where
  "detect_snapshot_staleness older newer =
     raise_if (sn_generation older \<noteq> sn_generation newer) Stale_SupersededByNewerEvidence
       (raise_if (sn_state_revision older \<noteq> sn_state_revision newer) Stale_SupersededByNewerEvidence
         (raise_if (sn_epoch older \<noteq> sn_epoch newer) Stale_EpochSuperseded Stale_None))"

definition snapshot_is_current :: "RegistrySnapshot \<Rightarrow> RegistrySnapshot \<Rightarrow> bool" where
  "snapshot_is_current older newer \<longleftrightarrow> detect_snapshot_staleness older newer = Stale_None"

section \<open>Explanations\<close>

definition explain_capability ::
  "Registry \<Rightarrow> string \<Rightarrow> u64 \<Rightarrow> string \<Rightarrow> EnvironmentContext \<Rightarrow> bool \<Rightarrow> ErrorCode + string" where
  "explain_capability reg device pinned capability env include_evidence =
     (case query_capability reg device pinned capability env include_evidence of
        Inl code \<Rightarrow> Inl code
      | Inr resolved \<Rightarrow> Inr (rc_explanation resolved))"

end
