(* ===== verification/Summaries.thy ===== *)
theory Summaries
  imports Snapshots Samples
begin

text \<open>
  What the summaries promise: a snapshot reports one content digest for unchanged state, the counts of
  a subject partition its capabilities, and a comparison is factual, the same from both sides.
\<close>

section \<open>Snapshots\<close>

text \<open>An answer depends on the keys, the publishers, the epoch, the quirks and the limits.\<close>

lemma resolve_locked_cong:
  assumes "rg_keys reg' = rg_keys reg" and "rg_publishers reg' = rg_publishers reg"
    and "rg_epoch reg' = rg_epoch reg" and "rg_quirks reg' = rg_quirks reg" and "rg_limits reg' = rg_limits reg"
  shows "resolve_locked reg' = resolve_locked reg"
proof -
  have authority: "publisher_is_authoritative reg' = publisher_is_authoritative reg"
    using assms(2) by (intro ext) (simp add: publisher_is_authoritative_def)
  have staleness: "compute_staleness_locked reg' = compute_staleness_locked reg"
    unfolding compute_staleness_locked_def authority assms(3) by (intro ext) simp
  have quirks: "gather_quirks_locked reg' = gather_quirks_locked reg"
    using assms(4,5) by (intro ext) (simp add: gather_quirks_locked_def)
  have parts: "resolve_stale reg' = resolve_stale reg" "resolve_current reg' = resolve_current reg"
    unfolding resolve_stale_def resolve_current_def quirks by (intro ext; simp)+
  have candidates: "current_candidates reg' = current_candidates reg"
    unfolding current_candidates_def staleness by simp
  show ?thesis
    unfolding resolve_locked_def staleness assms(1) parts candidates by simp
qed

lemma snapshot_content_ignores_bookkeeping:
  fixes reg g u
  defines "reg' \<equiv> reg\<lparr>rg_snapshot_generation := g, rg_usage := u\<rparr>"
  shows "list_devices reg' = list_devices reg" and "snapshot_answers reg' = snapshot_answers reg"
proof -
  have resolve: "resolve_locked reg' = resolve_locked reg"
    by (rule resolve_locked_cong) (simp_all add: reg'_def)
  have "owned_capabilities reg' = owned_capabilities reg" "find_device_locked reg' = find_device_locked reg"
    by (intro ext; simp add: reg'_def owned_capabilities_def find_device_locked_def)+
  then have "build_subject_locked reg' = build_subject_locked reg"
    by (intro ext) (simp add: build_subject_locked_def answers_of_def resolve)
  then show "list_devices reg' = list_devices reg"
    by (simp add: list_devices_def) (simp add: reg'_def)
  have "rg_keys reg' = rg_keys reg" "rg_limits reg' = rg_limits reg"
    by (simp_all add: reg'_def)
  then show "snapshot_answers reg' = snapshot_answers reg"
    using \<open>find_device_locked reg' = find_device_locked reg\<close> unfolding snapshot_answers_def resolve by simp
qed

text \<open>
  Two snapshots of unchanged state have the same content and the same digest, and yet the first is
  never reported as current: the staleness test compares the generations, which every snapshot
  advances.
\<close>

theorem unchanged_state_same_digest_not_current:
  assumes "snapshot now reg = (Inr first, reg')" and "snapshot later reg' = (Inr second, reg'')"
  shows "sn_canonical_digest first = sn_canonical_digest second \<and>
    sn_subjects first = sn_subjects second \<and> sn_capabilities first = sn_capabilities second \<and>
    \<not> snapshot_is_current first second"
proof -
  have reg': "\<exists>u. reg' = reg\<lparr>rg_snapshot_generation := gen_next (rg_snapshot_generation reg), rg_usage := u\<rparr>"
    and first: "first = take_snapshot now reg" and second: "second = take_snapshot later reg'"
    using assms by (auto simp: snapshot_def split: if_splits)
  then obtain u where u: "reg' = reg\<lparr>rg_snapshot_generation := gen_next (rg_snapshot_generation reg), rg_usage := u\<rparr>"
    by blast
  have moved: "gen_next (gen_next (rg_snapshot_generation reg)) \<noteq> gen_next (rg_snapshot_generation reg)"
    by (simp add: gen_next_def)
  have "second = first\<lparr>sn_generation := gen_next (gen_next (rg_snapshot_generation reg)), sn_created_at_utc := later\<rparr>"
    unfolding first second u take_snapshot_def Let_def
    by (simp add: snapshot_content_ignores_bookkeeping canonical_snapshot_digest_def)
  then show ?thesis
    using moved
    by (simp add: snapshot_is_current_def detect_snapshot_staleness_def first take_snapshot_def Let_def
        raise_if_def Stale_None_def Stale_SupersededByNewerEvidence_def Stale_EpochSuperseded_def)
qed

theorem unchanged_state_same_digest_not_current_witness:
  "\<exists>first second reg. fst (snapshot [] sample_with_evidence) = Inr first \<and>
     fst (snapshot ''t'' (snd (snapshot [] sample_with_evidence))) = Inr second \<and>
     sn_canonical_digest first = sn_canonical_digest second \<and> \<not> snapshot_is_current first second"
proof -
  let ?reg = "snd (snapshot [] sample_with_evidence)"
  have "\<exists>first. snapshot [] sample_with_evidence = (Inr first, ?reg)"
    by (simp add: snapshot_def sample_with_evidence_def sample_with_device_def sample_registered_def sample_new_def
        new_registry_def empty_registry_def emplace_schema_def sample_limits_def)
  then obtain first where first: "snapshot [] sample_with_evidence = (Inr first, ?reg)"
    by blast
  have "\<exists>second. snapshot ''t'' ?reg = (Inr second, snd (snapshot ''t'' ?reg))"
    by (simp add: snapshot_def sample_with_evidence_def sample_with_device_def sample_registered_def sample_new_def
        new_registry_def empty_registry_def emplace_schema_def sample_limits_def)
  then obtain second where second: "snapshot ''t'' ?reg = (Inr second, snd (snapshot ''t'' ?reg))"
    by blast
  show ?thesis
    using unchanged_state_same_digest_not_current [OF first second] first second by (metis fst_conv)
qed

section \<open>Comparison\<close>

lemma version_range_eq_sym: "version_range_eq a b \<longleftrightarrow> version_range_eq b a"
  using version_compare_flip [of "vr_minimum a" "vr_minimum b"] version_compare_flip [of "vr_maximum a" "vr_maximum b"]
  by (auto simp: version_range_eq_def)

lemma value_eq_sym:
  "value_eq a b \<longleftrightarrow> value_eq b a" and fields_eq_sym: "fields_eq x y \<longleftrightarrow> fields_eq y x"
proof (induction a b and x y rule: value_eq_fields_eq.induct)
  case (1 a b)
  show ?case
  proof (cases a)
    case (V_Record x)
    show ?thesis
    proof (cases b)
      case y: (V_Record y)
      show ?thesis
        using 1 V_Record y by (auto simp: value_eq.simps value_index_def)
    qed (simp_all add: V_Record value_eq.simps)
  qed (cases b; auto simp: value_eq.simps version_range_eq_sym)+
next
  case (2 name v x name' v' y)
  then show ?case
    by (cases v; cases v'; auto)
next
  case (3 y)
  show ?case by (cases y) simp_all
qed simp

lemma value_eq_refl [simp]: "value_eq a a" and fields_eq_refl: "fields_eq x x"
proof -
  have "a = b \<longrightarrow> value_eq a b" and "x = y \<longrightarrow> fields_eq x y" for a b x y
  proof (induction a b and x y rule: value_eq_fields_eq.induct)
    case (1 a b)
    show ?case
      using 1 by (cases a) (auto simp: value_eq.simps version_range_eq_def)
  next
    case (2 name v x name' v' y)
    then show ?case by (cases v; cases v'; auto)
  qed simp_all
  then show "value_eq a a" "fields_eq x x" by blast+
qed

text \<open>The capabilities of a comparison are listed once, in order, and so are its differences.\<close>

lemma fold_os_insert:
  "sorted_wrt (<) acc \<Longrightarrow> sorted_wrt (<) (fold os_insert xs acc) \<and> set (fold os_insert xs acc) = set acc \<union> set xs"
  by (induction xs arbitrary: acc) (auto simp: os_insert_sorted)

lemma compared_capabilities_sorted: "sorted_wrt (<) (compared_capabilities reg request)"
  unfolding compared_capabilities_def by (rule fold_os_insert [THEN conjunct1]) simp

lemma set_compared_capabilities:
  "set (compared_capabilities reg request) =
     set (owned_capabilities reg (cmp_left request)) \<union> set (owned_capabilities reg (cmp_right request))"
  unfolding compared_capabilities_def using fold_os_insert [of "[]"] by (metis set_append set_empty sorted_wrt.simps(1) sup_bot_left)

lemma strictly_sorted_unique: "sorted_wrt (<) xs \<Longrightarrow> sorted_wrt (<) ys \<Longrightarrow> set xs = set ys \<Longrightarrow> xs = ys"
  for xs ys :: "'a::linorder list"
  by (meson sorted_list_of_set.idem_if_sorted_distinct strict_sorted_equal)

lemma cd_capability_compare [simp]: "cd_capability (compare_capability reg request left right c) = c"
  by (simp add: compare_capability_def Let_def split: prod.split)

lemma compare_states_lists:
  fixes reg request left right
  defines "differences \<equiv> map (compare_capability reg request left right)
    (take (max 1 (max_comparison_entries (rg_limits reg))) (compared_capabilities reg request))"
  shows "dc_differences (compare_states reg request left right) = differences"
    and "dc_equivalent (compare_states reg request left right) =
      map cd_capability (filter (\<lambda>d. cd_kind d = CapabilityDifferenceKind.Equivalent) differences)"
proof -
  have sorted: "sorted_wrt (\<lambda>a b. cd_capability a < cd_capability b) differences"
    using compared_capabilities_sorted [of reg request]
    by (simp add: differences_def sorted_wrt_map sorted_wrt_take)
  have "sorted_wrt (\<lambda>a b. \<not> difference_precedes b a) differences"
    by (rule sorted_wrt_mono_rel [OF _ sorted]) (auto simp: difference_precedes_def)
  then show "dc_differences (compare_states reg request left right) = differences"
    by (simp add: compare_states_def listing_def differences_def take_map std_sort_sorted Let_def)
  have "sorted_wrt (<) (map cd_capability (filter P differences))" for P
    using sorted_wrt_filter [OF sorted, of P] by (simp add: sorted_wrt_map)
  then have "sorted_wrt (\<lambda>a b. \<not> b < a) (map cd_capability (filter P differences))" for P
    by (rule sorted_wrt_mono_rel [rotated]) auto
  then show "dc_equivalent (compare_states reg request left right) =
      map cd_capability (filter (\<lambda>d. cd_kind d = CapabilityDifferenceKind.Equivalent) differences)"
    by (simp add: compare_states_def listing_def differences_def take_map std_sort_sorted Let_def)
qed

lemma compare_devicesE:
  assumes "compare_devices reg request = Inr c"
  obtains left right where "find_device_locked reg (cmp_left request) = Some left"
    "find_device_locked reg (cmp_right request) = Some right" "c = compare_states reg request left right"
  using assms by (auto simp: compare_devices_def split: if_splits option.splits)

fun mirrored :: "CapabilityDifferenceKind \<Rightarrow> CapabilityDifferenceKind" where
  "mirrored CapabilityDifferenceKind.OnlyInLeft = CapabilityDifferenceKind.OnlyInRight"
| "mirrored CapabilityDifferenceKind.OnlyInRight = CapabilityDifferenceKind.OnlyInLeft"
| "mirrored kind = kind"

definition turned :: "ComparisonRequest \<Rightarrow> ComparisonRequest" where
  "turned request = request\<lparr>cmp_left := cmp_right request, cmp_right := cmp_left request,
     cmp_left_generation := cmp_right_generation request, cmp_right_generation := cmp_left_generation request\<rparr>"

lemma difference_kind_sym:
  "fst (qualify right left (difference_of right left)) = fst (qualify left right (difference_of left right))"
proof -
  have "fst (difference_of right left) = fst (difference_of left right)"
    unfolding difference_of_def value_eq_sym [of "rc_value right"] by (simp add: disj_commute eq_commute)
  then show ?thesis
    by (auto simp: qualify_def Let_def split: prod.splits)
qed

lemma qualified_kind_mirrored [simp]:
  "mirrored (fst (qualify left right (difference_of left right))) = fst (qualify left right (difference_of left right))"
  by (simp add: qualify_def difference_of_def Let_def)

lemma compare_capability_turned:
  "cd_kind (compare_capability reg (turned request) right left c) =
     mirrored (cd_kind (compare_capability reg request left right c))"
proof -
  have "fst (qualify right left (difference_of right left)) =
      mirrored (fst (qualify left right (difference_of left right)))" for left right
    using difference_kind_sym by simp
  then show ?thesis
    by (auto simp: compare_capability_def turned_def Let_def split_beta)
qed

text \<open>
  A comparison is a statement of facts, the same from both sides. Asking with the devices exchanged
  reports the same capabilities with the same kinds of difference, only left and right exchanged, and
  the same list of equivalent capabilities.
\<close>

theorem comparison_is_symmetric:
  assumes "compare_devices reg request = Inr c" and "compare_devices reg (turned request) = Inr c'"
  shows "map (\<lambda>d. (cd_capability d, cd_kind d)) (dc_differences c') =
      map (\<lambda>d. (cd_capability d, mirrored (cd_kind d))) (dc_differences c) \<and>
    dc_equivalent c' = dc_equivalent c"
proof -
  obtain left right where c: "find_device_locked reg (cmp_left request) = Some left"
      "find_device_locked reg (cmp_right request) = Some right" "c = compare_states reg request left right"
    using assms(1) by (rule compare_devicesE)
  obtain right' left' where "find_device_locked reg (cmp_right request) = Some right'"
      "find_device_locked reg (cmp_left request) = Some left'" "c' = compare_states reg (turned request) right' left'"
    using assms(2) by (rule compare_devicesE) (simp add: turned_def)
  with c have c': "c' = compare_states reg (turned request) right left"
    by simp
  have "compared_capabilities reg (turned request) = compared_capabilities reg request"
    by (rule strictly_sorted_unique [OF compared_capabilities_sorted compared_capabilities_sorted])
      (auto simp: set_compared_capabilities turned_def)
  moreover have "mirrored kind = CapabilityDifferenceKind.Equivalent \<longleftrightarrow> kind = CapabilityDifferenceKind.Equivalent" for kind
    by (cases kind) simp_all
  ultimately show ?thesis
    unfolding c(3) c' compare_states_lists
    by (simp add: compare_capability_turned filter_map comp_def)
qed

definition sample_pair :: Registry where
  "sample_pair = sample_with_evidence\<lparr>rg_devices := [(''d'', sample_device), (''e'', sample_device\<lparr>ds_identity :=
     sample_identity\<lparr>di_id := ''e''\<rparr>\<rparr>)]\<rparr>"

definition sample_comparison :: ComparisonRequest where
  "sample_comparison = \<lparr>cmp_left = ''d'', cmp_right = ''e'', cmp_left_generation = 0, cmp_right_generation = 0,
     cmp_environment = []\<rparr>"

theorem comparison_is_symmetric_witness:
  "\<exists>c c'. compare_devices sample_pair sample_comparison = Inr c \<and>
     compare_devices sample_pair (turned sample_comparison) = Inr c' \<and>
     map cd_kind (dc_differences c) = [CapabilityDifferenceKind.OnlyInLeft] \<and>
     map (\<lambda>d. (cd_capability d, cd_kind d)) (dc_differences c') = [(''c'', CapabilityDifferenceKind.OnlyInRight)]"
proof -
  have "map_sum id (\<lambda>c. map (\<lambda>d. (cd_capability d, cd_kind d)) (dc_differences c)) (compare_devices sample_pair sample_comparison) =
      Inr [(''c'', CapabilityDifferenceKind.OnlyInLeft)]"
    by code_simp
  then obtain c where c: "compare_devices sample_pair sample_comparison = Inr c"
      "map (\<lambda>d. (cd_capability d, cd_kind d)) (dc_differences c) = [(''c'', CapabilityDifferenceKind.OnlyInLeft)]"
    by (cases "compare_devices sample_pair sample_comparison") auto
  have "\<not> isl (compare_devices sample_pair (turned sample_comparison))"
    by code_simp
  then obtain c' where c': "compare_devices sample_pair (turned sample_comparison) = Inr c'"
    by (cases "compare_devices sample_pair (turned sample_comparison)") auto
  show ?thesis
    using comparison_is_symmetric [OF c(1) c'] c c' by auto
qed

text \<open>
  A device compared with itself never differs, except that a stale answer is reported as a
  difference of staleness although both sides are equally stale.
\<close>

theorem self_comparison_differs_only_when_stale:
  assumes "compare_devices reg \<lparr>cmp_left = d, cmp_right = d, cmp_left_generation = g, cmp_right_generation = g,
      cmp_environment = env\<rparr> = Inr c"
    and "difference \<in> set (dc_differences c)" and "find_device_locked reg d = Some device"
  shows "cd_kind difference =
    (if is_stale (rc_staleness (resolve_locked reg device (cd_capability difference) g env))
     then CapabilityDifferenceKind.StalenessDiffers else CapabilityDifferenceKind.Equivalent)"
proof -
  let ?request = "\<lparr>cmp_left = d, cmp_right = d, cmp_left_generation = g, cmp_right_generation = g, cmp_environment = env\<rparr>"
  have c: "c = compare_states reg ?request device device"
    using assms(1,3) by (auto elim!: compare_devicesE)
  obtain capability where "difference = compare_capability reg ?request device device capability"
    using assms(2) unfolding c compare_states_lists by auto
  then show ?thesis
    by (simp add: compare_capability_def Let_def split_beta qualify_def difference_of_def)
qed

theorem self_comparison_differs_only_when_stale_witness:
  "\<exists>c. compare_devices sample_next_generation (sample_comparison\<lparr>cmp_right := ''d''\<rparr>) = Inr c \<and>
     (\<forall>difference\<in>set (dc_differences c). cd_kind difference =
       (if is_stale (rc_staleness (resolve_locked sample_next_generation (sample_device\<lparr>ds_generation := 2, ds_boot := 2\<rparr>)
          (cd_capability difference) 0 []))
        then CapabilityDifferenceKind.StalenessDiffers else CapabilityDifferenceKind.Equivalent))"
proof -
  have request: "sample_comparison\<lparr>cmp_right := ''d''\<rparr> = \<lparr>cmp_left = ''d'', cmp_right = ''d'', cmp_left_generation = 0,
      cmp_right_generation = 0, cmp_environment = []\<rparr>"
    by (simp add: sample_comparison_def)
  have device: "find_device_locked sample_next_generation ''d'' = Some (sample_device\<lparr>ds_generation := 2, ds_boot := 2\<rparr>)"
    by (simp add: find_device_locked_def sample_next_generation_def om_find_def)
  have "\<not> isl (compare_devices sample_next_generation (sample_comparison\<lparr>cmp_right := ''d''\<rparr>))"
    by code_simp
  then obtain c where c: "compare_devices sample_next_generation (sample_comparison\<lparr>cmp_right := ''d''\<rparr>) = Inr c"
    by (cases "compare_devices sample_next_generation (sample_comparison\<lparr>cmp_right := ''d''\<rparr>)") auto
  show ?thesis
    using self_comparison_differs_only_when_stale [OF c [unfolded request] _ device] c by blast
qed

end
