(* ===== verification/Durable.thy ===== *)
theory Durable
  imports Snapshots
begin

text \<open>
  Durable state: what a registry exports, and the import that restores it after a restart
  (\<^verbatim>\<open>include/hcr/durable_state.hpp\<close>, \<^verbatim>\<open>export_durable_state\<close> and \<^verbatim>\<open>import_durable_state\<close> of
  \<^verbatim>\<open>registry.cpp\<close>, \<^verbatim>\<open>canonical_durable_digest\<close> of \<^verbatim>\<open>render.cpp\<close>). Import validates everything into
  staged containers and only then commits.
\<close>

section \<open>The state that is kept\<close>

record DurableStateHeader =
  dh_format_version :: u32
  dh_epoch :: u64
  dh_snapshot_generation :: u64
  dh_state_revision :: u64
  dh_created_at_utc :: string
  dh_producer :: string

record DurableState =
  du_header :: DurableStateHeader
  du_platforms :: "PlatformIdentity list"
  du_subjects :: "SubjectSnapshot list"
  du_schemas :: "CapabilitySchema list"
  du_capability_history :: "CapabilityRecord list"
  du_quirks :: "QuirkRecord list"
  du_compatibility :: "CompatibilityFact list"
  du_publisher_watermarks :: "PublisherWatermark list"
  du_fenced_boots :: "PublisherWatermark list"
  du_canonical_digest :: u64

record ImportReport =
  ir_applied :: bool
  ir_subjects :: nat
  ir_schemas :: nat
  ir_capability_records :: nat
  ir_revalidated_records :: nat
  ir_quirks :: nat
  ir_compatibility_facts :: nat
  ir_publishers :: nat
  ir_fenced_boots :: nat
  ir_detail :: string

definition no_report :: ImportReport where
  "no_report = \<lparr>ir_applied = False, ir_subjects = 0, ir_schemas = 0, ir_capability_records = 0,
     ir_revalidated_records = 0, ir_quirks = 0, ir_compatibility_facts = 0, ir_publishers = 0,
     ir_fenced_boots = 0, ir_detail = []\<rparr>"

definition state_format_version :: u32 where
  "state_format_version = 1"

definition version_string :: string where
  "version_string = ''1.0.0''"

section \<open>The content digest\<close>

definition hash_durable_subject :: "SubjectSnapshot \<Rightarrow> hashing" where
  "hash_durable_subject subject = hash_all [
     hash_line (di_id (su_identity subject)),
     hash_line (di_incarnation (su_identity subject)),
     hash_line (canonical_key (di_hardware (su_identity subject))),
     hash_line (di_platform (su_identity subject)),
     hash_line (di_display_name (su_identity subject)),
     fnv1a64_mix_u64 (su_generation subject),
     fnv1a64_mix_u64 (su_boot subject),
     fnv1a64_mix_u64 (su_platform_generation subject),
     hash_line (dr_id (sw_driver (su_software subject))),
     hash_line (dr_version (sw_driver (su_software subject))),
     hash_line (fw_id (sw_firmware (su_software subject))),
     hash_line (fw_version (sw_firmware (su_software subject))),
     hash_line (rt_id (sw_runtime (su_software subject))),
     hash_line (rt_version (sw_runtime (su_software subject)))]"

definition hash_record :: "CapabilityRecord \<Rightarrow> hashing" where
  "hash_record record = hash_all [
     hash_line (cr_device record),
     hash_line (cr_capability record),
     hash_line (cr_schema record),
     fnv1a64_mix_u64 (cr_device_generation record),
     fnv1a64_mix_u64 (cr_device_boot record),
     fnv1a64_mix_u64 (cr_capability_generation record),
     hash_enum all_SupportState (cr_support record),
     hash_enum all_PrecisionClass (cr_precision record),
     hash_line (value_describe (cr_value record)),
     hash_line (describe_condition (cr_conditions record)),
     hash_line (pub_id (es_publisher (cr_source record))),
     fnv1a64_mix_u64 (pub_boot (es_publisher (cr_source record))),
     fnv1a64_mix_u64 (pub_epoch (es_publisher (cr_source record))),
     fnv1a64_mix_u64 (es_evidence_generation (cr_source record)),
     hash_enum all_SourceClass (es_source_class (cr_source record)),
     hash_enum all_ProvenanceClass (es_provenance (cr_source record)),
     hash_line (es_adapter (cr_source record)),
     hash_line (es_native_reference (cr_source record)),
     fnv1a64_mix_u64 (es_observation_sequence (cr_source record)),
     hash_line (cr_driver_id record),
     hash_line (cr_firmware_id record),
     hash_line (cr_runtime_id record),
     fnv1a64_mix_u64 (cr_driver_generation record),
     fnv1a64_mix_u64 (cr_firmware_generation record),
     fnv1a64_mix_u64 (cr_runtime_generation record),
     hash_flag (cr_withdrawn record)]"

definition hash_durable_quirk :: "QuirkRecord \<Rightarrow> hashing" where
  "hash_durable_quirk quirk = hash_all [
     hash_line (qr_id quirk),
     fnv1a64_mix_u64 (qr_generation quirk),
     hash_line (qr_title quirk),
     hash_enum all_QuirkSeverity (qr_severity quirk),
     hash_enum all_QuirkCategory (qr_category quirk),
     hash_each hash_line (qr_impacted_capabilities quirk)]"

definition hash_durable_fact :: "CompatibilityFact \<Rightarrow> hashing" where
  "hash_durable_fact entry = hash_all [
     hash_line (cf_id entry),
     fnv1a64_mix_u64 (cf_generation entry),
     hash_enum all_CompatibilitySubjectKind (cf_kind entry),
     hash_enum all_CompatibilityOutcome (cf_outcome entry),
     hash_line (hr_token (cf_lhs entry)),
     hash_line (hr_token (cf_rhs entry)),
     hash_line (cf_reason entry)]"

definition canonical_durable_digest :: "DurableState \<Rightarrow> u64" where
  "canonical_durable_digest state = hash_all [
     hash_line ''hcr.durable.v1'',
     fnv1a64_mix_u64 (ucast (dh_format_version (du_header state))),
     fnv1a64_mix_u64 (dh_epoch (du_header state)),
     fnv1a64_mix_u64 (dh_snapshot_generation (du_header state)),
     fnv1a64_mix_u64 (dh_state_revision (du_header state)),
     hash_line (dh_created_at_utc (du_header state)),
     hash_line (dh_producer (du_header state)),
     hash_each (\<lambda>platform. hash_all [hash_line (pf_id platform), hash_line (pf_display_name platform),
       hash_line (pf_architecture platform)]) (du_platforms state),
     hash_each hash_durable_subject (du_subjects state),
     hash_each (\<lambda>schema. hash_all [hash_line (cs_id schema), hash_line (cs_capability schema),
       hash_enum all_ValueKind (cs_value_kind schema)]) (du_schemas state),
     hash_each hash_record (du_capability_history state),
     hash_each hash_durable_quirk (du_quirks state),
     hash_each hash_durable_fact (du_compatibility state),
     hash_each (\<lambda>watermark. hash_all [hash_line (wm_publisher watermark), fnv1a64_mix_u64 (wm_boot watermark),
       fnv1a64_mix_u64 (wm_max_sequence watermark), fnv1a64_mix_u64 (wm_max_evidence_generation watermark),
       hash_enum all_PublisherState (wm_state watermark)]) (du_publisher_watermarks state),
     hash_each (\<lambda>fenced. hash_all [hash_line (wm_publisher fenced), fnv1a64_mix_u64 (wm_boot fenced)])
       (du_fenced_boots state)] kFnvOffsetBasis"

section \<open>Export\<close>

definition history_precedes :: "CapabilityRecord \<Rightarrow> CapabilityRecord \<Rightarrow> bool" where
  "history_precedes a b =
     (let publisher = (\<lambda>r. pub_id (es_publisher (cr_source r))) in
      if cr_device a \<noteq> cr_device b then cr_device a < cr_device b
      else if cr_capability a \<noteq> cr_capability b then cr_capability a < cr_capability b
      else if cr_capability_generation a \<noteq> cr_capability_generation b
      then cr_capability_generation a < cr_capability_generation b
      else if publisher a \<noteq> publisher b then publisher a < publisher b
      else es_observation_sequence (cr_source a) < es_observation_sequence (cr_source b))"

definition watermark_precedes :: "PublisherWatermark \<Rightarrow> PublisherWatermark \<Rightarrow> bool" where
  "watermark_precedes a b =
     (if wm_publisher a \<noteq> wm_publisher b then wm_publisher a < wm_publisher b else wm_boot a < wm_boot b)"

definition fenced_watermark :: "string \<Rightarrow> u64 \<Rightarrow> string \<Rightarrow> PublisherWatermark" where
  "fenced_watermark pid boot reason = empty_watermark\<lparr>wm_publisher := pid, wm_boot := boot,
     wm_state := PublisherState.Fenced, wm_reason := reason\<rparr>"

definition exported_fences :: "string \<Rightarrow> PublisherStateInternal \<Rightarrow> PublisherWatermark list" where
  "exported_fences pid publisher =
     (let current = pub_boot (pr_identity (ps_record publisher)) in
      map (\<lambda>boot. fenced_watermark pid boot ''boot superseded or fenced'')
        (filter (\<lambda>boot. boot \<noteq> current) (ps_fenced_boots publisher)) @
      (if ps_publisher_fenced publisher \<and> gen_valid current
       then [fenced_watermark pid current (pr_reason (ps_record publisher))] else []))"

text \<open>What the image holds before it is sealed with its digest.\<close>

definition exported_state :: "string \<Rightarrow> Registry \<Rightarrow> DurableState" where
  "exported_state now reg = \<lparr>
     du_header = \<lparr>dh_format_version = state_format_version, dh_epoch = rg_epoch reg,
       dh_snapshot_generation = rg_snapshot_generation reg, dh_state_revision = rg_state_revision reg,
       dh_created_at_utc = now, dh_producer = ''HardwareCapabilityRegistry '' @ version_string\<rparr>,
     du_platforms = std_sort (\<lambda>a b. pf_id a < pf_id b) (om_values (rg_platforms reg)),
     du_subjects = std_sort (\<lambda>a b. di_id (su_identity a) < di_id (su_identity b)) (list_devices reg),
     du_schemas = om_values (rg_schemas reg),
     du_capability_history = std_sort history_precedes
       (concat (map (\<lambda>key. map st_record (ks_records key)) (om_values (rg_keys reg)))),
     du_quirks = std_sort (\<lambda>a b. qr_id a < qr_id b) (om_values (rg_quirks reg)),
     du_compatibility = std_sort (\<lambda>a b. cf_id a < cf_id b) (om_values (rg_compatibility reg)),
     du_publisher_watermarks = std_sort watermark_precedes
       (map (\<lambda>(pid, publisher). watermark_for pid publisher) (rg_publishers reg)),
     du_fenced_boots = std_sort watermark_precedes
       (concat (map (\<lambda>(pid, publisher). exported_fences pid publisher) (rg_publishers reg))),
     du_canonical_digest = 0\<rparr>"

definition export_durable_state :: "string \<Rightarrow> Registry \<Rightarrow> DurableState" where
  "export_durable_state now reg =
     (let state = exported_state now reg in state\<lparr>du_canonical_digest := canonical_durable_digest state\<rparr>)"

section \<open>Import: staging\<close>

text \<open>A loop that leaves the function with the first failure.\<close>

fun fold_checked :: "('a \<Rightarrow> 's \<Rightarrow> ErrorCode + 's) \<Rightarrow> 'a list \<Rightarrow> 's \<Rightarrow> ErrorCode + 's" where
  "fold_checked f [] s = Inr s"
| "fold_checked f (x # xs) s = (case f x s of Inl code \<Rightarrow> Inl code | Inr s' \<Rightarrow> fold_checked f xs s')"

definition check_header :: "Registry \<Rightarrow> DurableState \<Rightarrow> Status" where
  "check_header reg state =
     (let limits = rg_limits reg in
      if dh_format_version (du_header state) \<noteq> state_format_version then ErrorCode.UnsupportedVersion
      else if du_canonical_digest state \<noteq> 0 \<and> canonical_durable_digest state \<noteq> du_canonical_digest state
      then ErrorCode.IntegrityFailure
      else if length (du_subjects state) > max_devices limits then ErrorCode.LimitExceeded
      else if length (du_capability_history state) > max_evidence_history limits then ErrorCode.LimitExceeded
      else if length (du_quirks state) > max_quirks limits then ErrorCode.LimitExceeded
      else if length (du_compatibility state) > max_compatibility_facts limits then ErrorCode.LimitExceeded
      else if length (du_publisher_watermarks state) > max_publishers limits * 64 then ErrorCode.LimitExceeded
      else ErrorCode.Ok)"

record StagedSubjects =
  sg_devices :: "(string, DeviceState) omap"
  sg_families :: "string oset"
  sg_models :: "string oset"
  sg_architectures :: "string oset"

definition restored_device :: "SubjectSnapshot \<Rightarrow> DeviceState" where
  "restored_device subject = \<lparr>ds_identity = su_identity subject, ds_software = su_software subject,
     ds_generation = su_generation subject, ds_boot = su_boot subject,
     ds_platform_generation = (if gen_valid (su_platform_generation subject) then su_platform_generation subject
       else gen_first)\<rparr>"

definition stage_subject :: "RegistryLimits \<Rightarrow> SubjectSnapshot \<Rightarrow> StagedSubjects \<Rightarrow> ErrorCode + StagedSubjects" where
  "stage_subject limits subject staged =
     (let identity = su_identity subject;
          hardware = di_hardware identity;
          validation = validate_device_identity identity limits in
      if \<not> id_valid (di_id identity) \<or> \<not> id_valid (di_incarnation identity) then Inl ErrorCode.InvalidIdentity
      else if \<not> gen_valid (su_generation subject) \<or> \<not> gen_valid (su_boot subject)
      then Inl ErrorCode.InvalidIdentity
      else if \<not> ok validation then Inl validation
      else if om_find (di_id identity) (sg_devices staged) \<noteq> None then Inl ErrorCode.InvalidIdentity
      else if id_valid (hw_family hardware) \<and> length (sg_families staged) \<ge> max_families limits \<and>
              hw_family hardware \<notin> set (sg_families staged)
      then Inl ErrorCode.LimitExceeded
      else Inr \<lparr>
        sg_devices = om_emplace (di_id identity) (restored_device subject) (sg_devices staged),
        sg_families = insert_valid (hw_family hardware) (sg_families staged),
        sg_models = insert_valid (hw_model hardware) (sg_models staged),
        sg_architectures = insert_valid (hw_architecture hardware) (sg_architectures staged)\<rparr>)"

definition stage_platform ::
  "PlatformIdentity \<Rightarrow> (string, PlatformIdentity) omap \<Rightarrow> ErrorCode + (string, PlatformIdentity) omap" where
  "stage_platform platform staged =
     (if \<not> id_valid (pf_id platform) then Inl ErrorCode.InvalidIdentity
      else Inr (om_emplace (pf_id platform) platform staged))"

type_synonym StagedSchemas = "(string, CapabilitySchema) omap \<times> (string, string) omap"

definition same_schema :: "CapabilitySchema \<Rightarrow> CapabilitySchema \<Rightarrow> bool" where
  "same_schema a b \<longleftrightarrow> cs_capability a = cs_capability b \<and> cs_value_kind a = cs_value_kind b \<and>
     cs_domain a = cs_domain b \<and> cs_canonical_name a = cs_canonical_name b \<and> cs_unit a = cs_unit b"

definition stage_schema :: "RegistryLimits \<Rightarrow> CapabilitySchema \<Rightarrow> StagedSchemas \<Rightarrow> ErrorCode + StagedSchemas" where
  "stage_schema limits schema = (\<lambda>(schemas, bindings).
     let validation = validate_capability_schema schema limits in
     if \<not> ok validation then Inl validation
     else case om_find (cs_id schema) schemas of
       Some existing \<Rightarrow>
         if \<not> same_schema existing schema then Inl ErrorCode.DuplicateConflict else Inr (schemas, bindings)
     | None \<Rightarrow>
         if om_find (cs_capability schema) bindings \<noteq> None then Inl ErrorCode.DuplicateConflict
         else Inr (om_emplace (cs_id schema) schema schemas, om_emplace (cs_capability schema) (cs_id schema) bindings))"

record StagedRecords =
  sr_keys :: "(KeyId, KeyState) omap"
  sr_records :: nat
  sr_revalidated :: nat
  sr_next_serial :: u64

text \<open>The source slot, as import spells it.\<close>

definition restored_slot :: "CapabilityRecord \<Rightarrow> string" where
  "restored_slot record =
     (let source = cr_source record in
      pub_id (es_publisher source) @ ''#'' @ u64_to_string (pub_boot (es_publisher source)) @ ''#'' @
      to_string_SourceClass (es_source_class source) @ ''#'' @ es_native_reference source @ ''#'' @
      to_string_PrecisionClass (cr_precision record))"

definition check_record ::
  "RegistryLimits \<Rightarrow> (string, DeviceState) omap \<Rightarrow> (string, CapabilitySchema) omap \<Rightarrow> CapabilityRecord \<Rightarrow> Status" where
  "check_record limits devices schemas record =
     (let validation = validate_capability_record record limits in
      if \<not> ok validation then validation
      else case om_find (cr_device record) devices of
        None \<Rightarrow> ErrorCode.InvalidReference
      | Some device \<Rightarrow>
          (case om_find (cr_schema record) schemas of
             None \<Rightarrow> ErrorCode.InvalidCapability
           | Some schema \<Rightarrow>
               if cs_capability schema \<noteq> cr_capability record then ErrorCode.InvalidCapability
               else if cr_device_generation record > ds_generation device then ErrorCode.StaleDeviceGeneration
               else if value_empty (cr_value record) then ErrorCode.Ok
               else validate_value limits (cr_value record)))"

definition restore_record :: "u64 \<Rightarrow> CapabilityRecord \<Rightarrow> KeyState \<Rightarrow> KeyState" where
  "restore_record serial record key =
     (let stored = \<lparr>st_record = record, st_persistent = Stale_None, st_slot = restored_slot record,
            st_serial = serial\<rparr> in
      key\<lparr>ks_schema := (if id_valid (ks_schema key) then ks_schema key else cr_schema record),
          ks_generation := (if gen_valid (cr_capability_generation record) then cr_capability_generation record
            else ks_generation key),
          ks_has_evidence := True,
          ks_records := map (supersede_slot (restored_slot record)) (ks_records key) @ [stored]\<rparr>)"

text \<open>One record: the serial counter belongs to the registry itself and is not rolled back.\<close>

definition stage_record ::
  "RegistryLimits \<Rightarrow> (string, DeviceState) omap \<Rightarrow> (string, CapabilitySchema) omap \<Rightarrow> CapabilityRecord \<Rightarrow>
   StagedRecords \<Rightarrow> Status \<times> StagedRecords" where
  "stage_record limits devices schemas record staged =
     (let status = check_record limits devices schemas record;
          key = (case om_find (key_of record) (sr_keys staged) of None \<Rightarrow> empty_key_state | Some key \<Rightarrow> key) in
      if \<not> ok status then (status, staged)
      else if id_valid (ks_schema key) \<and> ks_schema key \<noteq> cr_schema record then (ErrorCode.InvalidCapability, staged)
      else if gen_valid (cr_capability_generation record) \<and> gen_valid (ks_generation key) \<and>
              cr_capability_generation record < ks_generation key
      then (ErrorCode.GenerationRegression, staged)
      else (ErrorCode.Ok, staged\<lparr>
        sr_keys := om_put (key_of record) (restore_record (sr_next_serial staged + 1) record key) (sr_keys staged),
        sr_records := sr_records staged + 1,
        sr_revalidated := sr_revalidated staged +
          (if provenance_is_durable (es_provenance (cr_source record)) then 0 else 1),
        sr_next_serial := sr_next_serial staged + 1\<rparr>))"

fun stage_records ::
  "RegistryLimits \<Rightarrow> (string, DeviceState) omap \<Rightarrow> (string, CapabilitySchema) omap \<Rightarrow> CapabilityRecord list \<Rightarrow>
   StagedRecords \<Rightarrow> Status \<times> StagedRecords" where
  "stage_records limits devices schemas [] staged = (ErrorCode.Ok, staged)"
| "stage_records limits devices schemas (record # records) staged =
     (case stage_record limits devices schemas record staged of
        (status, staged') \<Rightarrow>
          if \<not> ok status then (status, staged') else stage_records limits devices schemas records staged')"

definition stage_quirk ::
  "RegistryLimits \<Rightarrow> (string, string) omap \<Rightarrow> QuirkRecord \<Rightarrow> (string, QuirkRecord) omap \<Rightarrow>
   ErrorCode + (string, QuirkRecord) omap" where
  "stage_quirk limits bindings quirk staged =
     (let validation = validate_quirk_record quirk limits in
      if \<not> ok validation then Inl validation
      else if \<not> list_all (\<lambda>capability. om_find capability bindings \<noteq> None) (qr_impacted_capabilities quirk)
      then Inl ErrorCode.InvalidReference
      else if om_find (qr_id quirk) staged \<noteq> None then Inl ErrorCode.DuplicateConflict
      else Inr (om_emplace (qr_id quirk) quirk staged))"

definition staged_reference_resolves ::
  "StagedSubjects \<Rightarrow> (string, PlatformIdentity) omap \<Rightarrow> HardwareReference \<Rightarrow> bool" where
  "staged_reference_resolves subjects platforms reference =
     (let token = id_parse (hr_token reference) in
      case hr_kind reference of
        ReferenceKind.Device \<Rightarrow> om_find token (sg_devices subjects) \<noteq> None
      | ReferenceKind.Platform \<Rightarrow> om_find token platforms \<noteq> None
      | ReferenceKind.HardwareFamily \<Rightarrow> token \<in> set (sg_families subjects)
      | ReferenceKind.HardwareModel \<Rightarrow> token \<in> set (sg_models subjects)
      | ReferenceKind.Architecture \<Rightarrow> token \<in> set (sg_architectures subjects)
      | _ \<Rightarrow> True)"

definition stage_fact ::
  "RegistryLimits \<Rightarrow> StagedSubjects \<Rightarrow> (string, PlatformIdentity) omap \<Rightarrow> CompatibilityFact \<Rightarrow>
   (string, CompatibilityFact) omap \<Rightarrow> ErrorCode + (string, CompatibilityFact) omap" where
  "stage_fact limits subjects platforms entry staged =
     (let validation = validate_compatibility_fact entry limits in
      if \<not> ok validation then Inl validation
      else if \<not> staged_reference_resolves subjects platforms (cf_lhs entry) \<or>
              \<not> staged_reference_resolves subjects platforms (cf_rhs entry)
      then Inl ErrorCode.InvalidReference
      else if om_find (cf_id entry) staged \<noteq> None then Inl ErrorCode.DuplicateConflict
      else Inr (om_emplace (cf_id entry) entry staged))"

definition staged_publisher :: "string \<Rightarrow> (string, PublisherStateInternal) omap \<Rightarrow> PublisherStateInternal" where
  "staged_publisher pid staged =
     (case om_find pid staged of None \<Rightarrow> empty_publisher_state | Some publisher \<Rightarrow> publisher)"

definition adopt_watermark :: "PublisherWatermark \<Rightarrow> PublisherRecord \<Rightarrow> PublisherRecord" where
  "adopt_watermark watermark record =
     (if id_valid (pub_id (pr_identity record)) then record
      else record\<lparr>pr_identity := (pr_identity record)\<lparr>pub_id := wm_publisher watermark, pub_boot := wm_boot watermark\<rparr>,
        pr_adapter := wm_adapter watermark, pr_registered_at_utc := wm_registered_at_utc watermark,
        pr_accepted := wm_accepted watermark, pr_rejected := wm_rejected watermark,
        pr_max_evidence_generation := wm_max_evidence_generation watermark\<rparr>)"

definition stage_watermark ::
  "PublisherWatermark \<Rightarrow> (string, PublisherStateInternal) omap \<Rightarrow> ErrorCode + (string, PublisherStateInternal) omap"
where
  "stage_watermark watermark staged =
     (let publisher = staged_publisher (wm_publisher watermark) staged in
      if \<not> id_valid (wm_publisher watermark) then Inl ErrorCode.InvalidIdentity
      else if om_find (wm_boot watermark) (ps_watermarks publisher) \<noteq> None then Inl ErrorCode.DuplicateConflict
      else Inr (om_put (wm_publisher watermark) (publisher\<lparr>
        ps_record := adopt_watermark watermark (ps_record publisher),
        ps_watermarks := om_emplace (wm_boot watermark) watermark (ps_watermarks publisher),
        ps_boot_history := ps_boot_history publisher + 1\<rparr>) staged))"

definition stage_fence ::
  "PublisherWatermark \<Rightarrow> (string, PublisherStateInternal) omap \<Rightarrow> ErrorCode + (string, PublisherStateInternal) omap"
where
  "stage_fence fenced staged =
     (let publisher = staged_publisher (wm_publisher fenced) staged;
          record = ps_record publisher in
      if \<not> id_valid (wm_publisher fenced) \<or> \<not> gen_valid (wm_boot fenced) then Inl ErrorCode.InvalidIdentity
      else Inr (om_put (wm_publisher fenced) (publisher\<lparr>
        ps_record := (if id_valid (pub_id (pr_identity record)) then record
          else record\<lparr>pr_identity := (pr_identity record)\<lparr>pub_id := wm_publisher fenced\<rparr>\<rparr>),
        ps_fenced_boots := os_insert (wm_boot fenced) (ps_fenced_boots publisher)\<rparr>) staged))"

section \<open>Import: commit\<close>

text \<open>Process liveness is never restored.\<close>

definition bury_publisher :: "PublisherStateInternal \<Rightarrow> PublisherStateInternal" where
  "bury_publisher publisher =
     (let record = ps_record publisher;
          boot = pub_boot (pr_identity record) in
      publisher\<lparr>
        ps_fenced_boots := (if gen_valid boot then os_insert boot (ps_fenced_boots publisher)
          else ps_fenced_boots publisher),
        ps_record := record\<lparr>pr_state := PublisherState.Dead,
          pr_reason := (if pr_reason record = []
            then ''coordinator restarted; publisher liveness is not restored'' else pr_reason record)\<rparr>\<rparr>)"

definition index_keys :: "KeyId list \<Rightarrow> (string, string oset) omap" where
  "index_keys ids = fold (\<lambda>(device, capability) index.
     om_put device (os_insert capability (case om_find device index of None \<Rightarrow> [] | Some owned \<Rightarrow> owned)) index) ids []"

record Staged =
  stg_subjects :: StagedSubjects
  stg_platforms :: "(string, PlatformIdentity) omap"
  stg_schemas :: StagedSchemas
  stg_records :: StagedRecords
  stg_quirks :: "(string, QuirkRecord) omap"
  stg_compatibility :: "(string, CompatibilityFact) omap"
  stg_publishers :: "(string, PublisherStateInternal) omap"

definition commit :: "DurableState \<Rightarrow> Staged \<Rightarrow> Registry \<Rightarrow> Registry" where
  "commit state staged reg =
     (let subjects = stg_subjects staged;
          keys = sr_keys (stg_records staged);
          recorded = du_header state in
      touch_locked (reg\<lparr>
        rg_devices := sg_devices subjects, rg_platforms := stg_platforms staged,
        rg_families := sg_families subjects, rg_models := sg_models subjects,
        rg_architectures := sg_architectures subjects,
        rg_schemas := fst (stg_schemas staged), rg_capability_schemas := snd (stg_schemas staged),
        rg_keys := keys, rg_device_keys := index_keys (om_keys keys),
        rg_quirks := stg_quirks staged, rg_compatibility := stg_compatibility staged,
        rg_publishers := om_map bury_publisher (stg_publishers staged),
        rg_evidence_count := sr_records (stg_records staged),
        rg_global_order := concat (map (\<lambda>(id, key). map (\<lambda>stored. (id, st_serial stored)) (ks_records key)) keys),
        rg_epoch := (if gen_valid (dh_epoch recorded) \<and> dh_epoch recorded > rg_epoch reg
          then dh_epoch recorded else rg_epoch reg),
        rg_snapshot_generation := (if gen_valid (dh_snapshot_generation recorded) \<and>
            dh_snapshot_generation recorded > rg_snapshot_generation reg
          then dh_snapshot_generation recorded else rg_snapshot_generation reg),
        rg_state_revision := dh_state_revision recorded\<rparr>))"

definition import_report :: "DurableState \<Rightarrow> Staged \<Rightarrow> Registry \<Rightarrow> ImportReport" where
  "import_report state staged reg =
     \<lparr>ir_applied = True, ir_subjects = length (rg_devices reg), ir_schemas = length (du_schemas state),
       ir_capability_records = sr_records (stg_records staged),
       ir_revalidated_records = sr_revalidated (stg_records staged),
       ir_quirks = length (rg_quirks reg), ir_compatibility_facts = length (rg_compatibility reg),
       ir_publishers = length (rg_publishers reg), ir_fenced_boots = length (du_fenced_boots state),
       ir_detail = ''durable state applied; '' @ nat_to_string (sr_revalidated (stg_records staged)) @
         '' process-bound evidence records require revalidation''\<rparr>"

text \<open>What is staged before the evidence, and what is staged after it.\<close>

definition stage_structure ::
  "Registry \<Rightarrow> DurableState \<Rightarrow> ErrorCode + StagedSubjects \<times> (string, PlatformIdentity) omap \<times> StagedSchemas" where
  "stage_structure reg state =
     (let limits = rg_limits reg;
          status = check_header reg state in
      if \<not> ok status then Inl status
      else case fold_checked (stage_subject limits) (du_subjects state)
          \<lparr>sg_devices = [], sg_families = [], sg_models = [], sg_architectures = []\<rparr> of
        Inl code \<Rightarrow> Inl code
      | Inr subjects \<Rightarrow>
          (case fold_checked stage_platform (du_platforms state) [] of
             Inl code \<Rightarrow> Inl code
           | Inr platforms \<Rightarrow>
               (case fold_checked (stage_schema limits) (du_schemas state)
                   (rg_schemas reg, rg_capability_schemas reg) of
                  Inl code \<Rightarrow> Inl code
                | Inr schemas \<Rightarrow> Inr (subjects, platforms, schemas))))"

definition stage_knowledge ::
  "RegistryLimits \<Rightarrow> DurableState \<Rightarrow> StagedSubjects \<Rightarrow> (string, PlatformIdentity) omap \<Rightarrow> StagedSchemas \<Rightarrow>
   ErrorCode + (string, QuirkRecord) omap \<times> (string, CompatibilityFact) omap \<times> (string, PublisherStateInternal) omap"
where
  "stage_knowledge limits state subjects platforms schemas =
     (case fold_checked (stage_quirk limits (snd schemas)) (du_quirks state) [] of
        Inl code \<Rightarrow> Inl code
      | Inr quirks \<Rightarrow>
          (case fold_checked (stage_fact limits subjects platforms) (du_compatibility state) [] of
             Inl code \<Rightarrow> Inl code
           | Inr facts \<Rightarrow>
               (case fold_checked stage_watermark (du_publisher_watermarks state) [] of
                  Inl code \<Rightarrow> Inl code
                | Inr watermarked \<Rightarrow>
                    (case fold_checked stage_fence (du_fenced_boots state) watermarked of
                       Inl code \<Rightarrow> Inl code
                     | Inr publishers \<Rightarrow>
                         if length publishers > max_publishers limits then Inl ErrorCode.LimitExceeded
                         else Inr (quirks, facts, publishers)))))"

definition import_durable_state :: "DurableState \<Rightarrow> Registry \<Rightarrow> (Status \<times> ImportReport) \<times> Registry" where
  "import_durable_state state reg =
     (case stage_structure reg state of
        Inl code \<Rightarrow> ((code, no_report), reg)
      | Inr (subjects, platforms, schemas) \<Rightarrow>
          (case stage_records (rg_limits reg) (sg_devices subjects) (fst schemas) (du_capability_history state)
              \<lparr>sr_keys = [], sr_records = 0, sr_revalidated = 0, sr_next_serial = rg_next_serial reg\<rparr> of
             (status, records) \<Rightarrow>
               let reg = reg\<lparr>rg_next_serial := sr_next_serial records\<rparr> in
               if \<not> ok status then ((status, no_report), reg)
               else case stage_knowledge (rg_limits reg) state subjects platforms schemas of
                 Inl code \<Rightarrow> ((code, no_report), reg)
               | Inr (quirks, facts, publishers) \<Rightarrow>
                   let staged = \<lparr>stg_subjects = subjects, stg_platforms = platforms, stg_schemas = schemas,
                         stg_records = records, stg_quirks = quirks, stg_compatibility = facts,
                         stg_publishers = publishers\<rparr>;
                       committed = commit state staged reg in
                   ((ErrorCode.Ok, import_report state staged committed), committed)))"

end
