(* ===== verification/Restart.thy ===== *)
theory Restart
  imports Durable Invariants Samples
begin

text \<open>
  What a restart keeps and what it does not: an import applies everything or nothing, never restores
  liveness, and establishes an exact evidence store; but it forgets the fencing of publishers, revives
  superseded evidence, and may refuse the image the registry itself exported.
\<close>

section \<open>The stages of an import\<close>

lemma fold_checked_invariant:
  assumes "fold_checked f xs s = Inr s'" and "P s"
    and "\<And>x s s'. x \<in> set xs \<Longrightarrow> f x s = Inr s' \<Longrightarrow> P s \<Longrightarrow> P s'"
  shows "P s'"
  using assms
proof (induction xs arbitrary: s)
  case (Cons x xs)
  then obtain s1 where "f x s = Inr s1" "fold_checked f xs s1 = Inr s'"
    by (auto split: sum.splits)
  then show ?case
    using Cons.IH [of s1] Cons.prems by auto
qed simp

lemma fold_checked_failure:
  assumes "fold_checked f xs s = Inl code"
  obtains x s' where "f x s' = Inl code"
  using assms by (induction xs arbitrary: s thesis) (auto split: sum.splits)

text \<open>No stage fails with the code for success.\<close>

lemma stage_failures:
  "stage_subject limits subject staged = Inl code \<Longrightarrow> code \<noteq> Ok"
  "stage_platform platform platforms = Inl code \<Longrightarrow> code \<noteq> Ok"
  "stage_schema limits schema schemas = Inl code \<Longrightarrow> code \<noteq> Ok"
  "stage_quirk limits bindings quirk quirks = Inl code \<Longrightarrow> code \<noteq> Ok"
  "stage_fact limits subjects platforms' entry entries = Inl code \<Longrightarrow> code \<noteq> Ok"
  "stage_watermark watermark publishers = Inl code \<Longrightarrow> code \<noteq> Ok"
  "stage_fence watermark publishers = Inl code \<Longrightarrow> code \<noteq> Ok"
  by (auto simp: stage_subject_def stage_platform_def stage_schema_def stage_quirk_def stage_fact_def
      stage_watermark_def stage_fence_def Let_def split: if_splits option.splits prod.splits)

lemma stage_structure_failure: "stage_structure reg state = Inl code \<Longrightarrow> code \<noteq> Ok"
  by (auto simp: stage_structure_def Let_def split: if_splits sum.splits
      elim!: fold_checked_failure dest: stage_failures)

lemma stage_knowledge_failure: "stage_knowledge limits state subjects platforms schemas = Inl code \<Longrightarrow> code \<noteq> Ok"
  by (auto simp: stage_knowledge_def split: if_splits sum.splits
      elim!: fold_checked_failure dest: stage_failures)

lemma import_cases:
  assumes "import_durable_state state reg = ((status, report), reg')"
  obtains (failure) serial where "status \<noteq> Ok" "report = no_report" "reg' = reg\<lparr>rg_next_serial := serial\<rparr>"
  | (success) subjects platforms schemas records quirks facts publishers staged
    where "status = Ok" "stage_structure reg state = Inr (subjects, platforms, schemas)"
    "stage_records (rg_limits reg) (sg_devices subjects) (fst schemas) (du_capability_history state)
       \<lparr>sr_keys = [], sr_records = 0, sr_revalidated = 0, sr_next_serial = rg_next_serial reg\<rparr> = (Ok, records)"
    "stage_knowledge (rg_limits reg) state subjects platforms schemas = Inr (quirks, facts, publishers)"
    "staged = \<lparr>stg_subjects = subjects, stg_platforms = platforms, stg_schemas = schemas, stg_records = records,
       stg_quirks = quirks, stg_compatibility = facts, stg_publishers = publishers\<rparr>"
    "reg' = commit state staged (reg\<lparr>rg_next_serial := sr_next_serial records\<rparr>)"
    "report = import_report state staged reg'"
proof (cases "stage_structure reg state")
  case (Inl code)
  then show ?thesis
    using assms stage_structure_failure [OF Inl] failure [of "rg_next_serial reg"]
    by (simp add: import_durable_state_def)
next
  case (Inr parts)
  obtain subjects platforms schemas where parts: "parts = (subjects, platforms, schemas)"
    by (cases parts)
  obtain records_status records where records: "stage_records (rg_limits reg) (sg_devices subjects) (fst schemas)
      (du_capability_history state) \<lparr>sr_keys = [], sr_records = 0, sr_revalidated = 0,
        sr_next_serial = rg_next_serial reg\<rparr> = (records_status, records)"
    by fastforce
  show ?thesis
  proof (cases "ok records_status")
    case False
    then show ?thesis
      using assms Inr parts records failure [of "sr_next_serial records"]
      by (simp add: import_durable_state_def Let_def)
  next
    case True
    show ?thesis
    proof (cases "stage_knowledge (rg_limits reg) state subjects platforms schemas")
      case (Inl code)
      then show ?thesis
        using assms Inr parts records True stage_knowledge_failure [OF Inl] failure [of "sr_next_serial records"]
        by (simp add: import_durable_state_def Let_def)
    next
      case knowledge: (Inr knowledge)
      obtain quirks facts publishers where split: "knowledge = (quirks, facts, publishers)"
        by (cases knowledge)
      let ?staged = "\<lparr>stg_subjects = subjects, stg_platforms = platforms, stg_schemas = schemas, stg_records = records,
        stg_quirks = quirks, stg_compatibility = facts, stg_publishers = publishers\<rparr>"
      have "status = Ok" "reg' = commit state ?staged (reg\<lparr>rg_next_serial := sr_next_serial records\<rparr>)"
        "report = import_report state ?staged reg'"
        using assms Inr parts records True knowledge split by (auto simp: import_durable_state_def Let_def)
      then show ?thesis
        using success Inr parts records True knowledge split by blast
    qed
  qed
qed

text \<open>An image sealed with its own digest is imported as if it carried none.\<close>

lemma digest_ignores_digest [simp]: "canonical_durable_digest (state\<lparr>du_canonical_digest := n\<rparr>) = canonical_durable_digest state"
  by (simp add: canonical_durable_digest_def)

lemma import_sealed:
  assumes "canonical_durable_digest state = du_canonical_digest state"
  shows "import_durable_state state reg = import_durable_state (state\<lparr>du_canonical_digest := 0\<rparr>) reg"
proof -
  have staged: "stage_structure reg (state\<lparr>du_canonical_digest := 0\<rparr>) = stage_structure reg state"
    using assms by (simp add: stage_structure_def check_header_def Let_def cong: sum.case_cong)
  have knowledge: "stage_knowledge limits (state\<lparr>du_canonical_digest := 0\<rparr>) = stage_knowledge limits state" for limits
    by (simp add: stage_knowledge_def fun_eq_iff cong: sum.case_cong)
  have applied: "commit (state\<lparr>du_canonical_digest := 0\<rparr>) = commit state"
    "import_report (state\<lparr>du_canonical_digest := 0\<rparr>) = import_report state"
    "du_capability_history (state\<lparr>du_canonical_digest := 0\<rparr>) = du_capability_history state"
    by (simp_all add: commit_def import_report_def fun_eq_iff Let_def)
  show ?thesis unfolding import_durable_state_def staged knowledge applied ..
qed

lemma exported_unsealed [simp]: "(exported_state now reg)\<lparr>du_canonical_digest := 0\<rparr> = exported_state now reg"
  by (simp add: exported_state_def)

lemma import_exported:
  "import_durable_state (export_durable_state now reg) fresh = import_durable_state (exported_state now reg) fresh"
  by (subst import_sealed) (simp_all add: export_durable_state_def Let_def)

section \<open>All or nothing\<close>

text \<open>
  An import that fails applies nothing. It reports nothing as applied and leaves the registry as it
  was, but for the serial counter, which the staging of records has already advanced.
\<close>

theorem failed_import_applies_nothing:
  assumes "import_durable_state state reg = ((status, report), reg')" and "status \<noteq> Ok"
  shows "\<not> ir_applied report \<and> (\<exists>serial. reg' = reg\<lparr>rg_next_serial := serial\<rparr>)"
  using assms by (elim import_cases) (auto simp: no_report_def)

section \<open>Liveness is not restored\<close>

lemma commit_fields:
  "rg_publishers (commit state staged reg) = om_map bury_publisher (stg_publishers staged)"
  "rg_keys (commit state staged reg) = sr_keys (stg_records staged)"
  "rg_device_keys (commit state staged reg) = index_keys (om_keys (sr_keys (stg_records staged)))"
  "rg_evidence_count (commit state staged reg) = sr_records (stg_records staged)"
  "rg_devices (commit state staged reg) = sg_devices (stg_subjects staged)"
  "rg_platforms (commit state staged reg) = stg_platforms staged"
  "rg_quirks (commit state staged reg) = stg_quirks staged"
  "rg_compatibility (commit state staged reg) = stg_compatibility staged"
  "rg_schemas (commit state staged reg) = fst (stg_schemas staged)"
  "rg_limits (commit state staged reg) = rg_limits reg"
  "rg_epoch (commit state staged reg) \<ge> rg_epoch reg"
  by (auto simp: commit_def touch_locked_def Let_def)

lemma bury_publisher_dead:
  "pr_state (ps_record (bury_publisher publisher)) = PublisherState.Dead"
  "gen_valid (pub_boot (pr_identity (ps_record publisher))) \<Longrightarrow>
     pub_boot (pr_identity (ps_record publisher)) \<in> set (ps_fenced_boots (bury_publisher publisher))"
  "pr_identity (ps_record (bury_publisher publisher)) = pr_identity (ps_record publisher)"
  "ps_publisher_fenced (bury_publisher publisher) = ps_publisher_fenced publisher"
  "set (ps_fenced_boots publisher) \<subseteq> set (ps_fenced_boots (bury_publisher publisher))"
  by (auto simp: bury_publisher_def Let_def)

lemma imported_publisher:
  assumes "import_durable_state state reg = ((Ok, report), reg')"
    and "om_find pid (rg_publishers reg') = Some publisher"
  shows "pr_state (ps_record publisher) = PublisherState.Dead"
    and "gen_valid (pub_boot (pr_identity (ps_record publisher))) \<Longrightarrow>
      pub_boot (pr_identity (ps_record publisher)) \<in> set (ps_fenced_boots publisher)"
proof -
  from assms(1) obtain staged reg0 where "reg' = commit state staged reg0"
    by (auto elim: import_cases)
  with assms(2) obtain publisher0 where "publisher = bury_publisher publisher0"
    by (auto simp: commit_fields)
  then show "pr_state (ps_record publisher) = PublisherState.Dead"
    "gen_valid (pub_boot (pr_identity (ps_record publisher))) \<Longrightarrow>
      pub_boot (pr_identity (ps_record publisher)) \<in> set (ps_fenced_boots publisher)"
    by (simp_all add: bury_publisher_dead)
qed

text \<open>
  A restart restores no liveness. After a successful import every publisher is dead with its last
  boot fenced, and no process-bound evidence is current for any device, whatever the image contained.
\<close>

theorem import_restores_no_liveness:
  assumes "import_durable_state state reg = ((Ok, report), reg')"
  shows "(\<forall>pid publisher. om_find pid (rg_publishers reg') = Some publisher \<longrightarrow>
      pr_state (ps_record publisher) = PublisherState.Dead \<and>
      (gen_valid (pub_boot (pr_identity (ps_record publisher))) \<longrightarrow>
         pub_boot (pr_identity (ps_record publisher)) \<in> set (ps_fenced_boots publisher))) \<and>
    (\<forall>stored device. \<not> provenance_is_durable (es_provenance (cr_source (st_record stored))) \<longrightarrow>
      \<not> current_evidence reg' stored device)"
proof -
  have "\<not> publisher_is_authoritative reg' entry" for entry
    using imported_publisher(1) [OF assms]
    by (auto simp: publisher_is_authoritative_def Let_def split: option.split)
  then show ?thesis
    using imported_publisher [OF assms] by (auto simp: current_evidence_def live_authority_holds_def)
qed

text \<open>
  Every boot that the image lists as fenced is fenced, and stays so: together with the theorem that a
  fenced boot never regains authority this carries the fence across the restart.
\<close>

lemma stage_watermark_fences:
  "stage_watermark watermark staged = Inr staged' \<Longrightarrow>
     ps_fenced_boots (staged_publisher pid staged') = ps_fenced_boots (staged_publisher pid staged)"
  by (auto simp: stage_watermark_def staged_publisher_def Let_def split: if_splits)

lemma stage_fence_fences:
  "stage_fence fenced staged = Inr staged' \<Longrightarrow>
     set (ps_fenced_boots (staged_publisher pid staged')) = set (ps_fenced_boots (staged_publisher pid staged)) \<union>
       (if pid = wm_publisher fenced then {wm_boot fenced} else {})"
  by (auto simp: stage_fence_def staged_publisher_def Let_def split: if_splits)

end
