(* ===== verification/Restored.thy ===== *)
theory Restored
  imports Restart
begin

text \<open>
  What a restart keeps: the evidence store and its index are exact after an import, and an image exported
  from a registry brings back its evidence, its quirks, its compatibility facts and its devices.
\<close>

section \<open>Staging into ordered maps\<close>

lemma mset_om_values_put_new:
  "om_find k m = None \<Longrightarrow> mset (om_values (om_put k v m)) = add_mset v (mset (om_values m))"
  by (induction k v m rule: om_put.induct) (auto simp: om_values_def om_find_def split: if_splits)

lemma om_keys_put_new:
  "om_find k m = None \<Longrightarrow> mset (om_keys (om_put k v m)) = add_mset k (mset (om_keys m))"
  by (induction k v m rule: om_put.induct) (auto simp: om_keys_def om_find_def split: if_splits)

text \<open>A stage that puts every element under a fresh key collects exactly the elements.\<close>

lemma fold_checked_collects:
  assumes "fold_checked f xs m = Inr m'"
    and "\<And>x m m'. f x m = Inr m' \<Longrightarrow> om_find (k x) (proj m) = None \<and> proj m' = om_put (k x) (v x) (proj m)"
  shows "mset (om_values (proj m')) = mset (om_values (proj m)) + mset (map v xs)"
  using assms(1)
proof (induction xs arbitrary: m)
  case (Cons x xs)
  then obtain m1 where step: "f x m = Inr m1" and rest: "fold_checked f xs m1 = Inr m'"
    by (auto split: sum.splits)
  from assms(2) [OF step] have "mset (om_values (proj m1)) = add_mset (v x) (mset (om_values (proj m)))"
    by (simp add: mset_om_values_put_new)
  with Cons.IH [OF rest] show ?case by simp
qed simp

lemma stage_quirk_puts:
  "stage_quirk limits bindings quirk m = Inr m' \<Longrightarrow>
     om_find (qr_id quirk) m = None \<and> m' = om_put (qr_id quirk) quirk m"
  by (auto simp: stage_quirk_def Let_def om_emplace_def split: if_splits)

lemma stage_fact_puts:
  "stage_fact limits subjects platforms entry m = Inr m' \<Longrightarrow>
     om_find (cf_id entry) m = None \<and> m' = om_put (cf_id entry) entry m"
  by (auto simp: stage_fact_def Let_def om_emplace_def split: if_splits)

lemma stage_subject_puts:
  "stage_subject limits subject m = Inr m' \<Longrightarrow>
     om_find (di_id (su_identity subject)) (sg_devices m) = None \<and>
     sg_devices m' = om_put (di_id (su_identity subject)) (restored_device subject) (sg_devices m)"
  by (auto simp: stage_subject_def Let_def om_emplace_def split: if_splits)

lemma staged_quirks: "fold_checked (stage_quirk limits bindings) quirks [] = Inr m \<Longrightarrow> mset (om_values m) = mset quirks"
  using fold_checked_collects [where proj = "\<lambda>m. m" and k = qr_id and v = "\<lambda>q. q", OF _ stage_quirk_puts]
  by (fastforce simp: om_values_def)

lemma staged_facts: "fold_checked (stage_fact limits subjects platforms) entries [] = Inr m \<Longrightarrow> mset (om_values m) = mset entries"
  using fold_checked_collects [where proj = "\<lambda>m. m" and k = cf_id and v = "\<lambda>q. q", OF _ stage_fact_puts]
  by (fastforce simp: om_values_def)

lemma staged_devices:
  "fold_checked (stage_subject limits) subjects \<lparr>sg_devices = [], sg_families = f, sg_models = ms, sg_architectures = a\<rparr>
     = Inr m \<Longrightarrow> mset (om_values (sg_devices m)) = mset (map restored_device subjects)"
  using fold_checked_collects [where proj = sg_devices and k = "\<lambda>s. di_id (su_identity s)" and v = restored_device,
      OF _ stage_subject_puts]
  by (fastforce simp: om_values_def)

section \<open>Staging the evidence\<close>

definition all_records :: "(KeyId, KeyState) omap \<Rightarrow> CapabilityRecord list" where
  "all_records keys = concat (map (\<lambda>key. map st_record (ks_records key)) (om_values keys))"

lemma all_records_put_new:
  "om_find kid m = None \<Longrightarrow>
     mset (all_records (om_put kid key m)) = mset (map st_record (ks_records key)) + mset (all_records m)"
proof (induction kid key m rule: om_put.induct)
  case (2 k v e m)
  then show ?case by (cases e) (auto simp: all_records_def om_values_def om_find_def split: if_splits)
qed (simp add: all_records_def om_values_def)

lemma all_records_put_old:
  "om_find kid m = Some old \<Longrightarrow> om_ok m \<Longrightarrow>
     mset (all_records (om_put kid key m)) + mset (map st_record (ks_records old)) =
     mset (all_records m) + mset (map st_record (ks_records key))"
proof (induction kid key m rule: om_put.induct)
  case (2 k v e m)
  obtain k' v' where e: "e = (k', v')" by (cases e)
  show ?case
  proof (cases "k' < k")
    case True
    with 2 show ?thesis
      by (auto simp: e all_records_def om_values_def om_find_def om_ok_def om_keys_def split: if_splits)
  next
    case False
    have "k' = k"
    proof (rule ccontr)
      assume "k' \<noteq> k"
      with 2(2) have "k \<in> set (om_keys m)"
        using om_find_key [of k m] by (auto simp: e om_find_def)
      with 2(3) False show False by (auto simp: e om_ok_def om_keys_def)
    qed
    with 2(2) show ?thesis by (simp add: e all_records_def om_values_def om_find_def)
  qed
qed simp

lemma length_all_records: "length (all_records keys) = total_records keys"
  by (simp add: all_records_def total_records_def length_concat comp_def)

text \<open>What holds of every retained record of an import, with the source slot as import spells it.\<close>

definition restored_ok ::
  "RegistryLimits \<Rightarrow> (string, DeviceState) omap \<Rightarrow> KeyId \<Rightarrow> StoredRecord \<Rightarrow> bool" where
  "restored_ok limits devices kid stored \<longleftrightarrow>
     key_of (st_record stored) = kid \<and> st_slot stored = restored_slot (st_record stored) \<and>
     validate_capability_record (st_record stored) limits = Ok \<and>
     (\<exists>device. om_find (fst kid) devices = Some device \<and>
        cr_device_generation (st_record stored) \<le> ds_generation device)"

definition staged_ok :: "RegistryLimits \<Rightarrow> (string, DeviceState) omap \<Rightarrow> StagedRecords \<Rightarrow> bool" where
  "staged_ok limits devices staged \<longleftrightarrow> om_ok (sr_keys staged) \<and>
     (\<forall>kid key. om_find kid (sr_keys staged) = Some key \<longrightarrow>
        ks_records key \<noteq> [] \<and> (\<forall>s\<in>set (ks_records key). restored_ok limits devices kid s) \<and>
        slots_ok (ks_records key))"

lemma check_record_ok:
  assumes "check_record limits devices schemas entry = Ok"
  shows "validate_capability_record entry limits = Ok"
    and "\<exists>device. om_find (cr_device entry) devices = Some device \<and> cr_device_generation entry \<le> ds_generation device"
  using assms by (auto simp: check_record_def Let_def not_less split: if_splits option.splits)

lemma restored_key_ok:
  assumes "\<forall>s\<in>set (ks_records key). restored_ok limits devices (key_of entry) s" and "slots_ok (ks_records key)"
    and "check_record limits devices schemas entry = Ok"
  shows "ks_records (restore_record serial entry key) \<noteq> []"
    and "\<forall>s\<in>set (ks_records (restore_record serial entry key)). restored_ok limits devices (key_of entry) s"
    and "slots_ok (ks_records (restore_record serial entry key))"
  using assms(1,2) check_record_ok [OF assms(3)]
  by (auto simp: restore_record_def Let_def restored_ok_def key_of_def intro: slots_ok_append)

lemma stage_record_ok:
  assumes "stage_record limits devices schemas entry staged = (Ok, staged')" and "staged_ok limits devices staged"
  shows "staged_ok limits devices staged'"
    and "mset (all_records (sr_keys staged')) = add_mset entry (mset (all_records (sr_keys staged)))"
proof -
  let ?key = "case om_find (key_of entry) (sr_keys staged) of None \<Rightarrow> empty_key_state | Some key \<Rightarrow> key"
  let ?new = "restore_record (sr_next_serial staged + 1) entry ?key"
  have check: "check_record limits devices schemas entry = Ok"
    and keys: "sr_keys staged' = om_put (key_of entry) ?new (sr_keys staged)"
    using assms(1) by (auto simp: stage_record_def Let_def split: if_splits)
  have ok: "om_ok (sr_keys staged)" using assms(2) by (simp add: staged_ok_def)
  have key: "\<forall>s\<in>set (ks_records ?key). restored_ok limits devices (key_of entry) s" "slots_ok (ks_records ?key)"
    using assms(2) by (auto simp: staged_ok_def empty_key_state_def slots_ok_def simp del: split_paired_All
        split: option.split)
  show "staged_ok limits devices staged'"
    using assms(2) restored_key_ok [OF key check] by (simp add: staged_ok_def keys ok del: split_paired_All)
  have records: "map st_record (ks_records ?new) = map st_record (ks_records ?key) @ [entry]"
    by (simp add: restore_record_def Let_def comp_def)
  show "mset (all_records (sr_keys staged')) = add_mset entry (mset (all_records (sr_keys staged)))"
  proof (cases "om_find (key_of entry) (sr_keys staged)")
    case None
    then show ?thesis
      using all_records_put_new [OF None, of ?new] records by (simp add: keys empty_key_state_def del: mset_map)
  next
    case (Some old)
    then show ?thesis
      using all_records_put_old [OF Some ok, of ?new] records by (simp add: keys del: mset_map)
  qed
qed

lemma stage_records_ok:
  "stage_records limits devices schemas entries staged = (Ok, staged') \<Longrightarrow> staged_ok limits devices staged \<Longrightarrow>
     staged_ok limits devices staged' \<and>
     mset (all_records (sr_keys staged')) = mset entries + mset (all_records (sr_keys staged)) \<and>
     sr_records staged' = sr_records staged + length entries"
proof (induction entries arbitrary: staged)
  case (Cons entry entries)
  obtain staged1 where step: "stage_record limits devices schemas entry staged = (Ok, staged1)"
    and rest: "stage_records limits devices schemas entries staged1 = (Ok, staged')"
    using Cons.prems(1) by (auto split: prod.splits if_splits)
  have count: "sr_records staged1 = Suc (sr_records staged)"
    using step by (auto simp: stage_record_def Let_def split: if_splits)
  from Cons.IH [OF rest stage_record_ok(1) [OF step Cons.prems(2)]] stage_record_ok(2) [OF step Cons.prems(2)] count
  show ?case by simp
qed simp

section \<open>The index\<close>

lemma index_keys_exact:
  "c \<in> set (case om_find d (index_keys ids) of None \<Rightarrow> [] | Some owned \<Rightarrow> owned) \<longleftrightarrow> (d, c) \<in> set ids"
proof -
  let ?owned = "\<lambda>index. case om_find d index of None \<Rightarrow> [] | Some owned \<Rightarrow> owned"
  let ?step = "\<lambda>(device, capability) index.
     om_put device (os_insert capability (case om_find device index of None \<Rightarrow> [] | Some owned \<Rightarrow> owned)) index"
  have "c \<in> set (?owned (fold ?step ids index)) \<longleftrightarrow> (d, c) \<in> set ids \<or> c \<in> set (?owned index)" for index
  proof (induction ids arbitrary: index)
    case (Cons kid ids)
    obtain device capability where kid: "kid = (device, capability)" by (cases kid)
    show ?case
      using Cons.IH [of "?step kid index"] by (cases "device = d") (auto simp: kid)
  qed simp
  from this [of "[]"] show ?thesis by (simp add: index_keys_def)
qed

section \<open>What an import establishes\<close>

lemma import_success:
  assumes "import_durable_state state reg = ((Ok, report), reg')"
  obtains staged reg0 where "reg' = commit state staged reg0" and "rg_limits reg0 = rg_limits reg"
    and "stage_structure reg state = Inr (stg_subjects staged, stg_platforms staged, stg_schemas staged)"
    and "stage_records (rg_limits reg) (sg_devices (stg_subjects staged)) (fst (stg_schemas staged))
      (du_capability_history state) \<lparr>sr_keys = [], sr_records = 0, sr_revalidated = 0,
        sr_next_serial = rg_next_serial reg\<rparr> = (Ok, stg_records staged)"
    and "stage_knowledge (rg_limits reg) state (stg_subjects staged) (stg_platforms staged) (stg_schemas staged) =
      Inr (stg_quirks staged, stg_compatibility staged, stg_publishers staged)"
proof (cases rule: import_cases [OF assms])
  case (2 subjects platforms schemas records quirks facts publishers staged)
  then show ?thesis
    using that [of staged "reg\<lparr>rg_next_serial := sr_next_serial records\<rparr>"] by simp
qed simp

lemma imported_evidence:
  assumes "import_durable_state state reg = ((Ok, report), reg')"
  shows "om_ok (rg_keys reg')"
    and "om_find kid (rg_keys reg') = Some key \<Longrightarrow> stored \<in> set (ks_records key) \<Longrightarrow>
      restored_ok (rg_limits reg') (rg_devices reg') kid stored"
    and "om_find kid (rg_keys reg') = Some key \<Longrightarrow> slots_ok (ks_records key)"
    and "om_find kid (rg_keys reg') = Some key \<Longrightarrow> ks_records key \<noteq> []"
    and "mset (all_records (rg_keys reg')) = mset (du_capability_history state)"
    and "rg_evidence_count reg' = length (du_capability_history state)"
    and "rg_device_keys reg' = index_keys (om_keys (rg_keys reg'))"
proof -
  obtain staged reg0 where commit: "reg' = commit state staged reg0" "rg_limits reg0 = rg_limits reg"
    and records: "stage_records (rg_limits reg) (sg_devices (stg_subjects staged)) (fst (stg_schemas staged))
      (du_capability_history state) \<lparr>sr_keys = [], sr_records = 0, sr_revalidated = 0,
        sr_next_serial = rg_next_serial reg\<rparr> = (Ok, stg_records staged)"
    using assms by (rule import_success)
  have "staged_ok (rg_limits reg) (sg_devices (stg_subjects staged)) (stg_records staged) \<and>
    mset (all_records (sr_keys (stg_records staged))) = mset (du_capability_history state) \<and>
    sr_records (stg_records staged) = length (du_capability_history state)"
    using stage_records_ok [OF records] by (simp add: staged_ok_def all_records_def om_values_def)
  then show "om_ok (rg_keys reg')"
    "om_find kid (rg_keys reg') = Some key \<Longrightarrow> stored \<in> set (ks_records key) \<Longrightarrow>
      restored_ok (rg_limits reg') (rg_devices reg') kid stored"
    "om_find kid (rg_keys reg') = Some key \<Longrightarrow> slots_ok (ks_records key)"
    "om_find kid (rg_keys reg') = Some key \<Longrightarrow> ks_records key \<noteq> []"
    "mset (all_records (rg_keys reg')) = mset (du_capability_history state)"
    "rg_evidence_count reg' = length (du_capability_history state)"
    "rg_device_keys reg' = index_keys (om_keys (rg_keys reg'))"
    unfolding staged_ok_def commit commit_fields by (auto simp del: split_paired_All)
qed

lemma imported_history_bounded:
  assumes "import_durable_state state reg = ((Ok, report), reg')"
  shows "length (du_capability_history state) \<le> max_evidence_history (rg_limits reg')"
  using assms
  by (rule import_success)
    (auto simp: commit_fields stage_structure_def check_header_def Let_def split: if_splits sum.splits)

text \<open>
  C15: a successful import establishes an exact evidence store. The counter equals the number of retained
  records and respects the bound; every record is valid, is filed under its own key and belongs to a known
  device whose generation it does not exceed; of two records of one slot the older is superseded; and the
  index by device lists exactly the keys of the store.
\<close>

theorem import_establishes_exact_evidence:
  assumes "import_durable_state state reg = ((Ok, report), reg')"
  shows "rg_evidence_count reg' = total_records (rg_keys reg') \<and>
    rg_evidence_count reg' \<le> max_evidence_history (rg_limits reg') \<and>
    (\<forall>d c. c \<in> set (owned_capabilities reg' d) \<longleftrightarrow> om_find (d, c) (rg_keys reg') \<noteq> None) \<and>
    (\<forall>kid key. om_find kid (rg_keys reg') = Some key \<longrightarrow>
       slots_ok (ks_records key) \<and> (\<forall>s\<in>set (ks_records key). restored_ok (rg_limits reg') (rg_devices reg') kid s))"
proof -
  have "length (all_records (rg_keys reg')) = length (du_capability_history state)"
    using imported_evidence(5) [OF assms] by (metis size_mset)
  moreover have "c \<in> set (owned_capabilities reg' d) \<longleftrightarrow> om_find (d, c) (rg_keys reg') \<noteq> None" for d c
    unfolding owned_capabilities_def imported_evidence(7) [OF assms] index_keys_exact
    by (simp only: om_find_key)
  ultimately show ?thesis
    using imported_evidence [OF assms] imported_history_bounded [OF assms] by (simp add: length_all_records)
qed

lemma imported_knowledge:
  assumes "import_durable_state state reg = ((Ok, report), reg')"
  shows "mset (om_values (rg_quirks reg')) = mset (du_quirks state)"
    and "mset (om_values (rg_compatibility reg')) = mset (du_compatibility state)"
    and "mset (om_values (rg_devices reg')) = mset (map restored_device (du_subjects state))"
proof -
  obtain staged reg0 where commit: "reg' = commit state staged reg0"
    and "stage_structure reg state = Inr (stg_subjects staged, stg_platforms staged, stg_schemas staged)"
    and "stage_knowledge (rg_limits reg) state (stg_subjects staged) (stg_platforms staged) (stg_schemas staged) =
      Inr (stg_quirks staged, stg_compatibility staged, stg_publishers staged)"
    using assms by (rule import_success)
  then show "mset (om_values (rg_quirks reg')) = mset (du_quirks state)"
    "mset (om_values (rg_compatibility reg')) = mset (du_compatibility state)"
    "mset (om_values (rg_devices reg')) = mset (map restored_device (du_subjects state))"
    unfolding commit_fields commit stage_structure_def stage_knowledge_def Let_def
    by (force split: if_splits sum.splits dest: staged_quirks staged_facts staged_devices)+
qed

lemma restored_build:
  "restored_device (build_subject_locked reg device e) =
     \<lparr>ds_identity = ds_identity device, ds_software = ds_software device, ds_generation = ds_generation device,
      ds_boot = ds_boot device, ds_platform_generation =
        (if gen_valid (ds_platform_generation device) then ds_platform_generation device else gen_first)\<rparr>"
  by (simp add: restored_device_def build_subject_locked_def Let_def)

text \<open>
  C7: a restart keeps what the registry knows. When the image it exported is imported with success, the restarted
  registry holds the same records of evidence, the same quirks and the same compatibility facts, as often as the
  registry that was stopped, and the same devices: identity, software, device generation and boot are those of the
  registry that was stopped, and so is the platform generation, unless it was not valid, when it becomes the first.
\<close>

theorem restart_keeps_knowledge:
  assumes "import_durable_state (export_durable_state now reg) fresh = ((Ok, report), reg')"
  shows "mset (all_records (rg_keys reg')) = mset (all_records (rg_keys reg)) \<and>
    mset (om_values (rg_quirks reg')) = mset (om_values (rg_quirks reg)) \<and>
    mset (om_values (rg_compatibility reg')) = mset (om_values (rg_compatibility reg)) \<and>
    mset (om_values (rg_devices reg')) =
      mset (map (\<lambda>device. \<lparr>ds_identity = ds_identity device, ds_software = ds_software device,
          ds_generation = ds_generation device, ds_boot = ds_boot device,
          ds_platform_generation = (if gen_valid (ds_platform_generation device) then ds_platform_generation device
            else gen_first)\<rparr>)
        (om_values (rg_devices reg)))"
proof -
  let ?state = "export_durable_state now reg"
  have image: "mset (du_capability_history ?state) = mset (all_records (rg_keys reg))"
    "mset (du_quirks ?state) = mset (om_values (rg_quirks reg))"
    "mset (du_compatibility ?state) = mset (om_values (rg_compatibility reg))"
    "mset (du_subjects ?state) = mset (list_devices reg)"
    by (simp_all add: export_durable_state_def exported_state_def Let_def all_records_def)
  note staged = imported_knowledge [OF assms]
  have "mset (map restored_device (du_subjects ?state)) = image_mset restored_device (mset (list_devices reg))"
    by (simp add: image)
  then show ?thesis
    using imported_evidence(5) [OF assms]
    by (simp add: staged image list_devices_def comp_def image_mset.compositionality restored_build)
qed

end
