(* ===== verification/Restart_Fences.thy ===== *)
theory Restart_Fences
  imports Restored Visibility
begin

text \<open>
  Publisher authority across a restart. Every boot that was fenced or current before the restart is fenced
  after it and is refused for ever, but the fence of a publisher as a whole is forgotten.
\<close>

section \<open>Fences through the stages of an import\<close>

lemma fold_stage_fence:
  "fold_checked stage_fence fences m = Inr m' \<Longrightarrow>
     set (ps_fenced_boots (staged_publisher pid m')) =
       set (ps_fenced_boots (staged_publisher pid m)) \<union> {wm_boot w |w. w \<in> set fences \<and> wm_publisher w = pid}"
proof (induction fences arbitrary: m)
  case (Cons w fences)
  then obtain m1 where step: "stage_fence w m = Inr m1" and rest: "fold_checked stage_fence fences m1 = Inr m'"
    by (auto split: sum.splits)
  show ?case unfolding Cons.IH [OF rest] stage_fence_fences [OF step] by auto
qed simp

lemma stage_watermark_steps:
  "stage_watermark w m = Inr m' \<Longrightarrow> id_valid (wm_publisher w) \<and> om_find (wm_publisher w) m' \<noteq> None \<and>
     (om_find pid m \<noteq> None \<longrightarrow> om_find pid m' \<noteq> None)"
  by (auto simp: stage_watermark_def Let_def split: if_splits)

lemma stage_fence_steps:
  "stage_fence w m = Inr m' \<Longrightarrow> id_valid (wm_publisher w) \<and> om_find (wm_publisher w) m' \<noteq> None \<and>
     (om_find pid m \<noteq> None \<longrightarrow> om_find pid m' \<noteq> None)"
  by (auto simp: stage_fence_def Let_def split: if_splits)

text \<open>The publisher is staged with its identity and the boot its watermark records.\<close>

definition booted :: "string \<Rightarrow> u64 \<Rightarrow> (string, PublisherStateInternal) omap \<Rightarrow> bool" where
  "booted pid boot m \<longleftrightarrow> (\<forall>publisher. om_find pid m = Some publisher \<longrightarrow>
     id_valid (pub_id (pr_identity (ps_record publisher))) \<and> pub_boot (pr_identity (ps_record publisher)) = boot)"

lemma stage_watermark_booted:
  assumes "stage_watermark w m = Inr m'" and "booted pid boot m" and "wm_publisher w = pid \<longrightarrow> wm_boot w = boot"
  shows "booted pid boot m'"
  using assms
  by (auto simp: stage_watermark_def booted_def staged_publisher_def adopt_watermark_def Let_def empty_publisher_state_def
      empty_publisher_record_def no_publisher_def id_valid_def split: if_splits option.splits)

lemma stage_fence_booted:
  assumes "stage_fence w m = Inr m'" and "booted pid boot m" and "om_find pid m \<noteq> None"
  shows "booted pid boot m'"
  using assms by (auto simp: stage_fence_def booted_def staged_publisher_def Let_def split: if_splits)

lemma fold_stage_watermark:
  assumes "fold_checked stage_watermark marks [] = Inr m" and "w \<in> set marks"
    and "\<And>v. v \<in> set marks \<Longrightarrow> wm_publisher v = wm_publisher w \<Longrightarrow> wm_boot v = wm_boot w"
  shows "booted (wm_publisher w) (wm_boot w) m \<and> om_find (wm_publisher w) m \<noteq> None \<and>
    set (ps_fenced_boots (staged_publisher pid m)) = {}"
proof -
  have gen: "om_find (wm_publisher w) m' \<noteq> None"
    if "fold_checked stage_watermark vs m0 = Inr m'" "w \<in> set vs \<or> om_find (wm_publisher w) m0 \<noteq> None" for vs m0 m'
    using that
  proof (induction vs arbitrary: m0)
    case (Cons v vs)
    then obtain m1 where "stage_watermark v m0 = Inr m1" "fold_checked stage_watermark vs m1 = Inr m'"
      by (auto split: sum.splits)
    with Cons.IH [of m1] Cons.prems(2) stage_watermark_steps [of v m0 m1 "wm_publisher w"] show ?case by auto
  qed simp
  have "booted (wm_publisher w) (wm_boot w) m"
    by (rule fold_checked_invariant [OF assms(1), where P = "booted (wm_publisher w) (wm_boot w)"])
      (use assms(3) in \<open>auto simp: booted_def [of _ _ "[]"] intro: stage_watermark_booted\<close>)
  moreover have "set (ps_fenced_boots (staged_publisher pid m)) = {}"
    by (rule fold_checked_invariant [OF assms(1), where P = "\<lambda>m. set (ps_fenced_boots (staged_publisher pid m)) = {}"])
      (auto simp: stage_watermark_fences, simp add: staged_publisher_def empty_publisher_state_def)
  ultimately show ?thesis using gen [OF assms(1)] assms(2) by simp
qed

lemma fold_stage_fence_booted:
  assumes "fold_checked stage_fence fences m = Inr m'" and "booted pid boot m" and "om_find pid m \<noteq> None"
  shows "booted pid boot m' \<and> om_find pid m' \<noteq> None"
  by (rule fold_checked_invariant [OF assms(1), where P = "\<lambda>m. booted pid boot m \<and> om_find pid m \<noteq> None"])
    (use assms stage_fence_booted stage_fence_steps in blast)+

section \<open>Fences through export and import\<close>

lemma exported_watermarks:
  assumes "distinct (om_keys (rg_publishers reg))" and "om_find pid (rg_publishers reg) = Some st"
  shows "watermark_for pid st \<in> set (du_publisher_watermarks (export_durable_state now reg))"
    and "w \<in> set (du_publisher_watermarks (export_durable_state now reg)) \<Longrightarrow> wm_publisher w = pid \<Longrightarrow>
      wm_boot w = pub_boot (pr_identity (ps_record st))"
    and "boot \<in> set (ps_fenced_boots st) \<Longrightarrow> boot \<noteq> pub_boot (pr_identity (ps_record st)) \<Longrightarrow>
      \<exists>w\<in>set (du_fenced_boots (export_durable_state now reg)). wm_publisher w = pid \<and> wm_boot w = boot"
proof -
  have find: "om_find k (rg_publishers reg) = Some v \<longleftrightarrow> (k, v) \<in> set (rg_publishers reg)" for k v
    using assms(1) by (simp add: om_find_def om_keys_def)
  show "watermark_for pid st \<in> set (du_publisher_watermarks (export_durable_state now reg))"
    using assms(2) by (force simp: export_durable_state_def exported_state_def Let_def find)
  show "wm_boot w = pub_boot (pr_identity (ps_record st))"
    if "w \<in> set (du_publisher_watermarks (export_durable_state now reg))" "wm_publisher w = pid"
  proof -
    from that(1) obtain v where v: "(wm_publisher w, v) \<in> set (rg_publishers reg)"
      "wm_boot w = pub_boot (pr_identity (ps_record v))"
      by (auto simp: export_durable_state_def exported_state_def Let_def watermark_for_def)
    then have "om_find pid (rg_publishers reg) = Some v" using that(2) find by simp
    with v(2) assms(2) show ?thesis by simp
  qed
  show "\<exists>w\<in>set (du_fenced_boots (export_durable_state now reg)). wm_publisher w = pid \<and> wm_boot w = boot"
    if "boot \<in> set (ps_fenced_boots st)" "boot \<noteq> pub_boot (pr_identity (ps_record st))"
  proof -
    have "fenced_watermark pid boot ''boot superseded or fenced'' \<in> set (exported_fences pid st)"
      using that by (simp add: exported_fences_def Let_def)
    with assms(2) have "fenced_watermark pid boot ''boot superseded or fenced'' \<in>
      set (du_fenced_boots (export_durable_state now reg))"
      by (force simp: export_durable_state_def exported_state_def Let_def find)
    then show ?thesis by (rule bexI [rotated]) (simp add: fenced_watermark_def)
  qed
qed

lemma restart_fences_boot:
  assumes "publishers_ok reg" and "import_durable_state (export_durable_state now reg) fresh = ((Ok, report), reg')"
    and "om_find pid (rg_publishers reg) = Some st" and "gen_valid boot"
    and "boot = pub_boot (pr_identity (ps_record st)) \<or> boot \<in> set (ps_fenced_boots st)"
  shows "\<exists>st'. om_find pid (rg_publishers reg') = Some st' \<and> boot \<in> set (ps_fenced_boots st')"
proof -
  let ?state = "export_durable_state now reg"
  let ?current = "pub_boot (pr_identity (ps_record st))"
  have distinct: "distinct (om_keys (rg_publishers reg))"
    using assms(1) om_ok_distinct by (auto simp: publishers_ok_def)
  note image = exported_watermarks [OF distinct assms(3), where now = now]
  obtain staged reg0 where commit: "reg' = commit ?state staged reg0"
    and "stage_knowledge (rg_limits fresh) ?state (stg_subjects staged) (stg_platforms staged) (stg_schemas staged) =
      Inr (stg_quirks staged, stg_compatibility staged, stg_publishers staged)"
    using assms(2) by (rule import_success)
  then obtain marked where marked: "fold_checked stage_watermark (du_publisher_watermarks ?state) [] = Inr marked"
    and fenced: "fold_checked stage_fence (du_fenced_boots ?state) marked = Inr (stg_publishers staged)"
    by (auto simp: stage_knowledge_def split: sum.splits if_splits)
  have id: "wm_publisher (watermark_for pid st) = pid" "wm_boot (watermark_for pid st) = ?current"
    by (simp_all add: watermark_for_def Let_def)
  have "booted pid ?current marked \<and> om_find pid marked \<noteq> None"
    using fold_stage_watermark [OF marked image(1)] image(2) by (simp add: id)
  then have "booted pid ?current (stg_publishers staged)" "om_find pid (stg_publishers staged) \<noteq> None"
    using fold_stage_fence_booted [OF fenced] by blast+
  then obtain st1 where st1: "om_find pid (stg_publishers staged) = Some st1"
    and boot1: "pub_boot (pr_identity (ps_record st1)) = ?current"
    unfolding booted_def by blast
  have "boot = ?current \<or> boot \<in> set (ps_fenced_boots st1)"
  proof (cases "boot = ?current")
    case False
    then obtain w where "w \<in> set (du_fenced_boots ?state)" "wm_publisher w = pid" "wm_boot w = boot"
      using image(3) assms(5) by blast
    then show ?thesis
      using fold_stage_fence [OF fenced, of pid] st1 by (auto simp: staged_publisher_def)
  qed simp
  then have "boot \<in> set (ps_fenced_boots (bury_publisher st1))"
    using bury_publisher_dead(2) [of st1] bury_publisher_dead(5) [of st1] assms(4) boot1 by auto
  with st1 show ?thesis by (simp add: commit commit_fields)
qed

lemma reachable_publishers_ok: "reachable h builtin limits reg \<Longrightarrow> publishers_ok reg"
  unfolding reachable_def using new_publishers_ok steps_invariant [of h _ _ _ publishers_ok] step_publishers_ok by blast

text \<open>
  A restart does not bring back old boots. Every boot of a publisher that was current or fenced when the
  image was exported is refused after the image was imported: no publication under it is accepted or
  changes a device, evidence, quirk or compatibility fact, however many operations follow the restart.
\<close>

theorem restart_silences_old_boots:
  assumes "reachable h builtin limits reg"
    and "import_durable_state (export_durable_state now reg) fresh = ((Ok, report), restarted)"
    and "om_find (pub_id (pb_publisher p)) (rg_publishers reg) = Some st" and "gen_valid (pub_boot (pb_publisher p))"
    and "pub_boot (pb_publisher p) = pub_boot (pr_identity (ps_record st)) \<or>
      pub_boot (pb_publisher p) \<in> set (ps_fenced_boots st)"
    and "steps h restarted ops reg'" and "pb_kind p \<noteq> PublicationKind.RegisterCapabilitySchema"
  shows "\<not> accepted (fst (apply_publication h now' p reg')) \<and> same_truth reg' (snd (apply_publication h now' p reg'))"
proof -
  obtain st1 where "om_find (pub_id (pb_publisher p)) (rg_publishers restarted) = Some st1"
    "pub_boot (pb_publisher p) \<in> set (ps_fenced_boots st1)"
    using restart_fences_boot [OF reachable_publishers_ok [OF assms(1)] assms(2-5)] by blast
  moreover have "publishers_evolve restarted reg'" using assms(6) by (rule authority.rel_steps)
  ultimately obtain st2 where "om_find (pub_id (pb_publisher p)) (rg_publishers reg') = Some st2"
    "pub_boot (pb_publisher p) \<in> set (ps_fenced_boots st2)"
    unfolding publishers_evolve_def publisher_evolves_def by blast
  with assms(7) show ?thesis unfolding apply_publication_def by (intro fenced_rejects) auto
qed

section \<open>The fence of a publisher is forgotten\<close>

lemma stage_watermark_unfenced:
  "stage_watermark w m = Inr m' \<Longrightarrow> \<forall>pid. \<not> ps_publisher_fenced (staged_publisher pid m) \<Longrightarrow>
     \<forall>pid. \<not> ps_publisher_fenced (staged_publisher pid m')"
  by (auto simp: stage_watermark_def staged_publisher_def Let_def split: if_splits)

lemma stage_fence_unfenced:
  "stage_fence w m = Inr m' \<Longrightarrow> \<forall>pid. \<not> ps_publisher_fenced (staged_publisher pid m) \<Longrightarrow>
     \<forall>pid. \<not> ps_publisher_fenced (staged_publisher pid m')"
  by (auto simp: stage_fence_def staged_publisher_def Let_def split: if_splits)

lemma imported_publishers_unfenced:
  assumes "import_durable_state state reg = ((Ok, report), reg')" and "om_find pid (rg_publishers reg') = Some st"
  shows "\<not> ps_publisher_fenced st"
proof -
  let ?free = "\<lambda>m. \<forall>pid. \<not> ps_publisher_fenced (staged_publisher pid m)"
  obtain staged reg0 where commit: "reg' = commit state staged reg0"
    and "stage_knowledge (rg_limits reg) state (stg_subjects staged) (stg_platforms staged) (stg_schemas staged) =
      Inr (stg_quirks staged, stg_compatibility staged, stg_publishers staged)"
    using assms(1) by (rule import_success)
  then obtain marked where marked: "fold_checked stage_watermark (du_publisher_watermarks state) [] = Inr marked"
    and fenced: "fold_checked stage_fence (du_fenced_boots state) marked = Inr (stg_publishers staged)"
    by (auto simp: stage_knowledge_def split: sum.splits if_splits)
  have "?free marked"
    by (rule fold_checked_invariant [OF marked, where P = ?free])
      (simp add: staged_publisher_def empty_publisher_state_def, erule stage_watermark_unfenced)
  then have "?free (stg_publishers staged)"
    by (rule fold_checked_invariant [OF fenced, where P = ?free]) (erule stage_fence_unfenced)
  then have "\<not> ps_publisher_fenced (staged_publisher pid (stg_publishers staged))" ..
  with assms(2) show ?thesis
    by (auto simp: commit commit_fields staged_publisher_def bury_publisher_dead(4))
qed

end
