(* ===== verification/Restart_Samples.thy ===== *)
theory Restart_Samples
  imports Restart_Fences Witnesses
begin

text \<open>
  Restarts of the sample registry: the witnesses of the theorems on import, and three ways in which the
  registry after a restart is not the one that was stopped.
\<close>

definition restart :: "Registry \<Rightarrow> (Status \<times> ImportReport) \<times> Registry" where
  "restart reg = import_durable_state (export_durable_state [] reg) sample_new"

lemma restart_code [code]: "restart reg = import_durable_state (exported_state [] reg) sample_new"
  by (simp add: restart_def import_exported)

lemma restart_split: "fst (fst (restart reg)) = Ok \<Longrightarrow>
    import_durable_state (export_durable_state [] reg) sample_new = ((Ok, snd (fst (restart reg))), snd (restart reg))"
  by (simp add: restart_def prod_eq_iff)

lemma sample_restarts:
  "fst (fst (restart sample_with_evidence)) = Ok"
  "fst (fst (restart sample_with_quirk)) = Ok"
  "fst (fst (restart sample_fenced)) = Ok"
  by code_simp+

definition sample_foreign_image :: DurableState where
  "sample_foreign_image = (let state = export_durable_state [] sample_with_evidence in
     state\<lparr>du_header := (du_header state)\<lparr>dh_format_version := 2\<rparr>\<rparr>)"

theorem failed_import_applies_nothing_witness:
  "let (answer, reg') = import_durable_state sample_foreign_image sample_with_quirk in
   \<not> ir_applied (snd answer) \<and> (\<exists>serial. reg' = sample_with_quirk\<lparr>rg_next_serial := serial\<rparr>)"
proof -
  have "import_durable_state sample_foreign_image sample_with_quirk =
    ((UnsupportedVersion, no_report), sample_with_quirk)"
    by (simp add: import_durable_state_def stage_structure_def check_header_def sample_foreign_image_def Let_def
        export_durable_state_def exported_state_def state_format_version_def)
  then show ?thesis using failed_import_applies_nothing by fastforce
qed

theorem import_restores_no_liveness_witness:
  "\<not> current_evidence (snd (restart sample_with_evidence)) sample_stored sample_device"
proof -
  have "\<not> provenance_is_durable (es_provenance (cr_source (st_record sample_stored)))" by code_simp
  then show ?thesis
    using import_restores_no_liveness [OF restart_split [OF sample_restarts(1)]] by blast
qed

theorem import_establishes_exact_evidence_witness:
  "rg_evidence_count (snd (restart sample_with_evidence)) = total_records (rg_keys (snd (restart sample_with_evidence)))"
  using import_establishes_exact_evidence [OF restart_split [OF sample_restarts(1)]] by blast

theorem restart_keeps_knowledge_witness:
  "mset (all_records (rg_keys (snd (restart sample_with_quirk)))) = mset (all_records (rg_keys sample_with_quirk)) \<and>
   mset (om_values (rg_quirks (snd (restart sample_with_quirk)))) = mset (om_values (rg_quirks sample_with_quirk))"
  using restart_keeps_knowledge [OF restart_split [OF sample_restarts(2)]] by blast

theorem restart_silences_old_boots_witness:
  "\<not> accepted (fst (apply_publication no_hash [] (sample_publication PublicationKind.PublishCapability 3)
     (snd (restart sample_with_evidence))))"
  using restart_silences_old_boots [OF sample_reachable restart_split [OF sample_restarts(1)] _ _ _ steps_Nil,
      of "sample_publication PublicationKind.PublishCapability 3" "sample_publisher_state 2"]
  by (simp add: sample_publication_def sample_publisher_def sample_lookups sample_publisher_state_def
      sample_publisher_record_def gen_valid_def)

text \<open>
  The fence of a publisher does not survive a restart. Import never restores it, so after a restart every
  known publisher can register again and is accepted under a fresh boot, also one that the coordinator had
  fenced for good.
\<close>

theorem publisher_fence_is_forgotten:
  assumes "import_durable_state state reg = ((Ok, report), restarted)"
    and "om_find pid (rg_publishers restarted) = Some st" and "id_valid pid" and "\<not> rg_shutting_down restarted"
    and "adapter \<noteq> []" and "length adapter \<le> max_metadata_bytes (rg_limits restarted)"
  shows "accepted (fst (register_publisher now \<lparr>pub_id = pid, pub_boot = 0, pub_epoch = epoch\<rparr> adapter restarted))"
  using imported_publishers_unfenced [OF assms(1,2)] assms(2-)
  by (simp add: register_publisher_def register_publisher_locked_def gen_valid_def Let_def accepted_def mutating_def apply_code_accepted_def)

theorem publisher_fence_is_forgotten_witness:
  "fst (register_publisher [] \<lparr>pub_id = ''p'', pub_boot = 0, pub_epoch = 1\<rparr> ''a'' sample_fenced) =
     result_of RejectedFencedPublisher \<and>
   accepted (fst (register_publisher [] \<lparr>pub_id = ''p'', pub_boot = 0, pub_epoch = 1\<rparr> ''a'' (snd (restart sample_fenced))))"
proof
  show "fst (register_publisher [] \<lparr>pub_id = ''p'', pub_boot = 0, pub_epoch = 1\<rparr> ''a'' sample_fenced) =
    result_of RejectedFencedPublisher"
    by code_simp
  have "om_find ''p'' (rg_publishers (snd (restart sample_fenced))) \<noteq> None" by code_simp
  then obtain st where "om_find ''p'' (rg_publishers (snd (restart sample_fenced))) = Some st" by blast
  moreover have "\<not> rg_shutting_down (snd (restart sample_fenced))" by code_simp
  moreover have "length ''a'' \<le> max_metadata_bytes (rg_limits (snd (restart sample_fenced)))" by code_simp
  moreover have "id_valid ''p''" by code_simp
  ultimately show "accepted (fst (register_publisher [] \<lparr>pub_id = ''p'', pub_boot = 0, pub_epoch = 1\<rparr> ''a''
      (snd (restart sample_fenced))))"
    by (intro publisher_fence_is_forgotten [OF restart_split [OF sample_restarts(3)]]) simp_all
qed

section \<open>An image the registry refuses\<close>

definition family_fact :: CompatibilityFact where
  "family_fact = sample_fact\<lparr>cf_lhs := sample_reference\<lparr>hr_kind := ReferenceKind.HardwareFamily, hr_token := ''f''\<rparr>\<rparr>"

definition refitted :: DeviceRegistration where
  "refitted = sample_registration\<lparr>reg_identity := sample_identity\<lparr>di_hardware := sample_hardware\<lparr>hw_family := ''g''\<rparr>\<rparr>\<rparr>"

definition sample_with_family_fact :: Registry where
  "sample_with_family_fact = snd (apply_publication no_hash []
     ((sample_publication PublicationKind.PublishCompatibility 2)\<lparr>pb_compatibility := family_fact\<rparr>) sample_with_device)"

text \<open>
  The registry may refuse its own image. A fact about a hardware family is accepted, then the only device of
  the family registers again under another family, which is accepted too: the image exported from that state is
  refused with an invalid reference, because import derives the known families from the devices alone.
\<close>

theorem own_image_is_refused:
  "let (first, reg1) = apply_publication no_hash []
         ((sample_publication PublicationKind.PublishCompatibility 2)\<lparr>pb_compatibility := family_fact\<rparr>) sample_with_device;
       (second, reg2) = apply_publication no_hash []
         ((sample_publication PublicationKind.RegisterDevice 3)\<lparr>pb_device := refitted\<rparr>) reg1 in
   accepted first \<and> accepted second \<and>
   fst (restart reg2) = (InvalidReference, no_report)"
  by code_simp

section \<open>Evidence that comes back\<close>

definition manifest_source :: EvidenceSource where
  "manifest_source = sample_source\<lparr>es_source_class := SourceClass.ImportedManifest,
     es_provenance := ProvenanceClass.Imported\<rparr>"

definition first_claim :: CapabilityRecord where
  "first_claim = sample_record\<lparr>cr_source := manifest_source\<rparr>"

definition second_claim :: CapabilityRecord where
  "second_claim = first_claim\<lparr>cr_value := V_Boolean False, cr_precision := PrecisionClass.Exact\<rparr>"

definition claim :: "u64 \<Rightarrow> CapabilityRecord \<Rightarrow> Registry \<Rightarrow> Registry" where
  "claim sequence r reg = snd (apply_publication no_hash []
     ((sample_publication PublicationKind.PublishCapability sequence)\<lparr>pb_capability := r\<rparr>) reg)"

definition answered :: "Registry \<Rightarrow> (CapabilityValue \<times> ContradictionState) option" where
  "answered reg = (case query_capability reg ''d'' 0 ''c'' [] True of
     Inl _ \<Rightarrow> None | Inr answer \<Rightarrow> Some (rc_value answer, rc_contradiction answer))"

text \<open>
  A restart revives superseded evidence. A source publishes a claim and then revises its value and its
  precision: the answer is the revised value, consistently. After a restart the revised and the superseded
  claim are both current and the answer is ambiguous, because import tells the slots of a source apart by its
  native reference and by the precision of the record, and publication does not.
\<close>

theorem restart_revives_superseded_evidence:
  "let reg = claim 3 second_claim (claim 2 first_claim sample_with_device) in
   answered reg = Some (V_Boolean False, ContradictionState.Consistent) \<and>
   fst (fst (restart reg)) = Ok \<and>
   map_option snd (answered (snd (restart reg))) = Some ContradictionState.Ambiguous"
  by code_simp

end
