(* ===== verification/Persistence.thy ===== *)
theory Persistence
  imports Durable Codec_Answers Framing
begin

text \<open>
  The durable image (\<^verbatim>\<open>src/persistence.cpp\<close>): a prefix of 24 bytes with magic, version, length, checksum
  and digest, then the payload with every container counted and bounded. The prefix is checked before any
  of the payload is read. \<open>FileStateStore\<close> writes the image to a temporary file and renames it; the file
  system is a map from paths to contents, and what its operations report is an argument of the model.
\<close>

section \<open>Watermarks\<close>

definition write_publisher_watermark :: "PublisherWatermark \<Rightarrow> RegistryLimits \<Rightarrow> writing" where
  "write_publisher_watermark x limits = write_all [
     write_publisher_identity \<lparr>pub_id = wm_publisher x, pub_boot = wm_boot x, pub_epoch = 0\<rparr>,
     wr_u64 (wm_max_sequence x),
     write_gen (wm_max_evidence_generation x),
     wr_u16 (enum_tag all_PublisherState (wm_state x)),
     wr_str (wm_adapter x) (max_metadata_bytes limits),
     wr_str (wm_reason x) (max_metadata_bytes limits),
     wr_size (wm_accepted x),
     wr_size (wm_rejected x),
     wr_str (wm_registered_at_utc x) (max_metadata_bytes limits)]"

definition read_publisher_watermark :: "RegistryLimits \<Rightarrow> PublisherWatermark reading" where
  "read_publisher_watermark limits = do {
     identity \<leftarrow> read_publisher_identity;
     max_sequence \<leftarrow> rd_u64;
     max_evidence_generation \<leftarrow> read_gen;
     raw_state \<leftarrow> rd_u16;
     if enum_beyond all_PublisherState PublisherState.Dead raw_state
     then do { rd_fail ErrorCode.CorruptData;
       State_Monad.return (empty_watermark\<lparr>wm_publisher := pub_id identity, wm_boot := pub_boot identity,
         wm_max_sequence := max_sequence, wm_max_evidence_generation := max_evidence_generation\<rparr>) }
     else do {
       adapter \<leftarrow> rd_str (max_metadata_bytes limits);
       reason \<leftarrow> rd_str (max_metadata_bytes limits);
       accepted \<leftarrow> rd_size;
       rejected \<leftarrow> rd_size;
       registered_at_utc \<leftarrow> rd_str (max_metadata_bytes limits);
       State_Monad.return \<lparr>wm_publisher = pub_id identity, wm_boot = pub_boot identity,
         wm_max_sequence = max_sequence, wm_max_evidence_generation = max_evidence_generation,
         wm_state = enum_cast all_PublisherState raw_state, wm_adapter = adapter, wm_reason = reason,
         wm_accepted = accepted, wm_rejected = rejected, wm_registered_at_utc = registered_at_utc\<rparr> } }"

definition watermark_fits :: "RegistryLimits \<Rightarrow> PublisherWatermark \<Rightarrow> bool" where
  "watermark_fits limits x \<longleftrightarrow>
     wf_id (wm_publisher x) \<and>
     str_fits (max_metadata_bytes limits) (wm_adapter x) \<and>
     str_fits (max_metadata_bytes limits) (wm_reason x) \<and>
     wm_accepted x < 2 ^ 64 \<and> wm_rejected x < 2 ^ 64 \<and>
     str_fits (max_metadata_bytes limits) (wm_registered_at_utc x)"

lemma write_publisher_watermark_wire:
  "watermark_fits limits x \<Longrightarrow>
     codes_some (write_publisher_watermark x limits) (read_publisher_watermark limits) x"
  unfolding write_publisher_watermark_def read_publisher_watermark_def watermark_fits_def
  by (cases x) (auto intro!: codes_intro simp: publisher_identity_fits_def)

lemma disciplined_publisher_watermark [disciplined_intro]: "disciplined (read_publisher_watermark limits)"
  unfolding read_publisher_watermark_def by (intro disciplined_intro; simp)

section \<open>The payload\<close>

lemmas durable_list =
  write_list_fits [OF rd_while_ok_loops _ write_platform_identity_wire]
  write_list_fits [OF rd_while_ok_loops _ write_subject_snapshot_wire]
  write_list_fits [OF rd_while_ok_loops _ write_capability_schema_wire]
  write_list_fits [OF rd_while_ok_loops _ write_capability_record_wire]
  write_list_fits [OF rd_while_ok_loops _ write_quirk_record_wire]
  write_list_fits [OF rd_while_ok_loops _ write_compatibility_fact_wire]
  write_list_fits [OF rd_while_ok_loops _ write_publisher_watermark_wire]

lemmas durable_list_then [codes_intro] = durable_list [THEN codes_then] durable_list [THEN codes_some_bind]

definition write_durable_state :: "DurableState \<Rightarrow> RegistryLimits \<Rightarrow> writing" where
  "write_durable_state x limits = write_all [
     wr_u32 (dh_format_version (du_header x)),
     write_gen (dh_epoch (du_header x)),
     write_gen (dh_snapshot_generation (du_header x)),
     wr_u64 (dh_state_revision (du_header x)),
     wr_str (dh_created_at_utc (du_header x)) (max_metadata_bytes limits),
     wr_str (dh_producer (du_header x)) (max_metadata_bytes limits),
     write_list (\<lambda>e. write_platform_identity e limits) (max_devices limits) (du_platforms x),
     write_list (\<lambda>e. write_subject_snapshot e limits) (max_devices limits) (du_subjects x),
     write_list (\<lambda>e. write_capability_schema e limits) (max_families limits * 16) (du_schemas x),
     write_list (\<lambda>e. write_capability_record e limits) (max_evidence_history limits) (du_capability_history x),
     write_list (\<lambda>e. write_quirk_record e limits) (max_quirks limits) (du_quirks x),
     write_list (\<lambda>e. write_compatibility_fact e limits) (max_compatibility_facts limits) (du_compatibility x),
     write_list (\<lambda>e. write_publisher_watermark e limits) (max_publishers limits * 64) (du_publisher_watermarks x),
     write_list (\<lambda>e. write_publisher_watermark e limits) (max_publishers limits * 64) (du_fenced_boots x),
     wr_u64 (du_canonical_digest x)]"

text \<open>A count that fails reads as no elements; the reader remembers the failure.\<close>

definition rd_counted :: "nat \<Rightarrow> 'a reading \<Rightarrow> 'a list reading" where
  "rd_counted bound r = do {
     xs \<leftarrow> rd_list rd_while_ok bound ErrorCode.LimitExceeded r;
     State_Monad.return (case xs of None \<Rightarrow> [] | Some es \<Rightarrow> es) }"

definition read_durable_state :: "RegistryLimits \<Rightarrow> DurableState reading" where
  "read_durable_state limits = do {
     format_version \<leftarrow> rd_u32;
     epoch \<leftarrow> read_gen;
     snapshot_generation \<leftarrow> read_gen;
     state_revision \<leftarrow> rd_u64;
     created_at_utc \<leftarrow> rd_str (max_metadata_bytes limits);
     producer \<leftarrow> rd_str (max_metadata_bytes limits);
     platforms \<leftarrow> rd_counted (max_devices limits) (read_platform_identity limits);
     subjects \<leftarrow> rd_counted (max_devices limits) (read_subject_snapshot limits);
     schemas \<leftarrow> rd_counted (max_families limits * 16) (read_capability_schema limits);
     capability_history \<leftarrow> rd_counted (max_evidence_history limits) (read_capability_record limits);
     quirks \<leftarrow> rd_counted (max_quirks limits) (read_quirk_record limits);
     compatibility \<leftarrow> rd_counted (max_compatibility_facts limits) (read_compatibility_fact limits);
     publisher_watermarks \<leftarrow> rd_counted (max_publishers limits * 64) (read_publisher_watermark limits);
     fenced_boots \<leftarrow> rd_counted (max_publishers limits * 64) (read_publisher_watermark limits);
     canonical_digest \<leftarrow> rd_u64;
     State_Monad.return \<lparr>du_header = \<lparr>dh_format_version = format_version, dh_epoch = epoch,
         dh_snapshot_generation = snapshot_generation, dh_state_revision = state_revision,
         dh_created_at_utc = created_at_utc, dh_producer = producer\<rparr>,
       du_platforms = platforms, du_subjects = subjects, du_schemas = schemas,
       du_capability_history = capability_history, du_quirks = quirks, du_compatibility = compatibility,
       du_publisher_watermarks = publisher_watermarks, du_fenced_boots = fenced_boots,
       du_canonical_digest = canonical_digest\<rparr> }"

definition durable_fits :: "RegistryLimits \<Rightarrow> DurableState \<Rightarrow> bool" where
  "durable_fits limits x \<longleftrightarrow>
     str_fits (max_metadata_bytes limits) (dh_created_at_utc (du_header x)) \<and>
     str_fits (max_metadata_bytes limits) (dh_producer (du_header x)) \<and>
     list_fits (max_devices limits) (platform_identity_fits limits) (du_platforms x) \<and>
     list_fits (max_devices limits) (subject_snapshot_fits limits) (du_subjects x) \<and>
     list_fits (max_families limits * 16) (capability_schema_fits limits) (du_schemas x) \<and>
     list_fits (max_evidence_history limits) (capability_record_fits limits) (du_capability_history x) \<and>
     list_fits (max_quirks limits) (quirk_record_fits limits) (du_quirks x) \<and>
     list_fits (max_compatibility_facts limits) (compatibility_fact_fits limits) (du_compatibility x) \<and>
     list_fits (max_publishers limits * 64) (watermark_fits limits) (du_publisher_watermarks x) \<and>
     list_fits (max_publishers limits * 64) (watermark_fits limits) (du_fenced_boots x)"

lemma rd_counted_bind:
  "State_Monad.bind (rd_counted bound r) k =
     State_Monad.bind (rd_list rd_while_ok bound ErrorCode.LimitExceeded r) (\<lambda>xs. k (case xs of None \<Rightarrow> [] | Some es \<Rightarrow> es))"
  by (simp add: rd_counted_def State_Monad.bind_assoc)

lemma write_durable_state_wire:
  "durable_fits limits x \<Longrightarrow> codes_some (write_durable_state x limits) (read_durable_state limits) x"
  unfolding write_durable_state_def read_durable_state_def durable_fits_def rd_counted_bind
  by (cases x; cases "du_header x") (auto intro!: codes_intro)

lemma disciplined_counted [disciplined_intro]: "disciplined r \<Longrightarrow> disciplined (rd_counted bound r)"
  unfolding rd_counted_def by (intro disciplined_intro; simp add: disciplined_intro)

lemma disciplined_durable_state [disciplined_intro]: "disciplined (read_durable_state limits)"
  unfolding read_durable_state_def by (intro disciplined_intro)

interpretation durable_wire: wire_format "\<lambda>v. write_durable_state v limits" "read_durable_state limits"
    "durable_fits limits" for limits
  by unfold_locales (simp_all add: write_durable_state_wire disciplined_durable_state)

section \<open>The image\<close>

definition kStateMagic :: u32 where
  "kStateMagic = 0x53524348"

definition kStatePrefixSize :: nat where
  "kStatePrefixSize = 24"

record PersistOptions =
  po_limits :: RegistryLimits
  po_max_bytes :: nat

definition byte_bound :: "PersistOptions \<Rightarrow> nat" where
  "byte_bound options =
     (if po_max_bytes options = 0 then max_persistence_bytes (po_limits options) else po_max_bytes options)"

record ImagePrefix =
  ip_magic :: u32
  ip_version :: u16
  ip_flags :: u16
  ip_length :: u32
  ip_checksum :: u32
  ip_digest :: u64

definition image_prefix :: "DurableState \<Rightarrow> u8 list \<Rightarrow> ImagePrefix" where
  "image_prefix state payload = \<lparr>ip_magic = kStateMagic, ip_version = ucast state_format_version, ip_flags = 0,
     ip_length = word_of_nat (length payload), ip_checksum = crc32 payload,
     ip_digest = du_canonical_digest state\<rparr>"

definition write_image_prefix :: "ImagePrefix \<Rightarrow> writing" where
  "write_image_prefix x = write_all [wr_u32 (ip_magic x), wr_u16 (ip_version x), wr_u16 (ip_flags x),
     wr_u32 (ip_length x), wr_u32 (ip_checksum x), wr_u64 (ip_digest x)]"

definition encode_durable_state :: "DurableState \<Rightarrow> PersistOptions \<Rightarrow> ErrorCode + u8 list" where
  "encode_durable_state state options =
     (let writer = write_durable_state state (po_limits options) empty_writer;
          payload = bw_out writer in
      if bw_truncated writer then Inl ErrorCode.LimitExceeded
      else if length payload + kStatePrefixSize > byte_bound options then Inl ErrorCode.LimitExceeded
      else Inr (wire (write_image_prefix (image_prefix state payload)) @ payload))"

definition read_image_prefix :: "ImagePrefix reading" where
  "read_image_prefix = do {
     magic \<leftarrow> rd_u32;
     version \<leftarrow> rd_u16;
     flags \<leftarrow> rd_u16;
     len \<leftarrow> rd_u32;
     checksum \<leftarrow> rd_u32;
     digest \<leftarrow> rd_u64;
     State_Monad.return \<lparr>ip_magic = magic, ip_version = version, ip_flags = flags, ip_length = len,
       ip_checksum = checksum, ip_digest = digest\<rparr> }"

definition check_prefix :: "PersistOptions \<Rightarrow> ImagePrefix \<Rightarrow> u8 list \<Rightarrow> Status" where
  "check_prefix options prefix payload =
     (if ip_magic prefix \<noteq> kStateMagic then ErrorCode.CorruptData
      else if ip_version prefix \<noteq> ucast state_format_version then ErrorCode.UnsupportedVersion
      else if ip_flags prefix \<noteq> 0 then ErrorCode.CorruptData
      else if unat (ip_length prefix) \<noteq> length payload then ErrorCode.CorruptData
      else if crc32 payload \<noteq> ip_checksum prefix then ErrorCode.IntegrityFailure
      else if length payload + kStatePrefixSize > byte_bound options then ErrorCode.LimitExceeded
      else ErrorCode.Ok)"

definition decode_payload :: "PersistOptions \<Rightarrow> u64 \<Rightarrow> u8 list \<Rightarrow> ErrorCode + DurableState" where
  "decode_payload options digest payload =
     (case run_state (read_durable_state (po_limits options)) (byte_reader payload) of
        (state, reader) \<Rightarrow>
          if \<not> br_ok reader then Inl (br_status reader)
          else if \<not> br_exhausted reader then Inl ErrorCode.CorruptData
          else if dh_format_version (du_header state) \<noteq> state_format_version then Inl ErrorCode.UnsupportedVersion
          else if digest \<noteq> 0 \<and> du_canonical_digest state \<noteq> digest then Inl ErrorCode.CorruptData
          else Inr state)"

definition decode_durable_state :: "u8 list \<Rightarrow> PersistOptions \<Rightarrow> ErrorCode + DurableState" where
  "decode_durable_state bytes options =
     (if length bytes < kStatePrefixSize then Inl ErrorCode.CorruptData
      else
        let prefix = fst (run_state read_image_prefix (byte_reader (take kStatePrefixSize bytes)));
            payload = drop kStatePrefixSize bytes;
            status = check_prefix options prefix payload in
        if \<not> ok status then Inl status else decode_payload options (ip_digest prefix) payload)"

section \<open>Files\<close>

type_synonym Files = "string \<Rightarrow> u8 list option"

text \<open>
  What the operating system does with one save: whether the temporary file opens, how many bytes reach it,
  whether flushing and closing it succeeds, whether the rename does, and whether a removal does.
\<close>

record SaveOutcome =
  so_opened :: bool
  so_written :: nat
  so_closed :: bool
  so_renamed :: bool
  so_removed :: bool

definition temporary_path :: "string \<Rightarrow> string" where
  "temporary_path path = path @ ''.tmp''"

definition remove_file :: "bool \<Rightarrow> string \<Rightarrow> Files \<Rightarrow> Files" where
  "remove_file removed path files = (if removed then files(path := None) else files)"

definition rename_file :: "string \<Rightarrow> string \<Rightarrow> Files \<Rightarrow> Files" where
  "rename_file source target files = files(target := files source, source := None)"

text \<open>The states of the file system in the order a save goes through them, and what it returns.\<close>

definition save_bytes :: "string \<Rightarrow> SaveOutcome \<Rightarrow> u8 list \<Rightarrow> Files \<Rightarrow> Status \<times> Files list" where
  "save_bytes path outcome bytes files =
     (let temporary = temporary_path path;
          created = files(temporary := Some []);
          written = files(temporary := Some (take (so_written outcome) bytes));
          renamed = rename_file temporary path written in
      if \<not> so_opened outcome then (ErrorCode.IoFailure, [files])
      else if so_written outcome < length bytes \<or> \<not> so_closed outcome
      then (ErrorCode.IoFailure, [files, created, written, remove_file (so_removed outcome) temporary written])
      else if \<not> so_renamed outcome
      then (ErrorCode.IoFailure, [files, created, written, remove_file (so_removed outcome) temporary written])
      else (ErrorCode.Ok, [files, created, written, renamed]))"

definition save :: "string \<Rightarrow> PersistOptions \<Rightarrow> SaveOutcome \<Rightarrow> DurableState \<Rightarrow> Files \<Rightarrow> Status \<times> Files list" where
  "save path options outcome state files =
     (case encode_durable_state state options of
        Inl code \<Rightarrow> (code, [files])
      | Inr bytes \<Rightarrow> save_bytes path outcome bytes files)"

definition kReadBuffer :: nat where
  "kReadBuffer = 65536"

text \<open>The loop of \<open>load\<close>: one buffer at a time, refused as soon as the bound is passed.\<close>

function read_chunks :: "nat \<Rightarrow> u8 list \<Rightarrow> u8 list \<Rightarrow> u8 list option" where
  "read_chunks bound bytes rest =
     (if rest = [] then Some bytes
      else
        let chunk = take kReadBuffer rest in
        if length bytes + length chunk > bound then None
        else read_chunks bound (bytes @ chunk) (drop kReadBuffer rest))"
  by pat_completeness auto

termination
  by (relation "measure (\<lambda>(bound, bytes, rest). length rest)") (auto simp: kReadBuffer_def)

declare read_chunks.simps [simp del]

text \<open>A read error ends the loop early: only the first \<open>n\<close> bytes are delivered.\<close>

definition load :: "string \<Rightarrow> PersistOptions \<Rightarrow> nat option \<Rightarrow> Files \<Rightarrow> ErrorCode + DurableState" where
  "load path options failure files =
     (case files path of
        None \<Rightarrow> Inl ErrorCode.IoFailure
      | Some content \<Rightarrow>
          (case read_chunks (byte_bound options) [] (case failure of None \<Rightarrow> content | Some n \<Rightarrow> take n content) of
             None \<Rightarrow> Inl ErrorCode.LimitExceeded
           | Some bytes \<Rightarrow>
               if failure \<noteq> None then Inl ErrorCode.IoFailure else decode_durable_state bytes options))"

definition exists_file :: "string \<Rightarrow> Files \<Rightarrow> bool" where
  "exists_file path files \<longleftrightarrow> files path \<noteq> None"

definition describe_store :: "string \<Rightarrow> string" where
  "describe_store path = ''file:'' @ path"

end
