(* ===== verification/Storage.thy ===== *)
theory Storage
  imports Persistence Restored
begin

text \<open>
  The durable image and the file store: an image decodes to the state it was made of, no altered or cut image
  is taken for another state, a save replaces the file completely or leaves it, and what was saved is what is
  loaded. The last section shows which states are cut when they are written.
\<close>

section \<open>The prefix\<close>

definition prefix_bytes :: "ImagePrefix \<Rightarrow> u8 list" where
  "prefix_bytes x = le_bytes 4 (ip_magic x) @ le_bytes 2 (ip_version x) @ le_bytes 2 (ip_flags x) @
     le_bytes 4 (ip_length x) @ le_bytes 4 (ip_checksum x) @ le_bytes 8 (ip_digest x)"

lemma wire_image_prefix: "wire (write_image_prefix x) = prefix_bytes x"
  by (rule emits_wire)
    (simp add: emits_def write_image_prefix_def write_all_Cons write_all_Nil wr_u16_def wr_u32_def wr_u64_def
      wr_raw_def prefix_bytes_def)

lemma prefix_bytes_length [simp]: "length (prefix_bytes x) = kStatePrefixSize"
  by (simp add: prefix_bytes_def kStatePrefixSize_def)

lemma prefix_decodes: "decodes read_image_prefix (prefix_bytes x) x"
proof -
  have "decodes read_image_prefix (prefix_bytes x @ []) x"
    unfolding read_image_prefix_def prefix_bytes_def append_assoc
    by (rule decodes_bind word_decodes)+ (simp add: decodes_def)
  then show ?thesis by simp
qed

lemma prefix_read: "fst (run_state read_image_prefix (byte_reader (prefix_bytes x))) = x"
  using decodes_run [OF prefix_decodes, of "[]" x "[]"] by (simp add: byte_reader_at)

lemma prefix_bytes_surj:
  assumes "length bs = kStatePrefixSize"
  obtains x where "bs = prefix_bytes x"
proof -
  have cut: "drop k bs = take n (drop k bs) @ drop (k + n) bs" for k n
    by (metis add.commute append_take_drop_id drop_drop)
  have parts: "bs = take 4 bs @ take 2 (drop 4 bs) @ take 2 (drop 6 bs) @ take 4 (drop 8 bs) @
      take 4 (drop 12 bs) @ drop 16 bs"
    using cut [of 0 4] cut [of 4 2] cut [of 6 2] cut [of 8 4] cut [of 12 4] by simp
  obtain m :: u32 where m: "take 4 bs = le_bytes 4 m"
    using le_bytes_surj [where 'w = 32, of 4 "take 4 bs"] assms by (auto simp: kStatePrefixSize_def)
  obtain v :: u16 where v: "take 2 (drop 4 bs) = le_bytes 2 v"
    using le_bytes_surj [where 'w = 16, of 2 "take 2 (drop 4 bs)"] assms by (auto simp: kStatePrefixSize_def)
  obtain f :: u16 where f: "take 2 (drop 6 bs) = le_bytes 2 f"
    using le_bytes_surj [where 'w = 16, of 2 "take 2 (drop 6 bs)"] assms by (auto simp: kStatePrefixSize_def)
  obtain l :: u32 where l: "take 4 (drop 8 bs) = le_bytes 4 l"
    using le_bytes_surj [where 'w = 32, of 4 "take 4 (drop 8 bs)"] assms by (auto simp: kStatePrefixSize_def)
  obtain c :: u32 where c: "take 4 (drop 12 bs) = le_bytes 4 c"
    using le_bytes_surj [where 'w = 32, of 4 "take 4 (drop 12 bs)"] assms by (auto simp: kStatePrefixSize_def)
  obtain d :: u64 where d: "drop 16 bs = le_bytes 8 d"
    using le_bytes_surj [where 'w = 64, of 8 "drop 16 bs"] assms by (auto simp: kStatePrefixSize_def)
  have "bs = prefix_bytes \<lparr>ip_magic = m, ip_version = v, ip_flags = f, ip_length = l, ip_checksum = c, ip_digest = d\<rparr>"
    unfolding prefix_bytes_def using parts unfolding m v f l c d by simp
  then show ?thesis by (rule that)
qed

lemma decode_parts:
  "decode_durable_state (prefix_bytes x @ payload) options =
     (if \<not> ok (check_prefix options x payload) then Inl (check_prefix options x payload)
      else decode_payload options (ip_digest x) payload)"
  by (simp add: decode_durable_state_def Let_def prefix_read)

section \<open>Round trip\<close>

definition image_fits :: "PersistOptions \<Rightarrow> DurableState \<Rightarrow> bool" where
  "image_fits options state \<longleftrightarrow>
     durable_fits (po_limits options) state \<and> dh_format_version (du_header state) = state_format_version \<and>
     length (wire (write_durable_state state (po_limits options))) + kStatePrefixSize \<le> byte_bound options \<and>
     length (wire (write_durable_state state (po_limits options))) < 2 ^ 32"

definition image_of :: "PersistOptions \<Rightarrow> DurableState \<Rightarrow> u8 list" where
  "image_of options state =
     (let payload = wire (write_durable_state state (po_limits options)) in
      prefix_bytes (image_prefix state payload) @ payload)"

lemma encode_image: "image_fits options state \<Longrightarrow> encode_durable_state state options = Inr (image_of options state)"
  using durable_wire.not_clamped [of "po_limits options" state empty_writer]
  by (simp add: image_fits_def encode_durable_state_def image_of_def Let_def wire_image_prefix flip: wire_def)
    (simp add: empty_writer_def)

lemma payload_decodes:
  assumes "durable_fits (po_limits options) state" and "dh_format_version (du_header state) = state_format_version"
  shows "decode_payload options digest (wire (write_durable_state state (po_limits options))) =
    (if digest \<noteq> 0 \<and> du_canonical_digest state \<noteq> digest then Inl ErrorCode.CorruptData else Inr state)"
  using durable_wire.round_trip [OF assms(1), of "[]"] assms(2)
  by (simp add: decode_payload_def reader_at_def br_exhausted_def)

lemma check_prefix_digest [simp]: "check_prefix options (prefix\<lparr>ip_digest := d\<rparr>) payload = check_prefix options prefix payload"
  by (simp add: check_prefix_def)

lemma prefix_accepted:
  "image_fits options state \<Longrightarrow> check_prefix options (image_prefix state (wire (write_durable_state state (po_limits options))))
     (wire (write_durable_state state (po_limits options))) = Ok"
  by (simp add: check_prefix_def image_prefix_def image_fits_def unat_of_nat)

text \<open>
  C32: a durable image decodes to the state it was made of. Every state within the limits whose payload is
  within the byte bound is encoded, and decoding the image gives exactly that state.
\<close>

theorem durable_image_round_trip:
  assumes "image_fits options state"
  shows "\<exists>bytes. encode_durable_state state options = Inr bytes \<and> decode_durable_state bytes options = Inr state"
  using assms encode_image [OF assms] prefix_accepted [OF assms] payload_decodes [of options state]
  by (auto simp: image_of_def Let_def decode_parts image_fits_def image_prefix_def)

section \<open>Damage\<close>

lemma list_update_append_cases: "(xs @ ys)[i := b] = (if i < length xs then xs[i := b] @ ys else xs @ ys[i - length xs := b])"
  by (simp add: list_update_append)

lemma crc32_updated: "i < length data \<Longrightarrow> crc32 (data[i := b]) = crc32 data \<Longrightarrow> data[i := b] = data"
  using crc32_byte_changed [of "take i data" b "drop (Suc i) data" "data ! i"]
  by (simp add: upd_conv_take_nth_drop id_take_nth_drop [symmetric])

text \<open>
  C33: no altered image is taken for another state. Whichever single byte of an image is changed, decoding
  either fails or still gives the state the image was made of.
\<close>

theorem altered_image_is_never_another_state:
  assumes "image_fits options state" and "encode_durable_state state options = Inr bytes"
    and "decode_durable_state (bytes[i := b]) options = Inr state'"
  shows "state' = state"
proof -
  let ?payload = "wire (write_durable_state state (po_limits options))"
  let ?prefix = "image_prefix state ?payload"
  have bytes: "bytes = prefix_bytes ?prefix @ ?payload"
    using assms(2) encode_image [OF assms(1)] by (simp add: image_of_def Let_def)
  have same: "state' = state" if "decode_durable_state (prefix_bytes x @ ?payload) options = Inr state'" for x
    using that assms(1) payload_decodes [of options state "ip_digest x"]
    by (simp add: decode_parts image_fits_def split: if_splits)
  show ?thesis
  proof (cases "i < kStatePrefixSize")
    case True
    obtain x where "(prefix_bytes ?prefix)[i := b] = prefix_bytes x"
      using prefix_bytes_surj [of "(prefix_bytes ?prefix)[i := b]"] by auto
    then show ?thesis
      using assms(3) True same by (simp add: bytes list_update_append_cases)
  next
    case False
    let ?damaged = "?payload[i - kStatePrefixSize := b]"
    have decoded: "decode_durable_state (prefix_bytes ?prefix @ ?damaged) options = Inr state'"
      using assms(3) False by (simp add: bytes list_update_append_cases)
    then have "crc32 ?damaged = crc32 ?payload"
      by (auto simp: decode_parts check_prefix_def image_prefix_def split: if_splits)
    then have "?damaged = ?payload"
      using crc32_updated [of "i - kStatePrefixSize" ?payload b] by (cases "i - kStatePrefixSize < length ?payload") (auto simp: list_update_beyond)
    with decoded same show ?thesis by simp
  qed
qed

text \<open>
  A cut or extended image is refused, whatever is missing from its end or follows it.
\<close>

theorem resized_image_is_refused:
  assumes "image_fits options state" and "encode_durable_state state options = Inr bytes"
  shows "n < length bytes \<Longrightarrow> \<exists>code. decode_durable_state (take n bytes) options = Inl code"
    and "rest \<noteq> [] \<Longrightarrow>
      decode_durable_state (bytes @ rest) options = Inl ErrorCode.CorruptData"
proof -
  let ?payload = "wire (write_durable_state state (po_limits options))"
  let ?prefix = "image_prefix state ?payload"
  have bytes: "bytes = prefix_bytes ?prefix @ ?payload"
    using assms(2) encode_image [OF assms(1)] by (simp add: image_of_def Let_def)
  have len: "unat (ip_length ?prefix) = length ?payload"
    using assms(1) by (simp add: image_prefix_def image_fits_def unat_of_nat)
  have wrong: "decode_durable_state (prefix_bytes ?prefix @ other) options = Inl ErrorCode.CorruptData"
    if "length other \<noteq> length ?payload" for other
    using that len by (simp add: decode_parts check_prefix_def image_prefix_def)
  show "\<exists>code. decode_durable_state (take n bytes) options = Inl code" if "n < length bytes"
  proof (cases "n < kStatePrefixSize")
    case True
    then show ?thesis by (simp add: bytes decode_durable_state_def)
  next
    case False
    then have "take n bytes = prefix_bytes ?prefix @ take (n - kStatePrefixSize) ?payload"
      by (simp add: bytes)
    then show ?thesis
      using wrong [of "take (n - kStatePrefixSize) ?payload"] that False by (simp add: bytes)
  qed
  show "decode_durable_state (bytes @ rest) options = Inl ErrorCode.CorruptData" if "rest \<noteq> []"
    using wrong [of "?payload @ rest"] that by (simp add: bytes)
qed

section \<open>The file store\<close>

lemma read_chunks_bounded:
  "read_chunks bound [] content = (if length content \<le> bound then Some content else None)"
proof -
  have "read_chunks bound bytes rest = (if length (bytes @ rest) \<le> bound then Some (bytes @ rest) else None)"
    if "length bytes \<le> bound" for bytes rest
    using that
  proof (induction "length rest" arbitrary: bytes rest rule: less_induct)
    case less
    show ?case
    proof (cases "rest = []")
      case True
      with less.prems show ?thesis by (simp add: read_chunks.simps)
    next
      case False
      let ?chunk = "take kReadBuffer rest"
      have "length (drop kReadBuffer rest) < length rest"
        using False by (simp add: kReadBuffer_def)
      from less.hyps [OF this, of "bytes @ ?chunk"]
      have "length (bytes @ ?chunk) \<le> bound \<Longrightarrow> read_chunks bound (bytes @ ?chunk) (drop kReadBuffer rest) =
          (if length (bytes @ rest) \<le> bound then Some (bytes @ rest) else None)"
        by (simp only: append_assoc append_take_drop_id)
      then show ?thesis
        using False by (subst read_chunks.simps) (auto simp: Let_def)
    qed
  qed
  from this [of "[]" content] show ?thesis by simp
qed

lemma temporary_path_neq [simp]: "temporary_path path \<noteq> path" "path \<noteq> temporary_path path"
  by (simp_all add: temporary_path_def)

text \<open>
  A save is atomic. In every state the file system goes through, the file holds either what it held before
  or the complete image; the image is in place at the end exactly when the save reports success; and no file
  but this one and its temporary is touched. An interruption at any point therefore never leaves a partial image.
\<close>

theorem save_is_atomic:
  assumes "save path options outcome state files = (status, trace)"
  shows "(\<forall>fs\<in>set trace. fs path = files path \<or>
      (\<exists>bytes. encode_durable_state state options = Inr bytes \<and> fs path = Some bytes)) \<and>
    (if status = ErrorCode.Ok
     then \<exists>bytes. encode_durable_state state options = Inr bytes \<and> last trace path = Some bytes
     else \<forall>fs\<in>set trace. fs path = files path) \<and>
    (\<forall>fs\<in>set trace. \<forall>other. other \<noteq> path \<longrightarrow> other \<noteq> temporary_path path \<longrightarrow> fs other = files other)"
  using assms
  by (cases "encode_durable_state state options")
    (auto simp: save_def save_bytes_def Let_def rename_file_def remove_file_def encode_durable_state_def
      split: if_splits)

lemma load_file:
  "load path options None files =
     (case files path of
        None \<Rightarrow> Inl ErrorCode.IoFailure
      | Some content \<Rightarrow>
          if length content \<le> byte_bound options then decode_durable_state content options else Inl ErrorCode.LimitExceeded)"
  by (simp add: load_def read_chunks_bounded split: option.split)

text \<open>
  C35: loading terminates and is bounded. The buffered reading loop ends for every file; a file within the byte
  bound is decoded as a whole, a longer one is refused, and a read that fails part way is never decoded.
\<close>

theorem load_is_bounded:
  "load path options failure files =
     (case files path of
        None \<Rightarrow> Inl ErrorCode.IoFailure
      | Some content \<Rightarrow>
          let delivered = (case failure of None \<Rightarrow> content | Some n \<Rightarrow> take n content) in
          if length delivered > byte_bound options then Inl ErrorCode.LimitExceeded
          else if failure \<noteq> None then Inl ErrorCode.IoFailure
          else decode_durable_state content options)"
  by (simp add: load_def read_chunks_bounded Let_def split: option.split)

lemma image_length: "image_fits options state \<Longrightarrow> length (image_of options state) \<le> byte_bound options"
  by (simp add: image_of_def image_fits_def Let_def)

lemma image_decodes: "image_fits options state \<Longrightarrow> decode_durable_state (image_of options state) options = Inr state"
  using prefix_accepted [of options state] payload_decodes [of options state]
  by (simp add: image_of_def Let_def decode_parts image_fits_def image_prefix_def)

lemma save_states:
  assumes "save path options outcome state files = (status, trace)" and "image_fits options state"
  shows "fs \<in> set trace \<Longrightarrow> fs path = files path \<or> fs path = Some (image_of options state)"
    and "status = ErrorCode.Ok \<Longrightarrow> last trace path = Some (image_of options state)"
  using assms(1) encode_image [OF assms(2)]
  by (auto simp: save_def save_bytes_def Let_def rename_file_def remove_file_def split: if_splits)


section \<open>What is cut when it is written\<close>

lemma write_list_cut: "write_list f bound (take bound xs) = write_list f bound xs"
  by (simp add: write_list_def min_def Let_def)

lemma write_durable_cut:
  "write_durable_state (state\<lparr>du_fenced_boots := take (max_publishers limits * 64) (du_fenced_boots state)\<rparr>) limits =
     write_durable_state state limits"
  by (simp add: write_durable_state_def write_list_cut)

text \<open>
  A long list of fenced boots is cut without notice. The encoder accepts a state with more fenced boots than
  64 per allowed publisher, and its image decodes successfully to the state without the boots beyond that
  bound, under the digest of the complete state.
\<close>

theorem long_fence_list_is_cut:
  assumes "image_fits options (state\<lparr>du_fenced_boots :=
      take (max_publishers (po_limits options) * 64) (du_fenced_boots state)\<rparr>)"
  shows "\<exists>bytes. encode_durable_state state options = Inr bytes \<and>
    decode_durable_state bytes options = Inr (state\<lparr>du_fenced_boots :=
      take (max_publishers (po_limits options) * 64) (du_fenced_boots state)\<rparr>)"
proof -
  let ?cut = "state\<lparr>du_fenced_boots := take (max_publishers (po_limits options) * 64) (du_fenced_boots state)\<rparr>"
  have "encode_durable_state state options = encode_durable_state ?cut options"
    by (simp add: encode_durable_state_def write_durable_cut image_prefix_def Let_def)
  then show ?thesis
    using encode_image [OF assms] image_decodes [OF assms] by simp
qed

text \<open>
  Such lists arise: every registration without a boot fences the boot before it, and nothing ever removes one.
\<close>

lemma reregistration_adds_fence:
  assumes "om_find (pub_id identity) (rg_publishers reg) = Some st" and "\<not> gen_valid (pub_boot identity)"
    and "\<not> ps_publisher_fenced st" and "gen_valid (pub_boot (pr_identity (ps_record st)))"
    and "id_valid (pub_id identity)" and "adapter \<noteq> []" "length adapter \<le> max_metadata_bytes (rg_limits reg)"
  shows "\<exists>st'. om_find (pub_id identity) (rg_publishers (snd (register_publisher_locked now identity adapter reg))) = Some st' \<and>
    ps_fenced_boots st' = os_insert (pub_boot (pr_identity (ps_record st))) (ps_fenced_boots st)"
  using assms by (simp add: register_publisher_locked_def Let_def put_publisher_def fresh_boot_def touch_locked_def)

end
