(* ===== verification/Storage_Samples.thy ===== *)
theory Storage_Samples
  imports Storage Wire
begin

text \<open>
  A sample durable state within the limits of the sample wire, its image and its file.
\<close>

definition sample_subject :: SubjectSnapshot where
  "sample_subject = no_subject\<lparr>su_identity := sample_identity, su_software := sample_software, su_generation := 1,
     su_boot := 1, su_platform_generation := 1, su_capability_count := 1\<rparr>"

definition sample_state :: DurableState where
  "sample_state = \<lparr>
     du_header = \<lparr>dh_format_version = 1, dh_epoch = 1, dh_snapshot_generation = 1, dh_state_revision = 3,
       dh_created_at_utc = [], dh_producer = ''HCR''\<rparr>,
     du_platforms = [], du_subjects = [sample_subject], du_schemas = [sample_schema],
     du_capability_history = [st_record sample_stored], du_quirks = [sample_quirk],
     du_compatibility = [sample_fact], du_publisher_watermarks = [sample_watermark 2],
     du_fenced_boots = [fenced_watermark ''p'' 7 ''f''], du_canonical_digest = 5\<rparr>"

definition sample_options :: PersistOptions where
  "sample_options = \<lparr>po_limits = wire_limits, po_max_bytes = 1500\<rparr>"

lemma sample_limits_of: "po_limits sample_options = wire_limits"
  by (simp add: sample_options_def)

lemma wire_limits_bounds [simp]:
  "max_devices wire_limits = 2" "max_families wire_limits = 2" "max_evidence_history wire_limits = 4"
  "max_quirks wire_limits = 2" "max_compatibility_facts wire_limits = 2" "max_publishers wire_limits = 2"
  by (simp_all add: wire_limits_def sample_limits_def)

lemma sample_payload_size: "length (wire (write_durable_state sample_state wire_limits)) \<le> 1400"
  by code_simp

lemma sample_state_fits: "durable_fits wire_limits sample_state"
  using sample_tokens empty_version_fits
  by (simp add: durable_fits_def sample_state_def publication_parts_fit sample_message_parts kMaxTokenLength_def
      sample_subject_def subject_snapshot_fits_def no_subject_def watermark_fits_def sample_watermark_def
      fenced_watermark_def empty_watermark_def sample_stored_def)

lemma sample_image_fits: "image_fits sample_options sample_state"
  using sample_state_fits sample_payload_size
  by (simp add: image_fits_def sample_options_def byte_bound_def kStatePrefixSize_def state_format_version_def)
    (simp add: sample_state_def)

lemma sample_image: "encode_durable_state sample_state sample_options = Inr (image_of sample_options sample_state)"
  by (rule encode_image [OF sample_image_fits])

theorem durable_image_round_trip_witness:
  "\<exists>bytes. encode_durable_state sample_state sample_options = Inr bytes \<and>
     decode_durable_state bytes sample_options = Inr sample_state"
  by (rule durable_image_round_trip [OF sample_image_fits])

text \<open>The digest in the prefix may be cleared without a trace, which the theorem allows for.\<close>

lemma sample_undigested:
  "decode_durable_state ((image_of sample_options sample_state)[16 := 0]) sample_options = Inr sample_state"
proof -
  let ?payload = "wire (write_durable_state sample_state wire_limits)"
  let ?prefix = "image_prefix sample_state ?payload"
  have "(prefix_bytes ?prefix)[16 := 0] = prefix_bytes (?prefix\<lparr>ip_digest := 0\<rparr>)"
    by (simp add: prefix_bytes_def list_update_append le_bytes_def upt_rec image_prefix_def sample_state_def)
  then have "(image_of sample_options sample_state)[16 := 0] = prefix_bytes (?prefix\<lparr>ip_digest := 0\<rparr>) @ ?payload"
    by (simp add: image_of_def Let_def sample_options_def list_update_append kStatePrefixSize_def)
  moreover have "check_prefix sample_options (?prefix\<lparr>ip_digest := 0\<rparr>) ?payload = Ok"
    using prefix_accepted [OF sample_image_fits] by (simp add: sample_limits_of)
  moreover have "decode_payload sample_options 0 ?payload = Inr sample_state"
    using payload_decodes [of sample_options sample_state 0] sample_image_fits
    by (simp add: image_fits_def sample_limits_of)
  ultimately show ?thesis by (simp add: decode_parts)
qed

lemma sample_image_length: "10 < length (image_of sample_options sample_state)"
  by (simp add: image_of_def Let_def kStatePrefixSize_def)

theorem altered_image_is_never_another_state_witness:
  "decode_durable_state ((image_of sample_options sample_state)[16 := 0]) sample_options = Inr sample_state"
proof -
  obtain state where state:
    "decode_durable_state ((image_of sample_options sample_state)[16 := 0]) sample_options = Inr state"
    using sample_undigested by blast
  with altered_image_is_never_another_state [OF sample_image_fits sample_image state] show ?thesis by simp
qed

theorem resized_image_is_refused_witness:
  "(\<exists>code. decode_durable_state (take 10 (image_of sample_options sample_state)) sample_options = Inl code) \<and>
   decode_durable_state (image_of sample_options sample_state @ [0]) sample_options = Inl ErrorCode.CorruptData"
  using resized_image_is_refused [OF sample_image_fits sample_image] sample_image_length by simp

definition full_disk :: SaveOutcome where
  "full_disk = \<lparr>so_opened = True, so_written = 10, so_closed = True, so_renamed = True, so_removed = True\<rparr>"

definition good_disk :: SaveOutcome where
  "good_disk = \<lparr>so_opened = True, so_written = 1500, so_closed = True, so_renamed = True, so_removed = True\<rparr>"

definition sample_files :: Files where
  "sample_files = [''s'' \<mapsto> [1, 2, 3]]"

theorem save_is_atomic_witness:
  "\<exists>status trace. save ''s'' sample_options full_disk sample_state sample_files = (status, trace) \<and>
     status = ErrorCode.IoFailure \<and> last trace ''s'' = Some [1, 2, 3]"
proof -
  obtain status trace where run: "save ''s'' sample_options full_disk sample_state sample_files = (status, trace)"
    by fastforce
  have failed: "status = ErrorCode.IoFailure" and some: "trace \<noteq> []"
    using run sample_image sample_image_length by (auto simp: save_def save_bytes_def full_disk_def Let_def)
  then have "last trace ''s'' = sample_files ''s''"
    using save_is_atomic [OF run] last_in_set [OF some] by simp
  then show ?thesis using run failed by (simp add: sample_files_def)
qed


definition long_fences :: "PublisherWatermark list" where
  "long_fences = replicate 65 (fenced_watermark ''p'' 7 ''f'')"

definition many_fences :: DurableState where
  "many_fences = sample_state\<lparr>du_fenced_boots := long_fences\<rparr>"

definition long_options :: PersistOptions where
  "long_options = \<lparr>po_limits = wire_limits\<lparr>max_publishers := 1\<rparr>, po_max_bytes = 8000\<rparr>"

text \<open>The size of a payload grows by a bounded amount with every fenced boot.\<close>

lemma wr_size_of [simp]:
  "length (bw_out (wr_u16 a w)) = length (bw_out w) + 2" "length (bw_out (wr_u32 b w)) = length (bw_out w) + 4"
  "length (bw_out (wr_u64 c w)) = length (bw_out w) + 8" "length (bw_out (wr_size n w)) = length (bw_out w) + 8"
  "length (bw_out (write_gen g w)) = length (bw_out w) + 8"
  by (simp_all add: wr_u16_def wr_u32_def wr_u64_def wr_size_def write_gen_def wr_raw_def)

lemma wr_str_size: "length (bw_out (wr_str s bound w)) = length (bw_out w) + 4 + min bound (length s)"
  by (simp add: wr_str_def wr_blob_def wr_raw_def Let_def wr_u32_def)

lemma fence_size: "length (bw_out (write_publisher_watermark (fenced_watermark ''p'' 7 ''f'') limits w)) \<le> length (bw_out w) + 80"
  by (simp add: write_publisher_watermark_def write_publisher_identity_def write_all_Cons write_all_Nil write_id_def
      wr_str_size fenced_watermark_def empty_watermark_def)

lemma fences_size:
  "length (bw_out (write_all (replicate n (write_publisher_watermark (fenced_watermark ''p'' 7 ''f'') limits)) w))
     \<le> length (bw_out w) + n * 80"
proof (induction n arbitrary: w)
  case (Suc n)
  show ?case
    using order_trans [OF Suc.IH, of "write_publisher_watermark (fenced_watermark ''p'' 7 ''f'') limits w"
        "length (bw_out w) + Suc n * 80"] fence_size [of limits w]
    by (simp add: write_all_Cons)
qed (simp add: write_all_Nil)

lemma few_fences_size:
  "length (wire (write_durable_state (sample_state\<lparr>du_fenced_boots := []\<rparr>) (wire_limits\<lparr>max_publishers := 1\<rparr>))) \<le> 1400"
  by code_simp

lemma write_list_replicate:
  "write_list f n (replicate n x) w = write_all (replicate n (f x)) (wr_u32 (word_of_nat n) w)"
  "write_list f n [] w = wr_u32 0 w"
  by (simp_all add: write_list_def Let_def write_all_Cons write_all_Nil)

lemma many_fences_size:
  "length (wire (write_durable_state (sample_state\<lparr>du_fenced_boots := replicate 64 (fenced_watermark ''p'' 7 ''f'')\<rparr>)
     (wire_limits\<lparr>max_publishers := 1\<rparr>))) \<le> 7000"
proof -
  let ?limits = "wire_limits\<lparr>max_publishers := 1\<rparr>"
  let ?open = "\<lambda>fences. write_durable_state (sample_state\<lparr>du_fenced_boots := fences\<rparr>) ?limits empty_writer"
  let ?fences = "\<lambda>e. write_publisher_watermark e ?limits"
  obtain W where W: "?open fences = wr_u64 5 (write_list ?fences 64 fences W)" for fences
    by (simp add: write_durable_state_def write_all_Cons write_all_Nil sample_state_def)
  have "length (bw_out W) \<le> 1400"
    using few_fences_size by (simp add: wire_def W write_list_replicate del: One_nat_def)
  then show ?thesis
    using fences_size [of 64 ?limits "wr_u32 64 W"] by (simp add: wire_def W write_list_replicate del: One_nat_def)
qed

lemma many_fences_fit:
  "durable_fits (wire_limits\<lparr>max_publishers := 1\<rparr>)
     (sample_state\<lparr>du_fenced_boots := replicate 64 (fenced_watermark ''p'' 7 ''f'')\<rparr>)"
  using sample_tokens empty_version_fits [unfolded version_fits_def]
  by (simp add: durable_fits_def sample_state_def publication_parts_fit sample_message_parts kMaxTokenLength_def
      sample_subject_def subject_snapshot_fits_def no_subject_def watermark_fits_def sample_watermark_def
      fenced_watermark_def empty_watermark_def sample_stored_def version_fits_def list_all_iff)

theorem long_fence_list_is_cut_witness:
  "\<exists>bytes state. encode_durable_state many_fences long_options = Inr bytes \<and>
     decode_durable_state bytes long_options = Inr state \<and>
     length (du_fenced_boots many_fences) = 65 \<and> length (du_fenced_boots state) = 64"
proof -
  let ?cut = "many_fences\<lparr>du_fenced_boots := take (max_publishers (po_limits long_options) * 64) (du_fenced_boots many_fences)\<rparr>"
  have cut: "?cut = sample_state\<lparr>du_fenced_boots := replicate 64 (fenced_watermark ''p'' 7 ''f'')\<rparr>"
    by (simp add: many_fences_def long_fences_def long_options_def)
  have "length (wire (write_durable_state ?cut (po_limits long_options))) \<le> 7000"
    unfolding cut using many_fences_size by (simp add: long_options_def del: One_nat_def)
  moreover have "durable_fits (po_limits long_options) ?cut"
    unfolding cut using many_fences_fit by (simp add: long_options_def del: One_nat_def)
  moreover have "byte_bound long_options = 8000" "dh_format_version (du_header ?cut) = state_format_version"
    by (simp_all add: long_options_def byte_bound_def many_fences_def sample_state_def state_format_version_def)
  ultimately have "image_fits long_options ?cut"
    by (simp add: image_fits_def kStatePrefixSize_def)
  from long_fence_list_is_cut [OF this] cut show ?thesis
    by (auto simp: many_fences_def long_fences_def)
qed

end
