(* ===== verification/Coordinator.thy ===== *)
theory Coordinator
  imports Protocol Persistence Registry
begin

text \<open>
  The coordinator (\<^verbatim>\<open>src/coordinator.cpp\<close>): sessions, the interpretation of one frame, the event loop and the
  ordered start and stop around the registry. The network is an argument: what became readable in a round and
  what each session delivered; what a session is sent is appended to its output. The clock, the hash of the
  standard library and the free text of statuses are fields of a context.
\<close>

section \<open>State\<close>

record Context =
  cx_hash :: "string \<Rightarrow> u64"
  cx_now :: string
  cx_text :: "ErrorCode \<Rightarrow> string"
  cx_detail :: "ApplyCode \<Rightarrow> string"
  cx_save :: SaveOutcome

record CoordinatorConfig =
  cc_state_path :: string
  cc_limits :: RegistryLimits
  cc_persist_on_mutation :: bool
  cc_node_name :: string

record CoordinatorStats =
  cs_connections_accepted :: u64
  cs_frames_received :: u64
  cs_frames_rejected :: u64
  cs_publications_applied :: u64
  cs_publications_rejected :: u64
  cs_publisher_deaths :: u64
  cs_publisher_fences :: u64
  cs_backpressure_events :: u64
  cs_sessions_fenced :: u64
  cs_queries_served :: u64
  cs_epoch_advances :: u64

record Session =
  se_decoder :: FrameDecoder
  se_publisher :: string
  se_boot :: u64
  se_registered :: bool
  se_adapter :: string
  se_handshake :: bool
  se_delivered :: nat
  se_sent :: "Frame list"
  se_writable :: bool

record ShutdownToken =
  st_requested :: bool
  st_reason :: string

record Coordinator =
  co_config :: CoordinatorConfig
  co_registry :: Registry
  co_store :: "PersistOptions option"
  co_files :: Files
  co_token :: ShutdownToken
  co_stats :: CoordinatorStats
  co_sessions :: "(nat, Session) omap"
  co_turned_away :: "Frame list"
  co_started :: bool

abbreviation co_limits :: "Coordinator \<Rightarrow> RegistryLimits" where
  "co_limits co \<equiv> cc_limits (co_config co)"

definition new_session :: "RegistryLimits \<Rightarrow> bool \<Rightarrow> Session" where
  "new_session limits writable = \<lparr>se_decoder = \<lparr>fd_limits = limits, fd_buffer = []\<rparr>, se_publisher = [], se_boot = 0,
     se_registered = False, se_adapter = [], se_handshake = False, se_delivered = 0, se_sent = [],
     se_writable = writable\<rparr>"

definition request_shutdown :: "string \<Rightarrow> ShutdownToken \<Rightarrow> ShutdownToken" where
  "request_shutdown reason token =
     \<lparr>st_requested = True, st_reason = (if st_reason token = [] then reason else st_reason token)\<rparr>"

definition count :: "((u64 \<Rightarrow> u64) \<Rightarrow> CoordinatorStats \<Rightarrow> CoordinatorStats) \<Rightarrow> Coordinator \<Rightarrow> Coordinator" where
  "count update co = co\<lparr>co_stats := update (\<lambda>n. n + 1) (co_stats co)\<rparr>"

definition count_if :: "bool \<Rightarrow> ((u64 \<Rightarrow> u64) \<Rightarrow> CoordinatorStats \<Rightarrow> CoordinatorStats) \<Rightarrow> Coordinator \<Rightarrow> Coordinator" where
  "count_if happened update co = (if happened then count update co else co)"

section \<open>Sending\<close>

definition kFrameFlagAck :: u32 where
  "kFrameFlagAck = 2"

definition send_frame :: "RegistryLimits \<Rightarrow> Frame \<Rightarrow> Session \<Rightarrow> Status \<times> Session" where
  "send_frame limits frame session =
     (case encode_frame frame limits of
        Inl code \<Rightarrow> (code, session)
      | Inr _ \<Rightarrow>
          if se_writable session then (ErrorCode.Ok, session\<lparr>se_sent := se_sent session @ [frame]\<rparr>)
          else (ErrorCode.IoFailure, session))"

definition respond :: "RegistryLimits \<Rightarrow> MessageType \<Rightarrow> u64 \<Rightarrow> u8 list \<Rightarrow> Session \<Rightarrow> Status \<times> Session" where
  "respond limits kind correlation payload session =
     send_frame limits \<lparr>fr_type = kind, fr_flags = kFrameFlagAck, fr_correlation = correlation, fr_payload = payload\<rparr>
       session"

definition error_frame :: "RegistryLimits \<Rightarrow> u64 \<Rightarrow> ErrorCode \<Rightarrow> string \<Rightarrow> Frame" where
  "error_frame limits correlation code message =
     \<lparr>fr_type = MessageType.ErrorResponse, fr_flags = 0, fr_correlation = correlation,
      fr_payload = snd (encode_error_message \<lparr>em_code = code, em_message = message\<rparr> limits)\<rparr>"

definition send_error :: "RegistryLimits \<Rightarrow> u64 \<Rightarrow> ErrorCode \<Rightarrow> string \<Rightarrow> Session \<Rightarrow> Status \<times> Session" where
  "send_error limits correlation code message session =
     (let status = fst (encode_error_message \<lparr>em_code = code, em_message = message\<rparr> limits) in
      if \<not> ok status then (status, session)
      else send_frame limits (error_frame limits correlation code message) session)"

text \<open>What the interpretation of a frame does: its status, the session and the coordinator after it.\<close>

type_synonym reaction = "Status \<times> Session \<times> Coordinator"

definition reject :: "Context \<Rightarrow> Session \<Rightarrow> Frame \<Rightarrow> Status \<Rightarrow> Coordinator \<Rightarrow> reaction" where
  "reject cx session frame status co =
     (case send_error (co_limits co) (fr_correlation frame) status (cx_text cx status) session of
        (sent, session') \<Rightarrow> (sent, session', count cs_frames_rejected_update co))"

text \<open>An encoded answer is sent, a failure to encode it is returned.\<close>

definition reply ::
  "MessageType \<Rightarrow> Frame \<Rightarrow> Status \<times> u8 list \<Rightarrow> Session \<Rightarrow> Coordinator \<Rightarrow> reaction" where
  "reply kind frame encoded session co =
     (if \<not> ok (fst encoded) then (fst encoded, session, co)
      else case respond (co_limits co) kind (fr_correlation frame) (snd encoded) session of
        (sent, session') \<Rightarrow> (sent, session', co))"

section \<open>Queries\<close>

definition fill :: "ErrorCode + 'a \<Rightarrow> ('a \<Rightarrow> QueryResponse) \<Rightarrow> QueryResponse \<Rightarrow> Status \<times> QueryResponse" where
  "fill result update response =
     (case result of Inl code \<Rightarrow> (code, response) | Inr x \<Rightarrow> (ErrorCode.Ok, update x))"

definition answer_query :: "string \<Rightarrow> QueryRequest \<Rightarrow> Registry \<Rightarrow> (Status \<times> QueryResponse) \<times> Registry" where
  "answer_query now request reg =
     (let response = no_response\<lparr>qres_kind := qreq_kind request\<rparr>;
          capability = (let q = qreq_capability request in
            query_capability reg (cq_device q) (cq_device_generation q) (cq_capability q) (cq_environment q)
              (cq_include_evidence q));
          read = (\<lambda>answer. (answer, reg)) in
      case qreq_kind request of
        QueryKind.Capability \<Rightarrow> read (fill capability (\<lambda>r. response\<lparr>qres_capability := r\<rparr>) response)
      | QueryKind.Explain \<Rightarrow>
          read (fill capability (\<lambda>r. response\<lparr>qres_capability := r, qres_text := rc_explanation r\<rparr>) response)
      | QueryKind.DeviceCapabilities \<Rightarrow>
          read (fill (query_capabilities reg (qreq_device_capabilities request))
            (\<lambda>rs. response\<lparr>qres_capabilities := rs\<rparr>) response)
      | QueryKind.Fleet \<Rightarrow>
          (let q = qreq_fleet request in
           read (fill (query_fleet reg (fq_capability q) (fq_environment q) (fq_effective_filter q) (fq_truth_filter q)
               (fq_hardware_class q) (fq_only_current q) (fq_max_results q))
             (\<lambda>rs. response\<lparr>qres_capabilities := rs\<rparr>) response))
      | QueryKind.StaleCapabilities \<Rightarrow>
          (let q = qreq_stale request in
           read (fill (query_stale reg (sq_device q) (sq_device_generation q) (sq_environment q) (sq_max_results q))
             (\<lambda>rs. response\<lparr>qres_capabilities := rs\<rparr>) response))
      | QueryKind.Quirks \<Rightarrow>
          (let q = qreq_quirks request in
           read (fill (query_quirks reg (qq_device q) (qq_environment q) (qq_capability q) (qq_only_applicable q)
               (qq_max_results q))
             (\<lambda>as. response\<lparr>qres_quirks := as\<rparr>) response))
      | QueryKind.QuirkRecords \<Rightarrow> read (ErrorCode.Ok, response\<lparr>qres_quirk_records := list_quirks reg\<rparr>)
      | QueryKind.Compatibility \<Rightarrow>
          (let q = qreq_compatibility request in
           read (ErrorCode.Ok, response\<lparr>qres_compatibility :=
             query_compatibility reg (kq_reference q) (kq_kind q) (kq_include_withdrawn q) (kq_max_results q)\<rparr>))
      | QueryKind.Compare \<Rightarrow>
          read (fill (compare_devices reg (qreq_comparison request)) (\<lambda>c. response\<lparr>qres_comparison := c\<rparr>) response)
      | QueryKind.Devices \<Rightarrow> read (ErrorCode.Ok, response\<lparr>qres_subjects := list_devices reg\<rparr>)
      | QueryKind.Publishers \<Rightarrow>
          (let q = qreq_publishers request in
           read (ErrorCode.Ok, response\<lparr>qres_publishers := list_publishers reg (pq_state q) (pq_max_results q)\<rparr>))
      | QueryKind.Snapshot \<Rightarrow>
          (case snapshot now reg of
             (result, reg') \<Rightarrow> (fill result (\<lambda>s. response\<lparr>qres_snapshot := s\<rparr>) response, reg')))"

definition serve_query :: "Context \<Rightarrow> Session \<Rightarrow> Frame \<Rightarrow> QueryRequest \<Rightarrow> Coordinator \<Rightarrow> reaction" where
  "serve_query cx session frame request co =
     (case answer_query (cx_now cx) request (co_registry co) of
        ((status, response), reg) \<Rightarrow>
          let co = (count cs_queries_served_update co)\<lparr>co_registry := reg\<rparr>;
              response = (if ok status then response
                else response\<lparr>qres_code := status, qres_message := cx_text cx status\<rparr>);
              encoded = encode_query_response response (co_limits co) in
          if \<not> ok (fst encoded) then reject cx session frame (fst encoded) co
          else if length (snd encoded) > max_frame_bytes (co_limits co)
          then reply MessageType.ErrorResponse frame (encode_error_message
              \<lparr>em_code = ErrorCode.LimitExceeded, em_message = ''query response exceeds the frame bound''\<rparr> (co_limits co))
            session co
          else reply MessageType.QueryResponse frame encoded session co)"

section \<open>Frames\<close>

definition on_hello :: "Context \<Rightarrow> Session \<Rightarrow> Frame \<Rightarrow> Coordinator \<Rightarrow> reaction" where
  "on_hello cx session frame co =
     (case decode_hello (fr_payload frame) (co_limits co) of
        (parsed, hello) \<Rightarrow>
          if \<not> ok parsed then reject cx session frame parsed co
          else if hm_protocol_version hello \<noteq> ucast protocol_version
          then reject cx session frame ErrorCode.UnsupportedVersion co
          else reply MessageType.Welcome frame (encode_welcome
              \<lparr>wm_protocol_version = ucast protocol_version, wm_epoch = rg_epoch (co_registry co),
               wm_coordinator_name = cc_node_name (co_config co)\<rparr> (co_limits co))
            (session\<lparr>se_handshake := True\<rparr>) co)"

definition on_register_publisher :: "Context \<Rightarrow> Session \<Rightarrow> Frame \<Rightarrow> Coordinator \<Rightarrow> reaction" where
  "on_register_publisher cx session frame co =
     (if \<not> se_handshake session then reject cx session frame ErrorCode.ProtocolError co
      else case decode_register_publisher_message (fr_payload frame) (co_limits co) of
        (parsed, request) \<Rightarrow>
          if \<not> ok parsed then reject cx session frame parsed co
          else case register_publisher (cx_now cx) (rm_identity request) (rm_adapter request) (co_registry co) of
            (result, reg) \<Rightarrow>
              let assigned = ar_assigned_publisher result;
                  co = co\<lparr>co_registry := reg\<rparr>;
                  session = (if accepted result
                    then session\<lparr>se_publisher := pub_id assigned, se_boot := pub_boot assigned,
                      se_adapter := rm_adapter request, se_registered := True\<rparr>
                    else session) in
              reply MessageType.PublisherAccepted frame (encode_publisher_accepted
                  \<lparr>am_code = ar_code result, am_epoch = rg_epoch reg, am_identity = assigned,
                   am_detail = cx_detail cx (ar_code result)\<rparr> (co_limits co))
                session co)"

definition on_publication :: "Context \<Rightarrow> Session \<Rightarrow> Frame \<Rightarrow> Coordinator \<Rightarrow> reaction" where
  "on_publication cx session frame co =
     (case decode_publication (fr_payload frame) (co_limits co) of
        (parsed, publication) \<Rightarrow>
          if \<not> ok parsed then reject cx session frame parsed co
          else case apply_publication (cx_hash cx) (cx_now cx) publication (co_registry co) of
            (result, reg) \<Rightarrow>
              let co = co\<lparr>co_registry := reg\<rparr>;
                  co = (if accepted result then count cs_publications_applied_update co
                    else count cs_publications_rejected_update co) in
              reply MessageType.PublicationAccepted frame (encode_publication_accepted
                  \<lparr>pm_code = ar_code result, pm_detail = cx_detail cx (ar_code result),
                   pm_device_generation = ar_device_generation result, pm_device_boot = ar_device_boot result\<rparr>
                  (co_limits co))
                session co)"

definition on_heartbeat :: "Context \<Rightarrow> Session \<Rightarrow> Frame \<Rightarrow> Coordinator \<Rightarrow> reaction" where
  "on_heartbeat cx session frame co =
     (case decode_heartbeat (fr_payload frame) (co_limits co) of
        (parsed, heartbeat) \<Rightarrow>
          if \<not> ok parsed then reject cx session frame parsed co
          else reply MessageType.HeartbeatAccepted frame (encode_heartbeat heartbeat (co_limits co)) session co)"

definition on_fence_publisher :: "Context \<Rightarrow> Session \<Rightarrow> Frame \<Rightarrow> Coordinator \<Rightarrow> reaction" where
  "on_fence_publisher cx session frame co =
     (case decode_fence_message (fr_payload frame) (co_limits co) of
        (parsed, request) \<Rightarrow>
          if \<not> ok parsed then reject cx session frame parsed co
          else case fence_publisher (fm_publisher request) (fm_reason request) (co_registry co) of
            (result, reg) \<Rightarrow>
              let co = count_if (accepted result) cs_publisher_fences_update (co\<lparr>co_registry := reg\<rparr>) in
              reply MessageType.FenceAccepted frame (encode_fence_accepted
                  \<lparr>fa_code = ar_code result, fa_detail = cx_detail cx (ar_code result)\<rparr> (co_limits co))
                session co)"

definition on_query :: "Context \<Rightarrow> Session \<Rightarrow> Frame \<Rightarrow> Coordinator \<Rightarrow> reaction" where
  "on_query cx session frame co =
     (case decode_query_request (fr_payload frame) (co_limits co) of
        (parsed, request) \<Rightarrow>
          if \<not> ok parsed then reject cx session frame parsed co else serve_query cx session frame request co)"

definition on_shutdown :: "Context \<Rightarrow> Session \<Rightarrow> Frame \<Rightarrow> Coordinator \<Rightarrow> reaction" where
  "on_shutdown cx session frame co =
     (case decode_shutdown (fr_payload frame) (co_limits co) of
        (parsed, request) \<Rightarrow>
          if \<not> ok parsed then reject cx session frame parsed co
          else
            let encoded = encode_shutdown request (co_limits co) in
            if \<not> ok (fst encoded) then (fst encoded, session, co)
            else case respond (co_limits co) MessageType.ShutdownAccepted (fr_correlation frame) (snd encoded) session of
              (sent, session') \<Rightarrow>
                (sent, session', co\<lparr>co_token := request_shutdown
                  (if sm_reason request = [] then ''shutdown requested by client'' else sm_reason request)
                  (co_token co)\<rparr>))"

definition dispatch_frame :: "Context \<Rightarrow> Session \<Rightarrow> Frame \<Rightarrow> Coordinator \<Rightarrow> reaction" where
  "dispatch_frame cx session frame co =
     (let co = count cs_frames_received_update co in
      case fr_type frame of
        MessageType.Hello \<Rightarrow> on_hello cx session frame co
      | MessageType.RegisterPublisher \<Rightarrow> on_register_publisher cx session frame co
      | MessageType.Publication \<Rightarrow> on_publication cx session frame co
      | MessageType.Heartbeat \<Rightarrow> on_heartbeat cx session frame co
      | MessageType.FencePublisher \<Rightarrow> on_fence_publisher cx session frame co
      | MessageType.QueryRequest \<Rightarrow> on_query cx session frame co
      | MessageType.SnapshotRequest \<Rightarrow>
          serve_query cx session frame (no_request\<lparr>qreq_kind := QueryKind.Snapshot\<rparr>) co
      | MessageType.ShutdownRequest \<Rightarrow> on_shutdown cx session frame co
      | _ \<Rightarrow> reject cx session frame ErrorCode.ProtocolError co)"

text \<open>Frames are interpreted until one fails, which closes the session, or a shutdown is requested.\<close>

fun dispatch_frames :: "Context \<Rightarrow> Session \<Rightarrow> Frame list \<Rightarrow> Coordinator \<Rightarrow> bool \<times> Session \<times> Coordinator" where
  "dispatch_frames cx session [] co = (False, session, co)"
| "dispatch_frames cx session (frame # frames) co =
     (case dispatch_frame cx session frame co of
        (dispatched, session', co') \<Rightarrow>
          if \<not> ok dispatched then (True, session', co')
          else
            let session' = session'\<lparr>se_delivered := se_delivered session' + 1\<rparr> in
            if st_requested (co_token co') then (False, session', co')
            else dispatch_frames cx session' frames co')"

end
