(* ===== verification/Event_Loop.thy ===== *)
theory Event_Loop
  imports Coordinator
begin

text \<open>
  The rest of \<^verbatim>\<open>src/coordinator.cpp\<close>: reading and retiring sessions, one round of the event loop, the loop, and
  the ordered start and stop. Sessions are keyed by their socket handle, as in the session map of the code.
\<close>

section \<open>Sessions\<close>

definition om_erase :: "'k \<Rightarrow> ('k, 'v) omap \<Rightarrow> ('k, 'v) omap" where
  "om_erase k m = filter (\<lambda>e. fst e \<noteq> k) m"

lemma om_find_erase [simp]: "om_find k' (om_erase k m) = (if k' = k then None else om_find k' m)"
  by (induction m) (auto simp: om_find_def om_erase_def)

definition retire_session :: "Session \<Rightarrow> string \<Rightarrow> Coordinator \<Rightarrow> Coordinator" where
  "retire_session session reason co =
     (if \<not> se_registered session then co
      else case retire_publisher_boot (se_publisher session) (se_boot session) reason (co_registry co) of
        (retired, reg) \<Rightarrow>
          count_if (accepted retired \<or> ar_code retired = AcceptedIdempotent) cs_publisher_deaths_update
            (co\<lparr>co_registry := reg\<rparr>))"

definition drop_session :: "string \<Rightarrow> nat \<Rightarrow> Coordinator \<Rightarrow> Coordinator" where
  "drop_session reason handle co =
     (case om_find handle (co_sessions co) of
        None \<Rightarrow> co
      | Some session \<Rightarrow>
          let co = count cs_sessions_fenced_update (retire_session session reason co) in
          co\<lparr>co_sessions := om_erase handle (co_sessions co)\<rparr>)"

text \<open>
  What the operating system reports of a session in one round: not ready, a failing socket, or the bytes one
  read delivered (none when the peer has closed).
\<close>

datatype Delivery = Quiet | Broken | Received "u8 list"

text \<open>Whether the session is closed, its frames, the session and the coordinator.\<close>

type_synonym reading_outcome = "bool \<times> Frame list \<times> Session \<times> Coordinator"

definition refuse_delivery :: "Context \<Rightarrow> ErrorCode \<Rightarrow> string \<Rightarrow> Session \<Rightarrow> Coordinator \<Rightarrow> reading_outcome" where
  "refuse_delivery cx code message session co =
     (True, [], snd (send_error (co_limits co) 0 code message session), count cs_frames_rejected_update co)"

definition read_session :: "Context \<Rightarrow> Session \<Rightarrow> Delivery \<Rightarrow> Coordinator \<Rightarrow> reading_outcome" where
  "read_session cx session delivery co =
     (case delivery of
        Quiet \<Rightarrow> (False, [], session, co)
      | Broken \<Rightarrow> (True, [], session, co)
      | Received data \<Rightarrow>
          if data = [] then (True, [], session, co)
          else case feed data (se_decoder session) of
            (fed, frames, decoder) \<Rightarrow>
              let session = session\<lparr>se_decoder := decoder\<rparr> in
              if \<not> ok fed then refuse_delivery cx fed (cx_text cx fed) session co
              else if length frames > max_pending_publications (co_limits co)
              then refuse_delivery cx ErrorCode.QueueFull ''too many frames delivered in one batch'' session
                (count cs_backpressure_events_update co)
              else (False, frames, session, co))"

section \<open>One round\<close>

text \<open>
  What happens around the coordinator in one turn of its loop: whether the external token is raised when it is
  polled, what waiting returns, what accepting returns when the listener is ready (a handle, and whether the
  new connection can be written), and what each session delivers.
\<close>

record Round =
  ro_context :: Context
  ro_external :: "string option"
  ro_waited :: Status
  ro_accepted :: "(ErrorCode + nat \<times> bool) option"
  ro_delivery :: "nat \<Rightarrow> Delivery"

definition put_session :: "nat \<Rightarrow> Session \<Rightarrow> Coordinator \<Rightarrow> Coordinator" where
  "put_session handle session co = co\<lparr>co_sessions := om_put handle session (co_sessions co)\<rparr>"

definition turn_away :: "bool \<Rightarrow> Coordinator \<Rightarrow> Coordinator" where
  "turn_away writable co =
     (let co = count cs_backpressure_events_update co;
          encoded = encode_error_message
            \<lparr>em_code = ErrorCode.QueueFull, em_message = ''connection limit reached''\<rparr> (co_limits co);
          frame = error_frame (co_limits co) 0 ErrorCode.QueueFull ''connection limit reached'' in
      if ok (fst encoded) \<and> (case encode_frame frame (co_limits co) of Inl _ \<Rightarrow> False | Inr _ \<Rightarrow> writable)
      then co\<lparr>co_turned_away := co_turned_away co @ [frame]\<rparr> else co)"

definition accept_connection :: "nat \<Rightarrow> bool \<Rightarrow> Coordinator \<Rightarrow> Coordinator" where
  "accept_connection handle writable co =
     (if length (co_sessions co) \<ge> max_connections (co_limits co) then turn_away writable co
      else count cs_connections_accepted_update
        (co\<lparr>co_sessions := om_emplace handle (new_session (co_limits co) writable) (co_sessions co)\<rparr>))"

text \<open>Phase one: every session that was known before the round is read; the dead ones and the frames of the others.\<close>

fun read_ready ::
  "Context \<Rightarrow> (nat \<Rightarrow> Delivery) \<Rightarrow> nat list \<Rightarrow> Coordinator \<Rightarrow> nat list \<times> (nat \<times> Frame list) list \<times> Coordinator" where
  "read_ready cx delivery [] co = ([], [], co)"
| "read_ready cx delivery (handle # handles) co =
     (case om_find handle (co_sessions co) of
        None \<Rightarrow> read_ready cx delivery handles co
      | Some session \<Rightarrow>
          (case read_session cx session (delivery handle) co of
             (closed, frames, session', co') \<Rightarrow>
               case read_ready cx delivery handles (put_session handle session' co') of
                 (dead, delivered, co'') \<Rightarrow>
                   if closed then (handle # dead, delivered, co'')
                   else if frames \<noteq> [] then (dead, (handle, frames) # delivered, co'')
                   else (dead, delivered, co'')))"

text \<open>Phase two: the frames of a session that is still there are interpreted.\<close>

definition dispatch_delivered :: "Context \<Rightarrow> nat \<times> Frame list \<Rightarrow> Coordinator \<Rightarrow> Coordinator" where
  "dispatch_delivered cx entry co =
     (case om_find (fst entry) (co_sessions co) of
        None \<Rightarrow> co
      | Some session \<Rightarrow>
          (case dispatch_frames cx session (snd entry) co of
             (closed, session', co') \<Rightarrow>
               let co = put_session (fst entry) session' co' in
               if closed then drop_session ''session closed during dispatch'' (fst entry) co else co))"

text \<open>The dead sessions are dropped before any frame is interpreted.\<close>

definition turn :: "Context \<Rightarrow> (nat \<Rightarrow> Delivery) \<Rightarrow> nat list \<Rightarrow> Coordinator \<Rightarrow> Coordinator" where
  "turn cx delivery handles co =
     (case read_ready cx delivery handles co of
        (dead, delivered, co) \<Rightarrow>
          fold (dispatch_delivered cx) delivered
            (fold (drop_session ''publisher connection closed; boot identity retired'') dead co))"

definition serve_round :: "Round \<Rightarrow> Coordinator \<Rightarrow> Status \<times> Coordinator" where
  "serve_round r co =
     (let handles = om_keys (co_sessions co);
          go = (\<lambda>co. (ErrorCode.Ok, turn (ro_context r) (ro_delivery r) handles co)) in
      if \<not> ok (ro_waited r) then (ro_waited r, co)
      else case ro_accepted r of
        None \<Rightarrow> go co
      | Some (Inl code) \<Rightarrow> (code, co)
      | Some (Inr (handle, writable)) \<Rightarrow> go (accept_connection handle writable co))"

section \<open>The loop\<close>

text \<open>How the loop ends: it does not while rounds are missing, it returns a failure, or it stops to shut down.\<close>

datatype Served = Waiting | Failed Status | Stopping

fun serve :: "Round list \<Rightarrow> Coordinator \<Rightarrow> Served \<times> Coordinator" where
  "serve [] co = (if st_requested (co_token co) then Stopping else Waiting, co)"
| "serve (r # rounds) co =
     (if st_requested (co_token co) then (Stopping, co)
      else case ro_external r of
        Some reason \<Rightarrow> (Stopping, co\<lparr>co_token := request_shutdown reason (co_token co)\<rparr>)
      | None \<Rightarrow>
          (case serve_round r co of
             (status, co') \<Rightarrow> if \<not> ok status then (Failed status, co') else serve rounds co'))"

section \<open>Start and stop\<close>

definition load_state :: "nat option \<Rightarrow> Coordinator \<Rightarrow> Status \<times> Coordinator" where
  "load_state failure co =
     (case co_store co of
        None \<Rightarrow> (ErrorCode.Ok, co)
      | Some options \<Rightarrow>
          (case load (cc_state_path (co_config co)) options failure (co_files co) of
             Inl code \<Rightarrow> (code, co)
           | Inr state \<Rightarrow>
               (case import_durable_state state (co_registry co) of
                  ((imported, report), reg) \<Rightarrow> (imported, co\<lparr>co_registry := reg\<rparr>))))"

definition save_state :: "Context \<Rightarrow> Coordinator \<Rightarrow> Status \<times> Coordinator" where
  "save_state cx co =
     (case co_store co of
        None \<Rightarrow> (ErrorCode.Ok, co)
      | Some options \<Rightarrow>
          (case save (cc_state_path (co_config co)) options (cx_save cx)
                  (export_durable_state (cx_now cx) (co_registry co)) (co_files co) of
             (saved, files) \<Rightarrow> (saved, co\<lparr>co_files := last files\<rparr>)))"

definition default_options :: PersistOptions where
  "default_options = \<lparr>po_limits = default_limits, po_max_bytes = 0\<rparr>"

definition open_store :: "nat option \<Rightarrow> Coordinator \<Rightarrow> Status \<times> Coordinator" where
  "open_store failure co =
     (if cc_state_path (co_config co) = [] then (ErrorCode.Ok, co)
      else
        let co = co\<lparr>co_store := Some default_options\<rparr> in
        if exists_file (cc_state_path (co_config co)) (co_files co) then load_state failure co
        else (ErrorCode.Ok, co))"

text \<open>\<open>opened\<close> is what initialising the transport and binding the listener return.\<close>

definition start :: "Context \<Rightarrow> Status \<Rightarrow> nat option \<Rightarrow> Coordinator \<Rightarrow> Status \<times> Coordinator" where
  "start cx opened failure co =
     (if \<not> ok opened then (opened, co)
      else case open_store failure co of
        (loaded, co) \<Rightarrow>
          if \<not> ok loaded then (loaded, co)
          else case advance_coordinator_epoch (co_registry co) of
            (epoch, reg) \<Rightarrow>
              let co = (count cs_epoch_advances_update co)\<lparr>
                    co_registry := reset_publisher_liveness
                      ''coordinator restarted; publisher liveness is not restored'' reg,
                    co_started := True\<rparr> in
              if cc_state_path (co_config co) \<noteq> [] \<and> cc_persist_on_mutation (co_config co)
              then save_state cx co else (ErrorCode.Ok, co))"

definition shut_down :: "Context \<Rightarrow> Coordinator \<Rightarrow> Status \<times> Coordinator" where
  "shut_down cx co =
     (let co = fold (\<lambda>session co. count cs_sessions_fenced_update
            (retire_session session ''coordinator shutdown; boot identity retired'' co))
            (om_values (co_sessions co)) co;
          co = co\<lparr>co_sessions := [], co_registry := begin_shutdown (co_registry co)\<rparr> in
      save_state cx co)"

text \<open>\<open>run\<close>: its status once it returns, with the context of the start and of the shutdown.\<close>

definition run :: "Context \<Rightarrow> Status \<Rightarrow> nat option \<Rightarrow> Round list \<Rightarrow> Coordinator \<Rightarrow> Status option \<times> Coordinator" where
  "run cx opened failure rounds co =
     (let (started, co) = (if co_started co then (ErrorCode.Ok, co) else start cx opened failure co) in
      if \<not> ok started then (Some started, co)
      else case serve rounds co of
        (Waiting, co) \<Rightarrow> (None, co)
      | (Failed status, co) \<Rightarrow> (Some status, co)
      | (Stopping, co) \<Rightarrow> (case shut_down cx co of (status, co) \<Rightarrow> (Some status, co)))"

definition new_coordinator :: "CapabilitySchema list \<Rightarrow> CoordinatorConfig \<Rightarrow> Files \<Rightarrow> Coordinator" where
  "new_coordinator builtin config files =
     \<lparr>co_config = config, co_registry = new_registry builtin (cc_limits config), co_store = None, co_files = files,
      co_token = \<lparr>st_requested = False, st_reason = []\<rparr>,
      co_stats = \<lparr>cs_connections_accepted = 0, cs_frames_received = 0, cs_frames_rejected = 0,
        cs_publications_applied = 0, cs_publications_rejected = 0, cs_publisher_deaths = 0,
        cs_publisher_fences = 0, cs_backpressure_events = 0, cs_sessions_fenced = 0, cs_queries_served = 0,
        cs_epoch_advances = 0\<rparr>,
      co_sessions = [], co_turned_away = [], co_started = False\<rparr>"

end
