(* ===== verification/Coordination.thy ===== *)
theory Coordination
  imports Event_Loop Authority Invariants
begin

text \<open>
  What the coordinator does to the registry: every execution of its event loop is a sequence of operations of
  the registry's interface and of snapshots. The contracts that hold of every such operation therefore hold
  of the whole coordinator.
\<close>

section \<open>Registry moves\<close>

datatype Move = Operated Operation | Snapped string

inductive moves :: "(string \<Rightarrow> u64) \<Rightarrow> Registry \<Rightarrow> Move list \<Rightarrow> Registry \<Rightarrow> bool"
  for hash_string :: "string \<Rightarrow> u64" where
  moves_Nil: "moves hash_string reg [] reg"
| moves_Operated: "step hash_string reg op reg' \<Longrightarrow> moves hash_string reg' ms reg'' \<Longrightarrow>
    moves hash_string reg (Operated op # ms) reg''"
| moves_Snapped: "moves hash_string (snd (snapshot now reg)) ms reg'' \<Longrightarrow>
    moves hash_string reg (Snapped now # ms) reg''"

inductive_simps moves_Nil_iff [simp]: "moves h reg [] reg'"
inductive_simps moves_Operated_iff: "moves h reg (Operated op # ms) reg'"
inductive_simps moves_Snapped_iff: "moves h reg (Snapped now # ms) reg'"

lemma moves_append: "moves h reg ms reg' \<Longrightarrow> moves h reg' ms' reg'' \<Longrightarrow> moves h reg (ms @ ms') reg''"
  by (induction rule: moves.induct) (auto intro: moves.intros)

text \<open>The moves a coordinator makes while it serves: four operations of the interface, and snapshots.\<close>

fun served :: "Move \<Rightarrow> bool" where
  "served (Snapped now) = True"
| "served (Operated (Op_RegisterPublisher now identity adapter result)) = True"
| "served (Operated (Op_Fence pid reason result)) = True"
| "served (Operated (Op_Retire pid boot reason result)) = True"
| "served (Operated (Op_Apply now publication result)) = True"
| "served (Operated op) = False"

definition moved :: "(string \<Rightarrow> u64) \<Rightarrow> Registry \<Rightarrow> Registry \<Rightarrow> bool" where
  "moved h reg reg' \<longleftrightarrow> (\<exists>ms. moves h reg ms reg' \<and> list_all served ms)"

lemma moved_refl [simp]: "moved h reg reg"
  unfolding moved_def by (rule exI [of _ "[]"]) simp

lemma moved_trans: "moved h a b \<Longrightarrow> moved h b c \<Longrightarrow> moved h a c"
  unfolding moved_def using moves_append list_all_append by metis

lemma moved_step: "step h reg op reg' \<Longrightarrow> served (Operated op) \<Longrightarrow> moved h reg reg'"
  unfolding moved_def by (rule exI [of _ "[Operated op]"]) (auto intro: moves.intros)

lemma moved_snapshot: "moved h reg (snd (snapshot now reg))"
  unfolding moved_def by (rule exI [of _ "[Snapped now]"]) (auto intro: moves.intros)

lemma moved_operations [simp]:
  "moved h reg (snd (register_publisher now identity adapter reg))"
  "moved h reg (snd (apply_publication h now p reg))"
  "moved h reg (snd (fence_publisher pid reason reg))"
  "moved h reg (snd (retire_publisher_boot pid boot reason reg))"
  by (rule moved_step, rule step_register_publisher step_apply step_fence step_retire, rule prod.collapse [symmetric], simp)+

text \<open>A contract on operations that snapshots respect holds of every execution.\<close>

locale loop_preorder = step_preorder +
  assumes rel_snapshot: "rel reg (snd (snapshot now reg))"
begin

lemma rel_moves: "moves hash_string reg ms reg' \<Longrightarrow> rel reg reg'"
  by (induction rule: moves.induct) (auto intro: rel_refl rel_step rel_trans rel_snapshot)

lemma rel_moved: "moved hash_string reg reg' \<Longrightarrow> rel reg reg'"
  unfolding moved_def using rel_moves by blast

end

lemma snapshot_publishers [simp]: "rg_publishers (snd (snapshot now reg)) = rg_publishers reg"
  by (simp add: snapshot_def)

lemma snapshot_limits [simp]: "rg_limits (snd (snapshot now reg)) = rg_limits reg"
  by (simp add: snapshot_def)

interpretation authority_loop: loop_preorder publishers_evolve h for h
  by unfold_locales (simp add: publishers_evolve_def)

section \<open>What a frame leaves alone\<close>

definition undisturbed :: "Coordinator \<Rightarrow> Coordinator \<Rightarrow> bool" where
  "undisturbed co co' \<longleftrightarrow>
     co_config co' = co_config co \<and> co_store co' = co_store co \<and> co_files co' = co_files co \<and>
     co_started co' = co_started co \<and> co_sessions co' = co_sessions co \<and> co_turned_away co' = co_turned_away co"

lemma undisturbed_refl [simp]: "undisturbed co co"
  by (simp add: undisturbed_def)

lemma undisturbed_trans: "undisturbed a b \<Longrightarrow> undisturbed b c \<Longrightarrow> undisturbed a c"
  by (simp add: undisturbed_def)

lemma count_fields [simp]:
  "co_config (count f co) = co_config co" "co_registry (count f co) = co_registry co"
  "co_store (count f co) = co_store co" "co_files (count f co) = co_files co"
  "co_token (count f co) = co_token co" "co_sessions (count f co) = co_sessions co"
  "co_started (count f co) = co_started co" "co_turned_away (count f co) = co_turned_away co"
  by (simp_all add: count_def)

lemma count_if_fields [simp]:
  "co_config (count_if b f co) = co_config co" "co_registry (count_if b f co) = co_registry co"
  "co_store (count_if b f co) = co_store co" "co_files (count_if b f co) = co_files co"
  "co_token (count_if b f co) = co_token co" "co_sessions (count_if b f co) = co_sessions co"
  "co_started (count_if b f co) = co_started co" "co_turned_away (count_if b f co) = co_turned_away co"
  by (simp_all add: count_if_def)

lemma reject_frame [simp]:
  "undisturbed co (snd (snd (reject cx session f status co)))"
  "co_registry (snd (snd (reject cx session f status co))) = co_registry co"
  "co_token (snd (snd (reject cx session f status co))) = co_token co"
  by (simp_all add: reject_def undisturbed_def split: prod.split)

lemma reply_frame [simp]:
  "snd (snd (reply kind f encoded session co)) = co"
  by (simp add: reply_def split: prod.split)

lemma answer_query_moved: "moved h reg (snd (answer_query now request reg))"
  using moved_snapshot [of h reg now]
  by (cases "qreq_kind request") (auto simp: answer_query_def Let_def split: prod.split)

text \<open>Everything a handler does to the coordinator, its counters and its token apart.\<close>

definition passes :: "(string \<Rightarrow> u64) \<Rightarrow> Coordinator \<Rightarrow> Coordinator \<Rightarrow> bool" where
  "passes h co co' \<longleftrightarrow> undisturbed co co' \<and> moved h (co_registry co) (co_registry co')"

lemma passes_refl [simp]: "passes h co co"
  by (simp add: passes_def)

lemma passes_trans: "passes h a b \<Longrightarrow> passes h b c \<Longrightarrow> passes h a c"
  unfolding passes_def using undisturbed_trans moved_trans by blast

lemma passes_updates [simp]:
  "passes h co (count f co') = passes h co co'" "passes h (count f co) co' = passes h co co'"
  "passes h co (count_if b f co') = passes h co co'" "passes h co (co'\<lparr>co_token := token\<rparr>) = passes h co co'"
  "passes h co (co\<lparr>co_registry := reg\<rparr>) = moved h (co_registry co) reg"
  by (auto simp: passes_def undisturbed_def)

lemma passes_reject [simp]: "passes h co (snd (snd (reject cx session f status co'))) = passes h co co'"
  by (simp add: reject_def split: prod.split)

lemma moved_case [simp]:
  "apply_publication h now p reg = (result, reg') \<Longrightarrow> moved h reg reg'"
  "register_publisher now identity adapter reg = (result, reg') \<Longrightarrow> moved h reg reg'"
  "fence_publisher pid reason reg = (result, reg') \<Longrightarrow> moved h reg reg'"
  "retire_publisher_boot pid boot reason reg = (result, reg') \<Longrightarrow> moved h reg reg'"
  "answer_query now request reg = (answer, reg') \<Longrightarrow> moved h reg reg'"
  using moved_operations [of h reg] answer_query_moved [of h reg] by (metis snd_conv)+

lemma passes_serve_query [simp]: "passes h co (snd (snd (serve_query cx session f request co)))"
  by (auto simp: serve_query_def Let_def passes_def undisturbed_def reject_def split: prod.split)

lemma passes_hello: "passes h co (snd (snd (on_hello cx session f co)))"
  by (simp add: on_hello_def split: prod.split)

lemma passes_register_publisher: "passes h co (snd (snd (on_register_publisher cx session f co)))"
  by (simp add: on_register_publisher_def Let_def split: prod.split)

lemma passes_publication: "passes (cx_hash cx) co (snd (snd (on_publication cx session f co)))"
  by (simp add: on_publication_def Let_def split: prod.split)

lemma passes_heartbeat: "passes h co (snd (snd (on_heartbeat cx session f co)))"
  by (simp add: on_heartbeat_def split: prod.split)

lemma passes_fence_publisher: "passes h co (snd (snd (on_fence_publisher cx session f co)))"
  by (simp add: on_fence_publisher_def Let_def split: prod.split)

lemma passes_query: "passes h co (snd (snd (on_query cx session f co)))"
  by (simp add: on_query_def split: prod.split)

lemma passes_shutdown: "passes h co (snd (snd (on_shutdown cx session f co)))"
  by (simp add: on_shutdown_def Let_def split: prod.split)

lemma passes_dispatch_frame: "passes (cx_hash cx) co (snd (snd (dispatch_frame cx session f co)))"
proof -
  let ?co = "count cs_frames_received_update co"
  have "passes (cx_hash cx) ?co (snd (snd (dispatch_frame cx session f co)))"
    by (cases "fr_type f")
      (simp_all add: dispatch_frame_def passes_hello passes_register_publisher passes_publication passes_heartbeat
        passes_fence_publisher passes_query passes_shutdown del: passes_updates)
  then show ?thesis by simp
qed

lemma passes_dispatch_frames: "passes (cx_hash cx) co (snd (snd (dispatch_frames cx session frames co)))"
proof (induction frames arbitrary: session co)
  case (Cons f frames)
  have "passes (cx_hash cx) co (snd (snd (dispatch_frame cx session f co)))"
    by (rule passes_dispatch_frame)
  then show ?case
    using Cons.IH by (auto simp: Let_def split: prod.split intro: passes_trans)
qed simp

section \<open>What the loop leaves alone\<close>

text \<open>The configuration, the store, the files and the fact of having started.\<close>

definition advances :: "(string \<Rightarrow> u64) \<Rightarrow> Coordinator \<Rightarrow> Coordinator \<Rightarrow> bool" where
  "advances h co co' \<longleftrightarrow>
     co_config co' = co_config co \<and> co_store co' = co_store co \<and> co_files co' = co_files co \<and>
     co_started co' = co_started co \<and> moved h (co_registry co) (co_registry co')"

lemma advances_refl [simp]: "advances h co co"
  by (simp add: advances_def)

lemma advances_trans: "advances h a b \<Longrightarrow> advances h b c \<Longrightarrow> advances h a c"
  unfolding advances_def using moved_trans by metis

lemma passes_advances: "passes h co co' \<Longrightarrow> advances h co co'"
  by (simp add: passes_def undisturbed_def advances_def)

lemma advances_updates [simp]:
  "advances h co (count f co') = advances h co co'" "advances h (count f co) co' = advances h co co'"
  "advances h co (count_if b f co') = advances h co co'" "advances h co (co'\<lparr>co_token := token\<rparr>) = advances h co co'"
  "advances h co (co'\<lparr>co_sessions := sessions\<rparr>) = advances h co co'"
  "advances h co (put_session handle session co') = advances h co co'"
  "advances h co (co'\<lparr>co_turned_away := fs\<rparr>) = advances h co co'"
  "advances h co (co\<lparr>co_registry := reg\<rparr>) = moved h (co_registry co) reg"
  by (auto simp: advances_def put_session_def)

lemma retire_session_advances [simp]: "advances h co (retire_session session reason co)"
  by (simp add: retire_session_def split: prod.split)

lemma drop_session_advances [simp]: "advances h co (drop_session reason handle co)"
  by (simp add: drop_session_def Let_def split: option.split)

lemma fold_advances: "(\<And>x co. x \<in> set xs \<Longrightarrow> advances h co (f x co)) \<Longrightarrow> advances h co (fold f xs co)"
proof (induction xs arbitrary: co)
  case (Cons x xs)
  from Cons.prems [of x co] Cons.IH [of "f x co"] Cons.prems show ?case by (auto intro: advances_trans)
qed simp

lemma read_session_fields:
  assumes "read_session cx session delivery co = (closed, frames, session', co')"
  shows "co_registry co' = co_registry co" and "undisturbed co co'" and "co_token co' = co_token co"
    and "se_publisher session' = se_publisher session" and "se_boot session' = se_boot session"
    and "se_registered session' = se_registered session" and "se_handshake session' = se_handshake session"
  using assms
  by (auto simp: read_session_def refuse_delivery_def send_error_def send_frame_def undisturbed_def Let_def
      split: Delivery.splits if_splits prod.splits sum.splits)

lemma read_ready_fields:
  assumes "read_ready cx delivery handles co = (dead, delivered, co')"
  shows "co_registry co' = co_registry co" and "co_config co' = co_config co" and "co_store co' = co_store co"
    and "co_files co' = co_files co" and "co_started co' = co_started co" and "co_token co' = co_token co"
proof -
  have "co_registry co' = co_registry co \<and> co_config co' = co_config co \<and> co_store co' = co_store co \<and>
    co_files co' = co_files co \<and> co_started co' = co_started co \<and> co_token co' = co_token co"
    using assms
  proof (induction handles arbitrary: co dead delivered co')
    case (Cons handle handles)
    show ?case
    proof (cases "om_find handle (co_sessions co)")
      case (Some session)
      obtain closed frames session' co1
        where r: "read_session cx session (delivery handle) co = (closed, frames, session', co1)"
        by (metis prod_cases4)
      obtain dead' delivered' where "read_ready cx delivery handles (put_session handle session' co1) =
        (dead', delivered', co')"
        using Cons.prems Some r by (auto split: prod.splits if_splits)
      from Cons.IH [OF this] read_session_fields(1-3) [OF r] show ?thesis
        by (simp add: put_session_def undisturbed_def)
    qed (use Cons in simp)
  qed simp
  then show "co_registry co' = co_registry co" and "co_config co' = co_config co" and "co_store co' = co_store co"
    and "co_files co' = co_files co" and "co_started co' = co_started co" and "co_token co' = co_token co"
    by blast+
qed

lemma dispatch_delivered_advances [simp]: "advances (cx_hash cx) co (dispatch_delivered cx entry co)"
proof (cases "om_find (fst entry) (co_sessions co)")
  case (Some session)
  obtain closed session' co' where d: "dispatch_frames cx session (snd entry) co = (closed, session', co')"
    by (metis prod_cases3)
  have "advances (cx_hash cx) co co'"
    using passes_dispatch_frames [of cx co session "snd entry"] d by (simp add: passes_advances)
  then show ?thesis
    using advances_trans [OF _ drop_session_advances] by (simp add: dispatch_delivered_def Some d Let_def)
qed (simp add: dispatch_delivered_def)

lemma accept_connection_advances [simp]: "advances h co (accept_connection handle writable co)"
  by (simp add: accept_connection_def turn_away_def Let_def split: sum.split)

lemma turn_advances [simp]: "advances (cx_hash cx) co (turn cx delivery handles co)"
proof -
  obtain dead delivered co1 where r: "read_ready cx delivery handles co = (dead, delivered, co1)"
    by (metis prod_cases3)
  have read: "advances (cx_hash cx) co co1"
    using read_ready_fields [OF r] by (simp add: advances_def)
  have dropped: "advances (cx_hash cx) co1 (fold (drop_session reason) dead co1)" for reason
    by (rule fold_advances) (rule drop_session_advances)
  have dispatched: "advances (cx_hash cx) co2 (fold (dispatch_delivered cx) delivered co2)" for co2
    by (rule fold_advances) (rule dispatch_delivered_advances)
  show ?thesis
    unfolding turn_def r prod.case by (rule advances_trans [OF read advances_trans [OF dropped dispatched]])
qed

text \<open>A round that gets past waiting and accepting is a turn on the sessions known before it.\<close>

lemma serve_round_cases [consumes 1, case_names idle turned]:
  assumes "serve_round r co = (status, co')"
  obtains "co' = co"
  | opened where "ok status" and "opened = co \<or> (\<exists>handle writable. opened = accept_connection handle writable co)"
      and "co' = turn (ro_context r) (ro_delivery r) (om_keys (co_sessions co)) opened"
proof -
  let ?turned = "\<lambda>opened. ok status \<and> co' = turn (ro_context r) (ro_delivery r) (om_keys (co_sessions co)) opened"
  have "co' = co \<or> ?turned co \<or> (\<exists>handle writable. ?turned (accept_connection handle writable co))"
    using assms by (simp add: serve_round_def Let_def split: if_splits option.splits sum.splits prod.splits) blast+
  then show thesis using that by blast
qed

lemma serve_round_advances:
  assumes "serve_round r co = (status, co')"
  shows "advances (cx_hash (ro_context r)) co co'"
  using assms
proof (cases rule: serve_round_cases)
  case (turned opened)
  have "advances (cx_hash (ro_context r)) co opened" using turned(2) by auto
  then show ?thesis unfolding turned(3) using turn_advances advances_trans by blast
qed simp

lemma serve_advances:
  assumes "serve rounds co = (outcome, co')" and "\<And>r. r \<in> set rounds \<Longrightarrow> cx_hash (ro_context r) = h"
  shows "advances h co co'"
  using assms
proof (induction rounds arbitrary: co)
  case (Cons r rounds)
  obtain status co1 where r: "serve_round r co = (status, co1)" by fastforce
  have "advances h co co1" using serve_round_advances [OF r] Cons.prems(2) by simp
  then show ?case
    using Cons r by (auto split: if_splits option.splits intro: advances_trans)
qed (auto split: if_splits)

end
