(* ===== verification/Publisher_Names.thy ===== *)
theory Publisher_Names
  imports Coordination Restored
begin

text \<open>
  The registry keeps every publisher under its own identity: a registration answers with the identity the
  publisher is stored under, in every execution and after a restart.
\<close>

definition name_of :: "PublisherStateInternal \<Rightarrow> string" where
  "name_of st = pub_id (pr_identity (ps_record st))"

definition name_at :: "(string, PublisherStateInternal) omap \<Rightarrow> string \<Rightarrow> string" where
  "name_at m pid = (case om_find pid m of None \<Rightarrow> pid | Some st \<Rightarrow> name_of st)"

lemma name_at_Nil [simp]: "name_at [] = (\<lambda>pid. pid)"
  by (simp add: name_at_def fun_eq_iff)

definition names_kept :: "Registry \<Rightarrow> Registry \<Rightarrow> bool" where
  "names_kept reg reg' \<longleftrightarrow> name_at (rg_publishers reg') = name_at (rg_publishers reg)"

lemma names_kept_same: "rg_publishers reg' = rg_publishers reg \<Longrightarrow> names_kept reg reg'"
  by (simp add: names_kept_def)

lemma names_kept_congr:
  "rg_publishers b = rg_publishers b' \<Longrightarrow> names_kept a b = names_kept a b'"
  by (simp add: names_kept_def)

lemma names_kept_put:
  "om_find pid (rg_publishers reg) = Some st \<Longrightarrow> name_of st' = name_of st \<Longrightarrow> names_kept reg (put_publisher pid st' reg)"
  by (auto simp: names_kept_def put_publisher_def name_at_def)

lemma names_kept_touch [simp]: "names_kept reg (touch_locked r) = names_kept reg r"
  by (rule names_kept_congr) simp

lemma register_names: "names_kept reg (snd (register_publisher_locked now identity adapter reg))"
proof (cases "om_find (pub_id identity) (rg_publishers reg)")
  case None
  then show ?thesis
    by (auto simp: register_publisher_locked_def register_new_publisher_def names_kept_def name_at_def name_of_def
        Let_def fun_eq_iff)
next
  case (Some st)
  have "name_of (fresh_boot now adapter (rg_epoch reg) st) = name_of st"
    "name_of (reaffirm_boot adapter (rg_epoch reg) st) = name_of st"
    by (simp_all add: name_of_def fresh_boot_def reaffirm_boot_def Let_def)
  then have "names_kept reg (put_publisher (pub_id identity) (fresh_boot now adapter (rg_epoch reg) st) reg)"
    "names_kept reg (put_publisher (pub_id identity) (reaffirm_boot adapter (rg_epoch reg) st) reg)"
    using names_kept_put [OF Some] by blast+
  then show ?thesis
    by (simp add: register_publisher_locked_def Some Let_def names_kept_same)
qed

lemma lifecycle_names:
  "names_kept reg (snd (fence_publisher pid reason reg))"
  "names_kept reg (snd (retire_publisher_boot pid boot reason reg))"
  "names_kept reg (reset_publisher_liveness reason reg)"
proof -
  show "names_kept reg (snd (fence_publisher pid reason reg))"
    by (auto simp: fence_publisher_def Let_def name_of_def names_kept_same intro!: names_kept_put split: option.split)
  show "names_kept reg (snd (retire_publisher_boot pid boot reason reg))"
    by (auto simp: retire_publisher_boot_def Let_def name_of_def names_kept_same intro!: names_kept_put split: option.split)
  have "name_of (reset_liveness reason st) = name_of st" for st
    by (simp add: reset_liveness_def Let_def name_of_def)
  then show "names_kept reg (reset_publisher_liveness reason reg)"
    by (auto simp: reset_publisher_liveness_def names_kept_def name_at_def fun_eq_iff split: option.split)
qed

lemma put_watermark_names:
  assumes "om_find (pub_id (pb_publisher p)) (rg_publishers reg) = Some st" and "name_of st' = name_of st"
    and "rg_publishers reg' = rg_publishers reg"
  shows "names_kept reg (put_watermark p w st' reg')"
  using names_kept_put [OF assms(1), of "st'\<lparr>ps_watermarks := om_put (pub_boot (pb_publisher p)) w (ps_watermarks st')\<rparr>"]
    assms(2,3)
  by (simp add: names_kept_def put_watermark_def put_publisher_def name_of_def)

lemma evidence_names:
  assumes "check_authority reg p = Inr st"
  shows "names_kept reg (snd (apply_evidence h p st reg))"
proof -
  note st = check_authority_InrD(1) [OF assms]
  obtain res reg1 where d: "dispatch p reg = (res, reg1)" by (cases "dispatch p reg")
  then have same: "rg_publishers reg1 = rg_publishers reg" using dispatch_authority_fields [of p reg] by simp
  note put = put_watermark_names [OF st]
  have reject: "names_kept reg (book_rejection p w st reg')" if "rg_publishers reg' = rg_publishers reg" for w reg'
    using put [OF _ that, of "st\<lparr>ps_record := (ps_record st)\<lparr>pr_rejected := pr_rejected (ps_record st) + 1\<rparr>\<rparr>"]
    by (simp add: book_rejection_def Let_def name_of_def names_kept_def)
  have accept: "names_kept reg (book_acceptance h p w st res reg1)" for w
    unfolding names_kept_congr [OF book_acceptance_publishers]
    by (rule put [OF _ same]) (simp add: name_of_def)
  have dup: "names_kept reg (count_idempotent (put_watermark p w st reg))" for w
    using put [OF refl refl] by (simp add: names_kept_def)
  show ?thesis
    using reject [OF refl] reject [OF same] accept dup
    by (simp add: apply_evidence_def Let_def d split: SequenceVerdict.split)
qed

lemma apply_names: "names_kept reg (snd (apply_locked h now p reg))"
proof (cases rule: apply_locked_cases [of reg h now p])
  case (schema p')
  then show ?thesis
    by (intro names_kept_same)
      (auto simp: apply_schema_publication_def register_capability_schema_locked_def Let_def split: prod.splits if_splits)
next
  case (publisher p')
  then show ?thesis
    using register_names [of reg now "pb_publisher p'" "pb_reason p'"]
    by (cases "register_publisher_locked now (pb_publisher p') (pb_reason p') reg")
      (simp add: apply_publisher_publication_def names_kept_def)
next
  case (evidence p' st)
  then show ?thesis using evidence_names by simp
qed (simp_all add: names_kept_def)

lemma step_names: "step h reg op reg' \<Longrightarrow> names_kept reg reg'"
proof (induction rule: step.induct)
  case (step_register_schema schema reg status reg')
  then show ?case
    by (intro names_kept_same)
      (auto simp: register_capability_schema_def register_capability_schema_locked_def Let_def split: prod.splits if_splits)
next
  case (step_register_publisher now identity adapter reg result reg')
  then show ?case
    using register_names [of reg now identity adapter] by (auto simp: register_publisher_def names_kept_same split: if_splits)
next
  case (step_fence pid reason reg result reg')
  then show ?case using lifecycle_names(1) [of reg pid reason] by simp
next
  case (step_retire pid boot reason reg result reg')
  then show ?case using lifecycle_names(2) [of reg pid boot reason] by simp
next
  case (step_apply now p reg result reg')
  then show ?case using apply_names [of reg h now p] by (simp add: apply_publication_def)
next
  case (step_reset reg reason)
  show ?case by (rule lifecycle_names(3))
qed (auto simp: advance_coordinator_epoch_def set_coordinator_epoch_def Let_def
      begin_shutdown_def clear_shutdown_def names_kept_def split: if_splits)

interpretation names_loop: loop_preorder names_kept h for h
  by unfold_locales (auto simp: names_kept_def dest: step_names)

section \<open>The identity a registration answers with\<close>

definition keyed :: "Registry \<Rightarrow> bool" where
  "keyed reg \<longleftrightarrow> name_at (rg_publishers reg) = (\<lambda>pid. pid)"

lemma keyed_moved: "moved h reg reg' \<Longrightarrow> keyed reg \<Longrightarrow> keyed reg'"
  using names_loop.rel_moved [of h reg reg'] by (simp add: names_kept_def keyed_def)

lemma keyed_find: "keyed reg \<Longrightarrow> om_find pid (rg_publishers reg) = Some st \<Longrightarrow> name_of st = pid"
  by (auto simp: keyed_def name_at_def fun_eq_iff dest: spec [of _ pid])

text \<open>The publisher an accepted registration names is registered under the assigned boot.\<close>

lemma registered_known:
  assumes "register_publisher now identity adapter reg = (result, reg')" and "accepted result" and "keyed reg"
  obtains st where "pub_id (ar_assigned_publisher result) = pub_id identity"
    and "om_find (pub_id identity) (rg_publishers reg') = Some st"
    and "pr_identity (ps_record st) = ar_assigned_publisher result"
    and "pr_state (ps_record st) = PublisherState.Registered"
proof (cases "om_find (pub_id identity) (rg_publishers reg)")
  case None
  with assms that show ?thesis
    by (auto simp: register_publisher_def register_publisher_locked_def register_new_publisher_def Let_def
        apply_code_accepted_def split: if_splits)
next
  case (Some st)
  have "name_of st = pub_id identity" using keyed_find [OF assms(3) Some] .
  with assms that Some show ?thesis
    by (auto simp: register_publisher_def register_publisher_locked_def Let_def put_publisher_def name_of_def
        fresh_boot_def reaffirm_boot_def apply_code_accepted_def split: if_splits)
qed

lemma new_keyed: "keyed (new_registry builtin limits)"
proof -
  have "rg_publishers (fold emplace_schema builtin reg) = rg_publishers reg" for reg
    by (induction builtin arbitrary: reg) (simp_all add: emplace_schema_def)
  then show ?thesis
    by (simp add: keyed_def new_registry_def Let_def empty_registry_def)
qed

lemma staged_names:
  "stage_watermark w m = Inr m' \<Longrightarrow> name_at m = (\<lambda>pid. pid) \<Longrightarrow> name_at m' = (\<lambda>pid. pid)"
  "stage_fence w m = Inr m' \<Longrightarrow> name_at m = (\<lambda>pid. pid) \<Longrightarrow> name_at m' = (\<lambda>pid. pid)"
  by (auto simp: stage_watermark_def stage_fence_def staged_publisher_def adopt_watermark_def Let_def name_at_def
      name_of_def fun_eq_iff empty_publisher_state_def empty_publisher_record_def no_publisher_def id_valid_def
      split: if_splits option.splits)

lemma import_keyed:
  assumes "import_durable_state state reg = ((ErrorCode.Ok, report), reg')"
  shows "keyed reg'"
proof -
  obtain staged reg0 where commit: "reg' = commit state staged reg0"
    and "stage_knowledge (rg_limits reg) state (stg_subjects staged) (stg_platforms staged) (stg_schemas staged) =
      Inr (stg_quirks staged, stg_compatibility staged, stg_publishers staged)"
    using assms by (rule import_success)
  then obtain marked where marked: "fold_checked stage_watermark (du_publisher_watermarks state) [] = Inr marked"
    and fenced: "fold_checked stage_fence (du_fenced_boots state) marked = Inr (stg_publishers staged)"
    by (auto simp: stage_knowledge_def split: sum.splits if_splits)
  have "name_at marked = (\<lambda>pid. pid)"
    by (rule fold_checked_invariant [OF marked]) (simp, rule staged_names(1))
  then have "name_at (stg_publishers staged) = (\<lambda>pid. pid)"
    by (rule fold_checked_invariant [OF fenced]) (rule staged_names(2))
  then show ?thesis
    by (auto simp: keyed_def commit commit_fields name_at_def name_of_def fun_eq_iff bury_publisher_def Let_def
        split: option.splits)
qed

end
