(* ===== verification/Sessions.thy ===== *)
theory Sessions
  imports Publisher_Names Framing
begin

text \<open>
  What holds of the sessions of a coordinator in every round: their number, the bytes they hold back, and that a
  session claims a publisher only after the handshake and only one the registry knows.
\<close>

definition session_ok :: "RegistryLimits \<Rightarrow> Registry \<Rightarrow> Session \<Rightarrow> bool" where
  "session_ok limits reg session \<longleftrightarrow>
     fd_limits (se_decoder session) = limits \<and>
     length (fd_buffer (se_decoder session)) \<le> max_frame_bytes limits + kFrameHeaderSize \<and>
     (se_registered session \<longrightarrow> se_handshake session \<and> om_find (se_publisher session) (rg_publishers reg) \<noteq> None)"

definition sessions_ok :: "Coordinator \<Rightarrow> bool" where
  "sessions_ok co \<longleftrightarrow>
     keyed (co_registry co) \<and> om_ok (co_sessions co) \<and> length (co_sessions co) \<le> max_connections (co_limits co) \<and>
     (\<forall>handle session. om_find handle (co_sessions co) = Some session \<longrightarrow>
        session_ok (co_limits co) (co_registry co) session)"

lemma moved_known:
  "moved h reg reg' \<Longrightarrow> om_find pid (rg_publishers reg) \<noteq> None \<Longrightarrow> om_find pid (rg_publishers reg') \<noteq> None"
  using authority_loop.rel_moved [of h reg reg'] unfolding publishers_evolve_def by blast

lemma session_ok_moved: "session_ok limits reg session \<Longrightarrow> moved h reg reg' \<Longrightarrow> session_ok limits reg' session"
  unfolding session_ok_def using moved_known by blast

lemma session_ok_cong:
  "session_ok limits reg session \<Longrightarrow> se_decoder session' = se_decoder session \<Longrightarrow>
   se_publisher session' = se_publisher session \<Longrightarrow> se_registered session' = se_registered session \<Longrightarrow>
   se_handshake session' = se_handshake session \<Longrightarrow> session_ok limits reg session'"
  by (simp add: session_ok_def)

lemma sessions_okD:
  "sessions_ok co \<Longrightarrow> keyed (co_registry co)"
  "sessions_ok co \<Longrightarrow> om_find handle (co_sessions co) = Some session \<Longrightarrow>
     session_ok (co_limits co) (co_registry co) session"
  by (simp_all add: sessions_ok_def)

lemma sessions_ok_passes: "sessions_ok co \<Longrightarrow> passes h co co' \<Longrightarrow> sessions_ok co'"
  unfolding sessions_ok_def passes_def undisturbed_def by (metis session_ok_moved keyed_moved)

lemma sessions_ok_put:
  assumes "sessions_ok co" and "om_find handle (co_sessions co) \<noteq> None"
    and "session_ok (co_limits co) (co_registry co) session"
  shows "sessions_ok (put_session handle session co)"
  using assms by (simp add: sessions_ok_def put_session_def om_length_put_old)

lemma sessions_ok_cong:
  "co_config co' = co_config co \<Longrightarrow> co_registry co' = co_registry co \<Longrightarrow> co_sessions co' = co_sessions co \<Longrightarrow>
   sessions_ok co' = sessions_ok co"
  by (simp add: sessions_ok_def)

section \<open>Frames\<close>

lemma send_frame_session [simp]:
  "se_decoder (snd (send_frame limits f session)) = se_decoder session"
  "se_publisher (snd (send_frame limits f session)) = se_publisher session"
  "se_boot (snd (send_frame limits f session)) = se_boot session"
  "se_registered (snd (send_frame limits f session)) = se_registered session"
  "se_handshake (snd (send_frame limits f session)) = se_handshake session"
  by (simp_all add: send_frame_def split: sum.split)

lemma session_ok_send [simp]: "session_ok limits reg (snd (send_frame limits' f session)) = session_ok limits reg session"
  by (simp add: session_ok_def)

lemma session_ok_respond [simp]:
  "session_ok limits reg (snd (respond limits' kind correlation payload session)) = session_ok limits reg session"
  by (simp add: respond_def)

lemma session_ok_send_error [simp]:
  "session_ok limits reg (snd (send_error limits' correlation code message session)) = session_ok limits reg session"
  by (simp add: send_error_def Let_def)

lemma session_ok_reject [simp]:
  "session_ok limits reg (fst (snd (reject cx session f status co))) = session_ok limits reg session"
  by (simp add: reject_def case_prod_beta)

lemma session_ok_reply [simp]:
  "session_ok limits reg (fst (snd (reply kind f encoded session co))) = session_ok limits reg session"
  by (simp add: reply_def case_prod_beta)

lemma session_ok_handshake: "session_ok limits reg session \<Longrightarrow> session_ok limits reg (session\<lparr>se_handshake := True\<rparr>)"
  by (simp add: session_ok_def)

lemma session_ok_hello:
  "session_ok limits reg session \<Longrightarrow> session_ok limits reg (fst (snd (on_hello cx session f co)))"
  unfolding on_hello_def
  by (cases "decode_hello (fr_payload f) (co_limits co)") (simp add: session_ok_handshake)

lemma session_ok_register_publisher:
  assumes "session_ok limits (co_registry co) session" and "keyed (co_registry co)"
  shows "session_ok limits (co_registry (snd (snd (on_register_publisher cx session f co))))
    (fst (snd (on_register_publisher cx session f co)))"
proof (cases "se_handshake session")
  case True
  obtain parsed request where d: "decode_register_publisher_message (fr_payload f) (co_limits co) = (parsed, request)"
    by fastforce
  obtain result reg where r: "register_publisher (cx_now cx) (rm_identity request) (rm_adapter request) (co_registry co) =
      (result, reg)"
    by fastforce
  have moved: "session_ok limits reg session"
    using r assms moved_case(2) session_ok_moved by metis
  have claimed: "session_ok limits reg (session\<lparr>se_publisher := pub_id (ar_assigned_publisher result),
      se_boot := boot, se_adapter := adapter, se_registered := True\<rparr>)"
    if "accepted result" for adapter boot
  proof -
    have "pub_id (ar_assigned_publisher result) = pub_id (rm_identity request) \<and>
      om_find (pub_id (rm_identity request)) (rg_publishers reg) \<noteq> None"
      by (rule registered_known [OF r that assms(2)]) simp
    with assms(1) True show ?thesis by (simp add: session_ok_def)
  qed
  show ?thesis
    using assms(1) True moved claimed by (simp add: on_register_publisher_def Let_def d r)
qed (use assms in \<open>simp add: on_register_publisher_def\<close>)

lemma session_ok_publication:
  "session_ok limits reg session \<Longrightarrow> session_ok limits reg (fst (snd (on_publication cx session f co)))"
  by (simp add: on_publication_def Let_def split: prod.split)

lemma session_ok_heartbeat:
  "session_ok limits reg session \<Longrightarrow> session_ok limits reg (fst (snd (on_heartbeat cx session f co)))"
  by (simp add: on_heartbeat_def split: prod.split)

lemma session_ok_fence_publisher:
  "session_ok limits reg session \<Longrightarrow> session_ok limits reg (fst (snd (on_fence_publisher cx session f co)))"
  by (simp add: on_fence_publisher_def Let_def split: prod.split)

lemma session_ok_serve_query:
  "session_ok limits reg session \<Longrightarrow> session_ok limits reg (fst (snd (serve_query cx session f request co)))"
  by (simp add: serve_query_def Let_def split: prod.split)

lemma session_ok_query:
  "session_ok limits reg session \<Longrightarrow> session_ok limits reg (fst (snd (on_query cx session f co)))"
  by (simp add: on_query_def session_ok_serve_query split: prod.split)

lemma session_ok_shutdown:
  "session_ok limits reg session \<Longrightarrow> session_ok limits reg (fst (snd (on_shutdown cx session f co)))"
  by (simp add: on_shutdown_def Let_def case_prod_beta)

lemma session_ok_dispatch_frame:
  assumes "session_ok limits (co_registry co) session" and "keyed (co_registry co)"
  shows "session_ok limits (co_registry (snd (snd (dispatch_frame cx session f co))))
    (fst (snd (dispatch_frame cx session f co)))"
proof -
  have moved: "moved (cx_hash cx) (co_registry co) (co_registry (snd (snd (dispatch_frame cx session f co))))"
    using passes_dispatch_frame [of cx co session f] by (simp add: passes_def)
  have counted: "keyed (co_registry (count g co))" "session_ok limits (co_registry (count g co)) session" for g
    using assms by simp_all
  show ?thesis
  proof (cases "fr_type f = MessageType.RegisterPublisher")
    case True
    then show ?thesis
      unfolding dispatch_frame_def Let_def by (simp del: count_fields add: session_ok_register_publisher counted)
  next
    case False
    then have "session_ok limits reg (fst (snd (dispatch_frame cx session f co)))" if "session_ok limits reg session" for reg
      using that
      by (cases "fr_type f")
        (simp_all add: dispatch_frame_def session_ok_hello session_ok_publication session_ok_heartbeat
          session_ok_fence_publisher session_ok_serve_query session_ok_query session_ok_shutdown)
    then show ?thesis using session_ok_moved [OF assms(1) moved] by blast
  qed
qed

lemma session_ok_dispatch_frames:
  assumes "session_ok limits (co_registry co) session" and "keyed (co_registry co)"
  shows "session_ok limits (co_registry (snd (snd (dispatch_frames cx session frames co))))
    (fst (snd (dispatch_frames cx session frames co)))"
  using assms
proof (induction frames arbitrary: session co)
  case (Cons f frames)
  obtain status session' co' where d: "dispatch_frame cx session f co = (status, session', co')"
    by (metis prod_cases3)
  have ok: "session_ok limits (co_registry co') session'"
    using session_ok_dispatch_frame [OF Cons.prems, of cx f] d by simp
  then have "session_ok limits (co_registry co') (session'\<lparr>se_delivered := n\<rparr>)" for n
    by (simp add: session_ok_def)
  moreover have "keyed (co_registry co')"
    using passes_dispatch_frame [of cx co session f] d Cons.prems(2) keyed_moved by (simp add: passes_def) blast
  ultimately show ?case using Cons.IH ok by (simp add: d Let_def)
qed simp

section \<open>Rounds\<close>

lemma om_ok_erase: "om_ok m \<Longrightarrow> om_ok (om_erase k m)"
  by (simp add: om_ok_def om_erase_def om_keys_def sorted_wrt_map sorted_wrt_filter)

lemma retire_session_passes: "passes h co (retire_session session reason co)"
  by (simp add: retire_session_def split: prod.split)

lemma drop_session_ok:
  assumes "sessions_ok co"
  shows "sessions_ok (drop_session reason handle co)"
proof (cases "om_find handle (co_sessions co)")
  case (Some session)
  have "sessions_ok (retire_session session reason co)"
    using assms retire_session_passes by (rule sessions_ok_passes)
  then have "sessions_ok ((retire_session session reason co)\<lparr>co_sessions :=
      om_erase handle (co_sessions (retire_session session reason co))\<rparr>)"
    using le_trans [OF length_filter_le] by (auto simp: sessions_ok_def om_ok_erase) (simp add: om_erase_def)
  then show ?thesis
    by (simp add: drop_session_def Some Let_def count_def sessions_ok_def)
qed (simp add: drop_session_def assms)

lemma feed_decoder_ok:
  assumes "feed data decoder = (fed, frames, decoder')"
    and "length (fd_buffer decoder) \<le> max_frame_bytes (fd_limits decoder) + kFrameHeaderSize"
  shows "fd_limits decoder' = fd_limits decoder \<and>
    length (fd_buffer decoder') \<le> max_frame_bytes (fd_limits decoder) + kFrameHeaderSize"
  using assms by (auto simp: feed_def Let_def split: if_splits prod.splits)

lemma read_session_ok:
  assumes "read_session cx session delivery co = (closed, frames, session', co')"
    and "session_ok limits reg session"
  shows "session_ok limits reg session'"
proof -
  have fed: "session_ok limits reg (session\<lparr>se_decoder := snd (snd (feed data (se_decoder session)))\<rparr>)" for data
    using feed_decoder_ok [of data "se_decoder session"] assms(2)
    by (cases "feed data (se_decoder session)") (simp add: session_ok_def)
  show ?thesis
  proof (cases delivery)
    case (Received data)
    with assms fed [of data] show ?thesis
      by (cases "feed data (se_decoder session)")
        (auto simp: read_session_def refuse_delivery_def Let_def split: if_splits)
  qed (use assms in \<open>simp_all add: read_session_def\<close>)
qed

lemma read_ready_ok:
  assumes "read_ready cx delivery handles co = (dead, delivered, co')" and "sessions_ok co"
  shows "sessions_ok co'"
  using assms
proof (induction handles arbitrary: co dead delivered co')
  case (Cons handle handles)
  show ?case
  proof (cases "om_find handle (co_sessions co)")
    case (Some session)
    obtain closed frames session' co1
      where r: "read_session cx session (delivery handle) co = (closed, frames, session', co1)"
      by (metis prod_cases4)
    obtain dead' delivered' where rest: "read_ready cx delivery handles (put_session handle session' co1) =
      (dead', delivered', co')"
      using Cons.prems Some r by (auto split: prod.splits if_splits)
    have same: "co_config co1 = co_config co" "co_registry co1 = co_registry co" "co_sessions co1 = co_sessions co"
      using read_session_fields(1,2) [OF r] by (simp_all add: undisturbed_def)
    have "sessions_ok co1" using Cons.prems(2) sessions_ok_cong [OF same] by simp
    then have "sessions_ok (put_session handle session' co1)"
      using read_session_ok [OF r sessions_okD(2) [OF Cons.prems(2) Some]] Some
      by (intro sessions_ok_put) (simp_all add: same)
    with Cons.IH [OF rest] show ?thesis .
  qed (use Cons in simp)
qed simp

lemma dispatch_delivered_ok:
  assumes "sessions_ok co"
  shows "sessions_ok (dispatch_delivered cx entry co)"
proof (cases "om_find (fst entry) (co_sessions co)")
  case (Some session)
  obtain closed session' co' where d: "dispatch_frames cx session (snd entry) co = (closed, session', co')"
    by (metis prod_cases3)
  have passed: "passes (cx_hash cx) co co'"
    using passes_dispatch_frames [of cx co session "snd entry"] d by simp
  have "session_ok (co_limits co) (co_registry co') session'"
    using session_ok_dispatch_frames [OF sessions_okD(2) [OF assms Some] sessions_okD(1) [OF assms], of cx "snd entry"] d
    by simp
  then have "sessions_ok (put_session (fst entry) session' co')"
    using sessions_ok_passes [OF assms passed] passed Some
    by (intro sessions_ok_put) (simp_all add: passes_def undisturbed_def)
  then show ?thesis by (simp add: dispatch_delivered_def Some d Let_def drop_session_ok)
qed (simp add: dispatch_delivered_def assms)

lemma accept_connection_ok:
  assumes "sessions_ok co"
  shows "sessions_ok (accept_connection handle writable co)"
proof -
  have fresh: "session_ok (co_limits co) (co_registry co) (new_session (co_limits co) writable)"
    by (simp add: session_ok_def new_session_def)
  show ?thesis
    using assms fresh om_length_emplace [of "co_sessions co" handle]
    by (auto simp: accept_connection_def turn_away_def Let_def sessions_ok_def split: sum.split if_splits)
qed

lemma fold_ok: "(\<And>x co. P co \<Longrightarrow> P (f x co)) \<Longrightarrow> P co \<Longrightarrow> P (fold f xs co)"
  by (induction xs arbitrary: co) auto

lemma turn_ok:
  assumes "sessions_ok co"
  shows "sessions_ok (turn cx delivery handles co)"
proof -
  obtain dead delivered co1 where r: "read_ready cx delivery handles co = (dead, delivered, co1)"
    by (metis prod_cases3)
  show ?thesis
    unfolding turn_def r prod.case
    by (intro fold_ok [where P = sessions_ok] dispatch_delivered_ok drop_session_ok read_ready_ok [OF r assms])
qed

text \<open>
  C17: what holds of the sessions in every round. However long the coordinator serves, it never has more sessions
  than its limit, no session holds back more than one maximal frame, and a session that claims a publisher has
  completed the handshake and claims a publisher the registry knows.
\<close>

theorem serving_keeps_sessions_ok:
  assumes "serve rounds co = (outcome, co')" and "sessions_ok co"
  shows "sessions_ok co'"
  using assms
proof (induction rounds arbitrary: co)
  case (Cons r rounds)
  obtain status co1 where r: "serve_round r co = (status, co1)" by fastforce
  then have "sessions_ok co1"
    using Cons.prems(2) accept_connection_ok turn_ok by (cases rule: serve_round_cases) auto
  then show ?case
    using Cons r by (auto simp: sessions_ok_def split: if_splits option.splits)
qed (auto split: if_splits)

end
