(* ===== verification/Deaths.thy ===== *)
theory Deaths
  imports Sessions Storage
begin

text \<open>
  How the coordinator takes authority away: the death of a session retires the boot it registered before any
  frame of the same round is interpreted, and the ordered shutdown retires every session, refuses everything
  that follows and leaves an image of exactly that state.
\<close>

definition silenced :: "Registry \<Rightarrow> string \<Rightarrow> u64 \<Rightarrow> bool" where
  "silenced reg pid boot \<longleftrightarrow> (case om_find pid (rg_publishers reg) of None \<Rightarrow> False | Some st \<Rightarrow> boot \<in> set (ps_fenced_boots st))"

lemma silenced_moved:
  assumes "silenced reg pid boot" and "moved h reg reg'"
  shows "silenced reg' pid boot"
  using authority_loop.rel_moved [OF assms(2)] assms(1)
  by (fastforce simp: silenced_def publishers_evolve_def publisher_evolves_def split: option.splits)

lemma silenced_refused:
  assumes "silenced reg (pub_id (pb_publisher p)) (pub_boot (pb_publisher p))"
    and "pb_kind p \<noteq> PublicationKind.RegisterCapabilitySchema"
  shows "\<not> accepted (fst (apply_publication h now p reg)) \<and> same_truth reg (snd (apply_publication h now p reg))"
  using assms fenced_rejects [of p reg _ h now]
  by (auto simp: silenced_def apply_publication_def split: option.splits)

lemma silenced_inert:
  assumes "silenced reg (pub_id (pb_publisher p)) (pub_boot (pb_publisher p))"
  shows "(pb_kind p = PublicationKind.RegisterCapabilitySchema \<or> \<not> accepted (fst (apply_publication h now p reg))) \<and>
    same_truth reg (snd (apply_publication h now p reg))"
  using assms fenced_inert [of p reg _ h now]
  by (auto simp: silenced_def apply_publication_def split: option.splits)

lemma retire_boot_silences:
  assumes "om_find pid (rg_publishers reg) \<noteq> None" and "gen_valid boot"
  shows "silenced (snd (retire_publisher_boot pid boot reason reg)) pid boot"
  using assms by (auto simp: retire_publisher_boot_def silenced_def Let_def put_publisher_def)

lemma retire_session_silences:
  assumes "session_ok limits (co_registry co) session" and "se_registered session" and "gen_valid (se_boot session)"
  shows "silenced (co_registry (retire_session session reason co)) (se_publisher session) (se_boot session)"
  using retire_boot_silences [of "se_publisher session" "co_registry co" "se_boot session" reason] assms
  by (auto simp: retire_session_def session_ok_def case_prod_beta)

section \<open>Death before evidence\<close>

definition same_claim :: "Session \<Rightarrow> Session \<Rightarrow> bool" where
  "same_claim session session' \<longleftrightarrow>
     se_publisher session' = se_publisher session \<and> se_boot session' = se_boot session \<and>
     se_registered session' = se_registered session"

lemma read_ready_claims:
  assumes "read_ready cx delivery handles co = (dead, delivered, co')"
    and "om_find handle (co_sessions co) = Some session"
  shows "(\<exists>session'. om_find handle (co_sessions co') = Some session' \<and> same_claim session session') \<and>
    (handle \<in> set handles \<longrightarrow> delivery handle \<in> {Broken, Received []} \<longrightarrow> handle \<in> set dead)"
  using assms
proof (induction handles arbitrary: co dead delivered co' session)
  case (Cons x xs)
  show ?case
  proof (cases "om_find x (co_sessions co)")
    case None
    with Cons show ?thesis by auto
  next
    case (Some s)
    obtain closed frames s' co1 where r: "read_session cx s (delivery x) co = (closed, frames, s', co1)"
      by (metis prod_cases4)
    obtain dead' delivered' where rest: "read_ready cx delivery xs (put_session x s' co1) = (dead', delivered', co')"
      and dead: "dead = (if closed then x # dead' else dead')"
      using Cons.prems Some r by (auto split: prod.splits if_splits)
    have closed: "closed" if "delivery x \<in> {Broken, Received []}"
      using that r by (auto simp: read_session_def)
    have claim: "same_claim s s'" using read_session_fields [OF r] by (simp add: same_claim_def)
    have sessions: "co_sessions co1 = co_sessions co" using read_session_fields(2) [OF r] by (simp add: undisturbed_def)
    obtain t where t: "om_find handle (co_sessions (put_session x s' co1)) = Some t" "same_claim session t"
      using claim Some Cons.prems(2) by (cases "handle = x") (auto simp: put_session_def sessions same_claim_def)
    from Cons.IH [OF rest t(1)] t(2) dead closed show ?thesis by (auto simp: same_claim_def)
  qed
qed (auto simp: same_claim_def)

lemma drop_session_find: "x \<noteq> handle \<Longrightarrow> om_find handle (co_sessions (drop_session reason x co)) = om_find handle (co_sessions co)"
  using retire_session_passes
  by (auto simp: drop_session_def Let_def passes_def undisturbed_def split: option.split)

lemma drop_session_silences:
  assumes "sessions_ok co" and "om_find handle (co_sessions co) = Some session" and "se_registered session"
    and "gen_valid (se_boot session)"
  shows "silenced (co_registry (drop_session reason handle co)) (se_publisher session) (se_boot session)"
  using retire_session_silences [OF sessions_okD(2) [OF assms(1,2)] assms(3,4)]
  by (simp add: drop_session_def assms(2) Let_def)

lemma drop_dead_silences:
  assumes "sessions_ok co" and "om_find handle (co_sessions co) = Some session" and "se_registered session"
    and "gen_valid (se_boot session)" and "handle \<in> set dead"
  shows "silenced (co_registry (fold (drop_session reason) dead co)) (se_publisher session) (se_boot session)"
  using assms(1,2,5)
proof (induction dead arbitrary: co)
  case (Cons x dead)
  show ?case
  proof (cases "x = handle")
    case True
    have "advances h (drop_session reason x co) (fold (drop_session reason) (x # dead) co)" for h
      using fold_advances [of dead] by simp
    moreover have "silenced (co_registry (drop_session reason x co)) (se_publisher session) (se_boot session)"
      unfolding True using drop_session_silences [OF Cons.prems(1,2) assms(3,4)] .
    ultimately show ?thesis using silenced_moved unfolding advances_def by blast
  next
    case False
    with Cons show ?thesis by (simp add: drop_session_ok drop_session_find)
  qed
qed simp

text \<open>
  The coordinator as each frame of a batch finds it: what \<^const>\<open>dispatch_frames\<close> passes from frame to frame,
  until one fails or a shutdown is requested. And as each frame of a round finds it, batch after batch.
\<close>

fun batch_states :: "Context \<Rightarrow> Session \<Rightarrow> Frame list \<Rightarrow> Coordinator \<Rightarrow> Coordinator list" where
  "batch_states cx session [] co = []"
| "batch_states cx session (frame # frames) co =
     co # (case dispatch_frame cx session frame co of
       (status, session', co') \<Rightarrow>
         if \<not> ok status \<or> st_requested (co_token co') then []
         else batch_states cx (session'\<lparr>se_delivered := se_delivered session' + 1\<rparr>) frames co')"

fun round_states :: "Context \<Rightarrow> (nat \<times> Frame list) list \<Rightarrow> Coordinator \<Rightarrow> Coordinator list" where
  "round_states cx [] co = []"
| "round_states cx (entry # entries) co =
     (case om_find (fst entry) (co_sessions co) of
        None \<Rightarrow> []
      | Some session \<Rightarrow> batch_states cx session (snd entry) co) @
     round_states cx entries (dispatch_delivered cx entry co)"

lemma batch_states_pass: "co' \<in> set (batch_states cx session frames co) \<Longrightarrow> passes (cx_hash cx) co co'"
proof (induction cx session frames co rule: batch_states.induct)
  case (2 cx session frame frames co)
  obtain status session1 co1 where one: "dispatch_frame cx session frame co = (status, session1, co1)"
    by (cases "dispatch_frame cx session frame co")
  have "passes (cx_hash cx) co co1" using passes_dispatch_frame [of cx co session frame] one by simp
  with 2 one show ?case by (auto simp: Let_def split: if_splits intro: passes_trans)
qed simp

lemma round_states_advance: "co' \<in> set (round_states cx delivered co) \<Longrightarrow> advances (cx_hash cx) co co'"
proof (induction cx delivered co rule: round_states.induct)
  case (2 cx entry entries co)
  have later: "advances (cx_hash cx) co co'" if "advances (cx_hash cx) (dispatch_delivered cx entry co) co'"
    using advances_trans [OF dispatch_delivered_advances that] .
  with 2 show ?case
    by (auto split: option.splits dest!: batch_states_pass intro: passes_advances)
qed simp


section \<open>Ordered shutdown\<close>

definition retire_all :: "string \<Rightarrow> Session list \<Rightarrow> Coordinator \<Rightarrow> Coordinator" where
  "retire_all reason sessions co =
     fold (\<lambda>session co. count cs_sessions_fenced_update (retire_session session reason co)) sessions co"

lemma retire_all_passes: "passes h co (retire_all reason sessions co)"
  unfolding retire_all_def
proof (induction sessions arbitrary: co)
  case (Cons s sessions)
  have "passes h co (count cs_sessions_fenced_update (retire_session s reason co))"
    by (simp add: retire_session_passes)
  with Cons.IH show ?case using passes_trans by fastforce
qed simp

lemma retire_all_silences:
  assumes "session \<in> set sessions" and "se_registered session" and "gen_valid (se_boot session)"
    and "\<forall>s\<in>set sessions. session_ok limits (co_registry co) s"
  shows "silenced (co_registry (retire_all reason sessions co)) (se_publisher session) (se_boot session)"
  using assms(1,4)
proof (induction sessions arbitrary: co)
  case (Cons s sessions)
  let ?co = "count cs_sessions_fenced_update (retire_session s reason co)"
  have moved: "moved h (co_registry co) (co_registry ?co)" for h
    using retire_session_passes [of h co s reason] by (simp add: passes_def)
  have rest: "retire_all reason (s # sessions) co = retire_all reason sessions ?co"
    by (simp add: retire_all_def)
  show ?case
  proof (cases "session = s")
    case True
    have "silenced (co_registry ?co) (se_publisher session) (se_boot session)"
      using retire_session_silences [of limits co s reason] Cons.prems(2) assms(2,3) True by simp
    then show ?thesis
      unfolding rest using retire_all_passes silenced_moved unfolding passes_def by blast
  next
    case False
    with Cons.prems have "session \<in> set sessions" by simp
    moreover have "\<forall>t\<in>set sessions. session_ok limits (co_registry ?co) t"
      using Cons.prems(2) session_ok_moved [OF _ moved] by auto
    ultimately show ?thesis unfolding rest by (rule Cons.IH)
  qed
qed simp

lemma retire_all_fenced:
  "cs_sessions_fenced (co_stats (retire_all reason sessions co)) =
     cs_sessions_fenced (co_stats co) + word_of_nat (length sessions)"
proof (induction sessions arbitrary: co)
  case (Cons s sessions)
  have "cs_sessions_fenced (co_stats (retire_session s reason co)) = cs_sessions_fenced (co_stats co)"
    by (simp add: retire_session_def count_if_def count_def split: prod.split)
  then have "cs_sessions_fenced (co_stats (count cs_sessions_fenced_update (retire_session s reason co))) =
      cs_sessions_fenced (co_stats co) + 1"
    by (simp add: count_def)
  with Cons.IH [of "count cs_sessions_fenced_update (retire_session s reason co)"] show ?case
    by (simp add: retire_all_def)
qed (simp add: retire_all_def)

lemma saved_image_loads:
  assumes "save path options outcome state files = (ErrorCode.Ok, trace)" and "image_fits options state"
  shows "load path options None (last trace) = Inr state"
  using save_states(2) [OF assms] image_length [OF assms(2)] image_decodes [OF assms(2)] by (simp add: load_file)

definition stopped :: "Coordinator \<Rightarrow> Coordinator" where
  "stopped co = (let co = retire_all ''coordinator shutdown; boot identity retired'' (om_values (co_sessions co)) co in
     co\<lparr>co_sessions := [], co_registry := begin_shutdown (co_registry co)\<rparr>)"

lemma shut_down_stopped: "shut_down cx co = save_state cx (stopped co)"
  by (simp add: shut_down_def stopped_def retire_all_def Let_def)

lemma save_state_fields:
  assumes "save_state cx co = (status, co')"
  shows "co_registry co' = co_registry co" and "co_sessions co' = co_sessions co" and "co_stats co' = co_stats co"
    and "co_config co' = co_config co" and "co_store co' = co_store co" and "co_started co' = co_started co"
  using assms by (auto simp: save_state_def split: option.splits prod.splits)

lemma save_state_loads:
  assumes "save_state cx co = (ErrorCode.Ok, co')" and "co_store co = Some options"
    and "image_fits options (export_durable_state (cx_now cx) (co_registry co))"
  shows "load (cc_state_path (co_config co)) options None (co_files co') =
    Inr (export_durable_state (cx_now cx) (co_registry co))"
  using assms saved_image_loads by (auto simp: save_state_def split: prod.splits)

lemma stopped_fields:
  "co_config (stopped co) = co_config co" "co_store (stopped co) = co_store co"
  "rg_shutting_down (co_registry (stopped co))" "co_sessions (stopped co) = []"
  "rg_publishers (co_registry (stopped co)) = rg_publishers (co_registry (retire_all
     ''coordinator shutdown; boot identity retired'' (om_values (co_sessions co)) co))"
  using retire_all_passes [of _ co "''coordinator shutdown; boot identity retired''" "om_values (co_sessions co)"]
  by (simp_all add: stopped_def Let_def begin_shutdown_def passes_def undisturbed_def)

lemma om_values_session: "om_ok m \<Longrightarrow> s \<in> set (om_values m) \<Longrightarrow> \<exists>k. om_find k m = Some s"
  by (simp add: om_values_find)

lemma stopped_silences:
  assumes "sessions_ok co" and "session \<in> set (om_values (co_sessions co))" and "se_registered session"
    and "gen_valid (se_boot session)"
  shows "silenced (co_registry (stopped co)) (se_publisher session) (se_boot session)"
proof -
  have "session_ok (co_limits co) (co_registry co) s" if "s \<in> set (om_values (co_sessions co))" for s
  proof -
    have "om_ok (co_sessions co)" using assms(1) by (simp add: sessions_ok_def)
    from om_values_session [OF this that] show ?thesis using sessions_okD(2) [OF assms(1)] by blast
  qed
  then have "\<forall>s\<in>set (om_values (co_sessions co)). session_ok (co_limits co) (co_registry co) s" by blast
  from retire_all_silences [OF assms(2-4) this] show ?thesis by (simp add: silenced_def stopped_fields)
qed

text \<open>
  C25: the shutdown is ordered. When \<open>run\<close> stops, every session is fenced and gone, the boot that each session
  registered last is retired, and the registry refuses whatever follows. When a state file is configured, saving
  reported success, and the exported state is within the bounds of an image, the file holds exactly the state that
  was reached, the fences included.
\<close>

theorem shutdown_is_ordered:
  assumes "sessions_ok co" and "shut_down cx co = (status, co')"
  shows "co_sessions co' = [] \<and> rg_shutting_down (co_registry co') \<and>
    cs_sessions_fenced (co_stats co') = cs_sessions_fenced (co_stats co) + word_of_nat (length (co_sessions co)) \<and>
    (\<forall>session\<in>set (om_values (co_sessions co)). se_registered session \<longrightarrow> gen_valid (se_boot session) \<longrightarrow>
      silenced (co_registry co') (se_publisher session) (se_boot session)) \<and>
    (\<forall>options. co_store co = Some options \<longrightarrow> status = ErrorCode.Ok \<longrightarrow>
      image_fits options (export_durable_state (cx_now cx) (co_registry co')) \<longrightarrow>
      load (cc_state_path (co_config co)) options None (co_files co') =
        Inr (export_durable_state (cx_now cx) (co_registry co')))"
proof -
  have save: "save_state cx (stopped co) = (status, co')" using assms(2) by (simp add: shut_down_stopped)
  note fields = save_state_fields [OF save]
  have "cs_sessions_fenced (co_stats co') = cs_sessions_fenced (co_stats co) + word_of_nat (length (co_sessions co))"
    by (simp add: fields(3) stopped_def Let_def retire_all_fenced om_values_def)
  moreover have "silenced (co_registry co') (se_publisher session) (se_boot session)"
    if "session \<in> set (om_values (co_sessions co))" "se_registered session" "gen_valid (se_boot session)" for session
    unfolding fields(1) using stopped_silences [OF assms(1) that] .
  moreover have "load (cc_state_path (co_config co)) options None (co_files co') =
      Inr (export_durable_state (cx_now cx) (co_registry co'))"
    if "co_store co = Some options" "status = ErrorCode.Ok"
      "image_fits options (export_durable_state (cx_now cx) (co_registry co'))" for options
    using save_state_loads [of cx "stopped co" co' options] save that by (simp add: fields(1) stopped_fields)
  ultimately show ?thesis by (simp add: fields(1,2) stopped_fields)
qed

section \<open>What is not done\<close>

text \<open>
  A failure while waiting or accepting ends \<open>run\<close> without the ordered shutdown: the sessions stay open and
  registered, the registry goes on accepting, and nothing is saved.
\<close>

theorem failed_wait_skips_shutdown:
  assumes "co_started co" and "\<not> st_requested (co_token co)" and "ro_external r = None"
    and "\<not> ok (ro_waited r) \<or> ro_accepted r = Some (Inl code) \<and> \<not> ok code"
  shows "\<exists>status. run cx opened failure (r # rounds) co = (Some status, co) \<and> \<not> ok status"
  using assms by (auto simp: run_def serve_round_def Let_def)

text \<open>
  Serving never persists. Whatever the configuration says about persisting on mutation, the files are the same
  after any number of rounds as they were before.
\<close>

theorem serving_never_persists:
  assumes "serve rounds co = (outcome, co')"
  shows "co_files co' = co_files co"
  using assms
proof (induction rounds arbitrary: co)
  case (Cons r rounds)
  obtain status co1 where r: "serve_round r co = (status, co1)" by fastforce
  have "co_files co1 = co_files co" using serve_round_advances [OF r] by (simp add: advances_def)
  then show ?case using Cons r by (auto split: if_splits option.splits)
qed (auto split: if_splits)

section \<open>Two registrations on one session\<close>

lemma register_publisher_other:
  assumes "register_publisher now identity adapter reg = (result, reg')" and "pub_id identity \<noteq> pid"
  shows "om_find pid (rg_publishers reg') = om_find pid (rg_publishers reg)"
  using assms
  by (auto simp: register_publisher_def register_publisher_locked_def register_new_publisher_def put_publisher_def
      Let_def split: if_splits option.splits)

lemma retire_boot_other:
  "pid' \<noteq> pid \<Longrightarrow>
     om_find pid (rg_publishers (snd (retire_publisher_boot pid' boot reason reg))) = om_find pid (rg_publishers reg)"
  by (simp add: retire_publisher_boot_def Let_def put_publisher_def split: option.split)

text \<open>
  A session that registers a second publisher forgets the first. When it closes, only the publisher it
  registered last is retired; the first one stays exactly as it was before the second registration.
\<close>

theorem second_registration_orphans_first:
  assumes "sessions_ok co" and "on_register_publisher cx session f co = (status, session', co1)"
    and "se_registered session'" and "se_publisher session' \<noteq> se_publisher session"
  shows "om_find (se_publisher session) (rg_publishers (co_registry (retire_session session' reason co1))) =
    om_find (se_publisher session) (rg_publishers (co_registry co))"
proof -
  obtain parsed request where d: "decode_register_publisher_message (fr_payload f) (co_limits co) = (parsed, request)"
    by fastforce
  obtain result reg where r: "register_publisher (cx_now cx) (rm_identity request) (rm_adapter request) (co_registry co) =
      (result, reg)"
    by fastforce
  have sent: "se_publisher s' = se_publisher s" if "reject cx s f code c = (st, s', c')" for s s' code c c' st
    using that by (auto simp: reject_def send_error_def Let_def split: if_splits prod.splits
        dest!: arg_cong [where f = "\<lambda>x. se_publisher (snd x)"])
  have replied: "se_publisher s' = se_publisher s" "c' = c"
    if "reply kind f encoded s c = (st, s', c')" for kind encoded s s' c c' st
    using that by (auto simp: reply_def respond_def split: if_splits prod.splits
        dest!: arg_cong [where f = "\<lambda>x. se_publisher (snd x)"])
  have handled: "se_handshake session" "ok parsed" "accepted result"
    and co1: "co_registry co1 = reg" and claimed: "se_publisher session' = pub_id (ar_assigned_publisher result)"
    using assms(2,4) by (auto simp: on_register_publisher_def Let_def d r split: if_splits dest: sent replied)
  have "pub_id (ar_assigned_publisher result) = pub_id (rm_identity request)"
    by (rule registered_known [OF r handled(3) sessions_okD(1) [OF assms(1)]])
  then show ?thesis
    using register_publisher_other [OF r, of "se_publisher session"] assms(4) claimed
      retire_boot_other [of "se_publisher session'" "se_publisher session" "se_boot session'" reason reg]
    by (auto simp: retire_session_def co1 case_prod_beta)
qed

end
