(* ===== verification/Replies.thy ===== *)
theory Replies
  imports Deaths
begin

text \<open>
  What a client sees: every frame is answered exactly once and the answer carries the correlation of the frame,
  registration needs the handshake, and a shutdown request ends the loop.
\<close>

section \<open>One answer per frame\<close>

definition answered :: "Frame \<Rightarrow> MessageType set \<Rightarrow> Session \<Rightarrow> reaction \<Rightarrow> bool" where
  "answered f kinds session outcome \<longleftrightarrow>
     (if ok (fst outcome)
      then \<exists>answer. se_sent (fst (snd outcome)) = se_sent session @ [answer] \<and> fr_type answer \<in> kinds \<and>
        fr_correlation answer = fr_correlation f
      else se_sent (fst (snd outcome)) = se_sent session)"

text \<open>
  The type of the answer to a frame that is accepted, as the README lists the messages (section 15): each request is
  followed there by its answer.
\<close>

fun answer_kind :: "MessageType \<Rightarrow> MessageType" where
  "answer_kind MessageType.Hello = MessageType.Welcome"
| "answer_kind MessageType.RegisterPublisher = MessageType.PublisherAccepted"
| "answer_kind MessageType.Publication = MessageType.PublicationAccepted"
| "answer_kind MessageType.Heartbeat = MessageType.HeartbeatAccepted"
| "answer_kind MessageType.FencePublisher = MessageType.FenceAccepted"
| "answer_kind MessageType.QueryRequest = MessageType.QueryResponse"
| "answer_kind MessageType.SnapshotRequest = MessageType.SnapshotResponse"
| "answer_kind MessageType.ShutdownRequest = MessageType.ShutdownAccepted"
| "answer_kind kind = MessageType.ErrorResponse"

lemma encode_frame_fails: "encode_frame f limits = Inl code \<Longrightarrow> \<not> ok code"
  by (auto simp: encode_frame_def split: if_splits)

lemma send_frame_sent:
  "se_sent (snd (send_frame limits f session)) =
     se_sent session @ (if ok (fst (send_frame limits f session)) then [f] else [])"
  using encode_frame_fails [of f limits] by (auto simp: send_frame_def split: sum.split)

lemma answered_kinds: "answered f kinds session outcome \<Longrightarrow> kinds \<subseteq> kinds' \<Longrightarrow> answered f kinds' session outcome"
  by (auto simp: answered_def split: if_splits)

lemma answered_reject [simp]: "answered f {answer_kind k, MessageType.ErrorResponse} session (reject cx session f status co)"
  by (simp add: answered_def reject_def send_error_def error_frame_def Let_def case_prod_beta send_frame_sent)

lemma answered_reply [simp]:
  "se_sent session' = se_sent session \<Longrightarrow> kind \<in> kinds \<Longrightarrow> answered f kinds session (reply kind f encoded session' co)"
  by (simp add: answered_def reply_def respond_def case_prod_beta send_frame_sent)

lemma answered_serve_query: "answered f {MessageType.QueryResponse, MessageType.ErrorResponse} session (serve_query cx session f request co)"
  using answered_reject [of f MessageType.QueryRequest]
  by (simp add: serve_query_def Let_def split: prod.split)

lemma answered_shutdown: "answered f {MessageType.ShutdownAccepted, MessageType.ErrorResponse} session (on_shutdown cx session f co)"
proof -
  have sent: "answered f {MessageType.ShutdownAccepted, MessageType.ErrorResponse} session
      (case respond limits MessageType.ShutdownAccepted (fr_correlation f) payload session of (s, session') \<Rightarrow> (s, session', co'))"
    for limits payload co'
    by (simp add: answered_def respond_def case_prod_beta send_frame_sent)
  then show ?thesis
    using answered_reject [of f MessageType.ShutdownRequest session]
    by (simp add: on_shutdown_def Let_def split: prod.split) (simp add: answered_def)
qed

text \<open>
  C26: every frame is answered exactly once. A frame whose interpretation succeeds adds one frame to what its session
  is sent, with the correlation of the frame, and of the type documented for it or an error; a frame whose
  interpretation fails, after which the session is closed, adds nothing. The type of the answer to a snapshot request
  is left out: it is not the documented one (the theorem after this one).
\<close>

theorem frame_answered_once:
  "answered f (if fr_type f = MessageType.SnapshotRequest then UNIV else {answer_kind (fr_type f), MessageType.ErrorResponse})
     session (dispatch_frame cx session f co)"
proof -
  have wrong: "answered f {MessageType.ErrorResponse} session (reject cx session f status c)" for status c
    using answered_reject [of f MessageType.Welcome] by simp
  have any: "answered f UNIV session (serve_query cx session f request c)" for request c
    using answered_kinds [OF answered_serve_query] by simp
  show ?thesis
    using answered_reject [of f "fr_type f" session] answered_serve_query [of f session]
    by (cases "fr_type f")
      (simp_all add: dispatch_frame_def on_hello_def on_register_publisher_def on_publication_def on_heartbeat_def
        on_fence_publisher_def on_query_def answered_shutdown Let_def wrong any split: prod.split)
qed

text \<open>A snapshot request is answered with a query response or an error, never with the documented snapshot response.\<close>

theorem snapshot_request_gets_query_response:
  assumes "fr_type f = MessageType.SnapshotRequest"
  shows "answered f {MessageType.QueryResponse, MessageType.ErrorResponse} session (dispatch_frame cx session f co) \<and>
    answer_kind (fr_type f) \<notin> {MessageType.QueryResponse, MessageType.ErrorResponse}"
  using answered_serve_query [of f session] by (simp add: dispatch_frame_def assms Let_def)

section \<open>The handshake\<close>

text \<open>
  Only a session that has completed the handshake registers a publisher. Before it a registration changes
  neither the registry nor the session's claim and is answered with an error; and a handshake under another
  protocol version is no handshake.
\<close>

theorem handshake_gates_registration:
  assumes "dispatch_frame cx session f co = (status, session', co')" and "\<not> se_handshake session"
    and "fr_type f = MessageType.RegisterPublisher \<or>
      fr_type f = MessageType.Hello \<and>
        hm_protocol_version (snd (decode_hello (fr_payload f) (co_limits co))) \<noteq> ucast protocol_version"
  shows "co_registry co' = co_registry co \<and> \<not> se_handshake session' \<and> same_claim session session' \<and>
    (ok status \<longrightarrow> (\<exists>answer. se_sent session' = se_sent session @ [answer] \<and>
      fr_type answer = MessageType.ErrorResponse \<and> fr_correlation answer = fr_correlation f))"
proof -
  obtain code where "reject cx session f code (count cs_frames_received_update co) = (status, session', co')"
    using assms by (auto simp: dispatch_frame_def on_register_publisher_def on_hello_def Let_def split: prod.splits if_splits)
  then show ?thesis
    using assms(2) by (auto simp: reject_def send_error_def same_claim_def error_frame_def Let_def case_prod_beta
        send_frame_sent split: if_splits)
qed

section \<open>Shutdown requests\<close>

lemma request_shutdown_requested [simp]: "st_requested (request_shutdown reason token)"
  by (simp add: request_shutdown_def)

lemma serve_query_token [simp]: "co_token (snd (snd (serve_query cx session f request co))) = co_token co"
  by (auto simp: serve_query_def Let_def split: prod.split)

lemma dispatch_frame_requested:
  "st_requested (co_token co) \<Longrightarrow> st_requested (co_token (snd (snd (dispatch_frame cx session f co))))"
  by (cases "fr_type f")
    (simp_all add: dispatch_frame_def on_hello_def on_register_publisher_def on_publication_def on_heartbeat_def
      on_fence_publisher_def on_query_def on_shutdown_def Let_def split: prod.split)

lemma dispatch_frames_requested:
  "st_requested (co_token co) \<Longrightarrow> st_requested (co_token (snd (snd (dispatch_frames cx session frames co))))"
proof (induction frames arbitrary: session co)
  case (Cons f frames)
  then show ?case
    using dispatch_frame_requested [of co cx session f]
    by (cases "dispatch_frame cx session f co") (simp add: Let_def)
qed simp

lemma drop_session_token [simp]: "co_token (drop_session reason handle co) = co_token co"
  by (simp add: drop_session_def retire_session_def Let_def split: option.split prod.split)

lemma dispatch_delivered_requested:
  "st_requested (co_token co) \<Longrightarrow> st_requested (co_token (dispatch_delivered cx entry co))"
  using dispatch_frames_requested [of co cx _ "snd entry"]
  by (auto simp: dispatch_delivered_def put_session_def Let_def split: option.split prod.split) (metis snd_conv)+

lemma fold_requested:
  "st_requested (co_token co) \<Longrightarrow> st_requested (co_token (fold (dispatch_delivered cx) delivered co))"
  by (induction delivered arbitrary: co) (simp_all add: dispatch_delivered_requested)

lemma dispatch_delivered_find:
  assumes "fst entry \<noteq> handle"
  shows "om_find handle (co_sessions (dispatch_delivered cx entry co)) = om_find handle (co_sessions co)"
proof (cases "om_find (fst entry) (co_sessions co)")
  case (Some session)
  obtain closed session' co' where d: "dispatch_frames cx session (snd entry) co = (closed, session', co')"
    by (metis prod_cases3)
  have "co_sessions co' = co_sessions co"
    using passes_dispatch_frames [of cx co session "snd entry"] d by (simp add: passes_def undisturbed_def)
  with assms show ?thesis
    by (simp add: dispatch_delivered_def Some d Let_def drop_session_find) (simp add: put_session_def)
qed (simp add: dispatch_delivered_def)

lemma fold_dispatch_find:
  "handle \<notin> fst ` set delivered \<Longrightarrow>
     om_find handle (co_sessions (fold (dispatch_delivered cx) delivered co)) = om_find handle (co_sessions co)"
  by (induction delivered arbitrary: co) (auto simp: dispatch_delivered_find)

lemma fold_drop_find:
  "handle \<notin> set dead \<Longrightarrow> om_find handle (co_sessions (fold (drop_session reason) dead co)) = om_find handle (co_sessions co)"
  by (induction dead arbitrary: co) (auto simp: drop_session_find)

lemma read_ready_subset:
  "read_ready cx delivery handles co = (dead, delivered, co') \<Longrightarrow> set dead \<union> fst ` set delivered \<subseteq> set handles"
proof (induction handles arbitrary: co dead delivered co')
  case (Cons x xs)
  then show ?case by (fastforce split: option.splits prod.splits if_splits)
qed simp

text \<open>Frames that were read completely are among those interpreted in the round.\<close>

lemma read_ready_delivers:
  assumes "read_ready cx delivery handles co = (dead, delivered, co')" and "distinct handles" and "handle \<in> set handles"
    and "om_find handle (co_sessions co) = Some session" and "delivery handle = Received data" and "data \<noteq> []"
    and "feed data (se_decoder session) = (ErrorCode.Ok, frames, decoder)" and "frames \<noteq> []"
    and "length frames \<le> max_pending_publications (co_limits co)"
  shows "\<exists>before after. delivered = before @ (handle, frames) # after \<and> handle \<notin> fst ` set before \<and> handle \<notin> set dead"
  using assms(1-4,9)
proof (induction handles arbitrary: co dead delivered co')
  case (Cons x xs)
  show ?case
  proof (cases "om_find x (co_sessions co)")
    case None
    with Cons show ?thesis by auto
  next
    case (Some s)
    obtain closed got s' co1 where r: "read_session cx s (delivery x) co = (closed, got, s', co1)"
      by (metis prod_cases4)
    obtain dead' delivered' where rest: "read_ready cx delivery xs (put_session x s' co1) = (dead', delivered', co')"
      and dead: "dead = (if closed then x # dead' else dead')"
      and delivered: "delivered = (if \<not> closed \<and> got \<noteq> [] then (x, got) # delivered' else delivered')"
      using Cons.prems(1) Some r by (auto split: prod.splits if_splits)
    note subset = read_ready_subset [OF rest]
    show ?thesis
    proof (cases "x = handle")
      case True
      with Some Cons.prems(4,5) assms(5-8) r have "\<not> closed" "got = frames"
        by (auto simp: read_session_def)
      moreover have "handle \<notin> set dead'" using subset Cons.prems(2) True by auto
      ultimately show ?thesis
        using True assms(8) by (simp add: dead delivered) (metis append_Nil image_empty list.set(1) empty_iff)
    next
      case False
      have same: "co_sessions co1 = co_sessions co" "co_config co1 = co_config co"
        using read_session_fields(2) [OF r] by (simp_all add: undisturbed_def)
      have "om_find handle (co_sessions (put_session x s' co1)) = Some session"
        using Cons.prems(4) False by (simp add: put_session_def same)
      moreover have "length frames \<le> max_pending_publications (co_limits (put_session x s' co1))"
        using Cons.prems(5) by (simp add: put_session_def same)
      ultimately obtain before after where "delivered' = before @ (handle, frames) # after" "handle \<notin> fst ` set before"
        "handle \<notin> set dead'"
        using Cons.IH [OF rest] Cons.prems(2,3) False by auto
      then have "delivered = (if \<not> closed \<and> got \<noteq> [] then (x, got) # before else before) @ (handle, frames) # after \<and>
          handle \<notin> fst ` set (if \<not> closed \<and> got \<noteq> [] then (x, got) # before else before) \<and> handle \<notin> set dead"
        using False by (auto simp: dead delivered)
      then show ?thesis by blast
    qed
  qed
qed simp

lemma dispatch_shutdown_requests:
  assumes "fr_type f = MessageType.ShutdownRequest"
    and "decode_shutdown (fr_payload f) (co_limits co) = (ErrorCode.Ok, request)"
    and "ok (fst (encode_shutdown request (co_limits co)))"
  shows "st_requested (co_token (snd (snd (dispatch_frames cx session (f # frames) co))))"
proof -
  have "st_requested (co_token (snd (snd (dispatch_frame cx session f co))))"
    using assms by (simp add: dispatch_frame_def on_shutdown_def Let_def split: prod.split)
  then show ?thesis by (cases "dispatch_frame cx session f co") (simp add: Let_def)
qed

lemma dispatch_delivered_requests:
  assumes "om_find handle (co_sessions co) = Some s"
    and "st_requested (co_token (snd (snd (dispatch_frames cx s frames co))))"
  shows "st_requested (co_token (dispatch_delivered cx (handle, frames) co))"
  using assms by (cases "dispatch_frames cx s frames co") (simp add: dispatch_delivered_def put_session_def Let_def)

text \<open>
  A shutdown request ends the loop. Once a session delivers a well-formed shutdown request at the head of a
  batch, the loop stops and \<open>run\<close> goes on to the ordered shutdown, whatever the other sessions deliver in that
  round and whatever would have followed.
\<close>

theorem client_shutdown_stops_the_loop:
  assumes "sessions_ok co" and "om_find handle (co_sessions co) = Some session"
    and "ok (ro_waited r)" and "\<nexists>code. ro_accepted r = Some (Inl code)"
    and "ro_delivery r handle = Received data" and "data \<noteq> []"
    and "feed data (se_decoder session) = (ErrorCode.Ok, f # frames, decoder)"
    and "length (f # frames) \<le> max_pending_publications (co_limits co)"
    and "fr_type f = MessageType.ShutdownRequest"
    and "decode_shutdown (fr_payload f) (co_limits co) = (ErrorCode.Ok, request)"
    and "ok (fst (encode_shutdown request (co_limits co)))"
  shows "fst (serve (r # rounds) co) = Stopping"
proof -
  obtain status co' where r: "serve_round r co = (status, co')" by fastforce
  let ?turn = "turn (ro_context r) (ro_delivery r) (om_keys (co_sessions co))"
  have "ok status \<and> (co' = ?turn co \<or> (\<exists>h w. co' = ?turn (accept_connection h w co)))"
    using r assms(3,4) by (auto simp: serve_round_def Let_def split: option.splits sum.splits prod.splits)
  then obtain opened where ok: "ok status" and opened: "opened = co \<or> (\<exists>h w. opened = accept_connection h w co)"
    and co': "co' = ?turn opened"
    by blast
  have "advances h co opened" for h using opened by auto
  then have config: "co_config opened = co_config co" by (simp add: advances_def)
  have find: "om_find handle (co_sessions opened) = Some session"
    using opened assms(2) by (auto simp: accept_connection_def turn_away_def Let_def split: sum.split)
  obtain dead delivered read where read: "read_ready (ro_context r) (ro_delivery r) (om_keys (co_sessions co)) opened =
      (dead, delivered, read)"
    by (metis prod_cases3)
  have keys: "distinct (om_keys (co_sessions co))" "handle \<in> set (om_keys (co_sessions co))"
    using assms(1,2) om_ok_distinct om_find_key [of handle "co_sessions co"] by (auto simp: sessions_ok_def)
  obtain before after where split: "delivered = before @ (handle, f # frames) # after" "handle \<notin> fst ` set before"
    "handle \<notin> set dead"
    using read_ready_delivers [OF read keys find assms(5-7)] assms(8) by (auto simp: config)
  let ?dropped = "fold (drop_session ''publisher connection closed; boot identity retired'') dead read"
  let ?co1 = "fold (dispatch_delivered (ro_context r)) before ?dropped"
  obtain s where "om_find handle (co_sessions read) = Some s"
    using read_ready_claims [OF read find] by blast
  then have s: "om_find handle (co_sessions ?co1) = Some s"
    using split(2,3) by (simp add: fold_dispatch_find fold_drop_find)
  have "advances h read ?dropped" for h by (rule fold_advances) (rule drop_session_advances)
  moreover have "advances (cx_hash (ro_context r)) ?dropped ?co1"
    by (rule fold_advances) (rule dispatch_delivered_advances)
  ultimately have limits: "co_limits ?co1 = co_limits co"
    using read_ready_fields(2) [OF read] config by (simp add: advances_def)
  have "st_requested (co_token (snd (snd (dispatch_frames (ro_context r) s (f # frames) ?co1))))"
    using assms(9-11) by (intro dispatch_shutdown_requests) (simp_all add: limits)
  then have "st_requested (co_token (dispatch_delivered (ro_context r) (handle, f # frames) ?co1))"
    by (rule dispatch_delivered_requests [OF s])
  then have "st_requested (co_token co')"
    unfolding co' turn_def read prod.case split(1) by (simp add: fold_requested)
  then have "fst (serve rounds co') = Stopping"
    by (cases rounds) simp_all
  then show ?thesis using r ok by (simp split: option.split)
qed

end
