(* ===== verification/Lifetimes.thy ===== *)
theory Lifetimes
  imports Deaths Restart_Fences
begin

text \<open>
  Whole lives of a coordinator: serving is a sequence of registry operations, and a coordinator that is stopped
  and started again on the same files refuses every boot of its former life.
\<close>

section \<open>Serving\<close>

text \<open>
  C9: the coordinator refines the registry. However many rounds it serves, the registry it ends with is reached
  from the one it began with by registrations, fences, retirements, publications and snapshots alone. No frame moves
  the epoch, resets liveness, opens or closes the registry, or reaches the direct call that registers a schema; a
  frame that carries a publication of a schema does register it, with the checks of a publication.
\<close>

theorem serving_refines_registry:
  assumes "serve rounds co = (outcome, co')" and "\<forall>r\<in>set rounds. cx_hash (ro_context r) = h"
  shows "\<exists>ms. moves h (co_registry co) ms (co_registry co') \<and> list_all served ms"
  using serve_advances [OF assms(1)] assms(2) unfolding advances_def moved_def by blast

section \<open>Publisher states through a life\<close>

lemma moved_invariant:
  assumes "moved h reg reg'" and "P reg" and "\<And>reg op reg'. step h reg op reg' \<Longrightarrow> P reg \<Longrightarrow> P reg'"
    and "\<And>now reg. P reg \<Longrightarrow> P (snd (snapshot now reg))"
  shows "P reg'"
proof -
  obtain ms where "moves h reg ms reg'" using assms(1) unfolding moved_def by blast
  then show ?thesis using assms(2) by (induction rule: moves.induct) (auto intro: assms(3,4))
qed

lemma publishers_ok_moved:
  assumes "moved h reg reg'" and "publishers_ok reg"
  shows "publishers_ok reg'"
proof (rule moved_invariant [where P = publishers_ok, OF assms])
  show "publishers_ok r'" if "step h r op r'" and "publishers_ok r" for r op r'
    using that by (rule step_publishers_ok)
  show "publishers_ok (snd (snapshot now r))" if "publishers_ok r" for now r
    using that by (simp add: publishers_ok_def)
qed

lemma staged_publishers_sorted:
  "stage_watermark w m = Inr m' \<Longrightarrow> om_ok m \<Longrightarrow> om_ok m'"
  "stage_fence w m = Inr m' \<Longrightarrow> om_ok m \<Longrightarrow> om_ok m'"
  by (auto simp: stage_watermark_def stage_fence_def Let_def split: if_splits)

lemma bury_publisher_ok: "publisher_ok (bury_publisher st)"
  by (simp add: publisher_ok_def bury_publisher_def Let_def)

lemma import_publishers_ok:
  assumes "import_durable_state state reg = ((ErrorCode.Ok, report), reg')"
  shows "publishers_ok reg'"
proof -
  obtain staged reg0 where commit: "reg' = commit state staged reg0" and limits: "rg_limits reg0 = rg_limits reg"
    and knowledge: "stage_knowledge (rg_limits reg) state (stg_subjects staged) (stg_platforms staged) (stg_schemas staged) =
      Inr (stg_quirks staged, stg_compatibility staged, stg_publishers staged)"
    using assms by (rule import_success)
  then obtain marked where marked: "fold_checked stage_watermark (du_publisher_watermarks state) [] = Inr marked"
    and fenced: "fold_checked stage_fence (du_fenced_boots state) marked = Inr (stg_publishers staged)"
    and bound: "length (stg_publishers staged) \<le> max_publishers (rg_limits reg)"
    by (auto simp: stage_knowledge_def split: sum.splits if_splits)
  have "om_ok marked"
    by (rule fold_checked_invariant [OF marked]) (simp, rule staged_publishers_sorted(1))
  then have "om_ok (stg_publishers staged)"
    by (rule fold_checked_invariant [OF fenced]) (rule staged_publishers_sorted(2))
  moreover have "publisher_ok st" if "om_find pid (rg_publishers reg') = Some st" for pid st
    using that bury_publisher_ok by (auto simp: commit commit_fields(1))
  ultimately show ?thesis
    using bound limits by (simp add: publishers_ok_def commit commit_fields(1,10))
qed

lemma load_state_ok:
  assumes "load_state failure co = (ErrorCode.Ok, co')" and "publishers_ok (co_registry co)" and "keyed (co_registry co)"
  shows "publishers_ok (co_registry co')" and "keyed (co_registry co')"
  using assms import_publishers_ok import_keyed
  by (auto simp: load_state_def split: option.splits sum.splits prod.splits)

lemma load_state_fields:
  assumes "load_state failure co = (status, co')"
  shows "co_config co' = co_config co" and "co_sessions co' = co_sessions co" and "co_store co' = co_store co"
    and "co_files co' = co_files co"
  using assms by (auto simp: load_state_def split: option.splits sum.splits prod.splits)

lemma reset_liveness_invariants:
  "publishers_ok reg \<Longrightarrow> publishers_ok (reset_publisher_liveness reason (snd (advance_coordinator_epoch reg)))"
  "keyed reg \<Longrightarrow> keyed (reset_publisher_liveness reason (snd (advance_coordinator_epoch reg)))"
proof -
  let ?reg = "snd (advance_coordinator_epoch reg)"
  have same: "rg_publishers ?reg = rg_publishers reg" "rg_limits ?reg = rg_limits reg"
    by (simp_all add: advance_coordinator_epoch_def Let_def)
  show "publishers_ok (reset_publisher_liveness reason ?reg)" if "publishers_ok reg"
    by (rule lifecycle_publishers_ok(3)) (rule publishers_ok_congr [OF same that])
  show "keyed (reset_publisher_liveness reason ?reg)" if "keyed reg"
    using that lifecycle_names(3) [of ?reg reason] by (simp add: keyed_def names_kept_def same)
qed

text \<open>The parts of a start that succeeds.\<close>

lemma start_cases:
  assumes "start cx opened failure co = (ErrorCode.Ok, co')"
  obtains loaded where "open_store failure co = (ErrorCode.Ok, loaded)"
    and "co_registry co' = reset_publisher_liveness ''coordinator restarted; publisher liveness is not restored''
      (snd (advance_coordinator_epoch (co_registry loaded)))"
    and "co_sessions co' = co_sessions loaded" and "co_config co' = co_config loaded" and "co_store co' = co_store loaded"
    and "co_started co'"
proof -
  obtain status loaded where o: "open_store failure co = (status, loaded)" by fastforce
  obtain epoch reg where e: "advance_coordinator_epoch (co_registry loaded) = (epoch, reg)" by fastforce
  define ready where "ready = (count cs_epoch_advances_update loaded)\<lparr>
    co_registry := reset_publisher_liveness ''coordinator restarted; publisher liveness is not restored'' reg,
    co_started := True\<rparr>"
  have "status = ErrorCode.Ok" and "co' = ready \<or> save_state cx ready = (ErrorCode.Ok, co')"
    using assms o e by (auto simp: start_def Let_def ready_def split: if_splits)
  then show thesis
    using that [of loaded] o e save_state_fields [of cx ready ErrorCode.Ok co'] by (auto simp: ready_def)
qed

lemma open_store_ok:
  assumes "open_store failure co = (ErrorCode.Ok, loaded)" and "publishers_ok (co_registry co)" and "keyed (co_registry co)"
  shows "publishers_ok (co_registry loaded)" and "keyed (co_registry loaded)"
    and "co_config loaded = co_config co" and "co_sessions loaded = co_sessions co"
    and "cc_state_path (co_config co) \<noteq> [] \<Longrightarrow> co_store loaded = Some default_options"
  using assms load_state_ok [of failure "co\<lparr>co_store := Some default_options\<rparr>" loaded]
    load_state_fields [of failure "co\<lparr>co_store := Some default_options\<rparr>" ErrorCode.Ok loaded]
  by (auto simp: open_store_def Let_def split: if_splits)

lemma new_coordinator_ok:
  "publishers_ok (co_registry (new_coordinator builtin config files))" "keyed (co_registry (new_coordinator builtin config files))"
  "co_sessions (new_coordinator builtin config files) = []" "co_config (new_coordinator builtin config files) = config"
  "\<not> co_started (new_coordinator builtin config files)" "co_files (new_coordinator builtin config files) = files"
  by (simp_all add: new_coordinator_def new_publishers_ok new_keyed)

lemma start_new_ok:
  assumes "start cx opened failure (new_coordinator builtin config files) = (ErrorCode.Ok, co)"
  shows "publishers_ok (co_registry co)" and "sessions_ok co" and "co_config co = config"
    and "cc_state_path config \<noteq> [] \<Longrightarrow> co_store co = Some default_options"
proof -
  obtain loaded where l: "open_store failure (new_coordinator builtin config files) = (ErrorCode.Ok, loaded)"
    and co: "co_registry co = reset_publisher_liveness ''coordinator restarted; publisher liveness is not restored''
      (snd (advance_coordinator_epoch (co_registry loaded)))"
      "co_sessions co = co_sessions loaded" "co_config co = co_config loaded" "co_store co = co_store loaded"
    using assms by (rule start_cases)
  note ok = open_store_ok [OF l new_coordinator_ok(1,2)]
  show "publishers_ok (co_registry co)" unfolding co(1) using ok(1) by (rule reset_liveness_invariants(1))
  show "sessions_ok co"
    using reset_liveness_invariants(2) [OF ok(2)] ok(4) by (simp add: sessions_ok_def co new_coordinator_ok)
  show "co_config co = config" using ok(3) by (simp add: co new_coordinator_ok)
  show "co_store co = Some default_options" if "cc_state_path config \<noteq> []"
    using ok(5) that by (simp add: co new_coordinator_ok)
qed

section \<open>From one life to the next\<close>

lemma serve_never_fails_ok: "serve rounds co = (Failed status, co') \<Longrightarrow> \<not> ok status"
  by (induction rounds arbitrary: co) (auto split: if_splits option.splits prod.splits)

lemma run_stopped:
  assumes "run cx opened failure rounds co = (Some ErrorCode.Ok, co')"
  obtains started stopping where "co_started co \<and> started = co \<or> start cx opened failure co = (ErrorCode.Ok, started)"
    and "serve rounds started = (Stopping, stopping)" and "shut_down cx stopping = (ErrorCode.Ok, co')"
proof -
  obtain status started where st: "(if co_started co then (ErrorCode.Ok, co) else start cx opened failure co) = (status, started)"
    by fastforce
  obtain outcome stopping where sv: "serve rounds started = (outcome, stopping)" by fastforce
  have "ok status" and "outcome = Stopping" and "shut_down cx stopping = (ErrorCode.Ok, co')"
    using assms st sv serve_never_fails_ok [of rounds started _ stopping]
    by (auto simp: run_def split: if_splits Served.splits prod.splits)
  then show thesis using that [of started stopping] st sv by (auto split: if_splits)
qed

text \<open>What a first life leaves behind: a registry with well-formed publishers, and its image.\<close>

lemma first_life:
  assumes "run cx opened failure rounds (new_coordinator builtin config files) = (Some ErrorCode.Ok, co)"
    and "\<forall>r\<in>set rounds. cx_hash (ro_context r) = h" and "cc_state_path config \<noteq> []"
    and "image_fits default_options (export_durable_state (cx_now cx) (co_registry co))"
  shows "publishers_ok (co_registry co)"
    and "load (cc_state_path config) default_options None (co_files co) =
      Inr (export_durable_state (cx_now cx) (co_registry co))"
proof -
  obtain started stopping where start: "start cx opened failure (new_coordinator builtin config files) = (ErrorCode.Ok, started)"
    and serve: "serve rounds started = (Stopping, stopping)" and down: "shut_down cx stopping = (ErrorCode.Ok, co)"
    using assms(1) by (rule run_stopped) (simp add: new_coordinator_ok)
  note fresh = start_new_ok [OF start]
  have advanced: "advances h started stopping" using serve_advances [OF serve] assms(2) by blast
  have save: "save_state cx (stopped stopping) = (ErrorCode.Ok, co)" using down by (simp add: shut_down_stopped)
  note registry = save_state_fields(1) [OF save]
  have "publishers_ok (co_registry stopping)"
    using advanced fresh(1) publishers_ok_moved unfolding advances_def by blast
  then have "publishers_ok (co_registry (retire_all reason sessions stopping))" for reason sessions
    using retire_all_passes [of h stopping reason sessions] publishers_ok_moved unfolding passes_def by blast
  then show "publishers_ok (co_registry co)"
    by (simp add: registry stopped_def Let_def begin_shutdown_def) (simp add: publishers_ok_def)
  have config: "co_config stopping = config" "co_store stopping = Some default_options"
    using advanced fresh(3,4) assms(3) by (simp_all add: advances_def)
  show "load (cc_state_path config) default_options None (co_files co) =
      Inr (export_durable_state (cx_now cx) (co_registry co))"
    using save_state_loads [OF save, of default_options] assms(4) by (simp add: stopped_fields config registry)
qed

text \<open>What a second life begins with.\<close>

lemma second_life:
  assumes "start cx opened None (new_coordinator builtin config files) = (ErrorCode.Ok, co)"
    and "cc_state_path config \<noteq> []" and "load (cc_state_path config) default_options None files = Inr state"
  obtains report imported where "import_durable_state state (new_registry builtin (cc_limits config)) =
      ((ErrorCode.Ok, report), imported)"
    and "co_registry co = reset_publisher_liveness ''coordinator restarted; publisher liveness is not restored''
      (snd (advance_coordinator_epoch imported))"
proof -
  obtain loaded where l: "open_store None (new_coordinator builtin config files) = (ErrorCode.Ok, loaded)"
    and co: "co_registry co = reset_publisher_liveness ''coordinator restarted; publisher liveness is not restored''
      (snd (advance_coordinator_epoch (co_registry loaded)))"
    using assms(1) by (rule start_cases)
  have "exists_file (cc_state_path config) files"
    using assms(3) by (cases "files (cc_state_path config)") (simp_all add: exists_file_def load_def)
  then have "\<exists>report. import_durable_state state (new_registry builtin (cc_limits config)) =
      ((ErrorCode.Ok, report), co_registry loaded)"
    using l assms(2,3)
    by (auto simp: open_store_def load_state_def new_coordinator_def Let_def split: prod.splits)
  then show thesis using that co by blast
qed

lemma epoch_after_import:
  assumes "import_durable_state state reg = ((ErrorCode.Ok, report), imported)"
  shows "rg_epoch imported = (if gen_valid (dh_epoch (du_header state)) \<and> dh_epoch (du_header state) > rg_epoch reg
    then dh_epoch (du_header state) else rg_epoch reg)"
  using assms by (elim import_cases) (auto simp: commit_def Let_def)

lemma exported_epoch [simp]: "dh_epoch (du_header (export_durable_state now reg)) = rg_epoch reg"
  by (simp add: export_durable_state_def exported_state_def Let_def)

lemma new_registry_epoch [simp]: "rg_epoch (new_registry builtin limits) = gen_first"
  by (simp add: new_registry_def Let_def)

lemma epoch_restarted:
  assumes "import_durable_state (export_durable_state now reg) (new_registry builtin limits) = ((ErrorCode.Ok, report), imported)"
    and "rg_epoch reg \<noteq> - 1"
  shows "rg_epoch reg < rg_epoch (reset_publisher_liveness reason (snd (advance_coordinator_epoch imported)))"
proof -
  have "gen_valid (rg_epoch imported)" "rg_epoch imported \<noteq> - 1" "rg_epoch reg \<le> rg_epoch imported"
    using epoch_after_import [OF assms(1)] assms(2) by (auto simp: gen_valid_def gen_first_def)
  then show ?thesis
    using gen_next_greater [of "rg_epoch imported"]
    by (simp add: reset_publisher_liveness_def advance_coordinator_epoch_def Let_def touch_locked_def)
qed

text \<open>
  C3: a restarted coordinator has a later epoch and refuses the boots its former life left. A coordinator is run and
  stopped, and another one is started on the files it left. However long that one serves, it accepts no publication,
  except that of a schema, under a boot that was the current one of its publisher, or fenced, when the first one
  stopped; and no publication under such a boot, a schema included, changes a device, evidence, quirk or
  compatibility fact.
\<close>

theorem restarted_coordinator_refuses_old_boots:
  assumes "run cx opened failure rounds (new_coordinator builtin config files) = (Some ErrorCode.Ok, co1)"
    and "\<forall>r\<in>set rounds. cx_hash (ro_context r) = h" and "cc_state_path config \<noteq> []"
    and "image_fits default_options (export_durable_state (cx_now cx) (co_registry co1))"
    and "start cx' opened' None (new_coordinator builtin' config' (co_files co1)) = (ErrorCode.Ok, co2)"
    and "cc_state_path config' = cc_state_path config" and "serve rounds' co2 = (outcome, co3)"
    and "\<forall>r\<in>set rounds'. cx_hash (ro_context r) = h"
    and "om_find (pub_id (pb_publisher p)) (rg_publishers (co_registry co1)) = Some st"
    and "gen_valid (pub_boot (pb_publisher p))"
    and "pub_boot (pb_publisher p) = pub_boot (pr_identity (ps_record st)) \<or>
      pub_boot (pb_publisher p) \<in> set (ps_fenced_boots st)"
    and "rg_epoch (co_registry co1) \<noteq> - 1"
  shows "rg_epoch (co_registry co1) < rg_epoch (co_registry co2) \<and>
    (pb_kind p = PublicationKind.RegisterCapabilitySchema \<or>
      \<not> accepted (fst (apply_publication h now p (co_registry co3)))) \<and>
    same_truth (co_registry co3) (snd (apply_publication h now p (co_registry co3)))"
proof -
  let ?reason = "''coordinator restarted; publisher liveness is not restored''"
  note life = first_life [OF assms(1-4)]
  obtain report imported where import: "import_durable_state (export_durable_state (cx_now cx) (co_registry co1))
      (new_registry builtin' (cc_limits config')) = ((ErrorCode.Ok, report), imported)"
    and co2: "co_registry co2 = reset_publisher_liveness ?reason (snd (advance_coordinator_epoch imported))"
    using assms(5) assms(3) [folded assms(6)] life(2) [folded assms(6)] by (rule second_life)
  obtain st1 where "om_find (pub_id (pb_publisher p)) (rg_publishers imported) = Some st1"
    "pub_boot (pb_publisher p) \<in> set (ps_fenced_boots st1)"
    using restart_fences_boot [OF life(1) import assms(9,10,11)] by blast
  then have "silenced (snd (advance_coordinator_epoch imported)) (pub_id (pb_publisher p)) (pub_boot (pb_publisher p))"
    by (simp add: silenced_def advance_coordinator_epoch_def Let_def)
  then have "silenced (co_registry co2) (pub_id (pb_publisher p)) (pub_boot (pb_publisher p))"
    using reset_liveness_evolves [of "snd (advance_coordinator_epoch imported)" ?reason]
    by (fastforce simp: co2 silenced_def publishers_evolve_def publisher_evolves_def split: option.splits)
  moreover have "moved h (co_registry co2) (co_registry co3)"
    using serve_advances [OF assms(7)] assms(8) by (simp add: advances_def)
  ultimately have "silenced (co_registry co3) (pub_id (pb_publisher p)) (pub_boot (pb_publisher p))"
    by (rule silenced_moved)
  then show ?thesis
    using silenced_inert [of "co_registry co3" p h now] epoch_restarted [OF import assms(12)]
    by (simp add: co2)
qed

text \<open>
  A coordinator does not start on an image it cannot read. When the state file exists and does not load, the
  start returns that failure, nothing of the registry has changed, and \<open>run\<close> serves nobody.
\<close>

theorem unreadable_image_stops_the_start:
  assumes "cc_state_path (co_config co) \<noteq> []" and "\<not> co_started co"
    and "exists_file (cc_state_path (co_config co)) (co_files co)"
    and "load (cc_state_path (co_config co)) default_options failure (co_files co) = Inl code" and "\<not> ok code"
  shows "start cx ErrorCode.Ok failure co = (code, co\<lparr>co_store := Some default_options\<rparr>) \<and>
    run cx ErrorCode.Ok failure rounds co = (Some code, co\<lparr>co_store := Some default_options\<rparr>)"
proof -
  have "start cx ErrorCode.Ok failure co = (code, co\<lparr>co_store := Some default_options\<rparr>)"
    using assms by (simp add: start_def open_store_def load_state_def Let_def)
  with assms(2,5) show ?thesis by (simp add: run_def)
qed

end
