(* ===== verification/Coordinator_Samples.thy ===== *)
theory Coordinator_Samples
  imports Replies Lifetimes Storage_Samples
begin

text \<open>
  A small coordinator: it starts, accepts a connection, is greeted on it and registers a publisher. The witnesses of
  the theorems about the coordinator apply them to its lives.
\<close>

text \<open>The default limits stay symbolic in evaluations: their numbers are large and nothing below depends on them.\<close>

declare default_limits_def [code del]

text \<open>Checksums are computed bit by bit, not with the table.\<close>

declare crc_update_step [code]

text \<open>What is sent need not be encoded to know that it can be.\<close>

lemma send_frame_code [code]:
  "send_frame limits f session =
     (if length (fr_payload f) > max_frame_bytes limits then (ErrorCode.LimitExceeded, session)
      else if fr_flags f AND NOT kKnownFrameFlags \<noteq> 0 then (ErrorCode.ProtocolError, session)
      else if se_writable session then (ErrorCode.Ok, session\<lparr>se_sent := se_sent session @ [f]\<rparr>)
      else (ErrorCode.IoFailure, session))"
  by (simp add: send_frame_def encode_frame_def)

definition sample_context :: Context where
  "sample_context = \<lparr>cx_hash = no_hash, cx_now = [], cx_text = (\<lambda>code. []), cx_detail = (\<lambda>code. []),
     cx_save = good_disk\<rparr>"

definition sample_config :: CoordinatorConfig where
  "sample_config = \<lparr>cc_state_path = ''s'', cc_limits = wire_limits, cc_persist_on_mutation = False, cc_node_name = ''n''\<rparr>"

definition framed :: "MessageType \<Rightarrow> u64 \<Rightarrow> u8 list \<Rightarrow> Frame" where
  "framed kind correlation payload = \<lparr>fr_type = kind, fr_flags = 0, fr_correlation = correlation, fr_payload = payload\<rparr>"

definition hello_frame :: Frame where
  "hello_frame = framed MessageType.Hello 1 (snd (encode_hello
     \<lparr>hm_protocol_version = ucast protocol_version, hm_agent = [], hm_role = [], hm_nonce = 0\<rparr> wire_limits))"

definition register_frame :: "string \<Rightarrow> Frame" where
  "register_frame pid = framed MessageType.RegisterPublisher 2 (snd (encode_register_publisher_message
     \<lparr>rm_identity = \<lparr>pub_id = pid, pub_boot = 0, pub_epoch = 0\<rparr>, rm_adapter = ''a'', rm_agent = []\<rparr> wire_limits))"

definition shutdown_frame :: Frame where
  "shutdown_frame = framed MessageType.ShutdownRequest 3 (snd (encode_shutdown \<lparr>sm_reason = ''bye''\<rparr> wire_limits))"

definition quiet_round :: Round where
  "quiet_round = \<lparr>ro_context = sample_context, ro_external = None, ro_waited = ErrorCode.Ok, ro_accepted = None,
     ro_delivery = (\<lambda>handle. Quiet)\<rparr>"

definition delivering :: "(nat \<Rightarrow> Delivery) \<Rightarrow> Round" where
  "delivering delivery = quiet_round\<lparr>ro_delivery := delivery\<rparr>"

definition accept_round :: Round where
  "accept_round = quiet_round\<lparr>ro_accepted := Some (Inr (7, True))\<rparr>"

definition sample_co_new :: Coordinator where
  "sample_co_new = new_coordinator [] sample_config (\<lambda>path. None)"

definition sample_co :: Coordinator where
  "sample_co = snd (start sample_context ErrorCode.Ok None sample_co_new)"

definition sample_co_open :: Coordinator where
  "sample_co_open = accept_connection 7 True sample_co"

definition register_frames :: "Frame list" where
  "register_frames = [hello_frame, register_frame ''p'']"

definition sample_co_registered :: Coordinator where
  "sample_co_registered = dispatch_delivered sample_context (7, register_frames) sample_co_open"

definition stream :: "Frame list \<Rightarrow> Delivery" where
  "stream frames = Received (concat (map frame_bytes frames))"

definition sample_rounds :: "Round list" where
  "sample_rounds = [accept_round, delivering (\<lambda>handle. stream register_frames)]"

lemma sample_started: "fst (start sample_context ErrorCode.Ok None sample_co_new) = ErrorCode.Ok"
  by code_simp

lemma sample_start: "start sample_context ErrorCode.Ok None sample_co_new = (ErrorCode.Ok, sample_co)"
  using sample_started by (simp add: sample_co_def prod_eq_iff)

lemma sample_frames_ok:
  "list_all (\<lambda>f. fr_flags f = 0 \<and> length (fr_payload f) \<le> 90)
     [hello_frame, register_frame ''p'', register_frame ''q'', shutdown_frame]"
  by code_simp

text \<open>A stream of small frames is read as those frames by a session without pending bytes.\<close>

lemma stream_read:
  assumes "list_all (\<lambda>f. fr_flags f = 0 \<and> length (fr_payload f) \<le> n) frames" and "length frames * (n + 30) \<le> 1000"
    and "frames \<noteq> []" and "length frames \<le> 4" and "se_decoder session = \<lparr>fd_limits = wire_limits, fd_buffer = []\<rparr>"
    and "co_limits co = wire_limits"
  shows "read_session cx session (stream frames) co = (False, frames, session, co)"
    and "concat (map frame_bytes frames) \<noteq> []"
    and "feed (concat (map frame_bytes frames)) (se_decoder session) = (ErrorCode.Ok, frames, se_decoder session)"
proof -
  have "0 < length frames" using assms(3) by simp
  with assms(2) have "n \<le> 1000" by (cases frames) simp_all
  then have ok: "list_all (frame_ok wire_limits) frames"
    using assms(1) by (auto simp: list_all_iff frame_ok_def)
  have "sum_list (map (\<lambda>f. length (frame_bytes f)) frames) \<le> sum_list (map (\<lambda>f. n + 30) frames)"
    using assms(1) by (intro sum_list_mono) (auto simp: list_all_iff frame_bytes_length kFrameHeaderSize_def)
  then have "length (concat (map frame_bytes frames)) \<le> 1000"
    using assms(2) by (simp add: length_concat comp_def sum_list_triv)
  then show fed: "feed (concat (map frame_bytes frames)) (se_decoder session) = (ErrorCode.Ok, frames, se_decoder session)"
    unfolding assms(5) by (intro feed_stream [OF ok]) simp
  show some: "concat (map frame_bytes frames) \<noteq> []" using assms(3) by (cases frames) simp_all
  have "max_pending_publications wire_limits = 4" by (simp add: wire_limits_def sample_limits_def)
  then show "read_session cx session (stream frames) co = (False, frames, session, co)"
    using fed some assms(4,6) by (simp add: read_session_def stream_def)
qed

lemma sample_co_fields: "co_sessions sample_co = []" "co_limits sample_co = wire_limits"
  by code_simp+

lemma sample_max_connections: "max_connections wire_limits = 2"
  by (simp add: wire_limits_def sample_limits_def)

lemma sample_open:
  "co_sessions sample_co_open = [(7, new_session wire_limits True)]" "co_limits sample_co_open = wire_limits"
  by (simp_all add: sample_co_open_def accept_connection_def sample_co_fields sample_max_connections om_emplace_def)

lemma sample_open_find: "om_find 7 (co_sessions sample_co_open) = Some (new_session wire_limits True)"
  by (simp add: sample_open om_find_def)

lemma sample_open_put: "put_session 7 (new_session wire_limits True) sample_co_open = sample_co_open"
  using sample_open by (simp add: put_session_def)

lemma fresh_decoder [simp]: "se_decoder (new_session limits writable) = \<lparr>fd_limits = limits, fd_buffer = []\<rparr>"
  by (simp add: new_session_def)

lemma register_frames_some: "register_frames \<noteq> []"
  by (simp add: register_frames_def)

lemma sample_registration_round:
  "serve_round (delivering (\<lambda>handle. stream register_frames)) sample_co_open = (ErrorCode.Ok, sample_co_registered)"
proof -
  have "read_session sample_context (new_session wire_limits True) (stream register_frames) sample_co_open =
      (False, register_frames, new_session wire_limits True, sample_co_open)"
    by (rule stream_read(1) [where n = 90]) (use sample_frames_ok in \<open>simp_all add: register_frames_def sample_open\<close>)
  then have "read_ready sample_context (\<lambda>handle. stream register_frames) [7] sample_co_open =
      ([], [(7, register_frames)], sample_co_open)"
    using register_frames_some by (simp add: sample_open_find sample_open_put)
  then show ?thesis
    by (simp add: serve_round_def delivering_def quiet_round_def turn_def sample_open om_keys_def sample_co_registered_def)
qed

lemma sample_accept_round: "serve_round accept_round sample_co = (ErrorCode.Ok, sample_co_open)"
  by (simp add: serve_round_def accept_round_def quiet_round_def turn_def sample_co_fields om_keys_def sample_co_open_def)

lemma sample_token: "\<not> st_requested (co_token sample_co)"
  by code_simp

lemma sample_open_token: "co_token sample_co_open = co_token sample_co"
  by (simp add: sample_co_open_def accept_connection_def turn_away_def Let_def split: sum.split)

text \<open>The coordinator once the publisher is registered.\<close>

definition sample_claim :: "Coordinator \<Rightarrow> bool" where
  "sample_claim co \<longleftrightarrow>
     \<not> st_requested (co_token co) \<and> om_keys (co_sessions co) = [7] \<and>
     (case om_find 7 (co_sessions co) of
        None \<Rightarrow> False
      | Some session \<Rightarrow> se_registered session \<and> se_publisher session = ''p'' \<and> se_boot session = 1 \<and>
          se_decoder session = \<lparr>fd_limits = wire_limits, fd_buffer = []\<rparr> \<and>
          map fr_type (se_sent session) = [MessageType.Welcome, MessageType.PublisherAccepted]) \<and>
     (case om_find ''p'' (rg_publishers (co_registry co)) of
        None \<Rightarrow> False
      | Some st \<Rightarrow> pr_state (ps_record st) = PublisherState.Registered \<and>
          pr_identity (ps_record st) = \<lparr>pub_id = ''p'', pub_boot = 1, pub_epoch = 2\<rparr> \<and> ps_fenced_boots st = []) \<and>
     co_files co ''s'' = None"

lemma sample_claimed: "sample_claim sample_co_registered"
  by code_simp

lemma sample_served: "serve sample_rounds sample_co = (Waiting, sample_co_registered)"
  using sample_accept_round sample_registration_round sample_token sample_open_token
  using sample_claimed [unfolded sample_claim_def]
  by (simp add: sample_rounds_def accept_round_def quiet_round_def delivering_def)

lemma sample_co_ok: "sessions_ok sample_co"
  using start_new_ok(2) [OF sample_start [unfolded sample_co_new_def]] .

lemma sample_registered_ok: "sessions_ok sample_co_registered"
  unfolding sample_co_registered_def sample_co_open_def
  by (intro dispatch_delivered_ok accept_connection_ok sample_co_ok)

lemma sample_open_ok: "sessions_ok sample_co_open"
  unfolding sample_co_open_def by (intro accept_connection_ok sample_co_ok)

lemma sample_rounds_hash: "\<forall>r\<in>set sample_rounds. cx_hash (ro_context r) = no_hash"
  by (simp add: sample_rounds_def accept_round_def delivering_def quiet_round_def sample_context_def)

lemma sample_advances: "advances no_hash sample_co sample_co_registered"
  using serve_advances [OF sample_served] sample_rounds_hash by blast

lemma sample_session:
  obtains session where "om_find 7 (co_sessions sample_co_registered) = Some session" and "se_registered session"
    and "se_publisher session = ''p''" and "se_boot session = 1"
    and "se_decoder session = \<lparr>fd_limits = wire_limits, fd_buffer = []\<rparr>"
  using sample_claimed by (auto simp: sample_claim_def split: option.splits)

lemma sample_registered_publisher:
  obtains st where "om_find ''p'' (rg_publishers (co_registry sample_co_registered)) = Some st"
    and "pr_state (ps_record st) = PublisherState.Registered"
    and "pr_identity (ps_record st) = \<lparr>pub_id = ''p'', pub_boot = 1, pub_epoch = 2\<rparr>" and "ps_fenced_boots st = []"
  using sample_claimed by (auto simp: sample_claim_def split: option.splits)

lemma sample_registered_limits: "co_limits sample_co_registered = wire_limits"
  using sample_advances sample_co_fields by (simp add: advances_def)

end
