(* ===== verification/Coordinator_Witnesses.thy ===== *)
theory Coordinator_Witnesses
  imports Coordinator_Samples
begin

text \<open>
  The theorems about the coordinator applied to the lives of the sample coordinator.
\<close>

section \<open>Serving\<close>

theorem serving_keeps_sessions_ok_witness: "sessions_ok sample_co_registered \<and> om_keys (co_sessions sample_co_registered) = [7]"
  using serving_keeps_sessions_ok [OF sample_served sample_co_ok] sample_claimed by (simp add: sample_claim_def)

theorem serving_refines_registry_witness:
  "\<exists>ms. moves no_hash (co_registry sample_co) ms (co_registry sample_co_registered) \<and> list_all served ms"
  by (rule serving_refines_registry [OF sample_served sample_rounds_hash])

section \<open>Deaths\<close>

definition device_frame :: Frame where
  "device_frame = framed MessageType.Publication 4
     (snd (encode_publication (sample_publication PublicationKind.RegisterDevice 1) wire_limits))"

lemma device_frame_small: "list_all (\<lambda>f. fr_flags f = 0 \<and> length (fr_payload f) \<le> 900) [device_frame]"
  by code_simp

definition sample_co_two :: Coordinator where
  "sample_co_two = accept_connection 9 True sample_co_registered"

lemma sample_two:
  "om_find 7 (co_sessions sample_co_two) = om_find 7 (co_sessions sample_co_registered)"
  "om_find 9 (co_sessions sample_co_two) = Some (new_session wire_limits True)" "co_limits sample_co_two = wire_limits"
proof -
  have keys: "om_keys (co_sessions sample_co_registered) = [7]" using sample_claimed by (simp add: sample_claim_def)
  then have "length (co_sessions sample_co_registered) = 1" by (metis om_length_keys length_Cons list.size(3) One_nat_def)
  moreover have "om_find 9 (co_sessions sample_co_registered) = None"
    using om_find_key [of 9 "co_sessions sample_co_registered"] keys by simp
  ultimately show "om_find 7 (co_sessions sample_co_two) = om_find 7 (co_sessions sample_co_registered)"
    "om_find 9 (co_sessions sample_co_two) = Some (new_session wire_limits True)" "co_limits sample_co_two = wire_limits"
    using sample_registered_limits by (simp_all add: sample_co_two_def accept_connection_def sample_max_connections)
qed

definition death_and_evidence :: "nat \<Rightarrow> Delivery" where
  "death_and_evidence handle = (if handle = 7 then Broken else stream [device_frame])"

lemma sample_death:
  "\<exists>read. read_ready sample_context death_and_evidence [7, 9] sample_co_two = ([7], [(9, [device_frame])], read) \<and>
     om_find 9 (co_sessions read) \<noteq> None"
proof -
  obtain session where session: "om_find 7 (co_sessions sample_co_two) = Some session"
    using sample_two(1) sample_session by metis
  have broken: "read_session sample_context session (death_and_evidence 7) sample_co_two = (True, [], session, sample_co_two)"
    by (simp add: read_session_def death_and_evidence_def)
  let ?co = "put_session 7 session sample_co_two"
  have nine: "om_find 9 (co_sessions ?co) = Some (new_session wire_limits True)" "co_limits ?co = wire_limits"
    using sample_two by (simp_all add: put_session_def)
  have "read_session sample_context (new_session wire_limits True) (stream [device_frame]) ?co =
      (False, [device_frame], new_session wire_limits True, ?co)"
    using device_frame_small nine(2) by (intro stream_read(1) [where n = 900]) simp_all
  then have "read_session sample_context (new_session wire_limits True) (death_and_evidence 9) ?co =
      (False, [device_frame], new_session wire_limits True, ?co)"
    by (simp add: death_and_evidence_def)
  then show ?thesis by (simp add: session broken nine) (simp add: put_session_def)
qed


section \<open>Shutdown\<close>

theorem shutdown_is_ordered_witness:
  "\<exists>status co. shut_down sample_context sample_co_registered = (status, co) \<and> co_sessions co = [] \<and>
     rg_shutting_down (co_registry co) \<and> silenced (co_registry co) ''p'' 1"
proof -
  obtain status co where down: "shut_down sample_context sample_co_registered = (status, co)" by fastforce
  obtain session where session: "om_find 7 (co_sessions sample_co_registered) = Some session" "se_registered session"
    "se_publisher session = ''p''" "se_boot session = 1"
    by (rule sample_session)
  have "session \<in> set (om_values (co_sessions sample_co_registered))"
    using om_find_SomeD [OF session(1)] by (force simp: om_values_def)
  with shutdown_is_ordered [OF sample_registered_ok down] session down show ?thesis
    by (auto simp: gen_valid_def)
qed

lemma sample_registered_started: "co_started sample_co_registered"
proof -
  have "co_started sample_co" using sample_start [unfolded sample_co_new_def] by (rule start_cases)
  then show ?thesis using sample_advances by (simp add: advances_def)
qed

theorem failed_wait_skips_shutdown_witness:
  "\<exists>status. run sample_context ErrorCode.Ok None [quiet_round\<lparr>ro_waited := ErrorCode.IoFailure\<rparr>] sample_co_registered =
     (Some status, sample_co_registered) \<and> \<not> ok status"
  by (rule failed_wait_skips_shutdown [OF sample_registered_started])
    (use sample_claimed in \<open>simp_all add: sample_claim_def quiet_round_def\<close>)

definition sample_keen :: Coordinator where
  "sample_keen = sample_co\<lparr>co_config := sample_config\<lparr>cc_persist_on_mutation := True\<rparr>\<rparr>"

theorem serving_never_persists_witness:
  "co_files (snd (serve [accept_round] sample_keen)) = co_files sample_keen \<and>
     cc_persist_on_mutation (co_config sample_keen) \<and> length (co_sessions (snd (serve [accept_round] sample_keen))) = 1"
proof -
  have "co_files (snd (serve [accept_round] sample_keen)) = co_files sample_keen"
    by (rule serving_never_persists) (rule prod.collapse [symmetric])
  moreover have "length (co_sessions (snd (serve [accept_round] sample_keen))) = 1" by code_simp
  ultimately show ?thesis by (simp add: sample_keen_def)
qed

section \<open>Frames\<close>

theorem handshake_gates_registration_witness:
  "\<exists>status session co. dispatch_frame sample_context (new_session wire_limits True) (register_frame ''p'') sample_co_open =
     (status, session, co) \<and> co_registry co = co_registry sample_co_open \<and> \<not> se_registered session"
proof -
  obtain status session co where d: "dispatch_frame sample_context (new_session wire_limits True) (register_frame ''p'')
      sample_co_open = (status, session, co)"
    by (metis prod_cases3)
  have "\<not> se_handshake (new_session wire_limits True)" "fr_type (register_frame ''p'') = MessageType.RegisterPublisher"
    by (simp_all add: new_session_def register_frame_def framed_def)
  with handshake_gates_registration [OF d] have "co_registry co = co_registry sample_co_open"
    "same_claim (new_session wire_limits True) session"
    by blast+
  with d show ?thesis by (auto simp: same_claim_def new_session_def)
qed

theorem second_registration_orphans_first_witness:
  "\<exists>session session' status co st. om_find 7 (co_sessions sample_co_registered) = Some session \<and>
     on_register_publisher sample_context session (register_frame ''q'') sample_co_registered = (status, session', co) \<and>
     se_publisher session' = ''q'' \<and>
     om_find ''p'' (rg_publishers (co_registry (retire_session session' ''closed'' co))) = Some st \<and>
     pr_state (ps_record st) = PublisherState.Registered \<and> ps_fenced_boots st = []"
proof -
  obtain session where session: "om_find 7 (co_sessions sample_co_registered) = Some session"
    "se_publisher session = ''p''"
    by (rule sample_session)
  obtain status session' co
    where second: "on_register_publisher sample_context session (register_frame ''q'') sample_co_registered = (status, session', co)"
    by (metis prod_cases3)
  have "case om_find 7 (co_sessions sample_co_registered) of None \<Rightarrow> False | Some session \<Rightarrow>
      (case on_register_publisher sample_context session (register_frame ''q'') sample_co_registered of
        (status, session', co) \<Rightarrow> se_registered session' \<and> se_publisher session' = ''q'')"
    by code_simp
  then have claimed: "se_registered session'" "se_publisher session' = ''q''"
    using session(1) second by simp_all
  have "om_find ''p'' (rg_publishers (co_registry (retire_session session' ''closed'' co))) =
      om_find ''p'' (rg_publishers (co_registry sample_co_registered))"
    using second_registration_orphans_first [OF sample_registered_ok second claimed(1), of "''closed''"] session(2) claimed(2)
    by simp
  then show ?thesis
    using session(1) second claimed(2) sample_registered_publisher by metis
qed

theorem client_shutdown_stops_the_loop_witness:
  "fst (serve [delivering (\<lambda>handle. stream [shutdown_frame]), quiet_round] sample_co_open) = Stopping"
proof -
  let ?data = "concat (map frame_bytes [shutdown_frame])"
  have small: "list_all (\<lambda>f. fr_flags f = 0 \<and> length (fr_payload f) \<le> 90) [shutdown_frame]"
    using sample_frames_ok by simp
  have read: "?data \<noteq> []" "feed ?data (se_decoder (new_session wire_limits True)) =
      (ErrorCode.Ok, [shutdown_frame], se_decoder (new_session wire_limits True))"
    using stream_read(2,3) [OF small, of "new_session wire_limits True" sample_co_open] by (simp_all add: sample_open)
  have "decode_shutdown (fr_payload shutdown_frame) wire_limits = (ErrorCode.Ok, \<lparr>sm_reason = ''bye''\<rparr>)"
    "fst (encode_shutdown \<lparr>sm_reason = ''bye''\<rparr> wire_limits) = ErrorCode.Ok" "1 \<le> max_pending_publications wire_limits"
    by code_simp+
  then show ?thesis
    using client_shutdown_stops_the_loop [OF sample_open_ok sample_open_find, of
        "delivering (\<lambda>handle. stream [shutdown_frame])" ?data shutdown_frame "[]" _ "\<lparr>sm_reason = ''bye''\<rparr>" "[quiet_round]"]
      read
    by (simp add: sample_open delivering_def quiet_round_def stream_def shutdown_frame_def framed_def)
qed

section \<open>Two lives\<close>

text \<open>The sample coordinator is stopped from outside once its publisher is registered.\<close>

definition sample_stop_reason :: string where
  "sample_stop_reason = ''coordinator shutdown; boot identity retired''"

definition sample_last_registry :: Registry where
  "sample_last_registry = begin_shutdown (snd (retire_publisher_boot ''p'' 1 sample_stop_reason (co_registry sample_co_registered)))"

definition sample_last_state :: DurableState where
  "sample_last_state = \<lparr>
     du_header = \<lparr>dh_format_version = 1, dh_epoch = 2, dh_snapshot_generation = 0, dh_state_revision = 4,
       dh_created_at_utc = [], dh_producer = ''HardwareCapabilityRegistry 1.0.0''\<rparr>,
     du_platforms = [], du_subjects = [], du_schemas = [], du_capability_history = [], du_quirks = [],
     du_compatibility = [],
     du_publisher_watermarks = [\<lparr>wm_publisher = ''p'', wm_boot = 1, wm_max_sequence = 0,
       wm_max_evidence_generation = 0, wm_state = PublisherState.Dead, wm_adapter = ''a'', wm_reason = sample_stop_reason,
       wm_accepted = 0, wm_rejected = 0, wm_registered_at_utc = []\<rparr>],
     du_fenced_boots = [], du_canonical_digest = 0\<rparr>"

lemma sample_exported: "exported_state [] sample_last_registry = sample_last_state"
  by code_simp

lemma sample_last_fits: "durable_fits default_limits (sample_last_state\<lparr>du_canonical_digest := d\<rparr>)"
  using sample_tokens
  by (simp add: durable_fits_def sample_last_state_def publication_parts_fit watermark_fits_def default_limits_def
      sample_stop_reason_def)

lemma sample_last_size: "length (wire (write_durable_state (sample_last_state\<lparr>du_canonical_digest := d\<rparr>) default_limits)) \<le> 1000"
  by (simp add: wire_def write_durable_state_def sample_last_state_def write_all_Cons write_all_Nil write_list_def
    write_publisher_watermark_def write_publisher_identity_def write_id_def wr_str_size default_limits_def
    sample_stop_reason_def Let_def empty_writer_def)

definition stop_round :: Round where
  "stop_round = quiet_round\<lparr>ro_external := Some ''t''\<rparr>"

definition sample_stopping :: Coordinator where
  "sample_stopping = sample_co_registered\<lparr>co_token := request_shutdown ''t'' (co_token sample_co_registered)\<rparr>"

lemma sample_life: "serve (sample_rounds @ [stop_round]) sample_co = (Stopping, sample_stopping)"
  using sample_accept_round sample_registration_round sample_token sample_open_token sample_claimed [unfolded sample_claim_def]
  by (simp add: sample_rounds_def accept_round_def quiet_round_def delivering_def stop_round_def sample_stopping_def)

lemma singleton_map: "om_keys m = [k] \<Longrightarrow> om_find k m = Some v \<Longrightarrow> m = [(k, v)]"
  by (auto simp: om_keys_def om_find_def)

lemma sample_stopped_registry: "co_registry (stopped sample_stopping) = sample_last_registry"
proof -
  obtain session where session: "om_find 7 (co_sessions sample_co_registered) = Some session" "se_registered session"
    "se_publisher session = ''p''" "se_boot session = 1"
    by (rule sample_session)
  have "co_sessions sample_co_registered = [(7, session)]"
    using singleton_map [OF _ session(1)] sample_claimed by (simp add: sample_claim_def)
  then show ?thesis
    using session(2-4)
    by (simp add: stopped_def Let_def sample_stopping_def om_values_def retire_all_def retire_session_def
        sample_last_registry_def sample_stop_reason_def case_prod_beta)
qed

definition sample_last_image :: DurableState where
  "sample_last_image = export_durable_state [] sample_last_registry"

lemma sample_last_image: "sample_last_image = sample_last_state\<lparr>du_canonical_digest := canonical_durable_digest sample_last_state\<rparr>"
  by (simp add: sample_last_image_def export_durable_state_def sample_exported Let_def)

lemma sample_last_image_fits: "image_fits default_options sample_last_image"
proof -
  have "byte_bound default_options = 268435456" by (simp add: byte_bound_def default_options_def default_limits_def)
  then show ?thesis
    using sample_last_fits sample_last_size [of "canonical_durable_digest sample_last_state"]
    by (simp add: image_fits_def sample_last_image default_options_def kStatePrefixSize_def state_format_version_def)
      (simp add: sample_last_state_def)
qed

lemma sample_saved:
  "\<exists>co. run sample_context ErrorCode.Ok None (sample_rounds @ [stop_round]) sample_co_new = (Some ErrorCode.Ok, co) \<and>
     co_registry co = sample_last_registry"
proof -
  have "cc_state_path (co_config sample_stopping) = ''s''" "co_store sample_stopping = Some default_options"
    using sample_advances start_new_ok(3,4) [OF sample_start [unfolded sample_co_new_def]]
    by (simp_all add: advances_def sample_stopping_def sample_config_def)
  moreover have "length (image_of default_options sample_last_image) \<le> 1500"
    using sample_last_size [of "canonical_durable_digest sample_last_state"]
    by (simp add: image_of_def Let_def sample_last_image default_options_def kStatePrefixSize_def)
  ultimately obtain co where "save_state sample_context (stopped sample_stopping) = (ErrorCode.Ok, co)"
      "co_registry co = sample_last_registry"
    using encode_image [OF sample_last_image_fits]
    by (simp add: save_state_def stopped_fields sample_stopped_registry sample_context_def save_def save_bytes_def Let_def
        good_disk_def sample_last_image_def)
  then show ?thesis
    using sample_life sample_start
    by (simp add: run_def shut_down_stopped sample_co_new_def new_coordinator_ok)
qed

lemma sample_reimport: "fst (fst (import_durable_state (exported_state [] sample_last_registry) (new_registry [] wire_limits))) = ErrorCode.Ok"
  by code_simp

lemma sample_restarted:
  assumes "load ''s'' default_options None files = Inr sample_last_image"
  shows "fst (start sample_context ErrorCode.Ok None (new_coordinator [] sample_config files)) = ErrorCode.Ok"
proof -
  obtain status report reg where import: "import_durable_state sample_last_image (new_registry [] wire_limits) = ((status, report), reg)"
    by (metis prod.collapse)
  have "status = ErrorCode.Ok"
    using sample_reimport import by (simp add: sample_last_image_def import_exported)
  moreover have "exists_file ''s'' files" using assms by (cases "files ''s''") (simp_all add: exists_file_def load_def)
  ultimately show ?thesis
    using assms import
    by (simp add: start_def open_store_def load_state_def Let_def new_coordinator_def sample_config_def case_prod_beta)
qed

theorem restarted_coordinator_refuses_old_boots_witness:
  "\<exists>co1 co2. run sample_context ErrorCode.Ok None (sample_rounds @ [stop_round]) sample_co_new = (Some ErrorCode.Ok, co1) \<and>
     start sample_context ErrorCode.Ok None (new_coordinator [] sample_config (co_files co1)) = (ErrorCode.Ok, co2) \<and>
     rg_epoch (co_registry co1) < rg_epoch (co_registry co2) \<and>
     \<not> accepted (fst (apply_publication no_hash [] (sample_publication PublicationKind.RegisterDevice 1) (co_registry co2)))"
proof -
  obtain co1 where run: "run sample_context ErrorCode.Ok None (sample_rounds @ [stop_round]) sample_co_new = (Some ErrorCode.Ok, co1)"
    and last: "co_registry co1 = sample_last_registry"
    using sample_saved by blast
  note life = run [unfolded sample_co_new_def]
  have hashes: "\<forall>r\<in>set (sample_rounds @ [stop_round]). cx_hash (ro_context r) = no_hash"
    using sample_rounds_hash by (simp add: stop_round_def quiet_round_def sample_context_def)
  have path: "cc_state_path sample_config \<noteq> []" "cc_state_path sample_config = ''s''" by (simp_all add: sample_config_def)
  have fits: "image_fits default_options (export_durable_state (cx_now sample_context) (co_registry co1))"
    using sample_last_image_fits by (simp add: last sample_context_def sample_last_image_def)
  have "load ''s'' default_options None (co_files co1) = Inr sample_last_image"
    using first_life(2) [OF life hashes path(1) fits] by (simp add: path(2) last sample_context_def sample_last_image_def)
  then obtain co2 where start: "start sample_context ErrorCode.Ok None (new_coordinator [] sample_config (co_files co1)) =
      (ErrorCode.Ok, co2)"
    using sample_restarted by (metis prod.collapse)
  have serve: "serve [] co2 = (if st_requested (co_token co2) then Stopping else Waiting, co2)" by simp
  have "case om_find ''p'' (rg_publishers sample_last_registry) of None \<Rightarrow> False
    | Some st \<Rightarrow> pub_boot (pr_identity (ps_record st)) = 1" "rg_epoch sample_last_registry = 2"
    by code_simp+
  then obtain st where st: "om_find ''p'' (rg_publishers (co_registry co1)) = Some st"
    "pub_boot (pr_identity (ps_record st)) = 1" and epoch: "rg_epoch (co_registry co1) = 2"
    by (auto simp: last split: option.splits)
  let ?p = "sample_publication PublicationKind.RegisterDevice 1"
  have p: "pub_id (pb_publisher ?p) = ''p''" "pub_boot (pb_publisher ?p) = 1"
    "pb_kind ?p \<noteq> PublicationKind.RegisterCapabilitySchema"
    by (simp_all add: sample_publication_def sample_publisher_def)
  have "rg_epoch (co_registry co1) < rg_epoch (co_registry co2) \<and>
      \<not> accepted (fst (apply_publication no_hash [] ?p (co_registry co2)))"
    using restarted_coordinator_refuses_old_boots [where p = ?p and st = st and now = "[]", OF life hashes path(1) fits
        start refl serve] st p epoch by (simp add: gen_valid_def)
  with run start show ?thesis by blast
qed

definition broken_files :: Files where
  "broken_files = [''s'' \<mapsto> [1, 2, 3]]"

theorem unreadable_image_stops_the_start_witness:
  "\<exists>co. run sample_context ErrorCode.Ok None [accept_round] (new_coordinator [] sample_config broken_files) =
     (Some ErrorCode.CorruptData, co) \<and> co_sessions co = []"
proof -
  let ?co = "new_coordinator [] sample_config broken_files"
  have "load ''s'' default_options None broken_files = Inl ErrorCode.CorruptData"
    by (simp add: load_file broken_files_def byte_bound_def default_options_def default_limits_def decode_durable_state_def
        kStatePrefixSize_def)
  then have "run sample_context ErrorCode.Ok None [accept_round] ?co =
      (Some ErrorCode.CorruptData, ?co\<lparr>co_store := Some default_options\<rparr>)"
    using unreadable_image_stops_the_start [of ?co None ErrorCode.CorruptData sample_context "[accept_round]"]
    by (simp add: new_coordinator_def sample_config_def exists_file_def broken_files_def)
  then show ?thesis by (simp add: new_coordinator_def)
qed

end
