(* ===== verification/Remote.thy ===== *)
theory Remote
  imports Coordinator
begin

text \<open>
  The two ends that talk to a coordinator: the remote publisher (\<^verbatim>\<open>src/publisher.cpp\<close>) and the client
  (\<^verbatim>\<open>src/client.cpp\<close>), over a connection (\<^verbatim>\<open>src/transport.cpp\<close>). What is at the other end is a record of what
  connecting returns and of what sending returns, with the reads it makes available. An operation that waits for a read
  that never comes does not return: its result is \<open>None\<close>.
\<close>

section \<open>Connections\<close>

record 'p Peer =
  pe_connect :: "'p \<Rightarrow> Status \<times> 'p"
  pe_send :: "u8 list \<Rightarrow> 'p \<Rightarrow> Status \<times> (ErrorCode + u8 list) list \<times> 'p"

record 'p Link =
  ln_peer :: 'p
  ln_open :: bool
  ln_reads :: "(ErrorCode + u8 list) list"
  ln_decoder :: FrameDecoder

definition new_link :: "RegistryLimits \<Rightarrow> 'p \<Rightarrow> 'p Link" where
  "new_link limits p =
     \<lparr>ln_peer = p, ln_open = False, ln_reads = [], ln_decoder = \<lparr>fd_limits = limits, fd_buffer = []\<rparr>\<rparr>"

definition connect_loopback :: "'p Peer \<Rightarrow> 'p Link \<Rightarrow> Status \<times> 'p Link" where
  "connect_loopback peer link =
     (case pe_connect peer (ln_peer link) of
        (status, p) \<Rightarrow>
          (status, if ok status then link\<lparr>ln_peer := p, ln_open := True, ln_reads := []\<rparr> else link\<lparr>ln_peer := p\<rparr>))"

definition close_link :: "'p Link \<Rightarrow> Status \<times> 'p Link" where
  "close_link link = (Ok, link\<lparr>ln_open := False, ln_reads := []\<rparr>)"

definition send_on :: "'p Peer \<Rightarrow> RegistryLimits \<Rightarrow> Frame \<Rightarrow> 'p Link \<Rightarrow> Status \<times> 'p Link" where
  "send_on peer limits frame link =
     (case encode_frame frame limits of
        Inl code \<Rightarrow> (code, link)
      | Inr bytes \<Rightarrow>
          if \<not> ln_open link then (IoFailure, link)
          else case pe_send peer bytes (ln_peer link) of
            (status, reads, p) \<Rightarrow> (status, link\<lparr>ln_peer := p, ln_reads := ln_reads link @ reads\<rparr>))"

definition receive_on :: "'p Link \<Rightarrow> ((ErrorCode + Frame) \<times> 'p Link) option" where
  "receive_on link =
     (case receive_frame (if ln_open link then ln_reads link else [Inl IoFailure]) (ln_decoder link) of
        None \<Rightarrow> None
      | Some (result, decoder, reads) \<Rightarrow>
          Some (result, link\<lparr>ln_decoder := decoder, ln_reads := (if ln_open link then reads else [])\<rparr>))"

text \<open>What an error response means: a status, which is a success when the code on the wire is \<open>Ok\<close>.\<close>

definition error_status :: "RegistryLimits \<Rightarrow> Frame \<Rightarrow> Status" where
  "error_status limits frame =
     (case decode_error_message (fr_payload frame) limits of
        (parsed, error) \<Rightarrow> if \<not> ok parsed then parsed else em_code error)"

definition plain_frame :: "MessageType \<Rightarrow> u8 list \<Rightarrow> Frame" where
  "plain_frame kind payload = \<lparr>fr_type = kind, fr_flags = 0, fr_correlation = 0, fr_payload = payload\<rparr>"

section \<open>The publisher\<close>

record PublisherConfig =
  pc_publisher :: string
  pc_adapter :: string
  pc_agent :: string
  pc_nonce :: u64
  pc_limits :: RegistryLimits

record 'p Publisher =
  pu_config :: PublisherConfig
  pu_link :: "'p Link"
  pu_identity :: PublisherIdentity
  pu_epoch :: u64
  pu_sequence :: u64
  pu_evidence_generation :: u64
  pu_correlation :: u64
  pu_registered :: bool

abbreviation pu_limits :: "'p Publisher \<Rightarrow> RegistryLimits" where
  "pu_limits pu \<equiv> pc_limits (pu_config pu)"

definition new_publisher :: "PublisherConfig \<Rightarrow> 'p \<Rightarrow> 'p Publisher" where
  "new_publisher config p =
     \<lparr>pu_config = config, pu_link = new_link (pc_limits config) p, pu_identity = no_publisher, pu_epoch = 0,
      pu_sequence = 0, pu_evidence_generation = gen_first, pu_correlation = 0, pu_registered = False\<rparr>"

definition publisher_send :: "'p Peer \<Rightarrow> Frame \<Rightarrow> 'p Publisher \<Rightarrow> Status \<times> 'p Publisher" where
  "publisher_send peer frame pu =
     (let correlation = pu_correlation pu + 1 in
      case send_on peer (pu_limits pu) (frame\<lparr>fr_correlation := correlation\<rparr>) (pu_link pu) of
        (status, link) \<Rightarrow> (status, pu\<lparr>pu_correlation := correlation, pu_link := link\<rparr>))"

definition publisher_receive :: "MessageType \<Rightarrow> 'p Publisher \<Rightarrow> ((ErrorCode + Frame) \<times> 'p Publisher) option" where
  "publisher_receive expected pu =
     (case receive_on (pu_link pu) of
        None \<Rightarrow> None
      | Some (Inl code, link) \<Rightarrow> Some (Inl code, pu\<lparr>pu_link := link\<rparr>)
      | Some (Inr frame, link) \<Rightarrow>
          Some (if fr_type frame = MessageType.ErrorResponse
                then if ok (error_status (pu_limits pu) frame) then Inr frame else Inl (error_status (pu_limits pu) frame)
                else if fr_type frame \<noteq> expected then Inl ErrorCode.ProtocolError else Inr frame,
                pu\<lparr>pu_link := link\<rparr>))"

text \<open>An encoded message is sent and the frame that answers it is received.\<close>

definition publisher_request ::
  "'p Peer \<Rightarrow> MessageType \<Rightarrow> Status \<times> u8 list \<Rightarrow> MessageType \<Rightarrow> 'p Publisher \<Rightarrow>
   ((ErrorCode + Frame) \<times> 'p Publisher) option" where
  "publisher_request peer kind encoded expected pu =
     (if \<not> ok (fst encoded) then Some (Inl (fst encoded), pu)
      else case publisher_send peer (plain_frame kind (snd encoded)) pu of
        (sent, pu) \<Rightarrow> if \<not> ok sent then Some (Inl sent, pu) else publisher_receive expected pu)"

definition say_hello :: "'p Peer \<Rightarrow> 'p Publisher \<Rightarrow> (Status \<times> 'p Publisher) option" where
  "say_hello peer pu =
     (case publisher_request peer MessageType.Hello (encode_hello
           \<lparr>hm_protocol_version = ucast protocol_version, hm_agent = pc_agent (pu_config pu), hm_role = ''publisher'',
            hm_nonce = pc_nonce (pu_config pu)\<rparr> (pu_limits pu)) MessageType.Welcome pu of
        None \<Rightarrow> None
      | Some (Inl code, pu) \<Rightarrow> Some (code, pu)
      | Some (Inr response, pu) \<Rightarrow>
          (case decode_welcome (fr_payload response) (pu_limits pu) of
             (status, welcome) \<Rightarrow>
               if \<not> ok status then Some (status, pu)
               else if wm_protocol_version welcome \<noteq> ucast protocol_version then Some (UnsupportedVersion, pu)
               else Some (Ok, pu\<lparr>pu_epoch := wm_epoch welcome\<rparr>)))"

definition register_remotely :: "'p Peer \<Rightarrow> 'p Publisher \<Rightarrow> (Status \<times> 'p Publisher) option" where
  "register_remotely peer pu =
     (case publisher_request peer MessageType.RegisterPublisher (encode_register_publisher_message
           \<lparr>rm_identity = no_publisher\<lparr>pub_id := pc_publisher (pu_config pu)\<rparr>, rm_adapter = pc_adapter (pu_config pu),
            rm_agent = pc_agent (pu_config pu)\<rparr> (pu_limits pu)) MessageType.PublisherAccepted pu of
        None \<Rightarrow> None
      | Some (Inl code, pu) \<Rightarrow> Some (code, pu)
      | Some (Inr response, pu) \<Rightarrow>
          (case decode_publisher_accepted (fr_payload response) (pu_limits pu) of
             (status, answer) \<Rightarrow>
               if \<not> ok status then Some (status, pu)
               else if \<not> apply_code_accepted (am_code answer) then Some (UnknownPublisher, pu)
               else Some (Ok, pu\<lparr>pu_identity := am_identity answer, pu_epoch := am_epoch answer,
                 pu_registered := True\<rparr>)))"

definition connect_and_register :: "'p Peer \<Rightarrow> 'p Publisher \<Rightarrow> (Status \<times> 'p Publisher) option" where
  "connect_and_register peer pu =
     (if \<not> id_valid (pc_publisher (pu_config pu)) then Some (InvalidIdentity, pu)
      else case connect_loopback peer (pu_link pu) of
        (connected, link) \<Rightarrow>
          let pu = pu\<lparr>pu_link := link\<rparr> in
          if \<not> ok connected then Some (connected, pu)
          else case say_hello peer pu of
            None \<Rightarrow> None
          | Some (status, pu) \<Rightarrow> if \<not> ok status then Some (status, pu) else register_remotely peer pu)"

definition remote_ensure_publisher ::
  "'p Peer \<Rightarrow> PublisherIdentity \<Rightarrow> string \<Rightarrow> 'p Publisher \<Rightarrow> (ApplyResult \<times> 'p Publisher) option" where
  "remote_ensure_publisher peer identity adapter pu =
     (case (if pu_registered pu then Some (Ok, pu) else connect_and_register peer pu) of
        None \<Rightarrow> None
      | Some (status, pu) \<Rightarrow>
          if \<not> ok status then Some (result_of RejectedUnknownPublisher, pu)
          else if id_valid (pub_id identity) \<and> pub_id identity \<noteq> pub_id (pu_identity pu)
          then Some (result_of RejectedUnknownPublisher, pu)
          else Some ((result_of Accepted)\<lparr>ar_assigned_publisher := pu_identity pu\<rparr>, pu))"

definition remote_next_sequence :: "'p Publisher \<Rightarrow> u64 \<times> 'p Publisher" where
  "remote_next_sequence pu = (pu_sequence pu + 1, pu\<lparr>pu_sequence := pu_sequence pu + 1\<rparr>)"

definition bind_remote :: "string \<Rightarrow> 'p Publisher \<Rightarrow> Publication \<Rightarrow> Publication" where
  "bind_remote now pu publication =
     publication\<lparr>pb_publisher := pu_identity pu, pb_sequence := pu_sequence pu,
       pb_evidence_generation := (if gen_valid (pb_evidence_generation publication) then pb_evidence_generation publication
         else pu_evidence_generation pu),
       pb_issued_at_utc := (if pb_issued_at_utc publication = [] then now else pb_issued_at_utc publication)\<rparr>"

definition result_of_answer :: "Publication \<Rightarrow> PublicationAcceptedMessage \<Rightarrow> ApplyResult" where
  "result_of_answer bound answer =
     (result_of (pm_code answer))\<lparr>ar_mutated := pm_code answer = Accepted,
       ar_device_generation := (if gen_valid (pm_device_generation answer) then pm_device_generation answer
         else cr_device_generation (pb_capability bound)),
       ar_device_boot := (if gen_valid (pm_device_boot answer) then pm_device_boot answer
         else cr_device_boot (pb_capability bound))\<rparr>"

definition remote_publish ::
  "'p Peer \<Rightarrow> string \<Rightarrow> Publication \<Rightarrow> 'p Publisher \<Rightarrow> (ApplyResult \<times> 'p Publisher) option" where
  "remote_publish peer now publication pu =
     (if \<not> pu_registered pu then Some (result_of RejectedUnknownPublisher, pu)
      else
        let pu = snd (remote_next_sequence pu);
            bound = bind_remote now pu publication;
            encoded = encode_publication bound (pu_limits pu) in
        if \<not> ok (fst encoded) then Some (result_of RejectedValidation, pu)
        else case publisher_request peer MessageType.Publication encoded MessageType.PublicationAccepted pu of
          None \<Rightarrow> None
        | Some (Inl _, pu) \<Rightarrow> Some (result_of RejectedUnknownPublisher, pu)
        | Some (Inr response, pu) \<Rightarrow>
            (case decode_publication_accepted (fr_payload response) (pu_limits pu) of
               (status, answer) \<Rightarrow>
                 Some (if \<not> ok status then result_of RejectedValidation else result_of_answer bound answer, pu)))"

definition remote_heartbeat :: "'p Peer \<Rightarrow> 'p Publisher \<Rightarrow> (ApplyResult \<times> 'p Publisher) option" where
  "remote_heartbeat peer pu =
     (if \<not> pu_registered pu then Some (result_of RejectedUnknownPublisher, pu)
      else
        let pu = snd (remote_next_sequence pu);
            encoded = encode_heartbeat \<lparr>bm_sequence = pu_sequence pu, bm_identity = pu_identity pu\<rparr> (pu_limits pu) in
        if \<not> ok (fst encoded) then Some (result_of RejectedValidation, pu)
        else case publisher_request peer MessageType.Heartbeat encoded MessageType.HeartbeatAccepted pu of
          None \<Rightarrow> None
        | Some (Inl _, pu) \<Rightarrow> Some (result_of RejectedUnknownPublisher, pu\<lparr>pu_registered := False\<rparr>)
        | Some (Inr _, pu) \<Rightarrow> Some ((result_of Accepted)\<lparr>ar_assigned_publisher := pu_identity pu\<rparr>, pu))"

definition publisher_disconnect :: "'p Publisher \<Rightarrow> Status \<times> 'p Publisher" where
  "publisher_disconnect pu = (case close_link (pu_link pu) of (status, link) \<Rightarrow> (status, pu\<lparr>pu_link := link\<rparr>))"

definition publisher_connected :: "'p Publisher \<Rightarrow> bool" where
  "publisher_connected pu \<longleftrightarrow> ln_open (pu_link pu) \<and> pu_registered pu"

definition next_evidence_generation :: "'p Publisher \<Rightarrow> u64 \<times> 'p Publisher" where
  "next_evidence_generation pu =
     (let g = (if gen_valid (pu_evidence_generation pu) then gen_next (pu_evidence_generation pu) else gen_first) in
      (g, pu\<lparr>pu_evidence_generation := g\<rparr>))"

end
