(* ===== verification/Client.thy ===== *)
theory Client
  imports Remote
begin

text \<open>
  The capability client (\<^verbatim>\<open>src/client.cpp\<close>): the handshake, the exchange of a query for its answer, the queries as
  projections of it, and the two administrative requests. Every operation returns its status or its answer, with the
  client after it, and \<open>None\<close> when it waits for ever.
\<close>

section \<open>State\<close>

record ClientConfig =
  lc_agent :: string
  lc_limits :: RegistryLimits

record 'p Client =
  cl_config :: ClientConfig
  cl_link :: "'p Link"
  cl_epoch :: u64
  cl_correlation :: u64

abbreviation cl_limits :: "'p Client \<Rightarrow> RegistryLimits" where
  "cl_limits client \<equiv> lc_limits (cl_config client)"

definition new_client :: "ClientConfig \<Rightarrow> 'p \<Rightarrow> 'p Client" where
  "new_client config p =
     \<lparr>cl_config = config, cl_link = new_link (lc_limits config) p, cl_epoch = 0, cl_correlation = 0\<rparr>"

type_synonym ('p, 'a) answering = "((ErrorCode + 'a) \<times> 'p Client) option"

text \<open>One frame is sent and one received.\<close>

definition client_request ::
  "'p Peer \<Rightarrow> MessageType \<Rightarrow> Status \<times> u8 list \<Rightarrow> 'p Client \<Rightarrow> ('p, Frame) answering" where
  "client_request peer kind encoded client =
     (if \<not> ok (fst encoded) then Some (Inl (fst encoded), client)
      else
        let correlation = cl_correlation client + 1 in
        case send_on peer (cl_limits client) ((plain_frame kind (snd encoded))\<lparr>fr_correlation := correlation\<rparr>)
            (cl_link client) of
          (sent, link) \<Rightarrow>
            let client = client\<lparr>cl_correlation := correlation, cl_link := link\<rparr> in
            if \<not> ok sent then Some (Inl sent, client)
            else case receive_on link of
              None \<Rightarrow> None
            | Some (received, link) \<Rightarrow> Some (received, client\<lparr>cl_link := link\<rparr>))"

section \<open>Queries\<close>

text \<open>\<open>no_response\<close> is the response the caller passes in, which an error response with the code \<open>Ok\<close> leaves alone.\<close>

definition response_of :: "RegistryLimits \<Rightarrow> u64 \<Rightarrow> Frame \<Rightarrow> ErrorCode + QueryResponse" where
  "response_of limits correlation response =
     (if fr_correlation response \<noteq> correlation then Inl ErrorCode.ProtocolError
      else if fr_type response = MessageType.ErrorResponse
      then if ok (error_status limits response) then Inr no_response else Inl (error_status limits response)
      else if fr_type response \<noteq> MessageType.QueryResponse then Inl ErrorCode.ProtocolError
      else case decode_query_response (fr_payload response) limits of
        (status, out) \<Rightarrow>
          if \<not> ok status then Inl status else if qres_code out \<noteq> ErrorCode.Ok then Inl (qres_code out) else Inr out)"

definition exchange :: "'p Peer \<Rightarrow> QueryRequest \<Rightarrow> 'p Client \<Rightarrow> ('p, QueryResponse) answering" where
  "exchange peer request client =
     (if \<not> ln_open (cl_link client) then Some (Inl IoFailure, client)
      else case client_request peer MessageType.QueryRequest (encode_query_request request (cl_limits client)) client of
        None \<Rightarrow> None
      | Some (Inl code, client) \<Rightarrow> Some (Inl code, client)
      | Some (Inr response, client) \<Rightarrow> Some (response_of (cl_limits client) (cl_correlation client) response, client))"

definition ask :: "'p Peer \<Rightarrow> QueryRequest \<Rightarrow> (QueryResponse \<Rightarrow> 'a) \<Rightarrow> 'p Client \<Rightarrow> ('p, 'a) answering" where
  "ask peer request part client = map_option (map_prod (map_sum id part) id) (exchange peer request client)"

definition client_query_capability :: "'p Peer \<Rightarrow> CapabilityQuery \<Rightarrow> 'p Client \<Rightarrow> ('p, ResolvedCapability) answering" where
  "client_query_capability peer query =
     ask peer (no_request\<lparr>qreq_kind := QueryKind.Capability, qreq_capability := query\<rparr>) qres_capability"

definition client_query_capabilities ::
  "'p Peer \<Rightarrow> DeviceCapabilityQuery \<Rightarrow> 'p Client \<Rightarrow> ('p, ResolvedCapability list) answering" where
  "client_query_capabilities peer query =
     ask peer (no_request\<lparr>qreq_kind := QueryKind.DeviceCapabilities, qreq_device_capabilities := query\<rparr>) qres_capabilities"

definition client_query_fleet ::
  "'p Peer \<Rightarrow> FleetCapabilityQuery \<Rightarrow> 'p Client \<Rightarrow> ('p, ResolvedCapability list) answering" where
  "client_query_fleet peer query =
     ask peer (no_request\<lparr>qreq_kind := QueryKind.Fleet, qreq_fleet := query\<rparr>) qres_capabilities"

definition client_query_stale ::
  "'p Peer \<Rightarrow> StaleCapabilityQuery \<Rightarrow> 'p Client \<Rightarrow> ('p, ResolvedCapability list) answering" where
  "client_query_stale peer query =
     ask peer (no_request\<lparr>qreq_kind := QueryKind.StaleCapabilities, qreq_stale := query\<rparr>) qres_capabilities"

definition client_query_quirks :: "'p Peer \<Rightarrow> QuirkQuery \<Rightarrow> 'p Client \<Rightarrow> ('p, QuirkApplication list) answering" where
  "client_query_quirks peer query =
     ask peer (no_request\<lparr>qreq_kind := QueryKind.Quirks, qreq_quirks := query\<rparr>) qres_quirks"

definition client_list_quirks :: "'p Peer \<Rightarrow> 'p Client \<Rightarrow> ('p, QuirkRecord list) answering" where
  "client_list_quirks peer = ask peer (no_request\<lparr>qreq_kind := QueryKind.QuirkRecords\<rparr>) qres_quirk_records"

definition client_query_compatibility ::
  "'p Peer \<Rightarrow> CompatibilityQuery \<Rightarrow> 'p Client \<Rightarrow> ('p, CompatibilityFact list) answering" where
  "client_query_compatibility peer query =
     ask peer (no_request\<lparr>qreq_kind := QueryKind.Compatibility, qreq_compatibility := query\<rparr>) qres_compatibility"

definition client_compare :: "'p Peer \<Rightarrow> ComparisonRequest \<Rightarrow> 'p Client \<Rightarrow> ('p, DeviceComparison) answering" where
  "client_compare peer request =
     ask peer (no_request\<lparr>qreq_kind := QueryKind.Compare, qreq_comparison := request\<rparr>) qres_comparison"

definition client_list_devices :: "'p Peer \<Rightarrow> 'p Client \<Rightarrow> ('p, SubjectSnapshot list) answering" where
  "client_list_devices peer = ask peer (no_request\<lparr>qreq_kind := QueryKind.Devices\<rparr>) qres_subjects"

definition client_list_publishers :: "'p Peer \<Rightarrow> 'p Client \<Rightarrow> ('p, PublisherRecord list) answering" where
  "client_list_publishers peer = ask peer (no_request\<lparr>qreq_kind := QueryKind.Publishers\<rparr>) qres_publishers"

definition client_snapshot :: "'p Peer \<Rightarrow> 'p Client \<Rightarrow> ('p, RegistrySnapshot) answering" where
  "client_snapshot peer = ask peer (no_request\<lparr>qreq_kind := QueryKind.Snapshot\<rparr>) qres_snapshot"

definition client_explain :: "'p Peer \<Rightarrow> CapabilityQuery \<Rightarrow> 'p Client \<Rightarrow> ('p, string) answering" where
  "client_explain peer query =
     ask peer (no_request\<lparr>qreq_kind := QueryKind.Explain, qreq_capability := query\<rparr>)
       (\<lambda>response. if qres_text response = [] then rc_explanation (qres_capability response) else qres_text response)"

section \<open>Connection and administration\<close>

definition client_connect :: "'p Peer \<Rightarrow> 'p Client \<Rightarrow> ('p, unit) answering" where
  "client_connect peer client =
     (case connect_loopback peer (cl_link client) of
        (connected, link) \<Rightarrow>
          let client = client\<lparr>cl_link := link\<rparr> in
          if \<not> ok connected then Some (Inl connected, client)
          else case client_request peer MessageType.Hello (encode_hello
              \<lparr>hm_protocol_version = ucast protocol_version, hm_agent = lc_agent (cl_config client), hm_role = ''client'',
               hm_nonce = 0\<rparr> (cl_limits client)) client of
            None \<Rightarrow> None
          | Some (Inl code, client) \<Rightarrow> Some (Inl code, client)
          | Some (Inr response, client) \<Rightarrow>
              if fr_type response \<noteq> MessageType.Welcome then Some (Inl ErrorCode.ProtocolError, client)
              else case decode_welcome (fr_payload response) (cl_limits client) of
                (status, welcome) \<Rightarrow>
                  if \<not> ok status then Some (Inl status, client)
                  else if wm_protocol_version welcome \<noteq> ucast protocol_version
                  then Some (Inl ErrorCode.UnsupportedVersion, client)
                  else Some (Inr (), client\<lparr>cl_epoch := wm_epoch welcome\<rparr>))"

definition client_disconnect :: "'p Client \<Rightarrow> Status \<times> 'p Client" where
  "client_disconnect client = (case close_link (cl_link client) of (status, link) \<Rightarrow> (status, client\<lparr>cl_link := link\<rparr>))"

definition client_connected :: "'p Client \<Rightarrow> bool" where
  "client_connected client \<longleftrightarrow> ln_open (cl_link client)"

definition client_fence_publisher :: "'p Peer \<Rightarrow> string \<Rightarrow> string \<Rightarrow> 'p Client \<Rightarrow> ('p, unit) answering" where
  "client_fence_publisher peer publisher reason client =
     (if \<not> ln_open (cl_link client) then Some (Inl IoFailure, client)
      else case client_request peer MessageType.FencePublisher (encode_fence_message
          \<lparr>fm_publisher = publisher, fm_reason = reason\<rparr> (cl_limits client)) client of
        None \<Rightarrow> None
      | Some (Inl code, client) \<Rightarrow> Some (Inl code, client)
      | Some (Inr response, client) \<Rightarrow>
          if fr_type response \<noteq> MessageType.FenceAccepted then Some (Inl ErrorCode.ProtocolError, client)
          else case decode_fence_accepted (fr_payload response) (cl_limits client) of
            (status, answer) \<Rightarrow>
              Some (if \<not> ok status then Inl status
                else if \<not> apply_code_accepted (fa_code answer) then Inl ErrorCode.FencedPublisher else Inr (), client))"

text \<open>A shutdown is answered by whatever frame comes next.\<close>

definition client_shutdown :: "'p Peer \<Rightarrow> string \<Rightarrow> 'p Client \<Rightarrow> ('p, unit) answering" where
  "client_shutdown peer reason client =
     (if \<not> ln_open (cl_link client) then Some (Inl IoFailure, client)
      else map_option (map_prod (map_sum id (\<lambda>response. ())) id)
        (client_request peer MessageType.ShutdownRequest (encode_shutdown \<lparr>sm_reason = reason\<rparr> (cl_limits client)) client))"

end
