(* ===== verification/Endpoints.thy ===== *)
theory Endpoints
  imports Client Event_Loop
begin

text \<open>
  Both ends together: a remote publisher or a client whose peer is a session of the coordinator. A request that is
  dispatched to one answer comes back as that answer, so a remote publication is the publication applied to the
  registry of the coordinator, and a remote query its answer.
\<close>

section \<open>The coordinator as a peer\<close>

text \<open>What the session has sent since, as reads of the other end; a closed session ends them.\<close>

definition serve_bytes ::
  "Context \<Rightarrow> u8 list \<Rightarrow> Session \<times> Coordinator \<Rightarrow> (ErrorCode + u8 list) list \<times> Session \<times> Coordinator" where
  "serve_bytes cx data = (\<lambda>(session, co).
     (case read_session cx session (Received data) co of
        (closed, frames, session1, co1) \<Rightarrow>
          (case (if closed then (True, session1, co1) else dispatch_frames cx session1 frames co1) of
             (ended, session2, co2) \<Rightarrow>
               (map (\<lambda>frame. Inr (frame_bytes frame)) (drop (length (se_sent session)) (se_sent session2)) @
                  (if ended then [Inr []] else []),
                session2, co2))))"

definition coordinator_peer :: "Context \<Rightarrow> (Session \<times> Coordinator) Peer" where
  "coordinator_peer cx =
     \<lparr>pe_connect = (\<lambda>(session, co). (Ok, new_session (co_limits co) True, co)),
      pe_send = (\<lambda>data state. (case serve_bytes cx data state of (reads, state) \<Rightarrow> (Ok, reads, state)))\<rparr>"

definition attached :: "RegistryLimits \<Rightarrow> (Session \<times> Coordinator) Link \<Rightarrow> bool" where
  "attached limits link \<longleftrightarrow>
     ln_open link \<and> ln_reads link = [] \<and> ln_decoder link = \<lparr>fd_limits = limits, fd_buffer = []\<rparr> \<and>
     se_decoder (fst (ln_peer link)) = \<lparr>fd_limits = limits, fd_buffer = []\<rparr> \<and> se_writable (fst (ln_peer link)) \<and>
     co_limits (snd (ln_peer link)) = limits \<and> 0 < max_pending_publications limits \<and> max_frame_bytes limits < 2 ^ 32"

text \<open>A frame that is dispatched to one answer.\<close>

definition answers :: "Context \<Rightarrow> Frame \<Rightarrow> Frame \<Rightarrow> Session \<times> Coordinator \<Rightarrow> Session \<times> Coordinator \<Rightarrow> bool" where
  "answers cx frame answer state state' \<longleftrightarrow>
     dispatch_frame cx (fst state) frame (snd state) = (Ok, state') \<and>
     se_sent (fst state') = se_sent (fst state) @ [answer] \<and> se_decoder (fst state') = se_decoder (fst state) \<and>
     se_writable (fst state') = se_writable (fst state) \<and> co_config (snd state') = co_config (snd state)"

lemma feed_frame:
  assumes "frame_ok limits frame"
  shows "feed (frame_bytes frame) \<lparr>fd_limits = limits, fd_buffer = []\<rparr> =
    (ErrorCode.Ok, [frame], \<lparr>fd_limits = limits, fd_buffer = []\<rparr>)"
  using feed_stream [of limits "[frame]"] assms by (simp add: frame_ok_def frame_bytes_length)

lemma receive_whole_frame:
  assumes "frame_ok limits frame"
  shows "receive_frame (Inr (frame_bytes frame) # later) \<lparr>fd_limits = limits, fd_buffer = []\<rparr> =
    Some (Inr frame, \<lparr>fd_limits = limits, fd_buffer = []\<rparr>, later)"
  by (subst receive_frame.simps) (simp add: feed_nothing feed_frame [OF assms])

text \<open>The exchange of one request for its answer.\<close>

lemma exchange_answered:
  assumes "attached limits link" and "encode_frame frame limits = Inr bytes"
    and "answers cx frame answer (ln_peer link) (session, co)" and "frame_ok limits answer"
  obtains link1 link2 where "send_on (coordinator_peer cx) limits frame link = (Ok, link1)"
    "receive_on link1 = Some (Inr answer, link2)" "attached limits link2"
    "ln_peer link2 = (session\<lparr>se_delivered := se_delivered session + 1\<rparr>, co)"
proof -
  obtain session0 co0 where peer: "ln_peer link = (session0, co0)" by (cases "ln_peer link")
  let ?quiet = "\<lparr>fd_limits = limits, fd_buffer = []\<rparr>"
  note on = assms(1) [unfolded attached_def peer, simplified]
  have bytes: "bytes = frame_bytes frame" "frame_ok limits frame"
    using encode_frame_ok [OF assms(2)] on by simp_all
  have read: "read_session cx session0 (Received bytes) co0 = (False, [frame], session0, co0)"
    using on by (simp add: read_session_def bytes feed_frame Let_def)
  note ans = assms(3) [unfolded answers_def peer, simplified]
  have dispatched: "dispatch_frames cx session0 [frame] co0 =
      (False, session\<lparr>se_delivered := se_delivered session + 1\<rparr>, co)"
    using ans by (simp add: Let_def)
  let ?state = "(session\<lparr>se_delivered := se_delivered session + 1\<rparr>, co)"
  have "serve_bytes cx bytes (session0, co0) = ([Inr (frame_bytes answer)], ?state)"
    using ans by (simp add: serve_bytes_def read dispatched del: dispatch_frames.simps)
  then have sent: "send_on (coordinator_peer cx) limits frame link =
      (Ok, link\<lparr>ln_peer := ?state, ln_reads := [Inr (frame_bytes answer)]\<rparr>)"
    using on by (simp add: send_on_def assms(2) coordinator_peer_def peer)
  have received: "receive_on (link\<lparr>ln_peer := ?state, ln_reads := [Inr (frame_bytes answer)]\<rparr>) =
      Some (Inr answer, link\<lparr>ln_peer := ?state, ln_reads := []\<rparr>)"
    using on receive_whole_frame [OF assms(4)] by (simp add: receive_on_def)
  show ?thesis
    by (rule that [OF sent received]) (use on ans in \<open>simp_all add: attached_def\<close>)
qed

lemma respond_sent:
  assumes "length payload \<le> max_frame_bytes limits" and "se_writable session"
  shows "respond limits kind correlation payload session =
    (Ok, session\<lparr>se_sent := se_sent session @ [\<lparr>fr_type = kind, fr_flags = kFrameFlagAck, fr_correlation = correlation,
       fr_payload = payload\<rparr>]\<rparr>)"
  using assms by (simp add: respond_def send_frame_def encode_frame_def kFrameFlagAck_def kKnownFrameFlags_def)

lemma ack_frame_ok:
  assumes "length payload \<le> max_frame_bytes limits" and "max_frame_bytes limits < 2 ^ 32"
  shows "frame_ok limits \<lparr>fr_type = kind, fr_flags = kFrameFlagAck, fr_correlation = correlation, fr_payload = payload\<rparr>"
  using assms by (simp add: frame_ok_def kFrameFlagAck_def kKnownFrameFlags_def)

section \<open>Publishing\<close>

definition publication_answer :: "Context \<Rightarrow> ApplyResult \<Rightarrow> PublicationAcceptedMessage" where
  "publication_answer cx result =
     \<lparr>pm_code = ar_code result, pm_detail = cx_detail cx (ar_code result),
      pm_device_generation = ar_device_generation result, pm_device_boot = ar_device_boot result\<rparr>"

definition publication_answer_bytes :: "Context \<Rightarrow> ApplyResult \<Rightarrow> RegistryLimits \<Rightarrow> u8 list" where
  "publication_answer_bytes cx result limits = wire (write_publication_accepted (publication_answer cx result) limits)"

text \<open>Details within the bounds leave room for every answer to a publication.\<close>

definition roomy :: "Context \<Rightarrow> RegistryLimits \<Rightarrow> bool" where
  "roomy cx limits \<longleftrightarrow>
     (\<forall>code. str_fits (max_metadata_bytes limits) (cx_detail cx code)) \<and> max_metadata_bytes limits + 22 \<le> max_frame_bytes limits"

lemma publication_answer_codes:
  assumes "roomy cx limits"
  shows "encode_publication_accepted (publication_answer cx result) limits = (Ok, publication_answer_bytes cx result limits)"
    "decode_publication_accepted (publication_answer_bytes cx result limits) limits = (Ok, publication_answer cx result)"
    "length (publication_answer_bytes cx result limits) \<le> max_frame_bytes limits"
proof -
  have "publication_accepted_fits limits (publication_answer cx result)"
    using assms by (simp add: publication_accepted_fits_def publication_answer_def roomy_def)
  note codes = write_publication_accepted_wire [OF this]
  show encoded: "encode_publication_accepted (publication_answer cx result) limits =
      (Ok, publication_answer_bytes cx result limits)"
    using encoded_codes(1) [OF codes] by (simp add: encode_publication_accepted_def publication_answer_bytes_def)
  show "decode_publication_accepted (publication_answer_bytes cx result limits) limits = (Ok, publication_answer cx result)"
    using decoded_codes [OF codes] by (simp add: decode_publication_accepted_def publication_answer_bytes_def)
  have "length (bw_out (write_publication_accepted (publication_answer cx result) limits empty_writer)) \<le>
      max_metadata_bytes limits + 22"
    by (simp add: write_publication_accepted_def write_all_Cons write_all_Nil wr_u16_def wr_u32_def wr_u64_def wr_raw_def
        wr_str_def wr_blob_def Let_def empty_writer_def)
  then show "length (publication_answer_bytes cx result limits) \<le> max_frame_bytes limits"
    using encoded assms by (simp add: encode_publication_accepted_def encoded_unchecked_def roomy_def)
qed

definition answer_frame :: "MessageType \<Rightarrow> Frame \<Rightarrow> u8 list \<Rightarrow> Frame" where
  "answer_frame kind frame payload =
     \<lparr>fr_type = kind, fr_flags = kFrameFlagAck, fr_correlation = fr_correlation frame, fr_payload = payload\<rparr>"

text \<open>A publication whose payload decodes is answered with the result of applying it.\<close>

lemma publication_answered:
  assumes "fr_type frame = MessageType.Publication" and "decode_publication (fr_payload frame) (co_limits co) = (Ok, p)"
    and "apply_publication (cx_hash cx) (cx_now cx) p (co_registry co) = (result, reg)"
    and "roomy cx (co_limits co)" and "se_writable session"
  obtains co' where "answers cx frame
      (answer_frame MessageType.PublicationAccepted frame (publication_answer_bytes cx result (co_limits co)))
      (session, co) (session\<lparr>se_sent := se_sent session @ [answer_frame MessageType.PublicationAccepted frame
        (publication_answer_bytes cx result (co_limits co))]\<rparr>, co')"
    "co_registry co' = reg" "co_config co' = co_config co"
proof -
  note codes = publication_answer_codes [OF assms(4), of result]
  define co' where "co' = (if accepted result
    then count cs_publications_applied_update ((count cs_frames_received_update co)\<lparr>co_registry := reg\<rparr>)
    else count cs_publications_rejected_update ((count cs_frames_received_update co)\<lparr>co_registry := reg\<rparr>))"
  have co': "co_registry co' = reg" "co_config co' = co_config co"
    by (simp_all add: co'_def count_def)
  have "dispatch_frame cx session frame co =
      (Ok, session\<lparr>se_sent := se_sent session @ [answer_frame MessageType.PublicationAccepted frame
        (publication_answer_bytes cx result (co_limits co))]\<rparr>, co')"
    using codes(1) respond_sent [OF codes(3) assms(5), of MessageType.PublicationAccepted "fr_correlation frame"]
    by (simp add: dispatch_frame_def assms(1,2,3) on_publication_def Let_def reply_def co'_def count_def
        publication_answer_def answer_frame_def)
  then show ?thesis
    by (intro that [of co']) (simp_all add: answers_def co')
qed

lemma not_error:
  "MessageType.Welcome \<noteq> MessageType.ErrorResponse" "MessageType.PublisherAccepted \<noteq> MessageType.ErrorResponse"
  "MessageType.PublicationAccepted \<noteq> MessageType.ErrorResponse"
  by simp_all

text \<open>One request of the publisher for one answer.\<close>

lemma publisher_exchange:
  assumes "attached (pu_limits pu) (pu_link pu)" and "length payload \<le> max_frame_bytes (pu_limits pu)"
    and "answers cx ((plain_frame kind payload)\<lparr>fr_correlation := pu_correlation pu + 1\<rparr>)
      (answer_frame expected ((plain_frame kind payload)\<lparr>fr_correlation := pu_correlation pu + 1\<rparr>) bytes)
      (ln_peer (pu_link pu)) (session, co)"
    and "length bytes \<le> max_frame_bytes (pu_limits pu)" and "expected \<noteq> MessageType.ErrorResponse"
  obtains link where "publisher_request (coordinator_peer cx) kind (Ok, payload) expected pu =
      Some (Inr (answer_frame expected ((plain_frame kind payload)\<lparr>fr_correlation := pu_correlation pu + 1\<rparr>) bytes),
        pu\<lparr>pu_correlation := pu_correlation pu + 1, pu_link := link\<rparr>)"
    "attached (pu_limits pu) link" "ln_peer link = (session\<lparr>se_delivered := se_delivered session + 1\<rparr>, co)"
proof -
  let ?frame = "(plain_frame kind payload)\<lparr>fr_correlation := pu_correlation pu + 1\<rparr>"
  have frame: "encode_frame ?frame (pu_limits pu) = Inr (frame_bytes ?frame)"
    using assms(2) by (simp add: encode_frame_def plain_frame_def write_frame_bytes)
  have ok: "frame_ok (pu_limits pu) (answer_frame expected ?frame bytes)"
    using ack_frame_ok [OF assms(4)] assms(1) by (simp add: answer_frame_def attached_def)
  from exchange_answered [OF assms(1) frame assms(3) ok] obtain link1 link2 where
    "send_on (coordinator_peer cx) (pu_limits pu) ?frame (pu_link pu) = (Ok, link1)"
    "receive_on link1 = Some (Inr (answer_frame expected ?frame bytes), link2)" "attached (pu_limits pu) link2"
    "ln_peer link2 = (session\<lparr>se_delivered := se_delivered session + 1\<rparr>, co)" .
  then show ?thesis
    using assms(5) by (intro that [of link2])
      (simp_all add: publisher_request_def publisher_send_def Let_def publisher_receive_def answer_frame_def)
qed

text \<open>A remote publisher that is registered and attached to a session of the coordinator.\<close>

definition publishing :: "(Session \<times> Coordinator) Publisher \<Rightarrow> bool" where
  "publishing pu \<longleftrightarrow> pu_registered pu \<and> attached (pu_limits pu) (pu_link pu)"

abbreviation remote_registry :: "(Session \<times> Coordinator) Publisher \<Rightarrow> Registry" where
  "remote_registry pu \<equiv> co_registry (snd (ln_peer (pu_link pu)))"

text \<open>The publication as it is sent: bound to the registered identity and the next sequence of the publisher.\<close>

abbreviation sent_publication :: "string \<Rightarrow> (Session \<times> Coordinator) Publisher \<Rightarrow> Publication \<Rightarrow> Publication" where
  "sent_publication now pu p \<equiv> bind_remote now (snd (remote_next_sequence pu)) p"

lemma publication_payload:
  assumes "publication_fits limits p" and "ok (fst (encode_publication p limits))"
  shows "decode_publication (snd (encode_publication p limits)) limits = (Ok, p)"
    "length (snd (encode_publication p limits)) \<le> max_frame_bytes limits"
proof -
  have "snd (encode_publication p limits) = wire (write_publication p limits)"
    by (simp add: encode_publication_def encoded_checked_def wire_def Let_def)
  then show "decode_publication (snd (encode_publication p limits)) limits = (Ok, p)"
    using decoded_codes [OF going_on_codes [OF write_publication_wire [OF assms(1)]]]
    by (simp add: decode_publication_def)
  show "length (snd (encode_publication p limits)) \<le> max_frame_bytes limits"
    using assms(2) by (auto simp: encode_publication_def encoded_checked_def Let_def split: if_splits)
qed

text \<open>
  C10: publishing through a remote publisher is applying to the registry of its coordinator. A publication within the
  bounds, sent by a registered publisher, leaves that registry exactly as the bound publication leaves it when applied
  in process. The publisher is told the code of that result, and the device generation and boot of that result where
  the registry gave valid ones; where it gave none it is told those of the publication's own capability, so the two
  answers are not the same there. It is told that something changed exactly when the code is \<^verbatim>\<open>Accepted\<close>, and no assigned
  identity. It is as ready for the next publication as before.
\<close>

theorem remote_publication_is_local:
  assumes "publishing pu" and "roomy cx (pu_limits pu)"
    and "publication_fits (pu_limits pu) (sent_publication now pu p)"
    and "ok (fst (encode_publication (sent_publication now pu p) (pu_limits pu)))"
  shows "case apply_publication (cx_hash cx) (cx_now cx) (sent_publication now pu p) (remote_registry pu) of
     (result, reg) \<Rightarrow> \<exists>pu'. remote_publish (coordinator_peer cx) now p pu =
         Some (\<lparr>ar_code = ar_code result, ar_mutated = (ar_code result = Accepted), ar_assigned_publisher = no_publisher,
           ar_device_generation = (if gen_valid (ar_device_generation result) then ar_device_generation result
             else cr_device_generation (pb_capability p)),
           ar_device_boot = (if gen_valid (ar_device_boot result) then ar_device_boot result
             else cr_device_boot (pb_capability p))\<rparr>, pu') \<and>
       remote_registry pu' = reg \<and> publishing pu' \<and> pu_identity pu' = pu_identity pu \<and>
       pu_sequence pu' = pu_sequence pu + 1"
proof -
  let ?limits = "pu_limits pu" and ?bound = "sent_publication now pu p"
  let ?pu = "snd (remote_next_sequence pu)"
  let ?payload = "snd (encode_publication ?bound ?limits)"
  let ?frame = "(plain_frame MessageType.Publication ?payload)\<lparr>fr_correlation := pu_correlation pu + 1\<rparr>"
  obtain session co where peer: "ln_peer (pu_link pu) = (session, co)" by (cases "ln_peer (pu_link pu)")
  obtain result reg where applied: "apply_publication (cx_hash cx) (cx_now cx) ?bound (co_registry co) = (result, reg)"
    by (cases "apply_publication (cx_hash cx) (cx_now cx) ?bound (co_registry co)")
  note on = assms(1) [unfolded publishing_def attached_def peer, simplified]
  note payload = publication_payload [OF assms(3,4)]
  let ?answer = "answer_frame MessageType.PublicationAccepted ?frame (publication_answer_bytes cx result ?limits)"
  obtain co' where ans: "answers cx ?frame ?answer (session, co)
      (session\<lparr>se_sent := se_sent session @ [?answer]\<rparr>, co')" and co': "co_registry co' = reg"
    using publication_answered [of ?frame co ?bound cx result reg session] payload(1) applied on assms(2)
    by (auto simp: plain_frame_def)
  note codes = publication_answer_codes [OF assms(2), of result]
  define pu1 where "pu1 = snd (remote_next_sequence pu)"
  have ids: "pu_config pu1 = pu_config pu" "pu_link pu1 = pu_link pu" "pu_correlation pu1 = pu_correlation pu"
    "pu_registered pu1 = pu_registered pu" "pu_identity pu1 = pu_identity pu" "pu_sequence pu1 = pu_sequence pu + 1"
    by (simp_all add: pu1_def remote_next_sequence_def)
  have "attached ?limits (pu_link pu)" using assms(1) by (simp add: publishing_def)
  note exchange = publisher_exchange [where pu = pu1, unfolded ids, OF this payload(2) ans [folded peer] codes(3) not_error(3)]
  obtain link2 where exchanged: "publisher_request (coordinator_peer cx) MessageType.Publication (Ok, ?payload)
      MessageType.PublicationAccepted pu1 = Some (Inr ?answer, pu1\<lparr>pu_correlation := pu_correlation pu + 1, pu_link := link2\<rparr>)"
    and link2: "attached ?limits link2" and peer2: "co_registry (snd (ln_peer link2)) = reg"
    by (rule exchange) (simp_all add: co')
  let ?pu2 = "pu1\<lparr>pu_correlation := pu_correlation pu + 1, pu_link := link2\<rparr>"
  have "encode_publication ?bound ?limits = (Ok, ?payload)"
    using assms(4) by (simp add: prod_eq_iff)
  then have "remote_publish (coordinator_peer cx) now p pu =
      Some (result_of_answer ?bound (publication_answer cx result), ?pu2)"
    using on codes(2) exchanged assms(4)
    by (simp add: remote_publish_def Let_def ids pu1_def [symmetric] answer_frame_def)
  moreover have "result_of_answer ?bound (publication_answer cx result) =
      \<lparr>ar_code = ar_code result, ar_mutated = (ar_code result = Accepted), ar_assigned_publisher = no_publisher,
       ar_device_generation = (if gen_valid (ar_device_generation result) then ar_device_generation result
         else cr_device_generation (pb_capability p)),
       ar_device_boot = (if gen_valid (ar_device_boot result) then ar_device_boot result
         else cr_device_boot (pb_capability p))\<rparr>"
    by (simp add: result_of_answer_def publication_answer_def result_of_def bind_remote_def)
  ultimately show ?thesis
    using link2 peer2 on by (simp add: peer applied publishing_def ids)
qed

section \<open>Querying\<close>

abbreviation client_registry :: "(Session \<times> Coordinator) Client \<Rightarrow> Registry" where
  "client_registry client \<equiv> co_registry (snd (ln_peer (cl_link client)))"

text \<open>The response the coordinator sends for an answer of its registry.\<close>

definition served_response :: "Context \<Rightarrow> Status \<times> QueryResponse \<Rightarrow> QueryResponse" where
  "served_response cx answer =
     (case answer of (status, response) \<Rightarrow>
        if ok status then response else response\<lparr>qres_code := status, qres_message := cx_text cx status\<rparr>)"

definition response_bytes :: "Context \<Rightarrow> Status \<times> QueryResponse \<Rightarrow> RegistryLimits \<Rightarrow> u8 list" where
  "response_bytes cx answer limits = wire (write_query_response (served_response cx answer) limits)"

lemma response_codes:
  assumes "response_fits limits (served_response cx answer)"
    and "length (response_bytes cx answer limits) \<le> max_frame_bytes limits"
  shows "encode_query_response (served_response cx answer) limits = (Ok, response_bytes cx answer limits)"
    "decode_query_response (response_bytes cx answer limits) limits = (Ok, served_response cx answer)"
  using encoded_codes(2) [OF write_query_response_wire [OF assms(1)]] assms(2)
    decoded_codes [OF write_query_response_wire [OF assms(1)]]
  by (simp_all add: encode_query_response_def decode_query_response_def response_bytes_def)

lemma answered_code: "fst (answer_query now request reg) = (Ok, response) \<Longrightarrow> qres_code response = Ok"
  by (cases "qreq_kind request")
    (auto simp: answer_query_def Let_def fill_def no_response_def split: sum.splits prod.splits)

lemma query_answered:
  assumes "fr_type frame = MessageType.QueryRequest" and "decode_query_request (fr_payload frame) (co_limits co) = (Ok, request)"
    and "answer_query (cx_now cx) request (co_registry co) = (answer, reg)"
    and "response_fits (co_limits co) (served_response cx answer)"
    and "length (response_bytes cx answer (co_limits co)) \<le> max_frame_bytes (co_limits co)" and "se_writable session"
  obtains co' where "answers cx frame
      (answer_frame MessageType.QueryResponse frame (response_bytes cx answer (co_limits co)))
      (session, co) (session\<lparr>se_sent := se_sent session @ [answer_frame MessageType.QueryResponse frame
        (response_bytes cx answer (co_limits co))]\<rparr>, co')"
    "co_registry co' = reg"
proof -
  obtain status response where answer: "answer = (status, response)" by (cases answer)
  note codes = response_codes [OF assms(4,5)]
  let ?co = "(count cs_queries_served_update (count cs_frames_received_update co))\<lparr>co_registry := reg\<rparr>"
  have "dispatch_frame cx session frame co =
      (Ok, session\<lparr>se_sent := se_sent session @ [answer_frame MessageType.QueryResponse frame
        (response_bytes cx answer (co_limits co))]\<rparr>, ?co)"
    using codes(1) assms(5) respond_sent [OF assms(5,6), of MessageType.QueryResponse "fr_correlation frame"] assms(3)
    by (simp add: dispatch_frame_def assms(1,2) on_query_def serve_query_def Let_def reply_def count_def
        served_response_def answer answer_frame_def)
  then show ?thesis
    by (intro that [of ?co]) (simp_all add: answers_def count_def)
qed

text \<open>
  C14: a client attached to a session of the coordinator is answered as the registry answers. A query within the bounds
  returns the registry's own response, or fails with the registry's own error, whenever the answer is within the bounds
  of a frame; the registry is as the query leaves it and the client can ask again.
\<close>

theorem remote_query_is_local:
  assumes "attached (cl_limits client) (cl_link client)" and "request_fits (cl_limits client) request"
    and "length (snd (encode_query_request request (cl_limits client))) \<le> max_frame_bytes (cl_limits client)"
    and "response_fits (cl_limits client)
      (served_response cx (fst (answer_query (cx_now cx) request (client_registry client))))"
    and "length (response_bytes cx (fst (answer_query (cx_now cx) request (client_registry client))) (cl_limits client))
      \<le> max_frame_bytes (cl_limits client)"
  shows "case answer_query (cx_now cx) request (client_registry client) of
     ((status, response), reg) \<Rightarrow>
       \<exists>client'. exchange (coordinator_peer cx) request client =
           Some (if ok status then Inr response else Inl status, client') \<and>
         client_registry client' = reg \<and> attached (cl_limits client') (cl_link client')"
proof -
  let ?limits = "cl_limits client"
  obtain session co where peer: "ln_peer (cl_link client) = (session, co)" by (cases "ln_peer (cl_link client)")
  obtain status response reg where answer: "answer_query (cx_now cx) request (co_registry co) = ((status, response), reg)"
    by (cases "answer_query (cx_now cx) request (co_registry co)") auto
  let ?answer = "(status, response)"
  note on = assms(1) [unfolded attached_def peer, simplified]
  note fits = assms(4,5) [unfolded peer snd_conv answer fst_conv]
  note codes = write_query_request_wire [OF assms(2)]
  let ?payload = "wire (write_query_request request ?limits)"
  have payload: "encode_query_request request ?limits = (Ok, ?payload)" "decode_query_request ?payload ?limits = (Ok, request)"
    using encoded_codes(1) [OF codes] decoded_codes [OF codes]
    by (simp_all add: encode_query_request_def decode_query_request_def)
  let ?frame = "(plain_frame MessageType.QueryRequest ?payload)\<lparr>fr_correlation := cl_correlation client + 1\<rparr>"
  let ?reply = "answer_frame MessageType.QueryResponse ?frame (response_bytes cx ?answer ?limits)"
  obtain co' where ans: "answers cx ?frame ?reply (session, co) (session\<lparr>se_sent := se_sent session @ [?reply]\<rparr>, co')"
    and co': "co_registry co' = reg"
    using query_answered [of ?frame co request cx ?answer reg session] payload(2) answer on fits
    by (auto simp: plain_frame_def)
  have frame: "encode_frame ?frame ?limits = Inr (frame_bytes ?frame)"
    using assms(3) payload(1) by (simp add: encode_frame_def plain_frame_def write_frame_bytes)
  have ok: "frame_ok ?limits ?reply"
    using ack_frame_ok [OF fits(2)] on by (simp add: answer_frame_def)
  from exchange_answered [OF assms(1) frame ans [folded peer] ok] obtain link1 link2 where
    sent: "send_on (coordinator_peer cx) ?limits ?frame (cl_link client) = (Ok, link1)"
    and received: "receive_on link1 = Some (Inr ?reply, link2)" and link2: "attached ?limits link2"
    and peer2: "co_registry (snd (ln_peer link2)) = reg"
    using co' by (metis snd_conv)
  let ?client = "client\<lparr>cl_correlation := cl_correlation client + 1, cl_link := link2\<rparr>"
  have "client_request (coordinator_peer cx) MessageType.QueryRequest (encode_query_request request ?limits) client =
      Some (Inr ?reply, ?client)"
    by (simp add: client_request_def payload(1) Let_def sent received)
  moreover have "response_of ?limits (cl_correlation client + 1) ?reply = (if ok status then Inr response else Inl status)"
    using response_codes(2) [OF fits] answered_code [of "cx_now cx" request "co_registry co" response] answer
    by (simp add: response_of_def answer_frame_def plain_frame_def served_response_def)
  ultimately show ?thesis
    using on link2 peer2 by (simp add: peer answer exchange_def)
qed

end
