(* ===== verification/Handshake.thy ===== *)
theory Handshake
  imports Endpoints Publisher_Names
begin

text \<open>
  The connection of a remote publisher: HELLO, WELCOME and REGISTER_PUBLISHER against a session of the coordinator.
\<close>

section \<open>The messages of the handshake\<close>

definition hello_of :: "PublisherConfig \<Rightarrow> HelloMessage" where
  "hello_of config = \<lparr>hm_protocol_version = ucast protocol_version, hm_agent = pc_agent config,
     hm_role = ''publisher'', hm_nonce = pc_nonce config\<rparr>"

definition registration_of :: "PublisherConfig \<Rightarrow> RegisterPublisherMessage" where
  "registration_of config = \<lparr>rm_identity = no_publisher\<lparr>pub_id := pc_publisher config\<rparr>,
     rm_adapter = pc_adapter config, rm_agent = pc_agent config\<rparr>"

definition welcome_of :: "Coordinator \<Rightarrow> WelcomeMessage" where
  "welcome_of co = \<lparr>wm_protocol_version = ucast protocol_version, wm_epoch = rg_epoch (co_registry co),
     wm_coordinator_name = cc_node_name (co_config co)\<rparr>"

definition registration_answer :: "Context \<Rightarrow> ApplyResult \<Rightarrow> Registry \<Rightarrow> PublisherAcceptedMessage" where
  "registration_answer cx result reg =
     \<lparr>am_code = ar_code result, am_epoch = rg_epoch reg, am_identity = ar_assigned_publisher result,
      am_detail = cx_detail cx (ar_code result)\<rparr>"

text \<open>The texts of the handshake are within the bounds, which leave room for its messages.\<close>

definition handshake_fits :: "Context \<Rightarrow> PublisherConfig \<Rightarrow> Coordinator \<Rightarrow> bool" where
  "handshake_fits cx config co \<longleftrightarrow>
     roomy cx (pc_limits config) \<and> hello_fits (pc_limits config) (hello_of config) \<and>
     register_publisher_message_fits (pc_limits config) (registration_of config) \<and>
     welcome_fits (pc_limits config) (welcome_of co) \<and> id_valid (pc_publisher config) \<and>
     2 * max_metadata_bytes (pc_limits config) + kMaxTokenLength + 50 \<le> max_frame_bytes (pc_limits config)"

lemmas writing_sizes = write_all_Cons write_all_Nil wr_u16_def wr_u32_def wr_u64_def wr_raw_def wr_str_def wr_blob_def
  Let_def empty_writer_def write_publisher_identity_def write_id_def write_gen_def

lemma handshake_codes:
  assumes "handshake_fits cx config co"
  defines "limits \<equiv> pc_limits config"
  shows "decode_hello (snd (encode_hello (hello_of config) limits)) limits = (Ok, hello_of config)"
    "decode_register_publisher_message (snd (encode_register_publisher_message (registration_of config) limits)) limits =
       (Ok, registration_of config)"
    "decode_welcome (snd (encode_welcome (welcome_of co) limits)) limits = (Ok, welcome_of co)"
    "length (snd (encode_hello (hello_of config) limits)) \<le> max_frame_bytes limits"
    "length (snd (encode_register_publisher_message (registration_of config) limits)) \<le> max_frame_bytes limits"
    "length (snd (encode_welcome (welcome_of co) limits)) \<le> max_frame_bytes limits"
proof -
  note fits = assms(1) [unfolded handshake_fits_def, folded limits_def]
  have hello: "hello_fits limits (hello_of config)" and registration: "register_publisher_message_fits limits (registration_of config)"
    and greeting: "welcome_fits limits (welcome_of co)" and bound: "2 * max_metadata_bytes limits + kMaxTokenLength + 50 \<le> max_frame_bytes limits"
    using fits by simp_all
  note hello = write_hello_wire [OF hello] and registration = write_register_publisher_message_wire [OF registration]
    and greeting = write_welcome_wire [OF greeting]
  show "decode_hello (snd (encode_hello (hello_of config) limits)) limits = (Ok, hello_of config)"
    using encoded_codes(1) [OF hello] decoded_codes [OF going_on_codes [OF hello]]
    by (simp add: encode_hello_def decode_hello_def)
  show "decode_register_publisher_message (snd (encode_register_publisher_message (registration_of config) limits)) limits =
      (Ok, registration_of config)"
    using encoded_codes(1) [OF registration] decoded_codes [OF going_on_codes [OF registration]]
    by (simp add: encode_register_publisher_message_def decode_register_publisher_message_def)
  show "decode_welcome (snd (encode_welcome (welcome_of co) limits)) limits = (Ok, welcome_of co)"
    using encoded_codes(1) [OF greeting] decoded_codes [OF going_on_codes [OF greeting]]
    by (simp add: encode_welcome_def decode_welcome_def)
  have "length (snd (encode_hello (hello_of config) limits)) \<le> 2 * max_metadata_bytes limits + 50"
    by (simp add: encode_hello_def encoded_unchecked_def write_hello_def writing_sizes)
  moreover have "length (snd (encode_register_publisher_message (registration_of config) limits)) \<le>
      2 * max_metadata_bytes limits + kMaxTokenLength + 50"
    by (simp add: encode_register_publisher_message_def encoded_unchecked_def write_register_publisher_message_def writing_sizes)
  moreover have "length (snd (encode_welcome (welcome_of co) limits)) \<le> 2 * max_metadata_bytes limits + 50"
    by (simp add: encode_welcome_def encoded_unchecked_def write_welcome_def writing_sizes)
  ultimately show "length (snd (encode_hello (hello_of config) limits)) \<le> max_frame_bytes limits"
    "length (snd (encode_register_publisher_message (registration_of config) limits)) \<le> max_frame_bytes limits"
    "length (snd (encode_welcome (welcome_of co) limits)) \<le> max_frame_bytes limits"
    using bound by linarith+
qed

lemma registration_answer_codes:
  fixes reg :: Registry
  assumes "handshake_fits cx config co" and "wf_id (pub_id (ar_assigned_publisher result))"
  defines "limits \<equiv> pc_limits config"
  defines "answer \<equiv> registration_answer cx result reg"
  shows "decode_publisher_accepted (snd (encode_publisher_accepted answer limits)) limits = (Ok, answer)"
    "length (snd (encode_publisher_accepted answer limits)) \<le> max_frame_bytes limits"
proof -
  have "publisher_accepted_fits limits answer"
    using assms(1,2) by (simp add: publisher_accepted_fits_def publisher_identity_fits_def answer_def limits_def
        registration_answer_def handshake_fits_def roomy_def)
  note codes = write_publisher_accepted_wire [OF this]
  show "decode_publisher_accepted (snd (encode_publisher_accepted answer limits)) limits = (Ok, answer)"
    using encoded_codes(1) [OF codes] decoded_codes [OF codes]
    by (simp add: encode_publisher_accepted_def decode_publisher_accepted_def)
  have "length (snd (encode_publisher_accepted answer limits)) \<le> 2 * max_metadata_bytes limits + kMaxTokenLength + 50"
    by (simp add: encode_publisher_accepted_def encoded_unchecked_def write_publisher_accepted_def writing_sizes)
  then show "length (snd (encode_publisher_accepted answer limits)) \<le> max_frame_bytes limits"
    using assms(1) by (simp add: handshake_fits_def limits_def)
qed

section \<open>Registration\<close>

lemma hello_answered:
  assumes "fr_type frame = MessageType.Hello" and "decode_hello (fr_payload frame) (co_limits co) = (Ok, hello)"
    and "hm_protocol_version hello = ucast protocol_version" and "se_writable session"
    and "length (snd (encode_welcome (welcome_of co) (co_limits co))) \<le> max_frame_bytes (co_limits co)"
  defines "answer \<equiv> answer_frame MessageType.Welcome frame (snd (encode_welcome (welcome_of co) (co_limits co)))"
  shows "answers cx frame answer (session, co)
    (session\<lparr>se_handshake := True, se_sent := se_sent session @ [answer]\<rparr>, count cs_frames_received_update co)"
proof -
  have "respond (co_limits co) MessageType.Welcome (fr_correlation frame)
      (snd (encode_welcome (welcome_of co) (co_limits co))) (session\<lparr>se_handshake := True\<rparr>) =
      (Ok, session\<lparr>se_handshake := True, se_sent := se_sent session @ [answer]\<rparr>)"
    using respond_sent [OF assms(5), of "session\<lparr>se_handshake := True\<rparr>"] assms(4)
    by (simp add: answer_def answer_frame_def)
  then show ?thesis
    by (simp add: answers_def dispatch_frame_def assms(1,2,3) on_hello_def reply_def encode_welcome_def
        encoded_unchecked_def welcome_of_def count_def Let_def)
qed

lemma registration_answered:
  assumes "fr_type frame = MessageType.RegisterPublisher"
    and "decode_register_publisher_message (fr_payload frame) (co_limits co) = (Ok, request)"
    and "register_publisher (cx_now cx) (rm_identity request) (rm_adapter request) (co_registry co) = (result, reg)"
    and "se_handshake session" and "se_writable session"
    and "length (snd (encode_publisher_accepted (registration_answer cx result reg) (co_limits co))) \<le>
      max_frame_bytes (co_limits co)"
  defines "answer \<equiv> answer_frame MessageType.PublisherAccepted frame
    (snd (encode_publisher_accepted (registration_answer cx result reg) (co_limits co)))"
  obtains session' co' where "answers cx frame answer (session, co) (session', co')" "co_registry co' = reg"
proof -
  define s1 where "s1 = (if accepted result then session\<lparr>se_publisher := pub_id (ar_assigned_publisher result),
      se_boot := pub_boot (ar_assigned_publisher result), se_adapter := rm_adapter request, se_registered := True\<rparr>
    else session)"
  have s1: "se_writable s1" "se_sent s1 = se_sent session" "se_decoder s1 = se_decoder session"
    "se_writable session = se_writable s1"
    using assms(5) by (simp_all add: s1_def)
  let ?co = "(count cs_frames_received_update co)\<lparr>co_registry := reg\<rparr>"
  have "respond (co_limits co) MessageType.PublisherAccepted (fr_correlation frame)
      (snd (encode_publisher_accepted (registration_answer cx result reg) (co_limits co))) s1 =
      (Ok, s1\<lparr>se_sent := se_sent s1 @ [answer]\<rparr>)"
    using respond_sent [OF assms(6) s1(1)] by (simp add: answer_def answer_frame_def)
  then have "dispatch_frame cx session frame co = (Ok, s1\<lparr>se_sent := se_sent s1 @ [answer]\<rparr>, ?co)"
    by (simp add: dispatch_frame_def assms(1,2,4) on_register_publisher_def reply_def encode_publisher_accepted_def
        encoded_unchecked_def registration_answer_def count_def Let_def assms(3) s1_def [symmetric])
  then show ?thesis
    by (intro that [of "s1\<lparr>se_sent := se_sent s1 @ [answer]\<rparr>" ?co]) (simp_all add: answers_def count_def s1)
qed

lemma registration_keeps_epoch:
  "register_publisher now identity adapter reg = (result, reg') \<Longrightarrow> rg_epoch reg' = rg_epoch reg"
  by (auto simp: register_publisher_def register_publisher_locked_def register_new_publisher_def put_publisher_def
      Let_def split: if_splits option.splits)

lemma hello_exchanged:
  assumes "attached (pu_limits pu) (pu_link pu)" and "handshake_fits cx (pu_config pu) co"
    and "ln_peer (pu_link pu) = (session, co)"
  obtains pu' where "say_hello (coordinator_peer cx) pu = Some (Ok, pu')" "attached (pu_limits pu') (pu_link pu')"
    "pu_config pu' = pu_config pu" "se_handshake (fst (ln_peer (pu_link pu')))" "pu_epoch pu' = rg_epoch (co_registry co)"
    "snd (ln_peer (pu_link pu')) = count cs_frames_received_update co"
proof -
  let ?limits = "pu_limits pu"
  note codes = handshake_codes [OF assms(2)]
  let ?payload = "snd (encode_hello (hello_of (pu_config pu)) ?limits)"
  let ?frame = "(plain_frame MessageType.Hello ?payload)\<lparr>fr_correlation := pu_correlation pu + 1\<rparr>"
  have on: "co_limits co = ?limits" "se_writable session" using assms(1,3) by (simp_all add: attached_def)
  have "answers cx ?frame (answer_frame MessageType.Welcome ?frame (snd (encode_welcome (welcome_of co) ?limits)))
      (ln_peer (pu_link pu)) (session\<lparr>se_handshake := True, se_sent := se_sent session @
        [answer_frame MessageType.Welcome ?frame (snd (encode_welcome (welcome_of co) ?limits))]\<rparr>,
        count cs_frames_received_update co)"
    unfolding assms(3) using hello_answered [of ?frame co "hello_of (pu_config pu)" session cx] codes on
    by (simp add: plain_frame_def hello_of_def)
  note exchange = publisher_exchange [OF assms(1) codes(4) this codes(6) not_error(1)]
  obtain link where
    exchanged: "publisher_request (coordinator_peer cx) MessageType.Hello (Ok, ?payload) MessageType.Welcome pu =
      Some (Inr (answer_frame MessageType.Welcome ?frame (snd (encode_welcome (welcome_of co) ?limits))),
        pu\<lparr>pu_correlation := pu_correlation pu + 1, pu_link := link\<rparr>)"
    and link: "attached ?limits link" and peer: "ln_peer link = (session\<lparr>se_handshake := True, se_sent := se_sent session @
        [answer_frame MessageType.Welcome ?frame (snd (encode_welcome (welcome_of co) ?limits))],
        se_delivered := se_delivered session + 1\<rparr>, count cs_frames_received_update co)"
    by (rule exchange) simp_all
  have "encode_hello (hello_of (pu_config pu)) ?limits = (Ok, ?payload)"
    by (simp add: encode_hello_def encoded_unchecked_def)
  with exchanged codes(3) have hello: "say_hello (coordinator_peer cx) pu =
      Some (Ok, pu\<lparr>pu_correlation := pu_correlation pu + 1, pu_link := link, pu_epoch := rg_epoch (co_registry co)\<rparr>)"
    by (simp add: say_hello_def hello_of_def [symmetric] answer_frame_def) (simp add: welcome_of_def)
  show ?thesis
    by (rule that [OF hello]) (simp_all add: peer link)
qed

lemma assigned_name:
  assumes "register_publisher now identity adapter reg = (result, reg')" and "wf_id (pub_id identity)"
    and "keyed reg"
  shows "wf_id (pub_id (ar_assigned_publisher result))"
proof -
  have empty: "wf_id []" by (simp add: wf_id_def)
  have "pub_id (pr_identity (ps_record st)) = pub_id identity" if "om_find (pub_id identity) (rg_publishers reg) = Some st" for st
    using keyed_find [OF assms(3) that] by (simp add: name_of_def)
  with assms(1,2) empty show ?thesis
    by (auto simp: register_publisher_def register_publisher_locked_def register_new_publisher_def Let_def result_of_def
        mutating_def no_publisher_def fresh_boot_def reaffirm_boot_def split: if_splits option.splits)
qed

lemma publisher_request_registered:
  "publisher_request peer kind encoded expected pu = Some (result, pu') \<Longrightarrow> pu_registered pu' = pu_registered pu"
  by (auto simp: publisher_request_def publisher_send_def publisher_receive_def Let_def
      split: option.splits sum.splits prod.splits if_splits)

lemma say_hello_registered: "say_hello peer pu = Some (status, pu') \<Longrightarrow> pu_registered pu' = pu_registered pu"
  by (auto simp: say_hello_def dest: publisher_request_registered split: option.splits sum.splits prod.splits if_splits)

text \<open>
  C19: connecting a publisher to a coordinator registers it there as the registry would in process, when its
  configuration and the answers are within the bounds of the wire. The handshake ends
  registered exactly when the registry accepts the registration, with the identity the registry assigned, and the
  publisher can publish; otherwise it ends with an error and the publisher is not registered. In both cases the
  publisher has learned the epoch of the registry.
\<close>

theorem remote_registration_is_local:
  assumes "handshake_fits cx (pu_config pu) (snd (ln_peer (pu_link pu)))" and "\<not> pu_registered pu"
    and "ln_decoder (pu_link pu) = \<lparr>fd_limits = pu_limits pu, fd_buffer = []\<rparr>"
    and "co_limits (snd (ln_peer (pu_link pu))) = pu_limits pu" and "0 < max_pending_publications (pu_limits pu)"
    and "max_frame_bytes (pu_limits pu) < 2 ^ 32" and "keyed (remote_registry pu)"
  shows "case register_publisher (cx_now cx) (rm_identity (registration_of (pu_config pu))) (pc_adapter (pu_config pu))
      (remote_registry pu) of
     (result, reg) \<Rightarrow> \<exists>pu'. remote_registry pu' = reg \<and>
       connect_and_register (coordinator_peer cx) pu = Some (if accepted result then Ok else UnknownPublisher, pu') \<and>
       pu_epoch pu' = rg_epoch reg \<and>
       (if accepted result then publishing pu' \<and> pu_identity pu' = ar_assigned_publisher result else \<not> pu_registered pu')"
proof -
  let ?limits = "pu_limits pu" and ?config = "pu_config pu"
  obtain session0 co where peer: "ln_peer (pu_link pu) = (session0, co)" by (cases "ln_peer (pu_link pu)")
  note given = assms [unfolded peer snd_conv]
  let ?request = "registration_of ?config"
  obtain result reg where r: "register_publisher (cx_now cx) (rm_identity ?request) (pc_adapter ?config) (co_registry co) =
      (result, reg)"
    by (cases "register_publisher (cx_now cx) (rm_identity ?request) (pc_adapter ?config) (co_registry co)")
  let ?link = "(pu_link pu)\<lparr>ln_peer := (new_session ?limits True, co), ln_open := True, ln_reads := []\<rparr>"
  have connected: "connect_loopback (coordinator_peer cx) (pu_link pu) = (Ok, ?link)"
    using given(4) by (simp add: connect_loopback_def coordinator_peer_def peer)
  have "attached ?limits ?link"
    using given(3-6) by (simp add: attached_def new_session_def)
  then obtain pu1 where hello: "say_hello (coordinator_peer cx) (pu\<lparr>pu_link := ?link\<rparr>) = Some (Ok, pu1)"
    and at1: "attached (pu_limits pu1) (pu_link pu1)" and config: "pu_config pu1 = ?config"
    and shaken: "se_handshake (fst (ln_peer (pu_link pu1)))"
    and co1: "snd (ln_peer (pu_link pu1)) = count cs_frames_received_update co" and epoch: "pu_epoch pu1 = rg_epoch (co_registry co)"
    using hello_exchanged [of "pu\<lparr>pu_link := ?link\<rparr>" cx co "new_session ?limits True"] given(1) by auto
  have unregistered: "\<not> pu_registered pu1"
    using say_hello_registered [OF hello] given(2) by simp
  let ?co1 = "count cs_frames_received_update co"
  obtain session1 where peer1: "ln_peer (pu_link pu1) = (session1, ?co1)"
    using co1 by (cases "ln_peer (pu_link pu1)") simp
  have "wf_id (pub_id (ar_assigned_publisher result))"
    using assigned_name [OF r _ given(7)] given(1)
    by (simp add: handshake_fits_def register_publisher_message_fits_def publisher_identity_fits_def)
  note codes = handshake_codes [OF given(1)] registration_answer_codes [OF given(1) this, of reg]
  let ?payload = "snd (encode_register_publisher_message ?request ?limits)"
  let ?frame = "(plain_frame MessageType.RegisterPublisher ?payload)\<lparr>fr_correlation := pu_correlation pu1 + 1\<rparr>"
  let ?bytes = "snd (encode_publisher_accepted (registration_answer cx result reg) ?limits)"
  have on: "co_limits ?co1 = ?limits" "se_writable session1" "se_handshake session1" "co_registry ?co1 = co_registry co"
    using at1 shaken peer1 by (simp_all add: attached_def config count_def)
  have dec: "decode_register_publisher_message (fr_payload ?frame) (co_limits ?co1) = (Ok, ?request)"
    using codes(2) on(1) by (simp add: plain_frame_def)
  have r1: "register_publisher (cx_now cx) (rm_identity ?request) (rm_adapter ?request) (co_registry ?co1) = (result, reg)"
    using r on(4) by (simp add: registration_of_def)
  have len: "length (snd (encode_publisher_accepted (registration_answer cx result reg) (co_limits ?co1))) \<le>
      max_frame_bytes (co_limits ?co1)"
    using codes(8) on(1) by simp
  obtain session2 co2 where ans: "answers cx ?frame (answer_frame MessageType.PublisherAccepted ?frame ?bytes)
      (session1, ?co1) (session2, co2)" and co2: "co_registry co2 = reg"
    using registration_answered [OF _ dec r1 on(3,2) len] on(1) by (auto simp: plain_frame_def)
  note at1' = at1 [unfolded config]
  note exchange = publisher_exchange [where pu = pu1, unfolded config, OF at1' codes(5) ans [folded peer1] codes(8) not_error(2)]
  obtain link2 where exchanged: "publisher_request (coordinator_peer cx) MessageType.RegisterPublisher (Ok, ?payload)
      MessageType.PublisherAccepted pu1 = Some (Inr (answer_frame MessageType.PublisherAccepted ?frame ?bytes),
        pu1\<lparr>pu_correlation := pu_correlation pu1 + 1, pu_link := link2\<rparr>)"
    and link2: "attached ?limits link2" "co_registry (snd (ln_peer link2)) = reg"
    by (rule exchange) (simp_all add: co2)
  let ?pu2 = "pu1\<lparr>pu_correlation := pu_correlation pu1 + 1, pu_link := link2\<rparr>"
  let ?pu3 = "if accepted result then ?pu2\<lparr>pu_identity := ar_assigned_publisher result, pu_epoch := rg_epoch reg,
    pu_registered := True\<rparr> else ?pu2"
  have "encode_register_publisher_message ?request ?limits = (Ok, ?payload)"
    by (simp add: encode_register_publisher_message_def encoded_unchecked_def)
  with exchanged codes(7) have "register_remotely (coordinator_peer cx) pu1 =
      Some (if accepted result then Ok else UnknownPublisher, ?pu3)"
    by (simp add: register_remotely_def config registration_of_def [symmetric] answer_frame_def)
      (simp add: registration_answer_def accepted_def)
  then have "connect_and_register (coordinator_peer cx) pu = Some (if accepted result then Ok else UnknownPublisher, ?pu3)"
    using given(1) by (simp add: connect_and_register_def connected hello Let_def handshake_fits_def)
  moreover have "rg_epoch reg = rg_epoch (co_registry co)"
    using r by (rule registration_keeps_epoch)
  ultimately show ?thesis
    using link2 unregistered epoch by (auto simp: peer r publishing_def config intro!: exI [of _ ?pu3])
qed

end
