(* ===== verification/Misreadings.thy ===== *)
theory Misreadings
  imports Handshake
begin

text \<open>Where the two ends of a connection take something for what it is not.\<close>

text \<open>
  An error response that carries the code \<open>Ok\<close> is a success for both ends: the client returns the empty response as
  the answer of the registry.
\<close>

theorem ok_error_reads_as_answer:
  "response_of limits correlation \<lparr>fr_type = MessageType.ErrorResponse, fr_flags = 0, fr_correlation = correlation,
     fr_payload = snd (encode_error_message \<lparr>em_code = Ok, em_message = []\<rparr> limits)\<rparr> = Inr no_response"
proof -
  have "error_message_fits limits \<lparr>em_code = Ok, em_message = []\<rparr>"
    by (simp add: error_message_fits_def str_fits_def)
  note codes = write_error_message_wire [OF this]
  have "decode_error_message (snd (encode_error_message \<lparr>em_code = Ok, em_message = []\<rparr> limits)) limits =
      (Ok, \<lparr>em_code = Ok, em_message = []\<rparr>)"
    using encoded_codes(1) [OF codes] decoded_codes [OF codes]
    by (simp add: encode_error_message_def decode_error_message_def)
  then show ?thesis
    by (simp add: response_of_def error_status_def)
qed

text \<open>
  A shutdown that the coordinator refuses is reported as accepted: the client reads the frame that answers it and does
  not look at it.
\<close>

theorem refused_shutdown_is_success:
  assumes "ln_open (cl_link client)"
    and "client_request peer MessageType.ShutdownRequest (encode_shutdown \<lparr>sm_reason = reason\<rparr> (cl_limits client)) client =
      Some (Inr response, client')"
    and "fr_type response = MessageType.ErrorResponse"
  shows "client_shutdown peer reason client = Some (Inr (), client')"
  using assms by (simp add: client_shutdown_def)

text \<open>
  A publisher that disconnects stays registered in its own eyes. Asked for its identity it confirms it, without a
  connection, and everything it publishes is refused.
\<close>

theorem disconnected_publisher_is_confirmed:
  assumes "pu_registered pu" and "pub_id identity = pub_id (pu_identity pu)"
  shows "remote_ensure_publisher peer identity adapter (snd (publisher_disconnect pu)) =
      Some ((result_of Accepted)\<lparr>ar_assigned_publisher := pu_identity pu\<rparr>, snd (publisher_disconnect pu)) \<and>
    (\<exists>result pu'. remote_publish peer now p (snd (publisher_disconnect pu)) = Some (result, pu') \<and> \<not> accepted result \<and>
       ln_peer (pu_link pu') = ln_peer (pu_link pu))"
proof -
  let ?pu = "snd (publisher_disconnect pu)"
  have off: "pu_registered ?pu" "pu_identity ?pu = pu_identity pu" "\<not> ln_open (pu_link ?pu)"
    "ln_peer (pu_link ?pu) = ln_peer (pu_link pu)"
    using assms(1) by (simp_all add: publisher_disconnect_def close_link_def)
  have sent: "\<exists>code link. send_on peer limits frame (pu_link ?pu) = (code, link) \<and> \<not> ok code \<and>
      ln_peer link = ln_peer (pu_link pu)" for limits frame
    using off by (auto simp: send_on_def encode_frame_def)
  have refused: "\<not> accepted (result_of RejectedUnknownPublisher)" "\<not> accepted (result_of RejectedValidation)"
    by (simp_all add: accepted_def result_of_def apply_code_accepted_def)
  let ?pu1 = "snd (remote_next_sequence ?pu)"
  let ?encoded = "encode_publication (bind_remote now ?pu1 p) (pu_limits ?pu1)"
  have link: "pu_link ?pu1 = pu_link ?pu" by (simp add: remote_next_sequence_def)
  obtain code link where s: "send_on peer (pu_limits ?pu1)
      ((plain_frame MessageType.Publication (snd ?encoded))\<lparr>fr_correlation := pu_correlation ?pu1 + 1\<rparr>) (pu_link ?pu) =
      (code, link)" "\<not> ok code" "ln_peer link = ln_peer (pu_link pu)"
    using sent by blast
  have "\<exists>result pu'. remote_publish peer now p ?pu = Some (result, pu') \<and> \<not> accepted result \<and>
      ln_peer (pu_link pu') = ln_peer (pu_link pu)"
  proof (cases "ok (fst ?encoded)")
    case True
    then show ?thesis
      using s refused off by (simp add: remote_publish_def Let_def publisher_request_def publisher_send_def link)
  next
    case False
    then show ?thesis
      using refused off link by (simp add: remote_publish_def Let_def)
  qed
  then show ?thesis
    using assms(2) off by (simp add: remote_ensure_publisher_def)
qed

end
