(* ===== verification/Discovery.thy ===== *)
theory Discovery
  imports Coordinator
begin

text \<open>
  Discovery (\<^verbatim>\<open>src/discovery.cpp\<close>, \<^verbatim>\<open>include/hcr/discovery.hpp\<close>): the sink that evidence goes to, the local sink on a
  registry, the builder an adapter publishes with, and the harness that runs one backend. A sink over a state is a
  record of its three operations; a backend is a record of what the harness asks of it. The device identities derived
  from a kind and a token are at the end.
\<close>

section \<open>Interfaces\<close>

record 's EvidenceSink =
  si_ensure_publisher :: "PublisherIdentity \<Rightarrow> string \<Rightarrow> 's \<Rightarrow> ApplyResult \<times> 's"
  si_next_sequence :: "string \<Rightarrow> 's \<Rightarrow> u64 \<times> 's"
  si_publish :: "Publication \<Rightarrow> 's \<Rightarrow> ApplyResult \<times> 's"

record DiscoveryContext =
  dc_publisher :: PublisherIdentity
  dc_platform :: PlatformIdentity
  dc_evidence_generation :: u64
  dc_observed_at_utc :: string
  dc_environment :: EnvironmentContext
  dc_software :: DeviceSoftwareState
  dc_source_class :: SourceClass
  dc_provenance :: ProvenanceClass
  dc_adapter :: string

record DiscoveryReport =
  dp_adapter :: string
  dp_available :: bool
  dp_accepted :: nat
  dp_idempotent :: nat
  dp_rejected :: nat
  dp_notes :: "string list"

definition empty_report :: DiscoveryReport where
  "empty_report = \<lparr>dp_adapter = [], dp_available = False, dp_accepted = 0, dp_idempotent = 0, dp_rejected = 0,
     dp_notes = []\<rparr>"

record SubjectContext =
  sc_device :: string
  sc_generation :: u64
  sc_boot :: u64

section \<open>The local sink\<close>

record LocalSink =
  ls_registry :: Registry
  ls_assigned :: "(string, PublisherIdentity) omap"
  ls_sequences :: "(string, u64) omap"

definition new_local_sink :: "Registry \<Rightarrow> LocalSink" where
  "new_local_sink reg = \<lparr>ls_registry = reg, ls_assigned = [], ls_sequences = []\<rparr>"

definition local_ensure_publisher ::
  "Context \<Rightarrow> PublisherIdentity \<Rightarrow> string \<Rightarrow> LocalSink \<Rightarrow> ApplyResult \<times> LocalSink" where
  "local_ensure_publisher cx identity adapter sink =
     (case om_find (pub_id identity) (ls_assigned sink) of
        Some existing \<Rightarrow>
          (case register_publisher (cx_now cx) existing adapter (ls_registry sink) of
             (reaffirmed, reg) \<Rightarrow>
               (if accepted reaffirmed \<or> ar_code reaffirmed = AcceptedIdempotent
                then (result_of Accepted)\<lparr>ar_assigned_publisher := existing\<rparr> else reaffirmed,
                sink\<lparr>ls_registry := reg\<rparr>))
      | None \<Rightarrow>
          (case register_publisher (cx_now cx) identity adapter (ls_registry sink) of
             (registered, reg) \<Rightarrow>
               (registered,
                if accepted registered
                then sink\<lparr>ls_registry := reg, ls_assigned :=
                  om_emplace (pub_id identity) (ar_assigned_publisher registered) (ls_assigned sink)\<rparr>
                else sink\<lparr>ls_registry := reg\<rparr>)))"

definition issued :: "string \<Rightarrow> LocalSink \<Rightarrow> u64" where
  "issued publisher sink = (case om_find publisher (ls_sequences sink) of None \<Rightarrow> 0 | Some n \<Rightarrow> n)"

definition local_next_sequence :: "string \<Rightarrow> LocalSink \<Rightarrow> u64 \<times> LocalSink" where
  "local_next_sequence publisher sink =
     (issued publisher sink + 1,
      sink\<lparr>ls_sequences := om_put publisher (issued publisher sink + 1) (ls_sequences sink)\<rparr>)"

definition publisher_count :: "LocalSink \<Rightarrow> nat" where
  "publisher_count sink = length (ls_assigned sink)"

definition local_publish :: "Context \<Rightarrow> Publication \<Rightarrow> LocalSink \<Rightarrow> ApplyResult \<times> LocalSink" where
  "local_publish cx publication sink =
     (case apply_publication (cx_hash cx) (cx_now cx) publication (ls_registry sink) of
        (result, reg) \<Rightarrow> (result, sink\<lparr>ls_registry := reg\<rparr>))"

definition local_sink :: "Context \<Rightarrow> LocalSink EvidenceSink" where
  "local_sink cx = \<lparr>si_ensure_publisher = local_ensure_publisher cx, si_next_sequence = local_next_sequence,
     si_publish = local_publish cx\<rparr>"

section \<open>The builder\<close>

record Builder =
  bu_context :: DiscoveryContext
  bu_report :: DiscoveryReport

definition new_builder :: "Context \<Rightarrow> DiscoveryContext \<Rightarrow> Builder" where
  "new_builder cx dc =
     \<lparr>bu_context = dc\<lparr>
        dc_evidence_generation :=
          (if gen_valid (dc_evidence_generation dc) then dc_evidence_generation dc else gen_first),
        dc_observed_at_utc := (if dc_observed_at_utc dc = [] then cx_now cx else dc_observed_at_utc dc)\<rparr>,
      bu_report = empty_report\<lparr>dp_adapter := dc_adapter dc\<rparr>\<rparr>"

definition describe_refusal :: "Context \<Rightarrow> ApplyCode \<Rightarrow> string" where
  "describe_refusal cx code = to_string_ApplyCode code @ '': '' @ cx_detail cx code"

definition note_result :: "Context \<Rightarrow> ApplyResult \<Rightarrow> string \<Rightarrow> DiscoveryReport \<Rightarrow> DiscoveryReport" where
  "note_result cx result what report =
     (if ar_code result = Accepted then report\<lparr>dp_accepted := dp_accepted report + 1\<rparr>
      else if ar_code result = AcceptedIdempotent then report\<lparr>dp_idempotent := dp_idempotent report + 1\<rparr>
      else report\<lparr>dp_rejected := dp_rejected report + 1,
        dp_notes := dp_notes report @ [what @ '': '' @ describe_refusal cx (ar_code result)]\<rparr>)"

definition default_source :: "DiscoveryContext \<Rightarrow> EvidenceSource \<Rightarrow> EvidenceSource" where
  "default_source dc source =
     (if es_source_class source = SourceClass.Unspecified
      then source\<lparr>es_source_class := dc_source_class dc, es_provenance := dc_provenance dc\<rparr> else source)"

definition classify :: "DiscoveryContext \<Rightarrow> Publication \<Rightarrow> Publication" where
  "classify dc publication =
     (let c = pb_capability publication; q = pb_quirk publication; f = pb_compatibility publication in
      publication\<lparr>
        pb_capability := c\<lparr>cr_source := default_source dc (cr_source c)\<rparr>,
        pb_quirk := q\<lparr>qr_source := default_source dc (qr_source q)\<rparr>,
        pb_compatibility := f\<lparr>cf_source := default_source dc (cf_source f)\<rparr>\<rparr>)"

text \<open>The publication as the sink receives it: bound to the context and to a fresh sequence.\<close>

definition stamp :: "DiscoveryContext \<Rightarrow> u64 \<Rightarrow> Publication \<Rightarrow> Publication" where
  "stamp dc sequence publication =
     publication\<lparr>pb_publisher := dc_publisher dc, pb_sequence := sequence,
       pb_evidence_generation := dc_evidence_generation dc, pb_issued_at_utc := dc_observed_at_utc dc\<rparr>"

definition send_stamped ::
  "Context \<Rightarrow> 's EvidenceSink \<Rightarrow> string \<Rightarrow> Publication \<Rightarrow> Builder \<times> 's \<Rightarrow> ApplyResult \<times> Builder \<times> 's" where
  "send_stamped cx si what publication = (\<lambda>(builder, s).
     (case si_next_sequence si (pub_id (dc_publisher (bu_context builder))) s of
        (sequence, s) \<Rightarrow>
          (case si_publish si (stamp (bu_context builder) sequence publication) s of
             (result, s) \<Rightarrow>
               (result, builder\<lparr>bu_report := note_result cx result what (bu_report builder)\<rparr>, s))))"

definition what_of :: "Publication \<Rightarrow> string" where
  "what_of publication =
     to_string_PublicationKind (pb_kind publication) @
     (if id_valid (cr_capability (pb_capability publication))
      then '' '' @ cr_capability (pb_capability publication)
      else if id_valid (qr_id (pb_quirk publication)) then '' '' @ qr_id (pb_quirk publication)
      else if id_valid (cf_id (pb_compatibility publication)) then '' '' @ cf_id (pb_compatibility publication)
      else [])"

definition submit ::
  "Context \<Rightarrow> 's EvidenceSink \<Rightarrow> Publication \<Rightarrow> Builder \<times> 's \<Rightarrow> Status \<times> Builder \<times> 's" where
  "submit cx si publication = (\<lambda>(builder, s).
     (case send_stamped cx si (what_of publication) (classify (bu_context builder) publication) (builder, s) of
        (result, state) \<Rightarrow> (if accepted result then Ok else InvalidArgument, state)))"

definition register_as ::
  "Context \<Rightarrow> 's EvidenceSink \<Rightarrow> PublicationKind \<Rightarrow> DeviceRegistration \<Rightarrow> Builder \<times> 's \<Rightarrow>
   (ErrorCode + SubjectContext) \<times> Builder \<times> 's" where
  "register_as cx si kind registration state =
     (case send_stamped cx si (to_string_PublicationKind kind)
         (no_publication\<lparr>pb_kind := kind, pb_device := registration\<rparr>) state of
        (result, state) \<Rightarrow>
          (if \<not> accepted result then Inl InvalidArgument
           else Inr \<lparr>sc_device = di_id (reg_identity registration), sc_generation = ar_device_generation result,
             sc_boot = ar_device_boot result\<rparr>, state))"

definition register_subject ::
  "Context \<Rightarrow> 's EvidenceSink \<Rightarrow> DeviceRegistration \<Rightarrow> Builder \<times> 's \<Rightarrow>
   (ErrorCode + SubjectContext) \<times> Builder \<times> 's" where
  "register_subject cx si registration = register_as cx si PublicationKind.RegisterDevice registration"

definition announce_device_generation ::
  "Context \<Rightarrow> 's EvidenceSink \<Rightarrow> DeviceRegistration \<Rightarrow> Builder \<times> 's \<Rightarrow>
   (ErrorCode + SubjectContext) \<times> Builder \<times> 's" where
  "announce_device_generation cx si registration =
     register_as cx si PublicationKind.PublishDeviceGeneration (registration\<lparr>reg_device_boot_observed := True\<rparr>)"

text \<open>What an adapter says of one capability.\<close>

record Observation =
  ob_capability :: string
  ob_support :: SupportState
  ob_value :: CapabilityValue
  ob_precision :: PrecisionClass
  ob_native_reference :: string
  ob_conditions :: ConditionPtr
  ob_source_class :: SourceClass
  ob_provenance :: ProvenanceClass

definition adapter_of :: "Builder \<Rightarrow> string" where
  "adapter_of builder =
     (if dc_adapter (bu_context builder) = [] then dp_adapter (bu_report builder)
      else dc_adapter (bu_context builder))"

definition capability_publication :: "Builder \<Rightarrow> SubjectContext \<Rightarrow> Observation \<Rightarrow> Publication" where
  "capability_publication builder subject observation =
     no_publication\<lparr>pb_kind := PublicationKind.PublishCapability,
       pb_capability := no_capability\<lparr>cr_device := sc_device subject,
         cr_device_generation := sc_generation subject, cr_device_boot := sc_boot subject,
         cr_capability := ob_capability observation, cr_support := ob_support observation,
         cr_value := ob_value observation, cr_precision := ob_precision observation,
         cr_conditions := ob_conditions observation,
         cr_source := no_source\<lparr>es_source_class := ob_source_class observation,
           es_provenance := ob_provenance observation, es_adapter := adapter_of builder,
           es_native_reference := ob_native_reference observation,
           es_observed_at_utc := dc_observed_at_utc (bu_context builder),
           es_evidence_generation := dc_evidence_generation (bu_context builder)\<rparr>\<rparr>\<rparr>"

definition publish_capability ::
  "Context \<Rightarrow> 's EvidenceSink \<Rightarrow> SubjectContext \<Rightarrow> Observation \<Rightarrow> Builder \<times> 's \<Rightarrow> Status \<times> Builder \<times> 's" where
  "publish_capability cx si subject observation = (\<lambda>(builder, s).
     submit cx si (capability_publication builder subject observation) (builder, s))"

definition curated_source :: "Builder \<Rightarrow> EvidenceSource \<Rightarrow> EvidenceSource" where
  "curated_source builder source =
     source\<lparr>es_adapter := adapter_of builder,
       es_evidence_generation := dc_evidence_generation (bu_context builder),
       es_observed_at_utc := (if es_observed_at_utc source = [] then dc_observed_at_utc (bu_context builder)
         else es_observed_at_utc source)\<rparr>"

definition builder_publish_quirk ::
  "Context \<Rightarrow> 's EvidenceSink \<Rightarrow> QuirkRecord \<Rightarrow> Builder \<times> 's \<Rightarrow> Status \<times> Builder \<times> 's" where
  "builder_publish_quirk cx si quirk = (\<lambda>(builder, s).
     submit cx si (no_publication\<lparr>
         pb_kind := (if qr_withdrawn quirk then PublicationKind.WithdrawQuirk else PublicationKind.PublishQuirk),
         pb_quirk := quirk\<lparr>qr_source := curated_source builder (qr_source quirk)\<rparr>\<rparr>) (builder, s))"

definition builder_publish_compatibility ::
  "Context \<Rightarrow> 's EvidenceSink \<Rightarrow> CompatibilityFact \<Rightarrow> Builder \<times> 's \<Rightarrow> Status \<times> Builder \<times> 's" where
  "builder_publish_compatibility cx si compatibility = (\<lambda>(builder, s).
     submit cx si (no_publication\<lparr>
         pb_kind := (if cf_withdrawn compatibility then PublicationKind.WithdrawCompatibility
           else PublicationKind.PublishCompatibility),
         pb_compatibility := compatibility\<lparr>cf_source := curated_source builder (cf_source compatibility)\<rparr>\<rparr>)
       (builder, s))"

definition builder_register_schema ::
  "Context \<Rightarrow> 's EvidenceSink \<Rightarrow> CapabilitySchema \<Rightarrow> Builder \<times> 's \<Rightarrow> Status \<times> Builder \<times> 's" where
  "builder_register_schema cx si schema =
     submit cx si (no_publication\<lparr>pb_kind := PublicationKind.RegisterCapabilitySchema, pb_schema := schema\<rparr>)"

definition builder_heartbeat :: "Context \<Rightarrow> 's EvidenceSink \<Rightarrow> Builder \<times> 's \<Rightarrow> Status \<times> Builder \<times> 's" where
  "builder_heartbeat cx si = submit cx si (no_publication\<lparr>pb_kind := PublicationKind.Heartbeat\<rparr>)"

definition bump_evidence_generation :: "Builder \<Rightarrow> Builder" where
  "bump_evidence_generation builder =
     (let dc = bu_context builder in
      builder\<lparr>bu_context := dc\<lparr>dc_evidence_generation :=
        (if gen_valid (dc_evidence_generation dc) then gen_next (dc_evidence_generation dc) else gen_first)\<rparr>\<rparr>)"

section \<open>The harness\<close>

text \<open>\<open>be_available\<close> is the reason a backend cannot run, when it cannot.\<close>

record 's Backend =
  be_adapter_name :: string
  be_source_class :: SourceClass
  be_provenance :: ProvenanceClass
  be_available :: "string option"
  be_discover :: "DiscoveryContext \<Rightarrow> 's EvidenceSink \<Rightarrow> DiscoveryReport \<Rightarrow> 's \<Rightarrow> Status \<times> DiscoveryReport \<times> 's"

definition effective_context :: "'s Backend \<Rightarrow> PublisherIdentity \<Rightarrow> DiscoveryContext \<Rightarrow> DiscoveryContext" where
  "effective_context backend publisher dc =
     dc\<lparr>dc_publisher := publisher, dc_source_class := be_source_class backend,
       dc_provenance := be_provenance backend, dc_adapter := be_adapter_name backend\<rparr>"

definition run_discovery ::
  "Context \<Rightarrow> 's Backend \<Rightarrow> DiscoveryContext \<Rightarrow> 's EvidenceSink \<Rightarrow> 's \<Rightarrow> Status \<times> DiscoveryReport \<times> 's" where
  "run_discovery cx backend dc si s =
     (let report = empty_report\<lparr>dp_adapter := be_adapter_name backend\<rparr> in
      case be_available backend of
        Some reason \<Rightarrow>
          (Ok, report\<lparr>dp_notes := [if reason = [] then ''adapter reports itself unavailable'' else reason]\<rparr>, s)
      | None \<Rightarrow>
          (let report = report\<lparr>dp_available := True\<rparr> in
           case si_ensure_publisher si (dc_publisher dc) (be_adapter_name backend) s of
             (registered, s) \<Rightarrow>
               if \<not> accepted registered
               then (InvalidProvenance,
                 report\<lparr>dp_notes := [''publisher registration failed: '' @ describe_refusal cx (ar_code registered)]\<rparr>, s)
               else case be_discover backend (effective_context backend (ar_assigned_publisher registered) dc)
                   si report s of
                 (status, report, s) \<Rightarrow>
                   (status, report\<lparr>dp_adapter := be_adapter_name backend, dp_available := True\<rparr>, s)))"

section \<open>Derived identities\<close>

definition canonical_device_id :: "string \<Rightarrow> string \<Rightarrow> string" where
  "canonical_device_id kind token =
     id_parse (kind @ ''.'' @ hex64 (fnv1a64_mix token (fnv1a64_mix kind kFnvOffsetBasis)))"

definition host_device_id :: "PlatformIdentity \<Rightarrow> string" where
  "host_device_id platform =
     canonical_device_id ''dev.host'' (pf_id platform @ ''|'' @ pf_vendor platform @ ''|'' @ pf_model platform)"

end
