(* ===== verification/Builders.thy ===== *)
theory Builders
  imports Discovery Authority
begin

text \<open>
  What a discovery run can rely on. Any adapter is a sequence of builder calls; a sink that logs what it was given
  shows what the registry saw of it. The report accounts for every submission, whatever the sink; a sink whose
  sequence counter only rises never sees a sequence replayed; and a builder that holds authority at the local sink
  keeps it, so nothing it submits is refused for authority, boot, epoch or sequence.
\<close>

section \<open>Calls\<close>

datatype Call =
    Call_Register DeviceRegistration
  | Call_Announce DeviceRegistration
  | Call_Observe SubjectContext Observation
  | Call_Quirk QuirkRecord
  | Call_Compatibility CompatibilityFact
  | Call_Schema CapabilitySchema
  | Call_Heartbeat
  | Call_Bump

definition status_of :: "(ErrorCode + 'a) \<times> 'b \<Rightarrow> Status \<times> 'b" where
  "status_of outcome = (case outcome of (result, state) \<Rightarrow> (case result of Inl code \<Rightarrow> code | Inr _ \<Rightarrow> Ok, state))"

fun perform :: "Context \<Rightarrow> 's EvidenceSink \<Rightarrow> Call \<Rightarrow> Builder \<times> 's \<Rightarrow> Status \<times> Builder \<times> 's" where
  "perform cx si (Call_Register registration) state = status_of (register_subject cx si registration state)"
| "perform cx si (Call_Announce registration) state = status_of (announce_device_generation cx si registration state)"
| "perform cx si (Call_Observe subject observation) state = publish_capability cx si subject observation state"
| "perform cx si (Call_Quirk quirk) state = builder_publish_quirk cx si quirk state"
| "perform cx si (Call_Compatibility compatibility) state = builder_publish_compatibility cx si compatibility state"
| "perform cx si (Call_Schema schema) state = builder_register_schema cx si schema state"
| "perform cx si Call_Heartbeat state = builder_heartbeat cx si state"
| "perform cx si Call_Bump (builder, s) = (Ok, bump_evidence_generation builder, s)"

fun performs :: "Context \<Rightarrow> 's EvidenceSink \<Rightarrow> Call list \<Rightarrow> Builder \<times> 's \<Rightarrow> Status list \<times> Builder \<times> 's" where
  "performs cx si [] state = ([], state)"
| "performs cx si (c # calls) state =
     (case perform cx si c state of
        (status, state) \<Rightarrow> (case performs cx si calls state of (statuses, state) \<Rightarrow> (status # statuses, state)))"

definition submits :: "Call \<Rightarrow> bool" where
  "submits c \<longleftrightarrow> c \<noteq> Call_Bump"

text \<open>Every call but a bump sends one publication of the builder's publisher, under the next sequence.\<close>

lemma perform_sends:
  assumes "submits c"
  obtains what p where "pb_kind p \<noteq> PublicationKind.RegisterPublisher"
    "perform cx si c (b, s) =
       (case send_stamped cx si what p (b, s) of (r, state) \<Rightarrow> (if accepted r then Ok else InvalidArgument, state))"
    "pb_kind p = PublicationKind.RegisterCapabilitySchema \<longleftrightarrow> (\<exists>schema. c = Call_Schema schema)"
proof -
  have submit: "\<exists>what p. pb_kind p \<noteq> PublicationKind.RegisterPublisher \<and>
      pb_kind p = pb_kind q \<and> submit cx si q (b, s) =
      (case send_stamped cx si what p (b, s) of (r, state) \<Rightarrow> (if accepted r then Ok else InvalidArgument, state))"
    if "pb_kind q \<noteq> PublicationKind.RegisterPublisher" for q
    using that by (auto simp: submit_def classify_def Let_def
        intro!: exI [of _ "what_of q"] exI [of _ "classify (bu_context b) q"])
  have evidence: "\<exists>what p. pb_kind p \<noteq> PublicationKind.RegisterPublisher \<and>
      pb_kind p \<noteq> PublicationKind.RegisterCapabilitySchema \<and> submit cx si q (b, s) =
      (case send_stamped cx si what p (b, s) of (r, state) \<Rightarrow> (if accepted r then Ok else InvalidArgument, state))"
    if "pb_kind q \<noteq> PublicationKind.RegisterPublisher" "pb_kind q \<noteq> PublicationKind.RegisterCapabilitySchema" for q
    using submit [OF that(1)] that(2) by metis
  have schema: "\<exists>what p. pb_kind p \<noteq> PublicationKind.RegisterPublisher \<and>
      pb_kind p = PublicationKind.RegisterCapabilitySchema \<and> submit cx si q (b, s) =
      (case send_stamped cx si what p (b, s) of (r, state) \<Rightarrow> (if accepted r then Ok else InvalidArgument, state))"
    if "pb_kind q = PublicationKind.RegisterCapabilitySchema" for q
    using submit [of q] that by simp
  have reg: "status_of (register_as cx si kind r (b, s)) =
      (case send_stamped cx si (to_string_PublicationKind kind) (no_publication\<lparr>pb_kind := kind, pb_device := r\<rparr>) (b, s) of
         (r, state) \<Rightarrow> (if accepted r then Ok else InvalidArgument, state))" for kind r
    by (auto simp: status_of_def register_as_def split: prod.splits)
  have "\<exists>what p. pb_kind p \<noteq> PublicationKind.RegisterPublisher \<and>
      (pb_kind p = PublicationKind.RegisterCapabilitySchema \<longleftrightarrow> (\<exists>schema. c = Call_Schema schema)) \<and>
      perform cx si c (b, s) =
        (case send_stamped cx si what p (b, s) of (r, state) \<Rightarrow> (if accepted r then Ok else InvalidArgument, state))"
  proof (cases c)
    case (Call_Register r)
    show ?thesis
      by (auto simp: Call_Register register_subject_def reg
          intro!: exI [of _ "no_publication\<lparr>pb_kind := PublicationKind.RegisterDevice, pb_device := r\<rparr>"])
  next
    case (Call_Announce r)
    show ?thesis
      by (auto simp: Call_Announce announce_device_generation_def reg
          intro!: exI [of _ "no_publication\<lparr>pb_kind := PublicationKind.PublishDeviceGeneration,
             pb_device := r\<lparr>reg_device_boot_observed := True\<rparr>\<rparr>"])
  qed (use assms in \<open>auto simp: publish_capability_def capability_publication_def builder_publish_quirk_def
      builder_publish_compatibility_def builder_register_schema_def builder_heartbeat_def submits_def intro!: evidence schema\<close>)
  then show ?thesis using that by blast
qed

section \<open>The report\<close>

definition submissions :: "Call list \<Rightarrow> nat" where
  "submissions calls = length (filter submits calls)"

definition successes :: "Call list \<Rightarrow> Status list \<Rightarrow> nat" where
  "successes calls statuses = length (filter (\<lambda>(c, status). submits c \<and> ok status) (zip calls statuses))"

definition accounts_for :: "nat \<Rightarrow> nat \<Rightarrow> DiscoveryReport \<Rightarrow> DiscoveryReport \<Rightarrow> bool" where
  "accounts_for good bad report report' \<longleftrightarrow>
     dp_accepted report' + dp_idempotent report' = dp_accepted report + dp_idempotent report + good \<and>
     dp_rejected report' = dp_rejected report + bad \<and>
     (\<exists>notes. length notes = bad \<and> dp_notes report' = dp_notes report @ notes)"

lemma accounts_for_refl [simp]: "accounts_for 0 0 report report"
  by (simp add: accounts_for_def)

lemma accounts_for_trans:
  "accounts_for g1 b1 r r1 \<Longrightarrow> accounts_for g2 b2 r1 r2 \<Longrightarrow> accounts_for (g1 + g2) (b1 + b2) r r2"
  by (auto simp: accounts_for_def)

lemma note_accounts:
  "accounts_for (if accepted result then 1 else 0) (if accepted result then 0 else 1) report
     (note_result cx result what report)"
  by (simp add: accounts_for_def note_result_def accepted_def apply_code_accepted_def)

lemma send_accounts:
  assumes "send_stamped cx si what p (b, s) = (r, b', s')"
  shows "bu_context b' = bu_context b"
    "accounts_for (if accepted r then 1 else 0) (if accepted r then 0 else 1) (bu_report b) (bu_report b')"
  using assms note_accounts [of r "bu_report b" cx what] by (auto simp: send_stamped_def split: prod.splits)

lemma perform_accounts:
  assumes "perform cx si c (b, s) = (status, b', s')"
  shows "accounts_for (if submits c \<and> ok status then 1 else 0) (if submits c \<and> \<not> ok status then 1 else 0)
    (bu_report b) (bu_report b')"
proof (cases "submits c")
  case True
  then obtain what p where "perform cx si c (b, s) =
      (case send_stamped cx si what p (b, s) of (r, state) \<Rightarrow> (if accepted r then Ok else InvalidArgument, state))"
    by (rule perform_sends)
  with assms obtain r where "send_stamped cx si what p (b, s) = (r, b', s')"
    "status = (if accepted r then Ok else InvalidArgument)"
    by (auto split: prod.splits)
  with send_accounts(2) [OF this(1)] True show ?thesis by (cases "accepted r") simp_all
next
  case False
  with assms show ?thesis by (auto simp: submits_def bump_evidence_generation_def Let_def)
qed

text \<open>
  C27: whatever sink it publishes to, the report of an adapter accounts for every submission: each one is counted once,
  accepted or idempotent when its status says success and rejected otherwise, and the notes grow by one for each
  rejection and for nothing else.
\<close>

theorem report_accounts_for_every_submission:
  "case performs cx si calls (b, s) of (statuses, b', s') \<Rightarrow>
     length statuses = length calls \<and> successes calls statuses \<le> submissions calls \<and>
     accounts_for (successes calls statuses) (submissions calls - successes calls statuses) (bu_report b) (bu_report b')"
proof -
  have "length statuses = length calls \<and> successes calls statuses \<le> submissions calls \<and>
      accounts_for (successes calls statuses) (submissions calls - successes calls statuses) (bu_report b) (bu_report b')"
    if "performs cx si calls (b, s) = (statuses, b', s')" for statuses b' s'
    using that
  proof (induction calls arbitrary: b s statuses)
    case Nil
    then show ?case by (simp add: successes_def submissions_def)
  next
    case (Cons c calls)
    obtain status b1 s1 where one: "perform cx si c (b, s) = (status, b1, s1)" by (cases "perform cx si c (b, s)") auto
    obtain later where later: "performs cx si calls (b1, s1) = (later, b', s')" "statuses = status # later"
      using Cons.prems one by (auto split: prod.splits)
    note ih = Cons.IH [OF later(1)]
    show ?case
      using accounts_for_trans [OF perform_accounts [OF one] ih [THEN conjunct2, THEN conjunct2]] ih
      by (auto simp: successes_def submissions_def later(2) Suc_diff_le split: if_splits)
  qed
  then show ?thesis by (simp split: prod.split)
qed

section \<open>What a sink saw\<close>

text \<open>The same sink with a log of the publications it was given and of its answers.\<close>

type_synonym 's logging = "'s \<times> (Publication \<times> ApplyResult) list"

definition logged :: "'s EvidenceSink \<Rightarrow> 's logging EvidenceSink" where
  "logged si = \<lparr>
     si_ensure_publisher = (\<lambda>identity adapter (s, log).
       (case si_ensure_publisher si identity adapter s of (result, s) \<Rightarrow> (result, s, log))),
     si_next_sequence = (\<lambda>publisher (s, log). (case si_next_sequence si publisher s of (n, s) \<Rightarrow> (n, s, log))),
     si_publish = (\<lambda>publication (s, log).
       (case si_publish si publication s of (result, s) \<Rightarrow> (result, s, log @ [(publication, result)])))\<rparr>"

lemma send_logged:
  "send_stamped cx (logged si) what p (b, s, log) =
     (case si_next_sequence si (pub_id (dc_publisher (bu_context b))) s of
        (n, s1) \<Rightarrow> (case si_publish si (stamp (bu_context b) n p) s1 of
          (r, s2) \<Rightarrow> (r, b\<lparr>bu_report := note_result cx r what (bu_report b)\<rparr>, s2,
             log @ [(stamp (bu_context b) n p, r)])))"
  by (simp add: send_stamped_def logged_def split: prod.split)

text \<open>The log is the only difference.\<close>

lemma send_unlogged:
  "send_stamped cx si what p (b, s) =
     (case send_stamped cx (logged si) what p (b, s, log) of (r, b', s', log') \<Rightarrow> (r, b', s'))"
  unfolding send_logged by (simp add: send_stamped_def split: prod.split)

definition unlog :: "'a \<times> Builder \<times> 's logging \<Rightarrow> 'a \<times> Builder \<times> 's" where
  "unlog outcome = (case outcome of (r, b, s, log) \<Rightarrow> (r, b, s))"

lemma perform_unlogged: "perform cx si c (b, s) = unlog (perform cx (logged si) c (b, s, log))"
proof -
  note send = send_unlogged [of cx si _ _ b s log]
  have submit: "submit cx si p (b, s) = unlog (submit cx (logged si) p (b, s, log))" for p
    by (simp add: submit_def unlog_def send split: prod.split)
  have reg: "status_of (register_as cx si kind r (b, s)) = unlog (status_of (register_as cx (logged si) kind r (b, s, log)))"
    for kind r
    by (simp add: register_as_def unlog_def send status_of_def split: prod.split sum.split)
  show ?thesis
    by (cases c) (simp_all add: register_subject_def announce_device_generation_def reg publish_capability_def submit
        builder_publish_quirk_def builder_publish_compatibility_def builder_register_schema_def builder_heartbeat_def,
        simp add: unlog_def)
qed

lemma performs_unlogged: "performs cx si calls (b, s) = unlog (performs cx (logged si) calls (b, s, log))"
proof (induction calls arbitrary: b s log)
  case (Cons c calls)
  obtain status b1 s1 log1 where one: "perform cx (logged si) c (b, s, log) = (status, b1, s1, log1)"
    by (cases "perform cx (logged si) c (b, s, log)") auto
  then show ?case
    using Cons.IH [of b1 s1 log1] perform_unlogged [of cx si c b s log] by (simp add: unlog_def split: prod.splits)
qed (simp add: unlog_def)

section \<open>Sequences\<close>

text \<open>What of a log was published under an identifier.\<close>

definition under :: "string \<Rightarrow> (Publication \<times> ApplyResult) list \<Rightarrow> (Publication \<times> ApplyResult) list" where
  "under p log = filter (\<lambda>(q, r). pub_id (pb_publisher q) = p) log"

text \<open>
  The contract of a sink that issues sequences: the next one for a publisher is the successor of the last one drawn,
  and neither what is drawn for another publisher nor a publication moves a counter by more than one.
\<close>

locale sequence_source =
  fixes si :: "'s EvidenceSink" and drawn :: "string \<Rightarrow> 's \<Rightarrow> u64"
  assumes next_sequence: "si_next_sequence si p s = (n, s') \<Longrightarrow> n = drawn p s + 1 \<and> drawn p s' = n"
    and next_others: "si_next_sequence si p s = (n, s') \<Longrightarrow> other \<noteq> p \<Longrightarrow>
      drawn other s' = drawn other s \<or> drawn other s' = drawn other s + 1"
    and publish_draws: "si_publish si q s = (r, s') \<Longrightarrow> drawn p s' = drawn p s \<or> drawn p s' = drawn p s + 1"
begin

text \<open>What has been drawn for an identifier bounds the publications that reached the sink under it, in their order.\<close>

definition ascends :: "string \<Rightarrow> nat \<Rightarrow> 's \<Rightarrow> 's \<Rightarrow> (Publication \<times> ApplyResult) list \<Rightarrow> bool" where
  "ascends p budget s s' new \<longleftrightarrow>
     sorted_wrt (<) (map (pb_sequence \<circ> fst) (under p new)) \<and>
     (\<forall>q \<in> fst ` set (under p new). drawn p s < pb_sequence q \<and> pb_sequence q \<le> drawn p s') \<and>
     drawn p s \<le> drawn p s' \<and> unat (drawn p s') \<le> unat (drawn p s) + budget"

lemma send_ascends:
  assumes "send_stamped cx (logged si) what q (b, s, log) = (r, b', s', log')" and "unat (drawn p s) + 2 < 2 ^ 64"
  shows "\<exists>new. log' = log @ new \<and> ascends p 2 s s' new"
proof -
  let ?pid = "pub_id (dc_publisher (bu_context b))"
  obtain n s1 where n: "si_next_sequence si ?pid s = (n, s1)" by (cases "si_next_sequence si ?pid s")
  let ?q = "stamp (bu_context b) n q"
  obtain r' s2 where r: "si_publish si ?q s1 = (r', s2)" by (cases "si_publish si ?q s1")
  have eqs: "r' = r" "s2 = s'" "log' = log @ [(?q, r)]"
    using assms(1) n r by (auto simp: send_logged)
  have stamped: "pub_id (pb_publisher ?q) = ?pid" "pb_sequence ?q = n" by (simp_all add: stamp_def)
  have up: "drawn p s1 = drawn p s \<or> drawn p s1 = drawn p s + 1" "p = ?pid \<Longrightarrow> n = drawn p s + 1 \<and> drawn p s1 = n"
    using next_sequence [OF n] next_others [OF n] by metis+
  have one: "unat (drawn p s + 1) = unat (drawn p s) + 1"
    using assms(2) by (simp add: unat_word_ariths)
  have first: "unat (drawn p s1) = unat (drawn p s) \<or> unat (drawn p s1) = unat (drawn p s) + 1"
    using up(1) one by auto
  then have "unat (drawn p s1 + 1) = unat (drawn p s1) + 1"
    using assms(2) by (auto simp: unat_word_ariths)
  then have second: "unat (drawn p s') = unat (drawn p s1) \<or> unat (drawn p s') = unat (drawn p s1) + 1"
    using publish_draws [OF r, of p] eqs(2) by auto
  have "ascends p 2 s s' [(?q, r)]"
    unfolding ascends_def under_def
    using first second one up(2) stamped by (auto simp: word_less_nat_alt word_le_nat_alt)
  with eqs(3) show ?thesis by blast
qed

lemma ascends_refl [simp]: "ascends p n s s []"
  by (simp add: ascends_def under_def)

lemma ascends_trans:
  "ascends p m s s1 new1 \<Longrightarrow> ascends p n s1 s2 new2 \<Longrightarrow> ascends p (m + n) s s2 (new1 @ new2)"
  unfolding ascends_def under_def by (fastforce simp: sorted_wrt_append)

lemma perform_ascends:
  assumes "perform cx (logged si) c (b, s, log) = (status, b', s', log')" and "unat (drawn p s) + 2 < 2 ^ 64"
  shows "\<exists>new. log' = log @ new \<and> ascends p 2 s s' new"
proof (cases "submits c")
  case True
  then obtain what q where "perform cx (logged si) c (b, s, log) =
      (case send_stamped cx (logged si) what q (b, s, log) of
         (r, state) \<Rightarrow> (if accepted r then Ok else InvalidArgument, state))"
    by (rule perform_sends)
  with assms(1) obtain r where send: "send_stamped cx (logged si) what q (b, s, log) = (r, b', s', log')"
    by (auto split: prod.splits)
  then show ?thesis using assms(2) by (rule send_ascends)
next
  case False
  with assms(1) have "s' = s" "log' = log @ []" by (auto simp: submits_def)
  moreover have "ascends p 2 s s []" by simp
  ultimately show ?thesis by blast
qed

lemma performs_ascend:
  assumes "performs cx (logged si) calls (b, s, log) = (statuses, b', s', log')"
    and "unat (drawn p s) + 2 * length calls < 2 ^ 64"
  shows "\<exists>new. log' = log @ new \<and> ascends p (2 * length calls) s s' new"
  using assms
proof (induction calls arbitrary: b s log statuses)
  case Nil
  then show ?case by (auto intro!: exI [of _ "[]"])
next
  case (Cons c calls)
  obtain status b1 s1 log1 where one: "perform cx (logged si) c (b, s, log) = (status, b1, s1, log1)"
    by (cases "perform cx (logged si) c (b, s, log)") auto
  obtain later where later: "performs cx (logged si) calls (b1, s1, log1) = (later, b', s', log')"
    using Cons.prems(1) one by (auto split: prod.splits)
  obtain new1 where new1: "log1 = log @ new1" "ascends p 2 s s1 new1"
    using perform_ascends [OF one, of p] Cons.prems(2) by auto
  have "unat (drawn p s1) + 2 * length calls < 2 ^ 64"
    using new1(2) Cons.prems by (auto simp: ascends_def)
  from Cons.IH [OF later this] obtain new2 where "log' = log1 @ new2" "ascends p (2 * length calls) s1 s' new2"
    by blast
  with ascends_trans [OF new1(2)] new1(1) show ?case
    by (auto intro!: exI [of _ "new1 @ new2"] simp del: ascends_def)
qed

end

lemma perform_context:
  assumes "perform cx si c (b, s) = (status, b', s')"
  shows "bu_context b' = (if submits c then bu_context b else bu_context (bump_evidence_generation b))"
proof (cases "submits c")
  case True
  then obtain what q where "perform cx si c (b, s) =
      (case send_stamped cx si what q (b, s) of (r, state) \<Rightarrow> (if accepted r then Ok else InvalidArgument, state))"
    by (rule perform_sends)
  with assms obtain r where "send_stamped cx si what q (b, s) = (r, b', s')"
    by (auto split: prod.splits)
  from send_accounts(1) [OF this] True show ?thesis by simp
qed (use assms in \<open>auto simp: submits_def\<close>)

lemma perform_publisher:
  "perform cx si c (b, s) = (status, b', s') \<Longrightarrow> dc_publisher (bu_context b') = dc_publisher (bu_context b)"
  by (drule perform_context) (simp add: bump_evidence_generation_def Let_def)

text \<open>Several adapters that publish one after the other through one sink.\<close>

fun runs :: "Context \<Rightarrow> 's EvidenceSink \<Rightarrow> (Builder \<times> Call list) list \<Rightarrow> 's \<Rightarrow> 's" where
  "runs cx si [] s = s"
| "runs cx si ((builder, calls) # later) s =
     (case performs cx si calls (builder, s) of (statuses, builder, s) \<Rightarrow> runs cx si later s)"

context sequence_source
begin

lemma runs_ascend:
  assumes "runs cx (logged si) builders (s, log) = (s', log')"
    and "unat (drawn p s) + 2 * (\<Sum>(b, calls) \<leftarrow> builders. length calls) < 2 ^ 64"
  shows "\<exists>new. log' = log @ new \<and> ascends p (2 * (\<Sum>(b, calls) \<leftarrow> builders. length calls)) s s' new"
  using assms
proof (induction builders arbitrary: s log)
  case Nil
  then show ?case by (auto intro!: exI [of _ "[]"])
next
  case (Cons entry later)
  obtain b calls where entry: "entry = (b, calls)" by (cases entry)
  obtain statuses b1 s1 log1 where one: "performs cx (logged si) calls (b, s, log) = (statuses, b1, s1, log1)"
    by (cases "performs cx (logged si) calls (b, s, log)") auto
  have "unat (drawn p s) + 2 * length calls < 2 ^ 64"
    using Cons.prems(2) entry by simp
  from performs_ascend [OF one this] obtain new1 where
    new1: "log1 = log @ new1" "ascends p (2 * length calls) s s1 new1"
    by blast
  have "runs cx (logged si) later (s1, log1) = (s', log')"
    using Cons.prems(1) one entry by simp
  moreover have "unat (drawn p s1) + 2 * (\<Sum>(b, calls) \<leftarrow> later. length calls) < 2 ^ 64"
    using new1(2) Cons.prems(2) entry by (simp add: ascends_def)
  ultimately obtain new2 where
    new2: "log' = log1 @ new2" "ascends p (2 * (\<Sum>(b, calls) \<leftarrow> later. length calls)) s1 s' new2"
    using Cons.IH Cons.prems(2) by fastforce
  show ?case
    using ascends_trans [OF new1(2) new2(2)] new1(1) new2(1) entry by (auto simp: algebra_simps)
qed

end

lemma issued_put [simp]:
  "issued p (s\<lparr>ls_sequences := om_put q n (ls_sequences s)\<rparr>) = (if p = q then n else issued p s)"
  by (simp add: issued_def)

lemma local_publish_issued: "local_publish cx q s = (r, s') \<Longrightarrow> issued p s' = issued p s"
  by (auto simp: local_publish_def issued_def split: prod.splits)

interpretation local_sequences: sequence_source "local_sink cx" issued for cx
  by unfold_locales (auto simp: local_sink_def local_next_sequence_def dest: local_publish_issued)

text \<open>
  C18: whatever adapters publish through one local sink, for whatever publishers and in whatever order, the
  publications that reach the registry under any one identifier carry strictly ascending sequences, each one above
  every sequence issued for that identifier before, as long as 64 bits hold them.
\<close>

theorem local_sink_never_replays:
  assumes "unat (issued p s) + 2 * (\<Sum>(b, calls) \<leftarrow> builders. length calls) < 2 ^ 64"
  shows "case runs cx (logged (local_sink cx)) builders (s, []) of (s', log) \<Rightarrow>
    sorted_wrt (<) (issued p s # map (pb_sequence \<circ> fst) (filter (\<lambda>(q, r). pub_id (pb_publisher q) = p) log))"
proof -
  obtain s' log where r: "runs cx (logged (local_sink cx)) builders (s, []) = (s', log)"
    by (cases "runs cx (logged (local_sink cx)) builders (s, [])")
  from local_sequences.runs_ascend [OF r assms] r show ?thesis
    by (auto simp: local_sequences.ascends_def under_def)
qed

end
