(* ===== verification/Standing.thy ===== *)
theory Standing
  imports Builders Visibility
begin

text \<open>
  The standing of a builder at a registry: its identity is the one in force, and neither its sequence nor its evidence
  generation is behind what the registry has seen of the boot. Evidence in good standing is judged by its content
  only, and standing is kept by every publication of the builder and by the registration that begins a run.
\<close>

section \<open>Standing\<close>

definition standing :: "PublisherIdentity \<Rightarrow> u64 \<Rightarrow> u64 \<Rightarrow> Registry \<Rightarrow> bool" where
  "standing i sequence generation reg \<longleftrightarrow>
     pub_epoch i = rg_epoch reg \<and>
     (\<exists>st. om_find (pub_id i) (rg_publishers reg) = Some st \<and> \<not> ps_publisher_fenced st \<and>
        pub_boot i \<notin> set (ps_fenced_boots st) \<and> pub_boot (pr_identity (ps_record st)) = pub_boot i \<and>
        wm_max_sequence (watermark_of st (pub_boot i)) \<le> sequence \<and>
        wm_max_evidence_generation (watermark_of st (pub_boot i)) \<le> generation)"

text \<open>
  The refusals that say something of the publisher, its boot, epoch, sequence or generation. One of them is also given
  for the content of a publication: a quirk or a compatibility fact older than the one the registry holds regresses.
\<close>

definition authority_codes :: "ApplyCode set" where
  "authority_codes = {RejectedUnknownPublisher, RejectedFencedPublisher, RejectedStaleBoot, RejectedStaleEpoch,
     RejectedStaleSequence, RejectedGenerationRegression}"

definition regresses :: "Registry \<Rightarrow> Publication \<Rightarrow> bool" where
  "regresses reg p \<longleftrightarrow>
     pb_kind p = PublicationKind.PublishQuirk \<and>
       (case om_find (qr_id (pb_quirk p)) (rg_quirks reg) of
          None \<Rightarrow> False | Some held \<Rightarrow> qr_generation (pb_quirk p) < qr_generation held) \<or>
     pb_kind p = PublicationKind.PublishCompatibility \<and>
       (case om_find (cf_id (pb_compatibility p)) (rg_compatibility reg) of
          None \<Rightarrow> False | Some held \<Rightarrow> cf_generation (pb_compatibility p) < cf_generation held)"

definition answers_content :: "Registry \<Rightarrow> Publication \<Rightarrow> ApplyResult \<Rightarrow> bool" where
  "answers_content reg p r \<longleftrightarrow>
     ar_code r \<notin> authority_codes \<or> ar_code r = RejectedGenerationRegression \<and> regresses reg p"

lemma standing_mono: "standing i m g reg \<Longrightarrow> m \<le> n \<Longrightarrow> g \<le> h \<Longrightarrow> standing i n h reg"
  unfolding standing_def by (blast intro: order_trans)

lemma standing_cong:
  "rg_publishers reg' = rg_publishers reg \<Longrightarrow> rg_epoch reg' = rg_epoch reg \<Longrightarrow>
   standing i m g reg' = standing i m g reg"
  by (simp add: standing_def)

lemma standing_count [simp]: "standing i m g (count_rejected reg) = standing i m g reg"
  by (rule standing_cong) simp_all

lemma standing_put_watermark:
  assumes "standing i m g reg" and "om_find (pub_id i) (rg_publishers reg) = Some st"
    and "pb_publisher p = i" and "ps_fenced_boots st' = ps_fenced_boots st"
    and "ps_publisher_fenced st' = ps_publisher_fenced st" and "pr_identity (ps_record st') = pr_identity (ps_record st)"
    and "wm_max_sequence w \<le> n" "wm_max_evidence_generation w \<le> h"
  shows "standing i n h (put_watermark p w st' reg)"
  using assms by (auto simp: standing_def put_watermark_def put_publisher_def watermark_of_def)

lemma dispatch_answers_content:
  "answers_content reg p (fst (dispatch p reg))"
proof -
  have "ar_code (fst (apply_device_locked p reg)) \<notin> authority_codes"
    by (auto simp: apply_device_locked_def register_new_device_def authority_codes_def result_of_def mutating_def
        Let_def split: option.split)
  moreover have "ar_code (fst (apply_capability_locked p reg)) \<notin> authority_codes"
    by (cases rule: apply_capability_cases [of p reg])
      (auto simp: authority_codes_def result_of_def mutating_def check_key_def admit_record_def store_record_def Let_def
        split: if_splits)
  moreover have "answers_content reg p (fst (apply_quirk_locked p reg))"
    if "pb_kind p = PublicationKind.PublishQuirk \<or> pb_kind p = PublicationKind.WithdrawQuirk"
    using that by (auto simp: apply_quirk_locked_def withdraw_quirk_def publish_quirk_def authority_codes_def
        answers_content_def regresses_def result_of_def mutating_def Let_def split: option.split)
  moreover have "answers_content reg p (fst (apply_compatibility_locked p reg))"
    if "pb_kind p = PublicationKind.PublishCompatibility \<or> pb_kind p = PublicationKind.WithdrawCompatibility"
    using that by (auto simp: apply_compatibility_locked_def withdraw_compatibility_def publish_compatibility_def
        authority_codes_def answers_content_def regresses_def result_of_def mutating_def Let_def split: option.split)
  ultimately show ?thesis
    by (simp add: dispatch_def answers_content_def split: PublicationKind.split)
      (simp add: authority_codes_def result_of_def)
qed

lemma prepare_codes: "prepare reg p = Inl code \<Longrightarrow> code \<notin> authority_codes"
  by (auto simp: prepare_def authority_codes_def split: option.splits if_splits)

lemma prepare_facts:
  assumes "prepare reg p = Inr p'"
  shows "regresses reg' p' = regresses reg' p"
proof -
  have "qr_id (pb_quirk p') = qr_id (pb_quirk p) \<and> qr_generation (pb_quirk p') = qr_generation (pb_quirk p) \<and>
      cf_id (pb_compatibility p') = cf_id (pb_compatibility p) \<and>
      cf_generation (pb_compatibility p') = cf_generation (pb_compatibility p)"
    using assms by (auto simp: prepare_def bind_schema_def bind_value_def bind_publisher_def Let_def
        split: option.splits if_splits sum.splits)
  then show ?thesis by (auto simp: regresses_def prepare_fields(2) [OF assms] split: option.split)
qed

text \<open>Evidence in good standing passes the admission checks.\<close>

lemma standing_admits:
  assumes "standing i m g reg" and "pb_publisher p = i" and "m < pb_sequence p" "g \<le> pb_evidence_generation p"
    and "om_find (pub_id i) (rg_publishers reg) = Some st"
  shows "check_authority reg p = Inr st" "check_sequence h p st (open_watermark p st) = Proceed"
  using assms by (auto simp: standing_def check_authority_def check_sequence_def)

lemma standing_evidence:
  assumes "standing i m g reg" and "pb_publisher p = i" and "m < pb_sequence p" "g \<le> pb_evidence_generation p"
    and "om_find (pub_id i) (rg_publishers reg) = Some st"
  shows "fst (apply_evidence h p st reg) = fst (dispatch p reg)"
    "standing i (pb_sequence p) (pb_evidence_generation p) (snd (apply_evidence h p st reg))"
proof -
  obtain res reg1 where d: "dispatch p reg = (res, reg1)" by (cases "dispatch p reg")
  note same = dispatch_authority_fields [of p reg, unfolded d, simplified]
  have st1: "standing i m g reg1" "om_find (pub_id i) (rg_publishers reg1) = Some st"
    using assms(1,5) same by (simp_all add: standing_cong [of reg1 reg])
  let ?w = "open_watermark p st"
  have w: "wm_max_sequence ?w \<le> pb_sequence p" "wm_max_evidence_generation ?w \<le> pb_evidence_generation p"
    using assms by (auto simp: standing_def)
  have accept: "standing i (pb_sequence p) (pb_evidence_generation p) (book_acceptance h p ?w st res reg1)"
    by (rule iffD2 [OF standing_cong [OF book_acceptance_publishers]])
      (use w in \<open>simp_all add: standing_put_watermark [OF st1 assms(2)]\<close>)
  have reject: "standing i (pb_sequence p) (pb_evidence_generation p) (book_rejection p ?w st reg1)"
    using w by (simp add: book_rejection_def Let_def standing_put_watermark [OF st1 assms(2)])
  note admits = standing_admits(2) [OF assms]
  show "fst (apply_evidence h p st reg) = fst (dispatch p reg)"
    by (simp add: apply_evidence_def admits d Let_def)
  show "standing i (pb_sequence p) (pb_evidence_generation p) (snd (apply_evidence h p st reg))"
    using accept reject by (simp add: apply_evidence_def admits d Let_def)
qed

lemma standing_apply:
  assumes "standing i m g reg" and "pb_publisher p = i" and "m < pb_sequence p" "g \<le> pb_evidence_generation p"
    and "pb_kind p \<noteq> PublicationKind.RegisterPublisher" and "apply_publication h now p reg = (result, reg')"
  shows "answers_content reg p result" "standing i (pb_sequence p) (pb_evidence_generation p) reg'"
proof -
  have eq: "apply_locked h now p reg = (result, reg')"
    using assms(6) by (simp add: apply_publication_def)
  have kept: "standing i (pb_sequence p) (pb_evidence_generation p) reg"
    using standing_mono [OF assms(1)] assms(3,4) by simp
  have "answers_content reg p result \<and> standing i (pb_sequence p) (pb_evidence_generation p) reg'"
  proof (cases rule: apply_locked_cases [of reg h now p])
    case shutdown
    then show ?thesis using kept eq by (auto simp: answers_content_def authority_codes_def result_of_def)
  next
    case (refused code)
    then show ?thesis using kept eq prepare_codes by (auto simp: answers_content_def result_of_def)
  next
    case (schema p')
    have pubs: "rg_publishers reg' = rg_publishers reg" "rg_epoch reg' = rg_epoch reg"
      using schema(3) eq by (auto simp: apply_schema_publication_def register_capability_schema_locked_def Let_def
          split: prod.splits if_splits)
    have "ar_code result \<notin> authority_codes"
      using schema(3) eq by (auto simp: apply_schema_publication_def authority_codes_def result_of_def mutating_def
          split: prod.splits if_splits)
    with kept standing_cong [OF pubs] show ?thesis by (simp add: answers_content_def)
  next
    case (publisher p')
    then show ?thesis using assms(5) prepare_fields(2) by metis
  next
    case (unauthorised p' code)
    note same = prepare_fields [OF unauthorised(1)]
    obtain st where "om_find (pub_id i) (rg_publishers reg) = Some st"
      using assms(1) by (auto simp: standing_def)
    from standing_admits(1) [OF assms(1) _ _ _ this, of p'] same assms(2-4) unauthorised(2) show ?thesis by simp
  next
    case (evidence p' st)
    note same = prepare_fields [OF evidence(2)]
    have "om_find (pub_id i) (rg_publishers reg) = Some st"
      using check_authority_InrD(1) [OF evidence(5)] same assms(2) by simp
    note standing_evidence [OF assms(1) _ _ _ this, of p' h]
    moreover have "answers_content reg p (fst (dispatch p' reg))"
      using dispatch_answers_content [of reg p'] by (simp add: answers_content_def prepare_facts [OF evidence(2)])
    ultimately show ?thesis
      using same assms(2-4) evidence(6) eq by (simp add: prod_eq_iff)
  qed
  then show "answers_content reg p result" "standing i (pb_sequence p) (pb_evidence_generation p) reg'"
    by blast+
qed

section \<open>Builders in good standing\<close>

definition in_standing :: "Builder \<Rightarrow> LocalSink \<Rightarrow> bool" where
  "in_standing builder sink \<longleftrightarrow>
     standing (dc_publisher (bu_context builder)) (issued (pub_id (dc_publisher (bu_context builder))) sink)
       (dc_evidence_generation (bu_context builder)) (ls_registry sink)"

text \<open>How far the counters of a builder are from wrapping.\<close>

definition has_budget :: "nat \<Rightarrow> Builder \<Rightarrow> LocalSink \<Rightarrow> bool" where
  "has_budget n builder sink \<longleftrightarrow>
     unat (issued (pub_id (dc_publisher (bu_context builder))) sink) + n < 2 ^ 64 \<and>
     unat (dc_evidence_generation (bu_context builder)) + n < 2 ^ 64"

text \<open>
  A log judged by content, from the registry as the first publication finds it: each answer is the one the registry
  gives in its turn, and it answers the content.
\<close>

fun judged_by_content :: "Context \<Rightarrow> Registry \<Rightarrow> (Publication \<times> ApplyResult) list \<Rightarrow> bool" where
  "judged_by_content cx reg [] \<longleftrightarrow> True"
| "judged_by_content cx reg ((q, r) # log) \<longleftrightarrow>
     r = fst (apply_publication (cx_hash cx) (cx_now cx) q reg) \<and> answers_content reg q r \<and>
     judged_by_content cx (snd (apply_publication (cx_hash cx) (cx_now cx) q reg)) log"

text \<open>The registry after a log.\<close>

definition after_log :: "Context \<Rightarrow> (Publication \<times> ApplyResult) list \<Rightarrow> Registry \<Rightarrow> Registry" where
  "after_log cx log reg = fold (\<lambda>(q, r) reg. snd (apply_publication (cx_hash cx) (cx_now cx) q reg)) log reg"

lemma after_log_simps [simp]:
  "after_log cx [] reg = reg" "after_log cx (xs @ ys) reg = after_log cx ys (after_log cx xs reg)"
  "after_log cx ((q, r) # log) reg = after_log cx log (snd (apply_publication (cx_hash cx) (cx_now cx) q reg))"
  by (simp_all add: after_log_def)

lemma judged_append [simp]:
  "judged_by_content cx reg (xs @ ys) \<longleftrightarrow> judged_by_content cx reg xs \<and> judged_by_content cx (after_log cx xs reg) ys"
  by (induction xs arbitrary: reg) auto

lemma local_sink_simps [simp]:
  "si_ensure_publisher (local_sink cx) = local_ensure_publisher cx" "si_next_sequence (local_sink cx) = local_next_sequence"
  "si_publish (local_sink cx) = local_publish cx"
  by (simp_all add: local_sink_def)

lemma send_standing:
  assumes "send_stamped cx (logged (local_sink cx)) what p (b, s, log) = (r, b', s', log')"
    and "in_standing b s" and "has_budget (Suc n) b s" and "pb_kind p \<noteq> PublicationKind.RegisterPublisher"
  shows "in_standing b' s'" "has_budget n b' s'"
    "\<exists>new. log' = log @ new \<and> judged_by_content cx (ls_registry s) new \<and> after_log cx new (ls_registry s) = ls_registry s'"
proof -
  let ?i = "dc_publisher (bu_context b)" and ?g = "dc_evidence_generation (bu_context b)"
  let ?m = "issued (pub_id ?i) s"
  let ?q = "stamp (bu_context b) (?m + 1) p"
  obtain r' reg' where applied: "apply_publication (cx_hash cx) (cx_now cx) ?q (ls_registry s) = (r', reg')"
    by (cases "apply_publication (cx_hash cx) (cx_now cx) ?q (ls_registry s)")
  have eqs: "r' = r" "b' = b\<lparr>bu_report := note_result cx r what (bu_report b)\<rparr>"
    "s' = s\<lparr>ls_sequences := om_put (pub_id ?i) (?m + 1) (ls_sequences s), ls_registry := reg'\<rparr>"
    "log' = log @ [(?q, r)]"
    using assms(1) applied by (auto simp: send_logged local_next_sequence_def local_publish_def)
  have up: "unat (?m + 1) = unat ?m + 1"
    using assms(3) by (simp add: has_budget_def unat_word_ariths)
  then have "?m < pb_sequence ?q" by (simp add: stamp_def word_less_nat_alt)
  note kept = standing_apply [OF assms(2) [unfolded in_standing_def] _ this _ _ applied]
  show "in_standing b' s'"
    using kept assms(4) eqs by (auto simp: in_standing_def stamp_def issued_def)
  have "judged_by_content cx (ls_registry s) [(?q, r)]"
    using kept(1) assms(4) eqs(1) applied by (simp add: stamp_def)
  with eqs(4) show "\<exists>new. log' = log @ new \<and> judged_by_content cx (ls_registry s) new \<and>
      after_log cx new (ls_registry s) = ls_registry s'"
    using applied [unfolded eqs(1)] eqs(3) by (intro exI [of _ "[(?q, r)]"]) simp
  show "has_budget n b' s'"
    using assms(3) up eqs by (simp add: has_budget_def issued_def)
qed

lemma perform_standing:
  assumes "perform cx (logged (local_sink cx)) c (b, s, log) = (status, b', s', log')"
    and "in_standing b s" and "has_budget (Suc n) b s"
  shows "in_standing b' s' \<and> has_budget n b' s' \<and> (\<exists>new. log' = log @ new \<and>
    judged_by_content cx (ls_registry s) new \<and> after_log cx new (ls_registry s) = ls_registry s')"
proof (cases "submits c")
  case True
  then obtain what p where p: "pb_kind p \<noteq> PublicationKind.RegisterPublisher"
    "perform cx (logged (local_sink cx)) c (b, s, log) = (case send_stamped cx (logged (local_sink cx)) what p (b, s, log) of
       (r, state) \<Rightarrow> (if accepted r then Ok else InvalidArgument, state))"
    by (rule perform_sends)
  with assms(1) obtain r where "send_stamped cx (logged (local_sink cx)) what p (b, s, log) = (r, b', s', log')"
    by (auto split: prod.splits)
  from send_standing [OF this assms(2,3) p(1)] show ?thesis by blast
next
  case False
  then have "b' = bump_evidence_generation b" "s' = s" "log' = log"
    using assms(1) by (auto simp: submits_def)
  moreover have "unat (gen_next g) = unat g + 1" if "unat g + Suc n < 2 ^ 64" for g
    using that by (simp add: gen_next_def unat_word_ariths)
  ultimately show ?thesis
    using assms(2,3)
    by (auto simp: in_standing_def has_budget_def bump_evidence_generation_def Let_def gen_first_def gen_valid_def
        word_le_nat_alt elim!: standing_mono intro!: exI [of _ "[]"])
qed

lemma performs_standing:
  assumes "performs cx (logged (local_sink cx)) calls (b, s, log) = (statuses, b', s', log')"
    and "in_standing b s" and "has_budget (length calls + n) b s"
  shows "in_standing b' s' \<and> has_budget n b' s' \<and> (\<exists>new. log' = log @ new \<and>
    judged_by_content cx (ls_registry s) new \<and> after_log cx new (ls_registry s) = ls_registry s')"
  using assms
proof (induction calls arbitrary: b s log statuses)
  case (Cons c calls)
  obtain status b1 s1 log1 where one: "perform cx (logged (local_sink cx)) c (b, s, log) = (status, b1, s1, log1)"
    by (cases "perform cx (logged (local_sink cx)) c (b, s, log)") auto
  obtain later where later: "performs cx (logged (local_sink cx)) calls (b1, s1, log1) = (later, b', s', log')"
    using Cons.prems(1) one by (auto split: prod.splits)
  have "has_budget (Suc (length calls + n)) b s" using Cons.prems(3) by simp
  from perform_standing [OF one Cons.prems(2) this] obtain new1 where
    one': "in_standing b1 s1" "has_budget (length calls + n) b1 s1" "log1 = log @ new1"
      "judged_by_content cx (ls_registry s) new1" "after_log cx new1 (ls_registry s) = ls_registry s1"
    by blast
  from Cons.IH [OF later one'(1,2)] obtain new2 where "in_standing b' s'" "has_budget n b' s'" "log' = log1 @ new2"
      "judged_by_content cx (ls_registry s1) new2" "after_log cx new2 (ls_registry s1) = ls_registry s'"
    by blast
  with one' show ?case by (auto intro!: exI [of _ "new1 @ new2"])
qed auto

section \<open>Discovery\<close>

text \<open>The first registration of a publisher through the sink gives standing, whatever it has issued.\<close>

lemma new_publisher_standing:
  assumes "register_publisher now identity adapter reg = (result, reg')" and "accepted result"
    and "om_find (pub_id identity) (rg_publishers reg) = None"
  shows "standing (ar_assigned_publisher result) m g reg'" "pub_id (ar_assigned_publisher result) = pub_id identity"
  using assms
  by (auto simp: register_publisher_def register_publisher_locked_def register_new_publisher_def Let_def standing_def
      result_of_def mutating_def accepted_def apply_code_accepted_def empty_publisher_state_def watermark_of_def
      empty_watermark_def gen_first_def split: if_splits)

text \<open>A registration of an identity in good standing keeps its standing.\<close>

lemma reaffirmed_standing:
  assumes "register_publisher now i adapter reg = (result, reg')" and "standing i m g reg" and "gen_valid (pub_boot i)"
  shows "standing i m g reg'"
  using assms
  by (auto simp: register_publisher_def register_publisher_locked_def reaffirm_boot_def put_publisher_def Let_def
      standing_def watermark_of_def split: if_splits)

definition context_generation :: "DiscoveryContext \<Rightarrow> u64" where
  "context_generation dc = (if gen_valid (dc_evidence_generation dc) then dc_evidence_generation dc else gen_first)"

text \<open>
  What a run can begin with: a publisher that neither the sink nor the registry knows, or one that the sink registered
  before and whose assigned identity is in good standing, with whatever the sink has issued and the registry has seen.
\<close>

definition acquainted :: "DiscoveryContext \<Rightarrow> LocalSink \<Rightarrow> bool" where
  "acquainted dc sink \<longleftrightarrow> (let pid = pub_id (dc_publisher dc) in
     case om_find pid (ls_assigned sink) of
       None \<Rightarrow> om_find pid (rg_publishers (ls_registry sink)) = None
     | Some assigned \<Rightarrow> pub_id assigned = pid \<and> gen_valid (pub_boot assigned) \<and>
         standing assigned (issued pid sink) (context_generation dc) (ls_registry sink))"

lemma ensured_standing:
  assumes "acquainted dc sink" and "local_ensure_publisher cx (dc_publisher dc) name sink = (r, sink1)" and "accepted r"
  shows "standing (ar_assigned_publisher r) (issued (pub_id (dc_publisher dc)) sink1) (context_generation dc)
      (ls_registry sink1)"
    and "pub_id (ar_assigned_publisher r) = pub_id (dc_publisher dc)" and "issued p sink1 = issued p sink"
proof -
  let ?pid = "pub_id (dc_publisher dc)"
  show issued: "issued p sink1 = issued p sink" for p
    using assms(2) by (auto simp: local_ensure_publisher_def issued_def split: option.splits prod.splits if_splits)
  have "standing (ar_assigned_publisher r) (issued ?pid sink) (context_generation dc) (ls_registry sink1) \<and>
      pub_id (ar_assigned_publisher r) = ?pid"
  proof (cases "om_find ?pid (ls_assigned sink)")
    case None
    then obtain reg where r: "register_publisher (cx_now cx) (dc_publisher dc) name (ls_registry sink) = (r, reg)"
      and reg: "ls_registry sink1 = reg"
      using assms(2,3) by (auto simp: local_ensure_publisher_def split: prod.splits)
    have "om_find ?pid (rg_publishers (ls_registry sink)) = None"
      using assms(1) None by (simp add: acquainted_def)
    from new_publisher_standing [OF r assms(3) this] reg show ?thesis by simp
  next
    case (Some assigned)
    obtain again reg where again: "register_publisher (cx_now cx) assigned name (ls_registry sink) = (again, reg)"
      by (cases "register_publisher (cx_now cx) assigned name (ls_registry sink)")
    have "r = (result_of Accepted)\<lparr>ar_assigned_publisher := assigned\<rparr>" "ls_registry sink1 = reg"
      using assms(2,3) Some again
      by (auto simp: local_ensure_publisher_def accepted_def split: if_splits)
    then show ?thesis
      using reaffirmed_standing [OF again] assms(1) Some by (simp add: acquainted_def Let_def)
  qed
  then show "standing (ar_assigned_publisher r) (issued ?pid sink1) (context_generation dc) (ls_registry sink1)"
    "pub_id (ar_assigned_publisher r) = ?pid"
    by (simp_all add: issued)
qed

text \<open>A backend that performs fixed calls and returns the report of its builder.\<close>

definition calling ::
  "Context \<Rightarrow> string \<Rightarrow> SourceClass \<Rightarrow> ProvenanceClass \<Rightarrow> Call list \<Rightarrow> 's Backend" where
  "calling cx name source provenance calls =
     \<lparr>be_adapter_name = name, be_source_class = source, be_provenance = provenance, be_available = None,
      be_discover = (\<lambda>dc si report s.
        (case performs cx si calls (new_builder cx dc, s) of (statuses, b, s) \<Rightarrow> (Ok, bu_report b, s)))\<rparr>"


end
