(* ===== verification/Discovery_Runs.thy ===== *)
theory Discovery_Runs
  imports Standing Samples
begin

text \<open>
  Runs of discovery at the local sink: the subject a registration returns is the device as the registry holds it, and
  two ways in which a run that looks accepted cannot publish. The applications to concrete runs are at the end.
\<close>

section \<open>Subjects\<close>

lemma prepare_device: "prepare reg p = Inr p' \<Longrightarrow> pb_device p' = pb_device p"
  by (auto simp: prepare_def bind_schema_def bind_value_def bind_publisher_def Let_def
      split: option.splits if_splits sum.splits)

lemma device_handler_result:
  assumes "apply_device_locked p reg = (result, reg')" and "accepted result"
  shows "\<exists>device. om_find (di_id (reg_identity (pb_device p))) (rg_devices reg') = Some device \<and>
    ds_generation device = ar_device_generation result \<and> ds_boot device = ar_device_boot result"
proof (cases "om_find (di_id (reg_identity (pb_device p))) (rg_devices reg)")
  case None
  with assms show ?thesis
    by (auto simp: apply_device_locked_def find_device_locked_def register_new_device_def Let_def result_of_def
        mutating_def accepted_def apply_code_accepted_def register_platform_locked_def split: if_splits option.splits)
next
  case (Some device)
  with assms show ?thesis
    by (auto simp: apply_device_locked_def find_device_locked_def Let_def mutating_def result_of_def
        register_platform_locked_def split: if_splits option.splits)
qed

lemma booking_devices [simp]:
  "rg_devices (book_acceptance h p w st res reg) = rg_devices reg" "rg_devices (book_rejection p w st reg) = rg_devices reg"
  by (simp_all add: book_acceptance_def book_rejection_def Let_def put_watermark_def put_publisher_def
      count_accepted_def count_idempotent_def count_rejected_def touch_locked_def)

lemma register_subject_applies:
  assumes "register_subject cx (local_sink cx) registration (b, s) = (Inr subject, b', s')"
  obtains p r where "p = stamp (bu_context b) (issued (pub_id (dc_publisher (bu_context b))) s + 1)
      (no_publication\<lparr>pb_kind := PublicationKind.RegisterDevice, pb_device := registration\<rparr>)"
    "apply_publication (cx_hash cx) (cx_now cx) p (ls_registry s) = (r, ls_registry s')" "accepted r"
    "subject = \<lparr>sc_device = di_id (reg_identity registration), sc_generation = ar_device_generation r,
       sc_boot = ar_device_boot r\<rparr>"
  using assms
  by (auto simp: register_subject_def register_as_def send_stamped_def local_next_sequence_def local_publish_def
      split: prod.splits if_splits)

text \<open>
  C28: the subject a registration returns to a builder in good standing is the device as the registry holds it then: an
  observation bound to it passes the device checks, with that device as the one it is stamped from.
\<close>

theorem registered_subject_is_current:
  assumes "register_subject cx (local_sink cx) registration (b, s) = (Inr subject, b', s')"
    and "in_standing b s" and "has_budget 1 b s"
  shows "\<exists>device. om_find (di_id (reg_identity registration)) (rg_devices (ls_registry s')) = Some device \<and>
    check_capability_device (ls_registry s') (pb_capability (capability_publication b' subject observation)) = Inr device"
proof -
  let ?i = "dc_publisher (bu_context b)" and ?reg = "ls_registry s"
  obtain p r where p: "p = stamp (bu_context b) (issued (pub_id ?i) s + 1)
      (no_publication\<lparr>pb_kind := PublicationKind.RegisterDevice, pb_device := registration\<rparr>)"
    and r: "apply_publication (cx_hash cx) (cx_now cx) p ?reg = (r, ls_registry s')" "accepted r"
    and subject: "subject = \<lparr>sc_device = di_id (reg_identity registration), sc_generation = ar_device_generation r,
       sc_boot = ar_device_boot r\<rparr>"
    using register_subject_applies [OF assms(1)] by metis
  have fields: "pb_publisher p = ?i" "pb_kind p = PublicationKind.RegisterDevice" "pb_device p = registration"
    "issued (pub_id ?i) s < pb_sequence p" "pb_evidence_generation p = dc_evidence_generation (bu_context b)"
    using assms(3) by (simp_all add: p stamp_def has_budget_def word_less_nat_alt unat_word_ariths)
  note standing = assms(2) [unfolded in_standing_def]
  have eq: "apply_locked (cx_hash cx) (cx_now cx) p ?reg = (r, ls_registry s')"
    using r(1) by (simp add: apply_publication_def)
  show ?thesis
  proof (cases rule: apply_locked_cases [of ?reg "cx_hash cx" "cx_now cx" p])
    case (evidence p' st)
    note same = prepare_fields [OF evidence(2)] prepare_device [OF evidence(2)] fields
    have st: "om_find (pub_id ?i) (rg_publishers ?reg) = Some st"
      using check_authority_InrD(1) [OF evidence(5)] same by simp
    have go: "check_sequence (cx_hash cx) p' st (open_watermark p' st) = Proceed"
      by (rule standing_admits(2) [OF standing _ _ _ st]) (use same in simp_all)
    obtain r1 reg1 where d: "apply_device_locked p' ?reg = (r1, reg1)" by (cases "apply_device_locked p' ?reg")
    have "dispatch p' ?reg = (r1, reg1)" using d same by (simp add: dispatch_def)
    with go evidence(6) eq have "r = r1" "rg_devices (ls_registry s') = rg_devices reg1"
      by (auto simp: apply_evidence_def Let_def)
    with device_handler_result [OF d] r(2) same show ?thesis
      by (auto simp: check_capability_device_def find_device_locked_def capability_publication_def subject)
  next
    case (refused code)
    with eq r(2) show ?thesis using prepare_codes
      by (auto simp: accepted_def result_of_def apply_code_accepted_def prepare_def split: option.splits if_splits)
  next
    case (unauthorised p' code)
    with eq r(2) show ?thesis
      by (auto simp: accepted_def result_of_def apply_code_accepted_def check_authority_def Let_def
          split: option.splits if_splits)
  next
    case (schema p')
    then show ?thesis using prepare_fields(2) [OF schema(1)] fields by simp
  next
    case (publisher p')
    then show ?thesis using prepare_fields(2) [OF publisher(1)] fields by simp
  qed (use eq r(2) in \<open>auto simp: accepted_def result_of_def apply_code_accepted_def\<close>)
qed

section \<open>Runs that cannot publish\<close>

lemma local_publish_result [simp]:
  "fst (local_publish cx p s) = fst (apply_publication (cx_hash cx) (cx_now cx) p (ls_registry s))"
  by (cases "apply_publication (cx_hash cx) (cx_now cx) p (ls_registry s)") (simp add: local_publish_def)

lemma send_result:
  "fst (send_stamped cx (local_sink cx) what q (b, s)) =
     fst (apply_publication (cx_hash cx) (cx_now cx)
       (stamp (bu_context b) (issued (pub_id (dc_publisher (bu_context b))) s + 1) q) (ls_registry s))"
proof -
  let ?n = "issued (pub_id (dc_publisher (bu_context b))) s + 1"
  let ?s = "s\<lparr>ls_sequences := om_put (pub_id (dc_publisher (bu_context b))) ?n (ls_sequences s)\<rparr>"
  obtain r s' where r: "local_publish cx (stamp (bu_context b) ?n q) ?s = (r, s')"
    by (cases "local_publish cx (stamp (bu_context b) ?n q) ?s")
  then have "r = fst (apply_publication (cx_hash cx) (cx_now cx) (stamp (bu_context b) ?n q) (ls_registry s))"
    using local_publish_result [of cx "stamp (bu_context b) ?n q" ?s] by simp
  with r show ?thesis by (simp add: send_stamped_def local_next_sequence_def)
qed

lemma refused_evidence:
  assumes "\<And>p' st. prepare reg p = Inr p' \<Longrightarrow> check_authority reg p' = Inr st \<Longrightarrow>
      \<exists>code. check_sequence h p' st (open_watermark p' st) = Refuse code \<and> \<not> apply_code_accepted code"
    and "pb_kind p \<noteq> PublicationKind.RegisterPublisher" "pb_kind p \<noteq> PublicationKind.RegisterCapabilitySchema"
  shows "\<not> accepted (fst (apply_publication h now p reg))"
proof (cases rule: apply_locked_cases [of reg h now p])
  case (evidence p' st)
  with assms(1) obtain code where "check_sequence h p' st (open_watermark p' st) = Refuse code" "\<not> apply_code_accepted code"
    by blast
  with evidence(6) show ?thesis
    by (simp add: apply_publication_def apply_evidence_def accepted_def result_of_def)
next
  case (refused code)
  then show ?thesis
    by (auto simp: apply_publication_def accepted_def result_of_def apply_code_accepted_def prepare_def
        split: option.splits if_splits)
next
  case (unauthorised p' code)
  then show ?thesis
    by (auto simp: apply_publication_def accepted_def result_of_def apply_code_accepted_def check_authority_def Let_def
        split: option.splits if_splits)
qed (use assms(2,3) prepare_fields(2) in \<open>auto simp: apply_publication_def accepted_def result_of_def
    apply_code_accepted_def\<close>)

text \<open>
  Each adapter run builds a new builder, which starts at the first evidence generation. Once an earlier run of the
  same publisher boot has published at a later generation, every evidence submission of the new builder fails.
\<close>

theorem later_builder_is_refused:
  assumes "\<not> gen_valid (dc_evidence_generation dc)"
    and "om_find (pub_id (dc_publisher dc)) (rg_publishers (ls_registry s)) = Some st"
    and "gen_first < wm_max_evidence_generation (watermark_of st (pub_boot (dc_publisher dc)))"
    and "wm_max_sequence (watermark_of st (pub_boot (dc_publisher dc))) \<le> issued (pub_id (dc_publisher dc)) s"
    and "issued (pub_id (dc_publisher dc)) s \<noteq> - 1"
    and "submits c" and "\<nexists>schema. c = Call_Schema schema"
  shows "\<not> ok (fst (perform cx (local_sink cx) c (new_builder cx dc, s)))"
proof -
  let ?b = "new_builder cx dc" and ?i = "dc_publisher dc"
  obtain what q where q: "pb_kind q \<noteq> PublicationKind.RegisterPublisher"
    "perform cx (local_sink cx) c (?b, s) = (case send_stamped cx (local_sink cx) what q (?b, s) of
       (r, state) \<Rightarrow> (if accepted r then Ok else InvalidArgument, state))"
    "pb_kind q \<noteq> PublicationKind.RegisterCapabilitySchema"
    using perform_sends [OF assms(6)] assms(7) by metis
  let ?p = "stamp (bu_context ?b) (issued (pub_id ?i) s + 1) q"
  have p: "pb_publisher ?p = ?i" "pb_evidence_generation ?p = gen_first" "pb_sequence ?p = issued (pub_id ?i) s + 1"
    "pb_kind ?p = pb_kind q"
    using assms(1) by (simp_all add: stamp_def new_builder_def)
  have "issued (pub_id ?i) s < issued (pub_id ?i) s + 1"
    using gen_next_greater [OF assms(5)] by (simp add: gen_next_def)
  then have later: "wm_max_sequence (watermark_of st (pub_boot ?i)) < issued (pub_id ?i) s + 1"
    using assms(4) by (rule order_le_less_trans [rotated])
  have "check_sequence h p' st' (open_watermark p' st') = Refuse RejectedGenerationRegression"
    if "prepare (ls_registry s) ?p = Inr p'" "check_authority (ls_registry s) p' = Inr st'" for h p' st'
  proof -
    note same = prepare_fields [OF that(1), unfolded p]
    have "st' = st" using check_authority_InrD(1) [OF that(2)] same assms(2) by simp
    with same later assms(3) show ?thesis by (auto simp: check_sequence_def)
  qed
  then have "\<not> accepted (fst (apply_publication (cx_hash cx) (cx_now cx) ?p (ls_registry s)))"
    using q p by (intro refused_evidence) (auto simp: apply_code_accepted_def)
  then have "\<not> accepted (fst (send_stamped cx (local_sink cx) what q (?b, s)))"
    by (simp add: send_result) (simp add: new_builder_def)
  then show ?thesis
    using q(2) by (cases "send_stamped cx (local_sink cx) what q (?b, s)") simp
qed

text \<open>
  A publisher the sink has assigned keeps the identity of its first registration. After the epoch of the registry has
  advanced, the sink still answers that the identity is in force, and no evidence under it is accepted.
\<close>

theorem reused_identity_is_stale:
  assumes "om_find (pub_id identity) (ls_assigned s) = Some existing"
    and "pub_epoch existing \<noteq> rg_epoch (ls_registry s)"
    and "accepted (fst (local_ensure_publisher cx identity adapter s))"
    and "pb_publisher p = existing" and "pb_kind p \<noteq> PublicationKind.RegisterPublisher"
    and "pb_kind p \<noteq> PublicationKind.RegisterCapabilitySchema"
  shows "ar_assigned_publisher (fst (local_ensure_publisher cx identity adapter s)) = existing \<and>
    \<not> accepted (fst (local_publish cx p (snd (local_ensure_publisher cx identity adapter s))))"
proof -
  obtain r reg where r: "register_publisher (cx_now cx) existing adapter (ls_registry s) = (r, reg)"
    by (cases "register_publisher (cx_now cx) existing adapter (ls_registry s)")
  have ensured: "local_ensure_publisher cx identity adapter s =
      ((result_of Accepted)\<lparr>ar_assigned_publisher := existing\<rparr>, s\<lparr>ls_registry := reg\<rparr>)"
    using assms(1,3) r by (auto simp: local_ensure_publisher_def split: if_splits)
  have "rg_epoch reg = rg_epoch (ls_registry s)"
    using r by (auto simp: register_publisher_def register_publisher_locked_def register_new_publisher_def Let_def
        put_publisher_def touch_locked_def split: if_splits option.splits)
  then have "\<not> accepted (fst (apply_publication (cx_hash cx) (cx_now cx) p reg))"
    using assms(2,4,5,6) prepare_fields(1) check_authority_InrD(5) by (intro refused_evidence) metis+
  then show ?thesis
    by (simp add: ensured)
qed

end
