(* ===== verification/Discovery_Samples.thy ===== *)
theory Discovery_Samples
  imports Discovery_Runs
begin

text \<open>The theorems on discovery applied to concrete runs on the sample registry.\<close>

definition probe_context :: Context where
  "probe_context = \<lparr>cx_hash = no_hash, cx_now = ''n'', cx_text = (\<lambda>code. []), cx_detail = (\<lambda>code. []),
     cx_save = \<lparr>so_opened = True, so_written = 0, so_closed = True, so_renamed = True, so_removed = True\<rparr>\<rparr>"

definition probe_discovery :: "PublisherIdentity \<Rightarrow> DiscoveryContext" where
  "probe_discovery publisher = \<lparr>dc_publisher = publisher, dc_platform = sample_platform, dc_evidence_generation = 0,
     dc_observed_at_utc = [], dc_environment = [], dc_software = sample_software,
     dc_source_class = SourceClass.RuntimeProbe, dc_provenance = ProvenanceClass.RealRuntimeProbe, dc_adapter = ''a''\<rparr>"

definition probe_builder :: Builder where
  "probe_builder = new_builder probe_context (probe_discovery sample_publisher)"

definition probe_sink :: LocalSink where
  "probe_sink = \<lparr>ls_registry = sample_registered, ls_assigned = [(''p'', sample_publisher)], ls_sequences = []\<rparr>"

definition probe_calls :: "Call list" where
  "probe_calls = [Call_Register sample_registration, Call_Bump, Call_Heartbeat]"

definition probe_observation :: Observation where
  "probe_observation = \<lparr>ob_capability = ''c'', ob_support = SupportState.SupportedNative, ob_value = V_Boolean True,
     ob_precision = PrecisionClass.Probed, ob_native_reference = [], ob_conditions = None,
     ob_source_class = SourceClass.Unspecified, ob_provenance = ProvenanceClass.UnknownSource\<rparr>"

abbreviation probe_local :: "LocalSink EvidenceSink" where
  "probe_local \<equiv> local_sink probe_context"

text \<open>The sink after a run of the calls.\<close>

definition probed_sink :: LocalSink where
  "probed_sink = snd (snd (performs probe_context probe_local probe_calls (probe_builder, probe_sink)))"

lemma probe_issued [simp]: "issued p probe_sink = 0"
  by (simp add: issued_def probe_sink_def)

lemma probe_builder_publisher [simp]: "dc_publisher (bu_context probe_builder) = sample_publisher"
  by (simp add: probe_builder_def new_builder_def probe_discovery_def)

lemma probe_builder_generation [simp]: "dc_evidence_generation (bu_context probe_builder) = 1"
  by (simp add: probe_builder_def new_builder_def probe_discovery_def gen_valid_def gen_first_def)

lemma probe_standing: "in_standing probe_builder probe_sink"
  by (simp add: in_standing_def standing_def probe_sink_def sample_publisher_def issued_def sample_registered_def
      om_find_def sample_publisher_state_def sample_publisher_record_def watermark_of_def empty_watermark_def)
    (simp add: sample_new_def new_registry_def Let_def gen_first_def)

text \<open>A builder of a second publisher, between two runs of the first.\<close>

definition other_builder :: Builder where
  "other_builder = new_builder probe_context (probe_discovery (sample_publisher\<lparr>pub_id := ''q''\<rparr>))"

lemma local_sink_never_replays_witness:
  "case runs probe_context (logged probe_local)
      [(probe_builder, probe_calls), (other_builder, [Call_Heartbeat]), (probe_builder, [Call_Heartbeat])]
      (probe_sink, []) of
     (s', log) \<Rightarrow> sorted_wrt (<) (issued ''p'' probe_sink #
       map (pb_sequence \<circ> fst) (filter (\<lambda>(q, r). pub_id (pb_publisher q) = ''p'') log))"
  by (rule local_sink_never_replays) (simp add: probe_calls_def)

text \<open>The sequences of the two publishers in that run.\<close>

lemma probe_sequences:
  "map (\<lambda>(q, r). (pub_id (pb_publisher q), pb_sequence q)) (snd (runs probe_context (logged probe_local)
      [(probe_builder, probe_calls), (other_builder, [Call_Heartbeat]), (probe_builder, [Call_Heartbeat])]
      (probe_sink, []))) = [(''p'', 1), (''p'', 2), (''q'', 1), (''p'', 3)]"
  by code_simp

text \<open>
  Two runs on one sink: the first registers its publisher, the second finds it registered and in good standing.
\<close>

definition probe_backend :: "LocalSink Backend" where
  "probe_backend = calling probe_context ''a'' SourceClass.RuntimeProbe ProvenanceClass.RealRuntimeProbe [Call_Heartbeat]"

definition unassigned_discovery :: DiscoveryContext where
  "unassigned_discovery = probe_discovery (sample_publisher\<lparr>pub_boot := 0\<rparr>)"

definition used_sink :: LocalSink where
  "used_sink = snd (snd (run_discovery probe_context probe_backend unassigned_discovery probe_local
     (new_local_sink sample_new)))"

lemma used_sink_assigned: "om_find ''p'' (ls_assigned used_sink) = Some sample_publisher"
  "issued ''p'' used_sink = 1" "rg_epoch (ls_registry used_sink) = 1"
  "map_option (\<lambda>st. (ps_publisher_fenced st, ps_fenced_boots st, pub_boot (pr_identity (ps_record st)),
      wm_max_sequence (watermark_of st 1), wm_max_evidence_generation (watermark_of st 1)))
    (om_find ''p'' (rg_publishers (ls_registry used_sink))) = Some (False, [], 1, 1, 1)"
  by code_simp+

lemma used_sink_acquainted: "acquainted unassigned_discovery used_sink"
  using used_sink_assigned
  by (auto simp: acquainted_def unassigned_discovery_def probe_discovery_def context_generation_def standing_def
      gen_valid_def gen_first_def sample_publisher_def Let_def)


text \<open>The run of the last witness does publish.\<close>

lemma probe_run_publishes:
  "dp_accepted (fst (snd (run_discovery probe_context
      (calling probe_context ''a'' SourceClass.RuntimeProbe ProvenanceClass.RealRuntimeProbe probe_calls)
      unassigned_discovery probe_local used_sink))) = 2"
  by code_simp

lemma probe_subject:
  "fst (register_subject probe_context probe_local sample_registration (probe_builder, probe_sink)) =
     Inr \<lparr>sc_device = ''d'', sc_generation = 1, sc_boot = 1\<rparr>"
  by code_simp

lemma registered_subject_is_current_witness:
  "\<exists>b' s'. register_subject probe_context probe_local sample_registration (probe_builder, probe_sink) =
      (Inr \<lparr>sc_device = ''d'', sc_generation = 1, sc_boot = 1\<rparr>, b', s') \<and>
    (\<exists>device. om_find (di_id (reg_identity sample_registration)) (rg_devices (ls_registry s')) = Some device \<and>
      check_capability_device (ls_registry s') (pb_capability (capability_publication b'
        \<lparr>sc_device = ''d'', sc_generation = 1, sc_boot = 1\<rparr> probe_observation)) = Inr device)"
proof -
  obtain b' s' where r: "register_subject probe_context probe_local sample_registration (probe_builder, probe_sink) =
      (Inr \<lparr>sc_device = ''d'', sc_generation = 1, sc_boot = 1\<rparr>, b', s')"
    using probe_subject
    by (cases "register_subject probe_context probe_local sample_registration (probe_builder, probe_sink)") auto
  have "has_budget 1 probe_builder probe_sink" by (simp add: has_budget_def)
  from registered_subject_is_current [OF r probe_standing this] r show ?thesis by blast
qed

lemma probed_watermark:
  "map_option (\<lambda>st. (wm_max_sequence (watermark_of st 1), wm_max_evidence_generation (watermark_of st 1)))
     (om_find ''p'' (rg_publishers (ls_registry probed_sink))) = Some (2, 2)"
  "issued ''p'' probed_sink = 2"
  by code_simp+

lemma later_builder_is_refused_witness:
  "\<not> ok (fst (perform probe_context probe_local Call_Heartbeat
      (new_builder probe_context (probe_discovery sample_publisher), probed_sink)))"
proof -
  obtain st where "om_find ''p'' (rg_publishers (ls_registry probed_sink)) = Some st"
    "wm_max_sequence (watermark_of st 1) = 2" "wm_max_evidence_generation (watermark_of st 1) = 2"
    using probed_watermark(1) by auto
  with probed_watermark(2) show ?thesis
    by (intro later_builder_is_refused [where st = st])
      (simp_all add: probe_discovery_def sample_publisher_def gen_valid_def gen_first_def submits_def)
qed

definition advanced_sink :: LocalSink where
  "advanced_sink = probe_sink\<lparr>ls_registry := snd (advance_coordinator_epoch sample_registered)\<rparr>"

lemma advanced_sink_facts:
  "om_find ''p'' (ls_assigned advanced_sink) = Some sample_publisher" "rg_epoch (ls_registry advanced_sink) = 2"
  "accepted (fst (local_ensure_publisher probe_context sample_publisher ''a'' advanced_sink))"
  by code_simp+

lemma reused_identity_is_stale_witness:
  "ar_assigned_publisher (fst (local_ensure_publisher probe_context sample_publisher ''a'' advanced_sink)) =
      sample_publisher \<and>
    \<not> accepted (fst (local_publish probe_context (sample_publication PublicationKind.Heartbeat 1)
      (snd (local_ensure_publisher probe_context sample_publisher ''a'' advanced_sink))))"
  by (rule reused_identity_is_stale)
    (use advanced_sink_facts in \<open>simp_all add: sample_publisher_def sample_publication_def\<close>)

end
