(* ===== verification/Endpoint_Samples.thy ===== *)
theory Endpoint_Samples
  imports Misreadings Wire Coordinator_Samples Discovery_Samples
begin

text \<open>The theorems on both ends of a connection applied to a sample publisher, client and coordinator.\<close>

definition remote_limits :: RegistryLimits where
  "remote_limits = wire_limits\<lparr>max_metadata_bytes := 9\<rparr>"

definition remote_coordinator :: "RegistryLimits \<Rightarrow> Registry \<Rightarrow> Coordinator" where
  "remote_coordinator limits reg =
     (new_coordinator [sample_schema] (sample_config\<lparr>cc_limits := limits\<rparr>) (\<lambda>path. None))\<lparr>co_registry := reg\<rparr>"

definition remote_config :: "RegistryLimits \<Rightarrow> PublisherConfig" where
  "remote_config limits = \<lparr>pc_publisher = ''p'', pc_adapter = ''a'', pc_agent = ''g'', pc_nonce = 0, pc_limits = limits\<rparr>"

section \<open>Registration\<close>

definition joining :: "(Session \<times> Coordinator) Publisher" where
  "joining = new_publisher (remote_config remote_limits) (new_session remote_limits True, remote_coordinator remote_limits sample_new)"

lemma joining_fields:
  "pu_config joining = remote_config remote_limits" "\<not> pu_registered joining"
  "pu_link joining = new_link remote_limits (new_session remote_limits True, remote_coordinator remote_limits sample_new)"
  by (simp_all add: joining_def new_publisher_def remote_config_def)

lemma remote_coordinator_fields [simp]:
  "co_limits (remote_coordinator limits reg) = limits" "co_registry (remote_coordinator limits reg) = reg"
  "cc_node_name (co_config (remote_coordinator limits reg)) = ''n''"
  by (simp_all add: remote_coordinator_def new_coordinator_def sample_config_def)

lemma remote_limits_simps [simp]:
  "max_frame_bytes remote_limits = 1000" "max_metadata_bytes remote_limits = 9" "0 < max_pending_publications remote_limits"
  by (simp_all add: remote_limits_def) (simp add: wire_limits_def sample_limits_def)

lemma sample_name: "wf_id ''p''" "id_valid ''p''" "wf_id []"
  by code_simp+

lemma joining_fits: "handshake_fits probe_context (pu_config joining) (remote_coordinator remote_limits sample_new)"
  using sample_name
  by (simp add: handshake_fits_def joining_fields remote_config_def roomy_def probe_context_def str_fits_def hello_fits_def
      hello_of_def register_publisher_message_fits_def publisher_identity_fits_def registration_of_def no_publisher_def
      welcome_fits_def welcome_of_def kMaxTokenLength_def)

lemma joining_accepted:
  "accepted (fst (register_publisher ''n'' (no_publisher\<lparr>pub_id := ''p''\<rparr>) ''a'' sample_new))"
  "ar_assigned_publisher (fst (register_publisher ''n'' (no_publisher\<lparr>pub_id := ''p''\<rparr>) ''a'' sample_new)) = sample_publisher"
  "rg_epoch (snd (register_publisher ''n'' (no_publisher\<lparr>pub_id := ''p''\<rparr>) ''a'' sample_new)) = 1"
  by code_simp+

lemma remote_registration_is_local_witness:
  "\<exists>pu. connect_and_register (coordinator_peer probe_context) joining = Some (Ok, pu) \<and> publishing pu \<and>
     pu_identity pu = sample_publisher \<and> pu_epoch pu = 1"
proof -
  have "keyed sample_new" by (simp add: sample_new_def new_keyed)
  with joining_fits have "case register_publisher (cx_now probe_context) (rm_identity (registration_of (pu_config joining)))
      (pc_adapter (pu_config joining)) (remote_registry joining) of
     (result, reg) \<Rightarrow> \<exists>pu'. remote_registry pu' = reg \<and>
       connect_and_register (coordinator_peer probe_context) joining = Some (if accepted result then Ok else UnknownPublisher, pu') \<and>
       pu_epoch pu' = rg_epoch reg \<and>
       (if accepted result then publishing pu' \<and> pu_identity pu' = ar_assigned_publisher result else \<not> pu_registered pu')"
    by (intro remote_registration_is_local) (simp_all add: joining_fields new_link_def remote_config_def)
  then show ?thesis
    using joining_accepted
    by (auto simp: joining_fields remote_config_def new_link_def registration_of_def probe_context_def split: prod.splits)
qed

section \<open>Publishing and querying\<close>

definition sample_link :: "(Session \<times> Coordinator) Link" where
  "sample_link = \<lparr>ln_peer = (new_session wire_limits True, remote_coordinator wire_limits sample_with_device), ln_open = True,
     ln_reads = [], ln_decoder = \<lparr>fd_limits = wire_limits, fd_buffer = []\<rparr>\<rparr>"

definition sample_remote :: "(Session \<times> Coordinator) Publisher" where
  "sample_remote = \<lparr>pu_config = remote_config wire_limits, pu_link = sample_link, pu_identity = sample_publisher,
     pu_epoch = 1, pu_sequence = 2, pu_evidence_generation = 1, pu_correlation = 2, pu_registered = True\<rparr>"

lemma sample_attached: "attached wire_limits sample_link"
  by (simp add: attached_def sample_link_def new_session_def) (simp add: wire_limits_def sample_limits_def)

lemma sample_remote_limits: "pu_limits sample_remote = wire_limits"
  by (simp add: sample_remote_def remote_config_def)

lemma sample_sent: "bind_remote [] (snd (remote_next_sequence sample_remote)) sample_message = sample_message"
  by (simp add: bind_remote_def remote_next_sequence_def sample_remote_def sample_publication_def gen_valid_def)

lemma remote_publication_is_local_witness:
  "case apply_publication (cx_hash probe_context) (cx_now probe_context) sample_message sample_with_device of
     (result, reg) \<Rightarrow> \<exists>pu. remote_publish (coordinator_peer probe_context) [] sample_message sample_remote =
         Some (\<lparr>ar_code = ar_code result, ar_mutated = (ar_code result = Accepted), ar_assigned_publisher = no_publisher,
           ar_device_generation = (if gen_valid (ar_device_generation result) then ar_device_generation result
             else cr_device_generation (pb_capability sample_message)),
           ar_device_boot = (if gen_valid (ar_device_boot result) then ar_device_boot result
             else cr_device_boot (pb_capability sample_message))\<rparr>, pu) \<and>
       remote_registry pu = reg \<and> publishing pu \<and> pu_identity pu = sample_publisher \<and> pu_sequence pu = 3"
proof -
  have publishing: "publishing sample_remote"
    unfolding publishing_def sample_remote_limits using sample_attached by (simp add: sample_remote_def)
  have roomy: "roomy probe_context (pu_limits sample_remote)"
    unfolding sample_remote_limits by (simp add: roomy_def probe_context_def str_fits_def)
  have "remote_registry sample_remote = sample_with_device" "pu_identity sample_remote = sample_publisher"
    "pu_sequence sample_remote = 2"
    by (simp_all add: sample_remote_def sample_link_def)
  with remote_publication_is_local [OF publishing roomy, where now = "[]" and p = sample_message, unfolded sample_sent
      sample_remote_limits, OF sample_message_fits sample_message_encodes]
  show ?thesis by simp
qed

definition sample_client :: "(Session \<times> Coordinator) Client" where
  "sample_client = \<lparr>cl_config = \<lparr>lc_agent = ''g'', lc_limits = wire_limits\<rparr>, cl_link = sample_link, cl_epoch = 1,
     cl_correlation = 1\<rparr>"

definition quirks_request :: QueryRequest where
  "quirks_request = no_request\<lparr>qreq_kind := QueryKind.QuirkRecords\<rparr>"

lemma quirks_answer:
  "answer_query now quirks_request sample_with_device =
     ((Ok, no_response\<lparr>qres_kind := QueryKind.QuirkRecords, qres_quirk_records := []\<rparr>), sample_with_device)"
proof -
  have "list_quirks sample_with_device = []" by code_simp
  then show ?thesis by (simp add: answer_query_def quirks_request_def Let_def)
qed

lemma quirks_sizes:
  "length (snd (encode_query_request quirks_request wire_limits)) \<le> 1000"
  "length (response_bytes probe_context (Ok, no_response\<lparr>qres_kind := QueryKind.QuirkRecords, qres_quirk_records := []\<rparr>)
     wire_limits) \<le> 1000"
  by code_simp+

lemma remote_query_is_local_witness:
  "\<exists>client. exchange (coordinator_peer probe_context) quirks_request sample_client =
      Some (Inr (no_response\<lparr>qres_kind := QueryKind.QuirkRecords, qres_quirk_records := []\<rparr>), client)"
proof -
  have client: "cl_limits sample_client = wire_limits" "cl_link sample_client = sample_link"
    "co_registry (snd (ln_peer sample_link)) = sample_with_device"
    by (simp_all add: sample_client_def sample_link_def)
  have "request_fits wire_limits quirks_request" by (simp add: request_fits_def quirks_request_def Let_def)
  moreover have "response_fits wire_limits (served_response probe_context
      (Ok, no_response\<lparr>qres_kind := QueryKind.QuirkRecords, qres_quirk_records := []\<rparr>))"
    by (simp add: served_response_def response_fits_def no_response_def list_fits_def str_fits_def)
  ultimately show ?thesis
    using remote_query_is_local [of sample_client quirks_request probe_context, unfolded client quirks_answer fst_conv]
      sample_attached quirks_sizes
    by auto
qed

section \<open>Misreadings\<close>

definition refusing_peer :: "unit Peer" where
  "refusing_peer = \<lparr>pe_connect = (\<lambda>p. (Ok, p)), pe_send = (\<lambda>data p. (Ok, [Inr (frame_bytes \<lparr>fr_type = MessageType.ErrorResponse,
     fr_flags = 0, fr_correlation = 1, fr_payload = []\<rparr>)], p))\<rparr>"

lemma refused_shutdown_is_success_witness:
  "\<exists>client. client_shutdown refusing_peer [] ((new_client \<lparr>lc_agent = [], lc_limits = wire_limits\<rparr> ())\<lparr>cl_link :=
     (new_link wire_limits ())\<lparr>ln_open := True\<rparr>\<rparr>) = Some (Inr (), client)"
proof -
  let ?client = "(new_client \<lparr>lc_agent = [], lc_limits = wire_limits\<rparr> ())\<lparr>cl_link := (new_link wire_limits ())\<lparr>ln_open := True\<rparr>\<rparr>"
  let ?error = "\<lparr>fr_type = MessageType.ErrorResponse, fr_flags = 0, fr_correlation = 1, fr_payload = []\<rparr>"
  have encoded: "encode_shutdown \<lparr>sm_reason = []\<rparr> wire_limits = (Ok, [0, 0, 0, 0])"
    by code_simp
  have frame: "encode_frame ((plain_frame MessageType.ShutdownRequest [0, 0, 0, 0])\<lparr>fr_correlation := 1\<rparr>) wire_limits =
      Inr (frame_bytes ((plain_frame MessageType.ShutdownRequest [0, 0, 0, 0])\<lparr>fr_correlation := 1\<rparr>))"
    by (simp add: encode_frame_def plain_frame_def write_frame_bytes)
  have "frame_ok wire_limits ?error" by (simp add: frame_ok_def)
  note received = receive_whole_frame [OF this, of "[]"]
  have "\<exists>client. client_request refusing_peer MessageType.ShutdownRequest
      (encode_shutdown \<lparr>sm_reason = []\<rparr> (cl_limits ?client)) ?client = Some (Inr ?error, client)"
    by (simp add: client_request_def new_client_def encoded Let_def send_on_def frame new_link_def refusing_peer_def
        receive_on_def received)
  then obtain client where "client_request refusing_peer MessageType.ShutdownRequest
      (encode_shutdown \<lparr>sm_reason = []\<rparr> (cl_limits ?client)) ?client = Some (Inr ?error, client)" by blast
  from refused_shutdown_is_success [OF _ this] show ?thesis by auto
qed

lemma disconnected_publisher_is_confirmed_witness:
  "remote_ensure_publisher (coordinator_peer probe_context) sample_publisher ''a'' (snd (publisher_disconnect sample_remote)) =
      Some ((result_of Accepted)\<lparr>ar_assigned_publisher := pu_identity sample_remote\<rparr>, snd (publisher_disconnect sample_remote)) \<and>
    (\<exists>result pu'. remote_publish (coordinator_peer probe_context) [] sample_message (snd (publisher_disconnect sample_remote)) =
       Some (result, pu') \<and> \<not> accepted result \<and> ln_peer (pu_link pu') = ln_peer (pu_link sample_remote))"
  by (rule disconnected_publisher_is_confirmed) (simp_all add: sample_remote_def)

end
