(* ===== verification/Adapters.thy ===== *)
theory Adapters
  imports Discovery
begin

text \<open>
  What the discovery adapters share (\<^verbatim>\<open>src/adapter_common.cpp\<close>, \<^verbatim>\<open>src/adapter_common.hpp\<close>): canonical tokens made from the
  text a vendor supplies, hexadecimal renderings, and the builders of values and conditions. A token is canonical
  whatever text it is made from, so an identity that rests on one is never empty.
\<close>

section \<open>Tokens\<close>

text \<open>The loop over the text; the code treats the separators of a token and every other character alike.\<close>

fun canonical_token_loop :: "string \<Rightarrow> string \<Rightarrow> bool \<Rightarrow> string" where
  "canonical_token_loop [] out previous_separator = out"
| "canonical_token_loop (raw # text) out previous_separator =
     (if length out \<ge> kMaxTokenLength then out
      else let c = fold_case raw in
        if token_alnum c then canonical_token_loop text (out @ [c]) False
        else if \<not> previous_separator then canonical_token_loop text (out @ ''.'') True
        else canonical_token_loop text out previous_separator)"

definition is_dot :: "char \<Rightarrow> bool" where
  "is_dot c \<longleftrightarrow> c = CHR ''.''"

definition canonical_token :: "string \<Rightarrow> string" where
  "canonical_token text =
     (let out = canonical_token_loop text [] True;
          out = rev (dropWhile is_dot (rev out));
          out = dropWhile is_dot out in
      if out = [] then ''unnamed'' else out)"

definition token_from_hash :: "string \<Rightarrow> string \<Rightarrow> string" where
  "token_from_hash prefix text = prefix @ ''.'' @ hex64 (fnv1a64_mix text kFnvOffsetBasis)"

definition hex_byte :: "u8 \<Rightarrow> string" where
  "hex_byte byte = [''0123456789abcdef'' ! unat (drop_bit 4 byte AND 0xf), ''0123456789abcdef'' ! unat (byte AND 0xf)]"

definition hex_bytes :: "u8 list \<Rightarrow> string" where
  "hex_bytes bytes = concat (map hex_byte bytes)"

definition format_gpu_uuid :: "u8 list \<Rightarrow> string" where
  "format_gpu_uuid bytes =
     (let hex = hex_bytes (take 16 bytes) in
      ''GPU-'' @ take 8 hex @ ''-'' @ take 4 (drop 8 hex) @ ''-'' @ take 4 (drop 12 hex) @ ''-'' @
      take 4 (drop 16 hex) @ ''-'' @ take 12 (drop 20 hex))"

definition gpu_device_id_from_uuid :: "string \<Rightarrow> string" where
  "gpu_device_id_from_uuid uuid = canonical_device_id ''dev.gpu'' (canonical_token uuid)"

section \<open>Values and conditions\<close>

definition bits_per_second :: "u64 \<Rightarrow> CapabilityValue" where
  "bits_per_second magnitude =
     (if magnitude \<ge> 1000000000 \<and> magnitude mod 1000000000 = 0
      then V_Bandwidth (magnitude div 1000000000) BandwidthUnit.GigabitsPerSecond
      else if magnitude \<ge> 1000000 \<and> magnitude mod 1000000 = 0
      then V_Bandwidth (magnitude div 1000000) BandwidthUnit.MegabitsPerSecond
      else if magnitude \<ge> 1000 \<and> magnitude mod 1000 = 0
      then V_Bandwidth (magnitude div 1000) BandwidthUnit.KilobitsPerSecond
      else V_Bandwidth magnitude BandwidthUnit.BitsPerSecond)"

definition condition :: "ConditionKind \<Rightarrow> string \<Rightarrow> string \<Rightarrow> ConditionPtr" where
  "condition kind key value = Some (ConditionNode kind key value [])"

definition all_of :: "ConditionPtr list \<Rightarrow> ConditionPtr" where
  "all_of children =
     (let present = List.filter (\<lambda>child. child \<noteq> None) children in
      if length present = 1 then hd present else Some (ConditionNode ConditionKind.AllOf [] [] present))"

section \<open>Canonical tokens are canonical\<close>

definition dotted :: "string \<Rightarrow> bool" where
  "dotted out \<longleftrightarrow> list_all (\<lambda>c. token_alnum c \<or> is_dot c) out \<and> length out \<le> kMaxTokenLength"

lemma canonical_token_loop_dotted:
  "dotted out \<Longrightarrow> dotted (canonical_token_loop text out previous)"
proof (induction "text" out previous rule: canonical_token_loop.induct)
  case (2 raw t out previous)
  have grows: "dotted (out @ [c])" if "\<not> length out \<ge> kMaxTokenLength" "token_alnum c \<or> is_dot c" for c
    using 2(4) that by (simp add: dotted_def)
  have "dotted (canonical_token_loop t (out @ ''.'') True)"
    if "\<not> length out \<ge> kMaxTokenLength" "\<not> token_alnum (fold_case raw)" "\<not> previous"
    using 2(2) [OF that(1) refl that(2,3)] grows [OF that(1), of "CHR ''.''"] by (simp add: is_dot_def)
  moreover have "dotted (canonical_token_loop t (out @ [fold_case raw]) False)"
    if "\<not> length out \<ge> kMaxTokenLength" "token_alnum (fold_case raw)"
    using 2(1) [OF that(1) refl that(2)] grows that by blast
  moreover have "dotted (canonical_token_loop t out previous)"
    if "\<not> length out \<ge> kMaxTokenLength" "\<not> token_alnum (fold_case raw)" "previous"
    using 2(3) [OF that(1) refl that(2)] that(3) 2(4) by simp
  ultimately show ?case
    using 2(4) by (cases "length out \<ge> kMaxTokenLength"; cases "token_alnum (fold_case raw)"; cases previous)
      (simp_all only: canonical_token_loop.simps Let_def if_True if_False simp_thms)
qed simp

lemma dotted_dropWhile: "dotted out \<Longrightarrow> dotted (dropWhile is_dot out)"
  using length_dropWhile_le [of is_dot out] by (auto simp: dotted_def list_all_iff dest: set_dropWhileD)

lemma dotted_rev [simp]: "dotted (rev out) \<longleftrightarrow> dotted out"
  by (simp add: dotted_def)

lemma dotted_canonical:
  assumes "dotted out" and "out \<noteq> []" and "\<not> is_dot (hd out)"
  shows "is_canonical_token out"
  using assms by (cases out) (auto simp: is_canonical_token_def dotted_def list_all_iff is_dot_def token_separator_def)

lemma canonical_token_is_canonical: "is_canonical_token (canonical_token text)"
proof -
  let ?out = "dropWhile is_dot (rev (dropWhile is_dot (rev (canonical_token_loop text [] True))))"
  have "dotted ?out"
    by (intro dotted_dropWhile dotted_rev [THEN iffD2] canonical_token_loop_dotted) (simp add: dotted_def)
  then have "?out \<noteq> [] \<Longrightarrow> is_canonical_token ?out"
    using hd_dropWhile by (intro dotted_canonical)
  moreover have "is_canonical_token ''unnamed''"
    by (simp add: is_canonical_token_def token_alnum_def kMaxTokenLength_def less_eq_char_def)
  ultimately show ?thesis by (simp add: canonical_token_def Let_def)
qed

section \<open>Derived identities\<close>

lemma hex_alphabet_alnum: "i < 16 \<Longrightarrow> token_alnum (''0123456789abcdef'' ! i)"
proof -
  have "list_all token_alnum ''0123456789abcdef''"
    by (simp add: token_alnum_def less_eq_char_def)
  moreover assume "i < 16"
  ultimately show ?thesis unfolding list_all_length by simp
qed

lemma hex_digits_alnum: "c \<in> set (hex_digits n value) \<Longrightarrow> token_alnum c"
proof (induction n arbitrary: "value")
  case (Suc n)
  then show ?case
    by (auto simp: hex_digit_def simp del: nth_Cons_numeral intro: hex_alphabet_alnum nibble_less)
qed simp

text \<open>A canonical name, a dot and sixteen hexadecimal digits make a canonical token.\<close>

lemma hashed_canonical:
  assumes "is_canonical_token kind" and "length kind \<le> 111"
  shows "is_canonical_token (kind @ ''.'' @ hex64 value)"
proof -
  have digits: "length (hex64 value) = 16" "\<And>c. c \<in> set (hex64 value) \<Longrightarrow> token_alnum c"
    by (auto simp: hex64_def dest: hex_digits_alnum)
  have "kind \<noteq> []" "token_alnum (hd kind)" "\<And>c. c \<in> set kind \<Longrightarrow> token_alnum c \<or> token_separator c"
    using assms(1) by (auto simp: is_canonical_token_def list_all_iff split: if_splits)
  then show ?thesis
    using assms(2) digits
    by (auto simp: is_canonical_token_def kMaxTokenLength_def list_all_iff simp del: append_Cons)
       (simp add: token_separator_def)
qed

lemma canonical_device_id_canonical:
  assumes "is_canonical_token kind" and "length kind \<le> 111"
  shows "is_canonical_token (canonical_device_id kind token)"
  using hashed_canonical [OF assms] by (simp add: canonical_device_id_def id_parse_def)

text \<open>The kinds of device that adapters hash identities for, and the prefixes they hash incarnations and platforms under.\<close>

definition device_kinds :: "string list" where
  "device_kinds = [''dev.cpu'', ''dev.cxl'', ''dev.gpu'', ''dev.host'', ''dev.nic'', ''dev.synthetic'']"

definition hash_prefixes :: "string list" where
  "hash_prefixes = [''inc.cpu'', ''inc.cxl'', ''inc.gpu'', ''inc.host'', ''inc.nic'', ''platform.host'']"

lemma names_canonical: "list_all (\<lambda>name. is_canonical_token name \<and> length name \<le> 111) (device_kinds @ hash_prefixes)"
  by (simp add: device_kinds_def hash_prefixes_def is_canonical_token_def kMaxTokenLength_def token_alnum_def
      token_separator_def less_eq_char_def)

text \<open>
  C37: the hashed identities of the adapters are canonical. Whatever text a vendor supplies, the token made from it is
  a canonical token; so are the device identities hashed from text for CPUs, CXL devices, GPUs, hosts, network
  interfaces and synthetic devices, and the incarnations and platform names hashed under each prefix the adapters
  use. None of these is the empty identity that the registry refuses. An identity that puts a prefix before the token
  of a long vendor text is not hashed and is not covered: it can pass the length of a token.
\<close>

theorem derived_identities_are_canonical:
  "is_canonical_token (canonical_token vendor) \<and>
   is_canonical_token (gpu_device_id_from_uuid uuid) \<and> is_canonical_token (host_device_id platform) \<and>
   list_all (\<lambda>kind. is_canonical_token (canonical_device_id kind token)) device_kinds \<and>
   list_all (\<lambda>prefix. is_canonical_token (token_from_hash prefix source)) hash_prefixes"
proof -
  have kinds: "list_all (\<lambda>kind. is_canonical_token (canonical_device_id kind token)) device_kinds" for token
    using names_canonical canonical_device_id_canonical unfolding list_all_iff by simp
  moreover have "list_all (\<lambda>prefix. is_canonical_token (token_from_hash prefix source)) hash_prefixes"
    using names_canonical hashed_canonical unfolding list_all_iff token_from_hash_def by simp
  moreover have "is_canonical_token (gpu_device_id_from_uuid uuid)" "is_canonical_token (host_device_id platform)"
    using kinds by (simp_all add: device_kinds_def gpu_device_id_from_uuid_def host_device_id_def)
  ultimately show ?thesis
    using canonical_token_is_canonical by blast
qed

section \<open>Renderings\<close>

lemma hex_byte_inject: "hex_byte a = hex_byte b \<longleftrightarrow> a = b"
proof
  have len: "length ''0123456789abcdef'' = 16" by simp
  have small: "unat (v AND 0xf) < 16" for v :: u8
  proof -
    have "v AND 0xf = take_bit 4 v" by (simp add: take_bit_eq_mask mask_eq_exp_minus_1)
    then show ?thesis using take_bit_nat_less_exp [of 4 "unat v"] by (simp add: unsigned_take_bit_eq)
  qed
  assume "hex_byte a = hex_byte b"
  then have "unat (drop_bit 4 a AND 0xf) = unat (drop_bit 4 b AND 0xf)" "unat (a AND 0xf) = unat (b AND 0xf)"
    using nth_eq_iff_index_eq [OF distinct_hex_alphabet] small len
    by (simp_all only: hex_byte_def list.inject simp_thms)
  then have high: "drop_bit 4 a AND 0xf = drop_bit 4 b AND 0xf" and low: "a AND 0xf = b AND 0xf"
    by (simp_all add: word_unat_eq_iff)
  show "a = b"
  proof (rule bit_word_eqI)
    fix n assume "n < LENGTH(8)"
    have nibble: "bit (v AND 0xf) m \<longleftrightarrow> bit v m" if "m < 4" for v :: u8 and m
      using that bit_take_bit_iff [of 4 v m] by (simp add: take_bit_eq_mask mask_eq_exp_minus_1)
    show "bit a n = bit b n"
    proof (cases "n < 4")
      case True
      then show ?thesis using nibble [of n a] nibble [of n b] low by simp
    next
      case False
      then have "n - 4 < 4" "4 + (n - 4) = n" using \<open>n < LENGTH(8)\<close> by simp_all
      then show ?thesis
        using nibble [of "n - 4" "drop_bit 4 a"] nibble [of "n - 4" "drop_bit 4 b"] high
        by (simp add: bit_drop_bit_eq)
    qed
  qed
qed simp

lemma length_hex_byte: "length (hex_byte b) = 2"
  by (simp add: hex_byte_def)

lemma hex_bytes_inject: "length a = length b \<Longrightarrow> hex_bytes a = hex_bytes b \<longleftrightarrow> a = b"
proof (induction a b rule: list_induct2)
  case (Cons x xs y ys)
  then show ?case
    using hex_byte_inject [of x y] by (simp add: hex_bytes_def length_hex_byte)
qed simp

lemma length_hex_bytes: "length (hex_bytes bytes) = 2 * length bytes"
  by (induction bytes) (simp_all add: hex_bytes_def length_hex_byte)

lemma append_dash_inject:
  "length a = length b \<Longrightarrow> a @ ''-'' @ x = b @ ''-'' @ y \<longleftrightarrow> a = b \<and> x = y"
  by simp

text \<open>The rendering of a device UUID tells devices apart.\<close>

lemma format_gpu_uuid_inject:
  assumes "length a = 16" and "length b = 16"
  shows "format_gpu_uuid a = format_gpu_uuid b \<longleftrightarrow> a = b"
proof
  let ?a = "hex_bytes a" and ?b = "hex_bytes b"
  have len: "length ?a = 32" "length ?b = 32" using assms by (simp_all add: length_hex_bytes)
  have cut: "x = take 8 x @ take 4 (drop 8 x) @ take 4 (drop 12 x) @ take 4 (drop 16 x) @ take 12 (drop 20 x)"
    if "length x = 32" for x :: string
    using that append_take_drop_id [of 8 x] append_take_drop_id [of 4 "drop 8 x"] append_take_drop_id [of 4 "drop 12 x"]
      append_take_drop_id [of 4 "drop 16 x"] by simp
  assume "format_gpu_uuid a = format_gpu_uuid b"
  then have "take 8 ?a = take 8 ?b" "take 4 (drop 8 ?a) = take 4 (drop 8 ?b)" "take 4 (drop 12 ?a) = take 4 (drop 12 ?b)"
    "take 4 (drop 16 ?a) = take 4 (drop 16 ?b)" "take 12 (drop 20 ?a) = take 12 (drop 20 ?b)"
    using len assms by (simp_all add: format_gpu_uuid_def Let_def append_eq_append_conv)
  then have "?a = ?b" using cut [OF len(1)] cut [OF len(2)] by simp
  then show "a = b" using hex_bytes_inject [of a b] assms by simp
qed simp

definition bits_per_unit :: "BandwidthUnit \<Rightarrow> u64" where
  "bits_per_unit unit_of =
     (case unit_of of BandwidthUnit.BitsPerSecond \<Rightarrow> 1 | BandwidthUnit.KilobitsPerSecond \<Rightarrow> 1000
      | BandwidthUnit.MegabitsPerSecond \<Rightarrow> 1000000 | BandwidthUnit.GigabitsPerSecond \<Rightarrow> 1000000000 | _ \<Rightarrow> 0)"

text \<open>Choosing a larger unit loses nothing.\<close>

lemma bits_per_second_exact:
  "case bits_per_second magnitude of V_Bandwidth n unit_of \<Rightarrow> n * bits_per_unit unit_of = magnitude | _ \<Rightarrow> False"
proof -
  have "magnitude div k * k = magnitude" if "magnitude mod k = 0" for k
    using div_mult_mod_eq [of magnitude k] that by simp
  then show ?thesis by (simp add: bits_per_second_def bits_per_unit_def)
qed

text \<open>Dropping the absent children of a conjunction and the conjunction around a single child changes no outcome.\<close>

lemma all_of_evaluates:
  "ptr_outcome env (all_of children) =
    (case List.filter (\<lambda>child. child \<noteq> None) children of
       [child] \<Rightarrow> ptr_outcome env child
     | present \<Rightarrow> all_of_outcome (map (ptr_outcome env) present))"
  by (auto simp: all_of_def Let_def ptr_outcome_node split: list.split)

end
