(* ===== verification/Synthetic_Fleets.thy ===== *)
theory Synthetic_Fleets
  imports Adapters
begin

text \<open>
  The deterministic synthetic fleets (\<^verbatim>\<open>src/adapter_synthetic.cpp\<close>): the devices, claims, quirks and compatibility facts
  of each profile, with the helpers they are built from.
\<close>

section \<open>Profiles\<close>

datatype SyntheticProfile =
    MixedVendorFleet
  | NvidiaGenerationDrift
  | AmdAcceleratorFleet
  | CxlFabric
  | DpuSmartNicFabric
  | PartitioningProfiles
  | ContradictionScenario
  | QuirkScenario
  | UnsupportedScenario
  | ResetScenario
  | PrecisionMatrix

fun to_string_SyntheticProfile :: "SyntheticProfile \<Rightarrow> string" where
  "to_string_SyntheticProfile MixedVendorFleet = ''mixed-vendor-fleet''"
| "to_string_SyntheticProfile NvidiaGenerationDrift = ''nvidia-generation-drift''"
| "to_string_SyntheticProfile AmdAcceleratorFleet = ''amd-accelerator-fleet''"
| "to_string_SyntheticProfile CxlFabric = ''cxl-fabric''"
| "to_string_SyntheticProfile DpuSmartNicFabric = ''dpu-smartnic-fabric''"
| "to_string_SyntheticProfile PartitioningProfiles = ''partitioning-profiles''"
| "to_string_SyntheticProfile ContradictionScenario = ''contradiction-scenario''"
| "to_string_SyntheticProfile QuirkScenario = ''quirk-scenario''"
| "to_string_SyntheticProfile UnsupportedScenario = ''unsupported-scenario''"
| "to_string_SyntheticProfile ResetScenario = ''reset-scenario''"
| "to_string_SyntheticProfile PrecisionMatrix = ''precision-matrix''"

definition all_synthetic_profiles :: "SyntheticProfile list" where
  "all_synthetic_profiles =
     [MixedVendorFleet, NvidiaGenerationDrift, AmdAcceleratorFleet, CxlFabric, DpuSmartNicFabric, PartitioningProfiles,
      ContradictionScenario, QuirkScenario, UnsupportedScenario, ResetScenario, PrecisionMatrix]"

definition synthetic_profile_from_string :: "string \<Rightarrow> SyntheticProfile option" where
  "synthetic_profile_from_string text =
     find (\<lambda>v. equals_ascii_ci text (to_string_SyntheticProfile v)) all_synthetic_profiles"

section \<open>Building a fleet\<close>

record SyntheticCapability =
  sy_capability :: string
  sy_support :: SupportState
  sy_value :: CapabilityValue
  sy_precision :: PrecisionClass
  sy_reference :: string
  sy_conditions :: ConditionPtr
  sy_source_class :: SourceClass
  sy_provenance :: ProvenanceClass

record SyntheticDevice =
  sd_vendor :: string
  sd_family :: string
  sd_model :: string
  sd_architecture :: string
  sd_revision :: string
  sd_token :: string
  sd_display :: string
  sd_hardware_class :: HardwareClass
  sd_driver_id :: string
  sd_driver_version :: string
  sd_firmware_id :: string
  sd_firmware_version :: string
  sd_runtime_id :: string
  sd_runtime_version :: string
  sd_capabilities :: "SyntheticCapability list"

record SyntheticFleet =
  sf_devices :: "SyntheticDevice list"
  sf_quirks :: "QuirkRecord list"
  sf_compatibility :: "CompatibilityFact list"
  sf_reincarnations :: "(nat \<times> SyntheticCapability list) list"

definition split_bandwidth :: "u64 \<Rightarrow> CapabilityValue" where
  "split_bandwidth gigabytes_per_second = V_Bandwidth gigabytes_per_second BandwidthUnit.GigabytesPerSecond"

definition claim_classified ::
  "string \<Rightarrow> SupportState \<Rightarrow> CapabilityValue \<Rightarrow> PrecisionClass \<Rightarrow> string \<Rightarrow> SourceClass \<Rightarrow> ProvenanceClass \<Rightarrow>
   SyntheticCapability" where
  "claim_classified capability support claimed precision reference source_class provenance =
     \<lparr>sy_capability = capability, sy_support = support, sy_value = claimed, sy_precision = precision,
      sy_reference = reference, sy_conditions = None, sy_source_class = source_class, sy_provenance = provenance\<rparr>"

definition claim ::
  "string \<Rightarrow> SupportState \<Rightarrow> CapabilityValue \<Rightarrow> PrecisionClass \<Rightarrow> string \<Rightarrow> ConditionPtr \<Rightarrow> SyntheticCapability" where
  "claim capability support claimed precision reference conditions =
     \<lparr>sy_capability = capability, sy_support = support, sy_value = claimed, sy_precision = precision,
      sy_reference = reference, sy_conditions = conditions, sy_source_class = SourceClass.Unspecified,
      sy_provenance = ProvenanceClass.UnknownSource\<rparr>"

definition make_gpu ::
  "string \<Rightarrow> string \<Rightarrow> string \<Rightarrow> string \<Rightarrow> string \<Rightarrow> string \<Rightarrow> string \<Rightarrow> string \<Rightarrow> SyntheticDevice" where
  "make_gpu vendor family model architecture driver_version firmware_version runtime_version token =
     \<lparr>sd_vendor = vendor, sd_family = family, sd_model = model, sd_architecture = architecture,
      sd_revision = ''rev.'' @ architecture @ ''.a0'', sd_token = token, sd_display = model,
      sd_hardware_class = HardwareClass.Gpu,
      sd_driver_id = ''driver.'' @ vendor, sd_driver_version = driver_version,
      sd_firmware_id = ''fw.'' @ vendor, sd_firmware_version = firmware_version,
      sd_runtime_id = ''runtime.'' @ vendor, sd_runtime_version = runtime_version, sd_capabilities = []\<rparr>"

definition with_class :: "HardwareClass \<Rightarrow> SyntheticDevice \<Rightarrow> SyntheticDevice" where
  "with_class hardware_class device = device\<lparr>sd_hardware_class := hardware_class\<rparr>"

text \<open>The claims \<^verbatim>\<open>add\<close> and \<^verbatim>\<open>add_classified\<close> push one after the other.\<close>

definition device_with :: "SyntheticDevice \<Rightarrow> SyntheticCapability list \<Rightarrow> SyntheticDevice" where
  "device_with device claims = device\<lparr>sd_capabilities := sd_capabilities device @ claims\<rparr>"

definition fleet_of :: "SyntheticDevice list \<Rightarrow> SyntheticFleet" where
  "fleet_of devices = \<lparr>sf_devices = devices, sf_quirks = [], sf_compatibility = [], sf_reincarnations = []\<rparr>"

definition synthetic_source :: EvidenceSource where
  "synthetic_source = no_source\<lparr>es_source_class := SourceClass.SyntheticBackend,
     es_provenance := ProvenanceClass.Synthetic,
     es_publisher := no_publisher\<lparr>pub_id := id_parse ''publisher.synthetic''\<rparr>\<rparr>"

section \<open>The fleets\<close>

definition mixed_h200 :: "SyntheticDevice" where
  "mixed_h200 =
      device_with (make_gpu ''vendor.nvidia'' ''family.nvidia.datacenter'' ''model.nvidia.h200''
        ''arch.nvidia.sm_90'' ''570.86.15'' ''96.00.74.00.01'' ''12.8'' ''h200'') [
        claim ''cap.compute.fp64'' SupportState.SupportedNative (V_Boolean True) PrecisionClass.DirectReported
          ''synthetic.nvml'' None,
        claim ''cap.compute.fp8'' SupportState.SupportedNative (V_Boolean True) PrecisionClass.DirectReported
          ''synthetic.nvml'' None,
        claim ''cap.memory.capacity'' SupportState.SupportedNative (V_Bytes 141000000000)
          PrecisionClass.DirectReported ''synthetic.nvml'' None,
        claim ''cap.memory.type'' SupportState.SupportedNative (V_Enumeration ''memory_type'' ''hbm3'')
          PrecisionClass.DirectReported ''synthetic.nvml'' None,
        claim ''cap.partition.mechanism'' SupportState.SupportedNative (V_FeatureSet [''mig'', ''sriov''])
          PrecisionClass.DirectReported ''synthetic.nvml'' None,
        claim ''cap.partition.max_partitions'' SupportState.SupportedNative (V_Count 7 ''partitions'')
          PrecisionClass.DirectReported ''synthetic.nvml'' None,
        claim ''cap.interconnect.nvlink'' SupportState.SupportedNative (V_Boolean True)
          PrecisionClass.DirectReported ''synthetic.nvml'' None,
        claim ''cap.net.gpudirect'' SupportState.SupportedConditional (V_Boolean True)
          PrecisionClass.DirectReported ''synthetic.nvml'' (condition ConditionKind.MinDriverVersion [] ''550.0''),
        claim ''cap.reliability.ecc_exposure'' SupportState.SupportedNative (V_Boolean True)
          PrecisionClass.DirectReported ''synthetic.nvml'' None,
        claim ''cap.runtime.cuda'' SupportState.SupportedNative (V_Enumeration ''runtime'' ''12.8'')
          PrecisionClass.DirectReported ''synthetic.runtime'' None]"

definition mixed_rtx5090 :: "SyntheticDevice" where
  "mixed_rtx5090 =
      device_with (make_gpu ''vendor.nvidia'' ''family.nvidia.consumer'' ''model.nvidia.rtx5090''
        ''arch.nvidia.sm_120'' ''616.92'' ''98.02.5c.00.0a'' ''12.9'' ''rtx5090'') [
        claim ''cap.compute.fp32'' SupportState.SupportedNative (V_Boolean True) PrecisionClass.Probed
          ''synthetic.runtime'' None,
        claim ''cap.memory.capacity'' SupportState.SupportedNative (V_Bytes 34251081216)
          PrecisionClass.DirectReported ''synthetic.nvml'' None,
        claim ''cap.memory.type'' SupportState.SupportedNative (V_Enumeration ''memory_type'' ''gddr7'')
          PrecisionClass.DirectReported ''synthetic.nvml'' None,
        claim ''cap.partition.mechanism'' SupportState.Unsupported V_None PrecisionClass.Exact
          ''synthetic.nvmlGetMigMode'' None,
        claim ''cap.net.gpudirect'' SupportState.Unknown V_None PrecisionClass.Unknown ''synthetic.none'' None]"

definition mixed_mi300x :: "SyntheticDevice" where
  "mixed_mi300x =
      device_with (make_gpu ''vendor.amd'' ''family.amd.instinct'' ''model.amd.mi300x'' ''arch.amd.cdna3''
        ''6.10.5'' ''0x0'' ''6.2'' ''mi300x'') [
        claim ''cap.memory.capacity'' SupportState.SupportedNative (V_Bytes 192000000000)
          PrecisionClass.DirectReported ''synthetic.rocm-smi'' None,
        claim ''cap.memory.coherence'' SupportState.SupportedNative (V_Enumeration ''coherence'' ''system-wide'')
          PrecisionClass.DirectReported ''synthetic.rocm-smi'' None,
        claim ''cap.compute.fp64'' SupportState.SupportedNative (V_Boolean True) PrecisionClass.DirectReported
          ''synthetic.rocm-smi'' None,
        claim ''cap.runtime.rocm'' SupportState.SupportedNative (V_Enumeration ''runtime'' ''6.2'')
          PrecisionClass.DirectReported ''synthetic.rocm-smi'' None,
        claim ''cap.interconnect.infinity_fabric'' SupportState.SupportedNative (V_Boolean True)
          PrecisionClass.DirectReported ''synthetic.rocm-smi'' None]"

definition mixed_gaudi3 :: "SyntheticDevice" where
  "mixed_gaudi3 =
      device_with (with_class HardwareClass.AsicAccelerator (make_gpu ''vendor.intel'' ''family.intel.gaudi''
        ''model.intel.gaudi3'' ''arch.intel.gaudi3'' ''1.15.0'' ''0x1'' ''1.15'' ''gaudi3'')) [
        claim ''cap.compute.bf16'' SupportState.SupportedNative (V_Boolean True) PrecisionClass.Curated
          ''curated.architecture-table'' None,
        claim ''cap.compute.fp8'' SupportState.SupportedNative (V_Boolean True) PrecisionClass.Curated
          ''curated.architecture-table'' None,
        claim ''cap.interconnect.collective_offload'' SupportState.SupportedNative (V_Boolean True)
          PrecisionClass.DirectReported ''synthetic.vendor-api'' None,
        claim ''cap.net.rdma'' SupportState.SupportedNative (V_Boolean True) PrecisionClass.DirectReported
          ''synthetic.vendor-api'' None]"

definition mixed_bluefield3 :: "SyntheticDevice" where
  "mixed_bluefield3 =
      device_with (with_class HardwareClass.Dpu (make_gpu ''vendor.nvidia'' ''family.nvidia.dpu''
        ''model.nvidia.bluefield3'' ''arch.nvidia.bf3'' ''24.10'' ''32.42.1000'' ''4.7'' ''bluefield3'')) [
        claim ''cap.net.rdma'' SupportState.SupportedNative (V_Boolean True) PrecisionClass.DirectReported
          ''synthetic.nic-api'' None,
        claim ''cap.net.roce'' SupportState.SupportedNative (V_Boolean True) PrecisionClass.DirectReported
          ''synthetic.nic-api'' None,
        claim ''cap.net.smartnic_processing'' SupportState.SupportedNative (V_Boolean True)
          PrecisionClass.DirectReported ''synthetic.nic-api'' None,
        claim ''cap.net.sriov'' SupportState.SupportedNative (V_Boolean True) PrecisionClass.DirectReported
          ''synthetic.nic-api'' None,
        claim ''cap.net.encryption_offload'' SupportState.SupportedConditional (V_Boolean True)
          PrecisionClass.DirectReported ''synthetic.nic-api''
          (condition ConditionKind.RequiredPrivilege [] ''admin'')]"

definition mixed_cxl_expander :: "SyntheticDevice" where
  "mixed_cxl_expander =
      device_with (with_class HardwareClass.CxlDevice (make_gpu ''vendor.microchip'' ''family.cxl.memory''
        ''model.cxl.memory-expander'' ''arch.cxl.3.0'' ''1.4.0'' ''1.0.0'' ''1.4'' ''cxl-expander'')) [
        claim ''cap.memory.cxl_exposure'' SupportState.SupportedNative (V_Boolean True)
          PrecisionClass.DirectReported ''synthetic.cxl-enumeration'' None,
        claim ''cap.memory.capacity'' SupportState.SupportedNative (V_Bytes 512000000000)
          PrecisionClass.DirectReported ''synthetic.cxl-enumeration'' None,
        claim ''cap.memory.coherence'' SupportState.SupportedNative (V_Enumeration ''coherence'' ''coherent'')
          PrecisionClass.DirectReported ''synthetic.cxl-enumeration'' None,
        claim ''cap.interconnect.cxl'' SupportState.SupportedNative (V_Boolean True) PrecisionClass.DirectReported
          ''synthetic.cxl-enumeration'' None,
        claim ''cap.memory.page_sizes'' SupportState.SupportedNative (V_FeatureSet [''4k'', ''2m''])
          PrecisionClass.DirectReported ''synthetic.cxl-enumeration'' None]"

definition mixed_arc_b580 :: "SyntheticDevice" where
  "mixed_arc_b580 =
      device_with (make_gpu ''vendor.intel'' ''family.intel.gpu'' ''model.intel.arc.b580'' ''arch.intel.xe2''
        ''32.0.101'' ''1.0'' ''1.6'' ''arc-b580'') [
        claim ''cap.memory.capacity'' SupportState.SupportedNative (V_Bytes 12884901888)
          PrecisionClass.DirectReported ''synthetic.level-zero'' None,
        claim ''cap.runtime.level_zero'' SupportState.SupportedNative (V_Enumeration ''runtime'' ''1.6'')
          PrecisionClass.DirectReported ''synthetic.level-zero'' None,
        claim ''cap.net.gpudirect'' SupportState.Unsupported V_None PrecisionClass.Exact ''synthetic.peer-query''
          None,
        claim ''cap.compute.fp64'' SupportState.SupportedEmulated (V_Boolean True) PrecisionClass.Curated
          ''curated.architecture-table'' None]"

definition make_mixed_vendor_fleet :: "SyntheticFleet" where
  "make_mixed_vendor_fleet =
     fleet_of [mixed_h200, mixed_rtx5090, mixed_mi300x, mixed_gaudi3,
       mixed_bluefield3, mixed_cxl_expander, mixed_arc_b580]"

definition drift_device :: "SyntheticDevice" where
  "drift_device =
      device_with (make_gpu ''vendor.nvidia'' ''family.nvidia.consumer'' ''model.nvidia.rtx5090''
        ''arch.nvidia.sm_120'' ''610.10'' ''98.02.5c.00.0a'' ''12.8'' ''drift-gpu'') [
        claim ''cap.memory.capacity'' SupportState.SupportedNative (V_Bytes 34251081216)
          PrecisionClass.DirectReported ''synthetic.nvml'' None,
        claim ''cap.runtime.external_memory_handles'' SupportState.SupportedNative (V_Boolean True)
          PrecisionClass.DirectReported ''synthetic.runtime'' None]"

definition claims_after_drift :: "SyntheticCapability list" where
  "claims_after_drift =
     [
        claim ''cap.runtime.external_memory_handles'' SupportState.SupportedNative (V_Boolean True)
          PrecisionClass.DirectReported ''synthetic.runtime'' None,
        claim ''cap.runtime.graph_capture'' SupportState.SupportedNative (V_Boolean True)
          PrecisionClass.DirectReported ''synthetic.runtime'' None]"

definition make_generation_drift :: "SyntheticFleet" where
  "make_generation_drift =
     (fleet_of [drift_device])\<lparr>sf_reincarnations := [(0, claims_after_drift)]\<rparr>"

definition reset_device :: "SyntheticDevice" where
  "reset_device =
      device_with (make_gpu ''vendor.nvidia'' ''family.nvidia.consumer'' ''model.nvidia.rtx5090''
        ''arch.nvidia.sm_120'' ''616.92'' ''98.02.5c.00.0a'' ''12.9'' ''reset-gpu'') [
        claim ''cap.memory.capacity'' SupportState.SupportedNative (V_Bytes 34251081216)
          PrecisionClass.DirectReported ''synthetic.nvml'' None,
        claim ''cap.reliability.reset'' SupportState.SupportedNative (V_Enumeration ''reset'' ''device-level'')
          PrecisionClass.DirectReported ''synthetic.nvml'' None]"

definition claims_after_reset :: "SyntheticCapability list" where
  "claims_after_reset =
     [
        claim ''cap.memory.capacity'' SupportState.SupportedNative (V_Bytes 34251081216)
          PrecisionClass.DirectReported ''synthetic.nvml'' None,
        claim ''cap.runtime.ipc'' SupportState.SupportedNative (V_Boolean True) PrecisionClass.DirectReported
          ''synthetic.runtime'' None]"

definition make_reset_scenario :: "SyntheticFleet" where
  "make_reset_scenario =
     (fleet_of [reset_device])\<lparr>sf_reincarnations := [(0, claims_after_reset)]\<rparr>"

definition amd_device :: "nat \<Rightarrow> SyntheticDevice" where
  "amd_device index =
      device_with (make_gpu ''vendor.amd'' ''family.amd.instinct'' ''model.amd.mi250x'' ''arch.amd.cdna3''
        ''6.4.0'' ''0x2'' ''6.0'' (''mi250x-'' @ nat_to_string index)) [
        claim ''cap.memory.capacity'' SupportState.SupportedNative (V_Bytes 128000000000)
          PrecisionClass.DirectReported ''synthetic.rocm-smi'' None,
        claim ''cap.memory.bandwidth'' SupportState.SupportedNative (split_bandwidth 3276) PrecisionClass.Curated
          ''curated.architecture-table'' None,
        claim ''cap.compute.fp64'' SupportState.SupportedNative (V_Boolean True) PrecisionClass.DirectReported
          ''synthetic.rocm-smi'' None,
        claim ''cap.interconnect.peer_to_peer'' SupportState.SupportedConditional (V_Boolean True)
          PrecisionClass.DirectReported ''synthetic.rocm-smi''
          (condition ConditionKind.RequiredTopology [] ''xgmi'')]"

definition rocm_fact :: "CompatibilityFact" where
  "rocm_fact =
     no_fact\<lparr>cf_id := id_parse ''compat.amd.mi250x.rocm'', cf_generation := gen_first,
       cf_kind := CompatibilitySubjectKind.AcceleratorRuntime,
       cf_lhs := no_reference\<lparr>hr_kind := ReferenceKind.HardwareFamily, hr_token := ''family.amd.instinct''\<rparr>,
       cf_rhs := no_reference\<lparr>hr_kind := ReferenceKind.Runtime, hr_token := ''runtime.rocm'',
         hr_version := parse_version ''6.0''\<rparr>,
       cf_outcome := CompatibilityOutcome.CompatibleConditional,
       cf_reason := ''requires the ROCm 6.0 runtime or newer for the full capability set'',
       cf_version_window := (cf_version_window no_fact)\<lparr>vr_minimum := parse_version ''6.0''\<rparr>,
       cf_source := synthetic_source\<lparr>es_adapter := ''synthetic.backend''\<rparr>\<rparr>"

definition make_amd_fleet :: "SyntheticFleet" where
  "make_amd_fleet =
     (fleet_of (map amd_device [0..<3]))\<lparr>sf_compatibility := [rocm_fact]\<rparr>"

definition cxl_device :: "SyntheticDevice" where
  "cxl_device =
      device_with (with_class HardwareClass.CxlDevice (make_gpu ''vendor.microchip'' ''family.cxl.memory''
        ''model.cxl.memory-expander'' ''arch.cxl.3.0'' ''1.4.0'' ''1.0.0'' ''1.4'' ''cxl-1'')) [
        claim ''cap.memory.cxl_exposure'' SupportState.SupportedNative (V_Boolean True)
          PrecisionClass.DirectReported ''synthetic.cxl-enumeration'' None,
        claim ''cap.memory.capacity'' SupportState.SupportedNative (V_Bytes 256000000000)
          PrecisionClass.DirectReported ''synthetic.cxl-enumeration'' None,
        claim ''cap.interconnect.cxl'' SupportState.SupportedNative (V_Boolean True) PrecisionClass.DirectReported
          ''synthetic.cxl-enumeration'' None]"

definition cxl_legacy_device :: "SyntheticDevice" where
  "cxl_legacy_device =
      device_with (with_class HardwareClass.MemoryExpander (make_gpu ''vendor.microchip'' ''family.cxl.memory''
        ''model.cxl.memory-expander.legacy'' ''arch.cxl.2.0'' ''1.1.0'' ''0.9.0'' ''1.1'' ''cxl-2'')) [
        claim ''cap.memory.cxl_exposure'' SupportState.SupportedConditional (V_Boolean True)
          PrecisionClass.DirectReported ''synthetic.cxl-enumeration''
          (condition ConditionKind.RequiredPlatformSetting ''bios.cxl'' ''enabled''),
        claim ''cap.memory.capacity'' SupportState.SupportedNative (V_Bytes 128000000000)
          PrecisionClass.DirectReported ''synthetic.cxl-enumeration'' None]"

definition cxl_fact :: "CompatibilityFact" where
  "cxl_fact =
     no_fact\<lparr>cf_id := id_parse ''compat.cxl.expander.platform'', cf_generation := gen_first,
       cf_kind := CompatibilitySubjectKind.CxlPlatform,
       cf_lhs := no_reference\<lparr>hr_kind := ReferenceKind.Device, hr_token := canonical_device_id ''dev.synthetic'' ''cxl-2''\<rparr>,
       cf_rhs := no_reference\<lparr>hr_kind := ReferenceKind.Architecture, hr_token := ''arch.cxl.2.0''\<rparr>,
       cf_outcome := CompatibilityOutcome.CompatibleConditional,
       cf_reason := ''CXL 2.0 expander requires the platform BIOS to enable CXL'',
       cf_conditions := condition ConditionKind.RequiredPlatformSetting ''bios.cxl'' ''enabled'',
       cf_source := synthetic_source\<lparr>es_adapter := ''synthetic.backend''\<rparr>\<rparr>"

definition make_cxl_fabric :: "SyntheticFleet" where
  "make_cxl_fabric =
     (fleet_of [cxl_device, cxl_legacy_device])\<lparr>sf_compatibility := [cxl_fact]\<rparr>"

definition dpu_device :: "SyntheticDevice" where
  "dpu_device =
      device_with (with_class HardwareClass.Dpu (make_gpu ''vendor.nvidia'' ''family.nvidia.dpu''
        ''model.nvidia.bluefield3'' ''arch.nvidia.bf3'' ''24.10'' ''32.42.1000'' ''4.7'' ''bf3-0'')) [
        claim ''cap.net.rdma'' SupportState.SupportedNative (V_Boolean True) PrecisionClass.DirectReported
          ''synthetic.nic-api'' None,
        claim ''cap.net.roce'' SupportState.SupportedNative (V_Boolean True) PrecisionClass.DirectReported
          ''synthetic.nic-api'' None,
        claim ''cap.net.queue_pairs'' SupportState.SupportedNative (V_Count 2048 ''queues'')
          PrecisionClass.DirectReported ''synthetic.nic-api'' None,
        claim ''cap.net.smartnic_processing'' SupportState.SupportedNative (V_Boolean True)
          PrecisionClass.DirectReported ''synthetic.nic-api'' None,
        claim ''cap.net.flow_steering'' SupportState.SupportedNative (V_Boolean True) PrecisionClass.DirectReported
          ''synthetic.nic-api'' None]"

definition nic_device :: "SyntheticDevice" where
  "nic_device =
      device_with (with_class HardwareClass.Nic (make_gpu ''vendor.mellanox'' ''family.mellanox.connectx''
        ''model.mellanox.cx7'' ''arch.mellanox.cx7'' ''24.10'' ''16.35.2000'' ''4.7'' ''cx7-0'')) [
        claim ''cap.net.rdma'' SupportState.SupportedNative (V_Boolean True) PrecisionClass.DirectReported
          ''synthetic.nic-api'' None,
        claim ''cap.net.link_speed'' SupportState.SupportedNative (bits_per_second 400000000000)
          PrecisionClass.DirectReported ''synthetic.nic-api'' None,
        claim ''cap.net.sriov'' SupportState.SupportedNative (V_Boolean True) PrecisionClass.DirectReported
          ''synthetic.nic-api'' None,
        claim ''cap.net.smartnic_processing'' SupportState.Unsupported V_None PrecisionClass.Exact
          ''synthetic.nic-api'' None]"

definition direct_path_fact :: "CompatibilityFact" where
  "direct_path_fact =
     no_fact\<lparr>cf_id := id_parse ''compat.gpu.nic.direct-path'', cf_generation := gen_first,
       cf_kind := CompatibilitySubjectKind.GpuNicDirectPath,
       cf_lhs := no_reference\<lparr>hr_kind := ReferenceKind.HardwareFamily, hr_token := ''family.nvidia.dpu''\<rparr>,
       cf_rhs := no_reference\<lparr>hr_kind := ReferenceKind.HardwareFamily, hr_token := ''family.mellanox.connectx''\<rparr>,
       cf_outcome := CompatibilityOutcome.Compatible,
       cf_reason := ''peer memory path between the DPU and the ConnectX-class adapter is supported'',
       cf_source := synthetic_source\<lparr>es_adapter := ''synthetic.backend''\<rparr>\<rparr>"

definition make_dpu_fabric :: "SyntheticFleet" where
  "make_dpu_fabric =
     (fleet_of [dpu_device, nic_device])\<lparr>sf_compatibility := [direct_path_fact]\<rparr>"

definition mig_device :: "SyntheticDevice" where
  "mig_device =
      device_with (make_gpu ''vendor.nvidia'' ''family.nvidia.datacenter'' ''model.nvidia.h100''
        ''arch.nvidia.sm_90'' ''550.54'' ''92.00.3f.00.0a'' ''12.4'' ''h100-mig'') [
        claim ''cap.partition.mechanism'' SupportState.SupportedNative (V_FeatureSet [''mig''])
          PrecisionClass.DirectReported ''synthetic.nvml'' None,
        claim ''cap.partition.profiles'' SupportState.SupportedNative
          (V_FeatureSet [''1g.10gb'', ''2g.20gb'', ''3g.40gb'', ''7g.80gb'']) PrecisionClass.DirectReported
          ''synthetic.nvml'' None,
        claim ''cap.partition.max_partitions'' SupportState.SupportedNative (V_Count 7 ''partitions'')
          PrecisionClass.DirectReported ''synthetic.nvml'' None,
        claim ''cap.partition.memory_isolation'' SupportState.SupportedNative (V_Boolean True)
          PrecisionClass.DirectReported ''synthetic.nvml'' None,
        claim ''cap.partition.live_reconfiguration'' SupportState.SupportedConditional
          (V_Enumeration ''live_reconfiguration'' ''reset-preferred'') PrecisionClass.DirectReported
          ''synthetic.nvml'' (condition ConditionKind.RequiredPrivilege [] ''admin''),
        claim ''cap.partition.reset_required'' SupportState.SupportedNative (V_Boolean True)
          PrecisionClass.DirectReported ''synthetic.nvml'' None]"

definition radeon_device :: "SyntheticDevice" where
  "radeon_device =
      device_with (make_gpu ''vendor.amd'' ''family.amd.radeon'' ''model.amd.radeon.rx7900'' ''arch.amd.rdna3''
        ''6.4.0'' ''0x3'' ''6.0'' ''rx7900'') [
        claim ''cap.partition.mechanism'' SupportState.Unsupported V_None PrecisionClass.Exact
          ''synthetic.rocm-smi'' None,
        claim ''cap.partition.max_partitions'' SupportState.Unsupported V_None PrecisionClass.Exact
          ''synthetic.rocm-smi'' None]"

definition make_partitioning :: "SyntheticFleet" where
  "make_partitioning =
     fleet_of [mig_device, radeon_device]"

definition conflict_device :: "SyntheticDevice" where
  "conflict_device =
      device_with (make_gpu ''vendor.nvidia'' ''family.nvidia.datacenter'' ''model.nvidia.a100''
        ''arch.nvidia.sm_80'' ''470.57'' ''92.00.02.00.01'' ''11.4'' ''a100-conflict'') [
        claim_classified ''cap.interconnect.peer_to_peer'' SupportState.SupportedNative (V_Boolean True)
          PrecisionClass.Curated ''curated.architecture-table'' SourceClass.StaticCuratedDatabase
          ProvenanceClass.CuratedStatic,
        claim_classified ''cap.compute.fp8'' SupportState.SupportedNative (V_Boolean True) PrecisionClass.Curated
          ''curated.architecture-table'' SourceClass.StaticCuratedDatabase ProvenanceClass.CuratedStatic,
        claim_classified ''cap.compute.fp8'' SupportState.Unsupported V_None PrecisionClass.Exact
          ''synthetic.runtime-probe'' SourceClass.RuntimeProbe ProvenanceClass.RealRuntimeProbe,
        claim ''cap.memory.capacity'' SupportState.SupportedNative (V_Bytes 42949672960)
          PrecisionClass.DirectReported ''synthetic.nvml'' None]"

definition make_contradiction :: "SyntheticFleet" where
  "make_contradiction =
     fleet_of [conflict_device]"

definition quirk_device :: "SyntheticDevice" where
  "quirk_device =
      device_with (make_gpu ''vendor.nvidia'' ''family.nvidia.datacenter'' ''model.nvidia.h100''
        ''arch.nvidia.sm_90'' ''535.104'' ''92.00.3f.00.0a'' ''12.2'' ''h100-quirk'') [
        claim ''cap.interconnect.peer_to_peer'' SupportState.SupportedNative (V_Boolean True)
          PrecisionClass.DirectReported ''synthetic.nvml'' None,
        claim ''cap.runtime.external_memory_handles'' SupportState.SupportedNative (V_Boolean True)
          PrecisionClass.DirectReported ''synthetic.runtime'' None]"

definition driver_defect :: "QuirkRecord" where
  "driver_defect =
     no_quirk\<lparr>qr_id := id_parse ''quirk.nvidia.p2p-driver-defect'', qr_generation := gen_first,
       qr_title := ''peer-to-peer transfers are reported as supported but fail under this driver range'',
       qr_description :=
         ''The device advertises peer access; the driver range 530.0-539.99 produces transfer failures.'',
       qr_category := QuirkCategory.DriverDefect, qr_severity := QuirkSeverity.Unusable,
       qr_mitigation := MitigationKind.UpgradeDriver,
       qr_applicability := no_applicability\<lparr>qa_families := [id_parse ''family.nvidia.datacenter''],
         qa_driver_ranges := [\<lparr>vr_minimum = parse_version ''530.0'', vr_maximum = parse_version ''540.0'',
           vr_include_maximum = False\<rparr>]\<rparr>,
       qr_impacted_capabilities := [id_parse ''cap.interconnect.peer_to_peer''], qr_source := synthetic_source\<rparr>"

definition performance_caveat :: "QuirkRecord" where
  "performance_caveat =
     no_quirk\<lparr>qr_id := id_parse ''quirk.nvidia.p2p-performance-caveat'', qr_generation := gen_first,
       qr_title := ''peer-to-peer bandwidth is degraded on this topology'',
       qr_category := QuirkCategory.PerformanceCaveat, qr_severity := QuirkSeverity.Caveat,
       qr_mitigation := MitigationKind.NoMitigation,
       qr_applicability := no_applicability\<lparr>qa_families := [id_parse ''family.nvidia.datacenter'']\<rparr>,
       qr_impacted_capabilities := [id_parse ''cap.interconnect.peer_to_peer''], qr_source := synthetic_source\<rparr>"

definition make_quirk_scenario :: "SyntheticFleet" where
  "make_quirk_scenario =
     (fleet_of [quirk_device])\<lparr>sf_quirks := [driver_defect, performance_caveat]\<rparr>"

definition unsupported_device :: "SyntheticDevice" where
  "unsupported_device =
      device_with (make_gpu ''vendor.nvidia'' ''family.nvidia.consumer'' ''model.nvidia.rtx4090''
        ''arch.nvidia.sm_89'' ''560.35'' ''95.02.18.00.01'' ''12.6'' ''rtx4090'') [
        claim ''cap.partition.mechanism'' SupportState.Unsupported V_None PrecisionClass.Exact
          ''synthetic.nvmlGetMigMode'' None,
        claim ''cap.memory.ecc'' SupportState.Unsupported V_None PrecisionClass.Exact ''synthetic.nvmlGetEccMode''
          None,
        claim ''cap.interconnect.nvswitch'' SupportState.Unsupported V_None PrecisionClass.Exact
          ''synthetic.nvmlTopology'' None,
        claim ''cap.compute.fp64'' SupportState.SupportedNative (V_Boolean True) PrecisionClass.DirectReported
          ''synthetic.runtime'' None,
        claim ''cap.net.rdma'' SupportState.Unknown V_None PrecisionClass.Unknown ''synthetic.none'' None]"

definition make_unsupported_scenario :: "SyntheticFleet" where
  "make_unsupported_scenario =
     fleet_of [unsupported_device]"

definition precision_device :: "SyntheticDevice" where
  "precision_device =
      device_with (make_gpu ''vendor.nvidia'' ''family.nvidia.datacenter'' ''model.nvidia.b200''
        ''arch.nvidia.sm_100'' ''570.86.15'' ''97.00.10.00.01'' ''12.8'' ''b200'') [
        claim_classified ''cap.compute.fp4'' SupportState.SupportedNative (V_Boolean True) PrecisionClass.Curated
          ''curated.architecture-table'' SourceClass.StaticCuratedDatabase ProvenanceClass.CuratedStatic,
        claim_classified ''cap.compute.fp8'' SupportState.SupportedNative (V_Boolean True) PrecisionClass.Probed
          ''synthetic.runtime-probe'' SourceClass.HardwareProbe ProvenanceClass.RealLiveHardware,
        claim_classified ''cap.compute.bf16'' SupportState.SupportedNative (V_Boolean True)
          PrecisionClass.DirectReported ''synthetic.nvml'' SourceClass.LiveVendorApi ProvenanceClass.RealVendorApi,
        claim_classified ''cap.compute.fp64'' SupportState.SupportedNative (V_Boolean True) PrecisionClass.Inferred
          ''derived.from-family'' SourceClass.StaticCuratedDatabase ProvenanceClass.Derived]"

definition make_precision_matrix :: "SyntheticFleet" where
  "make_precision_matrix =
     fleet_of [precision_device]"

fun build_fleet :: "SyntheticProfile \<Rightarrow> SyntheticFleet" where
  "build_fleet MixedVendorFleet = make_mixed_vendor_fleet"
| "build_fleet NvidiaGenerationDrift = make_generation_drift"
| "build_fleet AmdAcceleratorFleet = make_amd_fleet"
| "build_fleet CxlFabric = make_cxl_fabric"
| "build_fleet DpuSmartNicFabric = make_dpu_fabric"
| "build_fleet PartitioningProfiles = make_partitioning"
| "build_fleet ContradictionScenario = make_contradiction"
| "build_fleet QuirkScenario = make_quirk_scenario"
| "build_fleet UnsupportedScenario = make_unsupported_scenario"
| "build_fleet ResetScenario = make_reset_scenario"
| "build_fleet PrecisionMatrix = make_precision_matrix"

end
