(* ===== verification/Synthetic.thy ===== *)
theory Synthetic
  imports Synthetic_Fleets
begin

text \<open>
  The synthetic discovery backend (\<^verbatim>\<open>SyntheticBackend\<close> in \<^verbatim>\<open>src/adapter_synthetic.cpp\<close>): every device of a fleet is registered
  and its claims published, the devices that reincarnate are announced anew, and quirks and facts follow. The notes
  about refused quirks and facts are not kept: the code replaces the report they are added to at the end.
\<close>

definition registration_for :: "SyntheticDevice \<Rightarrow> DiscoveryContext \<Rightarrow> DeviceRegistration" where
  "registration_for device dc =
     no_registration\<lparr>
       reg_identity := \<lparr>
         di_id = canonical_device_id ''dev.synthetic'' (sd_token device),
         di_incarnation = id_parse (''inc.synthetic.'' @ canonical_token (sd_token device) @ ''.'' @
           canonical_token (sd_model device)),
         di_hardware = \<lparr>
           hw_vendor = id_parse (sd_vendor device),
           hw_product = id_parse (''product.'' @ canonical_token (sd_model device)),
           hw_family = id_parse (sd_family device), hw_model = id_parse (sd_model device),
           hw_revision = id_parse (sd_revision device), hw_architecture = id_parse (sd_architecture device),
           hw_class = sd_hardware_class device,
           hw_native_identifiers = [(''synthetic.profile.token'', sd_token device),
             (''synthetic.profile.model'', sd_model device)]\<rparr>,
         di_platform = pf_id (dc_platform dc), di_serial_number = None,
         di_instance_locator = Some (sd_token device), di_display_name = sd_display device\<rparr>,
       reg_software := no_software\<lparr>
         sw_driver := \<lparr>dr_id = id_parse (sd_driver_id device), dr_version = sd_driver_version device\<rparr>,
         sw_firmware := \<lparr>fw_id = id_parse (sd_firmware_id device), fw_version = sd_firmware_version device, fw_build = []\<rparr>,
         sw_runtime := \<lparr>rt_id = id_parse (sd_runtime_id device), rt_version = sd_runtime_version device\<rparr>\<rparr>,
       reg_platform := dc_platform dc, reg_observed_at_utc := dc_observed_at_utc dc\<rparr>"

definition observation_of :: "SyntheticCapability \<Rightarrow> Observation" where
  "observation_of capability =
     \<lparr>ob_capability = id_parse (sy_capability capability), ob_support = sy_support capability,
      ob_value = sy_value capability, ob_precision = sy_precision capability,
      ob_native_reference = sy_reference capability, ob_conditions = sy_conditions capability,
      ob_source_class = sy_source_class capability, ob_provenance = sy_provenance capability\<rparr>"

text \<open>The status of a publication is not looked at.\<close>

definition publish_claims ::
  "Context \<Rightarrow> 's EvidenceSink \<Rightarrow> SubjectContext \<Rightarrow> SyntheticCapability list \<Rightarrow> Builder \<times> 's \<Rightarrow> Builder \<times> 's" where
  "publish_claims cx si subject claims =
     fold (\<lambda>capability state. snd (publish_capability cx si subject (observation_of capability) state)) claims"

fun register_fleet ::
  "Context \<Rightarrow> 's EvidenceSink \<Rightarrow> DiscoveryContext \<Rightarrow> SyntheticDevice list \<Rightarrow> SubjectContext list \<Rightarrow> Builder \<times> 's \<Rightarrow>
   (ErrorCode + SubjectContext list) \<times> Builder \<times> 's" where
  "register_fleet cx si dc [] subjects state = (Inr subjects, state)"
| "register_fleet cx si dc (device # devices) subjects state =
     (case register_subject cx si (registration_for device dc) state of
        (Inl code, state) \<Rightarrow> (Inl code, state)
      | (Inr subject, state) \<Rightarrow>
          register_fleet cx si dc devices (subjects @ [subject])
            (publish_claims cx si subject (sd_capabilities device) state))"

definition after_reset :: "SyntheticDevice \<Rightarrow> DiscoveryContext \<Rightarrow> DeviceRegistration" where
  "after_reset device dc =
     (let registration = registration_for device dc; software = reg_software registration in
      registration\<lparr>reg_device_boot_observed := True,
        reg_software := software\<lparr>sw_firmware := (sw_firmware software)\<lparr>
          fw_version := sd_firmware_version device @ ''.post-reset''\<rparr>\<rparr>\<rparr>)"

fun reincarnate ::
  "Context \<Rightarrow> 's EvidenceSink \<Rightarrow> DiscoveryContext \<Rightarrow> SyntheticDevice list \<Rightarrow> (nat \<times> SyntheticCapability list) list \<Rightarrow>
   SubjectContext list \<Rightarrow> Builder \<times> 's \<Rightarrow> (ErrorCode + SubjectContext list) \<times> Builder \<times> 's" where
  "reincarnate cx si dc devices [] subjects state = (Inr subjects, state)"
| "reincarnate cx si dc devices ((index, claims) # reincarnations) subjects (builder, s) =
     (if index \<ge> length devices then reincarnate cx si dc devices reincarnations subjects (builder, s)
      else case announce_device_generation cx si (after_reset (devices ! index) dc)
          (bump_evidence_generation builder, s) of
        (Inl code, state) \<Rightarrow> (Inl code, state)
      | (Inr subject, state) \<Rightarrow>
          reincarnate cx si dc devices reincarnations (subjects[index := subject])
            (publish_claims cx si subject claims state))"

text \<open>A fact that names a synthetic device by its token is bound to the identity the device was registered under.\<close>

definition resolve_device :: "SyntheticDevice \<Rightarrow> HardwareReference \<Rightarrow> HardwareReference" where
  "resolve_device device lhs =
     (if sd_token device = hr_token lhs
      then lhs\<lparr>hr_token := canonical_device_id ''dev.synthetic'' (sd_token device)\<rparr> else lhs)"

definition resolve_fact :: "SyntheticDevice list \<Rightarrow> CompatibilityFact \<Rightarrow> CompatibilityFact" where
  "resolve_fact devices fact_of =
     (if hr_kind (cf_lhs fact_of) = ReferenceKind.Device
      then fact_of\<lparr>cf_lhs := fold resolve_device devices (cf_lhs fact_of)\<rparr> else fact_of)"

definition publish_knowledge ::
  "Context \<Rightarrow> 's EvidenceSink \<Rightarrow> SyntheticFleet \<Rightarrow> Builder \<times> 's \<Rightarrow> Builder \<times> 's" where
  "publish_knowledge cx si fleet state =
     fold (\<lambda>fact_of state. snd (builder_publish_compatibility cx si (resolve_fact (sf_devices fleet) fact_of) state))
       (sf_compatibility fleet)
       (fold (\<lambda>quirk state. snd (builder_publish_quirk cx si quirk state)) (sf_quirks fleet) state)"

definition describe_status :: "Context \<Rightarrow> ErrorCode \<Rightarrow> string" where
  "describe_status cx code =
     (if code = ErrorCode.Ok then ''ok''
      else to_string_ErrorCode code @ (if cx_text cx code = [] then [] else '': '' @ cx_text cx code))"

definition with_note :: "string \<Rightarrow> Builder \<Rightarrow> DiscoveryReport" where
  "with_note note builder = (bu_report builder)\<lparr>dp_notes := dp_notes (bu_report builder) @ [note]\<rparr>"

definition discover_synthetic ::
  "Context \<Rightarrow> SyntheticProfile \<Rightarrow> DiscoveryContext \<Rightarrow> 's EvidenceSink \<Rightarrow> DiscoveryReport \<Rightarrow> 's \<Rightarrow>
   Status \<times> DiscoveryReport \<times> 's" where
  "discover_synthetic cx profile dc si report s =
     (let fleet = build_fleet profile in
      case register_fleet cx si dc (sf_devices fleet) [] (new_builder cx dc, s) of
        (Inl code, builder, s) \<Rightarrow>
          (code, with_note (''synthetic device registration failed: '' @ describe_status cx code) builder, s)
      | (Inr subjects, state) \<Rightarrow>
          (case reincarnate cx si dc (sf_devices fleet) (sf_reincarnations fleet) subjects state of
             (Inl code, builder, s) \<Rightarrow>
               (code, with_note (''synthetic reincarnation failed: '' @ describe_status cx code) builder, s)
           | (Inr subjects, state) \<Rightarrow>
               (case publish_knowledge cx si fleet state of
                  (builder, s) \<Rightarrow>
                    (Ok, with_note (''synthetic profile '' @ to_string_SyntheticProfile profile @ '' published '' @
                       nat_to_string (length subjects) @ '' devices'') builder, s))))"

definition synthetic_backend :: "Context \<Rightarrow> SyntheticProfile \<Rightarrow> 's Backend" where
  "synthetic_backend cx profile =
     \<lparr>be_adapter_name = ''synthetic.backend'', be_source_class = SourceClass.SyntheticBackend,
      be_provenance = ProvenanceClass.Synthetic, be_available = None, be_discover = discover_synthetic cx profile\<rparr>"

end
