(* ===== verification/Catalog.thy ===== *)
theory Catalog
  imports Capability
begin

text \<open>
  The built-in catalog of capability schemas (\<^verbatim>\<open>src/catalog.cpp\<close>, \<^verbatim>\<open>include/hcr/catalog.hpp\<close>), one definition per
  section of \<^verbatim>\<open>build_catalog\<close>, and the two lookups in it.
\<close>

definition make_schema :: "string \<Rightarrow> CapabilityDomain \<Rightarrow> ValueKind \<Rightarrow> string \<Rightarrow> string \<Rightarrow> CapabilitySchema" where
  "make_schema schema_id domain kind canonical_name unit_name =
     \<lparr>cs_id = id_parse schema_id,
      cs_capability = id_parse (case rfind_version_marker schema_id of None \<Rightarrow> schema_id | Some marker \<Rightarrow> take marker schema_id),
      cs_domain = domain, cs_value_kind = kind, cs_canonical_name = canonical_name, cs_unit = unit_name\<rparr>"

definition compute_schemas :: "CapabilitySchema list" where
  "compute_schemas = [
     make_schema ''cap.compute.architecture.v1'' CapabilityDomain.Compute ValueKind.ArchitectureSet
       ''Execution architectures exposed by the device'' [],
     make_schema ''cap.compute.capability.v1'' CapabilityDomain.Compute ValueKind.Enumeration
       ''Vendor compute capability level'' ''domain=compute_capability'',
     make_schema ''cap.compute.execution_units.v1'' CapabilityDomain.Compute ValueKind.Count
       ''Parallel execution units'' ''units'',
     make_schema ''cap.compute.tensor_units.v1'' CapabilityDomain.Compute ValueKind.Count
       ''Matrix/tensor execution units'' ''units'',
     make_schema ''cap.compute.multiprocessors.v1'' CapabilityDomain.Compute ValueKind.Count
       ''Streaming multiprocessors, as reported by the vendor driver API'' ''multiprocessors'',
     make_schema ''cap.compute.vector_width_bits.v1'' CapabilityDomain.Compute ValueKind.Count
       ''SIMD/vector width in bits'' ''bits'',
     make_schema ''cap.compute.datatypes.v1'' CapabilityDomain.Compute ValueKind.FeatureSet
       ''Data types the device can execute natively'' [],
     make_schema ''cap.compute.fp64.v1'' CapabilityDomain.Compute ValueKind.Boolean
       ''FP64 execution'' [],
     make_schema ''cap.compute.fp32.v1'' CapabilityDomain.Compute ValueKind.Boolean
       ''FP32 execution'' [],
     make_schema ''cap.compute.tf32.v1'' CapabilityDomain.Compute ValueKind.Boolean
       ''TF32 execution'' [],
     make_schema ''cap.compute.fp16.v1'' CapabilityDomain.Compute ValueKind.Boolean
       ''FP16 execution'' [],
     make_schema ''cap.compute.bf16.v1'' CapabilityDomain.Compute ValueKind.Boolean
       ''BF16 execution'' [],
     make_schema ''cap.compute.fp8.v1'' CapabilityDomain.Compute ValueKind.Boolean
       ''FP8 execution'' [],
     make_schema ''cap.compute.fp4.v1'' CapabilityDomain.Compute ValueKind.Boolean
       ''FP4 execution'' [],
     make_schema ''cap.compute.int8.v1'' CapabilityDomain.Compute ValueKind.Boolean
       ''INT8 execution'' [],
     make_schema ''cap.compute.int4.v1'' CapabilityDomain.Compute ValueKind.Boolean
       ''INT4 execution'' [],
     make_schema ''cap.compute.sparse_execution.v1'' CapabilityDomain.Compute ValueKind.Boolean
       ''Structured sparse execution'' [],
     make_schema ''cap.compute.atomics.v1'' CapabilityDomain.Compute ValueKind.FeatureSet
       ''Atomic operations exposed to device code'' [],
     make_schema ''cap.compute.cooperative_execution.v1'' CapabilityDomain.Compute ValueKind.Boolean
       ''Cooperative grid/block execution'' [],
     make_schema ''cap.compute.dynamic_parallelism.v1'' CapabilityDomain.Compute ValueKind.Boolean
       ''Device-side launch of additional work'' [],
     make_schema ''cap.compute.concurrent_kernels.v1'' CapabilityDomain.Compute ValueKind.Boolean
       ''Multiple kernels executing concurrently on one device'' [],
     make_schema ''cap.compute.preemption.v1'' CapabilityDomain.Compute ValueKind.Enumeration
       ''Preemption granularity'' ''domain=preemption'',
     make_schema ''cap.compute.context_isolation.v1'' CapabilityDomain.Compute ValueKind.Boolean
       ''Hardware context isolation between clients'' [],
     make_schema ''cap.compute.programmable.v1'' CapabilityDomain.Compute ValueKind.Boolean
       ''Device executes publisher-supplied programs'' []]"

definition memory_schemas :: "CapabilitySchema list" where
  "memory_schemas = [
     make_schema ''cap.memory.capacity.v1'' CapabilityDomain.Memory ValueKind.Bytes
       ''Device memory capacity'' [],
     make_schema ''cap.memory.type.v1'' CapabilityDomain.Memory ValueKind.Enumeration
       ''Memory technology'' ''domain=memory_type'',
     make_schema ''cap.memory.bandwidth.v1'' CapabilityDomain.Memory ValueKind.Bandwidth
       ''Nominal memory bandwidth'' [],
     make_schema ''cap.memory.bus_width_bits.v1'' CapabilityDomain.Memory ValueKind.Count
       ''Memory bus width in bits'' ''bits'',
     make_schema ''cap.memory.ecc.v1'' CapabilityDomain.Memory ValueKind.Enumeration
       ''ECC state'' ''domain=ecc'',
     make_schema ''cap.memory.ecc_error_counters.v1'' CapabilityDomain.Memory ValueKind.Boolean
       ''ECC error counters are readable'' [],
     make_schema ''cap.memory.page_sizes.v1'' CapabilityDomain.Memory ValueKind.FeatureSet
       ''Supported page sizes'' [],
     make_schema ''cap.memory.unified_addressing.v1'' CapabilityDomain.Memory ValueKind.Boolean
       ''Unified virtual addressing across host and device'' [],
     make_schema ''cap.memory.peer_access.v1'' CapabilityDomain.Memory ValueKind.FeatureSet
       ''Peer-visible memory access paths'' [],
     make_schema ''cap.memory.managed_memory.v1'' CapabilityDomain.Memory ValueKind.Boolean
       ''Driver-managed unified memory'' [],
     make_schema ''cap.memory.coherence.v1'' CapabilityDomain.Memory ValueKind.Enumeration
       ''Coherence model'' ''domain=coherence'',
     make_schema ''cap.memory.address_translation.v1'' CapabilityDomain.Memory ValueKind.FeatureSet
       ''Address translation features'' [],
     make_schema ''cap.memory.pinned_host_interaction.v1'' CapabilityDomain.Memory ValueKind.Boolean
       ''Pinned host memory interaction'' [],
     make_schema ''cap.memory.partition_local.v1'' CapabilityDomain.Memory ValueKind.Boolean
       ''Partition-local memory semantics'' [],
     make_schema ''cap.memory.cxl_exposure.v1'' CapabilityDomain.Memory ValueKind.Boolean
       ''CXL-class memory exposure'' [],
     make_schema ''cap.memory.numa_nodes.v1'' CapabilityDomain.Memory ValueKind.Count
       ''NUMA nodes'' ''nodes'']"

definition partitioning_schemas :: "CapabilitySchema list" where
  "partitioning_schemas = [
     make_schema ''cap.partition.mechanism.v1'' CapabilityDomain.Partitioning ValueKind.FeatureSet
       ''Physical partitioning mechanisms'' [],
     make_schema ''cap.partition.profiles.v1'' CapabilityDomain.Partitioning ValueKind.FeatureSet
       ''Supported partition profiles'' [],
     make_schema ''cap.partition.max_partitions.v1'' CapabilityDomain.Partitioning ValueKind.Count
       ''Maximum concurrent partitions'' ''partitions'',
     make_schema ''cap.partition.memory_isolation.v1'' CapabilityDomain.Partitioning ValueKind.Boolean
       ''Memory isolation between partitions'' [],
     make_schema ''cap.partition.compute_isolation.v1'' CapabilityDomain.Partitioning ValueKind.Boolean
       ''Compute isolation between partitions'' [],
     make_schema ''cap.partition.live_reconfiguration.v1'' CapabilityDomain.Partitioning ValueKind.Enumeration
       ''Reconfiguration without reset'' ''domain=live_reconfiguration'',
     make_schema ''cap.partition.reset_required.v1'' CapabilityDomain.Partitioning ValueKind.Boolean
       ''A device reset is required to apply a partition change'' [],
     make_schema ''cap.partition.migration.v1'' CapabilityDomain.Partitioning ValueKind.Enumeration
       ''Partition migration support'' ''domain=migration'',
     make_schema ''cap.partition.sriov.v1'' CapabilityDomain.Partitioning ValueKind.Boolean
       ''SR-IOV virtual function exposure'' [],
     make_schema ''cap.partition.mediated_devices.v1'' CapabilityDomain.Partitioning ValueKind.Boolean
       ''Mediated/virtual device support'' []]"

definition interconnect_schemas :: "CapabilitySchema list" where
  "interconnect_schemas = [
     make_schema ''cap.interconnect.pcie_generation.v1'' CapabilityDomain.Interconnect ValueKind.Count
       ''Negotiated PCIe generation'' ''generation'',
     make_schema ''cap.interconnect.pcie_width.v1'' CapabilityDomain.Interconnect ValueKind.Count
       ''Negotiated PCIe link width'' ''lanes'',
     make_schema ''cap.interconnect.peer_to_peer.v1'' CapabilityDomain.Interconnect ValueKind.Boolean
       ''Direct peer-to-peer transfer between devices'' [],
     make_schema ''cap.interconnect.link_bandwidth.v1'' CapabilityDomain.Interconnect ValueKind.Bandwidth
       ''Nominal interconnect bandwidth'' [],
     make_schema ''cap.interconnect.collective_offload.v1'' CapabilityDomain.Interconnect ValueKind.Boolean
       ''Collective communication offload'' [],
     make_schema ''cap.interconnect.nvlink.v1'' CapabilityDomain.Interconnect ValueKind.Boolean
       ''NVLink-class cache-coherent device interconnect'' [],
     make_schema ''cap.interconnect.nvswitch.v1'' CapabilityDomain.Interconnect ValueKind.Boolean
       ''NVSwitch-class switched fabric presence'' [],
     make_schema ''cap.interconnect.infinity_fabric.v1'' CapabilityDomain.Interconnect ValueKind.Boolean
       ''Infinity Fabric-class coherent interconnect'' [],
     make_schema ''cap.interconnect.cxl.v1'' CapabilityDomain.Interconnect ValueKind.Boolean
       ''CXL link capability'' [],
     make_schema ''cap.interconnect.topology_features.v1'' CapabilityDomain.Interconnect ValueKind.FeatureSet
       ''Link topology features'' []]"

definition networking_schemas :: "CapabilitySchema list" where
  "networking_schemas = [
     make_schema ''cap.net.rdma.v1'' CapabilityDomain.Networking ValueKind.Boolean
       ''RDMA capability'' [],
     make_schema ''cap.net.roce.v1'' CapabilityDomain.Networking ValueKind.Boolean
       ''RoCE capability'' [],
     make_schema ''cap.net.infiniband.v1'' CapabilityDomain.Networking ValueKind.Boolean
       ''InfiniBand-class link'' [],
     make_schema ''cap.net.gpudirect.v1'' CapabilityDomain.Networking ValueKind.Boolean
       ''GPUDirect-class peer memory path'' [],
     make_schema ''cap.net.dma.v1'' CapabilityDomain.Networking ValueKind.Boolean
       ''Bus-master DMA'' [],
     make_schema ''cap.net.scatter_gather.v1'' CapabilityDomain.Networking ValueKind.Boolean
       ''Scatter/gather DMA'' [],
     make_schema ''cap.net.checksum_offload.v1'' CapabilityDomain.Networking ValueKind.Boolean
       ''Checksum offload'' [],
     make_schema ''cap.net.encryption_offload.v1'' CapabilityDomain.Networking ValueKind.Boolean
       ''Encryption offload'' [],
     make_schema ''cap.net.compression_offload.v1'' CapabilityDomain.Networking ValueKind.Boolean
       ''Compression offload'' [],
     make_schema ''cap.net.smartnic_processing.v1'' CapabilityDomain.Networking ValueKind.Boolean
       ''Programmable on-adapter processing'' [],
     make_schema ''cap.net.queue_pairs.v1'' CapabilityDomain.Networking ValueKind.Count
       ''Hardware queue pairs'' ''queues'',
     make_schema ''cap.net.sriov.v1'' CapabilityDomain.Networking ValueKind.Boolean
       ''SR-IOV virtual function exposure'' [],
     make_schema ''cap.net.flow_steering.v1'' CapabilityDomain.Networking ValueKind.Boolean
       ''Hardware flow steering'' [],
     make_schema ''cap.net.link_speed.v1'' CapabilityDomain.Networking ValueKind.Bandwidth
       ''Negotiated link speed'' [],
     make_schema ''cap.net.interface_state.v1'' CapabilityDomain.Networking ValueKind.Enumeration
       ''Interface administrative/operational state'' ''domain=interface_state'',
     make_schema ''cap.net.mtu.v1'' CapabilityDomain.Networking ValueKind.Count
       ''Maximum transmission unit'' ''bytes'']"

definition runtime_schemas :: "CapabilitySchema list" where
  "runtime_schemas = [
     make_schema ''cap.runtime.cuda.v1'' CapabilityDomain.Runtime ValueKind.Enumeration
       ''CUDA runtime/driver availability'' ''domain=runtime'',
     make_schema ''cap.runtime.rocm.v1'' CapabilityDomain.Runtime ValueKind.Enumeration
       ''ROCm runtime availability'' ''domain=runtime'',
     make_schema ''cap.runtime.level_zero.v1'' CapabilityDomain.Runtime ValueKind.Enumeration
       ''Level Zero runtime availability'' ''domain=runtime'',
     make_schema ''cap.runtime.driver_api.v1'' CapabilityDomain.Runtime ValueKind.Boolean
       ''Low-level driver API exposure'' [],
     make_schema ''cap.runtime.runtime_api.v1'' CapabilityDomain.Runtime ValueKind.Boolean
       ''High-level runtime API exposure'' [],
     make_schema ''cap.runtime.compiler_targets.v1'' CapabilityDomain.Runtime ValueKind.FeatureSet
       ''Compiler targets accepted by the device'' [],
     make_schema ''cap.runtime.binary_formats.v1'' CapabilityDomain.Runtime ValueKind.FeatureSet
       ''Accepted binary container formats'' [],
     make_schema ''cap.runtime.kernel_architectures.v1'' CapabilityDomain.Runtime ValueKind.ArchitectureSet
       ''Kernel instruction architectures'' [],
     make_schema ''cap.runtime.graph_capture.v1'' CapabilityDomain.Runtime ValueKind.Boolean
       ''Execution graph capture'' [],
     make_schema ''cap.runtime.ipc.v1'' CapabilityDomain.Runtime ValueKind.Boolean
       ''Inter-process device memory sharing'' [],
     make_schema ''cap.runtime.external_memory_handles.v1'' CapabilityDomain.Runtime ValueKind.Boolean
       ''Import/export of external memory handles'' [],
     make_schema ''cap.runtime.external_semaphores.v1'' CapabilityDomain.Runtime ValueKind.Boolean
       ''External semaphore/event interop'' []]"

definition reliability_schemas :: "CapabilitySchema list" where
  "reliability_schemas = [
     make_schema ''cap.reliability.ecc_exposure.v1'' CapabilityDomain.Reliability ValueKind.Boolean
       ''ECC state is exposed to software'' [],
     make_schema ''cap.reliability.reset.v1'' CapabilityDomain.Reliability ValueKind.Enumeration
       ''Reset capability'' ''domain=reset'',
     make_schema ''cap.reliability.device_recovery.v1'' CapabilityDomain.Reliability ValueKind.Boolean
       ''Device recovery without host reboot'' [],
     make_schema ''cap.reliability.error_containment.v1'' CapabilityDomain.Reliability ValueKind.Boolean
       ''Fault containment between clients'' [],
     make_schema ''cap.reliability.fault_reporting.v1'' CapabilityDomain.Reliability ValueKind.FeatureSet
       ''Fault reporting channels'' [],
     make_schema ''cap.reliability.telemetry_visibility.v1'' CapabilityDomain.Reliability ValueKind.FeatureSet
       ''Telemetry surfaces visible to software'' [],
     make_schema ''cap.reliability.xid_reporting.v1'' CapabilityDomain.Reliability ValueKind.Boolean
       ''Structured error identifiers'' []]"

definition power_schemas :: "CapabilitySchema list" where
  "power_schemas = [
     make_schema ''cap.power.telemetry.v1'' CapabilityDomain.Power ValueKind.Boolean
       ''Power telemetry'' [],
     make_schema ''cap.power.cap_range.v1'' CapabilityDomain.Power ValueKind.NumericRange
       ''Settable power cap range in milliwatts'' ''mW'',
     make_schema ''cap.power.clock_control.v1'' CapabilityDomain.Power ValueKind.FeatureSet
       ''Clock domain control'' [],
     make_schema ''cap.power.thermal_sensors.v1'' CapabilityDomain.Power ValueKind.Count
       ''Thermal sensors'' ''sensors'',
     make_schema ''cap.power.fan_control.v1'' CapabilityDomain.Power ValueKind.Boolean
       ''Fan control'' [],
     make_schema ''cap.power.throttle_reasons.v1'' CapabilityDomain.Power ValueKind.FeatureSet
       ''Throttle reason reporting'' []]"

definition platform_schemas :: "CapabilitySchema list" where
  "platform_schemas = [
     make_schema ''cap.platform.os.v1'' CapabilityDomain.Platform ValueKind.Enumeration
       ''Operating system family'' ''domain=os'',
     make_schema ''cap.platform.kernel.v1'' CapabilityDomain.Platform ValueKind.Enumeration
       ''Kernel version'' ''domain=kernel'',
     make_schema ''cap.platform.cpu.logical_processors.v1'' CapabilityDomain.Platform ValueKind.Count
       ''Logical processors'' ''processors'',
     make_schema ''cap.platform.cpu.physical_cores.v1'' CapabilityDomain.Platform ValueKind.Count
       ''Physical cores'' ''cores'',
     make_schema ''cap.platform.cpu.isa_features.v1'' CapabilityDomain.Platform ValueKind.FeatureSet
       ''ISA features detected on this platform'' [],
     make_schema ''cap.platform.cache_hierarchy.v1'' CapabilityDomain.Platform ValueKind.Record
       ''Cache hierarchy levels'' [],
     make_schema ''cap.platform.page_sizes.v1'' CapabilityDomain.Platform ValueKind.FeatureSet
       ''Platform page sizes'' [],
     make_schema ''cap.platform.iommu.v1'' CapabilityDomain.Platform ValueKind.Boolean
       ''IOMMU/translation hardware present and active'' [],
     make_schema ''cap.platform.pci_devices.v1'' CapabilityDomain.Platform ValueKind.Count
       ''PCI devices enumerated'' ''devices'',
     make_schema ''cap.platform.cxl_devices.v1'' CapabilityDomain.Platform ValueKind.Count
       ''CXL devices enumerated'' ''devices'',
     make_schema ''cap.platform.nvswitch_devices.v1'' CapabilityDomain.Platform ValueKind.Count
       ''NVSwitch-class devices enumerated'' ''devices'',
     make_schema ''cap.platform.accelerators.v1'' CapabilityDomain.Platform ValueKind.Count
       ''Hardware accelerators enumerated'' ''devices'']"

definition builtin_capability_schemas :: "CapabilitySchema list" where
  "builtin_capability_schemas =
     compute_schemas @
     memory_schemas @
     partitioning_schemas @
     interconnect_schemas @
     networking_schemas @
     runtime_schemas @
     reliability_schemas @
     power_schemas @
     platform_schemas"

definition find_builtin_schema_by_capability :: "string \<Rightarrow> CapabilitySchema option" where
  "find_builtin_schema_by_capability capability =
     find (\<lambda>schema. cs_capability schema = capability) builtin_capability_schemas"

definition find_builtin_schema :: "string \<Rightarrow> CapabilitySchema option" where
  "find_builtin_schema schema_id = find (\<lambda>schema. cs_id schema = schema_id) builtin_capability_schemas"

end
