(* ===== verification/Catalog_Facts.thy ===== *)
theory Catalog_Facts
  imports Catalog Registry_State
begin

text \<open>
  What holds of the built-in catalog: every schema is valid and versioned, no capability and no schema identity occurs
  twice, and a new registry binds each capability to its own schema.
\<close>

definition schema_sound :: "CapabilitySchema \<Rightarrow> bool" where
  "schema_sound schema \<longleftrightarrow>
     is_canonical_token (cs_id schema) \<and> cs_id schema = cs_capability schema @ ''.v1'' \<and> cs_capability schema \<noteq> [] \<and>
     validate_schema_token (cs_id schema) = Ok \<and> cs_canonical_name schema \<noteq> [] \<and>
     length (cs_canonical_name schema) \<le> 80 \<and> length (cs_unit schema) \<le> 80 \<and>
     cs_value_kind schema \<noteq> ValueKind.NoneKind"

text \<open>The capabilities of a section share their first letters, which tell the sections apart.\<close>

definition section_sound :: "string \<Rightarrow> CapabilitySchema list \<Rightarrow> bool" where
  "section_sound prefix schemas \<longleftrightarrow>
     list_all (\<lambda>schema. schema_sound schema \<and> take 6 (cs_capability schema) = prefix) schemas \<and>
     distinct (map cs_capability schemas)"

lemma section_sound_append:
  assumes "section_sound prefix schemas" and "distinct (map cs_capability others)"
    and "list_all (\<lambda>schema. schema_sound schema \<and> take 6 (cs_capability schema) \<noteq> prefix) others"
  shows "distinct (map cs_capability (schemas @ others))"
proof -
  have "set (map cs_capability schemas) \<inter> set (map cs_capability others) = {}"
    using assms(1,3) by (force simp: section_sound_def list_all_iff)
  then show ?thesis using assms by (simp add: section_sound_def)
qed

lemma compute_schemas_sound: "section_sound ''cap.co'' compute_schemas"
  by code_simp

lemma memory_schemas_sound: "section_sound ''cap.me'' memory_schemas"
  by code_simp

lemma partitioning_schemas_sound: "section_sound ''cap.pa'' partitioning_schemas"
  by code_simp

lemma interconnect_schemas_sound: "section_sound ''cap.in'' interconnect_schemas"
  by code_simp

lemma networking_schemas_sound: "section_sound ''cap.ne'' networking_schemas"
  by code_simp

lemma runtime_schemas_sound: "section_sound ''cap.ru'' runtime_schemas"
  by code_simp

lemma reliability_schemas_sound: "section_sound ''cap.re'' reliability_schemas"
  by code_simp

lemma power_schemas_sound: "section_sound ''cap.po'' power_schemas"
  by code_simp

lemma platform_schemas_sound: "section_sound ''cap.pl'' platform_schemas"
  by code_simp

lemmas sections_sound = compute_schemas_sound
  memory_schemas_sound
  partitioning_schemas_sound
  interconnect_schemas_sound
  networking_schemas_sound
  runtime_schemas_sound
  reliability_schemas_sound
  power_schemas_sound
  platform_schemas_sound

lemma section_sound_schemas: "section_sound prefix schemas \<Longrightarrow> list_all schema_sound schemas"
  by (auto simp: section_sound_def list_all_iff)

lemma section_sound_prefix:
  "section_sound prefix schemas \<Longrightarrow> prefix \<noteq> other \<Longrightarrow>
   list_all (\<lambda>schema. schema_sound schema \<and> take 6 (cs_capability schema) \<noteq> other) schemas"
  by (auto simp: section_sound_def list_all_iff)

lemma section_sound_distinct: "section_sound prefix schemas \<Longrightarrow> distinct (map cs_capability schemas)"
  by (simp add: section_sound_def)

lemma builtin_schemas_sound: "list_all schema_sound builtin_capability_schemas"
  by (simp add: builtin_capability_schemas_def sections_sound [THEN section_sound_schemas])

lemma builtin_capabilities_distinct: "distinct (map cs_capability builtin_capability_schemas)"
  unfolding builtin_capability_schemas_def
  by (intro sections_sound [THEN section_sound_append] section_sound_distinct [OF platform_schemas_sound])
    (simp_all add: sections_sound [THEN section_sound_prefix])

lemma builtin_ids: "schema \<in> set builtin_capability_schemas \<Longrightarrow> cs_id schema = cs_capability schema @ ''.v1''"
  using builtin_schemas_sound by (simp add: list_all_iff schema_sound_def)

lemma builtin_ids_distinct: "distinct (map cs_id builtin_capability_schemas)"
  using builtin_capabilities_distinct by (auto simp: distinct_map inj_on_def builtin_ids)

section \<open>A new registry\<close>

lemma emplace_schema_simps [simp]:
  "rg_schemas (emplace_schema schema reg) = om_emplace (cs_id schema) schema (rg_schemas reg)"
  "rg_capability_schemas (emplace_schema schema reg) =
     om_emplace (cs_capability schema) (cs_id schema) (rg_capability_schemas reg)"
  by (simp_all add: emplace_schema_def)

lemma emplaced_schemas:
  assumes "distinct (map cs_id schemas)" and "distinct (map cs_capability schemas)"
    and "\<And>schema. schema \<in> set schemas \<Longrightarrow>
      om_find (cs_id schema) (rg_schemas reg) = None \<and> om_find (cs_capability schema) (rg_capability_schemas reg) = None"
    and "schema \<in> set schemas"
  shows "om_find (cs_id schema) (rg_schemas (fold emplace_schema schemas reg)) = Some schema \<and>
    om_find (cs_capability schema) (rg_capability_schemas (fold emplace_schema schemas reg)) = Some (cs_id schema)"
  using assms
proof (induction schemas arbitrary: reg)
  case (Cons first schemas)
  have kept: "om_find (cs_id s) (rg_schemas (fold emplace_schema rest r)) = om_find (cs_id s) (rg_schemas r) \<and>
      om_find (cs_capability s) (rg_capability_schemas (fold emplace_schema rest r)) =
        om_find (cs_capability s) (rg_capability_schemas r)"
    if "cs_id s \<notin> cs_id ` set rest" "cs_capability s \<notin> cs_capability ` set rest" for s rest r
    using that by (induction rest arbitrary: r) auto
  show ?case
  proof (cases "schema = first")
    case True
    then show ?thesis using Cons.prems kept [of first schemas] by simp
  next
    case False
    have "cs_id s \<noteq> cs_id first \<and> cs_capability s \<noteq> cs_capability first" if "s \<in> set schemas" for s
      using that Cons.prems(1,2) by (auto simp: image_iff)
    then show ?thesis using False Cons.prems Cons.IH [of "emplace_schema first reg"] by simp
  qed
qed simp

lemma find_unique: "distinct (map f xs) \<Longrightarrow> x \<in> set xs \<Longrightarrow> find (\<lambda>y. f y = f x) xs = Some x"
  by (induction xs) (auto simp: image_iff)

lemma new_registry_binds:
  assumes "schema \<in> set builtin_capability_schemas"
  shows "om_find (cs_id schema) (rg_schemas (new_registry builtin_capability_schemas limits)) = Some schema"
    "om_find (cs_capability schema) (rg_capability_schemas (new_registry builtin_capability_schemas limits)) =
       Some (cs_id schema)"
proof -
  have "om_find (cs_id schema) (rg_schemas (fold emplace_schema builtin_capability_schemas (empty_registry limits))) = Some schema \<and>
    om_find (cs_capability schema) (rg_capability_schemas (fold emplace_schema builtin_capability_schemas
      (empty_registry limits))) = Some (cs_id schema)"
    by (rule emplaced_schemas [OF builtin_ids_distinct builtin_capabilities_distinct _ assms]) (simp add: empty_registry_def)
  then show "om_find (cs_id schema) (rg_schemas (new_registry builtin_capability_schemas limits)) = Some schema"
    "om_find (cs_capability schema) (rg_capability_schemas (new_registry builtin_capability_schemas limits)) =
       Some (cs_id schema)"
    by (simp_all add: new_registry_def Let_def)
qed

text \<open>
  C39: the built-in catalog is consistent. Every built-in schema passes the validation that publishers' schemas have to
  pass, and a registry created with the catalog, whatever its limits, knows each of them under its own identity and
  binds its capability to it: no schema shadows another.
\<close>

theorem builtin_catalog_is_consistent:
  "list_all (\<lambda>schema.
     validate_capability_schema schema default_limits = Ok \<and>
     om_find (cs_id schema) (rg_schemas (new_registry builtin_capability_schemas limits)) = Some schema \<and>
     om_find (cs_capability schema) (rg_capability_schemas (new_registry builtin_capability_schemas limits)) =
       Some (cs_id schema) \<and>
     find_builtin_schema (cs_id schema) = Some schema \<and>
     find_builtin_schema_by_capability (cs_capability schema) = Some schema) builtin_capability_schemas"
  unfolding list_all_iff
proof (intro ballI conjI)
  fix schema assume mem: "schema \<in> set builtin_capability_schemas"
  have sound: "schema_sound schema" using mem builtin_schemas_sound by (simp add: list_all_iff)
  have "id_valid (cs_id schema)" "id_valid (cs_capability schema)" "validate_schema_token (cs_id schema) = Ok"
    "cs_canonical_name schema \<noteq> []" "length (cs_canonical_name schema) \<le> 80" "length (cs_unit schema) \<le> 80"
    "cs_value_kind schema \<noteq> ValueKind.NoneKind"
    using sound unfolding schema_sound_def id_valid_def is_canonical_token_def by auto
  then show "validate_capability_schema schema default_limits = Ok"
    by (simp add: validate_capability_schema_def default_limits_def)
  show "om_find (cs_id schema) (rg_schemas (new_registry builtin_capability_schemas limits)) = Some schema"
    "om_find (cs_capability schema) (rg_capability_schemas (new_registry builtin_capability_schemas limits)) =
       Some (cs_id schema)"
    using new_registry_binds [OF mem] by blast+
  show "find_builtin_schema (cs_id schema) = Some schema"
    "find_builtin_schema_by_capability (cs_capability schema) = Some schema"
    unfolding find_builtin_schema_def find_builtin_schema_by_capability_def
    using find_unique [OF builtin_ids_distinct mem] find_unique [OF builtin_capabilities_distinct mem] by simp_all
qed

end
