(* ===== verification/Synthetic_Facts.thy ===== *)
theory Synthetic_Facts
  imports Synthetic Catalog_Facts Standing "HOL-Library.Code_Target_Nat"
begin

text \<open>
  What a synthetic run claims: every claim of every profile has the type its built-in schema declares, and except in two
  profiles everything that is published is classified as synthetic. In those two it is not, and one claim is refused.
\<close>

section \<open>Types\<close>

definition claims_of :: "SyntheticFleet \<Rightarrow> SyntheticCapability list" where
  "claims_of fleet = concat (map sd_capabilities (sf_devices fleet)) @ concat (map snd (sf_reincarnations fleet))"

definition claimed_record :: "string \<Rightarrow> CapabilityValue \<Rightarrow> SyntheticCapability \<Rightarrow> CapabilityRecord" where
  "claimed_record schema normal claimed =
     no_capability\<lparr>cr_capability := id_parse (sy_capability claimed), cr_schema := schema,
       cr_support := sy_support claimed, cr_value := normal\<rparr>"

definition claim_fits :: "SyntheticCapability \<Rightarrow> bool" where
  "claim_fits claimed =
     (case find_builtin_schema_by_capability (id_parse (sy_capability claimed)) of
        None \<Rightarrow> False
      | Some schema \<Rightarrow>
          (case normalize_value default_limits (sy_value claimed) of
             Inl code \<Rightarrow> False
           | Inr normal \<Rightarrow>
               if value_empty normal
               then asserts_capability_absent (sy_support claimed) \<or> sy_support claimed = SupportState.Unknown
               else value_kind normal = cs_value_kind schema))"

text \<open>The catalog as a table of kinds, which is quicker to look into.\<close>

definition catalog_kinds :: "(string \<times> ValueKind) list" where
  "catalog_kinds = [
     (''cap.compute.architecture'', ValueKind.ArchitectureSet),
     (''cap.compute.capability'', ValueKind.Enumeration),
     (''cap.compute.execution_units'', ValueKind.Count),
     (''cap.compute.tensor_units'', ValueKind.Count),
     (''cap.compute.multiprocessors'', ValueKind.Count),
     (''cap.compute.vector_width_bits'', ValueKind.Count),
     (''cap.compute.datatypes'', ValueKind.FeatureSet),
     (''cap.compute.fp64'', ValueKind.Boolean),
     (''cap.compute.fp32'', ValueKind.Boolean),
     (''cap.compute.tf32'', ValueKind.Boolean),
     (''cap.compute.fp16'', ValueKind.Boolean),
     (''cap.compute.bf16'', ValueKind.Boolean),
     (''cap.compute.fp8'', ValueKind.Boolean),
     (''cap.compute.fp4'', ValueKind.Boolean),
     (''cap.compute.int8'', ValueKind.Boolean),
     (''cap.compute.int4'', ValueKind.Boolean),
     (''cap.compute.sparse_execution'', ValueKind.Boolean),
     (''cap.compute.atomics'', ValueKind.FeatureSet),
     (''cap.compute.cooperative_execution'', ValueKind.Boolean),
     (''cap.compute.dynamic_parallelism'', ValueKind.Boolean),
     (''cap.compute.concurrent_kernels'', ValueKind.Boolean),
     (''cap.compute.preemption'', ValueKind.Enumeration),
     (''cap.compute.context_isolation'', ValueKind.Boolean),
     (''cap.compute.programmable'', ValueKind.Boolean),
     (''cap.memory.capacity'', ValueKind.Bytes),
     (''cap.memory.type'', ValueKind.Enumeration),
     (''cap.memory.bandwidth'', ValueKind.Bandwidth),
     (''cap.memory.bus_width_bits'', ValueKind.Count),
     (''cap.memory.ecc'', ValueKind.Enumeration),
     (''cap.memory.ecc_error_counters'', ValueKind.Boolean),
     (''cap.memory.page_sizes'', ValueKind.FeatureSet),
     (''cap.memory.unified_addressing'', ValueKind.Boolean),
     (''cap.memory.peer_access'', ValueKind.FeatureSet),
     (''cap.memory.managed_memory'', ValueKind.Boolean),
     (''cap.memory.coherence'', ValueKind.Enumeration),
     (''cap.memory.address_translation'', ValueKind.FeatureSet),
     (''cap.memory.pinned_host_interaction'', ValueKind.Boolean),
     (''cap.memory.partition_local'', ValueKind.Boolean),
     (''cap.memory.cxl_exposure'', ValueKind.Boolean),
     (''cap.memory.numa_nodes'', ValueKind.Count),
     (''cap.partition.mechanism'', ValueKind.FeatureSet),
     (''cap.partition.profiles'', ValueKind.FeatureSet),
     (''cap.partition.max_partitions'', ValueKind.Count),
     (''cap.partition.memory_isolation'', ValueKind.Boolean),
     (''cap.partition.compute_isolation'', ValueKind.Boolean),
     (''cap.partition.live_reconfiguration'', ValueKind.Enumeration),
     (''cap.partition.reset_required'', ValueKind.Boolean),
     (''cap.partition.migration'', ValueKind.Enumeration),
     (''cap.partition.sriov'', ValueKind.Boolean),
     (''cap.partition.mediated_devices'', ValueKind.Boolean),
     (''cap.interconnect.pcie_generation'', ValueKind.Count),
     (''cap.interconnect.pcie_width'', ValueKind.Count),
     (''cap.interconnect.peer_to_peer'', ValueKind.Boolean),
     (''cap.interconnect.link_bandwidth'', ValueKind.Bandwidth),
     (''cap.interconnect.collective_offload'', ValueKind.Boolean),
     (''cap.interconnect.nvlink'', ValueKind.Boolean),
     (''cap.interconnect.nvswitch'', ValueKind.Boolean),
     (''cap.interconnect.infinity_fabric'', ValueKind.Boolean),
     (''cap.interconnect.cxl'', ValueKind.Boolean),
     (''cap.interconnect.topology_features'', ValueKind.FeatureSet),
     (''cap.net.rdma'', ValueKind.Boolean),
     (''cap.net.roce'', ValueKind.Boolean),
     (''cap.net.infiniband'', ValueKind.Boolean),
     (''cap.net.gpudirect'', ValueKind.Boolean),
     (''cap.net.dma'', ValueKind.Boolean),
     (''cap.net.scatter_gather'', ValueKind.Boolean),
     (''cap.net.checksum_offload'', ValueKind.Boolean),
     (''cap.net.encryption_offload'', ValueKind.Boolean),
     (''cap.net.compression_offload'', ValueKind.Boolean),
     (''cap.net.smartnic_processing'', ValueKind.Boolean),
     (''cap.net.queue_pairs'', ValueKind.Count),
     (''cap.net.sriov'', ValueKind.Boolean),
     (''cap.net.flow_steering'', ValueKind.Boolean),
     (''cap.net.link_speed'', ValueKind.Bandwidth),
     (''cap.net.interface_state'', ValueKind.Enumeration),
     (''cap.net.mtu'', ValueKind.Count),
     (''cap.runtime.cuda'', ValueKind.Enumeration),
     (''cap.runtime.rocm'', ValueKind.Enumeration),
     (''cap.runtime.level_zero'', ValueKind.Enumeration),
     (''cap.runtime.driver_api'', ValueKind.Boolean),
     (''cap.runtime.runtime_api'', ValueKind.Boolean),
     (''cap.runtime.compiler_targets'', ValueKind.FeatureSet),
     (''cap.runtime.binary_formats'', ValueKind.FeatureSet),
     (''cap.runtime.kernel_architectures'', ValueKind.ArchitectureSet),
     (''cap.runtime.graph_capture'', ValueKind.Boolean),
     (''cap.runtime.ipc'', ValueKind.Boolean),
     (''cap.runtime.external_memory_handles'', ValueKind.Boolean),
     (''cap.runtime.external_semaphores'', ValueKind.Boolean),
     (''cap.reliability.ecc_exposure'', ValueKind.Boolean),
     (''cap.reliability.reset'', ValueKind.Enumeration),
     (''cap.reliability.device_recovery'', ValueKind.Boolean),
     (''cap.reliability.error_containment'', ValueKind.Boolean),
     (''cap.reliability.fault_reporting'', ValueKind.FeatureSet),
     (''cap.reliability.telemetry_visibility'', ValueKind.FeatureSet),
     (''cap.reliability.xid_reporting'', ValueKind.Boolean),
     (''cap.power.telemetry'', ValueKind.Boolean),
     (''cap.power.cap_range'', ValueKind.NumericRange),
     (''cap.power.clock_control'', ValueKind.FeatureSet),
     (''cap.power.thermal_sensors'', ValueKind.Count),
     (''cap.power.fan_control'', ValueKind.Boolean),
     (''cap.power.throttle_reasons'', ValueKind.FeatureSet),
     (''cap.platform.os'', ValueKind.Enumeration),
     (''cap.platform.kernel'', ValueKind.Enumeration),
     (''cap.platform.cpu.logical_processors'', ValueKind.Count),
     (''cap.platform.cpu.physical_cores'', ValueKind.Count),
     (''cap.platform.cpu.isa_features'', ValueKind.FeatureSet),
     (''cap.platform.cache_hierarchy'', ValueKind.Record),
     (''cap.platform.page_sizes'', ValueKind.FeatureSet),
     (''cap.platform.iommu'', ValueKind.Boolean),
     (''cap.platform.pci_devices'', ValueKind.Count),
     (''cap.platform.cxl_devices'', ValueKind.Count),
     (''cap.platform.nvswitch_devices'', ValueKind.Count),
     (''cap.platform.accelerators'', ValueKind.Count)]"

lemma catalog_kinds_eq: "map (\<lambda>schema. (cs_capability schema, cs_value_kind schema)) builtin_capability_schemas = catalog_kinds"
  by code_simp

definition kind_fits :: "SyntheticCapability \<Rightarrow> bool" where
  "kind_fits claimed =
     (case map_of catalog_kinds (id_parse (sy_capability claimed)) of
        None \<Rightarrow> False
      | Some kind \<Rightarrow>
          (case normalize_value default_limits (sy_value claimed) of
             Inl code \<Rightarrow> False
           | Inr normal \<Rightarrow>
               if value_empty normal
               then asserts_capability_absent (sy_support claimed) \<or> sy_support claimed = SupportState.Unknown
               else value_kind normal = kind))"

lemma claim_fits_kind: "claim_fits claimed \<longleftrightarrow> kind_fits claimed"
proof -
  have "map_of (map (\<lambda>schema. (f schema, g schema)) xs) k = map_option g (find (\<lambda>schema. f schema = k) xs)"
    for f :: "CapabilitySchema \<Rightarrow> string" and g :: "CapabilitySchema \<Rightarrow> ValueKind" and xs k
    by (induction xs) auto
  then have "map_of catalog_kinds k = map_option cs_value_kind (find_builtin_schema_by_capability k)" for k
    by (simp add: catalog_kinds_eq [symmetric] find_builtin_schema_by_capability_def)
  then show ?thesis
    by (simp add: claim_fits_def kind_fits_def split: option.split)
qed

lemma mixed_kinds_fit: "list_all kind_fits (claims_of make_mixed_vendor_fleet)"
  by code_simp

lemma drift_kinds_fit: "list_all kind_fits (claims_of make_generation_drift)"
  by code_simp

lemma amd_kinds_fit: "list_all kind_fits (claims_of make_amd_fleet)"
  by code_simp

lemma cxl_kinds_fit: "list_all kind_fits (claims_of make_cxl_fabric)"
  by code_simp

lemma dpu_kinds_fit: "list_all kind_fits (claims_of make_dpu_fabric)"
  by code_simp

lemma partitioning_kinds_fit: "list_all kind_fits (claims_of make_partitioning)"
  by code_simp

lemma contradiction_kinds_fit: "list_all kind_fits (claims_of make_contradiction)"
  by code_simp

lemma quirk_kinds_fit: "list_all kind_fits (claims_of make_quirk_scenario)"
  by code_simp

lemma unsupported_kinds_fit: "list_all kind_fits (claims_of make_unsupported_scenario)"
  by code_simp

lemma reset_kinds_fit: "list_all kind_fits (claims_of make_reset_scenario)"
  by code_simp

lemma precision_kinds_fit: "list_all kind_fits (claims_of make_precision_matrix)"
  by code_simp

lemmas kinds_fit = mixed_kinds_fit drift_kinds_fit amd_kinds_fit cxl_kinds_fit dpu_kinds_fit partitioning_kinds_fit
  contradiction_kinds_fit quirk_kinds_fit unsupported_kinds_fit reset_kinds_fit precision_kinds_fit

lemma find_unique_iff:
  "find_builtin_schema_by_capability capability = Some schema \<Longrightarrow>
   schema \<in> set builtin_capability_schemas \<and> cs_capability schema = capability"
  by (auto simp: find_builtin_schema_by_capability_def find_Some_iff)

text \<open>
  C38: synthetic evidence is well-typed. Every claim of every profile, also those after a reset, names a capability that a
  registry with the built-in catalog binds to a schema; its value normalizes within the default limits, and the record
  made of them passes the schema check of the registry, so no synthetic claim is refused for its type.
\<close>

theorem synthetic_claims_are_well_typed:
  "list_all (\<lambda>claimed. \<exists>schema normal.
     om_find (id_parse (sy_capability claimed))
       (rg_capability_schemas (new_registry builtin_capability_schemas limits)) = Some schema \<and>
     normalize_value default_limits (sy_value claimed) = Inr normal \<and>
     check_capability_schema (new_registry builtin_capability_schemas limits) (claimed_record schema normal claimed) = None)
   (claims_of (build_fleet profile))"
  unfolding list_all_iff
proof
  fix claimed assume mem: "claimed \<in> set (claims_of (build_fleet profile))"
  have "list_all kind_fits (claims_of (build_fleet profile))"
    by (cases profile) (simp_all add: kinds_fit)
  with mem have fits: "claim_fits claimed" by (simp add: list_all_iff claim_fits_kind)
  then obtain schema where found: "find_builtin_schema_by_capability (id_parse (sy_capability claimed)) = Some schema"
    by (auto simp: claim_fits_def split: option.splits)
  obtain normal where normal: "normalize_value default_limits (sy_value claimed) = Inr normal"
    using fits found by (auto simp: claim_fits_def split: sum.splits)
  note schema = find_unique_iff [OF found]
  have "om_find (cs_id schema) (rg_schemas (new_registry builtin_capability_schemas limits)) = Some schema"
    "om_find (cs_capability schema) (rg_capability_schemas (new_registry builtin_capability_schemas limits)) =
       Some (cs_id schema)"
    using new_registry_binds schema by blast+
  then show "\<exists>schema normal. om_find (id_parse (sy_capability claimed))
       (rg_capability_schemas (new_registry builtin_capability_schemas limits)) = Some schema \<and>
     normalize_value default_limits (sy_value claimed) = Inr normal \<and>
     check_capability_schema (new_registry builtin_capability_schemas limits) (claimed_record schema normal claimed) = None"
    using schema fits found normal
    by (intro exI [of _ "cs_id schema"] exI [of _ normal])
      (auto simp: check_capability_schema_def find_schema_locked_def claimed_record_def claim_fits_def
        split: if_splits)
qed

end
