(* ===== verification/Synthetic_Runs.thy ===== *)
theory Synthetic_Runs
  imports Synthetic_Facts
begin

text \<open>
  What a synthetic run publishes, seen at the sink: in nine of the eleven profiles everything is classified as synthetic.
  The other two publish evidence that passes for real, and one of their claims is refused by every registry.
\<close>

section \<open>Classification\<close>

definition synthetic_evidence :: "EvidenceSource \<Rightarrow> bool" where
  "synthetic_evidence source \<longleftrightarrow>
     es_source_class source = SourceClass.SyntheticBackend \<and> es_provenance source = ProvenanceClass.Synthetic"

definition synthetic_publication :: "Publication \<Rightarrow> bool" where
  "synthetic_publication p \<longleftrightarrow>
     (case pb_kind p of
        PublicationKind.PublishCapability \<Rightarrow> synthetic_evidence (cr_source (pb_capability p))
      | PublicationKind.PublishQuirk \<Rightarrow> synthetic_evidence (qr_source (pb_quirk p))
      | PublicationKind.PublishCompatibility \<Rightarrow> synthetic_evidence (cf_source (pb_compatibility p))
      | PublicationKind.RegisterDevice \<Rightarrow> True
      | PublicationKind.PublishDeviceGeneration \<Rightarrow> True
      | _ \<Rightarrow> False)"

definition synthetic_log :: "(Publication \<times> ApplyResult) list \<Rightarrow> bool" where
  "synthetic_log log \<longleftrightarrow> list_all (\<lambda>(p, r). synthetic_publication p) log"

text \<open>A run so far: the builder publishes as synthetic, and did.\<close>

definition synthetic_so_far :: "Builder \<times> 's logging \<Rightarrow> bool" where
  "synthetic_so_far state \<longleftrightarrow>
     (case state of (b, s, log) \<Rightarrow>
        dc_source_class (bu_context b) = SourceClass.SyntheticBackend \<and>
        dc_provenance (bu_context b) = ProvenanceClass.Synthetic \<and> synthetic_log log)"

lemma synthetic_stamp [simp]: "synthetic_publication (stamp dc n p) = synthetic_publication p"
  by (simp add: synthetic_publication_def stamp_def split: PublicationKind.split)

lemma send_synthetic:
  assumes "synthetic_so_far (b, s, log)" and "synthetic_publication p"
  shows "synthetic_so_far (snd (send_stamped cx (logged si) what p (b, s, log)))"
  using assms
  by (auto simp: send_logged synthetic_so_far_def synthetic_log_def split: prod.split)

lemma submit_synthetic:
  assumes "synthetic_so_far (b, s, log)" and "synthetic_publication (classify (bu_context b) p)"
  shows "synthetic_so_far (snd (submit cx (logged si) p (b, s, log)))"
  using send_synthetic [OF assms, of cx si "what_of p"] by (simp add: submit_def case_prod_beta)

lemma register_synthetic:
  assumes "synthetic_so_far state" and "kind = PublicationKind.RegisterDevice \<or> kind = PublicationKind.PublishDeviceGeneration"
  shows "synthetic_so_far (snd (register_as cx (logged si) kind registration state))"
proof -
  obtain b s log where state: "state = (b, s, log)" by (cases state) auto
  have "synthetic_publication (no_publication\<lparr>pb_kind := kind, pb_device := registration\<rparr>)"
    using assms(2) by (auto simp: synthetic_publication_def)
  from send_synthetic [OF assms(1) [unfolded state] this] show ?thesis
    by (simp add: register_as_def state case_prod_beta)
qed

lemma claims_synthetic:
  assumes "synthetic_so_far state" and "list_all (\<lambda>claimed. sy_source_class claimed = SourceClass.Unspecified) claims"
  shows "synthetic_so_far (publish_claims cx (logged si) subject claims state)"
  using assms
proof (induction claims arbitrary: state)
  case (Cons claimed claims)
  obtain b s log where state: "state = (b, s, log)" by (cases state) auto
  have "synthetic_publication (classify (bu_context b) (capability_publication b subject (observation_of claimed)))"
    using Cons.prems unfolding state
    by (simp add: synthetic_publication_def classify_def Let_def capability_publication_def default_source_def
        synthetic_evidence_def synthetic_so_far_def observation_of_def)
  from submit_synthetic [OF Cons.prems(1) [unfolded state] this] show ?case
    using Cons by (simp add: publish_claims_def state publish_capability_def)
qed (simp add: publish_claims_def)

section \<open>Fleets\<close>

definition classified_fleet :: "SyntheticFleet \<Rightarrow> bool" where
  "classified_fleet fleet \<longleftrightarrow>
     list_all (\<lambda>claimed. sy_source_class claimed = SourceClass.Unspecified) (claims_of fleet) \<and>
     list_all (\<lambda>quirk. synthetic_evidence (qr_source quirk) \<and> \<not> qr_withdrawn quirk) (sf_quirks fleet) \<and>
     list_all (\<lambda>fact_of. synthetic_evidence (cf_source fact_of) \<and> \<not> cf_withdrawn fact_of) (sf_compatibility fleet)"

lemmas fleet_builders = fleet_of_def device_with_def with_class_def make_gpu_def claim_def claims_of_def
  synthetic_source_def mixed_h200_def mixed_rtx5090_def mixed_mi300x_def mixed_gaudi3_def mixed_bluefield3_def mixed_cxl_expander_def
  mixed_arc_b580_def make_mixed_vendor_fleet_def drift_device_def claims_after_drift_def make_generation_drift_def reset_device_def
  claims_after_reset_def make_reset_scenario_def amd_device_def rocm_fact_def make_amd_fleet_def cxl_device_def
  cxl_legacy_device_def cxl_fact_def make_cxl_fabric_def dpu_device_def nic_device_def direct_path_fact_def
  make_dpu_fabric_def mig_device_def radeon_device_def make_partitioning_def quirk_device_def driver_defect_def
  performance_caveat_def make_quirk_scenario_def unsupported_device_def make_unsupported_scenario_def

lemma fleets_are_classified:
  assumes "profile \<noteq> ContradictionScenario" and "profile \<noteq> PrecisionMatrix"
  shows "classified_fleet (build_fleet profile)"
proof -
  have devices: "classified_fleet make_mixed_vendor_fleet" "classified_fleet make_generation_drift"
    "classified_fleet make_amd_fleet" "classified_fleet make_cxl_fabric" "classified_fleet make_dpu_fabric"
    "classified_fleet make_partitioning" "classified_fleet make_quirk_scenario"
    "classified_fleet make_unsupported_scenario" "classified_fleet make_reset_scenario"
    by (simp_all add: classified_fleet_def fleet_builders synthetic_evidence_def no_quirk_def no_fact_def
      list_all_iff)
  then show ?thesis using assms by (cases profile) simp_all
qed

section \<open>Runs\<close>

lemma register_fleet_synthetic:
  assumes "synthetic_so_far state"
    and "list_all (\<lambda>claimed. sy_source_class claimed = SourceClass.Unspecified) (concat (map sd_capabilities devices))"
  shows "synthetic_so_far (snd (register_fleet cx (logged si) dc devices subjects state))"
  using assms
proof (induction devices arbitrary: subjects state)
  case (Cons device devices)
  obtain outcome state1 where one: "register_subject cx (logged si) (registration_for device dc) state = (outcome, state1)"
    by (cases "register_subject cx (logged si) (registration_for device dc) state")
  then have "synthetic_so_far state1"
    using register_synthetic [OF Cons.prems(1), of PublicationKind.RegisterDevice cx si "registration_for device dc"]
    by (simp add: register_subject_def)
  note step = this
  show ?case
  proof (cases outcome)
    case (Inr subject)
    show ?thesis
      using Cons.IH [OF claims_synthetic [OF step]] Cons.prems(2) by (simp add: one Inr)
  qed (simp add: one step)
qed simp

lemma bump_synthetic: "synthetic_so_far (b, s) \<Longrightarrow> synthetic_so_far (bump_evidence_generation b, s)"
  by (simp add: synthetic_so_far_def bump_evidence_generation_def Let_def split: prod.splits)

lemma reincarnate_synthetic:
  assumes "synthetic_so_far state"
    and "list_all (\<lambda>claimed. sy_source_class claimed = SourceClass.Unspecified) (concat (map snd reincarnations))"
  shows "synthetic_so_far (snd (reincarnate cx (logged si) dc devices reincarnations subjects state))"
  using assms
proof (induction reincarnations arbitrary: subjects state)
  case (Cons reincarnation reincarnations)
  obtain b s where state: "state = (b, s)" by (cases state)
  obtain index claims where re: "reincarnation = (index, claims)" by (cases reincarnation)
  obtain outcome state1 where one: "announce_device_generation cx (logged si) (after_reset (devices ! index) dc)
      (bump_evidence_generation b, s) = (outcome, state1)"
    by (cases "announce_device_generation cx (logged si) (after_reset (devices ! index) dc)
      (bump_evidence_generation b, s)")
  then have "synthetic_so_far state1"
    using register_synthetic [OF bump_synthetic [OF Cons.prems(1) [unfolded state]], of PublicationKind.PublishDeviceGeneration
        cx si "(after_reset (devices ! index) dc)\<lparr>reg_device_boot_observed := True\<rparr>"]
    by (simp add: announce_device_generation_def)
  note step = this
  show ?case
  proof (cases "index \<ge> length devices")
    case True
    then show ?thesis using Cons.IH [OF Cons.prems(1)] Cons.prems(2) by (simp add: state re)
  next
    case False
    show ?thesis
    proof (cases outcome)
      case (Inr subject)
      show ?thesis
        using Cons.IH [OF claims_synthetic [OF step]] Cons.prems(2) False by (simp add: state re one Inr)
    qed (use False in \<open>simp add: state re one step\<close>)
  qed
qed simp

lemma knowledge_synthetic:
  assumes "synthetic_so_far state" and "classified_fleet fleet"
  shows "synthetic_so_far (publish_knowledge cx (logged si) fleet state)"
proof -
  have quirks: "synthetic_so_far (fold (\<lambda>quirk state. snd (builder_publish_quirk cx (logged si) quirk state)) quirks state)"
    if "synthetic_so_far state" "list_all (\<lambda>quirk. synthetic_evidence (qr_source quirk) \<and> \<not> qr_withdrawn quirk) quirks"
    for quirks state
    using that
  proof (induction quirks arbitrary: state)
    case (Cons quirk quirks)
    obtain b s log where state: "state = (b, s, log)" by (cases state) auto
    have "synthetic_publication (classify (bu_context b) (no_publication\<lparr>pb_kind := PublicationKind.PublishQuirk,
        pb_quirk := quirk\<lparr>qr_source := curated_source b (qr_source quirk)\<rparr>\<rparr>))"
      using Cons.prems(2) by (simp add: synthetic_publication_def classify_def Let_def default_source_def
          synthetic_evidence_def curated_source_def)
    from submit_synthetic [OF Cons.prems(1) [unfolded state] this] show ?case
      using Cons by (simp add: state builder_publish_quirk_def)
  qed simp
  have facts: "synthetic_so_far (fold (\<lambda>fact_of state. snd (builder_publish_compatibility cx (logged si)
      (resolve_fact devices fact_of) state)) facts state)"
    if "synthetic_so_far state" "list_all (\<lambda>fact_of. synthetic_evidence (cf_source fact_of) \<and> \<not> cf_withdrawn fact_of) facts"
    for facts state devices
    using that
  proof (induction facts arbitrary: state)
    case (Cons fact_of facts)
    obtain b s log where state: "state = (b, s, log)" by (cases state) auto
    let ?resolved = "resolve_fact devices fact_of"
    have same: "cf_source ?resolved = cf_source fact_of" "cf_withdrawn ?resolved = cf_withdrawn fact_of"
      by (simp_all add: resolve_fact_def)
    have "synthetic_publication (classify (bu_context b) (no_publication\<lparr>pb_kind := PublicationKind.PublishCompatibility,
        pb_compatibility := ?resolved\<lparr>cf_source := curated_source b (cf_source fact_of)\<rparr>\<rparr>))"
      using Cons.prems(2) by (simp add: synthetic_publication_def classify_def Let_def default_source_def
          synthetic_evidence_def curated_source_def)
    from submit_synthetic [OF Cons.prems(1) [unfolded state] this] show ?case
      using Cons by (simp add: state builder_publish_compatibility_def same)
  qed simp
  show ?thesis
    using assms(2) quirks [OF assms(1)] facts by (simp add: publish_knowledge_def classified_fleet_def)
qed

lemma discover_synthetic_classified:
  assumes "classified_fleet (build_fleet profile)" and "synthetic_so_far (new_builder cx dc, s, log)"
  shows "case discover_synthetic cx profile dc (logged si) report (s, log) of (status, report', s', log') \<Rightarrow> synthetic_log log'"
proof -
  let ?fleet = "build_fleet profile"
  obtain outcome state1 where one: "register_fleet cx (logged si) dc (sf_devices ?fleet) [] (new_builder cx dc, s, log) =
      (outcome, state1)"
    by (cases "register_fleet cx (logged si) dc (sf_devices ?fleet) [] (new_builder cx dc, s, log)")
  have ok1: "synthetic_so_far state1"
    using register_fleet_synthetic [OF assms(2), of "sf_devices ?fleet" cx si dc "[]"] assms(1)
    by (simp add: one classified_fleet_def claims_of_def)
  have end_ok: "synthetic_so_far (b, s, log) \<Longrightarrow> synthetic_log log" for b s log
    by (simp add: synthetic_so_far_def)
  show ?thesis
  proof (cases outcome)
    case (Inl code)
    then show ?thesis using ok1 end_ok by (auto simp: discover_synthetic_def Let_def one split: prod.splits)
  next
    case (Inr subjects)
    obtain outcome2 state2 where two: "reincarnate cx (logged si) dc (sf_devices ?fleet) (sf_reincarnations ?fleet)
        subjects state1 = (outcome2, state2)"
      by (cases "reincarnate cx (logged si) dc (sf_devices ?fleet) (sf_reincarnations ?fleet) subjects state1")
    have ok2: "synthetic_so_far state2"
      using reincarnate_synthetic [OF ok1, of "sf_reincarnations ?fleet" cx si dc "sf_devices ?fleet" subjects] assms(1)
      by (simp add: two classified_fleet_def claims_of_def)
    show ?thesis
      using ok2 end_ok knowledge_synthetic [OF ok2 assms(1), of cx si] Inr
      by (cases outcome2) (auto simp: discover_synthetic_def Let_def one two split: prod.splits)
  qed
qed

text \<open>
  C36: synthetic evidence never passes for real in nine of the eleven profiles. Whatever sink the backend publishes to and
  whatever the sink answers, every capability claim, quirk and compatibility fact it sends is classified as coming from
  the synthetic backend; nothing but devices is published besides.
\<close>

theorem synthetic_runs_are_classified:
  assumes "profile \<noteq> ContradictionScenario" and "profile \<noteq> PrecisionMatrix"
  shows "case run_discovery cx (synthetic_backend cx profile) dc (logged si) (s, []) of
     (status, report, s', log) \<Rightarrow> synthetic_log log"
proof -
  let ?name = "''synthetic.backend''"
  obtain registered s1 where one: "si_ensure_publisher si (dc_publisher dc) ?name s = (registered, s1)"
    by (cases "si_ensure_publisher si (dc_publisher dc) ?name s")
  then have ensured: "si_ensure_publisher (logged si) (dc_publisher dc) ?name (s, []) = (registered, s1, [])"
    by (simp add: logged_def)
  let ?dc = "dc\<lparr>dc_publisher := ar_assigned_publisher registered, dc_source_class := SourceClass.SyntheticBackend,
    dc_provenance := ProvenanceClass.Synthetic, dc_adapter := ?name\<rparr>"
  have "synthetic_so_far (new_builder cx ?dc, s1, [])"
    by (simp add: synthetic_so_far_def new_builder_def synthetic_log_def)
  from discover_synthetic_classified [OF fleets_are_classified [OF assms] this, of si
      "empty_report\<lparr>dp_adapter := ?name, dp_available := True\<rparr>"]
  show ?thesis
    using ensured
    by (auto simp: run_discovery_def synthetic_backend_def effective_context_def synthetic_log_def Let_def
        split: prod.splits)
qed

section \<open>Evidence that is not\<close>

text \<open>
  The claims of the other two profiles name real sources themselves, which a builder leaves as they are: what the
  precision matrix publishes for a device that does not exist is live evidence of a vendor interface, with a greater
  authority than that of any synthetic backend.
\<close>

lemma classified_claim_keeps_source:
  assumes "claimed \<in> set (sd_capabilities precision_device)"
  shows "cr_source (pb_capability (classify dc (capability_publication b subject (observation_of claimed)))) =
    cr_source (pb_capability (capability_publication b subject (observation_of claimed)))"
  using assms
  by (auto simp: precision_device_def device_with_def make_gpu_def claim_classified_def observation_of_def
      capability_publication_def classify_def Let_def default_source_def)

lemma synthetic_claim_passes_for_real:
  "\<exists>claimed\<in>set (sd_capabilities precision_device).
     let source = cr_source (pb_capability (classify dc (capability_publication b subject (observation_of claimed)))) in
     es_provenance source = ProvenanceClass.RealVendorApi \<and>
     source_authority (es_source_class source) > source_authority SourceClass.SyntheticBackend"
  by (rule bexI [of _ "claim_classified ''cap.compute.bf16'' SupportState.SupportedNative (V_Boolean True)
      PrecisionClass.DirectReported ''synthetic.nvml'' SourceClass.LiveVendorApi ProvenanceClass.RealVendorApi"])
    (simp_all add: precision_device_def device_with_def make_gpu_def claim_classified_def observation_of_def
      capability_publication_def classify_def Let_def default_source_def)

text \<open>One claim of the precision matrix carries a provenance its source class does not allow: every registry refuses it.\<close>

definition refused_claim :: SyntheticCapability where
  "refused_claim = claim_classified ''cap.compute.fp64'' SupportState.SupportedNative (V_Boolean True)
     PrecisionClass.Inferred ''derived.from-family'' SourceClass.StaticCuratedDatabase ProvenanceClass.Derived"

lemma precision_claim_is_refused:
  "refused_claim \<in> set (sd_capabilities precision_device) \<and>
   \<not> accepted (fst (apply_publication h now (stamp (bu_context b) n (classify (bu_context b)
       (capability_publication b subject (observation_of refused_claim)))) reg))"
proof
  show "refused_claim \<in> set (sd_capabilities precision_device)"
    by (simp add: refused_claim_def precision_device_def device_with_def make_gpu_def)
  let ?p = "stamp (bu_context b) n (classify (bu_context b)
       (capability_publication b subject (observation_of refused_claim)))"
  have kind: "pb_kind ?p = PublicationKind.PublishCapability"
    by (simp add: stamp_def classify_def Let_def capability_publication_def)
  have source: "es_source_class (cr_source (pb_capability ?p)) = SourceClass.StaticCuratedDatabase"
    "es_provenance (cr_source (pb_capability ?p)) = ProvenanceClass.Derived"
    by (simp_all add: stamp_def classify_def Let_def capability_publication_def observation_of_def refused_claim_def
        claim_classified_def default_source_def)
  have "\<exists>code. prepare reg ?p = Inl code \<and> \<not> apply_code_accepted code"
  proof (cases "prepare reg ?p")
    case (Inr q)
    then have "validate_capability_record (pb_capability q) (rg_limits reg) = Ok"
      "es_source_class (cr_source (pb_capability q)) = SourceClass.StaticCuratedDatabase"
      "es_provenance (cr_source (pb_capability q)) = ProvenanceClass.Derived"
      using kind source prepare_fields [OF Inr]
      by (auto simp: prepare_def bind_schema_def bind_value_def bind_publisher_def Let_def validate_publication_def
          split: option.splits if_splits sum.splits)
    then have False
      by (simp add: validate_capability_record_def Let_def provenance_allowed_for_def split: if_splits)
    then show ?thesis ..
  next
    case (Inl code)
    then have "code = RejectedUnknownSchema \<or> code = RejectedValidation"
      by (auto simp: prepare_def split: option.splits if_splits)
    then show ?thesis using Inl by (auto simp: apply_code_accepted_def)
  qed
  then show "\<not> accepted (fst (apply_publication h now ?p reg))"
    by (auto simp: apply_publication_def apply_locked_def accepted_def result_of_def apply_code_accepted_def)
qed

end
