(* ===== verification/Render.thy ===== *)
theory Render
  imports Snapshots Durable
begin

text \<open>
  The text renderings of \<^verbatim>\<open>src/render.cpp\<close>: one function per function of the file. The renderings that operators and
  tools read are lines of words; where every field but the last is a word without blanks the line can be read back.
\<close>

section \<open>Helpers\<close>

definition newline :: string where
  "newline = [CHR 0x0A]"

definition or_dash :: "string \<Rightarrow> string" where
  "or_dash text = (if text = [] then ''-'' else text)"

definition gen_or_dash :: "u64 \<Rightarrow> string" where
  "gen_or_dash g = (if gen_valid g then u64_to_string g else ''-'')"

section \<open>Answers\<close>

definition render_truth_class :: "TruthClass \<Rightarrow> string" where
  "render_truth_class truth = to_string_TruthClass truth"

definition render_applied_quirk :: "QuirkApplication \<Rightarrow> string" where
  "render_applied_quirk application =
     (if qap_result application \<noteq> QuirkApplicabilityResult.Applies then []
      else '', quirk '' @ qap_id application @ '' ('' @ to_string_QuirkSeverity (qap_severity application) @ '')'')"

definition render_capability_brief :: "ResolvedCapability \<Rightarrow> string" where
  "render_capability_brief answer =
     rc_capability answer @ '' = '' @ to_string_EffectiveSupport (rc_effective_support answer) @
     '' [declared '' @ to_string_SupportState (rc_declared_support answer) @
     '', truth '' @ to_string_TruthClass (rc_truth answer) @
     '', precision '' @ to_string_PrecisionClass (rc_precision answer) @
     '', generation '' @ gen_or_dash (rc_capability_generation answer) @
     (if is_stale (rc_staleness answer) then '', stale '' @ describe_staleness (rc_staleness answer) else []) @
     (if rc_contradiction answer \<noteq> ContradictionState.Consistent
      then '', contradiction '' @ to_string_ContradictionState (rc_contradiction answer) else []) @
     (if \<not> value_empty (rc_value answer) then '', value '' @ value_describe (rc_value answer) else []) @
     (if rc_conditions answer \<noteq> None
      then '', conditions '' @ describe_condition (rc_conditions answer) @ '' ('' @
        to_string_ConditionOutcome (cev_outcome (rc_condition_evaluation answer)) @ '')'' else []) @
     concat (map render_applied_quirk (rc_quirks answer)) @ '']''"

definition render_capability :: "ResolvedCapability \<Rightarrow> string" where
  "render_capability answer = rc_explanation answer"

section \<open>Subjects\<close>

definition render_subject_brief :: "SubjectSnapshot \<Rightarrow> string" where
  "render_subject_brief subject =
     (let hardware = di_hardware (su_identity subject); software = su_software subject in
      di_id (su_identity subject) @ '' | class='' @ to_string_HardwareClass (hw_class hardware) @
      '' | vendor='' @ or_dash (hw_vendor hardware) @ '' | model='' @ or_dash (hw_model hardware) @
      '' | generation='' @ u64_to_string (su_generation subject) @ '' | boot='' @ u64_to_string (su_boot subject) @
      '' | driver='' @ or_dash (dr_id (sw_driver software)) @ ''@'' @ or_dash (dr_version (sw_driver software)) @
      '' | firmware='' @ or_dash (fw_version (sw_firmware software)) @
      '' | classification='' @ to_string_TruthClass (su_classification subject))"

definition render_native :: "NativeIdentifier \<Rightarrow> string" where
  "render_native identifier = newline @ ''  native '' @ fst identifier @ ''='' @ snd identifier"

definition render_subject :: "SubjectSnapshot \<Rightarrow> string" where
  "render_subject subject =
     (let identity = su_identity subject; hardware = di_hardware identity; software = su_software subject in
      render_subject_brief subject @
      newline @ ''  display: '' @ (if di_display_name identity = [] then ''(none)'' else di_display_name identity) @
      newline @ ''  family='' @ or_dash (hw_family hardware) @ '' revision='' @ or_dash (hw_revision hardware) @
      '' architecture='' @ or_dash (hw_architecture hardware) @
      newline @ ''  incarnation='' @ di_incarnation identity @ '' platform='' @ or_dash (di_platform identity) @
      '' platform-generation='' @ u64_to_string (su_platform_generation subject) @
      newline @ ''  serial='' @ (case di_serial_number identity of Some serial \<Rightarrow> serial | None \<Rightarrow> ''(absent)'') @
      '' instance-locator='' @ (case di_instance_locator identity of Some locator \<Rightarrow> locator | None \<Rightarrow> ''(absent)'') @
      newline @ ''  runtime='' @ or_dash (rt_id (sw_runtime software)) @ ''@'' @
      or_dash (rt_version (sw_runtime software)) @
      newline @ ''  capabilities='' @ nat_to_string (su_capability_count subject) @
      '' current='' @ nat_to_string (su_current_count subject) @ '' stale='' @ nat_to_string (su_stale_count subject) @
      '' unknown='' @ nat_to_string (su_unknown_count subject) @
      '' unsupported='' @ nat_to_string (su_unsupported_count subject) @
      '' applicable-quirks='' @ nat_to_string (su_applicable_quirk_count subject) @
      concat (map render_native (hw_native_identifiers hardware)))"

section \<open>Knowledge\<close>

definition render_quirk :: "QuirkRecord \<Rightarrow> string" where
  "render_quirk quirk =
     (let applies = qr_applicability quirk; source = qr_source quirk in
      qr_id quirk @ '' generation='' @ u64_to_string (qr_generation quirk) @
      '' severity='' @ to_string_QuirkSeverity (qr_severity quirk) @
      '' category='' @ to_string_QuirkCategory (qr_category quirk) @
      '' mitigation='' @ to_string_MitigationKind (qr_mitigation quirk) @
      (if qr_withdrawn quirk then '' [withdrawn]'' else []) @
      newline @ ''  title: '' @ qr_title quirk @
      (if qr_description quirk \<noteq> [] then newline @ ''  description: '' @ qr_description quirk else []) @
      newline @ ''  impacts:'' @ concat (map (\<lambda>capability. '' '' @ capability) (qr_impacted_capabilities quirk)) @
      newline @ ''  applies-to: devices='' @ nat_to_string (length (qa_devices applies)) @
      '' families='' @ nat_to_string (length (qa_families applies)) @
      '' models='' @ nat_to_string (length (qa_models applies)) @
      '' revisions='' @ nat_to_string (length (qa_revisions applies) + length (qa_revision_ranges applies)) @
      '' driver-ranges='' @ nat_to_string (length (qa_driver_ranges applies)) @
      '' firmware-ranges='' @ nat_to_string (length (qa_firmware_ranges applies)) @
      '' runtime-ranges='' @ nat_to_string (length (qa_runtime_ranges applies)) @
      (if qa_platform_conditions applies \<noteq> None
       then '' platform-condition='' @ describe_condition (qa_platform_conditions applies) else []) @
      newline @ ''  provenance: '' @ to_string_ProvenanceClass (es_provenance source) @
      '' source='' @ to_string_SourceClass (es_source_class source) @ '' adapter='' @ es_adapter source @
      (if es_native_reference source \<noteq> [] then '' reference='' @ es_native_reference source else []))"

definition render_quirk_application :: "QuirkApplication \<Rightarrow> string" where
  "render_quirk_application application =
     qap_id application @ '' ['' @ to_string_QuirkApplicabilityResult (qap_result application) @
     '', severity '' @ to_string_QuirkSeverity (qap_severity application) @
     '', mitigation '' @ to_string_MitigationKind (qap_mitigation application) @
     ''] '' @ qap_title application @ '' :: '' @ qap_reason application"

definition render_reference :: "HardwareReference \<Rightarrow> string" where
  "render_reference reference =
     to_string_ReferenceKind (hr_kind reference) @ '':'' @ hr_token reference @
     (if version_valid (hr_version reference) then ''@'' @ sv_raw (hr_version reference) else [])"

definition render_compatibility :: "CompatibilityFact \<Rightarrow> string" where
  "render_compatibility fact_of =
     cf_id fact_of @ '' generation='' @ u64_to_string (cf_generation fact_of) @
     '' kind='' @ to_string_CompatibilitySubjectKind (cf_kind fact_of) @
     '' outcome='' @ to_string_CompatibilityOutcome (cf_outcome fact_of) @
     (if cf_withdrawn fact_of then '' [withdrawn]'' else []) @
     newline @ ''  '' @ render_reference (cf_lhs fact_of) @ '' <-> '' @ render_reference (cf_rhs fact_of) @
     (if cf_reason fact_of \<noteq> [] then newline @ ''  reason: '' @ cf_reason fact_of else []) @
     (if cf_conditions fact_of \<noteq> None
      then newline @ ''  conditions: '' @ describe_condition (cf_conditions fact_of) else []) @
     newline @ ''  provenance: '' @ to_string_ProvenanceClass (es_provenance (cf_source fact_of)) @
     '' source='' @ to_string_SourceClass (es_source_class (cf_source fact_of)) @
     '' adapter='' @ es_adapter (cf_source fact_of)"

section \<open>Publishers and state\<close>

definition render_publisher :: "PublisherRecord \<Rightarrow> string" where
  "render_publisher publisher =
     pub_id (pr_identity publisher) @ '' boot='' @ gen_or_dash (pub_boot (pr_identity publisher)) @
     '' epoch='' @ gen_or_dash (pub_epoch (pr_identity publisher)) @
     '' state='' @ to_string_PublisherState (pr_state publisher) @ '' adapter='' @ pr_adapter publisher @
     '' last-sequence='' @ u64_to_string (pr_last_sequence publisher) @
     '' evidence-generation='' @ gen_or_dash (pr_max_evidence_generation publisher) @
     '' accepted='' @ nat_to_string (pr_accepted publisher) @ '' rejected='' @ nat_to_string (pr_rejected publisher) @
     '' boots='' @ nat_to_string (pr_boot_history publisher) @
     (if pr_reason publisher \<noteq> [] then '' reason='' @ [CHR 0x22] @ pr_reason publisher @ [CHR 0x22] else [])"

definition render_snapshot_summary :: "RegistrySnapshot \<Rightarrow> string" where
  "render_snapshot_summary snap =
     ''snapshot generation='' @ gen_or_dash (sn_generation snap) @ '' epoch='' @ gen_or_dash (sn_epoch snap) @
     '' revision='' @ u64_to_string (sn_state_revision snap) @ '' created='' @ sn_created_at_utc snap @
     '' digest='' @ hex64 (sn_canonical_digest snap) @
     newline @ ''  subjects='' @ nat_to_string (length (sn_subjects snap)) @
     '' capabilities='' @ nat_to_string (length (sn_capabilities snap)) @
     '' quirks='' @ nat_to_string (length (sn_quirks snap)) @
     '' compatibility='' @ nat_to_string (length (sn_compatibility snap)) @
     '' publishers='' @ nat_to_string (length (sn_publishers snap)) @
     newline @ ''  statements: REAL='' @ nat_to_string (sn_real_statements snap) @
     '' SYNTHETIC='' @ nat_to_string (sn_synthetic_statements snap) @
     '' UNSUPPORTED='' @ nat_to_string (sn_unsupported_statements snap) @
     '' UNKNOWN='' @ nat_to_string (sn_unknown_statements snap) @
     '' stale-evidence='' @ nat_to_string (sn_stale_evidence_records snap)"

definition render_difference :: "CapabilityDifference \<Rightarrow> string" where
  "render_difference difference =
     newline @ ''  '' @ cd_capability difference @ '': '' @ to_string_CapabilityDifferenceKind (cd_kind difference) @
     (if cd_detail difference \<noteq> [] then '' ('' @ cd_detail difference @ '')'' else [])"

definition render_comparison :: "DeviceComparison \<Rightarrow> string" where
  "render_comparison comparison =
     ''compare '' @ dc_left comparison @ '' (generation '' @ u64_to_string (dc_left_generation comparison) @
     '', driver '' @ dc_left_software comparison @ '') vs '' @ dc_right comparison @
     '' (generation '' @ u64_to_string (dc_right_generation comparison) @
     '', driver '' @ dc_right_software comparison @ '')'' @
     concat (map render_difference (dc_differences comparison)) @
     newline @ ''  equivalent='' @ nat_to_string (length (dc_equivalent comparison)) @
     newline @ ''  '' @ dc_explanation comparison"

definition render_resource_usage :: "ResourceUsage \<Rightarrow> string" where
  "render_resource_usage usage =
     ''devices='' @ nat_to_string (ru_devices usage) @ '' platforms='' @ nat_to_string (ru_platforms usage) @
     '' capability-keys='' @ nat_to_string (ru_capability_keys usage) @
     '' evidence-records='' @ nat_to_string (ru_evidence_records usage) @
     '' quirks='' @ nat_to_string (ru_quirks usage) @
     '' compatibility='' @ nat_to_string (ru_compatibility_facts usage) @
     '' publishers='' @ nat_to_string (ru_publishers usage) @ '' schemas='' @ nat_to_string (ru_schemas usage) @
     '' accepted='' @ u64_to_string (ru_accepted_publications usage) @
     '' idempotent='' @ u64_to_string (ru_idempotent_publications usage) @
     '' rejected='' @ u64_to_string (ru_rejected_publications usage) @
     '' snapshots='' @ u64_to_string (ru_snapshots_taken usage)"

definition render_import_report :: "ImportReport \<Rightarrow> string" where
  "render_import_report report =
     (if ir_applied report then ''import applied'' else ''import not applied'') @
     '' subjects='' @ nat_to_string (ir_subjects report) @ '' schemas='' @ nat_to_string (ir_schemas report) @
     '' capability-records='' @ nat_to_string (ir_capability_records report) @
     '' revalidated='' @ nat_to_string (ir_revalidated_records report) @
     '' quirks='' @ nat_to_string (ir_quirks report) @
     '' compatibility='' @ nat_to_string (ir_compatibility_facts report) @
     '' publishers='' @ nat_to_string (ir_publishers report) @
     '' fenced-boots='' @ nat_to_string (ir_fenced_boots report) @
     (if ir_detail report \<noteq> [] then '' :: '' @ ir_detail report else [])"

section \<open>Reading a line back\<close>

text \<open>A word ends at the first character that does not belong to words.\<close>

lemma word_end:
  assumes "d \<notin> set a" and "d \<notin> set b"
  shows "a @ d # x = b @ d # y \<longleftrightarrow> a = b \<and> x = y"
  using assms
proof (induction a arbitrary: b)
  case Nil
  then show ?case by (cases b) auto
next
  case (Cons c a)
  then show ?case by (cases b) auto
qed

lemma prefix_end:
  assumes "list_all P a" and "list_all P b" and "x \<noteq> [] \<and> \<not> P (hd x)" and "y \<noteq> [] \<and> \<not> P (hd y)"
  shows "a @ x = b @ y \<longleftrightarrow> a = b \<and> x = y"
proof
  assume eq: "a @ x = b @ y"
  have "takeWhile P (a @ x) = a" "takeWhile P (b @ y) = b"
    using assms by (cases x; cases y; simp add: takeWhile_append2 list_all_iff)+
  with eq show "a = b \<and> x = y" by (metis append_eq_append_conv)
qed simp

lemma effective_blank: "CHR '' '' \<notin> set (to_string_EffectiveSupport e)" by (cases e) simp_all
lemma support_comma: "CHR '','' \<notin> set (to_string_SupportState s)" by (cases s) simp_all
lemma truth_comma: "CHR '','' \<notin> set (to_string_TruthClass t)" by (cases t) simp_all
lemma precision_comma: "CHR '','' \<notin> set (to_string_PrecisionClass p)" by (cases p) simp_all

lemmas word_ends = word_end [OF effective_blank effective_blank] word_end [OF support_comma support_comma]
  word_end [OF truth_comma truth_comma] word_end [OF precision_comma precision_comma]

lemma effective_name_inject: "to_string_EffectiveSupport e = to_string_EffectiveSupport e' \<longleftrightarrow> e = e'"
  by (cases e; cases e'; simp)

lemma truth_name_inject: "to_string_TruthClass t = to_string_TruthClass t' \<longleftrightarrow> t = t'"
  by (cases t; cases t'; simp)

lemma precision_name_inject: "to_string_PrecisionClass p = to_string_PrecisionClass p' \<longleftrightarrow> p = p'"
  by (cases p; cases p'; simp)

definition generation_char :: "char \<Rightarrow> bool" where
  "generation_char c \<longleftrightarrow> c \<noteq> CHR '','' \<and> c \<noteq> CHR '']''"

lemma gen_or_dash_chars: "list_all generation_char (gen_or_dash g)"
  using nat_to_string_digits [of "CHR '',''" "unat g"] nat_to_string_digits [of "CHR '']''" "unat g"]
  by (auto simp: gen_or_dash_def generation_char_def u64_to_string_def list_all_iff)

lemma gen_or_dash_inject: "gen_or_dash g = gen_or_dash g' \<longleftrightarrow> g = g'"
proof -
  have "u64_to_string h \<noteq> ''-''" for h :: u64
    using nat_to_string_digits [of "CHR ''-''" "unat h"] by (auto simp: u64_to_string_def)
  then show ?thesis by (auto simp: gen_or_dash_def gen_valid_def dest: sym)
qed

lemma wf_id_blank: "wf_id token \<Longrightarrow> CHR '' '' \<notin> set token"
  using canonical_token_chars [of token "CHR '' ''"]
  by (auto simp: wf_id_def token_alnum_def token_separator_def less_eq_char_def)

text \<open>What follows the generation in a brief line.\<close>

definition brief_tail :: "ResolvedCapability \<Rightarrow> string" where
  "brief_tail answer =
     (if is_stale (rc_staleness answer) then '', stale '' @ describe_staleness (rc_staleness answer) else []) @
     (if rc_contradiction answer \<noteq> ContradictionState.Consistent
      then '', contradiction '' @ to_string_ContradictionState (rc_contradiction answer) else []) @
     (if \<not> value_empty (rc_value answer) then '', value '' @ value_describe (rc_value answer) else []) @
     (if rc_conditions answer \<noteq> None
      then '', conditions '' @ describe_condition (rc_conditions answer) @ '' ('' @
        to_string_ConditionOutcome (cev_outcome (rc_condition_evaluation answer)) @ '')'' else []) @
     concat (map render_applied_quirk (rc_quirks answer)) @ '']''"

lemma brief_tail_end: "brief_tail answer \<noteq> [] \<and> \<not> generation_char (hd (brief_tail answer))"
proof -
  have "concat (map render_applied_quirk quirks) = [] \<or> hd (concat (map render_applied_quirk quirks)) = CHR '',''" for quirks
    by (induction quirks) (auto simp: render_applied_quirk_def)
  then show ?thesis
    by (auto simp: brief_tail_def generation_char_def hd_append)
qed

text \<open>
  C40: the brief line of an answer says what it says. Two answers about well-formed capabilities that are shown by the same
  line are about the same capability, with the same effective and declared support, truth class, precision and
  generation: an unusable answer never looks like a usable one, nor a synthetic one like a real one.
\<close>

theorem brief_line_is_faithful:
  assumes "wf_id (rc_capability a)" and "wf_id (rc_capability b)"
    and "render_capability_brief a = render_capability_brief b"
  shows "rc_capability a = rc_capability b \<and> rc_effective_support a = rc_effective_support b \<and>
     rc_declared_support a = rc_declared_support b \<and> rc_truth a = rc_truth b \<and> rc_precision a = rc_precision b \<and>
     rc_capability_generation a = rc_capability_generation b \<and> (usable a \<longleftrightarrow> usable b)"
proof -
  have tail: "render_capability_brief r =
     rc_capability r @ CHR '' '' # ''= '' @ to_string_EffectiveSupport (rc_effective_support r) @ CHR '' '' #
     ''[declared '' @ to_string_SupportState (rc_declared_support r) @ CHR '','' # '' truth '' @
     to_string_TruthClass (rc_truth r) @ CHR '','' # '' precision '' @ to_string_PrecisionClass (rc_precision r) @
     CHR '','' # '' generation '' @ gen_or_dash (rc_capability_generation r) @ brief_tail r" for r
    by (simp add: render_capability_brief_def brief_tail_def)
  show ?thesis
    using assms(3) unfolding tail
    by (simp add: word_end [OF assms(1,2) [THEN wf_id_blank]] word_ends effective_name_inject truth_name_inject
        precision_name_inject prefix_end [OF gen_or_dash_chars gen_or_dash_chars brief_tail_end brief_tail_end]
        gen_or_dash_inject usable_def)
qed

end
