(* ===== verification/Fleet_Samples.thy ===== *)
theory Fleet_Samples
  imports Synthetic_Runs Discovery_Samples Render
begin

text \<open>The theorems on synthetic runs and on rendered answers applied to concrete runs and answers.\<close>

text \<open>A sink that accepts everything.\<close>

definition open_sink :: "unit EvidenceSink" where
  "open_sink = \<lparr>
     si_ensure_publisher = (\<lambda>publisher adapter s. ((mutating Accepted)\<lparr>ar_assigned_publisher := publisher\<rparr>, s)),
     si_next_sequence = (\<lambda>publisher s. (1, s)), si_publish = (\<lambda>p s. (mutating Accepted, s))\<rparr>"

definition cxl_log :: "(Publication \<times> ApplyResult) list" where
  "cxl_log = snd (snd (snd (run_discovery probe_context (synthetic_backend probe_context CxlFabric)
     (probe_discovery sample_publisher) (logged open_sink) ((), []))))"

lemma synthetic_runs_are_classified_witness: "synthetic_log cxl_log"
  using synthetic_runs_are_classified [of CxlFabric probe_context "probe_discovery sample_publisher" open_sink "()"]
  by (simp add: cxl_log_def case_prod_beta)

text \<open>That run does publish: devices, claims and a fact.\<close>

lemma cxl_run_publishes:
  "map (pb_kind \<circ> fst) cxl_log =
     PublicationKind.RegisterDevice # replicate 3 PublicationKind.PublishCapability @
     PublicationKind.RegisterDevice # replicate 2 PublicationKind.PublishCapability @ [PublicationKind.PublishCompatibility]"
  by code_simp

definition shown_answer :: ResolvedCapability where
  "shown_answer = no_resolved\<lparr>rc_capability := ''cap.compute.fp64'', rc_capability_generation := 3\<rparr>"

lemma brief_line_is_faithful_witness:
  "rc_capability_generation shown_answer = rc_capability_generation (shown_answer\<lparr>rc_device := ''dev.other''\<rparr>)"
proof -
  have "wf_id (rc_capability shown_answer)" by code_simp
  moreover have "render_capability_brief shown_answer = render_capability_brief (shown_answer\<lparr>rc_device := ''dev.other''\<rparr>)"
    by (simp add: render_capability_brief_def)
  ultimately show ?thesis
    using brief_line_is_faithful [of shown_answer "shown_answer\<lparr>rc_device := ''dev.other''\<rparr>"] by simp
qed

end
