(* ===== verification/Spec2Isabelle.thy ===== *)
theory Spec2Isabelle
  imports Witnesses Device_Lifecycle Rejection Wire Summaries Restart_Samples Storage_Samples Coordinator_Witnesses Endpoint_Samples
    Fleet_Samples
begin

text \<open>
  A verification library for the Hardware Capability Registry, a C++20 registry of what hardware
  devices can do, for whom, and on what evidence. Adapters publish devices, capability evidence, quirks
  and compatibility facts under a publisher identity (id, boot, coordinator epoch); the registry keeps
  a bounded history and answers queries from the evidence that is current.

  \<^bold>\<open>Parts of the program and where they are modelled\<close> (paths under \<^verbatim>\<open>src/\<close>).

  \<^item> \<open>HCR_Prelude\<close>: the containers and helpers of the standard library that the code uses. \<^verbatim>\<open>std::map\<close> is
    an association list kept sorted (\<open>omap\<close>, locale \<open>ordered_map\<close>), \<^verbatim>\<open>std::set\<close> a sorted list (\<open>oset\<close>),
    \<^verbatim>\<open>std::sort\<close> is \<open>std_sort\<close> (locale \<open>strict_weak_order\<close> for comparators), \<^verbatim>\<open>std::to_string\<close> the decimal
    rendering, and enumerations with their names are the locale \<open>enum_names\<close>.
  \<^item> \<open>Tokens\<close>: \<^verbatim>\<open>ids.cpp\<close>, \<^verbatim>\<open>ids.hpp\<close> (canonical tokens, generations as 64-bit words), \<^verbatim>\<open>status.cpp\<close> (error
    codes), \<^verbatim>\<open>limits.hpp\<close>, \<^verbatim>\<open>canonical.cpp\<close> (hashing and hexadecimal rendering).
  \<^item> \<open>Software_Version\<close>, \<open>Support\<close>, \<open>Provenance\<close>, \<open>Condition\<close>, \<open>Value\<close>, \<open>Hardware\<close>, \<open>Capability\<close>, \<open>Quirk\<close>,
    \<open>Compatibility\<close>: the source files of the same names, each with its data types, string names,
    validation, normalization and evaluation.
  \<^item> \<open>Registry_State\<close>: \<^verbatim>\<open>publication.hpp\<close> and the state of \<^verbatim>\<open>CapabilityRegistry::Impl\<close> in \<^verbatim>\<open>registry.cpp\<close>;
    \<open>Resolution\<close>: staleness, ranking, contradiction, effective support and explanation of an answer;
    \<open>Ingestion\<close>, \<open>Evidence\<close>, \<open>Apply\<close>: retention, publisher registration and the handlers that
    \<^verbatim>\<open>apply_locked\<close> dispatches to; \<open>Registry\<close>: the public operations and queries, and the step relation of
    whole operations.
  \<^item> \<open>Answers\<close>, \<open>Snapshots\<close>: subjects, comparison of devices and snapshots (\<^verbatim>\<open>registry.cpp\<close>, \<^verbatim>\<open>snapshot.hpp\<close>,
    \<^verbatim>\<open>query.hpp\<close>) with the content digests of \<^verbatim>\<open>render.cpp\<close>; \<open>Durable\<close>: export and import of durable state,
    whose loops that leave the function with the first failure are \<open>fold_checked\<close>.
  \<^item> \<open>Binary\<close>: \<^verbatim>\<open>detail/binary.hpp\<close>, the bounded writer and the bounds-checked reader as state transformers;
    \<open>Codec_Values\<close>, \<open>Codec_Records\<close>, \<open>Codec_Answers\<close>, \<open>Codec_Queries\<close>: the encoders and decoders of \<^verbatim>\<open>codec.cpp\<close>;
    \<open>Persistence\<close>: the image of \<^verbatim>\<open>persistence.cpp\<close> and its file store, over a map of files;
    \<open>Framing\<close>, \<open>Protocol\<close>: checksum, frames, the incremental decoder and the messages of \<^verbatim>\<open>protocol.cpp\<close>.
  \<^item> \<open>Coordinator\<close>, \<open>Event_Loop\<close>: \<^verbatim>\<open>coordinator.cpp\<close>, sessions and the interpretation of a frame, one round of the
    event loop, the loop, start and ordered shutdown. A round is an argument (\<open>Round\<close>): what waiting and accepting
    returned and what each socket delivered; what a session is sent is appended to its output.
  \<^item> \<open>Discovery\<close>: \<^verbatim>\<open>discovery.cpp\<close>, the interface of evidence sinks (a record of their three operations), the local sink,
    the builder adapters publish with, the harness that runs a backend, and the derived device identities.
  \<^item> \<open>Remote\<close>, \<open>Client\<close>: \<^verbatim>\<open>publisher.cpp\<close> and \<^verbatim>\<open>client.cpp\<close> over a connection (\<open>Link\<close>). The other end (\<open>Peer\<close>) is an
    argument: what connecting and sending return, and the reads they make available. An operation that waits for
    a read that never comes has the value \<open>None\<close>.
  \<^item> \<open>Catalog\<close>: the built-in schemas of \<^verbatim>\<open>catalog.cpp\<close>, with which the program creates its registries.
    \<open>Adapters\<close>: \<^verbatim>\<open>adapter_common.cpp\<close>, the tokens, values and conditions adapters share; \<open>Synthetic_Fleets\<close>, \<open>Synthetic\<close>:
    \<^verbatim>\<open>adapter_synthetic.cpp\<close>, the fleets as data and the backend that publishes them. \<open>Render\<close>: the text of \<^verbatim>\<open>render.cpp\<close>.

  \<^bold>\<open>State and effects.\<close> The registry is a record with one field per member of \<^verbatim>\<open>Impl\<close>; operations take the
  state and return their result with the new state. A handler keeps whatever it wrote before an early
  return. Every public operation holds the registry mutex for its whole duration, so an execution is a
  sequence of operations (\<open>step\<close>, \<open>steps\<close>, \<open>reachable\<close>). These are the operations of one life of a registry: the import
  of a durable state begins a life and is no step of one, and a snapshot, which moves counters only, is a move of the
  coordinator. \<open>reachable\<close> speaks of registries that began empty; \<open>Restart\<close>, \<open>Restored\<close> and \<open>Restart_Fences\<close> of those that
  began with an import. The clock, \<^verbatim>\<open>std::hash\<close> and the list of built-in
  schemas are parameters. Of a \<^verbatim>\<open>Status\<close> only the code is kept, and the free-text \<^verbatim>\<open>detail\<close> of a result is
  not modelled; where such a text is sent to a client it is a function of the code (\<open>cx_text\<close>, \<open>cx_detail\<close>). Container sizes are natural numbers; generations, boots, epochs, sequences and serials
  are 64-bit words that wrap.

  \<^bold>\<open>What is shown.\<close>

  \<^item> \<open>Authority\<close>: publisher states only evolve forward (locale \<open>step_preorder\<close>), so a fenced boot never
    regains authority, a fenced publisher never registers again, and an accepted sequence never
    applies a second time. Publications of schemas are outside of this: the code takes them from anybody.
  \<^item> \<open>Resolution\<close>: exactly which evidence is current; usable answers rest on current evidence; the
    winner has the greatest authority; an answer is ambiguous exactly when sources nobody outranks disagree; quirks
    block, as long as there are no more of them than a query may return.
  \<^item> \<open>Retention\<close>, \<open>Invariants\<close>: eviction removes only superseded records; the store, its counter, the
    per-device index and all bounds are invariants of every execution (locale \<open>truth_invariant\<close>).
  \<^item> \<open>Generations\<close>: generations of keys, quirks and facts never regress (locale \<open>truth_preorder\<close>); evidence
    of a superseded device generation never counts again.
  \<^item> \<open>Visibility\<close>: accepted evidence is current at once and is what the next query answers.
  \<^item> \<open>Device_Lifecycle\<close>: software generations move exactly on change (locale \<open>software_axis\<close>);
    \<open>Rejection\<close>: what a refused publication leaves behind.
  \<^item> \<open>Condition\<close>, \<open>Value\<close>, \<open>Quirk\<close>, \<open>Hardware\<close>, \<open>Capability\<close>: validators agree with recursive references,
    three-valued evaluation is monotone, normalization is idempotent and canonical, identities are
    injective.
  \<^item> \<open>Binary\<close> to \<open>Protocol\<close>: every reader inverts its writer on values within the wire limits (the contracts are
    locales, interpreted for each record), stays inside its input, and refuses truncated input; \<open>Framing\<close>: the
    table-driven checksum is the bitwise one, a frame survives any fragmentation, an altered byte is found;
    \<open>Codec_Limits\<close>, \<open>Wire\<close>: the same end to end, and what does not survive the wire.
  \<^item> \<open>Summaries\<close>: comparison is symmetric, digests are content digests. \<open>Restart\<close>, \<open>Restored\<close>, \<open>Restart_Fences\<close>:
    an import is all or nothing, restores what was exported and no liveness, and keeps old boots out;
    \<open>Storage\<close>: images round-trip, damage is found, and the store refines a cell that holds one state;
    \<open>Restart_Samples\<close>: what a restart changes although it should not.
  \<^item> \<open>Coordination\<close>: serving is a sequence of registry operations and snapshots (\<open>moves\<close>), so contracts of operations
    hold of the coordinator (locale \<open>loop_preorder\<close>); \<open>Publisher_Names\<close>, \<open>Sessions\<close>: what holds of its sessions in
    every round; \<open>Deaths\<close>: closed connections and the shutdown take authority away; \<open>Replies\<close>: one answer per frame,
    of the documented type but for snapshot requests;
    \<open>Lifetimes\<close>: a coordinator restarted on its own files refuses the boots of its former life.
  \<^item> \<open>Builders\<close>: what a report counts, and the sequences of a sink for each of its publishers (locale \<open>sequence_source\<close>);
    \<open>Standing\<close>: a run on a local sink for a new publisher, or for one in good standing, is judged by what it publishes alone; \<open>Discovery_Runs\<close>: registered subjects, and two runs that are refused.
  \<^item> \<open>Endpoints\<close>, \<open>Handshake\<close>: the publisher and the client, connected to the model of the coordinator (\<open>coordinator_peer\<close>),
    do what the registry itself would have done; \<open>Misreadings\<close>: answers that both ends take for something else.
  \<^item> \<open>Catalog_Facts\<close>: the catalog is consistent; \<open>Synthetic_Facts\<close>: synthetic claims fit it; \<open>Synthetic_Runs\<close>: they are
    published as synthetic, but for two profiles; \<open>Adapters\<close>: derived identities are canonical; \<open>Render\<close>: the brief line
    of an answer can be read back.
  \<^item> \<open>Samples\<close>, \<open>Witnesses\<close>, \<open>Coordinator_Samples\<close>, \<open>Coordinator_Witnesses\<close>, \<open>Discovery_Samples\<close>, \<open>Endpoint_Samples\<close>,
    \<open>Fleet_Samples\<close>: a small registry and a small coordinator on which the conditional theorems are applied.

  \<^bold>\<open>Bounds and fuel.\<close> The only fuel is that of \<open>evict_global\<close>, which is the guard the code itself counts
  down. The explicit-stack loops over condition trees terminate by a measure on the pending nodes.
  Statements about counters that wrap carry the number of operations a 64-bit counter can absorb.

  \<^bold>\<open>Not modelled.\<close> The adapters to vendor libraries and to the operating system (\<^verbatim>\<open>adapter_nvml.cpp\<close>, \<^verbatim>\<open>adapter_cuda.cpp\<close>,
  \<^verbatim>\<open>adapter_cpu.cpp\<close>, \<^verbatim>\<open>adapter_pci.cpp\<close>, \<^verbatim>\<open>adapter_network.cpp\<close>, \<^verbatim>\<open>adapter_cxl.cpp\<close>) are calls of code outside the repository;
  what they publish goes through the modelled builder. The sockets of \<^verbatim>\<open>transport.cpp\<close> and the clock are arguments, and
  the command line parses arguments and prints renderings.
\<close>

section \<open>Invariants of every execution\<close>

text \<open>
  C12: the containers that have a limit stay within it. In every state that a new registry reaches by operations
  (imports apart), the numbers of devices, platforms, families, quirks, compatibility facts, publishers and retained
  records are at most their limits, no device has more capability keys than allowed, and there are no more schemas
  than built in or than sixteen for each family allowed. Not counted are models and architectures, which
  come with devices, and what is kept for each boot of a publisher, on which the code puts no bound.
\<close>

theorem reachable_registry_is_bounded:
  assumes "reachable h builtin limits reg"
  shows "length (rg_devices reg) \<le> max_devices (rg_limits reg) \<and>
         length (rg_platforms reg) \<le> max_devices (rg_limits reg) \<and>
         length (rg_families reg) \<le> max_families (rg_limits reg) \<and>
         length (rg_quirks reg) \<le> max_quirks (rg_limits reg) \<and>
         length (rg_compatibility reg) \<le> max_compatibility_facts (rg_limits reg) \<and>
         length (rg_publishers reg) \<le> max_publishers (rg_limits reg) \<and>
         total_records (rg_keys reg) \<le> max_evidence_history (rg_limits reg) \<and>
         length (owned_capabilities reg d) \<le> max_capabilities_per_device (rg_limits reg) \<and>
         length (rg_schemas reg) \<le> max (length builtin) (max_families (rg_limits reg) * 16)"
proof -
  have "publishers_ok reg"
    using assms unfolding reachable_def
    using steps_invariant [of h _ _ _ publishers_ok] new_publishers_ok step_publishers_ok by blast
  moreover have "bounds_ok reg" "evidence_ok reg" "index_ok reg"
    using assms bounds_invariant.inv_reachable evidence_invariant.inv_reachable index_invariant.inv_reachable
    by blast+
  moreover have "schemas_ok (length builtin) reg"
    using assms by (rule reachable_schemas_ok)
  ultimately show ?thesis
    by (simp add: bounds_ok_def publishers_ok_def evidence_ok_def index_ok_def schemas_ok_def)
qed

theorem reachable_registry_is_bounded_witness:
  "total_records (rg_keys sample_with_evidence) \<le> max_evidence_history (rg_limits sample_with_evidence)"
  using reachable_registry_is_bounded [OF sample_reachable, of "[]"] by blast

text \<open>
  C11: the evidence store is sound in every reachable state. The record counter is exact; every retained
  record passes validation under the registry's limits and is filed under its own device and
  capability; the per-device index lists exactly the keys that exist; and every key belongs to a
  registered device.
\<close>

theorem reachable_evidence_is_sound:
  assumes "reachable h builtin limits reg"
  shows "rg_evidence_count reg = total_records (rg_keys reg) \<and>
         (om_find (d, c) (rg_keys reg) \<noteq> None \<longleftrightarrow> c \<in> set (owned_capabilities reg d)) \<and>
         (\<forall>key. om_find (d, c) (rg_keys reg) = Some key \<longrightarrow>
            om_find d (rg_devices reg) \<noteq> None \<and>
            (\<forall>stored\<in>set (ks_records key).
               cr_device (st_record stored) = d \<and> cr_capability (st_record stored) = c \<and>
               validate_capability_record (st_record stored) (rg_limits reg) = Ok))"
proof -
  have ok: "evidence_ok reg" and ix: "index_ok reg"
    using assms evidence_invariant.inv_reachable index_invariant.inv_reachable by blast+
  have "om_find d (rg_devices reg) \<noteq> None" if "om_find (d, c) (rg_keys reg) = Some key" for key
    using ix that unfolding index_ok_def by (metis option.distinct(1))
  moreover have "key_ok (rg_limits reg) (d, c) key" if "om_find (d, c) (rg_keys reg) = Some key" for key
    using ok that by (rule evidence_okD)
  moreover have "om_find (d, c) (rg_keys reg) \<noteq> None \<longleftrightarrow> c \<in> set (owned_capabilities reg d)"
    using ix unfolding index_ok_def by blast
  ultimately show ?thesis
    using ok by (auto simp: evidence_ok_def key_ok_def record_ok_def key_of_def)
qed

theorem reachable_evidence_is_sound_witness:
  "rg_evidence_count sample_with_evidence = total_records (rg_keys sample_with_evidence) \<and>
   ''c'' \<in> set (owned_capabilities sample_with_evidence ''d'')"
  using reachable_evidence_is_sound [OF sample_reachable, of "''d''" "''c''"] by (simp add: sample_lookups)

text \<open>
  A source has at most one voice. In every reachable state, of two records of one key that come
  from the same publisher, boot and source class, the earlier one is not current evidence, whatever
  device state it is judged against.
\<close>

theorem one_current_record_per_source:
  assumes "reachable h builtin limits reg" and "om_find kid (rg_keys reg) = Some key"
    and "i < j" and "j < length (ks_records key)"
    and "slot_of (st_record (ks_records key ! i)) = slot_of (st_record (ks_records key ! j))"
  shows "\<not> current_evidence reg (ks_records key ! i) device"
proof -
  have ok: "key_ok (rg_limits reg) kid key"
    using evidence_okD [OF evidence_invariant.inv_reachable [OF assms(1)] assms(2)] .
  then have slot: "st_slot s = slot_of (st_record s)" if "s \<in> set (ks_records key)" for s
    using that by (simp add: key_ok_def record_ok_def)
  have "st_slot (ks_records key ! i) = st_slot (ks_records key ! j)"
    using assms(3-5) by (simp add: slot)
  moreover have "slots_ok (ks_records key)" using ok by (simp add: key_ok_def)
  ultimately have "st_persistent (ks_records key ! i) \<noteq> Stale_None"
    using sorted_wrt_nth_less [OF _ assms(3,4)] unfolding slots_ok_def by blast
  then show ?thesis by (simp add: current_evidence_def)
qed

definition sample_change :: Publication where
  "sample_change = (sample_publication PublicationKind.PublishCapability 3)
     \<lparr>pb_capability := sample_record\<lparr>cr_value := V_Boolean False\<rparr>\<rparr>"

definition sample_changed :: Registry where
  "sample_changed = snd (apply_publication no_hash [] sample_change sample_with_evidence)"

lemma sample_changed_reachable: "reachable no_hash [sample_schema] sample_limits sample_changed"
proof -
  have "steps no_hash sample_with_evidence
      [Op_Apply [] sample_change (fst (apply_publication no_hash [] sample_change sample_with_evidence))] sample_changed"
    by (rule steps_Cons [OF step_apply steps_Nil]) (simp add: sample_changed_def)
  with sample_reachable show ?thesis unfolding reachable_def using steps_append by blast
qed

theorem one_current_record_per_source_witness:
  "\<exists>key. om_find (''d'', ''c'') (rg_keys sample_changed) = Some key \<and> length (ks_records key) = 2 \<and>
     \<not> current_evidence sample_changed (ks_records key ! 0) sample_device"
proof -
  have "map_option (\<lambda>key. (length (ks_records key), slot_of (st_record (ks_records key ! 0)),
      slot_of (st_record (ks_records key ! 1)))) (om_find (''d'', ''c'') (rg_keys sample_changed)) =
    Some (2, ''p#1#runtime-probe'', ''p#1#runtime-probe'')"
    by code_simp
  then obtain key where key: "om_find (''d'', ''c'') (rg_keys sample_changed) = Some key"
    "length (ks_records key) = 2" "slot_of (st_record (ks_records key ! 0)) = slot_of (st_record (ks_records key ! 1))"
    by (auto simp: map_option_case split: option.splits)
  with one_current_record_per_source [OF sample_changed_reachable key(1), of 0 1] show ?thesis by auto
qed

end
